(* ===== verification/Prelude.thy ===== *)
theory Prelude
  imports Complex_Main "HOL-Library.AList"
begin

text \<open>
  Shared vocabulary of the development: results of code that may throw, folds of throwing
  callbacks (\<^verbatim>\<open>Array.prototype.reduce\<close>), JavaScript objects used as dictionaries
  (\<^verbatim>\<open>Record<string, T>\<close> and \<^verbatim>\<open>Map<string, T>\<close>), \<^verbatim>\<open>new Set(...)\<close>, and the
  two interfaces the components share: a keyed table and an event machine.
\<close>

named_theorems result_simps "equations of results and throwing folds"
named_theorems table_simps "lookup after update of keyed tables"

section \<open>Code that may throw\<close>

text \<open>
  A function that returns an \<open>'a\<close> or throws is a function into \<open>'e + 'a\<close>: \<open>Inl\<close> carries
  what is thrown, \<open>Inr\<close> the value returned.
\<close>

type_synonym ('e, 'a) result = "'e + 'a"

definition bindE :: "('e, 'a) result \<Rightarrow> ('a \<Rightarrow> ('e, 'b) result) \<Rightarrow> ('e, 'b) result" where
  "bindE r k = (case r of Inl e \<Rightarrow> Inl e | Inr x \<Rightarrow> k x)"

definition guardE :: "bool \<Rightarrow> 'e \<Rightarrow> ('e, unit) result" where
  "guardE b e = (if b then Inr () else Inl e)"

definition isOk :: "('e, 'a) result \<Rightarrow> bool" where
  "isOk r = (case r of Inl _ \<Rightarrow> False | Inr _ \<Rightarrow> True)"

lemma bindE_Inl [simp, result_simps]: "bindE (Inl e) k = Inl e"
  by (simp add: bindE_def)

lemma bindE_Inr [simp, result_simps]: "bindE (Inr x) k = k x"
  by (simp add: bindE_def)

lemma bindE_eq_Inr [result_simps]: "bindE r k = Inr y \<longleftrightarrow> (\<exists>x. r = Inr x \<and> k x = Inr y)"
  by (cases r) auto

lemma bindE_eq_Inl: "bindE r k = Inl e \<longleftrightarrow> r = Inl e \<or> (\<exists>x. r = Inr x \<and> k x = Inl e)"
  by (cases r) auto

lemma guardE_eq_Inr [result_simps]: "guardE b e = Inr u \<longleftrightarrow> b"
  by (simp add: guardE_def)

lemma guardE_True [simp]: "guardE True e = Inr ()"
  by (simp add: guardE_def)

lemma guardE_False [simp]: "guardE False e = Inl e"
  by (simp add: guardE_def)

lemma isOk_simps [simp]: "isOk (Inl e) = False" "isOk (Inr x) = True"
  by (simp_all add: isOk_def)

lemma isOk_iff: "isOk r \<longleftrightarrow> (\<exists>x. r = Inr x)"
  by (cases r) auto

text \<open>\<open>foldE\<close> is \<^verbatim>\<open>xs.reduce(f, s)\<close> where the callback may throw: the first throw ends it.\<close>

fun foldE :: "('s \<Rightarrow> 'x \<Rightarrow> ('e, 's) result) \<Rightarrow> 's \<Rightarrow> 'x list \<Rightarrow> ('e, 's) result" where
  "foldE f s [] = Inr s"
| "foldE f s (x # xs) = bindE (f s x) (\<lambda>s'. foldE f s' xs)"

text \<open>\<open>mapE\<close> is \<^verbatim>\<open>xs.map(f)\<close> where the callback may throw.\<close>

fun mapE :: "('x \<Rightarrow> ('e, 'y) result) \<Rightarrow> 'x list \<Rightarrow> ('e, 'y list) result" where
  "mapE f [] = Inr []"
| "mapE f (x # xs) = bindE (f x) (\<lambda>y. bindE (mapE f xs) (\<lambda>ys. Inr (y # ys)))"

lemma mapE_length: "mapE f xs = Inr ys \<Longrightarrow> length ys = length xs"
  by (induction xs arbitrary: ys) (auto simp: bindE_eq_Inr)

lemma mapE_all: "(\<And>x. x \<in> set xs \<Longrightarrow> f x = Inr (g x)) \<Longrightarrow> mapE f xs = Inr (map g xs)"
  by (induction xs) auto

lemma list_all2_member: "list_all2 P xs ys \<Longrightarrow> x \<in> set xs \<Longrightarrow> \<exists>y \<in> set ys. P x y"
  by (induction rule: list_all2_induct) auto

lemma list_all2_flip: "list_all2 R xs ys \<Longrightarrow> list_all2 (\<lambda>y x. R x y) ys xs"
  by (induction rule: list_all2_induct) auto

lemma mapE_eq_Inr_list_all2: "mapE f xs = Inr ys \<longleftrightarrow> list_all2 (\<lambda>x y. f x = Inr y) xs ys"
  by (induction xs arbitrary: ys) (auto simp: bindE_eq_Inr list_all2_Cons1)

section \<open>Event machines\<close>

text \<open>
  The interface of everything that is driven by a list of events: a throwing step function.
  Its clients (replay, the session writer, the draft preview) use only the lemmas below.
\<close>

locale event_machine =
  fixes step :: "'s \<Rightarrow> 'x \<Rightarrow> ('e, 's) result"
begin

lemma run_append: "foldE step s (xs @ ys) = bindE (foldE step s xs) (\<lambda>s'. foldE step s' ys)"
  by (induction xs arbitrary: s) (auto simp: bindE_def split: sum.splits)

lemma run_snoc: "foldE step s (xs @ [x]) = bindE (foldE step s xs) (\<lambda>s'. step s' x)"
  by (simp add: run_append bindE_def split: sum.splits)

lemma run_split:
  assumes "foldE step s (xs @ ys) = Inr t"
  obtains u where "foldE step s xs = Inr u" "foldE step u ys = Inr t"
  using assms by (auto simp: run_append bindE_eq_Inr)

lemma run_invariant:
  assumes step: "\<And>s x t. I s \<Longrightarrow> step s x = Inr t \<Longrightarrow> I t"
  shows "I s \<Longrightarrow> foldE step s xs = Inr t \<Longrightarrow> I t"
proof (induction xs arbitrary: s)
  case Nil
  then show ?case by simp
next
  case (Cons x xs)
  then obtain u where "step s x = Inr u" "foldE step u xs = Inr t"
    by (auto simp: bindE_eq_Inr)
  with Cons.prems(1) Cons.IH step show ?case by blast
qed

lemma run_relation:
  assumes refl: "\<And>s. R s s"
    and trans: "\<And>s t u. R s t \<Longrightarrow> R t u \<Longrightarrow> R s u"
    and step: "\<And>s x t. step s x = Inr t \<Longrightarrow> R s t"
  shows "foldE step s xs = Inr t \<Longrightarrow> R s t"
proof (induction xs arbitrary: s)
  case Nil
  then show ?case by (simp add: refl)
next
  case (Cons x xs)
  then obtain u where "step s x = Inr u" "foldE step u xs = Inr t"
    by (auto simp: bindE_eq_Inr)
  then show ?case using Cons.IH step trans by blast
qed

end

section \<open>Dictionaries\<close>

text \<open>
  A \<^verbatim>\<open>Record<string, T>\<close> or \<^verbatim>\<open>Map\<close> is an association list in insertion order, the order
  in which \<^verbatim>\<open>Object.values\<close> and \<^verbatim>\<open>Map.values\<close> enumerate it: writing an existing key
  keeps its position, writing a new key appends.
\<close>

type_synonym 'v dict = "(string \<times> 'v) list"

definition dget :: "('k \<times> 'v) list \<Rightarrow> 'k \<Rightarrow> 'v option" where
  "dget m k = map_of m k"

definition dput :: "'k \<Rightarrow> 'v \<Rightarrow> ('k \<times> 'v) list \<Rightarrow> ('k \<times> 'v) list" where
  "dput k v m = AList.update k v m"

definition ddel :: "'k \<Rightarrow> ('k \<times> 'v) list \<Rightarrow> ('k \<times> 'v) list" where
  "ddel k m = filter (\<lambda>(j, _). j \<noteq> k) m"

definition dvals :: "('k \<times> 'v) list \<Rightarrow> 'v list" where
  "dvals m = map snd m"

definition dkeys :: "('k \<times> 'v) list \<Rightarrow> 'k list" where
  "dkeys m = map fst m"

definition dict_wf :: "('k \<times> 'v) list \<Rightarrow> bool" where
  "dict_wf m = distinct (dkeys m)"

lemma dget_Nil [simp, table_simps]: "dget [] k = None"
  by (simp add: dget_def)

lemma dget_Cons [table_simps]: "dget ((j, v) # m) k = (if k = j then Some v else dget m k)"
  by (simp add: dget_def)

lemma dget_dput [table_simps]: "dget (dput k v m) j = (if j = k then Some v else dget m j)"
  by (simp add: dget_def dput_def update_conv')

lemma dget_ddel [table_simps]: "dget (ddel k m) j = (if j = k then None else dget m j)"
  by (induction m) (auto simp: dget_def ddel_def)

lemma dict_wf_Nil [simp]: "dict_wf []"
  by (simp add: dict_wf_def dkeys_def)

lemma dict_wf_dput [intro]: "dict_wf m \<Longrightarrow> dict_wf (dput k v m)"
  by (simp add: dict_wf_def dkeys_def dput_def distinct_update)

lemma dict_wf_ddel [intro]: "dict_wf m \<Longrightarrow> dict_wf (ddel k m)"
  by (simp add: dict_wf_def dkeys_def ddel_def distinct_map_filter case_prod_unfold)

lemma dvals_iff: "dict_wf m \<Longrightarrow> v \<in> set (dvals m) \<longleftrightarrow> (\<exists>k. dget m k = Some v)"
  by (force simp: dict_wf_def dkeys_def dvals_def dget_def)

lemma dget_in_dvals: "dget m k = Some v \<Longrightarrow> v \<in> set (dvals m)"
  by (force simp: dvals_def dget_def dest: map_of_SomeD)

lemma dkeys_dput: "set (dkeys (dput k v m)) = insert k (set (dkeys m))"
  by (simp add: dkeys_def dput_def dom_update)

lemma dget_None_iff: "dget m k = None \<longleftrightarrow> k \<notin> set (dkeys m)"
  by (simp add: dget_def dkeys_def map_of_eq_None_iff image_image)

text \<open>The interface the clients of a keyed table rely on.\<close>

locale keyed_table =
  fixes look :: "'m \<Rightarrow> 'k \<Rightarrow> 'v option"
    and store :: "'k \<Rightarrow> 'v \<Rightarrow> 'm \<Rightarrow> 'm"
  assumes look_store: "look (store k v m) j = (if j = k then Some v else look m j)"
begin

lemma look_store_same [simp]: "look (store k v m) k = Some v"
  by (simp add: look_store)

lemma look_store_other: "j \<noteq> k \<Longrightarrow> look (store k v m) j = look m j"
  by (simp add: look_store)

lemma all_store:
  "\<forall>j w. look m j = Some w \<longrightarrow> P j w \<Longrightarrow> P k v \<Longrightarrow> \<forall>j w. look (store k v m) j = Some w \<longrightarrow> P j w"
  by (simp add: look_store)

lemma store_relation:
  assumes "\<And>w. look m k = Some w \<Longrightarrow> R w v" and "\<And>w. R w w"
    and "look m j = Some w" and "look (store k v m) j = Some w'"
  shows "R w w'"
  using assms by (auto simp: look_store split: if_splits)

end

interpretation dict: keyed_table dget "dput :: 'k \<Rightarrow> 'v \<Rightarrow> ('k \<times> 'v) list \<Rightarrow> _"
  by unfold_locales (simp add: dget_dput)

section \<open>Sets built from arrays\<close>

text \<open>
  \<^verbatim>\<open>Array.from(new Set(xs))\<close> keeps the first occurrence of every element;
  \<^verbatim>\<open>new Set(xs).size === xs.length\<close> says that no element repeats.
\<close>

definition uniq :: "'a list \<Rightarrow> 'a list" where
  "uniq xs = rev (remdups (rev xs))"

lemma set_uniq [simp]: "set (uniq xs) = set xs"
  by (simp add: uniq_def)

lemma distinct_uniq [simp]: "distinct (uniq xs)"
  by (simp add: uniq_def)

lemma uniq_distinct_append: "distinct xs \<Longrightarrow> set ys \<subseteq> set xs \<Longrightarrow> uniq (xs @ ys) = xs"
proof (induction ys rule: rev_induct)
  case Nil
  then show ?case by (simp add: uniq_def distinct_remdups_id)
next
  case (snoc y ys)
  then have "remdups (rev (xs @ ys @ [y])) = remdups (rev (xs @ ys))"
    by auto
  with snoc show ?case by (simp add: uniq_def)
qed

definition allDistinct :: "'a list \<Rightarrow> bool" where
  "allDistinct xs = (length (remdups xs) = length xs)"

lemma allDistinct_iff [simp]: "allDistinct xs \<longleftrightarrow> distinct xs"
proof
  assume "allDistinct xs"
  then show "distinct xs" by (simp add: allDistinct_def length_remdups_card_conv card_distinct)
next
  assume "distinct xs"
  then show "allDistinct xs" by (simp add: allDistinct_def distinct_remdups_id)
qed

end
