(* ===== verification/JsNumber.thy ===== *)
theory JsNumber
  imports Prelude
begin

text \<open>
  JavaScript numbers and strings as the schemas and the engines use them. A finite number is
  the rational it denotes; arithmetic that can round is an exact rational operation followed
  by \<open>fl\<close>, the IEEE-754 binary64 rounding to nearest, ties to even, which is \<open>None\<close> when
  the result overflows to an infinity. Integers checked by \<^verbatim>\<open>Number.isSafeInteger\<close> are
  \<open>nat\<close> or \<open>int\<close> with the bound stated. Strings are lists of code units below 256.
\<close>

section \<open>Numbers\<close>

definition MAX_SAFE_INTEGER :: int where
  "MAX_SAFE_INTEGER = 9007199254740991"

definition isSafeNat :: "nat \<Rightarrow> bool" where
  "isSafeNat n = (int n \<le> MAX_SAFE_INTEGER)"

definition isSafeInteger :: "int \<Rightarrow> bool" where
  "isSafeInteger n = (\<bar>n\<bar> \<le> MAX_SAFE_INTEGER)"

definition PositiveSafeInteger :: "nat \<Rightarrow> bool" where
  "PositiveSafeInteger n = (isSafeNat n \<and> n > 0)"

definition round_half_even :: "rat \<Rightarrow> int" where
  "round_half_even x =
     (let f = \<lfloor>x\<rfloor>; d = x - of_int f in
      if d < 1/2 then f else if 1/2 < d then f + 1 else if even f then f else f + 1)"

function ilog :: "int \<Rightarrow> nat" where
  "ilog n = (if n < 2 then 0 else Suc (ilog (n div 2)))"
  by pat_completeness auto
termination
  by (relation "measure nat") auto

declare ilog.simps [simp del]

definition pow2 :: "int \<Rightarrow> rat" where
  "pow2 k = (if 0 \<le> k then of_int (2 ^ nat k) else 1 / of_int (2 ^ nat (- k)))"

definition ilog2 :: "rat \<Rightarrow> int" where
  "ilog2 a =
     (let (p, q) = quotient_of a; k = int (ilog p) - int (ilog q) in
      if pow2 k \<le> a then k else k - 1)"

definition fl :: "rat \<Rightarrow> rat option" where
  "fl x =
     (if x = 0 then Some 0
      else let a = \<bar>x\<bar>;
               e = max (ilog2 a - 52) (-1074);
               r = sgn x * of_int (round_half_even (a / pow2 e)) * pow2 e
           in if 1024 \<le> ilog2 \<bar>r\<bar> \<and> r \<noteq> 0 then None else Some r)"

text \<open>\<^verbatim>\<open>a + b\<close>, \<^verbatim>\<open>a * b\<close> and \<^verbatim>\<open>a / b\<close> on finite numbers (division by zero is not finite).\<close>

definition js_add :: "rat \<Rightarrow> rat \<Rightarrow> rat option" where
  "js_add a b = fl (a + b)"

definition js_mul :: "rat \<Rightarrow> rat \<Rightarrow> rat option" where
  "js_mul a b = fl (a * b)"

definition js_div :: "rat \<Rightarrow> rat \<Rightarrow> rat option" where
  "js_div a b = (if b = 0 then None else fl (a / b))"

lemma fl_zero [simp]: "fl 0 = Some 0"
  by (simp add: fl_def)

lemma round_half_even_of_int [simp]: "round_half_even (of_int n) = n"
  by (simp add: round_half_even_def)

lemma round_half_even_bounds:
  "of_int (round_half_even x) - x \<le> 1/2 \<and> x - of_int (round_half_even x) \<le> 1/2"
  by (simp add: round_half_even_def Let_def) linarith

section \<open>Strings\<close>

definition char_in :: "nat \<Rightarrow> nat \<Rightarrow> char \<Rightarrow> bool" where
  "char_in lo hi c = (lo \<le> of_char c \<and> of_char c \<le> hi)"

definition js_digit :: "char \<Rightarrow> bool" where
  "js_digit = char_in 48 57"

definition js_lower :: "char \<Rightarrow> bool" where
  "js_lower = char_in 97 122"

definition js_upper :: "char \<Rightarrow> bool" where
  "js_upper = char_in 65 90"

definition js_alnum :: "char \<Rightarrow> bool" where
  "js_alnum c = (js_digit c \<or> js_lower c \<or> js_upper c)"

definition js_space :: "char \<Rightarrow> bool" where
  "js_space c = ((of_char c :: nat) \<in> {9, 10, 11, 12, 13, 32, 160})"

definition js_trim :: "string \<Rightarrow> string" where
  "js_trim s = rev (dropWhile js_space (rev (dropWhile js_space s)))"

definition startsWith :: "string \<Rightarrow> string \<Rightarrow> bool" where
  "startsWith p s = (take (length p) s = p)"

definition str_between :: "nat \<Rightarrow> nat \<Rightarrow> string \<Rightarrow> bool" where
  "str_between lo hi s = (lo \<le> length s \<and> length s \<le> hi)"

definition nonempty :: "string \<Rightarrow> bool" where
  "nonempty s = (s \<noteq> [])"

definition isSha256Hex :: "string \<Rightarrow> bool" where
  "isSha256Hex s = (length s = 64 \<and> list_all (\<lambda>c. js_digit c \<or> char_in 97 102 c) s)"

text \<open>\<^verbatim>\<open>/^[A-Za-z0-9._-]+$/u\<close> and the variant whose first character is alphanumeric.\<close>

definition tagChars :: "string \<Rightarrow> bool" where
  "tagChars s = list_all (\<lambda>c. js_alnum c \<or> c \<in> set ''._-'') s"

definition isIdentityTag :: "string \<Rightarrow> bool" where
  "isIdentityTag s = (s \<noteq> [] \<and> js_alnum (hd s) \<and> tagChars s)"

fun opt_all :: "('a \<Rightarrow> bool) \<Rightarrow> 'a option \<Rightarrow> bool" where
  "opt_all P None = True"
| "opt_all P (Some x) = P x"

lemma js_trim_Nil [simp]: "js_trim [] = []"
  by (simp add: js_trim_def)

end
