(* ===== verification/Domain.thy ===== *)
theory Domain
  imports JsNumber
begin

text \<open>
  The shared contracts of \<^verbatim>\<open>packages/domain/src\<close> that the event log carries: identifiers,
  revisions, generation bases, pedagogy, delivery atoms, evidence, session configuration,
  vision observations and quant trading values. A zod object is a \<open>record\<close>, an enum a
  \<open>datatype\<close>, and the checks of the schema are a predicate of the schema's name.
  Object shapes (\<^verbatim>\<open>.strict()\<close>) and field types hold by typing.
\<close>

section \<open>Identifiers and revisions\<close>

type_synonym SessionId = string
type_synonym EventId = string
type_synonym RequestId = string
type_synonym UtteranceId = string
type_synonym InputEpisodeId = string
type_synonym TurnId = string
type_synonym GenerationId = string
type_synonym DeliveryId = string
type_synonym DisclosureId = string

type_synonym Revision = nat

definition idSchema :: "string \<Rightarrow> bool" where
  "idSchema s = (s \<noteq> [])"

definition revisionSchema :: "Revision \<Rightarrow> bool" where
  "revisionSchema n = isSafeNat n"

section \<open>Generation basis\<close>

record GenerationBasis =
  gbContextEpoch :: Revision
  gbCommittedInputSequence :: nat
  gbTranscriptRevision :: Revision
  gbBoardRevision :: Revision
  gbProblemStateRevision :: Revision
  gbPolicyRevision :: Revision
  gbInputEpisodeId :: "InputEpisodeId option"
  gbTurnId :: TurnId

definition GenerationBasisSchema :: "GenerationBasis \<Rightarrow> bool" where
  "GenerationBasisSchema b =
     (revisionSchema (gbContextEpoch b) \<and> PositiveSafeInteger (gbCommittedInputSequence b)
      \<and> revisionSchema (gbTranscriptRevision b) \<and> revisionSchema (gbBoardRevision b)
      \<and> revisionSchema (gbProblemStateRevision b) \<and> revisionSchema (gbPolicyRevision b)
      \<and> opt_all idSchema (gbInputEpisodeId b) \<and> idSchema (gbTurnId b))"

datatype Compatibility = COMPATIBLE | INCOMPATIBLE | UNKNOWN

definition generationBasesEqual :: "GenerationBasis \<Rightarrow> GenerationBasis \<Rightarrow> bool" where
  "generationBasesEqual l r =
     (gbContextEpoch l = gbContextEpoch r
      \<and> gbCommittedInputSequence l = gbCommittedInputSequence r
      \<and> gbTranscriptRevision l = gbTranscriptRevision r
      \<and> gbBoardRevision l = gbBoardRevision r
      \<and> gbProblemStateRevision l = gbProblemStateRevision r
      \<and> gbPolicyRevision l = gbPolicyRevision r
      \<and> gbInputEpisodeId l = gbInputEpisodeId r
      \<and> gbTurnId l = gbTurnId r)"

lemma generationBasesEqual_iff [simp]: "generationBasesEqual l r \<longleftrightarrow> l = r"
  by (cases l; cases r) (auto simp: generationBasesEqual_def)

section \<open>Pedagogy and disclosure\<close>

datatype SocraticAction =
    WAIT | CLARIFY | PROBE_JUSTIFICATION | CHECK_LOCAL_STEP | ASK_FOR_EXAMPLE
  | ASK_FOR_COUNTEREXAMPLE | SIMPLIFY_CASE | CHANGE_REPRESENTATION | FOCUS_ATTENTION
  | RECALL_RELEVANT_FACT | CHALLENGE_ASSUMPTION | DIRECTIONAL_NUDGE | EXPLICIT_HINT
  | VERIFY | GENERALIZE | ASK_ALTERNATE_SOLUTION

type_synonym DisclosureLevel = nat

definition DisclosureLevelSchema :: "DisclosureLevel \<Rightarrow> bool" where
  "DisclosureLevelSchema n = (n \<in> {0, 1, 2, 3, 4, 5})"

record RealizationRequest =
  rrRequiredAction :: SocraticAction
  rrTarget :: "string option"
  rrMaximumDisclosure :: DisclosureLevel
  rrAllowedDisclosureIds :: "DisclosureId list option"

definition RealizationRequestSchema :: "RealizationRequest \<Rightarrow> bool" where
  "RealizationRequestSchema r =
     (opt_all (\<lambda>t. str_between 1 1024 t \<and> 0 < length (js_trim t)) (rrTarget r)
      \<and> DisclosureLevelSchema (rrMaximumDisclosure r)
      \<and> opt_all (\<lambda>ids. list_all idSchema ids \<and> length ids \<le> 256 \<and> allDistinct ids)
          (rrAllowedDisclosureIds r))"

datatype DisclosureStatus = Disclosure_SAFE | Disclosure_UNSAFE | Disclosure_UNKNOWN

record DisclosureAnalysis =
  daStatus :: DisclosureStatus
  daEffectiveDisclosureLevel :: DisclosureLevel
  daEffectiveDisclosureIds :: "DisclosureId list"
  daConfidence :: rat
  daReason :: string

definition unitInterval :: "rat \<Rightarrow> bool" where
  "unitInterval x = (0 \<le> x \<and> x \<le> 1)"

definition DisclosureAnalysisSchema :: "DisclosureAnalysis \<Rightarrow> bool" where
  "DisclosureAnalysisSchema a =
     (DisclosureLevelSchema (daEffectiveDisclosureLevel a)
      \<and> list_all idSchema (daEffectiveDisclosureIds a)
      \<and> unitInterval (daConfidence a) \<and> nonempty (daReason a))"

section \<open>Evidence\<close>

datatype EvidenceDimension = PROGRESS | CORRECTNESS | UNDERSTANDING | JUSTIFICATION | STUDENT_CONFIDENCE

datatype EvidenceSubject = CLAIM string | MILESTONE string | SKILL string | APPROACH string

record EvidenceKey =
  ekProblemId :: string
  ekSubject :: EvidenceSubject
  ekDimension :: EvidenceDimension

datatype EvidenceRating =
    PROGRESSING | STALLED | REGRESSING | COMPLETE | RATING_UNKNOWN
  | CORRECT | LOCAL_ERROR | STRUCTURAL_ERROR
  | UNDERSTANDS | PARTIAL | MISUNDERSTOOD_PROBLEM
  | JUSTIFIED | INCOMPLETE | UNJUSTIFIED | NOT_APPLICABLE
  | CONFIDENT | UNCERTAIN

record EvidenceValue =
  evValue :: EvidenceRating
  evInferenceConfidence :: rat
  evEvidenceEventIds :: "EventId list"
  evLastUpdatedSequence :: nat

record EvidenceProposal =
  epKey :: EvidenceKey
  epProposedValue :: EvidenceRating
  epInferenceConfidence :: rat
  epEvidenceEventIds :: "EventId list"

fun evidenceSubjectId :: "EvidenceSubject \<Rightarrow> string" where
  "evidenceSubjectId (CLAIM c) = c"
| "evidenceSubjectId (MILESTONE m) = m"
| "evidenceSubjectId (SKILL s) = s"
| "evidenceSubjectId (APPROACH a) = a"

fun subjectKind :: "EvidenceSubject \<Rightarrow> string" where
  "subjectKind (CLAIM _) = ''CLAIM''"
| "subjectKind (MILESTONE _) = ''MILESTONE''"
| "subjectKind (SKILL _) = ''SKILL''"
| "subjectKind (APPROACH _) = ''APPROACH''"

fun dimensionName :: "EvidenceDimension \<Rightarrow> string" where
  "dimensionName PROGRESS = ''PROGRESS''"
| "dimensionName CORRECTNESS = ''CORRECTNESS''"
| "dimensionName UNDERSTANDING = ''UNDERSTANDING''"
| "dimensionName JUSTIFICATION = ''JUSTIFICATION''"
| "dimensionName STUDENT_CONFIDENCE = ''STUDENT_CONFIDENCE''"

definition EvidenceKeySchema :: "EvidenceKey \<Rightarrow> bool" where
  "EvidenceKeySchema k = (nonempty (ekProblemId k) \<and> nonempty (evidenceSubjectId (ekSubject k)))"

definition EvidenceValueSchema :: "EvidenceValue \<Rightarrow> bool" where
  "EvidenceValueSchema v =
     (unitInterval (evInferenceConfidence v) \<and> list_all idSchema (evEvidenceEventIds v)
      \<and> evEvidenceEventIds v \<noteq> [] \<and> PositiveSafeInteger (evLastUpdatedSequence v))"

definition EvidenceProposalSchema :: "EvidenceProposal \<Rightarrow> bool" where
  "EvidenceProposalSchema p =
     (EvidenceKeySchema (epKey p) \<and> unitInterval (epInferenceConfidence p)
      \<and> list_all idSchema (epEvidenceEventIds p) \<and> epEvidenceEventIds p \<noteq> [])"

fun valuesByDimension :: "EvidenceDimension \<Rightarrow> EvidenceRating list" where
  "valuesByDimension PROGRESS = [PROGRESSING, STALLED, REGRESSING, COMPLETE, RATING_UNKNOWN]"
| "valuesByDimension CORRECTNESS = [CORRECT, LOCAL_ERROR, STRUCTURAL_ERROR, RATING_UNKNOWN]"
| "valuesByDimension UNDERSTANDING = [UNDERSTANDS, PARTIAL, MISUNDERSTOOD_PROBLEM, RATING_UNKNOWN]"
| "valuesByDimension JUSTIFICATION = [JUSTIFIED, INCOMPLETE, UNJUSTIFIED, NOT_APPLICABLE]"
| "valuesByDimension STUDENT_CONFIDENCE = [CONFIDENT, UNCERTAIN, RATING_UNKNOWN]"

definition isEvidenceValueAllowed :: "EvidenceKey \<Rightarrow> EvidenceRating \<Rightarrow> bool" where
  "isEvidenceValueAllowed k v = (v \<in> set (valuesByDimension (ekDimension k)))"

text \<open>The persistence encoding of a key: its parts joined by \<^verbatim>\<open>|\<close>.\<close>

definition evidenceKeyToString :: "EvidenceKey \<Rightarrow> string" where
  "evidenceKeyToString k =
     ekProblemId k @ ''|'' @ subjectKind (ekSubject k) @ ''|''
       @ evidenceSubjectId (ekSubject k) @ ''|'' @ dimensionName (ekDimension k)"

text \<open>
  \<^verbatim>\<open>JSON.stringify\<close> on a string: quotes and backslashes are escaped, control characters become
  a two-character escape or \<^verbatim>\<open>\u00XX\<close>, everything else is copied.
\<close>

definition hexDigit :: "nat \<Rightarrow> char" where
  "hexDigit n = (if n < 10 then char_of (48 + n) else char_of (87 + n))"

definition jsonChar :: "char \<Rightarrow> string" where
  "jsonChar c =
     (let n = of_char c :: nat; b = CHR 0x5C in
      if n = 34 then [b, CHR 0x22]
      else if n = 92 then [b, b]
      else if n = 8 then [b, CHR ''b'']
      else if n = 9 then [b, CHR ''t'']
      else if n = 10 then [b, CHR ''n'']
      else if n = 12 then [b, CHR ''f'']
      else if n = 13 then [b, CHR ''r'']
      else if n < 32 then [b, CHR ''u'', CHR ''0'', CHR ''0'', hexDigit (n div 16), hexDigit (n mod 16)]
      else [c])"

definition jsonString :: "string \<Rightarrow> string" where
  "jsonString s = CHR 0x22 # concat (map jsonChar s) @ [CHR 0x22]"

fun joinWith :: "string \<Rightarrow> string list \<Rightarrow> string" where
  "joinWith sep [] = []"
| "joinWith sep [x] = x"
| "joinWith sep (x # xs) = x @ sep @ joinWith sep xs"

definition evidenceKeyIdentity :: "EvidenceKey \<Rightarrow> string" where
  "evidenceKeyIdentity k =
     ''['' @ joinWith '','' (map jsonString
       [ekProblemId k, subjectKind (ekSubject k), evidenceSubjectId (ekSubject k),
        dimensionName (ekDimension k)]) @ '']''"

definition evidenceKeysEqual :: "EvidenceKey \<Rightarrow> EvidenceKey \<Rightarrow> bool" where
  "evidenceKeysEqual l r = (evidenceKeyIdentity l = evidenceKeyIdentity r)"

section \<open>Session configuration\<close>

record SessionTargetIdentity =
  targetId :: string
  targetVersion :: string

definition SessionTargetIdentitySchema :: "SessionTargetIdentity \<Rightarrow> bool" where
  "SessionTargetIdentitySchema t =
     (str_between 1 128 (targetId t) \<and> isIdentityTag (targetId t)
      \<and> str_between 1 64 (targetVersion t) \<and> isIdentityTag (targetVersion t))"

datatype InterventionPolicy = MINIMAL | BALANCED | STRICT

record ProviderSelectionReference =
  providerId :: string
  modelId :: string

text \<open>\<open>secretForm p ok n\<close>: a literal prefix, then at least \<open>n\<close> characters that satisfy \<open>ok\<close>.\<close>

definition secretForm :: "string \<Rightarrow> (char \<Rightarrow> bool) \<Rightarrow> nat \<Rightarrow> string \<Rightarrow> bool" where
  "secretForm p ok n s =
     (startsWith p s \<and> n \<le> length (drop (length p) s) \<and> list_all ok (drop (length p) s))"

definition CommonSecretValuePattern :: "string \<Rightarrow> bool" where
  "CommonSecretValuePattern s =
     (let an = (\<lambda>c. js_lower c \<or> js_digit c);
          anu = (\<lambda>c. an c \<or> c = CHR ''_'');
          anh = (\<lambda>c. an c \<or> c = CHR ''-'');
          anuh = (\<lambda>c. anu c \<or> c = CHR ''-'') in
      secretForm ''sk-'' anuh 16 s \<or> secretForm ''sk_'' anuh 16 s
      \<or> (\<exists>k \<in> set ''pousr''. secretForm (''gh'' @ [k] @ ''_'') an 20 s)
      \<or> secretForm ''github_pat_'' anu 20 s
      \<or> secretForm ''glpat-'' anuh 20 s
      \<or> secretForm ''hf_'' an 20 s
      \<or> (\<exists>k \<in> set ''baprs''. secretForm (''xox'' @ [k] @ ''-'') anh 10 s))"

definition ProviderMachineIdSchema :: "string \<Rightarrow> bool" where
  "ProviderMachineIdSchema s =
     (str_between 1 64 s
      \<and> (js_lower (hd s) \<or> js_digit (hd s)) \<and> (js_lower (last s) \<or> js_digit (last s))
      \<and> list_all (\<lambda>c. js_lower c \<or> js_digit c \<or> c \<in> set ''._-'') s
      \<and> \<not> CommonSecretValuePattern s)"

record ConfigurationCommon =
  configurationVersion :: nat
  durationMinutes :: "nat option"
  interventionPolicy :: InterventionPolicy
  providerSelection :: "ProviderSelectionReference option"

datatype InterviewSessionConfiguration =
    OXFORD_MATHEMATICS ConfigurationCommon SessionTargetIdentity "string option"
  | QUANT_TRADING ConfigurationCommon SessionTargetIdentity
  | QUANT_RESEARCH ConfigurationCommon SessionTargetIdentity

definition ConfigurationCommonSchema :: "ConfigurationCommon \<Rightarrow> bool" where
  "ConfigurationCommonSchema c =
     (configurationVersion c = 1
      \<and> opt_all (\<lambda>n. 5 \<le> n \<and> n \<le> 480) (durationMinutes c)
      \<and> opt_all (\<lambda>p. ProviderMachineIdSchema (providerId p) \<and> ProviderMachineIdSchema (modelId p))
          (providerSelection c))"

definition DifficultySchema :: "string \<Rightarrow> bool" where
  "DifficultySchema s = (str_between 1 64 s \<and> isIdentityTag s)"

fun InterviewSessionConfigurationSchema :: "InterviewSessionConfiguration \<Rightarrow> bool" where
  "InterviewSessionConfigurationSchema (OXFORD_MATHEMATICS c t d) =
     (ConfigurationCommonSchema c \<and> SessionTargetIdentitySchema t \<and> opt_all DifficultySchema d)"
| "InterviewSessionConfigurationSchema (QUANT_TRADING c t) =
     (ConfigurationCommonSchema c \<and> SessionTargetIdentitySchema t)"
| "InterviewSessionConfigurationSchema (QUANT_RESEARCH c t) =
     (ConfigurationCommonSchema c \<and> SessionTargetIdentitySchema t)"

datatype SessionConfigurationSource = CONFIGURED | LEGACY_COMPATIBILITY

section \<open>Context manifests and verification results\<close>

record ContextCompilationManifest =
  cmSchemaVersion :: nat
  cmCompilerVersion :: string
  cmHashAlgorithm :: string
  cmGenerationId :: GenerationId
  cmGenerationBasis :: GenerationBasis
  cmProblemId :: string
  cmProblemVersion :: string
  cmContextSha256 :: string
  cmReasoningGraphSha256 :: string

definition ContextCompilationManifestSchema :: "ContextCompilationManifest \<Rightarrow> bool" where
  "ContextCompilationManifestSchema m =
     (cmSchemaVersion m = 1 \<and> nonempty (cmCompilerVersion m) \<and> cmHashAlgorithm m = ''SHA-256''
      \<and> idSchema (cmGenerationId m) \<and> GenerationBasisSchema (cmGenerationBasis m)
      \<and> nonempty (cmProblemId m) \<and> nonempty (cmProblemVersion m)
      \<and> isSha256Hex (cmContextSha256 m) \<and> isSha256Hex (cmReasoningGraphSha256 m))"

record FormalInterpretationProposal =
  fiCandidateFormalInterpretation :: string
  fiInterpretationConfidence :: rat

definition FormalInterpretationProposalSchema :: "FormalInterpretationProposal \<Rightarrow> bool" where
  "FormalInterpretationProposalSchema p =
     (str_between 1 100000 (fiCandidateFormalInterpretation p)
      \<and> unitInterval (fiInterpretationConfidence p))"

datatype VerificationStatus = VERIFIED | CONTRADICTED | UNRESOLVED

record VerificationResult =
  vrStatus :: VerificationStatus
  vrInterpretationConfidence :: rat
  vrVerifier :: string
  vrReason :: string

definition VerificationResultSchema :: "VerificationResult \<Rightarrow> bool" where
  "VerificationResultSchema r =
     (unitInterval (vrInterpretationConfidence r) \<and> nonempty (vrVerifier r)
      \<and> str_between 1 500 (vrReason r))"

section \<open>Command envelopes\<close>

record CommandEnvelope =
  envRequestId :: RequestId
  envSessionId :: SessionId
  envProducer :: string
  envCausationId :: RequestId
  envCorrelationId :: RequestId
  envInputEpisodeId :: "InputEpisodeId option"
  envTurnId :: "TurnId option"
  envGenerationId :: "GenerationId option"
  envContextEpoch :: "Revision option"
  envSourceRevision :: "nat option"

definition CommandEnvelopeSchema :: "CommandEnvelope \<Rightarrow> bool" where
  "CommandEnvelopeSchema e =
     (idSchema (envRequestId e) \<and> idSchema (envSessionId e) \<and> nonempty (envProducer e)
      \<and> idSchema (envCausationId e) \<and> idSchema (envCorrelationId e)
      \<and> opt_all idSchema (envInputEpisodeId e) \<and> opt_all idSchema (envTurnId e)
      \<and> opt_all idSchema (envGenerationId e) \<and> opt_all revisionSchema (envContextEpoch e)
      \<and> opt_all isSafeNat (envSourceRevision e))"

section \<open>Quant trading values\<close>

datatype OrderSide = BUY | SELL

definition finiteProduct :: "rat \<Rightarrow> nat \<Rightarrow> bool" where
  "finiteProduct p n = (js_mul p (of_nat n) \<noteq> None)"

record QuotePair =
  bidPrice :: rat
  bidSize :: nat
  askPrice :: rat
  askSize :: nat

definition QuotePairSchema :: "QuotePair \<Rightarrow> bool" where
  "QuotePairSchema q =
     (0 < bidPrice q \<and> PositiveSafeInteger (bidSize q)
      \<and> 0 < askPrice q \<and> PositiveSafeInteger (askSize q)
      \<and> bidPrice q < askPrice q
      \<and> finiteProduct (bidPrice q) (bidSize q) \<and> finiteProduct (askPrice q) (askSize q))"

record OrderFill =
  fillId :: string
  fillOrderId :: string
  matchedOrderId :: "string option"
  fillSide :: OrderSide
  fillPrice :: rat
  fillSize :: nat
  counterparty :: string
  fillTimestamp :: rat

definition nonBlank :: "string \<Rightarrow> bool" where
  "nonBlank s = (0 < length (js_trim s))"

definition OrderFillSchema :: "OrderFill \<Rightarrow> bool" where
  "OrderFillSchema f =
     (nonBlank (fillId f) \<and> nonBlank (fillOrderId f) \<and> opt_all nonBlank (matchedOrderId f)
      \<and> 0 < fillPrice f \<and> PositiveSafeInteger (fillSize f) \<and> nonBlank (counterparty f)
      \<and> 0 \<le> fillTimestamp f \<and> finiteProduct (fillPrice f) (fillSize f))"

datatype QuantTradingCandidateAction = QUOTE QuotePair | PASS

fun QuantTradingCandidateActionSchema :: "QuantTradingCandidateAction \<Rightarrow> bool" where
  "QuantTradingCandidateActionSchema (QUOTE q) = QuotePairSchema q"
| "QuantTradingCandidateActionSchema PASS = True"

end
