(* ===== verification/BoardDomain.thy ===== *)
theory BoardDomain
  imports Domain
begin

text \<open>
  The whiteboard and vision contracts of \<^verbatim>\<open>packages/domain/src/whiteboard.ts\<close> and
  \<^verbatim>\<open>vision.ts\<close>, proposals and delivery atoms: AI board actions, authoritative student
  shapes, normalized board mutations, observations and their admission provenance.
\<close>

section \<open>Board actions\<close>

datatype BoardOperation =
    write_text | write_equation | draw_arrow | circle | highlight | point_at
  | erase_ai_annotation | draw_segment | draw_arrow_between | draw_polyline
  | draw_rectangle | draw_ellipse

datatype RelativePosition = LEFT | RIGHT | ABOVE | BELOW | CENTER

record BoardActionPoint =
  bapX :: rat
  bapY :: rat

record BoardActionTargetRegion =
  trShapeId :: string
  trShapeRevision :: nat
  trXFraction :: rat
  trYFraction :: rat
  trWidthFraction :: "rat option"
  trHeightFraction :: "rat option"

record BoardActionPlacement =
  plAnchorShapeId :: "string option"
  plAnchorRevision :: "nat option"
  plPosition :: "RelativePosition option"
  plX :: "rat option"
  plY :: "rat option"
  plOffsetX :: "rat option"
  plOffsetY :: "rat option"

record BoardAction =
  baOperation :: BoardOperation
  baContent :: "string option"
  baTargetShapeId :: "string option"
  baExpectedShapeRevision :: "nat option"
  baTargetAnnotationId :: "string option"
  baTargetRegion :: "BoardActionTargetRegion option"
  baPlacement :: "BoardActionPlacement option"
  baPoints :: "BoardActionPoint list option"
  baFromShapeId :: "string option"
  baFromShapeRevision :: "nat option"
  baToShapeId :: "string option"
  baToShapeRevision :: "nat option"
  baWidth :: "rat option"
  baHeight :: "rat option"
  baAnnotationPurpose :: string

definition MAX_BOARD_ACTION_POINTS :: nat where "MAX_BOARD_ACTION_POINTS = 8"
definition MAX_INTERVIEWER_BOARD_ACTIONS :: nat where "MAX_INTERVIEWER_BOARD_ACTIONS = 12"

definition inRange :: "rat \<Rightarrow> rat \<Rightarrow> rat \<Rightarrow> bool" where
  "inRange lo hi x = (lo \<le> x \<and> x \<le> hi)"

definition BoardActionShapeIdSchema :: "string \<Rightarrow> bool" where
  "BoardActionShapeIdSchema s =
     (str_between 1 160 s \<and> 0 < length (js_trim s) \<and> s = js_trim s)"

definition BoardActionCoordinateSchema :: "rat \<Rightarrow> bool" where
  "BoardActionCoordinateSchema x = inRange (-1000000) 1000000 x"

definition BoardActionDimensionSchema :: "rat \<Rightarrow> bool" where
  "BoardActionDimensionSchema x = (0 < x \<and> x \<le> 100000)"

definition BoardActionPointSchema :: "BoardActionPoint \<Rightarrow> bool" where
  "BoardActionPointSchema p =
     (BoardActionCoordinateSchema (bapX p) \<and> BoardActionCoordinateSchema (bapY p))"

text \<open>\<^verbatim>\<open>a + b > 1\<close> on finite numbers: the sum is rounded before it is compared.\<close>

definition sumExceeds :: "rat \<Rightarrow> rat \<Rightarrow> rat \<Rightarrow> bool" where
  "sumExceeds a b m = (case js_add a b of None \<Rightarrow> 0 < a + b | Some s \<Rightarrow> m < s)"

definition BoardActionTargetRegionSchema :: "BoardActionTargetRegion \<Rightarrow> bool" where
  "BoardActionTargetRegionSchema r =
     (BoardActionShapeIdSchema (trShapeId r) \<and> PositiveSafeInteger (trShapeRevision r)
      \<and> unitInterval (trXFraction r) \<and> unitInterval (trYFraction r)
      \<and> opt_all (\<lambda>w. unitInterval w \<and> 0 < w) (trWidthFraction r)
      \<and> opt_all (\<lambda>h. unitInterval h \<and> 0 < h) (trHeightFraction r)
      \<and> (trWidthFraction r \<noteq> None) = (trHeightFraction r \<noteq> None)
      \<and> opt_all (\<lambda>w. \<not> sumExceeds (trXFraction r) w 1) (trWidthFraction r)
      \<and> opt_all (\<lambda>h. \<not> sumExceeds (trYFraction r) h 1) (trHeightFraction r))"

definition BoardActionPlacementSchema :: "BoardActionPlacement \<Rightarrow> bool" where
  "BoardActionPlacementSchema p =
     (let anchored = plAnchorShapeId p \<noteq> None; hasX = plX p \<noteq> None; hasY = plY p \<noteq> None in
      opt_all BoardActionShapeIdSchema (plAnchorShapeId p)
      \<and> opt_all PositiveSafeInteger (plAnchorRevision p)
      \<and> opt_all BoardActionCoordinateSchema (plX p) \<and> opt_all BoardActionCoordinateSchema (plY p)
      \<and> opt_all (inRange (-2000) 2000) (plOffsetX p) \<and> opt_all (inRange (-2000) 2000) (plOffsetY p)
      \<and> hasX = hasY
      \<and> \<not> (anchored \<and> (hasX \<or> hasY))
      \<and> \<not> (\<not> anchored \<and> \<not> hasX)
      \<and> \<not> (plAnchorRevision p \<noteq> None \<and> \<not> anchored)
      \<and> \<not> (plPosition p \<noteq> None \<and> \<not> anchored)
      \<and> \<not> (anchored \<and> plAnchorRevision p = None)
      \<and> \<not> (anchored \<and> plPosition p = None))"

definition BoardActionBaseSchema :: "BoardAction \<Rightarrow> bool" where
  "BoardActionBaseSchema a =
     (opt_all (\<lambda>c. length c \<le> 2000) (baContent a)
      \<and> opt_all BoardActionShapeIdSchema (baTargetShapeId a)
      \<and> opt_all PositiveSafeInteger (baExpectedShapeRevision a)
      \<and> opt_all (\<lambda>i. idSchema i \<and> length i \<le> 160) (baTargetAnnotationId a)
      \<and> opt_all BoardActionTargetRegionSchema (baTargetRegion a)
      \<and> opt_all BoardActionPlacementSchema (baPlacement a)
      \<and> opt_all (\<lambda>ps. list_all BoardActionPointSchema ps \<and> length ps \<le> MAX_BOARD_ACTION_POINTS)
          (baPoints a)
      \<and> opt_all BoardActionShapeIdSchema (baFromShapeId a)
      \<and> opt_all PositiveSafeInteger (baFromShapeRevision a)
      \<and> opt_all BoardActionShapeIdSchema (baToShapeId a)
      \<and> opt_all PositiveSafeInteger (baToShapeRevision a)
      \<and> opt_all BoardActionDimensionSchema (baWidth a)
      \<and> opt_all BoardActionDimensionSchema (baHeight a)
      \<and> str_between 1 512 (baAnnotationPurpose a) \<and> 0 < length (js_trim (baAnnotationPurpose a)))"

definition BoardActionSchema :: "BoardAction \<Rightarrow> bool" where
  "BoardActionSchema a =
     (let op = baOperation a;
          isWrite = op \<in> {write_text, write_equation};
          isTargetOverlay = op \<in> {draw_arrow, circle, highlight, point_at};
          isErase = (op = erase_ai_annotation);
          isPointGeometry = op \<in> {draw_segment, draw_polyline};
          isBoxGeometry = op \<in> {draw_rectangle, draw_ellipse};
          isArrowBetween = (op = draw_arrow_between);
          len = (case baPoints a of None \<Rightarrow> 0 | Some ps \<Rightarrow> length ps) in
      BoardActionBaseSchema a
      \<and> \<not> (baExpectedShapeRevision a \<noteq> None \<and> baTargetShapeId a = None)
      \<and> \<not> (baFromShapeRevision a \<noteq> None \<and> baFromShapeId a = None)
      \<and> \<not> (baToShapeRevision a \<noteq> None \<and> baToShapeId a = None)
      \<and> \<not> (baTargetRegion a \<noteq> None
            \<and> (baTargetShapeId a \<noteq> None \<or> baExpectedShapeRevision a \<noteq> None))
      \<and> (isWrite \<or> isBoxGeometry \<or> baPlacement a = None)
      \<and> (isPointGeometry \<or> baPoints a = None)
      \<and> (isArrowBetween \<or> baFromShapeId a = None)
      \<and> (isArrowBetween \<or> baFromShapeRevision a = None)
      \<and> (isArrowBetween \<or> baToShapeId a = None)
      \<and> (isArrowBetween \<or> baToShapeRevision a = None)
      \<and> (isBoxGeometry \<or> baWidth a = None)
      \<and> (isBoxGeometry \<or> baHeight a = None)
      \<and> (isWrite \<or> isTargetOverlay \<or> baTargetShapeId a = None)
      \<and> (isWrite \<or> isTargetOverlay \<or> baExpectedShapeRevision a = None)
      \<and> (isErase \<or> baTargetAnnotationId a = None)
      \<and> (isTargetOverlay \<or> baTargetRegion a = None)
      \<and> \<not> (isPointGeometry \<and> op = draw_segment \<and> len \<noteq> 2)
      \<and> \<not> (isPointGeometry \<and> op = draw_polyline \<and> (len < 2 \<or> MAX_BOARD_ACTION_POINTS < len))
      \<and> (isBoxGeometry \<longrightarrow> baPlacement a \<noteq> None \<and> baWidth a \<noteq> None \<and> baHeight a \<noteq> None)
      \<and> (isArrowBetween \<longrightarrow> baFromShapeId a \<noteq> None \<and> baFromShapeRevision a \<noteq> None
            \<and> baToShapeId a \<noteq> None \<and> baToShapeRevision a \<noteq> None))"

section \<open>Interviewer proposals and delivery atoms\<close>

record InterviewerProposal =
  ipRealizedAction :: SocraticAction
  ipClaimedDisclosureLevel :: DisclosureLevel
  ipClaimedDisclosureIds :: "DisclosureId list"
  ipSpeechText :: "string option"
  ipBoardActions :: "BoardAction list option"

definition InterviewerProposalSchema :: "InterviewerProposal \<Rightarrow> bool" where
  "InterviewerProposalSchema p =
     (DisclosureLevelSchema (ipClaimedDisclosureLevel p)
      \<and> list_all idSchema (ipClaimedDisclosureIds p)
      \<and> opt_all nonempty (ipSpeechText p)
      \<and> opt_all (\<lambda>as. list_all BoardActionSchema as \<and> length as \<le> MAX_INTERVIEWER_BOARD_ACTIONS)
          (ipBoardActions p)
      \<and> (ipSpeechText p \<noteq> None
         \<or> 0 < (case ipBoardActions p of None \<Rightarrow> 0 | Some as \<Rightarrow> length as)))"

datatype DeliveryStatus =
    Delivery_VALIDATED | Delivery_QUEUED | Delivery_DELIVERING | Delivery_EXPOSED
  | Delivery_COMPLETED | Delivery_CANCELLED | Delivery_POSSIBLY_EXPOSED

datatype DeliveryContent = TEXT string | AUDIO string string | WHITEBOARD BoardAction

record DeliveryAtom =
  deliveryId :: DeliveryId
  atomGenerationId :: GenerationId
  atomContent :: DeliveryContent
  disclosureIds :: "DisclosureId list"
  effectiveDisclosureLevel :: DisclosureLevel
  atomStatus :: DeliveryStatus

fun DeliveryContentSchema :: "DeliveryContent \<Rightarrow> bool" where
  "DeliveryContentSchema (TEXT t) = nonempty t"
| "DeliveryContentSchema (AUDIO t r) = (nonempty t \<and> nonempty r)"
| "DeliveryContentSchema (WHITEBOARD a) = BoardActionSchema a"

definition DeliveryAtomSchema :: "DeliveryAtom \<Rightarrow> bool" where
  "DeliveryAtomSchema a =
     (idSchema (deliveryId a) \<and> idSchema (atomGenerationId a)
      \<and> DeliveryContentSchema (atomContent a) \<and> list_all idSchema (disclosureIds a)
      \<and> DisclosureLevelSchema (effectiveDisclosureLevel a))"

record DeliveryCommand =
  cmdDeliveryId :: DeliveryId
  cmdContent :: DeliveryContent

definition isDisclosedStatus :: "DeliveryStatus \<Rightarrow> bool" where
  "isDisclosedStatus s =
     (s = Delivery_EXPOSED \<or> s = Delivery_COMPLETED \<or> s = Delivery_POSSIBLY_EXPOSED)"

lemma isDisclosedStatus_simps [simp]:
  "isDisclosedStatus Delivery_EXPOSED" "isDisclosedStatus Delivery_COMPLETED"
  "isDisclosedStatus Delivery_POSSIBLY_EXPOSED"
  "\<not> isDisclosedStatus Delivery_VALIDATED" "\<not> isDisclosedStatus Delivery_QUEUED"
  "\<not> isDisclosedStatus Delivery_DELIVERING" "\<not> isDisclosedStatus Delivery_CANCELLED"
  by (simp_all add: isDisclosedStatus_def)

section \<open>Authoritative shapes and board mutations\<close>

datatype BoardShapeType = stroke | text_shape | rectangle | ellipse | arrow | formula

record Bounds =
  bX :: rat
  bY :: rat
  bWidth :: rat
  bHeight :: rat

record AuthoritativeStudentShape =
  shId :: string
  shType :: BoardShapeType
  shBounds :: Bounds
  shPoints :: "(rat \<times> rat) list option"
  shText :: "string option"
  shRevision :: nat
  shCreatedAt :: nat
  shLastModifiedAt :: nat

definition BoardShapeIdSchema :: "string \<Rightarrow> bool" where
  "BoardShapeIdSchema s = (str_between 1 160 s \<and> s = js_trim s)"

definition BoardCoordinateSchema :: "rat \<Rightarrow> bool" where
  "BoardCoordinateSchema x = inRange (-1000000) 1000000 x"

definition absSumWithin :: "rat \<Rightarrow> rat \<Rightarrow> rat \<Rightarrow> bool" where
  "absSumWithin a b m = (case js_add a b of None \<Rightarrow> False | Some s \<Rightarrow> \<bar>s\<bar> \<le> m)"

definition AuthoritativeBoardBoundsSchema :: "Bounds \<Rightarrow> bool" where
  "AuthoritativeBoardBoundsSchema b =
     (BoardCoordinateSchema (bX b) \<and> BoardCoordinateSchema (bY b)
      \<and> inRange 0 1000000 (bWidth b) \<and> inRange 0 1000000 (bHeight b)
      \<and> absSumWithin (bX b) (bWidth b) 2000000 \<and> absSumWithin (bY b) (bHeight b) 2000000)"

definition AuthoritativeStudentShapeSchema :: "AuthoritativeStudentShape \<Rightarrow> bool" where
  "AuthoritativeStudentShapeSchema s =
     (BoardShapeIdSchema (shId s) \<and> AuthoritativeBoardBoundsSchema (shBounds s)
      \<and> opt_all (\<lambda>ps. list_all (\<lambda>(x, y). BoardCoordinateSchema x \<and> BoardCoordinateSchema y) ps
                      \<and> length ps \<le> 1024) (shPoints s)
      \<and> opt_all (\<lambda>t. length t \<le> 8000) (shText s)
      \<and> PositiveSafeInteger (shRevision s)
      \<and> isSafeNat (shCreatedAt s) \<and> isSafeNat (shLastModifiedAt s)
      \<and> shCreatedAt s \<le> shLastModifiedAt s)"

record ShapeUpdate =
  beforeRevision :: nat
  updatedShape :: AuthoritativeStudentShape

record ShapeDelete =
  deletedShapeId :: string
  deletedExpectedRevision :: nat

record NormalizedBoardMutation =
  baseBoardRevision :: Revision
  mutAdded :: "AuthoritativeStudentShape list"
  mutUpdated :: "ShapeUpdate list"
  mutDeleted :: "ShapeDelete list"

definition MAX_BOARD_MUTATION_SHAPES :: nat where "MAX_BOARD_MUTATION_SHAPES = 64"

definition mutationIds :: "NormalizedBoardMutation \<Rightarrow> string list" where
  "mutationIds m =
     map shId (mutAdded m) @ map (\<lambda>e. shId (updatedShape e)) (mutUpdated m)
       @ map deletedShapeId (mutDeleted m)"

definition NormalizedBoardMutationSchema :: "NormalizedBoardMutation \<Rightarrow> bool" where
  "NormalizedBoardMutationSchema m =
     (isSafeNat (baseBoardRevision m)
      \<and> list_all AuthoritativeStudentShapeSchema (mutAdded m)
      \<and> list_all (\<lambda>e. PositiveSafeInteger (beforeRevision e)
                      \<and> AuthoritativeStudentShapeSchema (updatedShape e)) (mutUpdated m)
      \<and> list_all (\<lambda>e. BoardShapeIdSchema (deletedShapeId e)
                      \<and> PositiveSafeInteger (deletedExpectedRevision e)) (mutDeleted m)
      \<and> length (mutAdded m) \<le> MAX_BOARD_MUTATION_SHAPES
      \<and> length (mutUpdated m) \<le> MAX_BOARD_MUTATION_SHAPES
      \<and> length (mutDeleted m) \<le> MAX_BOARD_MUTATION_SHAPES
      \<and> length (mutationIds m) \<noteq> 0
      \<and> length (mutationIds m) \<le> MAX_BOARD_MUTATION_SHAPES
      \<and> allDistinct (mutationIds m)
      \<and> list_all (\<lambda>e. shRevision (updatedShape e) = beforeRevision e + 1) (mutUpdated m))"

section \<open>Vision observations\<close>

definition diagnosticSafeId :: "string \<Rightarrow> bool" where
  "diagnosticSafeId s =
     (s \<noteq> [] \<and> js_alnum (hd s) \<and> list_all (\<lambda>c. js_alnum c \<or> c \<in> set ''._:/-'') s)"

definition boundedIdentifier :: "nat \<Rightarrow> string \<Rightarrow> bool" where
  "boundedIdentifier maximum s = (str_between 1 maximum s \<and> diagnosticSafeId s)"

definition boundedMetadata :: "string \<Rightarrow> bool" where
  "boundedMetadata s =
     (str_between 1 160 s \<and> s = js_trim s
      \<and> list_all (\<lambda>c. 31 < (of_char c :: nat) \<and> (of_char c :: nat) \<noteq> 127) s)"

definition boundedInterpretation :: "string \<Rightarrow> bool" where
  "boundedInterpretation s = (str_between 1 4000 s \<and> 0 < length (js_trim s))"

definition VisionBoundsSchema :: "Bounds \<Rightarrow> bool" where
  "VisionBoundsSchema b =
     (inRange (-1000000) 1000000 (bX b) \<and> inRange (-1000000) 1000000 (bY b)
      \<and> 0 < bWidth b \<and> bWidth b \<le> 100000 \<and> 0 < bHeight b \<and> bHeight b \<le> 100000
      \<and> \<not> sumExceeds (bX b) (bWidth b) 1000000 \<and> \<not> sumExceeds (bY b) (bHeight b) 1000000)"

record VisionSnapshotBasis =
  snapshotId :: string
  snapshotHash :: string
  preprocessingVersion :: string
  snapshotSourceBoardRevision :: Revision

definition VisionSnapshotBasisSchema :: "VisionSnapshotBasis \<Rightarrow> bool" where
  "VisionSnapshotBasisSchema b =
     (boundedIdentifier 160 (snapshotId b) \<and> isSha256Hex (snapshotHash b)
      \<and> boundedMetadata (preprocessingVersion b) \<and> isSafeNat (snapshotSourceBoardRevision b))"

record VisionShapeRevisionBinding =
  bindingShapeId :: string
  bindingExpectedRevision :: nat

definition VisionShapeRevisionBindingSchema :: "VisionShapeRevisionBinding \<Rightarrow> bool" where
  "VisionShapeRevisionBindingSchema b =
     (boundedIdentifier 160 (bindingShapeId b) \<and> isSafeNat (bindingExpectedRevision b))"

datatype VisionObservationKind =
    Kind_TEXT | Kind_EQUATION | Kind_DIAGRAM_RELATION | Kind_ARROW | Kind_LABEL
  | Kind_GENERAL_BOARD_DESCRIPTION

datatype VisionRequestedObservationKind = Requested VisionObservationKind | ANY

record BoardObservation =
  obRegionId :: string
  obSourceBoardRevision :: Revision
  obRelevantShapeIds :: "string list"
  obBounds :: Bounds
  obInterpretation :: string
  obConfidence :: rat

definition BoardObservationSchema :: "BoardObservation \<Rightarrow> bool" where
  "BoardObservationSchema o1 =
     (nonempty (obRegionId o1) \<and> revisionSchema (obSourceBoardRevision o1)
      \<and> list_all nonempty (obRelevantShapeIds o1)
      \<and> 0 < bWidth (obBounds o1) \<and> 0 < bHeight (obBounds o1) \<and> unitInterval (obConfidence o1))"

definition BoundedBoardObservationSchema :: "BoardObservation \<Rightarrow> bool" where
  "BoundedBoardObservationSchema o1 =
     (boundedIdentifier 128 (obRegionId o1) \<and> isSafeNat (obSourceBoardRevision o1)
      \<and> list_all (boundedIdentifier 160) (obRelevantShapeIds o1)
      \<and> length (obRelevantShapeIds o1) \<le> 64
      \<and> VisionBoundsSchema (obBounds o1) \<and> boundedInterpretation (obInterpretation o1)
      \<and> unitInterval (obConfidence o1) \<and> allDistinct (obRelevantShapeIds o1))"

datatype VisionAdmissionFreshnessProof = EXACT_BOARD_REVISION | SHAPE_AND_REGION_COMPATIBLE

record VisionBackendProvenance =
  backendId :: string
  backendVersion :: string
  backendProviderId :: string
  backendModelId :: string
  backendModelVersion :: string
  visionCapabilityVersion :: string

definition VisionBackendProvenanceSchema :: "VisionBackendProvenance \<Rightarrow> bool" where
  "VisionBackendProvenanceSchema b =
     (boundedIdentifier 128 (backendId b) \<and> boundedMetadata (backendVersion b)
      \<and> boundedMetadata (backendProviderId b) \<and> boundedMetadata (backendModelId b)
      \<and> boundedMetadata (backendModelVersion b) \<and> boundedMetadata (visionCapabilityVersion b))"

record AcceptedBoardObservation =
  aoRequestId :: RequestId
  aoSessionId :: SessionId
  aoProposalId :: string
  aoObservationKind :: VisionObservationKind
  aoObservation :: BoardObservation
  aoSnapshotBasis :: VisionSnapshotBasis
  aoSourceRelevantShapeIds :: "string list"
  aoShapeRevisionBindings :: "VisionShapeRevisionBinding list"
  aoBackend :: VisionBackendProvenance
  aoAdmittedAtBoardRevision :: Revision
  aoFreshnessProof :: VisionAdmissionFreshnessProof

definition AcceptedBoardObservationSchema :: "AcceptedBoardObservation \<Rightarrow> bool" where
  "AcceptedBoardObservationSchema a =
     (let src = obSourceBoardRevision (aoObservation a);
          bindingIds = map bindingShapeId (aoShapeRevisionBindings a) in
      boundedIdentifier 160 (aoRequestId a) \<and> boundedIdentifier 160 (aoSessionId a)
      \<and> boundedIdentifier 160 (aoProposalId a)
      \<and> BoundedBoardObservationSchema (aoObservation a)
      \<and> VisionSnapshotBasisSchema (aoSnapshotBasis a)
      \<and> list_all (boundedIdentifier 160) (aoSourceRelevantShapeIds a)
      \<and> length (aoSourceRelevantShapeIds a) \<le> 64
      \<and> list_all VisionShapeRevisionBindingSchema (aoShapeRevisionBindings a)
      \<and> length (aoShapeRevisionBindings a) \<le> 64
      \<and> VisionBackendProvenanceSchema (aoBackend a)
      \<and> isSafeNat (aoAdmittedAtBoardRevision a)
      \<and> src = snapshotSourceBoardRevision (aoSnapshotBasis a)
      \<and> src \<le> aoAdmittedAtBoardRevision a
      \<and> \<not> (aoFreshnessProof a = EXACT_BOARD_REVISION \<and> aoAdmittedAtBoardRevision a \<noteq> src)
      \<and> \<not> (aoFreshnessProof a = SHAPE_AND_REGION_COMPATIBLE
            \<and> (aoAdmittedAtBoardRevision a \<le> src \<or> aoShapeRevisionBindings a = []))
      \<and> allDistinct (aoSourceRelevantShapeIds a)
      \<and> list_all (\<lambda>i. i \<in> set (aoSourceRelevantShapeIds a)) (obRelevantShapeIds (aoObservation a))
      \<and> allDistinct bindingIds
      \<and> \<not> (0 < length bindingIds
            \<and> (length bindingIds \<noteq> length (aoSourceRelevantShapeIds a)
               \<or> list_ex (\<lambda>i. i \<notin> set (aoSourceRelevantShapeIds a)) bindingIds)))"

end
