(* ===== verification/QuantEvents.thy ===== *)
theory QuantEvents
  imports Domain
begin

text \<open>
  The quant payloads of the event log (first half of \<^verbatim>\<open>packages/events/src/schemas.ts\<close>):
  research scenario definitions, actions, results and authoritative snapshots, trading
  scenarios, resolved rounds and terminal results, with the refinements their schemas state.
\<close>

section \<open>Quant research\<close>

definition QuantResearchVersionTagSchema :: "string \<Rightarrow> bool" where
  "QuantResearchVersionTagSchema s = (str_between 1 64 s \<and> tagChars s)"

definition natBetween :: "nat \<Rightarrow> nat \<Rightarrow> nat \<Rightarrow> bool" where
  "natBetween lo hi n = (lo \<le> n \<and> n \<le> hi)"

definition intBetween :: "int \<Rightarrow> int \<Rightarrow> int \<Rightarrow> bool" where
  "intBetween lo hi n = (lo \<le> n \<and> n \<le> hi)"

definition seedSchema :: "nat \<Rightarrow> bool" where
  "seedSchema n = (n \<le> 4294967295)"

datatype QuantResearchFamily =
    BAYESIAN_UPDATING | SAMPLING_ESTIMATION | EXPERIMENTAL_ALLOCATION | MODEL_COMPARISON
  | CONSTRAINED_OPTIMIZATION

text \<open>The fields every scenario definition shares, then one configuration per family.\<close>

record ResearchHeader =
  researchVersion :: string
  generatorVersion :: string
  rngVersion :: string
  researchSeed :: nat

datatype ResearchConfig =
    BayesianConfig nat nat nat nat nat
    \<comment> \<open>priorAlpha, priorBeta, observationCount, perturbedPriorAlpha, perturbedPriorBeta\<close>
  | SamplingConfig nat nat int int nat nat
    \<comment> \<open>maxSamples, populationSize, centerMin, centerMax, noiseRadius, outlierShift\<close>
  | AllocationConfig nat nat nat nat nat nat nat
    \<comment> \<open>totalBudget, costA, costB, perturbedCostA, perturbedCostB, noiseA, noiseB\<close>
  | ModelComparisonConfig nat nat nat
    \<comment> \<open>observationCount, noiseRadius, outlierShift\<close>
  | OptimizationConfig nat nat nat nat nat
    \<comment> \<open>budget, perturbedBudget, maxX, maxY, perturbedPenalty\<close>

record QuantResearchScenarioDefinition =
  researchHeader :: ResearchHeader
  researchConfig :: ResearchConfig

fun configFamily :: "ResearchConfig \<Rightarrow> QuantResearchFamily" where
  "configFamily (BayesianConfig _ _ _ _ _) = BAYESIAN_UPDATING"
| "configFamily (SamplingConfig _ _ _ _ _ _) = SAMPLING_ESTIMATION"
| "configFamily (AllocationConfig _ _ _ _ _ _ _) = EXPERIMENTAL_ALLOCATION"
| "configFamily (ModelComparisonConfig _ _ _) = MODEL_COMPARISON"
| "configFamily (OptimizationConfig _ _ _ _ _) = CONSTRAINED_OPTIMIZATION"

fun familyName :: "QuantResearchFamily \<Rightarrow> string" where
  "familyName BAYESIAN_UPDATING = ''BAYESIAN_UPDATING''"
| "familyName SAMPLING_ESTIMATION = ''SAMPLING_ESTIMATION''"
| "familyName EXPERIMENTAL_ALLOCATION = ''EXPERIMENTAL_ALLOCATION''"
| "familyName MODEL_COMPARISON = ''MODEL_COMPARISON''"
| "familyName CONSTRAINED_OPTIMIZATION = ''CONSTRAINED_OPTIMIZATION''"

fun ResearchConfigSchema :: "ResearchConfig \<Rightarrow> bool" where
  "ResearchConfigSchema (BayesianConfig pa pb n qa qb) =
     (natBetween 1 100 pa \<and> natBetween 1 100 pb \<and> natBetween 2 32 n
      \<and> natBetween 1 100 qa \<and> natBetween 1 100 qb)"
| "ResearchConfigSchema (SamplingConfig m p lo hi r s) =
     (natBetween 3 32 m \<and> natBetween 8 128 p \<and> intBetween (-100) 100 lo
      \<and> intBetween (-100) 100 hi \<and> natBetween 1 20 r \<and> natBetween 1 50 s)"
| "ResearchConfigSchema (AllocationConfig b ca cb pa pb na nb) =
     (natBetween 4 100 b \<and> natBetween 1 20 ca \<and> natBetween 1 20 cb \<and> natBetween 1 20 pa
      \<and> natBetween 1 20 pb \<and> natBetween 1 10 na \<and> natBetween 1 10 nb)"
| "ResearchConfigSchema (ModelComparisonConfig n r s) =
     (natBetween 6 30 n \<and> natBetween 1 10 r \<and> natBetween 1 50 s)"
| "ResearchConfigSchema (OptimizationConfig b p mx my q) =
     (natBetween 5 60 b \<and> natBetween 5 60 p \<and> natBetween 1 60 mx \<and> natBetween 1 60 my
      \<and> q \<le> 20)"

definition QuantResearchScenarioDefinitionSchema :: "QuantResearchScenarioDefinition \<Rightarrow> bool" where
  "QuantResearchScenarioDefinitionSchema d =
     (let h = researchHeader d in
      QuantResearchVersionTagSchema (researchVersion h)
      \<and> QuantResearchVersionTagSchema (generatorVersion h)
      \<and> QuantResearchVersionTagSchema (rngVersion h)
      \<and> seedSchema (researchSeed h) \<and> ResearchConfigSchema (researchConfig d))"

datatype ResearchOption = Option_A | Option_B | Option_CONSTANT | Option_LINEAR

datatype ResearchActionKind =
    SUBMIT_PROBABILITY rat
  | REQUEST_OBSERVATION nat
  | SUBMIT_NUMERIC_ESTIMATE rat
  | ALLOCATE_SAMPLE nat nat
  | CHOOSE_OPTION ResearchOption
  | SUBMIT_PARAMETERS "rat list"

record QuantResearchAction =
  actionId :: string
  actionKind :: ResearchActionKind

definition researchActionIdSchema :: "string \<Rightarrow> bool" where
  "researchActionIdSchema s =
     (str_between 1 64 s \<and> list_all (\<lambda>c. js_alnum c \<or> c \<in> set ''_-'') s)"

definition finiteInput :: "rat \<Rightarrow> bool" where
  "finiteInput x = (-1000000 \<le> x \<and> x \<le> 1000000)"

fun ResearchActionKindSchema :: "ResearchActionKind \<Rightarrow> bool" where
  "ResearchActionKindSchema (SUBMIT_PROBABILITY v) = unitInterval v"
| "ResearchActionKindSchema (REQUEST_OBSERVATION n) = natBetween 1 32 n"
| "ResearchActionKindSchema (SUBMIT_NUMERIC_ESTIMATE v) = finiteInput v"
| "ResearchActionKindSchema (ALLOCATE_SAMPLE a b) = (a \<le> 100 \<and> b \<le> 100)"
| "ResearchActionKindSchema (CHOOSE_OPTION _) = True"
| "ResearchActionKindSchema (SUBMIT_PARAMETERS vs) =
     (list_all finiteInput vs \<and> natBetween 1 8 (length vs))"

definition QuantResearchActionSchema :: "QuantResearchAction \<Rightarrow> bool" where
  "QuantResearchActionSchema a =
     (researchActionIdSchema (actionId a) \<and> ResearchActionKindSchema (actionKind a))"

datatype EvidenceCategory =
    NUMERICAL_CORRECTNESS | CALIBRATION | ADAPTATION | SAMPLE_EFFICIENCY | CONSISTENCY
  | OBJECTIVE_QUALITY | CONSTRAINT_DISCIPLINE | ROBUSTNESS

datatype ResearchResultStatus = Research_IN_PROGRESS | Research_COMPLETE

record ResearchEvidence =
  reCategory :: EvidenceCategory
  reStage :: string
  reScore :: nat
  reSummary :: string

record QuantResearchResult =
  rsStatus :: ResearchResultStatus
  rsFamily :: QuantResearchFamily
  rsVersion :: string
  rsGeneratorVersion :: string
  rsRngVersion :: string
  rsAcceptedActionCount :: nat
  rsOverallScore :: nat
  rsMetrics :: "EvidenceCategory \<Rightarrow> nat option"
  rsEvidence :: "ResearchEvidence list"

definition allCategories :: "EvidenceCategory list" where
  "allCategories = [NUMERICAL_CORRECTNESS, CALIBRATION, ADAPTATION, SAMPLE_EFFICIENCY,
     CONSISTENCY, OBJECTIVE_QUALITY, CONSTRAINT_DISCIPLINE, ROBUSTNESS]"

definition QuantResearchResultSchema :: "QuantResearchResult \<Rightarrow> bool" where
  "QuantResearchResultSchema r =
     (QuantResearchVersionTagSchema (rsVersion r)
      \<and> QuantResearchVersionTagSchema (rsGeneratorVersion r)
      \<and> QuantResearchVersionTagSchema (rsRngVersion r)
      \<and> rsAcceptedActionCount r \<le> 64 \<and> rsOverallScore r \<le> 100
      \<and> list_all (\<lambda>c. opt_all (\<lambda>n. n \<le> 100) (rsMetrics r c)) allCategories
      \<and> list_all (\<lambda>e. str_between 1 64 (reStage e) \<and> reScore e \<le> 100
                      \<and> str_between 1 1000 (reSummary e)) (rsEvidence r)
      \<and> length (rsEvidence r) \<le> 16)"

record ResearchRational =
  rrNumerator :: int
  rrDenominator :: nat

datatype ResearchModel = Model_CONSTANT | Model_LINEAR

datatype ResearchSnapshotData =
    BayesianSnapshot "bool list" nat ResearchRational ResearchRational ResearchRational
    \<comment> \<open>observations, successes, priorPredictive, posterior, perturbedPosterior\<close>
  | SamplingSnapshot int "int list" "nat list" int int
    \<comment> \<open>hiddenCenter, hiddenPopulation, sampleOrder, contaminatedObservation, validatedCenter\<close>
  | AllocationSnapshot int int "int list" "int list" ResearchRational "(nat \<times> nat) list"
      ResearchRational "(nat \<times> nat) list"
    \<comment> \<open>hiddenMeanA, hiddenMeanB, sequenceA, sequenceB, base optimum, perturbed optimum\<close>
  | ModelSnapshot ResearchModel int int "(nat \<times> int) list" "(nat \<times> int) list" ResearchModel
    \<comment> \<open>hiddenModel, hiddenIntercept, hiddenSlope, points, perturbedPoints, validatedModel\<close>
  | OptimizationSnapshot int int nat int "(nat \<times> nat) list" int "(nat \<times> nat) list"
    \<comment> \<open>coefficientX, coefficientY, basePenalty, base best and points, perturbed best and points\<close>

record QuantResearchAuthoritativeSnapshot =
  verifierVersion :: string
  snapshotData :: ResearchSnapshotData

fun snapshotFamily :: "ResearchSnapshotData \<Rightarrow> QuantResearchFamily" where
  "snapshotFamily (BayesianSnapshot _ _ _ _ _) = BAYESIAN_UPDATING"
| "snapshotFamily (SamplingSnapshot _ _ _ _ _) = SAMPLING_ESTIMATION"
| "snapshotFamily (AllocationSnapshot _ _ _ _ _ _ _ _) = EXPERIMENTAL_ALLOCATION"
| "snapshotFamily (ModelSnapshot _ _ _ _ _ _) = MODEL_COMPARISON"
| "snapshotFamily (OptimizationSnapshot _ _ _ _ _ _ _) = CONSTRAINED_OPTIMIZATION"

definition ResearchRationalSchema :: "ResearchRational \<Rightarrow> bool" where
  "ResearchRationalSchema r =
     (isSafeInteger (rrNumerator r) \<and> PositiveSafeInteger (rrDenominator r))"

definition sized :: "nat \<Rightarrow> nat \<Rightarrow> ('a \<Rightarrow> bool) \<Rightarrow> 'a list \<Rightarrow> bool" where
  "sized lo hi P xs = (list_all P xs \<and> natBetween lo hi (length xs))"

definition safePair :: "nat \<times> nat \<Rightarrow> bool" where
  "safePair p = (isSafeNat (fst p) \<and> isSafeNat (snd p))"

definition modelPoint :: "nat \<times> int \<Rightarrow> bool" where
  "modelPoint p = (isSafeNat (fst p) \<and> isSafeInteger (snd p))"

fun ResearchSnapshotDataSchema :: "ResearchSnapshotData \<Rightarrow> bool" where
  "ResearchSnapshotDataSchema (BayesianSnapshot obs k a b c) =
     (sized 2 32 (\<lambda>_. True) obs \<and> k \<le> 32 \<and> ResearchRationalSchema a
      \<and> ResearchRationalSchema b \<and> ResearchRationalSchema c)"
| "ResearchSnapshotDataSchema (SamplingSnapshot hc pop ord cont vc) =
     (isSafeInteger hc \<and> sized 8 128 isSafeInteger pop \<and> sized 8 128 isSafeNat ord
      \<and> isSafeInteger cont \<and> isSafeInteger vc)"
| "ResearchSnapshotDataSchema (AllocationSnapshot ma mb sa sb v as w bs) =
     (isSafeInteger ma \<and> isSafeInteger mb \<and> sized 4 100 isSafeInteger sa
      \<and> sized 4 100 isSafeInteger sb \<and> ResearchRationalSchema v \<and> sized 1 100 safePair as
      \<and> ResearchRationalSchema w \<and> sized 1 100 safePair bs)"
| "ResearchSnapshotDataSchema (ModelSnapshot m i s ps qs v) =
     (isSafeInteger i \<and> isSafeInteger s \<and> sized 6 30 modelPoint ps \<and> sized 6 30 modelPoint qs)"
| "ResearchSnapshotDataSchema (OptimizationSnapshot cx cy pen b ps pb qs) =
     (isSafeInteger cx \<and> isSafeInteger cy \<and> isSafeNat pen \<and> isSafeInteger b
      \<and> sized 1 128 safePair ps \<and> isSafeInteger pb \<and> sized 1 128 safePair qs)"

definition QuantResearchAuthoritativeSnapshotSchema :: "QuantResearchAuthoritativeSnapshot \<Rightarrow> bool" where
  "QuantResearchAuthoritativeSnapshotSchema s =
     (QuantResearchVersionTagSchema (verifierVersion s) \<and> ResearchSnapshotDataSchema (snapshotData s))"

section \<open>Quant trading\<close>

datatype QuantTradingFamily =
    BASIC_MARKET_MAKING | FAIR_VALUE_UPDATES | INVENTORY_PRESSURE | ADVERSE_SELECTION
  | RISK_MANAGEMENT

fun tradingFamilyName :: "QuantTradingFamily \<Rightarrow> string" where
  "tradingFamilyName BASIC_MARKET_MAKING = ''BASIC_MARKET_MAKING''"
| "tradingFamilyName FAIR_VALUE_UPDATES = ''FAIR_VALUE_UPDATES''"
| "tradingFamilyName INVENTORY_PRESSURE = ''INVENTORY_PRESSURE''"
| "tradingFamilyName ADVERSE_SELECTION = ''ADVERSE_SELECTION''"
| "tradingFamilyName RISK_MANAGEMENT = ''RISK_MANAGEMENT''"

record QuantTradingScenarioDefinition =
  tdFamily :: QuantTradingFamily
  tdVersion :: string
  tdSeed :: nat

definition QuantTradingScenarioDefinitionSchema :: "QuantTradingScenarioDefinition \<Rightarrow> bool" where
  "QuantTradingScenarioDefinitionSchema d = (tdVersion d = ''1.0.0'' \<and> seedSchema (tdSeed d))"

record QuantTradingPortfolio =
  pfCash :: rat
  pfPosition :: int
  pfRealizedPnL :: rat
  pfUnrealizedPnL :: rat
  pfTotalPnL :: rat
  pfPortfolioValue :: rat
  pfAverageCostBasis :: rat
  pfMaxDrawdown :: rat
  pfTradeCount :: nat

definition QuantTradingPortfolioSchema :: "QuantTradingPortfolio \<Rightarrow> bool" where
  "QuantTradingPortfolioSchema p =
     (isSafeInteger (pfPosition p) \<and> 0 \<le> pfMaxDrawdown p \<and> isSafeNat (pfTradeCount p))"

record MarketUpdate =
  muRound :: nat
  muPreviousFairValue :: rat
  muFairValue :: rat
  muLabel :: string

definition roundSchema :: "nat \<Rightarrow> bool" where
  "roundSchema n = (PositiveSafeInteger n \<and> n \<le> 256)"

definition MarketUpdateSchema :: "MarketUpdate \<Rightarrow> bool" where
  "MarketUpdateSchema u =
     (roundSchema (muRound u) \<and> 0 < muPreviousFairValue u \<and> 0 < muFairValue u
      \<and> str_between 1 128 (muLabel u))"

datatype RiskBreachSource = POST_ROUND | RISK_FAIR_VALUE_UPDATE

record RiskBreach =
  rbRound :: nat
  rbSource :: RiskBreachSource
  rbReason :: string

datatype OrderFlowType = INFORMED | NOISE | NO_TRADE

definition persistedFillSchema :: "OrderFill \<Rightarrow> bool" where
  "persistedFillSchema f =
     (OrderFillSchema f \<and> length (fillId f) \<le> 128 \<and> length (fillOrderId f) \<le> 128
      \<and> opt_all (\<lambda>i. length i \<le> 128) (matchedOrderId f) \<and> length (counterparty f) \<le> 128)"

record QuantTradingRoundEvidence =
  trRound :: nat
  trFairValue :: rat
  trMarketEvents :: "MarketUpdate list"
  trOrderFlowType :: OrderFlowType
  trIncomingMarketSide :: "OrderSide option"
  trStudentFills :: "OrderFill list"
  trPortfolio :: QuantTradingPortfolio
  trRiskBreached :: bool
  trRiskReason :: "string option"
  trAccountingInvariantHolds :: bool
  trRngDrawCount :: nat

definition opposite :: "OrderSide \<Rightarrow> OrderSide" where
  "opposite s = (if s = BUY then SELL else BUY)"

definition QuantTradingRoundEvidenceSchema :: "QuantTradingRoundEvidence \<Rightarrow> bool" where
  "QuantTradingRoundEvidenceSchema v =
     (roundSchema (trRound v) \<and> 0 < trFairValue v
      \<and> list_all MarketUpdateSchema (trMarketEvents v) \<and> length (trMarketEvents v) \<le> 16
      \<and> list_all persistedFillSchema (trStudentFills v) \<and> length (trStudentFills v) \<le> 64
      \<and> QuantTradingPortfolioSchema (trPortfolio v)
      \<and> opt_all (str_between 1 240) (trRiskReason v) \<and> isSafeNat (trRngDrawCount v)
      \<and> trRiskBreached v = (trRiskReason v \<noteq> None)
      \<and> list_all (\<lambda>e. muRound e = trRound v) (trMarketEvents v)
      \<and> \<not> (trOrderFlowType v = NO_TRADE
            \<and> (trIncomingMarketSide v \<noteq> None \<or> length (trStudentFills v) \<noteq> 0))
      \<and> \<not> (trOrderFlowType v = NOISE \<and> trIncomingMarketSide v = None)
      \<and> \<not> (trIncomingMarketSide v = None \<and> length (trStudentFills v) \<noteq> 0)
      \<and> opt_all (\<lambda>s. list_all (\<lambda>f. fillSide f = opposite s) (trStudentFills v))
          (trIncomingMarketSide v))"

datatype TradingCompletionStatus = Trading_COMPLETED | RISK_STOPPED

record QuantTradingResult =
  qrFamily :: QuantTradingFamily
  qrVersion :: string
  qrSeed :: nat
  qrCompletionStatus :: TradingCompletionStatus
  qrPlannedRounds :: nat
  qrRoundsCompleted :: nat
  qrCompletionRate :: rat
  qrFinalFairValue :: rat
  qrFinalPortfolio :: QuantTradingPortfolio
  qrTradeCount :: nat
  qrFillVolume :: nat
  qrAverageSpread :: rat
  qrQuoteParticipationRate :: rat
  qrRiskBreaches :: "RiskBreach list"
  qrInformedFlowCount :: nat
  qrNoiseFlowCount :: nat
  qrAdverseSelectionPnL :: rat
  qrAccountingInvariantHolds :: bool
  qrObjectiveScore :: nat

text \<open>\<^verbatim>\<open>result.completionRate !== roundsCompleted / plannedRounds\<close>, the division rounded.\<close>

definition completionRateOk :: "QuantTradingResult \<Rightarrow> bool" where
  "completionRateOk r =
     (js_div (of_nat (qrRoundsCompleted r)) (of_nat (qrPlannedRounds r)) = Some (qrCompletionRate r))"

definition QuantTradingResultSchema :: "QuantTradingResult \<Rightarrow> bool" where
  "QuantTradingResultSchema r =
     (let latest = (if qrCompletionStatus r = RISK_STOPPED
                    then min (qrPlannedRounds r) (qrRoundsCompleted r + 1)
                    else qrRoundsCompleted r) in
      qrVersion r = ''1.0.0'' \<and> seedSchema (qrSeed r) \<and> roundSchema (qrPlannedRounds r)
      \<and> qrRoundsCompleted r \<le> 256 \<and> unitInterval (qrCompletionRate r)
      \<and> 0 < qrFinalFairValue r \<and> QuantTradingPortfolioSchema (qrFinalPortfolio r)
      \<and> isSafeNat (qrTradeCount r) \<and> isSafeNat (qrFillVolume r) \<and> 0 \<le> qrAverageSpread r
      \<and> unitInterval (qrQuoteParticipationRate r)
      \<and> list_all (\<lambda>b. roundSchema (rbRound b) \<and> str_between 1 240 (rbReason b)) (qrRiskBreaches r)
      \<and> length (qrRiskBreaches r) \<le> 256
      \<and> isSafeNat (qrInformedFlowCount r) \<and> isSafeNat (qrNoiseFlowCount r)
      \<and> qrObjectiveScore r \<le> 100
      \<and> qrRoundsCompleted r \<le> qrPlannedRounds r \<and> completionRateOk r
      \<and> \<not> (qrCompletionStatus r = Trading_COMPLETED \<and> qrRoundsCompleted r \<noteq> qrPlannedRounds r)
      \<and> qrTradeCount r = pfTradeCount (qrFinalPortfolio r)
      \<and> qrInformedFlowCount r + qrNoiseFlowCount r \<le> qrRoundsCompleted r
      \<and> \<not> (qrCompletionStatus r = RISK_STOPPED \<and> length (qrRiskBreaches r) = 0)
      \<and> list_all (\<lambda>b. rbRound b \<le> latest) (qrRiskBreaches r))"

end
