(* ===== verification/Events.thy ===== *)
theory Events
  imports BoardDomain QuantEvents
begin

text \<open>
  The session event log of \<^verbatim>\<open>packages/events/src/schemas.ts\<close>: one constructor per event type
  with the payload it carries, the metadata every event has, and \<open>SessionEventSchema\<close>, the
  checks that \<^verbatim>\<open>SessionEventSchema.parse\<close> makes beyond field types. The ISO timestamp check is
  zod's own code and is a parameter, \<open>isoDatetime\<close>.
\<close>

definition CURRENT_EVENT_SCHEMA_VERSION :: nat where
  "CURRENT_EVENT_SCHEMA_VERSION = 3"

datatype EventSource =
    Source_APPLICATION | Source_USER | Source_PROVIDER | Source_RENDERER | Source_WORKER
  | Source_RECOVERY

datatype Modality = SPEECH | TYPING | Modality_WHITEBOARD

datatype BridgeDecision = NO_PROPOSAL | PROPOSAL

record VisionRequestPayload =
  vpVisionRequestId :: RequestId
  vpSourceBoardRevision :: Revision
  vpRegionId :: string
  vpRelevantShapeIds :: "string list"
  vpSnapshotBasis :: "VisionSnapshotBasis option"
  vpRelevantShapeRevisions :: "VisionShapeRevisionBinding list option"
  vpRegionBounds :: "Bounds option"
  vpRequestedObservationKind :: "VisionRequestedObservationKind option"

text \<open>
  \<^verbatim>\<open>evidenceInterpreterFingerprint\<close> is absent, \<^verbatim>\<open>null\<close> or a fingerprint: a nested option.
\<close>

record VisionAcceptPayload =
  vaVisionRequestId :: RequestId
  vaObservation :: BoardObservation
  vaAdmission :: "AcceptedBoardObservation option"
  vaEvidenceInterpreterFingerprint :: "string option option"

record VerificationRequestPayload =
  vqVerificationRequestId :: RequestId
  vqVerifier :: string
  vqBasis :: GenerationBasis
  vqCandidateFormalInterpretation :: string
  vqInterpretationConfidence :: rat
  vqEvidenceKey :: EvidenceKey
  vqEvidenceEventIds :: "EventId list"
  vqBoardRevisionIndependent :: bool
  vqSourceGenerationId :: "GenerationId option"
  vqSourceProposalRequestId :: "RequestId option"

datatype (plugins only: code size) EventBody =
    SESSION_STARTED string "InterviewSessionConfiguration option" "SessionConfigurationSource option"
  | PROBLEM_PRESENTED string string string "string option"
  | QUANT_TRADING_SCENARIO_INITIALIZED QuantTradingScenarioDefinition
  | QUANT_TRADING_ACTION_ACCEPTED QuantTradingCandidateAction
  | QUANT_TRADING_ROUND_RESOLVED QuantTradingRoundEvidence
  | QUANT_TRADING_SCENARIO_COMPLETED QuantTradingResult
  | QUANT_RESEARCH_SCENARIO_INITIALIZED QuantResearchScenarioDefinition QuantResearchAuthoritativeSnapshot
  | QUANT_RESEARCH_ACTION_ACCEPTED QuantResearchAction
  | QUANT_RESEARCH_SCENARIO_COMPLETED QuantResearchResult
  | UTTERANCE_STARTED UtteranceId
  | UTTERANCE_DISCARDED UtteranceId string
  | INPUT_EPISODE_STARTED InputEpisodeId
  | INPUT_EPISODE_UPDATED InputEpisodeId Modality string
  | INPUT_EPISODE_COMMITTED InputEpisodeId
  | TURN_COMMITTED TurnId InputEpisodeId string
  | TRANSCRIPT_FINALIZED UtteranceId InputEpisodeId Revision string
  | TRANSCRIPT_CORRECTED Revision Revision string
  | BOARD_PATCH_COMMITTED Revision string "NormalizedBoardMutation option"
  | VISION_REQUESTED VisionRequestPayload
  | VISION_RESULT_ACCEPTED VisionAcceptPayload
  | VISION_EVIDENCE_BRIDGE_DECIDED RequestId string BridgeDecision "EvidenceProposal option"
  | VISION_EVIDENCE_BRIDGE_COMPLETED RequestId string bool
  | VISION_RESULT_DISCARDED RequestId string
  | LOCAL_COMPUTE_REQUESTED RequestId InputEpisodeId Revision
  | LOCAL_COMPUTE_RESULT_ACCEPTED RequestId Revision string nat
  | LOCAL_COMPUTE_RESULT_DISCARDED RequestId string
  | VERIFICATION_REQUESTED VerificationRequestPayload
  | VERIFICATION_RESULT_ACCEPTED RequestId VerificationResult
  | VERIFICATION_RESULT_DISCARDED RequestId string
  | EVIDENCE_PROPOSED EvidenceProposal
  | STUDENT_EVIDENCE_UPDATED EvidenceKey EvidenceValue "EventId option"
  | STUDENT_EVIDENCE_INVALIDATED EvidenceKey EventId string
  | PEDAGOGICAL_ACTION_SELECTED TurnId RealizationRequest
  | MODEL_GENERATION_STARTED GenerationId GenerationBasis string
  | GENERATION_CONTEXT_COMPILED GenerationId ContextCompilationManifest
  | MODEL_PROPOSAL_RECEIVED GenerationId InterviewerProposal
  | FORMAL_INTERPRETATION_PROPOSAL_RECEIVED GenerationId RequestId FormalInterpretationProposal
  | FORMAL_INTERPRETATION_PROPOSAL_REJECTED GenerationId string
  | MODEL_GENERATION_SUPERSEDED GenerationId string
  | PROPOSAL_VALIDATED GenerationId DisclosureAnalysis
  | PROPOSAL_REJECTED GenerationId string
  | DELIVERY_QUEUED DeliveryAtom
  | DELIVERY_STARTED DeliveryId
  | DELIVERY_EXPOSED DeliveryId
  | DELIVERY_COMPLETED DeliveryId
  | DELIVERY_CANCELLED DeliveryId string
  | DELIVERY_POSSIBLY_EXPOSED DeliveryId string
  | POLICY_REVISION_CHANGED Revision Revision string
  | PROBLEM_STATE_REVISION_CHANGED Revision Revision string
  | SESSION_COMPLETED string "string option"
  | SESSION_ARCHIVED string "string option"
  | SESSION_RESUMED string

record EventDraft =
  draftSource :: EventSource
  draftBody :: EventBody

record SessionEvent =
  eventId :: EventId
  eventSessionId :: SessionId
  eventSequence :: nat
  eventSource :: EventSource
  wallTime :: string
  elapsedMs :: nat
  causationId :: RequestId
  correlationId :: RequestId
  body :: EventBody

section \<open>Payload checks\<close>

definition VisionRequestPayloadSchema :: "VisionRequestPayload \<Rightarrow> bool" where
  "VisionRequestPayloadSchema r =
     (let bindings = (case vpRelevantShapeRevisions r of None \<Rightarrow> [] | Some bs \<Rightarrow> map bindingShapeId bs);
          provenance = [vpSnapshotBasis r \<noteq> None, vpRelevantShapeRevisions r \<noteq> None,
                        vpRegionBounds r \<noteq> None, vpRequestedObservationKind r \<noteq> None];
          extended = length (filter id provenance) in
      idSchema (vpVisionRequestId r) \<and> revisionSchema (vpSourceBoardRevision r)
      \<and> str_between 1 128 (vpRegionId r)
      \<and> list_all BoardShapeIdSchema (vpRelevantShapeIds r)
      \<and> 1 \<le> length (vpRelevantShapeIds r) \<and> length (vpRelevantShapeIds r) \<le> 64
      \<and> opt_all VisionSnapshotBasisSchema (vpSnapshotBasis r)
      \<and> opt_all (\<lambda>bs. list_all VisionShapeRevisionBindingSchema bs \<and> length bs \<le> 64)
          (vpRelevantShapeRevisions r)
      \<and> opt_all VisionBoundsSchema (vpRegionBounds r)
      \<and> allDistinct (vpRelevantShapeIds r)
      \<and> opt_all (\<lambda>b. snapshotSourceBoardRevision b = vpSourceBoardRevision r) (vpSnapshotBasis r)
      \<and> (vpRelevantShapeRevisions r \<noteq> None \<longrightarrow>
           allDistinct bindings
           \<and> length bindings = length (remdups (vpRelevantShapeIds r))
           \<and> list_all (\<lambda>i. i \<in> set (vpRelevantShapeIds r)) bindings)
      \<and> (extended = 0 \<or> extended = 4))"

definition VisionAcceptPayloadSchema :: "VisionAcceptPayload \<Rightarrow> bool" where
  "VisionAcceptPayloadSchema v =
     (idSchema (vaVisionRequestId v) \<and> BoardObservationSchema (vaObservation v)
      \<and> opt_all AcceptedBoardObservationSchema (vaAdmission v)
      \<and> opt_all (opt_all isSha256Hex) (vaEvidenceInterpreterFingerprint v)
      \<and> \<not> (vaEvidenceInterpreterFingerprint v \<noteq> None \<and> vaAdmission v = None))"

definition VerificationRequestPayloadSchema :: "VerificationRequestPayload \<Rightarrow> bool" where
  "VerificationRequestPayloadSchema v =
     (idSchema (vqVerificationRequestId v) \<and> nonempty (vqVerifier v)
      \<and> GenerationBasisSchema (vqBasis v)
      \<and> str_between 1 100000 (vqCandidateFormalInterpretation v)
      \<and> unitInterval (vqInterpretationConfidence v) \<and> EvidenceKeySchema (vqEvidenceKey v)
      \<and> list_all idSchema (vqEvidenceEventIds v) \<and> 1 \<le> length (vqEvidenceEventIds v)
      \<and> opt_all idSchema (vqSourceGenerationId v) \<and> opt_all idSchema (vqSourceProposalRequestId v)
      \<and> \<not> (vqBoardRevisionIndependent v \<and> vqSourceGenerationId v \<noteq> None))"

text \<open>\<^verbatim>\<open>ProviderRuntimeNameSchema\<close> trims its input; a value of the schema is trimmed.\<close>

definition ProviderRuntimeNameSchema :: "string \<Rightarrow> bool" where
  "ProviderRuntimeNameSchema s =
     (s = js_trim s \<and> str_between 1 128 s \<and> js_alnum (hd s)
      \<and> list_all (\<lambda>c. js_alnum c \<or> c \<in> set ''._:/-'') s)"

primrec payloadSchema :: "(string \<Rightarrow> bool) \<Rightarrow> EventBody \<Rightarrow> bool" where
  "payloadSchema dt (SESSION_STARTED t c s) =
     (dt t \<and> opt_all InterviewSessionConfigurationSchema c)"
| "payloadSchema dt (PROBLEM_PRESENTED i v p f) =
     (nonempty i \<and> nonempty v \<and> nonempty p \<and> opt_all isSha256Hex f)"
| "payloadSchema dt (QUANT_TRADING_SCENARIO_INITIALIZED d) = QuantTradingScenarioDefinitionSchema d"
| "payloadSchema dt (QUANT_TRADING_ACTION_ACCEPTED a) = QuantTradingCandidateActionSchema a"
| "payloadSchema dt (QUANT_TRADING_ROUND_RESOLVED e) = QuantTradingRoundEvidenceSchema e"
| "payloadSchema dt (QUANT_TRADING_SCENARIO_COMPLETED r) = QuantTradingResultSchema r"
| "payloadSchema dt (QUANT_RESEARCH_SCENARIO_INITIALIZED d s) =
     (QuantResearchScenarioDefinitionSchema d \<and> QuantResearchAuthoritativeSnapshotSchema s)"
| "payloadSchema dt (QUANT_RESEARCH_ACTION_ACCEPTED a) = QuantResearchActionSchema a"
| "payloadSchema dt (QUANT_RESEARCH_SCENARIO_COMPLETED r) =
     (QuantResearchResultSchema r \<and> rsStatus r = Research_COMPLETE)"
| "payloadSchema dt (UTTERANCE_STARTED u) = idSchema u"
| "payloadSchema dt (UTTERANCE_DISCARDED u r) = (idSchema u \<and> nonempty r)"
| "payloadSchema dt (INPUT_EPISODE_STARTED e) = idSchema e"
| "payloadSchema dt (INPUT_EPISODE_UPDATED e m c) = (idSchema e \<and> nonempty c)"
| "payloadSchema dt (INPUT_EPISODE_COMMITTED e) = idSchema e"
| "payloadSchema dt (TURN_COMMITTED t e s) = (idSchema t \<and> idSchema e \<and> nonempty s)"
| "payloadSchema dt (TRANSCRIPT_FINALIZED u e r t) =
     (idSchema u \<and> idSchema e \<and> revisionSchema r \<and> nonempty t)"
| "payloadSchema dt (TRANSCRIPT_CORRECTED r c t) =
     (revisionSchema r \<and> revisionSchema c \<and> nonempty t)"
| "payloadSchema dt (BOARD_PATCH_COMMITTED r s m) =
     (revisionSchema r \<and> nonempty s \<and> opt_all NormalizedBoardMutationSchema m)"
| "payloadSchema dt (VISION_REQUESTED p) = VisionRequestPayloadSchema p"
| "payloadSchema dt (VISION_RESULT_ACCEPTED p) = VisionAcceptPayloadSchema p"
| "payloadSchema dt (VISION_EVIDENCE_BRIDGE_DECIDED i f d p) =
     (idSchema i \<and> isSha256Hex f \<and> opt_all EvidenceProposalSchema p
      \<and> (d = PROPOSAL) = (p \<noteq> None))"
| "payloadSchema dt (VISION_EVIDENCE_BRIDGE_COMPLETED i f c) = (idSchema i \<and> isSha256Hex f)"
| "payloadSchema dt (VISION_RESULT_DISCARDED i r) = (idSchema i \<and> str_between 1 240 r)"
| "payloadSchema dt (LOCAL_COMPUTE_REQUESTED i e r) = (idSchema i \<and> idSchema e \<and> revisionSchema r)"
| "payloadSchema dt (LOCAL_COMPUTE_RESULT_ACCEPTED i r t n) =
     (idSchema i \<and> revisionSchema r \<and> isSafeNat n)"
| "payloadSchema dt (LOCAL_COMPUTE_RESULT_DISCARDED i r) = (idSchema i \<and> nonempty r)"
| "payloadSchema dt (VERIFICATION_REQUESTED p) = VerificationRequestPayloadSchema p"
| "payloadSchema dt (VERIFICATION_RESULT_ACCEPTED i r) = (idSchema i \<and> VerificationResultSchema r)"
| "payloadSchema dt (VERIFICATION_RESULT_DISCARDED i r) = (idSchema i \<and> nonempty r)"
| "payloadSchema dt (EVIDENCE_PROPOSED p) = EvidenceProposalSchema p"
| "payloadSchema dt (STUDENT_EVIDENCE_UPDATED k v s) =
     (EvidenceKeySchema k \<and> EvidenceValueSchema v \<and> opt_all idSchema s)"
| "payloadSchema dt (STUDENT_EVIDENCE_INVALIDATED k i r) =
     (EvidenceKeySchema k \<and> idSchema i \<and> nonempty r)"
| "payloadSchema dt (PEDAGOGICAL_ACTION_SELECTED t r) = (idSchema t \<and> RealizationRequestSchema r)"
| "payloadSchema dt (MODEL_GENERATION_STARTED g b p) =
     (idSchema g \<and> GenerationBasisSchema b \<and> ProviderRuntimeNameSchema p)"
| "payloadSchema dt (GENERATION_CONTEXT_COMPILED g m) =
     (idSchema g \<and> ContextCompilationManifestSchema m)"
| "payloadSchema dt (MODEL_PROPOSAL_RECEIVED g p) = (idSchema g \<and> InterviewerProposalSchema p)"
| "payloadSchema dt (FORMAL_INTERPRETATION_PROPOSAL_RECEIVED g r p) =
     (idSchema g \<and> idSchema r \<and> FormalInterpretationProposalSchema p)"
| "payloadSchema dt (FORMAL_INTERPRETATION_PROPOSAL_REJECTED g r) = (idSchema g \<and> nonempty r)"
| "payloadSchema dt (MODEL_GENERATION_SUPERSEDED g r) = (idSchema g \<and> nonempty r)"
| "payloadSchema dt (PROPOSAL_VALIDATED g a) = (idSchema g \<and> DisclosureAnalysisSchema a)"
| "payloadSchema dt (PROPOSAL_REJECTED g r) = (idSchema g \<and> nonempty r)"
| "payloadSchema dt (DELIVERY_QUEUED a) = DeliveryAtomSchema a"
| "payloadSchema dt (DELIVERY_STARTED d) = idSchema d"
| "payloadSchema dt (DELIVERY_EXPOSED d) = idSchema d"
| "payloadSchema dt (DELIVERY_COMPLETED d) = idSchema d"
| "payloadSchema dt (DELIVERY_CANCELLED d r) = (idSchema d \<and> nonempty r)"
| "payloadSchema dt (DELIVERY_POSSIBLY_EXPOSED d r) = (idSchema d \<and> nonempty r)"
| "payloadSchema dt (POLICY_REVISION_CHANGED p c r) =
     (revisionSchema p \<and> revisionSchema c \<and> nonempty r)"
| "payloadSchema dt (PROBLEM_STATE_REVISION_CHANGED p c r) =
     (revisionSchema p \<and> revisionSchema c \<and> nonempty r)"
| "payloadSchema dt (SESSION_COMPLETED t s) = (dt t \<and> opt_all nonempty s)"
| "payloadSchema dt (SESSION_ARCHIVED t r) = (dt t \<and> opt_all nonempty r)"
| "payloadSchema dt (SESSION_RESUMED t) = dt t"

definition SessionEventSchema :: "(string \<Rightarrow> bool) \<Rightarrow> SessionEvent \<Rightarrow> bool" where
  "SessionEventSchema dt e =
     (idSchema (eventId e) \<and> idSchema (eventSessionId e)
      \<and> PositiveSafeInteger (eventSequence e) \<and> dt (wallTime e) \<and> isSafeNat (elapsedMs e)
      \<and> idSchema (causationId e) \<and> idSchema (correlationId e) \<and> payloadSchema dt (body e))"

end
