(* ===== verification/SessionState.thy ===== *)
theory SessionState
  imports Events
begin

text \<open>
  The replayed state of a session, \<^verbatim>\<open>packages/events/src/state.ts\<close>: one record per entity, the
  dictionaries that hold them and \<open>initialSessionState\<close>; and the generation compatibility check
  of \<^verbatim>\<open>generation-compatibility.ts\<close>.
\<close>

section \<open>Entities\<close>

datatype EpisodeStatus = Episode_ACTIVE | Episode_COMMITTED

record InputEpisodeState =
  epInputEpisodeId :: InputEpisodeId
  epStatus :: EpisodeStatus
  epInputs :: "(Modality \<times> string) list"

record TurnState =
  tnTurnId :: TurnId
  tnInputEpisodeId :: InputEpisodeId
  tnStudentText :: string
  tnCommittedSequence :: nat

datatype UtteranceStatus = CAPTURING | Utterance_DISCARDED | FINALIZED

record UtteranceState =
  utUtteranceId :: UtteranceId
  utStatus :: UtteranceStatus
  utInputEpisodeId :: "InputEpisodeId option"
  utText :: "string option"

text \<open>Status \<^verbatim>\<open>PENDING\<close>, \<^verbatim>\<open>ACCEPTED\<close>, \<^verbatim>\<open>DISCARDED\<close> of the three kinds of asynchronous request.\<close>

datatype RequestStatus = PENDING | ACCEPTED | DISCARDED

datatype VisionEvidenceBridgeState =
    SKIPPED_NO_INTERPRETER
  | Bridge_PENDING string
  | Decided_NO_PROPOSAL string EventId
  | Decided_PROPOSAL string EvidenceProposal EventId
  | Bridge_COMPLETED string EvidenceProposal EventId bool EventId

record VisionRequestState =
  vsVisionRequestId :: RequestId
  vsSourceBoardRevision :: Revision
  vsRegionId :: string
  vsRelevantShapeIds :: "string list"
  vsSnapshotBasis :: "VisionSnapshotBasis option"
  vsRelevantShapeRevisions :: "VisionShapeRevisionBinding list option"
  vsRegionBounds :: "Bounds option"
  vsRequestedObservationKind :: "VisionRequestedObservationKind option"
  vsStatus :: RequestStatus
  vsObservation :: "BoardObservation option"
  vsAcceptedObservation :: "AcceptedBoardObservation option"
  vsResultEventId :: "EventId option"
  vsResultSequence :: "nat option"
  vsEvidenceBridge :: "VisionEvidenceBridgeState option"
  vsDiscardReason :: "string option"

record LocalComputeRequestState =
  lcComputeRequestId :: RequestId
  lcInputEpisodeId :: InputEpisodeId
  lcSourceTranscriptRevision :: Revision
  lcStatus :: RequestStatus
  lcResult :: "(string \<times> nat) option"
  lcDiscardReason :: "string option"

record VerificationRequestState =
  vfRequest :: VerificationRequestPayload
  vfRequestedEventId :: EventId
  vfStatus :: RequestStatus
  vfResult :: "VerificationResult option"
  vfResultEventId :: "EventId option"
  vfResultSequence :: "nat option"
  vfDiscardReason :: "string option"

datatype EvidenceRecordStatus = Evidence_ACTIVE | Evidence_SUPERSEDED | Evidence_STALE

record EvidenceRecordState =
  erEvidenceEventId :: EventId
  erKey :: EvidenceKey
  erValue :: EvidenceValue
  erStatus :: EvidenceRecordStatus
  erSupersededByEventId :: "EventId option"
  erInvalidationReason :: "string option"

record QuantTradingSessionState =
  qtDefinition :: QuantTradingScenarioDefinition
  qtPendingAction :: "QuantTradingCandidateAction option"
  qtActions :: "QuantTradingCandidateAction list"
  qtRounds :: "QuantTradingRoundEvidence list"
  qtResult :: "QuantTradingResult option"

record QuantResearchSessionState =
  qsDefinition :: QuantResearchScenarioDefinition
  qsAuthoritativeSnapshot :: QuantResearchAuthoritativeSnapshot
  qsActions :: "QuantResearchAction list"
  qsResult :: "QuantResearchResult option"

datatype GenerationStatus =
    Gen_ACTIVE | Gen_PROPOSAL_RECEIVED | Gen_VALIDATED | Gen_REJECTED | Gen_SUPERSEDED

record GenerationState =
  gnGenerationId :: GenerationId
  gnBasis :: GenerationBasis
  gnProvider :: string
  gnPedagogicalAction :: "RealizationRequest option"
  gnInterviewerProposalValidated :: bool
  gnValidatedInterviewerProposal :: "InterviewerProposal option"
  gnStatus :: GenerationStatus
  gnContextManifest :: "ContextCompilationManifest option"
  gnProposal :: "InterviewerProposal option"
  gnFormalInterpretationProposal :: "FormalInterpretationProposal option"

record ProblemState =
  pbId :: string
  pbVersion :: string
  pbPrompt :: string
  pbProviderContextSpecSha256 :: "string option"

section \<open>The session\<close>

datatype SessionStatus = Session_CREATED | Session_ACTIVE | Session_COMPLETED | Session_ARCHIVED

record SessionState =
  sessionId :: SessionId
  sequence :: nat
  started :: bool
  sessionStatus :: SessionStatus
  configuration :: "InterviewSessionConfiguration option"
  completedAt :: "string option"
  archivedAt :: "string option"
  completionSummary :: "string option"
  archivalReason :: "string option"
  problem :: "ProblemState option"
  contextEpoch :: Revision
  transcriptRevision :: Revision
  boardRevision :: Revision
  boardShapeAuthorityKnown :: bool
  boardShapes :: "AuthoritativeStudentShape dict"
  problemStateRevision :: Revision
  policyRevision :: Revision
  lastCommittedInputSequence :: "nat option"
  quantTrading :: "QuantTradingSessionState option"
  quantResearch :: "QuantResearchSessionState option"
  eventIds :: "EventId list"
  utterances :: "UtteranceState dict"
  inputEpisodes :: "InputEpisodeState dict"
  turns :: "TurnState dict"
  generations :: "GenerationState dict"
  pedagogicalActions :: "RealizationRequest dict"
  deliveries :: "DeliveryAtom dict"
  disclosureLedger :: "DisclosureId list"
  visionRequests :: "VisionRequestState dict"
  localComputeRequests :: "LocalComputeRequestState dict"
  verificationRequests :: "VerificationRequestState dict"
  evidenceProposals :: "EvidenceProposal list"
  studentEvidence :: "EvidenceValue dict"
  evidenceHistory :: "EvidenceRecordState list dict"

definition initialSessionState :: "SessionId \<Rightarrow> SessionState" where
  "initialSessionState sid =
     \<lparr> sessionId = sid, sequence = 0, started = False, sessionStatus = Session_CREATED,
       configuration = None, completedAt = None, archivedAt = None, completionSummary = None,
       archivalReason = None, problem = None, contextEpoch = 0, transcriptRevision = 0,
       boardRevision = 0, boardShapeAuthorityKnown = True, boardShapes = [],
       problemStateRevision = 0, policyRevision = 0, lastCommittedInputSequence = None,
       quantTrading = None, quantResearch = None, eventIds = [], utterances = [],
       inputEpisodes = [], turns = [], generations = [], pedagogicalActions = [],
       deliveries = [], disclosureLedger = [], visionRequests = [], localComputeRequests = [],
       verificationRequests = [], evidenceProposals = [], studentEvidence = [],
       evidenceHistory = [] \<rparr>"

section \<open>Generation compatibility\<close>

definition isGenerationBasisStillCompatible :: "GenerationBasis \<Rightarrow> SessionState \<Rightarrow> Compatibility" where
  "isGenerationBasisStillCompatible basis current =
     (case (dget (turns current) (gbTurnId basis), lastCommittedInputSequence current) of
        (Some turn, Some lastSequence) \<Rightarrow>
          (if gbInputEpisodeId basis \<noteq> None
              \<and> dget (inputEpisodes current) (the (gbInputEpisodeId basis)) = None then UNKNOWN
           else if gbInputEpisodeId basis \<noteq> None
              \<and> tnInputEpisodeId turn \<noteq> the (gbInputEpisodeId basis) then INCOMPATIBLE
           else if gbContextEpoch basis \<noteq> contextEpoch current
              \<or> gbCommittedInputSequence basis \<noteq> lastSequence
              \<or> gbTranscriptRevision basis \<noteq> transcriptRevision current
              \<or> gbBoardRevision basis \<noteq> boardRevision current
              \<or> gbProblemStateRevision basis \<noteq> problemStateRevision current
              \<or> gbPolicyRevision basis \<noteq> policyRevision current then INCOMPATIBLE
           else COMPATIBLE)
      | _ \<Rightarrow> UNKNOWN)"

lemma compatible_iff:
  "isGenerationBasisStillCompatible b s = COMPATIBLE \<longleftrightarrow>
     (\<exists>turn. dget (turns s) (gbTurnId b) = Some turn
        \<and> (\<forall>e. gbInputEpisodeId b = Some e \<longrightarrow>
              dget (inputEpisodes s) e \<noteq> None \<and> tnInputEpisodeId turn = e))
     \<and> lastCommittedInputSequence s = Some (gbCommittedInputSequence b)
     \<and> contextEpoch s = gbContextEpoch b \<and> transcriptRevision s = gbTranscriptRevision b
     \<and> boardRevision s = gbBoardRevision b \<and> problemStateRevision s = gbProblemStateRevision b
     \<and> policyRevision s = gbPolicyRevision b"
  by (auto simp: isGenerationBasisStillCompatible_def split: option.splits if_splits)

end
