(* ===== verification/ReducerCore.thy ===== *)
theory ReducerCore
  imports SessionState
begin

text \<open>
  First part of the state transition of \<^verbatim>\<open>packages/events/src/reducer.ts\<close>: one definition per
  \<^verbatim>\<open>case\<close> of the source's switch, every \<^verbatim>\<open>throw\<close> a constructor of \<open>ReduceError\<close>. Here: the
  sequence check, delivery and generation helpers, session start, quant trading and research,
  candidate input and the board.
\<close>

datatype (plugins only: code size) ReduceError =
    SessionMismatch | ExpectedSequence nat nat
  | UnknownDelivery string | InvalidDeliveryTransition DeliveryStatus DeliveryStatus
  | UnknownGeneration string
  | SessionAlreadyStarted | ProblemAlreadyBound | QuantTradingCannotBindProblem
  | ProblemIdentityMismatch
  | TradingAlreadyInitialized | ResearchOnTradingSession | TradingWithProblemState
  | TradingInitializationMismatch | TradingNotInitialized | TradingActionNotAcceptable
  | TradingScenarioComplete | TradingRoundRequiresAction | TradingRoundLimit
  | TradingRoundNotContiguous | TradingPassProducedFills | TradingBuyFillMismatch
  | TradingSellFillMismatch | TradingFillVolumeExceeded | TradingCompleteOrUnresolved
  | TradingResultMismatch
  | ResearchAlreadyInitialized | TradingOnResearchSession | ResearchInitializationMismatch
  | ResearchNotInitialized | ResearchNotActive | ResearchActionLimit | ResearchActionDuplicate
  | ResearchResultMismatch
  | UtteranceNotCaptured | EpisodeNotActive
  | BoardRevisionNotNext | BoardAuthorityUnknown | BoardMutationBasisMismatch
  | BoardAddExisting | BoardUpdateStale | BoardDeleteStale
  | VisionRequestExists | VisionNotPending | VisionBasisMismatch | VisionDependencyMismatch
  | VisionProvenanceIncomplete | VisionIdentityMismatch | VisionSnapshotMismatch
  | VisionShapeRevisionMismatch | VisionBoundsMismatch | VisionKindMismatch
  | BridgeNotPending | BridgeFingerprintMismatch | BridgeProposalInvalid | BridgeNotDecided
  | BridgeNoAdmissionAttempt | BridgeEvidenceMismatch
  | ComputeRequestExists | ComputeNotPending | ComputeBasisMismatch
  | VerificationRequestExists | VerificationNotPending | VerificationMismatch
  | EvidenceSequenceMismatch | EvidenceMultipleActive | EvidenceSupersedesMissing
  | EvidenceSupersedeRequired | EvidenceInvalidationMismatch
  | ContextRequiresActiveGeneration | ContextAlreadyCompiled | ContextManifestMismatch
  | OnlyValidatedQueued
  | QuantCompleteOnlyActive | QuantUnresolvedInput | TradingSessionIncomplete
  | ResearchSessionIncomplete | LegacyQuantArchive | LegacyQuantArchiveInput
  | QuantArchiveIncomplete

type_synonym 'a reduced = "(ReduceError, 'a) result"

section \<open>Guards and deliveries\<close>

definition assertSequence :: "SessionState \<Rightarrow> SessionEvent \<Rightarrow> unit reduced" where
  "assertSequence st ev =
     (if eventSessionId ev \<noteq> sessionId st then Inl SessionMismatch
      else if eventSequence ev \<noteq> sequence st + 1
        then Inl (ExpectedSequence (sequence st + 1) (eventSequence ev))
      else Inr ())"

fun allowedTransitions :: "DeliveryStatus \<Rightarrow> DeliveryStatus list" where
  "allowedTransitions Delivery_VALIDATED = [Delivery_QUEUED]"
| "allowedTransitions Delivery_QUEUED = [Delivery_DELIVERING, Delivery_CANCELLED]"
| "allowedTransitions Delivery_DELIVERING = [Delivery_EXPOSED, Delivery_POSSIBLY_EXPOSED]"
| "allowedTransitions Delivery_EXPOSED = [Delivery_COMPLETED]"
| "allowedTransitions Delivery_COMPLETED = []"
| "allowedTransitions Delivery_CANCELLED = []"
| "allowedTransitions Delivery_POSSIBLY_EXPOSED = [Delivery_EXPOSED]"

definition withDeliveryStatus :: "SessionState \<Rightarrow> DeliveryId \<Rightarrow> DeliveryStatus \<Rightarrow> SessionState reduced" where
  "withDeliveryStatus st did status =
     (case dget (deliveries st) did of
        None \<Rightarrow> Inl (UnknownDelivery did)
      | Some current \<Rightarrow>
          if status \<notin> set (allowedTransitions (atomStatus current))
          then Inl (InvalidDeliveryTransition (atomStatus current) status)
          else Inr (st\<lparr> deliveries := dput did (current\<lparr> atomStatus := status \<rparr>) (deliveries st),
                        disclosureLedger :=
                          (if isDisclosedStatus status
                           then uniq (disclosureLedger st @ disclosureIds current)
                           else disclosureLedger st) \<rparr>))"

definition updateGeneration ::
  "SessionState \<Rightarrow> GenerationId \<Rightarrow> (GenerationState \<Rightarrow> GenerationState) \<Rightarrow> SessionState reduced" where
  "updateGeneration st gid patch =
     (case dget (generations st) gid of
        None \<Rightarrow> Inl (UnknownGeneration gid)
      | Some current \<Rightarrow> Inr (st\<lparr> generations := dput gid (patch current) (generations st) \<rparr>))"

section \<open>Session start, problem and modes\<close>

definition reduce_SESSION_STARTED ::
  "SessionState \<Rightarrow> InterviewSessionConfiguration option \<Rightarrow> SessionState reduced" where
  "reduce_SESSION_STARTED st conf =
     (if started st then Inl SessionAlreadyStarted
      else Inr (st\<lparr> started := True, sessionStatus := Session_ACTIVE,
                    configuration := (case conf of None \<Rightarrow> configuration st | Some c \<Rightarrow> Some c) \<rparr>))"

definition reduce_PROBLEM_PRESENTED ::
  "SessionState \<Rightarrow> string \<Rightarrow> string \<Rightarrow> string \<Rightarrow> string option \<Rightarrow> SessionState reduced" where
  "reduce_PROBLEM_PRESENTED st pid pversion prompt fingerprint =
     (let bound = st\<lparr> problem := Some \<lparr> pbId = pid, pbVersion = pversion, pbPrompt = prompt,
                                       pbProviderContextSpecSha256 = fingerprint \<rparr> \<rparr>;
          matches = (\<lambda>t. if targetId t \<noteq> pid \<or> targetVersion t \<noteq> pversion
                         then Inl ProblemIdentityMismatch else Inr bound) in
      if problem st \<noteq> None then Inl ProblemAlreadyBound
      else (case configuration st of
              None \<Rightarrow> Inr bound
            | Some (QUANT_TRADING _ _) \<Rightarrow> Inl QuantTradingCannotBindProblem
            | Some (OXFORD_MATHEMATICS _ target _) \<Rightarrow> matches target
            | Some (QUANT_RESEARCH _ target) \<Rightarrow> matches target))"

definition isTradingMode :: "SessionState \<Rightarrow> bool" where
  "isTradingMode st = (case configuration st of Some (QUANT_TRADING _ _) \<Rightarrow> True | _ \<Rightarrow> False)"

definition isResearchMode :: "SessionState \<Rightarrow> bool" where
  "isResearchMode st = (case configuration st of Some (QUANT_RESEARCH _ _) \<Rightarrow> True | _ \<Rightarrow> False)"

section \<open>Quant trading\<close>

definition reduce_TRADING_INITIALIZED ::
  "SessionState \<Rightarrow> QuantTradingScenarioDefinition \<Rightarrow> SessionState reduced" where
  "reduce_TRADING_INITIALIZED st d =
     (if quantTrading st \<noteq> None then Inl TradingAlreadyInitialized
      else if quantResearch st \<noteq> None then Inl ResearchOnTradingSession
      else if problem st \<noteq> None then Inl TradingWithProblemState
      else if \<not> started st \<or> sessionStatus st \<noteq> Session_ACTIVE
         \<or> (case configuration st of
              Some (QUANT_TRADING _ scenario) \<Rightarrow>
                targetId scenario \<noteq> tradingFamilyName (tdFamily d)
                \<or> targetVersion scenario \<noteq> tdVersion d
            | _ \<Rightarrow> True) then Inl TradingInitializationMismatch
      else Inr (st\<lparr> quantTrading := Some \<lparr> qtDefinition = d, qtPendingAction = None,
                      qtActions = [], qtRounds = [], qtResult = None \<rparr> \<rparr>))"

definition reduce_TRADING_ACTION ::
  "SessionState \<Rightarrow> QuantTradingCandidateAction \<Rightarrow> SessionState reduced" where
  "reduce_TRADING_ACTION st action =
     (case quantTrading st of
        None \<Rightarrow> Inl TradingNotInitialized
      | Some qt \<Rightarrow>
          if sessionStatus st \<noteq> Session_ACTIVE \<or> qtResult qt \<noteq> None
             \<or> qtPendingAction qt \<noteq> None
             \<or> length (qtActions qt) \<noteq> length (qtRounds qt)
             \<or> 256 \<le> length (qtActions qt)
          then Inl TradingActionNotAcceptable
          else Inr (st\<lparr> quantTrading := Some (qt\<lparr> qtPendingAction := Some action \<rparr>) \<rparr>))"

text \<open>The loop over the fills: \<open>(bidFillVolume, askFillVolume)\<close> is carried along.\<close>

fun fillVolumes :: "QuotePair \<Rightarrow> OrderFill list \<Rightarrow> nat \<Rightarrow> nat \<Rightarrow> (nat \<times> nat) reduced" where
  "fillVolumes q [] bid ask = Inr (bid, ask)"
| "fillVolumes q (f # fs) bid ask =
     (if fillSide f = BUY
      then (if fillPrice f \<noteq> bidPrice q then Inl TradingBuyFillMismatch
            else fillVolumes q fs (bid + fillSize f) ask)
      else (if fillPrice f \<noteq> askPrice q then Inl TradingSellFillMismatch
            else fillVolumes q fs bid (ask + fillSize f)))"

definition checkFills :: "QuantTradingCandidateAction \<Rightarrow> OrderFill list \<Rightarrow> unit reduced" where
  "checkFills action fills =
     (case action of
        PASS \<Rightarrow> if length fills \<noteq> 0 then Inl TradingPassProducedFills else Inr ()
      | QUOTE q \<Rightarrow>
          bindE (fillVolumes q fills 0 0)
            (\<lambda>(bid, ask). if bidSize q < bid \<or> askSize q < ask
                          then Inl TradingFillVolumeExceeded else Inr ()))"

definition reduce_TRADING_ROUND ::
  "SessionState \<Rightarrow> QuantTradingRoundEvidence \<Rightarrow> SessionState reduced" where
  "reduce_TRADING_ROUND st evidence =
     (case quantTrading st of
        None \<Rightarrow> Inl TradingNotInitialized
      | Some qt \<Rightarrow>
          if sessionStatus st \<noteq> Session_ACTIVE \<or> qtResult qt \<noteq> None then Inl TradingScenarioComplete
          else (case qtPendingAction qt of
              None \<Rightarrow> Inl TradingRoundRequiresAction
            | Some action \<Rightarrow>
                if 256 \<le> length (qtRounds qt) then Inl TradingRoundLimit
                else if trRound evidence \<noteq> length (qtRounds qt) + 1
                   \<or> length (qtActions qt) \<noteq> length (qtRounds qt)
                then Inl TradingRoundNotContiguous
                else bindE (checkFills action (trStudentFills evidence))
                  (\<lambda>_. Inr (st\<lparr> quantTrading := Some (qt\<lparr> qtPendingAction := None,
                                  qtActions := qtActions qt @ [action],
                                  qtRounds := qtRounds qt @ [evidence] \<rparr>) \<rparr>))))"

definition reduce_TRADING_COMPLETED :: "SessionState \<Rightarrow> QuantTradingResult \<Rightarrow> SessionState reduced" where
  "reduce_TRADING_COMPLETED st r =
     (case quantTrading st of
        None \<Rightarrow> Inl TradingNotInitialized
      | Some qt \<Rightarrow>
          if sessionStatus st \<noteq> Session_ACTIVE \<or> qtResult qt \<noteq> None \<or> qtPendingAction qt \<noteq> None
          then Inl TradingCompleteOrUnresolved
          else if qtRounds qt = []
             \<or> length (qtActions qt) \<noteq> length (qtRounds qt)
             \<or> qrFamily r \<noteq> tdFamily (qtDefinition qt)
             \<or> qrSeed r \<noteq> tdSeed (qtDefinition qt)
             \<or> qrRoundsCompleted r \<noteq> length (qtRounds qt)
             \<or> qrPlannedRounds r < qrRoundsCompleted r
             \<or> \<not> completionRateOk r
             \<or> (qrCompletionStatus r = Trading_COMPLETED \<and> qrRoundsCompleted r \<noteq> qrPlannedRounds r)
             \<or> qrTradeCount r \<noteq> pfTradeCount (qrFinalPortfolio r)
          then Inl TradingResultMismatch
          else Inr (st\<lparr> quantTrading := Some (qt\<lparr> qtResult := Some r \<rparr>) \<rparr>))"

section \<open>Quant research\<close>

definition researchTargetMatches :: "SessionState \<Rightarrow> QuantResearchScenarioDefinition \<Rightarrow> bool" where
  "researchTargetMatches st d =
     (let family = familyName (configFamily (researchConfig d));
          version = researchVersion (researchHeader d) in
      (case configuration st of
         None \<Rightarrow> True
       | Some (QUANT_RESEARCH _ t) \<Rightarrow> targetId t = family \<and> targetVersion t = version
       | Some _ \<Rightarrow> False)
      \<and> (case problem st of None \<Rightarrow> False | Some p \<Rightarrow> pbId p = family \<and> pbVersion p = version))"

definition reduce_RESEARCH_INITIALIZED ::
  "SessionState \<Rightarrow> QuantResearchScenarioDefinition \<Rightarrow> QuantResearchAuthoritativeSnapshot
     \<Rightarrow> SessionState reduced" where
  "reduce_RESEARCH_INITIALIZED st d snapshot =
     (if quantResearch st \<noteq> None then Inl ResearchAlreadyInitialized
      else if quantTrading st \<noteq> None then Inl TradingOnResearchSession
      else if \<not> started st \<or> sessionStatus st \<noteq> Session_ACTIVE
         \<or> \<not> researchTargetMatches st d
         \<or> configFamily (researchConfig d) \<noteq> snapshotFamily (snapshotData snapshot)
      then Inl ResearchInitializationMismatch
      else Inr (st\<lparr> quantResearch := Some \<lparr> qsDefinition = d, qsAuthoritativeSnapshot = snapshot,
                      qsActions = [], qsResult = None \<rparr> \<rparr>))"

definition reduce_RESEARCH_ACTION :: "SessionState \<Rightarrow> QuantResearchAction \<Rightarrow> SessionState reduced" where
  "reduce_RESEARCH_ACTION st action =
     (case quantResearch st of
        None \<Rightarrow> Inl ResearchNotInitialized
      | Some qr \<Rightarrow>
          if sessionStatus st \<noteq> Session_ACTIVE \<or> qsResult qr \<noteq> None then Inl ResearchNotActive
          else if 64 \<le> length (qsActions qr) then Inl ResearchActionLimit
          else if list_ex (\<lambda>a. actionId a = actionId action) (qsActions qr)
            then Inl ResearchActionDuplicate
          else Inr (st\<lparr> quantResearch := Some (qr\<lparr> qsActions := qsActions qr @ [action] \<rparr>) \<rparr>))"

definition reduce_RESEARCH_COMPLETED :: "SessionState \<Rightarrow> QuantResearchResult \<Rightarrow> SessionState reduced" where
  "reduce_RESEARCH_COMPLETED st r =
     (case quantResearch st of
        None \<Rightarrow> Inl ResearchNotInitialized
      | Some qr \<Rightarrow>
          let h = researchHeader (qsDefinition qr) in
          if sessionStatus st \<noteq> Session_ACTIVE \<or> qsResult qr \<noteq> None then Inl ResearchNotActive
          else if rsStatus r \<noteq> Research_COMPLETE
             \<or> rsFamily r \<noteq> configFamily (researchConfig (qsDefinition qr))
             \<or> rsVersion r \<noteq> researchVersion h
             \<or> rsGeneratorVersion r \<noteq> generatorVersion h
             \<or> rsRngVersion r \<noteq> rngVersion h
             \<or> rsAcceptedActionCount r \<noteq> length (qsActions qr)
          then Inl ResearchResultMismatch
          else Inr (st\<lparr> quantResearch := Some (qr\<lparr> qsResult := Some r \<rparr>) \<rparr>))"

section \<open>Candidate input\<close>

definition reduce_UTTERANCE_STARTED :: "SessionState \<Rightarrow> UtteranceId \<Rightarrow> SessionState reduced" where
  "reduce_UTTERANCE_STARTED st uid =
     Inr (st\<lparr> utterances := dput uid \<lparr> utUtteranceId = uid, utStatus = CAPTURING,
                utInputEpisodeId = None, utText = None \<rparr> (utterances st) \<rparr>)"

definition withCapturing ::
  "SessionState \<Rightarrow> UtteranceId \<Rightarrow> (UtteranceState \<Rightarrow> SessionState) \<Rightarrow> SessionState reduced" where
  "withCapturing st uid k =
     (case dget (utterances st) uid of
        None \<Rightarrow> Inl UtteranceNotCaptured
      | Some u \<Rightarrow> if utStatus u \<noteq> CAPTURING then Inl UtteranceNotCaptured else Inr (k u))"

definition reduce_UTTERANCE_DISCARDED :: "SessionState \<Rightarrow> UtteranceId \<Rightarrow> SessionState reduced" where
  "reduce_UTTERANCE_DISCARDED st uid =
     withCapturing st uid
       (\<lambda>u. st\<lparr> utterances := dput uid (u\<lparr> utStatus := Utterance_DISCARDED \<rparr>) (utterances st) \<rparr>)"

definition reduce_TRANSCRIPT_FINALIZED ::
  "SessionState \<Rightarrow> UtteranceId \<Rightarrow> InputEpisodeId \<Rightarrow> Revision \<Rightarrow> string \<Rightarrow> SessionState reduced" where
  "reduce_TRANSCRIPT_FINALIZED st uid eid revision t =
     withCapturing st uid
       (\<lambda>u. st\<lparr> transcriptRevision := revision,
               utterances := dput uid (u\<lparr> utStatus := FINALIZED, utInputEpisodeId := Some eid,
                                          utText := Some t \<rparr>) (utterances st) \<rparr>)"

definition reduce_EPISODE_STARTED :: "SessionState \<Rightarrow> InputEpisodeId \<Rightarrow> SessionState reduced" where
  "reduce_EPISODE_STARTED st eid =
     Inr (st\<lparr> inputEpisodes := dput eid \<lparr> epInputEpisodeId = eid, epStatus = Episode_ACTIVE,
                epInputs = [] \<rparr> (inputEpisodes st) \<rparr>)"

definition withActiveEpisode ::
  "SessionState \<Rightarrow> InputEpisodeId \<Rightarrow> (InputEpisodeState \<Rightarrow> InputEpisodeState) \<Rightarrow> SessionState reduced" where
  "withActiveEpisode st eid f =
     (case dget (inputEpisodes st) eid of
        None \<Rightarrow> Inl EpisodeNotActive
      | Some e \<Rightarrow> if epStatus e \<noteq> Episode_ACTIVE then Inl EpisodeNotActive
                  else Inr (st\<lparr> inputEpisodes := dput eid (f e) (inputEpisodes st) \<rparr>))"

definition reduce_EPISODE_UPDATED ::
  "SessionState \<Rightarrow> InputEpisodeId \<Rightarrow> Modality \<Rightarrow> string \<Rightarrow> SessionState reduced" where
  "reduce_EPISODE_UPDATED st eid m content =
     withActiveEpisode st eid (\<lambda>e. e\<lparr> epInputs := epInputs e @ [(m, content)] \<rparr>)"

definition reduce_EPISODE_COMMITTED :: "SessionState \<Rightarrow> InputEpisodeId \<Rightarrow> SessionState reduced" where
  "reduce_EPISODE_COMMITTED st eid =
     withActiveEpisode st eid (\<lambda>e. e\<lparr> epStatus := Episode_COMMITTED \<rparr>)"

definition reduce_TURN_COMMITTED ::
  "SessionState \<Rightarrow> nat \<Rightarrow> TurnId \<Rightarrow> InputEpisodeId \<Rightarrow> string \<Rightarrow> SessionState reduced" where
  "reduce_TURN_COMMITTED st sq tid eid t =
     Inr (st\<lparr> lastCommittedInputSequence := Some sq,
              turns := dput tid \<lparr> tnTurnId = tid, tnInputEpisodeId = eid, tnStudentText = t,
                                 tnCommittedSequence = sq \<rparr> (turns st) \<rparr>)"

section \<open>The board\<close>

definition addShape ::
  "AuthoritativeStudentShape dict \<Rightarrow> AuthoritativeStudentShape \<Rightarrow> AuthoritativeStudentShape dict reduced" where
  "addShape shapes s =
     (if dget shapes (shId s) \<noteq> None then Inl BoardAddExisting else Inr (dput (shId s) s shapes))"

definition updateShape ::
  "AuthoritativeStudentShape dict \<Rightarrow> ShapeUpdate \<Rightarrow> AuthoritativeStudentShape dict reduced" where
  "updateShape shapes e =
     (case dget shapes (shId (updatedShape e)) of
        None \<Rightarrow> Inl BoardUpdateStale
      | Some s \<Rightarrow> if shRevision s \<noteq> beforeRevision e then Inl BoardUpdateStale
                  else Inr (dput (shId (updatedShape e)) (updatedShape e) shapes))"

definition deleteShape ::
  "AuthoritativeStudentShape dict \<Rightarrow> ShapeDelete \<Rightarrow> AuthoritativeStudentShape dict reduced" where
  "deleteShape shapes e =
     (case dget shapes (deletedShapeId e) of
        None \<Rightarrow> Inl BoardDeleteStale
      | Some s \<Rightarrow> if shRevision s \<noteq> deletedExpectedRevision e then Inl BoardDeleteStale
                  else Inr (ddel (deletedShapeId e) shapes))"

definition applyMutation ::
  "AuthoritativeStudentShape dict \<Rightarrow> NormalizedBoardMutation \<Rightarrow> AuthoritativeStudentShape dict reduced" where
  "applyMutation shapes m =
     bindE (foldE addShape shapes (mutAdded m))
       (\<lambda>a. bindE (foldE updateShape a (mutUpdated m))
         (\<lambda>u. foldE deleteShape u (mutDeleted m)))"

definition reduce_BOARD_PATCH ::
  "SessionState \<Rightarrow> Revision \<Rightarrow> NormalizedBoardMutation option \<Rightarrow> SessionState reduced" where
  "reduce_BOARD_PATCH st revision mutation =
     (if revision \<noteq> boardRevision st + 1 then Inl BoardRevisionNotNext
      else (case mutation of
          None \<Rightarrow> Inr (st\<lparr> boardRevision := revision, boardShapeAuthorityKnown := False \<rparr>)
        | Some m \<Rightarrow>
            if \<not> boardShapeAuthorityKnown st then Inl BoardAuthorityUnknown
            else if baseBoardRevision m \<noteq> boardRevision st then Inl BoardMutationBasisMismatch
            else bindE (applyMutation (boardShapes st) m)
              (\<lambda>shapes. Inr (st\<lparr> boardRevision := revision, boardShapeAuthorityKnown := True,
                                 boardShapes := shapes \<rparr>))))"

end
