(* ===== verification/ReducerRequests.thy ===== *)
theory ReducerRequests
  imports ReducerCore
begin

text \<open>
  Second part of \<^verbatim>\<open>reducer.ts\<close>: the asynchronous requests (vision and its evidence bridge, local
  compute, verification) and student evidence. \<^verbatim>\<open>jsonDataEqual\<close> compares schema-parsed values,
  whose keys are in schema order, so it is equality of the records.
\<close>

definition sameStringSet :: "string list \<Rightarrow> string list \<Rightarrow> bool" where
  "sameStringSet l r =
     (if length l \<noteq> length r then False else list_all (\<lambda>v. v \<in> set r) l)"

text \<open>\<^verbatim>\<open>new Map(right.map(...))\<close>: a repeated shape keeps its last binding.\<close>

definition bindingMap :: "VisionShapeRevisionBinding list \<Rightarrow> nat dict" where
  "bindingMap bs = fold (\<lambda>b m. dput (bindingShapeId b) (bindingExpectedRevision b) m) bs []"

definition sameShapeRevisionBindings ::
  "VisionShapeRevisionBinding list \<Rightarrow> VisionShapeRevisionBinding list \<Rightarrow> bool" where
  "sameShapeRevisionBindings l r =
     (if length l \<noteq> length r then False
      else list_all (\<lambda>b. dget (bindingMap r) (bindingShapeId b) = Some (bindingExpectedRevision b)) l)"

section \<open>Vision requests\<close>

definition reduce_VISION_REQUESTED :: "SessionState \<Rightarrow> VisionRequestPayload \<Rightarrow> SessionState reduced" where
  "reduce_VISION_REQUESTED st p =
     (if dget (visionRequests st) (vpVisionRequestId p) \<noteq> None then Inl VisionRequestExists
      else Inr (st\<lparr> visionRequests := dput (vpVisionRequestId p)
             \<lparr> vsVisionRequestId = vpVisionRequestId p,
               vsSourceBoardRevision = vpSourceBoardRevision p,
               vsRegionId = vpRegionId p,
               vsRelevantShapeIds = vpRelevantShapeIds p,
               vsSnapshotBasis = vpSnapshotBasis p,
               vsRelevantShapeRevisions = vpRelevantShapeRevisions p,
               vsRegionBounds = vpRegionBounds p,
               vsRequestedObservationKind = vpRequestedObservationKind p,
               vsStatus = PENDING, vsObservation = None, vsAcceptedObservation = None,
               vsResultEventId = None, vsResultSequence = None, vsEvidenceBridge = None,
               vsDiscardReason = None \<rparr> (visionRequests st) \<rparr>))"

text \<open>The checks on an admission against the request and the replayed state.\<close>

definition checkAdmission ::
  "SessionState \<Rightarrow> VisionRequestState \<Rightarrow> RequestId \<Rightarrow> BoardObservation \<Rightarrow> AcceptedBoardObservation
     \<Rightarrow> unit reduced" where
  "checkAdmission st request rid observation admission =
     (case (vsSnapshotBasis request, vsRelevantShapeRevisions request, vsRegionBounds request,
            vsRequestedObservationKind request) of
        (Some basis, Some revisions, Some bounds, Some kind) \<Rightarrow>
          (if aoRequestId admission \<noteq> rid
              \<or> aoSessionId admission \<noteq> sessionId st
              \<or> aoAdmittedAtBoardRevision admission \<noteq> boardRevision st
              \<or> aoObservation admission \<noteq> observation then Inl VisionIdentityMismatch
           else if aoSnapshotBasis admission \<noteq> basis then Inl VisionSnapshotMismatch
           else if \<not> sameShapeRevisionBindings (aoShapeRevisionBindings admission) revisions
             then Inl VisionShapeRevisionMismatch
           else if obBounds (aoObservation admission) \<noteq> bounds then Inl VisionBoundsMismatch
           else if kind \<noteq> ANY \<and> Requested (aoObservationKind admission) \<noteq> kind
             then Inl VisionKindMismatch
           else Inr ())
      | _ \<Rightarrow> Inl VisionProvenanceIncomplete)"

definition bridgeAfterAcceptance ::
  "string option option \<Rightarrow> VisionEvidenceBridgeState option \<Rightarrow> VisionEvidenceBridgeState option" where
  "bridgeAfterAcceptance fingerprint previous =
     (case fingerprint of
        None \<Rightarrow> previous
      | Some None \<Rightarrow> Some SKIPPED_NO_INTERPRETER
      | Some (Some f) \<Rightarrow> Some (Bridge_PENDING f))"

definition reduce_VISION_ACCEPTED ::
  "SessionState \<Rightarrow> EventId \<Rightarrow> nat \<Rightarrow> VisionAcceptPayload \<Rightarrow> SessionState reduced" where
  "reduce_VISION_ACCEPTED st eid sq p =
     (let rid = vaVisionRequestId p; observation = vaObservation p; admission = vaAdmission p in
      case dget (visionRequests st) rid of
        None \<Rightarrow> Inl VisionNotPending
      | Some request \<Rightarrow>
          if vsStatus request \<noteq> PENDING then Inl VisionNotPending
          else if obSourceBoardRevision observation \<noteq> vsSourceBoardRevision request
             \<or> obRegionId observation \<noteq> vsRegionId request then Inl VisionBasisMismatch
          else if \<not> sameStringSet
               (case admission of None \<Rightarrow> obRelevantShapeIds observation
                | Some a \<Rightarrow> aoSourceRelevantShapeIds a)
               (vsRelevantShapeIds request) then Inl VisionDependencyMismatch
          else bindE (case admission of None \<Rightarrow> Inr ()
                      | Some a \<Rightarrow> checkAdmission st request rid observation a)
            (\<lambda>_. Inr (st\<lparr> visionRequests := dput rid
                  (request\<lparr> vsStatus := ACCEPTED, vsObservation := Some observation,
                     vsAcceptedObservation :=
                       (case admission of None \<Rightarrow> vsAcceptedObservation request | Some a \<Rightarrow> Some a),
                     vsResultEventId := Some eid, vsResultSequence := Some sq,
                     vsEvidenceBridge :=
                       bridgeAfterAcceptance (vaEvidenceInterpreterFingerprint p)
                         (vsEvidenceBridge request) \<rparr>)
                  (visionRequests st) \<rparr>)))"

definition proposalProvenanceOk :: "SessionState \<Rightarrow> EventId \<Rightarrow> EvidenceProposal \<Rightarrow> bool" where
  "proposalProvenanceOk st resultId p =
     (epEvidenceEventIds p = [resultId]
      \<and> (case problem st of None \<Rightarrow> False | Some pb \<Rightarrow> pbId pb = ekProblemId (epKey p)))"

definition reduce_BRIDGE_DECIDED ::
  "SessionState \<Rightarrow> EventId \<Rightarrow> RequestId \<Rightarrow> string \<Rightarrow> EvidenceProposal option \<Rightarrow> SessionState reduced" where
  "reduce_BRIDGE_DECIDED st eid rid fingerprint proposal =
     (case dget (visionRequests st) rid of
        None \<Rightarrow> Inl BridgeNotPending
      | Some request \<Rightarrow>
          (case (vsStatus request, vsResultEventId request, vsAcceptedObservation request,
                 vsEvidenceBridge request) of
             (ACCEPTED, Some resultId, Some _, Some (Bridge_PENDING f)) \<Rightarrow>
               (if f \<noteq> fingerprint then Inl BridgeFingerprintMismatch
                else if opt_all (proposalProvenanceOk st resultId) proposal
                then Inr (st\<lparr> visionRequests := dput rid
                       (request\<lparr> vsEvidenceBridge :=
                          Some (case proposal of
                                  None \<Rightarrow> Decided_NO_PROPOSAL fingerprint eid
                                | Some q \<Rightarrow> Decided_PROPOSAL fingerprint q eid) \<rparr>)
                       (visionRequests st) \<rparr>)
                else Inl BridgeProposalInvalid)
           | _ \<Rightarrow> Inl BridgeNotPending))"

definition evidenceMentions :: "EvidenceRecordState list dict \<Rightarrow> EventId \<Rightarrow> bool" where
  "evidenceMentions history eid =
     list_ex (\<lambda>records. list_ex (\<lambda>r. eid \<in> set (evEvidenceEventIds (erValue r))) records)
       (dvals history)"

definition reduce_BRIDGE_COMPLETED ::
  "SessionState \<Rightarrow> EventId \<Rightarrow> RequestId \<Rightarrow> string \<Rightarrow> bool \<Rightarrow> SessionState reduced" where
  "reduce_BRIDGE_COMPLETED st eid rid fingerprint committed =
     (case dget (visionRequests st) rid of
        None \<Rightarrow> Inl BridgeNotDecided
      | Some request \<Rightarrow>
          (case (vsStatus request, vsResultEventId request, vsEvidenceBridge request) of
             (ACCEPTED, Some resultId, Some (Decided_PROPOSAL f q decision)) \<Rightarrow>
               (if f \<noteq> fingerprint then Inl BridgeFingerprintMismatch
                else if \<not> list_ex (\<lambda>p. p = q) (evidenceProposals st) then Inl BridgeNoAdmissionAttempt
                else if evidenceMentions (evidenceHistory st) resultId \<noteq> committed
                  then Inl BridgeEvidenceMismatch
                else Inr (st\<lparr> visionRequests := dput rid
                       (request\<lparr> vsEvidenceBridge :=
                          Some (Bridge_COMPLETED f q decision committed eid) \<rparr>)
                       (visionRequests st) \<rparr>))
           | _ \<Rightarrow> Inl BridgeNotDecided))"

definition reduce_VISION_DISCARDED :: "SessionState \<Rightarrow> RequestId \<Rightarrow> string \<Rightarrow> SessionState reduced" where
  "reduce_VISION_DISCARDED st rid reason =
     (case dget (visionRequests st) rid of
        None \<Rightarrow> Inl VisionNotPending
      | Some request \<Rightarrow>
          if vsStatus request \<noteq> PENDING then Inl VisionNotPending
          else Inr (st\<lparr> visionRequests := dput rid
                 (request\<lparr> vsStatus := DISCARDED, vsDiscardReason := Some reason \<rparr>)
                 (visionRequests st) \<rparr>))"

section \<open>Local compute requests\<close>

definition reduce_COMPUTE_REQUESTED ::
  "SessionState \<Rightarrow> RequestId \<Rightarrow> InputEpisodeId \<Rightarrow> Revision \<Rightarrow> SessionState reduced" where
  "reduce_COMPUTE_REQUESTED st rid eid revision =
     (if dget (localComputeRequests st) rid \<noteq> None then Inl ComputeRequestExists
      else Inr (st\<lparr> localComputeRequests := dput rid
             \<lparr> lcComputeRequestId = rid, lcInputEpisodeId = eid,
               lcSourceTranscriptRevision = revision, lcStatus = PENDING, lcResult = None,
               lcDiscardReason = None \<rparr> (localComputeRequests st) \<rparr>))"

definition reduce_COMPUTE_ACCEPTED ::
  "SessionState \<Rightarrow> RequestId \<Rightarrow> Revision \<Rightarrow> string \<Rightarrow> nat \<Rightarrow> SessionState reduced" where
  "reduce_COMPUTE_ACCEPTED st rid revision normalized tokens =
     (case dget (localComputeRequests st) rid of
        None \<Rightarrow> Inl ComputeNotPending
      | Some request \<Rightarrow>
          if lcStatus request \<noteq> PENDING then Inl ComputeNotPending
          else if lcSourceTranscriptRevision request \<noteq> revision then Inl ComputeBasisMismatch
          else Inr (st\<lparr> localComputeRequests := dput rid
                 (request\<lparr> lcStatus := ACCEPTED, lcResult := Some (normalized, tokens) \<rparr>)
                 (localComputeRequests st) \<rparr>))"

definition reduce_COMPUTE_DISCARDED :: "SessionState \<Rightarrow> RequestId \<Rightarrow> string \<Rightarrow> SessionState reduced" where
  "reduce_COMPUTE_DISCARDED st rid reason =
     (case dget (localComputeRequests st) rid of
        None \<Rightarrow> Inl ComputeNotPending
      | Some request \<Rightarrow>
          if lcStatus request \<noteq> PENDING then Inl ComputeNotPending
          else Inr (st\<lparr> localComputeRequests := dput rid
                 (request\<lparr> lcStatus := DISCARDED, lcDiscardReason := Some reason \<rparr>)
                 (localComputeRequests st) \<rparr>))"

section \<open>Verification requests\<close>

definition reduce_VERIFICATION_REQUESTED ::
  "SessionState \<Rightarrow> EventId \<Rightarrow> VerificationRequestPayload \<Rightarrow> SessionState reduced" where
  "reduce_VERIFICATION_REQUESTED st eid p =
     (if dget (verificationRequests st) (vqVerificationRequestId p) \<noteq> None
      then Inl VerificationRequestExists
      else Inr (st\<lparr> verificationRequests := dput (vqVerificationRequestId p)
             \<lparr> vfRequest = p, vfRequestedEventId = eid, vfStatus = PENDING, vfResult = None,
               vfResultEventId = None, vfResultSequence = None, vfDiscardReason = None \<rparr>
             (verificationRequests st) \<rparr>))"

definition reduce_VERIFICATION_ACCEPTED ::
  "SessionState \<Rightarrow> EventId \<Rightarrow> nat \<Rightarrow> RequestId \<Rightarrow> VerificationResult \<Rightarrow> SessionState reduced" where
  "reduce_VERIFICATION_ACCEPTED st eid sq rid result =
     (case dget (verificationRequests st) rid of
        None \<Rightarrow> Inl VerificationNotPending
      | Some request \<Rightarrow>
          if vfStatus request \<noteq> PENDING then Inl VerificationNotPending
          else if vqVerifier (vfRequest request) \<noteq> vrVerifier result
             \<or> vqInterpretationConfidence (vfRequest request) \<noteq> vrInterpretationConfidence result
          then Inl VerificationMismatch
          else Inr (st\<lparr> verificationRequests := dput rid
                 (request\<lparr> vfStatus := ACCEPTED, vfResult := Some result,
                    vfResultEventId := Some eid, vfResultSequence := Some sq \<rparr>)
                 (verificationRequests st) \<rparr>))"

definition reduce_VERIFICATION_DISCARDED :: "SessionState \<Rightarrow> RequestId \<Rightarrow> string \<Rightarrow> SessionState reduced" where
  "reduce_VERIFICATION_DISCARDED st rid reason =
     (case dget (verificationRequests st) rid of
        None \<Rightarrow> Inl VerificationNotPending
      | Some request \<Rightarrow>
          if vfStatus request \<noteq> PENDING then Inl VerificationNotPending
          else Inr (st\<lparr> verificationRequests := dput rid
                 (request\<lparr> vfStatus := DISCARDED, vfDiscardReason := Some reason \<rparr>)
                 (verificationRequests st) \<rparr>))"

section \<open>Student evidence\<close>

definition recordsFor :: "EvidenceRecordState list dict \<Rightarrow> string \<Rightarrow> EvidenceRecordState list" where
  "recordsFor history key = (case dget history key of None \<Rightarrow> [] | Some rs \<Rightarrow> rs)"

definition activeRecords :: "EvidenceRecordState list \<Rightarrow> EvidenceRecordState list" where
  "activeRecords rs = filter (\<lambda>r. erStatus r = Evidence_ACTIVE) rs"

definition supersedeRecord :: "EventId \<Rightarrow> EvidenceRecordState \<Rightarrow> EvidenceRecordState" where
  "supersedeRecord eid r =
     (if erStatus r = Evidence_ACTIVE
      then r\<lparr> erStatus := Evidence_SUPERSEDED, erSupersededByEventId := Some eid \<rparr> else r)"

definition reduce_EVIDENCE_UPDATED ::
  "SessionState \<Rightarrow> EventId \<Rightarrow> nat \<Rightarrow> EvidenceKey \<Rightarrow> EvidenceValue \<Rightarrow> EventId option \<Rightarrow> SessionState reduced" where
  "reduce_EVIDENCE_UPDATED st eid sq ekey value supersedes =
     (let key = evidenceKeyToString ekey;
          history = recordsFor (evidenceHistory st) key;
          active = activeRecords history;
          write = Inr (st\<lparr> studentEvidence := dput key value (studentEvidence st),
                    evidenceHistory := dput key
                      (map (supersedeRecord eid) history
                       @ [\<lparr> erEvidenceEventId = eid, erKey = ekey, erValue = value,
                            erStatus = Evidence_ACTIVE, erSupersededByEventId = None,
                            erInvalidationReason = None \<rparr>])
                      (evidenceHistory st) \<rparr>) in
      if evLastUpdatedSequence value \<noteq> sq then Inl EvidenceSequenceMismatch
      else if 1 < length active then Inl EvidenceMultipleActive
      else (case active of
              [] \<Rightarrow> if supersedes \<noteq> None then Inl EvidenceSupersedesMissing else write
            | a # _ \<Rightarrow> if supersedes \<noteq> Some (erEvidenceEventId a) then Inl EvidenceSupersedeRequired
                       else write))"

definition staleRecord :: "EventId \<Rightarrow> string \<Rightarrow> EvidenceRecordState \<Rightarrow> EvidenceRecordState" where
  "staleRecord eid reason r =
     (if erEvidenceEventId r = eid
      then r\<lparr> erStatus := Evidence_STALE, erInvalidationReason := Some reason \<rparr> else r)"

definition reduce_EVIDENCE_INVALIDATED ::
  "SessionState \<Rightarrow> EvidenceKey \<Rightarrow> EventId \<Rightarrow> string \<Rightarrow> SessionState reduced" where
  "reduce_EVIDENCE_INVALIDATED st ekey invalidates reason =
     (let key = evidenceKeyToString ekey;
          history = recordsFor (evidenceHistory st) key;
          active = activeRecords history in
      if 1 < length active then Inl EvidenceMultipleActive
      else (case active of
              [] \<Rightarrow> Inl EvidenceInvalidationMismatch
            | a # _ \<Rightarrow>
                if erEvidenceEventId a \<noteq> invalidates then Inl EvidenceInvalidationMismatch
                else Inr (st\<lparr> studentEvidence := ddel key (studentEvidence st),
                       evidenceHistory := dput key (map (staleRecord invalidates reason) history)
                         (evidenceHistory st) \<rparr>)))"

end
