(* ===== verification/Reducer.thy ===== *)
theory Reducer
  imports ReducerRequests
begin

text \<open>
  Last part of \<^verbatim>\<open>reducer.ts\<close>: generations, deliveries, revisions and the end of a session, then the
  dispatch \<open>reduceBody\<close> of the source's switch, \<open>reduceSessionEvent\<close> and \<open>replaySession\<close>.
\<close>

section \<open>Generations\<close>

definition reduce_GENERATION_STARTED ::
  "SessionState \<Rightarrow> GenerationId \<Rightarrow> GenerationBasis \<Rightarrow> string \<Rightarrow> SessionState reduced" where
  "reduce_GENERATION_STARTED st gid basis provider =
     Inr (st\<lparr> generations := dput gid
            \<lparr> gnGenerationId = gid, gnBasis = basis, gnProvider = provider,
              gnPedagogicalAction = dget (pedagogicalActions st) (gbTurnId basis),
              gnInterviewerProposalValidated = False, gnValidatedInterviewerProposal = None,
              gnStatus = Gen_ACTIVE, gnContextManifest = None, gnProposal = None,
              gnFormalInterpretationProposal = None \<rparr> (generations st) \<rparr>)"

definition reduce_CONTEXT_COMPILED ::
  "SessionState \<Rightarrow> GenerationId \<Rightarrow> ContextCompilationManifest \<Rightarrow> SessionState reduced" where
  "reduce_CONTEXT_COMPILED st gid manifest =
     (case dget (generations st) gid of
        None \<Rightarrow> Inl ContextRequiresActiveGeneration
      | Some g \<Rightarrow>
          if gnStatus g \<noteq> Gen_ACTIVE then Inl ContextRequiresActiveGeneration
          else if gnContextManifest g \<noteq> None then Inl ContextAlreadyCompiled
          else if cmGenerationId manifest \<noteq> gid
             \<or> \<not> generationBasesEqual (cmGenerationBasis manifest) (gnBasis g)
          then Inl ContextManifestMismatch
          else updateGeneration st gid (\<lambda>g. g\<lparr> gnContextManifest := Some manifest \<rparr>))"

definition reduce_PROPOSAL_VALIDATED :: "SessionState \<Rightarrow> GenerationId \<Rightarrow> SessionState reduced" where
  "reduce_PROPOSAL_VALIDATED st gid =
     (case dget (generations st) gid of
        None \<Rightarrow> Inl (UnknownGeneration gid)
      | Some generation \<Rightarrow>
          updateGeneration st gid
            (\<lambda>g. g\<lparr> gnStatus := Gen_VALIDATED, gnInterviewerProposalValidated := True,
                   gnValidatedInterviewerProposal :=
                     (case gnProposal generation of None \<Rightarrow> gnValidatedInterviewerProposal g
                      | Some p \<Rightarrow> Some p) \<rparr>))"

section \<open>Deliveries\<close>

definition reduce_DELIVERY_QUEUED :: "SessionState \<Rightarrow> DeliveryAtom \<Rightarrow> SessionState reduced" where
  "reduce_DELIVERY_QUEUED st atom =
     (if atomStatus atom \<noteq> Delivery_VALIDATED then Inl OnlyValidatedQueued
      else Inr (st\<lparr> deliveries := dput (deliveryId atom) (atom\<lparr> atomStatus := Delivery_QUEUED \<rparr>)
                      (deliveries st) \<rparr>))"

definition reduce_DELIVERY_CANCELLED ::
  "SessionState \<Rightarrow> EventSource \<Rightarrow> DeliveryId \<Rightarrow> SessionState reduced" where
  "reduce_DELIVERY_CANCELLED st source did =
     (case dget (deliveries st) did of
        Some current \<Rightarrow>
          (if atomStatus current = Delivery_DELIVERING \<and> source = Source_RENDERER
           then Inr (st\<lparr> deliveries := dput did (current\<lparr> atomStatus := Delivery_CANCELLED \<rparr>)
                           (deliveries st) \<rparr>)
           else withDeliveryStatus st did Delivery_CANCELLED)
      | None \<Rightarrow> withDeliveryStatus st did Delivery_CANCELLED)"

section \<open>End of the session\<close>

definition isLegacyUninitializedQuantState :: "SessionState \<Rightarrow> bool" where
  "isLegacyUninitializedQuantState st =
     (if \<not> started st \<or> problem st \<noteq> None then False
      else if quantTrading st \<noteq> None \<or> quantResearch st \<noteq> None then False
      else isTradingMode st \<or> isResearchMode st)"

definition isQuantSession :: "SessionState \<Rightarrow> bool" where
  "isQuantSession st =
     (isTradingMode st \<or> isResearchMode st \<or> quantTrading st \<noteq> None \<or> quantResearch st \<noteq> None)"

definition hasActiveInput :: "SessionState \<Rightarrow> bool" where
  "hasActiveInput st = list_ex (\<lambda>e. epStatus e = Episode_ACTIVE) (dvals (inputEpisodes st))"

definition hasCapturingUtterance :: "SessionState \<Rightarrow> bool" where
  "hasCapturingUtterance st = list_ex (\<lambda>u. utStatus u = CAPTURING) (dvals (utterances st))"

text \<open>\<^verbatim>\<open>...(text ? { field: text } : {})\<close>: an absent or empty text leaves the field as it was.\<close>

definition setIfTruthy :: "string option \<Rightarrow> string option \<Rightarrow> string option" where
  "setIfTruthy new previous =
     (case new of None \<Rightarrow> previous | Some t \<Rightarrow> if t = [] then previous else Some t)"

definition tradingResultMissing :: "SessionState \<Rightarrow> bool" where
  "tradingResultMissing st =
     (case quantTrading st of None \<Rightarrow> True | Some qt \<Rightarrow> qtResult qt = None)"

definition researchResultMissing :: "SessionState \<Rightarrow> bool" where
  "researchResultMissing st =
     (case quantResearch st of None \<Rightarrow> True | Some qr \<Rightarrow> qsResult qr = None)"

definition reduce_SESSION_COMPLETED ::
  "SessionState \<Rightarrow> string \<Rightarrow> string option \<Rightarrow> SessionState reduced" where
  "reduce_SESSION_COMPLETED st stamp summary =
     (let legacy = isLegacyUninitializedQuantState st; quant = isQuantSession st in
      if quant \<and> sessionStatus st \<noteq> Session_ACTIVE then Inl QuantCompleteOnlyActive
      else if quant \<and> (hasActiveInput st \<or> (\<not> legacy \<and> hasCapturingUtterance st))
        then Inl QuantUnresolvedInput
      else if \<not> legacy \<and> (isTradingMode st \<or> quantTrading st \<noteq> None) \<and> tradingResultMissing st
        then Inl TradingSessionIncomplete
      else if \<not> legacy \<and> (isResearchMode st \<or> quantResearch st \<noteq> None) \<and> researchResultMissing st
        then Inl ResearchSessionIncomplete
      else Inr (st\<lparr> sessionStatus := Session_COMPLETED, completedAt := Some stamp,
                    completionSummary := setIfTruthy summary (completionSummary st) \<rparr>))"

definition reduce_SESSION_ARCHIVED ::
  "SessionState \<Rightarrow> string \<Rightarrow> string option \<Rightarrow> SessionState reduced" where
  "reduce_SESSION_ARCHIVED st stamp reason =
     (let legacy = isLegacyUninitializedQuantState st; quant = isQuantSession st;
          archive = Inr (st\<lparr> sessionStatus := Session_ARCHIVED, archivedAt := Some stamp,
                      archivalReason := setIfTruthy reason (archivalReason st) \<rparr>) in
      if quant
      then (if legacy
            then (if sessionStatus st \<noteq> Session_ACTIVE \<and> sessionStatus st \<noteq> Session_COMPLETED
                  then Inl LegacyQuantArchive
                  else if hasActiveInput st then Inl LegacyQuantArchiveInput
                  else archive)
            else if sessionStatus st \<noteq> Session_COMPLETED then Inl QuantArchiveIncomplete
            else archive)
      else archive)"

section \<open>Dispatch\<close>

primrec reduceBody ::
  "SessionState \<Rightarrow> EventId \<Rightarrow> nat \<Rightarrow> EventSource \<Rightarrow> EventBody \<Rightarrow> SessionState reduced" where
  "reduceBody st ei sq so (SESSION_STARTED t c s) = reduce_SESSION_STARTED st c"
| "reduceBody st ei sq so (PROBLEM_PRESENTED i v p f) = reduce_PROBLEM_PRESENTED st i v p f"
| "reduceBody st ei sq so (QUANT_TRADING_SCENARIO_INITIALIZED d) = reduce_TRADING_INITIALIZED st d"
| "reduceBody st ei sq so (QUANT_TRADING_ACTION_ACCEPTED a) = reduce_TRADING_ACTION st a"
| "reduceBody st ei sq so (QUANT_TRADING_ROUND_RESOLVED e) = reduce_TRADING_ROUND st e"
| "reduceBody st ei sq so (QUANT_TRADING_SCENARIO_COMPLETED r) = reduce_TRADING_COMPLETED st r"
| "reduceBody st ei sq so (QUANT_RESEARCH_SCENARIO_INITIALIZED d s) = reduce_RESEARCH_INITIALIZED st d s"
| "reduceBody st ei sq so (QUANT_RESEARCH_ACTION_ACCEPTED a) = reduce_RESEARCH_ACTION st a"
| "reduceBody st ei sq so (QUANT_RESEARCH_SCENARIO_COMPLETED r) = reduce_RESEARCH_COMPLETED st r"
| "reduceBody st ei sq so (UTTERANCE_STARTED u) = reduce_UTTERANCE_STARTED st u"
| "reduceBody st ei sq so (UTTERANCE_DISCARDED u r) = reduce_UTTERANCE_DISCARDED st u"
| "reduceBody st ei sq so (INPUT_EPISODE_STARTED e) = reduce_EPISODE_STARTED st e"
| "reduceBody st ei sq so (INPUT_EPISODE_UPDATED e m c) = reduce_EPISODE_UPDATED st e m c"
| "reduceBody st ei sq so (INPUT_EPISODE_COMMITTED e) = reduce_EPISODE_COMMITTED st e"
| "reduceBody st ei sq so (TURN_COMMITTED t e s) = reduce_TURN_COMMITTED st sq t e s"
| "reduceBody st ei sq so (TRANSCRIPT_FINALIZED u e r t) = reduce_TRANSCRIPT_FINALIZED st u e r t"
| "reduceBody st ei sq so (TRANSCRIPT_CORRECTED r c t) =
     Inr (st\<lparr> transcriptRevision := r, contextEpoch := c \<rparr>)"
| "reduceBody st ei sq so (BOARD_PATCH_COMMITTED r s m) = reduce_BOARD_PATCH st r m"
| "reduceBody st ei sq so (VISION_REQUESTED p) = reduce_VISION_REQUESTED st p"
| "reduceBody st ei sq so (VISION_RESULT_ACCEPTED p) = reduce_VISION_ACCEPTED st ei sq p"
| "reduceBody st ei sq so (VISION_EVIDENCE_BRIDGE_DECIDED i f d p) = reduce_BRIDGE_DECIDED st ei i f p"
| "reduceBody st ei sq so (VISION_EVIDENCE_BRIDGE_COMPLETED i f c) = reduce_BRIDGE_COMPLETED st ei i f c"
| "reduceBody st ei sq so (VISION_RESULT_DISCARDED i r) = reduce_VISION_DISCARDED st i r"
| "reduceBody st ei sq so (LOCAL_COMPUTE_REQUESTED i e r) = reduce_COMPUTE_REQUESTED st i e r"
| "reduceBody st ei sq so (LOCAL_COMPUTE_RESULT_ACCEPTED i r t n) = reduce_COMPUTE_ACCEPTED st i r t n"
| "reduceBody st ei sq so (LOCAL_COMPUTE_RESULT_DISCARDED i r) = reduce_COMPUTE_DISCARDED st i r"
| "reduceBody st ei sq so (VERIFICATION_REQUESTED p) = reduce_VERIFICATION_REQUESTED st ei p"
| "reduceBody st ei sq so (VERIFICATION_RESULT_ACCEPTED i r) = reduce_VERIFICATION_ACCEPTED st ei sq i r"
| "reduceBody st ei sq so (VERIFICATION_RESULT_DISCARDED i r) = reduce_VERIFICATION_DISCARDED st i r"
| "reduceBody st ei sq so (EVIDENCE_PROPOSED p) =
     Inr (st\<lparr> evidenceProposals := evidenceProposals st @ [p] \<rparr>)"
| "reduceBody st ei sq so (STUDENT_EVIDENCE_UPDATED k v s) = reduce_EVIDENCE_UPDATED st ei sq k v s"
| "reduceBody st ei sq so (STUDENT_EVIDENCE_INVALIDATED k i r) = reduce_EVIDENCE_INVALIDATED st k i r"
| "reduceBody st ei sq so (PEDAGOGICAL_ACTION_SELECTED t r) =
     Inr (st\<lparr> pedagogicalActions := dput t r (pedagogicalActions st) \<rparr>)"
| "reduceBody st ei sq so (MODEL_GENERATION_STARTED g b p) = reduce_GENERATION_STARTED st g b p"
| "reduceBody st ei sq so (GENERATION_CONTEXT_COMPILED g m) = reduce_CONTEXT_COMPILED st g m"
| "reduceBody st ei sq so (MODEL_PROPOSAL_RECEIVED g p) =
     updateGeneration st g (\<lambda>x. x\<lparr> gnStatus := Gen_PROPOSAL_RECEIVED, gnProposal := Some p \<rparr>)"
| "reduceBody st ei sq so (FORMAL_INTERPRETATION_PROPOSAL_RECEIVED g r p) =
     updateGeneration st g
       (\<lambda>x. x\<lparr> gnStatus := Gen_PROPOSAL_RECEIVED, gnFormalInterpretationProposal := Some p \<rparr>)"
| "reduceBody st ei sq so (FORMAL_INTERPRETATION_PROPOSAL_REJECTED g r) =
     updateGeneration st g (\<lambda>x. x\<lparr> gnStatus := Gen_REJECTED \<rparr>)"
| "reduceBody st ei sq so (MODEL_GENERATION_SUPERSEDED g r) =
     updateGeneration st g (\<lambda>x. x\<lparr> gnStatus := Gen_SUPERSEDED \<rparr>)"
| "reduceBody st ei sq so (PROPOSAL_VALIDATED g a) = reduce_PROPOSAL_VALIDATED st g"
| "reduceBody st ei sq so (PROPOSAL_REJECTED g r) =
     updateGeneration st g (\<lambda>x. x\<lparr> gnStatus := Gen_REJECTED \<rparr>)"
| "reduceBody st ei sq so (DELIVERY_QUEUED a) = reduce_DELIVERY_QUEUED st a"
| "reduceBody st ei sq so (DELIVERY_STARTED d) = withDeliveryStatus st d Delivery_DELIVERING"
| "reduceBody st ei sq so (DELIVERY_EXPOSED d) = withDeliveryStatus st d Delivery_EXPOSED"
| "reduceBody st ei sq so (DELIVERY_COMPLETED d) = withDeliveryStatus st d Delivery_COMPLETED"
| "reduceBody st ei sq so (DELIVERY_CANCELLED d r) = reduce_DELIVERY_CANCELLED st so d"
| "reduceBody st ei sq so (DELIVERY_POSSIBLY_EXPOSED d r) =
     withDeliveryStatus st d Delivery_POSSIBLY_EXPOSED"
| "reduceBody st ei sq so (POLICY_REVISION_CHANGED p c r) =
     Inr (st\<lparr> policyRevision := p, contextEpoch := c \<rparr>)"
| "reduceBody st ei sq so (PROBLEM_STATE_REVISION_CHANGED p c r) =
     Inr (st\<lparr> problemStateRevision := p, contextEpoch := c \<rparr>)"
| "reduceBody st ei sq so (SESSION_COMPLETED t s) = reduce_SESSION_COMPLETED st t s"
| "reduceBody st ei sq so (SESSION_ARCHIVED t r) = reduce_SESSION_ARCHIVED st t r"
| "reduceBody st ei sq so (SESSION_RESUMED t) = Inr st"

definition reduceSessionEvent :: "SessionState \<Rightarrow> SessionEvent \<Rightarrow> SessionState reduced" where
  "reduceSessionEvent st ev =
     bindE (assertSequence st ev)
       (\<lambda>_. bindE (reduceBody st (eventId ev) (eventSequence ev) (eventSource ev) (body ev))
         (\<lambda>next. Inr (next\<lparr> sequence := eventSequence ev, eventIds := eventIds next @ [eventId ev] \<rparr>)))"

definition replaySession :: "SessionId \<Rightarrow> SessionEvent list \<Rightarrow> SessionState reduced" where
  "replaySession sid events = foldE reduceSessionEvent (initialSessionState sid) events"

interpretation reducer: event_machine reduceSessionEvent .

end
