(* ===== verification/Samples.thy ===== *)
theory Samples
  imports Reducer
begin

text \<open>
  Concrete sessions on which the witnesses of the properties evaluate the model: events are
  numbered from 1 and belong to session \<open>s1\<close>.
\<close>

definition sampleEvent :: "nat \<Rightarrow> EventBody \<Rightarrow> SessionEvent" where
  "sampleEvent n b =
     \<lparr> eventId = ''e'' @ [char_of (48 + n)], eventSessionId = ''s1'', eventSequence = n,
       eventSource = Source_RENDERER, wallTime = ''t'', elapsedMs = 0, causationId = ''c'',
       correlationId = ''r'', body = b \<rparr>"

fun sampleLog :: "nat \<Rightarrow> EventBody list \<Rightarrow> SessionEvent list" where
  "sampleLog n [] = []"
| "sampleLog n (b # bs) = sampleEvent n b # sampleLog (n + 1) bs"

definition sampleAtom :: DeliveryAtom where
  "sampleAtom = \<lparr> deliveryId = ''d1'', atomGenerationId = ''g1'', atomContent = TEXT ''hint'',
     disclosureIds = [''h1'', ''h2''], effectiveDisclosureLevel = 1, atomStatus = Delivery_VALIDATED \<rparr>"

text \<open>A hint is queued, shown, and the session reports it shown.\<close>

definition sampleDelivered :: "SessionEvent list" where
  "sampleDelivered = sampleLog 1 [SESSION_STARTED ''Oxford'' None None, DELIVERY_QUEUED sampleAtom,
     DELIVERY_STARTED ''d1'', DELIVERY_EXPOSED ''d1'', DELIVERY_COMPLETED ''d1'']"

text \<open>An answer is committed, a generation is based on it, and a second answer is committed.\<close>

definition sampleTurns :: "SessionEvent list" where
  "sampleTurns = sampleLog 1 [SESSION_STARTED ''Oxford'' None None, INPUT_EPISODE_STARTED ''i1'',
     TURN_COMMITTED ''t1'' ''i1'' ''x is even'', TRANSCRIPT_CORRECTED 0 0 ''x is even'',
     TURN_COMMITTED ''t2'' ''i1'' ''x is odd'']"

definition sampleBasis :: GenerationBasis where
  "sampleBasis = \<lparr> gbContextEpoch = 0, gbCommittedInputSequence = 3, gbTranscriptRevision = 0,
     gbBoardRevision = 0, gbProblemStateRevision = 0, gbPolicyRevision = 0,
     gbInputEpisodeId = Some ''i1'', gbTurnId = ''t1'' \<rparr>"

text \<open>Evidence is recorded, replaced, and withdrawn.\<close>

definition sampleKey :: EvidenceKey where
  "sampleKey = \<lparr> ekProblemId = ''p'', ekSubject = CLAIM ''q|SKILL|c'', ekDimension = STUDENT_CONFIDENCE \<rparr>"

definition sampleValue :: "EvidenceRating \<Rightarrow> EventId \<Rightarrow> nat \<Rightarrow> EvidenceValue" where
  "sampleValue r e n = \<lparr> evValue = r, evInferenceConfidence = 1/2, evEvidenceEventIds = [e],
     evLastUpdatedSequence = n \<rparr>"

definition sampleEvidence :: "SessionEvent list" where
  "sampleEvidence = sampleLog 1 [SESSION_STARTED ''Oxford'' None None,
     STUDENT_EVIDENCE_UPDATED sampleKey (sampleValue CONFIDENT ''e1'' 2) None,
     STUDENT_EVIDENCE_UPDATED sampleKey (sampleValue UNCERTAIN ''e1'' 3) (Some ''e2''),
     STUDENT_EVIDENCE_INVALIDATED sampleKey ''e3'' ''withdrawn'']"

text \<open>The same key string for a key of another problem.\<close>

definition collidingKey :: EvidenceKey where
  "collidingKey =
     \<lparr> ekProblemId = ''p|CLAIM|q'', ekSubject = SKILL ''c'', ekDimension = STUDENT_CONFIDENCE \<rparr>"

definition collidingLog :: "SessionEvent list" where
  "collidingLog = sampleLog 1 [SESSION_STARTED ''Oxford'' None None,
     STUDENT_EVIDENCE_UPDATED sampleKey (sampleValue CONFIDENT ''e1'' 2) None,
     STUDENT_EVIDENCE_UPDATED collidingKey (sampleValue UNCERTAIN ''e1'' 3) (Some ''e2'')]"

text \<open>
  A region of the board is sent to vision, the observation is admitted, the bridge proposes evidence
  from it, and a claim is verified.
\<close>

definition sampleBounds :: Bounds where
  "sampleBounds = \<lparr> bX = 0, bY = 0, bWidth = 10, bHeight = 10 \<rparr>"

definition sampleSnapshot :: VisionSnapshotBasis where
  "sampleSnapshot = \<lparr> snapshotId = ''n1'', snapshotHash = ''ab'', preprocessingVersion = ''1'',
     snapshotSourceBoardRevision = 0 \<rparr>"

definition sampleObservation :: BoardObservation where
  "sampleObservation = \<lparr> obRegionId = ''r1'', obSourceBoardRevision = 0,
     obRelevantShapeIds = [''sh1''], obBounds = sampleBounds, obInterpretation = ''x^2'',
     obConfidence = 1/2 \<rparr>"

definition sampleAdmission :: AcceptedBoardObservation where
  "sampleAdmission = \<lparr> aoRequestId = ''v1'', aoSessionId = ''s1'', aoProposalId = ''o1'',
     aoObservationKind = Kind_EQUATION, aoObservation = sampleObservation,
     aoSnapshotBasis = sampleSnapshot, aoSourceRelevantShapeIds = [''sh1''],
     aoShapeRevisionBindings = [\<lparr> bindingShapeId = ''sh1'', bindingExpectedRevision = 1 \<rparr>],
     aoBackend = \<lparr> backendId = ''b'', backendVersion = ''1'', backendProviderId = ''b'',
       backendModelId = ''m'', backendModelVersion = ''1'', visionCapabilityVersion = ''1'' \<rparr>,
     aoAdmittedAtBoardRevision = 0, aoFreshnessProof = EXACT_BOARD_REVISION \<rparr>"

definition sampleProposal :: EvidenceProposal where
  "sampleProposal = \<lparr> epKey = sampleKey, epProposedValue = CONFIDENT, epInferenceConfidence = 1/2,
     epEvidenceEventIds = [''e4''] \<rparr>"

definition sampleVision :: "SessionEvent list" where
  "sampleVision = sampleLog 1 [SESSION_STARTED ''Oxford'' None None,
     PROBLEM_PRESENTED ''p'' ''1'' ''Prove it'' None,
     VISION_REQUESTED \<lparr> vpVisionRequestId = ''v1'', vpSourceBoardRevision = 0, vpRegionId = ''r1'',
       vpRelevantShapeIds = [''sh1''], vpSnapshotBasis = Some sampleSnapshot,
       vpRelevantShapeRevisions = Some [\<lparr> bindingShapeId = ''sh1'', bindingExpectedRevision = 1 \<rparr>],
       vpRegionBounds = Some sampleBounds, vpRequestedObservationKind = Some ANY \<rparr>,
     VISION_RESULT_ACCEPTED \<lparr> vaVisionRequestId = ''v1'', vaObservation = sampleObservation,
       vaAdmission = Some sampleAdmission, vaEvidenceInterpreterFingerprint = Some (Some ''f1'') \<rparr>,
     VISION_EVIDENCE_BRIDGE_DECIDED ''v1'' ''f1'' PROPOSAL (Some sampleProposal),
     EVIDENCE_PROPOSED sampleProposal,
     VISION_EVIDENCE_BRIDGE_COMPLETED ''v1'' ''f1'' False]"

definition sampleVerification :: "SessionEvent list" where
  "sampleVerification = sampleLog 1 [SESSION_STARTED ''Oxford'' None None,
     VERIFICATION_REQUESTED \<lparr> vqVerificationRequestId = ''q1'', vqVerifier = ''integers'',
       vqBasis = sampleBasis, vqCandidateFormalInterpretation = ''1 = 1'',
       vqInterpretationConfidence = 1/2, vqEvidenceKey = sampleKey, vqEvidenceEventIds = [''e1''],
       vqBoardRevisionIndependent = False, vqSourceGenerationId = None,
       vqSourceProposalRequestId = None \<rparr>,
     VERIFICATION_RESULT_ACCEPTED ''q1'' \<lparr> vrStatus = VERIFIED, vrInterpretationConfidence = 1/2,
       vrVerifier = ''integers'', vrReason = ''both sides agree'' \<rparr>,
     EVIDENCE_PROPOSED sampleProposal]"

text \<open>Two shapes are drawn; then one is changed, one is deleted and a third is added.\<close>

definition sampleShape :: "string \<Rightarrow> nat \<Rightarrow> AuthoritativeStudentShape" where
  "sampleShape i n = \<lparr> shId = i, shType = rectangle, shBounds = sampleBounds, shPoints = None,
     shText = None, shRevision = n, shCreatedAt = 1, shLastModifiedAt = 1 \<rparr>"

definition samplePatch :: NormalizedBoardMutation where
  "samplePatch = \<lparr> baseBoardRevision = 1, mutAdded = [sampleShape ''c'' 1],
     mutUpdated = [\<lparr> beforeRevision = 1, updatedShape = sampleShape ''a'' 2 \<rparr>],
     mutDeleted = [\<lparr> deletedShapeId = ''b'', deletedExpectedRevision = 1 \<rparr>] \<rparr>"

definition sampleBoard :: "SessionEvent list" where
  "sampleBoard = sampleLog 1 [SESSION_STARTED ''Oxford'' None None,
     BOARD_PATCH_COMMITTED 1 ''two shapes'' (Some \<lparr> baseBoardRevision = 0,
       mutAdded = [sampleShape ''a'' 1, sampleShape ''b'' 1], mutUpdated = [], mutDeleted = [] \<rparr>),
     BOARD_PATCH_COMMITTED 2 ''changed'' (Some samplePatch)]"

text \<open>One round of trading: a quote is accepted and partly filled, and the session is completed.\<close>

definition samplePortfolio :: QuantTradingPortfolio where
  "samplePortfolio = \<lparr> pfCash = 0, pfPosition = 1, pfRealizedPnL = 0, pfUnrealizedPnL = 0,
     pfTotalPnL = 0, pfPortfolioValue = 0, pfAverageCostBasis = 99, pfMaxDrawdown = 0,
     pfTradeCount = 1 \<rparr>"

definition sampleQuote :: QuotePair where
  "sampleQuote = \<lparr> bidPrice = 99, bidSize = 5, askPrice = 101, askSize = 5 \<rparr>"

definition sampleRound :: QuantTradingRoundEvidence where
  "sampleRound = \<lparr> trRound = 1, trFairValue = 100, trMarketEvents = [], trOrderFlowType = NOISE,
     trIncomingMarketSide = Some SELL,
     trStudentFills = [\<lparr> fillId = ''f1'', fillOrderId = ''b1'', matchedOrderId = None, fillSide = BUY,
       fillPrice = 99, fillSize = 3, counterparty = ''m'', fillTimestamp = 1 \<rparr>],
     trPortfolio = samplePortfolio, trRiskBreached = False, trRiskReason = None,
     trAccountingInvariantHolds = True, trRngDrawCount = 2 \<rparr>"

definition sampleTradingResult :: QuantTradingResult where
  "sampleTradingResult = \<lparr> qrFamily = BASIC_MARKET_MAKING, qrVersion = ''1.0.0'', qrSeed = 7,
     qrCompletionStatus = Trading_COMPLETED, qrPlannedRounds = 1, qrRoundsCompleted = 1,
     qrCompletionRate = 1, qrFinalFairValue = 100, qrFinalPortfolio = samplePortfolio,
     qrTradeCount = 1, qrFillVolume = 3, qrAverageSpread = 2, qrQuoteParticipationRate = 1,
     qrRiskBreaches = [], qrInformedFlowCount = 0, qrNoiseFlowCount = 1,
     qrAdverseSelectionPnL = 0, qrAccountingInvariantHolds = True, qrObjectiveScore = 50 \<rparr>"

definition sampleTrading :: "SessionEvent list" where
  "sampleTrading = sampleLog 1 [SESSION_STARTED ''now'' (Some (QUANT_TRADING
       \<lparr> configurationVersion = 1, durationMinutes = None, interventionPolicy = MINIMAL,
         providerSelection = None \<rparr>
       \<lparr> targetId = ''BASIC_MARKET_MAKING'', targetVersion = ''1.0.0'' \<rparr>)) None,
     QUANT_TRADING_SCENARIO_INITIALIZED
       \<lparr> tdFamily = BASIC_MARKET_MAKING, tdVersion = ''1.0.0'', tdSeed = 7 \<rparr>,
     QUANT_TRADING_ACTION_ACCEPTED (QUOTE sampleQuote),
     QUANT_TRADING_ROUND_RESOLVED sampleRound,
     QUANT_TRADING_SCENARIO_COMPLETED sampleTradingResult,
     SESSION_COMPLETED ''now'' None]"

lemma sampleE:
  "(case replaySession sid evs of Inl _ \<Rightarrow> False | Inr s \<Rightarrow> P s) \<Longrightarrow>
     \<exists>st. replaySession sid evs = Inr st \<and> P st"
  by (auto split: sum.splits)

end
