(* ===== verification/Upcasters.thy ===== *)
theory Upcasters
  imports Samples
begin

text \<open>
  \<^verbatim>\<open>packages/events/src/upcasters.ts\<close>: persisted events of older schema versions are lifted to the
  current one step by step. A persisted event is a JSON value; of an object the model keeps its
  \<^verbatim>\<open>schemaVersion\<close>, if it is a number, and the event its other fields describe, if they have the
  types of one.
\<close>

datatype (plugins only: code size) RawEvent =
    NotAnObject
  | RawObject "rat option" "SessionEvent option"

fun currentVersion :: "RawEvent \<Rightarrow> rat option" where
  "currentVersion NotAnObject = None"
| "currentVersion (RawObject v _) = v"

text \<open>
  \<^verbatim>\<open>SessionEventSchema.parse\<close> on a typed event: the only field the schemas rewrite is the provider
  name of a generation, which is trimmed.
\<close>

definition normalizeBody :: "EventBody \<Rightarrow> EventBody" where
  "normalizeBody b =
     (case b of MODEL_GENERATION_STARTED g basis p \<Rightarrow> MODEL_GENERATION_STARTED g basis (js_trim p)
      | _ \<Rightarrow> b)"

definition parseEvent :: "(string \<Rightarrow> bool) \<Rightarrow> SessionEvent \<Rightarrow> SessionEvent option" where
  "parseEvent dt ev =
     (let e = ev\<lparr> body := normalizeBody (body ev) \<rparr> in
      if SessionEventSchema dt e then Some e else None)"

record EventUpcaster =
  fromVersion :: rat
  toVersion :: rat
  upcast :: "RawEvent \<Rightarrow> RawEvent"

definition isInteger :: "rat \<Rightarrow> bool" where
  "isInteger x = (snd (quotient_of x) = 1)"

text \<open>\<^verbatim>\<open>{ ...event, schemaVersion: v }\<close>\<close>

fun withVersion :: "rat \<Rightarrow> RawEvent \<Rightarrow> RawEvent" where
  "withVersion v NotAnObject = NotAnObject"
| "withVersion v (RawObject _ c) = RawObject (Some v) c"

definition builtInUpcasters :: "EventUpcaster list" where
  "builtInUpcasters =
     [\<lparr> fromVersion = 1, toVersion = 2, upcast = withVersion 2 \<rparr>,
      \<lparr> fromVersion = 2, toVersion = 3, upcast = withVersion 3 \<rparr>]"

datatype UpcastError =
    MustAdvance | MultipleUpcasters rat | NotObject | NoNumericVersion | NoUpcasterFrom rat
  | OutputVersionMismatch | SchemaViolation

type_synonym Registry = "(rat \<times> EventUpcaster) list"

definition register :: "Registry \<Rightarrow> EventUpcaster \<Rightarrow> (UpcastError, Registry) result" where
  "register byVersion u =
     (if \<not> isInteger (fromVersion u) \<or> \<not> isInteger (toVersion u) \<or> toVersion u \<le> fromVersion u
      then Inl MustAdvance
      else if dget byVersion (fromVersion u) \<noteq> None then Inl (MultipleUpcasters (fromVersion u))
      else Inr (dput (fromVersion u) u byVersion))"

definition newRegistry :: "EventUpcaster list \<Rightarrow> (UpcastError, Registry) result" where
  "newRegistry upcasters = foldE register [] (builtInUpcasters @ upcasters)"

text \<open>The \<^verbatim>\<open>while\<close> loop; \<open>None\<close> is a loop that does not end.\<close>

partial_function (option) upcastLoop ::
  "Registry \<Rightarrow> RawEvent \<Rightarrow> rat \<Rightarrow> (UpcastError, RawEvent) result option" where
  "upcastLoop byVersion current version =
     (if version < of_nat CURRENT_EVENT_SCHEMA_VERSION
      then (case dget byVersion version of
              None \<Rightarrow> Some (Inl (NoUpcasterFrom version))
            | Some u \<Rightarrow>
                let next = upcast u current in
                if currentVersion next \<noteq> Some (toVersion u)
                then Some (Inl OutputVersionMismatch)
                else upcastLoop byVersion next (toVersion u))
      else Some (Inr current))"

declare upcastLoop.simps [code]

definition parseRaw :: "(string \<Rightarrow> bool) \<Rightarrow> RawEvent \<Rightarrow> (UpcastError, SessionEvent) result" where
  "parseRaw dt raw =
     (case raw of
        RawObject (Some v) (Some ev) \<Rightarrow>
          (if v \<noteq> of_nat CURRENT_EVENT_SCHEMA_VERSION then Inl SchemaViolation
           else case parseEvent dt ev of None \<Rightarrow> Inl SchemaViolation | Some e \<Rightarrow> Inr e)
      | _ \<Rightarrow> Inl SchemaViolation)"

definition toCurrent ::
  "(string \<Rightarrow> bool) \<Rightarrow> Registry \<Rightarrow> RawEvent \<Rightarrow> (UpcastError, SessionEvent) result option" where
  "toCurrent dt byVersion raw =
     (case raw of
        NotAnObject \<Rightarrow> Some (Inl NotObject)
      | RawObject None _ \<Rightarrow> Some (Inl NoNumericVersion)
      | RawObject (Some v) _ \<Rightarrow>
          (case upcastLoop byVersion raw v of
             None \<Rightarrow> None
           | Some (Inl e) \<Rightarrow> Some (Inl e)
           | Some (Inr current) \<Rightarrow> Some (parseRaw dt current)))"

section \<open>The loop ends\<close>

definition advancing :: "Registry \<Rightarrow> bool" where
  "advancing reg =
     (\<forall>v u. dget reg v = Some u \<longrightarrow>
        isInteger v \<and> isInteger (toVersion u) \<and> v < toVersion u)"

lemma advancing_register: "advancing reg \<Longrightarrow> register reg u = Inr reg' \<Longrightarrow> advancing reg'"
  by (auto simp: advancing_def register_def dget_dput split: if_splits)

interpretation registration: event_machine register .

lemma advancing_registry: "newRegistry us = Inr reg \<Longrightarrow> advancing reg"
  unfolding newRegistry_def
  by (rule registration.run_invariant [where I = advancing, OF advancing_register])
     (auto simp: advancing_def)

lemma isInteger_iff: "isInteger x \<longleftrightarrow> x \<in> \<int>"
proof
  assume "isInteger x"
  then have "quotient_of x = (fst (quotient_of x), 1)"
    by (metis isInteger_def prod.collapse)
  then have "x = of_int (fst (quotient_of x))" using quotient_of_div by fastforce
  then show "x \<in> \<int>" by (metis Ints_of_int)
next
  assume "x \<in> \<int>"
  then show "isInteger x" by (auto simp: isInteger_def elim: Ints_cases)
qed

lemma integer_advance: "isInteger x \<Longrightarrow> isInteger y \<Longrightarrow> x < y \<Longrightarrow> x + 1 \<le> y"
  by (auto simp: isInteger_iff elim!: Ints_cases)

lemma upcastLoop_returns:
  assumes "advancing reg"
  shows "upcastLoop reg current version \<noteq> None"
proof (induction "nat \<lceil>3 - version\<rceil>" arbitrary: current version rule: less_induct)
  case less
  show ?case
  proof (cases "version < 3 \<and> dget reg version \<noteq> None")
    case False
    then show ?thesis
      by (subst upcastLoop.simps) (auto simp: CURRENT_EVENT_SCHEMA_VERSION_def split: option.split)
  next
    case True
    then obtain u where u: "dget reg version = Some u" by auto
    with assms have "version + 1 \<le> toVersion u"
      by (auto simp: advancing_def intro: integer_advance)
    with True have "nat \<lceil>3 - toVersion u\<rceil> < nat \<lceil>3 - version\<rceil>" by linarith
    from less [OF this] u True show ?thesis
      by (subst upcastLoop.simps) (auto simp: CURRENT_EVENT_SCHEMA_VERSION_def Let_def)
  qed
qed

text \<open>
  Property C24. Reading a persisted event always ends: with any registry the constructor accepts,
  whatever the registered functions do and whatever version number is stored (negative, fractional or
  larger than the current one), \<open>toCurrent\<close> returns an event or an error.
\<close>

theorem toCurrent_returns:
  assumes "newRegistry upcasters = Inr byVersion"
  shows "\<exists>r. toCurrent dt byVersion raw = Some r"
proof -
  have returns: "upcastLoop byVersion current v \<noteq> None" for current v
    using upcastLoop_returns [OF advancing_registry [OF assms]] .
  show ?thesis
    by (cases raw) (auto simp: toCurrent_def returns split: option.splits sum.split)
qed

theorem toCurrent_returns_witness:
  "\<exists>byVersion r. newRegistry [\<lparr> fromVersion = 0, toVersion = 1, upcast = withVersion 1 \<rparr>] = Inr byVersion
     \<and> toCurrent (\<lambda>_. True) byVersion (RawObject (Some 0) None) = Some r"
proof -
  have "isOk (newRegistry [\<lparr> fromVersion = 0, toVersion = 1, upcast = withVersion 1 \<rparr>])" by code_simp
  then obtain byVersion where
    reg: "newRegistry [\<lparr> fromVersion = 0, toVersion = 1, upcast = withVersion 1 \<rparr>] = Inr byVersion"
    by (auto simp: isOk_iff)
  with toCurrent_returns [OF reg] show ?thesis by blast
qed

section \<open>Older versions\<close>

lemma register_keeps:
  "register reg u = Inr reg' \<Longrightarrow> dget reg v = Some w \<Longrightarrow> dget reg' v = Some w"
  by (auto simp: register_def dget_dput split: if_splits)

lemma registry_keeps_built_in:
  assumes "newRegistry us = Inr reg"
  shows "dget reg 1 = Some \<lparr> fromVersion = 1, toVersion = 2, upcast = withVersion 2 \<rparr>"
    "dget reg 2 = Some \<lparr> fromVersion = 2, toVersion = 3, upcast = withVersion 3 \<rparr>"
proof -
  from assms obtain reg0 where r: "foldE register [] builtInUpcasters = Inr reg0"
    "foldE register reg0 us = Inr reg"
    by (auto simp: newRegistry_def registration.run_append bindE_eq_Inr)
  have "dget reg0 1 = Some \<lparr> fromVersion = 1, toVersion = 2, upcast = withVersion 2 \<rparr>
    \<and> dget reg0 2 = Some \<lparr> fromVersion = 2, toVersion = 3, upcast = withVersion 3 \<rparr>"
    using r(1) by (auto simp: builtInUpcasters_def register_def bindE_eq_Inr dget_dput dget_Cons
        split: if_splits)
  then have "dget reg 1 = Some \<lparr> fromVersion = 1, toVersion = 2, upcast = withVersion 2 \<rparr>
    \<and> dget reg 2 = Some \<lparr> fromVersion = 2, toVersion = 3, upcast = withVersion 3 \<rparr>"
    by (rule registration.run_invariant [where I = "\<lambda>r. dget r 1 = Some _ \<and> dget r 2 = Some _",
          OF _ _ r(2), rotated]) (auto intro: register_keeps)
  then show "dget reg 1 = Some \<lparr> fromVersion = 1, toVersion = 2, upcast = withVersion 2 \<rparr>"
    "dget reg 2 = Some \<lparr> fromVersion = 2, toVersion = 3, upcast = withVersion 3 \<rparr>" by simp_all
qed

text \<open>
  Events of schema versions 1 and 2 read exactly as the same event of the current version
  would: the built-in upcasters only move the version number, and no registered upcaster can replace
  them. An event of any later version is refused.
\<close>

theorem older_versions_read_alike:
  assumes "newRegistry upcasters = Inr byVersion"
  shows "(v = 1 \<or> v = 2 \<longrightarrow> toCurrent dt byVersion (RawObject (Some v) c)
            = toCurrent dt byVersion (RawObject (Some 3) c))
     \<and> (3 < v \<longrightarrow> toCurrent dt byVersion (RawObject (Some v) c) = Some (Inl SchemaViolation))
     \<and> toCurrent dt byVersion (RawObject (Some 3) c) = Some (parseRaw dt (RawObject (Some 3) c))"
proof -
  note up = registry_keeps_built_in [OF assms]
  have 3: "upcastLoop byVersion (RawObject (Some w) c) w = Some (Inr (RawObject (Some w) c))"
    if "3 \<le> w" for w
    using that by (subst upcastLoop.simps) (simp add: CURRENT_EVENT_SCHEMA_VERSION_def)
  have 2: "upcastLoop byVersion (RawObject (Some w) c) 2 = Some (Inr (RawObject (Some 3) c))" for w
    by (subst upcastLoop.simps) (simp add: CURRENT_EVENT_SCHEMA_VERSION_def up 3)
  have 1: "upcastLoop byVersion (RawObject (Some w) c) 1 = Some (Inr (RawObject (Some 3) c))" for w
    by (subst upcastLoop.simps) (simp add: CURRENT_EVENT_SCHEMA_VERSION_def up 2)
  have later: "parseRaw dt (RawObject (Some v) c) = Inl SchemaViolation" if "3 < v"
    using that by (auto simp: parseRaw_def CURRENT_EVENT_SCHEMA_VERSION_def split: option.split)
  show ?thesis using 1 2 3 later by (auto simp: toCurrent_def)
qed

theorem older_versions_read_alike_witness:
  "\<exists>byVersion. newRegistry [] = Inr byVersion
     \<and> toCurrent (\<lambda>_. True) byVersion (RawObject (Some 1) (Some (sampleEvent 1 (UTTERANCE_STARTED ''u''))))
        = Some (parseRaw (\<lambda>_. True) (RawObject (Some 3) (Some (sampleEvent 1 (UTTERANCE_STARTED ''u'')))))"
proof -
  have "isOk (newRegistry [])" by code_simp
  then obtain byVersion where reg: "newRegistry [] = Inr byVersion" by (auto simp: isOk_iff)
  with older_versions_read_alike [OF reg, of 1 "\<lambda>_. True" "Some (sampleEvent 1 (UTTERANCE_STARTED ''u''))"] show ?thesis by auto
qed

end
