(* ===== verification/ReducerFrame.thy ===== *)
theory ReducerFrame
  imports Reducer
begin

text \<open>
  The footprint of every handler of the reducer: the fields of the state it can write. From these,
  one frame lemma per group of fields says which event types can change the group, so that an
  invariant over a group is proved on its own handlers only.
\<close>

named_theorems footprint "fields a handler of the reducer writes"

section \<open>Footprints\<close>

text \<open>Writing fewer fields than a footprint names.\<close>

lemma keep_ledger:
  "\<exists>x y. st\<lparr> deliveries := z \<rparr> = st\<lparr> deliveries := x, disclosureLedger := y \<rparr>"
  by (rule exI [of _ z], rule exI [of _ "disclosureLedger st"]) simp

lemma keep_shapes:
  "\<exists>x y. st\<lparr> boardRevision := r, boardShapeAuthorityKnown := z \<rparr>
       = st\<lparr> boardRevision := r, boardShapeAuthorityKnown := x, boardShapes := y \<rparr>"
  by (rule exI [of _ z], rule exI [of _ "boardShapes st"]) simp

lemma keep_configuration:
  "\<exists>x. st\<lparr> started := True, sessionStatus := Session_ACTIVE \<rparr>
     = st\<lparr> started := True, sessionStatus := Session_ACTIVE, configuration := x \<rparr>"
  by (rule exI [of _ "configuration st"]) simp

lemma withDeliveryStatus_footprint [footprint]:
  "withDeliveryStatus st d status = Inr t \<Longrightarrow>
     \<exists>x y. t = st\<lparr> deliveries := x, disclosureLedger := y \<rparr>"
  by (auto simp: withDeliveryStatus_def keep_ledger
      split: option.splits if_splits)

lemma reduce_DELIVERY_CANCELLED_footprint [footprint]:
  "reduce_DELIVERY_CANCELLED st so d = Inr t \<Longrightarrow>
     \<exists>x y. t = st\<lparr> deliveries := x, disclosureLedger := y \<rparr>"
  by (auto simp: reduce_DELIVERY_CANCELLED_def keep_ledger split: option.splits if_splits
      dest: withDeliveryStatus_footprint)

lemma reduce_DELIVERY_QUEUED_footprint [footprint]:
  "reduce_DELIVERY_QUEUED st a = Inr t \<Longrightarrow> \<exists>x. t = st\<lparr> deliveries := x \<rparr>"
  by (auto simp: reduce_DELIVERY_QUEUED_def split: if_splits)

lemma updateGeneration_footprint [footprint]:
  "updateGeneration st g f = Inr t \<Longrightarrow> \<exists>x. t = st\<lparr> generations := x \<rparr>"
  by (auto simp: updateGeneration_def split: option.splits)

lemma generation_footprints [footprint]:
  "reduce_GENERATION_STARTED st g basis p = Inr t \<Longrightarrow> \<exists>x. t = st\<lparr> generations := x \<rparr>"
  "reduce_CONTEXT_COMPILED st g m = Inr t \<Longrightarrow> \<exists>x. t = st\<lparr> generations := x \<rparr>"
  "reduce_PROPOSAL_VALIDATED st g = Inr t \<Longrightarrow> \<exists>x. t = st\<lparr> generations := x \<rparr>"
  by (auto simp: reduce_GENERATION_STARTED_def reduce_CONTEXT_COMPILED_def
      reduce_PROPOSAL_VALIDATED_def split: option.splits if_splits dest: updateGeneration_footprint)

lemma start_footprints [footprint]:
  "reduce_SESSION_STARTED st c = Inr t \<Longrightarrow>
     \<exists>x. t = st\<lparr> started := True, sessionStatus := Session_ACTIVE, configuration := x \<rparr>"
  "reduce_PROBLEM_PRESENTED st i v p f = Inr t \<Longrightarrow> \<exists>x. t = st\<lparr> problem := x \<rparr>"
  by (auto simp: reduce_SESSION_STARTED_def reduce_PROBLEM_PRESENTED_def Let_def
      keep_configuration [simplified]
      split: option.splits if_splits InterviewSessionConfiguration.splits)

lemma quant_footprints [footprint]:
  "reduce_TRADING_INITIALIZED st d = Inr t \<Longrightarrow> \<exists>x. t = st\<lparr> quantTrading := x \<rparr>"
  "reduce_TRADING_ACTION st a = Inr t \<Longrightarrow> \<exists>x. t = st\<lparr> quantTrading := x \<rparr>"
  "reduce_TRADING_ROUND st e = Inr t \<Longrightarrow> \<exists>x. t = st\<lparr> quantTrading := x \<rparr>"
  "reduce_TRADING_COMPLETED st r = Inr t \<Longrightarrow> \<exists>x. t = st\<lparr> quantTrading := x \<rparr>"
  "reduce_RESEARCH_INITIALIZED st d' s = Inr t \<Longrightarrow> \<exists>x. t = st\<lparr> quantResearch := x \<rparr>"
  "reduce_RESEARCH_ACTION st a' = Inr t \<Longrightarrow> \<exists>x. t = st\<lparr> quantResearch := x \<rparr>"
  "reduce_RESEARCH_COMPLETED st r' = Inr t \<Longrightarrow> \<exists>x. t = st\<lparr> quantResearch := x \<rparr>"
  by (auto simp: reduce_TRADING_INITIALIZED_def reduce_TRADING_ACTION_def reduce_TRADING_ROUND_def
      reduce_TRADING_COMPLETED_def reduce_RESEARCH_INITIALIZED_def reduce_RESEARCH_ACTION_def
      reduce_RESEARCH_COMPLETED_def Let_def bindE_eq_Inr
      split: option.splits if_splits)

lemma input_footprints [footprint]:
  "reduce_UTTERANCE_STARTED st u = Inr t \<Longrightarrow> \<exists>x. t = st\<lparr> utterances := x \<rparr>"
  "reduce_UTTERANCE_DISCARDED st u = Inr t \<Longrightarrow> \<exists>x. t = st\<lparr> utterances := x \<rparr>"
  "reduce_TRANSCRIPT_FINALIZED st u e r tx = Inr t \<Longrightarrow>
     \<exists>x y. t = st\<lparr> transcriptRevision := x, utterances := y \<rparr>"
  "reduce_EPISODE_STARTED st e = Inr t \<Longrightarrow> \<exists>x. t = st\<lparr> inputEpisodes := x \<rparr>"
  "reduce_EPISODE_UPDATED st e m c = Inr t \<Longrightarrow> \<exists>x. t = st\<lparr> inputEpisodes := x \<rparr>"
  "reduce_EPISODE_COMMITTED st e = Inr t \<Longrightarrow> \<exists>x. t = st\<lparr> inputEpisodes := x \<rparr>"
  "reduce_TURN_COMMITTED st sq ti e tx = Inr t \<Longrightarrow>
     \<exists>x y. t = st\<lparr> lastCommittedInputSequence := x, turns := y \<rparr>"
  by (auto simp: reduce_UTTERANCE_STARTED_def reduce_UTTERANCE_DISCARDED_def
      reduce_TRANSCRIPT_FINALIZED_def reduce_EPISODE_STARTED_def reduce_EPISODE_UPDATED_def
      reduce_EPISODE_COMMITTED_def reduce_TURN_COMMITTED_def withCapturing_def withActiveEpisode_def
      split: option.splits if_splits)

lemma board_footprint [footprint]:
  "reduce_BOARD_PATCH st r m = Inr t \<Longrightarrow>
     \<exists>x y. t = st\<lparr> boardRevision := r, boardShapeAuthorityKnown := x, boardShapes := y \<rparr>"
  by (auto simp: reduce_BOARD_PATCH_def bindE_eq_Inr keep_shapes [simplified]
      split: option.splits if_splits)

lemma vision_footprints [footprint]:
  "reduce_VISION_REQUESTED st p = Inr t \<Longrightarrow> \<exists>x. t = st\<lparr> visionRequests := x \<rparr>"
  "reduce_VISION_ACCEPTED st ei sq p' = Inr t \<Longrightarrow> \<exists>x. t = st\<lparr> visionRequests := x \<rparr>"
  "reduce_BRIDGE_DECIDED st ei i f q = Inr t \<Longrightarrow> \<exists>x. t = st\<lparr> visionRequests := x \<rparr>"
  "reduce_BRIDGE_COMPLETED st ei i f c = Inr t \<Longrightarrow> \<exists>x. t = st\<lparr> visionRequests := x \<rparr>"
  "reduce_VISION_DISCARDED st i r = Inr t \<Longrightarrow> \<exists>x. t = st\<lparr> visionRequests := x \<rparr>"
  by (auto simp: reduce_VISION_REQUESTED_def reduce_VISION_ACCEPTED_def reduce_BRIDGE_DECIDED_def
      reduce_BRIDGE_COMPLETED_def reduce_VISION_DISCARDED_def Let_def bindE_eq_Inr
      split: option.splits if_splits RequestStatus.splits VisionEvidenceBridgeState.splits)

lemma request_footprints [footprint]:
  "reduce_COMPUTE_REQUESTED st i e r = Inr t \<Longrightarrow> \<exists>x. t = st\<lparr> localComputeRequests := x \<rparr>"
  "reduce_COMPUTE_ACCEPTED st i r tx n = Inr t \<Longrightarrow> \<exists>x. t = st\<lparr> localComputeRequests := x \<rparr>"
  "reduce_COMPUTE_DISCARDED st i re = Inr t \<Longrightarrow> \<exists>x. t = st\<lparr> localComputeRequests := x \<rparr>"
  "reduce_VERIFICATION_REQUESTED st ei p = Inr t \<Longrightarrow> \<exists>x. t = st\<lparr> verificationRequests := x \<rparr>"
  "reduce_VERIFICATION_ACCEPTED st ei sq i rs = Inr t \<Longrightarrow> \<exists>x. t = st\<lparr> verificationRequests := x \<rparr>"
  "reduce_VERIFICATION_DISCARDED st i re = Inr t \<Longrightarrow> \<exists>x. t = st\<lparr> verificationRequests := x \<rparr>"
  by (auto simp: reduce_COMPUTE_REQUESTED_def reduce_COMPUTE_ACCEPTED_def
      reduce_COMPUTE_DISCARDED_def reduce_VERIFICATION_REQUESTED_def
      reduce_VERIFICATION_ACCEPTED_def reduce_VERIFICATION_DISCARDED_def
      split: option.splits if_splits)

lemma evidence_footprints [footprint]:
  "reduce_EVIDENCE_UPDATED st ei sq k v s = Inr t \<Longrightarrow>
     \<exists>x y. t = st\<lparr> studentEvidence := x, evidenceHistory := y \<rparr>"
  "reduce_EVIDENCE_INVALIDATED st k i r = Inr t \<Longrightarrow>
     \<exists>x y. t = st\<lparr> studentEvidence := x, evidenceHistory := y \<rparr>"
  by (auto simp: reduce_EVIDENCE_UPDATED_def reduce_EVIDENCE_INVALIDATED_def Let_def
      split: list.splits if_splits)

lemma end_footprints [footprint]:
  "reduce_SESSION_COMPLETED st tm s = Inr t \<Longrightarrow>
     \<exists>x y. t = st\<lparr> sessionStatus := Session_COMPLETED, completedAt := x, completionSummary := y \<rparr>"
  "reduce_SESSION_ARCHIVED st tm r = Inr t \<Longrightarrow>
     \<exists>x y. t = st\<lparr> sessionStatus := Session_ARCHIVED, archivedAt := x, archivalReason := y \<rparr>"
  by (auto simp: reduce_SESSION_COMPLETED_def reduce_SESSION_ARCHIVED_def Let_def
      split: if_splits)

section \<open>Which events write which fields\<close>

definition isDeliveryBody :: "EventBody \<Rightarrow> bool" where
  "isDeliveryBody b =
     (case b of DELIVERY_QUEUED _ \<Rightarrow> True | DELIVERY_STARTED _ \<Rightarrow> True | DELIVERY_EXPOSED _ \<Rightarrow> True
      | DELIVERY_COMPLETED _ \<Rightarrow> True | DELIVERY_CANCELLED _ _ \<Rightarrow> True
      | DELIVERY_POSSIBLY_EXPOSED _ _ \<Rightarrow> True | _ \<Rightarrow> False)"

definition isBoardBody :: "EventBody \<Rightarrow> bool" where
  "isBoardBody b = (case b of BOARD_PATCH_COMMITTED _ _ _ \<Rightarrow> True | _ \<Rightarrow> False)"

definition isVisionBody :: "EventBody \<Rightarrow> bool" where
  "isVisionBody b =
     (case b of VISION_REQUESTED _ \<Rightarrow> True | VISION_RESULT_ACCEPTED _ \<Rightarrow> True
      | VISION_EVIDENCE_BRIDGE_DECIDED _ _ _ _ \<Rightarrow> True
      | VISION_EVIDENCE_BRIDGE_COMPLETED _ _ _ \<Rightarrow> True
      | VISION_RESULT_DISCARDED _ _ \<Rightarrow> True | _ \<Rightarrow> False)"

definition isComputeBody :: "EventBody \<Rightarrow> bool" where
  "isComputeBody b =
     (case b of LOCAL_COMPUTE_REQUESTED _ _ _ \<Rightarrow> True | LOCAL_COMPUTE_RESULT_ACCEPTED _ _ _ _ \<Rightarrow> True
      | LOCAL_COMPUTE_RESULT_DISCARDED _ _ \<Rightarrow> True | _ \<Rightarrow> False)"

definition isVerificationBody :: "EventBody \<Rightarrow> bool" where
  "isVerificationBody b =
     (case b of VERIFICATION_REQUESTED _ \<Rightarrow> True | VERIFICATION_RESULT_ACCEPTED _ _ \<Rightarrow> True
      | VERIFICATION_RESULT_DISCARDED _ _ \<Rightarrow> True | _ \<Rightarrow> False)"

definition isEvidenceBody :: "EventBody \<Rightarrow> bool" where
  "isEvidenceBody b =
     (case b of STUDENT_EVIDENCE_UPDATED _ _ _ \<Rightarrow> True | STUDENT_EVIDENCE_INVALIDATED _ _ _ \<Rightarrow> True
      | _ \<Rightarrow> False)"

definition isTradingBody :: "EventBody \<Rightarrow> bool" where
  "isTradingBody b =
     (case b of QUANT_TRADING_SCENARIO_INITIALIZED _ \<Rightarrow> True | QUANT_TRADING_ACTION_ACCEPTED _ \<Rightarrow> True
      | QUANT_TRADING_ROUND_RESOLVED _ \<Rightarrow> True | QUANT_TRADING_SCENARIO_COMPLETED _ \<Rightarrow> True
      | _ \<Rightarrow> False)"

definition isTurnBody :: "EventBody \<Rightarrow> bool" where
  "isTurnBody b = (case b of TURN_COMMITTED _ _ _ \<Rightarrow> True | _ \<Rightarrow> False)"

named_theorems frame "an event leaves the fields of the other groups alone"

lemma always_frame [frame]:
  "reduceBody st ei sq so b = Inr t \<Longrightarrow>
     sessionId t = sessionId st \<and> sequence t = sequence st \<and> eventIds t = eventIds st"
  by (cases b) (auto dest!: footprint)

lemma delivery_frame [frame]:
  "reduceBody st ei sq so b = Inr t \<Longrightarrow> \<not> isDeliveryBody b \<Longrightarrow>
     deliveries t = deliveries st \<and> disclosureLedger t = disclosureLedger st"
  by (cases b) (auto simp: isDeliveryBody_def dest!: footprint)

lemma board_frame [frame]:
  "reduceBody st ei sq so b = Inr t \<Longrightarrow> \<not> isBoardBody b \<Longrightarrow>
     boardRevision t = boardRevision st \<and> boardShapes t = boardShapes st
     \<and> boardShapeAuthorityKnown t = boardShapeAuthorityKnown st"
  by (cases b) (auto simp: isBoardBody_def dest!: footprint)

lemma vision_frame [frame]:
  "reduceBody st ei sq so b = Inr t \<Longrightarrow> \<not> isVisionBody b \<Longrightarrow> visionRequests t = visionRequests st"
  by (cases b) (auto simp: isVisionBody_def dest!: footprint)

lemma compute_frame [frame]:
  "reduceBody st ei sq so b = Inr t \<Longrightarrow> \<not> isComputeBody b \<Longrightarrow>
     localComputeRequests t = localComputeRequests st"
  by (cases b) (auto simp: isComputeBody_def dest!: footprint)

lemma verification_frame [frame]:
  "reduceBody st ei sq so b = Inr t \<Longrightarrow> \<not> isVerificationBody b \<Longrightarrow>
     verificationRequests t = verificationRequests st"
  by (cases b) (auto simp: isVerificationBody_def dest!: footprint)

lemma evidence_frame [frame]:
  "reduceBody st ei sq so b = Inr t \<Longrightarrow> \<not> isEvidenceBody b \<Longrightarrow>
     studentEvidence t = studentEvidence st \<and> evidenceHistory t = evidenceHistory st"
  by (cases b) (auto simp: isEvidenceBody_def dest!: footprint)

lemma trading_frame [frame]:
  "reduceBody st ei sq so b = Inr t \<Longrightarrow> \<not> isTradingBody b \<Longrightarrow> quantTrading t = quantTrading st"
  by (cases b) (auto simp: isTradingBody_def dest!: footprint)

lemma turn_frame [frame]:
  "reduceBody st ei sq so b = Inr t \<Longrightarrow> \<not> isTurnBody b \<Longrightarrow>
     lastCommittedInputSequence t = lastCommittedInputSequence st \<and> turns t = turns st"
  by (cases b) (auto simp: isTurnBody_def dest!: footprint)

section \<open>One event\<close>

lemma reduceSessionEvent_iff:
  "reduceSessionEvent st ev = Inr t \<longleftrightarrow>
     eventSessionId ev = sessionId st \<and> eventSequence ev = sequence st + 1
     \<and> (\<exists>u. reduceBody st (eventId ev) (eventSequence ev) (eventSource ev) (body ev) = Inr u
          \<and> t = u\<lparr> sequence := eventSequence ev, eventIds := eventIds u @ [eventId ev] \<rparr>)"
  by (auto simp: reduceSessionEvent_def assertSequence_def bindE_eq_Inr)

text \<open>
  An invariant of a group of fields: it only has to be preserved by the handlers of the group, if
  it does not depend on the sequence number and the list of event ids.
\<close>

lemma reduce_invariant:
  assumes "reduceSessionEvent st ev = Inr t" and "I st"
    and "\<And>u. reduceBody st (eventId ev) (sequence st + 1) (eventSource ev) (body ev) = Inr u \<Longrightarrow> I u"
    and "\<And>u n is. I (u\<lparr> sequence := n, eventIds := is \<rparr>) = I u"
  shows "I t"
  using assms by (auto simp: reduceSessionEvent_iff)

section \<open>Replay\<close>

lemma replay_invariant:
  assumes "replaySession sid evs = Inr st" and "I (initialSessionState sid)"
    and "\<And>s ev t. I s \<Longrightarrow> reduceSessionEvent s ev = Inr t \<Longrightarrow> I t"
  shows "I st"
  using assms by (auto simp: replaySession_def intro: reducer.run_invariant [where I = I])

lemma replay_snoc:
  "replaySession sid (evs @ [ev]) = Inr t \<longleftrightarrow>
     (\<exists>u. replaySession sid evs = Inr u \<and> reduceSessionEvent u ev = Inr t)"
  by (simp add: replaySession_def reducer.run_snoc bindE_eq_Inr)

lemma replay_prefix:
  "replaySession sid (evs @ rest) = Inr t \<Longrightarrow> \<exists>u. replaySession sid evs = Inr u
     \<and> foldE reduceSessionEvent u rest = Inr t"
  by (simp add: replaySession_def reducer.run_append bindE_eq_Inr)

text \<open>A fact about the prefixes of a log that replays is proved by adding one event at a time.\<close>

lemma replay_induct [consumes 1, case_names Nil snoc]:
  assumes "replaySession sid evs = Inr st"
    and "P [] (initialSessionState sid)"
    and "\<And>evs ev u t. replaySession sid evs = Inr u \<Longrightarrow> P evs u \<Longrightarrow>
           reduceSessionEvent u ev = Inr t \<Longrightarrow> P (evs @ [ev]) t"
  shows "P evs st"
  using assms(1)
proof (induction evs arbitrary: st rule: rev_induct)
  case Nil
  with assms(2) show ?case by (simp add: replaySession_def)
next
  case (snoc ev evs)
  with assms(3) show ?case by (auto simp: replay_snoc)
qed

end
