(* ===== verification/SessionLog.thy ===== *)
theory SessionLog
  imports ReducerFrame Samples
begin

text \<open>
  What replay guarantees about the log itself, and the staleness of a generation: the reducer
  accepts only the contiguous log of one session, so the order of the events is determined by
  their set, and a generation whose basis is compatible becomes stale for ever with the next
  committed turn.
\<close>

section \<open>Sequence numbers\<close>

definition numberedFrom :: "nat \<Rightarrow> SessionId \<Rightarrow> SessionEvent list \<Rightarrow> bool" where
  "numberedFrom n sid evs =
     (\<forall>i < length evs. eventSessionId (evs ! i) = sid \<and> eventSequence (evs ! i) = n + i + 1)"

lemma numberedFrom_Nil [simp]: "numberedFrom n sid []"
  by (simp add: numberedFrom_def)

lemma numberedFrom_snoc [simp]:
  "numberedFrom n sid (evs @ [ev]) \<longleftrightarrow>
     numberedFrom n sid evs \<and> eventSessionId ev = sid \<and> eventSequence ev = n + length evs + 1"
  by (auto simp: numberedFrom_def nth_append less_Suc_eq)

lemma numberedFrom_nth:
  "numberedFrom n sid evs \<Longrightarrow> i < length evs \<Longrightarrow> eventSequence (evs ! i) = n + i + 1"
  by (simp add: numberedFrom_def)

lemma numberedFrom_distinct: "numberedFrom n sid evs \<Longrightarrow> distinct evs"
  unfolding distinct_conv_nth by (metis add_right_cancel add_left_cancel numberedFrom_nth)

lemma numberedFrom_unique:
  assumes "numberedFrom n sid xs" and "numberedFrom n sid ys" and "set xs = set ys"
  shows "xs = ys"
proof (rule nth_equalityI)
  show len: "length xs = length ys"
    using assms by (metis distinct_card numberedFrom_distinct)
  fix i assume i: "i < length xs"
  with assms(3) obtain j where j: "j < length ys" "xs ! i = ys ! j"
    by (metis in_set_conv_nth nth_mem)
  with numberedFrom_nth [OF assms(1) i] numberedFrom_nth [OF assms(2) j(1)] show "xs ! i = ys ! i"
    by simp
qed

lemma event_log_fields:
  "reduceSessionEvent st ev = Inr t \<Longrightarrow>
     sessionId t = sessionId st \<and> sequence t = sequence st + 1
     \<and> eventIds t = eventIds st @ [eventId ev]
     \<and> eventSessionId ev = sessionId st \<and> eventSequence ev = sequence st + 1"
  by (auto simp: reduceSessionEvent_iff dest!: always_frame)

lemma replay_log_fields:
  assumes "replaySession sid evs = Inr st"
  shows "sessionId st = sid \<and> sequence st = length evs \<and> eventIds st = map eventId evs
     \<and> numberedFrom 0 sid evs"
  using assms
proof (induction rule: replay_induct)
  case Nil
  then show ?case by (simp add: initialSessionState_def)
next
  case (snoc evs ev u t)
  then show ?case by (auto dest!: event_log_fields)
qed

text \<open>
  A log replays only if it is contiguous: every event belongs to the session and the
  event at position \<open>i\<close> has sequence number \<open>i + 1\<close>. The replayed state then records the number of
  events and their ids in order, and belongs to the same session.
\<close>

theorem replay_contiguous:
  assumes "replaySession sid evs = Inr st"
  shows "sessionId st = sid \<and> sequence st = length evs \<and> eventIds st = map eventId evs
     \<and> (\<forall>i < length evs. eventSessionId (evs ! i) = sid \<and> eventSequence (evs ! i) = i + 1)"
  using replay_log_fields [OF assms] by (simp add: numberedFrom_def)

theorem replay_contiguous_witness:
  "\<exists>st. replaySession ''s1'' sampleDelivered = Inr st \<and> sequence st = 5
     \<and> eventSequence (sampleDelivered ! 4) = 5"
proof -
  have "isOk (replaySession ''s1'' sampleDelivered)" by code_simp
  then obtain st where st: "replaySession ''s1'' sampleDelivered = Inr st" by (auto simp: isOk_iff)
  have "length sampleDelivered = 5" by (simp add: sampleDelivered_def)
  with st replay_contiguous [OF st] show ?thesis by auto
qed

text \<open>
  The order of a log is forced by its events: of all the permutations of a log, at most
  one replays. Events delivered in another order are refused, never silently reinterpreted.
\<close>

theorem replay_order_unique:
  assumes "replaySession sid evs = Inr st" and "replaySession sid evs' = Inr st'"
    and "set evs = set evs'"
  shows "evs = evs' \<and> st = st'"
proof -
  have "evs = evs'"
    using replay_log_fields [OF assms(1)] replay_log_fields [OF assms(2)] assms(3)
    by (blast intro: numberedFrom_unique)
  with assms show ?thesis by simp
qed

theorem replay_order_unique_witness:
  "\<exists>st. replaySession ''s1'' sampleDelivered = Inr st
     \<and> (\<forall>evs' st'. set evs' = set sampleDelivered \<and> replaySession ''s1'' evs' = Inr st' \<longrightarrow> st' = st)"
proof -
  have "isOk (replaySession ''s1'' sampleDelivered)" by code_simp
  then obtain st where st: "replaySession ''s1'' sampleDelivered = Inr st" by (auto simp: isOk_iff)
  then show ?thesis using replay_order_unique [OF st] by metis
qed

section \<open>Generations and committed turns\<close>

definition turnsBounded :: "SessionState \<Rightarrow> bool" where
  "turnsBounded st =
     (case lastCommittedInputSequence st of None \<Rightarrow> True | Some n \<Rightarrow> n \<le> sequence st)"

lemma turn_event:
  assumes "reduceSessionEvent st ev = Inr t"
  shows "lastCommittedInputSequence t =
     (if isTurnBody (body ev) then Some (sequence st + 1) else lastCommittedInputSequence st)"
proof (cases "isTurnBody (body ev)")
  case True
  with assms show ?thesis
    by (cases "body ev") (auto simp: isTurnBody_def reduceSessionEvent_iff reduce_TURN_COMMITTED_def)
next
  case False
  with assms show ?thesis by (auto simp: reduceSessionEvent_iff dest!: turn_frame)
qed

lemma turnsBounded_event: "turnsBounded st \<Longrightarrow> reduceSessionEvent st ev = Inr t \<Longrightarrow> turnsBounded t"
  using turn_event [of st ev t] event_log_fields [of st ev t]
  by (auto simp: turnsBounded_def split: option.splits if_splits)

lemma turnsBounded_initial: "turnsBounded (initialSessionState sid)"
  by (simp add: turnsBounded_def initialSessionState_def)

lemma turnsBounded_replay: "replaySession sid evs = Inr st \<Longrightarrow> turnsBounded st"
  by (erule replay_invariant) (auto intro: turnsBounded_event turnsBounded_initial)

lemma committed_after_run:
  assumes "foldE reduceSessionEvent st evs = Inr t"
  shows "(\<exists>n. lastCommittedInputSequence t = Some n \<and> sequence st < n)
     \<or> lastCommittedInputSequence t = lastCommittedInputSequence st
        \<and> (\<forall>ev \<in> set evs. \<not> isTurnBody (body ev))"
  using assms
proof (induction evs arbitrary: st)
  case Nil
  then show ?case by simp
next
  case (Cons ev evs)
  then obtain u where u: "reduceSessionEvent st ev = Inr u" "foldE reduceSessionEvent u evs = Inr t"
    by (auto simp: bindE_eq_Inr)
  from Cons.IH [OF u(2)] turn_event [OF u(1)] event_log_fields [OF u(1)] show ?case
    by (auto split: if_splits)
qed

text \<open>
  Property C22. Staleness is permanent: if the basis of a generation is compatible with a replayed
  state and a turn is committed in the events that follow, then no matter which other events follow,
  before or after it, the basis is never compatible again.
\<close>

theorem stale_after_next_turn:
  assumes "replaySession sid evs = Inr st" and "isGenerationBasisStillCompatible b st = COMPATIBLE"
    and "foldE reduceSessionEvent st later = Inr t"
    and "\<exists>ev \<in> set later. isTurnBody (body ev)"
  shows "isGenerationBasisStillCompatible b t \<noteq> COMPATIBLE"
proof -
  from assms(2) have "lastCommittedInputSequence st = Some (gbCommittedInputSequence b)"
    by (simp add: compatible_iff)
  with turnsBounded_replay [OF assms(1)] have "gbCommittedInputSequence b \<le> sequence st"
    by (simp add: turnsBounded_def)
  with committed_after_run [OF assms(3)] assms(4) show ?thesis by (auto simp: compatible_iff)
qed

theorem stale_after_next_turn_witness:
  "\<exists>st t. replaySession ''s1'' (take 3 sampleTurns) = Inr st
     \<and> isGenerationBasisStillCompatible sampleBasis st = COMPATIBLE
     \<and> foldE reduceSessionEvent st (drop 3 sampleTurns) = Inr t
     \<and> isGenerationBasisStillCompatible sampleBasis t \<noteq> COMPATIBLE"
proof -
  have "(case replaySession ''s1'' (take 3 sampleTurns) of Inl _ \<Rightarrow> False
      | Inr s \<Rightarrow> isGenerationBasisStillCompatible sampleBasis s = COMPATIBLE
          \<and> isOk (foldE reduceSessionEvent s (drop 3 sampleTurns)))" by code_simp
  then obtain st t where st: "replaySession ''s1'' (take 3 sampleTurns) = Inr st"
    "isGenerationBasisStillCompatible sampleBasis st = COMPATIBLE"
    "foldE reduceSessionEvent st (drop 3 sampleTurns) = Inr t"
    by (auto simp: isOk_iff split: sum.splits)
  have "\<exists>ev \<in> set (drop 3 sampleTurns). isTurnBody (body ev)" by code_simp
  with stale_after_next_turn [OF st] st show ?thesis by blast
qed

end
