(* ===== verification/EventStore.thy ===== *)
theory EventStore
  imports Upcasters SessionLog "HOL-Library.List_Lexorder" "HOL-Library.Char_ord"
begin

text \<open>
  \<^verbatim>\<open>packages/persistence/src/sqlite-event-store.ts\<close>. A database is its two tables in
  insertion order (the order of \<^verbatim>\<open>rowid\<close>); the session index is the projection that
  \<^verbatim>\<open>rebuildSessionIndex\<close> recomputes before every read. A transaction is a computation whose
  failure leaves the database as it was. The event column holds JSON: a \<open>RawEvent\<close>, or \<open>None\<close> for a
  text that \<^verbatim>\<open>JSON.parse\<close> rejects. Fresh event ids and wall-clock times are inputs.
\<close>

section \<open>Tables\<close>

primrec eventType :: "EventBody \<Rightarrow> string" where
  "eventType (SESSION_STARTED _ _ _) = ''SESSION_STARTED''"
| "eventType (PROBLEM_PRESENTED _ _ _ _) = ''PROBLEM_PRESENTED''"
| "eventType (QUANT_TRADING_SCENARIO_INITIALIZED _) = ''QUANT_TRADING_SCENARIO_INITIALIZED''"
| "eventType (QUANT_TRADING_ACTION_ACCEPTED _) = ''QUANT_TRADING_ACTION_ACCEPTED''"
| "eventType (QUANT_TRADING_ROUND_RESOLVED _) = ''QUANT_TRADING_ROUND_RESOLVED''"
| "eventType (QUANT_TRADING_SCENARIO_COMPLETED _) = ''QUANT_TRADING_SCENARIO_COMPLETED''"
| "eventType (QUANT_RESEARCH_SCENARIO_INITIALIZED _ _) = ''QUANT_RESEARCH_SCENARIO_INITIALIZED''"
| "eventType (QUANT_RESEARCH_ACTION_ACCEPTED _) = ''QUANT_RESEARCH_ACTION_ACCEPTED''"
| "eventType (QUANT_RESEARCH_SCENARIO_COMPLETED _) = ''QUANT_RESEARCH_SCENARIO_COMPLETED''"
| "eventType (UTTERANCE_STARTED _) = ''UTTERANCE_STARTED''"
| "eventType (UTTERANCE_DISCARDED _ _) = ''UTTERANCE_DISCARDED''"
| "eventType (INPUT_EPISODE_STARTED _) = ''INPUT_EPISODE_STARTED''"
| "eventType (INPUT_EPISODE_UPDATED _ _ _) = ''INPUT_EPISODE_UPDATED''"
| "eventType (INPUT_EPISODE_COMMITTED _) = ''INPUT_EPISODE_COMMITTED''"
| "eventType (TURN_COMMITTED _ _ _) = ''TURN_COMMITTED''"
| "eventType (TRANSCRIPT_FINALIZED _ _ _ _) = ''TRANSCRIPT_FINALIZED''"
| "eventType (TRANSCRIPT_CORRECTED _ _ _) = ''TRANSCRIPT_CORRECTED''"
| "eventType (BOARD_PATCH_COMMITTED _ _ _) = ''BOARD_PATCH_COMMITTED''"
| "eventType (VISION_REQUESTED _) = ''VISION_REQUESTED''"
| "eventType (VISION_RESULT_ACCEPTED _) = ''VISION_RESULT_ACCEPTED''"
| "eventType (VISION_EVIDENCE_BRIDGE_DECIDED _ _ _ _) = ''VISION_EVIDENCE_BRIDGE_DECIDED''"
| "eventType (VISION_EVIDENCE_BRIDGE_COMPLETED _ _ _) = ''VISION_EVIDENCE_BRIDGE_COMPLETED''"
| "eventType (VISION_RESULT_DISCARDED _ _) = ''VISION_RESULT_DISCARDED''"
| "eventType (LOCAL_COMPUTE_REQUESTED _ _ _) = ''LOCAL_COMPUTE_REQUESTED''"
| "eventType (LOCAL_COMPUTE_RESULT_ACCEPTED _ _ _ _) = ''LOCAL_COMPUTE_RESULT_ACCEPTED''"
| "eventType (LOCAL_COMPUTE_RESULT_DISCARDED _ _) = ''LOCAL_COMPUTE_RESULT_DISCARDED''"
| "eventType (VERIFICATION_REQUESTED _) = ''VERIFICATION_REQUESTED''"
| "eventType (VERIFICATION_RESULT_ACCEPTED _ _) = ''VERIFICATION_RESULT_ACCEPTED''"
| "eventType (VERIFICATION_RESULT_DISCARDED _ _) = ''VERIFICATION_RESULT_DISCARDED''"
| "eventType (EVIDENCE_PROPOSED _) = ''EVIDENCE_PROPOSED''"
| "eventType (STUDENT_EVIDENCE_UPDATED _ _ _) = ''STUDENT_EVIDENCE_UPDATED''"
| "eventType (STUDENT_EVIDENCE_INVALIDATED _ _ _) = ''STUDENT_EVIDENCE_INVALIDATED''"
| "eventType (PEDAGOGICAL_ACTION_SELECTED _ _) = ''PEDAGOGICAL_ACTION_SELECTED''"
| "eventType (MODEL_GENERATION_STARTED _ _ _) = ''MODEL_GENERATION_STARTED''"
| "eventType (GENERATION_CONTEXT_COMPILED _ _) = ''GENERATION_CONTEXT_COMPILED''"
| "eventType (MODEL_PROPOSAL_RECEIVED _ _) = ''MODEL_PROPOSAL_RECEIVED''"
| "eventType (FORMAL_INTERPRETATION_PROPOSAL_RECEIVED _ _ _) = ''FORMAL_INTERPRETATION_PROPOSAL_RECEIVED''"
| "eventType (FORMAL_INTERPRETATION_PROPOSAL_REJECTED _ _) = ''FORMAL_INTERPRETATION_PROPOSAL_REJECTED''"
| "eventType (MODEL_GENERATION_SUPERSEDED _ _) = ''MODEL_GENERATION_SUPERSEDED''"
| "eventType (PROPOSAL_VALIDATED _ _) = ''PROPOSAL_VALIDATED''"
| "eventType (PROPOSAL_REJECTED _ _) = ''PROPOSAL_REJECTED''"
| "eventType (DELIVERY_QUEUED _) = ''DELIVERY_QUEUED''"
| "eventType (DELIVERY_STARTED _) = ''DELIVERY_STARTED''"
| "eventType (DELIVERY_EXPOSED _) = ''DELIVERY_EXPOSED''"
| "eventType (DELIVERY_COMPLETED _) = ''DELIVERY_COMPLETED''"
| "eventType (DELIVERY_CANCELLED _ _) = ''DELIVERY_CANCELLED''"
| "eventType (DELIVERY_POSSIBLY_EXPOSED _ _) = ''DELIVERY_POSSIBLY_EXPOSED''"
| "eventType (POLICY_REVISION_CHANGED _ _ _) = ''POLICY_REVISION_CHANGED''"
| "eventType (PROBLEM_STATE_REVISION_CHANGED _ _ _) = ''PROBLEM_STATE_REVISION_CHANGED''"
| "eventType (SESSION_COMPLETED _ _) = ''SESSION_COMPLETED''"
| "eventType (SESSION_ARCHIVED _ _) = ''SESSION_ARCHIVED''"
| "eventType (SESSION_RESUMED _) = ''SESSION_RESUMED''"

record StoredEventRow =
  rowSessionId :: SessionId
  rowSequence :: int
  rowEventId :: EventId
  rowSchemaVersion :: nat
  rowEventType :: string
  rowJson :: "RawEvent option"

record 'r ProcessedRow =
  prSessionId :: SessionId
  prRequestId :: RequestId
  prFingerprint :: "string option"
  prResult :: 'r

record 'r Database =
  sessionEvents :: "StoredEventRow list"
  processedRequests :: "'r ProcessedRow list"

record 'r AppendInput =
  aiSessionId :: SessionId
  aiRequestId :: RequestId
  aiCausationId :: RequestId
  aiCorrelationId :: RequestId
  aiElapsedMs :: nat
  aiExpectedPriorSequence :: int
  aiCommandFingerprint :: string
  aiDrafts :: "EventDraft list"
  aiResult :: 'r

record 'r AppendResult =
  arDuplicate :: bool
  arEvents :: "SessionEvent list"
  arResult :: 'r

datatype StoreError =
    RequestIdConflict
  | StaleSessionWriter int int
  | CorruptEventStream
  | InvalidExpectedSequence
  | InvalidFingerprint
  | InvalidSessionId
  | InvalidLimit
  | DraftSchemaViolation
  | ConstraintViolation

type_synonym ('r, 'a) stored = "(StoreError, 'a) result \<times> 'r Database"

definition emptyDatabase :: "'r Database" where
  "emptyDatabase = \<lparr> sessionEvents = [], processedRequests = [] \<rparr>"

section \<open>Queries\<close>

definition rowsOf :: "'r Database \<Rightarrow> SessionId \<Rightarrow> StoredEventRow list" where
  "rowsOf db sid = filter (\<lambda>r. rowSessionId r = sid) (sessionEvents db)"

definition hasSession :: "'r Database \<Rightarrow> SessionId \<Rightarrow> bool" where
  "hasSession db sid = (rowsOf db sid \<noteq> [])"

definition eventCount :: "'r Database \<Rightarrow> SessionId \<Rightarrow> nat" where
  "eventCount db sid = length (rowsOf db sid)"

definition storedSessions :: "'r Database \<Rightarrow> SessionId list" where
  "storedSessions db = uniq (map rowSessionId (sessionEvents db))"

definition parseSessionId :: "SessionId \<Rightarrow> (StoreError, SessionId) result" where
  "parseSessionId sid = (if idSchema sid then Inr sid else Inl InvalidSessionId)"

definition listSessionIds :: "'r Database \<Rightarrow> (StoreError, SessionId list) result" where
  "listSessionIds db = mapE parseSessionId (sort (storedSessions db))"

definition sessionCount :: "'r Database \<Rightarrow> nat" where
  "sessionCount db = length (storedSessions db)"

definition listRecentSessionIds :: "'r Database \<Rightarrow> int \<Rightarrow> (StoreError, SessionId list) result" where
  "listRecentSessionIds db limit =
     (if limit \<le> 0 \<or> 10000 < limit then Inl InvalidLimit
      else mapE parseSessionId
        (take (nat limit) (uniq (rev (map rowSessionId (sessionEvents db))))))"

definition findProcessed :: "'r Database \<Rightarrow> SessionId \<Rightarrow> RequestId \<Rightarrow> 'r ProcessedRow option" where
  "findProcessed db sid rid =
     find (\<lambda>p. prSessionId p = sid \<and> prRequestId p = rid) (processedRequests db)"

text \<open>\<^verbatim>\<open>COALESCE(MAX(sequence), 0)\<close>\<close>

definition latestSequence :: "'r Database \<Rightarrow> SessionId \<Rightarrow> int" where
  "latestSequence db sid =
     (case map rowSequence (rowsOf db sid) of [] \<Rightarrow> 0 | n # ns \<Rightarrow> fold max ns n)"

section \<open>Loading a session\<close>

definition decodeRow ::
  "(string \<Rightarrow> bool) \<Rightarrow> Registry \<Rightarrow> StoredEventRow \<Rightarrow> (StoreError, SessionEvent) result" where
  "decodeRow dt reg row =
     (case rowJson row of
        None \<Rightarrow> Inl CorruptEventStream
      | Some raw \<Rightarrow>
          (case toCurrent dt reg raw of
             Some (Inr ev) \<Rightarrow> Inr ev
           | _ \<Rightarrow> Inl CorruptEventStream))"

fun checkContiguous :: "SessionId \<Rightarrow> nat \<Rightarrow> SessionEvent list \<Rightarrow> (StoreError, unit) result" where
  "checkContiguous sid expected [] = Inr ()"
| "checkContiguous sid expected (ev # evs) =
     (if eventSessionId ev \<noteq> sid then Inl CorruptEventStream
      else if eventSequence ev \<noteq> expected then Inl CorruptEventStream
      else checkContiguous sid (expected + 1) evs)"

definition load ::
  "(string \<Rightarrow> bool) \<Rightarrow> Registry \<Rightarrow> 'r Database \<Rightarrow> SessionId \<Rightarrow> (StoreError, SessionEvent list) result" where
  "load dt reg db sid =
     bindE (mapE (decodeRow dt reg) (sort_key rowSequence (rowsOf db sid)))
       (\<lambda>evs. bindE (checkContiguous sid 1 evs) (\<lambda>_. Inr evs))"

section \<open>Writing\<close>

text \<open>\<^verbatim>\<open>BEGIN IMMEDIATE ... COMMIT\<close>, and \<^verbatim>\<open>ROLLBACK\<close> when the body throws.\<close>

definition transaction ::
  "('r Database \<Rightarrow> (StoreError, 'a \<times> 'r Database) result) \<Rightarrow> 'r Database \<Rightarrow> ('r, 'a) stored" where
  "transaction act db = (case act db of Inl e \<Rightarrow> (Inl e, db) | Inr (x, db') \<Rightarrow> (Inr x, db'))"

text \<open>The stale-writer check that guards both the lookup and the append.\<close>

definition checkWriter :: "'r Database \<Rightarrow> SessionId \<Rightarrow> int \<Rightarrow> (StoreError, int) result" where
  "checkWriter db sid expected =
     (if \<not> isSafeInteger expected \<or> expected < 0 then Inl InvalidExpectedSequence
      else let latest = latestSequence db sid in
        if \<not> isSafeInteger latest \<or> latest < 0 then Inl CorruptEventStream
        else if latest \<noteq> expected then Inl (StaleSessionWriter expected latest)
        else Inr latest)"

definition getProcessedResult ::
  "'r Database \<Rightarrow> SessionId \<Rightarrow> RequestId \<Rightarrow> (string option \<times> 'r) option" where
  "getProcessedResult db sid rid =
     map_option (\<lambda>p. (prFingerprint p, prResult p)) (findProcessed db sid rid)"

definition getProcessedResultForWriter ::
  "'r Database \<Rightarrow> SessionId \<Rightarrow> RequestId \<Rightarrow> int
     \<Rightarrow> (StoreError, (string option \<times> 'r) option) result" where
  "getProcessedResultForWriter db sid rid expected =
     bindE (checkWriter db sid expected) (\<lambda>_. Inr (getProcessedResult db sid rid))"

text \<open>The event that \<^verbatim>\<open>SessionEventSchema.parse\<close> makes of a draft.\<close>

definition draftEvent ::
  "(string \<Rightarrow> bool) \<Rightarrow> SessionId \<Rightarrow> RequestId \<Rightarrow> RequestId \<Rightarrow> EventId \<Rightarrow> string \<Rightarrow> nat \<Rightarrow> nat
     \<Rightarrow> EventDraft \<Rightarrow> SessionEvent option" where
  "draftEvent dt sid causation correlation eid wall elapsed sq draft =
     parseEvent dt \<lparr> eventId = eid, eventSessionId = sid, eventSequence = sq,
       eventSource = draftSource draft, wallTime = wall, elapsedMs = elapsed,
       causationId = causation, correlationId = correlation, body = draftBody draft \<rparr>"

fun buildEvents ::
  "(string \<Rightarrow> bool) \<Rightarrow> 'r AppendInput \<Rightarrow> (nat \<Rightarrow> EventId \<times> string) \<Rightarrow> nat \<Rightarrow> nat \<Rightarrow> EventDraft list
     \<Rightarrow> (StoreError, SessionEvent list) result" where
  "buildEvents dt i fresh sq index [] = Inr []"
| "buildEvents dt i fresh sq index (d # ds) =
     (case draftEvent dt (aiSessionId i) (aiCausationId i) (aiCorrelationId i)
        (fst (fresh index)) (snd (fresh index)) (aiElapsedMs i + index) (sq + 1) d of
        None \<Rightarrow> Inl DraftSchemaViolation
      | Some ev \<Rightarrow> bindE (buildEvents dt i fresh (sq + 1) (index + 1) ds) (\<lambda>evs. Inr (ev # evs)))"

definition eventRow :: "SessionEvent \<Rightarrow> StoredEventRow" where
  "eventRow ev =
     \<lparr> rowSessionId = eventSessionId ev, rowSequence = int (eventSequence ev),
       rowEventId = eventId ev, rowSchemaVersion = CURRENT_EVENT_SCHEMA_VERSION,
       rowEventType = eventType (body ev),
       rowJson = Some (RawObject (Some (of_nat CURRENT_EVENT_SCHEMA_VERSION)) (Some ev)) \<rparr>"

text \<open>\<^verbatim>\<open>PRIMARY KEY (session_id, sequence)\<close> and \<^verbatim>\<open>event_id UNIQUE\<close>\<close>

definition insertEvent :: "'r Database \<Rightarrow> SessionEvent \<Rightarrow> (StoreError, 'r Database) result" where
  "insertEvent db ev =
     (let row = eventRow ev in
      if list_ex (\<lambda>r. rowSessionId r = rowSessionId row \<and> rowSequence r = rowSequence row
                    \<or> rowEventId r = rowEventId row) (sessionEvents db)
      then Inl ConstraintViolation
      else Inr (db\<lparr> sessionEvents := sessionEvents db @ [row] \<rparr>))"

definition insertProcessed :: "'r Database \<Rightarrow> 'r ProcessedRow \<Rightarrow> (StoreError, 'r Database) result" where
  "insertProcessed db p =
     (if findProcessed db (prSessionId p) (prRequestId p) \<noteq> None then Inl ConstraintViolation
      else Inr (db\<lparr> processedRequests := processedRequests db @ [p] \<rparr>))"

definition appendBody ::
  "(string \<Rightarrow> bool) \<Rightarrow> 'r AppendInput \<Rightarrow> (nat \<Rightarrow> EventId \<times> string) \<Rightarrow> 'r Database
     \<Rightarrow> (StoreError, 'r AppendResult \<times> 'r Database) result" where
  "appendBody dt i fresh db =
     bindE (checkWriter db (aiSessionId i) (aiExpectedPriorSequence i)) (\<lambda>latest.
       case findProcessed db (aiSessionId i) (aiRequestId i) of
         Some prior \<Rightarrow>
           (if prFingerprint prior \<noteq> Some (aiCommandFingerprint i) then Inl RequestIdConflict
            else Inr (\<lparr> arDuplicate = True, arEvents = [], arResult = prResult prior \<rparr>, db))
       | None \<Rightarrow>
           bindE (buildEvents dt i fresh (nat latest) 0 (aiDrafts i)) (\<lambda>evs.
             bindE (foldE insertEvent db evs) (\<lambda>db1.
               bindE (insertProcessed db1
                   \<lparr> prSessionId = aiSessionId i, prRequestId = aiRequestId i,
                     prFingerprint = Some (aiCommandFingerprint i), prResult = aiResult i \<rparr>)
                 (\<lambda>db2. Inr (\<lparr> arDuplicate = False, arEvents = evs, arResult = aiResult i \<rparr>, db2)))))"

definition appendIdempotent ::
  "(string \<Rightarrow> bool) \<Rightarrow> 'r AppendInput \<Rightarrow> (nat \<Rightarrow> EventId \<times> string) \<Rightarrow> 'r Database
     \<Rightarrow> ('r, 'r AppendResult) stored" where
  "appendIdempotent dt i fresh db =
     (if \<not> isSha256Hex (aiCommandFingerprint i) then (Inl InvalidFingerprint, db)
      else transaction (appendBody dt i fresh) db)"

section \<open>The session index\<close>

record StoredSessionSummary =
  ssSessionId :: SessionId
  ssProblemId :: "string option"
  ssProblemVersion :: "string option"
  ssStatus :: SessionStatus
  ssSequence :: nat
  ssCreatedAt :: string
  ssUpdatedAt :: string
  ssEventCount :: nat

definition indexEvent ::
  "(string \<times> string) option \<times> SessionStatus \<Rightarrow> SessionEvent \<Rightarrow> (string \<times> string) option \<times> SessionStatus" where
  "indexEvent s ev =
     (case body ev of
        PROBLEM_PRESENTED i v p f \<Rightarrow> (Some (i, v), snd s)
      | SESSION_STARTED t c src \<Rightarrow> (fst s, Session_ACTIVE)
      | SESSION_COMPLETED t m \<Rightarrow> (fst s, Session_COMPLETED)
      | SESSION_ARCHIVED t m \<Rightarrow> (fst s, Session_ARCHIVED)
      | _ \<Rightarrow> s)"

definition summarize :: "SessionId \<Rightarrow> SessionEvent list \<Rightarrow> StoredSessionSummary option" where
  "summarize sid evs =
     (if evs = [] then None
      else let (pb, status) = foldl indexEvent (None, Session_CREATED) evs in
        Some \<lparr> ssSessionId = sid, ssProblemId = map_option fst pb, ssProblemVersion = map_option snd pb,
               ssStatus = status, ssSequence = eventSequence (last evs),
               ssCreatedAt = wallTime (hd evs), ssUpdatedAt = wallTime (last evs),
               ssEventCount = length evs \<rparr>)"

definition rebuildSessionIndex ::
  "(string \<Rightarrow> bool) \<Rightarrow> Registry \<Rightarrow> 'r Database \<Rightarrow> (StoreError, StoredSessionSummary list) result" where
  "rebuildSessionIndex dt reg db =
     bindE (mapE (\<lambda>sid. bindE (parseSessionId sid) (\<lambda>s. bindE (load dt reg db s)
         (\<lambda>evs. Inr (summarize s evs)))) (storedSessions db))
       (\<lambda>summaries. Inr (concat (map (\<lambda>s. case s of None \<Rightarrow> [] | Some x \<Rightarrow> [x]) summaries)))"

definition listSessions ::
  "(string \<Rightarrow> bool) \<Rightarrow> Registry \<Rightarrow> 'r Database \<Rightarrow> (StoreError, StoredSessionSummary list) result" where
  "listSessions dt reg db =
     bindE (rebuildSessionIndex dt reg db)
       (\<lambda>summaries. Inr (rev (sort_key ssUpdatedAt (rev summaries))))"

end
