(* ===== verification/EventStoreFacts.thy ===== *)
theory EventStoreFacts
  imports EventStore
begin

text \<open>
  The event store refines an abstract append-only log: \<open>represents db L\<close> says that the database holds,
  for every session, exactly the contiguous log \<open>L sid\<close>. The locale \<open>event_log\<close> is the interface the
  session writer relies on, interpreted here on the store.
\<close>

section \<open>The abstract log\<close>

locale event_log =
  fixes get :: "'d \<Rightarrow> SessionId \<Rightarrow> (StoreError, SessionEvent list) result"
    and put :: "'i \<Rightarrow> 'd \<Rightarrow> (StoreError, 'r AppendResult) result \<times> 'd"
    and target :: "'i \<Rightarrow> SessionId"
    and holds :: "'d \<Rightarrow> (SessionId \<Rightarrow> SessionEvent list) \<Rightarrow> bool"
  assumes get_holds: "holds d L \<Longrightarrow> get d sid = Inr (L sid)"
    and put_error: "holds d L \<Longrightarrow> put i d = (Inl e, d') \<Longrightarrow> d' = d"
    and put_ok: "holds d L \<Longrightarrow> put i d = (Inr r, d') \<Longrightarrow>
       holds d' (L(target i := L (target i) @ arEvents r))"
begin

lemma put_holds:
  assumes "holds d L" and "put i d = (res, d')"
  shows "\<exists>new. holds d' (L(target i := L (target i) @ new))
     \<and> (case res of Inl _ \<Rightarrow> new = [] | Inr r \<Rightarrow> new = arEvents r)"
proof (cases res)
  case (Inl e)
  with put_error [OF assms(1)] assms have "d' = d" by blast
  with assms(1) Inl show ?thesis by (intro exI [of _ "[]"]) simp
next
  case (Inr r)
  with put_ok [OF assms(1)] assms(2) show ?thesis by auto
qed

text \<open>Any number of writes, of any sessions in any order, only extends the logs.\<close>

lemma puts_extend:
  assumes "holds d L"
  shows "\<exists>L'. holds (fold (\<lambda>i d. snd (put i d)) is d) L' \<and> (\<forall>sid. \<exists>new. L' sid = L sid @ new)"
  using assms
proof (induction "is" arbitrary: d L)
  case Nil
  then show ?case by auto
next
  case (Cons i js)
  obtain res d' where w: "put i d = (res, d')" by force
  from put_holds [OF Cons.prems w] obtain new where
    h: "holds d' (L(target i := L (target i) @ new))" by blast
  from Cons.IH [OF h] obtain L' where L': "holds (fold (\<lambda>i d. snd (put i d)) js d') L'"
    "\<forall>sid. \<exists>more. L' sid = (L(target i := L (target i) @ new)) sid @ more" by blast
  have "\<exists>more. L' sid = L sid @ more" for sid
    using L'(2) [rule_format, of sid] by (cases "sid = target i") auto
  with L'(1) w show ?case by auto
qed

end

section \<open>The store represents a log\<close>

definition rowOf :: "(string \<Rightarrow> bool) \<Rightarrow> Registry \<Rightarrow> StoredEventRow \<Rightarrow> SessionEvent \<Rightarrow> bool" where
  "rowOf dt reg row ev = (decodeRow dt reg row = Inr ev \<and> rowSequence row = int (eventSequence ev))"

definition represents ::
  "(string \<Rightarrow> bool) \<Rightarrow> Registry \<Rightarrow> 'r Database \<Rightarrow> (SessionId \<Rightarrow> SessionEvent list) \<Rightarrow> bool" where
  "represents dt reg db L =
     (\<forall>sid. list_all2 (rowOf dt reg) (rowsOf db sid) (L sid) \<and> numberedFrom 0 sid (L sid))"

lemma rows_sequences:
  "list_all2 (rowOf dt reg) rows evs \<Longrightarrow> map rowSequence rows = map (int \<circ> eventSequence) evs"
  by (induction rule: list_all2_induct) (auto simp: rowOf_def)

lemma numbered_sequences:
  "numberedFrom n sid evs \<Longrightarrow> map eventSequence evs = [Suc n ..< Suc n + length evs]"
  by (rule nth_equalityI) (auto simp: numberedFrom_def simp del: upt_Suc)

lemma checkContiguous_numbered: "checkContiguous sid (Suc n) evs = Inr () \<longleftrightarrow> numberedFrom n sid evs"
proof (induction evs arbitrary: n)
  case Nil
  then show ?case by simp
next
  case (Cons ev evs)
  have "numberedFrom n sid (ev # evs) \<longleftrightarrow>
      eventSessionId ev = sid \<and> eventSequence ev = Suc n \<and> numberedFrom (Suc n) sid evs"
    unfolding numberedFrom_def by (auto simp: less_Suc_eq_0_disj)
  with Cons [of "Suc n"] show ?case by auto
qed

lemma represents_load:
  assumes "represents dt reg db L"
  shows "load dt reg db sid = Inr (L sid)"
proof -
  from assms have rows: "list_all2 (rowOf dt reg) (rowsOf db sid) (L sid)"
    and num: "numberedFrom 0 sid (L sid)" by (auto simp: represents_def)
  have "map rowSequence (rowsOf db sid) = map int [Suc 0 ..< Suc 0 + length (L sid)]"
    using rows_sequences [OF rows] numbered_sequences [OF num] by (metis map_map)
  then have "sorted (map rowSequence (rowsOf db sid))"
    by (simp add: sorted_map mono_def sorted_wrt_map del: upt_Suc)
  then have "sort_key rowSequence (rowsOf db sid) = rowsOf db sid" by (rule sort_key_id_if_sorted)
  moreover have "mapE (decodeRow dt reg) (rowsOf db sid) = Inr (L sid)"
    using rows by (auto simp: mapE_eq_Inr_list_all2 rowOf_def elim: list.rel_mono_strong)
  moreover have "checkContiguous sid 1 (L sid) = Inr ()"
    using num checkContiguous_numbered [of sid 0] by simp
  ultimately show ?thesis by (simp add: load_def)
qed

lemma fold_max_upt: "fold max (map int [Suc m ..< Suc m + k]) (int m) = int (m + k)"
proof (induction k arbitrary: m)
  case 0
  then show ?case by simp
next
  case (Suc k)
  from Suc.IH [of "Suc m"] show ?case by (simp add: upt_conv_Cons del: upt_Suc)
qed

lemma represents_latest:
  assumes "represents dt reg db L"
  shows "latestSequence db sid = int (length (L sid))"
proof -
  from assms have rows: "list_all2 (rowOf dt reg) (rowsOf db sid) (L sid)"
    and num: "numberedFrom 0 sid (L sid)" by (auto simp: represents_def)
  have seqs: "map rowSequence (rowsOf db sid) = map int [Suc 0 ..< Suc 0 + length (L sid)]"
    using rows_sequences [OF rows] numbered_sequences [OF num] by (metis map_map)
  show ?thesis
  proof (cases "length (L sid)")
    case 0
    with seqs show ?thesis by (simp add: latestSequence_def)
  next
    case (Suc k)
    then have "map rowSequence (rowsOf db sid) = 1 # map int [Suc 1 ..< Suc 1 + k]"
      using seqs by (simp add: upt_conv_Cons del: upt_Suc)
    then show ?thesis using fold_max_upt [of 1 k] Suc by (simp add: latestSequence_def del: upt_Suc)
  qed
qed

section \<open>Appending\<close>

lemma parseEvent_idem: "parseEvent dt e0 = Some e \<Longrightarrow> parseEvent dt e = Some e"
proof -
  have "normalizeBody b = b" if "payloadSchema dt b" for b
    using that by (cases b) (simp_all add: normalizeBody_def ProviderRuntimeNameSchema_def)
  then have "SessionEventSchema dt e \<Longrightarrow> normalizeBody (body e) = body e" for e
    by (simp add: SessionEventSchema_def)
  then show "parseEvent dt e0 = Some e \<Longrightarrow> ?thesis"
    by (auto simp: parseEvent_def Let_def split: if_splits)
qed

text \<open>Whatever upcasters are registered, an event of the current version is not upcast.\<close>

lemma toCurrent_current:
  "toCurrent dt reg (RawObject (Some (of_nat CURRENT_EVENT_SCHEMA_VERSION)) (Some ev))
     = Some (case parseEvent dt ev of None \<Rightarrow> Inl SchemaViolation | Some e \<Rightarrow> Inr e)"
  by (simp add: toCurrent_def parseRaw_def upcastLoop.simps)

lemma rowOf_eventRow: "parseEvent dt e0 = Some ev \<Longrightarrow> rowOf dt reg (eventRow ev) ev"
  by (simp add: rowOf_def decodeRow_def eventRow_def toCurrent_current parseEvent_idem)

lemma draftEvent_fields:
  "draftEvent dt sid c1 c2 eid wall el sq d = Some ev \<Longrightarrow>
     eventSessionId ev = sid \<and> eventSequence ev = sq \<and> eventId ev = eid \<and> causationId ev = c1
     \<and> body ev = normalizeBody (draftBody d) \<and> eventSource ev = draftSource d
     \<and> parseEvent dt ev = Some ev"
  by (auto simp: draftEvent_def intro: parseEvent_idem)
     (auto simp: parseEvent_def Let_def split: if_splits)

lemma buildEvents_numbered:
  "buildEvents dt i fresh sq index ds = Inr evs \<Longrightarrow>
     numberedFrom sq (aiSessionId i) evs \<and> length evs = length ds
     \<and> list_all (\<lambda>ev. parseEvent dt ev = Some ev) evs"
proof (induction ds arbitrary: sq index evs)
  case Nil
  then show ?case by simp
next
  case (Cons d ds)
  then obtain ev rest where e: "evs = ev # rest"
    "buildEvents dt i fresh (sq + 1) (index + 1) ds = Inr rest"
    "draftEvent dt (aiSessionId i) (aiCausationId i) (aiCorrelationId i)
        (fst (fresh index)) (snd (fresh index)) (aiElapsedMs i + index) (sq + 1) d = Some ev"
    by (auto simp: bindE_eq_Inr split: option.splits)
  from Cons.IH [OF e(2)] draftEvent_fields [OF e(3)] show ?case
    by (auto simp: e(1) numberedFrom_def nth_Cons split: nat.split)
qed

lemma insertEvents_rows:
  "foldE insertEvent db evs = Inr db' \<Longrightarrow>
     sessionEvents db' = sessionEvents db @ map eventRow evs
     \<and> processedRequests db' = processedRequests db"
proof (induction evs arbitrary: db)
  case Nil
  then show ?case by simp
next
  case (Cons ev evs)
  then obtain db1 where i: "insertEvent db ev = Inr db1" "foldE insertEvent db1 evs = Inr db'"
    by (auto simp: bindE_eq_Inr)
  from i(1) have "db1 = db\<lparr> sessionEvents := sessionEvents db @ [eventRow ev] \<rparr>"
    by (auto simp: insertEvent_def Let_def split: if_splits)
  with Cons.IH [OF i(2)] show ?case by simp
qed

lemma insertProcessed_rows:
  "insertProcessed db p = Inr db' \<Longrightarrow> sessionEvents db' = sessionEvents db
     \<and> processedRequests db' = processedRequests db @ [p]"
  by (auto simp: insertProcessed_def split: if_splits)

lemma checkWriter_Inr:
  "checkWriter db sid expected = Inr n \<longleftrightarrow>
     n = latestSequence db sid \<and> expected = n \<and> isSafeInteger n \<and> 0 \<le> n"
  by (auto simp: checkWriter_def Let_def)

lemma numberedFrom_append:
  "numberedFrom n sid xs \<Longrightarrow> numberedFrom (n + length xs) sid ys \<Longrightarrow> numberedFrom n sid (xs @ ys)"
  by (auto simp: numberedFrom_def nth_append)

lemma represents_append:
  assumes "represents dt reg db L" and "sessionEvents db' = sessionEvents db @ map eventRow evs"
    and "numberedFrom (length (L sid)) sid evs" and "list_all (\<lambda>ev. parseEvent dt ev = Some ev) evs"
  shows "represents dt reg db' (L(sid := L sid @ evs))"
proof -
  have ids: "\<forall>ev \<in> set evs. eventSessionId ev = sid"
    using assms(3) by (auto simp: numberedFrom_def in_set_conv_nth)
  have own: "rowsOf db' sid = rowsOf db sid @ map eventRow evs"
    using ids by (auto simp: rowsOf_def assms(2) eventRow_def filter_id_conv)
  have other: "rowsOf db' s = rowsOf db s" if "s \<noteq> sid" for s
    using ids that by (auto simp: rowsOf_def assms(2) eventRow_def filter_empty_conv)
  have "list_all2 (rowOf dt reg) (map eventRow evs) evs"
    using assms(4) by (auto simp: list_all2_conv_all_nth list_all_length intro: rowOf_eventRow)
  moreover have "list_all2 (rowOf dt reg) (rowsOf db sid) (L sid)" "numberedFrom 0 sid (L sid)"
    using assms(1) by (auto simp: represents_def)
  ultimately have "list_all2 (rowOf dt reg) (rowsOf db' sid) (L sid @ evs)"
    "numberedFrom 0 sid (L sid @ evs)"
    using own assms(3) by (auto intro: list_all2_appendI numberedFrom_append)
  with assms(1) other show ?thesis by (auto simp: represents_def)
qed

text \<open>The two ways an append succeeds.\<close>

lemma appendIdempotent_Inr:
  "appendIdempotent dt i fresh db = (Inr r, db') \<longleftrightarrow>
     isSha256Hex (aiCommandFingerprint i) \<and> appendBody dt i fresh db = Inr (r, db')"
  by (auto simp: appendIdempotent_def transaction_def split: sum.splits prod.splits if_splits)

lemma appendBody_cases:
  assumes "appendBody dt i fresh db = Inr (r, db')"
  obtains (duplicate) prior where "findProcessed db (aiSessionId i) (aiRequestId i) = Some prior"
      "prFingerprint prior = Some (aiCommandFingerprint i)" "db' = db" "arDuplicate r"
      "arEvents r = []" "arResult r = prResult prior"
    | (fresh) "findProcessed db (aiSessionId i) (aiRequestId i) = None" "\<not> arDuplicate r"
      "arResult r = aiResult i"
      "aiExpectedPriorSequence i = latestSequence db (aiSessionId i)"
      "buildEvents dt i fresh (nat (latestSequence db (aiSessionId i))) 0 (aiDrafts i) = Inr (arEvents r)"
      "sessionEvents db' = sessionEvents db @ map eventRow (arEvents r)"
      "processedRequests db' = processedRequests db @
         [\<lparr> prSessionId = aiSessionId i, prRequestId = aiRequestId i,
            prFingerprint = Some (aiCommandFingerprint i), prResult = aiResult i \<rparr>]"
proof (cases "findProcessed db (aiSessionId i) (aiRequestId i)")
  case (Some prior)
  with assms duplicate show ?thesis
    by (auto simp: appendBody_def bindE_eq_Inr split: if_splits)
next
  case None
  with assms obtain evs db1 where *: "checkWriter db (aiSessionId i) (aiExpectedPriorSequence i)
        = Inr (latestSequence db (aiSessionId i))"
    "buildEvents dt i fresh (nat (latestSequence db (aiSessionId i))) 0 (aiDrafts i) = Inr evs"
    "foldE insertEvent db evs = Inr db1"
    "insertProcessed db1 \<lparr> prSessionId = aiSessionId i, prRequestId = aiRequestId i,
        prFingerprint = Some (aiCommandFingerprint i), prResult = aiResult i \<rparr> = Inr db'"
    "r = \<lparr> arDuplicate = False, arEvents = evs, arResult = aiResult i \<rparr>"
    by (auto simp: appendBody_def bindE_eq_Inr checkWriter_Inr)
  with None insertEvents_rows [OF *(3)] insertProcessed_rows [OF *(4)] fresh show ?thesis
    by (auto simp: checkWriter_Inr)
qed

lemma represents_appendIdempotent:
  assumes "represents dt reg db L" and "appendIdempotent dt i fresh db = (Inr r, db')"
  shows "represents dt reg db' (L(aiSessionId i := L (aiSessionId i) @ arEvents r))"
proof -
  from assms(2) have body: "appendBody dt i fresh db = Inr (r, db')"
    by (simp add: appendIdempotent_Inr)
  then show ?thesis
  proof (cases rule: appendBody_cases)
    case (duplicate prior)
    with assms(1) show ?thesis by simp
  next
    case fresh
    with represents_latest [OF assms(1)] buildEvents_numbered show ?thesis
      by (intro represents_append [OF assms(1)]) (fastforce+)
  qed
qed

lemma append_error: "appendIdempotent dt i fresh db = (Inl e, db') \<Longrightarrow> db' = db"
  by (auto simp: appendIdempotent_def transaction_def split: if_splits sum.splits prod.splits)

interpretation sqlite: event_log "load dt reg" "\<lambda>op. appendIdempotent dt (fst op) (snd op)"
  "\<lambda>op. aiSessionId (fst op)" "represents dt reg" for dt reg
  by unfold_locales (auto simp: represents_load dest: append_error represents_appendIdempotent)

end
