(* ===== verification/SessionWriter.thy ===== *)
theory SessionWriter
  imports EventStoreFacts
begin

text \<open>
  \<open>SessionWriter\<close> of \<^verbatim>\<open>packages/interview-engine/src/session-writer.ts\<close>: the single place
  where commands become events. A writer caches the replayed state of its session; \<open>execute\<close> looks the
  request up, runs the handler on the cached state, previews the drafts through the reducer, appends
  them in one transaction and reduces the stored events. Commands of one writer run one after the
  other (the promise chain \<^verbatim>\<open>tail\<close>), so a run is a sequence of \<open>execute\<close> steps. Inputs of the
  model: the fingerprint \<^verbatim>\<open>fingerprintCommand\<close> computed (\<open>None\<close> when it throws), the clock
  and the fresh ids of both the preview and the store.
\<close>

record SessionWriter =
  wSessionId :: SessionId
  wState :: SessionState
  wElapsedOffset :: nat
  acceptingCommands :: bool
  fullyClosed :: bool

datatype 'e WriterError =
    WriterClosed | CommandSessionMismatch | InvalidCommandIdentity
  | StoreFailure StoreError | ReduceFailure ReduceError | WriterRequestConflict
  | LegacyQuantSession | HandlerFailure 'e | ResultRejected
  | ConfigurationRequired | DraftRejected | RequestGroupNotContiguous

record Clock =
  sinceOpened :: nat
  previewIds :: "nat \<Rightarrow> EventId"
  previewWall :: string
  storeFresh :: "nat \<Rightarrow> EventId \<times> string"

record 'r CommandResult =
  crDuplicate :: bool
  crValue :: 'r
  crAppendedEventCount :: nat

type_synonym ('e, 'r) handler = "SessionState \<Rightarrow> ('e, EventDraft list \<times> 'r) result"

definition storeE :: "(StoreError, 'a) result \<Rightarrow> ('e WriterError, 'a) result" where
  "storeE r = (case r of Inl e \<Rightarrow> Inl (StoreFailure e) | Inr x \<Rightarrow> Inr x)"

definition reduceE :: "'a reduced \<Rightarrow> ('e WriterError, 'a) result" where
  "reduceE r = (case r of Inl e \<Rightarrow> Inl (ReduceFailure e) | Inr x \<Rightarrow> Inr x)"

section \<open>Opening and closing\<close>

definition openWriter ::
  "(string \<Rightarrow> bool) \<Rightarrow> Registry \<Rightarrow> 'r Database \<Rightarrow> SessionId \<Rightarrow> ('e WriterError, SessionWriter) result" where
  "openWriter dt reg db sid =
     bindE (storeE (load dt reg db sid)) (\<lambda>evs.
       bindE (reduceE (replaySession sid evs)) (\<lambda>st.
         Inr \<lparr> wSessionId = sid, wState = st,
               wElapsedOffset = (if evs = [] then 0 else elapsedMs (last evs) + 1),
               acceptingCommands = True, fullyClosed = False \<rparr>))"

definition closeWriter :: "SessionWriter \<Rightarrow> SessionWriter" where
  "closeWriter w =
     (if \<not> acceptingCommands w then w else w\<lparr> acceptingCommands := False, fullyClosed := True \<rparr>)"

definition isClosed :: "SessionWriter \<Rightarrow> bool" where
  "isClosed w = (\<not> acceptingCommands w)"

section \<open>The state after a request\<close>

text \<open>The loop over the log: the last index of the group of events a request caused.\<close>

fun requestGroup ::
  "RequestId \<Rightarrow> nat \<Rightarrow> nat option \<Rightarrow> bool \<Rightarrow> SessionEvent list \<Rightarrow> ('e WriterError, nat option) result" where
  "requestGroup rid index lastIndex left [] = Inr lastIndex"
| "requestGroup rid index lastIndex left (ev # evs) =
     (if causationId ev = rid
      then (if left then Inl RequestGroupNotContiguous
            else requestGroup rid (index + 1) (Some index) left evs)
      else requestGroup rid (index + 1) lastIndex (left \<or> lastIndex \<noteq> None) evs)"

definition getStateAfterRequest ::
  "(string \<Rightarrow> bool) \<Rightarrow> Registry \<Rightarrow> 'r Database \<Rightarrow> SessionWriter \<Rightarrow> RequestId
     \<Rightarrow> ('e WriterError, SessionState option) result" where
  "getStateAfterRequest dt reg db w rid =
     bindE (storeE (load dt reg db (wSessionId w))) (\<lambda>evs.
       bindE (requestGroup rid 0 None False evs) (\<lambda>lastIndex.
         case lastIndex of
           None \<Rightarrow> Inr None
         | Some k \<Rightarrow> bindE (reduceE (replaySession (wSessionId w) (take (k + 1) evs)))
             (\<lambda>st. Inr (Some st))))"

section \<open>Executing a command\<close>

definition isLegacyQuantState :: "SessionState \<Rightarrow> bool" where
  "isLegacyQuantState st =
     (if \<not> started st then False
      else if quantTrading st \<noteq> None \<or> quantResearch st \<noteq> None then False
      else isTradingMode st \<or> isResearchMode st)"

definition startsWithoutConfiguration :: "EventDraft \<Rightarrow> bool" where
  "startsWithoutConfiguration d =
     (case draftBody d of SESSION_STARTED _ None _ \<Rightarrow> True | _ \<Rightarrow> False)"

fun previewDrafts ::
  "(string \<Rightarrow> bool) \<Rightarrow> SessionId \<Rightarrow> CommandEnvelope \<Rightarrow> Clock \<Rightarrow> nat \<Rightarrow> nat \<Rightarrow> SessionState
     \<Rightarrow> EventDraft list \<Rightarrow> ('e WriterError, unit) result" where
  "previewDrafts dt sid env ck elapsed index st [] = Inr ()"
| "previewDrafts dt sid env ck elapsed index st (d # ds) =
     (if startsWithoutConfiguration d then Inl ConfigurationRequired
      else case draftEvent dt sid (envCausationId env) (envCorrelationId env) (previewIds ck index)
          (previewWall ck) (elapsed + index) (sequence st + 1) d of
        None \<Rightarrow> Inl DraftRejected
      | Some ev \<Rightarrow>
          bindE (reduceE (reduceSessionEvent st ev))
            (\<lambda>next. previewDrafts dt sid env ck elapsed (index + 1) next ds))"

definition validateDraftTransition ::
  "(string \<Rightarrow> bool) \<Rightarrow> SessionWriter \<Rightarrow> CommandEnvelope \<Rightarrow> Clock \<Rightarrow> nat \<Rightarrow> EventDraft list
     \<Rightarrow> ('e WriterError, unit) result" where
  "validateDraftTransition dt w env ck elapsed drafts =
     previewDrafts dt (wSessionId w) env ck elapsed 0 (wState w) drafts"

definition parseResult :: "('r \<Rightarrow> 'r option) \<Rightarrow> 'r \<Rightarrow> ('e WriterError, 'r) result" where
  "parseResult schema x = (case schema x of None \<Rightarrow> Inl ResultRejected | Some y \<Rightarrow> Inr y)"

text \<open>Everything \<open>run\<close> does before it appends: the input of the append, or a finished duplicate.\<close>

definition prepareCommand ::
  "(string \<Rightarrow> bool) \<Rightarrow> 'r Database \<Rightarrow> SessionWriter \<Rightarrow> CommandEnvelope \<Rightarrow> string \<Rightarrow> ('r \<Rightarrow> 'r option)
     \<Rightarrow> ('e, 'r) handler \<Rightarrow> Clock \<Rightarrow> ('e WriterError, 'r CommandResult + 'r AppendInput) result" where
  "prepareCommand dt db w env fingerprint schema handler ck =
     bindE (storeE (getProcessedResultForWriter db (wSessionId w) (envRequestId env)
         (int (sequence (wState w))))) (\<lambda>prior.
       case prior of
         Some (f, r) \<Rightarrow>
           (if f \<noteq> Some fingerprint then Inl WriterRequestConflict
            else bindE (parseResult schema r) (\<lambda>v.
              Inr (Inl \<lparr> crDuplicate = True, crValue = v, crAppendedEventCount = 0 \<rparr>)))
       | None \<Rightarrow>
           if isLegacyQuantState (wState w) then Inl LegacyQuantSession
           else (case handler (wState w) of
               Inl e \<Rightarrow> Inl (HandlerFailure e)
             | Inr (drafts, result) \<Rightarrow>
                 bindE (parseResult schema result) (\<lambda>validated.
                   let elapsed = wElapsedOffset w + sinceOpened ck in
                   bindE (validateDraftTransition dt w env ck elapsed drafts) (\<lambda>_.
                     Inr (Inr \<lparr> aiSessionId = wSessionId w, aiRequestId = envRequestId env,
                       aiCausationId = envCausationId env, aiCorrelationId = envCorrelationId env,
                       aiElapsedMs = elapsed, aiExpectedPriorSequence = int (sequence (wState w)),
                       aiCommandFingerprint = fingerprint, aiDrafts = drafts,
                       aiResult = validated \<rparr>)))))"

definition execute ::
  "(string \<Rightarrow> bool) \<Rightarrow> 'r Database \<Rightarrow> SessionWriter \<Rightarrow> CommandEnvelope \<Rightarrow> string option
     \<Rightarrow> ('r \<Rightarrow> 'r option) \<Rightarrow> ('e, 'r) handler \<Rightarrow> Clock
     \<Rightarrow> ('e WriterError, 'r CommandResult) result \<times> 'r Database \<times> SessionWriter" where
  "execute dt db w env identity schema handler ck =
     (if \<not> acceptingCommands w \<or> fullyClosed w then (Inl WriterClosed, db, w)
      else if envSessionId env \<noteq> wSessionId w then (Inl CommandSessionMismatch, db, w)
      else case identity of
        None \<Rightarrow> (Inl InvalidCommandIdentity, db, w)
      | Some fingerprint \<Rightarrow>
          (case prepareCommand dt db w env fingerprint schema handler ck of
             Inl e \<Rightarrow> (Inl e, db, w)
           | Inr (Inl finished) \<Rightarrow> (Inr finished, db, w)
           | Inr (Inr input) \<Rightarrow>
               (case appendIdempotent dt input (storeFresh ck) db of
                  (Inl e, db') \<Rightarrow> (Inl (StoreFailure e), db', w)
                | (Inr persisted, db') \<Rightarrow>
                    (case (if arDuplicate persisted then Inr (wState w)
                           else foldE reduceSessionEvent (wState w) (arEvents persisted)) of
                       Inl e \<Rightarrow> (Inl (ReduceFailure e), db', w)
                     | Inr st \<Rightarrow>
                         (bindE (parseResult schema (arResult persisted)) (\<lambda>v.
                            Inr \<lparr> crDuplicate = arDuplicate persisted, crValue = v,
                                  crAppendedEventCount = length (arEvents persisted) \<rparr>),
                          db', w\<lparr> wState := st \<rparr>)))))"

end
