(* ===== verification/DeliveryCoordinator.thy ===== *)
theory DeliveryCoordinator
  imports SessionWriter
begin

text \<open>
  \<open>DeliveryCoordinator\<close> of \<^verbatim>\<open>packages/delivery/src/delivery-coordinator.ts\<close>: starting a
  delivery, the acknowledgements of the renderer, cancellation, reconnection and recovery after a
  crash. Each operation is a handler from the session state to drafts and a result, run by the
  session writer; a run of an operation takes the database and the writer and returns them updated.
  Request ids, fingerprints and clocks of the commands (\<open>Ticket\<close>) are inputs, and so is the
  renderer's answer.
\<close>

text \<open>The results the commands of a session record: the coordinator's, and those of other components.\<close>

datatype DeliveryResult =
    Command_result DeliveryCommand
  | Reconnect_result DeliveryId DeliveryStatus "DeliveryCommand option"
  | Boolean_result bool
  | Cancelled_result
  | Recovered_result
  | Other_result string

datatype DeliveryError =
    OnlyQueuedCanStart | GenerationUnavailable | GenerationNotDeliverable GenerationStatus
  | GenerationIncompatible Compatibility
  | DeliveryNotFound | UnknownAcknowledgement | CannotExpose DeliveryStatus
  | CannotComplete DeliveryStatus | OnlyQueuedCanCancel | CannotConfirmNonExposure DeliveryStatus
  | InvalidEnvelope | NotACommand | RendererFailed

type_synonym delivery_handler =
  "SessionState \<Rightarrow> (DeliveryError, EventDraft list \<times> DeliveryResult) result"

section \<open>Handlers\<close>

definition assertDeliveryCanStart :: "SessionState \<Rightarrow> DeliveryId \<Rightarrow> (DeliveryError, unit) result" where
  "assertDeliveryCanStart st d =
     (case dget (deliveries st) d of
        None \<Rightarrow> Inl OnlyQueuedCanStart
      | Some atom \<Rightarrow>
          if atomStatus atom \<noteq> Delivery_QUEUED then Inl OnlyQueuedCanStart
          else (case dget (generations st) (atomGenerationId atom) of
              None \<Rightarrow> Inl GenerationUnavailable
            | Some g \<Rightarrow>
                if gnStatus g = Gen_SUPERSEDED \<or> gnStatus g = Gen_REJECTED
                then Inl (GenerationNotDeliverable (gnStatus g))
                else (let c = isGenerationBasisStillCompatible (gnBasis g) st in
                  if c \<noteq> COMPATIBLE then Inl (GenerationIncompatible c) else Inr ())))"

definition deliveryDraft :: "EventSource \<Rightarrow> EventBody \<Rightarrow> EventDraft" where
  "deliveryDraft source b = \<lparr> draftSource = source, draftBody = b \<rparr>"

definition markStartedHandler :: "DeliveryId \<Rightarrow> delivery_handler" where
  "markStartedHandler d st =
     bindE (assertDeliveryCanStart st d) (\<lambda>_.
       case dget (deliveries st) d of
         None \<Rightarrow> Inl DeliveryNotFound
       | Some atom \<Rightarrow>
           Inr ([deliveryDraft Source_APPLICATION (DELIVERY_STARTED d)],
                Command_result \<lparr> cmdDeliveryId = d, cmdContent = atomContent atom \<rparr>))"

definition reconnectHandler :: "DeliveryId \<Rightarrow> delivery_handler" where
  "reconnectHandler d st =
     (case dget (deliveries st) d of
        None \<Rightarrow> Inl DeliveryNotFound
      | Some atom \<Rightarrow>
          let command = \<lparr> cmdDeliveryId = d, cmdContent = atomContent atom \<rparr> in
          if atomStatus atom = Delivery_QUEUED
          then bindE (assertDeliveryCanStart st d) (\<lambda>_.
            Inr ([deliveryDraft Source_APPLICATION (DELIVERY_STARTED d)],
                 Reconnect_result d Delivery_DELIVERING (Some command)))
          else if atomStatus atom = Delivery_DELIVERING
          then Inr ([], Reconnect_result d (atomStatus atom) (Some command))
          else Inr ([], Reconnect_result d (atomStatus atom) None))"

definition acknowledgeExposedHandler :: "DeliveryId \<Rightarrow> delivery_handler" where
  "acknowledgeExposedHandler d st =
     (case dget (deliveries st) d of
        None \<Rightarrow> Inl UnknownAcknowledgement
      | Some atom \<Rightarrow>
          if atomStatus atom = Delivery_EXPOSED \<or> atomStatus atom = Delivery_COMPLETED
          then Inr ([], Boolean_result True)
          else if atomStatus atom \<noteq> Delivery_DELIVERING \<and> atomStatus atom \<noteq> Delivery_POSSIBLY_EXPOSED
          then Inl (CannotExpose (atomStatus atom))
          else Inr ([deliveryDraft Source_RENDERER (DELIVERY_EXPOSED d)], Boolean_result True))"

definition acknowledgeCompletedHandler :: "DeliveryId \<Rightarrow> delivery_handler" where
  "acknowledgeCompletedHandler d st =
     (case dget (deliveries st) d of
        None \<Rightarrow> Inl UnknownAcknowledgement
      | Some atom \<Rightarrow>
          if atomStatus atom = Delivery_COMPLETED then Inr ([], Boolean_result True)
          else if atomStatus atom \<noteq> Delivery_EXPOSED then Inl (CannotComplete (atomStatus atom))
          else Inr ([deliveryDraft Source_RENDERER (DELIVERY_COMPLETED d)], Boolean_result True))"

definition cancelHandler :: "DeliveryId \<Rightarrow> string \<Rightarrow> delivery_handler" where
  "cancelHandler d reason st =
     (case dget (deliveries st) d of
        None \<Rightarrow> Inl DeliveryNotFound
      | Some atom \<Rightarrow>
          if atomStatus atom \<noteq> Delivery_QUEUED then Inl OnlyQueuedCanCancel
          else Inr ([deliveryDraft Source_APPLICATION (DELIVERY_CANCELLED d reason)], Cancelled_result))"

definition acknowledgeNotExposedHandler :: "DeliveryId \<Rightarrow> string \<Rightarrow> delivery_handler" where
  "acknowledgeNotExposedHandler d normalizedReason st =
     (case dget (deliveries st) d of
        None \<Rightarrow> Inl UnknownAcknowledgement
      | Some atom \<Rightarrow>
          if atomStatus atom = Delivery_CANCELLED then Inr ([], Boolean_result True)
          else if atomStatus atom \<noteq> Delivery_DELIVERING
          then Inl (CannotConfirmNonExposure (atomStatus atom))
          else Inr ([deliveryDraft Source_RENDERER (DELIVERY_CANCELLED d normalizedReason)],
                    Boolean_result True))"

definition recoveryReason :: string where
  "recoveryReason =
     ''Delivery began but persisted exposure acknowledgement is absent after restart''"

definition recoverHandler :: "DeliveryId \<Rightarrow> delivery_handler" where
  "recoverHandler d st =
     (case dget (deliveries st) d of
        None \<Rightarrow> Inr ([], Recovered_result)
      | Some atom \<Rightarrow>
          if atomStatus atom \<noteq> Delivery_DELIVERING then Inr ([], Recovered_result)
          else Inr ([deliveryDraft Source_RECOVERY (DELIVERY_POSSIBLY_EXPOSED d recoveryReason)],
                    Recovered_result))"

definition markPossiblyExposedHandler :: "DeliveryId \<Rightarrow> string \<Rightarrow> delivery_handler" where
  "markPossiblyExposedHandler d normalizedReason st =
     (case dget (deliveries st) d of
        None \<Rightarrow> Inl DeliveryNotFound
      | Some atom \<Rightarrow>
          if atomStatus atom \<noteq> Delivery_DELIVERING then Inr ([], Boolean_result False)
          else Inr ([deliveryDraft Source_RECOVERY (DELIVERY_POSSIBLY_EXPOSED d normalizedReason)],
                    Boolean_result True))"

section \<open>Commands\<close>

text \<open>\<^verbatim>\<open>reason.trim().slice(0, 512) || fallback\<close>\<close>

definition normalizedReason :: "string \<Rightarrow> string \<Rightarrow> string" where
  "normalizedReason fallback reason =
     (let r = take 512 (js_trim reason) in if r = [] then fallback else r)"

definition createDeliveryEnvelope :: "SessionId \<Rightarrow> string \<Rightarrow> RequestId \<Rightarrow> CommandEnvelope" where
  "createDeliveryEnvelope sid producer rid =
     \<lparr> envRequestId = rid, envSessionId = sid, envProducer = producer, envCausationId = rid,
       envCorrelationId = rid, envInputEpisodeId = None, envTurnId = None, envGenerationId = None,
       envContextEpoch = None, envSourceRevision = None \<rparr>"

text \<open>What one command takes from outside: a fresh request id, its fingerprint and the clock.\<close>

record Ticket =
  tkRequestId :: RequestId
  tkIdentity :: "string option"
  tkClock :: Clock

type_synonym World = "DeliveryResult Database \<times> SessionWriter"
type_synonym 'a delivered = "(DeliveryError WriterError, 'a) result \<times> World"

text \<open>\<^verbatim>\<open>await this.writer.execute(...)\<close> and then \<^verbatim>\<open>result.value\<close>.\<close>

definition runCommand ::
  "(string \<Rightarrow> bool) \<Rightarrow> CommandEnvelope \<Rightarrow> Ticket \<Rightarrow> (DeliveryResult \<Rightarrow> DeliveryResult option)
     \<Rightarrow> delivery_handler \<Rightarrow> World \<Rightarrow> DeliveryResult delivered" where
  "runCommand dt env tk schema handler world =
     (case execute dt (fst world) (snd world) env (tkIdentity tk) schema handler (tkClock tk) of
        (res, db, w) \<Rightarrow> (bindE res (\<lambda>r. Inr (crValue r)), (db, w)))"

text \<open>\<^verbatim>\<open>CommandEnvelopeSchema.parse(envelope)\<close> before the command.\<close>

definition runParsed ::
  "(string \<Rightarrow> bool) \<Rightarrow> CommandEnvelope \<Rightarrow> Ticket \<Rightarrow> (DeliveryResult \<Rightarrow> DeliveryResult option)
     \<Rightarrow> delivery_handler \<Rightarrow> World \<Rightarrow> DeliveryResult delivered" where
  "runParsed dt env tk schema handler world =
     (if CommandEnvelopeSchema env then runCommand dt env tk schema handler world
      else (Inl (HandlerFailure InvalidEnvelope), world))"

definition DeliveryCommandSchema :: "DeliveryResult \<Rightarrow> DeliveryResult option" where
  "DeliveryCommandSchema r =
     (case r of Command_result c \<Rightarrow>
        if idSchema (cmdDeliveryId c) \<and> DeliveryContentSchema (cmdContent c) then Some r else None
      | _ \<Rightarrow> None)"

definition DeliveryReconnectResultSchema :: "DeliveryResult \<Rightarrow> DeliveryResult option" where
  "DeliveryReconnectResultSchema r =
     (case r of Reconnect_result d s c \<Rightarrow>
        if idSchema d \<and> opt_all (\<lambda>c. idSchema (cmdDeliveryId c) \<and> DeliveryContentSchema (cmdContent c)) c
        then Some r else None
      | _ \<Rightarrow> None)"

definition AcknowledgedResultSchema :: "DeliveryResult \<Rightarrow> DeliveryResult option" where
  "AcknowledgedResultSchema r = (if r = Boolean_result True then Some r else None)"

definition CancelledResultSchema :: "DeliveryResult \<Rightarrow> DeliveryResult option" where
  "CancelledResultSchema r = (if r = Cancelled_result then Some r else None)"

definition RecoveredResultSchema :: "DeliveryResult \<Rightarrow> DeliveryResult option" where
  "RecoveredResultSchema r = (if r = Recovered_result then Some r else None)"

definition booleanSchema :: "DeliveryResult \<Rightarrow> DeliveryResult option" where
  "booleanSchema r = (case r of Boolean_result _ \<Rightarrow> Some r | _ \<Rightarrow> None)"

section \<open>Operations\<close>

definition ownEnvelope :: "World \<Rightarrow> string \<Rightarrow> Ticket \<Rightarrow> CommandEnvelope" where
  "ownEnvelope world producer tk =
     createDeliveryEnvelope (wSessionId (snd world)) producer (tkRequestId tk)"

definition givenOr :: "CommandEnvelope option \<Rightarrow> CommandEnvelope \<Rightarrow> CommandEnvelope" where
  "givenOr envelope fallback = (case envelope of Some e \<Rightarrow> e | None \<Rightarrow> fallback)"

definition markStarted ::
  "(string \<Rightarrow> bool) \<Rightarrow> Ticket \<Rightarrow> DeliveryId \<Rightarrow> World \<Rightarrow> DeliveryResult delivered" where
  "markStarted dt tk d world =
     runCommand dt (ownEnvelope world ''delivery-coordinator'' tk) tk DeliveryCommandSchema
       (markStartedHandler d) world"

definition reconnect ::
  "(string \<Rightarrow> bool) \<Rightarrow> Ticket \<Rightarrow> DeliveryId \<Rightarrow> CommandEnvelope \<Rightarrow> World \<Rightarrow> DeliveryResult delivered" where
  "reconnect dt tk d envelope world =
     runParsed dt envelope tk DeliveryReconnectResultSchema (reconnectHandler d) world"

definition acknowledgeExposed ::
  "(string \<Rightarrow> bool) \<Rightarrow> Ticket \<Rightarrow> DeliveryId \<Rightarrow> CommandEnvelope option \<Rightarrow> World
     \<Rightarrow> DeliveryResult delivered" where
  "acknowledgeExposed dt tk d envelope world =
     runParsed dt (givenOr envelope (ownEnvelope world ''renderer'' tk)) tk AcknowledgedResultSchema
       (acknowledgeExposedHandler d) world"

definition acknowledgeCompleted ::
  "(string \<Rightarrow> bool) \<Rightarrow> Ticket \<Rightarrow> DeliveryId \<Rightarrow> CommandEnvelope option \<Rightarrow> World
     \<Rightarrow> DeliveryResult delivered" where
  "acknowledgeCompleted dt tk d envelope world =
     runParsed dt (givenOr envelope (ownEnvelope world ''renderer'' tk)) tk AcknowledgedResultSchema
       (acknowledgeCompletedHandler d) world"

definition cancelBeforeExposure ::
  "(string \<Rightarrow> bool) \<Rightarrow> Ticket \<Rightarrow> DeliveryId \<Rightarrow> string \<Rightarrow> World \<Rightarrow> unit delivered" where
  "cancelBeforeExposure dt tk d reason world =
     (case runCommand dt (ownEnvelope world ''delivery-coordinator'' tk) tk CancelledResultSchema
        (cancelHandler d reason) world of
        (res, world') \<Rightarrow> (bindE res (\<lambda>_. Inr ()), world'))"

definition acknowledgeNotExposed ::
  "(string \<Rightarrow> bool) \<Rightarrow> Ticket \<Rightarrow> DeliveryId \<Rightarrow> string \<Rightarrow> CommandEnvelope option \<Rightarrow> World
     \<Rightarrow> DeliveryResult delivered" where
  "acknowledgeNotExposed dt tk d reason envelope world =
     runParsed dt (givenOr envelope (ownEnvelope world ''renderer'' tk)) tk booleanSchema
       (acknowledgeNotExposedHandler d
          (normalizedReason ''Renderer confirmed presentation did not begin'' reason)) world"

definition markPossiblyExposed ::
  "(string \<Rightarrow> bool) \<Rightarrow> Ticket \<Rightarrow> DeliveryId \<Rightarrow> string \<Rightarrow> World \<Rightarrow> DeliveryResult delivered" where
  "markPossiblyExposed dt tk d reason world =
     runCommand dt (ownEnvelope world ''delivery-uncertainty'' tk) tk booleanSchema
       (markPossiblyExposedHandler d
          (normalizedReason ''Physical delivery may have occurred'' reason)) world"

text \<open>The renderer answers whether the content was exposed and completed, or fails (\<open>None\<close>).\<close>

definition deliver ::
  "(string \<Rightarrow> bool) \<Rightarrow> Ticket \<Rightarrow> Ticket \<Rightarrow> Ticket \<Rightarrow> DeliveryId \<Rightarrow> (DeliveryCommand \<Rightarrow> (bool \<times> bool) option)
     \<Rightarrow> World \<Rightarrow> unit delivered" where
  "deliver dt tk1 tk2 tk3 d renderer world =
     (case markStarted dt tk1 d world of
        (Inl e, world1) \<Rightarrow> (Inl e, world1)
      | (Inr (Command_result c), world1) \<Rightarrow>
          (case renderer c of
             None \<Rightarrow> (Inl (HandlerFailure RendererFailed), world1)
           | Some (exposed, completed) \<Rightarrow>
               (case (if exposed then acknowledgeExposed dt tk2 d None world1
                      else (Inr (Boolean_result True), world1)) of
                  (Inl e, world2) \<Rightarrow> (Inl e, world2)
                | (Inr _, world2) \<Rightarrow>
                    (case (if completed then acknowledgeCompleted dt tk3 d None world2
                           else (Inr (Boolean_result True), world2)) of
                       (Inl e, world3) \<Rightarrow> (Inl e, world3)
                     | (Inr _, world3) \<Rightarrow> (Inr (), world3))))
      | (Inr _, world1) \<Rightarrow> (Inl (HandlerFailure NotACommand), world1))"

definition inFlight :: "SessionState \<Rightarrow> DeliveryId list" where
  "inFlight st =
     map deliveryId (filter (\<lambda>a. atomStatus a = Delivery_DELIVERING) (dvals (deliveries st)))"

fun recoverAll ::
  "(string \<Rightarrow> bool) \<Rightarrow> (nat \<Rightarrow> Ticket) \<Rightarrow> nat \<Rightarrow> DeliveryId list \<Rightarrow> World \<Rightarrow> unit delivered" where
  "recoverAll dt tks k [] world = (Inr (), world)"
| "recoverAll dt tks k (d # ds) world =
     (case runCommand dt (ownEnvelope world ''crash-recovery'' (tks k)) (tks k) RecoveredResultSchema
        (recoverHandler d) world of
        (Inl e, world') \<Rightarrow> (Inl e, world')
      | (Inr _, world') \<Rightarrow> recoverAll dt tks (k + 1) ds world')"

definition recoverUncertainDeliveries ::
  "(string \<Rightarrow> bool) \<Rightarrow> (nat \<Rightarrow> Ticket) \<Rightarrow> World \<Rightarrow> DeliveryId list delivered" where
  "recoverUncertainDeliveries dt tks world =
     (let ds = inFlight (wState (snd world)) in
      case recoverAll dt tks 0 ds world of
        (res, world') \<Rightarrow> (bindE res (\<lambda>_. Inr ds), world'))"

end
