(* ===== verification/StoreProperties.thy ===== *)
theory StoreProperties
  imports EventStoreFacts
begin

text \<open>
  What the event store guarantees to its clients: an append-only contiguous log per session, exactly
  one effect per request id, and an index that agrees with replay.
\<close>

section \<open>Append-only logs\<close>

text \<open>A database that a sequence of appends, of any sessions, has produced.\<close>

definition runAppends ::
  "(string \<Rightarrow> bool) \<Rightarrow> ('r AppendInput \<times> (nat \<Rightarrow> EventId \<times> string)) list \<Rightarrow> 'r Database" where
  "runAppends dt ops = fold (\<lambda>op db. snd (appendIdempotent dt (fst op) (snd op) db)) ops emptyDatabase"

lemma represents_empty: "represents dt reg emptyDatabase (\<lambda>_. [])"
  by (simp add: represents_def rowsOf_def emptyDatabase_def)

lemma runAppends_represents: "\<exists>L. represents dt reg (runAppends dt ops) L"
  using sqlite.puts_extend [OF represents_empty [of dt reg], of ops] by (auto simp: runAppends_def)

text \<open>
  Property C1. Whatever appends were tried before, for any sessions, in any order, successful or not:
  every session loads without error as a contiguous log numbered from 1; a successful append extends
  the log of its session by exactly the events it returns and leaves every other session alone; a
  failed append changes nothing.
\<close>

theorem store_is_append_only:
  assumes "db = runAppends dt ops"
  shows "\<exists>evs. load dt reg db sid = Inr evs
     \<and> (\<forall>k < length evs. eventSessionId (evs ! k) = sid \<and> eventSequence (evs ! k) = k + 1)
     \<and> (\<forall>r db'. appendIdempotent dt i fresh db = (Inr r, db') \<longrightarrow>
          load dt reg db' sid = Inr (evs @ (if aiSessionId i = sid then arEvents r else [])))
     \<and> (\<forall>e db'. appendIdempotent dt i fresh db = (Inl e, db') \<longrightarrow> db' = db)"
proof -
  obtain L where L: "represents dt reg db L" using runAppends_represents assms by blast
  have num: "numberedFrom 0 sid (L sid)" using L by (simp add: represents_def)
  have "load dt reg db' sid = Inr (L sid @ (if aiSessionId i = sid then arEvents r else []))"
    if "appendIdempotent dt i fresh db = (Inr r, db')" for r db'
    using represents_load [OF represents_appendIdempotent [OF L that], of sid] by auto
  with represents_load [OF L, of sid] num show ?thesis
    by (intro exI [of _ "L sid"]) (auto simp: numberedFrom_def dest: append_error)
qed

text \<open>A first command of a session: two drafts under one request id.\<close>

definition sampleInput :: "unit AppendInput" where
  "sampleInput = \<lparr> aiSessionId = ''s1'', aiRequestId = ''q1'', aiCausationId = ''q1'',
     aiCorrelationId = ''q1'', aiElapsedMs = 0, aiExpectedPriorSequence = 0,
     aiCommandFingerprint = replicate 64 CHR ''a'',
     aiDrafts = [\<lparr> draftSource = Source_APPLICATION, draftBody = SESSION_STARTED ''now'' None None \<rparr>,
                 \<lparr> draftSource = Source_USER, draftBody = UTTERANCE_STARTED ''u1'' \<rparr>],
     aiResult = () \<rparr>"

definition sampleFresh :: "nat \<Rightarrow> EventId \<times> string" where
  "sampleFresh k = (''x'' @ [char_of (48 + k)], ''now'')"

lemma sample_append:
  "(case appendIdempotent (\<lambda>_. True) sampleInput sampleFresh emptyDatabase of
      (Inl _, _) \<Rightarrow> False
    | (Inr r, db) \<Rightarrow> length (arEvents r) = 2 \<and> \<not> arDuplicate r)"
  by code_simp

theorem store_is_append_only_witness:
  "\<exists>evs. load (\<lambda>_. True) [] (runAppends (\<lambda>_. True) [(sampleInput, sampleFresh)]) ''s1'' = Inr evs
     \<and> length evs = 2
     \<and> (\<forall>k < length evs. eventSessionId (evs ! k) = ''s1'' \<and> eventSequence (evs ! k) = k + 1)"
proof -
  have "(case load (\<lambda>_. True) [] (runAppends (\<lambda>_. True) [(sampleInput, sampleFresh)]) ''s1'' of
      Inl _ \<Rightarrow> False | Inr evs \<Rightarrow> length evs = 2)" by code_simp
  moreover obtain evs where
    "load (\<lambda>_. True) [] (runAppends (\<lambda>_. True) [(sampleInput, sampleFresh)]) ''s1'' = Inr evs"
    "\<forall>k < length evs. eventSessionId (evs ! k) = ''s1'' \<and> eventSequence (evs ! k) = k + 1"
    using store_is_append_only [OF refl, of "\<lambda>_. True" "[]" "[(sampleInput, sampleFresh)]" "''s1''"
        sampleInput sampleFresh] by blast
  ultimately show ?thesis by auto
qed

section \<open>One effect per request\<close>

lemma find_snoc: "find P xs = None \<Longrightarrow> find P (xs @ [x]) = (if P x then Some x else None)"
  by (induction xs) (auto split: if_splits)

lemma findProcessed_append:
  "findProcessed db sid rid = None \<Longrightarrow> processedRequests db' = processedRequests db @ [p] \<Longrightarrow>
     prSessionId p = sid \<Longrightarrow> prRequestId p = rid \<Longrightarrow> findProcessed db' sid rid = Some p"
  by (simp add: findProcessed_def find_snoc)

text \<open>After a success the request is on record with its fingerprint and its result.\<close>

lemma append_on_record:
  assumes "appendIdempotent dt i fresh db = (Inr r, db')"
  shows "\<exists>p. findProcessed db' (aiSessionId i) (aiRequestId i) = Some p
     \<and> prFingerprint p = Some (aiCommandFingerprint i) \<and> prResult p = arResult r"
proof -
  from assms have "appendBody dt i fresh db = Inr (r, db')" by (simp add: appendIdempotent_Inr)
  then show ?thesis
  proof (cases rule: appendBody_cases)
    case (duplicate prior)
    then show ?thesis by auto
  next
    case fresh
    from findProcessed_append [OF fresh(1,7)] fresh(3) show ?thesis by simp
  qed
qed

lemma latest_safe:
  assumes "represents dt reg db L" and "appendIdempotent dt i fresh db = (Inr r, db')"
  shows "isSafeInteger (latestSequence db' (aiSessionId i)) \<and> 0 \<le> latestSequence db' (aiSessionId i)"
proof -
  let ?sid = "aiSessionId i"
  from assms(2) have body: "appendBody dt i fresh db = Inr (r, db')" by (simp add: appendIdempotent_Inr)
  have latest: "latestSequence db' ?sid = int (length (L ?sid) + length (arEvents r))"
    using represents_latest [OF represents_appendIdempotent [OF assms], of ?sid] by simp
  have before: "isSafeInteger (latestSequence db ?sid)"
    using body by (auto simp: appendBody_def bindE_eq_Inr checkWriter_Inr)
  show ?thesis
  proof (cases "arEvents r = []")
    case True
    with latest before represents_latest [OF assms(1), of ?sid] show ?thesis by simp
  next
    case False
    have "\<exists>n. buildEvents dt i fresh n 0 (aiDrafts i) = Inr (arEvents r)"
      using body by (cases rule: appendBody_cases) (use False in auto)
    then have parsed: "parseEvent dt (last (arEvents r)) = Some (last (arEvents r))"
      using False by (auto dest!: buildEvents_numbered simp: list_all_iff)
    have num: "numberedFrom 0 ?sid (L ?sid @ arEvents r)"
      using represents_appendIdempotent [OF assms]
      unfolding represents_def by (auto dest!: spec [of _ ?sid])
    have "eventSequence (last (arEvents r)) = length (L ?sid) + length (arEvents r)"
      using numberedFrom_nth [OF num, of "length (L ?sid @ arEvents r) - 1"] False
        last_conv_nth [of "L ?sid @ arEvents r"] by simp
    with parsed latest show ?thesis
      by (auto simp: parseEvent_def SessionEventSchema_def PositiveSafeInteger_def isSafeNat_def
          isSafeInteger_def Let_def split: if_splits)
  qed
qed

text \<open>
  Exactly once per request: after an append has succeeded, repeating the request from the
  state it left reports a duplicate with the recorded result, appends no event and leaves the
  database unchanged, whatever drafts and result it carries this time; reusing the request id with
  another fingerprint is refused as a conflict; and repeating it from the old state, when events had
  been appended, is refused as stale.
\<close>

theorem retry_has_no_effect:
  assumes "db = runAppends dt ops" and "appendIdempotent dt i fresh db = (Inr r, db')"
    and "retry = i\<lparr> aiExpectedPriorSequence := latestSequence db' (aiSessionId i),
                   aiDrafts := drafts, aiResult := other \<rparr>"
    and "isSha256Hex fingerprint" and "fingerprint \<noteq> aiCommandFingerprint i"
  shows "appendIdempotent dt retry fresh' db'
       = (Inr \<lparr> arDuplicate = True, arEvents = [], arResult = arResult r \<rparr>, db')
     \<and> appendIdempotent dt (retry\<lparr> aiCommandFingerprint := fingerprint \<rparr>) fresh' db'
       = (Inl RequestIdConflict, db')
     \<and> (arEvents r \<noteq> [] \<longrightarrow> (\<exists>a. appendIdempotent dt i fresh' db'
          = (Inl (StaleSessionWriter (aiExpectedPriorSequence i) a), db')))"
proof -
  obtain L where L: "represents dt [] db L" using runAppends_represents assms(1) by blast
  from append_on_record [OF assms(2)] obtain p where p:
    "findProcessed db' (aiSessionId i) (aiRequestId i) = Some p"
    "prFingerprint p = Some (aiCommandFingerprint i)" "prResult p = arResult r" by blast
  note safe = latest_safe [OF L assms(2)]
  from assms(2) have fp: "isSha256Hex (aiCommandFingerprint i)"
    and expected: "aiExpectedPriorSequence i = latestSequence db (aiSessionId i)"
      "isSafeInteger (latestSequence db (aiSessionId i))" "0 \<le> latestSequence db (aiSessionId i)"
    by (auto simp: appendIdempotent_Inr appendBody_def bindE_eq_Inr checkWriter_Inr)
  have ok: "checkWriter db' (aiSessionId i) (latestSequence db' (aiSessionId i))
      = Inr (latestSequence db' (aiSessionId i))" using safe by (simp add: checkWriter_Inr)
  have stale: "checkWriter db' (aiSessionId i) (aiExpectedPriorSequence i)
      = Inl (StaleSessionWriter (aiExpectedPriorSequence i) (latestSequence db' (aiSessionId i)))"
    if "arEvents r \<noteq> []"
  proof -
    have "latestSequence db' (aiSessionId i) \<noteq> aiExpectedPriorSequence i"
      using represents_latest [OF represents_appendIdempotent [OF L assms(2)], of "aiSessionId i"]
        represents_latest [OF L, of "aiSessionId i"] expected that by auto
    with safe expected show ?thesis by (auto simp: checkWriter_def Let_def)
  qed
  show ?thesis
    using assms(3-5) fp p ok stale
    by (auto simp: appendIdempotent_def transaction_def appendBody_def)
qed

theorem retry_has_no_effect_witness:
  "\<exists>r db'. appendIdempotent (\<lambda>_. True) sampleInput sampleFresh (runAppends (\<lambda>_. True) []) = (Inr r, db')
     \<and> appendIdempotent (\<lambda>_. True) (sampleInput\<lparr> aiExpectedPriorSequence := latestSequence db' ''s1'',
           aiDrafts := [], aiResult := () \<rparr>) sampleFresh db'
       = (Inr \<lparr> arDuplicate = True, arEvents = [], arResult = () \<rparr>, db')"
proof -
  obtain res db' where a:
    "appendIdempotent (\<lambda>_. True) sampleInput sampleFresh (runAppends (\<lambda>_. True) []) = (res, db')"
    by force
  moreover have "runAppends (\<lambda>_. True) [] = (emptyDatabase :: unit Database)"
    by (simp add: runAppends_def)
  ultimately obtain r where r: "res = Inr r" using sample_append by (auto split: sum.splits)
  have fp: "isSha256Hex (replicate 64 CHR ''b'')" "replicate 64 CHR ''b'' \<noteq> aiCommandFingerprint sampleInput"
    by code_simp+
  have sid: "aiSessionId sampleInput = ''s1''" by (simp add: sampleInput_def)
  show ?thesis
    using retry_has_no_effect [OF refl a [unfolded r] refl fp, where drafts = "[]" and other = "()" and fresh' = sampleFresh] a r
    by (auto simp: sid)
qed

section \<open>The index agrees with replay\<close>

definition indexOf :: "SessionState \<Rightarrow> (string \<times> string) option \<times> SessionStatus" where
  "indexOf st = (map_option (\<lambda>p. (pbId p, pbVersion p)) (problem st), sessionStatus st)"

lemma presented_problem:
  "reduce_PROBLEM_PRESENTED st i v p f = Inr t \<Longrightarrow>
     map_option (\<lambda>p. (pbId p, pbVersion p)) (problem t) = Some (i, v)"
  by (auto simp: reduce_PROBLEM_PRESENTED_def Let_def
      split: if_splits option.splits InterviewSessionConfiguration.splits)

lemma indexEvent_event:
  assumes "reduceSessionEvent st ev = Inr t"
  shows "indexEvent (indexOf st) ev = indexOf t"
proof -
  from assms obtain u where
    u: "reduceBody st (eventId ev) (eventSequence ev) (eventSource ev) (body ev) = Inr u"
    "indexOf t = indexOf u"
    by (auto simp: reduceSessionEvent_iff indexOf_def)
  have "indexEvent (indexOf st) ev = indexOf u"
  proof (cases "body ev")
    case (PROBLEM_PRESENTED i v p f)
    then have "reduce_PROBLEM_PRESENTED st i v p f = Inr u" using u(1) by simp
    from presented_problem [OF this] start_footprints(2) [OF this] PROBLEM_PRESENTED show ?thesis
      by (auto simp: indexEvent_def indexOf_def)
  qed (use u(1) in \<open>auto simp: indexEvent_def indexOf_def dest!: footprint\<close>)
  with u(2) show ?thesis by simp
qed

lemma indexEvent_replay:
  "replaySession sid evs = Inr st \<Longrightarrow> foldl indexEvent (None, Session_CREATED) evs = indexOf st"
proof (induction rule: replay_induct)
  case Nil
  then show ?case by (simp add: indexOf_def initialSessionState_def)
next
  case (snoc evs ev u t)
  then show ?case by (simp add: indexEvent_event)
qed

text \<open>
  The session list never disagrees with the replayed session: every summary that
  \<open>listSessions\<close> returns for a log that replays has the status, problem, sequence number and event count
  of the replayed state.
\<close>

theorem summaries_agree_with_replay:
  assumes "listSessions dt reg db = Inr summaries" and "s \<in> set summaries"
    and "load dt reg db (ssSessionId s) = Inr evs" and "replaySession (ssSessionId s) evs = Inr st"
  shows "ssStatus s = sessionStatus st \<and> ssProblemId s = map_option pbId (problem st)
     \<and> ssProblemVersion s = map_option pbVersion (problem st)
     \<and> ssSequence s = sequence st \<and> ssEventCount s = length (eventIds st)"
proof -
  from assms(1) obtain ss where ss: "rebuildSessionIndex dt reg db = Inr ss" "set summaries = set ss"
    by (auto simp: listSessions_def bindE_eq_Inr)
  from ss(1) obtain os where os: "mapE (\<lambda>sid. bindE (parseSessionId sid) (\<lambda>s. bindE (load dt reg db s)
         (\<lambda>evs. Inr (summarize s evs)))) (storedSessions db) = Inr os"
    "set ss = {x. Some x \<in> set os}"
    by (force simp: rebuildSessionIndex_def bindE_eq_Inr split: option.splits)
  with ss(2) assms(2) have "Some s \<in> set os" by simp
  with os(1) obtain sid evs' where e: "load dt reg db sid = Inr evs'" "summarize sid evs' = Some s"
    by (auto simp: mapE_eq_Inr_list_all2 bindE_eq_Inr parseSessionId_def list_all2_conv_all_nth
        in_set_conv_nth split: if_splits)
  then have "sid = ssSessionId s" "evs' \<noteq> []"
    by (auto simp: summarize_def Let_def split: if_splits prod.splits)
  with e assms(3) have e': "summarize (ssSessionId s) evs = Some s" "evs \<noteq> []" by auto
  have log: "sequence st = length evs" "eventIds st = map eventId evs"
    "eventSequence (last evs) = length evs"
    using replay_log_fields [OF assms(4)] e'(2) numberedFrom_nth [of 0 "ssSessionId s" evs "length evs - 1"]
    by (auto simp: last_conv_nth)
  from e' indexEvent_replay [OF assms(4)] log show ?thesis
    by (cases s) (auto simp: summarize_def indexOf_def option.map_comp comp_def)
qed

theorem summaries_agree_with_replay_witness:
  "\<exists>s evs st. listSessions (\<lambda>_. True) [] (runAppends (\<lambda>_. True) [(sampleInput, sampleFresh)]) = Inr [s]
     \<and> load (\<lambda>_. True) [] (runAppends (\<lambda>_. True) [(sampleInput, sampleFresh)]) (ssSessionId s) = Inr evs
     \<and> replaySession (ssSessionId s) evs = Inr st
     \<and> ssStatus s = sessionStatus st \<and> ssSequence s = sequence st"
proof -
  let ?db = "runAppends (\<lambda>_. True) [(sampleInput, sampleFresh)]"
  have "(case listSessions (\<lambda>_. True) [] ?db of
      Inr [s] \<Rightarrow> (case load (\<lambda>_. True) [] ?db (ssSessionId s) of Inl _ \<Rightarrow> False
         | Inr evs \<Rightarrow> isOk (replaySession (ssSessionId s) evs))
    | _ \<Rightarrow> False)" by code_simp
  then obtain s evs st where s: "listSessions (\<lambda>_. True) [] ?db = Inr [s]"
    "load (\<lambda>_. True) [] ?db (ssSessionId s) = Inr evs" "replaySession (ssSessionId s) evs = Inr st"
    by (simp add: isOk_iff split: sum.splits list.splits) blast
  with summaries_agree_with_replay [OF s(1) _ s(2,3)] show ?thesis by auto
qed

end
