(* ===== verification/WriterProperties.thy ===== *)
theory WriterProperties
  imports SessionWriter StoreProperties
begin

text \<open>
  Writers and the store together. Several writers, of the same or of different sessions, act on one
  database in any interleaving; every writer's state is always the replay of a prefix of the log of
  its session, and only a writer that is up to date can append.
\<close>

section \<open>What one command does\<close>

lemma prepareCommand_input:
  assumes "prepareCommand dt db w env fingerprint schema handler ck = Inr (Inr input)"
  shows "aiSessionId input = wSessionId w \<and> aiExpectedPriorSequence input = int (sequence (wState w))
     \<and> aiExpectedPriorSequence input = latestSequence db (wSessionId w)
     \<and> findProcessed db (wSessionId w) (aiRequestId input) = None
     \<and> aiRequestId input = envRequestId env \<and> aiCommandFingerprint input = fingerprint
     \<and> (\<exists>v. handler (wState w) = Inr (aiDrafts input, v) \<and> schema v = Some (aiResult input))"
  using assms
  by (auto simp: prepareCommand_def bindE_eq_Inr storeE_def getProcessedResultForWriter_def Let_def
      getProcessedResult_def checkWriter_Inr parseResult_def split: sum.splits option.splits if_splits prod.splits)

text \<open>
  The two ways a command succeeds: its request was answered before, with the fingerprint of this
  command, and the recorded result is given again; or the handler has run now, the new events are the
  events of its drafts, and its parsed result is on record and given.
\<close>

definition answeredBefore ::
  "'r Database \<Rightarrow> SessionWriter \<Rightarrow> CommandEnvelope \<Rightarrow> string option \<Rightarrow> ('r \<Rightarrow> 'r option) \<Rightarrow> 'r CommandResult \<Rightarrow> bool" where
  "answeredBefore db w env identity schema r \<longleftrightarrow>
     (\<exists>p. findProcessed db (wSessionId w) (envRequestId env) = Some p \<and> prFingerprint p = identity \<and> identity \<noteq> None
        \<and> schema (prResult p) = Some (crValue r) \<and> crAppendedEventCount r = 0)"

text \<open>An event that stands for a draft: its source and its parsed body.\<close>

definition fits :: "SessionEvent \<Rightarrow> EventDraft \<Rightarrow> bool" where
  "fits ev d = (eventSource ev = draftSource d \<and> body ev = normalizeBody (draftBody d))"

definition answeredNow ::
  "'r Database \<Rightarrow> 'r Database \<Rightarrow> SessionWriter \<Rightarrow> CommandEnvelope \<Rightarrow> string option \<Rightarrow> ('r \<Rightarrow> 'r option) \<Rightarrow> ('e, 'r) handler
     \<Rightarrow> SessionEvent list \<Rightarrow> 'r CommandResult \<Rightarrow> bool" where
  "answeredNow db db' w env identity schema handler new r \<longleftrightarrow>
     findProcessed db (wSessionId w) (envRequestId env) = None
     \<and> (\<exists>drafts v p. handler (wState w) = Inr (drafts, v) \<and> list_all2 fits new drafts
          \<and> findProcessed db' (wSessionId w) (envRequestId env) = Some p \<and> prFingerprint p = identity \<and> identity \<noteq> None
          \<and> schema v = Some (prResult p) \<and> schema (prResult p) = Some (crValue r) \<and> crAppendedEventCount r = length new)"

lemma prepareCommand_finished:
  fixes handler :: "('e, 'r) handler"
  assumes "prepareCommand dt db w env fingerprint schema handler ck = Inr (Inl r)"
  shows "crDuplicate r \<and> answeredBefore db w env (Some fingerprint) schema r"
proof (cases "storeE (getProcessedResultForWriter db (wSessionId w) (envRequestId env)
    (int (sequence (wState w)))) :: ('e WriterError, (string option \<times> 'r) option) result")
  case (Inl e)
  with assms show ?thesis by (simp add: prepareCommand_def)
next
  case (Inr prior)
  then have "getProcessedResult db (wSessionId w) (envRequestId env) = prior"
    by (auto simp: storeE_def getProcessedResultForWriter_def bindE_eq_Inr split: sum.split_asm)
  with Inr assms show ?thesis
    by (cases prior) (auto simp: prepareCommand_def bindE_eq_Inr Let_def answeredBefore_def getProcessedResult_def parseResult_def
        split: if_split_asm sum.split_asm option.split_asm)
qed

lemma buildEvents_fits:
  "buildEvents dt i fresh sq index ds = Inr evs \<Longrightarrow> list_all2 fits evs ds"
proof (induction ds arbitrary: sq index evs)
  case (Cons d ds)
  then obtain ev rest where e: "evs = ev # rest"
    "buildEvents dt i fresh (sq + 1) (index + 1) ds = Inr rest"
    "draftEvent dt (aiSessionId i) (aiCausationId i) (aiCorrelationId i)
        (fst (fresh index)) (snd (fresh index)) (aiElapsedMs i + index) (sq + 1) d = Some ev"
    by (auto simp: bindE_eq_Inr split: option.splits)
  from Cons.IH [OF e(2)] draftEvent_fields [OF e(3)] show ?case by (simp add: e(1) fits_def)
qed simp

text \<open>What an append of a prepared command has put on record.\<close>

lemma append_answers:
  assumes input: "aiSessionId input = wSessionId w" "aiRequestId input = envRequestId env" "Some (aiCommandFingerprint input) = identity"
      "findProcessed db (wSessionId w) (aiRequestId input) = None"
      "handler (wState w) = Inr (aiDrafts input, v)" "schema v = Some (aiResult input)"
    and app: "appendIdempotent dt input fresh db = (Inr persisted, db')"
    and r: "schema (arResult persisted) = Some (crValue r)" "crAppendedEventCount r = length (arEvents persisted)"
  shows "answeredNow db db' w env identity schema handler (arEvents persisted) r"
proof -
  have body: "appendBody dt input fresh db = Inr (persisted, db')" using app by (simp add: appendIdempotent_Inr)
  obtain p where p: "findProcessed db' (aiSessionId input) (aiRequestId input) = Some p"
      "prFingerprint p = Some (aiCommandFingerprint input)" "prResult p = arResult persisted"
    using append_on_record [OF app] by blast
  from body have "arResult persisted = aiResult input \<and> list_all2 fits (arEvents persisted) (aiDrafts input)"
    by (cases rule: appendBody_cases) (use input in \<open>auto dest: buildEvents_fits\<close>)
  then show ?thesis using input p r by (auto simp: answeredNow_def)
qed

text \<open>
  The three outcomes of \<open>execute\<close>: nothing changed; the events were stored and reduced; or they were
  stored and the writer kept its old state.
\<close>

lemma execute_cases:
  assumes "execute dt db w env identity schema handler ck = (res, db', w')"
  obtains (unchanged) "db' = db" "w' = w" "\<And>r. res = Inr r \<Longrightarrow> crDuplicate r \<and> answeredBefore db w env identity schema r"
    | (applied) input persisted where
        "aiSessionId input = wSessionId w"
        "aiExpectedPriorSequence input = int (sequence (wState w))"
        "latestSequence db (wSessionId w) = int (sequence (wState w))"
        "appendIdempotent dt input (storeFresh ck) db = (Inr persisted, db')"
        "\<exists>v. handler (wState w) = Inr (aiDrafts input, v)"
        "foldE reduceSessionEvent (wState w) (arEvents persisted) = Inr (wState w')"
        "wSessionId w' = wSessionId w"
        "\<And>r. res = Inr r \<Longrightarrow> \<not> crDuplicate r \<and> answeredNow db db' w env identity schema handler (arEvents persisted) r"
    | (stored) input persisted where
        "aiSessionId input = wSessionId w" "latestSequence db (wSessionId w) = int (sequence (wState w))"
        "appendIdempotent dt input (storeFresh ck) db = (Inr persisted, db')" "w' = w" "\<exists>e. res = Inl e"
proof -
  show ?thesis
  proof (cases "\<not> acceptingCommands w \<or> fullyClosed w \<or> envSessionId env \<noteq> wSessionId w \<or> identity = None")
    case True
    with assms unchanged show ?thesis by (auto simp: execute_def split: if_splits option.splits)
  next
    case False
    then obtain fp where fp: "identity = Some fp" by auto
    show ?thesis
    proof (cases "prepareCommand dt db w env fp schema handler ck")
      case (Inl e)
      with assms unchanged False fp show ?thesis by (auto simp: execute_def)
    next
      case prep: (Inr x)
      show ?thesis
      proof (cases x)
        case (Inl finished)
        with prep have "crDuplicate finished \<and> answeredBefore db w env (Some fp) schema finished"
          using prepareCommand_finished by blast
        with assms unchanged False fp prep Inl show ?thesis by (auto simp: execute_def)
      next
        case (Inr input)
        note input = prepareCommand_input [OF prep [unfolded Inr]]
        obtain r db1 where app: "appendIdempotent dt input (storeFresh ck) db = (r, db1)" by force
        show ?thesis
        proof (cases r)
          case (Inl e)
          with append_error app have "db1 = db" by blast
          with assms unchanged False fp prep Inr app Inl show ?thesis by (auto simp: execute_def)
        next
          case r: (Inr persisted)
          have nd: "\<not> arDuplicate persisted"
          proof -
            have "appendBody dt input (storeFresh ck) db = Inr (persisted, db1)"
              using app r by (simp add: appendIdempotent_Inr)
            then show ?thesis by (cases rule: appendBody_cases) (use input in auto)
          qed
          show ?thesis
          proof (cases "foldE reduceSessionEvent (wState w) (arEvents persisted)")
            case (Inl e)
            with assms False fp prep Inr app r nd have "db' = db1" "w' = w" "\<exists>e. res = Inl e"
              by (auto simp: execute_def)
            with stored [of input persisted] input app r show ?thesis by simp
          next
            case red: (Inr st)
            with assms False fp prep Inr app r nd have *: "db' = db1" "w' = w\<lparr> wState := st \<rparr>"
              "res = bindE (parseResult schema (arResult persisted)) (\<lambda>v.
                  Inr \<lparr> crDuplicate = arDuplicate persisted, crValue = v,
                    crAppendedEventCount = length (arEvents persisted) \<rparr>)"
              by (auto simp: execute_def)
            show ?thesis
            proof (rule applied [of input persisted])
              fix x assume "res = Inr x"
              from trans [OF *(3) [symmetric] this] nd
              have x: "\<not> crDuplicate x" "crAppendedEventCount x = length (arEvents persisted)"
                  "schema (arResult persisted) = Some (crValue x)"
                by (auto simp: bindE_eq_Inr parseResult_def split: option.split_asm)
              obtain v where v: "handler (wState w) = Inr (aiDrafts input, v)" "schema v = Some (aiResult input)" using input by blast
              have "answeredNow db db1 w env (Some fp) schema handler (arEvents persisted) x"
                by (rule append_answers [where input = input and v = v]) (use input v app r x in auto)
              then show "\<not> crDuplicate x \<and> answeredNow db db' w env identity schema handler (arEvents persisted) x"
                using x(1) *(1) fp by simp
            qed (use * input app r red in auto)
          qed
        qed
      qed
    qed
  qed
qed

section \<open>Writers follow the log\<close>

text \<open>The writer's state is the replay of the first events of its session's log.\<close>

definition follows :: "(SessionId \<Rightarrow> SessionEvent list) \<Rightarrow> SessionWriter \<Rightarrow> bool" where
  "follows L w =
     (\<exists>n \<le> length (L (wSessionId w)).
        replaySession (wSessionId w) (take n (L (wSessionId w))) = Inr (wState w))"

lemma follows_extended:
  assumes "follows L w"
  shows "follows (L(sid := L sid @ new)) w"
proof -
  from assms obtain n where n: "n \<le> length (L (wSessionId w))"
    "replaySession (wSessionId w) (take n (L (wSessionId w))) = Inr (wState w)"
    by (auto simp: follows_def)
  then show ?thesis unfolding follows_def
    by (cases "wSessionId w = sid") (auto intro!: exI [of _ n])
qed

lemma replay_append:
  "replaySession sid xs = Inr s \<Longrightarrow> replaySession sid (xs @ ys) = foldE reduceSessionEvent s ys"
  by (simp add: replaySession_def reducer.run_append)

text \<open>A writer whose sequence number is the length of the log has replayed all of it.\<close>

lemma follows_latest:
  assumes "follows L w" and "length (L (wSessionId w)) = sequence (wState w)"
  shows "replaySession (wSessionId w) (L (wSessionId w)) = Inr (wState w)"
proof -
  from assms(1) obtain n where n: "n \<le> length (L (wSessionId w))"
    "replaySession (wSessionId w) (take n (L (wSessionId w))) = Inr (wState w)"
    by (auto simp: follows_def)
  with replay_log_fields [OF n(2)] assms(2) show ?thesis by simp
qed

lemma execute_follows:
  assumes "represents dt reg db L" and "follows L w"
    and "execute dt db w env identity schema handler ck = (res, db', w')"
  obtains new where "represents dt reg db' (L(wSessionId w := L (wSessionId w) @ new))"
    "follows (L(wSessionId w := L (wSessionId w) @ new)) w'" "wSessionId w' = wSessionId w"
  using assms(3)
proof (cases rule: execute_cases)
  case unchanged
  with assms(1,2) that [of "[]"] show ?thesis by simp
next
  case (applied input persisted)
  let ?new = "arEvents persisted"
  have rep: "represents dt reg db' (L(wSessionId w := L (wSessionId w) @ ?new))"
    using represents_appendIdempotent [OF assms(1) applied(4)] applied(1) by simp
  have "length (L (wSessionId w)) = sequence (wState w)"
    using represents_latest [OF assms(1)] applied(3) by simp
  from replay_append [OF follows_latest [OF assms(2) this], of ?new] applied(6)
  have "replaySession (wSessionId w) (L (wSessionId w) @ ?new) = Inr (wState w')" by simp
  then have "follows (L(wSessionId w := L (wSessionId w) @ ?new)) w'"
    unfolding follows_def
    by (intro exI [of _ "length (L (wSessionId w) @ ?new)"]) (simp add: applied(7))
  with rep applied(7) that [of ?new] show ?thesis by simp
next
  case (stored input persisted)
  have "represents dt reg db' (L(wSessionId w := L (wSessionId w) @ arEvents persisted))"
    using represents_appendIdempotent [OF assms(1) stored(3)] stored(1) by simp
  with follows_extended [OF assms(2)] stored(4) that show ?thesis by blast
qed

lemma execute_session: "execute dt db w env identity schema handler ck = (res, db', w') \<Longrightarrow> wSessionId w' = wSessionId w"
  by (erule execute_cases) simp_all

section \<open>Several writers\<close>

text \<open>
  The runs of a process: writers are opened and closed, and execute commands, in any order. The
  database type and the error type of the handlers are arbitrary.
\<close>

inductive runtime ::
  "(string \<Rightarrow> bool) \<Rightarrow> Registry \<Rightarrow> 'e itself \<Rightarrow> 'r Database \<Rightarrow> SessionWriter list \<Rightarrow> bool"
  for dt reg and err :: "'e itself" where
  start: "runtime dt reg err emptyDatabase []"
| opens: "runtime dt reg err db ws \<Longrightarrow>
     openWriter dt reg db sid = (Inr w :: ('e WriterError, SessionWriter) result) \<Longrightarrow>
     runtime dt reg err db (ws @ [w])"
| closes: "runtime dt reg err db ws \<Longrightarrow> k < length ws \<Longrightarrow>
     runtime dt reg err db (ws[k := closeWriter (ws ! k)])"
| executes: "runtime dt reg err db ws \<Longrightarrow> k < length ws \<Longrightarrow>
     execute dt db (ws ! k) env identity schema (handler :: ('e, 'r) handler) ck = (res, db', w') \<Longrightarrow>
     runtime dt reg err db' (ws[k := w'])"

lemma open_follows:
  assumes "represents dt reg db L" and "openWriter dt reg db sid = Inr w"
  shows "follows L w"
  using assms(2) represents_load [OF assms(1), of sid]
  by (auto simp: openWriter_def bindE_eq_Inr storeE_def reduceE_def follows_def split: sum.splits
      intro!: exI [of _ "length (L sid)"])

lemma close_follows: "follows L w \<Longrightarrow> follows L (closeWriter w)"
  by (simp add: follows_def closeWriter_def)

lemma runtime_follows:
  "runtime dt reg err db ws \<Longrightarrow> \<exists>L. represents dt reg db L \<and> (\<forall>w \<in> set ws. follows L w)"
proof (induction rule: runtime.induct)
  case start
  then show ?case using represents_empty by auto
next
  case (opens db ws sid w)
  then show ?case using open_follows by fastforce
next
  case (closes db ws k)
  then show ?case
    using close_follows by (metis in_set_conv_nth insertE nth_mem set_update_subset_insert subsetD)
next
  case (executes db ws k env identity schema handler ck res db' w')
  then obtain L where L: "represents dt reg db L" "\<forall>w \<in> set ws. follows L w" by blast
  from execute_follows [OF L(1) _ executes.hyps(3)] L(2) executes.hyps(2) obtain new where
    new: "represents dt reg db' (L(wSessionId (ws ! k) := L (wSessionId (ws ! k)) @ new))"
    "follows (L(wSessionId (ws ! k) := L (wSessionId (ws ! k)) @ new)) w'"
    by (metis nth_mem)
  have "\<forall>w \<in> set (ws[k := w']). follows (L(wSessionId (ws ! k) := L (wSessionId (ws ! k)) @ new)) w"
    using L(2) new(2) follows_extended [of L] set_update_subset_insert [of ws k w'] by blast
  with new(1) show ?case by blast
qed

text \<open>
  Property C2. However many writers run on one database, of the same or of different sessions, and
  however their commands interleave, succeed or fail: every session of the database, whether it has a
  writer or not, loads without error, and the cached state of every writer is the replay of the first
  events of its session's log.
\<close>

theorem writers_follow_the_log:
  assumes "runtime dt reg err db ws"
  shows "(\<forall>sid. isOk (load dt reg db sid))
     \<and> (\<forall>w \<in> set ws. \<exists>evs n. load dt reg db (wSessionId w) = Inr evs \<and> n \<le> length evs
          \<and> replaySession (wSessionId w) (take n evs) = Inr (wState w))"
proof -
  obtain L where L: "represents dt reg db L" "\<forall>w \<in> set ws. follows L w" using runtime_follows [OF assms] by blast
  note loads = represents_load [OF L(1)]
  show ?thesis using L(2) loads by (auto simp: isOk_iff follows_def)
qed

text \<open>
  Property C3. A command is exactly an append: in any such run, \<open>execute\<close> extends the log of its session
  by some events (none when it fails before storing) and touches no other session, and only a writer
  that had replayed the whole log can append. A command that reports success is either a duplicate,
  which changes nothing and gives the result recorded for its request under the same fingerprint; or
  it was not on record, the new events are those of the drafts its handler made, as many as it
  reports, its writer's new state is the replay of the whole new log, and the value it gives is the
  handler's result, parsed, which is now on record under its request and fingerprint.
\<close>

theorem execute_extends_the_log:
  assumes "runtime dt reg err db ws" and "w \<in> set ws"
    and "execute dt db w env identity schema handler ck = (res, db', w')"
  shows "\<exists>evs new. load dt reg db (wSessionId w) = Inr evs
     \<and> load dt reg db' (wSessionId w) = Inr (evs @ new)
     \<and> (new \<noteq> [] \<longrightarrow> replaySession (wSessionId w) evs = Inr (wState w))
     \<and> (\<forall>r. res = Inr r \<longrightarrow>
          crDuplicate r \<and> db' = db \<and> w' = w \<and> answeredBefore db w env identity schema r
          \<or> \<not> crDuplicate r \<and> answeredNow db db' w env identity schema handler new r
            \<and> replaySession (wSessionId w) (evs @ new) = Inr (wState w'))
     \<and> (\<forall>sid. sid \<noteq> wSessionId w \<longrightarrow> load dt reg db' sid = load dt reg db sid)"
proof -
  obtain L where L: "represents dt reg db L" "follows L w"
    using runtime_follows [OF assms(1)] assms(2) by blast
  note before = represents_load [OF L(1)]
  show ?thesis using assms(3)
  proof (cases rule: execute_cases)
    case unchanged
    then show ?thesis using before [of "wSessionId w"]
      by (intro exI [of _ "L (wSessionId w)"] exI [of _ "[]"]) auto
  next
    case (applied input persisted)
    have after: "represents dt reg db' (L(wSessionId w := L (wSessionId w) @ arEvents persisted))"
      using represents_appendIdempotent [OF L(1) applied(4)] applied(1) by simp
    have "length (L (wSessionId w)) = sequence (wState w)"
      using represents_latest [OF L(1)] applied(3) by simp
    note whole = follows_latest [OF L(2) this]
    from whole replay_append [OF whole] applied(6,8) before represents_load [OF after] show ?thesis
      by (intro exI [of _ "L (wSessionId w)"] exI [of _ "arEvents persisted"]) auto
  next
    case (stored input persisted)
    have after: "represents dt reg db' (L(wSessionId w := L (wSessionId w) @ arEvents persisted))"
      using represents_appendIdempotent [OF L(1) stored(3)] stored(1) by simp
    have "length (L (wSessionId w)) = sequence (wState w)"
      using represents_latest [OF L(1)] stored(2) by simp
    from follows_latest [OF L(2) this] stored(5) before represents_load [OF after] show ?thesis
      by (intro exI [of _ "L (wSessionId w)"] exI [of _ "arEvents persisted"]) auto
  qed
qed

section \<open>A run\<close>

definition sampleEnvelope :: CommandEnvelope where
  "sampleEnvelope = \<lparr> envRequestId = ''q1'', envSessionId = ''s1'', envProducer = ''test'',
     envCausationId = ''q1'', envCorrelationId = ''q1'', envInputEpisodeId = None, envTurnId = None,
     envGenerationId = None, envContextEpoch = None, envSourceRevision = None \<rparr>"

definition sampleClock :: Clock where
  "sampleClock = \<lparr> sinceOpened = 3, previewIds = (\<lambda>k. ''p'' @ [char_of (48 + k)]),
     previewWall = ''now'', storeFresh = sampleFresh \<rparr>"

definition sampleHandler :: "(unit, unit) handler" where
  "sampleHandler st = Inr ([\<lparr> draftSource = Source_USER, draftBody = UTTERANCE_STARTED ''u1'' \<rparr>,
     \<lparr> draftSource = Source_USER, draftBody = INPUT_EPISODE_STARTED ''i1'' \<rparr>], ())"

definition sampleWriter :: SessionWriter where
  "sampleWriter = \<lparr> wSessionId = ''s1'', wState = initialSessionState ''s1'', wElapsedOffset = 0,
     acceptingCommands = True, fullyClosed = False \<rparr>"

lemma sample_open: "openWriter (\<lambda>_. True) [] (emptyDatabase :: 'r Database) ''s1''
    = (Inr sampleWriter :: (unit WriterError, SessionWriter) result)"
  by (simp add: openWriter_def load_def rowsOf_def emptyDatabase_def storeE_def reduceE_def replaySession_def sampleWriter_def)

lemma sample_runtime: "runtime (\<lambda>_. True) [] TYPE(unit) (emptyDatabase :: 'r Database) [sampleWriter, sampleWriter]"
  using runtime.opens [OF runtime.opens [OF runtime.start sample_open] sample_open] by simp

definition countingHandler :: "(unit, nat) handler" where
  "countingHandler st = Inr (case sampleHandler st of Inl _ \<Rightarrow> ([], 0) | Inr (drafts, _) \<Rightarrow> (drafts, length drafts))"

definition sampleRun :: "(unit WriterError, nat CommandResult) result \<times> nat Database \<times> SessionWriter" where
  "sampleRun = execute (\<lambda>_. True) emptyDatabase sampleWriter sampleEnvelope (Some (replicate 64 CHR ''a''))
      (\<lambda>n. Some (min n 9)) countingHandler sampleClock"

lemma sample_execute:
  "(case sampleRun of (Inr r, db, w) \<Rightarrow> \<not> crDuplicate r \<and> crAppendedEventCount r = 2 \<and> crValue r = 2 \<and> sequence (wState w) = 2
      \<and> (case load (\<lambda>_. True) [] db ''s1'' of Inl _ \<Rightarrow> False | Inr evs \<Rightarrow> length evs = 2) | _ \<Rightarrow> False)"
  by code_simp

lemma sample_ran:
  obtains r db w evs where "sampleRun = (Inr r, db, w)" "\<not> crDuplicate r" "crAppendedEventCount r = 2" "crValue r = 2"
    "sequence (wState w) = 2" "load (\<lambda>_. True) [] db ''s1'' = Inr evs" "length evs = 2"
proof -
  obtain res db w where run: "sampleRun = (res, db, w)" by (metis prod_cases3)
  from sample_execute [unfolded run] show thesis
    using run that by (cases res; cases "load (\<lambda>_. True) [] db ''s1''") simp_all
qed

lemma sample_retry:
  "(case sampleRun of (_, db, w) \<Rightarrow>
      (case execute (\<lambda>_. True) db w sampleEnvelope (Some (replicate 64 CHR ''a'')) (\<lambda>n. Some (min n 9)) countingHandler sampleClock of
         (Inr r, _, _) \<Rightarrow> crDuplicate r \<and> crValue r = 2 | _ \<Rightarrow> False))"
  by code_simp

text \<open>Two writers of one session: the first has executed a command, the second is behind.\<close>

theorem writers_follow_the_log_witness:
  "\<exists>db w' evs n m. runtime (\<lambda>_. True) [] TYPE(unit) (db :: nat Database) [w', sampleWriter]
     \<and> load (\<lambda>_. True) [] db ''s1'' = Inr evs \<and> length evs = 2 \<and> n \<le> length evs \<and> m \<le> length evs
     \<and> replaySession ''s1'' (take n evs) = Inr (wState w') \<and> sequence (wState w') = 2
     \<and> replaySession ''s1'' (take m evs) = Inr (wState sampleWriter) \<and> sequence (wState sampleWriter) = 0"
proof -
  obtain r db' w' evs where run: "sampleRun = (Inr r, db', w')" "sequence (wState w') = 2"
      "load (\<lambda>_. True) [] db' ''s1'' = Inr evs" "length evs = 2"
    using sample_ran by metis
  have sid: "wSessionId sampleWriter = ''s1''" "wSessionId w' = ''s1''" "sequence (wState sampleWriter) = 0"
    using execute_session [OF run(1) [unfolded sampleRun_def]] by (simp_all add: sampleWriter_def initialSessionState_def)
  have first: "execute (\<lambda>_. True) emptyDatabase ([sampleWriter, sampleWriter] ! 0) sampleEnvelope (Some (replicate 64 CHR ''a''))
      (\<lambda>n. Some (min n 9)) countingHandler sampleClock = (Inr r, db', w')"
    using run(1) by (simp add: sampleRun_def)
  have reached: "runtime (\<lambda>_. True) [] TYPE(unit) db' [w', sampleWriter]"
    using runtime.executes [OF sample_runtime, of 0, OF _ first] by simp
  obtain n m where "n \<le> length evs" "m \<le> length evs" "replaySession ''s1'' (take n evs) = Inr (wState w')"
      "replaySession ''s1'' (take m evs) = Inr (wState sampleWriter)"
    using writers_follow_the_log [OF reached] run(3) sid(1,2) by auto
  then show ?thesis using reached run sid(3) by blast
qed

text \<open>The command of the run, and the same command again.\<close>

theorem execute_extends_the_log_witness:
  "\<exists>r db' w' new. sampleRun = (Inr r, db', w') \<and> load (\<lambda>_. True) [] db' ''s1'' = Inr new \<and> length new = 2 \<and> crValue r = 2
     \<and> answeredNow emptyDatabase db' sampleWriter sampleEnvelope (Some (replicate 64 CHR ''a'')) (\<lambda>n. Some (min n 9)) countingHandler new r
     \<and> replaySession ''s1'' new = Inr (wState w')
     \<and> (\<exists>r2. fst (execute (\<lambda>_. True) db' w' sampleEnvelope (Some (replicate 64 CHR ''a'')) (\<lambda>n. Some (min n 9)) countingHandler
            sampleClock) = Inr r2 \<and> crDuplicate r2 \<and> crValue r2 = 2)"
proof -
  obtain r db' w' where r: "sampleRun = (Inr r, db', w')" "\<not> crDuplicate r" "crAppendedEventCount r = 2" "crValue r = 2"
    using sample_ran by metis
  have sid: "wSessionId sampleWriter = ''s1''" by (simp add: sampleWriter_def)
  have "load (\<lambda>_. True) [] (emptyDatabase :: nat Database) ''s1'' = Inr []" by (simp add: load_def rowsOf_def emptyDatabase_def)
  then obtain new where new: "load (\<lambda>_. True) [] db' ''s1'' = Inr new" "replaySession ''s1'' new = Inr (wState w')"
      "answeredNow emptyDatabase db' sampleWriter sampleEnvelope (Some (replicate 64 CHR ''a'')) (\<lambda>n. Some (min n 9)) countingHandler new r"
    using execute_extends_the_log [OF sample_runtime _ r(1) [unfolded sampleRun_def]] r(2) sid by auto
  moreover have "length new = 2" using new(3) r(3) by (auto simp: answeredNow_def)
  moreover have "\<exists>r2. fst (execute (\<lambda>_. True) db' w' sampleEnvelope (Some (replicate 64 CHR ''a'')) (\<lambda>n. Some (min n 9)) countingHandler
      sampleClock) = Inr r2 \<and> crDuplicate r2 \<and> crValue r2 = 2"
    using sample_retry by (auto simp: r(1) split: prod.splits sum.splits)
  ultimately show ?thesis using r(1,4) by blast
qed

end
