(* ===== verification/DeliveryLedger.thy ===== *)
theory DeliveryLedger
  imports ReducerFrame Samples
begin

text \<open>
  Deliveries and the disclosure ledger. The abstract contract is a step relation on the status of
  one delivery; the reducer refines it. The ledger is exactly the account of what has been
  exposed: it covers every disclosed delivery, never shrinks, and every entry has an exposure
  event of a delivery that carried it. Generating, validating or queueing a message is not
  delivering it.
\<close>

section \<open>The lifecycle of one delivery\<close>

text \<open>
  \<open>lifecycle src s s'\<close>: a delivery may move from \<open>s\<close> to \<open>s'\<close> by one event of source \<open>src\<close>.
  Only the renderer, which knows that nothing was shown, may take back a delivery under way.
\<close>

inductive lifecycle :: "EventSource \<Rightarrow> DeliveryStatus \<Rightarrow> DeliveryStatus \<Rightarrow> bool" for src where
  queue: "lifecycle src Delivery_VALIDATED Delivery_QUEUED"
| start: "lifecycle src Delivery_QUEUED Delivery_DELIVERING"
| cancel: "lifecycle src Delivery_QUEUED Delivery_CANCELLED"
| take_back: "src = Source_RENDERER \<Longrightarrow> lifecycle src Delivery_DELIVERING Delivery_CANCELLED"
| expose: "lifecycle src Delivery_DELIVERING Delivery_EXPOSED"
| lose_track: "lifecycle src Delivery_DELIVERING Delivery_POSSIBLY_EXPOSED"
| confirm: "lifecycle src Delivery_POSSIBLY_EXPOSED Delivery_EXPOSED"
| complete: "lifecycle src Delivery_EXPOSED Delivery_COMPLETED"

code_pred lifecycle .

inductive_cases lifecycle_from_cancelledE: "lifecycle src Delivery_CANCELLED s"
inductive_cases lifecycle_from_completedE: "lifecycle src Delivery_COMPLETED s"
inductive_simps lifecycle_iff: "lifecycle src s s'"

lemma lifecycle_allowed:
  "lifecycle src s s' \<longleftrightarrow> s' \<in> set (allowedTransitions s)
     \<or> s = Delivery_DELIVERING \<and> s' = Delivery_CANCELLED \<and> src = Source_RENDERER"
  by (cases s) (auto simp: lifecycle_iff)

text \<open>A disclosed delivery stays disclosed.\<close>

lemma lifecycle_disclosed: "lifecycle src s s' \<Longrightarrow> isDisclosedStatus s \<Longrightarrow> isDisclosedStatus s'"
  by (induction rule: lifecycle.induct) simp_all

section \<open>One event\<close>

text \<open>The atom an event leaves under an id, from the atom that was there before.\<close>

definition requeues :: "DeliveryId \<Rightarrow> EventBody \<Rightarrow> bool" where
  "requeues d b = (case b of DELIVERY_QUEUED a \<Rightarrow> deliveryId a = d | _ \<Rightarrow> False)"

lemma withDeliveryStatus_iff:
  "withDeliveryStatus st d s = Inr t \<longleftrightarrow>
     (\<exists>a. dget (deliveries st) d = Some a \<and> s \<in> set (allowedTransitions (atomStatus a))
        \<and> t = st\<lparr> deliveries := dput d (a\<lparr> atomStatus := s \<rparr>) (deliveries st),
                 disclosureLedger := (if isDisclosedStatus s
                    then uniq (disclosureLedger st @ disclosureIds a) else disclosureLedger st) \<rparr>)"
  by (auto simp: withDeliveryStatus_def split: option.splits if_splits)

lemma delivery_step:
  assumes "reduceBody st ei sq so b = Inr t" and "dget (deliveries st) d = Some a"
    and "\<not> requeues d b"
  shows "\<exists>a'. dget (deliveries t) d = Some a' \<and> disclosureIds a' = disclosureIds a
     \<and> atomContent a' = atomContent a \<and> atomGenerationId a' = atomGenerationId a
     \<and> (atomStatus a' = atomStatus a \<or> lifecycle so (atomStatus a) (atomStatus a'))"
proof (cases "isDeliveryBody b")
  case False
  with assms show ?thesis by (auto dest!: delivery_frame)
next
  case True
  with assms show ?thesis
    by (cases b) (auto simp: isDeliveryBody_def requeues_def reduce_DELIVERY_QUEUED_def
        reduce_DELIVERY_CANCELLED_def withDeliveryStatus_iff dget_dput lifecycle_allowed
        split: if_splits option.splits)
qed

lemma ledger_step:
  assumes "reduceBody st ei sq so b = Inr t"
  shows "set (disclosureLedger st) \<subseteq> set (disclosureLedger t)"
proof (cases "isDeliveryBody b")
  case False
  with assms show ?thesis by (auto dest!: delivery_frame)
next
  case True
  with assms show ?thesis
    by (cases b) (auto simp: isDeliveryBody_def reduce_DELIVERY_QUEUED_def
        reduce_DELIVERY_CANCELLED_def withDeliveryStatus_iff split: if_splits option.splits)
qed

section \<open>The ledger invariant\<close>

definition covered :: "DisclosureId list \<Rightarrow> DeliveryId \<Rightarrow> DeliveryAtom \<Rightarrow> bool" where
  "covered ledger d a =
     (deliveryId a = d
      \<and> (isDisclosedStatus (atomStatus a) \<longrightarrow> set (disclosureIds a) \<subseteq> set ledger))"

definition ledgerCovers :: "SessionState \<Rightarrow> bool" where
  "ledgerCovers st =
     (\<forall>d a. dget (deliveries st) d = Some a \<longrightarrow> covered (disclosureLedger st) d a)"

lemma covered_mono: "covered l d a \<Longrightarrow> set l \<subseteq> set l' \<Longrightarrow> covered l' d a"
  by (auto simp: covered_def)

lemma ledgerCovers_initial [simp]: "ledgerCovers (initialSessionState sid)"
  by (simp add: ledgerCovers_def initialSessionState_def)

lemma ledgerCovers_put:
  assumes "ledgerCovers st" and "covered l d a" and "set (disclosureLedger st) \<subseteq> set l"
  shows "ledgerCovers (st\<lparr> deliveries := dput d a (deliveries st), disclosureLedger := l \<rparr>)"
  using assms by (auto simp: ledgerCovers_def dget_dput intro: covered_mono)

lemma ledgerCovers_withDeliveryStatus:
  assumes "ledgerCovers st" and "withDeliveryStatus st d s = Inr t"
  shows "ledgerCovers t"
proof -
  from assms(2) obtain a where a: "dget (deliveries st) d = Some a"
    "t = st\<lparr> deliveries := dput d (a\<lparr> atomStatus := s \<rparr>) (deliveries st),
             disclosureLedger := (if isDisclosedStatus s
                then uniq (disclosureLedger st @ disclosureIds a) else disclosureLedger st) \<rparr>"
    by (auto simp: withDeliveryStatus_iff)
  have "deliveryId a = d" using assms(1) a(1) by (simp add: ledgerCovers_def covered_def)
  then show ?thesis unfolding a(2) by (intro ledgerCovers_put) (auto simp: assms covered_def)
qed

lemma ledgerCovers_not_shown:
  "ledgerCovers st \<Longrightarrow> deliveryId a = d \<Longrightarrow> \<not> isDisclosedStatus (atomStatus a) \<Longrightarrow>
     ledgerCovers (st\<lparr> deliveries := dput d a (deliveries st) \<rparr>)"
  using ledgerCovers_put [of st "disclosureLedger st" d a] by (simp add: covered_def)

lemma ledgerCovers_body:
  assumes "reduceBody st ei sq so b = Inr t" and "ledgerCovers st"
  shows "ledgerCovers t"
proof (cases "isDeliveryBody b")
  case False
  with assms delivery_frame [OF assms(1)] show ?thesis by (simp add: ledgerCovers_def)
next
  case True
  have "deliveryId a = d" if "dget (deliveries st) d = Some a" for d a
    using assms(2) that by (simp add: ledgerCovers_def covered_def)
  with assms True show ?thesis
    by (cases b) (auto simp: isDeliveryBody_def reduce_DELIVERY_QUEUED_def
        reduce_DELIVERY_CANCELLED_def intro: ledgerCovers_not_shown ledgerCovers_withDeliveryStatus
        split: if_splits option.splits)
qed

lemma ledgerCovers_log [simp]:
  "ledgerCovers (u\<lparr> sequence := n, eventIds := is \<rparr>) = ledgerCovers u"
  by (simp add: ledgerCovers_def)

lemma ledgerCovers_event:
  "reduceSessionEvent st ev = Inr t \<Longrightarrow> ledgerCovers st \<Longrightarrow> ledgerCovers t"
  by (erule reduce_invariant) (auto dest: ledgerCovers_body)

lemma distinct_ledger_event:
  assumes "reduceSessionEvent st ev = Inr t" and "distinct (disclosureLedger st)"
  shows "distinct (disclosureLedger t)"
proof -
  have "distinct (disclosureLedger u)" if "reduceBody st ei sq so b = Inr u" for ei sq so b u
  proof (cases "isDeliveryBody b")
    case False
    with that assms show ?thesis by (auto dest!: delivery_frame)
  next
    case True
    with that assms show ?thesis
      by (cases b) (auto simp: isDeliveryBody_def reduce_DELIVERY_QUEUED_def
          reduce_DELIVERY_CANCELLED_def withDeliveryStatus_iff split: if_splits option.splits)
  qed
  with assms show ?thesis by (auto simp: reduceSessionEvent_iff)
qed

lemma ledgerCovers_replay: "replaySession sid evs = Inr st \<Longrightarrow> ledgerCovers st"
  by (erule replay_invariant)
     (auto intro: ledgerCovers_event)

lemma distinct_ledger_replay: "replaySession sid evs = Inr st \<Longrightarrow> distinct (disclosureLedger st)"
  by (erule replay_invariant) (auto intro: distinct_ledger_event simp: initialSessionState_def)

lemma ledger_event:
  "reduceSessionEvent st ev = Inr t \<Longrightarrow> set (disclosureLedger st) \<subseteq> set (disclosureLedger t)"
  by (auto simp: reduceSessionEvent_iff dest!: ledger_step)

lemma ledger_run:
  "foldE reduceSessionEvent st evs = Inr t \<Longrightarrow> set (disclosureLedger st) \<subseteq> set (disclosureLedger t)"
  by (erule reducer.run_relation [rotated 3]) (auto dest: ledger_event)

section \<open>What the ledger accounts for\<close>

text \<open>Event \<open>ev\<close>, reduced in state \<open>u\<close>, shows or may have shown a delivery that carries \<open>x\<close>.\<close>

definition exposes :: "SessionState \<Rightarrow> SessionEvent \<Rightarrow> DisclosureId \<Rightarrow> bool" where
  "exposes u ev x =
     (let shown = (\<lambda>d. case dget (deliveries u) d of None \<Rightarrow> False | Some a \<Rightarrow> x \<in> set (disclosureIds a))
      in case body ev of DELIVERY_EXPOSED d \<Rightarrow> shown d | DELIVERY_POSSIBLY_EXPOSED d _ \<Rightarrow> shown d
         | _ \<Rightarrow> False)"

lemma withDeliveryStatus_ledger:
  "withDeliveryStatus st d s = Inr t \<Longrightarrow> isDisclosedStatus s \<Longrightarrow>
     \<exists>a. dget (deliveries st) d = Some a
       \<and> set (disclosureLedger t) = set (disclosureLedger st) \<union> set (disclosureIds a)"
  "withDeliveryStatus st d s = Inr t \<Longrightarrow> \<not> isDisclosedStatus s \<Longrightarrow>
     disclosureLedger t = disclosureLedger st"
  by (auto simp: withDeliveryStatus_iff)

text \<open>Completing adds nothing: the delivery was exposed, so it was accounted for already.\<close>

lemma complete_ledger:
  assumes "withDeliveryStatus st d Delivery_COMPLETED = Inr t" and "ledgerCovers st"
  shows "set (disclosureLedger t) = set (disclosureLedger st)"
proof -
  from assms(1) obtain a where a: "dget (deliveries st) d = Some a"
    "Delivery_COMPLETED \<in> set (allowedTransitions (atomStatus a))"
    "set (disclosureLedger t) = set (disclosureLedger st) \<union> set (disclosureIds a)"
    by (auto simp: withDeliveryStatus_iff)
  from a(2) have "atomStatus a = Delivery_EXPOSED" by (cases "atomStatus a") auto
  with a(1) assms(2) have "set (disclosureIds a) \<subseteq> set (disclosureLedger st)"
    by (simp add: ledgerCovers_def covered_def)
  with a(3) show ?thesis by auto
qed

lemma cancel_ledger:
  "reduce_DELIVERY_CANCELLED st so d = Inr t \<Longrightarrow> disclosureLedger t = disclosureLedger st"
  by (auto simp: reduce_DELIVERY_CANCELLED_def dest!: withDeliveryStatus_ledger(2)
      split: if_splits option.splits)

lemma ledger_body_new:
  assumes "reduceBody st ei sq so (body ev) = Inr t" and "ledgerCovers st"
  shows "x \<in> set (disclosureLedger t) \<longleftrightarrow> x \<in> set (disclosureLedger st) \<or> exposes st ev x"
proof (cases "isDeliveryBody (body ev)")
  case False
  moreover from False have "\<not> exposes st ev x"
    by (auto simp: exposes_def isDeliveryBody_def split: EventBody.splits)
  ultimately show ?thesis using assms(1) by (auto dest!: delivery_frame)
next
  case True
  with assms show ?thesis
    by (cases "body ev") (auto simp: exposes_def isDeliveryBody_def reduce_DELIVERY_QUEUED_def
        cancel_ledger complete_ledger split: if_splits dest: withDeliveryStatus_ledger)
qed

lemma ledger_event_new:
  "reduceSessionEvent st ev = Inr t \<Longrightarrow> ledgerCovers st \<Longrightarrow>
     x \<in> set (disclosureLedger t) \<longleftrightarrow> x \<in> set (disclosureLedger st) \<or> exposes st ev x"
  by (auto simp: reduceSessionEvent_iff ledger_body_new)

text \<open>
  Property C15. After replaying any log, the disclosure ledger is the account of exposures and
  nothing else: a disclosure id is in it if and only if the log has a \<^verbatim>\<open>DELIVERY_EXPOSED\<close> or
  \<^verbatim>\<open>DELIVERY_POSSIBLY_EXPOSED\<close> event for a delivery which, at that point of the log, carried
  the id. Proposals, validations, queued, cancelled and started deliveries add nothing.
\<close>

theorem ledger_exactly_exposures:
  assumes "replaySession sid evs = Inr st"
  shows "x \<in> set (disclosureLedger st) \<longleftrightarrow>
     (\<exists>pre ev post u. evs = pre @ ev # post \<and> replaySession sid pre = Inr u \<and> exposes u ev x)"
  using assms
proof (induction rule: replay_induct)
  case Nil
  then show ?case by (simp add: initialSessionState_def)
next
  case (snoc evs ev u t)
  have "(\<exists>pre e post v. evs @ [ev] = pre @ e # post \<and> replaySession sid pre = Inr v \<and> exposes v e x)
     \<longleftrightarrow> (\<exists>pre e post v. evs = pre @ e # post \<and> replaySession sid pre = Inr v \<and> exposes v e x)
        \<or> exposes u ev x" (is "?L \<longleftrightarrow> ?R")
  proof
    assume ?L
    then obtain pre e post v where
      *: "evs @ [ev] = pre @ e # post" "replaySession sid pre = Inr v" "exposes v e x" by blast
    then show ?R
      using snoc.hyps(1) by (cases post rule: rev_cases) (simp_all, metis)
  next
    assume ?R
    then show ?L using snoc.hyps(1) by (metis append_Cons append_assoc)
  qed
  with snoc.IH ledger_event_new [OF snoc.hyps(2) ledgerCovers_replay [OF snoc.hyps(1)]]
  show ?case by simp
qed

theorem ledger_exactly_exposures_witness:
  "\<exists>st. replaySession ''s1'' sampleDelivered = Inr st \<and> ''h2'' \<in> set (disclosureLedger st)
     \<and> (\<exists>pre ev post u. sampleDelivered = pre @ ev # post \<and> replaySession ''s1'' pre = Inr u
          \<and> exposes u ev ''h2'')"
proof -
  have "isOk (replaySession ''s1'' sampleDelivered)" by code_simp
  then obtain st where st: "replaySession ''s1'' sampleDelivered = Inr st" by (auto simp: isOk_iff)
  have "(case replaySession ''s1'' sampleDelivered of Inl _ \<Rightarrow> False
      | Inr s \<Rightarrow> ''h2'' \<in> set (disclosureLedger s))" by code_simp
  with st have "''h2'' \<in> set (disclosureLedger st)" by simp
  with st ledger_exactly_exposures [OF st, of "''h2''"] show ?thesis by blast
qed

text \<open>
  In every replayed state the ledger covers every delivery whose status says that it
  was or may have been shown, it holds no id twice, and every delivery is filed under its own id.
\<close>

theorem disclosed_deliveries_covered:
  assumes "replaySession sid evs = Inr st" and "dget (deliveries st) d = Some a"
  shows "deliveryId a = d \<and> distinct (disclosureLedger st)
     \<and> (isDisclosedStatus (atomStatus a) \<longrightarrow> set (disclosureIds a) \<subseteq> set (disclosureLedger st))"
  using ledgerCovers_replay [OF assms(1)] distinct_ledger_replay [OF assms(1)] assms(2)
  by (simp add: ledgerCovers_def covered_def)

theorem disclosed_deliveries_covered_witness:
  "\<exists>st a. replaySession ''s1'' sampleDelivered = Inr st \<and> dget (deliveries st) ''d1'' = Some a
     \<and> set (disclosureIds a) \<subseteq> set (disclosureLedger st)"
proof -
  have "(case replaySession ''s1'' sampleDelivered of Inl _ \<Rightarrow> False
      | Inr s \<Rightarrow> (case dget (deliveries s) ''d1'' of None \<Rightarrow> False
                 | Some a \<Rightarrow> atomStatus a = Delivery_COMPLETED))" by code_simp
  then obtain st a where st: "replaySession ''s1'' sampleDelivered = Inr st"
    "dget (deliveries st) ''d1'' = Some a" "atomStatus a = Delivery_COMPLETED"
    by (auto split: sum.splits option.splits)
  with disclosed_deliveries_covered [OF st(1) st(2)] show ?thesis by simp
qed

section \<open>One delivery as a machine\<close>

text \<open>
  The contract of the reducer for the delivery \<open>d\<close>, on nothing but the atom filed under \<open>d\<close>: a
  validated atom queued under \<open>d\<close> replaces whatever was there; an event that sets the status of \<open>d\<close>
  needs an atom and a step of the lifecycle for the source of the event; no other event does anything.
\<close>

fun statusEvent :: "EventBody \<Rightarrow> (DeliveryId \<times> DeliveryStatus) option" where
  "statusEvent (DELIVERY_STARTED d) = Some (d, Delivery_DELIVERING)"
| "statusEvent (DELIVERY_EXPOSED d) = Some (d, Delivery_EXPOSED)"
| "statusEvent (DELIVERY_COMPLETED d) = Some (d, Delivery_COMPLETED)"
| "statusEvent (DELIVERY_CANCELLED d _) = Some (d, Delivery_CANCELLED)"
| "statusEvent (DELIVERY_POSSIBLY_EXPOSED d _) = Some (d, Delivery_POSSIBLY_EXPOSED)"
| "statusEvent _ = None"

definition queuedAtom :: "EventBody \<Rightarrow> DeliveryAtom option" where
  "queuedAtom b = (case b of DELIVERY_QUEUED a \<Rightarrow> Some a | _ \<Rightarrow> None)"

definition moveDelivery ::
  "EventSource \<Rightarrow> DeliveryStatus \<Rightarrow> DeliveryAtom option \<Rightarrow> (unit, DeliveryAtom option) result" where
  "moveDelivery src s x =
     (case x of None \<Rightarrow> Inl ()
      | Some a \<Rightarrow> if lifecycle src (atomStatus a) s then Inr (Some (a\<lparr> atomStatus := s \<rparr>)) else Inl ())"

definition deliverySpec ::
  "DeliveryId \<Rightarrow> DeliveryAtom option \<Rightarrow> SessionEvent \<Rightarrow> (unit, DeliveryAtom option) result" where
  "deliverySpec d x ev =
     (case queuedAtom (body ev) of
        Some a \<Rightarrow>
          if deliveryId a \<noteq> d then Inr x
          else if atomStatus a = Delivery_VALIDATED then Inr (Some (a\<lparr> atomStatus := Delivery_QUEUED \<rparr>))
          else Inl ()
      | None \<Rightarrow>
          (case statusEvent (body ev) of
             Some (e, s) \<Rightarrow> if e \<noteq> d then Inr x else moveDelivery (eventSource ev) s x
           | None \<Rightarrow> Inr x))"

definition concerns :: "DeliveryId \<Rightarrow> EventBody \<Rightarrow> bool" where
  "concerns d b \<longleftrightarrow> requeues d b \<or> (\<exists>s. statusEvent b = Some (d, s))"

lemma cancelled_iff:
  "reduce_DELIVERY_CANCELLED st so d = Inr t \<longleftrightarrow>
     (\<exists>a. dget (deliveries st) d = Some a \<and> lifecycle so (atomStatus a) Delivery_CANCELLED
        \<and> t = st\<lparr> deliveries := dput d (a\<lparr> atomStatus := Delivery_CANCELLED \<rparr>) (deliveries st) \<rparr>)"
  by (auto simp: reduce_DELIVERY_CANCELLED_def withDeliveryStatus_iff lifecycle_allowed split: option.splits if_splits)

lemma moved_iff:
  "s \<noteq> Delivery_CANCELLED \<Longrightarrow> withDeliveryStatus st d s = Inr t \<longleftrightarrow>
     (\<exists>a. dget (deliveries st) d = Some a \<and> lifecycle so (atomStatus a) s
        \<and> t = st\<lparr> deliveries := dput d (a\<lparr> atomStatus := s \<rparr>) (deliveries st),
                 disclosureLedger := (if isDisclosedStatus s
                    then uniq (disclosureLedger st @ disclosureIds a) else disclosureLedger st) \<rparr>)"
  by (simp add: withDeliveryStatus_iff lifecycle_allowed)

lemma queued_iff:
  "reduce_DELIVERY_QUEUED st a = Inr t \<longleftrightarrow> atomStatus a = Delivery_VALIDATED
     \<and> t = st\<lparr> deliveries := dput (deliveryId a) (a\<lparr> atomStatus := Delivery_QUEUED \<rparr>) (deliveries st) \<rparr>"
  by (auto simp: reduce_DELIVERY_QUEUED_def)

lemma status_event_refines:
  assumes "statusEvent b = Some (e, s)"
  shows "reduceBody st ei sq so b = Inr t \<Longrightarrow>
       \<exists>a. dget (deliveries st) e = Some a \<and> lifecycle so (atomStatus a) s
         \<and> deliveries t = dput e (a\<lparr> atomStatus := s \<rparr>) (deliveries st)"
    and "dget (deliveries st) e = Some a \<Longrightarrow> lifecycle so (atomStatus a) s \<Longrightarrow> isOk (reduceBody st ei sq so b)"
  using assms by (cases b; auto simp: isOk_iff cancelled_iff moved_iff [where so = so])+

lemma event_refines:
  assumes "reduceSessionEvent st ev = Inr t"
  shows "deliverySpec d (dget (deliveries st) d) ev = Inr (dget (deliveries t) d)"
proof -
  from assms obtain u where u: "reduceBody st (eventId ev) (eventSequence ev) (eventSource ev) (body ev) = Inr u"
      "deliveries t = deliveries u"
    by (auto simp: reduceSessionEvent_iff)
  consider (queued) a where "body ev = DELIVERY_QUEUED a" | (status) e s where "queuedAtom (body ev) = None"
      "statusEvent (body ev) = Some (e, s)" | (none) "queuedAtom (body ev) = None" "statusEvent (body ev) = None"
      "\<not> isDeliveryBody (body ev)"
    by (cases "body ev") (auto simp: isDeliveryBody_def queuedAtom_def)
  then show ?thesis
  proof cases
    case queued
    with u show ?thesis by (auto simp: deliverySpec_def queuedAtom_def queued_iff dget_dput)
  next
    case status
    with u status_event_refines(1) [OF status(2) u(1)] show ?thesis
      by (auto simp: deliverySpec_def moveDelivery_def dget_dput)
  next
    case none
    with u delivery_frame [OF u(1)] show ?thesis by (simp add: deliverySpec_def)
  qed
qed

lemma run_refines:
  "foldE reduceSessionEvent st evs = Inr t \<Longrightarrow>
     foldE (deliverySpec d) (dget (deliveries st) d) evs = Inr (dget (deliveries t) d)"
  by (induction evs arbitrary: st) (auto simp: bindE_eq_Inr dest: event_refines)

text \<open>An event about \<open>d\<close> is refused exactly when the contract refuses it.\<close>

lemma event_accepted:
  assumes "concerns d (body ev)" "eventSessionId ev = sessionId st" "eventSequence ev = sequence st + 1"
  shows "isOk (reduceSessionEvent st ev) \<longleftrightarrow> isOk (deliverySpec d (dget (deliveries st) d) ev)"
proof
  assume "isOk (reduceSessionEvent st ev)"
  then show "isOk (deliverySpec d (dget (deliveries st) d) ev)" by (auto simp: isOk_iff dest: event_refines)
next
  assume spec: "isOk (deliverySpec d (dget (deliveries st) d) ev)"
  have "isOk (reduceBody st (eventId ev) (eventSequence ev) (eventSource ev) (body ev))"
  proof (cases "requeues d (body ev)")
    case True
    then obtain a where "body ev = DELIVERY_QUEUED a" "deliveryId a = d"
      by (auto simp: requeues_def split: EventBody.splits)
    with spec show ?thesis
      by (auto simp: isOk_iff deliverySpec_def queuedAtom_def reduce_DELIVERY_QUEUED_def split: if_splits)
  next
    case False
    then obtain s where s: "statusEvent (body ev) = Some (d, s)" using assms(1) by (auto simp: concerns_def)
    then have "queuedAtom (body ev) = None" by (cases "body ev") (auto simp: queuedAtom_def)
    with spec s show ?thesis
      by (auto simp: isOk_iff deliverySpec_def moveDelivery_def split: option.splits if_splits
          intro: status_event_refines(2) [OF s, unfolded isOk_iff])
  qed
  then show "isOk (reduceSessionEvent st ev)" using assms(2,3) by (auto simp: isOk_iff reduceSessionEvent_iff)
qed

abbreviation lifecycleRun :: "DeliveryStatus \<Rightarrow> DeliveryStatus \<Rightarrow> bool" where
  "lifecycleRun \<equiv> (\<lambda>s s'. \<exists>src. lifecycle src s s')\<^sup>*\<^sup>*"

lemma run_disclosed: "lifecycleRun s s' \<Longrightarrow> isDisclosedStatus s \<Longrightarrow> isDisclosedStatus s'"
  by (induction rule: rtranclp_induct) (auto dest: lifecycle_disclosed)

lemma run_cancelled: "lifecycleRun s s' \<Longrightarrow> s = Delivery_CANCELLED \<Longrightarrow> s' = Delivery_CANCELLED"
  by (induction rule: rtranclp_induct) (auto elim: lifecycle_from_cancelledE)

lemma spec_keeps_delivery:
  assumes "deliverySpec d (Some a) ev = Inr y" and "\<not> requeues d (body ev)"
  shows "\<exists>r. y = Some (a\<lparr> atomStatus := r \<rparr>) \<and> (r = atomStatus a \<or> lifecycle (eventSource ev) (atomStatus a) r)"
proof -
  have "deliveryId b \<noteq> d" if "queuedAtom (body ev) = Some b" for b
    using assms(2) that by (cases "body ev") (auto simp: queuedAtom_def requeues_def)
  with assms(1) consider (same) "y = Some a"
    | (moved) s where "y = Some (a\<lparr> atomStatus := s \<rparr>)" "lifecycle (eventSource ev) (atomStatus a) s"
    by (auto simp: deliverySpec_def moveDelivery_def split: option.splits if_splits)
  then show ?thesis
  proof cases
    case same
    then show ?thesis by (intro exI [of _ "atomStatus a"]) simp
  qed blast
qed

lemma run_keeps_delivery:
  assumes "foldE reduceSessionEvent st evs = Inr t" and "dget (deliveries st) d = Some a"
    and "\<forall>ev \<in> set evs. \<not> requeues d (body ev)"
  shows "\<exists>s. dget (deliveries t) d = Some (a\<lparr> atomStatus := s \<rparr>) \<and> lifecycleRun (atomStatus a) s"
  using assms
proof (induction evs arbitrary: st a)
  case Nil
  then show ?case by (auto intro: exI [of _ "atomStatus a"])
next
  case (Cons ev evs)
  then obtain u where u: "reduceSessionEvent st ev = Inr u" "foldE reduceSessionEvent u evs = Inr t"
    by (auto simp: bindE_eq_Inr)
  have "\<not> requeues d (body ev)" using Cons.prems(3) by simp
  then obtain r where r: "dget (deliveries u) d = Some (a\<lparr> atomStatus := r \<rparr>)"
      "r = atomStatus a \<or> lifecycle (eventSource ev) (atomStatus a) r"
    using event_refines [OF u(1), of d] Cons.prems(2) spec_keeps_delivery by metis
  with Cons.IH [OF u(2) r(1)] Cons.prems(3) show ?case
    by (auto intro: converse_rtranclp_into_rtranclp)
qed

text \<open>
  Property C23. The reducer refines the delivery lifecycle. Over any accepted run of events, what is
  filed under a delivery id is what the one-delivery machine \<open>deliverySpec\<close> computes from the same
  events: a validated atom queued under the id replaces the atom that was there, and otherwise the atom
  changes in its status only, by steps of the lifecycle, where only the renderer takes back a delivery
  under way. Between two queueings, therefore, a delivery keeps everything but its status, a cancelled
  one stays cancelled and a shown one stays shown. Conversely the machine decides acceptance: in any
  state, the next event of the log that is about the delivery is accepted exactly if the machine has a
  step for it.
\<close>

theorem deliveries_follow_lifecycle:
  assumes "foldE reduceSessionEvent st evs = Inr t"
  shows "foldE (deliverySpec d) (dget (deliveries st) d) evs = Inr (dget (deliveries t) d)
     \<and> (\<forall>a. dget (deliveries st) d = Some a \<longrightarrow> (\<forall>ev \<in> set evs. \<not> requeues d (body ev)) \<longrightarrow>
          (\<exists>s. dget (deliveries t) d = Some (a\<lparr> atomStatus := s \<rparr>) \<and> lifecycleRun (atomStatus a) s
             \<and> (atomStatus a = Delivery_CANCELLED \<longrightarrow> s = Delivery_CANCELLED)
             \<and> (isDisclosedStatus (atomStatus a) \<longrightarrow> isDisclosedStatus s)))
     \<and> (\<forall>ev. concerns d (body ev) \<longrightarrow> eventSessionId ev = sessionId t \<longrightarrow> eventSequence ev = sequence t + 1 \<longrightarrow>
          isOk (reduceSessionEvent t ev) = isOk (deliverySpec d (dget (deliveries t) d) ev))"
proof (intro conjI allI impI)
  fix a assume "dget (deliveries st) d = Some a" "\<forall>ev \<in> set evs. \<not> requeues d (body ev)"
  from run_keeps_delivery [OF assms this]
  show "\<exists>s. dget (deliveries t) d = Some (a\<lparr> atomStatus := s \<rparr>) \<and> lifecycleRun (atomStatus a) s
      \<and> (atomStatus a = Delivery_CANCELLED \<longrightarrow> s = Delivery_CANCELLED)
      \<and> (isDisclosedStatus (atomStatus a) \<longrightarrow> isDisclosedStatus s)"
    using run_disclosed run_cancelled by blast
qed (use run_refines [OF assms] event_accepted in blast)+

text \<open>
  The delivery of the sample is started: only the renderer may cancel it then. Queued once more when
  it is complete, it starts anew.
\<close>

definition sampleCancel :: "EventSource \<Rightarrow> SessionEvent" where
  "sampleCancel src = (sampleEvent 4 (DELIVERY_CANCELLED ''d1'' ''x''))\<lparr> eventSource := src \<rparr>"

theorem deliveries_follow_lifecycle_witness:
  "(\<exists>st a t. foldE reduceSessionEvent st [sampleEvent 3 (DELIVERY_STARTED ''d1'')] = Inr t
      \<and> dget (deliveries st) ''d1'' = Some a
      \<and> dget (deliveries t) ''d1'' = Some (a\<lparr> atomStatus := Delivery_DELIVERING \<rparr>)
      \<and> (\<exists>s. dget (deliveries t) ''d1'' = Some (a\<lparr> atomStatus := s \<rparr>) \<and> lifecycleRun (atomStatus a) s)
      \<and> isOk (reduceSessionEvent t (sampleCancel Source_RENDERER))
      \<and> \<not> isOk (reduceSessionEvent t (sampleCancel Source_USER)))
   \<and> (\<exists>t. foldE reduceSessionEvent (initialSessionState ''s1'') (sampleDelivered @ [sampleEvent 6 (DELIVERY_QUEUED sampleAtom)]) = Inr t
      \<and> dget (deliveries t) ''d1'' = Some (sampleAtom\<lparr> atomStatus := Delivery_QUEUED \<rparr>)
      \<and> foldE (deliverySpec ''d1'') None (sampleDelivered @ [sampleEvent 6 (DELIVERY_QUEUED sampleAtom)])
          = Inr (dget (deliveries t) ''d1''))"
proof (intro conjI)
  have "(case replaySession ''s1'' (take 2 sampleDelivered) of Inl _ \<Rightarrow> False
      | Inr s \<Rightarrow> dget (deliveries s) ''d1'' = Some (sampleAtom\<lparr> atomStatus := Delivery_QUEUED \<rparr>)
          \<and> (case foldE reduceSessionEvent s [sampleEvent 3 (DELIVERY_STARTED ''d1'')] of Inl _ \<Rightarrow> False
             | Inr t \<Rightarrow> sequence t = 3 \<and> sessionId t = ''s1''
                 \<and> dget (deliveries t) ''d1'' = Some (sampleAtom\<lparr> atomStatus := Delivery_DELIVERING \<rparr>)))" by code_simp
  then obtain st t where st: "dget (deliveries st) ''d1'' = Some (sampleAtom\<lparr> atomStatus := Delivery_QUEUED \<rparr>)"
      "foldE reduceSessionEvent st [sampleEvent 3 (DELIVERY_STARTED ''d1'')] = Inr t" "sequence t = 3" "sessionId t = ''s1''"
      "dget (deliveries t) ''d1'' = Some (sampleAtom\<lparr> atomStatus := Delivery_DELIVERING \<rparr>)"
    by (auto split: sum.splits)
  have cancel: "isOk (reduceSessionEvent t (sampleCancel src))
      = isOk (deliverySpec ''d1'' (dget (deliveries t) ''d1'') (sampleCancel src))" for src
    using deliveries_follow_lifecycle [OF st(2), of "''d1''"] st(3,4)
    by (simp add: concerns_def sampleCancel_def sampleEvent_def)
  have "isOk (deliverySpec ''d1'' (dget (deliveries t) ''d1'') (sampleCancel src)) = (src = Source_RENDERER)" for src
    by (simp add: st(5) deliverySpec_def moveDelivery_def queuedAtom_def sampleCancel_def sampleEvent_def lifecycle_iff isOk_def)
  with cancel st deliveries_follow_lifecycle [OF st(2), of "''d1''"]
  show "\<exists>st a t. foldE reduceSessionEvent st [sampleEvent 3 (DELIVERY_STARTED ''d1'')] = Inr t
      \<and> dget (deliveries st) ''d1'' = Some a
      \<and> dget (deliveries t) ''d1'' = Some (a\<lparr> atomStatus := Delivery_DELIVERING \<rparr>)
      \<and> (\<exists>s. dget (deliveries t) ''d1'' = Some (a\<lparr> atomStatus := s \<rparr>) \<and> lifecycleRun (atomStatus a) s)
      \<and> isOk (reduceSessionEvent t (sampleCancel Source_RENDERER))
      \<and> \<not> isOk (reduceSessionEvent t (sampleCancel Source_USER))"
    by (intro exI [of _ st] exI [of _ "sampleAtom\<lparr> atomStatus := Delivery_QUEUED \<rparr>"] exI [of _ t])
       (auto simp: requeues_def sampleEvent_def)
next
  have "(case foldE reduceSessionEvent (initialSessionState ''s1'') (sampleDelivered @ [sampleEvent 6 (DELIVERY_QUEUED sampleAtom)]) of
        Inl _ \<Rightarrow> False | Inr t \<Rightarrow> dget (deliveries t) ''d1'' = Some (sampleAtom\<lparr> atomStatus := Delivery_QUEUED \<rparr>))" by code_simp
  then obtain t where t: "foldE reduceSessionEvent (initialSessionState ''s1'') (sampleDelivered @ [sampleEvent 6 (DELIVERY_QUEUED sampleAtom)]) = Inr t"
      "dget (deliveries t) ''d1'' = Some (sampleAtom\<lparr> atomStatus := Delivery_QUEUED \<rparr>)"
    by (auto split: sum.splits)
  have "dget (deliveries (initialSessionState ''s1'')) ''d1'' = None" by (simp add: initialSessionState_def)
  with t deliveries_follow_lifecycle [OF t(1), of "''d1''"]
  show "\<exists>t. foldE reduceSessionEvent (initialSessionState ''s1'') (sampleDelivered @ [sampleEvent 6 (DELIVERY_QUEUED sampleAtom)]) = Inr t
      \<and> dget (deliveries t) ''d1'' = Some (sampleAtom\<lparr> atomStatus := Delivery_QUEUED \<rparr>)
      \<and> foldE (deliverySpec ''d1'') None (sampleDelivered @ [sampleEvent 6 (DELIVERY_QUEUED sampleAtom)])
          = Inr (dget (deliveries t) ''d1'')" by auto
qed

end
