(* ===== verification/DeliverySafety.thy ===== *)
theory DeliverySafety
  imports DeliveryCoordinator WriterProperties DeliveryLedger
begin

text \<open>
  What the delivery coordinator guarantees on top of the session writer. Its handlers refine a
  contract on the status of one delivery (\<open>coordinate\<close>); the interface it needs from the writer is
  the locale \<open>transition_sink\<close>, interpreted on \<open>runCommand\<close>.
\<close>

section \<open>The contract of the operations\<close>

datatype DeliveryOp =
    Op_start | Op_reconnect | Op_exposed | Op_completed | Op_cancel string
  | Op_not_exposed string | Op_recover | Op_possibly_exposed string

fun handlerOf :: "DeliveryOp \<Rightarrow> DeliveryId \<Rightarrow> delivery_handler" where
  "handlerOf Op_start d = markStartedHandler d"
| "handlerOf Op_reconnect d = reconnectHandler d"
| "handlerOf Op_exposed d = acknowledgeExposedHandler d"
| "handlerOf Op_completed d = acknowledgeCompletedHandler d"
| "handlerOf (Op_cancel r) d = cancelHandler d r"
| "handlerOf (Op_not_exposed r) d = acknowledgeNotExposedHandler d r"
| "handlerOf Op_recover d = recoverHandler d"
| "handlerOf (Op_possibly_exposed r) d = markPossiblyExposedHandler d r"

text \<open>The status an operation leaves, \<open>None\<close> where it must refuse.\<close>

fun coordinate :: "DeliveryOp \<Rightarrow> DeliveryStatus \<Rightarrow> DeliveryStatus option" where
  "coordinate Op_start Delivery_QUEUED = Some Delivery_DELIVERING"
| "coordinate Op_start _ = None"
| "coordinate Op_reconnect Delivery_QUEUED = Some Delivery_DELIVERING"
| "coordinate Op_reconnect s = Some s"
| "coordinate Op_exposed Delivery_DELIVERING = Some Delivery_EXPOSED"
| "coordinate Op_exposed Delivery_POSSIBLY_EXPOSED = Some Delivery_EXPOSED"
| "coordinate Op_exposed Delivery_EXPOSED = Some Delivery_EXPOSED"
| "coordinate Op_exposed Delivery_COMPLETED = Some Delivery_COMPLETED"
| "coordinate Op_exposed _ = None"
| "coordinate Op_completed Delivery_EXPOSED = Some Delivery_COMPLETED"
| "coordinate Op_completed Delivery_COMPLETED = Some Delivery_COMPLETED"
| "coordinate Op_completed _ = None"
| "coordinate (Op_cancel _) Delivery_QUEUED = Some Delivery_CANCELLED"
| "coordinate (Op_cancel _) _ = None"
| "coordinate (Op_not_exposed _) Delivery_DELIVERING = Some Delivery_CANCELLED"
| "coordinate (Op_not_exposed _) Delivery_CANCELLED = Some Delivery_CANCELLED"
| "coordinate (Op_not_exposed _) _ = None"
| "coordinate Op_recover Delivery_DELIVERING = Some Delivery_POSSIBLY_EXPOSED"
| "coordinate Op_recover s = Some s"
| "coordinate (Op_possibly_exposed _) Delivery_DELIVERING = Some Delivery_POSSIBLY_EXPOSED"
| "coordinate (Op_possibly_exposed _) s = Some s"

definition starts :: "DeliveryOp \<Rightarrow> bool" where
  "starts op = (op = Op_start \<or> op = Op_reconnect)"

text \<open>Only these two check the generation, and only for a queued delivery.\<close>

definition canStart :: "SessionState \<Rightarrow> DeliveryId \<Rightarrow> bool" where
  "canStart st d =
     (\<exists>a g. dget (deliveries st) d = Some a \<and> atomStatus a = Delivery_QUEUED
        \<and> dget (generations st) (atomGenerationId a) = Some g
        \<and> gnStatus g \<noteq> Gen_SUPERSEDED \<and> gnStatus g \<noteq> Gen_REJECTED
        \<and> isGenerationBasisStillCompatible (gnBasis g) st = COMPATIBLE)"

lemma assertDeliveryCanStart_iff: "assertDeliveryCanStart st d = Inr u \<longleftrightarrow> canStart st d"
  by (auto simp: assertDeliveryCanStart_def canStart_def Let_def split: option.splits)

lemma assertDeliveryCanStart_isOk: "isOk (assertDeliveryCanStart st d) \<longleftrightarrow> canStart st d"
  by (auto simp: isOk_iff assertDeliveryCanStart_iff)

lemma canStart_queued: "canStart st d \<Longrightarrow> dget (deliveries st) d = Some a \<Longrightarrow> atomStatus a = Delivery_QUEUED"
  by (auto simp: canStart_def)

lemmas handler_defs = markStartedHandler_def reconnectHandler_def acknowledgeExposedHandler_def
  acknowledgeCompletedHandler_def cancelHandler_def acknowledgeNotExposedHandler_def
  recoverHandler_def markPossiblyExposedHandler_def

text \<open>The event a coordinator's draft may hold, and the status it leads to.\<close>

fun leadsTo :: "DeliveryId \<Rightarrow> EventSource \<Rightarrow> EventBody \<Rightarrow> DeliveryStatus \<Rightarrow> bool" where
  "leadsTo d so (DELIVERY_STARTED d') s = (d' = d \<and> s = Delivery_DELIVERING)"
| "leadsTo d so (DELIVERY_EXPOSED d') s = (d' = d \<and> s = Delivery_EXPOSED)"
| "leadsTo d so (DELIVERY_COMPLETED d') s = (d' = d \<and> s = Delivery_COMPLETED)"
| "leadsTo d so (DELIVERY_CANCELLED d' r) s = (d' = d \<and> s = Delivery_CANCELLED)"
| "leadsTo d so (DELIVERY_POSSIBLY_EXPOSED d' r) s = (d' = d \<and> s = Delivery_POSSIBLY_EXPOSED)"
| "leadsTo d so _ s = False"

text \<open>What a handler proposes: nothing, or one event that the lifecycle of its delivery allows.\<close>

lemma handler_proposal:
  assumes "handlerOf op d st = Inr (drafts, v)"
  shows "drafts = [] \<and> (\<forall>a. dget (deliveries st) d = Some a \<longrightarrow>
           coordinate op (atomStatus a) = Some (atomStatus a))
     \<or> (\<exists>dr a s. drafts = [dr] \<and> dget (deliveries st) d = Some a
         \<and> coordinate op (atomStatus a) = Some s \<and> lifecycle (draftSource dr) (atomStatus a) s
         \<and> leadsTo d (draftSource dr) (draftBody dr) s
         \<and> (s = Delivery_DELIVERING \<longrightarrow> canStart st d))"
proof (cases "dget (deliveries st) d")
  case None
  with assms show ?thesis
    by (cases op) (auto simp: handler_defs bindE_eq_Inr split: option.splits)
next
  case (Some a)
  with assms show ?thesis
    by (cases op; cases "atomStatus a")
       (auto simp: handler_defs bindE_eq_Inr assertDeliveryCanStart_iff deliveryDraft_def Let_def
          lifecycle_iff split: option.splits if_splits dest: canStart_queued)
qed

text \<open>The handler answers exactly where the contract does, and where a start is allowed.\<close>

lemma handler_answers:
  assumes "dget (deliveries st) d = Some a"
  shows "isOk (handlerOf op d st) \<longleftrightarrow>
     coordinate op (atomStatus a) \<noteq> None
     \<and> (starts op \<and> atomStatus a = Delivery_QUEUED \<longrightarrow> canStart st d)"
proof -
  have "assertDeliveryCanStart st d = Inr () \<or> (\<exists>e. assertDeliveryCanStart st d = Inl e)"
    by (cases "assertDeliveryCanStart st d") auto
  then show ?thesis using assms assertDeliveryCanStart_iff [of st d "()"]
    by (cases op; cases "atomStatus a") (auto simp: handler_defs Let_def starts_def dest: canStart_queued)
qed

text \<open>The effect of one such event on the state.\<close>

lemma leadsTo_reduce:
  assumes "dget (deliveries st) d = Some a" and "lifecycle so (atomStatus a) s" and "leadsTo d so b s"
  shows "reduceBody st ei sq so b = Inr (st\<lparr>
     deliveries := dput d (a\<lparr> atomStatus := s \<rparr>) (deliveries st),
     disclosureLedger := (if isDisclosedStatus s
        then uniq (disclosureLedger st @ disclosureIds a) else disclosureLedger st) \<rparr>)"
proof -
  have "withDeliveryStatus st d s = Inr (st\<lparr>
     deliveries := dput d (a\<lparr> atomStatus := s \<rparr>) (deliveries st),
     disclosureLedger := (if isDisclosedStatus s
        then uniq (disclosureLedger st @ disclosureIds a) else disclosureLedger st) \<rparr>)"
    if "s \<in> set (allowedTransitions (atomStatus a))"
    using that assms(1) by (auto simp: withDeliveryStatus_iff)
  with assms show ?thesis
    by (cases b) (auto simp: lifecycle_allowed reduce_DELIVERY_CANCELLED_def)
qed

lemma leadsTo_normalized: "leadsTo d so b s \<Longrightarrow> normalizeBody b = b"
  by (cases b) (simp_all add: normalizeBody_def)

section \<open>The drafts are accepted\<close>

text \<open>
  The result an operation must report for an atom \<open>a\<close> that it leaves with status \<open>s\<close>: the content to
  show, the status after a reconnection, and for an uncertain exposure whether it was recorded now.
\<close>

fun resultFits :: "DeliveryOp \<Rightarrow> DeliveryId \<Rightarrow> DeliveryAtom \<Rightarrow> DeliveryStatus \<Rightarrow> DeliveryResult \<Rightarrow> bool" where
  "resultFits Op_start d a s v = (v = Command_result \<lparr> cmdDeliveryId = d, cmdContent = atomContent a \<rparr>)"
| "resultFits Op_reconnect d a s v = (v = Reconnect_result d s
     (if s = Delivery_DELIVERING then Some \<lparr> cmdDeliveryId = d, cmdContent = atomContent a \<rparr> else None))"
| "resultFits Op_exposed d a s v = (v = Boolean_result True)"
| "resultFits Op_completed d a s v = (v = Boolean_result True)"
| "resultFits (Op_cancel _) d a s v = (v = Cancelled_result)"
| "resultFits (Op_not_exposed _) d a s v = (v = Boolean_result True)"
| "resultFits Op_recover d a s v = (v = Recovered_result)"
| "resultFits (Op_possibly_exposed _) d a s v = (v = Boolean_result (s \<noteq> atomStatus a))"

lemma handler_result:
  assumes "handlerOf op d st = Inr (drafts, v)" and "dget (deliveries st) d = Some a"
    and "coordinate op (atomStatus a) = Some s"
  shows "resultFits op d a s v"
  using assms
  by (cases op; cases "atomStatus a")
     (auto simp: handler_defs bindE_eq_Inr Let_def split: option.splits if_splits)

lemma proposal_event:
  assumes "dget (deliveries st) d = Some a" and "lifecycle (draftSource dr) (atomStatus a) s"
    and "leadsTo d (draftSource dr) (draftBody dr) s" and "fits ev dr"
    and "eventSessionId ev = sessionId st" and "eventSequence ev = sequence st + 1"
  shows "reduceSessionEvent st ev = Inr (st\<lparr>
     deliveries := dput d (a\<lparr> atomStatus := s \<rparr>) (deliveries st),
     disclosureLedger := (if isDisclosedStatus s
        then uniq (disclosureLedger st @ disclosureIds a) else disclosureLedger st),
     sequence := eventSequence ev, eventIds := eventIds st @ [eventId ev] \<rparr>)"
  using assms leadsTo_reduce [OF assms(1-3), of "eventId ev" "eventSequence ev"]
  by (simp add: reduceSessionEvent_iff fits_def leadsTo_normalized)

text \<open>
  Property C14. The coordinator never proposes what the reducer refuses: whenever one of its handlers
  answers on a known delivery, the events made of its drafts reduce, they move the delivery exactly
  as the contract of the operation says, put its disclosures in the ledger when it is or may be
  shown, touch no other delivery, and the result of every operation is the one its contract asks for:
  the content to show for a start, status and content for a reconnection, the acknowledgement the
  schema of the operation accepts, and for an uncertain exposure whether it was recorded by this call.
\<close>

theorem coordinator_drafts_accepted:
  assumes "handlerOf op d st = Inr (drafts, v)" and "dget (deliveries st) d = Some a"
    and "list_all2 fits evs drafts" and "numberedFrom (sequence st) (sessionId st) evs"
  shows "\<exists>t s. foldE reduceSessionEvent st evs = Inr t \<and> coordinate op (atomStatus a) = Some s
     \<and> dget (deliveries t) d = Some (a\<lparr> atomStatus := s \<rparr>)
     \<and> (\<forall>x. x \<noteq> d \<longrightarrow> dget (deliveries t) x = dget (deliveries st) x)
     \<and> set (disclosureLedger t) = set (disclosureLedger st)
          \<union> (if s \<noteq> atomStatus a \<and> isDisclosedStatus s then set (disclosureIds a) else {})
     \<and> resultFits op d a s v"
proof -
  from handler_proposal [OF assms(1)] consider
      (none) "drafts = []" "coordinate op (atomStatus a) = Some (atomStatus a)"
    | (one) dr s where "drafts = [dr]" "coordinate op (atomStatus a) = Some s"
        "lifecycle (draftSource dr) (atomStatus a) s" "leadsTo d (draftSource dr) (draftBody dr) s"
    using assms(2) by fastforce
  then show ?thesis
  proof cases
    case none
    with assms(3) handler_result [OF assms(1,2) none(2)] assms(2) show ?thesis by simp
  next
    case (one dr s)
    then obtain ev where ev: "evs = [ev]" "fits ev dr"
      using assms(3) by (auto simp: list_all2_Cons2)
    then have "eventSessionId ev = sessionId st" "eventSequence ev = sequence st + 1"
      using assms(4) by (auto simp: numberedFrom_def)
    note event = proposal_event [OF assms(2) one(3,4) ev(2) this]
    have "s \<noteq> atomStatus a" using one(3) by (cases rule: lifecycle.cases) auto
    with event ev(1) one(2) handler_result [OF assms(1,2) one(2)] show ?thesis
      by (auto simp: dget_dput)
  qed
qed

section \<open>The interface to the session writer\<close>

text \<open>
  What the coordinator relies on: running a command either leaves the state alone or applies to it
  events that stand for the drafts the handler made from that very state.
\<close>

locale transition_sink =
  fixes getState :: "'w \<Rightarrow> SessionState"
    and run :: "'c \<Rightarrow> delivery_handler \<Rightarrow> 'w \<Rightarrow> 'w"
  assumes run_step: "getState (run c h w) = getState w
     \<or> (\<exists>drafts v evs. h (getState w) = Inr (drafts, v) \<and> list_all2 fits evs drafts
          \<and> foldE reduceSessionEvent (getState w) evs = Inr (getState (run c h w)))"
begin

lemma run_delivery:
  assumes "run c (handlerOf op d) w = w'"
  shows "deliveries (getState w') = deliveries (getState w)
     \<or> (\<exists>a s. dget (deliveries (getState w)) d = Some a \<and> coordinate op (atomStatus a) = Some s
          \<and> deliveries (getState w') = dput d (a\<lparr> atomStatus := s \<rparr>) (deliveries (getState w))
          \<and> (s = Delivery_DELIVERING \<longrightarrow> canStart (getState w) d))"
  using run_step [of c "handlerOf op d" w]
proof (elim disjE exE conjE)
  fix drafts v evs
  assume h: "handlerOf op d (getState w) = Inr (drafts, v)" and evs: "list_all2 fits evs drafts"
    and red: "foldE reduceSessionEvent (getState w) evs = Inr (getState (run c (handlerOf op d) w))"
  from handler_proposal [OF h] show ?thesis
  proof (elim disjE exE conjE)
    assume "drafts = []"
    with evs red assms show ?thesis by simp
  next
    fix dr a s
    assume one: "drafts = [dr]" "dget (deliveries (getState w)) d = Some a"
      "coordinate op (atomStatus a) = Some s" "lifecycle (draftSource dr) (atomStatus a) s"
      "leadsTo d (draftSource dr) (draftBody dr) s" "s = Delivery_DELIVERING \<longrightarrow> canStart (getState w) d"
    then obtain ev where ev: "evs = [ev]" "fits ev dr"
      using evs by (auto simp: list_all2_Cons2)
    have red1: "reduceSessionEvent (getState w) ev = Inr (getState w')"
      using red assms ev(1) by (simp add: bindE_eq_Inr)
    then have "eventSessionId ev = sessionId (getState w)"
      "eventSequence ev = sequence (getState w) + 1"
      by (auto simp: reduceSessionEvent_iff)
    from proposal_event [OF one(2,4,5) ev(2) this] red1
    have "deliveries (getState w') = dput d (a\<lparr> atomStatus := s \<rparr>) (deliveries (getState w))" by auto
    with one show ?thesis by blast
  qed
qed (use assms in simp)

lemma run_starts:
  assumes "run c (handlerOf op d) w = w'"
    and "dget (deliveries (getState w')) x = Some a'" and "atomStatus a' = Delivery_DELIVERING"
    and "dget (deliveries (getState w)) x \<noteq> Some a'"
  shows "x = d \<and> canStart (getState w) d"
  using run_delivery [OF assms(1)] assms(2-4)
  by (auto simp: dget_dput split: if_splits)

end

lemma execute_step:
  assumes "execute dt db w env identity schema handler ck = (res, db', w')"
  shows "wState w' = wState w
     \<or> (\<exists>drafts v evs. handler (wState w) = Inr (drafts, v) \<and> list_all2 fits evs drafts
          \<and> foldE reduceSessionEvent (wState w) evs = Inr (wState w'))"
  using assms
proof (cases rule: execute_cases)
  case (applied input persisted)
  from applied(4) have "appendBody dt input (storeFresh ck) db = Inr (persisted, db')"
    by (simp add: appendIdempotent_Inr)
  then have "arEvents persisted = [] \<or> list_all2 fits (arEvents persisted) (aiDrafts input)"
    by (cases rule: appendBody_cases) (auto dest: buildEvents_fits)
  with applied(5,6) show ?thesis by auto
qed auto

text \<open>A command of the coordinator: its envelope, ticket and result schema.\<close>

interpretation delivery_writer: transition_sink "\<lambda>world. wState (snd world)"
  "\<lambda>(env, tk, schema) h world. snd (runCommand dt env tk schema h world)" for dt
  by unfold_locales
     (auto simp: runCommand_def split: prod.splits dest!: execute_step)

section \<open>Starting a delivery\<close>

text \<open>The effect on the world of each operation, with the envelope the caller may give.\<close>

fun perform :: "(string \<Rightarrow> bool) \<Rightarrow> Ticket \<Rightarrow> DeliveryId \<Rightarrow> CommandEnvelope option \<Rightarrow> DeliveryOp
    \<Rightarrow> World \<Rightarrow> World" where
  "perform dt tk d env Op_start world = snd (markStarted dt tk d world)"
| "perform dt tk d env Op_reconnect world =
     snd (reconnect dt tk d (givenOr env (ownEnvelope world ''renderer'' tk)) world)"
| "perform dt tk d env Op_exposed world = snd (acknowledgeExposed dt tk d env world)"
| "perform dt tk d env Op_completed world = snd (acknowledgeCompleted dt tk d env world)"
| "perform dt tk d env (Op_cancel reason) world = snd (cancelBeforeExposure dt tk d reason world)"
| "perform dt tk d env (Op_not_exposed reason) world =
     snd (acknowledgeNotExposed dt tk d reason env world)"
| "perform dt tk d env Op_recover world = snd (recoverAll dt (\<lambda>_. tk) 0 [d] world)"
| "perform dt tk d env (Op_possibly_exposed reason) world =
     snd (markPossiblyExposed dt tk d reason world)"

lemmas operation_defs = markStarted_def reconnect_def acknowledgeExposed_def acknowledgeCompleted_def
  cancelBeforeExposure_def acknowledgeNotExposed_def markPossiblyExposed_def runParsed_def

lemma perform_runs:
  "perform dt tk d env op world = world
     \<or> (\<exists>env' tk' schema op'. perform dt tk d env op world
          = snd (runCommand dt env' tk' schema (handlerOf op' d) world))"
  by (cases op)
     (auto simp: operation_defs handlerOf.simps [symmetric] simp del: handlerOf.simps
        split: prod.splits sum.splits; metis snd_conv)+

text \<open>
  Property C13. Nothing is shown on a stale basis: whichever operation of the coordinator runs,
  whatever the database holds and whether the command succeeds or not, if a delivery becomes
  \<open>DELIVERING\<close> then it is the delivery of the operation, it was queued, and its generation was
  neither superseded nor rejected and its basis compatible with the session.
\<close>

theorem delivery_starts_are_current:
  assumes "perform dt tk d env op world = world'"
    and "dget (deliveries (wState (snd world'))) x = Some a'" and "atomStatus a' = Delivery_DELIVERING"
    and "dget (deliveries (wState (snd world))) x \<noteq> Some a'"
  shows "x = d \<and> (\<exists>a g. dget (deliveries (wState (snd world))) d = Some a
     \<and> atomStatus a = Delivery_QUEUED
     \<and> dget (generations (wState (snd world))) (atomGenerationId a) = Some g
     \<and> gnStatus g \<noteq> Gen_SUPERSEDED \<and> gnStatus g \<noteq> Gen_REJECTED
     \<and> isGenerationBasisStillCompatible (gnBasis g) (wState (snd world)) = COMPATIBLE)"
  using perform_runs [of dt tk d env op world] assms(1,2,4)
proof (elim disjE exE)
  fix env' tk' schema op'
  assume "perform dt tk d env op world = snd (runCommand dt env' tk' schema (handlerOf op' d) world)"
  with assms(1) have "(case (env', tk', schema) of (env, tk, schema) \<Rightarrow>
      \<lambda>h world. snd (runCommand dt env tk schema h world)) (handlerOf op' d) world = world'" by simp
  from delivery_writer.run_starts [OF this assms(2-4)] show ?thesis by (simp add: canStart_def)
qed simp

section \<open>A session with a queued hint\<close>

definition sampleGeneration :: "EventBody list" where
  "sampleGeneration = [SESSION_STARTED ''Oxford'' None None, INPUT_EPISODE_STARTED ''i1'',
     TURN_COMMITTED ''t1'' ''i1'' ''x is even'', MODEL_GENERATION_STARTED ''g1'' sampleBasis ''mock'',
     DELIVERY_QUEUED sampleAtom]"

definition sampleStored :: "DeliveryResult Database" where
  "sampleStored = \<lparr> sessionEvents = map eventRow (sampleLog 1 sampleGeneration),
     processedRequests = [] \<rparr>"

definition openSample :: "DeliveryResult Database \<Rightarrow> World" where
  "openSample db = (db, case (openWriter (\<lambda>_. True) [] db ''s1'' :: (unit WriterError, SessionWriter) result)
     of Inl _ \<Rightarrow> sampleWriter | Inr w \<Rightarrow> w)"

definition sampleTicket :: "nat \<Rightarrow> Ticket" where
  "sampleTicket k = \<lparr> tkRequestId = ''r'' @ [char_of (48 + k)],
     tkIdentity = Some (replicate 64 CHR ''a''),
     tkClock = \<lparr> sinceOpened = k, previewIds = (\<lambda>_. ''p''), previewWall = ''now'',
       storeFresh = (\<lambda>_. (''z'' @ [char_of (48 + k)], ''now'')) \<rparr> \<rparr>"

definition sampleStarted :: World where
  "sampleStarted = perform (\<lambda>_. True) (sampleTicket 0) ''d1'' None Op_start (openSample sampleStored)"

lemma sample_started:
  "map_option atomStatus (dget (deliveries (wState (snd (openSample sampleStored)))) ''d1'')
     = Some Delivery_QUEUED
   \<and> map_option atomStatus (dget (deliveries (wState (snd sampleStarted))) ''d1'')
     = Some Delivery_DELIVERING"
  by code_simp

theorem delivery_starts_are_current_witness:
  "\<exists>g. dget (generations (wState (snd (openSample sampleStored)))) ''g1'' = Some g
     \<and> isGenerationBasisStillCompatible (gnBasis g) (wState (snd (openSample sampleStored))) = COMPATIBLE"
proof -
  obtain a a' where a: "dget (deliveries (wState (snd (openSample sampleStored)))) ''d1'' = Some a"
    "atomStatus a = Delivery_QUEUED"
    "dget (deliveries (wState (snd sampleStarted))) ''d1'' = Some a'" "atomStatus a' = Delivery_DELIVERING"
    using sample_started by auto
  have g: "map_option atomGenerationId (dget (deliveries (wState (snd (openSample sampleStored)))) ''d1'')
      = Some ''g1''" by code_simp
  from a have "a \<noteq> a'" by auto
  with delivery_starts_are_current [OF _ a(3,4), of "\<lambda>_. True" "sampleTicket 0" "''d1''" None Op_start
      "openSample sampleStored"] a g
  show ?thesis by (auto simp: sampleStarted_def)
qed

theorem coordinator_drafts_accepted_witness:
  "\<exists>t. foldE reduceSessionEvent (wState (snd (openSample sampleStored)))
      [sampleEvent 6 (DELIVERY_CANCELLED ''d1'' ''late'') \<lparr> eventSource := Source_APPLICATION \<rparr>] = Inr t
     \<and> map_option atomStatus (dget (deliveries t) ''d1'') = Some Delivery_CANCELLED"
proof -
  let ?st = "wState (snd (openSample sampleStored))"
  obtain a where a: "dget (deliveries ?st) ''d1'' = Some a" "atomStatus a = Delivery_QUEUED"
    using sample_started by auto
  have h: "handlerOf (Op_cancel ''late'') ''d1'' ?st = Inr ([deliveryDraft Source_APPLICATION
      (DELIVERY_CANCELLED ''d1'' ''late'')], Cancelled_result)"
    using a by (simp add: cancelHandler_def)
  have n: "sequence ?st = 5 \<and> sessionId ?st = ''s1''" by code_simp
  from coordinator_drafts_accepted [OF h a(1), of
      "[sampleEvent 6 (DELIVERY_CANCELLED ''d1'' ''late'') \<lparr> eventSource := Source_APPLICATION \<rparr>]"] n a(2)
  show ?thesis
    by (auto simp: fits_def deliveryDraft_def sampleEvent_def normalizeBody_def numberedFrom_def)
qed

end
