(* ===== verification/DeliveryRecovery.thy ===== *)
theory DeliveryRecovery
  imports DeliverySafety
begin

text \<open>
  Recovery after a crash terminates with a truthful ledger: a delivery that was under way when the
  process died is recorded as possibly exposed and its disclosures are charged. The theorem is about
  total correctness: given usable request and event ids, every command of the loop succeeds.
\<close>

section \<open>A command that appends one event\<close>

text \<open>What the random ids, the clock and the fingerprint of a command have to be for it to be new.\<close>

definition usable :: "(string \<Rightarrow> bool) \<Rightarrow> 'r Database \<Rightarrow> SessionWriter \<Rightarrow> Ticket \<Rightarrow> bool" where
  "usable dt db w tk =
     (idSchema (tkRequestId tk)
      \<and> (case tkIdentity tk of None \<Rightarrow> False | Some f \<Rightarrow> isSha256Hex f)
      \<and> findProcessed db (wSessionId w) (tkRequestId tk) = None
      \<and> idSchema (previewIds (tkClock tk) 0) \<and> dt (previewWall (tkClock tk))
      \<and> idSchema (fst (storeFresh (tkClock tk) 0)) \<and> dt (snd (storeFresh (tkClock tk) 0))
      \<and> isSafeNat (wElapsedOffset w + sinceOpened (tkClock tk))
      \<and> list_all (\<lambda>row. rowEventId row \<noteq> fst (storeFresh (tkClock tk) 0)) (sessionEvents db))"

text \<open>The writer has replayed the whole log and accepts commands.\<close>

definition ready ::
  "(string \<Rightarrow> bool) \<Rightarrow> Registry \<Rightarrow> 'r Database \<Rightarrow> SessionWriter \<Rightarrow> (SessionId \<Rightarrow> SessionEvent list) \<Rightarrow> bool" where
  "ready dt reg db w L =
     (represents dt reg db L \<and> replaySession (wSessionId w) (L (wSessionId w)) = Inr (wState w)
      \<and> acceptingCommands w \<and> \<not> fullyClosed w \<and> \<not> isLegacyQuantState (wState w))"

lemma ready_sequence: "ready dt reg db w L \<Longrightarrow> latestSequence db (wSessionId w) = int (sequence (wState w))
     \<and> sequence (wState w) = length (L (wSessionId w)) \<and> sessionId (wState w) = wSessionId w"
  using represents_latest [of dt reg db L "wSessionId w"]
  by (auto simp: ready_def dest: replay_log_fields)

lemma rows_bounded:
  assumes "represents dt reg db L" and "row \<in> set (sessionEvents db)" and "rowSessionId row = sid"
  shows "rowSequence row \<noteq> 1 + int (length (L sid))"
proof -
  have rows: "list_all2 (rowOf dt reg) (rowsOf db sid) (L sid)" and num: "numberedFrom 0 sid (L sid)"
    using assms(1) by (auto simp: represents_def)
  have "row \<in> set (rowsOf db sid)" using assms(2,3) by (simp add: rowsOf_def)
  then obtain k where k: "k < length (rowsOf db sid)" "rowsOf db sid ! k = row"
    by (auto simp: in_set_conv_nth)
  with rows have "rowSequence row = int (eventSequence (L sid ! k))" "k < length (L sid)"
    by (auto simp: list_all2_conv_all_nth rowOf_def)
  with num show ?thesis by (simp add: numberedFrom_def)
qed

lemma draftEvent_delivery:
  assumes "idSchema eid" and "idSchema sid" and "PositiveSafeInteger sq" and "dt wall"
    and "isSafeNat el" and "idSchema c" and "idSchema r" and "payloadSchema dt (draftBody d)"
    and "normalizeBody (draftBody d) = draftBody d"
  shows "draftEvent dt sid c r eid wall el sq d =
    Some \<lparr> eventId = eid, eventSessionId = sid, eventSequence = sq, eventSource = draftSource d,
      wallTime = wall, elapsedMs = el, causationId = c, correlationId = r, body = draftBody d \<rparr>"
  using assms by (simp add: draftEvent_def parseEvent_def Let_def SessionEventSchema_def)

definition recoveryEvent :: "SessionWriter \<Rightarrow> Ticket \<Rightarrow> EventId \<Rightarrow> string \<Rightarrow> DeliveryId \<Rightarrow> SessionEvent" where
  "recoveryEvent w tk eid wall d =
     \<lparr> eventId = eid, eventSessionId = wSessionId w, eventSequence = sequence (wState w) + 1,
       eventSource = Source_RECOVERY, wallTime = wall,
       elapsedMs = wElapsedOffset w + sinceOpened (tkClock tk), causationId = tkRequestId tk,
       correlationId = tkRequestId tk, body = DELIVERY_POSSIBLY_EXPOSED d recoveryReason \<rparr>"

text \<open>The state after the recovery of one delivery.\<close>

definition recovered :: "SessionState \<Rightarrow> DeliveryId \<Rightarrow> DeliveryAtom \<Rightarrow> EventId \<Rightarrow> SessionState" where
  "recovered st d a eid = st\<lparr>
     deliveries := dput d (a\<lparr> atomStatus := Delivery_POSSIBLY_EXPOSED \<rparr>) (deliveries st),
     disclosureLedger := uniq (disclosureLedger st @ disclosureIds a),
     sequence := sequence st + 1, eventIds := eventIds st @ [eid] \<rparr>"

lemma recovery_event:
  assumes "dget (deliveries (wState w)) d = Some a" and "atomStatus a = Delivery_DELIVERING"
    and "sessionId (wState w) = wSessionId w"
  shows "reduceSessionEvent (wState w) (recoveryEvent w tk eid wall d)
     = Inr (recovered (wState w) d a eid)"
  using assms proposal_event [OF assms(1), of
      "\<lparr> draftSource = Source_RECOVERY, draftBody = DELIVERY_POSSIBLY_EXPOSED d recoveryReason \<rparr>"
      Delivery_POSSIBLY_EXPOSED "recoveryEvent w tk eid wall d"]
  by (simp add: recoveryEvent_def recovered_def fits_def normalizeBody_def lifecycle_iff)

lemma recovery_draft:
  assumes "idSchema eid" and "idSchema (wSessionId w)" and "sequence (wState w) < nat MAX_SAFE_INTEGER"
    and "dt wall" and "isSafeNat (wElapsedOffset w + sinceOpened (tkClock tk))"
    and "idSchema (tkRequestId tk)" and "idSchema d"
  shows "draftEvent dt (wSessionId w) (tkRequestId tk) (tkRequestId tk) eid wall
      (wElapsedOffset w + sinceOpened (tkClock tk)) (Suc (sequence (wState w)))
      \<lparr> draftSource = Source_RECOVERY, draftBody = DELIVERY_POSSIBLY_EXPOSED d recoveryReason \<rparr>
     = Some (recoveryEvent w tk eid wall d)"
  using assms
  by (subst draftEvent_delivery)
     (simp_all add: recoveryEvent_def normalizeBody_def PositiveSafeInteger_def recoveryReason_def
        nonempty_def MAX_SAFE_INTEGER_def isSafeInteger_def isSafeNat_def)

section \<open>One round of the loop\<close>

definition recoveryInput :: "SessionWriter \<Rightarrow> Ticket \<Rightarrow> string \<Rightarrow> DeliveryId \<Rightarrow> DeliveryResult AppendInput" where
  "recoveryInput w tk fp d = \<lparr> aiSessionId = wSessionId w, aiRequestId = tkRequestId tk,
     aiCausationId = tkRequestId tk, aiCorrelationId = tkRequestId tk,
     aiElapsedMs = wElapsedOffset w + sinceOpened (tkClock tk),
     aiExpectedPriorSequence = int (sequence (wState w)), aiCommandFingerprint = fp,
     aiDrafts = [deliveryDraft Source_RECOVERY (DELIVERY_POSSIBLY_EXPOSED d recoveryReason)],
     aiResult = Recovered_result \<rparr>"

definition storedRecovery :: "SessionWriter \<Rightarrow> Ticket \<Rightarrow> DeliveryId \<Rightarrow> SessionEvent" where
  "storedRecovery w tk d = recoveryEvent w tk
     (fst (storeFresh (tkClock tk) 0)) (snd (storeFresh (tkClock tk) 0)) d"

text \<open>The database after the command.\<close>

definition recoveredDatabase ::
  "DeliveryResult Database \<Rightarrow> SessionWriter \<Rightarrow> Ticket \<Rightarrow> string \<Rightarrow> DeliveryId \<Rightarrow> DeliveryResult Database" where
  "recoveredDatabase db w tk fp d = db\<lparr>
     sessionEvents := sessionEvents db @ [eventRow (storedRecovery w tk d)],
     processedRequests := processedRequests db @ [\<lparr> prSessionId = wSessionId w,
        prRequestId = tkRequestId tk, prFingerprint = Some fp, prResult = Recovered_result \<rparr>] \<rparr>"

text \<open>What one round needs.\<close>

definition recoverable ::
  "(string \<Rightarrow> bool) \<Rightarrow> Registry \<Rightarrow> DeliveryResult Database \<Rightarrow> SessionWriter
     \<Rightarrow> (SessionId \<Rightarrow> SessionEvent list) \<Rightarrow> Ticket \<Rightarrow> string \<Rightarrow> DeliveryId \<Rightarrow> DeliveryAtom \<Rightarrow> bool" where
  "recoverable dt reg db w L tk fp d a =
     (ready dt reg db w L \<and> usable dt db w tk \<and> tkIdentity tk = Some fp \<and> idSchema (wSessionId w)
      \<and> idSchema d \<and> sequence (wState w) < nat MAX_SAFE_INTEGER
      \<and> dget (deliveries (wState w)) d = Some a \<and> atomStatus a = Delivery_DELIVERING)"

lemma recoverable_writer:
  assumes "recoverable dt reg db w L tk fp d a"
  shows "checkWriter db (wSessionId w) (int (sequence (wState w))) = Inr (int (sequence (wState w)))"
  using assms ready_sequence [of dt reg db w L]
  by (auto simp: recoverable_def checkWriter_Inr isSafeInteger_def MAX_SAFE_INTEGER_def)

lemma recovery_prepared:
  assumes "recoverable dt reg db w L tk fp d a"
  shows "prepareCommand dt db w (createDeliveryEnvelope (wSessionId w) producer (tkRequestId tk)) fp
     RecoveredResultSchema (recoverHandler d) (tkClock tk) = Inr (Inr (recoveryInput w tk fp d))"
proof -
  from assms have sess: "sessionId (wState w) = wSessionId w"
    by (auto simp: recoverable_def dest: ready_sequence)
  have draft: "draftEvent dt (wSessionId w) (tkRequestId tk) (tkRequestId tk) (previewIds (tkClock tk) 0)
      (previewWall (tkClock tk)) (wElapsedOffset w + sinceOpened (tkClock tk)) (Suc (sequence (wState w)))
      \<lparr> draftSource = Source_RECOVERY, draftBody = DELIVERY_POSSIBLY_EXPOSED d recoveryReason \<rparr>
     = Some (recoveryEvent w tk (previewIds (tkClock tk) 0) (previewWall (tkClock tk)) d)"
    by (rule recovery_draft) (use assms in \<open>auto simp: recoverable_def usable_def\<close>)
  have prior: "getProcessedResultForWriter db (wSessionId w) (tkRequestId tk) (int (sequence (wState w)))
      = Inr None"
    using recoverable_writer [OF assms] assms
    by (simp add: getProcessedResultForWriter_def getProcessedResult_def recoverable_def usable_def)
  have event: "reduceSessionEvent (wState w) (recoveryEvent w tk (previewIds (tkClock tk) 0)
      (previewWall (tkClock tk)) d) = Inr (recovered (wState w) d a (previewIds (tkClock tk) 0))"
    by (rule recovery_event) (use assms sess in \<open>auto simp: recoverable_def\<close>)
  have "recoverHandler d (wState w) = Inr ([deliveryDraft Source_RECOVERY
      (DELIVERY_POSSIBLY_EXPOSED d recoveryReason)], Recovered_result)"
    using assms by (simp add: recoverable_def recoverHandler_def)
  moreover have "\<not> isLegacyQuantState (wState w)" using assms by (simp add: recoverable_def ready_def)
  ultimately show ?thesis using prior draft event
    by (simp add: prepareCommand_def createDeliveryEnvelope_def storeE_def reduceE_def parseResult_def
        RecoveredResultSchema_def validateDraftTransition_def startsWithoutConfiguration_def
        deliveryDraft_def recoveryInput_def Let_def)
qed

lemma recovery_appended:
  assumes "recoverable dt reg db w L tk fp d a"
  shows "appendIdempotent dt (recoveryInput w tk fp d) (storeFresh (tkClock tk)) db =
     (Inr \<lparr> arDuplicate = False, arEvents = [storedRecovery w tk d], arResult = Recovered_result \<rparr>,
      recoveredDatabase db w tk fp d)"
proof -
  have draft: "draftEvent dt (wSessionId w) (tkRequestId tk) (tkRequestId tk)
      (fst (storeFresh (tkClock tk) 0)) (snd (storeFresh (tkClock tk) 0))
      (wElapsedOffset w + sinceOpened (tkClock tk)) (Suc (sequence (wState w)))
      \<lparr> draftSource = Source_RECOVERY, draftBody = DELIVERY_POSSIBLY_EXPOSED d recoveryReason \<rparr>
     = Some (storedRecovery w tk d)"
    unfolding storedRecovery_def
    by (rule recovery_draft) (use assms in \<open>auto simp: recoverable_def usable_def\<close>)
  have none: "findProcessed db (wSessionId w) (tkRequestId tk) = None"
    using assms by (simp add: recoverable_def usable_def)
  have seq: "sequence (wState w) = length (L (wSessionId w))" and rep: "represents dt reg db L"
    using assms ready_sequence [of dt reg db w L] by (auto simp: recoverable_def ready_def)
  have "\<not> list_ex (\<lambda>r. rowSessionId r = wSessionId w \<and> rowSequence r = int (Suc (sequence (wState w)))
      \<or> rowEventId r = fst (storeFresh (tkClock tk) 0)) (sessionEvents db)"
    using assms rows_bounded [OF rep, of _ "wSessionId w"]
    by (auto simp: recoverable_def usable_def list_ex_iff list_all_iff seq)
  then have "insertEvent db (storedRecovery w tk d)
      = Inr (db\<lparr> sessionEvents := sessionEvents db @ [eventRow (storedRecovery w tk d)] \<rparr>)"
    by (simp add: insertEvent_def Let_def eventRow_def storedRecovery_def recoveryEvent_def)
  moreover have "isSha256Hex fp" using assms by (auto simp: recoverable_def usable_def)
  ultimately show ?thesis using recoverable_writer [OF assms] draft none
    by (simp add: appendIdempotent_def transaction_def appendBody_def recoveryInput_def
        deliveryDraft_def insertProcessed_def findProcessed_def recoveredDatabase_def)
qed

lemma recovery_command:
  assumes "recoverable dt reg db w L tk fp d a"
  shows "runCommand dt (ownEnvelope (db, w) producer tk) tk RecoveredResultSchema (recoverHandler d) (db, w)
     = (Inr Recovered_result, (recoveredDatabase db w tk fp d,
          w\<lparr> wState := recovered (wState w) d a (fst (storeFresh (tkClock tk) 0)) \<rparr>))"
proof -
  from assms have sess: "sessionId (wState w) = wSessionId w"
    by (auto simp: recoverable_def dest: ready_sequence)
  have "reduceSessionEvent (wState w) (storedRecovery w tk d)
      = Inr (recovered (wState w) d a (fst (storeFresh (tkClock tk) 0)))"
    unfolding storedRecovery_def
    by (rule recovery_event) (use assms sess in \<open>auto simp: recoverable_def\<close>)
  moreover have "acceptingCommands w" "\<not> fullyClosed w" "tkIdentity tk = Some fp"
    using assms by (auto simp: recoverable_def ready_def)
  moreover have "envSessionId (createDeliveryEnvelope (wSessionId w) producer (tkRequestId tk)) = wSessionId w"
    by (simp add: createDeliveryEnvelope_def)
  ultimately show ?thesis
    using recovery_prepared [OF assms, of producer] recovery_appended [OF assms]
    by (simp add: runCommand_def execute_def ownEnvelope_def parseResult_def RecoveredResultSchema_def)
qed

section \<open>The loop\<close>

text \<open>The tickets \<open>k\<close> to \<open>n - 1\<close> are usable now and stay so while the others are spent.\<close>

definition freshTickets ::
  "(string \<Rightarrow> bool) \<Rightarrow> 'r Database \<Rightarrow> SessionWriter \<Rightarrow> (nat \<Rightarrow> Ticket) \<Rightarrow> nat \<Rightarrow> nat \<Rightarrow> bool" where
  "freshTickets dt db w tks k n =
     (list_all (\<lambda>i. usable dt db w (tks i)) [k ..< n]
      \<and> distinct (map (\<lambda>i. tkRequestId (tks i)) [k ..< n])
      \<and> distinct (map (\<lambda>i. fst (storeFresh (tkClock (tks i)) 0)) [k ..< n]))"

lemma usable_later:
  assumes "usable dt db w tk'" and "tkRequestId tk' \<noteq> tkRequestId tk"
    and "fst (storeFresh (tkClock tk') 0) \<noteq> fst (storeFresh (tkClock tk) 0)"
  shows "usable dt (recoveredDatabase db w tk fp d) (w\<lparr> wState := st \<rparr>) tk'"
  using assms
  by (auto simp: usable_def recoveredDatabase_def findProcessed_def find_None_iff eventRow_def
      storedRecovery_def recoveryEvent_def)

lemma freshTickets_later:
  assumes "freshTickets dt db w tks k n" and "k < n"
  shows "usable dt db w (tks k)"
    and "freshTickets dt (recoveredDatabase db w (tks k) fp d) (w\<lparr> wState := st \<rparr>) tks (k + 1) n"
proof -
  have range: "[k ..< n] = k # [Suc k ..< n]" using assms(2) by (rule upt_conv_Cons)
  show "usable dt db w (tks k)" using assms(1) by (simp add: freshTickets_def range)
  have spent: "tkRequestId (tks k) \<notin> (\<lambda>i. tkRequestId (tks i)) ` set [Suc k ..< n]"
    "fst (storeFresh (tkClock (tks k)) 0)
       \<notin> (\<lambda>i. fst (storeFresh (tkClock (tks i)) 0)) ` set [Suc k ..< n]"
    using assms(1) by (simp_all add: freshTickets_def range)
  have "usable dt (recoveredDatabase db w (tks k) fp d) (w\<lparr> wState := st \<rparr>) (tks i)"
    if "i \<in> set [Suc k ..< n]" for i
  proof (rule usable_later)
    show "usable dt db w (tks i)"
      using assms(1) that by (simp add: freshTickets_def list_all_iff)
    show "tkRequestId (tks i) \<noteq> tkRequestId (tks k)"
      "fst (storeFresh (tkClock (tks i)) 0) \<noteq> fst (storeFresh (tkClock (tks k)) 0)"
      using spent that by (metis imageI)+
  qed
  then show "freshTickets dt (recoveredDatabase db w (tks k) fp d) (w\<lparr> wState := st \<rparr>) tks (k + 1) n"
    using assms(1) by (simp add: freshTickets_def range list_all_iff)
qed

lemma legacy_recovered: "isLegacyQuantState (recovered st d a eid) = isLegacyQuantState st"
  by (simp add: isLegacyQuantState_def recovered_def isTradingMode_def isResearchMode_def)

lemma ready_later:
  assumes "recoverable dt reg db w L tk fp d a"
  shows "ready dt reg (recoveredDatabase db w tk fp d)
     (w\<lparr> wState := recovered (wState w) d a (fst (storeFresh (tkClock tk) 0)) \<rparr>)
     (L(wSessionId w := L (wSessionId w) @ [storedRecovery w tk d]))"
proof -
  from assms have r: "ready dt reg db w L" and sess: "sessionId (wState w) = wSessionId w"
    by (auto simp: recoverable_def dest: ready_sequence)
  have "reduceSessionEvent (wState w) (storedRecovery w tk d)
      = Inr (recovered (wState w) d a (fst (storeFresh (tkClock tk) 0)))"
    unfolding storedRecovery_def
    by (rule recovery_event) (use assms sess in \<open>auto simp: recoverable_def\<close>)
  then have "replaySession (wSessionId w) (L (wSessionId w) @ [storedRecovery w tk d])
      = Inr (recovered (wState w) d a (fst (storeFresh (tkClock tk) 0)))"
    using r by (simp add: ready_def replay_snoc)
  moreover have "represents dt reg (recoveredDatabase db w tk fp d)
      (L(wSessionId w := L (wSessionId w) @ [storedRecovery w tk d]))"
    using represents_appendIdempotent [OF _ recovery_appended [OF assms]] r
    by (simp add: ready_def recoveryInput_def)
  ultimately show ?thesis using r
    by (simp add: ready_def legacy_recovered)
qed

definition possiblyExposed :: "DeliveryAtom \<Rightarrow> DeliveryAtom" where
  "possiblyExposed a = a\<lparr> atomStatus := Delivery_POSSIBLY_EXPOSED \<rparr>"

lemma recoverAll_succeeds:
  assumes "ready dt reg db w L" and "idSchema (wSessionId w)"
    and "freshTickets dt db w tks k (k + length ds)"
    and "sequence (wState w) + length ds \<le> nat MAX_SAFE_INTEGER" and "distinct ds"
    and "\<And>d. d \<in> set ds \<Longrightarrow> idSchema d
       \<and> (\<exists>a. dget (deliveries (wState w)) d = Some a \<and> atomStatus a = Delivery_DELIVERING)"
  shows "\<exists>db' w' L'. recoverAll dt tks k ds (db, w) = (Inr (), (db', w')) \<and> ready dt reg db' w' L'
     \<and> wSessionId w' = wSessionId w
     \<and> (\<forall>x. dget (deliveries (wState w')) x = (if x \<in> set ds
          then map_option possiblyExposed (dget (deliveries (wState w)) x)
          else dget (deliveries (wState w)) x))
     \<and> set (disclosureLedger (wState w)) \<subseteq> set (disclosureLedger (wState w'))
     \<and> (\<forall>x \<in> set ds. \<forall>a. dget (deliveries (wState w)) x = Some a \<longrightarrow>
          set (disclosureIds a) \<subseteq> set (disclosureLedger (wState w')))"
  using assms
proof (induction ds arbitrary: k db w L)
  case Nil
  then show ?case by auto
next
  case (Cons d ds)
  let ?tk = "tks k"
  obtain a where a: "dget (deliveries (wState w)) d = Some a" "atomStatus a = Delivery_DELIVERING"
    using Cons.prems(6) [of d] by auto
  have use: "usable dt db w ?tk" using freshTickets_later(1) [OF Cons.prems(3)] by simp
  then obtain fp where fp: "tkIdentity ?tk = Some fp" by (auto simp: usable_def split: option.splits)
  have rec: "recoverable dt reg db w L ?tk fp d a"
    using Cons.prems(1,2,4) Cons.prems(6) [of d] a use fp by (simp add: recoverable_def)
  let ?db = "recoveredDatabase db w ?tk fp d"
  let ?st = "recovered (wState w) d a (fst (storeFresh (tkClock ?tk) 0))"
  let ?w = "w\<lparr> wState := ?st \<rparr>"
  have tickets: "freshTickets dt ?db ?w tks (k + 1) (k + 1 + length ds)"
    using freshTickets_later(2) [OF Cons.prems(3)] by simp
  have other: "dget (deliveries ?st) x = dget (deliveries (wState w)) x" if "x \<in> set ds" for x
    using that Cons.prems(5) by (auto simp: recovered_def dget_dput)
  from Cons.IH [OF ready_later [OF rec] _ tickets]
  obtain db' w' L' where ih: "recoverAll dt tks (k + 1) ds (?db, ?w) = (Inr (), (db', w'))"
    "ready dt reg db' w' L'" "wSessionId w' = wSessionId w"
    "\<forall>x. dget (deliveries (wState w')) x = (if x \<in> set ds
        then map_option possiblyExposed (dget (deliveries ?st) x) else dget (deliveries ?st) x)"
    "set (disclosureLedger ?st) \<subseteq> set (disclosureLedger (wState w'))"
    "\<forall>x \<in> set ds. \<forall>a. dget (deliveries ?st) x = Some a \<longrightarrow>
        set (disclosureIds a) \<subseteq> set (disclosureLedger (wState w'))"
    using Cons.prems(2,4-6) other by (auto simp: recovered_def)
  have run: "recoverAll dt tks k (d # ds) (db, w) = (Inr (), (db', w'))"
    using recovery_command [OF rec] ih(1) by simp
  have "dget (deliveries (wState w')) x = (if x \<in> set (d # ds)
      then map_option possiblyExposed (dget (deliveries (wState w)) x)
      else dget (deliveries (wState w)) x)" for x
    using ih(4) Cons.prems(5) a by (auto simp: recovered_def dget_dput possiblyExposed_def)
  moreover have "set (disclosureLedger (wState w)) \<union> set (disclosureIds a)
      \<subseteq> set (disclosureLedger (wState w'))"
    using ih(5) by (simp add: recovered_def)
  ultimately show ?case using run ih(2,3,6) other a(1)
    by (intro exI [of _ db'] exI [of _ w'] exI [of _ L']) auto
qed

section \<open>Recovery of a session\<close>

text \<open>The deliveries of a replayed session: one entry per id, filed under its own id.\<close>

lemma deliveries_wf_replay: "replaySession sid evs = Inr st \<Longrightarrow> dict_wf (deliveries st)"
proof (erule replay_invariant)
  show "dict_wf (deliveries (initialSessionState sid))" by (simp add: initialSessionState_def)
next
  fix s ev t
  assume wf: "dict_wf (deliveries s)" and "reduceSessionEvent s ev = Inr t"
  then obtain u where u: "reduceBody s (eventId ev) (eventSequence ev) (eventSource ev) (body ev) = Inr u"
    "t = u\<lparr> sequence := eventSequence ev, eventIds := eventIds u @ [eventId ev] \<rparr>"
    by (auto simp: reduceSessionEvent_iff)
  have "dict_wf (deliveries u)"
  proof (cases "isDeliveryBody (body ev)")
    case False
    with u(1) wf show ?thesis by (auto dest!: delivery_frame)
  next
    case True
    with u(1) wf show ?thesis
      by (cases "body ev") (auto simp: isDeliveryBody_def reduce_DELIVERY_QUEUED_def
          reduce_DELIVERY_CANCELLED_def withDeliveryStatus_iff split: if_splits option.splits)
  qed
  with u(2) show "dict_wf (deliveries t)" by simp
qed

lemma delivery_ids_replay:
  assumes "replaySession sid evs = Inr st" and "\<forall>ev \<in> set evs. SessionEventSchema dt ev"
  shows "\<forall>d \<in> set (dkeys (deliveries st)). idSchema d"
  using assms
proof (induction rule: replay_induct)
  case Nil
  then show ?case by (simp add: initialSessionState_def dkeys_def)
next
  case (snoc evs ev s t)
  then obtain u where u: "reduceBody s (eventId ev) (eventSequence ev) (eventSource ev) (body ev) = Inr u"
    "t = u\<lparr> sequence := eventSequence ev, eventIds := eventIds u @ [eventId ev] \<rparr>"
    by (auto simp: reduceSessionEvent_iff)
  have ih: "\<forall>d \<in> set (dkeys (deliveries s)). idSchema d"
    using snoc.prems by (intro snoc.IH) simp
  have "SessionEventSchema dt ev" using snoc.prems by simp
  then have schema: "payloadSchema dt (body ev)" by (simp only: SessionEventSchema_def)
  have known: "idSchema d" if "dget (deliveries s) d = Some a" for d a
    using ih that dget_None_iff [of "deliveries s" d] by auto
  have "\<forall>d \<in> set (dkeys (deliveries u)). idSchema d"
  proof (cases "isDeliveryBody (body ev)")
    case False
    with u(1) ih show ?thesis by (auto dest!: delivery_frame)
  next
    case True
    with u(1) ih schema known show ?thesis
      by (cases "body ev") (auto simp: isDeliveryBody_def reduce_DELIVERY_QUEUED_def
          reduce_DELIVERY_CANCELLED_def withDeliveryStatus_iff dkeys_dput DeliveryAtomSchema_def
          split: if_splits option.splits)
  qed
  with u(2) show ?case by simp
qed

lemma represented_schema:
  assumes "represents dt reg db L" and "ev \<in> set (L sid)"
  shows "SessionEventSchema dt ev"
proof -
  have "list_all2 (rowOf dt reg) (rowsOf db sid) (L sid)" using assms(1) by (simp add: represents_def)
  with assms(2) obtain row where "rowOf dt reg row ev"
    by (metis in_set_conv_nth list_all2_conv_all_nth)
  then obtain raw where "toCurrent dt reg raw = Some (Inr ev)"
    by (auto simp: rowOf_def decodeRow_def split: option.splits sum.splits)
  then obtain current where "parseRaw dt current = Inr ev"
    by (auto simp: toCurrent_def split: RawEvent.split_asm option.split_asm sum.split_asm)
  then obtain e where "parseEvent dt e = Some ev"
    by (auto simp: parseRaw_def split: RawEvent.split_asm option.split_asm if_split_asm)
  then show ?thesis by (auto simp: parseEvent_def Let_def split: if_split_asm)
qed

lemma inFlight_iff:
  assumes "dict_wf (deliveries st)" and "ledgerCovers st"
  shows "d \<in> set (inFlight st) \<longleftrightarrow>
     (\<exists>a. dget (deliveries st) d = Some a \<and> atomStatus a = Delivery_DELIVERING)"
  using assms by (fastforce simp: inFlight_def dvals_iff ledgerCovers_def covered_def)

lemma inFlight_distinct:
  assumes "dict_wf (deliveries st)" and "ledgerCovers st"
  shows "distinct (inFlight st)"
proof -
  have "deliveryId a = k" if "(k, a) \<in> set (deliveries st)" for k a
  proof -
    have "dget (deliveries st) k = Some a"
      using assms(1) that by (simp add: dget_def dict_wf_def dkeys_def)
    then show ?thesis using assms(2) by (simp add: ledgerCovers_def covered_def)
  qed
  then have "map deliveryId (dvals (deliveries st)) = dkeys (deliveries st)"
    by (auto simp: dvals_def dkeys_def)
  with assms(1) show ?thesis
    by (simp add: inFlight_def dict_wf_def distinct_map_filter)
qed

text \<open>
  Property C12. Recovery succeeds and is truthful. Let a writer of a reachable run have replayed the
  whole log of its session, accept commands and not be a legacy session; let the request and event
  ids it draws be new, and the log be far from the largest safe integer. Then
  \<open>recoverUncertainDeliveries\<close> returns the ids of exactly the deliveries that were under way, afterwards
  none is under way, each of them is possibly exposed with its disclosures in the ledger, no other
  delivery has changed, and the new state is the replay of the stored log.
\<close>

theorem recovery_is_truthful:
  assumes "runtime dt reg err db ws" and "w \<in> set ws" and "acceptingCommands w" and "\<not> fullyClosed w"
    and "latestSequence db (wSessionId w) = int (sequence (wState w))"
    and "\<not> isLegacyQuantState (wState w)"
    and "freshTickets dt db w tks 0 (length (inFlight (wState w)))"
    and "sequence (wState w) + length (inFlight (wState w)) \<le> nat MAX_SAFE_INTEGER"
  shows "\<exists>db' w' evs. recoverUncertainDeliveries dt tks (db, w) = (Inr (inFlight (wState w)), (db', w'))
     \<and> inFlight (wState w') = []
     \<and> (\<forall>d. dget (deliveries (wState w')) d =
          (case dget (deliveries (wState w)) d of
             None \<Rightarrow> None
           | Some a \<Rightarrow> if atomStatus a = Delivery_DELIVERING
               then Some (a\<lparr> atomStatus := Delivery_POSSIBLY_EXPOSED \<rparr>) else Some a))
     \<and> (\<forall>d a. dget (deliveries (wState w)) d = Some a \<and> atomStatus a = Delivery_DELIVERING \<longrightarrow>
          d \<in> set (inFlight (wState w)) \<and> set (disclosureIds a) \<subseteq> set (disclosureLedger (wState w')))
     \<and> load dt reg db' (wSessionId w) = Inr evs
     \<and> replaySession (wSessionId w) evs = Inr (wState w')"
proof -
  obtain L where L: "represents dt reg db L" "follows L w"
    using runtime_follows [OF assms(1)] assms(2) by blast
  have "length (L (wSessionId w)) = sequence (wState w)"
    using represents_latest [OF L(1), of "wSessionId w"] assms(5) by simp
  note replay = follows_latest [OF L(2) this]
  have ready: "ready dt reg db w L" using L(1) replay assms(3,4,6) by (simp add: ready_def)
  have schema: "\<forall>ev \<in> set (L (wSessionId w)). SessionEventSchema dt ev"
    using represented_schema [OF L(1)] by blast
  note wf = deliveries_wf_replay [OF replay] ledgerCovers_replay [OF replay]
  note flight = inFlight_iff [OF wf]
  have known: "idSchema d \<and> (\<exists>a. dget (deliveries (wState w)) d = Some a
      \<and> atomStatus a = Delivery_DELIVERING)" if "d \<in> set (inFlight (wState w))" for d
    using that flight [of d] delivery_ids_replay [OF replay schema]
      dget_None_iff [of "deliveries (wState w)" d] by auto
  obtain db' w' L' where *: "recoverAll dt tks 0 (inFlight (wState w)) (db, w) = (Inr (), (db', w'))"
    "ready dt reg db' w' L'" "wSessionId w' = wSessionId w"
    "\<forall>x. dget (deliveries (wState w')) x = (if x \<in> set (inFlight (wState w))
        then map_option possiblyExposed (dget (deliveries (wState w)) x)
        else dget (deliveries (wState w)) x)"
    "\<forall>x \<in> set (inFlight (wState w)). \<forall>a. dget (deliveries (wState w)) x = Some a \<longrightarrow>
        set (disclosureIds a) \<subseteq> set (disclosureLedger (wState w'))"
  proof (cases "inFlight (wState w) = []")
    case True
    with ready that [of db w L] show ?thesis by simp
  next
    case False
    have "idSchema (wSessionId w)"
    proof -
      from False obtain d where "d \<in> set (inFlight (wState w))" by (cases "inFlight (wState w)") auto
      with flight have "deliveries (wState w) \<noteq> []" by auto
      moreover have "deliveries (wState w) = []" if "L (wSessionId w) = []"
      proof -
        have "wState w = initialSessionState (wSessionId w)"
          using replay that by (simp add: replaySession_def)
        then show ?thesis by (simp add: initialSessionState_def)
      qed
      ultimately have "L (wSessionId w) \<noteq> []" by blast
      then obtain ev where "ev \<in> set (L (wSessionId w))" by (cases "L (wSessionId w)") auto
      moreover have "numberedFrom 0 (wSessionId w) (L (wSessionId w))"
        using L(1) by (simp add: represents_def)
      ultimately show ?thesis
        using schema by (metis SessionEventSchema_def in_set_conv_nth numberedFrom_def)
    qed
    moreover have "freshTickets dt db w tks 0 (0 + length (inFlight (wState w)))"
      using assms(7) by simp
    ultimately show ?thesis
      using recoverAll_succeeds [OF ready _ _ assms(8) inFlight_distinct [OF wf] known] that by blast
  qed
  have shape: "dget (deliveries (wState w')) d = (case dget (deliveries (wState w)) d of
      None \<Rightarrow> None | Some a \<Rightarrow> if atomStatus a = Delivery_DELIVERING
        then Some (a\<lparr> atomStatus := Delivery_POSSIBLY_EXPOSED \<rparr>) else Some a)" for d
    using *(4) flight [of d] by (auto simp: possiblyExposed_def split: option.splits)
  have replay': "replaySession (wSessionId w') (L' (wSessionId w')) = Inr (wState w')"
    using *(2) by (simp add: ready_def)
  have "d \<notin> set (inFlight (wState w'))" for d
  proof
    assume "d \<in> set (inFlight (wState w'))"
    then obtain a where "dget (deliveries (wState w')) d = Some a" "atomStatus a = Delivery_DELIVERING"
      using inFlight_iff [OF deliveries_wf_replay [OF replay'] ledgerCovers_replay [OF replay']] by blast
    with shape [of d] show False
      by (cases "dget (deliveries (wState w)) d") (auto split: if_split_asm)
  qed
  then have "inFlight (wState w') = []" by (cases "inFlight (wState w')") auto
  moreover have "load dt reg db' (wSessionId w) = Inr (L' (wSessionId w))"
    using *(2) by (simp add: ready_def represents_load)
  moreover have "\<forall>d a. dget (deliveries (wState w)) d = Some a \<and> atomStatus a = Delivery_DELIVERING \<longrightarrow>
      d \<in> set (inFlight (wState w)) \<and> set (disclosureIds a) \<subseteq> set (disclosureLedger (wState w'))"
    using flight *(5) by blast
  ultimately show ?thesis
    using *(1,3) shape replay'
    by (intro exI [of _ db'] exI [of _ w'] exI [of _ "L' (wSessionId w)"])
       (simp add: recoverUncertainDeliveries_def)
qed

section \<open>A session that crashed while a hint was shown\<close>

definition crashHandler :: "(unit, DeliveryResult) handler" where
  "crashHandler st = Inr ([deliveryDraft Source_APPLICATION (DELIVERY_QUEUED sampleAtom),
     deliveryDraft Source_APPLICATION (DELIVERY_STARTED ''d1'')], Other_result ''{}'')"

definition crashRun :: "(unit WriterError, DeliveryResult CommandResult) result \<times> World" where
  "crashRun = execute (\<lambda>_. True) emptyDatabase sampleWriter sampleEnvelope (Some (replicate 64 CHR ''a''))
     Some crashHandler sampleClock"

lemma crash_state:
  "inFlight (wState (snd (snd crashRun))) = [''d1'']
   \<and> latestSequence (fst (snd crashRun)) ''s1'' = int (sequence (wState (snd (snd crashRun))))
   \<and> sequence (wState (snd (snd crashRun))) = 2 \<and> wSessionId (snd (snd crashRun)) = ''s1''
   \<and> acceptingCommands (snd (snd crashRun)) \<and> \<not> fullyClosed (snd (snd crashRun))
   \<and> \<not> isLegacyQuantState (wState (snd (snd crashRun)))
   \<and> freshTickets (\<lambda>_. True) (fst (snd crashRun)) (snd (snd crashRun)) sampleTicket 0 1"
  by code_simp

lemma crash_runtime: "runtime (\<lambda>_. True) [] TYPE(unit) (fst (snd crashRun)) [snd (snd crashRun)]"
proof -
  have "openWriter (\<lambda>_. True) [] (emptyDatabase :: DeliveryResult Database) ''s1''
      = (Inr sampleWriter :: (unit WriterError, SessionWriter) result)"
    by (simp add: openWriter_def load_def rowsOf_def emptyDatabase_def storeE_def reduceE_def
        replaySession_def sampleWriter_def)
  from runtime.opens [OF runtime.start this]
  have "runtime (\<lambda>_. True) [] TYPE(unit) (emptyDatabase :: DeliveryResult Database) [sampleWriter]" by simp
  from runtime.executes [OF this, of 0 sampleEnvelope "Some (replicate 64 CHR ''a'')" Some crashHandler
      sampleClock "fst crashRun" "fst (snd crashRun)" "snd (snd crashRun)"]
  show ?thesis by (simp add: crashRun_def)
qed

theorem recovery_is_truthful_witness:
  "\<exists>db' w'. recoverUncertainDeliveries (\<lambda>_. True) sampleTicket (snd crashRun) = (Inr [''d1''], (db', w'))
     \<and> inFlight (wState w') = []"
  using recovery_is_truthful [OF crash_runtime, of "snd (snd crashRun)" sampleTicket] crash_state
  by (auto simp: MAX_SAFE_INTEGER_def)

end
