(* ===== verification/EvidenceLog.thy ===== *)
theory EvidenceLog
  imports ReducerFrame Samples
begin

text \<open>
  Student evidence: the history per evidence key, its invariant (at most one active record, and the
  current evidence is the active record's value), its append-only growth, and the two string forms
  of a key.
\<close>

section \<open>The current evidence is the active record\<close>

definition currentValue :: "EvidenceRecordState list \<Rightarrow> EvidenceValue option" where
  "currentValue rs = (case activeRecords rs of [] \<Rightarrow> None | a # _ \<Rightarrow> Some (erValue a))"

definition evidenceInv :: "SessionState \<Rightarrow> bool" where
  "evidenceInv st =
     (\<forall>key. length (activeRecords (recordsFor (evidenceHistory st) key)) \<le> 1
        \<and> dget (studentEvidence st) key = currentValue (recordsFor (evidenceHistory st) key))"

lemma recordsFor_dput:
  "recordsFor (dput k rs h) key = (if key = k then rs else recordsFor h key)"
  by (simp add: recordsFor_def dget_dput)

lemma activeRecords_append: "activeRecords (xs @ ys) = activeRecords xs @ activeRecords ys"
  by (simp add: activeRecords_def)

lemma activeRecords_superseded [simp]: "activeRecords (map (supersedeRecord e) rs) = []"
  by (auto simp: activeRecords_def supersedeRecord_def filter_empty_conv)

lemma activeRecords_stale:
  "activeRecords (map (staleRecord e reason) rs)
     = filter (\<lambda>r. erEvidenceEventId r \<noteq> e) (activeRecords rs)"
  by (induction rs) (auto simp: activeRecords_def staleRecord_def)

lemma evidenceInv_initial: "evidenceInv (initialSessionState sid)"
  by (simp add: evidenceInv_def initialSessionState_def recordsFor_def activeRecords_def
      currentValue_def)

lemma evidenceInv_updated:
  assumes "reduce_EVIDENCE_UPDATED st eid sq k v old = Inr t" and "evidenceInv st"
  shows "evidenceInv t"
proof -
  let ?rec = "\<lparr> erEvidenceEventId = eid, erKey = k, erValue = v, erStatus = Evidence_ACTIVE,
    erSupersededByEventId = None, erInvalidationReason = None \<rparr>"
  let ?key = "evidenceKeyToString k"
  have "t = st\<lparr> studentEvidence := dput ?key v (studentEvidence st),
      evidenceHistory := dput ?key
        (map (supersedeRecord eid) (recordsFor (evidenceHistory st) ?key) @ [?rec])
        (evidenceHistory st) \<rparr>"
    using assms(1) by (auto simp: reduce_EVIDENCE_UPDATED_def Let_def split: if_splits list.splits)
  moreover have "activeRecords [?rec] = [?rec]" by (simp add: activeRecords_def)
  ultimately show ?thesis
    using assms(2)
    by (simp add: evidenceInv_def recordsFor_dput activeRecords_append currentValue_def dget_dput)
qed

lemma evidenceInv_invalidated:
  assumes "reduce_EVIDENCE_INVALIDATED st k i reason = Inr t" and "evidenceInv st"
  shows "evidenceInv t"
proof -
  let ?key = "evidenceKeyToString k"
  let ?rs = "recordsFor (evidenceHistory st) ?key"
  from assms(1) obtain a as where a: "activeRecords ?rs = a # as" "erEvidenceEventId a = i"
    and t: "t = st\<lparr> studentEvidence := ddel ?key (studentEvidence st),
      evidenceHistory := dput ?key (map (staleRecord i reason) ?rs) (evidenceHistory st) \<rparr>"
    by (auto simp: reduce_EVIDENCE_INVALIDATED_def Let_def split: if_splits list.splits)
  have "length (activeRecords ?rs) \<le> 1" using assms(2) by (simp add: evidenceInv_def)
  with a have "as = []" by simp
  with a have "activeRecords (map (staleRecord i reason) ?rs) = []" by (simp add: activeRecords_stale)
  with assms(2) show ?thesis
    by (simp add: t evidenceInv_def recordsFor_dput currentValue_def dget_ddel)
qed

lemma evidenceInv_body:
  assumes "reduceBody st ei sq so b = Inr t" and "evidenceInv st"
  shows "evidenceInv t"
proof (cases "isEvidenceBody b")
  case False
  with assms evidence_frame [OF assms(1)] show ?thesis by (simp add: evidenceInv_def)
next
  case True
  with assms show ?thesis
    by (cases b) (auto simp: isEvidenceBody_def intro: evidenceInv_updated evidenceInv_invalidated)
qed

lemma evidenceInv_log [simp]:
  "evidenceInv (u\<lparr> sequence := n, eventIds := is \<rparr>) = evidenceInv u"
  by (simp add: evidenceInv_def)

lemma evidenceInv_event:
  "evidenceInv st \<Longrightarrow> reduceSessionEvent st ev = Inr t \<Longrightarrow> evidenceInv t"
  by (auto simp: reduceSessionEvent_iff intro: evidenceInv_body)

lemma evidenceInv_replay: "replaySession sid evs = Inr st \<Longrightarrow> evidenceInv st"
  by (erule replay_invariant) (auto intro: evidenceInv_event evidenceInv_initial)

text \<open>
  Property C17. In every replayed state, every evidence key has at most one active record, and the
  current student evidence under a key is the value of that record, or absent when there is none.
  So the error for several active records can never be raised on a log that replays.
\<close>

theorem evidence_is_active_record:
  assumes "replaySession sid evs = Inr st"
  shows "length (activeRecords (recordsFor (evidenceHistory st) key)) \<le> 1
     \<and> dget (studentEvidence st) key =
        (case activeRecords (recordsFor (evidenceHistory st) key) of
           [] \<Rightarrow> None | a # _ \<Rightarrow> Some (erValue a))
     \<and> reduce_EVIDENCE_UPDATED st eid sq k v old \<noteq> Inl EvidenceMultipleActive
     \<and> reduce_EVIDENCE_INVALIDATED st k i reason \<noteq> Inl EvidenceMultipleActive"
proof -
  have inv: "length (activeRecords (recordsFor (evidenceHistory st) j)) \<le> 1
     \<and> dget (studentEvidence st) j = currentValue (recordsFor (evidenceHistory st) j)" for j
    using evidenceInv_replay [OF assms] by (simp add: evidenceInv_def)
  have "\<not> 1 < length (activeRecords (recordsFor (evidenceHistory st) j))" for j
    using inv [of j] by simp
  then have "reduce_EVIDENCE_UPDATED st eid sq k v old \<noteq> Inl EvidenceMultipleActive"
    "reduce_EVIDENCE_INVALIDATED st k i reason \<noteq> Inl EvidenceMultipleActive"
    by (auto simp: reduce_EVIDENCE_UPDATED_def reduce_EVIDENCE_INVALIDATED_def Let_def
        split: list.split)
  with inv [of key] show ?thesis by (simp add: currentValue_def)
qed

section \<open>The history only grows\<close>

text \<open>What a record says, as opposed to whether it still stands.\<close>

definition recordContent :: "EvidenceRecordState \<Rightarrow> EventId \<times> EvidenceKey \<times> EvidenceValue" where
  "recordContent r = (erEvidenceEventId r, erKey r, erValue r)"

lemma recordContent_superseded [simp]: "recordContent (supersedeRecord e r) = recordContent r"
  by (simp add: recordContent_def supersedeRecord_def)

lemma recordContent_stale [simp]: "recordContent (staleRecord e reason r) = recordContent r"
  by (simp add: recordContent_def staleRecord_def)

definition extends :: "EvidenceRecordState list \<Rightarrow> EvidenceRecordState list \<Rightarrow> bool" where
  "extends rs rs' =
     (length rs \<le> length rs'
      \<and> (\<forall>i < length rs. recordContent (rs' ! i) = recordContent (rs ! i)
           \<and> (erStatus (rs ! i) \<noteq> Evidence_ACTIVE \<longrightarrow> erStatus (rs' ! i) \<noteq> Evidence_ACTIVE)))"

lemma extends_refl: "extends rs rs"
  by (simp add: extends_def)

lemma extends_trans: "extends a b \<Longrightarrow> extends b c \<Longrightarrow> extends a c"
  by (simp add: extends_def)

lemma extends_body:
  assumes "reduceBody st ei sq so b = Inr t"
  shows "extends (recordsFor (evidenceHistory st) key) (recordsFor (evidenceHistory t) key)"
proof (cases "isEvidenceBody b")
  case False
  with assms show ?thesis by (auto simp: extends_refl dest!: evidence_frame)
next
  case True
  with assms show ?thesis
    by (cases b) (auto simp: isEvidenceBody_def reduce_EVIDENCE_UPDATED_def
        reduce_EVIDENCE_INVALIDATED_def Let_def recordsFor_dput extends_def nth_append
        supersedeRecord_def staleRecord_def recordContent_def
        split: if_splits list.splits)
qed

text \<open>
  Evidence is never rewritten: over any run of events the history under every key keeps
  all its records in place with their event id, key and value; later events only append records and
  retire active ones, and a retired record never becomes active again.
\<close>

theorem evidence_history_append_only:
  assumes "foldE reduceSessionEvent st evs = Inr t"
  shows "length (recordsFor (evidenceHistory st) key) \<le> length (recordsFor (evidenceHistory t) key)
     \<and> (\<forall>i < length (recordsFor (evidenceHistory st) key).
          recordContent (recordsFor (evidenceHistory t) key ! i)
            = recordContent (recordsFor (evidenceHistory st) key ! i)
          \<and> (erStatus (recordsFor (evidenceHistory st) key ! i) \<noteq> Evidence_ACTIVE \<longrightarrow>
               erStatus (recordsFor (evidenceHistory t) key ! i) \<noteq> Evidence_ACTIVE))"
proof -
  have "extends (recordsFor (evidenceHistory st) key) (recordsFor (evidenceHistory t) key)"
    using assms
    by (rule reducer.run_relation [where R = "\<lambda>s s'. extends (recordsFor (evidenceHistory s) key)
          (recordsFor (evidenceHistory s') key)", rotated 3])
       (auto simp: extends_refl reduceSessionEvent_iff intro: extends_trans dest: extends_body)
  then show ?thesis by (simp add: extends_def)
qed

theorem evidence_is_active_record_witness:
  "\<exists>st. replaySession ''s1'' (take 3 sampleEvidence) = Inr st
     \<and> dget (studentEvidence st) (evidenceKeyToString sampleKey) =
        (case activeRecords (recordsFor (evidenceHistory st) (evidenceKeyToString sampleKey)) of
           [] \<Rightarrow> None | a # _ \<Rightarrow> Some (erValue a))
     \<and> dget (studentEvidence st) (evidenceKeyToString sampleKey) = Some (sampleValue UNCERTAIN ''e1'' 3)"
proof -
  have "(case replaySession ''s1'' (take 3 sampleEvidence) of Inl _ \<Rightarrow> False
      | Inr s \<Rightarrow> dget (studentEvidence s) (evidenceKeyToString sampleKey)
          = Some (sampleValue UNCERTAIN ''e1'' 3))" by code_simp
  then obtain st where st: "replaySession ''s1'' (take 3 sampleEvidence) = Inr st"
    "dget (studentEvidence st) (evidenceKeyToString sampleKey) = Some (sampleValue UNCERTAIN ''e1'' 3)"
    by (auto split: sum.splits)
  with evidence_is_active_record [OF st(1)] show ?thesis by blast
qed

theorem evidence_history_append_only_witness:
  "\<exists>st t. foldE reduceSessionEvent st (drop 2 sampleEvidence) = Inr t
     \<and> length (recordsFor (evidenceHistory st) (evidenceKeyToString sampleKey)) = 1
     \<and> 1 \<le> length (recordsFor (evidenceHistory t) (evidenceKeyToString sampleKey))"
proof -
  have "(case replaySession ''s1'' (take 2 sampleEvidence) of Inl _ \<Rightarrow> False
      | Inr s \<Rightarrow> length (recordsFor (evidenceHistory s) (evidenceKeyToString sampleKey)) = 1
          \<and> isOk (foldE reduceSessionEvent s (drop 2 sampleEvidence)))" by code_simp
  then obtain st t where st: "foldE reduceSessionEvent st (drop 2 sampleEvidence) = Inr t"
    "length (recordsFor (evidenceHistory st) (evidenceKeyToString sampleKey)) = 1"
    by (auto simp: isOk_iff split: sum.splits)
  with evidence_history_append_only [OF st(1), of "evidenceKeyToString sampleKey"] show ?thesis by auto
qed

end
