(* ===== verification/EvidenceKeys.thy ===== *)
theory EvidenceKeys
  imports EvidenceLog
begin

text \<open>
  The two string forms of an evidence key. The identity form, a JSON array of JSON strings, is
  injective. The persistence form, the parts joined by a bar, is injective only on ids without a
  bar, and the reducer files evidence under it.
\<close>

section \<open>JSON strings can be told apart\<close>

lemma hexDigit_of: "a < 16 \<Longrightarrow> (of_char (hexDigit a) :: nat) = (if a < 10 then 48 + a else 87 + a)"
  by (simp add: hexDigit_def)
lemma hexDigit_inject:
  assumes "hexDigit a = hexDigit b" and ab: "a < 16" "b < 16" shows "a = b"
proof -
  from assms(1) have "(of_char (hexDigit a) :: nat) = of_char (hexDigit b)" by (rule arg_cong)
  then have "(if a < 10 then 48 + a else 87 + a) = (if b < 10 then 48 + b else 87 + b)"
    by (simp only: hexDigit_of [OF ab(1)] hexDigit_of [OF ab(2)])
  with ab show "a = b" by presburger
qed

lemma hexDigits_inject:
  assumes "n < 32" and "m < 32" and "hexDigit (n div 16) = hexDigit (m div 16)"
    and "hexDigit (n mod 16) = hexDigit (m mod 16)"
  shows "n = m"
proof -
  from assms have "n div 16 = m div 16" by (intro hexDigit_inject) auto
  moreover from assms have "n mod 16 = m mod 16" by (intro hexDigit_inject) auto
  ultimately show ?thesis by (metis div_mult_mod_eq)
qed

text \<open>The two-character escapes, apart from the other branches of \<open>jsonChar\<close>.\<close>

definition jsonEscape :: "char \<Rightarrow> char option" where
  "jsonEscape c = (let n = of_char c :: nat in
     if n = 34 then Some (CHR 0x22) else if n = 92 then Some (CHR 0x5C)
     else if n = 8 then Some (CHR ''b'') else if n = 9 then Some (CHR ''t'')
     else if n = 10 then Some (CHR ''n'') else if n = 12 then Some (CHR ''f'')
     else if n = 13 then Some (CHR ''r'') else None)"

lemma jsonChar_eq: "jsonChar c =
   (case jsonEscape c of Some e \<Rightarrow> [CHR 0x5C, e]
    | None \<Rightarrow> if (of_char c :: nat) < 32
       then [CHR 0x5C, CHR ''u'', CHR ''0'', CHR ''0'', hexDigit (of_char c div 16), hexDigit (of_char c mod 16)]
       else [c])"
  by (simp add: jsonChar_def jsonEscape_def Let_def)

lemma jsonEscape_not_u: "jsonEscape c = Some e \<Longrightarrow> e \<noteq> CHR ''u''"
  by (auto simp: jsonEscape_def Let_def split: if_splits)

lemma jsonEscape_None: "jsonEscape c = None \<Longrightarrow> c \<noteq> CHR 0x5C \<and> c \<noteq> CHR 0x22"
  by (auto simp: jsonEscape_def Let_def split: if_splits)

lemma jsonEscape_inject: assumes "jsonEscape c = Some e" "jsonEscape d = Some e" shows "c = d"
proof -
  have "(of_char c :: nat) = of_char d"
    using assms by (auto simp: jsonEscape_def Let_def simp del: of_char_eq_iff split: if_splits)
  then show ?thesis by simp
qed

lemma jsonChar_prefix:
  assumes "jsonChar c @ u = jsonChar d @ v" shows "c = d \<and> u = v"
proof (cases "jsonEscape c")
  case (Some e)
  with assms show ?thesis
    by (cases "jsonEscape d") (auto simp: jsonChar_eq jsonEscape_None jsonEscape_not_u dest: jsonEscape_inject jsonEscape_not_u jsonEscape_None split: if_splits)
next
  case None
  show ?thesis
  proof (cases "jsonEscape d")
    case (Some e)
    with assms None show ?thesis
    by (auto simp: jsonChar_eq dest: jsonEscape_not_u jsonEscape_None split: if_splits)
  next
    case N2: None
    have "c = d" if "(of_char c :: nat) < 32" "(of_char d :: nat) < 32"
        "hexDigit (of_char c div 16) = hexDigit (of_char d div 16)"
        "hexDigit (of_char c mod 16) = hexDigit (of_char d mod 16)"
      using hexDigits_inject [OF that] by simp
    with assms None N2 show ?thesis
      by (auto simp: jsonChar_eq dest: jsonEscape_None split: if_splits)
  qed
qed

lemma jsonBody_prefix:
  "concat (map jsonChar s) @ CHR 0x22 # x = concat (map jsonChar t) @ CHR 0x22 # y \<Longrightarrow> s = t \<and> x = y"
proof (induction s arbitrary: t)
  case Nil
  have "jsonChar d @ v \<noteq> CHR 0x22 # x" for d v
    by (auto simp: jsonChar_eq dest: jsonEscape_None split: option.splits if_splits)
  with Nil show ?case by (cases t) (auto dest: sym)
next
  case (Cons c s)
  have ne: "jsonChar c @ v \<noteq> CHR 0x22 # y" for v
    by (auto simp: jsonChar_eq dest: jsonEscape_None split: option.splits if_splits)
  show ?case
  proof (cases t)
    case Nil
    with Cons.prems ne show ?thesis by simp
  next
    case (Cons d t')
    with Cons.prems have "jsonChar c @ (concat (map jsonChar s) @ CHR 0x22 # x)
        = jsonChar d @ (concat (map jsonChar t') @ CHR 0x22 # y)" by simp
    from jsonChar_prefix [OF this] Cons.IH [of t'] Cons show ?thesis by simp
  qed
qed

lemma jsonString_prefix: "jsonString s @ x = jsonString t @ y \<Longrightarrow> s = t \<and> x = y"
  using jsonBody_prefix [of s x t y] by (simp add: jsonString_def)

lemma subject_inject:
  "subjectKind a = subjectKind b \<Longrightarrow> evidenceSubjectId a = evidenceSubjectId b \<Longrightarrow> a = b"
  by (cases a; cases b) simp_all

lemma dimensionName_inject: "dimensionName a = dimensionName b \<Longrightarrow> a = b"
  by (cases a; cases b) simp_all

lemma jsonString_inject: "jsonString s = jsonString t \<Longrightarrow> s = t"
  using jsonString_prefix [of s "[]" t "[]"] by simp

lemma evidenceKeyIdentity_inject:
  assumes "evidenceKeyIdentity k = evidenceKeyIdentity l" shows "k = l"
proof -
  from assms have "ekProblemId k = ekProblemId l \<and> subjectKind (ekSubject k) = subjectKind (ekSubject l)
      \<and> evidenceSubjectId (ekSubject k) = evidenceSubjectId (ekSubject l)
      \<and> dimensionName (ekDimension k) = dimensionName (ekDimension l)"
    unfolding evidenceKeyIdentity_def by (auto dest!: jsonString_prefix jsonString_inject)
  then show ?thesis by (cases k; cases l) (auto intro: subject_inject dimensionName_inject)
qed

text \<open>
  \<open>evidenceKeysEqual\<close>, which compares the identity forms, decides equality of evidence
  keys exactly, whatever characters the ids contain: quotes, backslashes, bars, commas or control
  characters.
\<close>

theorem evidenceKeysEqual_exact: "evidenceKeysEqual k l \<longleftrightarrow> k = l"
  by (auto simp: evidenceKeysEqual_def intro: evidenceKeyIdentity_inject)

section \<open>The persistence form\<close>

lemma bar_split: "CHR ''|'' \<notin> set a \<Longrightarrow> CHR ''|'' \<notin> set b \<Longrightarrow>
    a @ CHR ''|'' # x = b @ CHR ''|'' # y \<Longrightarrow> a = b \<and> x = y"
  by (induction a arbitrary: b) (case_tac b; auto)+

definition parts4 :: "string \<Rightarrow> string \<Rightarrow> string \<Rightarrow> string \<Rightarrow> string" where
  "parts4 a b c d = a @ CHR ''|'' # b @ CHR ''|'' # c @ CHR ''|'' # d"

lemma parts4_inject:
  assumes "parts4 a b c d = parts4 a' b' c' d'"
    and "CHR ''|'' \<notin> set a" "CHR ''|'' \<notin> set b" "CHR ''|'' \<notin> set c"
    and "CHR ''|'' \<notin> set a'" "CHR ''|'' \<notin> set b'" "CHR ''|'' \<notin> set c'"
  shows "a = a' \<and> b = b' \<and> c = c' \<and> d = d'"
proof -
  from assms(1) have 1: "a @ CHR ''|'' # b @ CHR ''|'' # c @ CHR ''|'' # d
      = a' @ CHR ''|'' # b' @ CHR ''|'' # c' @ CHR ''|'' # d'"
    unfolding parts4_def .
  from bar_split [OF assms(2) assms(5) 1] have a: "a = a'"
    and 2: "b @ CHR ''|'' # c @ CHR ''|'' # d = b' @ CHR ''|'' # c' @ CHR ''|'' # d'" by blast+
  from bar_split [OF assms(3) assms(6) 2] have b: "b = b'"
    and 3: "c @ CHR ''|'' # d = c' @ CHR ''|'' # d'" by blast+
  from a b bar_split [OF assms(4) assms(7) 3] show ?thesis by blast
qed

lemma subjectKind_no_bar: "CHR ''|'' \<notin> set (subjectKind s)"
  by (cases s) simp_all

text \<open>
  The persistence form of evidence keys tells apart all keys whose problem id and subject
  id contain no bar.
\<close>

theorem evidenceKeyToString_inject_without_bar:
  assumes "CHR ''|'' \<notin> set (ekProblemId k) \<union> set (evidenceSubjectId (ekSubject k))"
    and "CHR ''|'' \<notin> set (ekProblemId l) \<union> set (evidenceSubjectId (ekSubject l))"
  shows "evidenceKeyToString k = evidenceKeyToString l \<longleftrightarrow> k = l"
proof
  assume "evidenceKeyToString k = evidenceKeyToString l"
  then have "parts4 (ekProblemId k) (subjectKind (ekSubject k)) (evidenceSubjectId (ekSubject k))
        (dimensionName (ekDimension k))
      = parts4 (ekProblemId l) (subjectKind (ekSubject l)) (evidenceSubjectId (ekSubject l))
        (dimensionName (ekDimension l))"
    by (simp add: evidenceKeyToString_def parts4_def)
  with assms have "ekProblemId k = ekProblemId l \<and> subjectKind (ekSubject k) = subjectKind (ekSubject l)
      \<and> evidenceSubjectId (ekSubject k) = evidenceSubjectId (ekSubject l)
      \<and> dimensionName (ekDimension k) = dimensionName (ekDimension l)"
    by (intro parts4_inject) (simp_all add: subjectKind_no_bar)
  then show "k = l" by (cases k; cases l) (auto intro: subject_inject dimensionName_inject)
qed simp

theorem evidenceKeyToString_inject_without_bar_witness:
  "evidenceKeyToString \<lparr> ekProblemId = ''p'', ekSubject = CLAIM ''c'', ekDimension = PROGRESS \<rparr>
     \<noteq> evidenceKeyToString \<lparr> ekProblemId = ''p'', ekSubject = SKILL ''c'', ekDimension = PROGRESS \<rparr>"
  using evidenceKeyToString_inject_without_bar
    [of "\<lparr> ekProblemId = ''p'', ekSubject = CLAIM ''c'', ekDimension = PROGRESS \<rparr>"
        "\<lparr> ekProblemId = ''p'', ekSubject = SKILL ''c'', ekDimension = PROGRESS \<rparr>"]
  by simp

text \<open>
  With bars it does not: two different keys that the schema accepts, about two different
  problems, are filed under one string. In the log below the second update concerns the other
  problem, yet it retires the evidence of the first key and replaces it as the current evidence.
\<close>

theorem evidence_keys_collide:
  "EvidenceKeySchema sampleKey \<and> EvidenceKeySchema collidingKey
     \<and> ekProblemId sampleKey \<noteq> ekProblemId collidingKey
     \<and> (\<exists>st. replaySession ''s1'' collidingLog = Inr st
          \<and> map erKey (recordsFor (evidenceHistory st) (evidenceKeyToString sampleKey))
              = [sampleKey, collidingKey]
          \<and> map erStatus (recordsFor (evidenceHistory st) (evidenceKeyToString sampleKey))
              = [Evidence_SUPERSEDED, Evidence_ACTIVE]
          \<and> dget (studentEvidence st) (evidenceKeyToString sampleKey)
              = Some (sampleValue UNCERTAIN ''e1'' 3))"
proof -
  have keys: "EvidenceKeySchema sampleKey \<and> EvidenceKeySchema collidingKey
     \<and> ekProblemId sampleKey \<noteq> ekProblemId collidingKey" by code_simp
  have records: "(case replaySession ''s1'' collidingLog of Inl _ \<Rightarrow> False
      | Inr st \<Rightarrow> map erKey (recordsFor (evidenceHistory st) (evidenceKeyToString sampleKey))
          = [sampleKey, collidingKey])" by code_simp
  have statuses: "(case replaySession ''s1'' collidingLog of Inl _ \<Rightarrow> False
      | Inr st \<Rightarrow> map erStatus (recordsFor (evidenceHistory st) (evidenceKeyToString sampleKey))
          = [Evidence_SUPERSEDED, Evidence_ACTIVE])" by code_simp
  have current: "(case replaySession ''s1'' collidingLog of Inl _ \<Rightarrow> False
      | Inr st \<Rightarrow> dget (studentEvidence st) (evidenceKeyToString sampleKey)
          = Some (sampleValue UNCERTAIN ''e1'' 3))" by code_simp
  from keys records statuses current show ?thesis
    by (cases "replaySession ''s1'' collidingLog") simp_all
qed

section \<open>The evidence about one key\<close>

text \<open>
  What the log says about the evidence keys that satisfy \<open>P\<close>: per event, its id, its key and the value
  it gives, which is none when it withdraws the evidence.
\<close>

fun evidenceAbout :: "EventBody \<Rightarrow> (EvidenceKey \<times> EvidenceValue option) option" where
  "evidenceAbout (STUDENT_EVIDENCE_UPDATED k v _) = Some (k, Some v)"
| "evidenceAbout (STUDENT_EVIDENCE_INVALIDATED k _ _) = Some (k, None)"
| "evidenceAbout _ = None"

type_synonym statement = "EventId \<times> EvidenceKey \<times> EvidenceValue option"

definition statement :: "(EvidenceKey \<Rightarrow> bool) \<Rightarrow> SessionEvent \<Rightarrow> statement list" where
  "statement P ev = (case evidenceAbout (body ev) of
     Some (k, v) \<Rightarrow> if P k then [(eventId ev, k, v)] else [] | None \<Rightarrow> [])"

definition said :: "(EvidenceKey \<Rightarrow> bool) \<Rightarrow> SessionEvent list \<Rightarrow> statement list" where
  "said P evs = concat (map (statement P) evs)"

lemma said_simps [simp]: "said P [] = []" "said P (xs @ ys) = said P xs @ said P ys" "said P [ev] = statement P ev"
  by (simp_all add: said_def)

definition lastSaid :: "statement list \<Rightarrow> EvidenceValue option" where
  "lastSaid xs = (if xs = [] then None else snd (snd (last xs)))"

lemma lastSaid_simps [simp]: "lastSaid [] = None" "lastSaid (xs @ [x]) = snd (snd x)"
  by (simp_all add: lastSaid_def)

text \<open>The evidence that is kept under the string \<open>s\<close> agrees with what was said about it.\<close>

definition keeps :: "SessionState \<Rightarrow> string \<Rightarrow> statement list \<Rightarrow> bool" where
  "keeps st s xs \<longleftrightarrow>
     dget (studentEvidence st) s = lastSaid xs
     \<and> map (\<lambda>r. (erEvidenceEventId r, erKey r, Some (erValue r))) (recordsFor (evidenceHistory st) s)
         = filter (\<lambda>(_, _, v). v \<noteq> None) xs
     \<and> activeRecords (recordsFor (evidenceHistory st) s)
         = (if lastSaid xs = None then [] else [last (recordsFor (evidenceHistory st) s)])"

lemma keeps_updated:
  assumes "reduce_EVIDENCE_UPDATED st eid sq k v old = Inr t" "keeps st s xs"
  shows "keeps t s (xs @ (if evidenceKeyToString k = s then [(eid, k, Some v)] else []))"
proof -
  let ?new = "\<lparr> erEvidenceEventId = eid, erKey = k, erValue = v, erStatus = Evidence_ACTIVE,
      erSupersededByEventId = None, erInvalidationReason = None \<rparr>"
  from assms(1) have t: "t = st\<lparr> studentEvidence := dput (evidenceKeyToString k) v (studentEvidence st),
      evidenceHistory := dput (evidenceKeyToString k)
        (map (supersedeRecord eid) (recordsFor (evidenceHistory st) (evidenceKeyToString k)) @ [?new]) (evidenceHistory st) \<rparr>"
    by (auto simp: reduce_EVIDENCE_UPDATED_def Let_def split: if_splits list.splits)
  have "activeRecords [?new] = [?new]" by (simp add: activeRecords_def)
  moreover have "(erEvidenceEventId (supersedeRecord eid r), erKey (supersedeRecord eid r), Some (erValue (supersedeRecord eid r)))
      = (erEvidenceEventId r, erKey r, Some (erValue r))" for r by (simp add: supersedeRecord_def)
  ultimately show ?thesis using assms(2)
    by (cases "evidenceKeyToString k = s")
       (auto simp: t keeps_def recordsFor_dput dget_dput activeRecords_append comp_def)
qed

lemma keeps_invalidated:
  assumes "reduce_EVIDENCE_INVALIDATED st k i reason = Inr t" "keeps st s xs"
  shows "keeps t s (xs @ (if evidenceKeyToString k = s then [(eid, k, None)] else []))"
proof -
  let ?rs = "recordsFor (evidenceHistory st) (evidenceKeyToString k)"
  from assms(1) obtain a as where a: "activeRecords ?rs = a # as" "erEvidenceEventId a = i"
    and t: "t = st\<lparr> studentEvidence := ddel (evidenceKeyToString k) (studentEvidence st),
      evidenceHistory := dput (evidenceKeyToString k) (map (staleRecord i reason) ?rs) (evidenceHistory st) \<rparr>"
    by (auto simp: reduce_EVIDENCE_INVALIDATED_def Let_def split: if_splits list.splits)
  have same: "(erEvidenceEventId (staleRecord i reason r), erKey (staleRecord i reason r), Some (erValue (staleRecord i reason r)))
      = (erEvidenceEventId r, erKey r, Some (erValue r))" for r by (simp add: staleRecord_def)
  show ?thesis
  proof (cases "evidenceKeyToString k = s")
    case True
    with assms(2) a have "as = []" by (auto simp: keeps_def split: if_splits)
    with a have "activeRecords (map (staleRecord i reason) ?rs) = []" by (simp add: activeRecords_stale)
    with True same assms(2) show ?thesis
      by (auto simp: t keeps_def recordsFor_dput dget_ddel comp_def)
  next
    case False
    with assms(2) show ?thesis by (simp add: t keeps_def recordsFor_dput dget_ddel)
  qed
qed

lemma keeps_replay:
  "replaySession sid evs = Inr st \<Longrightarrow> keeps st s (said (\<lambda>l. evidenceKeyToString l = s) evs)"
proof (induction rule: replay_induct)
  case Nil
  then show ?case by (simp add: keeps_def lastSaid_def initialSessionState_def recordsFor_def activeRecords_def)
next
  case (snoc evs ev u t)
  let ?P = "\<lambda>l. evidenceKeyToString l = s"
  from snoc.hyps(2) obtain v where v: "reduceBody u (eventId ev) (eventSequence ev) (eventSource ev) (body ev) = Inr v"
      "studentEvidence t = studentEvidence v" "evidenceHistory t = evidenceHistory v"
    by (auto simp: reduceSessionEvent_iff)
  have "keeps v s (said ?P evs @ statement ?P ev)"
  proof (cases "isEvidenceBody (body ev)")
    case True
    with v(1) snoc.IH show ?thesis
      by (cases "body ev") (auto simp: isEvidenceBody_def statement_def
          dest: keeps_updated [OF _ snoc.IH] keeps_invalidated [OF _ snoc.IH, where eid = "eventId ev"])
  next
    case False
    then have "evidenceAbout (body ev) = None" by (cases "body ev") (auto simp: isEvidenceBody_def)
    with evidence_frame [OF v(1) False] snoc.IH show ?thesis by (simp add: keeps_def statement_def)
  qed
  then show ?case using v(2,3) by (simp add: keeps_def)
qed

definition barFree :: "EvidenceKey \<Rightarrow> bool" where
  "barFree k \<longleftrightarrow> CHR ''|'' \<notin> set (ekProblemId k) \<union> set (evidenceSubjectId (ekSubject k))"

lemma said_cong: "(\<And>ev k v. ev \<in> set evs \<Longrightarrow> evidenceAbout (body ev) = Some (k, v) \<Longrightarrow> P k = Q k) \<Longrightarrow> said P evs = said Q evs"
  unfolding said_def by (intro arg_cong [where f = concat] map_cong) (auto simp: statement_def split: option.splits)

text \<open>
  Property C26. As long as no id of an evidence key contains a bar, what a session knows about a key is
  what its log says about that key and about nothing else: the current evidence is the value of the last
  event of the key, none when that event withdrew it or there was none; the history holds one record per
  update of the key, in the order of the log, with the event's id, key and value; and the last record,
  and only it, is active as long as it has not been withdrawn. Events of other keys change none of it.
\<close>

theorem evidence_is_what_the_log_says:
  assumes "replaySession sid evs = Inr st" and "barFree k"
    and "\<forall>ev \<in> set evs. \<forall>l v. evidenceAbout (body ev) = Some (l, v) \<longrightarrow> barFree l"
  shows "dget (studentEvidence st) (evidenceKeyToString k) = lastSaid (said (\<lambda>l. l = k) evs)
     \<and> map (\<lambda>r. (erEvidenceEventId r, erKey r, Some (erValue r))) (recordsFor (evidenceHistory st) (evidenceKeyToString k))
         = filter (\<lambda>(_, _, v). v \<noteq> None) (said (\<lambda>l. l = k) evs)
     \<and> activeRecords (recordsFor (evidenceHistory st) (evidenceKeyToString k))
         = (if lastSaid (said (\<lambda>l. l = k) evs) = None then []
            else [last (recordsFor (evidenceHistory st) (evidenceKeyToString k))])"
proof -
  have "said (\<lambda>l. evidenceKeyToString l = evidenceKeyToString k) evs = said (\<lambda>l. l = k) evs"
    using assms(2,3) by (intro said_cong) (auto simp: barFree_def evidenceKeyToString_inject_without_bar)
  with keeps_replay [OF assms(1), of "evidenceKeyToString k"] show ?thesis by (simp add: keeps_def)
qed

text \<open>Two keys of one problem: the evidence of the first is updated twice, that of the second withdrawn.\<close>

definition progressKey :: EvidenceKey where
  "progressKey = \<lparr> ekProblemId = ''p'', ekSubject = CLAIM ''c'', ekDimension = PROGRESS \<rparr>"

definition skillKey :: EvidenceKey where
  "skillKey = \<lparr> ekProblemId = ''p'', ekSubject = SKILL ''c'', ekDimension = PROGRESS \<rparr>"

definition twoKeys :: "SessionEvent list" where
  "twoKeys = sampleLog 1 [SESSION_STARTED ''Oxford'' None None,
     STUDENT_EVIDENCE_UPDATED progressKey (sampleValue PROGRESSING ''e1'' 2) None,
     STUDENT_EVIDENCE_UPDATED skillKey (sampleValue STALLED ''e1'' 3) None,
     STUDENT_EVIDENCE_UPDATED progressKey (sampleValue COMPLETE ''e1'' 4) (Some ''e2''),
     STUDENT_EVIDENCE_INVALIDATED skillKey ''e3'' ''withdrawn'']"

theorem evidence_is_what_the_log_says_witness:
  "\<exists>st. replaySession ''s1'' twoKeys = Inr st
     \<and> dget (studentEvidence st) (evidenceKeyToString progressKey) = Some (sampleValue COMPLETE ''e1'' 4)
     \<and> map erEvidenceEventId (recordsFor (evidenceHistory st) (evidenceKeyToString progressKey)) = [''e2'', ''e4'']
     \<and> dget (studentEvidence st) (evidenceKeyToString skillKey) = None
     \<and> map erEvidenceEventId (recordsFor (evidenceHistory st) (evidenceKeyToString skillKey)) = [''e3'']
     \<and> activeRecords (recordsFor (evidenceHistory st) (evidenceKeyToString skillKey)) = []"
proof -
  have "isOk (replaySession ''s1'' twoKeys)" by code_simp
  then obtain st where st: "replaySession ''s1'' twoKeys = Inr st" by (auto simp: isOk_iff)
  have free: "\<forall>ev \<in> set twoKeys. \<forall>l v. evidenceAbout (body ev) = Some (l, v) \<longrightarrow> barFree l"
    by (auto simp: twoKeys_def sampleEvent_def progressKey_def skillKey_def barFree_def)
  have keys: "barFree progressKey" "barFree skillKey" by (simp_all add: barFree_def progressKey_def skillKey_def)
  have ids: "map erEvidenceEventId rs = map fst (map (\<lambda>r. (erEvidenceEventId r, erKey r, Some (erValue r))) rs)" for rs
    by (simp add: comp_def)
  have "lastSaid (said (\<lambda>l. l = progressKey) twoKeys) = Some (sampleValue COMPLETE ''e1'' 4)"
      "map fst (filter (\<lambda>(_, _, v). v \<noteq> None) (said (\<lambda>l. l = progressKey) twoKeys)) = [''e2'', ''e4'']"
      "lastSaid (said (\<lambda>l. l = skillKey) twoKeys) = None"
      "map fst (filter (\<lambda>(_, _, v). v \<noteq> None) (said (\<lambda>l. l = skillKey) twoKeys)) = [''e3'']"
    by code_simp+
  with evidence_is_what_the_log_says [OF st keys(1) free] evidence_is_what_the_log_says [OF st keys(2) free] st
  show ?thesis unfolding ids by auto
qed

end
