(* ===== verification/Requests.thy ===== *)
theory Requests
  imports ReducerFrame Samples
begin

text \<open>
  The asynchronous requests of a session: vision, local compute and verification. The three tables
  share one contract, the locale \<open>settling\<close>: a request that has been answered or discarded keeps
  what was recorded. For vision and verification the replayed state also carries the provenance the
  reducer checked when it admitted the answer.
\<close>

section \<open>Settled requests\<close>

locale settling =
  fixes step :: "'s \<Rightarrow> 'x \<Rightarrow> ('e, 's) result"
    and look :: "'s \<Rightarrow> 'k \<Rightarrow> 'r option"
    and settled :: "'r \<Rightarrow> bool"
    and record_of :: "'r \<Rightarrow> 'v"
  assumes settled_step:
    "step s x = Inr t \<Longrightarrow> look s k = Some r \<Longrightarrow> settled r \<Longrightarrow>
       \<exists>r'. look t k = Some r' \<and> settled r' \<and> record_of r' = record_of r"
begin

lemma settled_run:
  "foldE step s xs = Inr t \<Longrightarrow> look s k = Some r \<Longrightarrow> settled r \<Longrightarrow>
     \<exists>r'. look t k = Some r' \<and> settled r' \<and> record_of r' = record_of r"
proof (induction xs arbitrary: s r)
  case Nil
  then show ?case by auto
next
  case (Cons x xs)
  then obtain u where u: "step s x = Inr u" "foldE step u xs = Inr t"
    by (auto simp: bindE_eq_Inr)
  from settled_step [OF u(1) Cons.prems(2,3)] obtain r1 where
    r1: "look u k = Some r1" "settled r1" "record_of r1 = record_of r" by blast
  from Cons.IH [OF u(2) r1(1,2)] r1(3) show ?case by auto
qed

end

lemma compute_settled_event:
  assumes "reduceSessionEvent st ev = Inr t" and "dget (localComputeRequests st) k = Some r"
    and "lcStatus r \<noteq> PENDING"
  shows "dget (localComputeRequests t) k = Some r"
proof (cases "isComputeBody (body ev)")
  case False
  with assms show ?thesis by (auto simp: reduceSessionEvent_iff dest!: compute_frame)
next
  case True
  with assms show ?thesis
    by (cases "body ev") (auto simp: reduceSessionEvent_iff isComputeBody_def dget_dput
        reduce_COMPUTE_REQUESTED_def reduce_COMPUTE_ACCEPTED_def reduce_COMPUTE_DISCARDED_def
        split: option.splits if_splits)
qed

lemma verification_settled_event:
  assumes "reduceSessionEvent st ev = Inr t" and "dget (verificationRequests st) k = Some r"
    and "vfStatus r \<noteq> PENDING"
  shows "dget (verificationRequests t) k = Some r"
proof (cases "isVerificationBody (body ev)")
  case False
  with assms show ?thesis by (auto simp: reduceSessionEvent_iff dest!: verification_frame)
next
  case True
  with assms show ?thesis
    by (cases "body ev") (auto simp: reduceSessionEvent_iff isVerificationBody_def dget_dput
        reduce_VERIFICATION_REQUESTED_def reduce_VERIFICATION_ACCEPTED_def
        reduce_VERIFICATION_DISCARDED_def split: option.splits if_splits)
qed

text \<open>A vision request keeps everything but the state of its evidence bridge.\<close>

definition visionRecord :: "VisionRequestState \<Rightarrow> VisionRequestState" where
  "visionRecord r = r\<lparr> vsEvidenceBridge := None \<rparr>"

lemma bridge_decided_iff:
  "reduce_BRIDGE_DECIDED st eid rid f p = Inr t \<longleftrightarrow>
     (\<exists>request resultId.
        dget (visionRequests st) rid = Some request \<and> vsStatus request = ACCEPTED
        \<and> vsResultEventId request = Some resultId \<and> vsAcceptedObservation request \<noteq> None
        \<and> vsEvidenceBridge request = Some (Bridge_PENDING f)
        \<and> opt_all (proposalProvenanceOk st resultId) p
        \<and> t = st\<lparr> visionRequests := dput rid (request\<lparr> vsEvidenceBridge :=
             Some (case p of None \<Rightarrow> Decided_NO_PROPOSAL f eid
                   | Some q \<Rightarrow> Decided_PROPOSAL f q eid) \<rparr>) (visionRequests st) \<rparr>)"
  by (auto simp: reduce_BRIDGE_DECIDED_def split: option.splits if_splits RequestStatus.splits
      VisionEvidenceBridgeState.splits)

lemma bridge_completed_iff:
  "reduce_BRIDGE_COMPLETED st eid rid f c = Inr t \<longleftrightarrow>
     (\<exists>request resultId q d.
        dget (visionRequests st) rid = Some request \<and> vsStatus request = ACCEPTED
        \<and> vsResultEventId request = Some resultId
        \<and> vsEvidenceBridge request = Some (Decided_PROPOSAL f q d)
        \<and> q \<in> set (evidenceProposals st) \<and> evidenceMentions (evidenceHistory st) resultId = c
        \<and> t = st\<lparr> visionRequests := dput rid (request\<lparr> vsEvidenceBridge :=
             Some (Bridge_COMPLETED f q d c eid) \<rparr>) (visionRequests st) \<rparr>)"
  by (auto simp: reduce_BRIDGE_COMPLETED_def list_ex_iff split: option.splits if_splits
      RequestStatus.splits VisionEvidenceBridgeState.splits)

lemma vision_accepted_iff:
  "reduce_VISION_ACCEPTED st eid sq p = Inr t \<longleftrightarrow>
     (\<exists>request. dget (visionRequests st) (vaVisionRequestId p) = Some request
        \<and> vsStatus request = PENDING
        \<and> obSourceBoardRevision (vaObservation p) = vsSourceBoardRevision request
        \<and> obRegionId (vaObservation p) = vsRegionId request
        \<and> sameStringSet (case vaAdmission p of None \<Rightarrow> obRelevantShapeIds (vaObservation p)
             | Some a \<Rightarrow> aoSourceRelevantShapeIds a) (vsRelevantShapeIds request)
        \<and> (\<forall>a. vaAdmission p = Some a \<longrightarrow>
             checkAdmission st request (vaVisionRequestId p) (vaObservation p) a = Inr ())
        \<and> t = st\<lparr> visionRequests := dput (vaVisionRequestId p)
             (request\<lparr> vsStatus := ACCEPTED, vsObservation := Some (vaObservation p),
                vsAcceptedObservation := (case vaAdmission p of None \<Rightarrow> vsAcceptedObservation request
                   | Some a \<Rightarrow> Some a),
                vsResultEventId := Some eid, vsResultSequence := Some sq,
                vsEvidenceBridge := bridgeAfterAcceptance (vaEvidenceInterpreterFingerprint p)
                   (vsEvidenceBridge request) \<rparr>) (visionRequests st) \<rparr>)"
  by (auto simp: reduce_VISION_ACCEPTED_def Let_def bindE_eq_Inr
      split: option.splits if_splits)

lemma vision_settled_event:
  assumes "reduceSessionEvent st ev = Inr t" and "dget (visionRequests st) k = Some r"
    and "vsStatus r \<noteq> PENDING"
  shows "\<exists>r'. dget (visionRequests t) k = Some r' \<and> vsStatus r' \<noteq> PENDING
     \<and> visionRecord r' = visionRecord r"
proof (cases "isVisionBody (body ev)")
  case False
  with assms show ?thesis by (auto simp: reduceSessionEvent_iff dest!: vision_frame)
next
  case True
  with assms show ?thesis
    by (cases "body ev") (auto simp: reduceSessionEvent_iff isVisionBody_def dget_dput visionRecord_def
        reduce_VISION_REQUESTED_def vision_accepted_iff bridge_decided_iff bridge_completed_iff
        reduce_VISION_DISCARDED_def split: option.splits if_splits)
qed

interpretation compute: settling reduceSessionEvent "\<lambda>st. dget (localComputeRequests st)"
  "\<lambda>r. lcStatus r \<noteq> PENDING" "\<lambda>r. r"
  by unfold_locales (auto dest: compute_settled_event)

interpretation verification: settling reduceSessionEvent "\<lambda>st. dget (verificationRequests st)"
  "\<lambda>r. vfStatus r \<noteq> PENDING" "\<lambda>r. r"
  by unfold_locales (auto dest: verification_settled_event)

interpretation vision: settling reduceSessionEvent "\<lambda>st. dget (visionRequests st)"
  "\<lambda>r. vsStatus r \<noteq> PENDING" visionRecord
  by unfold_locales (rule vision_settled_event)

text \<open>
  Property C18. Requests settle once: over any run of events, a compute or verification request that
  was accepted or discarded keeps exactly the recorded outcome, and a settled vision request keeps
  everything except the state of its evidence bridge. A late or duplicate answer changes nothing.
\<close>

theorem settled_requests_frozen:
  assumes "foldE reduceSessionEvent st evs = Inr t"
  shows "(\<forall>r. dget (localComputeRequests st) k = Some r \<and> lcStatus r \<noteq> PENDING \<longrightarrow>
            dget (localComputeRequests t) k = Some r)
     \<and> (\<forall>r. dget (verificationRequests st) k = Some r \<and> vfStatus r \<noteq> PENDING \<longrightarrow>
            dget (verificationRequests t) k = Some r)
     \<and> (\<forall>r. dget (visionRequests st) k = Some r \<and> vsStatus r \<noteq> PENDING \<longrightarrow>
            (\<exists>r'. dget (visionRequests t) k = Some r' \<and> visionRecord r' = visionRecord r))"
  using compute.settled_run [OF assms, of k] verification.settled_run [OF assms, of k]
    vision.settled_run [OF assms, of k]
  by blast

theorem settled_requests_frozen_witness:
  "\<exists>st t r. foldE reduceSessionEvent st (drop 3 sampleVerification) = Inr t
     \<and> dget (verificationRequests st) ''q1'' = Some r \<and> vfStatus r = ACCEPTED
     \<and> dget (verificationRequests t) ''q1'' = Some r"
proof -
  have "(case replaySession ''s1'' (take 3 sampleVerification) of Inl _ \<Rightarrow> False
      | Inr s \<Rightarrow> (case dget (verificationRequests s) ''q1'' of None \<Rightarrow> False
                 | Some r \<Rightarrow> vfStatus r = ACCEPTED)
          \<and> isOk (foldE reduceSessionEvent s (drop 3 sampleVerification)))" by code_simp
  from sampleE [OF this] obtain st t r where
    st: "foldE reduceSessionEvent st (drop 3 sampleVerification) = Inr t"
    "dget (verificationRequests st) ''q1'' = Some r" "vfStatus r = ACCEPTED"
    by (auto simp: isOk_iff split: option.splits)
  with settled_requests_frozen [OF st(1), of "''q1''"] show ?thesis by auto
qed

section \<open>Provenance of accepted answers\<close>

definition verificationOk :: "VerificationRequestState \<Rightarrow> bool" where
  "verificationOk r =
     (case vfStatus r of
        PENDING \<Rightarrow> vfResult r = None \<and> vfResultEventId r = None \<and> vfDiscardReason r = None
      | ACCEPTED \<Rightarrow> (case vfResult r of None \<Rightarrow> False
           | Some res \<Rightarrow> vrVerifier res = vqVerifier (vfRequest r)
               \<and> vrInterpretationConfidence res = vqInterpretationConfidence (vfRequest r))
      | DISCARDED \<Rightarrow> vfResult r = None)"

definition visionOk :: "SessionId \<Rightarrow> RequestId \<Rightarrow> VisionRequestState \<Rightarrow> bool" where
  "visionOk sid k r =
     (case vsStatus r of
        PENDING \<Rightarrow> vsObservation r = None \<and> vsAcceptedObservation r = None
          \<and> vsResultEventId r = None \<and> vsEvidenceBridge r = None
      | ACCEPTED \<Rightarrow> (case vsObservation r of None \<Rightarrow> False
           | Some ob \<Rightarrow> obSourceBoardRevision ob = vsSourceBoardRevision r \<and> obRegionId ob = vsRegionId r
               \<and> opt_all (\<lambda>a. aoRequestId a = k \<and> aoSessionId a = sid \<and> aoObservation a = ob
                    \<and> vsSnapshotBasis r = Some (aoSnapshotBasis a)
                    \<and> vsRegionBounds r = Some (obBounds ob)
                    \<and> set (aoSourceRelevantShapeIds a) \<subseteq> set (vsRelevantShapeIds r))
                  (vsAcceptedObservation r))
      | DISCARDED \<Rightarrow> vsObservation r = None \<and> vsAcceptedObservation r = None
          \<and> vsEvidenceBridge r = None)"

text \<open>A proposal the bridge decided on cites the accepted observation and nothing else.\<close>

definition bridgeOk :: "EvidenceProposal list \<Rightarrow> VisionRequestState \<Rightarrow> bool" where
  "bridgeOk proposals r =
     (case vsEvidenceBridge r of
        Some (Decided_PROPOSAL f q d) \<Rightarrow>
          vsStatus r = ACCEPTED \<and> vsResultEventId r = Some (hd (epEvidenceEventIds q))
          \<and> length (epEvidenceEventIds q) = 1
      | Some (Bridge_COMPLETED f q d c e) \<Rightarrow>
          vsStatus r = ACCEPTED \<and> vsResultEventId r = Some (hd (epEvidenceEventIds q))
          \<and> length (epEvidenceEventIds q) = 1 \<and> q \<in> set proposals
      | _ \<Rightarrow> True)"

lemma proposals_grow:
  "reduceBody st ei sq so b = Inr t \<Longrightarrow> set (evidenceProposals st) \<subseteq> set (evidenceProposals t)"
  by (cases b) (auto dest!: footprint)

lemma bridgeOk_mono: "bridgeOk ps r \<Longrightarrow> set ps \<subseteq> set qs \<Longrightarrow> bridgeOk qs r"
  by (auto simp: bridgeOk_def split: option.splits VisionEvidenceBridgeState.splits)

lemma verificationOk_update:
  "verificationOk \<lparr> vfRequest = q, vfRequestedEventId = e, vfStatus = PENDING, vfResult = None,
     vfResultEventId = None, vfResultSequence = None, vfDiscardReason = None \<rparr>"
  "vqVerifier (vfRequest r) = vrVerifier res \<Longrightarrow>
     vqInterpretationConfidence (vfRequest r) = vrInterpretationConfidence res \<Longrightarrow>
     verificationOk (r\<lparr> vfStatus := ACCEPTED, vfResult := Some res, vfResultEventId := x,
       vfResultSequence := y \<rparr>)"
  "verificationOk r \<Longrightarrow> vfStatus r = PENDING \<Longrightarrow>
     verificationOk (r\<lparr> vfStatus := DISCARDED, vfDiscardReason := z \<rparr>)"
  by (simp_all add: verificationOk_def)

lemma verificationOk_body:
  assumes "reduceBody st ei sq so b = Inr t"
    and "\<And>k r. dget (verificationRequests st) k = Some r \<Longrightarrow> verificationOk r"
    and "dget (verificationRequests t) k = Some r"
  shows "verificationOk r"
proof (cases "isVerificationBody b")
  case False
  with assms show ?thesis by (auto dest!: verification_frame)
next
  case True
  with assms show ?thesis
    by (cases b) (auto simp: isVerificationBody_def dget_dput verificationOk_update
        reduce_VERIFICATION_REQUESTED_def reduce_VERIFICATION_ACCEPTED_def
        reduce_VERIFICATION_DISCARDED_def split: option.splits if_splits RequestStatus.splits)
qed

lemma checkAdmission_Inr:
  "checkAdmission st r rid ob a = Inr () \<Longrightarrow>
     aoRequestId a = rid \<and> aoSessionId a = sessionId st \<and> aoObservation a = ob
     \<and> vsSnapshotBasis r = Some (aoSnapshotBasis a) \<and> vsRegionBounds r = Some (obBounds ob)"
  by (auto simp: checkAdmission_def split: option.splits if_splits)

lemma sameStringSet_subset: "sameStringSet l r \<Longrightarrow> set l \<subseteq> set r"
  by (auto simp: sameStringSet_def list_all_iff split: if_splits)

definition visionAll :: "SessionState \<Rightarrow> bool" where
  "visionAll st = (\<forall>k r. dget (visionRequests st) k = Some r \<longrightarrow> visionOk (sessionId st) k r)"

lemma visionAll_get: "visionAll st \<Longrightarrow> dget (visionRequests st) k = Some r \<Longrightarrow> visionOk (sessionId st) k r"
  by (simp add: visionAll_def)

lemma visionAll_put:
  "visionAll st \<Longrightarrow> visionOk (sessionId st) k r \<Longrightarrow>
     visionAll (st\<lparr> visionRequests := dput k r (visionRequests st) \<rparr>)"
  by (simp add: visionAll_def dget_dput)

lemma visionOk_new:
  "visionOk sid k \<lparr> vsVisionRequestId = i, vsSourceBoardRevision = b, vsRegionId = rg,
     vsRelevantShapeIds = ss, vsSnapshotBasis = sb, vsRelevantShapeRevisions = sr, vsRegionBounds = rb,
     vsRequestedObservationKind = ok, vsStatus = PENDING, vsObservation = None,
     vsAcceptedObservation = None, vsResultEventId = None, vsResultSequence = None,
     vsEvidenceBridge = None, vsDiscardReason = None \<rparr>"
  by (simp add: visionOk_def)

lemma visionOk_discard:
  "visionOk sid k r \<Longrightarrow> vsStatus r = PENDING \<Longrightarrow>
     visionOk sid k (r\<lparr> vsStatus := DISCARDED, vsDiscardReason := z \<rparr>)"
  by (simp add: visionOk_def)

lemma visionOk_bridge:
  "visionOk sid k r \<Longrightarrow> vsStatus r = ACCEPTED \<Longrightarrow> visionOk sid k (r\<lparr> vsEvidenceBridge := x \<rparr>)"
  by (simp add: visionOk_def split: option.splits)

lemma visionAll_accepted:
  assumes "reduce_VISION_ACCEPTED st ei sq p = Inr t" and "visionAll st"
  shows "visionAll t"
proof -
  from assms(1) obtain request where req: "dget (visionRequests st) (vaVisionRequestId p) = Some request"
    "vsStatus request = PENDING"
    "obSourceBoardRevision (vaObservation p) = vsSourceBoardRevision request"
    "obRegionId (vaObservation p) = vsRegionId request"
    "sameStringSet (case vaAdmission p of None \<Rightarrow> obRelevantShapeIds (vaObservation p)
             | Some a \<Rightarrow> aoSourceRelevantShapeIds a) (vsRelevantShapeIds request)"
    "\<forall>a. vaAdmission p = Some a \<longrightarrow>
             checkAdmission st request (vaVisionRequestId p) (vaObservation p) a = Inr ()"
    and t: "t = st\<lparr> visionRequests := dput (vaVisionRequestId p)
             (request\<lparr> vsStatus := ACCEPTED, vsObservation := Some (vaObservation p),
                vsAcceptedObservation := (case vaAdmission p of None \<Rightarrow> vsAcceptedObservation request
                   | Some a \<Rightarrow> Some a),
                vsResultEventId := Some ei, vsResultSequence := Some sq,
                vsEvidenceBridge := bridgeAfterAcceptance (vaEvidenceInterpreterFingerprint p)
                   (vsEvidenceBridge request) \<rparr>) (visionRequests st) \<rparr>"
    by (auto simp: vision_accepted_iff)
  from visionAll_get [OF assms(2) req(1)] req(2) have "vsAcceptedObservation request = None"
    by (simp add: visionOk_def)
  with req(3-6) show ?thesis unfolding t
    by (intro visionAll_put [OF assms(2)])
       (auto simp: visionOk_def dest: checkAdmission_Inr sameStringSet_subset split: option.splits)
qed

lemma visionAll_body:
  assumes "reduceBody st ei sq so b = Inr t" and "visionAll st"
  shows "visionAll t"
proof (cases "isVisionBody b")
  case False
  with assms vision_frame [OF assms(1)] always_frame [OF assms(1)] show ?thesis
    by (simp add: visionAll_def)
next
  case True
  with assms show ?thesis
    by (cases b) (auto simp: isVisionBody_def reduce_VISION_REQUESTED_def bridge_decided_iff
        bridge_completed_iff reduce_VISION_DISCARDED_def
        intro: visionAll_put visionOk_new visionOk_discard visionOk_bridge visionAll_get
          visionAll_accepted split: option.splits if_splits)
qed

section \<open>The evidence bridge\<close>

definition bridgeAll :: "SessionState \<Rightarrow> bool" where
  "bridgeAll st =
     (\<forall>k r. dget (visionRequests st) k = Some r \<longrightarrow> bridgeOk (evidenceProposals st) r)"

lemma bridgeAll_put:
  "bridgeAll st \<Longrightarrow> bridgeOk (evidenceProposals st) r \<Longrightarrow>
     bridgeAll (st\<lparr> visionRequests := dput k r (visionRequests st) \<rparr>)"
  by (simp add: bridgeAll_def dget_dput)

lemma bridgeAll_get:
  "bridgeAll st \<Longrightarrow> dget (visionRequests st) k = Some r \<Longrightarrow> bridgeOk (evidenceProposals st) r"
  by (simp add: bridgeAll_def)

lemma bridgeOk_accept:
  "bridgeOk ps r \<Longrightarrow> vsStatus r = PENDING \<Longrightarrow>
     bridgeOk ps (r\<lparr> vsStatus := s, vsObservation := ob, vsAcceptedObservation := a,
       vsResultEventId := e, vsResultSequence := n,
       vsEvidenceBridge := bridgeAfterAcceptance fp (vsEvidenceBridge r) \<rparr>)"
  by (auto simp: bridgeOk_def bridgeAfterAcceptance_def
      split: option.splits VisionEvidenceBridgeState.splits)

lemma bridgeOk_discard:
  "bridgeOk ps r \<Longrightarrow> vsStatus r = PENDING \<Longrightarrow>
     bridgeOk ps (r\<lparr> vsStatus := DISCARDED, vsDiscardReason := z \<rparr>)"
  by (auto simp: bridgeOk_def split: option.splits VisionEvidenceBridgeState.splits)

lemma bridgeOk_decide:
  "bridgeOk ps (r\<lparr> vsEvidenceBridge := Some (Decided_NO_PROPOSAL f e) \<rparr>)"
  "vsStatus r = ACCEPTED \<Longrightarrow> vsResultEventId r = Some i \<Longrightarrow> proposalProvenanceOk st i q \<Longrightarrow>
     bridgeOk ps (r\<lparr> vsEvidenceBridge := Some (Decided_PROPOSAL f q e) \<rparr>)"
  by (auto simp: bridgeOk_def proposalProvenanceOk_def)

lemma bridgeOk_complete:
  "bridgeOk ps r \<Longrightarrow> vsEvidenceBridge r = Some (Decided_PROPOSAL f q d) \<Longrightarrow> q \<in> set ps \<Longrightarrow>
     bridgeOk ps (r\<lparr> vsEvidenceBridge := Some (Bridge_COMPLETED f q d c e) \<rparr>)"
  by (simp add: bridgeOk_def)

lemma bridgeOk_new: "vsEvidenceBridge r = None \<Longrightarrow> bridgeOk ps r"
  by (simp add: bridgeOk_def)

lemma bridgeAll_accepted:
  "reduce_VISION_ACCEPTED st ei sq p = Inr t \<Longrightarrow> bridgeAll st \<Longrightarrow> bridgeAll t"
  by (auto simp: vision_accepted_iff intro!: bridgeAll_put bridgeOk_accept
      intro: bridgeAll_get)

lemma bridgeAll_body:
  assumes "reduceBody st ei sq so b = Inr t" and "bridgeAll st"
  shows "bridgeAll t"
proof (cases "isVisionBody b")
  case False
  with assms vision_frame [OF assms(1)] proposals_grow [OF assms(1)] show ?thesis
    by (auto simp: bridgeAll_def intro: bridgeOk_mono)
next
  case True
  with assms show ?thesis
    by (cases b) (auto simp: isVisionBody_def reduce_VISION_REQUESTED_def bridge_decided_iff
        bridge_completed_iff reduce_VISION_DISCARDED_def bridgeOk_new
        intro!: bridgeAll_put intro: bridgeOk_discard bridgeOk_decide bridgeOk_complete
          bridgeAll_get bridgeAll_accepted split: option.splits if_splits)
qed

section \<open>Replayed provenance\<close>

definition requestsOk :: "SessionState \<Rightarrow> bool" where
  "requestsOk st =
     ((\<forall>k r. dget (verificationRequests st) k = Some r \<longrightarrow> verificationOk r)
      \<and> visionAll st \<and> bridgeAll st)"

lemma requestsOk_log [simp]: "requestsOk (u\<lparr> sequence := n, eventIds := is \<rparr>) = requestsOk u"
  by (simp add: requestsOk_def visionAll_def bridgeAll_def)

lemma requestsOk_event: "requestsOk st \<Longrightarrow> reduceSessionEvent st ev = Inr t \<Longrightarrow> requestsOk t"
  by (auto simp: reduceSessionEvent_iff)
     (auto simp: requestsOk_def intro: verificationOk_body visionAll_body bridgeAll_body)

lemma requestsOk_initial: "requestsOk (initialSessionState sid)"
  by (simp add: requestsOk_def visionAll_def bridgeAll_def initialSessionState_def)

lemma requestsOk_replay: "replaySession sid evs = Inr st \<Longrightarrow> requestsOk st"
  by (erule replay_invariant) (auto intro: requestsOk_event requestsOk_initial)

text \<open>
  Every accepted vision answer of a replayed session has verified provenance: its
  observation is of the requested board revision and region, and an admission names this request and
  this session, carries the same observation, the snapshot and the bounds that were requested, and
  depends only on the requested shapes. A discarded request holds no observation.
\<close>

theorem accepted_vision_provenance:
  assumes "replaySession sid evs = Inr st" and "dget (visionRequests st) k = Some r"
  shows "(vsStatus r = ACCEPTED \<longrightarrow> (\<exists>ob. vsObservation r = Some ob
        \<and> obSourceBoardRevision ob = vsSourceBoardRevision r \<and> obRegionId ob = vsRegionId r
        \<and> (\<forall>a. vsAcceptedObservation r = Some a \<longrightarrow>
             aoRequestId a = k \<and> aoSessionId a = sessionId st \<and> aoObservation a = ob
             \<and> vsSnapshotBasis r = Some (aoSnapshotBasis a) \<and> vsRegionBounds r = Some (obBounds ob)
             \<and> set (aoSourceRelevantShapeIds a) \<subseteq> set (vsRelevantShapeIds r))))
     \<and> (vsStatus r \<noteq> ACCEPTED \<longrightarrow> vsObservation r = None \<and> vsAcceptedObservation r = None)"
proof -
  have ok: "visionOk (sessionId st) k r"
    using requestsOk_replay [OF assms(1)] assms(2) by (simp add: requestsOk_def visionAll_def)
  show ?thesis
  proof (cases "vsStatus r")
    case ACCEPTED
    with ok obtain ob where "vsObservation r = Some ob"
      by (auto simp: visionOk_def split: option.splits)
    with ok ACCEPTED show ?thesis by (cases "vsAcceptedObservation r") (auto simp: visionOk_def)
  qed (use ok in \<open>simp_all add: visionOk_def\<close>)
qed

theorem accepted_vision_provenance_witness:
  "\<exists>st r ob. replaySession ''s1'' (take 4 sampleVision) = Inr st
     \<and> dget (visionRequests st) ''v1'' = Some r \<and> vsStatus r = ACCEPTED
     \<and> vsObservation r = Some ob \<and> obRegionId ob = vsRegionId r"
proof -
  have "(case replaySession ''s1'' (take 4 sampleVision) of Inl _ \<Rightarrow> False
      | Inr s \<Rightarrow> (case dget (visionRequests s) ''v1'' of None \<Rightarrow> False
                 | Some r \<Rightarrow> vsStatus r = ACCEPTED))" by code_simp
  from sampleE [OF this] obtain st r where
    st: "replaySession ''s1'' (take 4 sampleVision) = Inr st"
    "dget (visionRequests st) ''v1'' = Some r" "vsStatus r = ACCEPTED"
    by (auto split: option.splits)
  with accepted_vision_provenance [OF st(1,2)] show ?thesis by blast
qed

text \<open>
  Evidence proposed by the vision bridge cites exactly the event that accepted the
  observation, and the bridge is completed only for a proposal that went through evidence admission.
\<close>

theorem bridge_proposal_provenance:
  assumes "replaySession sid evs = Inr st" and "dget (visionRequests st) k = Some r"
  shows "(vsEvidenceBridge r = Some (Decided_PROPOSAL f q d) \<longrightarrow>
        vsStatus r = ACCEPTED
        \<and> (\<exists>e. vsResultEventId r = Some e \<and> epEvidenceEventIds q = [e]))
     \<and> (vsEvidenceBridge r = Some (Bridge_COMPLETED f q d c e') \<longrightarrow>
        vsStatus r = ACCEPTED \<and> q \<in> set (evidenceProposals st)
        \<and> (\<exists>e. vsResultEventId r = Some e \<and> epEvidenceEventIds q = [e]))"
proof -
  have "bridgeOk (evidenceProposals st) r"
    using requestsOk_replay [OF assms(1)] assms(2) by (simp add: requestsOk_def bridgeAll_def)
  then show ?thesis by (auto simp: bridgeOk_def length_Suc_conv)
qed

theorem bridge_proposal_provenance_witness:
  "\<exists>st r q. replaySession ''s1'' sampleVision = Inr st
     \<and> dget (visionRequests st) ''v1'' = Some r
     \<and> vsEvidenceBridge r = Some (Bridge_COMPLETED ''f1'' q ''e5'' False ''e7'')
     \<and> q \<in> set (evidenceProposals st)"
proof -
  have "(case replaySession ''s1'' sampleVision of Inl _ \<Rightarrow> False
      | Inr s \<Rightarrow> (case dget (visionRequests s) ''v1'' of None \<Rightarrow> False
                 | Some r \<Rightarrow> vsEvidenceBridge r
                     = Some (Bridge_COMPLETED ''f1'' sampleProposal ''e5'' False ''e7'')))" by code_simp
  from sampleE [OF this] obtain st r where
    st: "replaySession ''s1'' sampleVision = Inr st" "dget (visionRequests st) ''v1'' = Some r"
    "vsEvidenceBridge r = Some (Bridge_COMPLETED ''f1'' sampleProposal ''e5'' False ''e7'')"
    by (auto split: option.splits)
  with bridge_proposal_provenance [OF st(1,2)] show ?thesis by blast
qed

text \<open>
  A verification result is attached to a request only if it names the request's verifier
  and the interpretation confidence of the request; requests that are pending or were discarded carry
  no result.
\<close>

theorem accepted_verification_matches:
  assumes "replaySession sid evs = Inr st" and "dget (verificationRequests st) k = Some r"
  shows "(case vfResult r of
        None \<Rightarrow> vfStatus r \<noteq> ACCEPTED
      | Some res \<Rightarrow> vfStatus r = ACCEPTED \<and> vrVerifier res = vqVerifier (vfRequest r)
          \<and> vrInterpretationConfidence res = vqInterpretationConfidence (vfRequest r))"
proof -
  have "verificationOk r"
    using requestsOk_replay [OF assms(1)] assms(2) by (simp add: requestsOk_def)
  then show ?thesis by (auto simp: verificationOk_def split: option.splits RequestStatus.splits)
qed

theorem accepted_verification_matches_witness:
  "\<exists>st r. replaySession ''s1'' sampleVerification = Inr st
     \<and> dget (verificationRequests st) ''q1'' = Some r
     \<and> (case vfResult r of None \<Rightarrow> vfStatus r \<noteq> ACCEPTED
        | Some res \<Rightarrow> vfStatus r = ACCEPTED \<and> vrVerifier res = vqVerifier (vfRequest r)
            \<and> vrInterpretationConfidence res = vqInterpretationConfidence (vfRequest r))"
proof -
  have "(case replaySession ''s1'' sampleVerification of Inl _ \<Rightarrow> False
      | Inr s \<Rightarrow> dget (verificationRequests s) ''q1'' \<noteq> None)" by code_simp
  from sampleE [OF this] obtain st r where
    st: "replaySession ''s1'' sampleVerification = Inr st"
    "dget (verificationRequests st) ''q1'' = Some r" by auto
  with accepted_verification_matches [OF st] show ?thesis by blast
qed

end
