(* ===== verification/BoardPatch.thy ===== *)
theory BoardPatch
  imports ReducerFrame Samples
begin

text \<open>
  The authoritative board. A normalized mutation is three loops over throwing single-shape updates;
  the locale \<open>keyed_patch\<close> says what such a loop does to a keyed table, and its interpretations on
  the three loops give the refinement: a valid mutation applies exactly when all its preconditions
  hold on the board before it, and its effect is one simultaneous update of the map of shapes.
\<close>

section \<open>A loop of keyed updates\<close>

locale keyed_patch =
  fixes look :: "'m \<Rightarrow> 'k \<Rightarrow> 'v option"
    and key :: "'x \<Rightarrow> 'k"
    and pre :: "'v option \<Rightarrow> 'x \<Rightarrow> bool"
    and new :: "'x \<Rightarrow> 'v option"
    and patch :: "'m \<Rightarrow> 'x \<Rightarrow> ('e, 'm) result"
  assumes patch_ok: "isOk (patch m x) \<longleftrightarrow> pre (look m (key x)) x"
    and patch_look: "patch m x = Inr m' \<Longrightarrow> look m' k = (if k = key x then new x else look m k)"
begin

lemma patches_look:
  "foldE patch m xs = Inr m' \<Longrightarrow> distinct (map key xs) \<Longrightarrow>
     look m' k = (case map_of (map (\<lambda>x. (key x, new x)) xs) k of None \<Rightarrow> look m k | Some v \<Rightarrow> v)"
proof (induction xs arbitrary: m)
  case Nil
  then show ?case by simp
next
  case (Cons x xs)
  then obtain m1 where m1: "patch m x = Inr m1" "foldE patch m1 xs = Inr m'"
    by (auto simp: bindE_eq_Inr)
  have "map_of (map (\<lambda>x. (key x, new x)) xs) (key x) = None"
    using Cons.prems(2) by (auto simp: map_of_eq_None_iff)
  with Cons.IH [OF m1(2)] Cons.prems(2) patch_look [OF m1(1), of k] show ?case
    by (cases "k = key x") (simp_all split: option.split)
qed

lemma patches_ok:
  "distinct (map key xs) \<Longrightarrow>
     isOk (foldE patch m xs) \<longleftrightarrow> (\<forall>x \<in> set xs. pre (look m (key x)) x)"
proof (induction xs arbitrary: m)
  case Nil
  then show ?case by simp
next
  case (Cons x xs)
  show ?case
  proof (cases "patch m x")
    case (Inl e)
    then show ?thesis using patch_ok [of m x] by simp
  next
    case (Inr m1)
    have "pre (look m (key x)) x" using patch_ok [of m x] Inr by simp
    moreover have "look m1 (key y) = look m (key y)" if "y \<in> set xs" for y
      using patch_look [OF Inr, of "key y"] Cons.prems that by (auto simp: image_iff)
    ultimately show ?thesis using Cons Inr by simp
  qed
qed

end

interpretation adds: keyed_patch dget shId "\<lambda>old _. old = None" Some addShape
  by unfold_locales (auto simp: addShape_def dget_dput split: if_splits)

interpretation updates: keyed_patch dget "\<lambda>e. shId (updatedShape e)"
    "\<lambda>old e. \<exists>s. old = Some s \<and> shRevision s = beforeRevision e" "\<lambda>e. Some (updatedShape e)" updateShape
  by unfold_locales (auto simp: updateShape_def dget_dput split: if_splits option.splits)

interpretation deletes: keyed_patch dget deletedShapeId
    "\<lambda>old e. \<exists>s. old = Some s \<and> shRevision s = deletedExpectedRevision e" "\<lambda>_. None" deleteShape
  by unfold_locales (auto simp: deleteShape_def dget_ddel split: if_splits option.splits)

section \<open>The mutation as one simultaneous update\<close>

type_synonym board = "string \<Rightarrow> AuthoritativeStudentShape option"

definition mutationApplies :: "board \<Rightarrow> NormalizedBoardMutation \<Rightarrow> bool" where
  "mutationApplies b m =
     ((\<forall>s \<in> set (mutAdded m). b (shId s) = None)
      \<and> (\<forall>e \<in> set (mutUpdated m). \<exists>s. b (shId (updatedShape e)) = Some s
            \<and> shRevision s = beforeRevision e)
      \<and> (\<forall>e \<in> set (mutDeleted m). \<exists>s. b (deletedShapeId e) = Some s
            \<and> shRevision s = deletedExpectedRevision e))"

definition boardAfter :: "board \<Rightarrow> NormalizedBoardMutation \<Rightarrow> board" where
  "boardAfter b m k =
     (if k \<in> deletedShapeId ` set (mutDeleted m) then None
      else case map_of (map (\<lambda>s. (shId s, s)) (mutAdded m)
          @ map (\<lambda>e. (shId (updatedShape e), updatedShape e)) (mutUpdated m)) k of
        Some s \<Rightarrow> Some s
      | None \<Rightarrow> b k)"

lemma map_of_Some: "map_of (map (\<lambda>x. (f x, Some (g x))) xs) k = map_option Some (map_of (map (\<lambda>x. (f x, g x)) xs) k)"
  by (induction xs) auto

lemma map_of_const: "map_of (map (\<lambda>x. (f x, c)) xs) k = (if k \<in> f ` set xs then Some c else None)"
  by (induction xs) auto

lemma mutationIds_distinct:
  assumes "distinct (mutationIds m)"
  shows "distinct (map shId (mutAdded m))" "distinct (map (\<lambda>e. shId (updatedShape e)) (mutUpdated m))"
    "distinct (map deletedShapeId (mutDeleted m))"
    "x \<in> set (mutAdded m) \<Longrightarrow> y \<in> set (mutUpdated m) \<Longrightarrow> shId x \<noteq> shId (updatedShape y)"
    "x \<in> set (mutAdded m) \<Longrightarrow> z \<in> set (mutDeleted m) \<Longrightarrow> shId x \<noteq> deletedShapeId z"
    "y \<in> set (mutUpdated m) \<Longrightarrow> z \<in> set (mutDeleted m) \<Longrightarrow> shId (updatedShape y) \<noteq> deletedShapeId z"
  using assms by (auto simp: mutationIds_def)

lemma adds_other:
  assumes "foldE addShape m xs = Inr m'" and "distinct (map shId xs)" and "\<forall>x \<in> set xs. shId x \<noteq> k"
  shows "dget m' k = dget m k"
  using adds.patches_look [OF assms(1,2), of k] assms(3)
  by (auto simp: map_of_eq_None_iff image_iff split: option.splits dest!: map_of_SomeD)

lemma updates_other:
  assumes "foldE updateShape m xs = Inr m'" and "distinct (map (\<lambda>e. shId (updatedShape e)) xs)"
    and "\<forall>x \<in> set xs. shId (updatedShape x) \<noteq> k"
  shows "dget m' k = dget m k"
  using updates.patches_look [OF assms(1,2), of k] assms(3)
  by (auto simp: map_of_eq_None_iff image_iff split: option.splits dest!: map_of_SomeD)

lemma applyMutation_ok:
  assumes "distinct (mutationIds m)"
  shows "isOk (applyMutation b m) \<longleftrightarrow> mutationApplies (dget b) m"
proof (cases "foldE addShape b (mutAdded m)")
  case (Inl e)
  with adds.patches_ok [OF mutationIds_distinct(1) [OF assms], of b] show ?thesis
    by (auto simp: applyMutation_def mutationApplies_def)
next
  case (Inr b1)
  note ids = mutationIds_distinct [OF assms]
  have b1: "dget b1 k = dget b k" if "\<forall>x \<in> set (mutAdded m). shId x \<noteq> k" for k
    using adds_other [OF Inr ids(1) that] .
  show ?thesis
  proof (cases "foldE updateShape b1 (mutUpdated m)")
    case (Inl e)
    with updates.patches_ok [OF ids(2), of b1] b1 ids(4) Inr show ?thesis
      by (simp add: applyMutation_def mutationApplies_def) 
  next
    case Inr2: (Inr b2)
    have b2: "dget b2 (deletedShapeId z) = dget b (deletedShapeId z)" if "z \<in> set (mutDeleted m)" for z
      using updates_other [OF Inr2 ids(2), of "deletedShapeId z"] b1 [of "deletedShapeId z"] ids(5,6) that
      by metis
    have "isOk (applyMutation b m) \<longleftrightarrow> isOk (foldE deleteShape b2 (mutDeleted m))"
      by (simp add: applyMutation_def Inr Inr2)
    with deletes.patches_ok [OF ids(3), of b2] b2 adds.patches_ok [OF ids(1), of b]
      updates.patches_ok [OF ids(2), of b1] b1 ids(4) Inr Inr2
    show ?thesis by (auto simp: mutationApplies_def)
  qed
qed

lemma applyMutation_look:
  assumes "distinct (mutationIds m)" and "applyMutation b m = Inr b'"
  shows "dget b' = boardAfter (dget b) m"
proof
  fix k
  from assms(2) obtain b1 b2 where fs: "foldE addShape b (mutAdded m) = Inr b1"
    "foldE updateShape b1 (mutUpdated m) = Inr b2" "foldE deleteShape b2 (mutDeleted m) = Inr b'"
    by (auto simp: applyMutation_def bindE_eq_Inr)
  note ids = mutationIds_distinct [OF assms(1)]
  show "dget b' k = boardAfter (dget b) m k"
    using adds.patches_look [OF fs(1) ids(1), of k] updates.patches_look [OF fs(2) ids(2), of k]
      deletes.patches_look [OF fs(3) ids(3), of k] ids(4)
    by (auto simp: boardAfter_def map_of_Some map_of_const map_of_eq_None_iff image_iff map_add_def
        split: option.splits dest!: map_of_SomeD)
qed

section \<open>Board patches\<close>

text \<open>
  Property C16. Refinement of the board: a patch with a mutation that the schema accepts is reduced
  exactly when it carries the next revision, is based on the current one, the shapes of the board are
  known, no added shape exists, and every updated or deleted shape exists at the expected revision.
  Its effect on the map of shapes is the simultaneous update \<open>boardAfter\<close>.
\<close>

theorem board_patch_refines:
  assumes "NormalizedBoardMutationSchema m"
  shows "(isOk (reduce_BOARD_PATCH st r (Some m)) \<longleftrightarrow>
            r = boardRevision st + 1 \<and> boardShapeAuthorityKnown st
            \<and> baseBoardRevision m = boardRevision st \<and> mutationApplies (dget (boardShapes st)) m)
     \<and> (\<forall>t. reduce_BOARD_PATCH st r (Some m) = Inr t \<longrightarrow>
            dget (boardShapes t) = boardAfter (dget (boardShapes st)) m \<and> boardRevision t = r
            \<and> boardShapeAuthorityKnown t)"
proof -
  have ids: "distinct (mutationIds m)"
    using assms by (simp add: NormalizedBoardMutationSchema_def)
  show ?thesis
    using applyMutation_ok [OF ids, of "boardShapes st"] applyMutation_look [OF ids, of "boardShapes st"]
    by (auto simp: reduce_BOARD_PATCH_def bindE_eq_Inr isOk_iff split: if_splits)
qed

lemma board_event:
  assumes "reduceSessionEvent st ev = Inr t"
  shows "boardRevision t = boardRevision st + (if isBoardBody (body ev) then 1 else 0)"
proof (cases "isBoardBody (body ev)")
  case True
  with assms show ?thesis
    by (cases "body ev") (auto simp: isBoardBody_def reduceSessionEvent_iff reduce_BOARD_PATCH_def
        bindE_eq_Inr split: if_splits option.splits)
next
  case False
  with assms show ?thesis by (auto simp: reduceSessionEvent_iff dest!: board_frame)
qed

text \<open>
  The board revision of a replayed session is the number of board patches in its log:
  revisions are never skipped, repeated or moved by any other event.
\<close>

theorem board_revision_counts_patches:
  assumes "replaySession sid evs = Inr st"
  shows "boardRevision st = length (filter (\<lambda>ev. isBoardBody (body ev)) evs)"
  using assms
proof (induction rule: replay_induct)
  case Nil
  then show ?case by (simp add: initialSessionState_def)
next
  case (snoc evs ev u t)
  then show ?case by (simp add: board_event)
qed

lemma sampleShape_valid:
  "BoardShapeIdSchema i \<Longrightarrow> PositiveSafeInteger n \<Longrightarrow> AuthoritativeStudentShapeSchema (sampleShape i n)"
proof -
  have bounds: "absSumWithin 0 10 2000000" by code_simp
  then have "AuthoritativeBoardBoundsSchema sampleBounds"
    by (simp add: AuthoritativeBoardBoundsSchema_def sampleBounds_def BoardCoordinateSchema_def
        inRange_def)
  then show "BoardShapeIdSchema i \<Longrightarrow> PositiveSafeInteger n \<Longrightarrow> ?thesis"
    by (simp add: AuthoritativeStudentShapeSchema_def sampleShape_def isSafeNat_def
        MAX_SAFE_INTEGER_def)
qed

lemma samplePatch_valid: "NormalizedBoardMutationSchema samplePatch"
proof -
  have ids: "BoardShapeIdSchema ''a''" "BoardShapeIdSchema ''b''" "BoardShapeIdSchema ''c''"
    by code_simp+
  have numbers: "PositiveSafeInteger 1" "PositiveSafeInteger 2"
    by (simp_all add: PositiveSafeInteger_def isSafeNat_def MAX_SAFE_INTEGER_def)
  have shapes: "AuthoritativeStudentShapeSchema (sampleShape ''a'' 2)"
    "AuthoritativeStudentShapeSchema (sampleShape ''c'' 1)"
    using ids numbers by (simp_all add: sampleShape_valid)
  have ids3: "mutationIds samplePatch = [''c'', ''a'', ''b'']"
    by (simp add: mutationIds_def samplePatch_def sampleShape_def)
  have "shRevision (sampleShape ''a'' 2) = 2" by (simp add: sampleShape_def)
  with ids numbers shapes show ?thesis
    by (simp add: NormalizedBoardMutationSchema_def ids3 MAX_BOARD_MUTATION_SHAPES_def)
       (simp add: samplePatch_def isSafeNat_def MAX_SAFE_INTEGER_def)
qed

theorem board_patch_refines_witness:
  "\<exists>st t. replaySession ''s1'' (take 2 sampleBoard) = Inr st
     \<and> reduce_BOARD_PATCH st 2 (Some samplePatch) = Inr t
     \<and> dget (boardShapes t) = boardAfter (dget (boardShapes st)) samplePatch"
proof -
  have "(case replaySession ''s1'' (take 2 sampleBoard) of Inl _ \<Rightarrow> False
      | Inr s \<Rightarrow> isOk (reduce_BOARD_PATCH s 2 (Some samplePatch)))" by code_simp
  from sampleE [OF this] obtain st t where "replaySession ''s1'' (take 2 sampleBoard) = Inr st"
    "reduce_BOARD_PATCH st 2 (Some samplePatch) = Inr t" by (auto simp: isOk_iff)
  with board_patch_refines [OF samplePatch_valid, of st 2] show ?thesis by blast
qed

theorem board_revision_counts_patches_witness:
  "\<exists>st. replaySession ''s1'' sampleBoard = Inr st \<and> boardRevision st = 2"
proof -
  have "isOk (replaySession ''s1'' sampleBoard)" by code_simp
  then obtain st where st: "replaySession ''s1'' sampleBoard = Inr st" by (auto simp: isOk_iff)
  have "length (filter (\<lambda>ev. isBoardBody (body ev)) sampleBoard) = 2" by code_simp
  with st board_revision_counts_patches [OF st] show ?thesis by simp
qed

end
