(* ===== verification/QuantSessions.thy ===== *)
theory QuantSessions
  imports ReducerFrame Samples
begin

text \<open>
  Quant sessions: the contiguous record of trading rounds and the fills the quotes allow, the
  research actions, and the end of a session, which needs a deterministic result.
\<close>

section \<open>Fills allowed by an action\<close>

definition volume :: "OrderSide \<Rightarrow> OrderFill list \<Rightarrow> nat" where
  "volume side fs = sum_list (map fillSize (filter (\<lambda>f. fillSide f = side) fs))"

text \<open>
  What the loop over the fills decides: a pass produces none; a quote is filled on each side at its
  own price and at most up to its size.
\<close>

fun fillsAllowed :: "QuantTradingCandidateAction \<Rightarrow> OrderFill list \<Rightarrow> bool" where
  "fillsAllowed PASS fs = (fs = [])"
| "fillsAllowed (QUOTE q) fs =
     ((\<forall>f \<in> set fs. fillPrice f = (if fillSide f = BUY then bidPrice q else askPrice q))
      \<and> volume BUY fs \<le> bidSize q \<and> volume SELL fs \<le> askSize q)"

lemma side_neq: "s \<noteq> BUY \<longleftrightarrow> s = SELL"
  by (cases s) simp_all

lemma fillVolumes_iff:
  "fillVolumes q fs b a = Inr (b', a') \<longleftrightarrow>
     (\<forall>f \<in> set fs. fillPrice f = (if fillSide f = BUY then bidPrice q else askPrice q))
     \<and> b' = b + volume BUY fs \<and> a' = a + volume SELL fs"
  by (induction fs arbitrary: b a) (auto simp: volume_def side_neq)

lemma checkFills_iff: "checkFills action fs = Inr () \<longleftrightarrow> fillsAllowed action fs"
  by (cases action) (auto simp: checkFills_def bindE_eq_Inr fillVolumes_iff)

section \<open>Trading rounds\<close>

definition tradingOk :: "QuantTradingSessionState \<Rightarrow> bool" where
  "tradingOk qt =
     (length (qtActions qt) = length (qtRounds qt) \<and> length (qtRounds qt) \<le> 256
      \<and> (\<forall>i < length (qtRounds qt). trRound (qtRounds qt ! i) = i + 1
            \<and> fillsAllowed (qtActions qt ! i) (trStudentFills (qtRounds qt ! i)))
      \<and> (\<forall>r. qtResult qt = Some r \<longrightarrow>
            qtPendingAction qt = None \<and> qrRoundsCompleted r = length (qtRounds qt)
            \<and> qtRounds qt \<noteq> [] \<and> qrSeed r = tdSeed (qtDefinition qt)
            \<and> qrFamily r = tdFamily (qtDefinition qt)))"

lemma tradingOk_initialized:
  "reduce_TRADING_INITIALIZED st d = Inr t \<Longrightarrow> \<exists>qt. quantTrading t = Some qt \<and> tradingOk qt"
  by (auto simp: reduce_TRADING_INITIALIZED_def tradingOk_def split: if_splits)

lemma tradingOk_action:
  "reduce_TRADING_ACTION st a = Inr t \<Longrightarrow> quantTrading st = Some q \<Longrightarrow> tradingOk q \<Longrightarrow>
     \<exists>qt. quantTrading t = Some qt \<and> tradingOk qt"
  by (auto simp: reduce_TRADING_ACTION_def tradingOk_def split: if_splits)

lemma tradingOk_round:
  "reduce_TRADING_ROUND st e = Inr t \<Longrightarrow> quantTrading st = Some q \<Longrightarrow> tradingOk q \<Longrightarrow>
     \<exists>qt. quantTrading t = Some qt \<and> tradingOk qt"
  by (auto simp: reduce_TRADING_ROUND_def tradingOk_def bindE_eq_Inr checkFills_iff nth_append
      less_Suc_eq split: if_splits option.splits)

lemma tradingOk_completed:
  "reduce_TRADING_COMPLETED st r = Inr t \<Longrightarrow> quantTrading st = Some q \<Longrightarrow> tradingOk q \<Longrightarrow>
     \<exists>qt. quantTrading t = Some qt \<and> tradingOk qt"
  by (auto simp: reduce_TRADING_COMPLETED_def tradingOk_def split: if_splits)

definition tradingInv :: "SessionState \<Rightarrow> bool" where
  "tradingInv st = opt_all tradingOk (quantTrading st)"

lemma opt_all_Some: "\<exists>x. m = Some x \<and> P x \<Longrightarrow> opt_all P m"
  by auto

lemma tradingInv_event:
  assumes "tradingInv st" and "reduceSessionEvent st ev = Inr t"
  shows "tradingInv t"
proof (cases "isTradingBody (body ev)")
  case False
  with assms show ?thesis by (auto simp: tradingInv_def reduceSessionEvent_iff dest!: trading_frame)
next
  case True
  from assms(2) obtain u where u: "quantTrading t = quantTrading u"
    "reduceBody st (eventId ev) (eventSequence ev) (eventSource ev) (body ev) = Inr u"
    by (auto simp: reduceSessionEvent_iff)
  show ?thesis
  proof (cases "quantTrading st")
    case None
    with True u have "\<exists>d. reduce_TRADING_INITIALIZED st d = Inr u"
      by (cases "body ev") (auto simp: isTradingBody_def reduce_TRADING_ACTION_def
          reduce_TRADING_ROUND_def reduce_TRADING_COMPLETED_def)
    with u show ?thesis by (auto simp: tradingInv_def dest: tradingOk_initialized)
  next
    case (Some q)
    with assms(1) have "tradingOk q" by (simp add: tradingInv_def)
    with True u Some have "\<exists>qt. quantTrading t = Some qt \<and> tradingOk qt"
      by (cases "body ev") (auto simp: isTradingBody_def dest: tradingOk_action tradingOk_round
          tradingOk_completed tradingOk_initialized)
    then show ?thesis by (auto simp: tradingInv_def)
  qed
qed

lemma tradingInv_initial: "tradingInv (initialSessionState sid)"
  by (simp add: tradingInv_def initialSessionState_def)

lemma tradingInv_replay: "replaySession sid evs = Inr st \<Longrightarrow> tradingInv st"
  by (erule replay_invariant) (auto intro: tradingInv_event tradingInv_initial)

text \<open>
  Property C25. The trading record of a replayed session is complete and honest: there is one accepted
  action per resolved round, rounds are numbered from 1 without gaps and are at most 256, and the
  fills of every round are at the prices of its quote and within its sizes on each side (none after a
  pass). A result, when present, counts exactly the recorded rounds, of which there is at least one,
  and no action is left pending.
\<close>

theorem trading_rounds_sound:
  assumes "replaySession sid evs = Inr st" and "quantTrading st = Some qt"
  shows "length (qtActions qt) = length (qtRounds qt) \<and> length (qtRounds qt) \<le> 256
     \<and> (\<forall>i < length (qtRounds qt). trRound (qtRounds qt ! i) = i + 1
          \<and> fillsAllowed (qtActions qt ! i) (trStudentFills (qtRounds qt ! i)))
     \<and> (\<forall>r. qtResult qt = Some r \<longrightarrow> qtPendingAction qt = None
          \<and> qrRoundsCompleted r = length (qtRounds qt) \<and> qtRounds qt \<noteq> [])"
  using tradingInv_replay [OF assms(1)] assms(2) by (simp add: tradingInv_def tradingOk_def)

section \<open>The end of a quant session\<close>

definition ended :: "SessionState \<Rightarrow> bool" where
  "ended st = (sessionStatus st = Session_COMPLETED \<or> sessionStatus st = Session_ARCHIVED)"

definition resultsOk :: "SessionState \<Rightarrow> bool" where
  "resultsOk st =
     (opt_all (\<lambda>qt. qtResult qt \<noteq> None) (quantTrading st)
      \<and> opt_all (\<lambda>qr. qsResult qr \<noteq> None) (quantResearch st))"

lemma completed_results: "reduce_SESSION_COMPLETED st tm s = Inr t \<Longrightarrow> resultsOk t"
  by (cases "quantTrading st"; cases "quantResearch st")
     (auto simp: reduce_SESSION_COMPLETED_def Let_def resultsOk_def isQuantSession_def
       isLegacyUninitializedQuantState_def tradingResultMissing_def researchResultMissing_def
       split: if_splits)

lemma archived_status:
  "reduce_SESSION_ARCHIVED st tm s = Inr t \<Longrightarrow> quantTrading st \<noteq> None \<or> quantResearch st \<noteq> None \<Longrightarrow>
     sessionStatus st = Session_COMPLETED"
  by (auto simp: reduce_SESSION_ARCHIVED_def Let_def isQuantSession_def
      isLegacyUninitializedQuantState_def split: if_splits)

lemma archived_results:
  assumes "reduce_SESSION_ARCHIVED st tm s = Inr t" and "ended st \<longrightarrow> resultsOk st"
  shows "resultsOk t"
proof -
  from assms(1) have same: "quantTrading t = quantTrading st" "quantResearch t = quantResearch st"
    by (auto dest!: footprint)
  show ?thesis
  proof (cases "quantTrading st \<noteq> None \<or> quantResearch st \<noteq> None")
    case True
    with assms archived_status [OF assms(1)] have "resultsOk st" by (simp add: ended_def)
    with same show ?thesis by (simp add: resultsOk_def)
  next
    case False
    with same show ?thesis by (simp add: resultsOk_def)
  qed
qed

text \<open>The quant events only happen while the session is active.\<close>

lemma quant_events_active:
  "reduce_TRADING_INITIALIZED st d = Inr t \<Longrightarrow> sessionStatus st = Session_ACTIVE"
  "reduce_TRADING_ACTION st a = Inr t \<Longrightarrow> sessionStatus st = Session_ACTIVE"
  "reduce_TRADING_ROUND st e = Inr t \<Longrightarrow> sessionStatus st = Session_ACTIVE"
  "reduce_TRADING_COMPLETED st r = Inr t \<Longrightarrow> sessionStatus st = Session_ACTIVE"
  "reduce_RESEARCH_INITIALIZED st d' s = Inr t \<Longrightarrow> sessionStatus st = Session_ACTIVE"
  "reduce_RESEARCH_ACTION st a' = Inr t \<Longrightarrow> sessionStatus st = Session_ACTIVE"
  "reduce_RESEARCH_COMPLETED st r' = Inr t \<Longrightarrow> sessionStatus st = Session_ACTIVE"
  by (auto simp: reduce_TRADING_INITIALIZED_def reduce_TRADING_ACTION_def reduce_TRADING_ROUND_def
      reduce_TRADING_COMPLETED_def reduce_RESEARCH_INITIALIZED_def reduce_RESEARCH_ACTION_def
      reduce_RESEARCH_COMPLETED_def Let_def split: if_splits option.splits)

definition isResearchBody :: "EventBody \<Rightarrow> bool" where
  "isResearchBody b =
     (case b of QUANT_RESEARCH_SCENARIO_INITIALIZED _ _ \<Rightarrow> True | QUANT_RESEARCH_ACTION_ACCEPTED _ \<Rightarrow> True
      | QUANT_RESEARCH_SCENARIO_COMPLETED _ \<Rightarrow> True | _ \<Rightarrow> False)"

definition isStatusBody :: "EventBody \<Rightarrow> bool" where
  "isStatusBody b =
     (case b of SESSION_STARTED _ _ _ \<Rightarrow> True | SESSION_COMPLETED _ _ \<Rightarrow> True
      | SESSION_ARCHIVED _ _ \<Rightarrow> True | _ \<Rightarrow> False)"

lemma research_frame [frame]:
  "reduceBody st ei sq so b = Inr t \<Longrightarrow> \<not> isResearchBody b \<Longrightarrow> quantResearch t = quantResearch st"
  by (cases b) (auto simp: isResearchBody_def dest!: footprint)

lemma status_frame [frame]:
  "reduceBody st ei sq so b = Inr t \<Longrightarrow> \<not> isStatusBody b \<Longrightarrow> sessionStatus t = sessionStatus st"
  by (cases b) (auto simp: isStatusBody_def dest!: footprint)

lemma quant_body_active:
  "reduceBody st ei sq so b = Inr t \<Longrightarrow> isTradingBody b \<or> isResearchBody b \<Longrightarrow>
     sessionStatus st = Session_ACTIVE \<and> \<not> isStatusBody b"
  by (cases b) (auto simp: isTradingBody_def isResearchBody_def isStatusBody_def
      dest: quant_events_active)

lemma ended_body:
  assumes "reduceBody st ei sq so b = Inr t" and "ended st \<longrightarrow> resultsOk st"
  shows "ended t \<longrightarrow> resultsOk t"
proof (cases "isTradingBody b \<or> isResearchBody b")
  case True
  from quant_body_active [OF assms(1) True] status_frame [OF assms(1)] show ?thesis
    by (simp add: ended_def)
next
  case quiet: False
  then have same: "quantTrading t = quantTrading st" "quantResearch t = quantResearch st"
    using trading_frame [OF assms(1)] research_frame [OF assms(1)] by auto
  show ?thesis
  proof (cases "isStatusBody b")
    case False
    with status_frame [OF assms(1) False] same assms(2) show ?thesis
      by (simp add: ended_def resultsOk_def)
  next
    case True
    with assms show ?thesis
      by (cases b) (auto simp: isStatusBody_def ended_def reduce_SESSION_STARTED_def
          dest: completed_results archived_results [unfolded ended_def] split: if_splits)
  qed
qed

lemma ended_event:
  "ended st \<longrightarrow> resultsOk st \<Longrightarrow> reduceSessionEvent st ev = Inr t \<Longrightarrow> ended t \<longrightarrow> resultsOk t"
  by (auto simp: reduceSessionEvent_iff) (auto simp: ended_def resultsOk_def dest!: ended_body)

lemma ended_replay: "replaySession sid evs = Inr st \<Longrightarrow> ended st \<longrightarrow> resultsOk st"
proof (erule replay_invariant [where I = "\<lambda>st. ended st \<longrightarrow> resultsOk st"])
  show "ended (initialSessionState sid) \<longrightarrow> resultsOk (initialSessionState sid)"
    by (simp add: ended_def initialSessionState_def)
qed (rule ended_event)

text \<open>
  A session never ends with its scenario unresolved: once a replayed session is completed
  or archived, an initialized trading or research scenario has its deterministic result.
\<close>

theorem ended_sessions_have_results:
  assumes "replaySession sid evs = Inr st"
    and "sessionStatus st = Session_COMPLETED \<or> sessionStatus st = Session_ARCHIVED"
  shows "(\<forall>qt. quantTrading st = Some qt \<longrightarrow> qtResult qt \<noteq> None)
     \<and> (\<forall>qr. quantResearch st = Some qr \<longrightarrow> qsResult qr \<noteq> None)"
  using ended_replay [OF assms(1)] assms(2) by (auto simp: ended_def resultsOk_def)

theorem trading_rounds_sound_witness:
  "\<exists>st qt. replaySession ''s1'' sampleTrading = Inr st \<and> quantTrading st = Some qt
     \<and> length (qtRounds qt) = 1
     \<and> fillsAllowed (qtActions qt ! 0) (trStudentFills (qtRounds qt ! 0))"
proof -
  have "(case replaySession ''s1'' sampleTrading of Inl _ \<Rightarrow> False
      | Inr s \<Rightarrow> (case quantTrading s of None \<Rightarrow> False | Some qt \<Rightarrow> length (qtRounds qt) = 1))"
    by code_simp
  from sampleE [OF this] obtain st qt where
    st: "replaySession ''s1'' sampleTrading = Inr st" "quantTrading st = Some qt"
    "length (qtRounds qt) = 1" by (auto split: option.splits)
  with trading_rounds_sound [OF st(1,2)] show ?thesis by auto
qed

theorem ended_sessions_have_results_witness:
  "\<exists>st qt. replaySession ''s1'' sampleTrading = Inr st \<and> quantTrading st = Some qt
     \<and> sessionStatus st = Session_COMPLETED \<and> qtResult qt \<noteq> None"
proof -
  have "(case replaySession ''s1'' sampleTrading of Inl _ \<Rightarrow> False
      | Inr s \<Rightarrow> sessionStatus s = Session_COMPLETED \<and> quantTrading s \<noteq> None)"
    by code_simp
  from sampleE [OF this] obtain st qt where
    st: "replaySession ''s1'' sampleTrading = Inr st" "quantTrading st = Some qt"
    "sessionStatus st = Session_COMPLETED" by auto
  with ended_sessions_have_results [OF st(1)] show ?thesis by blast
qed

end
