(* ===== verification/BoundedMath.thy ===== *)
theory BoundedMath
  imports JsNumber Prelude "HOL-Library.Signed_Division" "HOL-Library.Multiset"
begin

text \<open>
  First part of \<^verbatim>\<open>packages/verification/src/math-utils.ts\<close>: exact integers under a digit
  limit. A \<^verbatim>\<open>bigint\<close> is an \<open>int\<close>; its division truncates (\<open>sdiv\<close>) and its remainder has
  the sign of the dividend (\<open>smod\<close>). A \<^verbatim>\<open>number\<close> argument is a rational, and a thrown
  \<^verbatim>\<open>BoundedMathError\<close> is its code.
\<close>

datatype BoundedMathErrorCode =
    INVALID_INTEGER | INTEGER_LIMIT_EXCEEDED | INTERMEDIATE_LIMIT_EXCEEDED | DIVISION_BY_ZERO
  | INVALID_MODULUS | INVALID_COMBINATORIAL_ARGUMENT | COMBINATORIAL_LIMIT_EXCEEDED
  | INVALID_PROBABILITY | INVALID_EXPRESSION | UNDEFINED_OPERATION | CONTAINER_LIMIT_EXCEEDED

type_synonym 'a math = "(BoundedMathErrorCode, 'a) result"

section \<open>Limits\<close>

definition MAX_MATH_STATEMENT_CHARACTERS :: nat where "MAX_MATH_STATEMENT_CHARACTERS = 100000"
definition MAX_INTEGER_DECIMAL_DIGITS :: nat where "MAX_INTEGER_DECIMAL_DIGITS = 256"
definition MAX_INTERMEDIATE_INTEGER_DECIMAL_DIGITS :: nat where
  "MAX_INTERMEDIATE_INTEGER_DECIMAL_DIGITS = 4096"
definition MAX_WIDE_RATIONAL_WORK_DECIMAL_DIGITS :: nat where
  "MAX_WIDE_RATIONAL_WORK_DECIMAL_DIGITS = 8450"
definition MAX_EXPRESSION_DEPTH :: nat where "MAX_EXPRESSION_DEPTH = 24"
definition MAX_EXPRESSION_NODES :: nat where "MAX_EXPRESSION_NODES = 512"
definition MAX_STRUCTURED_INPUT_DEPTH :: nat where "MAX_STRUCTURED_INPUT_DEPTH = 32"
definition MAX_STRUCTURED_INPUT_NODES :: nat where "MAX_STRUCTURED_INPUT_NODES = 10000"
definition MAX_STRUCTURED_ARRAY_ITEMS :: nat where "MAX_STRUCTURED_ARRAY_ITEMS = 1024"
definition MAX_VARIADIC_EXPRESSION_TERMS :: nat where "MAX_VARIADIC_EXPRESSION_TERMS = 128"
definition MAX_POWER_EXPONENT :: nat where "MAX_POWER_EXPONENT = 1024"
definition MAX_RECURRENCE_ORDER :: nat where "MAX_RECURRENCE_ORDER = 16"
definition MAX_RECURRENCE_SEQUENCE_LENGTH :: nat where "MAX_RECURRENCE_SEQUENCE_LENGTH = 256"
definition MAX_COMBINATORIAL_N :: nat where "MAX_COMBINATORIAL_N = 1000"
definition MAX_PROBABILITY_OUTCOMES :: nat where "MAX_PROBABILITY_OUTCOMES = 512"
definition MAX_FINITE_CONTAINER_ITEMS :: nat where "MAX_FINITE_CONTAINER_ITEMS = 1024"

section \<open>Decimal strings\<close>

fun natToString :: "nat \<Rightarrow> string" where
  "natToString n =
     (if n < 10 then [char_of (48 + n)] else natToString (n div 10) @ [char_of (48 + n mod 10)])"

declare natToString.simps [simp del]

text \<open>\<^verbatim>\<open>value.toString()\<close> of a \<^verbatim>\<open>bigint\<close>\<close>

definition bigintToString :: "int \<Rightarrow> string" where
  "bigintToString v = (if v < 0 then CHR ''-'' # natToString (nat (- v)) else natToString (nat v))"

definition decimalDigitCount :: "int \<Rightarrow> nat" where
  "decimalDigitCount v = length (if v < 0 then bigintToString (- v) else bigintToString v)"

text \<open>The pattern \<^verbatim>\<open>^(?:0|-?[1-9]\d*)$\<close>\<close>

definition isDigit :: "char \<Rightarrow> bool" where
  "isDigit c = (48 \<le> (of_char c :: nat) \<and> (of_char c :: nat) \<le> 57)"

fun canonicalMagnitude :: "string \<Rightarrow> bool" where
  "canonicalMagnitude [] = False"
| "canonicalMagnitude (c # cs) = (isDigit c \<and> c \<noteq> CHR ''0'' \<and> list_all isDigit cs)"

definition isCanonicalIntegerString :: "string \<Rightarrow> bool" where
  "isCanonicalIntegerString s =
     (s = ''0'' \<or> canonicalMagnitude (if startsWith ''-'' s then tl s else s))"

text \<open>\<^verbatim>\<open>BigInt(value)\<close> of a canonical string\<close>

definition digitsValue :: "string \<Rightarrow> nat" where
  "digitsValue s = foldl (\<lambda>n c. 10 * n + (of_char c - 48)) 0 s"

definition stringToBigint :: "string \<Rightarrow> int" where
  "stringToBigint s = (if startsWith ''-'' s then - int (digitsValue (tl s)) else int (digitsValue s))"

definition parseCanonicalInteger :: "string \<Rightarrow> nat \<Rightarrow> BoundedMathErrorCode \<Rightarrow> int math" where
  "parseCanonicalInteger s maximumDigits limitCode =
     (if length s > maximumDigits + 1 then Inl limitCode
      else if \<not> isCanonicalIntegerString s then Inl INVALID_INTEGER
      else let digits = (if startsWith ''-'' s then length s - 1 else length s) in
        if digits > maximumDigits then Inl limitCode else Inr (stringToBigint s))"

definition parseBoundedInteger :: "string \<Rightarrow> int math" where
  "parseBoundedInteger s = parseCanonicalInteger s MAX_INTEGER_DECIMAL_DIGITS INTEGER_LIMIT_EXCEEDED"

definition parseBoundedIntermediateInteger :: "string \<Rightarrow> int math" where
  "parseBoundedIntermediateInteger s =
     parseCanonicalInteger s MAX_INTERMEDIATE_INTEGER_DECIMAL_DIGITS INTERMEDIATE_LIMIT_EXCEEDED"

definition assertIntermediateIntegerBound :: "int \<Rightarrow> int math" where
  "assertIntermediateIntegerBound v =
     (if decimalDigitCount v > MAX_INTERMEDIATE_INTEGER_DECIMAL_DIGITS
      then Inl INTERMEDIATE_LIMIT_EXCEEDED else Inr v)"

definition formatInteger :: "int \<Rightarrow> string math" where
  "formatInteger v = bindE (assertIntermediateIntegerBound v) (\<lambda>x. Inr (bigintToString x))"

section \<open>Divisibility\<close>

function gcdLoop :: "int \<Rightarrow> int \<Rightarrow> int" where
  "gcdLoop a b = (if b = 0 then a else gcdLoop b (a smod b))"
  by auto
termination
  by (relation "measure (\<lambda>(a, b). nat \<bar>b\<bar>)") (auto simp: signed_modulo_int_def abs_mult sgn_if)

declare gcdLoop.simps [simp del]

definition magnitude :: "int \<Rightarrow> int" where
  "magnitude v = (if v < 0 then - v else v)"

definition gcdUnchecked :: "int \<Rightarrow> int \<Rightarrow> int" where
  "gcdUnchecked left right = gcdLoop (magnitude left) (magnitude right)"

definition gcdBounded :: "int \<Rightarrow> int \<Rightarrow> int math" where
  "gcdBounded left right =
     bindE (assertIntermediateIntegerBound left) (\<lambda>l.
       bindE (assertIntermediateIntegerBound right) (\<lambda>r. Inr (gcdUnchecked l r)))"

definition lcmBounded :: "int \<Rightarrow> int \<Rightarrow> int math" where
  "lcmBounded left right =
     bindE (assertIntermediateIntegerBound left) (\<lambda>_.
       bindE (assertIntermediateIntegerBound right) (\<lambda>_.
         if left = 0 \<or> right = 0 then Inr 0
         else bindE (gcdBounded left right) (\<lambda>g.
           bindE (assertIntermediateIntegerBound ((left sdiv g) * right)) (\<lambda>v.
             Inr (if v < 0 then - v else v)))))"

definition normalizeModulo :: "int \<Rightarrow> int \<Rightarrow> int math" where
  "normalizeModulo v modulus =
     bindE (assertIntermediateIntegerBound v) (\<lambda>_.
       bindE (assertIntermediateIntegerBound modulus) (\<lambda>_.
         if modulus \<le> 0 then Inl INVALID_MODULUS
         else let remainder = v smod modulus in
           Inr (if remainder < 0 then remainder + modulus else remainder)))"

definition areCongruent :: "int \<Rightarrow> int \<Rightarrow> int \<Rightarrow> bool math" where
  "areCongruent left right modulus =
     bindE (assertIntermediateIntegerBound left) (\<lambda>_.
       bindE (assertIntermediateIntegerBound right) (\<lambda>_.
         bindE (normalizeModulo left modulus) (\<lambda>l.
           bindE (normalizeModulo right modulus) (\<lambda>r. Inr (l = r)))))"

definition isDivisibleBy :: "int \<Rightarrow> int \<Rightarrow> bool math" where
  "isDivisibleBy dividend divisor =
     bindE (assertIntermediateIntegerBound dividend) (\<lambda>_.
       bindE (assertIntermediateIntegerBound divisor) (\<lambda>_.
         Inr (if divisor = 0 then dividend = 0 else dividend smod divisor = 0)))"

section \<open>Finite sums and products\<close>

definition assertFiniteContainerLength :: "nat \<Rightarrow> unit math" where
  "assertFiniteContainerLength n =
     (if n > MAX_FINITE_CONTAINER_ITEMS then Inl CONTAINER_LIMIT_EXCEEDED else Inr ())"

definition sumIntegers :: "int list \<Rightarrow> int math" where
  "sumIntegers values =
     bindE (assertFiniteContainerLength (length values)) (\<lambda>_.
       bindE (mapE assertIntermediateIntegerBound values) (\<lambda>boundedValues.
         assertIntermediateIntegerBound (foldl (+) 0 boundedValues)))"

definition productIntegers :: "int list \<Rightarrow> int math" where
  "productIntegers values =
     bindE (assertFiniteContainerLength (length values)) (\<lambda>_.
       bindE (mapE assertIntermediateIntegerBound values) (\<lambda>boundedValues.
         if list_ex (\<lambda>v. v = 0) boundedValues then Inr 0
         else foldE (\<lambda>product v. assertIntermediateIntegerBound (product * v)) 1 boundedValues))"

section \<open>Counting\<close>

definition isIntegerNumber :: "rat \<Rightarrow> bool" where
  "isIntegerNumber x = (snd (quotient_of x) = 1)"

text \<open>The argument as a natural number, once it has passed the check.\<close>

definition assertCombinatorialInteger :: "rat \<Rightarrow> nat math" where
  "assertCombinatorialInteger v =
     (if \<not> isIntegerNumber v \<or> v < 0 then Inl INVALID_COMBINATORIAL_ARGUMENT
      else if v > of_nat MAX_COMBINATORIAL_N then Inl COMBINATORIAL_LIMIT_EXCEEDED
      else Inr (nat (fst (quotient_of v))))"

definition factorial :: "rat \<Rightarrow> int math" where
  "factorial number =
     bindE (assertCombinatorialInteger number) (\<lambda>n.
       foldE (\<lambda>r v. assertIntermediateIntegerBound (r * int v)) 1 [2 ..< n + 1])"

definition permutations :: "rat \<Rightarrow> rat \<Rightarrow> int math" where
  "permutations number chosen =
     bindE (assertCombinatorialInteger number) (\<lambda>n.
       bindE (assertCombinatorialInteger chosen) (\<lambda>k.
         if k > n then Inr 0
         else foldE (\<lambda>r offset. assertIntermediateIntegerBound (r * int (n - offset))) 1 [0 ..< k]))"

text \<open>The loop both counting functions share: \<open>n\<close> choose \<open>k\<close> by exact divisions.\<close>

definition chooseLoop :: "nat \<Rightarrow> nat \<Rightarrow> int math" where
  "chooseLoop n reducedK =
     foldE (\<lambda>r index. assertIntermediateIntegerBound ((r * int (n - reducedK + index)) sdiv int index))
       1 [1 ..< reducedK + 1]"

definition binomialBounded :: "rat \<Rightarrow> rat \<Rightarrow> int math" where
  "binomialBounded number chosen =
     bindE (assertCombinatorialInteger number) (\<lambda>n.
       bindE (assertCombinatorialInteger chosen) (\<lambda>k.
         if k > n then Inr 0 else chooseLoop n (min k (n - k))))"

definition combinationsWithRepetition :: "rat \<Rightarrow> rat \<Rightarrow> int math" where
  "combinationsWithRepetition types selections =
     bindE (assertCombinatorialInteger types) (\<lambda>t.
       bindE (assertCombinatorialInteger selections) (\<lambda>s.
         if s = 0 then Inr 1
         else if t = 0 then Inr 0
         else let effectiveN = t + s - 1 in chooseLoop effectiveN (min s (effectiveN - s))))"

section \<open>Finite sets and multisets\<close>

definition sameFiniteSet :: "string list \<Rightarrow> string list \<Rightarrow> bool math" where
  "sameFiniteSet left right =
     bindE (assertFiniteContainerLength (length left)) (\<lambda>_.
       bindE (assertFiniteContainerLength (length right)) (\<lambda>_.
         let leftSet = uniq left; rightSet = uniq right in
         Inr (length leftSet = length rightSet \<and> list_all (\<lambda>v. v \<in> set rightSet) leftSet)))"

definition countValues :: "string list \<Rightarrow> nat dict" where
  "countValues values =
     foldl (\<lambda>counts v. dput v ((case dget counts v of None \<Rightarrow> 0 | Some n \<Rightarrow> n) + 1) counts) [] values"

text \<open>The second loop: \<open>None\<close> is its \<^verbatim>\<open>return false\<close>.\<close>

fun removeValues :: "nat dict \<Rightarrow> string list \<Rightarrow> nat dict option" where
  "removeValues counts [] = Some counts"
| "removeValues counts (v # vs) =
     (case dget counts v of
        None \<Rightarrow> None
      | Some n \<Rightarrow> removeValues (if n = 1 then ddel v counts else dput v (n - 1) counts) vs)"

definition sameFiniteMultiset :: "string list \<Rightarrow> string list \<Rightarrow> bool math" where
  "sameFiniteMultiset left right =
     bindE (assertFiniteContainerLength (length left)) (\<lambda>_.
       bindE (assertFiniteContainerLength (length right)) (\<lambda>_.
         Inr (if length left \<noteq> length right then False
              else case removeValues (countValues left) right of
                None \<Rightarrow> False | Some counts \<Rightarrow> counts = [])))"

end
