(* ===== verification/BoundedMathFacts.thy ===== *)
theory BoundedMathFacts
  imports BoundedMath
begin

text \<open>
  Exact integers, continued: what the decimal strings, the digit limit, the loops and the counting
  functions compute, against \<open>gcd\<close>, \<open>mod\<close>, \<open>fact\<close>, \<open>choose\<close> and multisets of the library.
\<close>

section \<open>Decimal strings\<close>

lemma digit_of [simp]: "n < 10 \<Longrightarrow> (of_char (char_of (48 + n) :: char) :: nat) = 48 + n"
  by (simp add: of_char_of)

lemma isDigit_char [simp]: "n < 10 \<Longrightarrow> isDigit (char_of (48 + n :: nat))"
  by (simp add: isDigit_def)

lemma char_zero [simp]: "char_of (48 :: nat) = CHR ''0''"
proof -
  have "(48 :: nat) = of_char (CHR ''0'')" by simp
  then show ?thesis by (metis char_of_char)
qed

lemma digitsValue_snoc: "digitsValue (s @ [c]) = 10 * digitsValue s + (of_char c - 48)"
  by (simp add: digitsValue_def)

lemma digitsValue_Nil [simp]: "digitsValue [] = 0"
  by (simp add: digitsValue_def)

lemma digitsValue_single: "digitsValue [c] = of_char c - 48"
  by (simp add: digitsValue_def)

lemma digitsValue_natToString [simp]: "digitsValue (natToString n) = n"
proof (induction n rule: natToString.induct)
  case (1 n)
  show ?case
  proof (cases "n < 10")
    case True
    then show ?thesis by (simp add: natToString.simps digitsValue_single)
  next
    case False
    with 1 show ?thesis
      by (simp add: natToString.simps [of n] digitsValue_snoc)
  qed
qed

lemma natToString_nonempty [simp]: "natToString n \<noteq> []"
  by (subst natToString.simps) simp

lemma natToString_digits: "list_all isDigit (natToString n)"
proof (induction n rule: natToString.induct)
  case (1 n)
  then show ?case by (subst natToString.simps) simp
qed

lemma hd_natToString: "n > 0 \<Longrightarrow> hd (natToString n) \<noteq> CHR ''0''"
proof (induction n rule: natToString.induct)
  case (1 n)
  show ?case
  proof (cases "n < 10")
    case True
    have "char_of (48 + n) \<noteq> CHR ''0''"
    proof
      assume "char_of (48 + n) = CHR ''0''"
      then have "(of_char (char_of (48 + n) :: char) :: nat) = of_char (CHR ''0'')" by simp
      with True 1(2) show False by simp
    qed
    with True show ?thesis by (simp add: natToString.simps)
  next
    case False
    with 1 show ?thesis by (simp add: natToString.simps [of n])
  qed
qed

lemma length_natToString: "k > 0 \<Longrightarrow> length (natToString n) \<le> k \<longleftrightarrow> n < 10 ^ k"
proof (induction n arbitrary: k rule: natToString.induct)
  case (1 n)
  show ?case
  proof (cases "n < 10")
    case True
    have "(10::nat) ^ 1 \<le> 10 ^ k" using 1(2) by (intro power_increasing) auto
    with True 1(2) show ?thesis by (simp add: natToString.simps)
  next
    case False
    show ?thesis
    proof (cases "k = 1")
      case True
      with False show ?thesis by (simp add: natToString.simps [of n])
    next
      case k: False
      then obtain j where j: "k = Suc j" "j > 0" using 1(2) by (cases k) auto
      with 1(1) [OF False, of j] False show ?thesis
        by (simp add: natToString.simps [of n] div_less_iff_less_mult mult.commute)
    qed
  qed
qed

lemma isDigit_minus: "isDigit c \<Longrightarrow> c \<noteq> CHR ''-''"
  by (auto simp: isDigit_def)

lemma startsWith_minus: "startsWith ''-'' s \<longleftrightarrow> (\<exists>t. s = CHR ''-'' # t)"
  by (cases s) (auto simp: startsWith_def)

lemma natToString_no_minus [simp]: "\<not> startsWith ''-'' (natToString n)"
  using natToString_digits [of n] by (auto simp: startsWith_minus dest: isDigit_minus)

lemma canonicalMagnitude_natToString: "n > 0 \<Longrightarrow> canonicalMagnitude (natToString n)"
  using natToString_digits [of n] hd_natToString [of n]
  by (cases "natToString n") auto

text \<open>A magnitude without leading zero is the string of its value.\<close>

lemma digitsValue_positive: "canonicalMagnitude s \<Longrightarrow> digitsValue s > 0"
proof (induction s rule: rev_induct)
  case Nil
  then show ?case by simp
next
  case (snoc c s)
  show ?case
  proof (cases s)
    case Nil
    with snoc.prems have "isDigit c" "c \<noteq> CHR ''0''" by auto
    then have "(of_char c :: nat) \<noteq> 48"
      using of_char_eq_iff [of c "CHR ''0''"] by auto
    with Nil \<open>isDigit c\<close> show ?thesis by (simp add: digitsValue_single isDigit_def)
  next
    case (Cons d t)
    with snoc have "digitsValue s > 0" by simp
    then show ?thesis by (simp add: digitsValue_snoc)
  qed
qed

lemma canonical_string: "canonicalMagnitude s \<Longrightarrow> natToString (digitsValue s) = s"
proof (induction s rule: rev_induct)
  case Nil
  then show ?case by simp
next
  case (snoc c s)
  then have c: "isDigit c" by (cases s) auto
  then have c48: "of_char c - 48 < (10::nat)" "char_of (48 + (of_char c - 48 :: nat)) = c"
    by (auto simp: isDigit_def)
  show ?case
  proof (cases "s = []")
    case True
    with c48 show ?thesis by (simp add: digitsValue_single natToString.simps)
  next
    case False
    then have s: "canonicalMagnitude s" using snoc.prems by (cases s) auto
    then have "digitsValue s > 0" by (rule digitsValue_positive)
    with snoc.IH [OF s] c48 show ?thesis
      by (simp add: digitsValue_snoc natToString.simps [of "10 * _ + _"] div_add1_eq)
  qed
qed

lemma stringToBigint_toString [simp]: "stringToBigint (bigintToString v) = v"
  by (simp add: stringToBigint_def bigintToString_def startsWith_def)
     (simp add: natToString_no_minus [unfolded startsWith_def, simplified])

lemma bigintToString_inject [simp]: "bigintToString a = bigintToString b \<longleftrightarrow> a = b"
  by (metis stringToBigint_toString)

lemma isCanonical_toString [simp]: "isCanonicalIntegerString (bigintToString v)"
proof (cases "v = 0")
  case True
  then show ?thesis by (simp add: isCanonicalIntegerString_def bigintToString_def natToString.simps)
next
  case False
  then show ?thesis
    using natToString_no_minus [of "nat v"] startsWith_minus [of "CHR ''-'' # _"]
    by (auto simp: isCanonicalIntegerString_def bigintToString_def canonicalMagnitude_natToString)
qed

lemma canonical_toString:
  assumes "isCanonicalIntegerString s"
  shows "bigintToString (stringToBigint s) = s"
proof -
  consider (zero) "s = ''0''" | (neg) t where "s = CHR ''-'' # t" "canonicalMagnitude t"
    | (pos) "\<not> startsWith ''-'' s" "canonicalMagnitude s"
    using assms by (auto simp: isCanonicalIntegerString_def startsWith_minus split: if_splits)
  then show ?thesis
  proof cases
    case zero
    then show ?thesis
      by (simp add: stringToBigint_def startsWith_def digitsValue_single bigintToString_def
          natToString.simps)
  next
    case (neg t)
    with digitsValue_positive [OF neg(2)] canonical_string [OF neg(2)] show ?thesis
      by (simp add: stringToBigint_def startsWith_def bigintToString_def)
  next
    case pos
    with canonical_string [OF pos(2)] show ?thesis
      by (simp add: stringToBigint_def bigintToString_def)
  qed
qed

section \<open>The digit limit\<close>

text \<open>The first integer with more than 4096 digits, kept as a name.\<close>

definition digitBound :: int where
  "digitBound = 10 ^ 4096"

lemma decimalDigitCount_le: "k > 0 \<Longrightarrow> decimalDigitCount v \<le> k \<longleftrightarrow> \<bar>v\<bar> < 10 ^ k"
proof -
  assume "k > 0"
  have "decimalDigitCount v = length (natToString (nat \<bar>v\<bar>))"
    by (simp add: decimalDigitCount_def bigintToString_def)
  also have "\<dots> \<le> k \<longleftrightarrow> nat \<bar>v\<bar> < 10 ^ k" using \<open>k > 0\<close> by (rule length_natToString)
  also have "\<dots> \<longleftrightarrow> \<bar>v\<bar> < 10 ^ k"
    by (metis abs_ge_zero nat_less_iff of_nat_numeral of_nat_power)
  finally show ?thesis .
qed

lemma digitBound_pos: "digitBound > 0"
  unfolding digitBound_def by (rule zero_less_power) simp

lemma small_bounded: "\<bar>v\<bar> < 10 ^ 9 \<Longrightarrow> \<bar>v\<bar> < digitBound"
proof -
  have "(10 :: int) ^ 9 \<le> digitBound" unfolding digitBound_def by (rule power_increasing) simp_all
  then show "\<bar>v\<bar> < 10 ^ 9 \<Longrightarrow> \<bar>v\<bar> < digitBound" by linarith
qed

lemma digitCount_bound: "decimalDigitCount v \<le> 4096 \<longleftrightarrow> \<bar>v\<bar> < digitBound"
  unfolding digitBound_def by (rule decimalDigitCount_le) simp

lemma assertBound_Inr [simp]:
  "assertIntermediateIntegerBound v = Inr u \<longleftrightarrow> u = v \<and> \<bar>v\<bar> < digitBound"
  using digitCount_bound [of v]
  by (auto simp: assertIntermediateIntegerBound_def MAX_INTERMEDIATE_INTEGER_DECIMAL_DIGITS_def)

lemma assertBound_small [simp]: "\<bar>v\<bar> < digitBound \<Longrightarrow> assertIntermediateIntegerBound v = Inr v"
  by simp

lemma mapE_assertBound:
  "mapE assertIntermediateIntegerBound vs = Inr us \<longleftrightarrow> us = vs \<and> (\<forall>v \<in> set vs. \<bar>v\<bar> < digitBound)"
  by (induction vs arbitrary: us) (auto simp: bindE_eq_Inr)

section \<open>Truncating division\<close>

lemma sdiv_nonneg: "0 \<le> a \<Longrightarrow> 0 \<le> b \<Longrightarrow> a sdiv b = a div (b :: int)"
  by (cases "a = 0"; cases "b = 0") (auto simp: signed_divide_int_def)

lemma smod_nonneg: "0 \<le> a \<Longrightarrow> 0 \<le> b \<Longrightarrow> a smod b = a mod (b :: int)"
  by (cases "a = 0"; cases "b = 0") (auto simp: signed_modulo_int_def)

lemma sdiv_mult: "b \<noteq> 0 \<Longrightarrow> (b * k) sdiv b = (k :: int)"
proof -
  assume "b \<noteq> 0"
  then have "(b * k) sdiv b = (sgn b * sgn b) * (sgn k * \<bar>k\<bar>)"
    by (simp add: signed_divide_int_def abs_mult sgn_mult)
  also have "\<dots> = k" using \<open>b \<noteq> 0\<close> by (simp add: sgn_if abs_if)
  finally show ?thesis .
qed

lemma sdiv_dvd: "b \<noteq> 0 \<Longrightarrow> b dvd a \<Longrightarrow> a sdiv b = a div (b :: int)"
  by (auto simp: dvd_def sdiv_mult)

lemma smod_dvd: "b \<noteq> 0 \<Longrightarrow> a smod b = 0 \<longleftrightarrow> b dvd (a :: int)"
  by (auto simp: signed_modulo_int_def sgn_if mod_eq_0_iff_dvd)

section \<open>The greatest common divisor\<close>

lemma gcdLoop_gcd: "0 \<le> a \<Longrightarrow> 0 \<le> b \<Longrightarrow> gcdLoop a b = gcd a b"
proof (induction a b rule: gcdLoop.induct)
  case (1 a b)
  show ?case
  proof (cases "b = 0")
    case True
    with 1 show ?thesis by (simp add: gcdLoop.simps)
  next
    case False
    with 1 gcd_red_int [of a b] show ?thesis
      by (simp add: gcdLoop.simps [of a b] smod_nonneg)
  qed
qed

lemma gcdUnchecked_gcd [simp]: "gcdUnchecked a b = gcd a b"
  by (simp add: gcdUnchecked_def magnitude_def gcdLoop_gcd)

lemma normalizeModulo_mod:
  "normalizeModulo v m = Inr r \<longleftrightarrow>
     \<bar>v\<bar> < digitBound \<and> \<bar>m\<bar> < digitBound \<and> 0 < m \<and> r = v mod m"
proof -
  have "v smod m + (if v smod m < 0 then m else 0) = v mod m" if "0 < m"
  proof -
    have s: "v smod m = sgn v * (\<bar>v\<bar> mod m)" using that by (simp add: signed_modulo_int_def)
    show ?thesis
    proof (cases "0 \<le> v")
      case True
      then have "v smod m = v mod m" using that by (simp add: smod_nonneg)
      with that show ?thesis by (simp add: not_less)
    next
      case False
      then have n: "v smod m = - ((- v) mod m)" using s by simp
      show ?thesis
      proof (cases "(- v) mod m = 0")
        case True
        then have "v mod m = 0" using mod_minus_eq by (metis minus_zero mod_0 neg_equal_0_iff_equal zmod_zminus1_eq_if minus_minus)
        with n True show ?thesis by simp
      next
        case z: False
        then have "(- v) mod m > 0" using that by (simp add: order_less_le)
        with n zmod_zminus1_eq_if [of "- v" m] z show ?thesis by simp
      qed
    qed
  qed
  then have *: "(if v smod m < 0 then v smod m + m else v smod m) = v mod m" if "0 < m"
    using that by (metis add.right_neutral)
  show ?thesis using *
    by (auto simp: normalizeModulo_def bindE_eq_Inr Let_def)
qed

text \<open>What the parser of bounded integers accepts.\<close>

lemma length_canonical:
  assumes "isCanonicalIntegerString s"
  shows "(if startsWith ''-'' s then length s - 1 else length s) = decimalDigitCount (stringToBigint s)"
proof -
  have "s = bigintToString (stringToBigint s)" using canonical_toString [OF assms] by simp
  moreover have "startsWith ''-'' (bigintToString v) \<longleftrightarrow> v < 0" for v
    by (simp add: bigintToString_def startsWith_minus)
       (metis natToString_no_minus startsWith_minus)
  moreover have "(if v < 0 then length (bigintToString v) - 1 else length (bigintToString v))
      = decimalDigitCount v" for v
    by (simp add: bigintToString_def decimalDigitCount_def)
  ultimately show ?thesis by metis
qed

lemma parse_intermediate:
  "parseBoundedIntermediateInteger s = Inr v \<longleftrightarrow>
     isCanonicalIntegerString s \<and> s = bigintToString v \<and> \<bar>v\<bar> < digitBound"
proof (cases "isCanonicalIntegerString s")
  case False
  then show ?thesis by (simp add: parseBoundedIntermediateInteger_def parseCanonicalInteger_def)
next
  case True
  let ?u = "stringToBigint s"
  have len: "(if startsWith ''-'' s then length s - 1 else length s) = decimalDigitCount ?u"
    by (rule length_canonical [OF True])
  then have "length s \<le> decimalDigitCount ?u + 1" by (simp split: if_splits)
  with True len have "parseBoundedIntermediateInteger s = Inr v \<longleftrightarrow>
      decimalDigitCount ?u \<le> 4096 \<and> v = ?u"
    by (auto simp: parseBoundedIntermediateInteger_def parseCanonicalInteger_def Let_def
        MAX_INTERMEDIATE_INTEGER_DECIMAL_DIGITS_def)
  also have "\<dots> \<longleftrightarrow> \<bar>?u\<bar> < digitBound \<and> v = ?u"
    using digitCount_bound [of ?u] by simp
  finally show ?thesis using canonical_toString [OF True] True
    by (metis stringToBigint_toString)
qed

section \<open>Counting\<close>

lemma foldE_append: "foldE f s (xs @ ys) = bindE (foldE f s xs) (\<lambda>u. foldE f u ys)"
  by (induction xs arbitrary: s) (auto simp: bindE_def split: sum.splits)

text \<open>A counted loop that computes \<open>P\<close> and never throws.\<close>

lemma foldE_upt:
  assumes "a \<le> b" and "\<And>i. a \<le> i \<Longrightarrow> i < b \<Longrightarrow> step (P i) i = Inr (P (Suc i))"
  shows "foldE step (P a) [a ..< b] = Inr (P b)"
  using assms
proof (induction b)
  case 0
  then show ?case by simp
next
  case (Suc b)
  then show ?case by (cases "a = Suc b") (simp_all add: foldE_append le_Suc_eq)
qed

lemma quotient_of_nat: "quotient_of (of_nat n :: rat) = (int n, 1)"
  using quotient_of_int [of "int n"] by simp

lemma assertCombinatorial_nat [simp]:
  "n \<le> 1000 \<Longrightarrow> assertCombinatorialInteger (of_nat n) = Inr n"
  by (simp add: assertCombinatorialInteger_def isIntegerNumber_def quotient_of_nat MAX_COMBINATORIAL_N_def
      of_nat_le_iff [of n 1000, where ?'a = rat, simplified] not_less)

lemma thousand_power: "(1000 :: nat) ^ n = 10 ^ (3 * n)"
  by (simp add: power_mult)

lemma nat_bounded: "m < 10 ^ 4096 \<Longrightarrow> int m < digitBound"
  unfolding digitBound_def by (metis of_nat_less_iff of_nat_numeral of_nat_power)

lemma fact_bounded: "n \<le> 1000 \<Longrightarrow> int (fact n) < digitBound"
proof (rule nat_bounded)
  assume n: "n \<le> 1000"
  have "fact n \<le> n ^ n" using fact_le_power [of n, where ?'a = nat] by simp
  also have "\<dots> \<le> 1000 ^ n" using n by (rule power_mono) simp
  also have "\<dots> = 10 ^ (3 * n)" by (rule thousand_power)
  also have "(10 :: nat) ^ (3 * n) < 10 ^ 4096" using n by (intro power_strict_increasing) auto
  finally show "fact n < (10 :: nat) ^ 4096" .
qed

lemma factorial_loop:
  assumes "n \<le> 1000"
  shows "foldE (\<lambda>r v. assertIntermediateIntegerBound (r * int v)) 1 [2 ..< n + 1] = Inr (int (fact n))"
proof (cases "n = 0")
  case False
  have "foldE (\<lambda>r v. assertIntermediateIntegerBound (r * int v)) (int (fact (2 - 1))) [2 ..< n + 1]
      = Inr (int (fact (n + 1 - 1)))"
  proof (rule foldE_upt)
    show "2 \<le> n + 1" using False by simp
    fix i :: nat assume i: "2 \<le> i" "i < n + 1"
    then have f: "int (fact (i - 1)) * int i = int (fact i)"
      by (simp add: fact_reduce [of i])
    have "int (fact i) < digitBound" using i assms by (intro fact_bounded) simp
    with f show "assertIntermediateIntegerBound (int (fact (i - 1)) * int i) = Inr (int (fact (Suc i - 1)))"
      by (simp del: of_nat_fact)
  qed
  then show ?thesis by simp
qed simp

lemma permutations_loop:
  assumes "k \<le> n" and "n \<le> 1000"
  shows "foldE (\<lambda>r offset. assertIntermediateIntegerBound (r * int (n - offset))) 1 [0 ..< k]
     = Inr (int (fact n div fact (n - k)))"
proof -
  have "foldE (\<lambda>r offset. assertIntermediateIntegerBound (r * int (n - offset)))
      (int (fact n div fact (n - 0))) [0 ..< k] = Inr (int (fact n div fact (n - k)))"
  proof (rule foldE_upt)
    fix i assume i: "0 \<le> i" "i < k"
    let ?m = "n - Suc i"
    have m: "n - i = Suc ?m" using i assms by simp
    have "(fact (Suc ?m) :: nat) dvd fact n" using m by (intro fact_dvd) simp
    then obtain q where q: "fact n = fact (Suc ?m) * (q :: nat)" by (rule dvdE)
    have "fact n div fact (n - i) * (n - i) = (fact n div fact ?m :: nat)"
    proof -
      have "fact n = fact ?m * (Suc ?m * q)" unfolding q fact_Suc by (simp only: of_nat_id ac_simps)
      then have "fact n div fact ?m = Suc ?m * q" by simp
      moreover have "fact n div fact (n - i) = q" unfolding m q by (simp del: fact_Suc)
      ultimately show ?thesis using m by (simp only: mult.commute)
    qed
    then have f: "int (fact n div fact (n - i)) * int (n - i) = int (fact n div fact ?m)"
      by (metis of_nat_mult)
    have "fact n div fact ?m \<le> (fact n :: nat)" by simp
    then have "int (fact n div fact ?m) < digitBound"
      using fact_bounded [OF assms(2)] by linarith
    with f show "assertIntermediateIntegerBound (int (fact n div fact (n - i)) * int (n - i))
        = Inr (int (fact n div fact (n - Suc i)))"
      by (simp del: of_nat_fact)
  qed simp
  then show ?thesis by simp
qed

lemma choose_bounded: "n \<le> 2000 \<Longrightarrow> int (n choose k) < digitBound"
proof (rule nat_bounded)
  assume n: "n \<le> 2000"
  have "n choose k \<le> 2 ^ n" by (rule binomial_le_pow2)
  also have "(2::nat) ^ n \<le> 2 ^ 2000" using n by (rule power_increasing) simp
  also have "(2::nat) ^ 2000 \<le> 10 ^ 2000" by (rule power_mono) auto
  also have "(10::nat) ^ 2000 < 10 ^ 4096" by (intro power_strict_increasing) auto
  finally show "n choose k < 10 ^ 4096" .
qed

lemma chooseLoop_choose:
  assumes "k \<le> n" and "n \<le> 2000"
  shows "chooseLoop n k = Inr (int (n choose k))"
proof -
  let ?P = "\<lambda>i. int ((n - k + (i - 1)) choose (i - 1))"
  have "foldE (\<lambda>r index. assertIntermediateIntegerBound ((r * int (n - k + index)) sdiv int index))
      (?P 1) [1 ..< k + 1] = Inr (?P (k + 1))"
  proof (rule foldE_upt)
    fix i assume i: "1 \<le> i" "i < k + 1"
    then obtain j where j: "i = Suc j" by (cases i) auto
    have "Suc j * (Suc (n - k + j) choose Suc j) = Suc (n - k + j) * ((n - k + j) choose j)"
      by (rule Suc_times_binomial)
    then have "?P i * int (n - k + i) = int i * ?P (Suc i)"
      unfolding j by (metis add_Suc_right diff_Suc_1 mult.commute of_nat_mult)
    then have e: "(?P i * int (n - k + i)) sdiv int i = ?P (Suc i)"
      using i by (simp add: sdiv_mult)
    have "?P (Suc i) < digitBound" using i assms by (intro choose_bounded) simp
    with e show "assertIntermediateIntegerBound ((?P i * int (n - k + i)) sdiv int i) = Inr (?P (Suc i))"
      by simp
  qed simp
  with assms(1) show ?thesis by (simp add: chooseLoop_def)
qed

text \<open>For arguments up to 1000 the digit limit is never reached and every division is exact.\<close>

lemma factorial_nat: "n \<le> 1000 \<Longrightarrow> factorial (of_nat n) = Inr (int (fact n))"
  using factorial_loop by (simp add: factorial_def del: of_nat_fact)

lemma permutations_nat:
  "n \<le> 1000 \<Longrightarrow> k \<le> 1000 \<Longrightarrow>
     permutations (of_nat n) (of_nat k) = Inr (if k \<le> n then int (fact n div fact (n - k)) else 0)"
  using permutations_loop by (simp add: permutations_def del: of_nat_fact)

lemma binomial_nat:
  "n \<le> 1000 \<Longrightarrow> k \<le> 1000 \<Longrightarrow> binomialBounded (of_nat n) (of_nat k) = Inr (int (n choose k))"
  using chooseLoop_choose [of "min k (n - k)" n] binomial_symmetric [of k n]
  by (auto simp: binomialBounded_def min_def)

lemma repetition_nat:
  assumes "n \<le> 1000" and "k \<le> 1000"
  shows "combinationsWithRepetition (of_nat n) (of_nat k) = Inr (int ((n + k - 1) choose k))"
proof (cases "n = 0 \<or> k = 0")
  case True
  with assms show ?thesis by (auto simp: combinationsWithRepetition_def)
next
  case False
  then have le: "k \<le> n + k - 1" "min k (n - 1) \<le> n + k - 1" by auto
  have "(n + k - 1) choose (min k (n - 1)) = (n + k - 1) choose k"
    using binomial_symmetric [OF le(1)] False by (auto simp: min_def)
  with False assms chooseLoop_choose [of "min k (n - 1)" "n + k - 1"] le show ?thesis
    by (simp add: combinationsWithRepetition_def Let_def)
qed

section \<open>Finite sets and multisets\<close>

lemma foldl_plus: "foldl (+) (a :: int) xs = a + sum_list xs"
  by (induction xs arbitrary: a) simp_all

lemma length_uniq: "length (uniq xs) = card (set xs)"
  by (metis distinct_card distinct_uniq set_uniq)

lemma sameFiniteSet_correct:
  assumes "length left \<le> 1024" and "length right \<le> 1024"
  shows "sameFiniteSet left right = Inr (set left = set right)"
proof -
  have "set left = set right" if "card (set left) = card (set right)" "set left \<subseteq> set right"
    using that by (simp add: card_subset_eq)
  with assms show ?thesis
    by (auto simp: sameFiniteSet_def assertFiniteContainerLength_def MAX_FINITE_CONTAINER_ITEMS_def
        Let_def length_uniq list_all_iff subset_iff)
qed

text \<open>A dictionary of counts stands for a multiset.\<close>

definition countsFor :: "nat dict \<Rightarrow> string multiset \<Rightarrow> bool" where
  "countsFor counts M =
     (\<forall>v. dget counts v = (if v \<in># M then Some (count M v) else None))"

lemma countsFor_add:
  "countsFor counts M \<Longrightarrow>
     countsFor (dput v ((case dget counts v of None \<Rightarrow> 0 | Some n \<Rightarrow> n) + 1) counts) (add_mset v M)"
  by (simp add: countsFor_def dget_dput not_in_iff)

lemma countValues_counts: "countsFor (countValues vs) (mset vs)"
proof (induction vs rule: rev_induct)
  case Nil
  then show ?case by (simp add: countValues_def countsFor_def)
next
  case (snoc v vs)
  from countsFor_add [OF this, of v] show ?case by (simp add: countValues_def)
qed

lemma countsFor_remove:
  assumes "countsFor counts M" and "dget counts v = Some n"
  shows "countsFor (if n = 1 then ddel v counts else dput v (n - 1) counts) (M - {#v#})"
proof -
  have n: "n = count M v" "v \<in># M" using assms by (auto simp: countsFor_def split: if_splits)
  then have "0 < count M v" by (simp only: count_greater_zero_iff)
  then have "n = 1 \<or> 1 < count M v" using n(1) by linarith
  with n assms(1) show ?thesis
    by (auto simp: countsFor_def dget_dput dget_ddel in_diff_count)
qed

lemma removeValues_counts:
  assumes "countsFor counts M"
  shows "(case removeValues counts vs of
     None \<Rightarrow> \<not> mset vs \<subseteq># M | Some c \<Rightarrow> mset vs \<subseteq># M \<and> countsFor c (M - mset vs))"
  using assms
proof (induction vs arbitrary: counts M)
  case Nil
  then show ?case by simp
next
  case (Cons v vs)
  show ?case
  proof (cases "dget counts v")
    case None
    with Cons.prems have "v \<notin># M" by (auto simp: countsFor_def split: if_splits)
    then have "\<not> mset (v # vs) \<subseteq># M" using mset_subset_eqD [of "mset (v # vs)" M v] by auto
    with None show ?thesis by simp
  next
    case (Some n)
    have in_M: "v \<in># M"
      using Some Cons.prems by (auto simp: countsFor_def split: if_splits)
    then have "mset (v # vs) \<subseteq># M \<longleftrightarrow> mset vs \<subseteq># M - {#v#}"
      by (simp add: insert_subset_eq_iff)
    moreover obtain rest where rest: "rest = (if n = 1 then ddel v counts else dput v (n - 1) counts)"
      by simp
    moreover have "M - {#v#} - mset vs = M - mset (v # vs)" by simp
    ultimately show ?thesis
      using Cons.IH [OF countsFor_remove [OF Cons.prems Some]] Some
      by (simp only: removeValues.simps option.case rest [symmetric] split: option.split)
  qed
qed

lemma countsFor_empty: "countsFor counts M \<Longrightarrow> counts = [] \<longleftrightarrow> M = {#}"
proof
  assume c: "countsFor counts M" and "M = {#}"
  then have none: "dget counts v = None" for v by (simp add: countsFor_def)
  show "counts = []"
  proof (cases counts)
    case (Cons e rest)
    with none [of "fst e"] show ?thesis by (cases e) (simp add: dget_Cons)
  qed
next
  assume "countsFor counts M" and "counts = []"
  then have "v \<notin># M" for v by (auto simp: countsFor_def split: if_splits)
  then show "M = {#}" by (intro multiset_eqI) (simp add: not_in_iff [symmetric])
qed

lemma sameFiniteMultiset_correct:
  assumes "length left \<le> 1024" and "length right \<le> 1024"
  shows "sameFiniteMultiset left right = Inr (mset left = mset right)"
proof -
  have "(case removeValues (countValues left) right of None \<Rightarrow> False | Some c \<Rightarrow> c = [])
      \<longleftrightarrow> mset left = mset right"
  proof (cases "removeValues (countValues left) right")
    case None
    with removeValues_counts [OF countValues_counts [of left], of right] show ?thesis by auto
  next
    case (Some c)
    with removeValues_counts [OF countValues_counts [of left], of right]
    have "mset right \<subseteq># mset left" "countsFor c (mset left - mset right)" by auto
    with countsFor_empty [OF this(2)] Some show ?thesis
      by (auto simp: Diff_eq_empty_iff_mset)
  qed
  moreover have "mset left = mset right \<Longrightarrow> length left = length right"
    by (rule mset_eq_length)
  ultimately show ?thesis using assms
    by (auto simp: sameFiniteMultiset_def assertFiniteContainerLength_def MAX_FINITE_CONTAINER_ITEMS_def)
qed

section \<open>Properties\<close>

text \<open>
  Property C40. Reading and writing integers are inverse: an integer of at most 4096 digits is formatted
  as a string that reads back as itself, and whatever string is accepted is the canonical form of the
  integer that was read, which has at most 4096 digits; every other string is refused.
\<close>

theorem integer_strings_round_trip:
  "(\<bar>v\<bar> < digitBound \<longrightarrow>
      (\<exists>s. formatInteger v = Inr s \<and> parseBoundedIntermediateInteger s = Inr v))
   \<and> (parseBoundedIntermediateInteger t = Inr u \<longleftrightarrow>
      isCanonicalIntegerString t \<and> formatInteger u = Inr t)"
  by (auto simp: formatInteger_def bindE_eq_Inr parse_intermediate)

theorem integer_strings_round_trip_witness:
  "parseBoundedIntermediateInteger ''-120'' = Inr (- 120)
   \<and> parseBoundedIntermediateInteger ''-0'' = Inl INVALID_INTEGER"
proof -
  have "formatInteger (- 120) = Inr ''-120''" "isCanonicalIntegerString ''-120''"
    "parseBoundedIntermediateInteger ''-0'' = Inl INVALID_INTEGER"
    by code_simp+
  with integer_strings_round_trip [of 0 "''-120''" "- 120"] show ?thesis by simp
qed

text \<open>
  The set and multiset comparisons decide equality of sets and of multisets, for
  containers within the item limit; larger ones are refused.
\<close>

theorem finite_containers_compare:
  "sameFiniteSet left right =
     (if length left \<le> MAX_FINITE_CONTAINER_ITEMS \<and> length right \<le> MAX_FINITE_CONTAINER_ITEMS
      then Inr (set left = set right) else Inl CONTAINER_LIMIT_EXCEEDED)
   \<and> sameFiniteMultiset left right =
     (if length left \<le> MAX_FINITE_CONTAINER_ITEMS \<and> length right \<le> MAX_FINITE_CONTAINER_ITEMS
      then Inr (mset left = mset right) else Inl CONTAINER_LIMIT_EXCEEDED)"
  using sameFiniteSet_correct [of left right] sameFiniteMultiset_correct [of left right]
  by (auto simp: MAX_FINITE_CONTAINER_ITEMS_def sameFiniteSet_def sameFiniteMultiset_def
      assertFiniteContainerLength_def)

end
