(* ===== verification/StructuredStatements.thy ===== *)
theory StructuredStatements
  imports Domain BoundedMathFacts
begin

text \<open>
  The untrusted input of the deterministic verifiers:
  \<^verbatim>\<open>packages/verification/src/structured-statement-validation.ts\<close>,
  \<^verbatim>\<open>verifier-common.ts\<close> and \<^verbatim>\<open>confidence.ts\<close>. \<^verbatim>\<open>JSON.parse\<close> and
  the \<^verbatim>\<open>safeParse\<close> of a zod schema are arguments of the definitions; a number that is not
  finite is \<open>None\<close>. The loop over the parsed value is proved to decide the nesting, the number of
  nodes and the length of arrays of the whole value.
\<close>

section \<open>Parsed input\<close>

datatype Json =
    JNull
  | JBoolean bool
  | JNumber "rat option"
  | JString string
  | JArray "Json list"
  | JObject "(string \<times> Json) list"

definition childrenOf :: "Json \<Rightarrow> Json list" where
  "childrenOf v = (case v of JArray xs \<Rightarrow> xs | JObject kvs \<Rightarrow> map snd kvs | _ \<Rightarrow> [])"

definition arrayTooLong :: "Json \<Rightarrow> bool" where
  "arrayTooLong v = (case v of JArray xs \<Rightarrow> length xs > MAX_STRUCTURED_ARRAY_ITEMS | _ \<Rightarrow> False)"

text \<open>The items still pending, the last one pushed first, and the number of items visited.\<close>

definition pendingSize :: "(Json \<times> nat) list \<Rightarrow> nat" where
  "pendingSize pending = sum_list (map (\<lambda>(v, _). Suc (size v)) pending)"

lemma pendingSize_simps [simp]:
  "pendingSize [] = 0" "pendingSize ((v, d) # ps) = Suc (size v) + pendingSize ps"
  "pendingSize (ps @ qs) = pendingSize ps + pendingSize qs"
  by (simp_all add: pendingSize_def)

lemma children_smaller: "pendingSize (rev (map (\<lambda>c. (c, d)) (childrenOf v))) < Suc (size v)"
proof -
  have list: "sum_list (map (\<lambda>x. Suc (size x)) xs) \<le> size_list size xs" for xs :: "Json list"
    by (induction xs) simp_all
  have pairs: "sum_list (map (\<lambda>x. Suc (size x)) (map snd kvs)) \<le> size_list (size_prod (\<lambda>_. 0) size) kvs"
    for kvs :: "(string \<times> Json) list"
    by (induction kvs) auto
  have "pendingSize (rev (map (\<lambda>c. (c, d)) xs)) = sum_list (map (\<lambda>x. Suc (size x)) xs)" for xs
    by (simp add: pendingSize_def rev_map [symmetric] sum_list_rev o_def)
  moreover have "sum_list (map (\<lambda>x. Suc (size x)) (childrenOf v)) < Suc (size v)"
  proof (cases v)
    case (JArray xs)
    with list [of xs] show ?thesis by (simp add: childrenOf_def)
  next
    case (JObject kvs)
    with pairs [of kvs] show ?thesis by (simp add: childrenOf_def)
  qed (simp_all add: childrenOf_def)
  ultimately show ?thesis by simp
qed

function boundsLoop :: "(Json \<times> nat) list \<Rightarrow> nat \<Rightarrow> bool" where
  "boundsLoop [] visitedNodes = True"
| "boundsLoop ((v, depth) # pending) visitedNodes =
     (if depth > MAX_STRUCTURED_INPUT_DEPTH \<or> visitedNodes + 1 > MAX_STRUCTURED_INPUT_NODES then False
      else if arrayTooLong v then False
      else boundsLoop (rev (map (\<lambda>c. (c, depth + 1)) (childrenOf v)) @ pending) (visitedNodes + 1))"
  by pat_completeness auto
termination
  by (relation "measure (\<lambda>(pending, _). pendingSize pending)") (simp_all add: children_smaller)

definition structuredInputWithinBounds :: "Json \<Rightarrow> bool" where
  "structuredInputWithinBounds v = boundsLoop [(v, 1)] 0"

section \<open>Validation\<close>

datatype StructuredStatementValidationCode =
    V_STATEMENT_NOT_STRING | V_STATEMENT_TOO_LARGE | V_INVALID_JSON | V_RESOURCE_LIMIT
  | V_MALFORMED_INTERPRETATION

text \<open>What \<^verbatim>\<open>schema.safeParse\<close> does: throw, reject (with an issue of code
  \<^verbatim>\<open>too_big\<close> or without), or return data.\<close>

datatype 'a SafeParse = Threw | Rejected bool | Parsed 'a

text \<open>\<open>None\<close> is a statement that is not a string.\<close>

definition validateStructuredStatement ::
  "(string \<Rightarrow> Json option) \<Rightarrow> string option \<Rightarrow> (Json \<Rightarrow> 'a SafeParse)
     \<Rightarrow> (StructuredStatementValidationCode, 'a) result" where
  "validateStructuredStatement jsonParse statement safeParse =
     (case statement of
        None \<Rightarrow> Inl V_STATEMENT_NOT_STRING
      | Some s \<Rightarrow>
          if length s > MAX_MATH_STATEMENT_CHARACTERS then Inl V_STATEMENT_TOO_LARGE
          else (case jsonParse s of
              None \<Rightarrow> Inl V_INVALID_JSON
            | Some parsed \<Rightarrow>
                if \<not> structuredInputWithinBounds parsed then Inl V_RESOURCE_LIMIT
                else (case safeParse parsed of
                    Threw \<Rightarrow> Inl V_MALFORMED_INTERPRETATION
                  | Rejected tooBig \<Rightarrow> Inl (if tooBig then V_RESOURCE_LIMIT else V_MALFORMED_INTERPRETATION)
                  | Parsed d \<Rightarrow> Inr d)))"

section \<open>Results\<close>

datatype VerificationReasonCode =
    INVALID_INTERPRETATION_CONFIDENCE | INSUFFICIENT_INTERPRETATION_CONFIDENCE
  | STATEMENT_TOO_LARGE | INVALID_JSON | MALFORMED_INTERPRETATION | ARITHMETIC_UNDEFINED
  | RESOURCE_LIMIT | CLAIM_VERIFIED | CLAIM_CONTRADICTED

fun reasonCode :: "VerificationReasonCode \<Rightarrow> string" where
  "reasonCode INVALID_INTERPRETATION_CONFIDENCE = ''INVALID_INTERPRETATION_CONFIDENCE''"
| "reasonCode INSUFFICIENT_INTERPRETATION_CONFIDENCE = ''INSUFFICIENT_INTERPRETATION_CONFIDENCE''"
| "reasonCode STATEMENT_TOO_LARGE = ''STATEMENT_TOO_LARGE''"
| "reasonCode INVALID_JSON = ''INVALID_JSON''"
| "reasonCode MALFORMED_INTERPRETATION = ''MALFORMED_INTERPRETATION''"
| "reasonCode ARITHMETIC_UNDEFINED = ''ARITHMETIC_UNDEFINED''"
| "reasonCode RESOURCE_LIMIT = ''RESOURCE_LIMIT''"
| "reasonCode CLAIM_VERIFIED = ''CLAIM_VERIFIED''"
| "reasonCode CLAIM_CONTRADICTED = ''CLAIM_CONTRADICTED''"

definition verificationResult ::
  "VerificationStatus \<Rightarrow> rat \<Rightarrow> string \<Rightarrow> VerificationReasonCode \<Rightarrow> string \<Rightarrow> VerificationResult" where
  "verificationResult status confidence verifier code detail =
     \<lparr> vrStatus = status, vrInterpretationConfidence = confidence, vrVerifier = verifier,
       vrReason = reasonCode code @ '': '' @ detail \<rparr>"

record NormalizedInterpretationConfidence =
  nicValue :: rat
  nicValid :: bool

definition normalizeInterpretationConfidence :: "rat option \<Rightarrow> NormalizedInterpretationConfidence" where
  "normalizeInterpretationConfidence confidence =
     (case confidence of
        Some c \<Rightarrow> if 0 \<le> c \<and> c \<le> 1 then \<lparr> nicValue = c, nicValid = True \<rparr>
          else \<lparr> nicValue = 0, nicValid = False \<rparr>
      | None \<Rightarrow> \<lparr> nicValue = 0, nicValid = False \<rparr>)"

fun statementValidationFailure ::
  "StructuredStatementValidationCode \<Rightarrow> rat \<Rightarrow> string \<Rightarrow> VerificationResult" where
  "statementValidationFailure V_STATEMENT_TOO_LARGE c verifier =
     verificationResult UNRESOLVED c verifier STATEMENT_TOO_LARGE
       ''Formal interpretation exceeds the deterministic math statement limit''"
| "statementValidationFailure V_INVALID_JSON c verifier =
     verificationResult UNRESOLVED c verifier INVALID_JSON ''Formal interpretation is not valid JSON''"
| "statementValidationFailure V_RESOURCE_LIMIT c verifier =
     verificationResult UNRESOLVED c verifier RESOURCE_LIMIT
       ''Formal interpretation exceeds a structured input or schema resource limit''"
| "statementValidationFailure V_STATEMENT_NOT_STRING c verifier =
     verificationResult UNRESOLVED c verifier MALFORMED_INTERPRETATION
       ''Formal interpretation must be supplied as a string''"
| "statementValidationFailure V_MALFORMED_INTERPRETATION c verifier =
     verificationResult UNRESOLVED c verifier MALFORMED_INTERPRETATION
       ''Formal interpretation is malformed, unsupported, or incomplete''"

text \<open>\<open>Inl\<close> is the result to return at once, \<open>Inr\<close> the data and the confidence.\<close>

definition prepareStructuredStatement ::
  "(string \<Rightarrow> Json option) \<Rightarrow> string option \<Rightarrow> rat option \<Rightarrow> string \<Rightarrow> (Json \<Rightarrow> 'a SafeParse)
     \<Rightarrow> (VerificationResult, 'a \<times> rat) result" where
  "prepareStructuredStatement jsonParse statement confidence verifier safeParse =
     (let normalized = normalizeInterpretationConfidence confidence in
      if \<not> nicValid normalized then
        Inl (verificationResult UNRESOLVED (nicValue normalized) verifier INVALID_INTERPRETATION_CONFIDENCE
          ''Interpretation confidence must be a finite value between 0 and 1'')
      else if nicValue normalized < 1 then
        Inl (verificationResult UNRESOLVED (nicValue normalized) verifier
          INSUFFICIENT_INTERPRETATION_CONFIDENCE
          ''Formal interpretation confidence is insufficient for deterministic verification'')
      else case validateStructuredStatement jsonParse statement safeParse of
          Inl code \<Rightarrow> Inl (statementValidationFailure code (nicValue normalized) verifier)
        | Inr d \<Rightarrow> Inr (d, nicValue normalized))"

text \<open>What a computation throws: a \<^verbatim>\<open>BoundedMathError\<close> with its message, or another
  error.\<close>

datatype MathError = BoundedMathError BoundedMathErrorCode | OtherError

definition isResourceCode :: "BoundedMathErrorCode \<Rightarrow> bool" where
  "isResourceCode c = (c \<in> {INTEGER_LIMIT_EXCEEDED, INTERMEDIATE_LIMIT_EXCEEDED,
     COMBINATORIAL_LIMIT_EXCEEDED, CONTAINER_LIMIT_EXCEEDED})"

definition isMalformedCode :: "BoundedMathErrorCode \<Rightarrow> bool" where
  "isMalformedCode c = (c \<in> {INVALID_INTEGER, INVALID_MODULUS, INVALID_COMBINATORIAL_ARGUMENT,
     INVALID_PROBABILITY, INVALID_EXPRESSION})"

text \<open>The messages of the errors are an argument.\<close>

definition mathFailure ::
  "(BoundedMathErrorCode \<Rightarrow> string) \<Rightarrow> MathError \<Rightarrow> rat \<Rightarrow> string \<Rightarrow> VerificationResult" where
  "mathFailure messageOf err confidence verifier =
     (case err of
        BoundedMathError code \<Rightarrow>
          verificationResult UNRESOLVED confidence verifier
            (if isResourceCode code then RESOURCE_LIMIT
             else if isMalformedCode code then MALFORMED_INTERPRETATION else ARITHMETIC_UNDEFINED)
            (messageOf code)
      | OtherError \<Rightarrow>
          verificationResult UNRESOLVED confidence verifier ARITHMETIC_UNDEFINED
            ''Exact arithmetic could not evaluate the supplied structured claim'')"

definition booleanClaimResult ::
  "bool \<Rightarrow> rat \<Rightarrow> string \<Rightarrow> string \<Rightarrow> string \<Rightarrow> VerificationResult" where
  "booleanClaimResult verified confidence verifier verifiedDetail contradictedDetail =
     (if verified then verificationResult VERIFIED confidence verifier CLAIM_VERIFIED verifiedDetail
      else verificationResult CONTRADICTED confidence verifier CLAIM_CONTRADICTED contradictedDetail)"

section \<open>The bounds of the input\<close>

text \<open>The same three quantities over the whole value.\<close>

fun jsonNodes :: "Json \<Rightarrow> nat" where
  "jsonNodes (JArray xs) = 1 + sum_list (map jsonNodes xs)"
| "jsonNodes (JObject kvs) = 1 + sum_list (map (\<lambda>(_, v). jsonNodes v) kvs)"
| "jsonNodes _ = 1"

fun jsonDepth :: "Json \<Rightarrow> nat" where
  "jsonDepth (JArray xs) = 1 + foldr max (map jsonDepth xs) 0"
| "jsonDepth (JObject kvs) = 1 + foldr max (map (\<lambda>(_, v). jsonDepth v) kvs) 0"
| "jsonDepth _ = 1"

fun arraysWithin :: "nat \<Rightarrow> Json \<Rightarrow> bool" where
  "arraysWithin k (JArray xs) = (length xs \<le> k \<and> list_all (arraysWithin k) xs)"
| "arraysWithin k (JObject kvs) = list_all (\<lambda>(_, v). arraysWithin k v) kvs"
| "arraysWithin k _ = True"

lemma children_equations:
  "jsonNodes v = 1 + sum_list (map jsonNodes (childrenOf v))"
  "jsonDepth v = 1 + foldr max (map jsonDepth (childrenOf v)) 0"
  "arraysWithin 1024 v \<longleftrightarrow> \<not> arrayTooLong v \<and> list_all (arraysWithin 1024) (childrenOf v)"
  by (cases v; auto simp: childrenOf_def arrayTooLong_def MAX_STRUCTURED_ARRAY_ITEMS_def
      case_prod_unfold o_def list_all_iff)+

lemma max_children:
  "d + foldr max (map jsonDepth xs) 0 \<le> k \<longleftrightarrow> d \<le> k \<and> (\<forall>x \<in> set xs. d + jsonDepth x \<le> (k :: nat))"
  by (induction xs) auto

lemma boundsLoop_global:
  "visited \<le> 10000 \<Longrightarrow> boundsLoop pending visited \<longleftrightarrow>
     visited + sum_list (map (\<lambda>(v, _). jsonNodes v) pending) \<le> 10000
     \<and> (\<forall>(v, d) \<in> set pending. d + jsonDepth v \<le> 33 \<and> arraysWithin 1024 v)"
proof (induction pending visited rule: boundsLoop.induct)
  case (1 visited)
  then show ?case by simp
next
  case (2 v d pending visited)
  note eqs = children_equations [of v]
  let ?c = "map (\<lambda>c. (c, d + 1)) (childrenOf v)"
  show ?case
  proof (cases "d \<le> 32 \<and> visited + 1 \<le> 10000 \<and> \<not> arrayTooLong v")
    case False
    have "sum_list (map (\<lambda>(v, _). jsonNodes v) ((v, d) # pending)) \<ge> 1" using eqs(1) by simp
    with False 2(2) show ?thesis
      by (auto simp: MAX_STRUCTURED_INPUT_DEPTH_def MAX_STRUCTURED_INPUT_NODES_def eqs)
  next
    case True
    have step: "boundsLoop ((v, d) # pending) visited = boundsLoop (rev ?c @ pending) (visited + 1)"
      using True by (simp add: MAX_STRUCTURED_INPUT_DEPTH_def MAX_STRUCTURED_INPUT_NODES_def)
    have "boundsLoop (rev ?c @ pending) (visited + 1) \<longleftrightarrow>
        visited + 1 + sum_list (map (\<lambda>(v, _). jsonNodes v) (rev ?c @ pending)) \<le> 10000
        \<and> (\<forall>(v, d) \<in> set (rev ?c @ pending). d + jsonDepth v \<le> 33 \<and> arraysWithin 1024 v)"
      using True by (intro "2.IH") (simp_all add: MAX_STRUCTURED_INPUT_DEPTH_def MAX_STRUCTURED_INPUT_NODES_def)
    moreover have "sum_list (map (\<lambda>(v, _). jsonNodes v) (rev ?c)) = sum_list (map jsonNodes (childrenOf v))"
      by (simp add: rev_map [symmetric] sum_list_rev o_def)
    moreover have "(\<forall>(w, e) \<in> set ?c. e + jsonDepth w \<le> 33 \<and> arraysWithin 1024 w)
        \<longleftrightarrow> d + jsonDepth v \<le> 33 \<and> arraysWithin 1024 v"
      using True max_children [of "d + 1" "childrenOf v" 33] eqs by (auto simp: list_all_iff)
    ultimately show ?thesis
      unfolding step set_append set_rev map_append sum_list_append ball_Un by (simp add: eqs(1))
  qed
qed

text \<open>The loop over a parsed statement, which pushes and pops its values one at a time
  and stops at the first excess, accepts a value exactly when the whole value is nested at most 32
  deep, has at most 10000 nodes and no array of more than 1024 items; and it always ends.\<close>

theorem structured_bounds_are_global:
  "structuredInputWithinBounds v \<longleftrightarrow> jsonDepth v \<le> 32 \<and> jsonNodes v \<le> 10000 \<and> arraysWithin 1024 v"
  by (auto simp: structuredInputWithinBounds_def boundsLoop_global simp del: boundsLoop.simps)

end
