(* ===== verification/ExactRationals.thy ===== *)
theory ExactRationals
  imports BoundedMath
begin

text \<open>
  Second part of \<^verbatim>\<open>packages/verification/src/math-utils.ts\<close>: exact rationals as pairs of
  bounded integers, their arithmetic, and sums and products of many terms, which try an unreduced
  wide accumulation first and fall back to common denominators and to cancelling pairs. A
  \<^verbatim>\<open>Map\<close> is an insertion-ordered dictionary; its entries, which the loops update in place, are
  written back.
\<close>

record ExactRational =
  rNum :: int
  rDen :: int

record RationalInput =
  riNumerator :: string
  riDenominator :: string

definition mkRational :: "int \<Rightarrow> int \<Rightarrow> ExactRational" where
  "mkRational n d = \<lparr> rNum = n, rDen = d \<rparr>"

section \<open>Construction\<close>

definition boundRational :: "ExactRational \<Rightarrow> ExactRational math" where
  "boundRational v =
     bindE (assertIntermediateIntegerBound (rNum v)) (\<lambda>_.
       bindE (assertIntermediateIntegerBound (rDen v)) (\<lambda>_. Inr v))"

definition rational :: "int \<Rightarrow> int \<Rightarrow> ExactRational math" where
  "rational numerator denominator =
     bindE (assertIntermediateIntegerBound numerator) (\<lambda>_.
       bindE (assertIntermediateIntegerBound denominator) (\<lambda>_.
         if denominator = 0 then Inl DIVISION_BY_ZERO
         else if numerator = 0 then Inr (mkRational 0 1)
         else let sign = (if denominator < 0 then - 1 else 1);
                  normalizedNumerator = numerator * sign;
                  normalizedDenominator = denominator * sign in
           bindE (gcdBounded normalizedNumerator normalizedDenominator) (\<lambda>factor.
             boundRational (mkRational (normalizedNumerator sdiv factor)
               (normalizedDenominator sdiv factor)))))"

definition normalizeRational :: "ExactRational \<Rightarrow> ExactRational math" where
  "normalizeRational v = rational (rNum v) (rDen v)"

definition parseRationalInput :: "RationalInput \<Rightarrow> ExactRational math" where
  "parseRationalInput v =
     bindE (parseBoundedInteger (riNumerator v)) (\<lambda>n.
       bindE (parseBoundedInteger (riDenominator v)) (\<lambda>d. rational n d))"

definition parseIntermediateRationalInput :: "RationalInput \<Rightarrow> ExactRational math" where
  "parseIntermediateRationalInput v =
     bindE (parseBoundedIntermediateInteger (riNumerator v)) (\<lambda>n.
       bindE (parseBoundedIntermediateInteger (riDenominator v)) (\<lambda>d. rational n d))"

definition serializeRational :: "ExactRational \<Rightarrow> RationalInput math" where
  "serializeRational v =
     bindE (normalizeRational v) (\<lambda>r.
       Inr \<lparr> riNumerator = bigintToString (rNum r), riDenominator = bigintToString (rDen r) \<rparr>)"

definition checkedRational :: "ExactRational \<Rightarrow> ExactRational math" where
  "checkedRational v =
     bindE (assertIntermediateIntegerBound (rNum v)) (\<lambda>n.
       bindE (assertIntermediateIntegerBound (rDen v)) (\<lambda>d.
         if d = 0 then Inl DIVISION_BY_ZERO
         else Inr (if d < 0 then mkRational (- n) (- d) else mkRational n d)))"

section \<open>Binary operations\<close>

text \<open>The exact quotient with its components checked against the digit limit.\<close>

definition reducedBy :: "int \<Rightarrow> int \<Rightarrow> int \<Rightarrow> ExactRational math" where
  "reducedBy cancellation n d =
     bindE (assertIntermediateIntegerBound (n sdiv cancellation)) (\<lambda>n'.
       bindE (assertIntermediateIntegerBound (d sdiv cancellation)) (\<lambda>d'. Inr (mkRational n' d')))"

definition addRationals :: "ExactRational \<Rightarrow> ExactRational \<Rightarrow> ExactRational math" where
  "addRationals left right =
     bindE (checkedRational left) (\<lambda>l.
       bindE (checkedRational right) (\<lambda>r.
         let commonFactor = gcdUnchecked (rDen l) (rDen r);
             leftScale = rDen r sdiv commonFactor;
             rightScale = rDen l sdiv commonFactor;
             n = rNum l * leftScale + rNum r * rightScale;
             d = rDen l * leftScale in
         reducedBy (gcdUnchecked n d) n d))"

definition subtractRationals :: "ExactRational \<Rightarrow> ExactRational \<Rightarrow> ExactRational math" where
  "subtractRationals left right =
     bindE (checkedRational right) (\<lambda>r. addRationals left (mkRational (- rNum r) (rDen r)))"

definition multiplyRationals :: "ExactRational \<Rightarrow> ExactRational \<Rightarrow> ExactRational math" where
  "multiplyRationals left right =
     bindE (checkedRational left) (\<lambda>l.
       bindE (checkedRational right) (\<lambda>r.
         let leftCancellation = gcdUnchecked (rNum l) (rDen r);
             rightCancellation = gcdUnchecked (rNum r) (rDen l);
             n = (rNum l sdiv leftCancellation) * (rNum r sdiv rightCancellation);
             d = (rDen l sdiv rightCancellation) * (rDen r sdiv leftCancellation) in
         reducedBy (gcdUnchecked n d) n d))"

definition divideRationals :: "ExactRational \<Rightarrow> ExactRational \<Rightarrow> ExactRational math" where
  "divideRationals left right =
     bindE (checkedRational right) (\<lambda>r.
       if rNum r = 0 then Inl DIVISION_BY_ZERO
       else multiplyRationals left (mkRational (rDen r) (rNum r)))"

definition negateRational :: "ExactRational \<Rightarrow> ExactRational math" where
  "negateRational v = bindE (normalizeRational v) (\<lambda>r. Inr (mkRational (- rNum r) (rDen r)))"

definition equalRationals :: "ExactRational \<Rightarrow> ExactRational \<Rightarrow> bool math" where
  "equalRationals left right =
     bindE (checkedRational left) (\<lambda>l.
       bindE (checkedRational right) (\<lambda>r. Inr (rNum l * rDen r = rNum r * rDen l)))"

definition compareRationals :: "ExactRational \<Rightarrow> ExactRational \<Rightarrow> int math" where
  "compareRationals left right =
     bindE (checkedRational left) (\<lambda>l.
       bindE (checkedRational right) (\<lambda>r.
         let leftScaled = rNum l * rDen r; rightScaled = rNum r * rDen l in
         Inr (if leftScaled = rightScaled then 0 else if leftScaled < rightScaled then - 1 else 1)))"

section \<open>Multisets of rationals\<close>

definition rationalKey :: "ExactRational \<Rightarrow> string" where
  "rationalKey v = bigintToString (rNum v) @ ''/'' @ bigintToString (rDen v)"

type_synonym counts = "(ExactRational \<times> nat) dict"

definition rationalCounts :: "ExactRational list \<Rightarrow> counts" where
  "rationalCounts values =
     foldl (\<lambda>counts v.
       let key = rationalKey v in
       case dget counts key of
         None \<Rightarrow> dput key (v, 1) counts
       | Some (w, n) \<Rightarrow> dput key (w, n + 1) counts) [] values"

definition expandCounts :: "counts \<Rightarrow> ExactRational list" where
  "expandCounts counts = concat (map (\<lambda>(v, n). replicate n v) (dvals counts))"

section \<open>Sums\<close>

fun stringLess :: "string \<Rightarrow> string \<Rightarrow> bool" where
  "stringLess [] [] = False"
| "stringLess [] (c # cs) = True"
| "stringLess (c # cs) [] = False"
| "stringLess (c # cs) (d # ds) =
     ((of_char c :: nat) < of_char d \<or> c = d \<and> stringLess cs ds)"

definition compareRationalDenominatorKeys :: "string \<Rightarrow> string \<Rightarrow> int" where
  "compareRationalDenominatorKeys left right =
     (if length left \<noteq> length right then int (length left) - int (length right)
      else if stringLess left right then - 1 else if stringLess right left then 1 else 0)"

text \<open>\<^verbatim>\<open>Array.prototype.sort\<close> with a comparator, which is stable.\<close>

fun insertBy :: "('a \<Rightarrow> 'a \<Rightarrow> int) \<Rightarrow> 'a \<Rightarrow> 'a list \<Rightarrow> 'a list" where
  "insertBy cmp x [] = [x]"
| "insertBy cmp x (y # ys) = (if cmp x y \<le> 0 then x # y # ys else y # insertBy cmp x ys)"

definition sortBy :: "('a \<Rightarrow> 'a \<Rightarrow> int) \<Rightarrow> 'a list \<Rightarrow> 'a list" where
  "sortBy cmp xs = foldr (insertBy cmp) xs []"

definition groupByDenominator :: "ExactRational list \<Rightarrow> ExactRational dict" where
  "groupByDenominator values =
     foldl (\<lambda>groups v.
       let key = bigintToString (rDen v) in
       case dget groups key of
         None \<Rightarrow> dput key (mkRational (rNum v) (rDen v)) groups
       | Some e \<Rightarrow> dput key (mkRational (rNum e + rNum v) (rDen e)) groups) [] values"

definition groupRationalSumTerms :: "ExactRational list \<Rightarrow> ExactRational list" where
  "groupRationalSumTerms values =
     map snd (sortBy (\<lambda>a b. compareRationalDenominatorKeys (fst a) (fst b))
       (filter (\<lambda>(_, v). rNum v \<noteq> 0) (groupByDenominator values)))"

definition wideWorkComponentWithinBound :: "int \<Rightarrow> bool" where
  "wideWorkComponentWithinBound v = (decimalDigitCount v \<le> MAX_WIDE_RATIONAL_WORK_DECIMAL_DIGITS)"

text \<open>\<open>None\<close> is the \<^verbatim>\<open>undefined\<close> of a computation that would exceed the work limit.\<close>

fun wideSumLoop :: "ExactRational \<Rightarrow> ExactRational list \<Rightarrow> ExactRational option" where
  "wideSumLoop acc [] = Some acc"
| "wideSumLoop acc (v # vs) =
     (let commonFactor = gcdUnchecked (rDen acc) (rDen v);
          leftScale = rDen v sdiv commonFactor;
          rightScale = rDen acc sdiv commonFactor;
          n = rNum acc * leftScale + rNum v * rightScale;
          d = rDen acc * leftScale in
      if \<not> wideWorkComponentWithinBound n \<or> \<not> wideWorkComponentWithinBound d then None
      else wideSumLoop (mkRational n d) vs)"

definition reduceTotal :: "int \<Rightarrow> int \<Rightarrow> ExactRational math" where
  "reduceTotal n d =
     (let cancellation = gcdUnchecked n d in
      bindE (assertIntermediateIntegerBound (n sdiv cancellation)) (\<lambda>n'.
        bindE (assertIntermediateIntegerBound (d sdiv cancellation)) (\<lambda>d'. rational n' d')))"

definition tryWideRationalSum :: "ExactRational list \<Rightarrow> ExactRational option math" where
  "tryWideRationalSum values =
     (case wideSumLoop (mkRational 0 1) values of
        None \<Rightarrow> Inr None
      | Some acc \<Rightarrow> bindE (reduceTotal (rNum acc) (rDen acc)) (\<lambda>r. Inr (Some r)))"

fun commonDenominatorLoop :: "int \<Rightarrow> ExactRational list \<Rightarrow> int option" where
  "commonDenominatorLoop common [] = Some common"
| "commonDenominatorLoop common (v # vs) =
     (let factor = gcdUnchecked common (rDen v);
          candidate = (common sdiv factor) * rDen v in
      if decimalDigitCount candidate > MAX_INTERMEDIATE_INTEGER_DECIMAL_DIGITS then None
      else commonDenominatorLoop candidate vs)"

definition boundedCommonDenominator :: "ExactRational list \<Rightarrow> int option" where
  "boundedCommonDenominator values = commonDenominatorLoop 1 values"

definition sumWithCommonDenominator :: "ExactRational list \<Rightarrow> int \<Rightarrow> ExactRational math" where
  "sumWithCommonDenominator values common =
     (let n = foldl (\<lambda>n v. n + rNum v * (common sdiv rDen v)) 0 values in
      if \<not> wideWorkComponentWithinBound n then Inl INTERMEDIATE_LIMIT_EXCEEDED
      else reduceTotal n common)"

definition cancelOpposite :: "counts \<Rightarrow> string \<Rightarrow> counts" where
  "cancelOpposite counts key =
     (case dget counts key of
        None \<Rightarrow> counts
      | Some (v, n) \<Rightarrow>
          if n = 0 \<or> rNum v \<le> 0 then counts
          else let oppositeKey = rationalKey (mkRational (- rNum v) (rDen v)) in
            (case dget counts oppositeKey of
               None \<Rightarrow> counts
             | Some (w, m) \<Rightarrow>
                 if m = 0 then counts
                 else let cancelled = min n m in
                   dput oppositeKey (w, m - cancelled) (dput key (v, n - cancelled) counts)))"

definition sumRationals :: "ExactRational list \<Rightarrow> ExactRational math" where
  "sumRationals values =
     bindE (assertFiniteContainerLength (length values)) (\<lambda>_.
       bindE (mapE checkedRational values) (\<lambda>checkedValues.
         bindE (tryWideRationalSum (groupRationalSumTerms checkedValues)) (\<lambda>wideResult.
           case wideResult of
             Some r \<Rightarrow> Inr r
           | None \<Rightarrow>
               (case boundedCommonDenominator checkedValues of
                  Some common \<Rightarrow> sumWithCommonDenominator checkedValues common
                | None \<Rightarrow>
                    bindE (mapE normalizeRational checkedValues) (\<lambda>normalizedValues.
                      let counts = rationalCounts normalizedValues;
                          cancelled = foldl cancelOpposite counts (dkeys counts);
                          remaining = filter (\<lambda>v. rNum v \<noteq> 0) (expandCounts cancelled) in
                      case boundedCommonDenominator remaining of
                        Some common \<Rightarrow> sumWithCommonDenominator remaining common
                      | None \<Rightarrow> Inl INTERMEDIATE_LIMIT_EXCEEDED)))))"

section \<open>Products\<close>

fun wideProductLoop :: "int \<Rightarrow> int \<Rightarrow> ExactRational list \<Rightarrow> (int \<times> int) option" where
  "wideProductLoop n d [] = Some (n, d)"
| "wideProductLoop n d (v # vs) =
     (let n' = n * rNum v; d' = d * rDen v in
      if \<not> wideWorkComponentWithinBound n' \<or> \<not> wideWorkComponentWithinBound d' then None
      else wideProductLoop n' d' vs)"

definition tryWideRationalProduct :: "ExactRational list \<Rightarrow> ExactRational option math" where
  "tryWideRationalProduct values =
     (case wideProductLoop 1 1 values of
        None \<Rightarrow> Inr None
      | Some (n, d) \<Rightarrow> bindE (reduceTotal n d) (\<lambda>r. Inr (Some r)))"

text \<open>The inner loop: one numerator against all denominators, stopping when it has become 1.\<close>

fun cancelDenominators :: "int \<Rightarrow> int list \<Rightarrow> int \<times> int list" where
  "cancelDenominators n [] = (n, [])"
| "cancelDenominators n (d # ds) =
     (if d \<le> 1 then (case cancelDenominators n ds of (n', ds') \<Rightarrow> (n', d # ds'))
      else let factor = gcdUnchecked n d in
        if factor = 1 then (case cancelDenominators n ds of (n', ds') \<Rightarrow> (n', d # ds'))
        else if n sdiv factor = 1 then (1, d sdiv factor # ds)
        else (case cancelDenominators (n sdiv factor) ds of
                (n', ds') \<Rightarrow> (n', d sdiv factor # ds')))"

fun cancelNumerators :: "int list \<Rightarrow> int list \<Rightarrow> int list \<times> int list" where
  "cancelNumerators [] ds = ([], ds)"
| "cancelNumerators (n # ns) ds =
     (if n \<le> 1 then (case cancelNumerators ns ds of (ns', ds') \<Rightarrow> (n # ns', ds'))
      else (case cancelDenominators n ds of
              (n', ds1) \<Rightarrow> (case cancelNumerators ns ds1 of (ns', ds') \<Rightarrow> (n' # ns', ds'))))"

definition fullyCancelledRationalProduct :: "ExactRational list \<Rightarrow> ExactRational math" where
  "fullyCancelledRationalProduct values =
     (let negative = foldl (\<lambda>neg v. if rNum v < 0 then \<not> neg else neg) False values;
          numerators = map (\<lambda>v. if rNum v < 0 then - rNum v else rNum v) values;
          denominators = map rDen values in
      case cancelNumerators numerators denominators of
        (ns, ds) \<Rightarrow>
          bindE (productIntegers ns) (\<lambda>n.
            bindE (productIntegers ds) (\<lambda>d. rational (if negative then - n else n) d)))"

text \<open>One turn of the loop over the entries, with the set of visited keys.\<close>

definition cancelReciprocal :: "counts \<times> string list \<Rightarrow> string \<Rightarrow> (counts \<times> string list) math" where
  "cancelReciprocal state key =
     (case state of (counts, visited) \<Rightarrow>
        (case dget counts key of
           None \<Rightarrow> Inr (counts, visited)
         | Some (v, n) \<Rightarrow>
             if n = 0 \<or> key \<in> set visited then Inr (counts, visited)
             else bindE (rational (rDen v) (rNum v)) (\<lambda>reciprocal.
               let reciprocalKey = rationalKey reciprocal;
                   visited' = reciprocalKey # key # visited in
               if reciprocalKey = key then
                 Inr (dput key (v, if rNum v = rDen v then 0 else n mod 2) counts, visited')
               else (case dget counts reciprocalKey of
                   None \<Rightarrow> Inr (counts, visited')
                 | Some (w, m) \<Rightarrow>
                     if m = 0 then Inr (counts, visited')
                     else let cancelled = min n m in
                       Inr (dput reciprocalKey (w, m - cancelled) (dput key (v, n - cancelled) counts),
                            visited')))))"

definition productRationals :: "ExactRational list \<Rightarrow> ExactRational math" where
  "productRationals values =
     bindE (assertFiniteContainerLength (length values)) (\<lambda>_.
       bindE (mapE checkedRational values) (\<lambda>checkedValues.
         if list_ex (\<lambda>v. rNum v = 0) checkedValues then rational 0 1
         else bindE (tryWideRationalProduct checkedValues) (\<lambda>wideResult.
           case wideResult of
             Some r \<Rightarrow> Inr r
           | None \<Rightarrow>
               bindE (mapE normalizeRational checkedValues) (\<lambda>normalizedValues.
                 let counts = rationalCounts normalizedValues in
                 bindE (foldE cancelReciprocal (counts, []) (dkeys counts)) (\<lambda>(cancelled, _).
                   let remaining = expandCounts cancelled in
                   if length remaining \<le> MAX_VARIADIC_EXPRESSION_TERMS
                   then fullyCancelledRationalProduct remaining
                   else Inl INTERMEDIATE_LIMIT_EXCEEDED)))))"

end
