(* ===== verification/MathExpressions.thy ===== *)
theory MathExpressions
  imports ExactRationals
begin

text \<open>
  The expression grammars of the mathematical claims:
  \<^verbatim>\<open>packages/verification/src/integer-expression.ts\<close> and
  \<^verbatim>\<open>rational-expression.ts\<close>. The mutable budget of an evaluation is passed along and
  returned; operands are evaluated from left to right.
\<close>

section \<open>Integer expressions\<close>

datatype IntegerExpression =
    INTEGER string
  | ADD IntegerExpression IntegerExpression
  | SUBTRACT IntegerExpression IntegerExpression
  | MULTIPLY IntegerExpression IntegerExpression
  | NEGATE IntegerExpression
  | POWER IntegerExpression rat
  | TERM_SUM "IntegerExpression list"
  | TERM_PRODUCT "IntegerExpression list"

definition boundedIntegerStringSchema :: "nat \<Rightarrow> string \<Rightarrow> bool" where
  "boundedIntegerStringSchema maximumDigits value =
     (1 \<le> length value \<and> length value \<le> maximumDigits + 1 \<and> isCanonicalIntegerString value
      \<and> (if startsWith ''-'' value then length value - 1 else length value) \<le> maximumDigits)"

definition IntegerStringSchema :: "string \<Rightarrow> bool" where
  "IntegerStringSchema = boundedIntegerStringSchema MAX_INTEGER_DECIMAL_DIGITS"

definition IntermediateIntegerStringSchema :: "string \<Rightarrow> bool" where
  "IntermediateIntegerStringSchema =
     boundedIntegerStringSchema MAX_INTERMEDIATE_INTEGER_DECIMAL_DIGITS"

definition PositiveIntegerStringSchema :: "string \<Rightarrow> bool" where
  "PositiveIntegerStringSchema value =
     (IntegerStringSchema value \<and> value \<noteq> ''0'' \<and> \<not> startsWith ''-'' value)"

definition NonZeroIntegerStringSchema :: "string \<Rightarrow> bool" where
  "NonZeroIntegerStringSchema value = (IntegerStringSchema value \<and> value \<noteq> ''0'')"

definition NonZeroIntermediateIntegerStringSchema :: "string \<Rightarrow> bool" where
  "NonZeroIntermediateIntegerStringSchema value =
     (IntermediateIntegerStringSchema value \<and> value \<noteq> ''0'')"

definition termCountSchema :: "'a list \<Rightarrow> bool" where
  "termCountSchema terms = (1 \<le> length terms \<and> length terms \<le> MAX_VARIADIC_EXPRESSION_TERMS)"

fun IntegerExpressionSchema :: "IntegerExpression \<Rightarrow> bool" where
  "IntegerExpressionSchema (INTEGER value) = IntegerStringSchema value"
| "IntegerExpressionSchema (ADD l r) = (IntegerExpressionSchema l \<and> IntegerExpressionSchema r)"
| "IntegerExpressionSchema (SUBTRACT l r) = (IntegerExpressionSchema l \<and> IntegerExpressionSchema r)"
| "IntegerExpressionSchema (MULTIPLY l r) = (IntegerExpressionSchema l \<and> IntegerExpressionSchema r)"
| "IntegerExpressionSchema (NEGATE e) = IntegerExpressionSchema e"
| "IntegerExpressionSchema (POWER b e) =
     (IntegerExpressionSchema b \<and> isIntegerNumber e \<and> 0 \<le> e \<and> e \<le> of_nat MAX_POWER_EXPONENT)"
| "IntegerExpressionSchema (TERM_SUM ts) = (termCountSchema ts \<and> list_all IntegerExpressionSchema ts)"
| "IntegerExpressionSchema (TERM_PRODUCT ts) = (termCountSchema ts \<and> list_all IntegerExpressionSchema ts)"

definition consumeNode :: "nat \<Rightarrow> nat \<Rightarrow> nat math" where
  "consumeNode remainingNodes depth =
     (if depth > MAX_EXPRESSION_DEPTH \<or> remainingNodes = 0 then Inl INTERMEDIATE_LIMIT_EXCEEDED
      else Inr (remainingNodes - 1))"

definition assertTermCount :: "'a list \<Rightarrow> unit math" where
  "assertTermCount terms =
     (if length terms < 1 then Inl INVALID_EXPRESSION
      else if length terms > MAX_VARIADIC_EXPRESSION_TERMS then Inl INTERMEDIATE_LIMIT_EXCEEDED
      else Inr ())"

function powerLoop :: "int \<Rightarrow> int \<Rightarrow> nat \<Rightarrow> int math" where
  "powerLoop r factor remaining =
     (if remaining = 0 then Inr r
      else bindE (if remaining mod 2 = 1 then assertIntermediateIntegerBound (r * factor) else Inr r)
        (\<lambda>r'. let remaining' = remaining div 2 in
          if remaining' > 0
          then bindE (assertIntermediateIntegerBound (factor * factor)) (\<lambda>f'. powerLoop r' f' remaining')
          else Inr r'))"
  by auto
termination
  by (relation "measure (\<lambda>(_, _, n). n)") auto

declare powerLoop.simps [simp del]

definition integerPower :: "int \<Rightarrow> rat \<Rightarrow> int math" where
  "integerPower base exponent =
     bindE (assertIntermediateIntegerBound base) (\<lambda>_.
       if \<not> isIntegerNumber exponent \<or> exponent < 0 then Inl INVALID_EXPRESSION
       else if exponent > of_nat MAX_POWER_EXPONENT then Inl INTERMEDIATE_LIMIT_EXCEEDED
       else if base = 0 \<and> exponent = 0 then Inl UNDEFINED_OPERATION
       else powerLoop 1 base (nat (fst (quotient_of exponent))))"

text \<open>The arguments are the expression, the depth and the remaining nodes; the result carries the
  remaining nodes.\<close>

fun evaluateInteger :: "IntegerExpression \<Rightarrow> nat \<Rightarrow> nat \<Rightarrow> (int \<times> nat) math"
  and evaluateIntegers :: "IntegerExpression list \<Rightarrow> nat \<Rightarrow> nat \<Rightarrow> (int list \<times> nat) math" where
  "evaluateInteger (INTEGER value) depth n =
     bindE (consumeNode n depth) (\<lambda>n. bindE (parseBoundedInteger value) (\<lambda>v. Inr (v, n)))"
| "evaluateInteger (ADD l r) depth n =
     bindE (consumeNode n depth) (\<lambda>n.
       bindE (evaluateInteger l (depth + 1) n) (\<lambda>(a, n).
         bindE (evaluateInteger r (depth + 1) n) (\<lambda>(b, n).
           bindE (assertIntermediateIntegerBound (a + b)) (\<lambda>v. Inr (v, n)))))"
| "evaluateInteger (SUBTRACT l r) depth n =
     bindE (consumeNode n depth) (\<lambda>n.
       bindE (evaluateInteger l (depth + 1) n) (\<lambda>(a, n).
         bindE (evaluateInteger r (depth + 1) n) (\<lambda>(b, n).
           bindE (assertIntermediateIntegerBound (a - b)) (\<lambda>v. Inr (v, n)))))"
| "evaluateInteger (MULTIPLY l r) depth n =
     bindE (consumeNode n depth) (\<lambda>n.
       bindE (evaluateInteger l (depth + 1) n) (\<lambda>(a, n).
         bindE (evaluateInteger r (depth + 1) n) (\<lambda>(b, n).
           bindE (assertIntermediateIntegerBound (a * b)) (\<lambda>v. Inr (v, n)))))"
| "evaluateInteger (NEGATE e) depth n =
     bindE (consumeNode n depth) (\<lambda>n.
       bindE (evaluateInteger e (depth + 1) n) (\<lambda>(a, n). Inr (- a, n)))"
| "evaluateInteger (POWER b e) depth n =
     bindE (consumeNode n depth) (\<lambda>n.
       bindE (evaluateInteger b (depth + 1) n) (\<lambda>(a, n).
         bindE (integerPower a e) (\<lambda>v. Inr (v, n))))"
| "evaluateInteger (TERM_SUM ts) depth n =
     bindE (consumeNode n depth) (\<lambda>n.
       bindE (assertTermCount ts) (\<lambda>_.
         bindE (evaluateIntegers ts (depth + 1) n) (\<lambda>(vs, n).
           bindE (sumIntegers vs) (\<lambda>v. Inr (v, n)))))"
| "evaluateInteger (TERM_PRODUCT ts) depth n =
     bindE (consumeNode n depth) (\<lambda>n.
       bindE (assertTermCount ts) (\<lambda>_.
         bindE (evaluateIntegers ts (depth + 1) n) (\<lambda>(vs, n).
           bindE (productIntegers vs) (\<lambda>v. Inr (v, n)))))"
| "evaluateIntegers [] depth n = Inr ([], n)"
| "evaluateIntegers (t # ts) depth n =
     bindE (evaluateInteger t depth n) (\<lambda>(v, n).
       bindE (evaluateIntegers ts depth n) (\<lambda>(vs, n). Inr (v # vs, n)))"

definition evaluateIntegerExpression :: "IntegerExpression \<Rightarrow> int math" where
  "evaluateIntegerExpression expression =
     bindE (evaluateInteger expression 1 MAX_EXPRESSION_NODES) (\<lambda>(v, _). Inr v)"

section \<open>Rational expressions\<close>

datatype RationalExpression =
    RATIONAL RationalInput
  | Q_ADD RationalExpression RationalExpression
  | Q_SUBTRACT RationalExpression RationalExpression
  | Q_MULTIPLY RationalExpression RationalExpression
  | Q_DIVIDE RationalExpression RationalExpression
  | Q_NEGATE RationalExpression
  | Q_SUM "RationalExpression list"
  | Q_PRODUCT "RationalExpression list"

definition RationalInputSchema :: "RationalInput \<Rightarrow> bool" where
  "RationalInputSchema v =
     (IntegerStringSchema (riNumerator v) \<and> NonZeroIntegerStringSchema (riDenominator v))"

definition IntermediateRationalInputSchema :: "RationalInput \<Rightarrow> bool" where
  "IntermediateRationalInputSchema v =
     (IntermediateIntegerStringSchema (riNumerator v)
      \<and> NonZeroIntermediateIntegerStringSchema (riDenominator v))"

fun RationalExpressionSchema :: "RationalExpression \<Rightarrow> bool" where
  "RationalExpressionSchema (RATIONAL value) = RationalInputSchema value"
| "RationalExpressionSchema (Q_ADD l r) = (RationalExpressionSchema l \<and> RationalExpressionSchema r)"
| "RationalExpressionSchema (Q_SUBTRACT l r) = (RationalExpressionSchema l \<and> RationalExpressionSchema r)"
| "RationalExpressionSchema (Q_MULTIPLY l r) = (RationalExpressionSchema l \<and> RationalExpressionSchema r)"
| "RationalExpressionSchema (Q_DIVIDE l r) = (RationalExpressionSchema l \<and> RationalExpressionSchema r)"
| "RationalExpressionSchema (Q_NEGATE e) = RationalExpressionSchema e"
| "RationalExpressionSchema (Q_SUM ts) = (termCountSchema ts \<and> list_all RationalExpressionSchema ts)"
| "RationalExpressionSchema (Q_PRODUCT ts) = (termCountSchema ts \<and> list_all RationalExpressionSchema ts)"

fun evaluateRational :: "RationalExpression \<Rightarrow> nat \<Rightarrow> nat \<Rightarrow> (ExactRational \<times> nat) math"
  and evaluateRationals :: "RationalExpression list \<Rightarrow> nat \<Rightarrow> nat \<Rightarrow> (ExactRational list \<times> nat) math" where
  "evaluateRational (RATIONAL value) depth n =
     bindE (consumeNode n depth) (\<lambda>n. bindE (parseRationalInput value) (\<lambda>v. Inr (v, n)))"
| "evaluateRational (Q_ADD l r) depth n =
     bindE (consumeNode n depth) (\<lambda>n.
       bindE (evaluateRational l (depth + 1) n) (\<lambda>(a, n).
         bindE (evaluateRational r (depth + 1) n) (\<lambda>(b, n).
           bindE (addRationals a b) (\<lambda>v. Inr (v, n)))))"
| "evaluateRational (Q_SUBTRACT l r) depth n =
     bindE (consumeNode n depth) (\<lambda>n.
       bindE (evaluateRational l (depth + 1) n) (\<lambda>(a, n).
         bindE (evaluateRational r (depth + 1) n) (\<lambda>(b, n).
           bindE (subtractRationals a b) (\<lambda>v. Inr (v, n)))))"
| "evaluateRational (Q_MULTIPLY l r) depth n =
     bindE (consumeNode n depth) (\<lambda>n.
       bindE (evaluateRational l (depth + 1) n) (\<lambda>(a, n).
         bindE (evaluateRational r (depth + 1) n) (\<lambda>(b, n).
           bindE (multiplyRationals a b) (\<lambda>v. Inr (v, n)))))"
| "evaluateRational (Q_DIVIDE l r) depth n =
     bindE (consumeNode n depth) (\<lambda>n.
       bindE (evaluateRational l (depth + 1) n) (\<lambda>(a, n).
         bindE (evaluateRational r (depth + 1) n) (\<lambda>(b, n).
           bindE (divideRationals a b) (\<lambda>v. Inr (v, n)))))"
| "evaluateRational (Q_NEGATE e) depth n =
     bindE (consumeNode n depth) (\<lambda>n.
       bindE (evaluateRational e (depth + 1) n) (\<lambda>(a, n).
         bindE (negateRational a) (\<lambda>v. Inr (v, n))))"
| "evaluateRational (Q_SUM ts) depth n =
     bindE (consumeNode n depth) (\<lambda>n.
       bindE (assertTermCount ts) (\<lambda>_.
         bindE (evaluateRationals ts (depth + 1) n) (\<lambda>(vs, n).
           bindE (sumRationals vs) (\<lambda>v. Inr (v, n)))))"
| "evaluateRational (Q_PRODUCT ts) depth n =
     bindE (consumeNode n depth) (\<lambda>n.
       bindE (assertTermCount ts) (\<lambda>_.
         bindE (evaluateRationals ts (depth + 1) n) (\<lambda>(vs, n).
           bindE (productRationals vs) (\<lambda>v. Inr (v, n)))))"
| "evaluateRationals [] depth n = Inr ([], n)"
| "evaluateRationals (t # ts) depth n =
     bindE (evaluateRational t depth n) (\<lambda>(v, n).
       bindE (evaluateRationals ts depth n) (\<lambda>(vs, n). Inr (v # vs, n)))"

definition evaluateRationalExpression :: "RationalExpression \<Rightarrow> ExactRational math" where
  "evaluateRationalExpression expression =
     bindE (evaluateRational expression 1 MAX_EXPRESSION_NODES) (\<lambda>(v, _). Inr v)"

end
