(* ===== verification/ExactRationalFacts.thy ===== *)
theory ExactRationalFacts
  imports ExactRationals BoundedMathFacts
begin

text \<open>
  The rational arithmetic is exact: every operation that returns computes the rational number it
  stands for (\<open>ratVal\<close>) in lowest terms, and binary operations fail only when that result has too
  many digits.
\<close>

section \<open>The rational number of a pair\<close>

definition ratVal :: "ExactRational \<Rightarrow> rat" where
  "ratVal v = of_int (rNum v) / of_int (rDen v)"

text \<open>In lowest terms with a positive denominator.\<close>

definition reduced :: "ExactRational \<Rightarrow> bool" where
  "reduced v = (rDen v > 0 \<and> coprime (rNum v) (rDen v))"

definition bounded :: "ExactRational \<Rightarrow> bool" where
  "bounded v = (\<bar>rNum v\<bar> < digitBound \<and> \<bar>rDen v\<bar> < digitBound)"

text \<open>The pair in lowest terms of a rational number.\<close>

definition ratPair :: "rat \<Rightarrow> ExactRational" where
  "ratPair q = (case quotient_of q of (n, d) \<Rightarrow> mkRational n d)"

lemma mkRational_simps [simp]: "rNum (mkRational n d) = n" "rDen (mkRational n d) = d"
  by (simp_all add: mkRational_def)

lemma mkRational_eta [simp]: "mkRational (rNum v) (rDen v) = v"
  by (simp add: mkRational_def)

lemma ratVal_mkRational: "ratVal (mkRational n d) = of_int n / of_int d"
  by (simp add: ratVal_def)

lemma ratVal_ratPair [simp]: "ratVal (ratPair q) = q"
  by (cases "quotient_of q") (simp add: ratPair_def ratVal_mkRational quotient_of_div [symmetric])

lemma reduced_ratPair [simp]: "reduced (ratPair q)"
  by (cases "quotient_of q")
     (simp add: ratPair_def reduced_def quotient_of_denom_pos quotient_of_coprime)

lemma ratPair_ratVal: "reduced v \<Longrightarrow> ratPair (ratVal v) = v"
proof -
  assume r: "reduced v"
  then have "quotient_of (Fract (rNum v) (rDen v)) = (rNum v, rDen v)"
    by (simp add: reduced_def quotient_of_Fract Rat.normalize_def coprime_imp_gcd_eq_1)
  then show ?thesis by (simp add: ratPair_def ratVal_def Fract_of_int_quotient)
qed

text \<open>Dividing a pair by the greatest common divisor of its components.\<close>

lemma ratPair_gcd:
  assumes "d > 0"
  shows "ratPair (of_int n / of_int d) = mkRational (n div gcd n d) (d div gcd n d)"
proof -
  have "quotient_of (of_int n / of_int d) = Rat.normalize (n, d)"
    by (simp add: Fract_of_int_quotient [symmetric] quotient_of_Fract)
  with assms show ?thesis by (simp add: ratPair_def Rat.normalize_def Let_def)
qed

lemma reduced_components:
  assumes "d > 0"
  shows "\<bar>rNum (ratPair (of_int n / of_int d))\<bar> \<le> \<bar>n\<bar>" and "rDen (ratPair (of_int n / of_int d)) \<le> d"
    and "rDen (ratPair (of_int n / of_int d)) > 0"
proof -
  let ?g = "gcd n d"
  have g: "?g > 0" using assms by simp
  then have one: "1 \<le> ?g" by linarith
  obtain m where m: "n = ?g * m" by (meson dvdE gcd_dvd1)
  obtain e where e: "d = ?g * e" by (meson dvdE gcd_dvd2)
  have "n div ?g = m" "d div ?g = e"
    using g m e by (metis nonzero_mult_div_cancel_left less_irrefl)+
  moreover have "\<bar>m\<bar> \<le> \<bar>n\<bar>"
  proof -
    have "1 * \<bar>m\<bar> \<le> ?g * \<bar>m\<bar>" using one by (intro mult_right_mono) simp_all
    also have "\<dots> = \<bar>n\<bar>" using m by (metis abs_gcd_int abs_mult)
    finally show ?thesis by simp
  qed
  moreover have "e > 0" using e g assms by (metis zero_less_mult_pos)
  moreover have "e \<le> d"
  proof -
    have "1 * e \<le> ?g * e" using one \<open>e > 0\<close> by (intro mult_right_mono) simp_all
    with e show ?thesis by simp
  qed
  ultimately show "\<bar>rNum (ratPair (of_int n / of_int d))\<bar> \<le> \<bar>n\<bar>"
    "rDen (ratPair (of_int n / of_int d)) \<le> d" "rDen (ratPair (of_int n / of_int d)) > 0"
    by (simp_all add: ratPair_gcd [OF assms])
qed

lemma ratPair_zero [simp]: "ratPair 0 = mkRational 0 1"
  by (simp add: ratPair_def)

section \<open>Construction\<close>

lemma rational_iff:
  "rational n d = Inr r \<longleftrightarrow>
     \<bar>n\<bar> < digitBound \<and> \<bar>d\<bar> < digitBound \<and> d \<noteq> 0 \<and> r = ratPair (of_int n / of_int d)"
proof (cases "\<bar>n\<bar> < digitBound \<and> \<bar>d\<bar> < digitBound \<and> d \<noteq> 0 \<and> n \<noteq> 0")
  case False
  then show ?thesis by (auto simp: rational_def bindE_eq_Inr Let_def)
next
  case True
  define s :: int where "s = (if d < 0 then - 1 else 1)"
  define n' d' where "n' = n * s" and "d' = d * s"
  have d': "d' > 0" and abs: "\<bar>n'\<bar> = \<bar>n\<bar>" "\<bar>d'\<bar> = \<bar>d\<bar>"
    using True by (auto simp: n'_def d'_def s_def)
  have g: "gcd n' d' \<noteq> 0" using d' by simp
  have val: "of_int n' / of_int d' = (of_int n / of_int d :: rat)"
    by (simp add: n'_def d'_def s_def)
  have pair: "mkRational (n' sdiv gcd n' d') (d' sdiv gcd n' d') = ratPair (of_int n / of_int d)"
    using ratPair_gcd [OF d', of n'] sdiv_dvd [OF g gcd_dvd1] sdiv_dvd [OF g gcd_dvd2]
    unfolding val by simp
  have "\<bar>rNum (ratPair (of_int n / of_int d))\<bar> < digitBound"
    "\<bar>rDen (ratPair (of_int n / of_int d))\<bar> < digitBound"
    using reduced_components [OF d', of n'] True abs unfolding val by linarith+
  then have "boundRational (ratPair (of_int n / of_int d)) = Inr (ratPair (of_int n / of_int d))"
    by (simp add: boundRational_def)
  moreover have "rational n d = boundRational (mkRational (n' sdiv gcd n' d') (d' sdiv gcd n' d'))"
    using True abs unfolding rational_def s_def [symmetric] Let_def n'_def [symmetric] d'_def [symmetric]
    by (simp add: gcdBounded_def)
  ultimately show ?thesis using True pair by auto
qed

lemma checkedRational_iff:
  "checkedRational v = Inr r \<longleftrightarrow> bounded v \<and> rDen v \<noteq> 0
     \<and> r = (if rDen v < 0 then mkRational (- rNum v) (- rDen v) else v)"
  by (auto simp: checkedRational_def bounded_def bindE_eq_Inr)

text \<open>What the operations know of a checked argument.\<close>

lemma checkedRational_facts:
  assumes "checkedRational v = Inr r"
  shows "rDen r > 0 \<and> ratVal r = ratVal v \<and> bounded r"
  using assms by (auto simp: checkedRational_iff ratVal_mkRational ratVal_def bounded_def split: if_splits)

section \<open>Binary operations\<close>

lemma reducedBy_iff:
  assumes "d > 0"
  shows "reducedBy (gcd n d) n d = Inr r \<longleftrightarrow> r = ratPair (ratVal (mkRational n d)) \<and> bounded r"
proof -
  have g: "gcd n d \<noteq> 0" using assms by simp
  then show ?thesis
    using sdiv_dvd [OF g gcd_dvd1] sdiv_dvd [OF g gcd_dvd2] ratPair_gcd [OF assms, of n]
    by (auto simp: reducedBy_def bindE_eq_Inr bounded_def ratVal_mkRational)
qed

lemma cross_scaled:
  assumes "b > 0" and "d > 0"
  defines "g \<equiv> gcd b d"
  shows "b * (d sdiv g) > 0"
    and "of_int (a * (d sdiv g) + c * (b sdiv g)) / of_int (b * (d sdiv g))
      = (of_int a / of_int b + of_int c / of_int d :: rat)"
proof -
  have g: "g > 0" using assms by simp
  obtain b' where b: "b = g * b'" unfolding g_def by (meson dvdE gcd_dvd1)
  obtain d' where d: "d = g * d'" unfolding g_def by (meson dvdE gcd_dvd2)
  have pos: "b' > 0" "d' > 0" using b d g assms(1,2) by (metis zero_less_mult_pos)+
  have div: "b sdiv g = b'" "d sdiv g = d'" using g by (simp_all add: b d sdiv_mult)
  show "b * (d sdiv g) > 0" using assms(1) pos by (simp add: div)
  have "of_int (a * d' + c * b') / of_int (g * b' * d')
      = (of_int a / of_int (g * b') + of_int c / of_int (g * d') :: rat)"
    using g pos by (simp add: field_simps)
  then show "of_int (a * (d sdiv g) + c * (b sdiv g)) / of_int (b * (d sdiv g))
      = (of_int a / of_int b + of_int c / of_int d :: rat)"
    unfolding div using b d by simp
qed

lemma cross_cancelled:
  assumes "b > 0" and "d > 0"
  shows "(b sdiv gcd c b) * (d sdiv gcd a d) > 0"
    and "of_int ((a sdiv gcd a d) * (c sdiv gcd c b)) / of_int ((b sdiv gcd c b) * (d sdiv gcd a d))
      = (of_int a / of_int b * (of_int c / of_int d) :: rat)"
proof -
  have g: "gcd a d > 0" "gcd c b > 0" using assms by simp_all
  obtain a' where a: "a = gcd a d * a'" by (meson dvdE gcd_dvd1)
  obtain d' where d: "d = gcd a d * d'" by (meson dvdE gcd_dvd2)
  obtain c' where c: "c = gcd c b * c'" by (meson dvdE gcd_dvd1)
  obtain b' where b: "b = gcd c b * b'" by (meson dvdE gcd_dvd2)
  have pos: "b' > 0" "d' > 0" using b d g assms by (metis zero_less_mult_pos)+
  have div: "a sdiv gcd a d = a'" "d sdiv gcd a d = d'" "c sdiv gcd c b = c'" "b sdiv gcd c b = b'"
    using g a b c d sdiv_mult by (metis less_irrefl)+
  show "(b sdiv gcd c b) * (d sdiv gcd a d) > 0" using pos by (simp add: div)
  define g1 g2 where "g1 = gcd a d" and "g2 = gcd c b"
  have "of_int a / of_int b * (of_int c / of_int d :: rat)
      = of_int (g1 * a') / of_int (g2 * b') * (of_int (g2 * c') / of_int (g1 * d'))"
    using a b c d unfolding g1_def g2_def by simp
  also have "\<dots> = of_int (a' * c') / of_int (b' * d')"
    using g pos unfolding g1_def [symmetric] g2_def [symmetric] by (simp add: field_simps)
  finally show "of_int ((a sdiv gcd a d) * (c sdiv gcd c b))
      / of_int ((b sdiv gcd c b) * (d sdiv gcd a d))
      = (of_int a / of_int b * (of_int c / of_int d) :: rat)"
    by (simp add: div)
qed

text \<open>Two arguments that pass \<open>checkedRational\<close>.\<close>

definition valid :: "ExactRational \<Rightarrow> bool" where
  "valid v = (bounded v \<and> rDen v \<noteq> 0)"

lemma checkedRational_valid:
  assumes "valid v"
  obtains r where "checkedRational v = Inr r" "rDen r > 0" "ratVal r = ratVal v" "bounded r"
  using assms checkedRational_facts [of v] checkedRational_iff [of v]
  by (auto simp: valid_def)

lemma checkedRational_invalid: "\<not> valid v \<Longrightarrow> \<exists>e. checkedRational v = Inl e"
  using checkedRational_iff [of v] by (cases "checkedRational v") (auto simp: valid_def)

lemma addRationals_iff:
  "addRationals l r = Inr x \<longleftrightarrow>
     valid l \<and> valid r \<and> x = ratPair (ratVal l + ratVal r) \<and> bounded x"
proof (cases "valid l \<and> valid r")
  case False
  then show ?thesis by (auto simp: addRationals_def bindE_eq_Inr valid_def checkedRational_iff)
next
  case True
  then obtain l' r' where c: "checkedRational l = Inr l'" "rDen l' > 0" "ratVal l' = ratVal l"
    "checkedRational r = Inr r'" "rDen r' > 0" "ratVal r' = ratVal r"
    by (metis checkedRational_valid)
  note cross = cross_scaled(1) [OF c(2,5)]
    cross_scaled(2) [OF c(2,5), where a = "rNum l'" and c = "rNum r'"]
  have "ratVal (mkRational (rNum l' * (rDen r' sdiv gcd (rDen l') (rDen r'))
        + rNum r' * (rDen l' sdiv gcd (rDen l') (rDen r')))
      (rDen l' * (rDen r' sdiv gcd (rDen l') (rDen r')))) = ratVal l + ratVal r"
    using cross(2) c(3,6) by (simp only: ratVal_mkRational ratVal_def mkRational_simps)
  with reducedBy_iff [OF cross(1)] True c(1,4) show ?thesis
    by (simp add: addRationals_def Let_def)
qed

lemma multiplyRationals_iff:
  "multiplyRationals l r = Inr x \<longleftrightarrow>
     valid l \<and> valid r \<and> x = ratPair (ratVal l * ratVal r) \<and> bounded x"
proof (cases "valid l \<and> valid r")
  case False
  then show ?thesis by (auto simp: multiplyRationals_def bindE_eq_Inr valid_def checkedRational_iff)
next
  case True
  then obtain l' r' where c: "checkedRational l = Inr l'" "rDen l' > 0" "ratVal l' = ratVal l"
    "checkedRational r = Inr r'" "rDen r' > 0" "ratVal r' = ratVal r"
    by (metis checkedRational_valid)
  note cross = cross_cancelled [OF c(2,5), where a = "rNum l'" and c = "rNum r'"]
  have "ratVal (mkRational ((rNum l' sdiv gcd (rNum l') (rDen r')) * (rNum r' sdiv gcd (rNum r') (rDen l')))
      ((rDen l' sdiv gcd (rNum r') (rDen l')) * (rDen r' sdiv gcd (rNum l') (rDen r'))))
      = ratVal l * ratVal r"
    using cross(2) c(3,6) by (simp only: ratVal_mkRational ratVal_def mkRational_simps)
  with reducedBy_iff [OF cross(1)] True c(1,4) show ?thesis
    by (simp add: multiplyRationals_def Let_def)
qed

lemma valid_checked: "checkedRational v = Inr r \<Longrightarrow> valid v \<and> valid r \<and> rDen r > 0 \<and> ratVal r = ratVal v"
  using checkedRational_facts [of v r] by (auto simp: checkedRational_iff valid_def)

lemma valid_negated: "valid r \<Longrightarrow> valid (mkRational (- rNum r) (rDen r))"
  by (simp add: valid_def bounded_def)

lemma ratVal_negated: "ratVal (mkRational (- rNum r) (rDen r)) = - ratVal r"
  by (simp add: ratVal_def)

lemma subtractRationals_iff:
  "subtractRationals l r = Inr x \<longleftrightarrow>
     valid l \<and> valid r \<and> x = ratPair (ratVal l - ratVal r) \<and> bounded x"
proof (cases "valid r")
  case False
  with checkedRational_invalid show ?thesis by (force simp: subtractRationals_def)
next
  case True
  then obtain r' where "checkedRational r = Inr r'" "ratVal r' = ratVal r"
    by (metis checkedRational_valid)
  with valid_checked [OF this(1)] show ?thesis
    by (auto simp: subtractRationals_def addRationals_iff valid_negated ratVal_negated)
qed

lemma divideRationals_iff:
  "divideRationals l r = Inr x \<longleftrightarrow>
     valid l \<and> valid r \<and> ratVal r \<noteq> 0 \<and> x = ratPair (ratVal l / ratVal r) \<and> bounded x"
proof (cases "valid r")
  case False
  with checkedRational_invalid show ?thesis by (force simp: divideRationals_def)
next
  case True
  then obtain r' where r: "checkedRational r = Inr r'" by (metis checkedRational_valid)
  note facts = valid_checked [OF r]
  have zero: "rNum r' = 0 \<longleftrightarrow> ratVal r = 0" using facts by (auto simp: ratVal_def)
  have "ratVal (mkRational (rDen r') (rNum r')) = inverse (ratVal r)"
    using facts by (metis inverse_divide ratVal_def ratVal_mkRational)
  moreover have "valid (mkRational (rDen r') (rNum r'))" if "rNum r' \<noteq> 0"
    using that facts by (auto simp: valid_def bounded_def)
  ultimately show ?thesis using r zero True
    by (auto simp: divideRationals_def multiplyRationals_iff divide_inverse)
qed

lemma equalRationals_iff:
  "equalRationals l r = Inr b \<longleftrightarrow> valid l \<and> valid r \<and> b = (ratVal l = ratVal r)"
proof (cases "valid l \<and> valid r")
  case False
  then show ?thesis by (auto simp: equalRationals_def bindE_eq_Inr valid_def checkedRational_iff)
next
  case True
  then obtain l' r' where c: "checkedRational l = Inr l'" "rDen l' > 0" "ratVal l' = ratVal l"
    "checkedRational r = Inr r'" "rDen r' > 0" "ratVal r' = ratVal r"
    by (metis checkedRational_valid)
  have "ratVal l' = ratVal r' \<longleftrightarrow> (of_int (rNum l' * rDen r') :: rat) = of_int (rNum r' * rDen l')"
    using c(2,5) by (simp add: ratVal_def frac_eq_eq)
  with True c show ?thesis by (auto simp: equalRationals_def simp del: of_int_mult)
qed

lemma compareRationals_iff:
  "compareRationals l r = Inr c \<longleftrightarrow> valid l \<and> valid r \<and> c =
     (if ratVal l = ratVal r then 0 else if ratVal l < ratVal r then - 1 else 1)"
proof (cases "valid l \<and> valid r")
  case False
  then show ?thesis by (auto simp: compareRationals_def bindE_eq_Inr valid_def checkedRational_iff)
next
  case True
  then obtain l' r' where c: "checkedRational l = Inr l'" "rDen l' > 0" "ratVal l' = ratVal l"
    "checkedRational r = Inr r'" "rDen r' > 0" "ratVal r' = ratVal r"
    by (metis checkedRational_valid)
  have "ratVal l' = ratVal r' \<longleftrightarrow> (of_int (rNum l' * rDen r') :: rat) = of_int (rNum r' * rDen l')"
    "ratVal l' < ratVal r' \<longleftrightarrow> (of_int (rNum l' * rDen r') :: rat) < of_int (rNum r' * rDen l')"
    using c(2,5) by (simp_all add: ratVal_def frac_eq_eq frac_less_eq divide_less_eq less_divide_eq
        mult.commute)
  with True c show ?thesis by (auto simp: compareRationals_def Let_def simp del: of_int_mult)
qed

lemma normalizeRational_iff:
  "normalizeRational v = Inr r \<longleftrightarrow> valid v \<and> r = ratPair (ratVal v)"
  by (auto simp: normalizeRational_def rational_iff valid_def bounded_def ratVal_def)

text \<open>Rational arithmetic is exact. An operation succeeds exactly when both arguments
  have at most 4096 digits per component and a nonzero denominator, the divisor is not zero, and the
  result in lowest terms respects the digit limit; the result is then the rational sum, difference,
  product or quotient in lowest terms. Comparison and equality are those of the rational numbers.\<close>

theorem rational_operations_are_exact:
  "(addRationals l r = Inr x \<longleftrightarrow>
      valid l \<and> valid r \<and> x = ratPair (ratVal l + ratVal r) \<and> bounded x)
   \<and> (subtractRationals l r = Inr x \<longleftrightarrow>
      valid l \<and> valid r \<and> x = ratPair (ratVal l - ratVal r) \<and> bounded x)
   \<and> (multiplyRationals l r = Inr x \<longleftrightarrow>
      valid l \<and> valid r \<and> x = ratPair (ratVal l * ratVal r) \<and> bounded x)
   \<and> (divideRationals l r = Inr x \<longleftrightarrow>
      valid l \<and> valid r \<and> ratVal r \<noteq> 0 \<and> x = ratPair (ratVal l / ratVal r) \<and> bounded x)
   \<and> (equalRationals l r = Inr b \<longleftrightarrow> valid l \<and> valid r \<and> b = (ratVal l = ratVal r))
   \<and> (compareRationals l r = Inr c \<longleftrightarrow> valid l \<and> valid r \<and> c =
      (if ratVal l = ratVal r then 0 else if ratVal l < ratVal r then - 1 else 1))"
  by (intro conjI addRationals_iff subtractRationals_iff multiplyRationals_iff divideRationals_iff
    equalRationals_iff compareRationals_iff)

end
