(* ===== verification/RationalSums.thy ===== *)
theory RationalSums
  imports ExactRationalFacts
begin

text \<open>
  Sums and products of many rationals are exact on every path of their strategies: the wide
  accumulation, the common denominator, and the cancelling of opposite terms or reciprocal factors.
\<close>

section \<open>Sorting and grouping\<close>

lemma mset_sortBy: "mset (sortBy cmp xs) = mset xs"
proof -
  have ins: "mset (insertBy cmp x ys) = add_mset x (mset ys)" for x ys
    by (induction ys) auto
  show ?thesis unfolding sortBy_def by (induction xs) (auto simp: ins)
qed

lemma sum_same_mset: "mset xs = mset ys \<Longrightarrow> sum_list (map f xs) = (sum_list (map f ys) :: rat)"
  by (metis mset_map sum_mset_sum_list)

text \<open>Sums and products over the values of a dictionary, when one of them is written.\<close>

lemma sum_dput:
  fixes f :: "'v \<Rightarrow> rat"
  assumes "dict_wf m"
  shows "sum_list (map f (dvals (dput k v m))) =
     sum_list (map f (dvals m)) - (case dget m k of None \<Rightarrow> 0 | Some w \<Rightarrow> f w) + f v"
  using assms
proof (induction m)
  case Nil
  then show ?case by (simp add: dput_def dvals_def)
next
  case (Cons e m)
  obtain j w where e: "e = (j, w)" by force
  from Cons show ?case by (auto simp: e dput_def dvals_def dget_def dict_wf_def dkeys_def)
qed

lemma prod_dput:
  fixes f :: "'v \<Rightarrow> rat"
  assumes "dict_wf m"
  shows "prod_list (map f (dvals (dput k v m))) * (case dget m k of None \<Rightarrow> 1 | Some w \<Rightarrow> f w) =
     prod_list (map f (dvals m)) * f v"
  using assms
proof (induction m)
  case Nil
  then show ?case by (simp add: dput_def dvals_def)
next
  case (Cons e m)
  obtain j w where e: "e = (j, w)" by force
  show ?case
  proof (cases "j = k")
    case True
    then show ?thesis by (simp add: e dput_def dvals_def dget_def)
  next
    case False
    with Cons.IH Cons.prems show ?thesis
      by (simp add: e dput_def dvals_def dget_def dict_wf_def dkeys_def mult.assoc)
  qed
qed

text \<open>The keys of rationals tell them apart.\<close>

lemma isDigit_slash: "isDigit c \<Longrightarrow> c \<noteq> CHR ''/''"
  by (auto simp: isDigit_def)

lemma bigintToString_no_slash: "CHR ''/'' \<notin> set (bigintToString v)"
  using natToString_digits isDigit_slash
  by (auto simp: bigintToString_def list_all_iff)

lemma split_slash: "CHR ''/'' \<notin> set a \<Longrightarrow> CHR ''/'' \<notin> set b \<Longrightarrow>
    a @ CHR ''/'' # x = b @ CHR ''/'' # y \<Longrightarrow> a = b \<and> x = y"
proof (induction a arbitrary: b)
  case Nil
  then show ?case by (cases b) auto
next
  case (Cons c a)
  then show ?case by (cases b) auto
qed

lemma rationalKey_inject [simp]: "rationalKey a = rationalKey b \<longleftrightarrow> a = b"
proof
  assume "rationalKey a = rationalKey b"
  then have "bigintToString (rNum a) @ CHR ''/'' # bigintToString (rDen a)
      = bigintToString (rNum b) @ CHR ''/'' # bigintToString (rDen b)"
    by (simp add: rationalKey_def)
  then have "bigintToString (rNum a) = bigintToString (rNum b)
      \<and> bigintToString (rDen a) = bigintToString (rDen b)"
    by (rule split_slash [OF bigintToString_no_slash bigintToString_no_slash])
  then show "a = b" by (simp add: bigintToString_inject)
qed simp

lemma dget_mem: "dict_wf m \<Longrightarrow> (k, v) \<in> set m \<Longrightarrow> dget m k = Some v"
  by (simp add: dict_wf_def dkeys_def dget_def)

text \<open>Every entry of the dictionary is filed under the key of its value.\<close>

definition groupsWf :: "ExactRational dict \<Rightarrow> bool" where
  "groupsWf g = (dict_wf g \<and> (\<forall>k e. dget g k = Some e \<longrightarrow> k = bigintToString (rDen e) \<and> rDen e > 0))"

lemma groupByDenominator_sum:
  assumes "\<forall>v \<in> set vs. rDen v > 0"
  shows "groupsWf (groupByDenominator vs)
     \<and> sum_list (map ratVal (dvals (groupByDenominator vs))) = sum_list (map ratVal vs)"
  using assms
proof (induction vs rule: rev_induct)
  case Nil
  then show ?case by (simp add: groupByDenominator_def groupsWf_def dvals_def)
next
  case (snoc v vs)
  let ?g = "groupByDenominator vs" and ?k = "bigintToString (rDen v)"
  from snoc have wf: "groupsWf ?g" and sum: "sum_list (map ratVal (dvals ?g)) = sum_list (map ratVal vs)"
    and v: "rDen v > 0" by auto
  show ?case
  proof (cases "dget ?g ?k")
    case None
    have "groupByDenominator (vs @ [v]) = dput ?k v ?g"
      using None by (simp add: groupByDenominator_def Let_def)
    with wf v None sum sum_dput [of ?g ratVal ?k v] show ?thesis
      by (auto simp: groupsWf_def dget_dput)
  next
    case (Some e)
    with wf have "bigintToString (rDen v) = bigintToString (rDen e)" unfolding groupsWf_def by blast
    then have e: "rDen e = rDen v" by (simp add: bigintToString_inject)
    have g': "groupByDenominator (vs @ [v]) = dput ?k (mkRational (rNum e + rNum v) (rDen e)) ?g"
      using Some by (simp add: groupByDenominator_def Let_def)
    have "ratVal (mkRational (rNum e + rNum v) (rDen e)) = ratVal e + ratVal v"
      by (simp add: ratVal_def e add_divide_distrib)
    with wf v Some sum e sum_dput [of ?g ratVal ?k "mkRational (rNum e + rNum v) (rDen e)"] show ?thesis
      by (auto simp: groupsWf_def dget_dput g')
  qed
qed

lemma sum_without_zeros:
  "sum_list (map ratVal (map snd (filter (\<lambda>(_, v). rNum v \<noteq> 0) g))) = sum_list (map ratVal (map snd g))"
  by (induction g) (auto simp: ratVal_def)

lemma groupRationalSumTerms_sum:
  assumes "\<forall>v \<in> set vs. rDen v > 0"
  shows "sum_list (map ratVal (groupRationalSumTerms vs)) = sum_list (map ratVal vs)
     \<and> (\<forall>v \<in> set (groupRationalSumTerms vs). rDen v > 0)"
proof -
  let ?g = "groupByDenominator vs"
  let ?f = "filter (\<lambda>(_, v). rNum v \<noteq> 0) ?g"
  have wf: "groupsWf ?g" and sum: "sum_list (map ratVal (map snd ?g)) = sum_list (map ratVal vs)"
    using groupByDenominator_sum [OF assms] by (auto simp: dvals_def)
  have m: "mset (groupRationalSumTerms vs) = mset (map snd ?f)"
    unfolding groupRationalSumTerms_def mset_map mset_sortBy ..
  have "rDen v > 0" if "(k, v) \<in> set ?g" for k v
    using wf that by (metis dget_mem groupsWf_def)
  then have "\<forall>v \<in> set (map snd ?f). rDen v > 0" by auto
  with sum_same_mset [OF m, of ratVal] sum mset_eq_setD [OF m] sum_without_zeros [of ?g]
  show ?thesis by simp
qed

section \<open>Sums\<close>

lemma ratVal_add:
  assumes "rDen a > 0" and "rDen b > 0"
  shows "ratVal (mkRational (rNum a * (rDen b sdiv gcd (rDen a) (rDen b))
      + rNum b * (rDen a sdiv gcd (rDen a) (rDen b))) (rDen a * (rDen b sdiv gcd (rDen a) (rDen b))))
    = ratVal a + ratVal b"
  using cross_scaled(2) [OF assms, where a = "rNum a" and c = "rNum b"]
  by (simp only: ratVal_mkRational ratVal_def mkRational_simps)

lemma wideSumLoop_exact:
  "wideSumLoop acc vs = Some r \<Longrightarrow> rDen acc > 0 \<Longrightarrow> \<forall>v \<in> set vs. rDen v > 0 \<Longrightarrow>
     rDen r > 0 \<and> ratVal r = ratVal acc + sum_list (map ratVal vs)"
proof (induction acc vs rule: wideSumLoop.induct)
  case (2 acc v vs)
  have v: "rDen v > 0" using "2.prems"(3) by simp
  from 2 cross_scaled(1) [OF "2.prems"(2) v] ratVal_add [OF "2.prems"(2) v] show ?case
    by (simp add: Let_def algebra_simps split: if_splits)
qed simp

lemma reduceTotal_exact:
  assumes "d > 0" and "reduceTotal n d = Inr r"
  shows "r = ratPair (of_int n / of_int d)"
proof -
  have g: "gcd n d \<noteq> 0" using assms(1) by simp
  have div: "n sdiv gcd n d = n div gcd n d" "d sdiv gcd n d = d div gcd n d"
    using g by (simp_all add: sdiv_dvd)
  have "r = ratPair (of_int (n div gcd n d) / of_int (d div gcd n d))"
    using assms(2) by (auto simp: reduceTotal_def Let_def bindE_eq_Inr rational_iff div)
  also have "of_int (n div gcd n d) / of_int (d div gcd n d) = (of_int n / of_int d :: rat)"
    using ratPair_gcd [OF assms(1), of n] by (metis ratVal_mkRational ratVal_ratPair)
  finally show ?thesis .
qed

lemma tryWideRationalSum_exact:
  assumes "tryWideRationalSum vs = Inr (Some r)" and "\<forall>v \<in> set vs. rDen v > 0"
  shows "r = ratPair (sum_list (map ratVal vs))"
proof -
  obtain acc where acc: "wideSumLoop (mkRational 0 1) vs = Some acc"
    and r: "reduceTotal (rNum acc) (rDen acc) = Inr r"
    using assms(1) by (auto simp: tryWideRationalSum_def bindE_eq_Inr split: option.splits)
  have "rDen acc > 0 \<and> ratVal acc = sum_list (map ratVal vs)"
    using wideSumLoop_exact [OF acc _ assms(2)] by (simp add: ratVal_mkRational)
  with reduceTotal_exact [OF _ r] show ?thesis by (simp add: ratVal_def)
qed

lemma commonDenominatorLoop_common:
  "commonDenominatorLoop c vs = Some m \<Longrightarrow> c > 0 \<Longrightarrow> \<forall>v \<in> set vs. rDen v > 0 \<Longrightarrow>
     m > 0 \<and> c dvd m \<and> (\<forall>v \<in> set vs. rDen v dvd m)"
proof (induction c vs rule: commonDenominatorLoop.induct)
  case (2 c v vs)
  let ?g = "gcd c (rDen v)" let ?c = "(c sdiv ?g) * rDen v"
  have v: "rDen v > 0" using "2.prems"(3) by simp
  have g: "?g > 0" using "2.prems"(2) by simp
  obtain q where q: "c = ?g * q" by (meson dvdE gcd_dvd1)
  have pos: "q > 0" using q g "2.prems"(2) by (metis zero_less_mult_pos)
  have div: "c sdiv ?g = q" using q g sdiv_mult by (metis less_irrefl)
  have "?g dvd rDen v" by simp
  then have "c dvd ?c" using div q by (metis dvd_triv_left mult.commute mult_dvd_mono dvd_refl)
  moreover have "rDen v dvd ?c" "?c > 0" using div pos v by simp_all
  moreover have "m > 0 \<and> ?c dvd m \<and> (\<forall>v \<in> set vs. rDen v dvd m)"
    using 2 \<open>?c > 0\<close> by (auto simp: Let_def split: if_splits)
  ultimately have "m > 0 \<and> c dvd m \<and> rDen v dvd m \<and> (\<forall>v \<in> set vs. rDen v dvd m)"
    by (meson dvd_trans)
  then show ?case by simp
qed simp

lemma sumWithCommonDenominator_exact:
  assumes "sumWithCommonDenominator vs c = Inr r" and "c > 0"
    and "\<forall>v \<in> set vs. rDen v > 0 \<and> rDen v dvd c"
  shows "r = ratPair (sum_list (map ratVal vs))"
proof -
  have loop: "of_int (foldl (\<lambda>n v. n + rNum v * (c sdiv rDen v)) n0 vs) / of_int c
      = (of_int n0 / of_int c + sum_list (map ratVal vs) :: rat)" for n0
    using assms(3)
  proof (induction vs arbitrary: n0)
    case Nil
    then show ?case by simp
  next
    case (Cons v vs)
    then obtain q where q: "c = rDen v * q" and v: "rDen v > 0" by auto
    have "c sdiv rDen v = q" using q v by (simp add: sdiv_mult)
    moreover have "of_int (rNum v * q) / of_int c = ratVal v"
      using q v assms(2) by (auto simp: ratVal_def)
    ultimately show ?case using Cons by (simp add: add_divide_distrib)
  qed
  have "reduceTotal (foldl (\<lambda>n v. n + rNum v * (c sdiv rDen v)) 0 vs) c = Inr r"
    using assms(1) by (auto simp: sumWithCommonDenominator_def Let_def split: if_splits)
  from reduceTotal_exact [OF assms(2) this] loop [of 0] show ?thesis by simp
qed

lemma boundedCommonDenominator_sum:
  assumes "boundedCommonDenominator vs = Some c" and "sumWithCommonDenominator vs c = Inr r"
    and "\<forall>v \<in> set vs. rDen v > 0"
  shows "r = ratPair (sum_list (map ratVal vs))"
  using sumWithCommonDenominator_exact [OF assms(2)]
    commonDenominatorLoop_common [of 1 vs c] assms(1,3)
  by (auto simp: boundedCommonDenominator_def)

section \<open>Counted terms\<close>

text \<open>Every entry is filed under the key of its value, which satisfies \<open>P\<close>.\<close>

definition countsWf :: "(ExactRational \<Rightarrow> bool) \<Rightarrow> counts \<Rightarrow> bool" where
  "countsWf P c = (dict_wf c \<and> (\<forall>k v n. dget c k = Some (v, n) \<longrightarrow> k = rationalKey v \<and> P v))"

definition countsSum :: "counts \<Rightarrow> rat" where
  "countsSum c = sum_list (map (\<lambda>(v, n). of_nat n * ratVal v) (dvals c))"

definition countsProduct :: "counts \<Rightarrow> rat" where
  "countsProduct c = prod_list (map (\<lambda>(v, n). ratVal v ^ n) (dvals c))"

lemma countsWf_dput:
  "countsWf P c \<Longrightarrow> P v \<Longrightarrow> k = rationalKey v \<Longrightarrow> countsWf P (dput k (v, n) c)"
  by (auto simp: countsWf_def dget_dput)

lemma countsWf_get: "countsWf P c \<Longrightarrow> dget c k = Some (v, n) \<Longrightarrow> k = rationalKey v \<and> P v"
  by (auto simp: countsWf_def)

lemma countsSum_dput:
  assumes "countsWf P c"
  shows "countsSum (dput k (v, n) c) = countsSum c
     - (case dget c k of None \<Rightarrow> 0 | Some (w, m) \<Rightarrow> of_nat m * ratVal w) + of_nat n * ratVal v"
  using assms sum_dput [of c "\<lambda>(v, n). of_nat n * ratVal v" k "(v, n)"]
  by (simp add: countsSum_def countsWf_def case_prod_unfold)

lemma countsProduct_dput:
  assumes "countsWf P c"
  shows "countsProduct (dput k (v, n) c)
     * (case dget c k of None \<Rightarrow> 1 | Some (w, m) \<Rightarrow> ratVal w ^ m) = countsProduct c * ratVal v ^ n"
  using assms prod_dput [of c "\<lambda>(v, n). ratVal v ^ n" k "(v, n)"]
  by (simp add: countsProduct_def countsWf_def case_prod_unfold)

lemma rationalCounts_snoc:
  "rationalCounts (vs @ [v]) =
     (case dget (rationalCounts vs) (rationalKey v) of
        None \<Rightarrow> dput (rationalKey v) (v, 1) (rationalCounts vs)
      | Some (w, n) \<Rightarrow> dput (rationalKey v) (w, n + 1) (rationalCounts vs))"
  unfolding rationalCounts_def foldl_append foldl.simps Let_def ..

lemma rationalCounts_wf: "\<forall>v \<in> set vs. P v \<Longrightarrow> countsWf P (rationalCounts vs)"
proof (induction vs rule: rev_induct)
  case Nil
  then show ?case by (simp add: rationalCounts_def countsWf_def)
next
  case (snoc v vs)
  then have wf: "countsWf P (rationalCounts vs)" by simp
  from snoc.prems countsWf_get [OF wf] show ?case
    by (auto simp: rationalCounts_snoc countsWf_dput [OF wf] split: option.splits)
qed

lemma rationalCounts_sum: "countsSum (rationalCounts vs) = sum_list (map ratVal vs)"
proof (induction vs rule: rev_induct)
  case Nil
  then show ?case by (simp add: rationalCounts_def countsSum_def dvals_def)
next
  case (snoc v vs)
  have wf: "countsWf (\<lambda>_. True) (rationalCounts vs)" by (simp add: rationalCounts_wf)
  from snoc countsWf_get [OF wf, of "rationalKey v"] show ?case
    by (auto simp: rationalCounts_snoc countsSum_dput [OF wf] algebra_simps split: option.splits)
qed

lemma rationalCounts_product:
  "\<forall>v \<in> set vs. ratVal v \<noteq> 0 \<Longrightarrow> countsProduct (rationalCounts vs) = prod_list (map ratVal vs)"
proof (induction vs rule: rev_induct)
  case Nil
  then show ?case by (simp add: rationalCounts_def countsProduct_def dvals_def)
next
  case (snoc v vs)
  have wf: "countsWf (\<lambda>_. True) (rationalCounts vs)" by (simp add: rationalCounts_wf)
  have v: "ratVal v \<noteq> 0" and IH: "countsProduct (rationalCounts vs) = prod_list (map ratVal vs)"
    using snoc by auto
  show ?case
  proof (cases "dget (rationalCounts vs) (rationalKey v)")
    case None
    with IH countsProduct_dput [OF wf, of "rationalKey v" v 1] show ?thesis
      by (simp add: rationalCounts_snoc)
  next
    case (Some e)
    then obtain n where e: "dget (rationalCounts vs) (rationalKey v) = Some (v, n)"
      using countsWf_get [OF wf, of "rationalKey v"] by (cases e) auto
    with IH v countsProduct_dput [OF wf, of "rationalKey v" v "n + 1"] show ?thesis
      by (simp add: rationalCounts_snoc)
  qed
qed

lemma expandCounts_sum: "sum_list (map ratVal (expandCounts c)) = countsSum c"
  unfolding expandCounts_def countsSum_def dvals_def
  by (induction c) (auto simp: sum_list_replicate)

lemma expandCounts_product: "prod_list (map ratVal (expandCounts c)) = countsProduct c"
  unfolding expandCounts_def countsProduct_def dvals_def
  by (induction c) (auto simp: prod_list_replicate)

lemma expandCounts_all: "countsWf P c \<Longrightarrow> \<forall>v \<in> set (expandCounts c). P v"
  by (fastforce simp: expandCounts_def countsWf_def dvals_iff)

text \<open>Opposite terms are removed in equal numbers.\<close>

lemma cancelOpposite_value:
  assumes "countsWf P c"
  shows "countsWf P (cancelOpposite c k) \<and> countsSum (cancelOpposite c k) = countsSum c"
proof (cases "cancelOpposite c k = c")
  case True
  with assms show ?thesis by simp
next
  case False
  obtain v n where v: "dget c k = Some (v, n)" "n \<noteq> 0" "rNum v > 0"
    using False by (auto simp: cancelOpposite_def not_le split: option.splits if_splits)
  define w where "w = mkRational (- rNum v) (rDen v)"
  obtain w' m where "dget c (rationalKey w) = Some (w', m)"
    using False v by (auto simp: cancelOpposite_def w_def Let_def split: option.splits)
  moreover from this have "w' = w" by (metis countsWf_get [OF assms] rationalKey_inject)
  ultimately have w: "dget c (rationalKey w) = Some (w, m)" by simp
  have k: "k = rationalKey v" and pv: "P v" and pw: "P w"
    using countsWf_get [OF assms v(1)] countsWf_get [OF assms w] by auto
  have "rNum w \<noteq> rNum v" using v(3) by (simp add: w_def)
  then have "w \<noteq> v" by blast
  let ?x = "min n m"
  let ?c1 = "dput k (v, n - ?x) c"
  have c: "cancelOpposite c k = dput (rationalKey w) (w, m - ?x) ?c1"
    using v w False by (simp add: cancelOpposite_def w_def [symmetric] Let_def split: if_splits)
  have wf1: "countsWf P ?c1" using countsWf_dput [OF assms pv k] .
  have "dget ?c1 (rationalKey w) = Some (w, m)" using w k \<open>w \<noteq> v\<close> by (simp add: dget_dput)
  then have "countsSum (cancelOpposite c k) = countsSum c - of_nat n * ratVal v
      + of_nat (n - ?x) * ratVal v - of_nat m * ratVal w + of_nat (m - ?x) * ratVal w"
    by (simp add: c countsSum_dput [OF wf1] countsSum_dput [OF assms] v(1))
  also have "\<dots> = countsSum c"
    by (simp add: w_def ratVal_negated of_nat_diff algebra_simps)
  finally show ?thesis using c countsWf_dput [OF wf1 pw] by simp
qed

lemma cancelAll_value:
  "countsWf P c \<Longrightarrow> countsWf P (foldl cancelOpposite c ks)
     \<and> countsSum (foldl cancelOpposite c ks) = countsSum c"
  by (induction ks arbitrary: c) (auto simp: cancelOpposite_value)

text \<open>So are factors and their reciprocals; what is its own reciprocal is counted modulo 2.\<close>

lemma reciprocal_value:
  assumes "rational (rDen v) (rNum v) = Inr w" and "rDen v > 0"
  shows "ratVal v \<noteq> 0" and "ratVal w = inverse (ratVal v)" and "reduced w"
  using assms by (auto simp: rational_iff ratVal_def [of v] inverse_divide)

lemma cancelReciprocal_value:
  assumes "countsWf reduced c" and "cancelReciprocal (c, vis) k = Inr (c', vis')"
  shows "countsWf reduced c' \<and> countsProduct c' = countsProduct c"
proof (cases "c' = c")
  case True
  with assms show ?thesis by simp
next
  case False
  obtain v n where v: "dget c k = Some (v, n)" and n: "n \<noteq> 0" "k \<notin> set vis"
    using False assms(2) by (auto simp: cancelReciprocal_def split: option.splits if_splits)
  then obtain w where r: "rational (rDen v) (rNum v) = Inr w"
    using assms(2) by (auto simp: cancelReciprocal_def bindE_eq_Inr)
  have k: "k = rationalKey v" and red: "reduced v" using countsWf_get [OF assms(1) v] by auto
  note facts = reciprocal_value [OF r]
  have nz: "ratVal v \<noteq> 0" and inv: "ratVal w = inverse (ratVal v)" and wred: "reduced w"
    using facts red by (auto simp: reduced_def)
  have vw: "ratVal v * ratVal w = 1" using nz inv by simp
  show ?thesis
  proof (cases "w = v")
    case True
    define n' where "n' = (if rNum v = rDen v then 0 else n mod 2)"
    have c': "c' = dput k (v, n') c"
      using assms(2) v n r True k by (auto simp: cancelReciprocal_def Let_def n'_def)
    have "ratVal v ^ n' = ratVal v ^ n"
    proof (cases "rNum v = rDen v")
      case True
      then have "ratVal v = 1" using red by (simp add: ratVal_def reduced_def)
      then show ?thesis by simp
    next
      case False
      have "ratVal v ^ n = (ratVal v ^ 2) ^ (n div 2) * ratVal v ^ (n mod 2)"
        by (metis mult_div_mod_eq power_add power_mult)
      moreover have "ratVal v ^ 2 = 1" using vw True by (simp add: power2_eq_square)
      ultimately show ?thesis using False by (simp add: n'_def)
    qed
    with countsProduct_dput [OF assms(1), of k v n'] v nz countsWf_dput [OF assms(1) red k]
    show ?thesis by (simp add: c')
  next
    case False
    obtain w' m where "dget c (rationalKey w) = Some (w', m)"
      using \<open>c' \<noteq> c\<close> assms(2) v n r False k
      by (auto simp: cancelReciprocal_def Let_def split: option.splits)
    moreover from this have "w' = w" by (metis countsWf_get [OF assms(1)] rationalKey_inject)
    ultimately have w: "dget c (rationalKey w) = Some (w, m)" by simp
    let ?x = "min n m"
    let ?c1 = "dput k (v, n - ?x) c"
    have c': "c' = dput (rationalKey w) (w, m - ?x) ?c1"
      using \<open>c' \<noteq> c\<close> assms(2) v n r False k w
      by (auto simp: cancelReciprocal_def Let_def split: if_splits)
    have wf1: "countsWf reduced ?c1" using countsWf_dput [OF assms(1) red k] .
    have "dget ?c1 (rationalKey w) = Some (w, m)" using w k False by (simp add: dget_dput)
    then have p2: "countsProduct c' * ratVal w ^ m = countsProduct ?c1 * ratVal w ^ (m - ?x)"
      using countsProduct_dput [OF wf1, of "rationalKey w" w "m - ?x"] by (simp add: c')
    have p1: "countsProduct ?c1 * ratVal v ^ n = countsProduct c * ratVal v ^ (n - ?x)"
      using countsProduct_dput [OF assms(1), of k v "n - ?x"] v by simp
    have split: "ratVal v ^ n = ratVal v ^ (n - ?x) * ratVal v ^ ?x"
      "ratVal w ^ m = ratVal w ^ (m - ?x) * ratVal w ^ ?x"
      by (simp_all add: power_add [symmetric])
    have one: "ratVal v ^ ?x * ratVal w ^ ?x = 1" using vw by (simp add: power_mult_distrib [symmetric])
    have wnz: "ratVal w \<noteq> 0" using inv nz by simp
    have "countsProduct c' * ratVal w ^ ?x = countsProduct ?c1" using p2 split(2) wnz by simp
    moreover have "countsProduct ?c1 * ratVal v ^ ?x = countsProduct c" using p1 split(1) nz by simp
    ultimately have "countsProduct c = countsProduct c' * (ratVal v ^ ?x * ratVal w ^ ?x)"
      by (metis mult.assoc mult.commute)
    with one c' countsWf_dput [OF wf1 wred] show ?thesis by simp
  qed
qed

lemma cancelReciprocals_value:
  "countsWf reduced c \<Longrightarrow> foldE cancelReciprocal (c, vis) ks = Inr (c', vis') \<Longrightarrow>
     countsWf reduced c' \<and> countsProduct c' = countsProduct c"
proof (induction ks arbitrary: c vis)
  case (Cons k ks)
  then obtain c1 vis1 where "cancelReciprocal (c, vis) k = Inr (c1, vis1)"
    and "foldE cancelReciprocal (c1, vis1) ks = Inr (c', vis')"
    by (auto simp: bindE_eq_Inr)
  with Cons.IH cancelReciprocal_value [OF Cons.prems(1)] show ?case by metis
qed simp

lemma mapE_checked:
  "mapE checkedRational vs = Inr cs \<Longrightarrow>
     (\<forall>v \<in> set vs. valid v) \<and> (\<forall>v \<in> set cs. rDen v > 0) \<and> map ratVal cs = map ratVal vs"
  by (induction vs arbitrary: cs) (auto simp: bindE_eq_Inr dest!: valid_checked)

lemma mapE_normalized:
  "mapE normalizeRational vs = Inr ns \<Longrightarrow> (\<forall>v \<in> set ns. reduced v) \<and> map ratVal ns = map ratVal vs"
  by (induction vs arbitrary: ns)
     (auto simp: bindE_eq_Inr normalizeRational_def rational_iff ratVal_def [symmetric])

lemma sum_nonzero_terms:
  "sum_list (map ratVal (filter (\<lambda>v. rNum v \<noteq> 0) vs)) = sum_list (map ratVal vs)"
  by (induction vs) (auto simp: ratVal_def)

text \<open>Whichever strategy answers, it is the exact sum.\<close>

lemma sumRationals_exact:
  assumes "sumRationals vs = Inr r"
  shows "(\<forall>v \<in> set vs. valid v) \<and> r = ratPair (sum_list (map ratVal vs))"
proof -
  obtain cs w where cs: "mapE checkedRational vs = Inr cs"
    and w: "tryWideRationalSum (groupRationalSumTerms cs) = Inr w"
    using assms by (auto simp: sumRationals_def bindE_eq_Inr)
  have rest: "w = Some r" if "w \<noteq> None"
    using that assms cs w by (auto simp: sumRationals_def bindE_eq_Inr)
  note checked = mapE_checked [OF cs]
  have pos: "\<forall>v \<in> set cs. rDen v > 0" and val: "map ratVal cs = map ratVal vs"
    using checked by auto
  have "r = ratPair (sum_list (map ratVal cs))"
  proof (cases w)
    case (Some x)
    with rest w have "tryWideRationalSum (groupRationalSumTerms cs) = Inr (Some r)" by simp
    from tryWideRationalSum_exact [OF this] groupRationalSumTerms_sum [OF pos] show ?thesis by simp
  next
    case None
    show ?thesis
    proof (cases "boundedCommonDenominator cs")
      case (Some c)
      then have "sumWithCommonDenominator cs c = Inr r"
        using assms cs w \<open>w = None\<close> by (auto simp: sumRationals_def bindE_eq_Inr)
      from boundedCommonDenominator_sum [OF Some this pos] show ?thesis .
    next
      case None
      obtain ns where ns: "mapE normalizeRational cs = Inr ns"
        using assms cs w \<open>w = None\<close> None by (auto simp: sumRationals_def bindE_eq_Inr)
      let ?c = "foldl cancelOpposite (rationalCounts ns) (dkeys (rationalCounts ns))"
      let ?rem = "filter (\<lambda>v. rNum v \<noteq> 0) (expandCounts ?c)"
      obtain c where c: "boundedCommonDenominator ?rem = Some c" "sumWithCommonDenominator ?rem c = Inr r"
        using assms cs w \<open>w = None\<close> None ns
        by (auto simp: sumRationals_def bindE_eq_Inr Let_def split: option.splits)
      have wf: "countsWf reduced (rationalCounts ns)"
        using mapE_normalized [OF ns] by (simp add: rationalCounts_wf)
      have "countsWf reduced ?c" and sum: "countsSum ?c = sum_list (map ratVal cs)"
        using cancelAll_value [OF wf] mapE_normalized [OF ns] by (auto simp: rationalCounts_sum)
      then have "\<forall>v \<in> set ?rem. rDen v > 0"
        using expandCounts_all by (fastforce simp: reduced_def)
      from boundedCommonDenominator_sum [OF c this] sum show ?thesis
        by (simp add: sum_nonzero_terms expandCounts_sum)
    qed
  qed
  with checked val show ?thesis by simp
qed

section \<open>Products\<close>

lemma boundedProduct_loop:
  "foldE (\<lambda>p v. assertIntermediateIntegerBound (p * v)) a xs = Inr p \<Longrightarrow> p = a * prod_list xs"
proof (induction xs arbitrary: a)
  case (Cons x xs)
  then have "p = a * x * prod_list xs" by (auto simp: bindE_eq_Inr)
  then show ?case by (simp add: mult.assoc)
qed simp

lemma productIntegers_exact: "productIntegers vs = Inr p \<Longrightarrow> p = prod_list vs"
  using boundedProduct_loop [of 1 vs p]
  by (auto simp: productIntegers_def bindE_eq_Inr mapE_assertBound list_ex_iff prod_list_zero_iff
      split: if_splits)

lemma wideProductLoop_exact:
  "wideProductLoop n d vs = Some (n', d') \<Longrightarrow> d > 0 \<Longrightarrow> \<forall>v \<in> set vs. rDen v > 0 \<Longrightarrow>
     d' > 0 \<and> of_int n' / of_int d' = of_int n / of_int d * prod_list (map ratVal vs)"
proof (induction n d vs rule: wideProductLoop.induct)
  case (2 n d v vs)
  then have "d' > 0 \<and> of_int n' / of_int d'
      = of_int (n * rNum v) / of_int (d * rDen v) * prod_list (map ratVal vs)"
    by (auto simp: Let_def split: if_splits)
  moreover have "of_int (n * rNum v) / of_int (d * rDen v) = of_int n / of_int d * ratVal v"
    by (simp add: ratVal_def)
  ultimately show ?case by (simp only: list.map prod_list.Cons mult.assoc)
qed simp

lemma cancelDenominators_quotient:
  "cancelDenominators n ds = (n', ds') \<Longrightarrow> n > 0 \<Longrightarrow> \<forall>d \<in> set ds. d > 0 \<Longrightarrow>
     n' > 0 \<and> (\<forall>d \<in> set ds'. d > 0) \<and> n * prod_list ds' = n' * prod_list ds"
proof (induction n ds arbitrary: n' ds' rule: cancelDenominators.induct)
  case (2 n d ds)
  let ?g = "gcd n d"
  have d: "d > 0" using "2.prems" by simp
  have g: "?g > 0" using d by simp
  obtain a where a: "n = ?g * a" by (meson dvdE gcd_dvd1)
  obtain b where b: "d = ?g * b" by (meson dvdE gcd_dvd2)
  have pos: "a > 0" "b > 0" using a b g d "2.prems"(2) by (metis zero_less_mult_pos)+
  have div: "n sdiv ?g = a" "d sdiv ?g = b" using g a b sdiv_mult by (metis less_irrefl)+
  consider (keep) "d \<le> 1 \<or> ?g = 1" | (one) "\<not> d \<le> 1" "?g \<noteq> 1" "a = 1"
    | (go) "\<not> d \<le> 1" "?g \<noteq> 1" "a \<noteq> 1" by blast
  then show ?case
  proof cases
    case keep
    then obtain ds1 where "cancelDenominators n ds = (n', ds1)" "ds' = d # ds1"
      using "2.prems"(1) by (cases "cancelDenominators n ds") (auto split: if_splits)
    with "2.IH"(1,2) keep "2.prems"(2,3) show ?thesis by (cases "d \<le> 1") auto
  next
    case one
    then have "n' = 1" "ds' = b # ds" using "2.prems"(1) by (simp_all add: div)
    with one a b pos "2.prems"(3) show ?thesis by auto
  next
    case go
    then obtain ds1 where r: "cancelDenominators a ds = (n', ds1)" "ds' = b # ds1"
      using "2.prems"(1) by (cases "cancelDenominators a ds") (auto simp: div)
    have "n' > 0 \<and> (\<forall>d \<in> set ds1. d > 0) \<and> a * prod_list ds1 = n' * prod_list ds"
      using "2.IH"(3) [of ?g] go r(1) pos "2.prems"(3) by (simp add: div)
    moreover from this have "n * (b * prod_list ds1) = n' * (d * prod_list ds)"
      using a b by (metis mult.assoc mult.left_commute)
    ultimately show ?thesis using r(2) pos by simp
  qed
qed simp

lemma cancelNumerators_quotient:
  "cancelNumerators ns ds = (ns', ds') \<Longrightarrow> \<forall>n \<in> set ns. n > 0 \<Longrightarrow> \<forall>d \<in> set ds. d > 0 \<Longrightarrow>
     (\<forall>d \<in> set ds'. d > 0) \<and> prod_list ns * prod_list ds' = prod_list ns' * prod_list ds"
proof (induction ns ds arbitrary: ns' ds' rule: cancelNumerators.induct)
  case (2 n ns ds)
  show ?case
  proof (cases "n \<le> 1")
    case True
    then obtain ns1 where "cancelNumerators ns ds = (ns1, ds')" "ns' = n # ns1"
      using "2.prems"(1) by (cases "cancelNumerators ns ds") auto
    with "2.IH"(1) True "2.prems" show ?thesis by simp
  next
    case False
    obtain n1 ds1 where one: "cancelDenominators n ds = (n1, ds1)" by force
    obtain ns1 where rest: "cancelNumerators ns ds1 = (ns1, ds')" "ns' = n1 # ns1"
      using "2.prems"(1) False one by (cases "cancelNumerators ns ds1") auto
    have 1: "\<forall>d \<in> set ds1. d > 0" "n * prod_list ds1 = n1 * prod_list ds"
      using cancelDenominators_quotient [OF one] "2.prems" by auto
    then have 2: "\<forall>d \<in> set ds'. d > 0" "prod_list ns * prod_list ds' = prod_list ns1 * prod_list ds1"
      using "2.IH"(2) [OF False one [symmetric] rest(1)] "2.prems"(2) by auto
    have "n * (prod_list ns * prod_list ds') = n1 * prod_list ns1 * prod_list ds"
      using 1(2) 2(2) by (metis mult.assoc mult.commute)
    with 2(1) rest(2) show ?thesis by (simp add: mult.assoc)
  qed
qed auto

lemma signs_loop:
  "foldl (\<lambda>neg v. if rNum v < 0 then \<not> neg else neg) b vs
     = (b \<noteq> (prod_list (map (\<lambda>v. sgn (rNum v)) vs) < 0))"
  if "\<forall>v \<in> set vs. rNum v \<noteq> 0"
  using that
proof (induction vs arbitrary: b)
  case (Cons v vs)
  let ?s = "prod_list (map (\<lambda>v. sgn (rNum v)) vs)"
  have "?s \<noteq> 0" using Cons.prems by (auto simp: prod_list_zero_iff sgn_0_0)
  moreover have "rNum v \<noteq> 0" using Cons.prems by simp
  ultimately have "sgn (rNum v) * ?s < 0 \<longleftrightarrow> (rNum v < 0) \<noteq> (?s < 0)"
    by (cases "rNum v < 0") auto
  moreover have "foldl (\<lambda>neg v. if rNum v < 0 then \<not> neg else neg) c vs = (c \<noteq> (?s < 0))" for c
    using Cons by simp
  ultimately show ?case by (cases "rNum v < 0") simp_all
qed simp

lemma signed_magnitudes:
  assumes "\<forall>v \<in> set vs. rNum v \<noteq> 0"
  shows "prod_list (map rNum vs) = (if prod_list (map (\<lambda>v. sgn (rNum v)) vs) < 0 then - 1 else 1)
      * prod_list (map (\<lambda>v. if rNum v < 0 then - rNum v else rNum v) vs)"
  using assms
proof (induction vs)
  case (Cons v vs)
  let ?s = "prod_list (map (\<lambda>v. sgn (rNum v)) vs)"
  have "?s \<noteq> 0" using Cons.prems by (auto simp: prod_list_zero_iff sgn_0_0)
  moreover have "rNum v \<noteq> 0" using Cons.prems by simp
  moreover have "prod_list (map rNum vs) = (if ?s < 0 then - 1 else 1)
      * prod_list (map (\<lambda>v. if rNum v < 0 then - rNum v else rNum v) vs)"
    using Cons by simp
  ultimately show ?case by (cases "rNum v < 0"; cases "?s < 0") (auto simp: mult_less_0_iff)
qed simp

lemma cross_multiplied:
  "a * d = b * c \<Longrightarrow> d \<noteq> 0 \<Longrightarrow> c \<noteq> 0 \<Longrightarrow> of_int b / of_int d = (of_int a / of_int c :: rat)"
proof -
  assume "a * d = b * c" and nz: "d \<noteq> 0" "c \<noteq> 0"
  then have "of_int b * of_int c = (of_int a * of_int d :: rat)" by (metis of_int_mult)
  with nz show ?thesis by (simp add: frac_eq_eq)
qed

lemma prod_ratVal:
  "prod_list (map ratVal vs) = of_int (prod_list (map rNum vs)) / of_int (prod_list (map rDen vs))"
  by (induction vs) (simp_all add: ratVal_def)

lemma fullyCancelledRationalProduct_exact:
  assumes "fullyCancelledRationalProduct vs = Inr r"
    and vs: "\<forall>v \<in> set vs. rDen v > 0 \<and> rNum v \<noteq> 0"
  shows "r = ratPair (prod_list (map ratVal vs))"
proof -
  let ?ns = "map (\<lambda>v. if rNum v < 0 then - rNum v else rNum v) vs" and ?ds = "map rDen vs"
  let ?neg = "prod_list (map (\<lambda>v. sgn (rNum v)) vs) < 0"
  obtain ns ds where c: "cancelNumerators ?ns ?ds = (ns, ds)" by force
  have r: "rational (if ?neg then - prod_list ns else prod_list ns) (prod_list ds) = Inr r"
    using assms(1) signs_loop [of vs False] vs productIntegers_exact
    by (auto simp: fullyCancelledRationalProduct_def Let_def c bindE_eq_Inr split: if_splits)
  have pos: "prod_list xs > 0" if "\<forall>x \<in> set xs. x > 0" for xs :: "int list"
    using that by (induction xs) simp_all
  have numerators: "\<forall>n \<in> set ?ns. n > 0" using vs by (auto simp: less_le)
  have q: "\<forall>d \<in> set ds. d > 0" "prod_list ?ns * prod_list ds = prod_list ns * prod_list ?ds"
    using cancelNumerators_quotient [OF c] numerators vs by auto
  have nz: "prod_list ds \<noteq> 0" "prod_list ?ds \<noteq> 0"
    using pos [OF q(1)] pos [of ?ds] vs by auto
  have "prod_list (map rNum vs) * prod_list ds
      = (if ?neg then - prod_list ns else prod_list ns) * prod_list ?ds"
    using signed_magnitudes [of vs] vs q(2) by (auto split: if_splits)
  then have "of_int (if ?neg then - prod_list ns else prod_list ns) / of_int (prod_list ds)
      = prod_list (map ratVal vs)"
    unfolding prod_ratVal by (rule cross_multiplied [OF _ nz])
  with r show ?thesis by (simp only: rational_iff)
qed

lemma tryWideRationalProduct_exact:
  assumes "tryWideRationalProduct vs = Inr (Some r)" and "\<forall>v \<in> set vs. rDen v > 0"
  shows "r = ratPair (prod_list (map ratVal vs))"
proof -
  obtain n d where l: "wideProductLoop 1 1 vs = Some (n, d)" and r: "reduceTotal n d = Inr r"
    using assms(1) by (auto simp: tryWideRationalProduct_def bindE_eq_Inr split: option.splits)
  from wideProductLoop_exact [OF l _ assms(2)] reduceTotal_exact [OF _ r] show ?thesis by simp
qed

lemma productRationals_exact:
  assumes "productRationals vs = Inr r"
  shows "(\<forall>v \<in> set vs. valid v) \<and> r = ratPair (prod_list (map ratVal vs))"
proof -
  obtain cs where cs: "mapE checkedRational vs = Inr cs"
    using assms by (auto simp: productRationals_def bindE_eq_Inr)
  note checked = mapE_checked [OF cs]
  have pos: "\<forall>v \<in> set cs. rDen v > 0" and val: "map ratVal cs = map ratVal vs"
    using checked by auto
  have "r = ratPair (prod_list (map ratVal cs))"
  proof (cases "list_ex (\<lambda>v. rNum v = 0) cs")
    case True
    then have "prod_list (map ratVal cs) = 0"
      by (auto simp: prod_list_zero_iff list_ex_iff ratVal_def intro!: rev_image_eqI)
    with True assms cs show ?thesis
      by (auto simp: productRationals_def bindE_eq_Inr rational_iff)
  next
    case nonzero: False
    obtain w where w: "tryWideRationalProduct cs = Inr w"
      using assms cs nonzero by (auto simp: productRationals_def bindE_eq_Inr)
    show ?thesis
    proof (cases w)
      case (Some x)
      then have "tryWideRationalProduct cs = Inr (Some r)"
        using assms cs nonzero w by (auto simp: productRationals_def bindE_eq_Inr)
      from tryWideRationalProduct_exact [OF this pos] show ?thesis .
    next
      case None
      obtain ns where ns: "mapE normalizeRational cs = Inr ns"
        using assms cs nonzero w None by (auto simp: productRationals_def bindE_eq_Inr)
      obtain c vis where c: "foldE cancelReciprocal (rationalCounts ns, []) (dkeys (rationalCounts ns)) = Inr (c, vis)"
        and r: "fullyCancelledRationalProduct (expandCounts c) = Inr r"
        using assms cs nonzero w None ns
        by (auto simp: productRationals_def bindE_eq_Inr Let_def split: if_splits)
      have val_ns: "map ratVal ns = map ratVal cs" and red: "\<forall>v \<in> set ns. reduced v"
        using mapE_normalized [OF ns] by auto
      have "\<forall>v \<in> set cs. ratVal v \<noteq> 0"
        using nonzero pos by (auto simp: list_ex_iff ratVal_def)
      then have nz: "0 \<notin> set (map ratVal ns)" unfolding val_ns by auto
      then have "countsProduct (rationalCounts ns) = prod_list (map ratVal cs)"
        using rationalCounts_product [of ns] unfolding val_ns [symmetric] by (metis image_eqI list.set_map)
      with cancelReciprocals_value [OF rationalCounts_wf [OF red] c]
      have wf: "countsWf reduced c" and prod: "prod_list (map ratVal (expandCounts c)) = prod_list (map ratVal cs)"
        by (auto simp: expandCounts_product)
      have "prod_list (map ratVal (expandCounts c)) \<noteq> 0"
        using nz unfolding prod val_ns by (auto simp: prod_list_zero_iff)
      then have "\<forall>v \<in> set (expandCounts c). ratVal v \<noteq> 0"
        by (force simp: prod_list_zero_iff)
      then have "\<forall>v \<in> set (expandCounts c). rDen v > 0 \<and> rNum v \<noteq> 0"
        using expandCounts_all [OF wf] by (auto simp: reduced_def ratVal_def)
      from fullyCancelledRationalProduct_exact [OF r this] prod show ?thesis by simp
    qed
  qed
  with checked val show ?thesis by simp
qed

section \<open>Sums over one denominator always answer\<close>

lemma wide_enough: "\<bar>v\<bar> \<le> 1024 * digitBound \<Longrightarrow> wideWorkComponentWithinBound v"
proof -
  assume v: "\<bar>v\<bar> \<le> 1024 * digitBound"
  have "(1024 :: int) * digitBound < 10 ^ 4 * digitBound"
    using digitBound_pos by (intro mult_strict_right_mono) simp_all
  also have "\<dots> = 10 ^ 4100" unfolding digitBound_def power_add [symmetric]
    by (rule arg_cong [of "4 + 4096" 4100]) simp
  also have "\<dots> \<le> (10 :: int) ^ 8450" by (rule power_increasing) simp_all
  finally have "\<bar>v\<bar> < 10 ^ 8450" using v by linarith
  moreover have "(0 :: nat) < 8450" by simp
  ultimately have "decimalDigitCount v \<le> 8450" using decimalDigitCount_le by blast
  then show ?thesis
    unfolding wideWorkComponentWithinBound_def MAX_WIDE_RATIONAL_WORK_DECIMAL_DIGITS_def .
qed

lemma wide_small: "\<bar>v\<bar> < 10 ^ 9 \<Longrightarrow> wideWorkComponentWithinBound v"
  using small_bounded [of v] by (intro wide_enough) linarith

lemma one_group:
  assumes "\<forall>v \<in> set vs. rDen v = d" and "vs \<noteq> []"
  shows "groupByDenominator vs = [(bigintToString d, mkRational (sum_list (map rNum vs)) d)]"
  using assms
proof (induction vs rule: rev_induct)
  case (snoc v vs)
  then show ?case
    by (cases "vs = []") (simp_all add: groupByDenominator_def dput_def dget_def Let_def)
qed simp

lemma sum_one_denominator:
  assumes "\<forall>v \<in> set vs. rDen v = d"
  shows "sum_list (map ratVal vs) = of_int (sum_list (map rNum vs)) / of_int d"
  using assms by (induction vs) (simp_all add: ratVal_def add_divide_distrib)

lemma reduceTotal_returns:
  assumes "d > 0" and "bounded (ratPair (of_int n / of_int d))"
  shows "reduceTotal n d = Inr (ratPair (of_int n / of_int d))"
proof -
  have g: "gcd n d \<noteq> 0" using assms(1) by simp
  have pair: "ratPair (of_int n / of_int d) = mkRational (n sdiv gcd n d) (d sdiv gcd n d)"
    using g ratPair_gcd [OF assms(1)] by (simp add: sdiv_dvd)
  define n' d' where "n' = n sdiv gcd n d" and "d' = d sdiv gcd n d"
  have p: "ratPair (of_int n / of_int d) = mkRational n' d'" using pair by (simp add: n'_def d'_def)
  moreover have "d' > 0" using reduced_ratPair [of "of_int n / of_int d"] p by (simp add: reduced_def)
  moreover have "rational n' d' = Inr (mkRational n' d')"
    using assms(2) \<open>d' > 0\<close> p ratVal_ratPair [of "of_int n / of_int d"]
    by (simp add: rational_iff bounded_def ratVal_mkRational)
  ultimately show ?thesis using assms(2)
    by (simp add: reduceTotal_def n'_def [symmetric] d'_def [symmetric] bounded_def)
qed

lemma sumRationals_one_denominator:
  assumes "length vs \<le> 1024" and "\<forall>v \<in> set vs. valid v \<and> rDen v = d" and "d > 0"
    and "bounded (ratPair (sum_list (map ratVal vs)))"
  shows "sumRationals vs = Inr (ratPair (sum_list (map ratVal vs)))"
proof -
  let ?n = "sum_list (map rNum vs)"
  have len: "assertFiniteContainerLength (length vs) = Inr ()"
    using assms(1) by (simp add: assertFiniteContainerLength_def MAX_FINITE_CONTAINER_ITEMS_def)
  have checked: "mapE checkedRational vs = Inr vs"
    using mapE_all [of vs checkedRational id] assms(2,3)
    by (simp add: checkedRational_iff valid_def id_def)
  have val: "sum_list (map ratVal vs) = of_int ?n / of_int d"
    using assms(2) by (simp add: sum_one_denominator)
  have terms: "groupRationalSumTerms vs = (if ?n = 0 then [] else [mkRational ?n d])"
  proof (cases "vs = []")
    case False
    with assms(2) show ?thesis
      by (simp add: groupRationalSumTerms_def one_group [of vs d] sortBy_def)
  qed (simp add: groupRationalSumTerms_def groupByDenominator_def sortBy_def)
  have "\<bar>?n\<bar> \<le> sum_list (map (\<lambda>v. \<bar>rNum v\<bar>) vs)" by (induction vs) simp_all
  also have "\<dots> \<le> sum_list (map (\<lambda>_. digitBound) vs)"
    using assms(2) by (intro sum_list_mono) (auto simp: valid_def bounded_def)
  also have "\<dots> = int (length vs) * digitBound" by (simp add: sum_list_triv)
  also have "\<dots> \<le> 1024 * digitBound"
    using assms(1) digitBound_pos by (intro mult_right_mono) simp_all
  finally have n: "wideWorkComponentWithinBound ?n" by (rule wide_enough)
  have d: "wideWorkComponentWithinBound d" if "vs \<noteq> []"
  proof (rule wide_enough)
    have "\<bar>d\<bar> < digitBound" using assms(2) that
      by (metis bounded_def list.set_sel(1) valid_def)
    then show "\<bar>d\<bar> \<le> 1024 * digitBound" by linarith
  qed
  have "tryWideRationalSum (groupRationalSumTerms vs) = Inr (Some (ratPair (of_int ?n / of_int d)))"
  proof (cases "?n = 0")
    case True
    then have "ratPair (of_int ?n / of_int d) = ratPair (of_int 0 / of_int 1)" by simp
    moreover have "reduceTotal 0 1 = Inr (ratPair (of_int 0 / of_int 1))"
      by (rule reduceTotal_returns) (use assms(4) True val in \<open>simp_all\<close>)
    ultimately show ?thesis using True by (simp add: tryWideRationalSum_def terms)
  next
    case False
    then have "vs \<noteq> []" by auto
    then have "wideSumLoop (mkRational 0 1) [mkRational ?n d] = Some (mkRational ?n d)"
      using n d assms(3) by (simp add: Let_def)
    with False reduceTotal_returns [OF assms(3), of ?n] assms(4) val show ?thesis
      by (simp add: tryWideRationalSum_def terms)
  qed
  with len checked show ?thesis by (simp add: sumRationals_def val)
qed

text \<open>Property C39. The sum or product of a list of rationals, whichever of its strategies answers,
  is the exact sum or product in lowest terms of arguments that were all well formed; and a sum of at
  most 1024 terms over one denominator, such as a sum of integers, answers whenever its value
  respects the digit limit.\<close>

theorem long_sums_and_products_are_exact:
  "(sumRationals vs = Inr s \<longrightarrow> (\<forall>v \<in> set vs. valid v) \<and> s = ratPair (sum_list (map ratVal vs)))
   \<and> (productRationals vs = Inr p \<longrightarrow>
        (\<forall>v \<in> set vs. valid v) \<and> p = ratPair (prod_list (map ratVal vs)))
   \<and> (length vs \<le> 1024 \<and> (\<forall>v \<in> set vs. valid v \<and> rDen v = d) \<and> d > 0
        \<and> bounded (ratPair (sum_list (map ratVal vs)))
      \<longrightarrow> sumRationals vs = Inr (ratPair (sum_list (map ratVal vs))))"
  by (intro conjI impI sumRationals_exact productRationals_exact)
     (erule conjE sumRationals_one_denominator | assumption)+

theorem long_sums_and_products_are_exact_witness:
  "sumRationals [mkRational 1 2, mkRational 1 3] = Inr (mkRational 5 6)
   \<and> productRationals [mkRational 2 3, mkRational 9 4] = Inr (mkRational 3 2)
   \<and> sumRationals [mkRational 1 4, mkRational 1 4] = Inr (mkRational 1 2)
   \<and> ratPair (1 / 2 + 1 / 3) = mkRational 5 6 \<and> ratPair (2 / 3 * (9 / 4)) = mkRational 3 2
   \<and> ratPair (1 / 4 + 1 / 4) = mkRational 1 2"
proof -
  let ?quarters = "[mkRational 1 4, mkRational 1 4]"
  have checked: "checkedRational (mkRational n d) = Inr (mkRational n d)" if "\<bar>n\<bar> < 10 ^ 9" "0 < d" "d < 10 ^ 9" for n d
    using that small_bounded [of n] small_bounded [of d] by (simp add: checkedRational_iff bounded_def)
  have terms: "groupRationalSumTerms [mkRational 1 2, mkRational 1 3] = [mkRational 1 2, mkRational 1 3]"
    by code_simp
  have bound: "assertIntermediateIntegerBound n = Inr n" if "\<bar>n\<bar> < 10 ^ 9" for n
    using small_bounded [OF that] by simp
  have gcds: "gcd 5 (6 :: int) = 1" "gcd 18 (12 :: int) = 6" "gcd 3 (2 :: int) = 1" by code_simp+
  have total: "reduceTotal 5 6 = Inr (mkRational 5 6)" "reduceTotal 18 12 = Inr (mkRational 3 2)"
    by (simp_all add: reduceTotal_def rational_def gcdBounded_def boundRational_def sdiv_nonneg
        bound gcds Let_def)
  have s: "sumRationals [mkRational 1 2, mkRational 1 3] = Inr (mkRational 5 6)"
    by (simp add: sumRationals_def assertFiniteContainerLength_def MAX_FINITE_CONTAINER_ITEMS_def checked
        terms tryWideRationalSum_def sdiv_nonneg wide_small total)
  have p: "productRationals [mkRational 2 3, mkRational 9 4] = Inr (mkRational 3 2)"
    by (simp add: productRationals_def assertFiniteContainerLength_def MAX_FINITE_CONTAINER_ITEMS_def checked
        tryWideRationalProduct_def wide_small total)
  have q: "ratPair (1 / 4 + 1 / 4) = mkRational 1 2" by code_simp
  have val: "sum_list (map ratVal ?quarters) = 1 / 4 + 1 / 4" by (simp add: ratVal_mkRational)
  have "valid (mkRational 1 4)" "bounded (mkRational 1 2)"
    using small_bounded [of 1] small_bounded [of 2] small_bounded [of 4]
    by (simp_all add: valid_def bounded_def)
  then have "length ?quarters \<le> 1024 \<and> (\<forall>v \<in> set ?quarters. valid v \<and> rDen v = 4) \<and> (4 :: int) > 0
      \<and> bounded (ratPair (sum_list (map ratVal ?quarters)))"
    unfolding val q by simp
  then have "sumRationals ?quarters = Inr (mkRational 1 2)"
    using long_sums_and_products_are_exact [THEN conjunct2, THEN conjunct2, THEN mp, of ?quarters 4]
    unfolding val q by simp
  moreover have "mkRational 5 6 = ratPair (1 / 2 + 1 / 3)"
    using long_sums_and_products_are_exact [THEN conjunct1, THEN mp, OF s]
    by (simp only: list.map sum_list.Cons sum_list.Nil ratVal_mkRational) simp
  moreover have "mkRational 3 2 = ratPair (2 / 3 * (9 / 4))"
    using long_sums_and_products_are_exact [THEN conjunct2, THEN conjunct1, THEN mp, OF p]
    by (simp only: list.map prod_list.Cons prod_list.Nil ratVal_mkRational) simp
  ultimately show ?thesis using s p q by simp
qed

end
