(* ===== verification/MathExpressionFacts.thy ===== *)
theory MathExpressionFacts
  imports MathExpressions RationalSums
begin

text \<open>
  Evaluation of the expression grammars is exact. An integer expression evaluates exactly when it is
  well formed, within the node and depth budgets, and every intermediate value respects the digit
  limit; a rational expression that evaluates has the value of the expression in lowest terms.
\<close>

section \<open>Meaning of integer expressions\<close>

fun intValue :: "IntegerExpression \<Rightarrow> int" where
  "intValue (INTEGER s) = stringToBigint s"
| "intValue (ADD l r) = intValue l + intValue r"
| "intValue (SUBTRACT l r) = intValue l - intValue r"
| "intValue (MULTIPLY l r) = intValue l * intValue r"
| "intValue (NEGATE e) = - intValue e"
| "intValue (POWER b e) = intValue b ^ nat \<lfloor>e\<rfloor>"
| "intValue (TERM_SUM ts) = sum_list (map intValue ts)"
| "intValue (TERM_PRODUCT ts) = prod_list (map intValue ts)"

text \<open>Well formed, with every intermediate value below the digit limit and no \<open>0\<close> to the power \<open>0\<close>.\<close>

fun computable :: "IntegerExpression \<Rightarrow> bool" where
  "computable (INTEGER s) = IntegerStringSchema s"
| "computable (ADD l r) = (computable l \<and> computable r \<and> \<bar>intValue l + intValue r\<bar> < digitBound)"
| "computable (SUBTRACT l r) = (computable l \<and> computable r \<and> \<bar>intValue l - intValue r\<bar> < digitBound)"
| "computable (MULTIPLY l r) = (computable l \<and> computable r \<and> \<bar>intValue l * intValue r\<bar> < digitBound)"
| "computable (NEGATE e) = computable e"
| "computable (POWER b e) =
     (computable b \<and> isIntegerNumber e \<and> 0 \<le> e \<and> e \<le> 1024 \<and> (intValue b \<noteq> 0 \<or> e \<noteq> 0)
      \<and> \<bar>intValue b ^ nat \<lfloor>e\<rfloor>\<bar> < digitBound)"
| "computable (TERM_SUM ts) =
     (1 \<le> length ts \<and> length ts \<le> 128 \<and> list_all computable ts
      \<and> \<bar>sum_list (map intValue ts)\<bar> < digitBound)"
| "computable (TERM_PRODUCT ts) =
     (1 \<le> length ts \<and> length ts \<le> 128 \<and> list_all computable ts
      \<and> \<bar>prod_list (map intValue ts)\<bar> < digitBound)"

fun nodes :: "IntegerExpression \<Rightarrow> nat" where
  "nodes (INTEGER s) = 1"
| "nodes (ADD l r) = 1 + nodes l + nodes r"
| "nodes (SUBTRACT l r) = 1 + nodes l + nodes r"
| "nodes (MULTIPLY l r) = 1 + nodes l + nodes r"
| "nodes (NEGATE e) = 1 + nodes e"
| "nodes (POWER b e) = 1 + nodes b"
| "nodes (TERM_SUM ts) = 1 + sum_list (map nodes ts)"
| "nodes (TERM_PRODUCT ts) = 1 + sum_list (map nodes ts)"

fun nesting :: "IntegerExpression \<Rightarrow> nat" where
  "nesting (INTEGER s) = 1"
| "nesting (ADD l r) = 1 + max (nesting l) (nesting r)"
| "nesting (SUBTRACT l r) = 1 + max (nesting l) (nesting r)"
| "nesting (MULTIPLY l r) = 1 + max (nesting l) (nesting r)"
| "nesting (NEGATE e) = 1 + nesting e"
| "nesting (POWER b e) = 1 + nesting b"
| "nesting (TERM_SUM ts) = 1 + foldr max (map nesting ts) 0"
| "nesting (TERM_PRODUCT ts) = 1 + foldr max (map nesting ts) 0"

section \<open>The operations\<close>

lemma consumeNode_Inr: "consumeNode n d = Inr m \<longleftrightarrow> d \<le> 24 \<and> n = Suc m"
  by (auto simp: consumeNode_def MAX_EXPRESSION_DEPTH_def)

lemma assertTermCount_Inr: "assertTermCount ts = Inr u \<longleftrightarrow> 1 \<le> length ts \<and> length ts \<le> 128"
  by (cases ts) (auto simp: assertTermCount_def MAX_VARIADIC_EXPRESSION_TERMS_def)

lemma parseCanonical_Inr:
  "parseCanonicalInteger s k code = Inr v \<longleftrightarrow> boundedIntegerStringSchema k s \<and> v = stringToBigint s"
proof -
  have "isCanonicalIntegerString s \<Longrightarrow> s \<noteq> []"
    by (auto simp: isCanonicalIntegerString_def startsWith_def)
  then show ?thesis
    by (auto simp: parseCanonicalInteger_def boundedIntegerStringSchema_def Let_def Suc_le_eq
        split: if_splits)
qed

lemma parseBounded_Inr: "parseBoundedInteger s = Inr v \<longleftrightarrow> IntegerStringSchema s \<and> v = stringToBigint s"
  by (simp add: parseBoundedInteger_def IntegerStringSchema_def parseCanonical_Inr)

lemma parseIntermediate_Inr:
  "parseBoundedIntermediateInteger s = Inr v \<longleftrightarrow> IntermediateIntegerStringSchema s \<and> v = stringToBigint s"
  by (simp add: parseBoundedIntermediateInteger_def IntermediateIntegerStringSchema_def parseCanonical_Inr)

lemma IntermediateString_bounded: "IntermediateIntegerStringSchema s \<Longrightarrow> \<bar>stringToBigint s\<bar> < digitBound"
  using parse_intermediate [of s "stringToBigint s"] parseIntermediate_Inr [of s] by simp

lemma IntegerString_bounded:
  assumes "IntegerStringSchema s"
  shows "\<bar>stringToBigint s\<bar> < 10 ^ 256" and "\<bar>stringToBigint s\<bar> < digitBound"
proof -
  obtain v where s: "s = bigintToString v"
    using assms canonical_toString [of s, symmetric]
    by (auto simp: IntegerStringSchema_def boundedIntegerStringSchema_def)
  have "decimalDigitCount v \<le> 256"
    using assms length_canonical [of s] unfolding s
    by (simp add: IntegerStringSchema_def boundedIntegerStringSchema_def MAX_INTEGER_DECIMAL_DIGITS_def)
  then show small: "\<bar>stringToBigint s\<bar> < 10 ^ 256" using s decimalDigitCount_le [of 256 v] by simp
  have "(10 :: int) ^ 256 \<le> digitBound" unfolding digitBound_def by (rule power_increasing) simp_all
  with small show "\<bar>stringToBigint s\<bar> < digitBound" by linarith
qed

text \<open>Powers by squaring: the squares never exceed a result that is within the limit.\<close>

lemma factor_bounded:
  assumes "\<bar>r * f\<bar> < b" and "r \<noteq> (0 :: int)"
  shows "\<bar>f\<bar> < b"
proof -
  have "1 * \<bar>f\<bar> \<le> \<bar>r\<bar> * \<bar>f\<bar>" using assms(2) by (intro mult_right_mono) simp_all
  then show ?thesis using assms(1) by (simp add: abs_mult)
qed

lemma powerLoop_power:
  assumes "r \<noteq> 0 \<or> f = 0" and "\<bar>r\<bar> < digitBound" and "\<bar>f\<bar> < digitBound"
  shows "powerLoop r f n = Inr v \<longleftrightarrow> v = r * f ^ n \<and> \<bar>v\<bar> < digitBound"
  using assms
proof (induction r f n rule: powerLoop.induct)
  case (1 r f n)
  show ?case
  proof (cases "n = 0")
    case True
    with "1.prems" show ?thesis by (auto simp: powerLoop.simps [of r f 0])
  next
    case False
    define r' where "r' = (if n mod 2 = 1 then r * f else r)"
    define m where "m = n div 2"
    have pow: "r * f ^ n = r' * (f * f) ^ m"
    proof -
      have "f ^ n = f ^ (n mod 2 + 2 * m)" by (simp add: m_def)
      also have "\<dots> = f ^ (n mod 2) * (f * f) ^ m"
        by (simp add: power_add power_mult power2_eq_square)
      finally show ?thesis by (cases "n mod 2 = 1") (simp_all add: r'_def)
    qed
    have r': "r' \<noteq> 0 \<or> f * f = 0" using "1.prems"(1) by (auto simp: r'_def)
    have first: "powerLoop r f n = bindE (assertIntermediateIntegerBound r') (\<lambda>r'.
        if m > 0 then bindE (assertIntermediateIntegerBound (f * f)) (\<lambda>f'. powerLoop r' f' m) else Inr r')"
      using False "1.prems"(2) by (subst powerLoop.simps) (simp add: r'_def m_def Let_def)
    show ?thesis
    proof (cases "m = 0")
      case True
      with first pow show ?thesis by (auto simp: bindE_eq_Inr)
    next
      case m: False
      have bounds: "\<bar>r'\<bar> < digitBound \<and> \<bar>f * f\<bar> < digitBound" if "\<bar>r' * (f * f) ^ m\<bar> < digitBound"
      proof (cases "f = 0")
        case True
        then show ?thesis using "1.prems"(2) digitBound_pos by (auto simp: r'_def)
      next
        case f: False
        then have "r' \<noteq> 0" using r' by simp
        have "(f * f) ^ m = (f * f) ^ (m - 1) * (f * f)" using m by (metis power_minus_mult neq0_conv)
        then have prod: "\<bar>(r' * (f * f) ^ (m - 1)) * (f * f)\<bar> < digitBound"
          using that by (simp only: mult.assoc)
        have "r' * (f * f) ^ (m - 1) \<noteq> 0" "(f * f) ^ m \<noteq> 0" using \<open>r' \<noteq> 0\<close> f by simp_all
        note nz = this
        have "\<bar>f * f\<bar> < digitBound" by (rule factor_bounded [OF prod nz(1)])
        moreover have "\<bar>r'\<bar> < digitBound"
          using that unfolding mult.commute [of r'] by (rule factor_bounded [OF _ nz(2)])
        ultimately show ?thesis by simp
      qed
      have loop: "powerLoop r' (f * f) m = Inr v \<longleftrightarrow> v = r' * (f * f) ^ m \<and> \<bar>v\<bar> < digitBound"
        if "\<bar>r'\<bar> < digitBound \<and> \<bar>f * f\<bar> < digitBound"
      proof (rule "1.IH")
        show "n \<noteq> 0" by (rule False)
        show "m = n div 2" "0 < m" using m by (simp_all add: m_def)
      qed (use r' that in simp_all)
      show ?thesis
      proof (cases "\<bar>r'\<bar> < digitBound \<and> \<bar>f * f\<bar> < digitBound")
        case True
        then have "powerLoop r f n = powerLoop r' (f * f) m" using first m by simp
        with loop [OF True] pow show ?thesis by simp
      next
        case False
        then have "powerLoop r f n \<noteq> Inr v" using first m by (auto simp: bindE_eq_Inr)
        moreover have "\<not> \<bar>r * f ^ n\<bar> < digitBound" using False bounds unfolding pow by blast
        ultimately show ?thesis by blast
      qed
    qed
  qed
qed

lemma quotient_of_whole: "quotient_of (of_int k) = (k, 1)"
  using quotient_of_Fract [of k 1] by (simp add: Fract_of_int_eq [symmetric] Rat.normalize_def)

lemma integer_number: "isIntegerNumber e \<longleftrightarrow> e = of_int \<lfloor>e\<rfloor>"
proof
  assume "isIntegerNumber e"
  then have "quotient_of e = (fst (quotient_of e), 1)"
    by (metis isIntegerNumber_def prod.collapse)
  then have "e = of_int (fst (quotient_of e))" using quotient_of_div by fastforce
  then show "e = of_int \<lfloor>e\<rfloor>" by (metis floor_of_int)
next
  assume "e = of_int \<lfloor>e\<rfloor>"
  then have "quotient_of e = (\<lfloor>e\<rfloor>, 1)" by (metis quotient_of_whole)
  then show "isIntegerNumber e" by (simp add: isIntegerNumber_def)
qed

lemma integerPower_Inr:
  "integerPower b e = Inr v \<longleftrightarrow> \<bar>b\<bar> < digitBound \<and> isIntegerNumber e \<and> 0 \<le> e \<and> e \<le> 1024
     \<and> (b \<noteq> 0 \<or> e \<noteq> 0) \<and> v = b ^ nat \<lfloor>e\<rfloor> \<and> \<bar>v\<bar> < digitBound"
proof (cases "\<bar>b\<bar> < digitBound \<and> isIntegerNumber e")
  case False
  then show ?thesis by (auto simp: integerPower_def bindE_eq_Inr)
next
  case True
  then have "e = of_int \<lfloor>e\<rfloor>" using integer_number by blast
  then have "fst (quotient_of e) = \<lfloor>e\<rfloor>" by (metis fst_conv quotient_of_whole)
  then have "integerPower b e = (if e < 0 then Inl INVALID_EXPRESSION
      else if e > 1024 then Inl INTERMEDIATE_LIMIT_EXCEEDED
      else if b = 0 \<and> e = 0 then Inl UNDEFINED_OPERATION else powerLoop 1 b (nat \<lfloor>e\<rfloor>))"
    using True by (simp add: integerPower_def MAX_POWER_EXPONENT_def)
  moreover have "powerLoop 1 b (nat \<lfloor>e\<rfloor>) = Inr v \<longleftrightarrow> v = b ^ nat \<lfloor>e\<rfloor> \<and> \<bar>v\<bar> < digitBound"
    using powerLoop_power [of 1 b "nat \<lfloor>e\<rfloor>" v] small_bounded [of 1] True by simp
  ultimately show ?thesis using True by (simp add: not_less)
qed

lemma sumIntegers_Inr:
  "length vs \<le> 128 \<Longrightarrow> \<forall>v \<in> set vs. \<bar>v\<bar> < digitBound \<Longrightarrow>
     sumIntegers vs = Inr s \<longleftrightarrow> s = sum_list vs \<and> \<bar>s\<bar> < digitBound"
  by (auto simp: sumIntegers_def assertFiniteContainerLength_def MAX_FINITE_CONTAINER_ITEMS_def
      bindE_eq_Inr mapE_assertBound foldl_plus)

lemma product_loop_Inr:
  "0 \<notin> set xs \<Longrightarrow> a \<noteq> 0 \<Longrightarrow> \<bar>a\<bar> < digitBound \<Longrightarrow>
     foldE (\<lambda>p v. assertIntermediateIntegerBound (p * v)) a xs = Inr p
       \<longleftrightarrow> p = a * prod_list xs \<and> \<bar>p\<bar> < digitBound"
proof (induction xs arbitrary: a)
  case (Cons x xs)
  have nz: "prod_list xs \<noteq> 0" using Cons.prems(1) by (simp add: prod_list_zero_iff)
  have "\<bar>a * x\<bar> < digitBound" if "\<bar>a * (x * prod_list xs)\<bar> < digitBound"
    using factor_bounded [of "prod_list xs" "a * x"] that nz by (simp add: ac_simps)
  with Cons show ?case by (auto simp: bindE_eq_Inr mult.assoc)
qed auto

lemma productIntegers_Inr:
  assumes "length vs \<le> 128" and "\<forall>v \<in> set vs. \<bar>v\<bar> < digitBound"
  shows "productIntegers vs = Inr p \<longleftrightarrow> p = prod_list vs \<and> \<bar>p\<bar> < digitBound"
proof -
  have bounds: "assertFiniteContainerLength (length vs) = Inr ()"
    "mapE assertIntermediateIntegerBound vs = Inr vs"
    using assms by (simp_all add: assertFiniteContainerLength_def MAX_FINITE_CONTAINER_ITEMS_def
        mapE_assertBound)
  show ?thesis
  proof (cases "0 \<in> set vs")
    case True
    then have "list_ex (\<lambda>v. v = 0) vs" "prod_list vs = 0"
      by (auto simp: list_ex_iff prod_list_zero_iff)
    with bounds digitBound_pos show ?thesis by (auto simp: productIntegers_def)
  next
    case False
    then have "\<not> list_ex (\<lambda>v. v = 0) vs" by (auto simp: list_ex_iff)
    with bounds False product_loop_Inr [of vs 1] small_bounded [of 1] show ?thesis
      by (simp add: productIntegers_def)
  qed
qed

section \<open>Integer evaluation\<close>

lemma computable_bounded: "computable e \<Longrightarrow> \<bar>intValue e\<bar> < digitBound"
  by (induction e) (simp_all add: IntegerString_bounded(2))

lemma nesting_terms:
  "d + foldr max (map nesting ts) 0 \<le> k \<longleftrightarrow> d \<le> k \<and> (\<forall>t \<in> set ts. d + nesting t \<le> (k :: nat))"
  by (induction ts) auto

lemma computable_terms:
  "list_all computable ts \<Longrightarrow> \<forall>v \<in> set (map intValue ts). \<bar>v\<bar> < digitBound"
  by (auto simp: list_all_iff computable_bounded)

lemma evaluateInteger_iff:
  "evaluateInteger e d n = Inr (v, m) \<longleftrightarrow>
     computable e \<and> v = intValue e \<and> n = m + nodes e \<and> d + nesting e \<le> 25"
  "evaluateIntegers ts d n = Inr (vs, m) \<longleftrightarrow>
     list_all computable ts \<and> vs = map intValue ts \<and> n = m + sum_list (map nodes ts)
     \<and> (\<forall>t \<in> set ts. d + nesting t \<le> 25)"
proof (induction e d n and ts d n arbitrary: v m and vs m rule: evaluateInteger_evaluateIntegers.induct)
  case (1 s d n)
  then show ?case by (auto simp: bindE_eq_Inr consumeNode_Inr parseBounded_Inr)
next
  case (2 l r d n)
  then show ?case by (auto simp: bindE_eq_Inr consumeNode_Inr)
next
  case (3 l r d n)
  then show ?case by (auto simp: bindE_eq_Inr consumeNode_Inr)
next
  case (4 l r d n)
  then show ?case by (auto simp: bindE_eq_Inr consumeNode_Inr)
next
  case (5 e d n)
  then show ?case by (auto simp: bindE_eq_Inr consumeNode_Inr)
next
  case (6 b e d n)
  then show ?case by (auto simp: bindE_eq_Inr consumeNode_Inr integerPower_Inr computable_bounded)
next
  case (7 ts d n)
  from 7 show ?case
    by (auto simp: bindE_eq_Inr consumeNode_Inr assertTermCount_Inr nesting_terms
        sumIntegers_Inr computable_terms simp del: set_map)
next
  case (8 ts d n)
  from 8 show ?case
    by (auto simp: bindE_eq_Inr consumeNode_Inr assertTermCount_Inr nesting_terms
        productIntegers_Inr computable_terms simp del: set_map)
next
  case (9 d n)
  then show ?case by auto
next
  case (10 t ts d n)
  then show ?case by (auto simp: bindE_eq_Inr)
qed

text \<open>Property C38. An integer expression evaluates exactly when it is well formed (canonical literals of
  at most 256 digits, 1 to 128 terms, integral exponents from 0 to 1024, no zero to the power zero),
  has at most 512 nodes nested at most 24 deep, and every intermediate value has at most 4096 digits;
  the result is then the integer it denotes.\<close>

theorem integer_expressions_evaluate_exactly:
  "evaluateIntegerExpression e = Inr v \<longleftrightarrow>
     computable e \<and> nodes e \<le> 512 \<and> nesting e \<le> 24 \<and> v = intValue e"
proof
  assume "evaluateIntegerExpression e = Inr v"
  then obtain m where "evaluateInteger e 1 512 = Inr (v, m)"
    by (auto simp: evaluateIntegerExpression_def MAX_EXPRESSION_NODES_def bindE_eq_Inr)
  then show "computable e \<and> nodes e \<le> 512 \<and> nesting e \<le> 24 \<and> v = intValue e"
    by (auto simp: evaluateInteger_iff)
next
  assume "computable e \<and> nodes e \<le> 512 \<and> nesting e \<le> 24 \<and> v = intValue e"
  then have "evaluateInteger e 1 512 = Inr (v, 512 - nodes e)" by (simp add: evaluateInteger_iff)
  then show "evaluateIntegerExpression e = Inr v"
    by (simp add: evaluateIntegerExpression_def MAX_EXPRESSION_NODES_def)
qed

section \<open>Rational evaluation\<close>

text \<open>The rational number an expression denotes; \<open>None\<close> when it divides by zero.\<close>

fun ratExpr :: "RationalExpression \<Rightarrow> rat option" and ratExprs :: "RationalExpression list \<Rightarrow> rat list option"
  where
  "ratExpr (RATIONAL s) =
     (if stringToBigint (riDenominator s) = 0 then None
      else Some (of_int (stringToBigint (riNumerator s)) / of_int (stringToBigint (riDenominator s))))"
| "ratExpr (Q_ADD l r) =
     (case (ratExpr l, ratExpr r) of (Some a, Some b) \<Rightarrow> Some (a + b) | _ \<Rightarrow> None)"
| "ratExpr (Q_SUBTRACT l r) =
     (case (ratExpr l, ratExpr r) of (Some a, Some b) \<Rightarrow> Some (a - b) | _ \<Rightarrow> None)"
| "ratExpr (Q_MULTIPLY l r) =
     (case (ratExpr l, ratExpr r) of (Some a, Some b) \<Rightarrow> Some (a * b) | _ \<Rightarrow> None)"
| "ratExpr (Q_DIVIDE l r) =
     (case (ratExpr l, ratExpr r) of
        (Some a, Some b) \<Rightarrow> if b = 0 then None else Some (a / b) | _ \<Rightarrow> None)"
| "ratExpr (Q_NEGATE e) = map_option uminus (ratExpr e)"
| "ratExpr (Q_SUM ts) = map_option sum_list (ratExprs ts)"
| "ratExpr (Q_PRODUCT ts) = map_option prod_list (ratExprs ts)"
| "ratExprs [] = Some []"
| "ratExprs (t # ts) =
     (case (ratExpr t, ratExprs ts) of (Some q, Some qs) \<Rightarrow> Some (q # qs) | _ \<Rightarrow> None)"

lemma parseRationalInput_Inr:
  "parseRationalInput s = Inr r \<longleftrightarrow> IntegerStringSchema (riNumerator s)
     \<and> IntegerStringSchema (riDenominator s) \<and> stringToBigint (riDenominator s) \<noteq> 0
     \<and> r = ratPair (of_int (stringToBigint (riNumerator s)) / of_int (stringToBigint (riDenominator s)))"
  by (auto simp: parseRationalInput_def bindE_eq_Inr parseBounded_Inr rational_iff IntegerString_bounded(2))

lemma negateRational_Inr: "negateRational a = Inr v \<Longrightarrow> v = ratPair (- ratVal a)"
proof -
  assume "negateRational a = Inr v"
  then have v: "v = mkRational (- rNum (ratPair (ratVal a))) (rDen (ratPair (ratVal a)))"
    by (auto simp: negateRational_def normalizeRational_def bindE_eq_Inr rational_iff ratVal_def)
  have "reduced v" using reduced_ratPair [of "ratVal a"] by (simp add: v reduced_def)
  moreover have "ratVal v = - ratVal a" by (simp add: v ratVal_negated)
  ultimately show ?thesis by (metis ratPair_ratVal)
qed

lemma evaluateRational_sound:
  "evaluateRational e d n = Inr (r, m) \<Longrightarrow> \<exists>q. ratExpr e = Some q \<and> r = ratPair q"
  "evaluateRationals ts d n = Inr (rs, m) \<Longrightarrow> \<exists>qs. ratExprs ts = Some qs \<and> rs = map ratPair qs"
proof (induction e d n and ts d n arbitrary: r m and rs m rule: evaluateRational_evaluateRationals.induct)
  case (1 s d n)
  then show ?case by (auto simp: bindE_eq_Inr parseRationalInput_Inr)
next
  case (2 l r d n)
  then show ?case by (fastforce simp: bindE_eq_Inr addRationals_iff)
next
  case (3 l r d n)
  then show ?case by (fastforce simp: bindE_eq_Inr subtractRationals_iff)
next
  case (4 l r d n)
  then show ?case by (fastforce simp: bindE_eq_Inr multiplyRationals_iff)
next
  case (5 l r d n)
  then show ?case by (fastforce simp: bindE_eq_Inr divideRationals_iff)
next
  case (6 e d n)
  then show ?case by (fastforce simp: bindE_eq_Inr dest: negateRational_Inr)
next
  case (7 ts d n)
  then show ?case by (fastforce simp: bindE_eq_Inr o_def dest: sumRationals_exact)
next
  case (8 ts d n)
  then show ?case by (fastforce simp: bindE_eq_Inr o_def dest: productRationals_exact)
next
  case (9 d n)
  then show ?case by auto
next
  case (10 t ts d n)
  then show ?case by (fastforce simp: bindE_eq_Inr)
qed

lemma evaluateRationalExpression_sound:
  "evaluateRationalExpression e = Inr r \<Longrightarrow> \<exists>q. ratExpr e = Some q \<and> r = ratPair q"
  by (auto simp: evaluateRationalExpression_def bindE_eq_Inr dest: evaluateRational_sound)

end
