(* ===== verification/MathVerifiers.thy ===== *)
theory MathVerifiers
  imports StructuredStatements MathExpressionFacts
begin

text \<open>
  The deterministic verifiers of congruences and divisibility, of rational equalities and of counting
  formulas: \<^verbatim>\<open>packages/verification/src/modular-arithmetic-verifier.ts\<close>,
  \<^verbatim>\<open>rational-arithmetic-verifier.ts\<close> and
  \<^verbatim>\<open>combinatorial-counting-verifier.ts\<close>. The locale \<open>claim_verifier\<close> holds what every
  verifier that evaluates a claim under an exact decision has in common.
\<close>

section \<open>Modular arithmetic\<close>

definition MODULAR_ARITHMETIC_PROTOCOL :: string where
  "MODULAR_ARITHMETIC_PROTOCOL = ''INTERVIEW_APP_MODULAR_ARITHMETIC_CLAIM''"

definition MODULAR_ARITHMETIC_VERIFIER_NAME :: string where
  "MODULAR_ARITHMETIC_VERIFIER_NAME = ''deterministic-modular-arithmetic-verifier@1''"

datatype ModularArithmeticClaim =
    CONGRUENCE IntegerExpression IntegerExpression string
  | DIVISIBILITY string IntegerExpression

fun ModularArithmeticClaimSchema :: "ModularArithmeticClaim \<Rightarrow> bool" where
  "ModularArithmeticClaimSchema (CONGRUENCE l r m) =
     (IntegerExpressionSchema l \<and> IntegerExpressionSchema r \<and> PositiveIntegerStringSchema m)"
| "ModularArithmeticClaimSchema (DIVISIBILITY divisor dividend) =
     (IntegerStringSchema divisor \<and> IntegerExpressionSchema dividend)"

text \<open>Inside the \<^verbatim>\<open>try\<close> block.\<close>

fun modularVerdict :: "ModularArithmeticClaim \<Rightarrow> bool math" where
  "modularVerdict (CONGRUENCE l r m) =
     bindE (evaluateIntegerExpression l) (\<lambda>left.
       bindE (evaluateIntegerExpression r) (\<lambda>right.
         bindE (parseBoundedInteger m) (\<lambda>modulus. areCongruent left right modulus)))"
| "modularVerdict (DIVISIBILITY d e) =
     bindE (parseBoundedInteger d) (\<lambda>divisor.
       bindE (evaluateIntegerExpression e) (\<lambda>dividend. isDivisibleBy dividend divisor))"

definition modularDetail :: "ModularArithmeticClaim \<Rightarrow> bool \<Rightarrow> string" where
  "modularDetail claim satisfied =
     ''Exact integer evaluation '' @ (if satisfied then ''satisfies'' else ''does not satisfy'')
       @ (case claim of CONGRUENCE _ _ _ \<Rightarrow> '' the supplied congruence''
          | DIVISIBILITY _ _ \<Rightarrow> '' the supplied divisibility claim'')"

text \<open>The result of the \<^verbatim>\<open>try\<close> and \<^verbatim>\<open>catch\<close> of a verifier.\<close>

definition claimResult ::
  "(BoundedMathErrorCode \<Rightarrow> string) \<Rightarrow> string \<Rightarrow> (bool \<Rightarrow> string) \<Rightarrow> rat \<Rightarrow> (MathError, bool) result
     \<Rightarrow> VerificationResult" where
  "claimResult messageOf verifier detail confidence verdict =
     (case verdict of
        Inl e \<Rightarrow> mathFailure messageOf e confidence verifier
      | Inr b \<Rightarrow> booleanClaimResult b confidence verifier (detail True) (detail False))"

definition liftMath :: "'a math \<Rightarrow> (MathError, 'a) result" where
  "liftMath r = (case r of Inl c \<Rightarrow> Inl (BoundedMathError c) | Inr x \<Rightarrow> Inr x)"

definition verifyModular ::
  "(BoundedMathErrorCode \<Rightarrow> string) \<Rightarrow> (string \<Rightarrow> Json option) \<Rightarrow> (Json \<Rightarrow> ModularArithmeticClaim SafeParse)
     \<Rightarrow> string \<Rightarrow> rat option \<Rightarrow> VerificationResult" where
  "verifyModular messageOf jsonParse safeParse statement confidence =
     (case prepareStructuredStatement jsonParse (Some statement) confidence
             MODULAR_ARITHMETIC_VERIFIER_NAME safeParse of
        Inl r \<Rightarrow> r
      | Inr (claim, c) \<Rightarrow>
          claimResult messageOf MODULAR_ARITHMETIC_VERIFIER_NAME (modularDetail claim) c
            (liftMath (modularVerdict claim)))"

section \<open>Rational arithmetic\<close>

definition RATIONAL_ARITHMETIC_PROTOCOL :: string where
  "RATIONAL_ARITHMETIC_PROTOCOL = ''INTERVIEW_APP_RATIONAL_ARITHMETIC_CLAIM''"

definition RATIONAL_ARITHMETIC_VERIFIER_NAME :: string where
  "RATIONAL_ARITHMETIC_VERIFIER_NAME = ''deterministic-rational-arithmetic-verifier@1''"

datatype RationalArithmeticClaim = EQUALITY RationalExpression RationalExpression

fun RationalArithmeticClaimSchema :: "RationalArithmeticClaim \<Rightarrow> bool" where
  "RationalArithmeticClaimSchema (EQUALITY l r) = (RationalExpressionSchema l \<and> RationalExpressionSchema r)"

fun rationalVerdict :: "RationalArithmeticClaim \<Rightarrow> bool math" where
  "rationalVerdict (EQUALITY l r) =
     bindE (evaluateRationalExpression l) (\<lambda>left.
       bindE (evaluateRationalExpression r) (\<lambda>right. equalRationals left right))"

definition rationalDetail :: "bool \<Rightarrow> string" where
  "rationalDetail proved =
     ''Exact normalized rational evaluation '' @ (if proved then ''proves'' else ''disproves'')
       @ '' the supplied equality''"

definition verifyRational ::
  "(BoundedMathErrorCode \<Rightarrow> string) \<Rightarrow> (string \<Rightarrow> Json option) \<Rightarrow> (Json \<Rightarrow> RationalArithmeticClaim SafeParse)
     \<Rightarrow> string \<Rightarrow> rat option \<Rightarrow> VerificationResult" where
  "verifyRational messageOf jsonParse safeParse statement confidence =
     (case prepareStructuredStatement jsonParse (Some statement) confidence
             RATIONAL_ARITHMETIC_VERIFIER_NAME safeParse of
        Inl r \<Rightarrow> r
      | Inr (claim, c) \<Rightarrow>
          claimResult messageOf RATIONAL_ARITHMETIC_VERIFIER_NAME rationalDetail c
            (liftMath (rationalVerdict claim)))"

section \<open>Counting\<close>

definition COMBINATORIAL_COUNTING_PROTOCOL :: string where
  "COMBINATORIAL_COUNTING_PROTOCOL = ''INTERVIEW_APP_COMBINATORIAL_COUNTING_CLAIM''"

definition COMBINATORIAL_COUNTING_VERIFIER_NAME :: string where
  "COMBINATORIAL_COUNTING_VERIFIER_NAME = ''deterministic-combinatorial-counting-verifier@1''"

text \<open>Counts are the natural numbers the schema lets through.\<close>

datatype CombinatorialCountingClaim =
    BINOMIAL nat nat string
  | PERMUTATION nat nat string
  | COMBINATIONS_WITH_REPETITION nat nat string
  | INCLUSION_EXCLUSION_TWO nat nat nat string

definition BoundedCountSchema :: "nat \<Rightarrow> bool" where
  "BoundedCountSchema n = (n \<le> MAX_COMBINATORIAL_N)"

fun CombinatorialCountingClaimSchema :: "CombinatorialCountingClaim \<Rightarrow> bool" where
  "CombinatorialCountingClaimSchema (BINOMIAL n k claimed) =
     (BoundedCountSchema n \<and> BoundedCountSchema k \<and> IntermediateIntegerStringSchema claimed)"
| "CombinatorialCountingClaimSchema (PERMUTATION n k claimed) =
     (BoundedCountSchema n \<and> BoundedCountSchema k \<and> IntermediateIntegerStringSchema claimed)"
| "CombinatorialCountingClaimSchema (COMBINATIONS_WITH_REPETITION types selections claimed) =
     (BoundedCountSchema types \<and> BoundedCountSchema selections \<and> IntermediateIntegerStringSchema claimed)"
| "CombinatorialCountingClaimSchema (INCLUSION_EXCLUSION_TWO left right both claimed) =
     (BoundedCountSchema left \<and> BoundedCountSchema right \<and> BoundedCountSchema both
      \<and> IntermediateIntegerStringSchema claimed \<and> both \<le> left \<and> both \<le> right)"

fun expectedCount :: "CombinatorialCountingClaim \<Rightarrow> int math" where
  "expectedCount (BINOMIAL n k _) = binomialBounded (of_nat n) (of_nat k)"
| "expectedCount (PERMUTATION n k _) = permutations (of_nat n) (of_nat k)"
| "expectedCount (COMBINATIONS_WITH_REPETITION t s _) = combinationsWithRepetition (of_nat t) (of_nat s)"
| "expectedCount (INCLUSION_EXCLUSION_TWO l r i _) = Inr (int l + int r - int i)"

fun claimedCount :: "CombinatorialCountingClaim \<Rightarrow> int math" where
  "claimedCount (BINOMIAL _ _ c) = parseBoundedIntermediateInteger c"
| "claimedCount (PERMUTATION _ _ c) = parseBoundedIntermediateInteger c"
| "claimedCount (COMBINATIONS_WITH_REPETITION _ _ c) = parseBoundedIntermediateInteger c"
| "claimedCount (INCLUSION_EXCLUSION_TWO _ _ _ c) = parseBoundedIntermediateInteger c"

definition countingVerdict :: "CombinatorialCountingClaim \<Rightarrow> bool math" where
  "countingVerdict claim =
     bindE (expectedCount claim) (\<lambda>e. bindE (claimedCount claim) (\<lambda>c. Inr (e = c)))"

definition countingDetail :: "bool \<Rightarrow> string" where
  "countingDetail matched =
     (if matched then ''Exact finite counting formula matches the supplied claim''
      else ''Exact finite counting formula does not match the supplied claim'')"

definition verifyCounting ::
  "(BoundedMathErrorCode \<Rightarrow> string) \<Rightarrow> (string \<Rightarrow> Json option) \<Rightarrow> (Json \<Rightarrow> CombinatorialCountingClaim SafeParse)
     \<Rightarrow> string \<Rightarrow> rat option \<Rightarrow> VerificationResult" where
  "verifyCounting messageOf jsonParse safeParse statement confidence =
     (case prepareStructuredStatement jsonParse (Some statement) confidence
             COMBINATORIAL_COUNTING_VERIFIER_NAME safeParse of
        Inl r \<Rightarrow> r
      | Inr (claim, c) \<Rightarrow>
          claimResult messageOf COMBINATORIAL_COUNTING_VERIFIER_NAME countingDetail c
            (liftMath (countingVerdict claim)))"

section \<open>Exact verifiers\<close>

text \<open>The claim a statement encodes: confidence 1, within the size limits, parsed and accepted.\<close>

definition encodes ::
  "(string \<Rightarrow> Json option) \<Rightarrow> (Json \<Rightarrow> 'a SafeParse) \<Rightarrow> string \<Rightarrow> rat option \<Rightarrow> 'a \<Rightarrow> bool" where
  "encodes jsonParse safeParse statement confidence claim =
     (confidence = Some 1 \<and> length statement \<le> 100000
      \<and> (case jsonParse statement of
           None \<Rightarrow> False
         | Some v \<Rightarrow> structuredInputWithinBounds v \<and> safeParse v = Parsed claim))"

lemma verificationResult_status [simp]: "vrStatus (verificationResult s c v code d) = s"
  by (simp add: verificationResult_def)

lemma prepare_Inr:
  "prepareStructuredStatement jp (Some s) c name sp = Inr (d, k) \<longleftrightarrow> encodes jp sp s c d \<and> k = 1"
  by (auto simp: prepareStructuredStatement_def validateStructuredStatement_def encodes_def
      normalizeInterpretationConfidence_def MAX_MATH_STATEMENT_CHARACTERS_def Let_def
      split: option.splits SafeParse.splits if_splits)

lemma statementFailure_status: "vrStatus (statementValidationFailure code c v) = UNRESOLVED"
  by (cases code) simp_all

lemma prepare_Inl_status:
  "prepareStructuredStatement jp s c name sp = Inl r \<Longrightarrow> vrStatus r = UNRESOLVED"
  by (auto simp: prepareStructuredStatement_def Let_def statementFailure_status
      split: if_splits sum.splits)

lemma claimResult_status:
  "vrStatus (claimResult m v detail c verdict) =
     (case verdict of Inl _ \<Rightarrow> UNRESOLVED | Inr b \<Rightarrow> if b then VERIFIED else CONTRADICTED)"
  by (auto simp: claimResult_def mathFailure_def booleanClaimResult_def
      split: sum.splits MathError.splits)

lemma liftMath_Inr [simp]: "liftMath r = Inr x \<longleftrightarrow> r = Inr x"
  by (cases r) (simp_all add: liftMath_def)

text \<open>
  A verifier of claims: it prepares the statement and reports the verdict of an evaluation that, when
  it returns, decides whether the claim holds.
\<close>

locale claim_verifier =
  fixes verify :: "(string \<Rightarrow> Json option) \<Rightarrow> (Json \<Rightarrow> 'a SafeParse) \<Rightarrow> string \<Rightarrow> rat option
      \<Rightarrow> VerificationResult"
    and name :: string
    and verdict :: "'a \<Rightarrow> (MathError, bool) result"
    and decidable :: "'a \<Rightarrow> bool"
    and holds :: "'a \<Rightarrow> bool"
  assumes rejects: "prepareStructuredStatement jp (Some s) c name sp = Inl r \<Longrightarrow> verify jp sp s c = r"
    and reports: "prepareStructuredStatement jp (Some s) c name sp = Inr (d, k) \<Longrightarrow>
      vrStatus (verify jp sp s c) =
        (case verdict d of Inl _ \<Rightarrow> UNRESOLVED | Inr b \<Rightarrow> if b then VERIFIED else CONTRADICTED)"
    and exact: "verdict d = Inr b \<longleftrightarrow> decidable d \<and> b = holds d"
begin

lemma status:
  "vrStatus (verify jp sp s c) = (if b then VERIFIED else CONTRADICTED)
     \<longleftrightarrow> (\<exists>d. encodes jp sp s c d \<and> decidable d \<and> holds d = b)"
proof (cases "prepareStructuredStatement jp (Some s) c name sp")
  case (Inl r)
  then have "vrStatus (verify jp sp s c) = UNRESOLVED" using rejects prepare_Inl_status by simp
  moreover have "\<not> encodes jp sp s c d" for d using Inl prepare_Inr [of jp s c name sp d 1] by simp
  ultimately show ?thesis by simp
next
  case (Inr e)
  then obtain d k where p: "prepareStructuredStatement jp (Some s) c name sp = Inr (d, k)"
    by (cases e) auto
  then have only: "encodes jp sp s c e \<longleftrightarrow> e = d" for e
    using prepare_Inr [of jp s c name sp] by (metis Inr_inject prod.inject)
  show ?thesis
    using reports [OF p] exact [of d] by (cases "verdict d") (auto simp: only)
qed

lemma verified_iff:
  "vrStatus (verify jp sp s c) = VERIFIED \<longleftrightarrow> (\<exists>d. encodes jp sp s c d \<and> decidable d \<and> holds d)"
  using status [where b = True] by simp

lemma contradicted_iff:
  "vrStatus (verify jp sp s c) = CONTRADICTED \<longleftrightarrow> (\<exists>d. encodes jp sp s c d \<and> decidable d \<and> \<not> holds d)"
  using status [where b = False] by simp

end

section \<open>The verifiers decide their claims\<close>

definition evaluable :: "IntegerExpression \<Rightarrow> bool" where
  "evaluable e = (computable e \<and> nodes e \<le> 512 \<and> nesting e \<le> 24)"

lemma evaluateIntegerExpression_Inr:
  "evaluateIntegerExpression e = Inr v \<longleftrightarrow> evaluable e \<and> v = intValue e"
proof -
  have "evaluateInteger e 1 512 = Inr (w, 512 - nodes e) \<longleftrightarrow> evaluable e \<and> w = intValue e" for w
    by (auto simp: evaluateInteger_iff evaluable_def)
  moreover have "m = 512 - nodes e" if "evaluateInteger e 1 512 = Inr (w, m)" for w m
    using that by (auto simp: evaluateInteger_iff)
  ultimately show ?thesis
    unfolding evaluateIntegerExpression_def MAX_EXPRESSION_NODES_def bindE_eq_Inr by force
qed

lemma evaluable_bounded: "evaluable e \<Longrightarrow> \<bar>intValue e\<bar> < digitBound"
  by (simp add: evaluable_def computable_bounded)

fun modularDecidable :: "ModularArithmeticClaim \<Rightarrow> bool" where
  "modularDecidable (CONGRUENCE l r m) =
     (evaluable l \<and> evaluable r \<and> IntegerStringSchema m \<and> stringToBigint m > 0)"
| "modularDecidable (DIVISIBILITY d e) = (IntegerStringSchema d \<and> evaluable e)"

fun modularHolds :: "ModularArithmeticClaim \<Rightarrow> bool" where
  "modularHolds (CONGRUENCE l r m) = (stringToBigint m dvd (intValue l - intValue r))"
| "modularHolds (DIVISIBILITY d e) = (stringToBigint d dvd intValue e)"

lemma areCongruent_Inr:
  "areCongruent l r m = Inr b \<longleftrightarrow> \<bar>l\<bar> < digitBound \<and> \<bar>r\<bar> < digitBound \<and> \<bar>m\<bar> < digitBound \<and> 0 < m
     \<and> b = (m dvd (l - r))"
  by (auto simp: areCongruent_def bindE_eq_Inr normalizeModulo_mod mod_eq_dvd_iff)

lemma isDivisibleBy_Inr:
  "isDivisibleBy a d = Inr b \<longleftrightarrow> \<bar>a\<bar> < digitBound \<and> \<bar>d\<bar> < digitBound \<and> b = (d dvd a)"
  by (auto simp: isDivisibleBy_def bindE_eq_Inr smod_dvd)

lemma modularVerdict_exact:
  "modularVerdict claim = Inr b \<longleftrightarrow> modularDecidable claim \<and> b = modularHolds claim"
  by (cases claim)
     (auto simp: bindE_eq_Inr evaluateIntegerExpression_Inr parseBounded_Inr areCongruent_Inr
       isDivisibleBy_Inr evaluable_bounded IntegerString_bounded(2) abs_less_iff [THEN iffD1, THEN conjunct1, OF IntegerString_bounded(2)])

interpretation modular: claim_verifier "verifyModular messageOf" MODULAR_ARITHMETIC_VERIFIER_NAME
  "\<lambda>claim. liftMath (modularVerdict claim)" modularDecidable modularHolds
  by unfold_locales (simp_all add: verifyModular_def claimResult_status modularVerdict_exact)

fun countingDecidable :: "CombinatorialCountingClaim \<Rightarrow> bool" where
  "countingDecidable (BINOMIAL n k c) = (n \<le> 1000 \<and> k \<le> 1000 \<and> IntermediateIntegerStringSchema c)"
| "countingDecidable (PERMUTATION n k c) = (n \<le> 1000 \<and> k \<le> 1000 \<and> IntermediateIntegerStringSchema c)"
| "countingDecidable (COMBINATIONS_WITH_REPETITION t s c) =
     (t \<le> 1000 \<and> s \<le> 1000 \<and> IntermediateIntegerStringSchema c)"
| "countingDecidable (INCLUSION_EXCLUSION_TWO l r i c) = IntermediateIntegerStringSchema c"

fun countingHolds :: "CombinatorialCountingClaim \<Rightarrow> bool" where
  "countingHolds (BINOMIAL n k c) = (int (n choose k) = stringToBigint c)"
| "countingHolds (PERMUTATION n k c) =
     ((if k \<le> n then int (fact n div fact (n - k)) else 0) = stringToBigint c)"
| "countingHolds (COMBINATIONS_WITH_REPETITION t s c) = (int ((t + s - 1) choose s) = stringToBigint c)"
| "countingHolds (INCLUSION_EXCLUSION_TWO l r i c) = (int l + int r - int i = stringToBigint c)"

lemma assertCombinatorial_Inr:
  "assertCombinatorialInteger (of_nat n) = Inr m \<longleftrightarrow> n \<le> 1000 \<and> m = n"
proof (cases "n \<le> 1000")
  case False
  then have "(of_nat n :: rat) > of_nat 1000" by (simp only: of_nat_less_iff not_le)
  then show ?thesis using False by (auto simp: assertCombinatorialInteger_def MAX_COMBINATORIAL_N_def)
qed auto

text \<open>Too large an argument is refused, and the others are counted exactly.\<close>

lemma counting_Inr:
  "binomialBounded (of_nat n) (of_nat k) = Inr v \<longleftrightarrow> n \<le> 1000 \<and> k \<le> 1000 \<and> v = int (n choose k)"
  "permutations (of_nat n) (of_nat k) = Inr v \<longleftrightarrow>
     n \<le> 1000 \<and> k \<le> 1000 \<and> v = (if k \<le> n then int (fact n div fact (n - k)) else 0)"
  "combinationsWithRepetition (of_nat n) (of_nat k) = Inr v \<longleftrightarrow>
     n \<le> 1000 \<and> k \<le> 1000 \<and> v = int ((n + k - 1) choose k)"
proof -
  have refuse: "\<not> (n \<le> 1000 \<and> k \<le> 1000) \<Longrightarrow> f (of_nat n) (of_nat k) \<noteq> Inr v"
    if "\<And>a b. f a b = bindE (assertCombinatorialInteger a) (\<lambda>x. bindE (assertCombinatorialInteger b) (g x))"
    for f :: "rat \<Rightarrow> rat \<Rightarrow> int math" and g
    by (auto simp: that bindE_eq_Inr assertCombinatorial_Inr)
  note refused = refuse [OF binomialBounded_def] refuse [OF permutations_def]
    refuse [OF combinationsWithRepetition_def]
  show "binomialBounded (of_nat n) (of_nat k) = Inr v \<longleftrightarrow> n \<le> 1000 \<and> k \<le> 1000 \<and> v = int (n choose k)"
    using refused(1) binomial_nat [of n k] by (cases "n \<le> 1000 \<and> k \<le> 1000") auto
  show "permutations (of_nat n) (of_nat k) = Inr v \<longleftrightarrow>
      n \<le> 1000 \<and> k \<le> 1000 \<and> v = (if k \<le> n then int (fact n div fact (n - k)) else 0)"
    using refused(2) permutations_nat [of n k] by (cases "n \<le> 1000 \<and> k \<le> 1000") auto
  show "combinationsWithRepetition (of_nat n) (of_nat k) = Inr v \<longleftrightarrow>
      n \<le> 1000 \<and> k \<le> 1000 \<and> v = int ((n + k - 1) choose k)"
    using refused(3) repetition_nat [of n k] by (cases "n \<le> 1000 \<and> k \<le> 1000") auto
qed

lemma countingVerdict_exact:
  "countingVerdict claim = Inr b \<longleftrightarrow> countingDecidable claim \<and> b = countingHolds claim"
  by (cases claim)
     (auto simp: countingVerdict_def bindE_eq_Inr counting_Inr parseIntermediate_Inr simp del: of_nat_fact)

interpretation counting: claim_verifier "verifyCounting messageOf" COMBINATORIAL_COUNTING_VERIFIER_NAME
  "\<lambda>claim. liftMath (countingVerdict claim)" countingDecidable countingHolds
  by unfold_locales (simp_all add: verifyCounting_def claimResult_status countingVerdict_exact)

definition rationalDecidable :: "RationalArithmeticClaim \<Rightarrow> bool" where
  "rationalDecidable claim = isOk (rationalVerdict claim)"

fun rationalHolds :: "RationalArithmeticClaim \<Rightarrow> bool" where
  "rationalHolds (EQUALITY l r) = (ratExpr l = ratExpr r)"

lemma rationalVerdict_sound:
  "rationalVerdict claim = Inr b \<Longrightarrow> b = rationalHolds claim"
  by (cases claim) (auto simp: bindE_eq_Inr equalRationals_iff dest!: evaluateRationalExpression_sound)

interpretation rational_equality: claim_verifier "verifyRational messageOf" RATIONAL_ARITHMETIC_VERIFIER_NAME
  "\<lambda>claim. liftMath (rationalVerdict claim)" rationalDecidable rationalHolds
  by unfold_locales
     (auto simp: verifyRational_def claimResult_status rationalDecidable_def isOk_iff
       dest: rationalVerdict_sound)

text \<open>Property C34. The verifier of congruences and divisibility decides its claims. It answers VERIFIED
  exactly for a statement that encodes, with confidence 1 and within the input limits, a claim whose
  expressions evaluate within their limits (and whose modulus is positive) and that is true, and
  CONTRADICTED exactly when such a claim is false.\<close>

theorem modular_claims_are_decided:
  "(vrStatus (verifyModular messageOf jsonParse safeParse s c) = VERIFIED \<longleftrightarrow>
      (\<exists>claim. encodes jsonParse safeParse s c claim \<and> modularDecidable claim \<and> modularHolds claim))
   \<and> (vrStatus (verifyModular messageOf jsonParse safeParse s c) = CONTRADICTED \<longleftrightarrow>
      (\<exists>claim. encodes jsonParse safeParse s c claim \<and> modularDecidable claim \<and> \<not> modularHolds claim))"
  by (intro conjI modular.verified_iff modular.contradicted_iff)

text \<open>The counting verifier decides its claims: VERIFIED exactly for an encoded claim with
  counts up to 1000 whose claimed number is the binomial coefficient, the number of arrangements, of
  multisets, or of elements of the union; CONTRADICTED exactly when it is another number.\<close>

theorem counting_claims_are_decided:
  "(vrStatus (verifyCounting messageOf jsonParse safeParse s c) = VERIFIED \<longleftrightarrow>
      (\<exists>claim. encodes jsonParse safeParse s c claim \<and> countingDecidable claim \<and> countingHolds claim))
   \<and> (vrStatus (verifyCounting messageOf jsonParse safeParse s c) = CONTRADICTED \<longleftrightarrow>
      (\<exists>claim. encodes jsonParse safeParse s c claim \<and> countingDecidable claim \<and> \<not> countingHolds claim))"
  by (intro conjI counting.verified_iff counting.contradicted_iff)

text \<open>The verifier of rational equalities is exact: whenever the two sides evaluate within
  their limits, it answers VERIFIED for an encoded equality of equal rational numbers, and CONTRADICTED
  for an encoded equality of different ones.\<close>

theorem rational_equalities_are_decided:
  "(vrStatus (verifyRational messageOf jsonParse safeParse s c) = VERIFIED \<longleftrightarrow>
      (\<exists>claim. encodes jsonParse safeParse s c claim \<and> rationalDecidable claim \<and> rationalHolds claim))
   \<and> (vrStatus (verifyRational messageOf jsonParse safeParse s c) = CONTRADICTED \<longleftrightarrow>
      (\<exists>claim. encodes jsonParse safeParse s c claim \<and> rationalDecidable claim \<and> \<not> rationalHolds claim))"
  by (intro conjI rational_equality.verified_iff rational_equality.contradicted_iff)

end
