(* ===== verification/RecurrenceVerifier.thy ===== *)
theory RecurrenceVerifier
  imports MathVerifiers
begin

text \<open>
  The verifier of finite linear recurrences,
  \<^verbatim>\<open>packages/verification/src/finite-recurrence-verifier.ts\<close>: the terms are computed with
  unreduced wide fractions inside a step and reduced after it. What it reports is compared with the
  recursive definition of the terms (\<open>recTerm\<close>).
\<close>

section \<open>Claims\<close>

definition FINITE_RECURRENCE_PROTOCOL :: string where
  "FINITE_RECURRENCE_PROTOCOL = ''INTERVIEW_APP_FINITE_RECURRENCE_CLAIM''"

definition FINITE_RECURRENCE_VERIFIER_NAME :: string where
  "FINITE_RECURRENCE_VERIFIER_NAME = ''deterministic-finite-recurrence-verifier@1''"

datatype RecurrenceClaim =
    GENERATED_PREFIX "RationalInput list"
  | VALUE_AT_INDEX nat RationalInput

record FiniteRecurrenceInterpretation =
  frInitial :: "RationalInput list"
  frCoefficients :: "RationalInput list"
  frConstant :: RationalInput
  frClaim :: RecurrenceClaim

fun RecurrenceClaimSchema :: "RecurrenceClaim \<Rightarrow> bool" where
  "RecurrenceClaimSchema (GENERATED_PREFIX values) =
     (1 \<le> length values \<and> length values \<le> MAX_RECURRENCE_SEQUENCE_LENGTH
      \<and> list_all IntermediateRationalInputSchema values)"
| "RecurrenceClaimSchema (VALUE_AT_INDEX index v) =
     (index \<le> MAX_RECURRENCE_SEQUENCE_LENGTH - 1 \<and> IntermediateRationalInputSchema v)"

definition FiniteRecurrenceInterpretationSchema :: "FiniteRecurrenceInterpretation \<Rightarrow> bool" where
  "FiniteRecurrenceInterpretationSchema d =
     (1 \<le> length (frInitial d) \<and> length (frInitial d) \<le> MAX_RECURRENCE_ORDER
      \<and> list_all RationalInputSchema (frInitial d)
      \<and> 1 \<le> length (frCoefficients d) \<and> length (frCoefficients d) \<le> MAX_RECURRENCE_ORDER
      \<and> list_all RationalInputSchema (frCoefficients d) \<and> RationalInputSchema (frConstant d)
      \<and> RecurrenceClaimSchema (frClaim d) \<and> length (frInitial d) = length (frCoefficients d))"

section \<open>Evaluation\<close>

type_synonym 'a evaluated = "(MathError, 'a) result"

definition recurrenceWideWorkWithinBound :: "int \<Rightarrow> bool" where
  "recurrenceWideWorkWithinBound v =
     (length (bigintToString (magnitude v)) \<le> MAX_WIDE_RATIONAL_WORK_DECIMAL_DIGITS)"

text \<open>A wide value is a pair like a rational, not reduced.\<close>

definition assertRecurrenceWideWorkBound :: "ExactRational \<Rightarrow> ExactRational math" where
  "assertRecurrenceWideWorkBound v =
     (if \<not> recurrenceWideWorkWithinBound (rNum v) \<or> \<not> recurrenceWideWorkWithinBound (rDen v)
      then Inl INTERMEDIATE_LIMIT_EXCEEDED else Inr v)"

definition recurrenceWideGcd :: "int \<Rightarrow> int \<Rightarrow> int" where
  "recurrenceWideGcd left right = gcdLoop (magnitude left) (magnitude right)"

definition wideRecurrenceProduct :: "ExactRational \<Rightarrow> ExactRational \<Rightarrow> ExactRational math" where
  "wideRecurrenceProduct coefficient previous =
     (let leftCancellation = recurrenceWideGcd (rNum coefficient) (rDen previous);
          rightCancellation = recurrenceWideGcd (rNum previous) (rDen coefficient) in
      assertRecurrenceWideWorkBound (mkRational
        ((rNum coefficient sdiv leftCancellation) * (rNum previous sdiv rightCancellation))
        ((rDen coefficient sdiv rightCancellation) * (rDen previous sdiv leftCancellation))))"

definition addWideRecurrenceValues :: "ExactRational \<Rightarrow> ExactRational \<Rightarrow> ExactRational math" where
  "addWideRecurrenceValues left right =
     (let commonFactor = recurrenceWideGcd (rDen left) (rDen right);
          leftScale = rDen right sdiv commonFactor;
          rightScale = rDen left sdiv commonFactor in
      assertRecurrenceWideWorkBound (mkRational
        (rNum left * leftScale + rNum right * rightScale) (rDen left * leftScale)))"

text \<open>\<^verbatim>\<open>coefficients.forEach\<close>, from \<open>index\<close> on; a missing term is another error.\<close>

fun recurrenceLoop ::
  "ExactRational list \<Rightarrow> nat \<Rightarrow> ExactRational \<Rightarrow> ExactRational list \<Rightarrow> ExactRational evaluated" where
  "recurrenceLoop sequence index acc [] = Inr acc"
| "recurrenceLoop sequence index acc (coefficient # coefficients) =
     (if \<not> index < length sequence then Inl OtherError
      else bindE (liftMath (wideRecurrenceProduct coefficient (sequence ! (length sequence - index - 1))))
        (\<lambda>p. bindE (liftMath (addWideRecurrenceValues acc p))
          (\<lambda>acc'. recurrenceLoop sequence (index + 1) acc' coefficients)))"

definition recurrenceStep ::
  "ExactRational list \<Rightarrow> ExactRational list \<Rightarrow> ExactRational \<Rightarrow> ExactRational evaluated" where
  "recurrenceStep sequence coefficients constant =
     bindE (recurrenceLoop sequence 0 constant coefficients) (\<lambda>acc.
       let cancellation = recurrenceWideGcd (rNum acc) (rDen acc) in
       liftMath (bindE (assertIntermediateIntegerBound (rNum acc sdiv cancellation)) (\<lambda>n.
         bindE (assertIntermediateIntegerBound (rDen acc sdiv cancellation)) (\<lambda>d. rational n d))))"

function extendSequence ::
  "ExactRational list \<Rightarrow> ExactRational list \<Rightarrow> ExactRational \<Rightarrow> nat \<Rightarrow> ExactRational list evaluated" where
  "extendSequence sequence coefficients constant requiredLength =
     (if length sequence < requiredLength
      then bindE (recurrenceStep sequence coefficients constant) (\<lambda>v.
        extendSequence (sequence @ [v]) coefficients constant requiredLength)
      else Inr sequence)"
  by auto
termination
  by (relation "measure (\<lambda>(sequence, _, _, n). n - length sequence)") auto

declare extendSequence.simps [simp del]

text \<open>The loop over the claimed prefix, from \<open>index\<close> on.\<close>

fun prefixLoop ::
  "ExactRational list \<Rightarrow> ExactRational list \<Rightarrow> ExactRational \<Rightarrow> nat \<Rightarrow> ExactRational list
     \<Rightarrow> bool evaluated" where
  "prefixLoop sequence coefficients constant index [] = Inr True"
| "prefixLoop sequence coefficients constant index (expected # claimed) =
     bindE (extendSequence sequence coefficients constant (index + 1)) (\<lambda>sequence'.
       if \<not> index < length sequence' then Inr False
       else bindE (liftMath (equalRationals (sequence' ! index) expected)) (\<lambda>equal.
         if equal then prefixLoop sequence' coefficients constant (index + 1) claimed else Inr False))"

definition recurrenceVerdict :: "FiniteRecurrenceInterpretation \<Rightarrow> bool evaluated" where
  "recurrenceVerdict d =
     bindE (liftMath (mapE parseRationalInput (frInitial d))) (\<lambda>initial.
       bindE (liftMath (mapE parseRationalInput (frCoefficients d))) (\<lambda>coefficients.
         bindE (liftMath (parseRationalInput (frConstant d))) (\<lambda>constant.
           case frClaim d of
             VALUE_AT_INDEX index v \<Rightarrow>
               bindE (extendSequence initial coefficients constant (index + 1)) (\<lambda>sequence.
                 if \<not> index < length sequence then Inl OtherError
                 else bindE (liftMath (parseIntermediateRationalInput v)) (\<lambda>claimed.
                   liftMath (equalRationals (sequence ! index) claimed)))
           | GENERATED_PREFIX values \<Rightarrow>
               bindE (liftMath (mapE parseIntermediateRationalInput values)) (\<lambda>claimed.
                 prefixLoop initial coefficients constant 0 claimed))))"

definition recurrenceDetail :: "RecurrenceClaim \<Rightarrow> bool \<Rightarrow> string" where
  "recurrenceDetail claim matched =
     (case claim of
        VALUE_AT_INDEX _ _ \<Rightarrow>
          if matched then ''Finite recurrence evaluation matches the claimed indexed value''
          else ''Finite recurrence evaluation does not match the claimed indexed value''
      | GENERATED_PREFIX _ \<Rightarrow>
          if matched then ''Finite recurrence evaluation matches every supplied prefix value''
          else ''Finite recurrence evaluation disagrees with at least one supplied prefix value'')"

definition verifyRecurrence ::
  "(BoundedMathErrorCode \<Rightarrow> string) \<Rightarrow> (string \<Rightarrow> Json option)
     \<Rightarrow> (Json \<Rightarrow> FiniteRecurrenceInterpretation SafeParse) \<Rightarrow> string \<Rightarrow> rat option
     \<Rightarrow> VerificationResult" where
  "verifyRecurrence messageOf jsonParse safeParse statement confidence =
     (case prepareStructuredStatement jsonParse (Some statement) confidence
             FINITE_RECURRENCE_VERIFIER_NAME safeParse of
        Inl r \<Rightarrow> r
      | Inr (d, c) \<Rightarrow>
          claimResult messageOf FINITE_RECURRENCE_VERIFIER_NAME (recurrenceDetail (frClaim d)) c
            (recurrenceVerdict d))"

section \<open>The terms of a recurrence\<close>

function recTerm :: "rat list \<Rightarrow> rat list \<Rightarrow> rat \<Rightarrow> nat \<Rightarrow> rat" where
  "recTerm initial coefficients constant n =
     (if n < length initial then initial ! n
      else constant + sum_list (map (\<lambda>i. if i < n
        then coefficients ! i * recTerm initial coefficients constant (n - i - 1) else 0)
        [0 ..< length coefficients]))"
  by pat_completeness auto
termination
  by (relation "measure (\<lambda>(_, _, _, n). n)") auto

declare recTerm.simps [simp del]

section \<open>Exactness\<close>

lemma recurrenceWideGcd_gcd [simp]: "recurrenceWideGcd a b = gcd a b"
  using gcdUnchecked_gcd [of a b] unfolding gcdUnchecked_def by (simp add: recurrenceWideGcd_def)

lemma assertWide_Inr: "assertRecurrenceWideWorkBound v = Inr w \<Longrightarrow> w = v"
  by (simp add: assertRecurrenceWideWorkBound_def split: if_splits)

lemma wideProduct_exact:
  assumes "wideRecurrenceProduct c p = Inr r" and "rDen c > 0" and "rDen p > 0"
  shows "rDen r > 0 \<and> ratVal r = ratVal c * ratVal p"
proof -
  note cross = cross_cancelled [OF assms(2,3), where a = "rNum c" and c = "rNum p"]
  have "r = mkRational ((rNum c sdiv gcd (rNum c) (rDen p)) * (rNum p sdiv gcd (rNum p) (rDen c)))
      ((rDen c sdiv gcd (rNum p) (rDen c)) * (rDen p sdiv gcd (rNum c) (rDen p)))"
    using assms(1) by (auto simp: wideRecurrenceProduct_def Let_def dest: assertWide_Inr)
  with cross show ?thesis by (simp only: ratVal_mkRational mkRational_simps ratVal_def)
qed

lemma wideSum_exact:
  assumes "addWideRecurrenceValues a b = Inr r" and "rDen a > 0" and "rDen b > 0"
  shows "rDen r > 0 \<and> ratVal r = ratVal a + ratVal b"
proof -
  have "r = mkRational (rNum a * (rDen b sdiv gcd (rDen a) (rDen b))
      + rNum b * (rDen a sdiv gcd (rDen a) (rDen b))) (rDen a * (rDen b sdiv gcd (rDen a) (rDen b)))"
    using assms(1) by (auto simp: addWideRecurrenceValues_def Let_def dest: assertWide_Inr)
  with cross_scaled(1) [OF assms(2,3)] ratVal_add [OF assms(2,3)] show ?thesis by simp
qed

lemma recurrenceLoop_exact:
  assumes "recurrenceLoop sq index acc cs = Inr t" and "rDen acc > 0"
    and "\<forall>c \<in> set cs. rDen c > 0" and "\<forall>s \<in> set sq. rDen s > 0"
  shows "rDen t > 0 \<and> (cs \<noteq> [] \<longrightarrow> index + length cs \<le> length sq) \<and> ratVal t = ratVal acc
    + sum_list (map (\<lambda>i. ratVal (cs ! i) * ratVal (sq ! (length sq - (index + i) - 1))) [0 ..< length cs])"
  using assms
proof (induction sq index acc cs rule: recurrenceLoop.induct)
  case (2 sq index acc c cs)
  let ?p = "sq ! (length sq - index - 1)"
  obtain p acc' where i: "index < length sq" and p: "wideRecurrenceProduct c ?p = Inr p"
    and acc': "addWideRecurrenceValues acc p = Inr acc'"
    and rest: "recurrenceLoop sq (index + 1) acc' cs = Inr t"
    using "2.prems"(1) by (auto simp: bindE_eq_Inr split: if_splits)
  have "?p \<in> set sq" using i by simp
  then have prod: "rDen p > 0 \<and> ratVal p = ratVal c * ratVal ?p"
    using wideProduct_exact [OF p] "2.prems"(3,4) by simp
  then have sum: "rDen acc' > 0 \<and> ratVal acc' = ratVal acc + ratVal p"
    using wideSum_exact [OF acc'] "2.prems"(2) by simp
  have shift: "[0 ..< length (c # cs)] = 0 # map Suc [0 ..< length cs]"
    by (simp add: upt_conv_Cons map_Suc_upt del: upt_Suc)
  have "rDen t > 0 \<and> (cs \<noteq> [] \<longrightarrow> index + 1 + length cs \<le> length sq) \<and> ratVal t = ratVal acc'
    + sum_list (map (\<lambda>i. ratVal (cs ! i) * ratVal (sq ! (length sq - (index + 1 + i) - 1))) [0 ..< length cs])"
    using "2.IH" i p acc' rest sum "2.prems"(3,4) by simp
  then show ?case using i prod sum unfolding shift
    by (auto simp: o_def Suc_le_eq)
qed simp

lemma recurrenceStep_exact:
  assumes "recurrenceStep sq cs k = Inr r" and "rDen k > 0"
    and "\<forall>c \<in> set cs. rDen c > 0" and "\<forall>s \<in> set sq. rDen s > 0"
  shows "length cs \<le> length sq \<and> r = ratPair (ratVal k
    + sum_list (map (\<lambda>i. ratVal (cs ! i) * ratVal (sq ! (length sq - i - 1))) [0 ..< length cs]))"
proof -
  obtain t where t: "recurrenceLoop sq 0 k cs = Inr t"
    and r: "reduceTotal (rNum t) (rDen t) = Inr r"
    using assms(1) by (auto simp: recurrenceStep_def Let_def bindE_eq_Inr reduceTotal_def)
  note loop = recurrenceLoop_exact [OF t assms(2-4)]
  have "r = ratPair (ratVal t)" using reduceTotal_exact [OF _ r] loop by (simp add: ratVal_def)
  with loop show ?thesis by (cases "cs = []") auto
qed

text \<open>The terms computed so far are the terms of the recurrence.\<close>

definition prefixOf :: "rat list \<Rightarrow> rat list \<Rightarrow> rat \<Rightarrow> ExactRational list \<Rightarrow> bool" where
  "prefixOf initial coefficients constant sq =
     (length initial \<le> length sq
      \<and> (\<forall>i < length sq. sq ! i = ratPair (recTerm initial coefficients constant i)))"

lemma ratPair_positive: "rDen (ratPair q) > 0"
  using reduced_ratPair [of q] by (simp add: reduced_def)

lemma prefixOf_step:
  assumes "prefixOf I C k sq" and "recurrenceStep sq (map ratPair C) (ratPair k) = Inr r"
  shows "prefixOf I C k (sq @ [r])"
proof -
  have pos: "\<forall>s \<in> set sq. rDen s > 0"
    using assms(1) by (auto simp: prefixOf_def in_set_conv_nth ratPair_positive)
  let ?n = "length sq"
  let ?terms = "\<lambda>i. ratVal (map ratPair C ! i) * ratVal (sq ! (?n - i - 1))"
  have len: "length C \<le> ?n" and r: "r = ratPair (k + sum_list (map ?terms [0 ..< length C]))"
    using recurrenceStep_exact [OF assms(2) ratPair_positive _ pos] by (auto simp: ratPair_positive)
  have "?terms i = (if i < ?n then C ! i * recTerm I C k (?n - i - 1) else 0)" if "i \<in> set [0 ..< length C]" for i
    using that len assms(1) by (simp add: prefixOf_def)
  then have terms: "map ?terms [0 ..< length C]
      = map (\<lambda>i. if i < ?n then C ! i * recTerm I C k (?n - i - 1) else 0) [0 ..< length C]"
    by (intro map_cong) simp_all
  have "\<not> ?n < length I" using assms(1) by (simp add: prefixOf_def)
  then have "r = ratPair (recTerm I C k ?n)"
    unfolding r terms by (subst (2) recTerm.simps) (simp only: if_False)
  with assms(1) show ?thesis by (auto simp: prefixOf_def nth_append less_Suc_eq)
qed

lemma extendSequence_prefix:
  "extendSequence sq (map ratPair C) (ratPair k) n = Inr sq' \<Longrightarrow> prefixOf I C k sq \<Longrightarrow>
     prefixOf I C k sq' \<and> n \<le> length sq'"
proof (induction sq "map ratPair C" "ratPair k" n rule: extendSequence.induct)
  case (1 sq n)
  show ?case
  proof (cases "length sq < n")
    case True
    then obtain r where "recurrenceStep sq (map ratPair C) (ratPair k) = Inr r"
      "extendSequence (sq @ [r]) (map ratPair C) (ratPair k) n = Inr sq'"
      using "1.prems"(1) by (subst (asm) extendSequence.simps) (auto simp: bindE_eq_Inr)
    with "1.hyps" True prefixOf_step "1.prems"(2) show ?thesis by blast
  next
    case False
    then show ?thesis using "1.prems" by (subst (asm) extendSequence.simps) auto
  qed
qed

lemma prefixLoop_exact:
  "prefixLoop sq (map ratPair C) (ratPair k) index claimed = Inr b \<Longrightarrow> prefixOf I C k sq \<Longrightarrow>
     b = (\<forall>j < length claimed. recTerm I C k (index + j) = ratVal (claimed ! j))"
proof (induction claimed arbitrary: sq index)
  case (Cons e claimed)
  obtain sq' where sq': "extendSequence sq (map ratPair C) (ratPair k) (index + 1) = Inr sq'"
    using Cons.prems(1) by (auto simp: bindE_eq_Inr)
  have pre: "prefixOf I C k sq'" and len: "index < length sq'"
    using extendSequence_prefix [OF sq' Cons.prems(2)] by auto
  then have val: "ratVal (sq' ! index) = recTerm I C k index" by (simp add: prefixOf_def)
  have split: "(\<forall>j < length (e # claimed). P j) \<longleftrightarrow> P 0 \<and> (\<forall>j < length claimed. P (Suc j))" for P
    by (auto simp: less_Suc_eq_0_disj)
  show ?case
  proof (cases "recTerm I C k index = ratVal e")
    case True
    then have "prefixLoop sq' (map ratPair C) (ratPair k) (index + 1) claimed = Inr b"
      using Cons.prems(1) sq' len val by (auto simp: bindE_eq_Inr equalRationals_iff)
    from Cons.IH [OF this pre] True show ?thesis unfolding split by simp
  next
    case False
    then have "\<not> b" using Cons.prems(1) sq' len val by (auto simp: bindE_eq_Inr equalRationals_iff)
    with False show ?thesis unfolding split by simp
  qed
qed simp

section \<open>The verifier\<close>

definition inputValue :: "RationalInput \<Rightarrow> rat" where
  "inputValue s = of_int (stringToBigint (riNumerator s)) / of_int (stringToBigint (riDenominator s))"

fun recurrenceHolds :: "FiniteRecurrenceInterpretation \<Rightarrow> bool" where
  "recurrenceHolds d =
     (let t = recTerm (map inputValue (frInitial d)) (map inputValue (frCoefficients d))
                (inputValue (frConstant d)) in
      case frClaim d of
        VALUE_AT_INDEX index v \<Rightarrow> t index = inputValue v
      | GENERATED_PREFIX values \<Rightarrow> \<forall>j < length values. t j = inputValue (values ! j))"

definition recurrenceDecidable :: "FiniteRecurrenceInterpretation \<Rightarrow> bool" where
  "recurrenceDecidable d = isOk (recurrenceVerdict d)"

lemma parsed_input: "parseRationalInput s = Inr r \<Longrightarrow> r = ratPair (inputValue s)"
  by (simp add: parseRationalInput_Inr inputValue_def)

lemma parsed_inputs: "mapE parseRationalInput ss = Inr rs \<Longrightarrow> rs = map ratPair (map inputValue ss)"
  by (induction ss arbitrary: rs) (auto simp: bindE_eq_Inr dest: parsed_input)

lemma parsed_intermediate: "parseIntermediateRationalInput s = Inr r \<Longrightarrow> r = ratPair (inputValue s)"
  by (auto simp: parseIntermediateRationalInput_def bindE_eq_Inr parseIntermediate_Inr rational_iff
      inputValue_def)

lemma parsed_intermediates:
  "mapE parseIntermediateRationalInput ss = Inr rs \<Longrightarrow> rs = map ratPair (map inputValue ss)"
  by (induction ss arbitrary: rs) (auto simp: bindE_eq_Inr dest: parsed_intermediate)

lemma recurrenceVerdict_sound:
  assumes "recurrenceVerdict d = Inr b"
  shows "b = recurrenceHolds d"
proof -
  let ?I = "map inputValue (frInitial d)" and ?C = "map inputValue (frCoefficients d)"
    and ?k = "inputValue (frConstant d)"
  have start: "prefixOf ?I ?C ?k (map ratPair ?I)"
    by (simp add: prefixOf_def recTerm.simps)
  show ?thesis
  proof (cases "frClaim d")
    case (VALUE_AT_INDEX index v)
    then obtain sq where sq: "extendSequence (map ratPair ?I) (map ratPair ?C) (ratPair ?k) (index + 1) = Inr sq"
      and eq: "equalRationals (sq ! index) (ratPair (inputValue v)) = Inr b"
      using assms by (auto simp: recurrenceVerdict_def bindE_eq_Inr split: if_splits
          dest!: parsed_input parsed_inputs parsed_intermediate)
    from extendSequence_prefix [OF sq start] eq VALUE_AT_INDEX show ?thesis
      by (simp add: prefixOf_def equalRationals_iff Let_def)
  next
    case (GENERATED_PREFIX vs)
    then have "prefixLoop (map ratPair ?I) (map ratPair ?C) (ratPair ?k) 0
        (map ratPair (map inputValue vs)) = Inr b"
      using assms by (auto simp: recurrenceVerdict_def bindE_eq_Inr
          dest!: parsed_input parsed_inputs parsed_intermediates)
    from prefixLoop_exact [OF this start] GENERATED_PREFIX show ?thesis by (simp add: Let_def)
  qed
qed

interpretation recurrence: claim_verifier "verifyRecurrence messageOf" FINITE_RECURRENCE_VERIFIER_NAME
  recurrenceVerdict recurrenceDecidable recurrenceHolds
  by unfold_locales
     (auto simp: verifyRecurrence_def claimResult_status recurrenceDecidable_def isOk_iff
       dest: recurrenceVerdict_sound simp del: recurrenceHolds.simps)

text \<open>Property C36. The verifier of finite recurrences is exact: when it decides an encoded claim, it
  answers VERIFIED if the claimed value, or every value of the claimed prefix, is the term of the
  sequence that the initial values, coefficients and constant define recursively, and CONTRADICTED
  if it is not.\<close>

theorem recurrence_claims_are_decided:
  "(vrStatus (verifyRecurrence messageOf jsonParse safeParse s c) = VERIFIED \<longleftrightarrow>
      (\<exists>d. encodes jsonParse safeParse s c d \<and> recurrenceDecidable d \<and> recurrenceHolds d))
   \<and> (vrStatus (verifyRecurrence messageOf jsonParse safeParse s c) = CONTRADICTED \<longleftrightarrow>
      (\<exists>d. encodes jsonParse safeParse s c d \<and> recurrenceDecidable d \<and> \<not> recurrenceHolds d))"
  by (intro conjI recurrence.verified_iff recurrence.contradicted_iff)

end
