(* ===== verification/ProbabilityVerifier.thy ===== *)
theory ProbabilityVerifier
  imports RecurrenceVerifier
begin

text \<open>
  The verifier of finite expectations, conditional probabilities and Bayes' rule,
  \<^verbatim>\<open>packages/verification/src/probability-arithmetic-verifier.ts\<close>. A claim it decides is
  well posed: the masses of an expectation sum to 1, and the inputs of the others belong to a
  probability distribution.
\<close>

section \<open>Claims\<close>

definition PROBABILITY_ARITHMETIC_PROTOCOL :: string where
  "PROBABILITY_ARITHMETIC_PROTOCOL = ''INTERVIEW_APP_PROBABILITY_ARITHMETIC_CLAIM''"

definition PROBABILITY_ARITHMETIC_VERIFIER_NAME :: string where
  "PROBABILITY_ARITHMETIC_VERIFIER_NAME = ''deterministic-probability-arithmetic-verifier@1''"

record Outcome =
  oProbability :: RationalInput
  oValue :: RationalInput

datatype ProbabilityArithmeticClaim =
    FINITE_EXPECTATION "Outcome list" RationalInput
  | CONDITIONAL_FROM_COUNTS nat nat RationalInput
  | CONDITIONAL_FROM_PROBABILITIES RationalInput RationalInput RationalInput
  | BAYES RationalInput RationalInput RationalInput RationalInput

text \<open>\<^verbatim>\<open>catch\<close> turns whatever is thrown into \<^verbatim>\<open>false\<close>.\<close>

definition orFalse :: "bool math \<Rightarrow> bool" where
  "orFalse r = (case r of Inl _ \<Rightarrow> False | Inr b \<Rightarrow> b)"

definition isProbabilityInput :: "RationalInput \<Rightarrow> bool" where
  "isProbabilityInput v = orFalse
     (bindE (parseRationalInput v) (\<lambda>parsed.
       bindE (rational 0 1) (\<lambda>zero. bindE (compareRationals parsed zero) (\<lambda>low.
         if \<not> low \<ge> 0 then Inr False
         else bindE (rational 1 1) (\<lambda>one. bindE (compareRationals parsed one) (\<lambda>high. Inr (high \<le> 0)))))))"

definition isPositiveProbabilityInput :: "RationalInput \<Rightarrow> bool" where
  "isPositiveProbabilityInput v =
     (isProbabilityInput v \<and> orFalse (bindE (parseRationalInput v) (\<lambda>r. Inr (rNum r > 0))))"

definition ProbabilityInputSchema :: "RationalInput \<Rightarrow> bool" where
  "ProbabilityInputSchema v = (RationalInputSchema v \<and> isProbabilityInput v)"

definition PositiveProbabilityInputSchema :: "RationalInput \<Rightarrow> bool" where
  "PositiveProbabilityInputSchema v = (RationalInputSchema v \<and> isPositiveProbabilityInput v)"

fun ProbabilityArithmeticClaimSchema :: "ProbabilityArithmeticClaim \<Rightarrow> bool" where
  "ProbabilityArithmeticClaimSchema (FINITE_EXPECTATION outcomes claimed) =
     (1 \<le> length outcomes \<and> length outcomes \<le> MAX_PROBABILITY_OUTCOMES
      \<and> list_all (\<lambda>x. ProbabilityInputSchema (oProbability x) \<and> RationalInputSchema (oValue x)) outcomes
      \<and> IntermediateRationalInputSchema claimed)"
| "ProbabilityArithmeticClaimSchema (CONDITIONAL_FROM_COUNTS joint condition claimed) =
     (joint \<le> MAX_COMBINATORIAL_N \<and> 1 \<le> condition \<and> condition \<le> MAX_COMBINATORIAL_N
      \<and> IntermediateRationalInputSchema claimed \<and> joint \<le> condition)"
| "ProbabilityArithmeticClaimSchema (CONDITIONAL_FROM_PROBABILITIES joint condition claimed) =
     (ProbabilityInputSchema joint \<and> PositiveProbabilityInputSchema condition
      \<and> IntermediateRationalInputSchema claimed)"
| "ProbabilityArithmeticClaimSchema (BAYES prior likelihood evidence claimed) =
     (ProbabilityInputSchema prior \<and> ProbabilityInputSchema likelihood
      \<and> PositiveProbabilityInputSchema evidence \<and> IntermediateRationalInputSchema claimed)"

section \<open>Evaluation\<close>

definition assertProbability :: "ExactRational \<Rightarrow> ExactRational math" where
  "assertProbability v =
     bindE (rational 0 1) (\<lambda>zero. bindE (rational 1 1) (\<lambda>one.
       bindE (compareRationals v zero) (\<lambda>low.
         if low < 0 then Inl INVALID_PROBABILITY
         else bindE (compareRationals v one) (\<lambda>high.
           if high > 0 then Inl INVALID_PROBABILITY else Inr v))))"

definition compareDenominatorKeys :: "string \<Rightarrow> string \<Rightarrow> int" where
  "compareDenominatorKeys left right =
     (if length left \<noteq> length right then int (length left) - int (length right)
      else if stringLess left right then - 1 else if stringLess right left then 1 else 0)"

text \<open>The loop that fills the groups is that of \<open>groupByDenominator\<close>.\<close>

definition groupRationalsByDenominator :: "ExactRational list \<Rightarrow> ExactRational list math" where
  "groupRationalsByDenominator values =
     bindE (mapE (\<lambda>(_, v). rational (rNum v) (rDen v))
         (sortBy (\<lambda>a b. compareDenominatorKeys (fst a) (fst b)) (groupByDenominator values)))
       (\<lambda>vs. Inr (filter (\<lambda>v. rNum v \<noteq> 0) vs))"

definition probabilityNormalizationGcd :: "int \<Rightarrow> int \<Rightarrow> int" where
  "probabilityNormalizationGcd left right = gcdLoop (magnitude left) (magnitude right)"

definition probabilityWideWorkWithinBound :: "int \<Rightarrow> bool" where
  "probabilityWideWorkWithinBound v =
     (length (bigintToString (magnitude v)) \<le> MAX_WIDE_RATIONAL_WORK_DECIMAL_DIGITS)"

definition addToWideAccumulator :: "ExactRational \<Rightarrow> ExactRational \<Rightarrow> ExactRational math" where
  "addToWideAccumulator acc v =
     (let commonFactor = probabilityNormalizationGcd (rDen acc) (rDen v);
          leftScale = rDen v sdiv commonFactor;
          rightScale = rDen acc sdiv commonFactor;
          n = rNum acc * leftScale + rNum v * rightScale;
          d = rDen acc * leftScale in
      if \<not> probabilityWideWorkWithinBound n \<or> \<not> probabilityWideWorkWithinBound d
      then Inl INTERMEDIATE_LIMIT_EXCEEDED else Inr (mkRational n d))"

definition reduceWideAccumulator :: "ExactRational \<Rightarrow> ExactRational math" where
  "reduceWideAccumulator acc =
     (let cancellation = probabilityNormalizationGcd (rNum acc) (rDen acc) in
      bindE (assertIntermediateIntegerBound (rNum acc sdiv cancellation)) (\<lambda>n.
        bindE (assertIntermediateIntegerBound (rDen acc sdiv cancellation)) (\<lambda>d. rational n d)))"

text \<open>One turn of the loop over the grouped masses.\<close>

definition addMass :: "ExactRational \<Rightarrow> ExactRational \<Rightarrow> ExactRational math" where
  "addMass acc v =
     bindE (addToWideAccumulator acc v) (\<lambda>acc'.
       if rNum acc' > rDen acc' then Inl INVALID_PROBABILITY else Inr acc')"

definition assertProbabilityMassIsOne :: "ExactRational list \<Rightarrow> unit math" where
  "assertProbabilityMassIsOne values =
     bindE (groupRationalsByDenominator values) (\<lambda>grouped.
       bindE (foldE addMass (mkRational 0 1) grouped) (\<lambda>acc.
         if rNum acc \<noteq> rDen acc then Inl INVALID_PROBABILITY else Inr ()))"

fun evaluateProbabilityClaim :: "ProbabilityArithmeticClaim \<Rightarrow> (ExactRational \<times> ExactRational) math" where
  "evaluateProbabilityClaim (FINITE_EXPECTATION outcomes claimedExpectation) =
     bindE (mapE (\<lambda>x. bindE (parseRationalInput (oProbability x)) (\<lambda>p.
         bindE (assertProbability p) (\<lambda>p. Inr (p, oValue x)))) outcomes) (\<lambda>parsed.
       bindE (assertProbabilityMassIsOne (map fst parsed)) (\<lambda>_.
         bindE (mapE (\<lambda>(p, x). bindE (parseRationalInput x) (multiplyRationals p)) parsed) (\<lambda>terms.
           bindE (groupRationalsByDenominator terms) (\<lambda>grouped.
             bindE (foldE addToWideAccumulator (mkRational 0 1) grouped) (\<lambda>acc.
               bindE (reduceWideAccumulator acc) (\<lambda>expectation.
                 bindE (parseIntermediateRationalInput claimedExpectation) (\<lambda>claimed.
                   Inr (expectation, claimed))))))))"
| "evaluateProbabilityClaim (CONDITIONAL_FROM_COUNTS joint condition claimedProbability) =
     bindE (rational (int joint) (int condition)) (\<lambda>actual.
       bindE (parseIntermediateRationalInput claimedProbability) (\<lambda>claimed. Inr (actual, claimed)))"
| "evaluateProbabilityClaim (CONDITIONAL_FROM_PROBABILITIES jointProbability conditionProbability
       claimedProbability) =
     bindE (bindE (parseRationalInput jointProbability) assertProbability) (\<lambda>joint.
       bindE (bindE (parseRationalInput conditionProbability) assertProbability) (\<lambda>condition.
         if rNum condition = 0 then Inl INVALID_PROBABILITY
         else bindE (compareRationals joint condition) (\<lambda>c.
           if c > 0 then Inl INVALID_PROBABILITY
           else bindE (divideRationals joint condition) (\<lambda>actual.
             bindE (parseIntermediateRationalInput claimedProbability) (\<lambda>claimed.
               Inr (actual, claimed))))))"
| "evaluateProbabilityClaim (BAYES priorInput likelihoodInput evidenceInput claimedPosterior) =
     bindE (bindE (parseRationalInput priorInput) assertProbability) (\<lambda>prior.
       bindE (bindE (parseRationalInput likelihoodInput) assertProbability) (\<lambda>likelihood.
         bindE (bindE (parseRationalInput evidenceInput) assertProbability) (\<lambda>evidence.
           if rNum evidence = 0 then Inl INVALID_PROBABILITY
           else bindE (multiplyRationals prior likelihood) (\<lambda>joint.
             bindE (rational 1 1) (\<lambda>one. bindE (subtractRationals one prior) (\<lambda>complement.
               bindE (addRationals joint complement) (\<lambda>maximumEvidence.
                 bindE (compareRationals evidence joint) (\<lambda>low.
                   if low < 0 then Inl INVALID_PROBABILITY
                   else bindE (compareRationals evidence maximumEvidence) (\<lambda>high.
                     if high > 0 then Inl INVALID_PROBABILITY
                     else bindE (divideRationals joint evidence) (\<lambda>posterior.
                       bindE (assertProbability posterior) (\<lambda>_.
                         bindE (parseIntermediateRationalInput claimedPosterior) (\<lambda>claimed.
                           Inr (posterior, claimed)))))))))))))"

definition probabilityVerdict :: "ProbabilityArithmeticClaim \<Rightarrow> bool math" where
  "probabilityVerdict claim =
     bindE (evaluateProbabilityClaim claim) (\<lambda>(actual, claimed). equalRationals actual claimed)"

definition probabilityDetail :: "bool \<Rightarrow> string" where
  "probabilityDetail matched =
     (if matched then ''Exact rational probability arithmetic matches the supplied claim''
      else ''Exact rational probability arithmetic does not match the supplied claim'')"

definition verifyProbability ::
  "(BoundedMathErrorCode \<Rightarrow> string) \<Rightarrow> (string \<Rightarrow> Json option)
     \<Rightarrow> (Json \<Rightarrow> ProbabilityArithmeticClaim SafeParse) \<Rightarrow> string \<Rightarrow> rat option \<Rightarrow> VerificationResult" where
  "verifyProbability messageOf jsonParse safeParse statement confidence =
     (case prepareStructuredStatement jsonParse (Some statement) confidence
             PROBABILITY_ARITHMETIC_VERIFIER_NAME safeParse of
        Inl r \<Rightarrow> r
      | Inr (claim, c) \<Rightarrow>
          claimResult messageOf PROBABILITY_ARITHMETIC_VERIFIER_NAME probabilityDetail c
            (liftMath (probabilityVerdict claim)))"

section \<open>Meaning of the claims\<close>

fun wellPosed :: "ProbabilityArithmeticClaim \<Rightarrow> bool" where
  "wellPosed (FINITE_EXPECTATION outcomes _) =
     ((\<forall>x \<in> set outcomes. 0 \<le> inputValue (oProbability x) \<and> inputValue (oProbability x) \<le> 1)
      \<and> sum_list (map (inputValue \<circ> oProbability) outcomes) = 1)"
| "wellPosed (CONDITIONAL_FROM_COUNTS joint condition _) = (condition \<noteq> 0)"
| "wellPosed (CONDITIONAL_FROM_PROBABILITIES joint condition _) =
     (0 \<le> inputValue joint \<and> inputValue joint \<le> inputValue condition
      \<and> 0 < inputValue condition \<and> inputValue condition \<le> 1)"
| "wellPosed (BAYES prior likelihood evidence _) =
     (0 \<le> inputValue prior \<and> inputValue prior \<le> 1 \<and> 0 \<le> inputValue likelihood
      \<and> inputValue likelihood \<le> 1 \<and> 0 < inputValue evidence
      \<and> (\<exists>other. 0 \<le> other \<and> other \<le> 1 \<and> inputValue evidence
          = inputValue prior * inputValue likelihood + (1 - inputValue prior) * other))"

fun probabilityHolds :: "ProbabilityArithmeticClaim \<Rightarrow> bool" where
  "probabilityHolds (FINITE_EXPECTATION outcomes claimed) =
     (sum_list (map (\<lambda>x. inputValue (oProbability x) * inputValue (oValue x)) outcomes) = inputValue claimed)"
| "probabilityHolds (CONDITIONAL_FROM_COUNTS joint condition claimed) =
     (of_nat joint / of_nat condition = inputValue claimed)"
| "probabilityHolds (CONDITIONAL_FROM_PROBABILITIES joint condition claimed) =
     (inputValue joint / inputValue condition = inputValue claimed)"
| "probabilityHolds (BAYES prior likelihood evidence claimed) =
     (inputValue prior * inputValue likelihood / inputValue evidence = inputValue claimed)"

section \<open>Exactness\<close>

lemma one_bounded [simp]: "1 < digitBound"
  using small_bounded [of 1] by simp

lemma ratPair_one: "ratPair 1 = mkRational 1 1"
  by (simp add: ratPair_def)

lemma rational_units [simp]: "rational 0 1 = Inr (mkRational 0 1)" "rational 1 1 = Inr (mkRational 1 1)"
  using digitBound_pos by (simp_all add: rational_iff ratPair_one)

lemma assertProbability_Inr: "assertProbability v = Inr w \<Longrightarrow> w = v \<and> 0 \<le> ratVal v \<and> ratVal v \<le> 1"
  by (auto simp: assertProbability_def bindE_eq_Inr compareRationals_iff ratVal_mkRational
      split: if_splits)

lemma parsed_probability:
  "bindE (parseRationalInput s) assertProbability = Inr p \<Longrightarrow>
     p = ratPair (inputValue s) \<and> 0 \<le> inputValue s \<and> inputValue s \<le> 1"
  by (auto simp: bindE_eq_Inr dest!: assertProbability_Inr parsed_input)

lemma probabilityNormalizationGcd_gcd [simp]: "probabilityNormalizationGcd a b = gcd a b"
  using gcdUnchecked_gcd [of a b] unfolding gcdUnchecked_def by (simp add: probabilityNormalizationGcd_def)

lemma addToWide_exact:
  assumes "addToWideAccumulator acc v = Inr r" and "rDen acc > 0" and "rDen v > 0"
  shows "rDen r > 0 \<and> ratVal r = ratVal acc + ratVal v"
proof -
  have "r = mkRational (rNum acc * (rDen v sdiv gcd (rDen acc) (rDen v))
      + rNum v * (rDen acc sdiv gcd (rDen acc) (rDen v))) (rDen acc * (rDen v sdiv gcd (rDen acc) (rDen v)))"
    using assms(1) by (auto simp: addToWideAccumulator_def Let_def split: if_splits)
  with cross_scaled(1) [OF assms(2,3)] ratVal_add [OF assms(2,3)] show ?thesis by simp
qed

text \<open>A loop whose every turn is such an addition computes the sum.\<close>

lemma wide_loop_exact:
  assumes step: "\<And>acc v r. f acc v = Inr r \<Longrightarrow> addToWideAccumulator acc v = Inr r"
  shows "foldE f acc vs = Inr r \<Longrightarrow> rDen acc > 0 \<Longrightarrow> \<forall>v \<in> set vs. rDen v > 0 \<Longrightarrow>
    rDen r > 0 \<and> ratVal r = ratVal acc + sum_list (map ratVal vs)"
proof (induction vs arbitrary: acc)
  case (Cons v vs)
  then obtain acc' where f: "f acc v = Inr acc'" and rest: "foldE f acc' vs = Inr r"
    by (auto simp: bindE_eq_Inr)
  have "rDen acc' > 0 \<and> ratVal acc' = ratVal acc + ratVal v"
    using addToWide_exact [OF step [OF f]] Cons.prems by simp
  with Cons.IH [OF rest] Cons.prems(3) show ?case by simp
qed simp

lemma mapE_rational:
  "mapE (\<lambda>(_, v). rational (rNum v) (rDen v)) es = Inr rs \<Longrightarrow>
     map ratVal rs = map (ratVal \<circ> snd) es \<and> (\<forall>r \<in> set rs. rDen r > 0)"
  by (induction es arbitrary: rs)
     (auto simp: bindE_eq_Inr rational_iff ratVal_def [symmetric] ratPair_positive)

lemma groupRationals_sum:
  assumes "groupRationalsByDenominator vs = Inr gs" and "\<forall>v \<in> set vs. rDen v > 0"
  shows "sum_list (map ratVal gs) = sum_list (map ratVal vs) \<and> (\<forall>v \<in> set gs. rDen v > 0)"
proof -
  let ?s = "sortBy (\<lambda>a b. compareDenominatorKeys (fst a) (fst b)) (groupByDenominator vs)"
  obtain rs where rs: "mapE (\<lambda>(_, v). rational (rNum v) (rDen v)) ?s = Inr rs"
    and gs: "gs = filter (\<lambda>v. rNum v \<noteq> 0) rs"
    using assms(1) by (auto simp: groupRationalsByDenominator_def bindE_eq_Inr)
  have "sum_list (map ratVal rs) = sum_list (map (ratVal \<circ> snd) ?s)"
    using mapE_rational [OF rs] by simp
  also have "\<dots> = sum_list (map (ratVal \<circ> snd) (groupByDenominator vs))"
    by (rule sum_same_mset [OF mset_sortBy])
  also have "\<dots> = sum_list (map ratVal vs)"
    using groupByDenominator_sum [OF assms(2)] by (simp add: dvals_def)
  finally show ?thesis using mapE_rational [OF rs] gs sum_nonzero_terms [of rs] by auto
qed

lemma massIsOne:
  assumes "assertProbabilityMassIsOne vs = Inr u" and "\<forall>v \<in> set vs. rDen v > 0"
  shows "sum_list (map ratVal vs) = 1"
proof -
  obtain gs acc where gs: "groupRationalsByDenominator vs = Inr gs"
    and acc: "foldE addMass (mkRational 0 1) gs = Inr acc" and one: "rNum acc = rDen acc"
    using assms(1) by (auto simp: assertProbabilityMassIsOne_def bindE_eq_Inr split: if_splits)
  have step: "addMass a v = Inr r \<Longrightarrow> addToWideAccumulator a v = Inr r" for a v r
    by (auto simp: addMass_def bindE_eq_Inr split: if_splits)
  have "rDen acc > 0 \<and> ratVal acc = sum_list (map ratVal gs)"
    using wide_loop_exact [OF step acc] groupRationals_sum [OF gs assms(2)]
    by (simp add: ratVal_mkRational)
  moreover from this have "ratVal acc = 1" using one by (simp add: ratVal_def)
  ultimately show ?thesis using groupRationals_sum [OF gs assms(2)] by simp
qed

lemma parsed_outcomes:
  "mapE (\<lambda>x. bindE (parseRationalInput (oProbability x)) (\<lambda>p.
       bindE (assertProbability p) (\<lambda>p. Inr (p, oValue x)))) outcomes = Inr parsed \<Longrightarrow>
     parsed = map (\<lambda>x. (ratPair (inputValue (oProbability x)), oValue x)) outcomes
     \<and> (\<forall>x \<in> set outcomes. 0 \<le> inputValue (oProbability x) \<and> inputValue (oProbability x) \<le> 1)"
  by (induction outcomes arbitrary: parsed)
     (auto simp: bindE_eq_Inr dest!: assertProbability_Inr parsed_input)

lemma expectation_terms:
  "mapE (\<lambda>(p, x). bindE (parseRationalInput x) (multiplyRationals p))
       (map (\<lambda>x. (ratPair (inputValue (oProbability x)), oValue x)) outcomes) = Inr ts \<Longrightarrow>
     ts = map (\<lambda>x. ratPair (inputValue (oProbability x) * inputValue (oValue x))) outcomes"
  by (induction outcomes arbitrary: ts)
     (auto simp: bindE_eq_Inr multiplyRationals_iff dest!: parsed_input)

lemma reduceWide_exact:
  "reduceWideAccumulator acc = Inr r \<Longrightarrow> rDen acc > 0 \<Longrightarrow> r = ratPair (ratVal acc)"
  using reduceTotal_exact [of "rDen acc" "rNum acc" r]
  by (simp add: reduceWideAccumulator_def reduceTotal_def ratVal_def)

lemma expectation_sound:
  assumes "evaluateProbabilityClaim (FINITE_EXPECTATION outcomes claimed) = Inr (a, b)"
  shows "wellPosed (FINITE_EXPECTATION outcomes claimed) \<and> b = ratPair (inputValue claimed)
    \<and> a = ratPair (sum_list (map (\<lambda>x. inputValue (oProbability x) * inputValue (oValue x)) outcomes))"
proof -
  let ?parsed = "map (\<lambda>x. (ratPair (inputValue (oProbability x)), oValue x)) outcomes"
  let ?terms = "map (\<lambda>x. ratPair (inputValue (oProbability x) * inputValue (oValue x))) outcomes"
  obtain parsed u ts gs acc where p: "mapE (\<lambda>x. bindE (parseRationalInput (oProbability x)) (\<lambda>p.
       bindE (assertProbability p) (\<lambda>p. Inr (p, oValue x)))) outcomes = Inr parsed"
    and m: "assertProbabilityMassIsOne (map fst parsed) = Inr u"
    and ts: "mapE (\<lambda>(p, x). bindE (parseRationalInput x) (multiplyRationals p)) parsed = Inr ts"
    and gs: "groupRationalsByDenominator ts = Inr gs"
    and acc: "foldE addToWideAccumulator (mkRational 0 1) gs = Inr acc"
    and a: "reduceWideAccumulator acc = Inr a" and b: "parseIntermediateRationalInput claimed = Inr b"
    using assms by (auto simp: bindE_eq_Inr)
  note P = parsed_outcomes [OF p]
  then have parsed: "parsed = ?parsed" by simp
  have T: "ts = ?terms" using ts expectation_terms unfolding parsed by blast
  have pos: "\<forall>v \<in> set ?terms. rDen v > 0" "\<forall>v \<in> set (map fst ?parsed). rDen v > 0"
    by (auto simp: ratPair_positive)
  have mass: "sum_list (map (inputValue \<circ> oProbability) outcomes) = 1"
    using massIsOne [OF m] pos(2) unfolding parsed by (simp add: o_def)
  have "rDen acc > 0 \<and> ratVal acc = sum_list (map ratVal ?terms)"
    using wide_loop_exact [of addToWideAccumulator, OF _ acc] groupRationals_sum [OF gs] pos(1)
    unfolding T by (simp add: ratVal_mkRational)
  then have "a = ratPair (sum_list (map (\<lambda>x. inputValue (oProbability x) * inputValue (oValue x)) outcomes))"
    using reduceWide_exact [OF a] by (simp add: o_def)
  with P mass parsed_intermediate [OF b] show ?thesis by simp
qed

lemma bayes_consistent:
  assumes "p * l \<le> e" and "e \<le> p * l + (1 - p)" and "p \<le> (1 :: rat)"
  shows "\<exists>other. 0 \<le> other \<and> other \<le> 1 \<and> e = p * l + (1 - p) * other"
proof (cases "p = 1")
  case True
  with assms show ?thesis by (intro exI [of _ 0]) auto
next
  case False
  with assms(3) have "1 - p > 0" by simp
  with assms show ?thesis
    by (intro exI [of _ "(e - p * l) / (1 - p)"]) (simp add: field_simps)
qed

lemma conditional_sound:
  assumes "evaluateProbabilityClaim (CONDITIONAL_FROM_PROBABILITIES joint condition claimed) = Inr (a, b)"
  shows "wellPosed (CONDITIONAL_FROM_PROBABILITIES joint condition claimed)
    \<and> b = ratPair (inputValue claimed) \<and> a = ratPair (inputValue joint / inputValue condition)"
proof -
  obtain j c where j: "bindE (parseRationalInput joint) assertProbability = Inr j"
    and c: "bindE (parseRationalInput condition) assertProbability = Inr c"
    using assms by (auto simp: bindE_eq_Inr)
  note parsed_probability [OF j] parsed_probability [OF c]
  with assms j c show ?thesis
    by (auto simp: bindE_eq_Inr compareRationals_iff divideRationals_iff less_le
        dest!: parsed_intermediate split: if_splits)
qed

lemma bayes_sound:
  assumes "evaluateProbabilityClaim (BAYES prior likelihood evidence claimed) = Inr (a, b)"
  shows "wellPosed (BAYES prior likelihood evidence claimed) \<and> b = ratPair (inputValue claimed)
    \<and> a = ratPair (inputValue prior * inputValue likelihood / inputValue evidence)"
proof -
  let ?p = "inputValue prior" and ?l = "inputValue likelihood" and ?e = "inputValue evidence"
  obtain p l e where p: "bindE (parseRationalInput prior) assertProbability = Inr p"
    and l: "bindE (parseRationalInput likelihood) assertProbability = Inr l"
    and e: "bindE (parseRationalInput evidence) assertProbability = Inr e"
    using assms by (auto simp: bindE_eq_Inr)
  note P = parsed_probability [OF p] and L = parsed_probability [OF l] and E = parsed_probability [OF e]
  obtain j comp most low high post where steps: "rNum e \<noteq> 0" "multiplyRationals p l = Inr j"
    "subtractRationals (mkRational 1 1) p = Inr comp" "addRationals j comp = Inr most"
    "compareRationals e j = Inr low" "\<not> low < 0" "compareRationals e most = Inr high" "\<not> high > 0"
    "divideRationals j e = Inr post" "a = post" "parseIntermediateRationalInput claimed = Inr b"
    using assms p l e by (auto simp: bindE_eq_Inr split: if_splits)
  have val: "ratVal p = ?p" "ratVal l = ?l" "ratVal e = ?e" "ratVal j = ?p * ?l" "ratVal comp = 1 - ?p"
    "ratVal most = ?p * ?l + (1 - ?p)"
    using P L E steps(2-4)
    by (auto simp: multiplyRationals_iff subtractRationals_iff addRationals_iff ratVal_mkRational)
  have range: "?p * ?l \<le> ?e" "?e \<le> ?p * ?l + (1 - ?p)"
    using steps(5-8) unfolding compareRationals_iff val by (auto split: if_splits)
  have "?e \<noteq> 0" using steps(1) E val(3) ratPair_positive [of ?e] by (auto simp: ratPair_zero)
  moreover have "a = ratPair (?p * ?l / ?e)" using steps(9,10) val by (simp add: divideRationals_iff)
  ultimately show ?thesis
    using bayes_consistent [OF range] P L E parsed_intermediate [OF steps(11)] by simp
qed

lemma counts_sound:
  "evaluateProbabilityClaim (CONDITIONAL_FROM_COUNTS joint condition claimed) = Inr (a, b) \<Longrightarrow>
     wellPosed (CONDITIONAL_FROM_COUNTS joint condition claimed) \<and> b = ratPair (inputValue claimed)
     \<and> a = ratPair (of_nat joint / of_nat condition)"
  by (auto simp: bindE_eq_Inr rational_iff dest!: parsed_intermediate)

definition probabilityDecidable :: "ProbabilityArithmeticClaim \<Rightarrow> bool" where
  "probabilityDecidable claim = isOk (probabilityVerdict claim)"

lemma probabilityVerdict_sound:
  assumes "probabilityVerdict claim = Inr b"
  shows "wellPosed claim \<and> b = probabilityHolds claim"
proof -
  obtain x y where e: "evaluateProbabilityClaim claim = Inr (x, y)"
    and b: "b = (ratVal x = ratVal y)"
    using assms by (auto simp: probabilityVerdict_def bindE_eq_Inr equalRationals_iff)
  show ?thesis
  proof (cases claim)
    case (FINITE_EXPECTATION outcomes claimed)
    from expectation_sound [OF e [unfolded FINITE_EXPECTATION]] b show ?thesis
      unfolding FINITE_EXPECTATION by simp
  next
    case (CONDITIONAL_FROM_COUNTS joint condition claimed)
    from counts_sound [OF e [unfolded CONDITIONAL_FROM_COUNTS]] b show ?thesis
      unfolding CONDITIONAL_FROM_COUNTS by simp
  next
    case (CONDITIONAL_FROM_PROBABILITIES joint condition claimed)
    from conditional_sound [OF e [unfolded CONDITIONAL_FROM_PROBABILITIES]] b show ?thesis
      unfolding CONDITIONAL_FROM_PROBABILITIES by simp
  next
    case (BAYES prior likelihood evidence claimed)
    from bayes_sound [OF e [unfolded BAYES]] b show ?thesis unfolding BAYES by simp
  qed
qed

interpretation probability: claim_verifier "verifyProbability messageOf"
  PROBABILITY_ARITHMETIC_VERIFIER_NAME "\<lambda>claim. liftMath (probabilityVerdict claim)"
  probabilityDecidable probabilityHolds
  by unfold_locales
     (auto simp: verifyProbability_def claimResult_status probabilityDecidable_def isOk_iff
       dest: probabilityVerdict_sound)

lemma decided_is_well_posed: "probabilityDecidable claim \<Longrightarrow> wellPosed claim"
  using probabilityVerdict_sound by (auto simp: probabilityDecidable_def isOk_iff)

text \<open>Property C35. The verifier of probability claims is exact and refuses ill-posed inputs: it answers
  VERIFIED or CONTRADICTED only for encoded claims that are well posed (masses between 0 and 1 with sum
  1; a joint probability below a positive condition; Bayes inputs that some likelihood of the
  complementary hypothesis completes), according to whether the claimed expectation, conditional or
  posterior probability is the exact one.\<close>

theorem probability_claims_are_decided:
  "(vrStatus (verifyProbability messageOf jsonParse safeParse s c) = VERIFIED \<longleftrightarrow>
      (\<exists>claim. encodes jsonParse safeParse s c claim \<and> probabilityDecidable claim \<and> wellPosed claim
        \<and> probabilityHolds claim))
   \<and> (vrStatus (verifyProbability messageOf jsonParse safeParse s c) = CONTRADICTED \<longleftrightarrow>
      (\<exists>claim. encodes jsonParse safeParse s c claim \<and> probabilityDecidable claim \<and> wellPosed claim
        \<and> \<not> probabilityHolds claim))"
  using probability.verified_iff [of messageOf jsonParse safeParse s c]
    probability.contradicted_iff [of messageOf jsonParse safeParse s c] decided_is_well_posed by blast

end
