(* ===== verification/TwoColourGraph.thy ===== *)
theory TwoColourGraph
  imports MathVerifiers
begin

text \<open>
  The verifier of the problem of six people,
  \<^verbatim>\<open>packages/verification/src/two-colour-graph-verifier.ts\<close>: a statement encodes a complete
  graph whose edges have one of two relations, and the verifier searches it for a triangle of one
  relation. The search is exact, and for six or more vertices it always succeeds.
\<close>

section \<open>The interpretation and its schema\<close>

definition TWO_COLOUR_GRAPH_VERIFIER_NAME :: string where
  "TWO_COLOUR_GRAPH_VERIFIER_NAME = ''oxford-two-colour-graph-verifier@1''"

definition MAX_TWO_COLOUR_GRAPH_STATEMENT_CHARACTERS :: nat where
  "MAX_TWO_COLOUR_GRAPH_STATEMENT_CHARACTERS = 100000"
definition MAX_TWO_COLOUR_GRAPH_VERTICES :: nat where "MAX_TWO_COLOUR_GRAPH_VERTICES = 64"
definition MAX_TWO_COLOUR_GRAPH_EDGES :: nat where
  "MAX_TWO_COLOUR_GRAPH_EDGES =
     MAX_TWO_COLOUR_GRAPH_VERTICES * (MAX_TWO_COLOUR_GRAPH_VERTICES - 1) div 2"

datatype TwoColourRelation = ACQUAINTANCE | STRANGER

record TwoColourGraphEdge =
  eLeft :: string
  eRight :: string
  eRelation :: TwoColourRelation

record TwoColourGraphInterpretation =
  gVertices :: "string list"
  gEdges :: "TwoColourGraphEdge list"

text \<open>\<^verbatim>\<open>/^[A-Za-z0-9][A-Za-z0-9._:-]*$/u\<close>\<close>

definition VertexIdSchema :: "string \<Rightarrow> bool" where
  "VertexIdSchema s =
     (1 \<le> length s \<and> length s \<le> 64 \<and> js_alnum (hd s)
      \<and> list_all (\<lambda>c. js_alnum c \<or> c \<in> set ''._:-'') s)"

text \<open>The index of every vertex, and whether no vertex repeated.\<close>

definition indexStep :: "bool \<times> nat dict \<Rightarrow> nat \<times> string \<Rightarrow> bool \<times> nat dict" where
  "indexStep state entry =
     (case (state, entry) of ((ok, vertexIndex), (index, vertex)) \<Rightarrow>
        if dget vertexIndex vertex \<noteq> None then (False, vertexIndex)
        else (ok, dput vertex index vertexIndex))"

definition indexVertices :: "string list \<Rightarrow> bool \<times> nat dict" where
  "indexVertices vertices = foldl indexStep (True, []) (enumerate 0 vertices)"

definition pairKey :: "nat \<Rightarrow> nat \<Rightarrow> string" where
  "pairKey left right = natToString (min left right) @ '':'' @ natToString (max left right)"

text \<open>One edge: whether no issue was found so far, and the unordered pairs met.\<close>

definition edgeStep :: "nat dict \<Rightarrow> bool \<times> string list \<Rightarrow> TwoColourGraphEdge \<Rightarrow> bool \<times> string list" where
  "edgeStep vertexIndex state edge =
     (case state of (ok, unorderedPairs) \<Rightarrow>
        if eLeft edge = eRight edge then (False, unorderedPairs)
        else case (dget vertexIndex (eLeft edge), dget vertexIndex (eRight edge)) of
            (Some l, Some r) \<Rightarrow>
              let key = pairKey l r in
              if key \<in> set unorderedPairs then (False, unorderedPairs)
              else (ok, unorderedPairs @ [key])
          | _ \<Rightarrow> (False, unorderedPairs))"

definition TwoColourGraphInterpretationSchema :: "TwoColourGraphInterpretation \<Rightarrow> bool" where
  "TwoColourGraphInterpretationSchema g =
     (1 \<le> length (gVertices g) \<and> length (gVertices g) \<le> MAX_TWO_COLOUR_GRAPH_VERTICES
      \<and> list_all VertexIdSchema (gVertices g) \<and> length (gEdges g) \<le> MAX_TWO_COLOUR_GRAPH_EDGES
      \<and> list_all (\<lambda>e. VertexIdSchema (eLeft e) \<and> VertexIdSchema (eRight e)) (gEdges g)
      \<and> (case indexVertices (gVertices g) of (unique, vertexIndex) \<Rightarrow>
          case foldl (edgeStep vertexIndex) (True, []) (gEdges g) of (ok, unorderedPairs) \<Rightarrow>
            unique \<and> ok
            \<and> length unorderedPairs = length (gVertices g) * (length (gVertices g) - 1) div 2))"

section \<open>The search\<close>

record MonochromaticTriangle =
  tVertices :: "string \<times> string \<times> string"
  tRelation :: TwoColourRelation

type_synonym adjacency = "TwoColourRelation dict dict"

definition setRelation :: "adjacency \<Rightarrow> string \<Rightarrow> string \<Rightarrow> TwoColourRelation \<Rightarrow> adjacency" where
  "setRelation adj source target relation =
     (case dget adj source of
        Some existing \<Rightarrow> dput source (dput target relation existing) adj
      | None \<Rightarrow> dput source [(target, relation)] adj)"

definition buildAdjacency :: "TwoColourGraphEdge list \<Rightarrow> adjacency" where
  "buildAdjacency edges =
     foldl (\<lambda>adj e. setRelation (setRelation adj (eLeft e) (eRight e) (eRelation e))
        (eRight e) (eLeft e) (eRelation e)) [] edges"

definition relationBetween :: "adjacency \<Rightarrow> string \<Rightarrow> string \<Rightarrow> TwoColourRelation option" where
  "relationBetween adj a b = Option.bind (dget adj a) (\<lambda>m. dget m b)"

text \<open>The body of the three nested loops.\<close>

definition triangleAt :: "adjacency \<Rightarrow> string list \<Rightarrow> nat \<times> nat \<times> nat \<Rightarrow> MonochromaticTriangle option" where
  "triangleAt adj vertices indices =
     (case indices of (first, second, third) \<Rightarrow>
        let a = vertices ! first; b = vertices ! second; c = vertices ! third in
        (case relationBetween adj a b of
           None \<Rightarrow> None
         | Some r \<Rightarrow>
             if Some r = relationBetween adj a c \<and> Some r = relationBetween adj b c
             then Some \<lparr> tVertices = (a, b, c), tRelation = r \<rparr> else None))"

text \<open>The order in which the nested loops visit the triples.\<close>

definition triples :: "nat \<Rightarrow> (nat \<times> nat \<times> nat) list" where
  "triples n =
     concat (map (\<lambda>i. concat (map (\<lambda>j. map (\<lambda>k. (i, j, k)) [j + 1 ..< n]) [i + 1 ..< n - 1])) [0 ..< n - 2])"

fun firstSome :: "('a \<Rightarrow> 'b option) \<Rightarrow> 'a list \<Rightarrow> 'b option" where
  "firstSome f [] = None"
| "firstSome f (x # xs) = (case f x of None \<Rightarrow> firstSome f xs | Some y \<Rightarrow> Some y)"

definition findMonochromaticTriangle :: "TwoColourGraphInterpretation \<Rightarrow> MonochromaticTriangle option" where
  "findMonochromaticTriangle g =
     firstSome (triangleAt (buildAdjacency (gEdges g)) (gVertices g)) (triples (length (gVertices g)))"

section \<open>The verifier\<close>

definition graphResult :: "VerificationStatus \<Rightarrow> rat \<Rightarrow> string \<Rightarrow> VerificationResult" where
  "graphResult status confidence reason =
     \<lparr> vrStatus = status, vrInterpretationConfidence = confidence,
       vrVerifier = TWO_COLOUR_GRAPH_VERIFIER_NAME, vrReason = reason \<rparr>"

definition verifyTwoColourGraph ::
  "(string \<Rightarrow> Json option) \<Rightarrow> (Json \<Rightarrow> TwoColourGraphInterpretation SafeParse) \<Rightarrow> string \<Rightarrow> rat option
     \<Rightarrow> VerificationResult" where
  "verifyTwoColourGraph jsonParse safeParse statement confidence =
     (let normalized = normalizeInterpretationConfidence confidence; c = nicValue normalized in
      if \<not> nicValid normalized then
        graphResult UNRESOLVED c ''Interpretation confidence must be a finite value between 0 and 1''
      else if c < 1 then
        graphResult UNRESOLVED c ''Formal interpretation confidence is insufficient''
      else if length statement > MAX_TWO_COLOUR_GRAPH_STATEMENT_CHARACTERS then
        graphResult UNRESOLVED c ''Formal interpretation exceeds the deterministic verifier size limit''
      else case jsonParse statement of
          None \<Rightarrow> graphResult UNRESOLVED c ''Formal interpretation is not valid JSON''
        | Some parsed \<Rightarrow>
            (case safeParse parsed of
               Parsed g \<Rightarrow>
                 (case findMonochromaticTriangle g of
                    Some _ \<Rightarrow> graphResult VERIFIED c
                      ''Encoded complete two-colour graph contains a monochromatic triangle''
                  | None \<Rightarrow> graphResult CONTRADICTED c
                      ''Encoded complete two-colour graph contains no monochromatic triangle'')
             | _ \<Rightarrow> graphResult UNRESOLVED c
                 ''Formal interpretation is malformed, incomplete, or ambiguous''))"

section \<open>Adjacency\<close>

definition joins :: "TwoColourGraphEdge \<Rightarrow> string \<Rightarrow> string \<Rightarrow> bool" where
  "joins e a b = (eLeft e = a \<and> eRight e = b \<or> eLeft e = b \<and> eRight e = a)"

lemma relationBetween_set:
  "relationBetween (setRelation adj f t r) a b = (if a = f \<and> b = t then Some r else relationBetween adj a b)"
  by (auto simp: relationBetween_def setRelation_def table_simps split: option.splits)

lemma buildAdjacency_last:
  "relationBetween (buildAdjacency edges) a b
     = map_option eRelation (List.find (\<lambda>e. joins e a b) (rev edges))"
proof (induction edges rule: rev_induct)
  case Nil
  then show ?case by (simp add: buildAdjacency_def relationBetween_def)
next
  case (snoc e edges)
  then show ?case by (auto simp: buildAdjacency_def relationBetween_set joins_def)
qed

section \<open>What the schema accepts\<close>

lemma natToString_inject [simp]: "natToString m = natToString n \<longleftrightarrow> m = n"
  by (metis digitsValue_natToString)

lemma split_at:
  "c \<notin> set a \<Longrightarrow> c \<notin> set b \<Longrightarrow> a @ c # x = b @ c # y \<Longrightarrow> a = b \<and> x = y"
proof (induction a arbitrary: b)
  case Nil
  then show ?case by (cases b) auto
next
  case (Cons d a)
  then show ?case by (cases b) auto
qed

lemma natToString_no_colon: "CHR '':'' \<notin> set (natToString n)"
  using natToString_digits [of n] by (auto simp: list_all_iff isDigit_def)

lemma pairKey_inject: "pairKey i j = pairKey k l \<longleftrightarrow> {i, j} = {k, l}"
proof
  assume "pairKey i j = pairKey k l"
  then have "natToString (min i j) @ CHR '':'' # natToString (max i j)
      = natToString (min k l) @ CHR '':'' # natToString (max k l)"
    by (simp add: pairKey_def)
  then have "natToString (min i j) = natToString (min k l) \<and> natToString (max i j) = natToString (max k l)"
    by (rule split_at [OF natToString_no_colon natToString_no_colon])
  then have "min i j = min k l" "max i j = max k l" by simp_all
  then show "{i, j} = {k, l}" by (auto simp: min_def max_def split: if_splits)
next
  assume "{i, j} = {k, l}"
  then show "pairKey i j = pairKey k l" by (auto simp: pairKey_def doubleton_eq_iff min.commute max.commute)
qed

lemma indexVertices_unique:
  assumes "indexVertices vs = (True, ix)"
  shows "distinct vs \<and> (\<forall>v i. dget ix v = Some i \<longleftrightarrow> i < length vs \<and> vs ! i = v)"
proof -
  have "foldl indexStep (True, []) (enumerate 0 xs) = (True, ix) \<Longrightarrow>
      distinct xs \<and> (\<forall>v i. dget ix v = Some i \<longleftrightarrow> i < length xs \<and> xs ! i = v)" for xs
  proof (induction xs arbitrary: ix rule: rev_induct)
    case Nil
    then show ?case by simp
  next
    case (snoc x xs)
    obtain ok ix0 where start: "foldl indexStep (True, []) (enumerate 0 xs) = (ok, ix0)" by force
    have last: "indexStep (ok, ix0) (length xs, x) = (True, ix)"
      using snoc.prems start by (simp add: enumerate_append_eq)
    then have ok: "ok" "dget ix0 x = None" "ix = dput x (length xs) ix0"
      by (auto simp: indexStep_def split: if_splits)
    have IH: "distinct xs" "\<forall>v i. dget ix0 v = Some i \<longleftrightarrow> i < length xs \<and> xs ! i = v"
      using snoc.IH start ok(1) by auto
    have "x \<notin> set xs" using IH(2) ok(2) by (metis in_set_conv_nth option.distinct(1))
    with IH ok(3) show ?case
      by (auto simp: dget_dput nth_append less_Suc_eq dest: nth_mem)
  qed
  with assms show ?thesis by (simp add: indexVertices_def)
qed

lemma edges_accepted:
  assumes "foldl (edgeStep ix) (True, []) es = (True, ps)"
  shows "(\<forall>e \<in> set es. eLeft e \<noteq> eRight e \<and> dget ix (eLeft e) \<noteq> None \<and> dget ix (eRight e) \<noteq> None)
     \<and> ps = map (\<lambda>e. pairKey (the (dget ix (eLeft e))) (the (dget ix (eRight e)))) es \<and> distinct ps"
  using assms
proof (induction es arbitrary: ps rule: rev_induct)
  case Nil
  then show ?case by simp
next
  case (snoc e es)
  obtain ok ps0 where start: "foldl (edgeStep ix) (True, []) es = (ok, ps0)" by force
  have "edgeStep ix (ok, ps0) e = (True, ps)" using snoc.prems start by simp
  then obtain l r where e: "ok" "eLeft e \<noteq> eRight e" "dget ix (eLeft e) = Some l"
    "dget ix (eRight e) = Some r" "pairKey l r \<notin> set ps0" "ps = ps0 @ [pairKey l r]"
    by (auto simp: edgeStep_def Let_def split: if_splits option.splits)
  with snoc.IH start show ?case by auto
qed

text \<open>A complete graph: distinct vertices, and exactly one edge between any two of them.\<close>

definition completeGraph :: "TwoColourGraphInterpretation \<Rightarrow> bool" where
  "completeGraph g =
     (distinct (gVertices g)
      \<and> (\<forall>a \<in> set (gVertices g). \<forall>b \<in> set (gVertices g). a \<noteq> b \<longrightarrow>
          (\<exists>!e. e \<in> set (gEdges g) \<and> joins e a b)))"

lemma schema_complete:
  assumes "TwoColourGraphInterpretationSchema g"
  shows "completeGraph g"
proof -
  let ?n = "length (gVertices g)"
  obtain ix ps where ix: "indexVertices (gVertices g) = (True, ix)"
    and ps: "foldl (edgeStep ix) (True, []) (gEdges g) = (True, ps)"
    and len: "length ps = ?n * (?n - 1) div 2"
    using assms by (auto simp: TwoColourGraphInterpretationSchema_def split: prod.splits)
  note index = indexVertices_unique [OF ix] and edges = edges_accepted [OF ps]
  let ?l = "\<lambda>e. the (dget ix (eLeft e))" and ?r = "\<lambda>e. the (dget ix (eRight e))"
  have at: "?l e < ?n \<and> gVertices g ! ?l e = eLeft e \<and> ?r e < ?n \<and> gVertices g ! ?r e = eRight e
      \<and> ?l e \<noteq> ?r e" if "e \<in> set (gEdges g)" for e
  proof -
    have "eLeft e \<noteq> eRight e \<and> dget ix (eLeft e) \<noteq> None \<and> dget ix (eRight e) \<noteq> None"
      using that edges [THEN conjunct1] by (rule bspec [rotated])
    then obtain l r where lr: "dget ix (eLeft e) = Some l" "dget ix (eRight e) = Some r"
      "eLeft e \<noteq> eRight e" by auto
    then have "l < ?n \<and> gVertices g ! l = eLeft e" "r < ?n \<and> gVertices g ! r = eRight e"
      using index by blast+
    with lr show ?thesis by auto
  qed
  have inj: "inj_on (\<lambda>e. {?l e, ?r e}) (set (gEdges g))" "distinct (gEdges g)"
  proof -
    have "distinct (map (\<lambda>e. pairKey (?l e) (?r e)) (gEdges g))" using edges by blast
    then show "distinct (gEdges g)" "inj_on (\<lambda>e. {?l e, ?r e}) (set (gEdges g))"
      by (auto simp: distinct_map inj_on_def pairKey_inject)
  qed
  have two: "{?l e, ?r e} \<in> {s. s \<subseteq> {..<?n} \<and> card s = 2}" if "e \<in> set (gEdges g)" for e
    using at [OF that] by auto
  have "card ((\<lambda>e. {?l e, ?r e}) ` set (gEdges g)) = length (gEdges g)"
    using inj by (simp add: card_image distinct_card)
  also have "\<dots> = ?n choose 2" using len edges by (simp add: choose_two)
  also have "\<dots> = card {s. s \<subseteq> {..<?n} \<and> card s = 2}" by (simp add: n_subsets)
  finally have all: "(\<lambda>e. {?l e, ?r e}) ` set (gEdges g) = {s. s \<subseteq> {..<?n} \<and> card s = 2}"
    using two by (intro card_subset_eq) (auto intro: finite_subset [of _ "Pow {..<?n}"])
  have "\<exists>!e. e \<in> set (gEdges g) \<and> joins e a b"
    if ab: "a \<in> set (gVertices g)" "b \<in> set (gVertices g)" "a \<noteq> b" for a b
  proof -
    obtain i j where i: "i < ?n" "gVertices g ! i = a" and j: "j < ?n" "gVertices g ! j = b"
      using ab by (auto simp: in_set_conv_nth)
    have joined: "joins e a b \<longleftrightarrow> {?l e, ?r e} = {i, j}" if "e \<in> set (gEdges g)" for e
      using at [OF that] i j index by (auto simp: joins_def doubleton_eq_iff nth_eq_iff_index_eq)
    have "{i, j} \<in> (\<lambda>e. {?l e, ?r e}) ` set (gEdges g)"
      using i j ab(3) unfolding all by (auto simp: card_2_iff)
    then obtain e where "e \<in> set (gEdges g)" "{?l e, ?r e} = {i, j}" by force
    with joined inj(1) show ?thesis by (metis (no_types, lifting) inj_on_def)
  qed
  with index show ?thesis by (simp add: completeGraph_def)
qed

section \<open>The search is exact\<close>

definition related :: "TwoColourGraphInterpretation \<Rightarrow> string \<Rightarrow> string \<Rightarrow> TwoColourRelation \<Rightarrow> bool" where
  "related g a b r = (\<exists>e \<in> set (gEdges g). joins e a b \<and> eRelation e = r)"

lemma joins_sym: "joins e a b = joins e b a"
  by (auto simp: joins_def)

lemma related_sym: "related g a b r = related g b a r"
  by (simp add: related_def joins_sym)

lemma complete_relation:
  assumes "completeGraph g" and "a \<in> set (gVertices g)" and "b \<in> set (gVertices g)" and "a \<noteq> b"
  shows "relationBetween (buildAdjacency (gEdges g)) a b = Some r \<longleftrightarrow> related g a b r"
    and "\<exists>r. related g a b r"
proof -
  obtain e where e: "e \<in> set (gEdges g)" "joins e a b"
    and only: "\<And>f. f \<in> set (gEdges g) \<Longrightarrow> joins f a b \<Longrightarrow> f = e"
    using assms unfolding completeGraph_def by blast
  have "List.find (\<lambda>e. joins e a b) (rev (gEdges g)) = Some e"
  proof (cases "List.find (\<lambda>e. joins e a b) (rev (gEdges g))")
    case None
    with e show ?thesis by (auto simp: find_None_iff)
  next
    case (Some f)
    then have "f \<in> set (gEdges g)" "joins f a b"
      by (auto simp: find_Some_iff) (metis nth_mem set_rev length_rev)
    with only Some show ?thesis by simp
  qed
  then have "relationBetween (buildAdjacency (gEdges g)) a b = Some (eRelation e)"
    by (simp add: buildAdjacency_last)
  moreover have "related g a b r \<longleftrightarrow> eRelation e = r" using e only unfolding related_def by blast
  ultimately show "relationBetween (buildAdjacency (gEdges g)) a b = Some r \<longleftrightarrow> related g a b r" by simp
  show "\<exists>r. related g a b r" using e by (auto simp: related_def)
qed

lemma firstSome_Some: "(\<exists>y. firstSome f xs = Some y) \<longleftrightarrow> (\<exists>x \<in> set xs. f x \<noteq> None)"
  by (induction xs) (auto split: option.splits)

lemma set_triples: "(i, j, k) \<in> set (triples n) \<longleftrightarrow> i < j \<and> j < k \<and> k < n"
proof
  assume "i < j \<and> j < k \<and> k < n"
  then show "(i, j, k) \<in> set (triples n)"
    by (simp add: triples_def, intro bexI [of _ i] bexI [of _ j]) auto
qed (auto simp: triples_def)

definition monochromatic :: "TwoColourGraphInterpretation \<Rightarrow> string \<Rightarrow> string \<Rightarrow> string \<Rightarrow> bool" where
  "monochromatic g a b c = (\<exists>r. related g a b r \<and> related g a c r \<and> related g b c r)"

lemma triangleAt_iff:
  assumes "completeGraph g" and "i < j" and "j < k" and "k < length (gVertices g)"
  shows "triangleAt (buildAdjacency (gEdges g)) (gVertices g) (i, j, k) \<noteq> None
    \<longleftrightarrow> monochromatic g (gVertices g ! i) (gVertices g ! j) (gVertices g ! k)"
proof -
  let ?a = "gVertices g ! i" and ?b = "gVertices g ! j" and ?c = "gVertices g ! k"
  have mem: "?a \<in> set (gVertices g)" "?b \<in> set (gVertices g)" "?c \<in> set (gVertices g)"
    and ne: "?a \<noteq> ?b" "?a \<noteq> ?c" "?b \<noteq> ?c"
    using assms by (auto simp: completeGraph_def nth_eq_iff_index_eq)
  note rel = complete_relation(1) [OF assms(1) mem(1,2) ne(1)] complete_relation(1) [OF assms(1) mem(1,3) ne(2)]
    complete_relation(1) [OF assms(1) mem(2,3) ne(3)]
  show ?thesis
    unfolding triangleAt_def monochromatic_def rel [symmetric] by (auto simp: Let_def split: option.splits)
qed

lemma monochromatic_sym:
  "monochromatic g a b c = monochromatic g b a c" "monochromatic g a b c = monochromatic g a c b"
  unfolding monochromatic_def using related_sym by metis+

lemma find_iff:
  assumes "completeGraph g"
  shows "findMonochromaticTriangle g \<noteq> None \<longleftrightarrow>
    (\<exists>a \<in> set (gVertices g). \<exists>b \<in> set (gVertices g). \<exists>c \<in> set (gVertices g).
       a \<noteq> b \<and> a \<noteq> c \<and> b \<noteq> c \<and> monochromatic g a b c)"
proof
  assume "findMonochromaticTriangle g \<noteq> None"
  then obtain i j k where ijk: "i < j" "j < k" "k < length (gVertices g)"
    and t: "triangleAt (buildAdjacency (gEdges g)) (gVertices g) (i, j, k) \<noteq> None"
    unfolding findMonochromaticTriangle_def not_None_eq firstSome_Some by (auto simp: set_triples)
  with triangleAt_iff [OF assms ijk] assms
  show "\<exists>a \<in> set (gVertices g). \<exists>b \<in> set (gVertices g). \<exists>c \<in> set (gVertices g).
       a \<noteq> b \<and> a \<noteq> c \<and> b \<noteq> c \<and> monochromatic g a b c"
    by (intro bexI [of _ "gVertices g ! i"] bexI [of _ "gVertices g ! j"] bexI [of _ "gVertices g ! k"])
      (auto simp: completeGraph_def nth_eq_iff_index_eq)
next
  assume "\<exists>a \<in> set (gVertices g). \<exists>b \<in> set (gVertices g). \<exists>c \<in> set (gVertices g).
       a \<noteq> b \<and> a \<noteq> c \<and> b \<noteq> c \<and> monochromatic g a b c"
  then obtain i j k where ijk: "i < length (gVertices g)" "j < length (gVertices g)" "k < length (gVertices g)"
    "i \<noteq> j" "i \<noteq> k" "j \<noteq> k" and m: "monochromatic g (gVertices g ! i) (gVertices g ! j) (gVertices g ! k)"
    unfolding in_set_conv_nth Bex_def by metis
  have "\<exists>i j k. i < j \<and> j < k \<and> k < length (gVertices g)
      \<and> monochromatic g (gVertices g ! i) (gVertices g ! j) (gVertices g ! k)"
    using ijk m monochromatic_sym by (metis linorder_neq_iff)
  then obtain i j k where s: "i < j" "j < k" "k < length (gVertices g)"
    and m: "monochromatic g (gVertices g ! i) (gVertices g ! j) (gVertices g ! k)" by blast
  with triangleAt_iff [OF assms s] show "findMonochromaticTriangle g \<noteq> None"
    unfolding findMonochromaticTriangle_def not_None_eq firstSome_Some
    by (intro bexI [of _ "(i, j, k)"]) (auto simp: set_triples)
qed

text \<open>Among six people, three are mutual acquaintances or three are mutual strangers.\<close>

lemma six_people:
  fixes c :: "nat \<Rightarrow> nat \<Rightarrow> bool"
  shows "\<exists>i j k. i < j \<and> j < k \<and> k < 6 \<and> c i j = c i k \<and> c i j = c j k"
proof (rule ccontr)
  assume none: "\<not> ?thesis"
  have t: "\<not> (c i j = c i k \<and> c i j = c j k)" if "i < j" "j < k" "k < 6" for i j k
    using none that by blast
  note facts = t [of 0 1 2, simplified] t [of 0 1 3, simplified] t [of 0 1 4, simplified]
    t [of 0 1 5, simplified] t [of 0 2 3, simplified] t [of 0 2 4, simplified]
    t [of 0 2 5, simplified] t [of 0 3 4, simplified] t [of 0 3 5, simplified]
    t [of 0 4 5, simplified] t [of 1 2 3, simplified] t [of 1 2 4, simplified]
    t [of 1 2 5, simplified] t [of 1 3 4, simplified] t [of 1 3 5, simplified]
    t [of 1 4 5, simplified] t [of 2 3 4, simplified] t [of 2 3 5, simplified]
    t [of 2 4 5, simplified] t [of 3 4 5, simplified]
  from facts show False by argo
qed

lemma six_vertices:
  assumes "completeGraph g" and "6 \<le> length (gVertices g)"
  shows "findMonochromaticTriangle g \<noteq> None"
proof -
  let ?v = "\<lambda>i. gVertices g ! i"
  obtain i j k where ijk: "i < j" "j < k" "k < 6"
    and same: "related g (?v i) (?v j) ACQUAINTANCE = related g (?v i) (?v k) ACQUAINTANCE"
      "related g (?v i) (?v j) ACQUAINTANCE = related g (?v j) (?v k) ACQUAINTANCE"
    using six_people [of "\<lambda>i j. related g (?v i) (?v j) ACQUAINTANCE"] by blast
  have mem: "?v i \<in> set (gVertices g)" "?v j \<in> set (gVertices g)" "?v k \<in> set (gVertices g)"
    and ne: "?v i \<noteq> ?v j" "?v i \<noteq> ?v k" "?v j \<noteq> ?v k"
    using assms ijk by (auto simp: completeGraph_def nth_eq_iff_index_eq)
  have other: "related g a b STRANGER" if "a \<in> set (gVertices g)" "b \<in> set (gVertices g)" "a \<noteq> b"
    "\<not> related g a b ACQUAINTANCE" for a b
    using complete_relation(2) [OF assms(1) that(1-3)] that(4) by (metis TwoColourRelation.exhaust)
  have "monochromatic g (?v i) (?v j) (?v k)"
    unfolding monochromatic_def using same mem ne other by meson
  with find_iff [OF assms(1)] mem ne show ?thesis by blast
qed

section \<open>The verifier decides its claims\<close>

definition encodesGraph ::
  "(string \<Rightarrow> Json option) \<Rightarrow> (Json \<Rightarrow> TwoColourGraphInterpretation SafeParse) \<Rightarrow> string \<Rightarrow> rat option
     \<Rightarrow> TwoColourGraphInterpretation \<Rightarrow> bool" where
  "encodesGraph jsonParse safeParse statement confidence g =
     (confidence = Some 1 \<and> length statement \<le> 100000
      \<and> Option.bind (jsonParse statement) (\<lambda>v. case safeParse v of Parsed d \<Rightarrow> Some d | _ \<Rightarrow> None) = Some g)"

definition hasMonochromaticTriangle :: "TwoColourGraphInterpretation \<Rightarrow> bool" where
  "hasMonochromaticTriangle g =
     (\<exists>a \<in> set (gVertices g). \<exists>b \<in> set (gVertices g). \<exists>c \<in> set (gVertices g).
       a \<noteq> b \<and> a \<noteq> c \<and> b \<noteq> c \<and> monochromatic g a b c)"

lemma verify_status:
  "vrStatus (verifyTwoColourGraph jp sp s c) = VERIFIED \<longleftrightarrow>
     (\<exists>g. encodesGraph jp sp s c g \<and> findMonochromaticTriangle g \<noteq> None)"
  "vrStatus (verifyTwoColourGraph jp sp s c) = CONTRADICTED \<longleftrightarrow>
     (\<exists>g. encodesGraph jp sp s c g \<and> findMonochromaticTriangle g = None)"
  by (auto simp: verifyTwoColourGraph_def encodesGraph_def normalizeInterpretationConfidence_def
      graphResult_def MAX_TWO_COLOUR_GRAPH_STATEMENT_CHARACTERS_def Let_def bind_eq_Some_conv
      split: option.splits SafeParse.splits if_splits)

text \<open>The schema parser returns only data that satisfy the schema.\<close>

definition parsesGraphs :: "(Json \<Rightarrow> TwoColourGraphInterpretation SafeParse) \<Rightarrow> bool" where
  "parsesGraphs safeParse =
     (\<forall>v g. safeParse v = Parsed g \<longrightarrow> TwoColourGraphInterpretationSchema g)"

text \<open>Property C37. The verifier of two-coloured graphs decides its claim: for statements parsed by the
  schema it answers VERIFIED exactly for graphs with three vertices joined pairwise by one relation and
  CONTRADICTED exactly for the others; and every accepted graph of at least six people is VERIFIED.\<close>

theorem graph_claims_are_decided:
  assumes "parsesGraphs safeParse"
  shows "(vrStatus (verifyTwoColourGraph jsonParse safeParse s c) = VERIFIED \<longleftrightarrow>
      (\<exists>g. encodesGraph jsonParse safeParse s c g \<and> hasMonochromaticTriangle g))
   \<and> (vrStatus (verifyTwoColourGraph jsonParse safeParse s c) = CONTRADICTED \<longleftrightarrow>
      (\<exists>g. encodesGraph jsonParse safeParse s c g \<and> \<not> hasMonochromaticTriangle g))
   \<and> (encodesGraph jsonParse safeParse s c g \<and> 6 \<le> length (gVertices g) \<longrightarrow>
      vrStatus (verifyTwoColourGraph jsonParse safeParse s c) = VERIFIED)"
proof -
  have complete: "completeGraph g" if enc: "encodesGraph jsonParse safeParse s c g" for g
  proof -
    obtain v where "(case safeParse v of Parsed d \<Rightarrow> Some d | _ \<Rightarrow> None) = Some g"
      using enc by (auto simp: encodesGraph_def bind_eq_Some_conv)
    then have "safeParse v = Parsed g" by (cases "safeParse v") simp_all
    with assms schema_complete show ?thesis by (simp add: parsesGraphs_def)
  qed
  then have "findMonochromaticTriangle g \<noteq> None \<longleftrightarrow> hasMonochromaticTriangle g"
    if "encodesGraph jsonParse safeParse s c g" for g
    using that find_iff by (simp add: hasMonochromaticTriangle_def)
  with verify_status [of jsonParse safeParse s c] complete six_vertices show ?thesis by blast
qed

text \<open>Three people who know each other, and a path that leaves one pair strangers.\<close>

definition trio :: "TwoColourRelation \<Rightarrow> TwoColourGraphInterpretation" where
  "trio r = \<lparr> gVertices = [''a'', ''b'', ''c''],
     gEdges = [\<lparr> eLeft = ''a'', eRight = ''b'', eRelation = ACQUAINTANCE \<rparr>,
       \<lparr> eLeft = ''c'', eRight = ''a'', eRelation = ACQUAINTANCE \<rparr>,
       \<lparr> eLeft = ''b'', eRight = ''c'', eRelation = r \<rparr>] \<rparr>"

theorem graph_claims_are_decided_witness:
  "vrStatus (verifyTwoColourGraph (\<lambda>_. Some JNull) (\<lambda>_. Parsed (trio ACQUAINTANCE)) [] (Some 1)) = VERIFIED
   \<and> vrStatus (verifyTwoColourGraph (\<lambda>_. Some JNull) (\<lambda>_. Parsed (trio STRANGER)) [] (Some 1)) = CONTRADICTED"
proof -
  have schema: "TwoColourGraphInterpretationSchema (trio r)" for r
  proof -
    have "list_all VertexIdSchema [''a'', ''b'', ''c'']" by code_simp
    moreover have "indexVertices [''a'', ''b'', ''c''] = (True, [(''a'', 0), (''b'', 1), (''c'', 2)])"
      by code_simp
    moreover have "pairKey 0 1 = ''0:1''" "pairKey 2 0 = ''0:2''" "pairKey 1 2 = ''1:2''" by code_simp+
    ultimately show ?thesis
      by (simp add: TwoColourGraphInterpretationSchema_def trio_def MAX_TWO_COLOUR_GRAPH_VERTICES_def
          MAX_TWO_COLOUR_GRAPH_EDGES_def edgeStep_def dget_def)
  qed
  have enc: "encodesGraph (\<lambda>_. Some JNull) (\<lambda>_. Parsed (trio r)) [] (Some 1) g \<longleftrightarrow> g = trio r" for r g
    by (auto simp: encodesGraph_def)
  have tri: "hasMonochromaticTriangle (trio r) \<longleftrightarrow> r = ACQUAINTANCE" for r
    by (cases r) (auto simp: hasMonochromaticTriangle_def monochromatic_def related_def joins_def trio_def)
  have "parsesGraphs (\<lambda>_. Parsed (trio r))" for r using schema by (simp add: parsesGraphs_def)
  from graph_claims_are_decided [OF this [of ACQUAINTANCE], of "\<lambda>_. Some JNull" "[]" "Some 1"]
    graph_claims_are_decided [OF this [of STRANGER], of "\<lambda>_. Some JNull" "[]" "Some 1"]
  show ?thesis by (simp add: enc tri)
qed

end
