(* ===== verification/VerifierRegistry.thy ===== *)
theory VerifierRegistry
  imports ProbabilityVerifier TwoColourGraph
begin

text \<open>
  The registry of the deterministic verifiers,
  \<^verbatim>\<open>packages/verification/src/math-verifier-registry.ts\<close>: a verifier is created by its
  name, and no name, and no protocol, stands for two of them.
\<close>

datatype DeterministicVerifier =
    ModularArithmeticVerifier | RationalArithmeticVerifier | FiniteRecurrenceVerifier
  | CombinatorialCountingVerifier | ProbabilityArithmeticVerifier

record DeterministicMathVerifierDescriptor =
  dvVerifier :: string
  dvProtocol :: string
  dvProtocolVersion :: nat
  dvCreate :: DeterministicVerifier

definition descriptor ::
  "string \<Rightarrow> string \<Rightarrow> DeterministicVerifier \<Rightarrow> DeterministicMathVerifierDescriptor" where
  "descriptor verifier protocol create =
     \<lparr> dvVerifier = verifier, dvProtocol = protocol, dvProtocolVersion = 1, dvCreate = create \<rparr>"

definition DETERMINISTIC_MATH_VERIFIERS :: "DeterministicMathVerifierDescriptor list" where
  "DETERMINISTIC_MATH_VERIFIERS =
     [descriptor MODULAR_ARITHMETIC_VERIFIER_NAME MODULAR_ARITHMETIC_PROTOCOL ModularArithmeticVerifier,
      descriptor RATIONAL_ARITHMETIC_VERIFIER_NAME RATIONAL_ARITHMETIC_PROTOCOL RationalArithmeticVerifier,
      descriptor FINITE_RECURRENCE_VERIFIER_NAME FINITE_RECURRENCE_PROTOCOL FiniteRecurrenceVerifier,
      descriptor COMBINATORIAL_COUNTING_VERIFIER_NAME COMBINATORIAL_COUNTING_PROTOCOL
        CombinatorialCountingVerifier,
      descriptor PROBABILITY_ARITHMETIC_VERIFIER_NAME PROBABILITY_ARITHMETIC_PROTOCOL
        ProbabilityArithmeticVerifier]"

definition createDeterministicMathVerifier :: "string \<Rightarrow> DeterministicVerifier option" where
  "createDeterministicMathVerifier verifier =
     map_option dvCreate (List.find (\<lambda>e. dvVerifier e = verifier) DETERMINISTIC_MATH_VERIFIERS)"

lemma registry_names_distinct:
  "distinct (map dvVerifier DETERMINISTIC_MATH_VERIFIERS)"
  "distinct (map dvProtocol DETERMINISTIC_MATH_VERIFIERS)"
  by code_simp+

lemma find_distinct:
  "distinct (map f xs) \<Longrightarrow> x \<in> set xs \<Longrightarrow> List.find (\<lambda>y. f y = f x) xs = Some x"
  by (induction xs) (auto simp: image_iff)

lemma registry_complete:
  "d \<in> set DETERMINISTIC_MATH_VERIFIERS \<Longrightarrow>
     createDeterministicMathVerifier (dvVerifier d) = Some (dvCreate d)"
  using find_distinct [OF registry_names_distinct(1)] by (simp add: createDeterministicMathVerifier_def)

lemma registry_rejects:
  "createDeterministicMathVerifier TWO_COLOUR_GRAPH_VERIFIER_NAME = None"
  by code_simp

end
