(* ===== verification/Trading.thy ===== *)
theory Trading
  imports BoardDomain
begin

text \<open>
  The trading contracts of \<^verbatim>\<open>packages/domain/src/trading.ts\<close> beyond fills and quotes:
  limit orders, risk limits, the observable state of a market, market making games and results.
\<close>

record LimitOrder =
  loId :: string
  loSide :: OrderSide
  loPrice :: rat
  loSize :: nat
  loTimestamp :: rat

definition LimitOrderSchema :: "LimitOrder \<Rightarrow> bool" where
  "LimitOrderSchema o1 =
     (nonBlank (loId o1) \<and> 0 < loPrice o1 \<and> PositiveSafeInteger (loSize o1)
      \<and> 0 \<le> loTimestamp o1 \<and> finiteProduct (loPrice o1) (loSize o1))"

record PositionRiskLimits =
  maxPosition :: nat
  limitMaxDrawdown :: rat
  stopLossThreshold :: rat

text \<open>The input of the schema, whose fields have defaults, and its output.\<close>

record PartialRiskLimits =
  optMaxPosition :: "nat option"
  optMaxDrawdown :: "rat option"
  optStopLossThreshold :: "rat option"

definition noRiskLimits :: PartialRiskLimits where
  "noRiskLimits = \<lparr> optMaxPosition = None, optMaxDrawdown = None, optStopLossThreshold = None \<rparr>"

definition orElse :: "'a option \<Rightarrow> 'a \<Rightarrow> 'a" where
  "orElse x d = (case x of None \<Rightarrow> d | Some y \<Rightarrow> y)"

definition PositionRiskLimitsSchema :: "PartialRiskLimits \<Rightarrow> PositionRiskLimits option" where
  "PositionRiskLimitsSchema p =
     (if opt_all PositiveSafeInteger (optMaxPosition p) \<and> opt_all (\<lambda>x. 0 < x) (optMaxDrawdown p)
         \<and> opt_all (\<lambda>x. 0 < x) (optStopLossThreshold p)
      then Some \<lparr> maxPosition = orElse (optMaxPosition p) 100,
                  limitMaxDrawdown = orElse (optMaxDrawdown p) 500,
                  stopLossThreshold = orElse (optStopLossThreshold p) 300 \<rparr>
      else None)"

record MarketState =
  bestBid :: "rat option"
  bestAsk :: "rat option"
  midPrice :: "rat option"
  msSpread :: "rat option"
  msLastTradePrice :: "rat option"
  msTotalVolume :: nat

definition MarketStateSchema :: "MarketState \<Rightarrow> bool" where
  "MarketStateSchema m =
     (opt_all (\<lambda>x. 0 < x) (bestBid m) \<and> opt_all (\<lambda>x. 0 < x) (bestAsk m)
      \<and> opt_all (\<lambda>x. 0 < x) (midPrice m) \<and> opt_all (\<lambda>x. 0 \<le> x) (msSpread m)
      \<and> opt_all (\<lambda>x. 0 < x) (msLastTradePrice m) \<and> isSafeNat (msTotalVolume m))"

datatype TradingGameType = DICE_MARKET | OPTION_PAYOFF | GAME_ADVERSE_SELECTION

record TradingGameConfig =
  gameType :: TradingGameType
  gameRounds :: nat
  gameInitialCash :: rat
  gameFairValue :: rat
  gameNoiseProbability :: rat
  gameInformedProbability :: rat
  gameRiskLimits :: "PositionRiskLimits option"

definition riskLimitsValid :: "PositionRiskLimits \<Rightarrow> bool" where
  "riskLimitsValid l =
     (PositiveSafeInteger (maxPosition l) \<and> 0 < limitMaxDrawdown l \<and> 0 < stopLossThreshold l)"

text \<open>The sum of the two probabilities is a floating point sum.\<close>

definition atMost :: "rat option \<Rightarrow> rat \<Rightarrow> bool" where
  "atMost x b = (case x of None \<Rightarrow> False | Some y \<Rightarrow> y \<le> b)"

definition TradingGameConfigSchema :: "TradingGameConfig \<Rightarrow> bool" where
  "TradingGameConfigSchema c =
     (PositiveSafeInteger (gameRounds c) \<and> 0 \<le> gameInitialCash c \<and> 0 < gameFairValue c
      \<and> unitInterval (gameNoiseProbability c) \<and> unitInterval (gameInformedProbability c)
      \<and> opt_all riskLimitsValid (gameRiskLimits c)
      \<and> atMost (js_add (gameNoiseProbability c) (gameInformedProbability c)) 1)"

record TradingGameResult =
  tgType :: TradingGameType
  tgTotalPnL :: rat
  tgRealizedPnL :: rat
  tgUnrealizedPnL :: rat
  tgFinalPosition :: int
  tgFinalCash :: rat
  tgTradeCount :: nat
  tgMaxDrawdown :: rat
  tgAverageSpread :: rat
  tgComplianceRate :: rat
  tgScore :: int

definition TradingGameResultSchema :: "TradingGameResult \<Rightarrow> bool" where
  "TradingGameResultSchema r =
     (isSafeInteger (tgFinalPosition r) \<and> isSafeNat (tgTradeCount r) \<and> 0 \<le> tgMaxDrawdown r
      \<and> 0 \<le> tgAverageSpread r \<and> unitInterval (tgComplianceRate r)
      \<and> 0 \<le> tgScore r \<and> tgScore r \<le> 100)"

lemma LimitOrderSchema_resize:
  assumes "LimitOrderSchema o1" and "0 < n" and "n \<le> loSize o1"
    and "finiteProduct (loPrice o1) n"
  shows "LimitOrderSchema (o1\<lparr> loSize := n \<rparr>)"
  using assms by (simp add: LimitOrderSchema_def PositiveSafeInteger_def isSafeNat_def)

end
