(* ===== verification/StateErrors.thy ===== *)
theory StateErrors
  imports Prelude
begin

text \<open>
  Methods that mutate their object and may throw. An action takes the state of the object to a
  result and the state reached, also when the result is a throw, because mutations made before a
  throw stay made. \<open>attempt\<close> is a \<^verbatim>\<open>try ... catch\<close> that repairs the state and
  rethrows. The rules of \<open>preserves\<close> carry a condition on the state through a composed action.
\<close>

named_theorems action_simps "equations of actions"
named_theorems preserve_rules "conditions that an action preserves, returned or thrown"

type_synonym ('s, 'e, 'a) action = "'s \<Rightarrow> ('e, 'a) result \<times> 's"

definition returnS :: "'a \<Rightarrow> ('s, 'e, 'a) action" where
  "returnS x = (\<lambda>s. (Inr x, s))"

definition throwS :: "'e \<Rightarrow> ('s, 'e, 'a) action" where
  "throwS e = (\<lambda>s. (Inl e, s))"

definition bindS :: "('s, 'e, 'a) action \<Rightarrow> ('a \<Rightarrow> ('s, 'e, 'b) action) \<Rightarrow> ('s, 'e, 'b) action" where
  "bindS m k = (\<lambda>s. case m s of (Inl e, s') \<Rightarrow> (Inl e, s') | (Inr x, s') \<Rightarrow> k x s')"

definition guardS :: "bool \<Rightarrow> 'e \<Rightarrow> ('s, 'e, unit) action" where
  "guardS b e = (if b then returnS () else throwS e)"

definition liftS :: "('e, 'a) result \<Rightarrow> ('s, 'e, 'a) action" where
  "liftS r = (\<lambda>s. (r, s))"

definition readS :: "('s \<Rightarrow> 'a) \<Rightarrow> ('s, 'e, 'a) action" where
  "readS f = (\<lambda>s. (Inr (f s), s))"

definition modifyS :: "('s \<Rightarrow> 's) \<Rightarrow> ('s, 'e, unit) action" where
  "modifyS f = (\<lambda>s. (Inr (), f s))"

definition attempt :: "('s, 'e, 'a) action \<Rightarrow> ('s, 'e, unit) action \<Rightarrow> ('s, 'e, 'a) action" where
  "attempt m repair =
     (\<lambda>s. case m s of
        (Inr x, s') \<Rightarrow> (Inr x, s')
      | (Inl e, s') \<Rightarrow> bindS repair (\<lambda>_. throwS e) s')"

text \<open>An action of a component run on the part of a larger object that holds the component.\<close>

definition withinS :: "('t \<Rightarrow> 's) \<Rightarrow> ('s \<Rightarrow> 't \<Rightarrow> 't) \<Rightarrow> ('e \<Rightarrow> 'f) \<Rightarrow> ('s, 'e, 'a) action \<Rightarrow> ('t, 'f, 'a) action" where
  "withinS part put err m =
     (\<lambda>t. case m (part t) of
        (Inl e, s) \<Rightarrow> (Inl (err e), put s t)
      | (Inr x, s) \<Rightarrow> (Inr x, put s t))"

fun forEachS :: "('x \<Rightarrow> ('s, 'e, unit) action) \<Rightarrow> 'x list \<Rightarrow> ('s, 'e, unit) action" where
  "forEachS f [] = returnS ()"
| "forEachS f (x # xs) = bindS (f x) (\<lambda>_. forEachS f xs)"

lemma action_apply [simp, action_simps]:
  "returnS x s = (Inr x, s)"
  "throwS e s = (Inl e, s)"
  "liftS r s = (r, s)"
  "readS f s = (Inr (f s), s)"
  "modifyS g s = (Inr (), g s)"
  by (simp_all add: returnS_def throwS_def liftS_def readS_def modifyS_def)

lemma guardS_apply [simp, action_simps]:
  "guardS b e s = (if b then (Inr (), s) else (Inl e, s))"
  by (simp add: guardS_def)

lemma bindS_returns [action_simps]: "m s = (Inr x, s') \<Longrightarrow> bindS m k s = k x s'"
  by (simp add: bindS_def)

lemma bindS_throws [action_simps]: "m s = (Inl e, s') \<Longrightarrow> bindS m k s = (Inl e, s')"
  by (simp add: bindS_def)

lemma bindS_basic [simp, action_simps]:
  "bindS (returnS x) k = k x"
  "bindS (throwS e) k = throwS e"
  "bindS (readS f) k s = k (f s) s"
  "bindS (modifyS g) h s = h () (g s)"
  "bindS (guardS b e) h s = (if b then h () s else (Inl e, s))"
  "bindS (liftS r) k s = (case r of Inl e \<Rightarrow> (Inl e, s) | Inr x \<Rightarrow> k x s)"
  by (auto simp: bindS_def fun_eq_iff split: sum.splits)

text \<open>The simplifier reads \<open>returnS x\<close>, \<open>throwS e\<close> and \<open>liftS r\<close> as partial applications of \<open>Pair\<close>.\<close>

lemma bindS_Pair [simp, action_simps]:
  "bindS (Pair (Inr x)) k = k x"
  "bindS (Pair (Inl e)) k = Pair (Inl e)"
  by (simp_all add: bindS_def fun_eq_iff)

lemma bindS_eq_Inr:
  "bindS m k s = (Inr y, t) \<longleftrightarrow> (\<exists>x s'. m s = (Inr x, s') \<and> k x s' = (Inr y, t))"
  by (auto simp: bindS_def split: prod.splits sum.splits)

lemma bindS_eq_Inl:
  "bindS m k s = (Inl e, t) \<longleftrightarrow>
     m s = (Inl e, t) \<or> (\<exists>x s'. m s = (Inr x, s') \<and> k x s' = (Inl e, t))"
  by (auto simp: bindS_def split: prod.splits sum.splits)

section \<open>Conditions after an action\<close>

definition preserves :: "('s \<Rightarrow> bool) \<Rightarrow> ('s, 'e, 'a) action \<Rightarrow> bool" where
  "preserves P m = (\<forall>s. P s \<longrightarrow> P (snd (m s)))"

lemma preservesD: "preserves P m \<Longrightarrow> P s \<Longrightarrow> m s = (r, t) \<Longrightarrow> P t"
  by (metis preserves_def snd_conv)

lemma preserves_basic [preserve_rules]:
  "preserves P (returnS x)"
  "preserves P (throwS e)"
  "preserves P (guardS b e)"
  "preserves P (readS f)"
  "preserves P (liftS r)"
  by (auto simp: preserves_def)

lemma preserves_modifyS [preserve_rules]: "(\<And>s. P s \<Longrightarrow> P (f s)) \<Longrightarrow> preserves P (modifyS f)"
  by (simp add: preserves_def)

lemma preserves_bindS [preserve_rules]:
  assumes "preserves P m" and "\<And>x. preserves P (k x)"
  shows "preserves P (bindS m k)"
  unfolding preserves_def
proof (intro allI impI)
  fix s assume "P s"
  obtain r t where m: "m s = (r, t)" by fastforce
  with assms(1) \<open>P s\<close> have "P t" by (rule preservesD)
  then show "P (snd (bindS m k s))"
    using assms(2) by (cases r) (simp_all add: bindS_def m preserves_def)
qed

lemma preserves_if [preserve_rules]: "preserves P m \<Longrightarrow> preserves P k \<Longrightarrow> preserves P (if b then m else k)"
  by simp

lemma preserves_option [preserve_rules]:
  "preserves P m \<Longrightarrow> (\<And>x. preserves P (k x)) \<Longrightarrow> preserves P (case v of None \<Rightarrow> m | Some x \<Rightarrow> k x)"
  by (cases v) simp_all

lemma preserves_list [preserve_rules]:
  "preserves P m \<Longrightarrow> (\<And>x xs. preserves P (k x xs)) \<Longrightarrow> preserves P (case v of [] \<Rightarrow> m | x # xs \<Rightarrow> k x xs)"
  by (cases v) simp_all

lemma preserves_sum [preserve_rules]:
  "(\<And>x. preserves P (m x)) \<Longrightarrow> (\<And>x. preserves P (k x)) \<Longrightarrow> preserves P (case v of Inl x \<Rightarrow> m x | Inr x \<Rightarrow> k x)"
  by (cases v) simp_all

lemma preserves_prod [preserve_rules]:
  "(\<And>x y. preserves P (k x y)) \<Longrightarrow> preserves P (case v of (x, y) \<Rightarrow> k x y)"
  by (cases v) simp

lemma preserves_Let [preserve_rules]: "(\<And>x. preserves P (k x)) \<Longrightarrow> preserves P (Let v k)"
  by simp

lemma preserves_withinS [preserve_rules]:
  assumes "\<And>t s. P t \<Longrightarrow> snd (m (part t)) = s \<Longrightarrow> P (put s t)"
  shows "preserves P (withinS part put err m)"
  using assms by (auto simp: preserves_def withinS_def split: prod.splits sum.splits)

lemma preserves_forEachS [preserve_rules]:
  "(\<And>x. preserves P (f x)) \<Longrightarrow> preserves P (forEachS f xs)"
  by (induction xs) (auto intro: preserve_rules)

text \<open>
  A \<^verbatim>\<open>try ... catch\<close> whose repair is right wherever the body can throw behaves like
  the body, except that a throw leaves the repaired state.
\<close>

lemma attempt_repairs:
  assumes "preserves P m" and "P s" and "\<And>t. P t \<Longrightarrow> repair t = (Inr (), g t)"
  shows "attempt m repair s =
    (case m s of (Inr x, t) \<Rightarrow> (Inr x, t) | (Inl e, t) \<Rightarrow> (Inl e, g t))"
proof -
  obtain r t where m: "m s = (r, t)" by fastforce
  have "P t" using preservesD [OF assms(1,2) m] .
  then show ?thesis by (cases r) (simp_all add: attempt_def bindS_def m assms(3))
qed

end
