(* ===== verification/Binary64.thy ===== *)
theory Binary64
  imports JsNumber
begin

text \<open>
  Facts on the binary64 rounding \<open>fl\<close>: exactly when a result overflows, that integers up to
  \<open>2^53\<close> and dyadic fractions are represented exactly, and that rounding keeps signs.
\<close>

section \<open>Rounding to an integer\<close>

lemma round_half_even_cases:
  "round_half_even x = \<lfloor>x\<rfloor> \<or> (round_half_even x = \<lfloor>x\<rfloor> + 1 \<and> of_int \<lfloor>x\<rfloor> + 1/2 \<le> x)"
  by (auto simp: round_half_even_def Let_def)

lemma round_half_even_ge: "of_int n \<le> x \<Longrightarrow> n \<le> round_half_even x"
  using round_half_even_cases [of x] le_floor_iff [of n x] by auto

lemma round_half_even_le: "x \<le> of_int n \<Longrightarrow> round_half_even x \<le> n"
proof -
  assume x: "x \<le> of_int n"
  show ?thesis
    using round_half_even_cases [of x]
  proof (elim disjE conjE)
    assume "round_half_even x = \<lfloor>x\<rfloor>"
    then show ?thesis using x by (simp add: floor_le_iff)
  next
    assume r: "round_half_even x = \<lfloor>x\<rfloor> + 1" and "of_int \<lfloor>x\<rfloor> + 1/2 \<le> x"
    with x have "of_int \<lfloor>x\<rfloor> < (of_int n :: rat)" by linarith
    then show ?thesis by (simp add: r)
  qed
qed

lemma round_half_even_ge_even:
  assumes "of_int n - 1/2 \<le> x" and "even n"
  shows "n \<le> round_half_even x"
proof (cases "of_int n \<le> x")
  case True
  then show ?thesis by (rule round_half_even_ge)
next
  case False
  then have f: "\<lfloor>x\<rfloor> = n - 1" using assms(1) by (intro floor_unique) auto
  show ?thesis using assms unfolding round_half_even_def Let_def f by auto
qed

lemma round_half_even_less:
  assumes "x < of_int n - 1/2"
  shows "round_half_even x \<le> n - 1"
proof (cases "x < of_int (n - 1)")
  case True
  then show ?thesis by (intro round_half_even_le) simp
next
  case False
  then have f: "\<lfloor>x\<rfloor> = n - 1" using assms by (intro floor_unique) auto
  show ?thesis using assms unfolding round_half_even_def Let_def f by auto
qed

section \<open>Binary logarithms\<close>

lemma pow2_powi: "pow2 k = 2 powi k"
  by (cases "0 \<le> k") (simp_all add: pow2_def power_int_def inverse_eq_divide power_divide del: of_int_power)

lemma pow2_pos [simp]: "0 < pow2 k"
  by (simp add: pow2_powi)

lemma pow2_nonzero [simp]: "pow2 k \<noteq> 0"
  using pow2_pos [of k] by linarith

lemma pow2_signs [simp]: "0 \<le> pow2 k" "\<not> pow2 k \<le> 0" "\<bar>pow2 k\<bar> = pow2 k"
  using pow2_pos [of k] by linarith+

lemma pow2_add: "pow2 (j + k) = pow2 j * pow2 k"
  by (simp add: pow2_powi power_int_add)

lemma pow2_mono: "j \<le> k \<Longrightarrow> pow2 j \<le> pow2 k"
  by (simp add: pow2_powi power_int_increasing)

lemma pow2_less_iff: "pow2 j < pow2 k \<longleftrightarrow> j < k"
proof
  assume "pow2 j < pow2 k"
  then show "j < k" using pow2_mono [of k j] by linarith
next
  assume "j < k"
  then show "pow2 j < pow2 k" by (simp add: pow2_powi power_int_strict_increasing)
qed

lemma pow2_le_iff: "pow2 j \<le> pow2 k \<longleftrightarrow> j \<le> k"
  using pow2_less_iff [of k j] by linarith

lemma pow2_int: "0 \<le> k \<Longrightarrow> pow2 k = of_int (2 ^ nat k)"
  by (simp add: pow2_def)

lemma pow2_Suc: "pow2 (k + 1) = 2 * pow2 k"
  by (simp add: pow2_add) (simp add: pow2_def)

lemma ilog_bounds: "1 \<le> n \<Longrightarrow> 2 ^ ilog n \<le> n \<and> n < 2 ^ Suc (ilog n)"
proof (induction n rule: ilog.induct)
  case (1 n)
  show ?case
  proof (cases "n < 2")
    case True
    with "1.prems" show ?thesis by (simp add: ilog.simps)
  next
    case False
    with "1.IH" have "2 ^ ilog (n div 2) \<le> n div 2 \<and> n div 2 < 2 ^ Suc (ilog (n div 2))" by simp
    moreover have "ilog n = Suc (ilog (n div 2))" using False by (subst ilog.simps) simp
    ultimately show ?thesis
      by (simp only: power_Suc) (use zdiv_mono1 [of n n 2] mult_div_mod_eq [of 2 n] pos_mod_bound [of 2 n] in auto)
  qed
qed

lemma ilog_pow2:
  assumes "0 < n"
  shows "pow2 (int (ilog n)) \<le> of_int n \<and> of_int n < pow2 (int (ilog n) + 1)"
proof -
  have b: "2 ^ ilog n \<le> n" "n < 2 ^ Suc (ilog n)" using ilog_bounds [of n] assms by auto
  have "int (ilog n) + 1 = int (Suc (ilog n))" by simp
  then have "pow2 (int (ilog n) + 1) = of_int (2 ^ Suc (ilog n))" by (metis pow2_int nat_int of_nat_0_le_iff)
  moreover have "pow2 (int (ilog n)) = of_int (2 ^ ilog n)" by (simp add: pow2_int)
  ultimately show ?thesis using b by (simp only: of_int_le_iff of_int_less_iff)
qed

lemma ilog2_bounds:
  assumes "0 < a"
  shows "pow2 (ilog2 a) \<le> a \<and> a < pow2 (ilog2 a + 1)"
proof -
  obtain p q where pq: "quotient_of a = (p, q)" by fastforce
  have q: "0 < q" using pq by (rule quotient_of_denom_pos)
  have a: "a = of_int p / of_int q" using pq by (rule quotient_of_div)
  with assms q have p: "0 < p" by (simp add: zero_less_divide_iff)
  define k where "k = int (ilog p) - int (ilog q)"
  have P: "pow2 (int (ilog p)) \<le> of_int p \<and> of_int p < pow2 (int (ilog p) + 1)"
    by (rule ilog_pow2 [OF p])
  have Q: "pow2 (int (ilog q)) \<le> of_int q \<and> of_int q < pow2 (int (ilog q) + 1)"
    by (rule ilog_pow2 [OF q])
  have "pow2 (k - 1) * of_int q < of_int p"
  proof -
    have "pow2 (k - 1) * of_int q < pow2 (k - 1) * pow2 (int (ilog q) + 1)" using Q by simp
    also have "\<dots> = pow2 (int (ilog p))" by (simp add: k_def flip: pow2_add)
    finally show ?thesis using P by simp
  qed
  moreover have "of_int p < pow2 (k + 1) * of_int q"
  proof -
    have "of_int p < pow2 (k + 1) * pow2 (int (ilog q))"
      using P by (simp add: k_def flip: pow2_add)
    also have "\<dots> \<le> pow2 (k + 1) * of_int q" using Q by simp
    finally show ?thesis .
  qed
  ultimately have "pow2 (k - 1) < a \<and> a < pow2 (k + 1)" using q by (simp add: a field_simps)
  then show ?thesis by (auto simp: ilog2_def pq k_def [symmetric] Let_def)
qed

lemma ilog2_ge: "0 < a \<Longrightarrow> n \<le> ilog2 a \<longleftrightarrow> pow2 n \<le> a"
proof -
  assume "0 < a"
  note b = ilog2_bounds [OF this]
  show ?thesis
  proof
    assume "n \<le> ilog2 a"
    with b show "pow2 n \<le> a" using pow2_mono by (meson order_trans)
  next
    assume "pow2 n \<le> a"
    with b have "pow2 n < pow2 (ilog2 a + 1)" by linarith
    then show "n \<le> ilog2 a" by (simp add: pow2_less_iff)
  qed
qed

section \<open>Overflow\<close>

text \<open>Every magnitude from \<open>overflowThreshold\<close> on rounds to an infinity, and no other.\<close>

definition overflowThreshold :: rat where
  "overflowThreshold = pow2 1024 - pow2 970"

definition ulpExp :: "rat \<Rightarrow> int" where
  "ulpExp a = max (ilog2 a - 52) (-1074)"

definition roundedMagnitude :: "rat \<Rightarrow> rat" where
  "roundedMagnitude a = of_int (round_half_even (a / pow2 (ulpExp a))) * pow2 (ulpExp a)"

lemma roundedMagnitude_nonneg: "0 \<le> a \<Longrightarrow> 0 \<le> roundedMagnitude a"
proof -
  assume "0 \<le> a"
  then have "0 \<le> round_half_even (a / pow2 (ulpExp a))"
    by (intro round_half_even_ge) (simp add: divide_nonneg_pos)
  then show ?thesis by (simp add: roundedMagnitude_def)
qed

lemma fl_alt:
  assumes "x \<noteq> 0"
  shows "fl x = (if pow2 1024 \<le> roundedMagnitude \<bar>x\<bar> then None else Some (sgn x * roundedMagnitude \<bar>x\<bar>))"
proof -
  let ?r = "roundedMagnitude \<bar>x\<bar>"
  have r: "0 \<le> ?r" by (simp add: roundedMagnitude_nonneg)
  have a: "\<bar>sgn x * ?r\<bar> = ?r" using assms r by (simp add: abs_mult abs_sgn_eq)
  have "1024 \<le> ilog2 ?r \<and> ?r \<noteq> 0 \<longleftrightarrow> pow2 1024 \<le> ?r"
  proof (cases "?r = 0")
    case True
    then show ?thesis using pow2_pos [of 1024] by simp
  next
    case False
    with r show ?thesis by (simp add: ilog2_ge)
  qed
  moreover have "fl x = (if 1024 \<le> ilog2 \<bar>sgn x * ?r\<bar> \<and> sgn x * ?r \<noteq> 0 then None else Some (sgn x * ?r))"
    using assms by (simp add: fl_def Let_def ulpExp_def roundedMagnitude_def mult.assoc)
  ultimately show ?thesis using assms a by (simp add: sgn_0_0)
qed

lemma ulp_scale: "a / pow2 e * pow2 e = a"
  by simp

lemma roundedMagnitude_ge:
  assumes "of_int n * pow2 (ulpExp a) \<le> a"
  shows "of_int n * pow2 (ulpExp a) \<le> roundedMagnitude a"
proof -
  have "n \<le> round_half_even (a / pow2 (ulpExp a))"
    by (rule round_half_even_ge) (use assms in \<open>simp add: le_divide_eq\<close>)
  then show ?thesis by (simp add: roundedMagnitude_def)
qed

lemma roundedMagnitude_le:
  assumes "a \<le> of_int n * pow2 (ulpExp a)"
  shows "roundedMagnitude a \<le> of_int n * pow2 (ulpExp a)"
proof -
  have "round_half_even (a / pow2 (ulpExp a)) \<le> n"
    by (rule round_half_even_le) (use assms in \<open>simp add: divide_le_eq\<close>)
  then show ?thesis by (simp add: roundedMagnitude_def)
qed

lemma pow2_as_multiple: "0 \<le> j - e \<Longrightarrow> pow2 j = of_int (2 ^ nat (j - e)) * pow2 e"
  by (metis add.commute diff_add_cancel pow2_add pow2_int)

lemma roundedMagnitude_pow2_ge:
  assumes "ulpExp a \<le> j" and "pow2 j \<le> a"
  shows "pow2 j \<le> roundedMagnitude a"
  using roundedMagnitude_ge [of "2 ^ nat (j - ulpExp a)" a] assms pow2_as_multiple [of j "ulpExp a"] by simp

lemma roundedMagnitude_pow2_le:
  assumes "ulpExp a \<le> j" and "a \<le> pow2 j"
  shows "roundedMagnitude a \<le> pow2 j"
  using roundedMagnitude_le [of a "2 ^ nat (j - ulpExp a)"] assms pow2_as_multiple [of j "ulpExp a"] by simp

lemma top_binade:
  assumes "pow2 1023 \<le> a" and "a < pow2 1024"
  shows "pow2 1024 \<le> roundedMagnitude a \<longleftrightarrow> overflowThreshold \<le> a"
proof -
  have "0 < a" using assms(1) pow2_pos [of 1023] by linarith
  then have "1023 \<le> ilog2 a" "\<not> 1024 \<le> ilog2 a" using assms by (simp_all add: ilog2_ge)
  then have e: "ulpExp a = 971" by (simp add: ulpExp_def)
  let ?m = "a / pow2 971"
  have top: "pow2 1024 = of_int (2 ^ 53) * pow2 971" using pow2_as_multiple [of 1024 971] by simp
  have "pow2 971 = 2 * pow2 970" using pow2_Suc [of 970] by simp
  then have th: "overflowThreshold = (of_int (2 ^ 53) - 1/2) * pow2 971"
    by (simp add: overflowThreshold_def top algebra_simps)
  have "pow2 1024 \<le> roundedMagnitude a \<longleftrightarrow> 2 ^ 53 \<le> round_half_even ?m"
    unfolding roundedMagnitude_def e top by (simp only: mult_le_cancel_right_pos [OF pow2_pos] of_int_le_iff)
  also have "\<dots> \<longleftrightarrow> of_int (2 ^ 53) - 1/2 \<le> ?m"
    using round_half_even_ge_even [of "2 ^ 53" ?m] round_half_even_less [of ?m "2 ^ 53"]
    by (cases "of_int (2 ^ 53) - 1/2 \<le> ?m") auto
  also have "\<dots> \<longleftrightarrow> overflowThreshold \<le> a"
    by (simp only: th le_divide_eq pow2_pos if_True)
  finally show ?thesis .
qed

lemma threshold_between: "pow2 1023 \<le> overflowThreshold" "overflowThreshold < pow2 1024"
proof -
  have "pow2 1024 = 2 * pow2 1023" using pow2_Suc [of 1023] by simp
  moreover have "pow2 970 \<le> pow2 1023" by (rule pow2_mono) simp
  ultimately show "pow2 1023 \<le> overflowThreshold" by (simp add: overflowThreshold_def)
  show "overflowThreshold < pow2 1024" by (simp add: overflowThreshold_def)
qed

lemma rounded_overflow: "0 < a \<Longrightarrow> pow2 1024 \<le> roundedMagnitude a \<longleftrightarrow> overflowThreshold \<le> a"
proof -
  assume pos: "0 < a"
  consider (low) "a < pow2 1023" | (top) "pow2 1023 \<le> a" "a < pow2 1024" | (high) "pow2 1024 \<le> a"
    by linarith
  then show ?thesis
  proof cases
    case low
    then have "ilog2 a < 1023" using pos ilog2_ge [of a 1023] by linarith
    then have "ulpExp a \<le> 1023" by (simp add: ulpExp_def)
    then have "roundedMagnitude a \<le> pow2 1023" using low by (intro roundedMagnitude_pow2_le) auto
    moreover have "pow2 1023 < pow2 1024" by (simp only: pow2_less_iff)
    ultimately show ?thesis using low threshold_between(1) by linarith
  next
    case top
    then show ?thesis by (rule top_binade)
  next
    case high
    define l where "l = ilog2 a"
    have l: "1024 \<le> l" using pos high by (simp add: l_def ilog2_ge)
    have "pow2 l \<le> a" using ilog2_bounds [OF pos] by (simp add: l_def)
    then have "pow2 l \<le> roundedMagnitude a" using l
      by (intro roundedMagnitude_pow2_ge) (auto simp: ulpExp_def l_def)
    moreover have "pow2 1024 \<le> pow2 l" using l by (rule pow2_mono)
    ultimately show ?thesis using high threshold_between(2) by linarith
  qed
qed

lemma fl_None_iff: "fl x = None \<longleftrightarrow> overflowThreshold \<le> \<bar>x\<bar>"
proof (cases "x = 0")
  case True
  moreover have "\<not> overflowThreshold \<le> 0" using threshold_between(1) pow2_pos [of 1023] by linarith
  ultimately show ?thesis by simp
next
  case False
  then show ?thesis by (simp add: fl_alt rounded_overflow)
qed

lemma fl_finite_mono: "\<bar>y\<bar> \<le> \<bar>x\<bar> \<Longrightarrow> fl x \<noteq> None \<Longrightarrow> fl y \<noteq> None"
  by (simp add: fl_None_iff)

lemma fl_sign: "fl x = Some r \<Longrightarrow> (0 \<le> x \<longrightarrow> 0 \<le> r) \<and> (x \<le> 0 \<longrightarrow> r \<le> 0)"
proof (cases "x = 0")
  case False
  assume "fl x = Some r"
  with False have "r = sgn x * roundedMagnitude \<bar>x\<bar>" by (auto simp: fl_alt split: if_splits)
  then show ?thesis using roundedMagnitude_nonneg [of "\<bar>x\<bar>"] False
    by (auto simp: sgn_if zero_le_mult_iff mult_le_0_iff)
qed simp

section \<open>Exactly represented numbers\<close>

lemma fl_exact:
  assumes "\<bar>x\<bar> = of_int n * pow2 (ulpExp \<bar>x\<bar>)" and "\<bar>x\<bar> < overflowThreshold"
  shows "fl x = Some x"
proof (cases "x = 0")
  case False
  have "\<bar>x\<bar> / pow2 (ulpExp \<bar>x\<bar>) = of_int n" by (subst assms(1)) simp
  then have "roundedMagnitude \<bar>x\<bar> = \<bar>x\<bar>" using assms(1) by (simp add: roundedMagnitude_def)
  moreover have "fl x \<noteq> None" using assms(2) by (simp add: fl_None_iff)
  ultimately show ?thesis using False by (auto simp: fl_alt sgn_mult_abs split: if_splits)
qed simp

lemma fl_dyadic:
  assumes n: "\<bar>n\<bar> \<le> 2 ^ 53" and k: "-1074 \<le> k" "k \<le> 900"
  shows "fl (of_int n * pow2 k) = Some (of_int n * pow2 k)"
proof (cases "n = 0")
  case False
  let ?a = "of_int \<bar>n\<bar> * pow2 k"
  have abs: "\<bar>of_int n * pow2 k\<bar> = ?a" by (simp add: abs_mult)
  have pos: "0 < ?a" using False by simp
  have "?a \<le> of_int (2 ^ 53) * pow2 k" using n by (intro mult_right_mono) (simp_all only: of_int_le_iff pow2_pos less_imp_le)
  also have "\<dots> = pow2 (53 + k)" by (simp add: pow2_add pow2_int)
  finally have le: "?a \<le> pow2 (53 + k)" .
  have "pow2 (53 + k) \<le> pow2 953" using k by (intro pow2_mono) simp
  moreover have "pow2 953 < pow2 1023" by (simp only: pow2_less_iff)
  ultimately have small: "?a < overflowThreshold" using le threshold_between(1) by linarith
  have "\<exists>m. ?a = of_int m * pow2 (ulpExp ?a)"
  proof (cases "ulpExp ?a \<le> k")
    case True
    then have "?a = of_int (\<bar>n\<bar> * 2 ^ nat (k - ulpExp ?a)) * pow2 (ulpExp ?a)"
      using pow2_as_multiple [of k "ulpExp ?a"] by simp
    then show ?thesis by blast
  next
    case False
    then have "53 + k \<le> ilog2 ?a" using k by (simp add: ulpExp_def)
    then have "pow2 (53 + k) \<le> ?a" using pos by (simp only: ilog2_ge)
    with le have eq: "?a = pow2 (53 + k)" by linarith
    have "ilog2 ?a \<le> 53 + k"
    proof (rule ccontr)
      assume "\<not> ?thesis"
      then have "pow2 (53 + k + 1) \<le> ?a" using pos by (simp only: ilog2_ge [symmetric])
      then show False unfolding eq by (simp only: pow2_le_iff)
    qed
    then have "ulpExp ?a \<le> 53 + k" using k by (simp add: ulpExp_def)
    then show ?thesis using eq pow2_as_multiple [of "53 + k" "ulpExp ?a"] by (metis diff_ge_0_iff_ge)
  qed
  then obtain m where "?a = of_int m * pow2 (ulpExp ?a)" by blast
  then show ?thesis using small unfolding abs [symmetric] by (rule fl_exact)
qed simp

lemma fl_of_int: "\<bar>n\<bar> \<le> 2 ^ 53 \<Longrightarrow> fl (of_int n) = Some (of_int n)"
  using fl_dyadic [of n 0] by (simp add: pow2_def)

end
