(* ===== verification/Portfolio.thy ===== *)
theory Portfolio
  imports Trading StateErrors Binary64
begin

text \<open>
  The portfolio of a simulated trader (\<^verbatim>\<open>packages/local-compute/src/portfolio-tracker.ts\<close>).
  Every arithmetic operation on prices and money is rounded by the parameter \<open>rnd\<close>: the program's
  arithmetic is \<open>rnd = fl\<close>, exact arithmetic is \<open>rnd = Some\<close>. A number that is not finite is
  \<open>None\<close>; no operation of this file leads from one back to a finite number, so that the checks of
  \<^verbatim>\<open>Number.isFinite\<close> at the end of a computation see every overflow in it. Cash, bases
  and prices kept in a state are finite by their type.
\<close>

section \<open>Arithmetic\<close>

type_synonym rounding = "rat \<Rightarrow> rat option"

definition nadd :: "rounding \<Rightarrow> rat option \<Rightarrow> rat option \<Rightarrow> rat option" where
  "nadd rnd a b = Option.bind a (\<lambda>x. Option.bind b (\<lambda>y. rnd (x + y)))"

definition nsub :: "rounding \<Rightarrow> rat option \<Rightarrow> rat option \<Rightarrow> rat option" where
  "nsub rnd a b = Option.bind a (\<lambda>x. Option.bind b (\<lambda>y. rnd (x - y)))"

definition nmul :: "rounding \<Rightarrow> rat option \<Rightarrow> rat option \<Rightarrow> rat option" where
  "nmul rnd a b = Option.bind a (\<lambda>x. Option.bind b (\<lambda>y. rnd (x * y)))"

text \<open>Division by a number that is not zero.\<close>

definition ndiv :: "rounding \<Rightarrow> rat option \<Rightarrow> rat \<Rightarrow> rat option" where
  "ndiv rnd a b = Option.bind a (\<lambda>x. rnd (x / b))"

text \<open>\<^verbatim>\<open>Math.max(0, a - b)\<close>: a negative difference counts as 0, also when it overflows.\<close>

definition excess :: "rounding \<Rightarrow> rat \<Rightarrow> rat \<Rightarrow> rat option" where
  "excess rnd a b = (if a \<le> b then Some 0 else rnd (a - b))"

section \<open>State\<close>

record PortfolioTracker =
  currentCash :: rat
  currentPosition :: int
  totalCostBasis :: rat
  currentRealizedPnL :: rat
  peakPortfolioValue :: rat
  currentMaxDrawdown :: rat
  fillsHistory :: "OrderFill list"
  riskLimits :: PositionRiskLimits

record PortfolioSnapshot =
  psCash :: rat
  psPosition :: int
  psRealizedPnL :: rat
  psUnrealizedPnL :: rat
  psTotalPnL :: rat
  psPortfolioValue :: rat
  psAverageCostBasis :: rat
  psMaxDrawdown :: rat
  psTradeCount :: nat

text \<open>\<open>NotFinite\<close> and \<open>PositionUnsafe\<close> are the \<^verbatim>\<open>RangeError\<close>s.\<close>

datatype PortfolioError =
    InvalidRiskLimits | InvalidPortfolioFill | NotFinite string | PositionUnsafe
  | InvalidPortfolioCheckpoint string

fun isRangeError :: "PortfolioError \<Rightarrow> bool" where
  "isRangeError (NotFinite _) = True"
| "isRangeError PositionUnsafe = True"
| "isRangeError _ = False"

type_synonym PortfolioTrackerCheckpoint = PortfolioTracker

type_synonym 'a portfolio_action = "(PortfolioTracker, PortfolioError, 'a) action"

definition finiteOr :: "string \<Rightarrow> rat option \<Rightarrow> (PortfolioError, rat) result" where
  "finiteOr label x = (case x of None \<Rightarrow> Inl (NotFinite label) | Some y \<Rightarrow> Inr y)"

definition newPortfolioTracker :: "rat \<Rightarrow> PartialRiskLimits \<Rightarrow> (PortfolioError, PortfolioTracker) result" where
  "newPortfolioTracker initialCash limits =
     (case PositionRiskLimitsSchema limits of
        None \<Rightarrow> Inl InvalidRiskLimits
      | Some l \<Rightarrow>
          Inr \<lparr> currentCash = initialCash, currentPosition = 0, totalCostBasis = 0,
                currentRealizedPnL = 0, peakPortfolioValue = initialCash, currentMaxDrawdown = 0,
                fillsHistory = [], riskLimits = l \<rparr>)"

section \<open>Fills\<close>

text \<open>The next cash, position, cost basis and realized profit.\<close>

definition nextAccounts :: "rounding \<Rightarrow> OrderFill \<Rightarrow> rat \<Rightarrow> PortfolioTracker \<Rightarrow> rat option \<times> int \<times> rat option \<times> rat option" where
  "nextAccounts rnd fill notional p =
     (let pos = currentPosition p; size1 = int (fillSize fill); price = Some (fillPrice fill);
          cash = Some (currentCash p); cost = Some (totalCostBasis p); real1 = Some (currentRealizedPnL p)
      in if fillSide fill = BUY then
           let nextCash = nsub rnd cash (Some notional) in
           if 0 \<le> pos then (nextCash, pos + size1, nadd rnd cost (Some notional), real1)
           else
             let coverSize = min size1 \<bar>pos\<bar>;
                 avgShortPrice = ndiv rnd cost (of_int \<bar>pos\<bar>);
                 pnl = nmul rnd (nsub rnd avgShortPrice price) (Some (of_int coverSize));
                 nextPosition = pos + size1
             in (nextCash, nextPosition,
                 if nextPosition < 0 then nmul rnd avgShortPrice (Some (of_int \<bar>nextPosition\<bar>))
                 else nmul rnd (Some (of_int (size1 - coverSize))) price,
                 nadd rnd real1 pnl)
         else
           let nextCash = nadd rnd cash (Some notional) in
           if pos \<le> 0 then (nextCash, pos - size1, nadd rnd cost (Some notional), real1)
           else
             let closeSize = min size1 pos;
                 avgLongPrice = ndiv rnd cost (of_int pos);
                 pnl = nmul rnd (nsub rnd price avgLongPrice) (Some (of_int closeSize));
                 nextPosition = pos - size1
             in (nextCash, nextPosition,
                 if 0 < nextPosition then nmul rnd avgLongPrice (Some (of_int nextPosition))
                 else nmul rnd (Some (of_int (size1 - closeSize))) price,
                 nadd rnd real1 pnl))"

definition applyFill :: "rounding \<Rightarrow> OrderFill \<Rightarrow> PortfolioTracker \<Rightarrow> (PortfolioError, PortfolioTracker) result" where
  "applyFill rnd fill p =
     bindE (guardE (OrderFillSchema fill) InvalidPortfolioFill) (\<lambda>_.
     bindE (finiteOr ''notional'' (rnd (fillPrice fill * of_nat (fillSize fill)))) (\<lambda>notional.
     case nextAccounts rnd fill notional p of
       (nextCash, nextPosition, nextCostBasis, nextRealizedPnL) \<Rightarrow>
         bindE (guardE (isSafeInteger nextPosition) PositionUnsafe) (\<lambda>_.
         bindE (finiteOr ''cash'' nextCash) (\<lambda>c.
         bindE (finiteOr ''cost basis'' nextCostBasis) (\<lambda>b.
         bindE (finiteOr ''realized PnL'' nextRealizedPnL) (\<lambda>q.
         Inr (p\<lparr> currentCash := c, currentPosition := nextPosition, totalCostBasis := b,
                 currentRealizedPnL := q, fillsHistory := fillsHistory p @ [fill] \<rparr>)))))))"

section \<open>Valuation\<close>

definition getUnrealizedPnL :: "rounding \<Rightarrow> rat \<Rightarrow> PortfolioTracker \<Rightarrow> (PortfolioError, rat) result" where
  "getUnrealizedPnL rnd mark p =
     (let pos = currentPosition p in
      if pos = 0 then Inr 0
      else
        let avgCost = ndiv rnd (Some (totalCostBasis p)) (of_int \<bar>pos\<bar>)
        in finiteOr ''unrealized PnL''
             (if 0 < pos then nmul rnd (nsub rnd (Some mark) avgCost) (Some (of_int pos))
              else nmul rnd (nsub rnd avgCost (Some mark)) (Some (of_int \<bar>pos\<bar>))))"

definition getTotalPnL :: "rounding \<Rightarrow> rat \<Rightarrow> PortfolioTracker \<Rightarrow> (PortfolioError, rat) result" where
  "getTotalPnL rnd mark p =
     bindE (getUnrealizedPnL rnd mark p) (\<lambda>u. finiteOr ''total PnL'' (rnd (currentRealizedPnL p + u)))"

definition getPortfolioValue :: "rounding \<Rightarrow> rat \<Rightarrow> PortfolioTracker \<Rightarrow> (PortfolioError, rat) result" where
  "getPortfolioValue rnd mark p =
     finiteOr ''portfolio value''
       (nadd rnd (Some (currentCash p)) (nmul rnd (Some (of_int (currentPosition p))) (Some mark)))"

definition getSnapshot :: "rounding \<Rightarrow> rat \<Rightarrow> PortfolioTracker \<Rightarrow> (PortfolioError, PortfolioSnapshot) result" where
  "getSnapshot rnd mark p =
     bindE (getPortfolioValue rnd mark p) (\<lambda>v.
     bindE (getUnrealizedPnL rnd mark p) (\<lambda>u.
     bindE (finiteOr ''snapshot''
              (if currentPosition p \<noteq> 0
               then ndiv rnd (Some (totalCostBasis p)) (of_int \<bar>currentPosition p\<bar>) else Some 0)) (\<lambda>avgCost.
     bindE (finiteOr ''snapshot'' (rnd (currentRealizedPnL p + u))) (\<lambda>totalPnL.
     Inr \<lparr> psCash = currentCash p, psPosition = currentPosition p,
           psRealizedPnL = currentRealizedPnL p, psUnrealizedPnL = u, psTotalPnL = totalPnL,
           psPortfolioValue = v, psAverageCostBasis = avgCost,
           psMaxDrawdown = currentMaxDrawdown p, psTradeCount = length (fillsHistory p) \<rparr>))))"

definition updateMarkPrice :: "rounding \<Rightarrow> rat \<Rightarrow> PortfolioSnapshot portfolio_action" where
  "updateMarkPrice rnd mark =
     bindS (\<lambda>p. (getPortfolioValue rnd mark p, p)) (\<lambda>v.
     bindS (modifyS (\<lambda>p. if peakPortfolioValue p < v then p\<lparr> peakPortfolioValue := v \<rparr> else p)) (\<lambda>_.
     bindS (\<lambda>p. (finiteOr ''drawdown'' (excess rnd (peakPortfolioValue p) v), p)) (\<lambda>drawdown.
     bindS (modifyS (\<lambda>p. if currentMaxDrawdown p < drawdown then p\<lparr> currentMaxDrawdown := drawdown \<rparr> else p)) (\<lambda>_.
     (\<lambda>p. (getSnapshot rnd mark p, p))))))"

section \<open>Risk limits\<close>

text \<open>The texts of the reasons print the two numbers each of these carries.\<close>

datatype RiskReason =
    PositionExceeds int nat
  | LossBreached rat rat
  | DrawdownBreached rat rat

definition checkRiskLimits :: "rounding \<Rightarrow> rat \<Rightarrow> PortfolioTracker \<Rightarrow> (PortfolioError, RiskReason option) result" where
  "checkRiskLimits rnd mark p =
     (let l = riskLimits p in
      if int (maxPosition l) < \<bar>currentPosition p\<bar>
      then Inr (Some (PositionExceeds (currentPosition p) (maxPosition l)))
      else
        bindE (getTotalPnL rnd mark p) (\<lambda>totalPnL.
        if totalPnL < - stopLossThreshold l
        then Inr (Some (LossBreached totalPnL (stopLossThreshold l)))
        else
          bindE (getPortfolioValue rnd mark p) (\<lambda>v.
          bindE (finiteOr ''drawdown'' (excess rnd (peakPortfolioValue p) v)) (\<lambda>drawdown.
          if limitMaxDrawdown l < drawdown
          then Inr (Some (DrawdownBreached drawdown (limitMaxDrawdown l)))
          else Inr None))))"

section \<open>Checkpoints\<close>

definition checkpointPortfolio :: "PortfolioTracker \<Rightarrow> PortfolioTrackerCheckpoint" where
  "checkpointPortfolio p =
     \<lparr> currentCash = currentCash p, currentPosition = currentPosition p,
       totalCostBasis = totalCostBasis p, currentRealizedPnL = currentRealizedPnL p,
       peakPortfolioValue = peakPortfolioValue p, currentMaxDrawdown = currentMaxDrawdown p,
       fillsHistory = fillsHistory p, riskLimits = riskLimits p \<rparr>"

text \<open>The risk limits are read-only and no part of a checkpoint.\<close>

definition restorePortfolio :: "PortfolioTrackerCheckpoint \<Rightarrow> unit portfolio_action" where
  "restorePortfolio c =
     bindS (guardS (isSafeInteger (currentPosition c)) (InvalidPortfolioCheckpoint ''position'')) (\<lambda>_.
     bindS (guardS (0 \<le> currentMaxDrawdown c) (InvalidPortfolioCheckpoint ''max drawdown'')) (\<lambda>_.
     bindS (modifyS (\<lambda>p. p\<lparr> currentCash := currentCash c, currentPosition := currentPosition c,
                             totalCostBasis := totalCostBasis c,
                             currentRealizedPnL := currentRealizedPnL c,
                             peakPortfolioValue := peakPortfolioValue c,
                             currentMaxDrawdown := currentMaxDrawdown c \<rparr>)) (\<lambda>_.
     bindS (guardS (list_all OrderFillSchema (fillsHistory c)) InvalidPortfolioFill) (\<lambda>_.
     modifyS (\<lambda>p. p\<lparr> fillsHistory := fillsHistory c \<rparr>)))))"

definition applyFillS :: "rounding \<Rightarrow> OrderFill \<Rightarrow> unit portfolio_action" where
  "applyFillS rnd fill =
     (\<lambda>p. case applyFill rnd fill p of Inl e \<Rightarrow> (Inl e, p) | Inr p' \<Rightarrow> (Inr (), p'))"

text \<open>\<^verbatim>\<open>try ... finally\<close>: the state is restored on every path.\<close>

definition assertPotentialFillArithmetic :: "rounding \<Rightarrow> OrderFill \<Rightarrow> rat \<Rightarrow> unit portfolio_action" where
  "assertPotentialFillArithmetic rnd fill mark =
     (\<lambda>p. case bindS (applyFillS rnd fill) (\<lambda>_. bindS (updateMarkPrice rnd mark) (\<lambda>_. returnS ())) p of
        (res, p') \<Rightarrow> bindS (restorePortfolio (checkpointPortfolio p)) (\<lambda>_. liftS res) p')"

end
