(* ===== verification/PortfolioFacts.thy ===== *)
theory PortfolioFacts
  imports Portfolio
begin

text \<open>
  Facts on the portfolio: the position is the signed sum of the fills under every rounding, the
  books balance under exact arithmetic (and so whenever rounding changes nothing), a preview of a
  fill leaves the portfolio as it was, and peaks and drawdowns only grow.
\<close>

section \<open>Positions\<close>

definition signedSize :: "OrderFill \<Rightarrow> int" where
  "signedSize f = (if fillSide f = BUY then int (fillSize f) else - int (fillSize f))"

lemma nextAccounts_position: "fst (snd (nextAccounts rnd f n p)) = currentPosition p + signedSize f"
  by (simp add: nextAccounts_def Let_def signedSize_def)

lemma finiteOr_Inr [simp]: "finiteOr l x = Inr y \<longleftrightarrow> x = Some y"
  by (auto simp: finiteOr_def split: option.splits)

lemma finiteOr_Some [simp]: "finiteOr l (Some x) = Inr x"
  by (simp add: finiteOr_def)

lemma applyFill_Inr:
  assumes "applyFill rnd f p = Inr p'"
  obtains n c b q where "rnd (fillPrice f * of_nat (fillSize f)) = Some n"
    and "nextAccounts rnd f n p = (Some c, currentPosition p + signedSize f, Some b, Some q)"
    and "isSafeInteger (currentPosition p + signedSize f)" and "OrderFillSchema f"
    and "p' = p\<lparr> currentCash := c, currentPosition := currentPosition p + signedSize f, totalCostBasis := b,
             currentRealizedPnL := q, fillsHistory := fillsHistory p @ [f] \<rparr>"
proof -
  from assms obtain n where n: "rnd (fillPrice f * of_nat (fillSize f)) = Some n" and v: "OrderFillSchema f"
    by (auto simp: applyFill_def bindE_eq_Inr guardE_eq_Inr)
  obtain cc np bb qq where tuple: "nextAccounts rnd f n p = (cc, np, bb, qq)" by (metis prod_cases4)
  from assms obtain c b q where acc: "nextAccounts rnd f n p = (Some c, np, Some b, Some q)"
    and ok: "isSafeInteger np" "OrderFillSchema f"
    and p': "p' = p\<lparr> currentCash := c, currentPosition := np, totalCostBasis := b,
             currentRealizedPnL := q, fillsHistory := fillsHistory p @ [f] \<rparr>"
    by (auto simp: applyFill_def n v tuple bindE_eq_Inr guardE_eq_Inr)
  have "np = currentPosition p + signedSize f"
    using nextAccounts_position [of rnd f n p] acc by simp
  with n acc ok p' that show thesis by simp
qed

definition applyFills :: "rounding \<Rightarrow> OrderFill list \<Rightarrow> PortfolioTracker \<Rightarrow> (PortfolioError, PortfolioTracker) result" where
  "applyFills rnd fs p = foldE (\<lambda>q f. applyFill rnd f q) p fs"

definition netSize :: "OrderFill list \<Rightarrow> int" where
  "netSize fs = sum_list (map signedSize fs)"

lemma applyFills_position:
  "applyFills rnd fs p = Inr p' \<Longrightarrow>
     currentPosition p' = currentPosition p + netSize fs \<and> fillsHistory p' = fillsHistory p @ fs
     \<and> riskLimits p' = riskLimits p \<and> currentMaxDrawdown p' = currentMaxDrawdown p
     \<and> (isSafeInteger (currentPosition p) \<longrightarrow> isSafeInteger (currentPosition p'))"
proof (induction fs arbitrary: p)
  case Nil
  then show ?case by (simp add: applyFills_def netSize_def)
next
  case (Cons f fs)
  then obtain q where q: "applyFill rnd f p = Inr q" and r: "applyFills rnd fs q = Inr p'"
    by (auto simp: applyFills_def bindE_eq_Inr)
  from q show ?case
  proof (rule applyFill_Inr)
    fix n c b d
    assume "isSafeInteger (currentPosition p + signedSize f)"
      "q = p\<lparr> currentCash := c, currentPosition := currentPosition p + signedSize f, totalCostBasis := b,
             currentRealizedPnL := d, fillsHistory := fillsHistory p @ [f] \<rparr>"
    with Cons.IH [OF r] show ?thesis by (auto simp: netSize_def)
  qed
qed

section \<open>Balance\<close>

text \<open>
  Cash and the cost of the open position make up the initial cash and the realized profit.
\<close>

definition balanced :: "rat \<Rightarrow> PortfolioTracker \<Rightarrow> bool" where
  "balanced i p =
     (currentCash p + of_int (sgn (currentPosition p)) * totalCostBasis p = i + currentRealizedPnL p
      \<and> (currentPosition p = 0 \<longrightarrow> totalCostBasis p = 0))"

lemmas exact_arithmetic = nadd_def nsub_def nmul_def ndiv_def

lemma balanced_applyFill:
  assumes "balanced i p" and "applyFill Some f p = Inr p'"
  shows "balanced i p'"
  using assms(2)
proof (rule applyFill_Inr)
  fix n c b q
  assume n: "Some (fillPrice f * of_nat (fillSize f)) = Some n"
    and acc: "nextAccounts Some f n p = (Some c, currentPosition p + signedSize f, Some b, Some q)"
    and valid: "OrderFillSchema f"
    and p': "p' = p\<lparr> currentCash := c, currentPosition := currentPosition p + signedSize f, totalCostBasis := b,
             currentRealizedPnL := q, fillsHistory := fillsHistory p @ [f] \<rparr>"
  let ?pos = "currentPosition p" and ?s = "int (fillSize f)"
  have s: "0 < ?s" using valid by (simp add: OrderFillSchema_def PositiveSafeInteger_def)
  have rs: "(of_int ?s :: rat) = of_nat (fillSize f)" by simp
  have n': "n = fillPrice f * of_int ?s" using n by simp
  consider (buy_long) "fillSide f = BUY" "0 \<le> ?pos" | (buy_short) "fillSide f = BUY" "?pos < 0"
    | (sell_short) "fillSide f = SELL" "?pos \<le> 0" | (sell_long) "fillSide f = SELL" "0 < ?pos"
    by (cases "fillSide f"; cases "?pos < 0"; cases "0 < ?pos") auto
  then show ?thesis
  proof cases
    case buy_long
    then show ?thesis
      using assms(1) acc s n'
      by (cases "?pos = 0")
        (auto simp: nextAccounts_def exact_arithmetic Let_def balanced_def p' signedSize_def)
  next
    case buy_short
    have c: "c = currentCash p - n" and b: "b = (if ?pos + ?s < 0 then totalCostBasis p / of_int \<bar>?pos\<bar> * of_int \<bar>?pos + ?s\<bar>
          else of_int (?s - min ?s \<bar>?pos\<bar>) * fillPrice f)"
      and q: "q = currentRealizedPnL p + (totalCostBasis p / of_int \<bar>?pos\<bar> - fillPrice f) * of_int (min ?s \<bar>?pos\<bar>)"
      using acc buy_short by (auto simp: nextAccounts_def exact_arithmetic Let_def split: if_splits)
    have base: "currentCash p - totalCostBasis p = i + currentRealizedPnL p"
      using assms(1) buy_short by (simp add: balanced_def)
    show ?thesis
    proof (cases "?pos + ?s < 0")
      case True
      then have m: "min ?s \<bar>?pos\<bar> = ?s" by simp
      have "totalCostBasis p / of_int \<bar>?pos\<bar> * of_int \<bar>?pos + ?s\<bar> + totalCostBasis p / of_int \<bar>?pos\<bar> * of_int ?s = totalCostBasis p"
        using True buy_short by (simp add: field_simps flip: of_int_add)
      then show ?thesis using base True buy_short
        by (simp add: balanced_def p' signedSize_def c b q m n' algebra_simps)
    next
      case False
      then have m: "min ?s \<bar>?pos\<bar> = - ?pos" using buy_short by simp
      have "totalCostBasis p / of_int \<bar>?pos\<bar> * of_int (- ?pos) = totalCostBasis p" using buy_short by simp
      note cost = this
      show ?thesis
      proof (cases "?pos + ?s = 0")
        case True
        then have "?s = - ?pos" by simp
        then have sz: "rat_of_nat (fillSize f) = - of_int ?pos" by (metis of_int_minus of_int_of_nat_eq)
        show ?thesis using base cost True buy_short
          unfolding balanced_def p' signedSize_def c b q m n' by (simp add: sz algebra_simps)
      next
        case False
        with \<open>\<not> ?pos + ?s < 0\<close> show ?thesis using base cost buy_short
          unfolding balanced_def p' signedSize_def c b q m n' by (simp add: algebra_simps)
      qed
    qed
  next
    case sell_short
    then show ?thesis
      using assms(1) acc s n'
      by (cases "?pos = 0")
        (auto simp: nextAccounts_def exact_arithmetic Let_def balanced_def p' signedSize_def)
  next
    case sell_long
    have c: "c = currentCash p + n" and b: "b = (if 0 < ?pos - ?s then totalCostBasis p / of_int ?pos * of_int (?pos - ?s)
          else of_int (?s - min ?s ?pos) * fillPrice f)"
      and q: "q = currentRealizedPnL p + (fillPrice f - totalCostBasis p / of_int ?pos) * of_int (min ?s ?pos)"
      using acc sell_long by (auto simp: nextAccounts_def exact_arithmetic Let_def split: if_splits)
    have base: "currentCash p + totalCostBasis p = i + currentRealizedPnL p"
      using assms(1) sell_long by (simp add: balanced_def)
    show ?thesis
    proof (cases "0 < ?pos - ?s")
      case True
      then have m: "min ?s ?pos = ?s" by simp
      have "totalCostBasis p / of_int ?pos * of_int (?pos - ?s) + totalCostBasis p / of_int ?pos * of_int ?s = totalCostBasis p"
        using sell_long by (simp add: field_simps)
      then show ?thesis using base True sell_long
        by (simp add: balanced_def p' signedSize_def c b q m n' algebra_simps)
    next
      case False
      then have m: "min ?s ?pos = ?pos" by simp
      have "totalCostBasis p / of_int ?pos * of_int ?pos = totalCostBasis p" using sell_long by simp
      then show ?thesis using base False sell_long
        by (cases "?pos - ?s = 0") (simp_all add: balanced_def p' signedSize_def c b q m n' algebra_simps)
    qed
  qed
qed

lemma balanced_applyFills: "balanced i p \<Longrightarrow> applyFills Some fs p = Inr p' \<Longrightarrow> balanced i p'"
  by (induction fs arbitrary: p) (auto simp: applyFills_def bindE_eq_Inr intro: balanced_applyFill)

lemma balanced_value:
  assumes "balanced i p"
  shows "\<exists>v t. getPortfolioValue Some m p = Inr v \<and> getTotalPnL Some m p = Inr t \<and> v = i + t"
proof -
  let ?pos = "currentPosition p" and ?c = "totalCostBasis p"
  let ?u = "if ?pos = 0 then 0 else if 0 < ?pos then (m - ?c / of_int \<bar>?pos\<bar>) * of_int ?pos
            else (?c / of_int \<bar>?pos\<bar> - m) * of_int \<bar>?pos\<bar>"
  have v: "getPortfolioValue Some m p = Inr (currentCash p + of_int ?pos * m)"
    and t: "getTotalPnL Some m p = Inr (currentRealizedPnL p + ?u)"
    by (simp_all add: getPortfolioValue_def getTotalPnL_def getUnrealizedPnL_def exact_arithmetic Let_def)
  have "?u = m * of_int ?pos - of_int (sgn ?pos) * ?c"
    by (cases "?pos = 0"; cases "0 < ?pos") (simp_all add: left_diff_distrib)
  then show ?thesis using assms v t by (simp add: balanced_def algebra_simps)
qed

lemma balanced_snapshot:
  assumes "balanced i p" and "getSnapshot Some m p = Inr s"
  shows "psPortfolioValue s = i + psTotalPnL s"
proof -
  obtain v t where "getPortfolioValue Some m p = Inr v" "getTotalPnL Some m p = Inr t" "v = i + t"
    using balanced_value [OF assms(1)] by blast
  then show ?thesis using assms(2)
    by (auto simp: getSnapshot_def getTotalPnL_def bindE_eq_Inr)
qed

lemma newPortfolioTracker_Inr:
  assumes "newPortfolioTracker i l = Inr p"
  shows "balanced i p \<and> currentPosition p = 0 \<and> fillsHistory p = [] \<and> currentMaxDrawdown p = 0
    \<and> currentCash p = i \<and> peakPortfolioValue p = i \<and> totalCostBasis p = 0"
  using assms by (auto simp: newPortfolioTracker_def balanced_def split: option.splits)

section \<open>Peaks, drawdowns and previews\<close>

definition portfolio_wf :: "PortfolioTracker \<Rightarrow> bool" where
  "portfolio_wf p =
     (isSafeInteger (currentPosition p) \<and> 0 \<le> currentMaxDrawdown p \<and> list_all OrderFillSchema (fillsHistory p))"

text \<open>What marking to a price may change.\<close>

definition remarked :: "PortfolioTracker \<Rightarrow> PortfolioTracker \<Rightarrow> bool" where
  "remarked p p' =
     (p' = p\<lparr> peakPortfolioValue := peakPortfolioValue p', currentMaxDrawdown := currentMaxDrawdown p' \<rparr>
      \<and> peakPortfolioValue p \<le> peakPortfolioValue p' \<and> currentMaxDrawdown p \<le> currentMaxDrawdown p')"

lemma getSnapshot_fields:
  "getSnapshot rnd m p = Inr s \<Longrightarrow>
     psPosition s = currentPosition p \<and> psCash s = currentCash p \<and> psMaxDrawdown s = currentMaxDrawdown p
     \<and> getPortfolioValue rnd m p = Inr (psPortfolioValue s) \<and> getTotalPnL rnd m p = Inr (psTotalPnL s)
     \<and> psTradeCount s = length (fillsHistory p) \<and> psRealizedPnL s = currentRealizedPnL p"
  by (auto simp: getSnapshot_def getTotalPnL_def bindE_eq_Inr)

lemma getPortfolioValue_peak [simp]:
  "getPortfolioValue rnd m (p\<lparr> peakPortfolioValue := x \<rparr>) = getPortfolioValue rnd m p"
  "getPortfolioValue rnd m (p\<lparr> currentMaxDrawdown := x \<rparr>) = getPortfolioValue rnd m p"
  by (simp_all add: getPortfolioValue_def)

lemma updateMarkPrice_spec:
  assumes "updateMarkPrice rnd m p = (res, p')"
  shows "remarked p p' \<and>
    (\<forall>s. res = Inr s \<longrightarrow> getSnapshot rnd m p' = Inr s \<and> psPortfolioValue s \<le> peakPortfolioValue p'
        \<and> (\<exists>d. excess rnd (peakPortfolioValue p') (psPortfolioValue s) = Some d \<and> d \<le> currentMaxDrawdown p'))"
proof (cases "getPortfolioValue rnd m p")
  case (Inl e)
  then show ?thesis using assms by (auto simp: updateMarkPrice_def bindS_def remarked_def)
next
  case (Inr v)
  define q where "q = (if peakPortfolioValue p < v then p\<lparr> peakPortfolioValue := v \<rparr> else p)"
  have q: "remarked p q" "v \<le> peakPortfolioValue q" "getPortfolioValue rnd m q = Inr v"
    using Inr by (auto simp: q_def remarked_def)
  show ?thesis
  proof (cases "excess rnd (peakPortfolioValue q) v")
    case None
    then have "p' = q" "res = Inl (NotFinite ''drawdown'')"
      using assms Inr by (auto simp: updateMarkPrice_def bindS_def q_def finiteOr_def)
    then show ?thesis using q by simp
  next
    case (Some d)
    define w where "w = (if currentMaxDrawdown q < d then q\<lparr> currentMaxDrawdown := d \<rparr> else q)"
    have pw: "p' = w" "res = getSnapshot rnd m w"
      using assms Inr Some by (auto simp: updateMarkPrice_def bindS_def q_def w_def finiteOr_def)
    have "remarked p w" "peakPortfolioValue w = peakPortfolioValue q" "d \<le> currentMaxDrawdown w"
      "getPortfolioValue rnd m w = Inr v"
      using q(1,3) by (cases p, cases q, auto simp: w_def remarked_def)+
    then show ?thesis using pw q(2) Some by (auto dest: getSnapshot_fields)
  qed
qed

lemma restorePortfolio_wf:
  assumes "portfolio_wf c" and "riskLimits q = riskLimits c"
  shows "restorePortfolio (checkpointPortfolio c) q = (Inr (), c)"
  using assms by (cases c, cases q)
    (simp add: restorePortfolio_def checkpointPortfolio_def portfolio_wf_def)

lemma remarked_riskLimits: "remarked p p' \<Longrightarrow> riskLimits p' = riskLimits p"
  unfolding remarked_def by (cases p, cases p') auto

lemma remarked_fields:
  "remarked p p' \<Longrightarrow> currentCash p' = currentCash p \<and> currentPosition p' = currentPosition p
     \<and> totalCostBasis p' = totalCostBasis p \<and> currentRealizedPnL p' = currentRealizedPnL p
     \<and> fillsHistory p' = fillsHistory p \<and> riskLimits p' = riskLimits p"
  unfolding remarked_def by (cases p, cases p') auto

lemma applyFillS_riskLimits: "riskLimits (snd (applyFillS rnd f p)) = riskLimits p"
  by (auto simp: applyFillS_def split: sum.splits elim: applyFill_Inr)

lemma preview_restores:
  assumes "portfolio_wf p"
  shows "snd (assertPotentialFillArithmetic rnd f m p) = p"
proof -
  obtain res p' where run: "bindS (applyFillS rnd f) (\<lambda>_. bindS (updateMarkPrice rnd m) (\<lambda>_. returnS ())) p = (res, p')"
    by fastforce
  have "riskLimits p' = riskLimits p"
    using run applyFillS_riskLimits [of rnd f p] updateMarkPrice_spec remarked_riskLimits
    by (fastforce simp: bindS_def split: prod.splits sum.splits)
  then show ?thesis
    unfolding assertPotentialFillArithmetic_def run using restorePortfolio_wf [OF assms]
    by (simp add: bindS_def)
qed

lemma portfolio_wf_applyFill: "portfolio_wf p \<Longrightarrow> applyFill rnd f p = Inr p' \<Longrightarrow> portfolio_wf p'"
  by (auto simp: portfolio_wf_def elim!: applyFill_Inr)

lemma portfolio_wf_remarked: "portfolio_wf p \<Longrightarrow> remarked p p' \<Longrightarrow> portfolio_wf p'"
  using remarked_fields [of p p'] by (auto simp: portfolio_wf_def remarked_def)

section \<open>Properties\<close>

text \<open>
Property C33. The books balance. From a fresh portfolio the position is the signed sum of the fills and
  every fill is on record, under any rounding of the money amounts; and when rounding changed nothing
  on that run of fills and changes nothing on a snapshot, the value of the portfolio is exactly the
  initial cash plus the total profit, for every mark price.
\<close>

theorem accounts_balance:
  assumes "newPortfolioTracker i l = Inr p0" and "applyFills rnd fs p0 = Inr p"
  shows "currentPosition p = netSize fs \<and> fillsHistory p = fs
    \<and> (applyFills Some fs p0 = Inr p \<longrightarrow> getSnapshot rnd m p = Inr s \<longrightarrow> getSnapshot Some m p = Inr s
        \<longrightarrow> psPortfolioValue s = i + psTotalPnL s)"
proof (intro conjI impI)
  note fresh = newPortfolioTracker_Inr [OF assms(1)]
  show "currentPosition p = netSize fs" "fillsHistory p = fs"
    using applyFills_position [OF assms(2)] fresh by auto
  assume "applyFills Some fs p0 = Inr p" "getSnapshot Some m p = Inr s"
  with fresh show "psPortfolioValue s = i + psTotalPnL s" using balanced_applyFills balanced_snapshot by blast
qed

definition fillAt :: "OrderSide \<Rightarrow> rat \<Rightarrow> nat \<Rightarrow> OrderFill" where
  "fillAt side price n =
     \<lparr> fillId = ''f'', fillOrderId = ''o'', matchedOrderId = None, fillSide = side, fillPrice = price,
       fillSize = n, counterparty = ''c'', fillTimestamp = 0 \<rparr>"

definition samplePortfolio :: PortfolioTracker where
  "samplePortfolio =
     \<lparr> currentCash = 1000, currentPosition = 0, totalCostBasis = 0, currentRealizedPnL = 0,
       peakPortfolioValue = 1000, currentMaxDrawdown = 0, fillsHistory = [],
       riskLimits = \<lparr> maxPosition = 100, limitMaxDrawdown = 500, stopLossThreshold = 300 \<rparr> \<rparr>"

definition sampleFills :: "OrderFill list" where
  "sampleFills = [fillAt BUY 100 4, fillAt SELL 105 6]"

definition soldPortfolio :: PortfolioTracker where
  "soldPortfolio =
     samplePortfolio\<lparr> currentCash := 1230, currentPosition := -2, totalCostBasis := 210,
       currentRealizedPnL := 20, fillsHistory := sampleFills \<rparr>"

lemma sample_new: "newPortfolioTracker 1000 noRiskLimits = Inr samplePortfolio"
  by code_simp

lemma sample_run:
  "applyFills fl sampleFills samplePortfolio = Inr soldPortfolio"
  "applyFills Some sampleFills samplePortfolio = Inr soldPortfolio"
  by code_simp+

text \<open>The second run buys three at the double next to one tenth, which the code has to round.\<close>

definition roundedFills :: "OrderFill list" where
  "roundedFills = [fillAt BUY (3602879701896397 / 36028797018963968) 3, fillAt SELL 105 1]"

lemma sample_rounded:
  "(case applyFills fl roundedFills samplePortfolio of Inl _ \<Rightarrow> False
    | Inr p \<Rightarrow> (case applyFills Some roundedFills samplePortfolio of Inl _ \<Rightarrow> False
               | Inr q \<Rightarrow> currentCash p \<noteq> currentCash q))"
  by code_simp

lemma sample_snapshot:
  "(case getSnapshot fl 110 soldPortfolio of Inl _ \<Rightarrow> False
    | Inr s \<Rightarrow> (case getSnapshot Some 110 soldPortfolio of Inl _ \<Rightarrow> False | Inr s' \<Rightarrow> s = s' \<and> psTotalPnL s = 10))"
  by code_simp

theorem accounts_balance_witness:
  "newPortfolioTracker 1000 noRiskLimits = Inr samplePortfolio
   \<and> applyFills fl sampleFills samplePortfolio = Inr soldPortfolio \<and> currentPosition soldPortfolio = -2
   \<and> currentPosition soldPortfolio = netSize sampleFills
   \<and> (\<exists>s. getSnapshot fl 110 soldPortfolio = Inr s \<and> psTotalPnL s = 10 \<and> psPortfolioValue s = 1000 + psTotalPnL s)
   \<and> (\<exists>p. applyFills fl roundedFills samplePortfolio = Inr p \<and> applyFills Some roundedFills samplePortfolio \<noteq> Inr p
        \<and> currentPosition p = netSize roundedFills)"
proof -
  obtain s where s: "getSnapshot fl 110 soldPortfolio = Inr s" "getSnapshot Some 110 soldPortfolio = Inr s" "psTotalPnL s = 10"
    using sample_snapshot by (auto split: sum.splits)
  obtain p where p: "applyFills fl roundedFills samplePortfolio = Inr p" "applyFills Some roundedFills samplePortfolio \<noteq> Inr p"
    using sample_rounded by (auto split: sum.splits)
  show ?thesis
    using accounts_balance [OF sample_new sample_run(1), of 110 s] accounts_balance [OF sample_new p(1)] s p sample_new sample_run
    by (auto simp: soldPortfolio_def)
qed

inductive tracked :: "rounding \<Rightarrow> PortfolioTracker \<Rightarrow> bool" for rnd where
  fresh: "newPortfolioTracker i l = Inr p \<Longrightarrow> tracked rnd p"
| filled: "tracked rnd p \<Longrightarrow> applyFill rnd f p = Inr p' \<Longrightarrow> tracked rnd p'"
| marked: "tracked rnd p \<Longrightarrow> tracked rnd (snd (updateMarkPrice rnd m p))"

lemma tracked_invariant:
  "tracked rnd p \<Longrightarrow> portfolio_wf p \<and> currentPosition p = netSize (fillsHistory p)"
proof (induction rule: tracked.induct)
  case (fresh i l p)
  then show ?case
    using newPortfolioTracker_Inr [OF fresh]
    by (simp add: portfolio_wf_def netSize_def isSafeInteger_def MAX_SAFE_INTEGER_def)
next
  case (filled p f p')
  then have "portfolio_wf p'" using portfolio_wf_applyFill by blast
  then show ?case using filled by (auto simp: netSize_def elim!: applyFill_Inr)
next
  case (marked p m)
  obtain res p' where u: "updateMarkPrice rnd m p = (res, p')" by fastforce
  then have "remarked p p'" using updateMarkPrice_spec by blast
  then show ?case using marked.IH portfolio_wf_remarked remarked_fields u by fastforce
qed

text \<open>
Every state of a portfolio is sound, under any rounding: the position is a safe integer and the
  signed sum of the recorded fills, marking to a price never lowers the recorded peak or the
  recorded drawdown and a returned snapshot lies within both, and previewing a fill leaves the
  portfolio exactly as it was, whether or not its arithmetic overflows.
\<close>

theorem tracked_portfolios_are_sound:
  assumes "tracked rnd p" and "updateMarkPrice rnd m p = (res, p')"
  shows "isSafeInteger (currentPosition p) \<and> currentPosition p = netSize (fillsHistory p)
    \<and> peakPortfolioValue p \<le> peakPortfolioValue p' \<and> currentMaxDrawdown p \<le> currentMaxDrawdown p'
    \<and> (case res of Inl e \<Rightarrow> True
       | Inr s \<Rightarrow> psPortfolioValue s \<le> peakPortfolioValue p'
           \<and> (\<exists>d. excess rnd (peakPortfolioValue p') (psPortfolioValue s) = Some d \<and> d \<le> psMaxDrawdown s))
    \<and> snd (assertPotentialFillArithmetic rnd f m p) = p"
proof -
  have s: "psMaxDrawdown s = currentMaxDrawdown p'" if "res = Inr s" for s
    using updateMarkPrice_spec [OF assms(2)] getSnapshot_fields that by blast
  show ?thesis
    using tracked_invariant [OF assms(1)] updateMarkPrice_spec [OF assms(2)] preview_restores [of p rnd f m]
    by (auto simp: portfolio_wf_def remarked_def s split: sum.splits)
qed

theorem tracked_portfolios_are_sound_witness:
  "\<exists>res p'. updateMarkPrice fl 110 soldPortfolio = (res, p') \<and> currentMaxDrawdown soldPortfolio \<le> currentMaxDrawdown p'
     \<and> currentPosition soldPortfolio = netSize (fillsHistory soldPortfolio)"
proof -
  have "tracked fl p \<Longrightarrow> applyFills fl fs p = Inr q \<Longrightarrow> tracked fl q" for fs p q
    by (induction fs arbitrary: p) (auto simp: applyFills_def bindE_eq_Inr intro: tracked.filled)
  then have t: "tracked fl soldPortfolio" using tracked.fresh [OF sample_new] sample_run(1) by blast
  obtain res p' where u: "updateMarkPrice fl 110 soldPortfolio = (res, p')" by fastforce
  from tracked_portfolios_are_sound [OF t u] u show ?thesis by blast
qed

lemma checkRiskLimits_None:
  assumes "checkRiskLimits rnd m p = Inr None"
  shows "\<bar>currentPosition p\<bar> \<le> int (maxPosition (riskLimits p))"
  using assms by (auto simp: checkRiskLimits_def Let_def split: if_splits)

end
