(* ===== verification/OrderBook.thy ===== *)
theory OrderBook
  imports Trading StateErrors
begin

text \<open>
  The limit order book (\<^verbatim>\<open>packages/local-compute/src/order-book.ts\<close>). A book is run
  against a runtime that supplies the time and fresh ids; its state \<open>'r\<close> is threaded beside the
  book because a rollback of the book does not take drawn ids or times back.
\<close>

section \<open>State\<close>

record MakerQuotes =
  bidId :: "string option"
  askId :: "string option"

record LimitOrderBook =
  bids :: "LimitOrder list"
  asks :: "LimitOrder list"
  lastTradePrice :: "rat option"
  totalVolume :: nat
  activeMakerQuotes :: "MakerQuotes dict"
  generatedIds :: "string list"

type_synonym LimitOrderBookCheckpoint = LimitOrderBook

datatype BookError =
    InvalidLimitOrder | InvalidQuotePair | InvalidFill | InvalidMarketState
  | BlankValue string
  | ActiveOrderIdExists string | GeneratedIdBlank | GeneratedIdReused string
  | MarketOrderIdCollides string | MarketSizeInvalid | MakerIdsEqual
  | MatchedVolumeUnsafe | TotalVolumeUnsafe | RestingOrderDisappeared string
  | InvalidCheckpointPrice | InvalidCheckpointVolume
  | RuntimeThrew string

record 'r LimitOrderBookRuntime =
  runtimeNow :: "('r, BookError, rat) action"
  runtimeCreateId :: "string \<Rightarrow> ('r, BookError, string) action"

type_synonym ('r, 'a) book_action = "(LimitOrderBook \<times> 'r, BookError, 'a) action"

record PlannedFills =
  planFills :: "OrderFill list"
  planMutations :: "(string \<times> nat) list"
  planRemaining :: nat
  planTotal :: nat
  planLastPrice :: "rat option"

record OrderPlacementResult =
  placedOrder :: "LimitOrder option"
  placementFills :: "OrderFill list"

definition newLimitOrderBook :: LimitOrderBook where
  "newLimitOrderBook =
     \<lparr> bids = [], asks = [], lastTradePrice = None, totalVolume = 0, activeMakerQuotes = [],
       generatedIds = [] \<rparr>"

section \<open>Time and ids\<close>

definition fromRuntime :: "('r, BookError, 'a) action \<Rightarrow> ('r, 'a) book_action" where
  "fromRuntime = withinS snd (\<lambda>r s. (fst s, r)) (\<lambda>e. e)"

definition changeBook :: "(LimitOrderBook \<Rightarrow> LimitOrderBook) \<Rightarrow> ('r, unit) book_action" where
  "changeBook f = modifyS (map_prod f (\<lambda>r. r))"

definition bookNow :: "'r LimitOrderBookRuntime \<Rightarrow> ('r, rat) book_action" where
  "bookNow rt = fromRuntime (runtimeNow rt)"

definition createId :: "'r LimitOrderBookRuntime \<Rightarrow> string \<Rightarrow> ('r, string) book_action" where
  "createId rt prefix =
     bindS (fromRuntime (runtimeCreateId rt prefix)) (\<lambda>i.
     bindS (guardS (nonBlank i) GeneratedIdBlank) (\<lambda>_.
     bindS (readS (\<lambda>s. i \<in> set (generatedIds (fst s)))) (\<lambda>used.
     bindS (guardS (\<not> used) (GeneratedIdReused i)) (\<lambda>_.
     bindS (changeBook (\<lambda>b. b\<lparr> generatedIds := generatedIds b @ [i] \<rparr>)) (\<lambda>_.
     returnS i)))))"

section \<open>Arrays of orders\<close>

fun findIndex :: "('a \<Rightarrow> bool) \<Rightarrow> 'a list \<Rightarrow> nat option" where
  "findIndex P [] = None"
| "findIndex P (x # xs) = (if P x then Some 0 else map_option Suc (findIndex P xs))"

definition spliceOut :: "nat \<Rightarrow> 'a list \<Rightarrow> 'a list" where
  "spliceOut i xs = take i xs @ drop (Suc i) xs"

definition spliceIn :: "nat \<Rightarrow> 'a \<Rightarrow> 'a list \<Rightarrow> 'a list" where
  "spliceIn i x xs = take i xs @ x # drop i xs"

definition hasActiveOrderId :: "string \<Rightarrow> LimitOrderBook \<Rightarrow> bool" where
  "hasActiveOrderId i b = (list_ex (\<lambda>x. loId x = i) (bids b) \<or> list_ex (\<lambda>x. loId x = i) (asks b))"

definition bidAhead :: "LimitOrder \<Rightarrow> LimitOrder \<Rightarrow> bool" where
  "bidAhead current x =
     (loPrice x < loPrice current \<or> (loPrice current = loPrice x \<and> loTimestamp current \<le> loTimestamp x))"

definition askAhead :: "LimitOrder \<Rightarrow> LimitOrder \<Rightarrow> bool" where
  "askAhead current x =
     (loPrice current < loPrice x \<or> (loPrice current = loPrice x \<and> loTimestamp current \<le> loTimestamp x))"

definition insertBid :: "LimitOrder \<Rightarrow> LimitOrderBook \<Rightarrow> LimitOrderBook" where
  "insertBid x b =
     b\<lparr> bids := spliceIn (length (takeWhile (\<lambda>c. bidAhead c x) (bids b))) x (bids b) \<rparr>"

definition insertAsk :: "LimitOrder \<Rightarrow> LimitOrderBook \<Rightarrow> LimitOrderBook" where
  "insertAsk x b =
     b\<lparr> asks := spliceIn (length (takeWhile (\<lambda>c. askAhead c x) (asks b))) x (asks b) \<rparr>"

definition cancelOrder :: "string \<Rightarrow> LimitOrderBook \<Rightarrow> bool \<times> LimitOrderBook" where
  "cancelOrder i b =
     (case findIndex (\<lambda>x. loId x = i) (bids b) of
        Some k \<Rightarrow> (True, b\<lparr> bids := spliceOut k (bids b) \<rparr>)
      | None \<Rightarrow>
          (case findIndex (\<lambda>x. loId x = i) (asks b) of
             Some k \<Rightarrow> (True, b\<lparr> asks := spliceOut k (asks b) \<rparr>)
           | None \<Rightarrow> (False, b)))"

definition cancelIfSet :: "string option \<Rightarrow> LimitOrderBook \<Rightarrow> LimitOrderBook" where
  "cancelIfSet i b = (case i of None \<Rightarrow> b | Some j \<Rightarrow> if j = [] then b else snd (cancelOrder j b))"

definition cancelMakerQuotes :: "string \<Rightarrow> LimitOrderBook \<Rightarrow> LimitOrderBook" where
  "cancelMakerQuotes owner b =
     (case dget (activeMakerQuotes b) owner of
        None \<Rightarrow> b
      | Some q \<Rightarrow>
          (let b' = cancelIfSet (askId q) (cancelIfSet (bidId q) b)
           in b'\<lparr> activeMakerQuotes := ddel owner (activeMakerQuotes b') \<rparr>))"

section \<open>Checkpoints\<close>

definition checkpointBook :: "LimitOrderBook \<Rightarrow> LimitOrderBookCheckpoint" where
  "checkpointBook b =
     \<lparr> bids = bids b, asks = asks b, lastTradePrice = lastTradePrice b, totalVolume = totalVolume b,
       activeMakerQuotes = activeMakerQuotes b, generatedIds = generatedIds b \<rparr>"

definition restoreBook :: "LimitOrderBookCheckpoint \<Rightarrow> ('r, unit) book_action" where
  "restoreBook c =
     bindS (guardS (list_all LimitOrderSchema (bids c)) InvalidLimitOrder) (\<lambda>_.
     bindS (changeBook (\<lambda>b. b\<lparr> bids := bids c \<rparr>)) (\<lambda>_.
     bindS (guardS (list_all LimitOrderSchema (asks c)) InvalidLimitOrder) (\<lambda>_.
     bindS (changeBook (\<lambda>b. b\<lparr> asks := asks c \<rparr>)) (\<lambda>_.
     bindS (guardS (opt_all (\<lambda>x. 0 < x) (lastTradePrice c)) InvalidCheckpointPrice) (\<lambda>_.
     bindS (guardS (isSafeNat (totalVolume c)) InvalidCheckpointVolume) (\<lambda>_.
     changeBook (\<lambda>b. b\<lparr> lastTradePrice := lastTradePrice c, totalVolume := totalVolume c,
                         activeMakerQuotes := activeMakerQuotes c,
                         generatedIds := generatedIds c \<rparr>)))))))"

definition withRollback :: "('r, 'a) book_action \<Rightarrow> ('r, 'a) book_action" where
  "withRollback operation = (\<lambda>s. attempt operation (restoreBook (checkpointBook (fst s))) s)"

definition clearBook :: "LimitOrderBook \<Rightarrow> LimitOrderBook" where
  "clearBook b =
     b\<lparr> bids := [], asks := [], lastTradePrice := None, totalVolume := 0, activeMakerQuotes := [] \<rparr>"

section \<open>Matching\<close>

definition assertNonBlank :: "string \<Rightarrow> string \<Rightarrow> ('r, unit) book_action" where
  "assertNonBlank s label = guardS (nonBlank s) (BlankValue label)"

text \<open>The limit at which the loop over the resting orders stops.\<close>

definition beyondLimit :: "OrderSide \<Rightarrow> rat option \<Rightarrow> rat \<Rightarrow> bool" where
  "beyondLimit side limit price =
     (case limit of
        None \<Rightarrow> False
      | Some l \<Rightarrow> (side = BUY \<and> l < price) \<or> (side = SELL \<and> price < l))"

definition matchFill ::
  "string \<Rightarrow> rat \<Rightarrow> OrderSide \<Rightarrow> string \<Rightarrow> string \<Rightarrow> LimitOrder \<Rightarrow> nat \<Rightarrow> OrderFill" where
  "matchFill fid t side oid cp resting size1 =
     \<lparr> fillId = fid, fillOrderId = oid, matchedOrderId = Some (loId resting), fillSide = side,
       fillPrice = loPrice resting, fillSize = size1, counterparty = cp, fillTimestamp = t \<rparr>"

fun planLoop ::
  "'r LimitOrderBookRuntime \<Rightarrow> OrderSide \<Rightarrow> rat option \<Rightarrow> string \<Rightarrow> string \<Rightarrow> LimitOrder list \<Rightarrow>
   PlannedFills \<Rightarrow> ('r, PlannedFills) book_action" where
  "planLoop rt side limit oid cp [] plan = returnS plan"
| "planLoop rt side limit oid cp (resting # rest) plan =
     (if planRemaining plan = 0 \<or> beyondLimit side limit (loPrice resting) then returnS plan
      else
        let m = min (planRemaining plan) (loSize resting) in
        bindS (createId rt ''fill'') (\<lambda>fid.
        bindS (bookNow rt) (\<lambda>t.
        let fill = matchFill fid t side oid cp resting m in
        bindS (guardS (OrderFillSchema fill) InvalidFill) (\<lambda>_.
        bindS (guardS (isSafeNat (planTotal plan + m)) MatchedVolumeUnsafe) (\<lambda>_.
        planLoop rt side limit oid cp rest
          \<lparr> planFills = planFills plan @ [fill],
            planMutations = planMutations plan @ [(loId resting, loSize resting - m)],
            planRemaining = planRemaining plan - m,
            planTotal = planTotal plan + m,
            planLastPrice = Some (loPrice resting) \<rparr>)))))"

definition emptyPlan :: "nat \<Rightarrow> PlannedFills" where
  "emptyPlan n =
     \<lparr> planFills = [], planMutations = [], planRemaining = n, planTotal = 0, planLastPrice = None \<rparr>"

definition restingSide :: "OrderSide \<Rightarrow> LimitOrderBook \<Rightarrow> LimitOrder list" where
  "restingSide side b = (if side = BUY then asks b else bids b)"

definition planMatch ::
  "'r LimitOrderBookRuntime \<Rightarrow> OrderSide \<Rightarrow> nat \<Rightarrow> rat option \<Rightarrow> string \<Rightarrow> string \<Rightarrow> ('r, PlannedFills) book_action" where
  "planMatch rt side size1 limit oid cp =
     bindS (readS (\<lambda>s. restingSide side (fst s))) (\<lambda>resting.
     bindS (planLoop rt side limit oid cp resting (emptyPlan size1)) (\<lambda>plan.
     bindS (readS (\<lambda>s. totalVolume (fst s) + planTotal plan)) (\<lambda>next1.
     bindS (guardS (isSafeNat next1) TotalVolumeUnsafe) (\<lambda>_.
     returnS plan))))"

text \<open>One planned change of a resting order: its removal, or its remaining size.\<close>

definition shrinkAt :: "nat \<Rightarrow> nat \<Rightarrow> LimitOrder list \<Rightarrow> LimitOrder list" where
  "shrinkAt i remaining xs =
     (if remaining = 0 then spliceOut i xs else xs[i := (xs ! i)\<lparr> loSize := remaining \<rparr>])"

definition commitMutation :: "string \<times> nat \<Rightarrow> ('r, unit) book_action" where
  "commitMutation m =
     (case m of (oid, remaining) \<Rightarrow>
        bindS (readS fst) (\<lambda>b.
          let onBids = list_ex (\<lambda>x. loId x = oid) (bids b);
              side = (if onBids then bids b else asks b)
          in (case findIndex (\<lambda>x. loId x = oid) side of
                None \<Rightarrow> throwS (RestingOrderDisappeared oid)
              | Some i \<Rightarrow>
                  changeBook (\<lambda>b. if onBids then b\<lparr> bids := shrinkAt i remaining (bids b) \<rparr>
                                  else b\<lparr> asks := shrinkAt i remaining (asks b) \<rparr>))))"

definition commitMatchPlan :: "PlannedFills \<Rightarrow> ('r, unit) book_action" where
  "commitMatchPlan plan =
     bindS (forEachS commitMutation (planMutations plan)) (\<lambda>_.
     changeBook (\<lambda>b. b\<lparr> totalVolume := totalVolume b + planTotal plan,
                         lastTradePrice := (case planLastPrice plan of
                                              None \<Rightarrow> lastTradePrice b
                                            | Some p \<Rightarrow> Some p) \<rparr>))"

section \<open>Operations\<close>

definition placeLimitOrder ::
  "'r LimitOrderBookRuntime \<Rightarrow> LimitOrder \<Rightarrow> string \<Rightarrow> ('r, OrderPlacementResult) book_action" where
  "placeLimitOrder rt order cp =
     withRollback
       (bindS (guardS (LimitOrderSchema order) InvalidLimitOrder) (\<lambda>_.
        bindS (assertNonBlank cp ''counterparty'') (\<lambda>_.
        bindS (readS (\<lambda>s. hasActiveOrderId (loId order) (fst s))) (\<lambda>active.
        bindS (guardS (\<not> active) (ActiveOrderIdExists (loId order))) (\<lambda>_.
        bindS (planMatch rt (loSide order) (loSize order) (Some (loPrice order)) (loId order) cp) (\<lambda>plan.
        bindS (commitMatchPlan plan) (\<lambda>_.
        if 0 < planRemaining plan then
          let remainingOrder = order\<lparr> loSize := planRemaining plan \<rparr> in
          bindS (changeBook (if loSide order = BUY then insertBid remainingOrder
                             else insertAsk remainingOrder)) (\<lambda>_.
          returnS \<lparr> placedOrder = Some remainingOrder, placementFills = planFills plan \<rparr>)
        else returnS \<lparr> placedOrder = None, placementFills = planFills plan \<rparr>)))))))"

definition executeMarketOrder ::
  "'r LimitOrderBookRuntime \<Rightarrow> OrderSide \<Rightarrow> int \<Rightarrow> string \<Rightarrow> ('r, OrderFill list) book_action" where
  "executeMarketOrder rt side size1 cp =
     withRollback
       (bindS (guardS (isSafeInteger size1 \<and> 0 < size1) MarketSizeInvalid) (\<lambda>_.
        bindS (assertNonBlank cp ''counterparty'') (\<lambda>_.
        bindS (createId rt ''mkt'') (\<lambda>oid.
        bindS (readS (\<lambda>s. hasActiveOrderId oid (fst s))) (\<lambda>active.
        bindS (guardS (\<not> active) (MarketOrderIdCollides oid)) (\<lambda>_.
        bindS (planMatch rt side (nat size1) None oid cp) (\<lambda>plan.
        bindS (commitMatchPlan plan) (\<lambda>_.
        returnS (planFills plan)))))))))"

definition replaceableIds :: "string \<Rightarrow> LimitOrderBook \<Rightarrow> string list" where
  "replaceableIds owner b =
     (case dget (activeMakerQuotes b) owner of
        None \<Rightarrow> []
      | Some q \<Rightarrow> List.map_filter (\<lambda>x. x) [bidId q, askId q])"

definition installQuotes :: "string \<Rightarrow> LimitOrder \<Rightarrow> LimitOrder \<Rightarrow> LimitOrderBook \<Rightarrow> LimitOrderBook" where
  "installQuotes owner bidOrder askOrder b =
     (let b' = insertAsk askOrder (insertBid bidOrder (cancelMakerQuotes owner b))
      in b'\<lparr> activeMakerQuotes :=
               dput owner \<lparr> bidId = Some (loId bidOrder), askId = Some (loId askOrder) \<rparr>
                 (activeMakerQuotes b') \<rparr>)"

definition setQuotes ::
  "'r LimitOrderBookRuntime \<Rightarrow> string \<Rightarrow> QuotePair \<Rightarrow> ('r, LimitOrder \<times> LimitOrder) book_action" where
  "setQuotes rt owner quotes =
     withRollback
       (bindS (assertNonBlank owner ''ownerId'') (\<lambda>_.
        bindS (guardS (QuotePairSchema quotes) InvalidQuotePair) (\<lambda>_.
        bindS (bookNow rt) (\<lambda>t.
        bindS (createId rt (''quote_bid_'' @ owner)) (\<lambda>bid.
        let bidOrder = \<lparr> loId = bid, loSide = BUY, loPrice = bidPrice quotes,
                         loSize = bidSize quotes, loTimestamp = t \<rparr> in
        bindS (guardS (LimitOrderSchema bidOrder) InvalidLimitOrder) (\<lambda>_.
        bindS (createId rt (''quote_ask_'' @ owner)) (\<lambda>ask.
        let askOrder = \<lparr> loId = ask, loSide = SELL, loPrice = askPrice quotes,
                         loSize = askSize quotes, loTimestamp = t \<rparr> in
        bindS (guardS (LimitOrderSchema askOrder) InvalidLimitOrder) (\<lambda>_.
        bindS (guardS (bid \<noteq> ask) MakerIdsEqual) (\<lambda>_.
        bindS (readS (\<lambda>s. hasActiveOrderId bid (fst s) \<and> bid \<notin> set (replaceableIds owner (fst s)))) (\<lambda>bidTaken.
        bindS (guardS (\<not> bidTaken) (ActiveOrderIdExists bid)) (\<lambda>_.
        bindS (readS (\<lambda>s. hasActiveOrderId ask (fst s) \<and> ask \<notin> set (replaceableIds owner (fst s)))) (\<lambda>askTaken.
        bindS (guardS (\<not> askTaken) (ActiveOrderIdExists ask)) (\<lambda>_.
        bindS (changeBook (installQuotes owner bidOrder askOrder)) (\<lambda>_.
        returnS (bidOrder, askOrder)))))))))))))))"

definition getMarketState :: "LimitOrderBook \<Rightarrow> (BookError, MarketState) result" where
  "getMarketState b =
     (let best = (\<lambda>xs. case xs of [] \<Rightarrow> None | x # _ \<Rightarrow> Some (loPrice x));
          bid = best (bids b); ask = best (asks b);
          pair = (case (bid, ask) of (Some x, Some y) \<Rightarrow> Some (x, y) | _ \<Rightarrow> None);
          mid = map_option (\<lambda>(x, y). Option.bind (fl (y - x)) (\<lambda>d.
                  Option.bind (js_div d 2) (\<lambda>h. js_add x h))) pair;
          spread = map_option (\<lambda>(x, y). map_option (max 0) (fl (y - x))) pair;
          state = \<lparr> bestBid = bid, bestAsk = ask, midPrice = Option.bind mid (\<lambda>x. x),
                    msSpread = Option.bind spread (\<lambda>x. x), msLastTradePrice = lastTradePrice b,
                    msTotalVolume = totalVolume b \<rparr>
      in if mid = Some None \<or> spread = Some None \<or> \<not> MarketStateSchema state
         then Inl InvalidMarketState else Inr state)"

end
