(* ===== verification/OrderBookFacts.thy ===== *)
theory OrderBookFacts
  imports OrderBook Binary64
begin

text \<open>
  Facts on the order book. Both sides are price-time queues (locale \<open>price_time\<close>, interpreted for
  bids and asks); a book that satisfies \<open>book_wf\<close> is restored exactly by a rollback; planning and
  committing a match refine the reference functions \<open>executed\<close> and \<open>consume\<close> on the resting queue.
\<close>

section \<open>Searching and splicing\<close>

lemma findIndex_None: "findIndex P xs = None \<longleftrightarrow> (\<forall>x \<in> set xs. \<not> P x)"
  by (induction xs) auto

lemma findIndex_Some: "findIndex P xs = Some i \<Longrightarrow> i < length xs \<and> P (xs ! i) \<and> (\<forall>j < i. \<not> P (xs ! j))"
proof (induction xs arbitrary: i)
  case (Cons x xs)
  then show ?case by (cases i) (auto simp: less_Suc_eq_0_disj split: if_splits)
qed simp

lemma set_spliceOut: "set (spliceOut i xs) \<subseteq> set xs"
  by (auto simp: spliceOut_def dest: in_set_takeD in_set_dropD)

lemma spliceOut_split: "i < length xs \<Longrightarrow> xs = take i xs @ xs ! i # drop (Suc i) xs"
  by (simp add: id_take_nth_drop)

lemma sorted_spliceOut: "sorted_wrt R xs \<Longrightarrow> sorted_wrt R (spliceOut i xs)"
proof (cases "i < length xs")
  case True
  assume "sorted_wrt R xs"
  then have "sorted_wrt R (take i xs @ xs ! i # drop (Suc i) xs)" using spliceOut_split [OF True] by simp
  then show ?thesis by (auto simp: spliceOut_def sorted_wrt_append)
qed (simp add: spliceOut_def)

lemma distinct_spliceOut: "distinct (map f xs) \<Longrightarrow> distinct (map f (spliceOut i xs))"
proof (cases "i < length xs")
  case True
  assume "distinct (map f xs)"
  then have "distinct (map f (take i xs @ xs ! i # drop (Suc i) xs))" using spliceOut_split [OF True] by simp
  then show ?thesis by (auto simp: spliceOut_def)
qed (simp add: spliceOut_def)

lemma spliceIn_takeWhile: "spliceIn (length (takeWhile P xs)) x xs = takeWhile P xs @ x # dropWhile P xs"
  by (simp add: spliceIn_def dropWhile_eq_drop takeWhile_eq_take [symmetric])

lemma sorted_wrt_middle:
  assumes "sorted_wrt R T" and "sorted_wrt R D" and "\<forall>a \<in> set T. \<forall>b \<in> set D. R a b"
    and "\<forall>a \<in> set T. R a x" and "\<forall>b \<in> set D. R x b"
  shows "sorted_wrt R (T @ x # D)"
  using assms by (simp add: sorted_wrt_append)

section \<open>Price-time queues\<close>

text \<open>What a side of the book relies on: orders compare by price and time only, and totally.\<close>

locale price_time =
  fixes ahead :: "LimitOrder \<Rightarrow> LimitOrder \<Rightarrow> bool"
  assumes ahead_total: "ahead x y \<or> ahead y x"
    and ahead_trans: "ahead x y \<Longrightarrow> ahead y z \<Longrightarrow> ahead x z"
    and ahead_resize: "ahead (x\<lparr> loSize := m \<rparr>) y = ahead x y" "ahead x (y\<lparr> loSize := m \<rparr>) = ahead x y"
begin

definition enqueue :: "LimitOrder \<Rightarrow> LimitOrder list \<Rightarrow> LimitOrder list" where
  "enqueue x xs = spliceIn (length (takeWhile (\<lambda>c. ahead c x) xs)) x xs"

lemma enqueue_alt: "enqueue x xs = takeWhile (\<lambda>c. ahead c x) xs @ x # dropWhile (\<lambda>c. ahead c x) xs"
  by (simp add: enqueue_def spliceIn_takeWhile)

lemma set_enqueue [simp]: "set (enqueue x xs) = insert x (set xs)"
proof -
  have "set xs = set (takeWhile (\<lambda>c. ahead c x) xs) \<union> set (dropWhile (\<lambda>c. ahead c x) xs)"
    by (metis set_append takeWhile_dropWhile_id)
  then show ?thesis by (auto simp: enqueue_alt)
qed

lemma distinct_enqueue:
  "distinct (map loId xs) \<Longrightarrow> loId x \<notin> loId ` set xs \<Longrightarrow> distinct (map loId (enqueue x xs))"
proof -
  assume d: "distinct (map loId xs)" and new: "loId x \<notin> loId ` set xs"
  let ?t = "takeWhile (\<lambda>c. ahead c x) xs" and ?d = "dropWhile (\<lambda>c. ahead c x) xs"
  have xs: "xs = ?t @ ?d" by simp
  have "distinct (map loId (?t @ ?d))" using d by simp
  moreover have "loId x \<notin> loId ` set (?t @ ?d)" using new by simp
  ultimately show ?thesis by (simp add: enqueue_alt del: takeWhile_dropWhile_id) auto
qed

lemma sorted_enqueue:
  assumes "sorted_wrt ahead xs"
  shows "sorted_wrt ahead (enqueue x xs)"
proof -
  let ?t = "takeWhile (\<lambda>c. ahead c x) xs" and ?d = "dropWhile (\<lambda>c. ahead c x) xs"
  have "sorted_wrt ahead (?t @ ?d)" using assms by simp
  then have s: "sorted_wrt ahead ?t" "sorted_wrt ahead ?d" "\<forall>a \<in> set ?t. \<forall>b \<in> set ?d. ahead a b"
    by (auto simp: sorted_wrt_append simp del: takeWhile_dropWhile_id)
  have t: "\<forall>a \<in> set ?t. ahead a x" by (auto dest: set_takeWhileD)
  have d: "\<forall>b \<in> set ?d. ahead x b"
  proof (cases ?d)
    case Nil
    show ?thesis unfolding Nil by simp
  next
    case (Cons c cs)
    then have "\<not> ahead c x" by (metis dropWhile_eq_Cons_conv)
    then have "ahead x c" using ahead_total by blast
    then show ?thesis using s(2) Cons ahead_trans by auto
  qed
  show ?thesis unfolding enqueue_alt by (rule sorted_wrt_middle [OF s t d])
qed

lemma sorted_resize_head: "sorted_wrt ahead (x # xs) \<Longrightarrow> sorted_wrt ahead (x\<lparr> loSize := m \<rparr> # xs)"
  by (simp add: ahead_resize)

end

interpretation bid_queue: price_time bidAhead
  by unfold_locales (auto simp: bidAhead_def)

interpretation ask_queue: price_time askAhead
  by unfold_locales (auto simp: askAhead_def)

lemma insertBid_enqueue: "insertBid x b = b\<lparr> bids := bid_queue.enqueue x (bids b) \<rparr>"
  by (simp add: insertBid_def bid_queue.enqueue_def)

lemma insertAsk_enqueue: "insertAsk x b = b\<lparr> asks := ask_queue.enqueue x (asks b) \<rparr>"
  by (simp add: insertAsk_def ask_queue.enqueue_def)

section \<open>Well-formed books\<close>

definition side_wf :: "(LimitOrder \<Rightarrow> LimitOrder \<Rightarrow> bool) \<Rightarrow> OrderSide \<Rightarrow> LimitOrder list \<Rightarrow> bool" where
  "side_wf ahead side xs =
     (sorted_wrt ahead xs \<and> distinct (map loId xs)
      \<and> (\<forall>x \<in> set xs. LimitOrderSchema x \<and> loSide x = side))"

definition book_wf :: "LimitOrderBook \<Rightarrow> bool" where
  "book_wf b =
     (side_wf bidAhead BUY (bids b) \<and> side_wf askAhead SELL (asks b)
      \<and> loId ` set (bids b) \<inter> loId ` set (asks b) = {}
      \<and> isSafeNat (totalVolume b) \<and> opt_all (\<lambda>x. 0 < x) (lastTradePrice b)
      \<and> distinct (generatedIds b))"

lemma book_wf_new: "book_wf newLimitOrderBook"
  by (simp add: book_wf_def newLimitOrderBook_def side_wf_def isSafeNat_def MAX_SAFE_INTEGER_def)

lemma book_wf_clear: "book_wf b \<Longrightarrow> book_wf (clearBook b)"
  by (simp add: book_wf_def clearBook_def side_wf_def isSafeNat_def MAX_SAFE_INTEGER_def)

lemma side_wf_spliceOut: "side_wf R s xs \<Longrightarrow> side_wf R s (spliceOut i xs)"
  using set_spliceOut [of i xs] by (auto simp: side_wf_def sorted_spliceOut distinct_spliceOut)

lemma book_wf_cancelOrder: "book_wf b \<Longrightarrow> book_wf (snd (cancelOrder i b))"
  using set_spliceOut [of _ "bids b"] set_spliceOut [of _ "asks b"]
  by (auto simp: cancelOrder_def book_wf_def side_wf_spliceOut split: option.splits dest: set_spliceOut [THEN subsetD]) blast+

lemma hasActiveOrderId_iff: "hasActiveOrderId i b \<longleftrightarrow> i \<in> loId ` set (bids b) \<union> loId ` set (asks b)"
  by (auto simp: hasActiveOrderId_def list_ex_iff)

lemma book_wf_insertBid:
  assumes "book_wf b" and "LimitOrderSchema x" and "loSide x = BUY" and "\<not> hasActiveOrderId (loId x) b"
  shows "book_wf (insertBid x b)"
  using assms bid_queue.sorted_enqueue [of "bids b" x] bid_queue.distinct_enqueue [of "bids b" x]
  by (auto simp: book_wf_def side_wf_def insertBid_enqueue hasActiveOrderId_iff)

lemma book_wf_insertAsk:
  assumes "book_wf b" and "LimitOrderSchema x" and "loSide x = SELL" and "\<not> hasActiveOrderId (loId x) b"
  shows "book_wf (insertAsk x b)"
  using assms ask_queue.sorted_enqueue [of "asks b" x] ask_queue.distinct_enqueue [of "asks b" x]
  by (auto simp: book_wf_def side_wf_def insertAsk_enqueue hasActiveOrderId_iff)

section \<open>Rollback\<close>

lemma changeBook_apply [simp, action_simps]:
  "changeBook f s = (Inr (), (f (fst s), snd s))"
  "bindS (changeBook f) k s = k () (f (fst s), snd s)"
  by (simp_all add: changeBook_def map_prod_def case_prod_unfold)

lemma checkpointBook_id [simp]: "checkpointBook b = b"
  by (simp add: checkpointBook_def)

lemma restoreBook_wf: "book_wf b \<Longrightarrow> restoreBook b s = (Inr (), (b, snd s))"
  by (simp add: restoreBook_def book_wf_def side_wf_def list_all_iff)

lemma withRollback_wf:
  assumes "book_wf b"
  shows "withRollback m (b, r) =
    (case m (b, r) of (Inr x, s) \<Rightarrow> (Inr x, s) | (Inl e, s) \<Rightarrow> (Inl e, (b, snd s)))"
  using assms
  by (auto simp: withRollback_def attempt_def bindS_def restoreBook_wf throwS_def split: prod.splits sum.splits)

lemma withRollback_Inr: "book_wf b \<Longrightarrow> withRollback m (b, r) = (Inr x, s) \<longleftrightarrow> m (b, r) = (Inr x, s)"
  by (auto simp: withRollback_wf split: prod.splits sum.splits)

lemma withRollback_Inl: "book_wf b \<Longrightarrow> withRollback m (b, r) = (Inl e, s) \<Longrightarrow> fst s = b"
  by (auto simp: withRollback_wf split: prod.splits sum.splits)

end
