(* ===== verification/OrderMatching.thy ===== *)
theory OrderMatching
  imports OrderBookFacts
begin

text \<open>
  Matching against the reference: \<open>executed\<close> lists which resting orders an incoming order of size
  \<open>n\<close> trades with and how much, \<open>consume\<close> what the queue keeps. Planning computes the first,
  committing the plan performs the second, and the operations of the book put the two together.
\<close>

section \<open>The reference\<close>

fun executed :: "(LimitOrder \<Rightarrow> bool) \<Rightarrow> nat \<Rightarrow> LimitOrder list \<Rightarrow> (LimitOrder \<times> nat) list" where
  "executed ok n [] = []"
| "executed ok n (x # xs) =
     (if n = 0 \<or> \<not> ok x then []
      else (x, min n (loSize x)) # executed ok (n - min n (loSize x)) xs)"

fun consume :: "(LimitOrder \<Rightarrow> bool) \<Rightarrow> nat \<Rightarrow> LimitOrder list \<Rightarrow> LimitOrder list" where
  "consume ok n [] = []"
| "consume ok n (x # xs) =
     (if n = 0 \<or> \<not> ok x then x # xs
      else if n < loSize x then x\<lparr> loSize := loSize x - n \<rparr> # xs
      else consume ok (n - loSize x) xs)"

definition traded :: "(LimitOrder \<times> nat) list \<Rightarrow> nat" where
  "traded ex = sum_list (map snd ex)"

definition depth :: "LimitOrder list \<Rightarrow> nat" where
  "depth xs = sum_list (map loSize xs)"

definition withinLimit :: "OrderSide \<Rightarrow> rat option \<Rightarrow> LimitOrder \<Rightarrow> bool" where
  "withinLimit side limit x = (\<not> beyondLimit side limit (loPrice x))"

lemma traded_simps [simp]: "traded [] = 0" "traded ((x, m) # ex) = m + traded ex"
  by (simp_all add: traded_def)

lemma depth_simps [simp]: "depth [] = 0" "depth (x # xs) = loSize x + depth xs"
  by (simp_all add: depth_def)

lemma executed_0 [simp]: "executed ok 0 xs = []"
  by (cases xs) simp_all

lemma consume_0 [simp]: "consume ok 0 xs = xs"
  by (cases xs) simp_all

lemma traded_executed: "traded (executed ok n xs) = min n (depth (takeWhile ok xs))"
  by (induction ok n xs rule: executed.induct) (auto simp: min_def)

lemma depth_consume: "depth (consume ok n xs) + traded (executed ok n xs) = depth xs"
  by (induction ok n xs rule: consume.induct) auto

lemma executed_in: "(x, m) \<in> set (executed ok n xs) \<Longrightarrow> x \<in> set xs \<and> ok x \<and> m \<le> loSize x \<and> m \<le> n"
  by (induction ok n xs rule: executed.induct) (auto split: if_splits)

lemma executed_pos:
  "\<forall>x \<in> set xs. 0 < loSize x \<Longrightarrow> (x, m) \<in> set (executed ok n xs) \<Longrightarrow> 0 < m"
  by (induction ok n xs rule: executed.induct) (auto split: if_splits)

lemma executed_prefix: "map fst (executed ok n xs) = take (length (executed ok n xs)) xs"
  by (induction ok n xs rule: executed.induct) auto

lemma consume_stops:
  assumes "traded (executed ok n xs) < n" and "consume ok n xs = y # ys"
  shows "\<not> ok y"
  using assms
  by (induction ok n xs rule: consume.induct) (auto simp: min_def split: if_splits)

lemma consume_ids: "set (map loId (consume ok n xs)) \<subseteq> set (map loId xs)"
  by (induction ok n xs rule: consume.induct) auto

lemma consume_wf:
  assumes "price_time ahead" and "side_wf ahead s xs"
  shows "side_wf ahead s (consume ok n xs)"
  using assms(2)
proof (induction ok n xs rule: consume.induct)
  case (2 ok n x xs)
  have tail: "side_wf ahead s xs" using "2.prems" by (simp add: side_wf_def)
  have x: "LimitOrderSchema x" using "2.prems" by (simp add: side_wf_def)
  have shrunk: "LimitOrderSchema (x\<lparr> loSize := loSize x - n \<rparr>)" if "n < loSize x"
  proof (rule LimitOrderSchema_resize)
    have "js_mul (loPrice x) (of_nat (loSize x)) \<noteq> None" "0 < loPrice x"
      using x by (simp_all add: LimitOrderSchema_def finiteProduct_def)
    then show "finiteProduct (loPrice x) (loSize x - n)"
      unfolding finiteProduct_def js_mul_def
      by (elim fl_finite_mono [rotated]) (simp add: abs_mult mult_left_mono)
  qed (use x that in auto)
  show ?case
    using 2 tail shrunk
    by (auto simp: side_wf_def price_time.ahead_resize [OF assms(1)])
qed simp

section \<open>Planning\<close>

definition fillOf :: "string \<Rightarrow> OrderSide \<Rightarrow> string \<Rightarrow> OrderFill \<Rightarrow> LimitOrder \<times> nat \<Rightarrow> bool" where
  "fillOf oid side cp f xm =
     (f = matchFill (fillId f) (fillTimestamp f) side oid cp (fst xm) (snd xm) \<and> OrderFillSchema f)"

text \<open>Ids that were drawn are the only trace planning leaves in the book.\<close>

definition sameButIds :: "LimitOrderBook \<Rightarrow> LimitOrderBook \<Rightarrow> bool" where
  "sameButIds b b' = (b' = b\<lparr> generatedIds := generatedIds b' \<rparr> \<and> (distinct (generatedIds b) \<longrightarrow> distinct (generatedIds b')))"

lemma sameButIds_refl: "sameButIds b b"
  by (simp add: sameButIds_def)

lemma sameButIds_trans: "sameButIds a b \<Longrightarrow> sameButIds b c \<Longrightarrow> sameButIds a c"
  unfolding sameButIds_def by (cases a, cases b, cases c) auto

lemma sameButIds_fields:
  "sameButIds b b' \<Longrightarrow> bids b' = bids b \<and> asks b' = asks b \<and> totalVolume b' = totalVolume b
     \<and> lastTradePrice b' = lastTradePrice b \<and> activeMakerQuotes b' = activeMakerQuotes b"
  unfolding sameButIds_def by (cases b, cases b') auto

lemma book_wf_sameButIds: "sameButIds b b' \<Longrightarrow> book_wf b \<Longrightarrow> book_wf b'"
  using sameButIds_fields [of b b'] by (auto simp: book_wf_def sameButIds_def)

lemma fromRuntime_Inr: "fromRuntime m s = (Inr x, t) \<Longrightarrow> fst t = fst s"
  by (auto simp: fromRuntime_def withinS_def split: prod.splits sum.splits)

lemma bookNow_Inr: "bookNow rt s = (Inr x, t) \<Longrightarrow> fst t = fst s"
  unfolding bookNow_def by (rule fromRuntime_Inr)

lemma createId_Inr:
  assumes "createId rt prefix s = (Inr i, t)"
  shows "sameButIds (fst s) (fst t) \<and> nonBlank i"
  using assms
  by (auto simp: createId_def bindS_eq_Inr sameButIds_def dest!: fromRuntime_Inr split: if_splits)

lemma planLoop_Inr:
  assumes "planLoop rt side limit oid cp resting plan s = (Inr plan', t)"
    and "ex = executed (withinLimit side limit) (planRemaining plan) resting"
  shows "sameButIds (fst s) (fst t)
    \<and> planRemaining plan' = planRemaining plan - traded ex
    \<and> planTotal plan' = planTotal plan + traded ex
    \<and> planMutations plan' = planMutations plan @ map (\<lambda>(x, m). (loId x, loSize x - m)) ex
    \<and> planLastPrice plan' = (if ex = [] then planLastPrice plan else Some (loPrice (fst (last ex))))
    \<and> (\<exists>fs. planFills plan' = planFills plan @ fs \<and> list_all2 (fillOf oid side cp) fs ex)"
  using assms
proof (induction resting arbitrary: plan s ex)
  case Nil
  then show ?case by (auto simp: sameButIds_refl)
next
  case (Cons x xs)
  show ?case
  proof (cases "planRemaining plan = 0 \<or> beyondLimit side limit (loPrice x)")
    case True
    then have "planLoop rt side limit oid cp (x # xs) plan s = (Inr plan, s)" by simp
    with Cons.prems(1) have "plan' = plan" "t = s" by simp_all
    moreover have "executed (withinLimit side limit) (planRemaining plan) (x # xs) = []"
      using True by (simp add: withinLimit_def)
    ultimately show ?thesis unfolding Cons.prems(2) by (simp add: sameButIds_refl)
  next
    case False
    let ?m = "min (planRemaining plan) (loSize x)"
    obtain fid s1 where fid: "createId rt ''fill'' s = (Inr fid, s1)"
      and r1: "bindS (bookNow rt) (\<lambda>t. let fill = matchFill fid t side oid cp x ?m in
        bindS (guardS (OrderFillSchema fill) InvalidFill) (\<lambda>_.
        bindS (guardS (isSafeNat (planTotal plan + ?m)) MatchedVolumeUnsafe) (\<lambda>_.
        planLoop rt side limit oid cp xs
          \<lparr> planFills = planFills plan @ [fill],
            planMutations = planMutations plan @ [(loId x, loSize x - ?m)],
            planRemaining = planRemaining plan - ?m,
            planTotal = planTotal plan + ?m,
            planLastPrice = Some (loPrice x) \<rparr>))) s1 = (Inr plan', t)"
      using Cons.prems(1) False by (auto simp: Let_def bindS_eq_Inr)
    obtain ts s2 where now: "bookNow rt s1 = (Inr ts, s2)" using r1 by (auto simp: bindS_eq_Inr)
    let ?fill = "matchFill fid ts side oid cp x ?m"
    let ?plan = "\<lparr> planFills = planFills plan @ [?fill],
            planMutations = planMutations plan @ [(loId x, loSize x - ?m)],
            planRemaining = planRemaining plan - ?m,
            planTotal = planTotal plan + ?m,
            planLastPrice = Some (loPrice x) \<rparr>"
    have "bindS (bookNow rt) k s1 = k ts s2" for k by (simp add: bindS_def now)
    note r2 = r1 [unfolded this]
    have fill: "OrderFillSchema ?fill" and loop: "planLoop rt side limit oid cp xs ?plan s2 = (Inr plan', t)"
      using r2 by (auto simp: Let_def split: if_splits)
    have same: "sameButIds (fst s) (fst s2)"
      using createId_Inr [OF fid] bookNow_Inr [OF now] by simp
    have ok: "withinLimit side limit x" using False by (simp add: withinLimit_def)
    have "fillOf oid side cp ?fill (x, ?m)" using fill by (simp add: fillOf_def matchFill_def)
    with Cons.IH [OF loop refl] same ok False show ?thesis
      unfolding Cons.prems(2) by (auto intro: sameButIds_trans)
  qed
qed

lemma planMatch_Inr:
  assumes "planMatch rt side n limit oid cp s = (Inr plan, t)"
  defines "ex \<equiv> executed (withinLimit side limit) n (restingSide side (fst s))"
  shows "sameButIds (fst s) (fst t)
    \<and> planRemaining plan = n - traded ex \<and> planTotal plan = traded ex
    \<and> planMutations plan = map (\<lambda>(x, m). (loId x, loSize x - m)) ex
    \<and> planLastPrice plan = (if ex = [] then None else Some (loPrice (fst (last ex))))
    \<and> list_all2 (fillOf oid side cp) (planFills plan) ex
    \<and> isSafeNat (totalVolume (fst s) + traded ex)"
proof -
  from assms(1) have l: "planLoop rt side limit oid cp (restingSide side (fst s)) (emptyPlan n) s = (Inr plan, t)"
    and safe: "isSafeNat (totalVolume (fst t) + planTotal plan)"
    by (auto simp: planMatch_def bindS_eq_Inr split: if_splits)
  from planLoop_Inr [OF l refl] safe show ?thesis
    using sameButIds_fields [of "fst s" "fst t"] by (auto simp: emptyPlan_def ex_def)
qed

section \<open>Committing\<close>

definition withRestingSide :: "OrderSide \<Rightarrow> LimitOrder list \<Rightarrow> LimitOrderBook \<Rightarrow> LimitOrderBook" where
  "withRestingSide side xs b = (if side = BUY then b\<lparr> asks := xs \<rparr> else b\<lparr> bids := xs \<rparr>)"

lemma restingSide_simps [simp]:
  "restingSide side (withRestingSide side xs b) = xs"
  "withRestingSide side ys (withRestingSide side xs b) = withRestingSide side ys b"
  "withRestingSide side (restingSide side b) b = b"
  by (simp_all add: restingSide_def withRestingSide_def)

lemma commitMutation_head:
  assumes "restingSide side b = x # xs" and "loId ` set (bids b) \<inter> loId ` set (asks b) = {}"
  shows "commitMutation (loId x, k) (b, r) =
    (Inr (), (withRestingSide side (if k = 0 then xs else x\<lparr> loSize := k \<rparr> # xs) b, r))"
proof (cases side)
  case BUY
  then have a: "asks b = x # xs" using assms(1) by (simp add: restingSide_def)
  have "loId x \<notin> loId ` set (bids b)" using assms(2) a by auto
  then have "\<not> list_ex (\<lambda>y. loId y = loId x) (bids b)" by (simp add: list_ex_iff) (metis imageI)
  with BUY a show ?thesis
    by (simp add: commitMutation_def withRestingSide_def Let_def shrinkAt_def spliceOut_def)
next
  case SELL
  then have "bids b = x # xs" using assms by (simp add: restingSide_def)
  then show ?thesis using SELL
    by (simp add: commitMutation_def withRestingSide_def Let_def shrinkAt_def spliceOut_def)
qed

lemma commit_executed:
  assumes "distinct (map loId (restingSide side b))" and "loId ` set (bids b) \<inter> loId ` set (asks b) = {}"
  shows "forEachS commitMutation (map (\<lambda>(x, m). (loId x, loSize x - m)) (executed ok n (restingSide side b))) (b, r) =
    (Inr (), (withRestingSide side (consume ok n (restingSide side b)) b, r))"
  using assms
proof (induction "restingSide side b" arbitrary: b n)
  case Nil
  have "withRestingSide side [] b = b" using Nil.hyps restingSide_simps(3) [of side b] by simp
  then show ?case by (simp flip: Nil.hyps)
next
  case (Cons x xs)
  have b: "withRestingSide side (x # xs) b = b" using Cons.hyps(2) restingSide_simps(3) [of side b] by simp
  let ?b = "withRestingSide side xs b"
  have d: "distinct (map loId xs)" using Cons.prems(1) by (simp flip: Cons.hyps(2))
  have disj: "loId ` set (bids ?b) \<inter> loId ` set (asks ?b) = {}"
  proof (cases side)
    case BUY
    then have "asks b = x # xs" using Cons.hyps(2) by (simp add: restingSide_def)
    then show ?thesis using Cons.prems(2) BUY by (auto simp: withRestingSide_def)
  next
    case SELL
    then have "bids b = x # xs" using Cons.hyps(2) by (simp add: restingSide_def)
    then show ?thesis using Cons.prems(2) SELL by (auto simp: withRestingSide_def)
  qed
  have head: "bindS (commitMutation (loId x, k)) f (b, r) =
      f () (withRestingSide side (if k = 0 then xs else x\<lparr> loSize := k \<rparr> # xs) b, r)" for k f
    by (simp add: bindS_def commitMutation_head [OF Cons.hyps(2) [symmetric] Cons.prems(2)])
  have IH: "forEachS commitMutation (map (\<lambda>(x, m). (loId x, loSize x - m)) (executed ok k xs)) (?b, r) =
      (Inr (), (withRestingSide side (consume ok k xs) b, r))" for k
    using Cons.hyps(1) [of ?b k] d disj by simp
  consider "n = 0 \<or> \<not> ok x" | "0 < n" "ok x" "n < loSize x" | "0 < n" "ok x" "loSize x \<le> n" by linarith
  then show ?case
  proof cases
    case 1
    then show ?thesis by (auto simp flip: Cons.hyps(2) simp: b)
  next
    case 2
    then show ?thesis by (simp flip: Cons.hyps(2) add: head)
  next
    case 3
    then show ?thesis by (simp flip: Cons.hyps(2) add: head IH min_def)
  qed
qed

definition afterMatch :: "OrderSide \<Rightarrow> (LimitOrder \<Rightarrow> bool) \<Rightarrow> nat \<Rightarrow> LimitOrderBook \<Rightarrow> LimitOrderBook" where
  "afterMatch side ok n b =
     (let ex = executed ok n (restingSide side b) in
      withRestingSide side (consume ok n (restingSide side b)) b
        \<lparr> totalVolume := totalVolume b + traded ex,
          lastTradePrice := (if ex = [] then lastTradePrice b else Some (loPrice (fst (last ex)))) \<rparr>)"

end
