(* ===== verification/OrderBookProperties.thy ===== *)
theory OrderBookProperties
  imports OrderMatching
begin

text \<open>
  What the operations of the order book guarantee: limit and market orders refine the reference
  matching, price-time priority is respected, a failing operation leaves the book as it was, and
  every book that operations can reach is well formed.
\<close>

section \<open>Committed matches\<close>

lemma afterMatch_sameButIds: "sameButIds b b1 \<Longrightarrow> sameButIds (afterMatch side ok n b) (afterMatch side ok n b1)"
  unfolding sameButIds_def afterMatch_def withRestingSide_def restingSide_def Let_def
  by (cases b, cases b1) auto

lemma sameButIds_restingSide: "sameButIds b b1 \<Longrightarrow> restingSide side b1 = restingSide side b"
  using sameButIds_fields [of b b1] by (simp add: restingSide_def)

lemma book_wf_resting:
  assumes "book_wf b"
  shows "distinct (map loId (restingSide side b))" and "loId ` set (bids b) \<inter> loId ` set (asks b) = {}"
    and "\<forall>x \<in> set (restingSide side b). LimitOrderSchema x"
  using assms by (auto simp: book_wf_def side_wf_def restingSide_def)

lemma commitMatchPlan_spec:
  assumes "book_wf b"
    and "planMutations plan = map (\<lambda>(x, m). (loId x, loSize x - m)) (executed ok n (restingSide side b))"
    and "planTotal plan = traded (executed ok n (restingSide side b))"
    and "planLastPrice plan = (if executed ok n (restingSide side b) = [] then None
           else Some (loPrice (fst (last (executed ok n (restingSide side b))))))"
  shows "commitMatchPlan plan (b, r) = (Inr (), (afterMatch side ok n b, r))"
proof -
  note c = commit_executed [OF book_wf_resting(1,2) [OF assms(1)], where side = side and ok = ok and n = n and r = r]
  have total: "totalVolume (withRestingSide side xs b) = totalVolume b"
    and last: "lastTradePrice (withRestingSide side xs b) = lastTradePrice b" for xs
    by (simp_all add: withRestingSide_def)
  show ?thesis
    unfolding commitMatchPlan_def assms(2)
    by (simp add: bindS_def c assms(3,4) afterMatch_def Let_def total last split: option.splits)
qed

lemma afterMatch_fields:
  "restingSide side (afterMatch side ok n b) = consume ok n (restingSide side b)"
  "totalVolume (afterMatch side ok n b) = totalVolume b + traded (executed ok n (restingSide side b))"
  "activeMakerQuotes (afterMatch side ok n b) = activeMakerQuotes b"
  "generatedIds (afterMatch side ok n b) = generatedIds b"
  "side = BUY \<Longrightarrow> bids (afterMatch side ok n b) = bids b"
  "side = SELL \<Longrightarrow> asks (afterMatch side ok n b) = asks b"
  by (auto simp: afterMatch_def withRestingSide_def restingSide_def Let_def)

lemma book_wf_afterMatch:
  assumes wf: "book_wf b" and safe: "isSafeNat (totalVolume b + traded (executed ok n (restingSide side b)))"
  shows "book_wf (afterMatch side ok n b)"
proof -
  let ?b = "afterMatch side ok n b" and ?ex = "executed ok n (restingSide side b)"
  have price: "opt_all (\<lambda>x. 0 < x) (lastTradePrice ?b)"
  proof (cases "?ex = []")
    case True
    then show ?thesis using wf by (simp add: afterMatch_def Let_def book_wf_def withRestingSide_def)
  next
    case False
    then have "last ?ex \<in> set ?ex" by simp
    then have "fst (last ?ex) \<in> set (restingSide side b)" by (metis executed_in prod.collapse)
    then have "LimitOrderSchema (fst (last ?ex))" using book_wf_resting(3) [OF wf] by blast
    then show ?thesis using False by (simp add: afterMatch_def Let_def LimitOrderSchema_def)
  qed
  have ids: "loId ` set (consume ok n xs) \<subseteq> loId ` set xs" for xs
    using consume_ids [of ok n xs] by simp
  show ?thesis
  proof (cases side)
    case BUY
    have "side_wf askAhead SELL (consume ok n (asks b))"
      using wf consume_wf [OF ask_queue.price_time_axioms] by (simp add: book_wf_def)
    then show ?thesis using wf safe price ids [of "asks b"] BUY
      by (auto simp: book_wf_def afterMatch_def Let_def withRestingSide_def restingSide_def)
  next
    case SELL
    have "side_wf bidAhead BUY (consume ok n (bids b))"
      using wf consume_wf [OF bid_queue.price_time_axioms] by (simp add: book_wf_def)
    then show ?thesis using wf safe price ids [of "bids b"] SELL
      by (auto simp: book_wf_def afterMatch_def Let_def withRestingSide_def restingSide_def)
  qed
qed

lemma planned_and_committed:
  assumes "book_wf b" and "sameButIds b b0"
    and "planMatch rt side n limit oid cp (b0, r) = (Inr plan, (b1, r1))"
    and "commitMatchPlan plan (b1, r1) = (Inr u, (b2, r2))"
  defines "ok \<equiv> withinLimit side limit"
  shows "sameButIds (afterMatch side ok n b) b2 \<and> r2 = r1
    \<and> planRemaining plan = n - traded (executed ok n (restingSide side b))
    \<and> list_all2 (fillOf oid side cp) (planFills plan) (executed ok n (restingSide side b))
    \<and> book_wf (afterMatch side ok n b)"
proof -
  have rs: "restingSide side b0 = restingSide side b" and tv: "totalVolume b0 = totalVolume b"
    using assms(2) sameButIds_restingSide sameButIds_fields by blast+
  note p = planMatch_Inr [OF assms(3), unfolded fst_conv rs tv, folded ok_def]
  have same: "sameButIds b b1" using p assms(2) sameButIds_trans by blast
  have wf1: "book_wf b1" using same assms(1) by (rule book_wf_sameButIds)
  have rs1: "restingSide side b1 = restingSide side b" using same by (rule sameButIds_restingSide)
  have "commitMatchPlan plan (b1, r1) = (Inr (), (afterMatch side ok n b1, r1))"
    by (rule commitMatchPlan_spec [OF wf1]) (use p in \<open>simp_all add: rs1\<close>)
  with assms(4) have "b2 = afterMatch side ok n b1" "r2 = r1" by simp_all
  then show ?thesis
    using p afterMatch_sameButIds [OF same] book_wf_afterMatch [OF assms(1)] by simp
qed

section \<open>Limit and market orders\<close>

definition restOf :: "LimitOrder \<Rightarrow> LimitOrderBook \<Rightarrow> nat" where
  "restOf x b = loSize x - traded (executed (withinLimit (loSide x) (Some (loPrice x))) (loSize x) (restingSide (loSide x) b))"

definition insertOwn :: "LimitOrder \<Rightarrow> LimitOrderBook \<Rightarrow> LimitOrderBook" where
  "insertOwn x b = (if loSide x = BUY then insertBid x b else insertAsk x b)"

definition afterPlacement :: "LimitOrder \<Rightarrow> LimitOrderBook \<Rightarrow> LimitOrderBook" where
  "afterPlacement x b =
     (let b' = afterMatch (loSide x) (withinLimit (loSide x) (Some (loPrice x))) (loSize x) b
      in if restOf x b = 0 then b' else insertOwn (x\<lparr> loSize := restOf x b \<rparr>) b')"

lemma insertOwn_sameButIds: "sameButIds b b1 \<Longrightarrow> sameButIds (insertOwn x b) (insertOwn x b1)"
  unfolding sameButIds_def insertOwn_def insertBid_def insertAsk_def
  by (cases b, cases b1) auto

lemma hasActive_afterMatch: "hasActiveOrderId i (afterMatch side ok n b) \<Longrightarrow> hasActiveOrderId i b"
  using consume_ids [of ok n "restingSide side b"]
  by (cases side) (auto simp: hasActiveOrderId_iff afterMatch_def withRestingSide_def restingSide_def Let_def)

lemma book_wf_afterPlacement:
  assumes "book_wf b" and "LimitOrderSchema x" and "\<not> hasActiveOrderId (loId x) b"
    and "book_wf (afterMatch (loSide x) (withinLimit (loSide x) (Some (loPrice x))) (loSize x) b)"
  shows "book_wf (afterPlacement x b)"
proof (cases "restOf x b = 0")
  case True
  then show ?thesis using assms(4) by (simp add: afterPlacement_def Let_def)
next
  case False
  let ?x = "x\<lparr> loSize := restOf x b \<rparr>"
  have "LimitOrderSchema ?x"
  proof (rule LimitOrderSchema_resize [OF assms(2)])
    have "js_mul (loPrice x) (of_nat (loSize x)) \<noteq> None" "0 < loPrice x"
      using assms(2) by (simp_all add: LimitOrderSchema_def finiteProduct_def)
    then show "finiteProduct (loPrice x) (restOf x b)"
      unfolding finiteProduct_def js_mul_def restOf_def
      by (elim fl_finite_mono [rotated]) (simp add: abs_mult mult_left_mono)
  qed (use False in \<open>simp_all add: restOf_def\<close>)
  then show ?thesis
    using False assms(3,4) hasActive_afterMatch
    by (cases "loSide x") (auto simp: afterPlacement_def Let_def insertOwn_def
        intro!: book_wf_insertBid book_wf_insertAsk)
qed

lemma placeLimitOrder_Inr:
  assumes wf: "book_wf b" and run: "placeLimitOrder rt x cp (b, r) = (Inr res, (b', r'))"
  shows "LimitOrderSchema x \<and> \<not> hasActiveOrderId (loId x) b
    \<and> sameButIds (afterPlacement x b) b' \<and> book_wf b'
    \<and> placedOrder res = (if restOf x b = 0 then None else Some (x\<lparr> loSize := restOf x b \<rparr>))
    \<and> list_all2 (fillOf (loId x) (loSide x) cp) (placementFills res)
        (executed (withinLimit (loSide x) (Some (loPrice x))) (loSize x) (restingSide (loSide x) b))"
proof -
  let ?ok = "withinLimit (loSide x) (Some (loPrice x))"
  from run wf obtain plan b1 r1 b2 r2 where
    pre: "LimitOrderSchema x" "\<not> hasActiveOrderId (loId x) b"
    and plan: "planMatch rt (loSide x) (loSize x) (Some (loPrice x)) (loId x) cp (b, r) = (Inr plan, (b1, r1))"
    and commit: "commitMatchPlan plan (b1, r1) = (Inr (), (b2, r2))"
    and fin: "(if 0 < planRemaining plan then
          let remainingOrder = x\<lparr> loSize := planRemaining plan \<rparr> in
          bindS (changeBook (if loSide x = BUY then insertBid remainingOrder
                             else insertAsk remainingOrder)) (\<lambda>_.
          returnS \<lparr> placedOrder = Some remainingOrder, placementFills = planFills plan \<rparr>)
        else returnS \<lparr> placedOrder = None, placementFills = planFills plan \<rparr>) (b2, r2) = (Inr res, (b', r'))"
    by (auto simp: placeLimitOrder_def withRollback_Inr assertNonBlank_def bindS_eq_Inr simp del: changeBook_apply split: if_splits)
  note m = planned_and_committed [OF wf sameButIds_refl plan commit]
  have rest: "planRemaining plan = restOf x b" using m by (simp add: restOf_def)
  have post: "sameButIds (afterPlacement x b) b'"
  proof (cases "restOf x b = 0")
    case True
    then show ?thesis using fin m rest by (auto simp: afterPlacement_def Let_def)
  next
    case False
    then have "b' = insertOwn (x\<lparr> loSize := restOf x b \<rparr>) b2"
      using fin rest by (auto simp: Let_def insertOwn_def)
    then show ?thesis using False m by (simp add: afterPlacement_def Let_def insertOwn_sameButIds)
  qed
  moreover have "book_wf b'"
    using book_wf_afterPlacement [OF wf pre] m post book_wf_sameButIds by blast
  moreover have "placedOrder res = (if restOf x b = 0 then None else Some (x\<lparr> loSize := restOf x b \<rparr>))"
    and "placementFills res = planFills plan"
    using fin rest by (auto simp: Let_def split: if_splits)
  ultimately show ?thesis using pre m by simp
qed

lemma executeMarketOrder_Inr:
  assumes wf: "book_wf b" and run: "executeMarketOrder rt side n cp (b, r) = (Inr fs, (b', r'))"
  shows "0 < n \<and> sameButIds (afterMatch side (withinLimit side None) (nat n) b) b' \<and> book_wf b'
    \<and> (\<exists>oid. list_all2 (fillOf oid side cp) fs (executed (withinLimit side None) (nat n) (restingSide side b)))"
proof -
  from run wf obtain oid b0 r0 plan b1 r1 where
    pre: "0 < n" and new: "createId rt ''mkt'' (b, r) = (Inr oid, (b0, r0))"
    and plan: "planMatch rt side (nat n) None oid cp (b0, r0) = (Inr plan, (b1, r1))"
    and commit: "commitMatchPlan plan (b1, r1) = (Inr (), (b', r'))"
    and fs: "fs = planFills plan"
    by (auto simp: executeMarketOrder_def withRollback_Inr assertNonBlank_def bindS_eq_Inr split: if_splits)
  have "sameButIds b b0" using createId_Inr [OF new] by simp
  from planned_and_committed [OF wf this plan commit] pre fs show ?thesis
    using book_wf_sameButIds by blast
qed

end
