(* ===== verification/OrderBookRuns.thy ===== *)
theory OrderBookRuns
  imports OrderBookProperties
begin

text \<open>
  Quotes, cancellations and runs of the order book: the invariant of every book that a sequence
  of operations reaches, and the properties of matching stated for clients of the book.
\<close>

section \<open>Quotes\<close>

lemma cancelOrder_active:
  assumes "book_wf b"
  shows "hasActiveOrderId j (snd (cancelOrder i b)) \<longleftrightarrow> hasActiveOrderId j b \<and> j \<noteq> i"
proof -
  have cut: "loId ` set (spliceOut k xs) = loId ` set xs - {i}"
    if "findIndex (\<lambda>x. loId x = i) xs = Some k" and "distinct (map loId xs)" for k xs
  proof -
    have k: "k < length xs" "loId (xs ! k) = i" using findIndex_Some [OF that(1)] by auto
    have "distinct (map loId (take k xs @ xs ! k # drop (Suc k) xs))"
      using that(2) spliceOut_split [OF k(1)] by simp
    moreover have "loId ` set xs = loId ` set (take k xs @ xs ! k # drop (Suc k) xs)"
      using spliceOut_split [OF k(1)] by simp
    ultimately show ?thesis using k(2) by (simp add: spliceOut_def image_Un)
  qed
  have none: "i \<notin> loId ` set xs" if "findIndex (\<lambda>x. loId x = i) xs = None" for xs
    using that by (auto simp: findIndex_None)
  have d: "distinct (map loId (bids b))" "distinct (map loId (asks b))"
    and disj: "loId ` set (bids b) \<inter> loId ` set (asks b) = {}"
    using assms by (auto simp: book_wf_def side_wf_def)
  have some: "i \<in> loId ` set xs" if "findIndex (\<lambda>x. loId x = i) xs = Some k" for xs k
    using findIndex_Some [OF that] by (metis imageI nth_mem)
  show ?thesis
  proof (cases "findIndex (\<lambda>x. loId x = i) (bids b)")
    case (Some k)
    have "i \<notin> loId ` set (asks b)" using some [OF Some] disj by blast
    then show ?thesis using cut [OF Some d(1)]
      by (auto simp: cancelOrder_def Some hasActiveOrderId_iff)
  next
    case nobid: None
    note nb = none [OF nobid]
    show ?thesis
    proof (cases "findIndex (\<lambda>x. loId x = i) (asks b)")
      case None
      then show ?thesis using nb none [OF None] by (auto simp: cancelOrder_def nobid hasActiveOrderId_iff)
    next
      case (Some k)
      then show ?thesis using nb cut [OF Some d(2)]
        by (auto simp: cancelOrder_def nobid hasActiveOrderId_iff)
    qed
  qed
qed

lemma cancelIfSet_active:
  assumes "book_wf b" and "j \<noteq> []"
  shows "hasActiveOrderId j (cancelIfSet i b) \<longleftrightarrow> hasActiveOrderId j b \<and> i \<noteq> Some j"
  using assms cancelOrder_active [OF assms(1), of j] by (auto simp: cancelIfSet_def split: option.splits)

lemma book_wf_cancelIfSet: "book_wf b \<Longrightarrow> book_wf (cancelIfSet i b)"
  by (auto simp: cancelIfSet_def book_wf_cancelOrder split: option.splits)

lemma book_wf_quotesField [simp]: "book_wf (b\<lparr> activeMakerQuotes := q \<rparr>) = book_wf b"
  by (simp add: book_wf_def)

lemma hasActive_quotesField [simp]: "hasActiveOrderId i (b\<lparr> activeMakerQuotes := q \<rparr>) = hasActiveOrderId i b"
  by (simp add: hasActiveOrderId_def)

lemma book_wf_cancelMakerQuotes: "book_wf b \<Longrightarrow> book_wf (cancelMakerQuotes owner b)"
  by (auto simp: cancelMakerQuotes_def Let_def book_wf_cancelIfSet split: option.splits)

lemma cancelMakerQuotes_active:
  assumes "book_wf b" and "j \<noteq> []"
  shows "hasActiveOrderId j (cancelMakerQuotes owner b) \<longleftrightarrow> hasActiveOrderId j b \<and> j \<notin> set (replaceableIds owner b)"
  using assms book_wf_cancelIfSet [OF assms(1)]
  by (auto simp: cancelMakerQuotes_def Let_def cancelIfSet_active replaceableIds_def List.map_filter_def split: option.splits)

lemma hasActive_insertBid: "hasActiveOrderId i (insertBid x b) \<longleftrightarrow> i = loId x \<or> hasActiveOrderId i b"
  by (auto simp: hasActiveOrderId_iff insertBid_enqueue)

lemma book_wf_installQuotes:
  assumes wf: "book_wf b" and bo: "LimitOrderSchema bo" "loSide bo = BUY" and ao: "LimitOrderSchema ao" "loSide ao = SELL"
    and ne: "loId bo \<noteq> loId ao"
    and free: "\<not> (hasActiveOrderId (loId bo) b \<and> loId bo \<notin> set (replaceableIds owner b))"
      "\<not> (hasActiveOrderId (loId ao) b \<and> loId ao \<notin> set (replaceableIds owner b))"
  shows "book_wf (installQuotes owner bo ao b)"
proof -
  have nonempty: "loId bo \<noteq> []" "loId ao \<noteq> []"
    using bo(1) ao(1) by (auto simp: LimitOrderSchema_def nonBlank_def)
  have c: "book_wf (cancelMakerQuotes owner b)" using wf by (rule book_wf_cancelMakerQuotes)
  have nb: "\<not> hasActiveOrderId (loId bo) (cancelMakerQuotes owner b)"
    using free(1) cancelMakerQuotes_active [OF wf nonempty(1)] by blast
  have na: "\<not> hasActiveOrderId (loId ao) (insertBid bo (cancelMakerQuotes owner b))"
    using free(2) ne cancelMakerQuotes_active [OF wf nonempty(2)] by (auto simp: hasActive_insertBid)
  show ?thesis
    using book_wf_insertAsk [OF book_wf_insertBid [OF c bo nb] ao na]
    by (simp add: installQuotes_def Let_def)
qed

lemma replaceableIds_sameButIds: "sameButIds b b1 \<Longrightarrow> replaceableIds owner b1 = replaceableIds owner b"
  using sameButIds_fields [of b b1] by (simp add: replaceableIds_def)

lemma setQuotes_Inr:
  assumes wf: "book_wf b" and run: "setQuotes rt owner q (b, r) = (Inr (bo, ao), (b', r'))"
  shows "QuotePairSchema q \<and> nonBlank owner
    \<and> (\<exists>b1. sameButIds b b1 \<and> b' = installQuotes owner bo ao b1) \<and> book_wf b'
    \<and> LimitOrderSchema bo \<and> LimitOrderSchema ao
    \<and> loSide bo = BUY \<and> loPrice bo = bidPrice q \<and> loSize bo = bidSize q
    \<and> loSide ao = SELL \<and> loPrice ao = askPrice q \<and> loSize ao = askSize q
    \<and> loTimestamp ao = loTimestamp bo"
proof -
  from run wf obtain t b0 r0 bid b1 r1 ask where
    pre: "QuotePairSchema q" "nonBlank owner" and now: "bookNow rt (b, r) = (Inr t, (b0, r0))"
    and bid: "createId rt (''quote_bid_'' @ owner) (b0, r0) = (Inr bid, (b1, r1))"
    and ask: "createId rt (''quote_ask_'' @ owner) (b1, r1) = (Inr ask, (fst (snd (createId rt (''quote_ask_'' @ owner) (b1, r1))), r'))"
    and bo: "bo = \<lparr> loId = bid, loSide = BUY, loPrice = bidPrice q, loSize = bidSize q, loTimestamp = t \<rparr>"
    and ao: "ao = \<lparr> loId = ask, loSide = SELL, loPrice = askPrice q, loSize = askSize q, loTimestamp = t \<rparr>"
    and ok: "LimitOrderSchema bo" "LimitOrderSchema ao" "bid \<noteq> ask"
    and free: "\<not> (hasActiveOrderId bid (fst (snd (createId rt (''quote_ask_'' @ owner) (b1, r1)))) \<and> bid \<notin> set (replaceableIds owner (fst (snd (createId rt (''quote_ask_'' @ owner) (b1, r1))))))"
      "\<not> (hasActiveOrderId ask (fst (snd (createId rt (''quote_ask_'' @ owner) (b1, r1)))) \<and> ask \<notin> set (replaceableIds owner (fst (snd (createId rt (''quote_ask_'' @ owner) (b1, r1))))))"
    and b': "b' = installQuotes owner bo ao (fst (snd (createId rt (''quote_ask_'' @ owner) (b1, r1))))"
    by (auto simp: setQuotes_def withRollback_Inr assertNonBlank_def bindS_eq_Inr Let_def split: if_splits)
  define b2 where "b2 = fst (snd (createId rt (''quote_ask_'' @ owner) (b1, r1)))"
  have "sameButIds b b0" using bookNow_Inr [OF now] by (simp add: sameButIds_refl)
  moreover have "sameButIds b0 b1" using createId_Inr [OF bid] by simp
  moreover have "sameButIds b1 b2" using createId_Inr [OF ask] by (simp add: b2_def)
  ultimately have same: "sameButIds b b2" by (metis sameButIds_trans)
  have wf2: "book_wf b2" using same wf by (rule book_wf_sameButIds)
  have "book_wf b'"
    unfolding b' b2_def [symmetric]
    by (rule book_wf_installQuotes [OF wf2 ok(1) _ ok(2)]) (use free ok(3) in \<open>simp_all add: bo ao b2_def\<close>)
  then show ?thesis using pre same b' ok by (auto simp: b2_def bo ao)
qed

section \<open>Runs\<close>

datatype BookCommand =
    PlaceLimit LimitOrder string | ExecuteMarket OrderSide int string | SetMakerQuotes string QuotePair
  | CancelMaker string | CancelById string | ClearAll

text \<open>One operation as a client sees it: the fills it returns, or what it throws.\<close>

fun bookStep :: "'r LimitOrderBookRuntime \<Rightarrow> BookCommand \<Rightarrow> ('r, OrderFill list) book_action" where
  "bookStep rt (PlaceLimit x cp) = bindS (placeLimitOrder rt x cp) (\<lambda>res. returnS (placementFills res))"
| "bookStep rt (ExecuteMarket side n cp) = executeMarketOrder rt side n cp"
| "bookStep rt (SetMakerQuotes owner q) = bindS (setQuotes rt owner q) (\<lambda>_. returnS [])"
| "bookStep rt (CancelMaker owner) = bindS (changeBook (cancelMakerQuotes owner)) (\<lambda>_. returnS [])"
| "bookStep rt (CancelById i) = bindS (changeBook (\<lambda>b. snd (cancelOrder i b))) (\<lambda>_. returnS [])"
| "bookStep rt ClearAll = bindS (changeBook clearBook) (\<lambda>_. returnS [])"

definition volumeOf :: "OrderFill list \<Rightarrow> nat" where
  "volumeOf fs = sum_list (map fillSize fs)"

text \<open>The volume a book reports after a command that returned fills.\<close>

fun reportedVolume :: "BookCommand \<Rightarrow> nat \<Rightarrow> OrderFill list \<Rightarrow> nat" where
  "reportedVolume ClearAll v fs = 0"
| "reportedVolume c v fs = v + volumeOf fs"

inductive bookReached :: "'r LimitOrderBookRuntime \<Rightarrow> LimitOrderBook \<times> 'r \<Rightarrow> bool" for rt where
  new: "bookReached rt (newLimitOrderBook, r)"
| step: "bookReached rt s \<Longrightarrow> bookReached rt (snd (bookStep rt c s))"

lemma fills_volume: "list_all2 (fillOf oid side cp) fs ex \<Longrightarrow> volumeOf fs = traded ex"
  by (induction rule: list_all2_induct) (auto simp: volumeOf_def fillOf_def matchFill_def, metis OrderFill.select_convs(6))

lemma cancelOrder_rest:
  "totalVolume (snd (cancelOrder i b)) = totalVolume b \<and> generatedIds (snd (cancelOrder i b)) = generatedIds b"
  by (auto simp: cancelOrder_def split: option.splits)

lemma clearBook_volume: "totalVolume (clearBook b) = 0"
  by (simp add: clearBook_def)

lemma cancelMakerQuotes_volume: "totalVolume (cancelMakerQuotes owner b) = totalVolume b"
  by (auto simp: cancelMakerQuotes_def cancelIfSet_def Let_def cancelOrder_rest split: option.splits)

lemma installQuotes_volume: "totalVolume (installQuotes owner bo ao b) = totalVolume b"
  by (simp add: installQuotes_def Let_def insertBid_def insertAsk_def cancelMakerQuotes_volume)

lemma afterPlacement_volume:
  "totalVolume (afterPlacement x b) = totalVolume b
     + traded (executed (withinLimit (loSide x) (Some (loPrice x))) (loSize x) (restingSide (loSide x) b))"
  by (simp add: afterPlacement_def Let_def insertOwn_def insertBid_def insertAsk_def afterMatch_fields)

lemma bookStep_returns:
  assumes wf: "book_wf b" and run: "bookStep rt c (b, r) = (Inr fs, (b', r'))"
  shows "book_wf b' \<and> totalVolume b' = reportedVolume c (totalVolume b) fs"
proof (cases c)
  case (PlaceLimit x cp)
  then obtain res where p: "placeLimitOrder rt x cp (b, r) = (Inr res, (b', r'))" and fs: "fs = placementFills res"
    using run by (auto simp: bindS_eq_Inr)
  show ?thesis
    using placeLimitOrder_Inr [OF wf p] fills_volume sameButIds_fields PlaceLimit fs
    by (fastforce simp: afterPlacement_volume)
next
  case (ExecuteMarket side n cp)
  then have p: "executeMarketOrder rt side n cp (b, r) = (Inr fs, (b', r'))" using run by simp
  show ?thesis
    using executeMarketOrder_Inr [OF wf p] fills_volume sameButIds_fields ExecuteMarket
    by (fastforce simp: afterMatch_fields)
next
  case (SetMakerQuotes owner q)
  then obtain bo ao where "setQuotes rt owner q (b, r) = (Inr (bo, ao), (b', r'))" and fs: "fs = []"
    using run by (auto simp: bindS_eq_Inr)
  from setQuotes_Inr [OF wf this(1)] obtain b1 where "book_wf b'" "sameButIds b b1" "b' = installQuotes owner bo ao b1"
    by blast
  then show ?thesis using SetMakerQuotes fs sameButIds_fields [of b b1]
    by (simp add: installQuotes_volume volumeOf_def)
qed (use run wf in \<open>auto simp: book_wf_cancelMakerQuotes book_wf_cancelOrder book_wf_clear
  cancelMakerQuotes_volume cancelOrder_rest volumeOf_def clearBook_volume\<close>)

lemma bookStep_throws:
  assumes wf: "book_wf b" and run: "bookStep rt c (b, r) = (Inl e, s)"
  shows "fst s = b"
proof (cases c)
  case (PlaceLimit x cp)
  then have "placeLimitOrder rt x cp (b, r) = (Inl e, s)" using run by (auto simp: bindS_eq_Inl)
  then show ?thesis unfolding placeLimitOrder_def by (rule withRollback_Inl [OF wf])
next
  case (ExecuteMarket side n cp)
  then have "executeMarketOrder rt side n cp (b, r) = (Inl e, s)" using run by simp
  then show ?thesis unfolding executeMarketOrder_def by (rule withRollback_Inl [OF wf])
next
  case (SetMakerQuotes owner q)
  then have "setQuotes rt owner q (b, r) = (Inl e, s)" using run by (auto simp: bindS_eq_Inl)
  then show ?thesis unfolding setQuotes_def by (rule withRollback_Inl [OF wf])
qed (use run in auto)

lemma bookReached_wf: "bookReached rt s \<Longrightarrow> book_wf (fst s)"
proof (induction rule: bookReached.induct)
  case (new r)
  then show ?case by (simp add: book_wf_new)
next
  case (step s c)
  obtain b r where s: "s = (b, r)" by fastforce
  obtain res b' r' where run: "bookStep rt c (b, r) = (res, (b', r'))" by (metis prod.collapse)
  show ?case
  proof (cases res)
    case (Inl e)
    then show ?thesis using bookStep_throws [of b rt c r e "(b', r')"] run step.IH s by simp
  next
    case (Inr fs)
    then show ?thesis using bookStep_returns [of b rt c r fs b' r'] run step.IH s by simp
  qed
qed

section \<open>Properties\<close>

text \<open>A runtime that counts: the state is the number of ids and times drawn.\<close>

definition countingRuntime :: "nat LimitOrderBookRuntime" where
  "countingRuntime =
     \<lparr> runtimeNow = (\<lambda>n. (Inr (of_nat n), n + 1)),
       runtimeCreateId = (\<lambda>prefix n. (Inr (prefix @ [char_of (n + 97)]), n + 1)) \<rparr>"

definition sampleAsk :: LimitOrder where
  "sampleAsk = \<lparr> loId = ''ask'', loSide = SELL, loPrice = 100, loSize = 5, loTimestamp = 0 \<rparr>"

definition sampleBid :: LimitOrder where
  "sampleBid = \<lparr> loId = ''bid'', loSide = BUY, loPrice = 101, loSize = 7, loTimestamp = 1 \<rparr>"

definition askBook :: "LimitOrderBook \<times> nat" where
  "askBook = snd (placeLimitOrder countingRuntime sampleAsk ''MAKER'' (newLimitOrderBook, 0))"

lemma askBook_eq: "askBook = (newLimitOrderBook\<lparr> asks := [sampleAsk] \<rparr>, 0)"
  unfolding askBook_def by code_simp

lemma askBook_place:
  "fst (placeLimitOrder countingRuntime sampleBid ''TRADER'' askBook) =
     Inr \<lparr> placedOrder = Some (sampleBid\<lparr> loSize := 2 \<rparr>),
           placementFills = [matchFill ''filla'' 1 BUY ''bid'' ''TRADER'' sampleAsk 5] \<rparr>"
  unfolding askBook_eq by code_simp

lemma askBook_reached: "bookReached countingRuntime askBook"
proof -
  have "snd (bookStep countingRuntime (PlaceLimit sampleAsk ''MAKER'') (newLimitOrderBook, 0)) = askBook"
    unfolding askBook_def by (simp add: bindS_def split: prod.splits sum.splits)
  then show ?thesis
    using bookReached.step [OF bookReached.new, of countingRuntime "PlaceLimit sampleAsk ''MAKER''" 0] by simp
qed

text \<open>
Property C31. Whatever ids and times the runtime supplies, every book that operations reach is well formed:
  both sides sorted by price, then time, with pairwise distinct ids and valid orders on their own
  side. An operation that throws leaves the book exactly as it was; one that returns keeps it well
  formed and moves the reported volume by exactly the sizes of the fills it returned.
\<close>

theorem reached_books_are_sound:
  assumes "bookReached rt (b, r)" and "bookStep rt c (b, r) = (res, (b', r'))"
  shows "book_wf b \<and>
    (case res of Inl e \<Rightarrow> b' = b
     | Inr fs \<Rightarrow> book_wf b' \<and> totalVolume b' = reportedVolume c (totalVolume b) fs)"
proof -
  have wf: "book_wf b" using bookReached_wf [OF assms(1)] by simp
  then show ?thesis
    using bookStep_returns [OF wf] bookStep_throws [OF wf] assms(2) by (fastforce split: sum.splits)
qed

theorem reached_books_are_sound_witness:
  "\<exists>fs b' r'. bookStep countingRuntime (PlaceLimit sampleBid ''TRADER'') askBook = (Inr fs, (b', r'))
     \<and> volumeOf fs = 5 \<and> book_wf b' \<and> totalVolume b' = 5"
proof -
  obtain res b' r' where s: "bookStep countingRuntime (PlaceLimit sampleBid ''TRADER'') (fst askBook, snd askBook) = (res, (b', r'))"
    by (metis prod.collapse)
  then have res: "res = Inr [matchFill ''filla'' 1 BUY ''bid'' ''TRADER'' sampleAsk 5]"
    using askBook_place by (auto simp: bindS_def split: prod.splits sum.splits)
  have "bookReached countingRuntime (fst askBook, snd askBook)" using askBook_reached by simp
  from reached_books_are_sound [OF this s] s show ?thesis
    unfolding res by (auto simp: askBook_eq newLimitOrderBook_def volumeOf_def matchFill_def)
qed

definition queueAhead :: "OrderSide \<Rightarrow> LimitOrder \<Rightarrow> LimitOrder \<Rightarrow> bool" where
  "queueAhead side = (if side = BUY then askAhead else bidAhead)"

lemma restingSide_sorted: "book_wf b \<Longrightarrow> sorted_wrt (queueAhead side) (restingSide side b)"
  by (cases side) (simp_all add: book_wf_def side_wf_def restingSide_def queueAhead_def)

lemma queueAhead_resize [simp]: "queueAhead side x (y\<lparr> loSize := m \<rparr>) = queueAhead side x y"
  by (simp add: queueAhead_def askAhead_def bidAhead_def)

lemma executed_ahead:
  assumes "sorted_wrt (queueAhead side) xs" and "(x, m) \<in> set (executed ok n xs)" and "y \<in> set (consume ok n xs)"
  shows "queueAhead side x y"
  using assms
proof (induction ok n xs rule: executed.induct)
  case (2 ok n z xs)
  have self: "queueAhead side z z" by (simp add: queueAhead_def askAhead_def bidAhead_def)
  have sub: "\<exists>y0 \<in> set xs. \<exists>k. y = y0 \<or> y = y0\<lparr> loSize := k \<rparr>" if "y \<in> set (consume ok k xs)" for k
    using that by (induction ok k xs rule: consume.induct) (auto split: if_splits)
  show ?case
  proof (cases "n < loSize z")
    case True
    then show ?thesis using 2 self by (auto split: if_splits)
  next
    case False
    then have y: "y \<in> set (consume ok (n - loSize z) xs)" and "0 < n" "ok z"
      using "2.prems" by (auto split: if_splits)
    have "min n (loSize z) = loSize z" using False by simp
    with 2 y sub [OF y] \<open>0 < n\<close> \<open>ok z\<close> show ?thesis by auto
  qed
qed simp

lemma rest_beyond:
  assumes "sorted_wrt (queueAhead side) xs" and "traded (executed (withinLimit side limit) n xs) < n"
    and "y \<in> set (consume (withinLimit side limit) n xs)"
  shows "beyondLimit side limit (loPrice y)"
  using assms
proof (induction "withinLimit side limit" n xs rule: consume.induct)
  case (2 n x xs)
  have later: "beyondLimit side limit (loPrice z)" if "beyondLimit side limit (loPrice x)" "z \<in> set xs" for z
    using that "2.prems"(1)
    by (auto simp: beyondLimit_def queueAhead_def askAhead_def bidAhead_def split: option.splits if_splits)
  show ?case using 2 later by (auto simp: min_def withinLimit_def split: if_splits)
qed simp

lemma placement_fair:
  assumes wf: "book_wf b" and run: "placeLimitOrder rt x cp (b, r) = (Inr res, (b', r'))"
  shows "volumeOf (placementFills res) + (case placedOrder res of None \<Rightarrow> 0 | Some y \<Rightarrow> loSize y) = loSize x"
    and "depth (restingSide (loSide x) b') + volumeOf (placementFills res) = depth (restingSide (loSide x) b)"
    and "f \<in> set (placementFills res) \<Longrightarrow>
      \<not> beyondLimit (loSide x) (Some (loPrice x)) (fillPrice f) \<and>
      (\<exists>y \<in> set (restingSide (loSide x) b). matchedOrderId f = Some (loId y) \<and> fillPrice f = loPrice y
         \<and> (\<forall>z \<in> set (restingSide (loSide x) b'). queueAhead (loSide x) y z))"
    and "placedOrder res \<noteq> None \<Longrightarrow> z \<in> set (restingSide (loSide x) b') \<Longrightarrow>
      beyondLimit (loSide x) (Some (loPrice x)) (loPrice z)"
proof -
  let ?q = "restingSide (loSide x) b" and ?ok = "withinLimit (loSide x) (Some (loPrice x))"
  let ?ex = "executed ?ok (loSize x) ?q"
  note p = placeLimitOrder_Inr [OF wf run]
  have own: "restingSide side (insertOwn y a) = restingSide side a" if "loSide y = side" for y a side
    using that by (cases side) (auto simp: restingSide_def insertOwn_def insertBid_def insertAsk_def)
  have q: "restingSide (loSide x) b' = consume ?ok (loSize x) ?q"
    using p sameButIds_restingSide [of "afterPlacement x b" b' "loSide x"]
    by (auto simp: afterPlacement_def Let_def own afterMatch_fields)
  have vol: "volumeOf (placementFills res) = traded ?ex" using p fills_volume by blast
  have le: "traded ?ex \<le> loSize x" by (simp add: traded_executed)
  show "volumeOf (placementFills res) + (case placedOrder res of None \<Rightarrow> 0 | Some y \<Rightarrow> loSize y) = loSize x"
    using p vol le by (auto simp: restOf_def)
  show "depth (restingSide (loSide x) b') + volumeOf (placementFills res) = depth ?q"
    unfolding q vol by (rule depth_consume)
  note sorted = restingSide_sorted [OF wf, of "loSide x"]
  show "\<not> beyondLimit (loSide x) (Some (loPrice x)) (fillPrice f) \<and>
      (\<exists>y \<in> set ?q. matchedOrderId f = Some (loId y) \<and> fillPrice f = loPrice y
         \<and> (\<forall>z \<in> set (restingSide (loSide x) b'). queueAhead (loSide x) y z))"
    if mem: "f \<in> set (placementFills res)"
  proof -
    obtain y m where ym: "(y, m) \<in> set ?ex" and f: "fillOf (loId x) (loSide x) cp f (y, m)"
      using list_all2_member [of _ "placementFills res" ?ex f] p mem by (metis prod.collapse)
    have "matchedOrderId f = Some (loId y)" "fillPrice f = loPrice y"
      using f unfolding fillOf_def matchFill_def by (metis OrderFill.select_convs fst_conv)+
    then show ?thesis
      using executed_in [OF ym] executed_ahead [OF sorted ym] by (auto simp: q withinLimit_def)
  qed
  show "beyondLimit (loSide x) (Some (loPrice x)) (loPrice z)"
    if "placedOrder res \<noteq> None" "z \<in> set (restingSide (loSide x) b')"
  proof (rule rest_beyond [OF sorted])
    show "traded ?ex < loSize x" using that(1) p by (auto simp: restOf_def not_le split: if_splits)
    show "z \<in> set (consume ?ok (loSize x) ?q)" using that(2) by (simp add: q)
  qed
qed

text \<open>
Property C32. Placing a limit order refines the reference matching: on every reachable book an accepted order
  trades with exactly the prefix of the opposite queue that \<open>executed\<close> computes (one fill per
  resting order, at its price), the queue keeps what \<open>consume\<close> leaves, the unmatched rest is
  queued behind its equals, and nothing else but the drawn ids changes.
\<close>

theorem limit_orders_refine_matching:
  assumes "bookReached rt (b, r)" and "placeLimitOrder rt x cp (b, r) = (Inr res, (b', r'))"
  shows "\<not> hasActiveOrderId (loId x) b
    \<and> sameButIds (afterPlacement x b) b'
    \<and> placedOrder res = (if restOf x b = 0 then None else Some (x\<lparr> loSize := restOf x b \<rparr>))
    \<and> list_all2 (fillOf (loId x) (loSide x) cp) (placementFills res)
        (executed (withinLimit (loSide x) (Some (loPrice x))) (loSize x) (restingSide (loSide x) b))"
  using placeLimitOrder_Inr [OF _ assms(2)] bookReached_wf [OF assms(1)] by simp

theorem limit_orders_refine_matching_witness:
  "\<exists>res b' r'. placeLimitOrder countingRuntime sampleBid ''TRADER'' askBook = (Inr res, (b', r'))
     \<and> sameButIds (afterPlacement sampleBid (fst askBook)) b' \<and> placedOrder res = Some (sampleBid\<lparr> loSize := 2 \<rparr>)"
proof -
  obtain res b' r' where run: "placeLimitOrder countingRuntime sampleBid ''TRADER'' (fst askBook, snd askBook) = (Inr res, (b', r'))"
    and res: "placedOrder res = Some (sampleBid\<lparr> loSize := 2 \<rparr>)"
    using askBook_place by (cases "placeLimitOrder countingRuntime sampleBid ''TRADER'' askBook") auto
  have "bookReached countingRuntime (fst askBook, snd askBook)" using askBook_reached by simp
  from limit_orders_refine_matching [OF this run] run res show ?thesis by auto
qed

text \<open>
Matching is fair and conserves size: the fills of an accepted order and its unmatched rest add up to
  its size; the opposite side loses exactly what was filled; every fill is within the limit and was
  made with an order that is ahead, by price and then time, of everything that still rests on that
  side; and if a rest remains, nothing on the opposite side could still have matched it.
\<close>

theorem placements_are_fair:
  assumes "bookReached rt (b, r)" and "placeLimitOrder rt x cp (b, r) = (Inr res, (b', r'))"
  shows "volumeOf (placementFills res) + (case placedOrder res of None \<Rightarrow> 0 | Some y \<Rightarrow> loSize y) = loSize x
    \<and> depth (restingSide (loSide x) b') + volumeOf (placementFills res) = depth (restingSide (loSide x) b)
    \<and> (\<forall>f \<in> set (placementFills res).
          \<not> beyondLimit (loSide x) (Some (loPrice x)) (fillPrice f)
          \<and> (\<exists>y \<in> set (restingSide (loSide x) b). matchedOrderId f = Some (loId y) \<and> fillPrice f = loPrice y
               \<and> (\<forall>z \<in> set (restingSide (loSide x) b'). queueAhead (loSide x) y z)))
    \<and> (placedOrder res \<noteq> None \<longrightarrow>
         (\<forall>z \<in> set (restingSide (loSide x) b'). beyondLimit (loSide x) (Some (loPrice x)) (loPrice z)))"
proof -
  have wf: "book_wf b" using bookReached_wf [OF assms(1)] by simp
  from placement_fair [OF wf assms(2)] show ?thesis by blast
qed

theorem placements_are_fair_witness:
  "\<exists>res b' r'. placeLimitOrder countingRuntime sampleBid ''TRADER'' askBook = (Inr res, (b', r'))
     \<and> placedOrder res \<noteq> None \<and> volumeOf (placementFills res) + 2 = 7
     \<and> depth (restingSide BUY b') + 5 = depth (restingSide BUY (fst askBook))"
proof -
  obtain res b' r' where run: "placeLimitOrder countingRuntime sampleBid ''TRADER'' (fst askBook, snd askBook) = (Inr res, (b', r'))"
    and res: "res = \<lparr> placedOrder = Some (sampleBid\<lparr> loSize := 2 \<rparr>),
           placementFills = [matchFill ''filla'' 1 BUY ''bid'' ''TRADER'' sampleAsk 5] \<rparr>"
    using askBook_place by (cases "placeLimitOrder countingRuntime sampleBid ''TRADER'' askBook") auto
  have "bookReached countingRuntime (fst askBook, snd askBook)" using askBook_reached by simp
  from placements_are_fair [OF this run] run res show ?thesis
    by (auto simp: sampleBid_def volumeOf_def matchFill_def)
qed

end
