(* ===== verification/MarketMaking.thy ===== *)
theory MarketMaking
  imports QuantEvents PortfolioFacts OrderBookRuns
begin

text \<open>
  The market making game (\<^verbatim>\<open>packages/local-compute/src/market-maker.ts\<close>): its score
  and the simulator that plays student quotes against simulated order flow. The simulator runs on an
  order book and a portfolio; the time and the ids of its book and its random numbers come from one
  outside world, which a failed round does not take back.
\<close>

section \<open>The score\<close>

record MarketMakingScoreInput =
  siTotalPnL :: rat
  siAverageSpread :: rat
  siMaxDrawdown :: rat
  siRiskBreaches :: "int option"
  siParticipationRate :: "rat option"

datatype ScoreError = NegativeInput | RiskBreachesInvalid | ParticipationInvalid

text \<open>\<^verbatim>\<open>Math.round\<close> rounds halves up.\<close>

definition js_round :: "rat \<Rightarrow> int" where
  "js_round x = \<lfloor>x + 1/2\<rfloor>"

text \<open>\<^verbatim>\<open>Math.min(cap, Math.round(x))\<close>, where an overflow to infinity leaves the cap.\<close>

definition cappedRound :: "int \<Rightarrow> rat option \<Rightarrow> int" where
  "cappedRound cap x = (case x of None \<Rightarrow> cap | Some y \<Rightarrow> min cap (js_round y))"

definition profitPoints :: "rat \<Rightarrow> int" where
  "profitPoints pnl =
     (if 0 < pnl then cappedRound 25 (js_mul pnl 2) else - cappedRound 30 (js_mul \<bar>pnl\<bar> 2))"

definition spreadPoints :: "rat \<Rightarrow> int" where
  "spreadPoints s = (if 0 < s \<and> s \<le> 4 then 15 else if 10 < s then -20 else 0)"

definition drawdownPoints :: "rat \<Rightarrow> int" where
  "drawdownPoints d = (if d < 50 then 10 else - cappedRound 20 (js_div d 10))"

definition breachPoints :: "int \<Rightarrow> int" where
  "breachPoints n = - min 30 (n * 15)"

text \<open>The rate lies in the unit interval, so that the product is at most 20 and finite.\<close>

definition participationPoints :: "rat \<Rightarrow> int" where
  "participationPoints rate =
     - cappedRound 20 (nmul fl (map_option (max 0) (fl (1 - rate))) (Some 20))"

definition calculateMarketMakingScore :: "MarketMakingScoreInput \<Rightarrow> (ScoreError, int) result" where
  "calculateMarketMakingScore i =
     bindE (guardE (0 \<le> siAverageSpread i \<and> 0 \<le> siMaxDrawdown i) NegativeInput) (\<lambda>_.
     bindE (guardE (opt_all (\<lambda>n. isSafeInteger n \<and> 0 \<le> n) (siRiskBreaches i)) RiskBreachesInvalid) (\<lambda>_.
     bindE (guardE (opt_all unitInterval (siParticipationRate i)) ParticipationInvalid) (\<lambda>_.
     Inr (max 0 (min 100
       (50 + profitPoints (siTotalPnL i) + spreadPoints (siAverageSpread i)
        + drawdownPoints (siMaxDrawdown i) + breachPoints (orElse (siRiskBreaches i) 0)
        + participationPoints (orElse (siParticipationRate i) 1)))))))"

section \<open>The simulator\<close>

record SimulatedRoundAction =
  saRound :: nat
  saStudentQuote :: QuotePair
  saOrderFlowType :: OrderFlowType
  saTradeSide :: "OrderSide option"
  saTradePrice :: "rat option"
  saTradeSize :: "nat option"

text \<open>The sum of spreads is not checked: \<open>None\<close> once it has overflowed.\<close>

record MarketMakerSimulator =
  mmConfig :: TradingGameConfig
  mmBook :: LimitOrderBook
  mmPortfolio :: PortfolioTracker
  mmRoundsHistory :: "SimulatedRoundAction list"
  mmTotalSpreadSum :: "rat option"
  mmValidQuoteRounds :: nat

datatype SimulatorError =
    GameComplete | InvalidGameConfig | InvalidStudentQuote | RandomOutOfRange | InvalidGameResult
  | SpreadNotFinite
  | SimulatorBook BookError | SimulatorPortfolio PortfolioError | SimulatorScore ScoreError
  | SimulatorRuntime string

record 'r MarketMakerSimulatorRuntime =
  simulatorBookRuntime :: "'r LimitOrderBookRuntime"
  simulatorRandom :: "'r \<Rightarrow> rat \<times> 'r"

type_synonym ('r, 'a) simulator_action = "(MarketMakerSimulator \<times> 'r, SimulatorError, 'a) action"

definition asPartial :: "PositionRiskLimits option \<Rightarrow> PartialRiskLimits" where
  "asPartial l =
     (case l of
        None \<Rightarrow> noRiskLimits
      | Some x \<Rightarrow> \<lparr> optMaxPosition = Some (maxPosition x), optMaxDrawdown = Some (limitMaxDrawdown x),
                   optStopLossThreshold = Some (stopLossThreshold x) \<rparr>)"

definition newMarketMakerSimulator :: "TradingGameConfig \<Rightarrow> (SimulatorError, MarketMakerSimulator) result" where
  "newMarketMakerSimulator c =
     bindE (guardE (TradingGameConfigSchema c) InvalidGameConfig) (\<lambda>_.
     case newPortfolioTracker (gameInitialCash c) (asPartial (gameRiskLimits c)) of
       Inl e \<Rightarrow> Inl (SimulatorPortfolio e)
     | Inr p \<Rightarrow>
         Inr \<lparr> mmConfig = c, mmBook = newLimitOrderBook, mmPortfolio = p, mmRoundsHistory = [],
               mmTotalSpreadSum = Some 0, mmValidQuoteRounds = 0 \<rparr>)"

definition currentRound :: "MarketMakerSimulator \<Rightarrow> nat" where
  "currentRound g = length (mmRoundsHistory g) + 1"

definition inBook :: "(LimitOrderBook \<times> 'r, BookError, 'a) action \<Rightarrow> ('r, 'a) simulator_action" where
  "inBook = withinS (\<lambda>(g, r). (mmBook g, r)) (\<lambda>(b, r) (g, _). (g\<lparr> mmBook := b \<rparr>, r)) SimulatorBook"

definition inPortfolio :: "'a portfolio_action \<Rightarrow> ('r, 'a) simulator_action" where
  "inPortfolio = withinS (\<lambda>(g, r). mmPortfolio g) (\<lambda>p (g, r). (g\<lparr> mmPortfolio := p \<rparr>, r)) SimulatorPortfolio"

definition changeGame :: "(MarketMakerSimulator \<Rightarrow> MarketMakerSimulator) \<Rightarrow> ('r, unit) simulator_action" where
  "changeGame f = modifyS (map_prod f (\<lambda>r. r))"

definition drawRandom :: "'r MarketMakerSimulatorRuntime \<Rightarrow> ('r, rat) simulator_action" where
  "drawRandom rt =
     (\<lambda>(g, r). case simulatorRandom rt r of (x, r') \<Rightarrow>
        (if 0 \<le> x \<and> x < 1 then Inr x else Inl RandomOutOfRange, (g, r')))"

text \<open>
  A simulated taker trades with the book; the student takes the other side of the first fill.
\<close>

definition tradeAgainst ::
  "'r MarketMakerSimulatorRuntime \<Rightarrow> OrderSide \<Rightarrow> nat \<Rightarrow> string \<Rightarrow>
   ('r, (OrderSide \<times> rat \<times> nat) option) simulator_action" where
  "tradeAgainst rt side n cp =
     bindS (inBook (executeMarketOrder (simulatorBookRuntime rt) side (int n) cp)) (\<lambda>fills.
     case fills of
       [] \<Rightarrow> returnS None
     | f # _ \<Rightarrow>
         bindS (inPortfolio (applyFillS fl (f\<lparr> fillSide := opposite side \<rparr>))) (\<lambda>_.
         returnS (Some (opposite side, fillPrice f, fillSize f))))"

definition simulateFlow ::
  "'r MarketMakerSimulatorRuntime \<Rightarrow> TradingGameConfig \<Rightarrow> QuotePair \<Rightarrow> rat \<Rightarrow> rat option \<Rightarrow>
   rat option \<Rightarrow> ('r, OrderFlowType \<times> (OrderSide \<times> rat \<times> nat) option) simulator_action" where
  "simulateFlow rt c q roll noiseBuyRoll spread =
     (if roll < gameInformedProbability c then
        (if askPrice q < gameFairValue c then
           bindS (tradeAgainst rt BUY (askSize q) ''INFORMED_TRADER'') (\<lambda>t. returnS (INFORMED, t))
         else if gameFairValue c < bidPrice q then
           bindS (tradeAgainst rt SELL (bidSize q) ''INFORMED_TRADER'') (\<lambda>t. returnS (INFORMED, t))
         else returnS (NO_TRADE, None))
      else
        (case noiseBuyRoll of
           None \<Rightarrow> returnS (NO_TRADE, None)
         | Some b \<Rightarrow>
             if atMost spread 10 then
               bindS (tradeAgainst rt (if b < 1/2 then BUY else SELL) 1 ''NOISE_TRADER'') (\<lambda>t.
               returnS (NOISE, t))
             else returnS (NOISE, None)))"

definition playRoundBody ::
  "'r MarketMakerSimulatorRuntime \<Rightarrow> QuotePair \<Rightarrow> ('r, SimulatedRoundAction) simulator_action" where
  "playRoundBody rt q =
     bindS (readS (\<lambda>(g, _). (mmConfig g, currentRound g))) (\<lambda>(c, roundNumber).
     bindS (drawRandom rt) (\<lambda>roll.
     bindS (if gameInformedProbability c \<le> roll
               \<and> (case js_add (gameInformedProbability c) (gameNoiseProbability c) of
                    None \<Rightarrow> True | Some limit \<Rightarrow> roll < limit)
            then bindS (drawRandom rt) (\<lambda>b. returnS (Some b)) else returnS None) (\<lambda>noiseBuyRoll.
     let spread = fl (askPrice q - bidPrice q) in
     bindS (changeGame (\<lambda>g. g\<lparr> mmValidQuoteRounds := mmValidQuoteRounds g + 1,
                               mmTotalSpreadSum := nadd fl (mmTotalSpreadSum g) spread \<rparr>)) (\<lambda>_.
     bindS (inBook (setQuotes (simulatorBookRuntime rt) ''STUDENT'' q)) (\<lambda>_.
     bindS (simulateFlow rt c q roll noiseBuyRoll spread) (\<lambda>(flow, trade).
     bindS (inPortfolio (updateMarkPrice fl (gameFairValue c))) (\<lambda>_.
     let action = \<lparr> saRound = roundNumber, saStudentQuote = q, saOrderFlowType = flow,
                    saTradeSide = map_option fst trade,
                    saTradePrice = map_option (\<lambda>t. fst (snd t)) trade,
                    saTradeSize = map_option (\<lambda>t. snd (snd t)) trade \<rparr> in
     bindS (changeGame (\<lambda>g. g\<lparr> mmRoundsHistory := mmRoundsHistory g @ [action] \<rparr>)) (\<lambda>_.
     returnS action))))))))"

text \<open>The \<^verbatim>\<open>catch\<close> of a round: book, portfolio and counters return to the checkpoint.\<close>

definition restoreRound :: "MarketMakerSimulator \<Rightarrow> ('r, unit) simulator_action" where
  "restoreRound g0 =
     bindS (inBook (restoreBook (checkpointBook (mmBook g0)))) (\<lambda>_.
     bindS (inPortfolio (restorePortfolio (checkpointPortfolio (mmPortfolio g0)))) (\<lambda>_.
     changeGame (\<lambda>g. g\<lparr> mmRoundsHistory := take (length (mmRoundsHistory g0)) (mmRoundsHistory g),
                         mmTotalSpreadSum := mmTotalSpreadSum g0,
                         mmValidQuoteRounds := mmValidQuoteRounds g0 \<rparr>)))"

definition playRound ::
  "'r MarketMakerSimulatorRuntime \<Rightarrow> QuotePair \<Rightarrow> ('r, SimulatedRoundAction) simulator_action" where
  "playRound rt q =
     bindS (readS (\<lambda>(g, _). length (mmRoundsHistory g) < gameRounds (mmConfig g))) (\<lambda>open1.
     bindS (guardS open1 GameComplete) (\<lambda>_.
     bindS (guardS (QuotePairSchema q) InvalidStudentQuote) (\<lambda>_.
     (\<lambda>s. attempt (playRoundBody rt q) (restoreRound (fst s)) s))))"

definition finishGame :: "('r, TradingGameResult) simulator_action" where
  "finishGame =
     bindS (readS (\<lambda>(g, _). mmConfig g)) (\<lambda>c.
     bindS (inPortfolio (updateMarkPrice fl (gameFairValue c))) (\<lambda>snap.
     bindS (readS (\<lambda>(g, _).
        (if 0 < mmValidQuoteRounds g then ndiv fl (mmTotalSpreadSum g) (of_nat (mmValidQuoteRounds g)) else Some 0,
         js_div (of_nat (mmValidQuoteRounds g)) (of_nat (gameRounds c))))) (\<lambda>(avg, rate).
     case (avg, rate) of
       (Some avgSpread, Some complianceRate) \<Rightarrow>
         (case calculateMarketMakingScore
                 \<lparr> siTotalPnL = psTotalPnL snap, siAverageSpread = avgSpread,
                   siMaxDrawdown = psMaxDrawdown snap, siRiskBreaches = None,
                   siParticipationRate = None \<rparr> of
            Inl e \<Rightarrow> throwS (SimulatorScore e)
          | Inr score \<Rightarrow>
              let res = \<lparr> tgType = gameType c, tgTotalPnL = psTotalPnL snap,
                          tgRealizedPnL = psRealizedPnL snap, tgUnrealizedPnL = psUnrealizedPnL snap,
                          tgFinalPosition = psPosition snap, tgFinalCash = psCash snap,
                          tgTradeCount = psTradeCount snap, tgMaxDrawdown = psMaxDrawdown snap,
                          tgAverageSpread = avgSpread, tgComplianceRate = min 1 complianceRate,
                          tgScore = score \<rparr> in
              bindS (guardS (TradingGameResultSchema res) InvalidGameResult) (\<lambda>_. returnS res))
     | _ \<Rightarrow> throwS SpreadNotFinite)))"

end
