(* ===== verification/MarketMakingRounds.thy ===== *)
theory MarketMakingRounds
  imports MarketMakingFacts
begin

text \<open>
  Rounds of the market making game: a round that throws leaves the game as it was, a round that
  returns trades at most the quoted size at the quoted price.
\<close>

section \<open>Books of a single maker\<close>

definition onlyMaker :: "string \<Rightarrow> LimitOrderBook \<Rightarrow> bool" where
  "onlyMaker owner b = (\<forall>i. hasActiveOrderId i b \<longrightarrow> i \<in> set (replaceableIds owner b))"

lemma active_empty: "(\<forall>i. \<not> hasActiveOrderId i b) \<longleftrightarrow> bids b = [] \<and> asks b = []"
proof
  assume none: "\<forall>i. \<not> hasActiveOrderId i b"
  have "x \<notin> set (bids b)" "x \<notin> set (asks b)" for x
    using none [rule_format, of "loId x"] by (auto simp: hasActiveOrderId_iff)
  then show "bids b = [] \<and> asks b = []" by (metis list.set_intros(1) neq_Nil_conv)
qed (simp add: hasActiveOrderId_iff)

lemma setQuotes_alone:
  assumes wf: "book_wf b" and only: "onlyMaker owner b" and run: "setQuotes rt owner q (b, r) = (Inr (bo, ao), (b', r'))"
  shows "bids b' = [bo] \<and> asks b' = [ao] \<and> replaceableIds owner b' = [loId bo, loId ao] \<and> onlyMaker owner b'"
proof -
  from setQuotes_Inr [OF wf run] obtain b1 where same: "sameButIds b b1" and b': "b' = installQuotes owner bo ao b1"
    by blast
  have wf1: "book_wf b1" using same wf by (rule book_wf_sameButIds)
  have only1: "onlyMaker owner b1"
    using only sameButIds_fields [OF same] by (simp add: onlyMaker_def hasActiveOrderId_def replaceableIds_def)
  have "\<not> hasActiveOrderId i (cancelMakerQuotes owner b1)" for i
  proof (cases "i = []")
    case True
    have "\<not> hasActiveOrderId [] (cancelMakerQuotes owner b1)"
      using book_wf_cancelMakerQuotes [OF wf1, of owner]
      by (auto simp: hasActiveOrderId_iff book_wf_def side_wf_def LimitOrderSchema_def nonBlank_def)
    then show ?thesis using True by simp
  next
    case False
    then show ?thesis using only1 cancelMakerQuotes_active [OF wf1 False] by (auto simp: onlyMaker_def)
  qed
  then have "bids (cancelMakerQuotes owner b1) = [] \<and> asks (cancelMakerQuotes owner b1) = []"
    using active_empty by blast
  then have "bids b' = [bo]" "asks b' = [ao]" "replaceableIds owner b' = [loId bo, loId ao]"
    by (simp_all add: b' installQuotes_def Let_def insertBid_def insertAsk_def spliceIn_def
        replaceableIds_def dict.look_store List.map_filter_def)
  then show ?thesis by (auto simp: onlyMaker_def hasActiveOrderId_iff)
qed

lemma marketOrder_single:
  assumes wf: "book_wf b" and queue: "restingSide side b = [x]" and run: "executeMarketOrder rt side n cp (b, r) = (Inr fs, (b', r'))"
  shows "book_wf b' \<and> (\<exists>f. fs = [f] \<and> fillPrice f = loPrice x \<and> int (fillSize f) = min n (int (loSize x)) \<and> OrderFillSchema f)
    \<and> (onlyMaker owner b \<longrightarrow> onlyMaker owner b')"
proof -
  note m = executeMarketOrder_Inr [OF wf run]
  have n: "0 < n" and post: "sameButIds (afterMatch side (withinLimit side None) (nat n) b) b'" and wf': "book_wf b'"
    using m by auto
  have ex: "executed (withinLimit side None) (nat n) [x] = [(x, min (nat n) (loSize x))]"
    using n by (simp add: withinLimit_def beyondLimit_def)
  obtain oid f where fs: "fs = [f]" and fill: "fillOf oid side cp f (x, min (nat n) (loSize x))"
    using m unfolding queue ex by (auto simp: list_all2_Cons2)
  have f: "fillPrice f = loPrice x" "fillSize f = min (nat n) (loSize x)" "OrderFillSchema f"
    using fill unfolding fillOf_def matchFill_def by (metis OrderFill.select_convs fst_conv snd_conv)+
  have "int (fillSize f) = min n (int (loSize x))" using f(2) n by linarith
  moreover have "onlyMaker owner b'" if "onlyMaker owner b"
  proof -
    have "hasActiveOrderId i b' \<Longrightarrow> hasActiveOrderId i b" for i
      using sameButIds_fields [OF post] hasActive_afterMatch by (auto simp: hasActiveOrderId_def)
    moreover have "replaceableIds owner b' = replaceableIds owner b"
      using sameButIds_fields [OF post] by (simp add: replaceableIds_def afterMatch_fields)
    ultimately show ?thesis using that by (simp add: onlyMaker_def)
  qed
  ultimately show ?thesis using fs f wf' by blast
qed

section \<open>Failing rounds\<close>

lemma portfolio_limits [preserve_rules]:
  "preserves (\<lambda>p. riskLimits p = l) (applyFillS rnd f)"
  "preserves (\<lambda>p. riskLimits p = l) (updateMarkPrice rnd m)"
proof -
  show "preserves (\<lambda>p. riskLimits p = l) (applyFillS rnd f)"
    by (simp add: preserves_def applyFillS_riskLimits)
  show "preserves (\<lambda>p. riskLimits p = l) (updateMarkPrice rnd m)"
    unfolding preserves_def using updateMarkPrice_spec remarked_riskLimits by (metis prod.collapse)
qed

definition gameFrame :: "MarketMakerSimulator \<Rightarrow> MarketMakerSimulator \<times> 'r \<Rightarrow> bool" where
  "gameFrame g0 s =
     (mmConfig (fst s) = mmConfig g0 \<and> riskLimits (mmPortfolio (fst s)) = riskLimits (mmPortfolio g0)
      \<and> take (length (mmRoundsHistory g0)) (mmRoundsHistory (fst s)) = mmRoundsHistory g0)"

lemma gameFrame_refl [simp]: "gameFrame g (g, r)"
  by (simp add: gameFrame_def)

lemma gameFrame_inBook [preserve_rules]: "preserves (gameFrame g0) (inBook m)"
  by (auto simp: preserves_def inBook_def withinS_def gameFrame_def split: prod.splits sum.splits)

lemma gameFrame_inPortfolio [preserve_rules]:
  assumes "preserves (\<lambda>p. riskLimits p = riskLimits (mmPortfolio g0)) m"
  shows "preserves (gameFrame g0) (inPortfolio m)"
  unfolding inPortfolio_def
proof (rule preserves_withinS)
  fix t :: "MarketMakerSimulator \<times> 'b" and p
  obtain g r where t: "t = (g, r)" by fastforce
  assume frame: "gameFrame g0 t" and p: "snd (m ((\<lambda>(g, r). mmPortfolio g) t)) = p"
  then have "riskLimits (mmPortfolio g) = riskLimits (mmPortfolio g0)" by (simp add: t gameFrame_def)
  then have "riskLimits p = riskLimits (mmPortfolio g0)"
    using assms p unfolding preserves_def t by auto
  then show "gameFrame g0 ((\<lambda>p (g, r). (g\<lparr> mmPortfolio := p \<rparr>, r)) p t)"
    using frame by (simp add: t gameFrame_def)
qed

lemma gameFrame_drawRandom [preserve_rules]: "preserves (gameFrame g0) (drawRandom rt)"
  by (auto simp: preserves_def drawRandom_def gameFrame_def split: prod.splits)

lemma gameFrame_changeGame [preserve_rules]:
  "(\<And>g r. gameFrame g0 (g, r :: 'r) \<Longrightarrow> gameFrame g0 (f g, r)) \<Longrightarrow>
     preserves (gameFrame g0) (changeGame f :: ('r, unit) simulator_action)"
  unfolding preserves_def changeGame_def by (simp add: map_prod_def case_prod_unfold)

lemma gameFrame_tradeAgainst [preserve_rules]: "preserves (gameFrame g0) (tradeAgainst rt side n cp)"
  unfolding tradeAgainst_def by (intro preserve_rules)

lemma gameFrame_simulateFlow [preserve_rules]: "preserves (gameFrame g0) (simulateFlow rt c q roll b s)"
  unfolding simulateFlow_def by (intro preserve_rules)

lemma gameFrame_playRoundBody: "preserves (gameFrame g0) (playRoundBody rt q)"
  unfolding playRoundBody_def
  by (intro preserve_rules) (auto simp: gameFrame_def, metis length_take min.absorb_iff2)

definition game_wf :: "MarketMakerSimulator \<Rightarrow> bool" where
  "game_wf g =
     (book_wf (mmBook g) \<and> portfolio_wf (mmPortfolio g) \<and> TradingGameConfigSchema (mmConfig g)
      \<and> onlyMaker ''STUDENT'' (mmBook g) \<and> length (mmRoundsHistory g) \<le> gameRounds (mmConfig g))"

lemma restoreRound_frame:
  assumes "book_wf (mmBook g0)" and "portfolio_wf (mmPortfolio g0)" and "gameFrame g0 s"
  shows "restoreRound g0 s = (Inr (), (g0, snd s))"
proof -
  obtain g r where s: "s = (g, r)" by fastforce
  have 1: "inBook (restoreBook (checkpointBook (mmBook g0))) (g, r) = (Inr (), (g\<lparr> mmBook := mmBook g0 \<rparr>, r))"
    by (simp add: inBook_def withinS_def restoreBook_wf [OF assms(1)])
  have 2: "inPortfolio (restorePortfolio (checkpointPortfolio (mmPortfolio g0))) (g\<lparr> mmBook := mmBook g0 \<rparr>, r)
      = (Inr (), (g\<lparr> mmBook := mmBook g0, mmPortfolio := mmPortfolio g0 \<rparr>, r))"
    using assms(3) restorePortfolio_wf [OF assms(2), of "mmPortfolio g"]
    by (simp add: inPortfolio_def withinS_def s gameFrame_def)
  show ?thesis
    using assms(3)
    unfolding restoreRound_def s bindS_def 1 by (simp add: 2 changeGame_def gameFrame_def)
qed

lemma playRound_attempt:
  assumes "game_wf g"
  shows "attempt (playRoundBody rt q) (restoreRound g) (g, r) =
    (case playRoundBody rt q (g, r) of (Inr x, t) \<Rightarrow> (Inr x, t) | (Inl e, t) \<Rightarrow> (Inl e, (g, snd t)))"
  by (rule attempt_repairs [OF gameFrame_playRoundBody gameFrame_refl])
    (use assms restoreRound_frame in \<open>auto simp: game_wf_def\<close>)

lemma playRound_throws:
  assumes "game_wf g" and "playRound rt q (g, r) = (Inl e, (g', r'))"
  shows "g' = g"
  using assms(2)
  by (auto simp: playRound_def playRound_attempt [OF assms(1)] split: prod.splits sum.splits if_splits)

section \<open>Successful rounds\<close>

lemma inBook_Inr:
  assumes "inBook m (g, r) = (Inr x, (g', r'))"
  shows "\<exists>b. m (mmBook g, r) = (Inr x, (b, r')) \<and> g' = g\<lparr> mmBook := b \<rparr>"
  using assms by (auto simp: inBook_def withinS_def split: prod.splits sum.splits)

lemma inPortfolio_Inr:
  assumes "inPortfolio m (g, r) = (Inr x, (g', r'))"
  shows "\<exists>p. m (mmPortfolio g) = (Inr x, p) \<and> g' = g\<lparr> mmPortfolio := p \<rparr> \<and> r' = r"
  using assms by (auto simp: inPortfolio_def withinS_def split: prod.splits sum.splits)

lemma drawRandom_Inr: "drawRandom rt (g, r) = (Inr x, (g', r')) \<Longrightarrow> g' = g"
  by (auto simp: drawRandom_def split: prod.splits if_splits)

definition quotedPrice :: "QuotePair \<Rightarrow> OrderSide \<Rightarrow> rat" where
  "quotedPrice q side = (if side = BUY then bidPrice q else askPrice q)"

definition quotedSize :: "QuotePair \<Rightarrow> OrderSide \<Rightarrow> nat" where
  "quotedSize q side = (if side = BUY then bidSize q else askSize q)"

text \<open>The quotes of the student stand alone in the book.\<close>

definition quoted :: "QuotePair \<Rightarrow> LimitOrderBook \<Rightarrow> bool" where
  "quoted q b =
     (book_wf b \<and> onlyMaker ''STUDENT'' b
      \<and> (\<exists>bo ao. bids b = [bo] \<and> asks b = [ao] \<and> loPrice bo = bidPrice q \<and> loSize bo = bidSize q
           \<and> loPrice ao = askPrice q \<and> loSize ao = askSize q))"

definition signedTrade :: "OrderSide \<Rightarrow> nat \<Rightarrow> int" where
  "signedTrade side n = (if side = BUY then int n else - int n)"

text \<open>What a round may do to the game once the quotes stand.\<close>

definition flowOutcome ::
  "TradingGameConfig \<Rightarrow> QuotePair \<Rightarrow> MarketMakerSimulator \<Rightarrow> OrderFlowType \<Rightarrow>
   (OrderSide \<times> rat \<times> nat) option \<Rightarrow> MarketMakerSimulator \<Rightarrow> bool" where
  "flowOutcome c q g flow trade g' =
     (\<exists>b p. g' = g\<lparr> mmBook := b, mmPortfolio := p \<rparr> \<and> book_wf b \<and> onlyMaker ''STUDENT'' b \<and> portfolio_wf p
        \<and> (case trade of
             None \<Rightarrow> currentPosition p = currentPosition (mmPortfolio g)
           | Some (side, price, n) \<Rightarrow>
               price = quotedPrice q side \<and> 0 < n \<and> n \<le> quotedSize q side
               \<and> currentPosition p = currentPosition (mmPortfolio g) + signedTrade side n
               \<and> flow \<noteq> NO_TRADE
               \<and> (flow = INFORMED \<longrightarrow>
                    (if side = SELL then askPrice q < gameFairValue c else gameFairValue c < bidPrice q))))"

lemma tradeAgainst_Inr:
  assumes wf: "portfolio_wf (mmPortfolio g)" and qu: "quoted q (mmBook g)" and n: "0 < n" "n \<le> quotedSize q (opposite side)"
    and run: "tradeAgainst rt side n cp (g, r) = (Inr t, (g', r'))"
  shows "\<exists>b p m. g' = g\<lparr> mmBook := b, mmPortfolio := p \<rparr> \<and> book_wf b \<and> onlyMaker ''STUDENT'' b \<and> portfolio_wf p
    \<and> t = Some (opposite side, quotedPrice q (opposite side), m) \<and> 0 < m \<and> m \<le> n
    \<and> currentPosition p = currentPosition (mmPortfolio g) + signedTrade (opposite side) m"
proof -
  from run obtain fills g1 r1 where ex: "inBook (executeMarketOrder (simulatorBookRuntime rt) side (int n) cp) (g, r) = (Inr fills, (g1, r1))"
    and rest: "(case fills of [] \<Rightarrow> returnS None
     | f # _ \<Rightarrow> bindS (inPortfolio (applyFillS fl (f\<lparr> fillSide := opposite side \<rparr>))) (\<lambda>_.
         returnS (Some (opposite side, fillPrice f, fillSize f)))) (g1, r1) = (Inr t, (g', r'))"
    by (auto simp: tradeAgainst_def bindS_eq_Inr)
  from inBook_Inr [OF ex] obtain b where mo: "executeMarketOrder (simulatorBookRuntime rt) side (int n) cp (mmBook g, r) = (Inr fills, (b, r1))"
    and g1: "g1 = g\<lparr> mmBook := b \<rparr>" by blast
  obtain x where x: "restingSide side (mmBook g) = [x]" "loPrice x = quotedPrice q (opposite side)" "loSize x = quotedSize q (opposite side)"
    using qu by (cases side) (auto simp: quoted_def restingSide_def quotedPrice_def quotedSize_def opposite_def)
  from marketOrder_single [OF _ x(1) mo] qu obtain f where b: "book_wf b" "onlyMaker ''STUDENT'' b" and fills: "fills = [f]"
    and f: "fillPrice f = loPrice x" "int (fillSize f) = min (int n) (int (loSize x))"
    by (auto simp: quoted_def)
  let ?f = "f\<lparr> fillSide := opposite side \<rparr>"
  from rest obtain p where ap: "applyFillS fl ?f (mmPortfolio g) = (Inr (), p)" and g': "g' = g\<lparr> mmBook := b, mmPortfolio := p \<rparr>"
    and t: "t = Some (opposite side, fillPrice f, fillSize f)"
    by (auto simp: fills g1 bindS_eq_Inr dest!: inPortfolio_Inr)
  have af: "applyFill fl ?f (mmPortfolio g) = Inr p" using ap by (auto simp: applyFillS_def split: sum.splits)
  have "portfolio_wf p" using portfolio_wf_applyFill [OF wf af] .
  moreover have "currentPosition p = currentPosition (mmPortfolio g) + signedTrade (opposite side) (fillSize f)"
    using af by (elim applyFill_Inr) (simp add: signedSize_def signedTrade_def)
  moreover have "0 < fillSize f" "fillSize f \<le> n" using f(2) n x(3) by linarith+
  moreover have "t = Some (opposite side, quotedPrice q (opposite side), fillSize f)"
    by (simp add: t f(1) x(2))
  ultimately show ?thesis using g' b by blast
qed

lemma opposite_simps [simp]: "opposite BUY = SELL" "opposite SELL = BUY"
  by (simp_all add: opposite_def)

lemma simulateFlow_Inr:
  assumes wf: "portfolio_wf (mmPortfolio g)" and qu: "quoted q (mmBook g)" and valid: "QuotePairSchema q"
    and run: "simulateFlow rt c q roll b s (g, r) = (Inr (flow, trade), (g', r'))"
  shows "flowOutcome c q g flow trade g'"
proof -
  have sizes: "0 < askSize q" "0 < bidSize q" using valid by (auto simp: QuotePairSchema_def PositiveSafeInteger_def)
  have none: "flowOutcome c q g f None g" for f
    using wf qu by (auto simp: flowOutcome_def quoted_def intro!: exI [of _ "mmBook g"] exI [of _ "mmPortfolio g"])
  have some: "flowOutcome c q g f trade g'"
    if "tradeAgainst rt side n cp (g, r) = (Inr trade, (g', r'))" "0 < n" "n \<le> quotedSize q (opposite side)" "f \<noteq> NO_TRADE"
      "f = INFORMED \<Longrightarrow> (if side = BUY then askPrice q < gameFairValue c else gameFairValue c < bidPrice q)"
    for side n cp f
  proof -
    from tradeAgainst_Inr [OF wf qu that(2,3,1)] obtain b p m where
      o: "g' = g\<lparr> mmBook := b, mmPortfolio := p \<rparr>" "book_wf b" "onlyMaker ''STUDENT'' b" "portfolio_wf p"
        "trade = Some (opposite side, quotedPrice q (opposite side), m)" "0 < m" "m \<le> n"
        "currentPosition p = currentPosition (mmPortfolio g) + signedTrade (opposite side) m"
      by blast
    have "f = INFORMED \<longrightarrow> (if opposite side = SELL then askPrice q < gameFairValue c else gameFairValue c < bidPrice q)"
      using that(5) by (cases side) auto
    then show ?thesis
      unfolding flowOutcome_def using o that(3,4)
      by (intro exI [of _ b] exI [of _ p]) simp
  qed
  consider "flow = NO_TRADE \<and> trade = None \<and> g' = g" | "flow = NOISE \<and> trade = None \<and> g' = g"
    | "tradeAgainst rt BUY (askSize q) ''INFORMED_TRADER'' (g, r) = (Inr trade, (g', r'))" "flow = INFORMED" "askPrice q < gameFairValue c"
    | "tradeAgainst rt SELL (bidSize q) ''INFORMED_TRADER'' (g, r) = (Inr trade, (g', r'))" "flow = INFORMED" "gameFairValue c < bidPrice q"
    | side where "tradeAgainst rt side 1 ''NOISE_TRADER'' (g, r) = (Inr trade, (g', r'))" "flow = NOISE"
    using run by (fastforce simp: simulateFlow_def bindS_eq_Inr split: if_splits option.splits)
  then show ?thesis
  proof cases
    case 3
    show ?thesis by (rule some [OF 3(1)]) (use 3 sizes in \<open>auto simp: quotedSize_def\<close>)
  next
    case 4
    show ?thesis by (rule some [OF 4(1)]) (use 4 sizes in \<open>auto simp: quotedSize_def\<close>)
  next
    case (5 side)
    have "1 \<le> quotedSize q (opposite side)" using sizes by (simp add: quotedSize_def)
    then show ?thesis by (intro some [OF 5(1)]) (simp_all add: 5(2))
  qed (use none in auto)
qed

text \<open>The recorded trade of a round against the quote, the fair value and the position.\<close>

definition roundTrade :: "TradingGameConfig \<Rightarrow> SimulatedRoundAction \<Rightarrow> int \<Rightarrow> int \<Rightarrow> bool" where
  "roundTrade c a before after =
     (case saTradeSide a of
        None \<Rightarrow> saTradePrice a = None \<and> saTradeSize a = None \<and> after = before
      | Some side \<Rightarrow>
          \<exists>n. saTradeSize a = Some n \<and> 0 < n \<and> n \<le> quotedSize (saStudentQuote a) side
            \<and> saTradePrice a = Some (quotedPrice (saStudentQuote a) side)
            \<and> after = before + signedTrade side n
            \<and> saOrderFlowType a \<noteq> NO_TRADE
            \<and> (saOrderFlowType a = INFORMED \<longrightarrow>
                 (if side = SELL then askPrice (saStudentQuote a) < gameFairValue c
                  else gameFairValue c < bidPrice (saStudentQuote a))))"

lemma changeGame_apply [simp]:
  "changeGame f s = (Inr (), (f (fst s), snd s))"
  "bindS (changeGame f) k s = k () (f (fst s), snd s)"
  by (simp_all add: changeGame_def map_prod_def case_prod_unfold bindS_def)

lemma playRoundBody_Inr:
  assumes wf: "game_wf g" and valid: "QuotePairSchema q" and run: "playRoundBody rt q (g, r) = (Inr a, (g', r'))"
  shows "book_wf (mmBook g') \<and> portfolio_wf (mmPortfolio g') \<and> onlyMaker ''STUDENT'' (mmBook g')
    \<and> mmConfig g' = mmConfig g \<and> mmRoundsHistory g' = mmRoundsHistory g @ [a]
    \<and> saRound a = length (mmRoundsHistory g) + 1 \<and> saStudentQuote a = q
    \<and> roundTrade (mmConfig g) a (currentPosition (mmPortfolio g)) (currentPosition (mmPortfolio g'))"
proof -
  let ?c = "mmConfig g" and ?spread = "fl (askPrice q - bidPrice q)"
  let ?noise = "\<lambda>roll. gameInformedProbability ?c \<le> roll
     \<and> (case js_add (gameInformedProbability ?c) (gameNoiseProbability ?c) of None \<Rightarrow> True | Some limit \<Rightarrow> roll < limit)"
  from run obtain roll g1 r1 b g2 r2 where
    d1: "drawRandom rt (g, r) = (Inr roll, (g1, r1))"
    and d2: "(if ?noise roll then bindS (drawRandom rt) (\<lambda>b. returnS (Some b)) else returnS None) (g1, r1) = (Inr b, (g2, r2))"
    and rest: "bindS (changeGame (\<lambda>g. g\<lparr> mmValidQuoteRounds := mmValidQuoteRounds g + 1,
                               mmTotalSpreadSum := nadd fl (mmTotalSpreadSum g) ?spread \<rparr>)) (\<lambda>_.
     bindS (inBook (setQuotes (simulatorBookRuntime rt) ''STUDENT'' q)) (\<lambda>_.
     bindS (simulateFlow rt ?c q roll b ?spread) (\<lambda>(flow, trade).
     bindS (inPortfolio (updateMarkPrice fl (gameFairValue ?c))) (\<lambda>_.
     let action = \<lparr> saRound = currentRound g, saStudentQuote = q, saOrderFlowType = flow,
                    saTradeSide = map_option fst trade,
                    saTradePrice = map_option (\<lambda>t. fst (snd t)) trade,
                    saTradeSize = map_option (\<lambda>t. snd (snd t)) trade \<rparr> in
     bindS (changeGame (\<lambda>g. g\<lparr> mmRoundsHistory := mmRoundsHistory g @ [action] \<rparr>)) (\<lambda>_.
     returnS action))))) (g2, r2) = (Inr a, (g', r'))"
    unfolding playRoundBody_def bindS_basic(3) case_prod_conv Let_def [of "fl (askPrice q - bidPrice q)"]
    by (subst (asm) bindS_eq_Inr, elim exE conjE, subst (asm) bindS_eq_Inr) auto
  have g1: "g1 = g" using drawRandom_Inr [OF d1] .
  have g2: "g2 = g" using d2 drawRandom_Inr by (fastforce simp: g1 bindS_eq_Inr split: if_splits)
  define h where "h = g\<lparr> mmValidQuoteRounds := mmValidQuoteRounds g + 1,
                         mmTotalSpreadSum := nadd fl (mmTotalSpreadSum g) ?spread \<rparr>"
  let ?act = "\<lambda>flow trade. \<lparr> saRound = currentRound g, saStudentQuote = q, saOrderFlowType = flow,
                    saTradeSide = map_option fst trade, saTradePrice = map_option (\<lambda>t. fst (snd t)) trade,
                    saTradeSize = map_option (\<lambda>t. snd (snd t)) trade \<rparr>"
  from rest obtain bo ao h1 r3 where
    sq: "inBook (setQuotes (simulatorBookRuntime rt) ''STUDENT'' q) (h, r2) = (Inr (bo, ao), (h1, r3))"
    and rest2: "bindS (simulateFlow rt ?c q roll b ?spread) (\<lambda>(flow, trade).
      bindS (inPortfolio (updateMarkPrice fl (gameFairValue ?c))) (\<lambda>_.
      bindS (changeGame (\<lambda>g. g\<lparr> mmRoundsHistory := mmRoundsHistory g @ [?act flow trade] \<rparr>)) (\<lambda>_.
      returnS (?act flow trade)))) (h1, r3) = (Inr a, (g', r'))"
    unfolding changeGame_apply(2) fst_conv snd_conv g2 h_def [symmetric] Let_def
    by (subst (asm) bindS_eq_Inr) auto
  from rest2 obtain flow trade h2 r4 where
    fl1: "simulateFlow rt ?c q roll b ?spread (h1, r3) = (Inr (flow, trade), (h2, r4))"
    and rest3: "bindS (inPortfolio (updateMarkPrice fl (gameFairValue ?c))) (\<lambda>_.
      bindS (changeGame (\<lambda>g. g\<lparr> mmRoundsHistory := mmRoundsHistory g @ [?act flow trade] \<rparr>)) (\<lambda>_.
      returnS (?act flow trade))) (h2, r4) = (Inr a, (g', r'))"
    by (subst (asm) bindS_eq_Inr) auto
  from rest3 obtain s h3 where
    mk: "inPortfolio (updateMarkPrice fl (gameFairValue ?c)) (h2, r4) = (Inr s, (h3, r'))"
    and a: "a = ?act flow trade" and g': "g' = h3\<lparr> mmRoundsHistory := mmRoundsHistory h3 @ [a] \<rparr>"
    by (subst (asm) bindS_eq_Inr) auto
  from inBook_Inr [OF sq] obtain b1 where setq: "setQuotes (simulatorBookRuntime rt) ''STUDENT'' q (mmBook h, r2) = (Inr (bo, ao), (b1, r3))"
    and h1: "h1 = h\<lparr> mmBook := b1 \<rparr>" by blast
  have wfb: "book_wf (mmBook h)" "onlyMaker ''STUDENT'' (mmBook h)" "portfolio_wf (mmPortfolio h1)"
    using wf by (simp_all add: game_wf_def h_def h1)
  have quoted: "quoted q (mmBook h1)"
    using setQuotes_alone [OF wfb(1,2) setq] setQuotes_Inr [OF wfb(1) setq] by (auto simp: quoted_def h1)
  from simulateFlow_Inr [OF wfb(3) quoted valid fl1] obtain b2 p2 where
    h2: "h2 = h1\<lparr> mmBook := b2, mmPortfolio := p2 \<rparr>" and ok: "book_wf b2" "onlyMaker ''STUDENT'' b2" "portfolio_wf p2"
    and out: "flowOutcome ?c q h1 flow trade h2" "mmPortfolio h2 = p2" unfolding flowOutcome_def by auto
  from inPortfolio_Inr [OF mk] obtain p3 where up: "updateMarkPrice fl (gameFairValue ?c) p2 = (Inr s, p3)"
    and h3: "h3 = h2\<lparr> mmPortfolio := p3 \<rparr>" using out(2) by auto
  have rem: "remarked p2 p3" using updateMarkPrice_spec [OF up] by blast
  have "portfolio_wf p3" using portfolio_wf_remarked ok(3) rem by blast
  moreover have "roundTrade ?c a (currentPosition (mmPortfolio g)) (currentPosition p3)"
    using out remarked_fields [OF rem]
    by (cases trade) (auto simp: roundTrade_def flowOutcome_def a h1 h_def)
  ultimately show ?thesis
    using ok(1,2) by (simp add: g' h3 h2 h1 h_def currentRound_def a)
qed

lemma playRound_Inr:
  assumes wf: "game_wf g" and run: "playRound rt q (g, r) = (Inr a, (g', r'))"
  shows "game_wf g' \<and> mmRoundsHistory g' = mmRoundsHistory g @ [a] \<and> saRound a = length (mmRoundsHistory g) + 1
    \<and> saStudentQuote a = q \<and> length (mmRoundsHistory g) < gameRounds (mmConfig g) \<and> mmConfig g' = mmConfig g
    \<and> roundTrade (mmConfig g) a (currentPosition (mmPortfolio g)) (currentPosition (mmPortfolio g'))"
proof -
  have body: "playRoundBody rt q (g, r) = (Inr a, (g', r'))" and valid: "QuotePairSchema q"
    and open1: "length (mmRoundsHistory g) < gameRounds (mmConfig g)"
    using run by (auto simp: playRound_def playRound_attempt [OF wf] split: prod.splits sum.splits if_splits)
  show ?thesis
    using playRoundBody_Inr [OF wf valid body] wf open1 by (auto simp: game_wf_def)
qed

section \<open>Reachable games\<close>

inductive gameReached :: "'r MarketMakerSimulatorRuntime \<Rightarrow> MarketMakerSimulator \<times> 'r \<Rightarrow> bool" for rt where
  new: "newMarketMakerSimulator c = Inr g \<Longrightarrow> gameReached rt (g, r)"
| played: "gameReached rt s \<Longrightarrow> gameReached rt (snd (playRound rt q s))"
| finished: "gameReached rt s \<Longrightarrow> gameReached rt (snd (finishGame s))"

lemma game_wf_new: "newMarketMakerSimulator c = Inr g \<Longrightarrow> game_wf g"
proof -
  assume n: "newMarketMakerSimulator c = Inr g"
  then obtain p where "TradingGameConfigSchema c" and p: "newPortfolioTracker (gameInitialCash c) (asPartial (gameRiskLimits c)) = Inr p"
    and g: "g = \<lparr> mmConfig = c, mmBook = newLimitOrderBook, mmPortfolio = p, mmRoundsHistory = [],
               mmTotalSpreadSum = Some 0, mmValidQuoteRounds = 0 \<rparr>"
    by (auto simp: newMarketMakerSimulator_def bindE_eq_Inr guardE_eq_Inr split: sum.splits)
  then show ?thesis
    using newPortfolioTracker_Inr [OF p] book_wf_new
    by (simp add: game_wf_def portfolio_wf_def isSafeInteger_def MAX_SAFE_INTEGER_def onlyMaker_def
        hasActiveOrderId_def newLimitOrderBook_def)
qed

lemma finishGame_marks: "\<exists>p. snd (finishGame (g, r)) = (g\<lparr> mmPortfolio := p \<rparr>, r) \<and> remarked (mmPortfolio g) p"
proof -
  obtain res p where u: "updateMarkPrice fl (gameFairValue (mmConfig g)) (mmPortfolio g) = (res, p)" by fastforce
  have "snd (finishGame (g, r)) = (g\<lparr> mmPortfolio := p \<rparr>, r)"
    by (cases res) (auto simp: finishGame_def bindS_def inPortfolio_def withinS_def u Let_def
        split: option.splits sum.splits prod.splits)
  then show ?thesis using updateMarkPrice_spec [OF u] by blast
qed

lemma gameReached_wf: "gameReached rt s \<Longrightarrow> game_wf (fst s)"
proof (induction rule: gameReached.induct)
  case (new c g r)
  then show ?case by (simp add: game_wf_new)
next
  case (played s q)
  obtain g r where s: "s = (g, r)" by fastforce
  obtain res g' r' where run: "playRound rt q (g, r) = (res, (g', r'))" by (metis prod.collapse)
  show ?case
    using playRound_throws [of g rt q r _ g' r'] playRound_Inr [of g rt q r _ g' r'] played.IH run
    by (cases res) (auto simp: s)
next
  case (finished s)
  obtain g r where s: "s = (g, r)" by fastforce
  obtain p where fin: "snd (finishGame (g, r)) = (g\<lparr> mmPortfolio := p \<rparr>, r)" and rem: "remarked (mmPortfolio g) p"
    using finishGame_marks [of g r] by blast
  have g: "game_wf g" using finished.IH unfolding s by simp
  then have "portfolio_wf (mmPortfolio g)" by (simp add: game_wf_def)
  then have "portfolio_wf p" using rem by (rule portfolio_wf_remarked)
  then show ?case unfolding s fin using g by (simp add: game_wf_def)
qed

text \<open>
Rounds of the market making game are sound in every reachable game and for every outside world: a
  round that throws leaves game, book and portfolio as they were; one that returns is recorded once,
  in order and within the configured number of rounds, moves the position by exactly the recorded
  trade, which is at the quoted price and within the quoted size, and an informed trader only takes
  quotes that lie on the wrong side of the fair value.
\<close>

theorem market_rounds_are_sound:
  assumes "gameReached rt (g, r)" and "playRound rt q (g, r) = (res, (g', r'))"
  shows "book_wf (mmBook g) \<and> portfolio_wf (mmPortfolio g) \<and>
    (case res of
       Inl e \<Rightarrow> g' = g
     | Inr a \<Rightarrow>
         mmRoundsHistory g' = mmRoundsHistory g @ [a] \<and> saRound a = length (mmRoundsHistory g')
         \<and> saRound a \<le> gameRounds (mmConfig g) \<and> saStudentQuote a = q
         \<and> roundTrade (mmConfig g) a (currentPosition (mmPortfolio g)) (currentPosition (mmPortfolio g')))"
proof -
  have wf: "game_wf g" using gameReached_wf [OF assms(1)] by simp
  show ?thesis
  proof (cases res)
    case (Inl e)
    then have "g' = g" using playRound_throws [OF wf, of rt q r e g' r'] assms(2) by simp
    then show ?thesis using wf Inl by (simp add: game_wf_def)
  next
    case (Inr a)
    then have "playRound rt q (g, r) = (Inr a, (g', r'))" using assms(2) by simp
    from playRound_Inr [OF wf this] show ?thesis using wf Inr by (simp add: game_wf_def)
  qed
qed

definition sampleGame :: TradingGameConfig where
  "sampleGame = \<lparr> gameType = DICE_MARKET, gameRounds = 3, gameInitialCash = 1000, gameFairValue = 100,
     gameNoiseProbability = 1/2, gameInformedProbability = 1/4, gameRiskLimits = None \<rparr>"

definition sampleWorld :: "nat MarketMakerSimulatorRuntime" where
  "sampleWorld = \<lparr> simulatorBookRuntime = countingRuntime, simulatorRandom = (\<lambda>n. (1/8, n + 1)) \<rparr>"

definition cheapQuote :: QuotePair where
  "cheapQuote = \<lparr> bidPrice = 95, bidSize = 5, askPrice = 99, askSize = 4 \<rparr>"

definition quotedBook :: LimitOrderBook where
  "quotedBook = newLimitOrderBook
     \<lparr> bids := [\<lparr> loId = ''quote_bid_STUDENTe'', loSide = BUY, loPrice = 95, loSize = 5, loTimestamp = 3 \<rparr>],
       asks := [\<lparr> loId = ''quote_ask_STUDENTf'', loSide = SELL, loPrice = 99, loSize = 4, loTimestamp = 3 \<rparr>],
       activeMakerQuotes := [(''STUDENT'', \<lparr> bidId = Some ''quote_bid_STUDENTe'', askId = Some ''quote_ask_STUDENTf'' \<rparr>)],
       generatedIds := [''quote_bid_STUDENTe'', ''quote_ask_STUDENTf''] \<rparr>"

definition takenFill :: OrderFill where
  "takenFill = \<lparr> fillId = ''fillh'', fillOrderId = ''mktg'', matchedOrderId = Some ''quote_ask_STUDENTf'',
     fillSide = BUY, fillPrice = 99, fillSize = 4, counterparty = ''INFORMED_TRADER'', fillTimestamp = 8 \<rparr>"

definition takenBook :: LimitOrderBook where
  "takenBook = quotedBook\<lparr> asks := [], lastTradePrice := Some 99, totalVolume := 4,
     generatedIds := [''quote_bid_STUDENTe'', ''quote_ask_STUDENTf'', ''mktg'', ''fillh''] \<rparr>"

definition shortPortfolio :: PortfolioTracker where
  "shortPortfolio = samplePortfolio\<lparr> currentCash := 1396, currentPosition := -4, totalCostBasis := 396,
     fillsHistory := [takenFill\<lparr> fillSide := SELL \<rparr>] \<rparr>"

lemma sample_stages:
  "setQuotes countingRuntime ''STUDENT'' cheapQuote (newLimitOrderBook, 3) =
     (Inr (hd (bids quotedBook), hd (asks quotedBook)), (quotedBook, 6))"
  "executeMarketOrder countingRuntime BUY 4 ''INFORMED_TRADER'' (quotedBook, 6) = (Inr [takenFill], (takenBook, 9))"
  "applyFillS fl (takenFill\<lparr> fillSide := SELL \<rparr>) samplePortfolio = (Inr (), shortPortfolio)"
  "isOk (fst (updateMarkPrice fl 100 shortPortfolio))"
  "js_add (1/4) (1/2) = Some (3/4)"
  "TradingGameConfigSchema sampleGame" "QuotePairSchema cheapQuote"
  "newPortfolioTracker 1000 (asPartial None) = Inr samplePortfolio"
  by code_simp+

definition startedGame :: MarketMakerSimulator where
  "startedGame = \<lparr> mmConfig = sampleGame, mmBook = newLimitOrderBook, mmPortfolio = samplePortfolio,
     mmRoundsHistory = [], mmTotalSpreadSum = Some 0, mmValidQuoteRounds = 0 \<rparr>"

lemma startedGame_new: "newMarketMakerSimulator sampleGame = Inr startedGame"
  using sample_stages(6,8) by (simp add: newMarketMakerSimulator_def startedGame_def) (simp add: sampleGame_def)

lemma sample_trade:
  assumes "mmBook g = quotedBook" and "mmPortfolio g = samplePortfolio"
  shows "tradeAgainst sampleWorld BUY 4 ''INFORMED_TRADER'' (g, 6) =
    (Inr (Some (SELL, 99, 4)), (g\<lparr> mmBook := takenBook, mmPortfolio := shortPortfolio \<rparr>, 9))"
  using assms sample_stages(2,3)
  by (simp add: tradeAgainst_def bindS_def inBook_def inPortfolio_def withinS_def sampleWorld_def)
    (simp add: takenFill_def)

lemma sample_round:
  "\<exists>a s. playRound sampleWorld cheapQuote (startedGame, 2) = (Inr a, s) \<and> saTradeSide a = Some SELL \<and> saTradeSize a = Some 4"
proof -
  obtain v p where mark: "updateMarkPrice fl 100 shortPortfolio = (Inr v, p)"
    using sample_stages(4) by (cases "updateMarkPrice fl 100 shortPortfolio") (auto simp: isOk_iff)
  have flow: "simulateFlow sampleWorld sampleGame cheapQuote (1/8) None s (g, 6) =
      (Inr (INFORMED, Some (SELL, 99, 4)), (g\<lparr> mmBook := takenBook, mmPortfolio := shortPortfolio \<rparr>, 9))"
    if "mmBook g = quotedBook" "mmPortfolio g = samplePortfolio" for g s
    using sample_trade [OF that] by (simp add: simulateFlow_def bindS_def sampleGame_def cheapQuote_def)
  have params: "gameInformedProbability sampleGame = 1/4" "gameFairValue sampleGame = 100" "gameRounds sampleGame = 3"
    "simulatorBookRuntime sampleWorld = countingRuntime"
    by (simp_all add: sampleGame_def sampleWorld_def)
  have b1: "bindS (drawRandom sampleWorld) k (g, 2) = k (1/8) (g, 3)" for k and g
    by (simp add: bindS_def drawRandom_def sampleWorld_def)
  have b2: "bindS (inBook (setQuotes countingRuntime ''STUDENT'' cheapQuote)) k (g, 3) =
      k (hd (bids quotedBook), hd (asks quotedBook)) (g\<lparr> mmBook := quotedBook \<rparr>, 6)" if "mmBook g = newLimitOrderBook" for k g
    using sample_stages(1) that by (simp add: bindS_def inBook_def withinS_def)
  have b3: "bindS (simulateFlow sampleWorld sampleGame cheapQuote (1/8) None s) k (g, 6) =
      k (INFORMED, Some (SELL, 99, 4)) (g\<lparr> mmBook := takenBook, mmPortfolio := shortPortfolio \<rparr>, 9)"
    if "mmBook g = quotedBook" "mmPortfolio g = samplePortfolio" for g s k
    using flow [OF that] by (simp add: bindS_def)
  have b4: "bindS (inPortfolio (updateMarkPrice fl 100)) k (g, 9) = k v (g\<lparr> mmPortfolio := p \<rparr>, 9)"
    if "mmPortfolio g = shortPortfolio" for k g
    using that mark by (simp add: bindS_def inPortfolio_def withinS_def)
  have "\<exists>a s. playRoundBody sampleWorld cheapQuote (startedGame, 2) = (Inr a, s) \<and> saTradeSide a = Some SELL \<and> saTradeSize a = Some 4"
    by (simp add: playRoundBody_def startedGame_def params b1 b2 b3 b4 Let_def)
  then show ?thesis
    using sample_stages(7) by (auto simp: playRound_def attempt_def startedGame_def params)
qed

theorem market_rounds_are_sound_witness:
  "\<exists>a g' r'. playRound sampleWorld cheapQuote (startedGame, 2) = (Inr a, (g', r'))
     \<and> saRound a = 1 \<and> mmRoundsHistory g' = [a] \<and> saTradeSide a = Some SELL"
proof -
  obtain a g' r' where run: "playRound sampleWorld cheapQuote (startedGame, 2) = (Inr a, (g', r'))"
    and side: "saTradeSide a = Some SELL"
    using sample_round by (metis prod.collapse)
  from market_rounds_are_sound [OF gameReached.new [OF startedGame_new] run] run side show ?thesis
    by (auto simp: startedGame_def)
qed

end
