(* ===== verification/SeededRandom.thy ===== *)
theory SeededRandom
  imports JsNumber "HOL-Library.Word"
begin

unbundle bit_operations_syntax

text \<open>
  The pseudo random generator of the simulations
  (\<^verbatim>\<open>packages/local-compute/src/seeded-random.ts\<close>, Mulberry32). Its state and the
  intermediate values are 32-bit integers: \<^verbatim>\<open>>>> 0\<close> and \<^verbatim>\<open>Math.imul\<close> are
  arithmetic on \<open>32 word\<close>, and the sum under \<^verbatim>\<open>^=\<close>, exact as a double, is reduced to
  32 bits by the operator.
\<close>

record SeededRandom =
  rngState :: "32 word"
  drawsValue :: nat

record SeededRandomCheckpoint =
  cpState :: int
  cpDraws :: int

datatype RandomError = SeedUnsafe | InvalidRandomCheckpoint

definition newSeededRandom :: "int \<Rightarrow> (RandomError, SeededRandom) result" where
  "newSeededRandom seed =
     (if \<not> isSafeInteger seed then Inl SeedUnsafe
      else Inr \<lparr> rngState = word_of_int seed, drawsValue = 0 \<rparr>)"

definition randomCheckpoint :: "SeededRandom \<Rightarrow> SeededRandomCheckpoint" where
  "randomCheckpoint r = \<lparr> cpState = uint (rngState r), cpDraws = int (drawsValue r) \<rparr>"

definition restoreRandom :: "SeededRandomCheckpoint \<Rightarrow> SeededRandom \<Rightarrow> (RandomError, SeededRandom) result" where
  "restoreRandom c r =
     (if \<not> isSafeInteger (cpState c) \<or> cpState c < 0 \<or> 4294967295 < cpState c
         \<or> \<not> isSafeInteger (cpDraws c) \<or> cpDraws c < 0 then Inl InvalidRandomCheckpoint
      else Inr (r\<lparr> rngState := word_of_int (cpState c), drawsValue := nat (cpDraws c) \<rparr>))"

definition mulberry :: "32 word \<Rightarrow> 32 word" where
  "mulberry s =
     (let v1 = (s XOR drop_bit 15 s) * (s OR 1);
          v2 = v1 XOR (v1 + (v1 XOR drop_bit 7 v1) * (v1 OR 61))
      in v2 XOR drop_bit 14 v2)"

definition nextRandom :: "SeededRandom \<Rightarrow> rat \<times> SeededRandom" where
  "nextRandom r =
     (let s = rngState r + 0x6d2b79f5
      in (of_nat (unat (mulberry s)) / 4294967296,
          r\<lparr> rngState := s, drawsValue := drawsValue r + 1 \<rparr>))"

text \<open>The states the generator runs through.\<close>

fun afterDraws :: "nat \<Rightarrow> SeededRandom \<Rightarrow> SeededRandom" where
  "afterDraws 0 r = r"
| "afterDraws (Suc n) r = afterDraws n (snd (nextRandom r))"

fun drawsOf :: "nat \<Rightarrow> SeededRandom \<Rightarrow> rat list" where
  "drawsOf 0 r = []"
| "drawsOf (Suc n) r = (case nextRandom r of (x, r') \<Rightarrow> x # drawsOf n r')"

lemma nextRandom_range: "0 \<le> fst (nextRandom r) \<and> fst (nextRandom r) < 1"
proof -
  have "unat (mulberry (rngState r + 0x6d2b79f5)) < 2 ^ 32"
    using unsigned_less [of "mulberry (rngState r + 0x6d2b79f5)"] by simp
  then have "(of_nat (unat (mulberry (rngState r + 0x6d2b79f5))) :: rat) < of_nat (2 ^ 32)"
    by (simp only: of_nat_less_iff)
  then show ?thesis by (simp add: nextRandom_def Let_def del: of_nat_unat)
qed

lemma nextRandom_state [simp]:
  "rngState (snd (nextRandom r)) = rngState r + 0x6d2b79f5"
  "drawsValue (snd (nextRandom r)) = Suc (drawsValue r)"
  by (simp_all add: nextRandom_def Let_def)

lemma afterDraws_state:
  "rngState (afterDraws n r) = rngState r + of_nat n * 0x6d2b79f5 \<and> drawsValue (afterDraws n r) = drawsValue r + n"
  by (induction n arbitrary: r) (simp_all add: algebra_simps)

lemma odd_multiple_zero:
  assumes "of_nat n * (0x6d2b79f5 :: 32 word) = 0"
  shows "2 ^ 32 dvd n"
proof -
  have "of_nat (n * 0x6d2b79f5) = (0 :: 32 word)" using assms by simp
  then have "2 ^ 32 dvd n * 0x6d2b79f5"
    by (simp only: word_of_nat_eq_0_iff) simp
  moreover have "coprime ((2::nat) ^ 32) 0x6d2b79f5"
    by (rule coprime_power_left_iff [THEN iffD2]) (simp add: coprime_left_2_iff_odd)
  ultimately show ?thesis by (simp add: coprime_dvd_mult_left_iff)
qed

lemma afterDraws_distinct:
  assumes "m < n" and "n - m < 2 ^ 32"
  shows "rngState (afterDraws m r) \<noteq> rngState (afterDraws n r)"
proof
  assume eq: "rngState (afterDraws m r) = rngState (afterDraws n r)"
  have "of_nat n * (0x6d2b79f5 :: 32 word) = of_nat m * 0x6d2b79f5 + of_nat (n - m) * 0x6d2b79f5"
    using assms(1) by (simp flip: distrib_right of_nat_add)
  with eq have "of_nat (n - m) * (0x6d2b79f5 :: 32 word) = 0"
    by (simp add: afterDraws_state)
  then have "2 ^ 32 dvd n - m" by (rule odd_multiple_zero)
  with assms show False by (auto dest: dvd_imp_le)
qed

lemma restore_checkpoint:
  assumes "isSafeNat (drawsValue r)"
  shows "restoreRandom (randomCheckpoint r) r' = Inr r"
proof -
  have "uint (rngState r) < 2 ^ 32" using uint_bounded [of "rngState r"] by simp
  with assms show ?thesis
    by (auto simp: restoreRandom_def randomCheckpoint_def isSafeInteger_def isSafeNat_def MAX_SAFE_INTEGER_def)
qed

lemma draws_in_range: "list_all (\<lambda>x. 0 \<le> x \<and> x < 1) (drawsOf n r)"
proof (induction n arbitrary: r)
  case (Suc n)
  then show ?case using nextRandom_range [of r] by (cases "nextRandom r") simp
qed simp

lemma states_distinct: "distinct (map (\<lambda>k. rngState (afterDraws k r)) [0 ..< 2 ^ 32])"
proof -
  have "inj_on (\<lambda>k. rngState (afterDraws k r)) (set [0 ..< 2 ^ 32])"
  proof (rule linorder_inj_onI)
    fix m n :: nat
    assume "m < n" "n \<in> set [0 ..< 2 ^ 32]"
    then show "rngState (afterDraws m r) \<noteq> rngState (afterDraws n r)"
      by (intro afterDraws_distinct) auto
  qed auto
  then show ?thesis by (simp only: distinct_map distinct_upt simp_thms)
qed

lemma states_repeat: "rngState (afterDraws (2 ^ 32) r) = rngState r"
proof -
  have "(of_nat (2 ^ 32) :: 32 word) = 0" by simp
  then show ?thesis by (simp only: afterDraws_state mult_zero_left add_0_right)
qed

text \<open>
The generator is a faithful deterministic source: every draw lies in the unit interval, the
  count of draws is kept, the first 2^32 draws of a seed start from pairwise different states and
  then repeat (full period), and restoring a checkpoint replays the same draws.
\<close>

theorem random_source_is_sound:
  assumes "newSeededRandom seed = Inr r" and "isSafeNat k"
  shows "list_all (\<lambda>x. 0 \<le> x \<and> x < 1) (drawsOf n r)
    \<and> drawsValue (afterDraws n r) = n
    \<and> distinct (map (\<lambda>k. rngState (afterDraws k r)) [0 ..< 2 ^ 32])
    \<and> rngState (afterDraws (2 ^ 32) r) = rngState r
    \<and> (\<exists>r''. restoreRandom (randomCheckpoint (afterDraws k r)) r' = Inr r'' \<and> drawsOf n r'' = drawsOf n (afterDraws k r))"
proof -
  have "drawsValue r = 0"
    using assms by (auto simp: newSeededRandom_def split: if_splits)
  then have "drawsValue (afterDraws m r) = m" for m by (simp add: afterDraws_state)
  with assms(2) show ?thesis
    by (intro conjI draws_in_range states_distinct states_repeat)
      (simp_all add: restore_checkpoint)
qed

theorem random_source_is_sound_witness:
  "\<exists>r. newSeededRandom 42 = Inr r \<and> drawsValue (afterDraws 5 r) = 5
     \<and> (\<exists>r''. restoreRandom (randomCheckpoint (afterDraws 3 r)) r = Inr r'' \<and> drawsOf 5 r'' = drawsOf 5 (afterDraws 3 r))"
proof -
  have n: "newSeededRandom 42 = Inr \<lparr> rngState = 42, drawsValue = 0 \<rparr>"
    by (simp add: newSeededRandom_def isSafeInteger_def MAX_SAFE_INTEGER_def)
  have s: "isSafeNat 3" by (simp add: isSafeNat_def MAX_SAFE_INTEGER_def)
  show ?thesis
    using n random_source_is_sound [OF n s, of 5 "\<lparr> rngState = 42, drawsValue = 0 \<rparr>"] by blast
qed

end
