(* ===== verification/TradingScenario.thy ===== *)
theory TradingScenario
  imports MarketMaking SeededRandom BoundedMath
begin

text \<open>
  The quant trading interview (\<^verbatim>\<open>packages/local-compute/src/quant-trader-interview.ts\<close>):
  a seeded scenario that runs an order book and a portfolio through rounds of a submitted quote, a
  simulated order flow and a mark to the fair value. Times and ids of the book are counters of the
  engine. \<open>advance\<close> restores every part of the engine when a round throws.
\<close>

section \<open>Configuration\<close>

record QuantFairValueUpdate =
  fuRound :: nat
  fuFairValue :: rat
  fuLabel :: "string option"

record QuantTraderScenarioConfig =
  cfFamily :: QuantTradingFamily
  cfSeed :: int
  cfRounds :: "nat option"
  cfInitialCash :: "rat option"
  cfFairValue :: "rat option"
  cfTickSize :: "rat option"
  cfMaxQuoteSize :: "nat option"
  cfNoiseTraderProbability :: "rat option"
  cfInformedTraderProbability :: "rat option"
  cfNoiseBuyProbability :: "rat option"
  cfNoiseTradeSize :: "nat option"
  cfMaxNoiseSpread :: "rat option"
  cfHardPositionLimit :: "bool option"
  cfStopOnRiskBreach :: "bool option"
  cfRiskLimits :: PartialRiskLimits
  cfFairValueUpdates :: "QuantFairValueUpdate list option"

record ResolvedScenarioConfig =
  rcFamily :: QuantTradingFamily
  rcSeed :: int
  rcRounds :: nat
  rcInitialCash :: rat
  rcFairValue :: rat
  rcTickSize :: rat
  rcMaxQuoteSize :: nat
  rcNoiseTraderProbability :: rat
  rcInformedTraderProbability :: rat
  rcNoiseBuyProbability :: rat
  rcNoiseTradeSize :: nat
  rcMaxNoiseSpread :: rat
  rcHardPositionLimit :: bool
  rcStopOnRiskBreach :: bool
  rcRiskLimits :: PositionRiskLimits
  rcFairValueUpdates :: "QuantFairValueUpdate list"

definition DEFAULT_RISK_LIMITS :: PositionRiskLimits where
  "DEFAULT_RISK_LIMITS = \<lparr> maxPosition = 20, limitMaxDrawdown = 250, stopLossThreshold = 150 \<rparr>"

text \<open>Literals such as \<^verbatim>\<open>0.15\<close> denote the nearest binary64 number.\<close>

definition lit :: "rat \<Rightarrow> rat" where
  "lit x = orElse (fl x) 0"

definition baseDefaults :: "QuantTradingFamily \<Rightarrow> ResolvedScenarioConfig" where
  "baseDefaults family =
     \<lparr> rcFamily = family, rcSeed = 0, rcRounds = 8, rcInitialCash = 1000, rcFairValue = 100,
       rcTickSize = lit (1/2), rcMaxQuoteSize = 10, rcNoiseTraderProbability = lit (3/4),
       rcInformedTraderProbability = lit (15/100), rcNoiseBuyProbability = lit (1/2),
       rcNoiseTradeSize = 1, rcMaxNoiseSpread = 8, rcHardPositionLimit = False,
       rcStopOnRiskBreach = False, rcRiskLimits = DEFAULT_RISK_LIMITS, rcFairValueUpdates = [] \<rparr>"

text \<open>The seed and the updates of the result are placeholders, which \<open>resolveConfig\<close> replaces.\<close>

fun familyDefaults :: "QuantTradingFamily \<Rightarrow> ResolvedScenarioConfig" where
  "familyDefaults BASIC_MARKET_MAKING = baseDefaults BASIC_MARKET_MAKING"
| "familyDefaults FAIR_VALUE_UPDATES =
     (baseDefaults FAIR_VALUE_UPDATES)
       \<lparr> rcNoiseTraderProbability := lit (7/10), rcInformedTraderProbability := lit (2/10) \<rparr>"
| "familyDefaults INVENTORY_PRESSURE =
     (baseDefaults INVENTORY_PRESSURE)
       \<lparr> rcNoiseTraderProbability := lit (9/10), rcInformedTraderProbability := lit (5/100),
         rcNoiseBuyProbability := lit (15/100) \<rparr>"
| "familyDefaults ADVERSE_SELECTION =
     (baseDefaults ADVERSE_SELECTION)
       \<lparr> rcNoiseTraderProbability := lit (3/10), rcInformedTraderProbability := lit (6/10) \<rparr>"
| "familyDefaults RISK_MANAGEMENT =
     (baseDefaults RISK_MANAGEMENT)
       \<lparr> rcRounds := 6, rcMaxQuoteSize := 4, rcNoiseTraderProbability := lit (85/100),
         rcInformedTraderProbability := lit (1/10), rcHardPositionLimit := True,
         rcStopOnRiskBreach := True,
         rcRiskLimits := \<lparr> maxPosition = 4, limitMaxDrawdown = 60, stopLossThreshold = 40 \<rparr> \<rparr>"

definition QuantFairValueUpdateSchema :: "QuantFairValueUpdate \<Rightarrow> bool" where
  "QuantFairValueUpdateSchema u =
     (PositiveSafeInteger (fuRound u) \<and> 0 < fuFairValue u
      \<and> opt_all (\<lambda>s. 1 \<le> length s \<and> nonBlank s) (fuLabel u))"

definition QuantRiskLimitOverridesSchema :: "PartialRiskLimits \<Rightarrow> bool" where
  "QuantRiskLimitOverridesSchema l =
     (opt_all PositiveSafeInteger (optMaxPosition l) \<and> opt_all (\<lambda>x. 0 < x) (optMaxDrawdown l)
      \<and> opt_all (\<lambda>x. 0 < x) (optStopLossThreshold l))"

definition QuantTraderScenarioConfigSchema :: "QuantTraderScenarioConfig \<Rightarrow> bool" where
  "QuantTraderScenarioConfigSchema c =
     (let d = familyDefaults (cfFamily c); pos = opt_all (\<lambda>x. 0 < x); l = cfRiskLimits c;
          rounds = orElse (cfRounds c) (rcRounds d); updates = orElse (cfFairValueUpdates c) [] in
      isSafeInteger (cfSeed c) \<and> opt_all PositiveSafeInteger (cfRounds c)
      \<and> opt_all (\<lambda>x. 0 \<le> x) (cfInitialCash c) \<and> pos (cfFairValue c) \<and> pos (cfTickSize c)
      \<and> opt_all PositiveSafeInteger (cfMaxQuoteSize c)
      \<and> opt_all unitInterval (cfNoiseTraderProbability c)
      \<and> opt_all unitInterval (cfInformedTraderProbability c)
      \<and> opt_all unitInterval (cfNoiseBuyProbability c)
      \<and> opt_all PositiveSafeInteger (cfNoiseTradeSize c) \<and> pos (cfMaxNoiseSpread c)
      \<and> QuantRiskLimitOverridesSchema l
      \<and> opt_all (list_all QuantFairValueUpdateSchema) (cfFairValueUpdates c)
      \<and> atMost (js_add (orElse (cfNoiseTraderProbability c) (rcNoiseTraderProbability d))
                       (orElse (cfInformedTraderProbability c) (rcInformedTraderProbability d))) 1
      \<and> orElse (optStopLossThreshold l) (stopLossThreshold (rcRiskLimits d))
          \<le> orElse (optMaxDrawdown l) (limitMaxDrawdown (rcRiskLimits d))
      \<and> list_all (\<lambda>u. fuRound u \<le> rounds) updates \<and> allDistinct (map fuRound updates))"

section \<open>Generated fair value updates\<close>

text \<open>One iteration of the loop over the even rounds.\<close>

definition nextFairValue :: "rat \<Rightarrow> rat \<Rightarrow> rat \<Rightarrow> rat" where
  "nextFairValue direction mag fairValue =
     (let positive = (\<lambda>x. case x of None \<Rightarrow> None | Some y \<Rightarrow> if 0 < y then Some y else None) in
      case positive (fl (fairValue + direction * mag)) of
        Some p \<Rightarrow> p
      | None \<Rightarrow> orElse (positive (fl (fairValue - direction * mag))) fairValue)"

fun updateLoop :: "nat list \<Rightarrow> SeededRandom \<Rightarrow> rat \<Rightarrow> QuantFairValueUpdate list" where
  "updateLoop [] random fairValue = []"
| "updateLoop (n # ns) random fairValue =
     (case nextRandom random of (x, random1) \<Rightarrow>
      case nextRandom random1 of (y, random2) \<Rightarrow>
        let fairValue' = nextFairValue (if x < 1/2 then -1 else 1) (if y < 1/2 then 1 else 2) fairValue
        in \<lparr> fuRound = n, fuFairValue = fairValue', fuLabel = Some ''PUBLIC_INFORMATION_UPDATE'' \<rparr>
           # updateLoop ns random2 fairValue')"

definition evenRounds :: "nat \<Rightarrow> nat list" where
  "evenRounds rounds = map (\<lambda>k. 2 * k) [1 ..< rounds div 2 + 1]"

definition generateFairValueUpdates :: "int \<Rightarrow> nat \<Rightarrow> rat \<Rightarrow> (RandomError, QuantFairValueUpdate list) result" where
  "generateFairValueUpdates seed rounds initialFairValue =
     bindE (newSeededRandom (sint (word_of_int seed XOR 0x51f15e5d :: 32 word))) (\<lambda>random.
     Inr (updateLoop (evenRounds rounds) random initialFairValue))"

section \<open>Resolution\<close>

datatype QuantTraderActionErrorCode =
    SCENARIO_COMPLETE | ACTION_ALREADY_SUBMITTED | ACTION_REQUIRED | RESULT_NOT_READY
  | INVALID_ACTION | INVALID_QUOTE | INVALID_TICK | QUOTE_SIZE_LIMIT | HARD_POSITION_LIMIT

datatype ScenarioError =
    ActionError QuantTraderActionErrorCode
  | InvalidScenarioConfig | ConfigAssertion
  | CountUnsafe string | AmountNotFinite string | PriceOverflow
  | ScenarioBook BookError | ScenarioPortfolio PortfolioError | ScenarioRandom RandomError
  | ScenarioScore ScoreError

text \<open>The assertions \<open>resolveConfig\<close> repeats on what it resolved.\<close>

definition resolvedAssertions :: "ResolvedScenarioConfig \<Rightarrow> bool" where
  "resolvedAssertions c =
     (isSafeInteger (rcSeed c) \<and> PositiveSafeInteger (rcRounds c) \<and> 0 \<le> rcInitialCash c
      \<and> 0 < rcFairValue c \<and> 0 < rcTickSize c \<and> PositiveSafeInteger (rcMaxQuoteSize c)
      \<and> unitInterval (rcNoiseTraderProbability c) \<and> unitInterval (rcInformedTraderProbability c)
      \<and> unitInterval (rcNoiseBuyProbability c)
      \<and> atMost (js_add (rcNoiseTraderProbability c) (rcInformedTraderProbability c)) 1
      \<and> PositiveSafeInteger (rcNoiseTradeSize c) \<and> 0 < rcMaxNoiseSpread c
      \<and> PositiveSafeInteger (maxPosition (rcRiskLimits c)) \<and> 0 < limitMaxDrawdown (rcRiskLimits c)
      \<and> 0 < stopLossThreshold (rcRiskLimits c)
      \<and> stopLossThreshold (rcRiskLimits c) \<le> limitMaxDrawdown (rcRiskLimits c)
      \<and> list_all (\<lambda>u. 1 \<le> fuRound u \<and> fuRound u \<le> rcRounds c \<and> 0 < fuFairValue u) (rcFairValueUpdates c)
      \<and> allDistinct (map fuRound (rcFairValueUpdates c)))"

definition resolveConfig :: "QuantTraderScenarioConfig \<Rightarrow> (ScenarioError, ResolvedScenarioConfig) result" where
  "resolveConfig c =
     bindE (guardE (QuantTraderScenarioConfigSchema c) InvalidScenarioConfig) (\<lambda>_.
     let d = familyDefaults (cfFamily c); l = cfRiskLimits c;
         rounds = orElse (cfRounds c) (rcRounds d); fairValue = orElse (cfFairValue c) (rcFairValue d) in
     bindE (case cfFairValueUpdates c of
              Some us \<Rightarrow> Inr us
            | None \<Rightarrow>
                if cfFamily c = FAIR_VALUE_UPDATES
                then (case generateFairValueUpdates (cfSeed c) rounds fairValue of
                        Inl e \<Rightarrow> Inl (ScenarioRandom e) | Inr us \<Rightarrow> Inr us)
                else Inr []) (\<lambda>updates.
     let resolved =
       \<lparr> rcFamily = cfFamily c, rcSeed = cfSeed c, rcRounds = rounds,
         rcInitialCash = orElse (cfInitialCash c) (rcInitialCash d), rcFairValue = fairValue,
         rcTickSize = orElse (cfTickSize c) (rcTickSize d),
         rcMaxQuoteSize = orElse (cfMaxQuoteSize c) (rcMaxQuoteSize d),
         rcNoiseTraderProbability = orElse (cfNoiseTraderProbability c) (rcNoiseTraderProbability d),
         rcInformedTraderProbability = orElse (cfInformedTraderProbability c) (rcInformedTraderProbability d),
         rcNoiseBuyProbability = orElse (cfNoiseBuyProbability c) (rcNoiseBuyProbability d),
         rcNoiseTradeSize = orElse (cfNoiseTradeSize c) (rcNoiseTradeSize d),
         rcMaxNoiseSpread = orElse (cfMaxNoiseSpread c) (rcMaxNoiseSpread d),
         rcHardPositionLimit = orElse (cfHardPositionLimit c) (rcHardPositionLimit d),
         rcStopOnRiskBreach = orElse (cfStopOnRiskBreach c) (rcStopOnRiskBreach d),
         rcRiskLimits = \<lparr> maxPosition = orElse (optMaxPosition l) (maxPosition (rcRiskLimits d)),
                          limitMaxDrawdown = orElse (optMaxDrawdown l) (limitMaxDrawdown (rcRiskLimits d)),
                          stopLossThreshold = orElse (optStopLossThreshold l) (stopLossThreshold (rcRiskLimits d)) \<rparr>,
         rcFairValueUpdates = sort_key fuRound updates \<rparr>
     in bindE (guardE (resolvedAssertions resolved) ConfigAssertion) (\<lambda>_. Inr resolved)))"

section \<open>The engine\<close>

type_synonym QuantStudentAction = QuantTradingCandidateAction

datatype QuantScenarioStatus = Scenario_ACTIVE | Scenario_COMPLETED | Scenario_RISK_STOPPED

datatype QuantScenarioPhase = AWAITING_ACTION | READY_TO_ADVANCE | Phase_COMPLETE

record QuantMarketEvent =
  meRound :: nat
  mePreviousFairValue :: rat
  meFairValue :: rat
  meLabel :: string

record QuantRiskBreach =
  qbRound :: nat
  qbSource :: RiskBreachSource
  qbReason :: RiskReason

record QuantRoundEvidence =
  evRound :: nat
  evFairValue :: rat
  evMarketEvents :: "QuantMarketEvent list"
  evStudentAction :: QuantStudentAction
  evOrderFlowType :: OrderFlowType
  evIncomingMarketSide :: "OrderSide option"
  evStudentFills :: "OrderFill list"
  evMarketState :: MarketState
  evPortfolio :: PortfolioSnapshot
  evRiskReason :: "RiskReason option"
  evAccountingInvariantHolds :: bool
  evRngDrawCount :: nat

record QuantTraderInterviewEngine =
  enConfig :: ResolvedScenarioConfig
  enRandom :: SeededRandom
  enBook :: LimitOrderBook
  enPortfolio :: PortfolioTracker
  enStatus :: QuantScenarioStatus
  enCurrentRound :: nat
  enFairValue :: rat
  enPendingAction :: "QuantStudentAction option"
  enRoundEvents :: "QuantMarketEvent list"
  enHistory :: "QuantRoundEvidence list"
  enRiskBreaches :: "QuantRiskBreach list"
  enIdSequence :: nat
  enLogicalTime :: nat
  enQuoteRounds :: nat
  enTotalSpread :: rat
  enInformedFlowCount :: nat
  enNoiseFlowCount :: nat
  enAdverseSelectionPnL :: rat

type_synonym 'a engine_action = "(QuantTraderInterviewEngine, ScenarioError, 'a) action"

text \<open>The runtime of the book: the two counters of the engine.\<close>

definition scenarioRuntime :: "(nat \<times> nat) LimitOrderBookRuntime" where
  "scenarioRuntime =
     \<lparr> runtimeNow = (\<lambda>(i, t).
         if isSafeNat (t + 1) then (Inr (of_nat (t + 1)), (i, t + 1))
         else (Inl (RuntimeThrew ''logical time''), (i, t))),
       runtimeCreateId = (\<lambda>prefix (i, t).
         if isSafeNat (i + 1) then (Inr (prefix @ ''_'' @ bigintToString (int (i + 1))), (i + 1, t))
         else (Inl (RuntimeThrew ''id sequence''), (i, t))) \<rparr>"

definition engineBook :: "QuantTraderInterviewEngine \<Rightarrow> LimitOrderBook \<times> (nat \<times> nat)" where
  "engineBook e = (enBook e, (enIdSequence e, enLogicalTime e))"

definition setEngineBook :: "LimitOrderBook \<times> (nat \<times> nat) \<Rightarrow> QuantTraderInterviewEngine \<Rightarrow> QuantTraderInterviewEngine" where
  "setEngineBook s e =
     e\<lparr> enBook := fst s, enIdSequence := fst (snd s), enLogicalTime := snd (snd s) \<rparr>"

definition onBook :: "(LimitOrderBook \<times> (nat \<times> nat), BookError, 'a) action \<Rightarrow> 'a engine_action" where
  "onBook = withinS engineBook setEngineBook ScenarioBook"

definition onPortfolio :: "'a portfolio_action \<Rightarrow> 'a engine_action" where
  "onPortfolio = withinS enPortfolio (\<lambda>p e. e\<lparr> enPortfolio := p \<rparr>) ScenarioPortfolio"

definition drawNext :: "rat engine_action" where
  "drawNext = (\<lambda>e. case nextRandom (enRandom e) of (x, r) \<Rightarrow> (Inr x, e\<lparr> enRandom := r \<rparr>))"

definition amountOr :: "string \<Rightarrow> rat option \<Rightarrow> (ScenarioError, rat) result" where
  "amountOr label x = (case x of None \<Rightarrow> Inl (AmountNotFinite label) | Some y \<Rightarrow> Inr y)"

definition incrementSafeCount :: "nat \<Rightarrow> string \<Rightarrow> (ScenarioError, nat) result" where
  "incrementSafeCount n label = (if isSafeNat (n + 1) then Inr (n + 1) else Inl (CountUnsafe label))"

text \<open>\<^verbatim>\<open>Math.abs(ticks - Math.round(ticks)) <= 1e-9\<close>\<close>

definition isOnTick :: "rat \<Rightarrow> rat \<Rightarrow> bool" where
  "isOnTick price tickSize =
     (case js_div price tickSize of
        None \<Rightarrow> False
      | Some ticks \<Rightarrow> atMost (map_option abs (fl (ticks - of_int (js_round ticks)))) (lit (1 / 10 ^ 9)))"

definition markFillPnL :: "OrderFill \<Rightarrow> rat \<Rightarrow> rat option" where
  "markFillPnL f fairValue =
     (if fillSide f = BUY then nmul fl (fl (fairValue - fillPrice f)) (Some (of_nat (fillSize f)))
      else nmul fl (fl (fillPrice f - fairValue)) (Some (of_nat (fillSize f))))"

definition recordRiskBreach :: "RiskBreachSource \<Rightarrow> RiskReason \<Rightarrow> QuantTraderInterviewEngine \<Rightarrow> QuantTraderInterviewEngine" where
  "recordRiskBreach source reason e =
     e\<lparr> enRiskBreaches := enRiskBreaches e @
          [\<lparr> qbRound = enCurrentRound e, qbSource = source, qbReason = reason \<rparr>] \<rparr>"

definition checkRisk :: "RiskReason option engine_action" where
  "checkRisk =
     (\<lambda>e. (case checkRiskLimits fl (enFairValue e) (enPortfolio e) of
             Inl x \<Rightarrow> Inl (ScenarioPortfolio x) | Inr x \<Rightarrow> Inr x, e))"

definition markToFairValue :: "PortfolioSnapshot engine_action" where
  "markToFairValue = (\<lambda>e. onPortfolio (updateMarkPrice fl (enFairValue e)) e)"

definition applyFairValueUpdateForCurrentRound :: "unit engine_action" where
  "applyFairValueUpdateForCurrentRound =
     bindS (readS (\<lambda>e. find (\<lambda>u. fuRound u = enCurrentRound e) (rcFairValueUpdates (enConfig e)))) (\<lambda>update.
     case update of
       None \<Rightarrow> returnS ()
     | Some u \<Rightarrow>
         bindS (modifyS (\<lambda>e. e\<lparr> enFairValue := fuFairValue u,
             enRoundEvents := enRoundEvents e @
               [\<lparr> meRound = enCurrentRound e, mePreviousFairValue = enFairValue e,
                  meFairValue = fuFairValue u,
                  meLabel = orElse (fuLabel u) ''PUBLIC_INFORMATION_UPDATE'' \<rparr>] \<rparr>)) (\<lambda>_.
         bindS markToFairValue (\<lambda>_.
         bindS checkRisk (\<lambda>risk.
         case risk of
           None \<Rightarrow> returnS ()
         | Some reason \<Rightarrow>
             modifyS (\<lambda>e. let e' = recordRiskBreach RISK_FAIR_VALUE_UPDATE reason e in
               if rcStopOnRiskBreach (enConfig e') then e'\<lparr> enStatus := Scenario_RISK_STOPPED \<rparr> else e')))))"

definition newEngineState :: "ResolvedScenarioConfig \<Rightarrow> SeededRandom \<Rightarrow> PortfolioTracker \<Rightarrow> QuantTraderInterviewEngine" where
  "newEngineState c random p =
     \<lparr> enConfig = c, enRandom = random, enBook = newLimitOrderBook, enPortfolio = p,
       enStatus = Scenario_ACTIVE, enCurrentRound = 1, enFairValue = rcFairValue c,
       enPendingAction = None, enRoundEvents = [], enHistory = [], enRiskBreaches = [],
       enIdSequence = 0, enLogicalTime = 0, enQuoteRounds = 0, enTotalSpread = 0,
       enInformedFlowCount = 0, enNoiseFlowCount = 0, enAdverseSelectionPnL = 0 \<rparr>"

definition newQuantTraderInterviewEngine :: "QuantTraderScenarioConfig \<Rightarrow> (ScenarioError, QuantTraderInterviewEngine) result" where
  "newQuantTraderInterviewEngine config =
     bindE (resolveConfig config) (\<lambda>c.
     case newSeededRandom (rcSeed c) of
       Inl e \<Rightarrow> Inl (ScenarioRandom e)
     | Inr random \<Rightarrow>
         (case newPortfolioTracker (rcInitialCash c) (asPartial (Some (rcRiskLimits c))) of
            Inl e \<Rightarrow> Inl (ScenarioPortfolio e)
          | Inr p \<Rightarrow>
              (case bindS markToFairValue (\<lambda>_. applyFairValueUpdateForCurrentRound)
                      (newEngineState c random p) of
                 (Inl e, _) \<Rightarrow> Inl e
               | (Inr _, e) \<Rightarrow> Inr e)))"

section \<open>The state shown to clients\<close>

record QuantQuoteRequest =
  rqRound :: nat
  rqFairValue :: rat
  rqTickSize :: rat
  rqMaxQuoteSize :: nat
  rqHardPositionLimit :: bool
  rqMaxPosition :: nat

record QuantTraderScenarioState =
  stFamily :: QuantTradingFamily
  stSeed :: int
  stStatus :: QuantScenarioStatus
  stPhase :: QuantScenarioPhase
  stCurrentRound :: nat
  stPlannedRounds :: nat
  stFairValue :: rat
  stMarketState :: MarketState
  stPortfolio :: PortfolioSnapshot
  stCurrentRoundEvents :: "QuantMarketEvent list"
  stQuoteRequest :: "QuantQuoteRequest option"
  stPendingAction :: "QuantStudentAction option"
  stRiskBreaches :: "QuantRiskBreach list"
  stHistory :: "QuantRoundEvidence list"

definition scenarioPhase :: "QuantTraderInterviewEngine \<Rightarrow> QuantScenarioPhase" where
  "scenarioPhase e =
     (if enStatus e \<noteq> Scenario_ACTIVE then Phase_COMPLETE
      else if enPendingAction e = None then AWAITING_ACTION else READY_TO_ADVANCE)"

definition engineSnapshot :: "QuantTraderInterviewEngine \<Rightarrow> (ScenarioError, PortfolioSnapshot) result" where
  "engineSnapshot e =
     (case getSnapshot fl (enFairValue e) (enPortfolio e) of
        Inl x \<Rightarrow> Inl (ScenarioPortfolio x) | Inr s \<Rightarrow> Inr s)"

definition engineMarketState :: "QuantTraderInterviewEngine \<Rightarrow> (ScenarioError, MarketState) result" where
  "engineMarketState e =
     (case getMarketState (enBook e) of Inl x \<Rightarrow> Inl (ScenarioBook x) | Inr m \<Rightarrow> Inr m)"

definition getState :: "QuantTraderInterviewEngine \<Rightarrow> (ScenarioError, QuantTraderScenarioState) result" where
  "getState e =
     bindE (engineSnapshot e) (\<lambda>snap.
     bindE (engineMarketState e) (\<lambda>market.
     let c = enConfig e; phase = scenarioPhase e in
     Inr \<lparr> stFamily = rcFamily c, stSeed = rcSeed c, stStatus = enStatus e, stPhase = phase,
           stCurrentRound = enCurrentRound e, stPlannedRounds = rcRounds c,
           stFairValue = enFairValue e, stMarketState = market, stPortfolio = snap,
           stCurrentRoundEvents = enRoundEvents e,
           stQuoteRequest =
             (if phase = AWAITING_ACTION
              then Some \<lparr> rqRound = enCurrentRound e, rqFairValue = enFairValue e,
                          rqTickSize = rcTickSize c, rqMaxQuoteSize = rcMaxQuoteSize c,
                          rqHardPositionLimit = rcHardPositionLimit c,
                          rqMaxPosition = maxPosition (rcRiskLimits c) \<rparr>
              else None),
           stPendingAction = enPendingAction e, stRiskBreaches = enRiskBreaches e,
           stHistory = enHistory e \<rparr>))"

section \<open>Admission of quotes\<close>

definition assertCanSubmit :: "QuantTraderInterviewEngine \<Rightarrow> (ScenarioError, unit) result" where
  "assertCanSubmit e =
     (if enStatus e \<noteq> Scenario_ACTIVE then Inl (ActionError SCENARIO_COMPLETE)
      else if enPendingAction e \<noteq> None then Inl (ActionError ACTION_ALREADY_SUBMITTED)
      else Inr ())"

definition quoteArithmeticFinite :: "QuotePair \<Rightarrow> QuantTraderInterviewEngine \<Rightarrow> bool" where
  "quoteArithmeticFinite q e =
     (let spread = fl (askPrice q - bidPrice q);
          bidMarkPnL = nmul fl (fl (enFairValue e - bidPrice q)) (Some (of_nat (bidSize q)));
          askMarkPnL = nmul fl (fl (askPrice q - enFairValue e)) (Some (of_nat (askSize q))) in
      spread \<noteq> None \<and> nadd fl (Some (enTotalSpread e)) spread \<noteq> None
      \<and> js_mul (bidPrice q) (of_nat (bidSize q)) \<noteq> None \<and> js_mul (askPrice q) (of_nat (askSize q)) \<noteq> None
      \<and> bidMarkPnL \<noteq> None \<and> askMarkPnL \<noteq> None
      \<and> nadd fl (Some (enAdverseSelectionPnL e)) bidMarkPnL \<noteq> None
      \<and> nadd fl (Some (enAdverseSelectionPnL e)) askMarkPnL \<noteq> None)"

definition previewFill :: "string \<Rightarrow> OrderSide \<Rightarrow> rat \<Rightarrow> nat \<Rightarrow> OrderFill" where
  "previewFill i side price n =
     \<lparr> fillId = i, fillOrderId = i, matchedOrderId = None, fillSide = side, fillPrice = price,
       fillSize = n, counterparty = ''QUOTE_ADMISSION_PREVIEW'', fillTimestamp = 0 \<rparr>"

text \<open>The two previews; a \<^verbatim>\<open>RangeError\<close> of either makes the quote invalid.\<close>

definition previewQuote :: "QuotePair \<Rightarrow> unit engine_action" where
  "previewQuote q =
     (\<lambda>e. case onPortfolio
              (bindS (assertPotentialFillArithmetic fl
                        (previewFill ''quote-preview-bid'' BUY (bidPrice q) (bidSize q)) (enFairValue e)) (\<lambda>_.
               assertPotentialFillArithmetic fl
                        (previewFill ''quote-preview-ask'' SELL (askPrice q) (askSize q)) (enFairValue e))) e of
        (Inl (ScenarioPortfolio x), e') \<Rightarrow>
          (Inl (if isRangeError x then ActionError INVALID_QUOTE else ScenarioPortfolio x), e')
      | r \<Rightarrow> r)"

definition validateQuote :: "QuotePair \<Rightarrow> QuotePair engine_action" where
  "validateQuote q =
     bindS (readS (\<lambda>e. e)) (\<lambda>e.
     let c = enConfig e; pos = currentPosition (enPortfolio e); limit = int (maxPosition (rcRiskLimits c)) in
     bindS (guardS (QuotePairSchema q) (ActionError INVALID_QUOTE)) (\<lambda>_.
     bindS (guardS (isOnTick (bidPrice q) (rcTickSize c) \<and> isOnTick (askPrice q) (rcTickSize c))
              (ActionError INVALID_TICK)) (\<lambda>_.
     bindS (guardS (bidSize q \<le> rcMaxQuoteSize c \<and> askSize q \<le> rcMaxQuoteSize c)
              (ActionError QUOTE_SIZE_LIMIT)) (\<lambda>_.
     bindS (guardS (quoteArithmeticFinite q e) (ActionError INVALID_QUOTE)) (\<lambda>_.
     bindS (previewQuote q) (\<lambda>_.
     bindS (guardS (\<not> (rcHardPositionLimit c
                        \<and> (limit < pos + int (bidSize q) \<or> pos - int (askSize q) < - limit)))
              (ActionError HARD_POSITION_LIMIT)) (\<lambda>_.
     returnS q)))))))"

text \<open>
  \<open>submitAction\<close> on a typed action, the only malformed ones being quotes that violate the schema.
  The action stays pending also when the state to return cannot be computed.
\<close>

definition submitAction :: "QuantStudentAction \<Rightarrow> QuantTraderScenarioState engine_action" where
  "submitAction a =
     bindS (\<lambda>e. (assertCanSubmit e, e)) (\<lambda>_.
     bindS (guardS (QuantTradingCandidateActionSchema a) (ActionError INVALID_QUOTE)) (\<lambda>_.
     bindS (case a of
              QUOTE quote \<Rightarrow>
                bindS (validateQuote quote) (\<lambda>q. modifyS (\<lambda>e. e\<lparr> enPendingAction := Some (QUOTE q) \<rparr>))
            | PASS \<Rightarrow> modifyS (\<lambda>e. e\<lparr> enPendingAction := Some PASS \<rparr>)) (\<lambda>_.
     (\<lambda>e. (getState e, e)))))"

definition submitQuote :: "QuotePair \<Rightarrow> QuantTraderScenarioState engine_action" where
  "submitQuote q = submitAction (QUOTE q)"

section \<open>Order flow\<close>

text \<open>The flow type, the side of the incoming market order and the fills of the student.\<close>

type_synonym order_flow = "OrderFlowType \<times> OrderSide option \<times> OrderFill list"

definition makerPrefix :: "OrderSide \<Rightarrow> string" where
  "makerPrefix incoming = (if incoming = BUY then ''quote_ask_STUDENT_'' else ''quote_bid_STUDENT_'')"

definition studentFill :: "OrderSide \<Rightarrow> OrderFill \<Rightarrow> OrderFill list" where
  "studentFill incoming f =
     (case matchedOrderId f of
        None \<Rightarrow> []
      | Some i \<Rightarrow>
          if startsWith (makerPrefix incoming) i
          then [f\<lparr> fillOrderId := i, matchedOrderId := Some (fillOrderId f),
                   fillSide := opposite incoming \<rparr>]
          else [])"

definition attributeStudentFills :: "OrderFill list \<Rightarrow> OrderSide \<Rightarrow> OrderFill list" where
  "attributeStudentFills fills incoming = concat (map (studentFill incoming) fills)"

text \<open>
  The edges are differences of positive finite numbers and so finite: the last branch is dead.
\<close>

definition simulateInformedFlow :: "QuotePair option \<Rightarrow> order_flow engine_action" where
  "simulateInformedFlow quote =
     (case quote of
        None \<Rightarrow> returnS (INFORMED, None, [])
      | Some q \<Rightarrow>
          bindS (readS enFairValue) (\<lambda>fairValue.
          case (fl (fairValue - askPrice q), fl (bidPrice q - fairValue)) of
            (Some askEdge, Some bidEdge) \<Rightarrow>
              if askEdge \<le> 0 \<and> bidEdge \<le> 0 then returnS (INFORMED, None, [])
              else
                let side = (if bidEdge \<le> askEdge then BUY else SELL);
                    n = (if side = BUY then askSize q else bidSize q) in
                bindS (onBook (executeMarketOrder scenarioRuntime side (int n) ''INFORMED_TRADER'')) (\<lambda>fills.
                returnS (INFORMED, Some side, attributeStudentFills fills side))
          | _ \<Rightarrow> throwS PriceOverflow))"

text \<open>
  \<^verbatim>\<open>spreadOffset\<close> and \<^verbatim>\<open>passiveBid\<close> are finite; the two ask prices are checked.
\<close>

definition noiseQuote :: "OrderSide \<Rightarrow> rat \<Rightarrow> QuantTraderInterviewEngine \<Rightarrow> QuotePair option" where
  "noiseQuote side roll e =
     (let c = enConfig e; fairValue = enFairValue e; spread = rcMaxNoiseSpread c in
      case (fl (roll * spread), js_div fairValue 2, fl (fairValue - spread)) of
        (Some scaled, Some half, Some below) \<Rightarrow>
          (let spreadOffset = max (rcTickSize c) scaled; passiveBid = max half below in
           case (js_add fairValue spreadOffset, js_add fairValue spread) of
             (Some passiveAsk, Some wideAsk) \<Rightarrow>
               Some \<lparr> bidPrice = passiveBid, bidSize = rcNoiseTradeSize c,
                      askPrice = (if side = BUY then wideAsk else passiveAsk),
                      askSize = rcNoiseTradeSize c \<rparr>
           | _ \<Rightarrow> None)
      | _ \<Rightarrow> None)"

definition simulateNoiseFlow :: "order_flow engine_action" where
  "simulateNoiseFlow =
     bindS drawNext (\<lambda>sideRoll.
     bindS (readS (\<lambda>e. if sideRoll < rcNoiseBuyProbability (enConfig e) then BUY else SELL)) (\<lambda>side.
     bindS drawNext (\<lambda>offsetRoll.
     bindS (readS (noiseQuote side offsetRoll)) (\<lambda>quote.
     case quote of
       None \<Rightarrow> throwS PriceOverflow
     | Some q \<Rightarrow>
         bindS (onBook (setQuotes scenarioRuntime ''NOISE_MARKET_MAKER'' q)) (\<lambda>_.
         bindS (readS (\<lambda>e. int (rcNoiseTradeSize (enConfig e)))) (\<lambda>n.
         bindS (onBook (executeMarketOrder scenarioRuntime side n ''NOISE_TRADER'')) (\<lambda>fills.
         bindS (modifyS (\<lambda>e. e\<lparr> enBook := cancelMakerQuotes ''NOISE_MARKET_MAKER'' (enBook e) \<rparr>)) (\<lambda>_.
         returnS (NOISE, Some side, attributeStudentFills fills side)))))))))"

definition simulateOrderFlow :: "QuotePair option \<Rightarrow> order_flow engine_action" where
  "simulateOrderFlow quote =
     bindS drawNext (\<lambda>roll.
     bindS (readS enConfig) (\<lambda>c.
     if roll < rcInformedTraderProbability c then
       bindS (\<lambda>e. (incrementSafeCount (enInformedFlowCount e) ''Informed-flow count'', e)) (\<lambda>n.
       bindS (modifyS (\<lambda>e. e\<lparr> enInformedFlowCount := n \<rparr>)) (\<lambda>_.
       simulateInformedFlow quote))
     else if (case js_add (rcInformedTraderProbability c) (rcNoiseTraderProbability c) of
                None \<Rightarrow> True | Some limit \<Rightarrow> roll < limit) then
       bindS (\<lambda>e. (incrementSafeCount (enNoiseFlowCount e) ''Noise-flow count'', e)) (\<lambda>n.
       bindS (modifyS (\<lambda>e. e\<lparr> enNoiseFlowCount := n \<rparr>)) (\<lambda>_.
       simulateNoiseFlow))
     else returnS (NO_TRADE, None, [])))"

section \<open>Rounds\<close>

definition accountingInvariantHolds :: "PortfolioSnapshot \<Rightarrow> QuantTraderInterviewEngine \<Rightarrow> bool" where
  "accountingInvariantHolds s e =
     atMost (map_option abs (nsub fl (Some (psPortfolioValue s))
               (js_add (rcInitialCash (enConfig e)) (psTotalPnL s)))) (lit (1 / 10 ^ 8))"

definition placeStudentAction :: "QuantStudentAction \<Rightarrow> QuotePair option engine_action" where
  "placeStudentAction a =
     (case a of
        QUOTE q \<Rightarrow>
          bindS (readS (\<lambda>e. isSafeNat (enQuoteRounds e + 1))) (\<lambda>safe.
          bindS (guardS safe (CountUnsafe ''Quote-round count'')) (\<lambda>_.
          bindS (\<lambda>e. (amountOr ''Accumulated quote spread''
                   (nsub fl (nadd fl (Some (enTotalSpread e)) (Some (askPrice q))) (Some (bidPrice q))), e)) (\<lambda>total1.
          bindS (modifyS (\<lambda>e. e\<lparr> enQuoteRounds := enQuoteRounds e + 1, enTotalSpread := total1 \<rparr>)) (\<lambda>_.
          bindS (onBook (setQuotes scenarioRuntime ''STUDENT'' q)) (\<lambda>_.
          returnS (Some q))))))
      | PASS \<Rightarrow>
          bindS (modifyS (\<lambda>e. e\<lparr> enBook := cancelMakerQuotes ''STUDENT'' (enBook e) \<rparr>)) (\<lambda>_.
          returnS None))"

definition applyStudentFill :: "OrderFlowType \<Rightarrow> OrderFill \<Rightarrow> unit engine_action" where
  "applyStudentFill flow f =
     bindS (onPortfolio (applyFillS fl f)) (\<lambda>_.
     if flow = INFORMED then
       bindS (\<lambda>e. (amountOr ''Adverse-selection PnL''
                (nadd fl (Some (enAdverseSelectionPnL e)) (markFillPnL f (enFairValue e))), e)) (\<lambda>a.
       modifyS (\<lambda>e. e\<lparr> enAdverseSelectionPnL := a \<rparr>))
     else returnS ())"

definition finishRound :: "RiskReason option \<Rightarrow> unit engine_action" where
  "finishRound risk =
     (\<lambda>e. let c = enConfig e in
        if risk \<noteq> None \<and> rcStopOnRiskBreach c then (Inr (), e\<lparr> enStatus := Scenario_RISK_STOPPED \<rparr>)
        else if rcRounds c \<le> enCurrentRound e then (Inr (), e\<lparr> enStatus := Scenario_COMPLETED \<rparr>)
        else applyFairValueUpdateForCurrentRound
               (e\<lparr> enCurrentRound := enCurrentRound e + 1, enRoundEvents := [] \<rparr>))"

text \<open>The end of a round, once its risk is checked.\<close>

definition recordRound ::
  "QuantStudentAction \<Rightarrow> order_flow \<Rightarrow> MarketState \<Rightarrow> PortfolioSnapshot \<Rightarrow> RiskReason option
     \<Rightarrow> QuantRoundEvidence engine_action" where
  "recordRound a flow market snap risk =
     bindS (modifyS (\<lambda>e. case risk of None \<Rightarrow> e | Some reason \<Rightarrow> recordRiskBreach POST_ROUND reason e)) (\<lambda>_.
     bindS (readS (\<lambda>e.
       \<lparr> evRound = enCurrentRound e, evFairValue = enFairValue e, evMarketEvents = enRoundEvents e,
         evStudentAction = a, evOrderFlowType = fst flow, evIncomingMarketSide = fst (snd flow),
         evStudentFills = snd (snd flow), evMarketState = market, evPortfolio = snap, evRiskReason = risk,
         evAccountingInvariantHolds = accountingInvariantHolds snap e,
         evRngDrawCount = drawsValue (enRandom e) \<rparr>)) (\<lambda>evidence.
     bindS (modifyS (\<lambda>e. e\<lparr> enHistory := enHistory e @ [evidence], enPendingAction := None,
                              enBook := cancelMakerQuotes ''STUDENT'' (enBook e) \<rparr>)) (\<lambda>_.
     bindS (finishRound risk) (\<lambda>_.
     returnS evidence))))"

definition advanceCommittedRound :: "QuantStudentAction \<Rightarrow> QuantRoundEvidence engine_action" where
  "advanceCommittedRound a =
     bindS (placeStudentAction a) (\<lambda>quote.
     bindS (simulateOrderFlow quote) (\<lambda>flow.
     bindS (forEachS (applyStudentFill (fst flow)) (snd (snd flow))) (\<lambda>_.
     bindS (\<lambda>e. (engineMarketState e, e)) (\<lambda>market.
     bindS markToFairValue (\<lambda>snap.
     bindS checkRisk (\<lambda>risk.
     recordRound a flow market snap risk))))))"

text \<open>The \<^verbatim>\<open>catch\<close> of \<^verbatim>\<open>advance\<close>.\<close>

definition restoreEngine :: "QuantTraderInterviewEngine \<Rightarrow> unit engine_action" where
  "restoreEngine e0 =
     bindS (\<lambda>e. case restoreRandom (randomCheckpoint (enRandom e0)) (enRandom e) of
              Inl x \<Rightarrow> (Inl (ScenarioRandom x), e) | Inr r \<Rightarrow> (Inr (), e\<lparr> enRandom := r \<rparr>)) (\<lambda>_.
     bindS (onBook (restoreBook (checkpointBook (enBook e0)))) (\<lambda>_.
     bindS (onPortfolio (restorePortfolio (checkpointPortfolio (enPortfolio e0)))) (\<lambda>_.
     modifyS (\<lambda>e. e\<lparr> enStatus := enStatus e0, enCurrentRound := enCurrentRound e0,
       enFairValue := enFairValue e0, enPendingAction := enPendingAction e0,
       enRoundEvents := enRoundEvents e0,
       enHistory := take (length (enHistory e0)) (enHistory e),
       enRiskBreaches := take (length (enRiskBreaches e0)) (enRiskBreaches e),
       enIdSequence := enIdSequence e0, enLogicalTime := enLogicalTime e0,
       enQuoteRounds := enQuoteRounds e0, enTotalSpread := enTotalSpread e0,
       enInformedFlowCount := enInformedFlowCount e0, enNoiseFlowCount := enNoiseFlowCount e0,
       enAdverseSelectionPnL := enAdverseSelectionPnL e0 \<rparr>))))"

definition advance :: "QuantRoundEvidence engine_action" where
  "advance =
     (\<lambda>e. if enStatus e \<noteq> Scenario_ACTIVE then (Inl (ActionError SCENARIO_COMPLETE), e)
      else case enPendingAction e of
        None \<Rightarrow> (Inl (ActionError ACTION_REQUIRED), e)
      | Some a \<Rightarrow> attempt (advanceCommittedRound a) (restoreEngine e) e)"

section \<open>The result\<close>

record QuantTraderScenarioResult =
  srFamily :: QuantTradingFamily
  srSeed :: int
  srCompletionStatus :: QuantScenarioStatus
  srPlannedRounds :: nat
  srRoundsCompleted :: nat
  srCompletionRate :: rat
  srFinalFairValue :: rat
  srFinalPortfolio :: PortfolioSnapshot
  srTradeCount :: nat
  srFillVolume :: nat
  srAverageSpread :: rat
  srQuoteParticipationRate :: rat
  srRiskBreaches :: "QuantRiskBreach list"
  srInformedFlowCount :: nat
  srNoiseFlowCount :: nat
  srAdverseSelectionPnL :: rat
  srAccountingInvariantHolds :: bool
  srObjectiveScore :: int
  srHistory :: "QuantRoundEvidence list"

text \<open>The quotients are of finite numbers by positive counts and so finite.\<close>

definition getResult :: "QuantTraderInterviewEngine \<Rightarrow> (ScenarioError, QuantTraderScenarioResult) result" where
  "getResult e =
     (let c = enConfig e; completed = length (enHistory e) in
      bindE (guardE (enStatus e \<noteq> Scenario_ACTIVE) (ActionError RESULT_NOT_READY)) (\<lambda>_.
      bindE (engineSnapshot e) (\<lambda>final.
      bindE (amountOr ''average spread''
               (if 0 < enQuoteRounds e then js_div (enTotalSpread e) (of_nat (enQuoteRounds e)) else Some 0)) (\<lambda>avg.
      bindE (amountOr ''participation''
               (if 0 < completed then js_div (of_nat (enQuoteRounds e)) (of_nat completed) else Some 0)) (\<lambda>rate.
      bindE (case calculateMarketMakingScore
                    \<lparr> siTotalPnL = psTotalPnL final, siAverageSpread = avg,
                      siMaxDrawdown = psMaxDrawdown final,
                      siRiskBreaches = Some (int (length (enRiskBreaches e))),
                      siParticipationRate = Some rate \<rparr> of
               Inl x \<Rightarrow> Inl (ScenarioScore x) | Inr s \<Rightarrow> Inr s) (\<lambda>score.
      bindE (amountOr ''completion rate'' (js_div (of_nat completed) (of_nat (rcRounds c)))) (\<lambda>completion.
      Inr \<lparr> srFamily = rcFamily c, srSeed = rcSeed c, srCompletionStatus = enStatus e,
            srPlannedRounds = rcRounds c, srRoundsCompleted = completed,
            srCompletionRate = completion, srFinalFairValue = enFairValue e,
            srFinalPortfolio = final, srTradeCount = psTradeCount final,
            srFillVolume = sum_list (map (\<lambda>v. volumeOf (evStudentFills v)) (enHistory e)),
            srAverageSpread = avg, srQuoteParticipationRate = rate,
            srRiskBreaches = enRiskBreaches e, srInformedFlowCount = enInformedFlowCount e,
            srNoiseFlowCount = enNoiseFlowCount e, srAdverseSelectionPnL = enAdverseSelectionPnL e,
            srAccountingInvariantHolds =
              (list_all evAccountingInvariantHolds (enHistory e) \<and> accountingInvariantHolds final e),
            srObjectiveScore = score, srHistory = enHistory e \<rparr>)))))))"

end
