(* ===== verification/TradingRounds.thy ===== *)
theory TradingRounds
  imports TradingScenario MarketMakingRounds
begin

text \<open>
  What the simulated order flow of a scenario does to the book: orders are held by the student and
  the noise market maker, every call keeps the book well formed, and the fills attributed to the
  student are at most one, at the quoted price and within the quoted size.
\<close>

section \<open>Books held by makers\<close>

text \<open>Every resting order belongs to the current quotes of one of the makers.\<close>

definition heldBy :: "string set \<Rightarrow> LimitOrderBook \<Rightarrow> bool" where
  "heldBy S b =
     (book_wf b \<and> (\<forall>i. hasActiveOrderId i b \<longrightarrow> (\<exists>w \<in> S. i \<in> set (replaceableIds w b))))"

lemma heldBy_empty: "heldBy {} b \<longleftrightarrow> book_wf b \<and> bids b = [] \<and> asks b = []"
  using active_empty [of b] by (auto simp: heldBy_def)

lemma heldBy_wf: "heldBy S b \<Longrightarrow> book_wf b"
  by (simp add: heldBy_def)

lemma heldBy_mono: "heldBy S b \<Longrightarrow> S \<subseteq> T \<Longrightarrow> heldBy T b"
  unfolding heldBy_def by blast

lemma heldBy_single: "heldBy {w} b \<longleftrightarrow> book_wf b \<and> onlyMaker w b"
  by (auto simp: heldBy_def onlyMaker_def)

lemma cancelIfSet_quotes [simp]: "activeMakerQuotes (cancelIfSet i b) = activeMakerQuotes b"
  by (auto simp: cancelIfSet_def cancelOrder_def split: option.splits)

lemma replaceable_cancel:
  "replaceableIds w (cancelMakerQuotes v b) = (if w = v then [] else replaceableIds w b)"
  by (auto simp: cancelMakerQuotes_def replaceableIds_def Let_def dget_ddel split: option.splits)

lemma active_nonempty: "book_wf b \<Longrightarrow> hasActiveOrderId i b \<Longrightarrow> i \<noteq> []"
  by (auto simp: hasActiveOrderId_iff book_wf_def side_wf_def LimitOrderSchema_def nonBlank_def)

lemma cancel_active:
  assumes "book_wf b"
  shows "hasActiveOrderId i (cancelMakerQuotes w b) \<longleftrightarrow> hasActiveOrderId i b \<and> i \<notin> set (replaceableIds w b)"
proof (cases "i = []")
  case True
  then show ?thesis
    using active_nonempty [OF assms] active_nonempty [OF book_wf_cancelMakerQuotes [OF assms]] by blast
next
  case False
  then show ?thesis by (rule cancelMakerQuotes_active [OF assms])
qed

lemma heldBy_cancel: "heldBy S b \<Longrightarrow> heldBy (S - {w}) (cancelMakerQuotes w b)"
  unfolding heldBy_def by (auto simp: cancel_active replaceable_cancel book_wf_cancelMakerQuotes)

lemma heldBy_sameButIds: "sameButIds b b' \<Longrightarrow> heldBy S b \<Longrightarrow> heldBy S b'"
  using sameButIds_fields [of b b'] book_wf_sameButIds [of b b']
  by (simp add: heldBy_def hasActiveOrderId_def replaceableIds_def)

lemma replaceable_install:
  "replaceableIds w (installQuotes v bo ao b) = (if w = v then [loId bo, loId ao] else replaceableIds w b)"
proof -
  have "replaceableIds w (insertAsk ao (insertBid bo c)) = replaceableIds w c" for c
    by (simp add: replaceableIds_def insertAsk_def insertBid_def)
  then show ?thesis
    using replaceable_cancel [of w v b]
    by (auto simp: installQuotes_def Let_def replaceableIds_def dget_dput List.map_filter_def
        insertAsk_def insertBid_def)
qed

lemma active_install:
  "hasActiveOrderId i (installQuotes v bo ao b) \<longleftrightarrow>
     i = loId bo \<or> i = loId ao \<or> hasActiveOrderId i (cancelMakerQuotes v b)"
  by (auto simp: installQuotes_def Let_def hasActiveOrderId_iff insertBid_enqueue insertAsk_enqueue)

lemma heldBy_setQuotes:
  assumes held: "heldBy S b" and run: "setQuotes rt w q (b, r) = (Inr (bo, ao), (b', r'))"
  shows "heldBy (insert w S) b'"
proof -
  note wf = heldBy_wf [OF held]
  from setQuotes_Inr [OF wf run] obtain b1 where same: "sameButIds b b1" and b': "b' = installQuotes w bo ao b1"
    and wf': "book_wf b'" by blast
  have held1: "heldBy S b1" using same held by (rule heldBy_sameButIds)
  show ?thesis
    unfolding heldBy_def
  proof (intro conjI allI impI wf')
    fix i
    assume "hasActiveOrderId i b'"
    then consider "i = loId bo \<or> i = loId ao" | "hasActiveOrderId i b1" "i \<notin> set (replaceableIds w b1)"
      unfolding b' active_install cancel_active [OF heldBy_wf [OF held1]] by blast
    then show "\<exists>v \<in> insert w S. i \<in> set (replaceableIds v b')"
    proof cases
      case 1
      then show ?thesis by (auto simp: b' replaceable_install)
    next
      case 2
      then obtain v where "v \<in> S" "i \<in> set (replaceableIds v b1)" "v \<noteq> w"
        using held1 by (auto simp: heldBy_def)
      then show ?thesis by (auto simp: b' replaceable_install)
    qed
  qed
qed

lemma heldBy_market:
  assumes held: "heldBy S b" and run: "executeMarketOrder rt side n cp (b, r) = (Inr fs, (b', r'))"
  shows "heldBy S b'"
proof -
  note m = executeMarketOrder_Inr [OF heldBy_wf [OF held] run]
  have "hasActiveOrderId i b'' \<Longrightarrow> hasActiveOrderId i b"
    "replaceableIds w b'' = replaceableIds w b"
    if "b'' = afterMatch side (withinLimit side None) (nat n) b" for i w b''
    using that hasActive_afterMatch by (auto simp: replaceableIds_def afterMatch_fields)
  moreover have "hasActiveOrderId i b' = hasActiveOrderId i (afterMatch side (withinLimit side None) (nat n) b)"
    "replaceableIds w b' = replaceableIds w (afterMatch side (withinLimit side None) (nat n) b)" for i w
    using m sameButIds_fields [of "afterMatch side (withinLimit side None) (nat n) b" b']
    by (simp_all add: hasActiveOrderId_def replaceableIds_def)
  ultimately show ?thesis using held m unfolding heldBy_def by metis
qed

section \<open>Ids of the scenario\<close>

lemma scenario_createId:
  "createId scenarioRuntime prefix s = (Inr x, t) \<Longrightarrow> \<exists>n. x = prefix @ ''_'' @ bigintToString n"
  by (auto simp: createId_def bindS_eq_Inr fromRuntime_def withinS_def scenarioRuntime_def
      split: prod.splits sum.splits if_splits)

lemma setQuotes_ids:
  assumes "book_wf b" and "setQuotes scenarioRuntime w q (b, r) = (Inr (bo, ao), s)"
  shows "\<exists>m n. loId bo = ''quote_bid_'' @ w @ ''_'' @ bigintToString m \<and> loId ao = ''quote_ask_'' @ w @ ''_'' @ bigintToString n"
proof -
  obtain b' r' where s: "s = (b', r')" by (cases s)
  from assms(2) obtain bid ask s1 s2 s3 s4 where "createId scenarioRuntime (''quote_bid_'' @ w) s1 = (Inr bid, s2)"
    and "createId scenarioRuntime (''quote_ask_'' @ w) s3 = (Inr ask, s4)" and "loId bo = bid" "loId ao = ask"
    by (auto simp: setQuotes_def s withRollback_Inr [OF assms(1)] assertNonBlank_def bindS_eq_Inr Let_def split: if_splits)
  then show ?thesis by (auto dest!: scenario_createId)
qed

lemma startsWith_append [simp]: "startsWith p (p @ s)"
  by (simp add: startsWith_def)

lemma student_prefix:
  "startsWith (makerPrefix BUY) (''quote_ask_STUDENT'' @ ''_'' @ s)"
  "startsWith (makerPrefix SELL) (''quote_bid_STUDENT'' @ ''_'' @ s)"
  "\<not> startsWith (makerPrefix BUY) (''quote_ask_NOISE_MARKET_MAKER'' @ ''_'' @ s)"
  "\<not> startsWith (makerPrefix SELL) (''quote_bid_NOISE_MARKET_MAKER'' @ ''_'' @ s)"
  by (simp_all add: makerPrefix_def startsWith_def)

section \<open>Fills of the student\<close>

definition isStudentFill :: "OrderSide \<Rightarrow> LimitOrder \<times> nat \<Rightarrow> OrderFill \<Rightarrow> bool" where
  "isStudentFill incoming xm f =
     (fillSide f = opposite incoming \<and> fillPrice f = loPrice (fst xm) \<and> fillSize f = snd xm
      \<and> fillOrderId f = loId (fst xm) \<and> OrderFillSchema f)"

lemma studentFill_of:
  assumes "fillOf oid side cp f (x, m)"
  shows "\<exists>g. studentFill side f = (if startsWith (makerPrefix side) (loId x) then [g] else [])
    \<and> isStudentFill side (x, m) g"
proof -
  let ?g = "f\<lparr> fillOrderId := loId x, matchedOrderId := Some (fillOrderId f), fillSide := opposite side \<rparr>"
  have f: "f = matchFill (fillId f) (fillTimestamp f) side oid cp x m" and v: "OrderFillSchema f"
    using assms by (simp_all add: fillOf_def)
  have id: "matchedOrderId f = Some (loId x)" and "fillPrice f = loPrice x" "fillSize f = m"
    by (subst f, simp add: matchFill_def)+
  moreover have "OrderFillSchema ?g" using v id by (simp add: OrderFillSchema_def)
  ultimately have "studentFill side f = (if startsWith (makerPrefix side) (loId x) then [?g] else [])"
    "isStudentFill side (x, m) ?g"
    by (simp_all add: studentFill_def isStudentFill_def)
  then show ?thesis by blast
qed

lemma attributed_none:
  assumes "list_all2 (fillOf oid side cp) fs ex" and "\<forall>xm \<in> set ex. \<not> startsWith (makerPrefix side) (loId (fst xm))"
  shows "attributeStudentFills fs side = []"
  using assms
proof (induction rule: list_all2_induct)
  case (Cons f fs xm ex)
  obtain x m where "xm = (x, m)" by (cases xm)
  then show ?case
    using studentFill_of [of oid side cp f x m] Cons by (auto simp: attributeStudentFills_def)
qed (simp add: attributeStudentFills_def)

lemma attributed_one:
  assumes "list_all2 (fillOf oid side cp) fs ex" and "distinct (map (\<lambda>xm. loId (fst xm)) ex)"
    and "\<forall>xm \<in> set ex. startsWith (makerPrefix side) (loId (fst xm)) \<longrightarrow> loId (fst xm) = k"
  shows "attributeStudentFills fs side = []
    \<or> (\<exists>xm \<in> set ex. \<exists>f. startsWith (makerPrefix side) (loId (fst xm)) \<and> attributeStudentFills fs side = [f]
          \<and> isStudentFill side xm f)"
  using assms
proof (induction rule: list_all2_induct)
  case (Cons f fs xm ex)
  obtain x m where xm: "xm = (x, m)" by (cases xm)
  obtain g where g: "studentFill side f = (if startsWith (makerPrefix side) (loId x) then [g] else [])"
    "isStudentFill side (x, m) g"
    using studentFill_of [of oid side cp f x m] Cons.hyps(1) unfolding xm by blast
  show ?case
  proof (cases "startsWith (makerPrefix side) (loId x)")
    case True
    then have k: "loId x = k" using Cons.prems(2) by (simp add: xm)
    have "\<forall>ym \<in> set ex. \<not> startsWith (makerPrefix side) (loId (fst ym))"
      using Cons.prems k xm by force
    from attributed_none [OF Cons.hyps(2) this] have "attributeStudentFills (f # fs) side = [g]"
      using True g(1) by (simp add: attributeStudentFills_def)
    then show ?thesis using True g(2) unfolding xm by simp
  next
    case False
    then have eq: "attributeStudentFills (f # fs) side = attributeStudentFills fs side"
      using g(1) by (simp add: attributeStudentFills_def)
    have "distinct (map (\<lambda>xm. loId (fst xm)) ex)"
      "\<forall>xm \<in> set ex. startsWith (makerPrefix side) (loId (fst xm)) \<longrightarrow> loId (fst xm) = k"
      using Cons.prems by simp_all
    from Cons.IH [OF this] show ?thesis unfolding eq list.set(2) by blast
  qed
qed (simp add: attributeStudentFills_def)

lemma executed_distinct:
  "distinct (map loId xs) \<Longrightarrow> distinct (map (\<lambda>xm. loId (fst xm)) (executed ok n xs))"
proof -
  assume d: "distinct (map loId xs)"
  have "distinct (map loId (map fst (executed ok n xs)))"
    unfolding executed_prefix take_map [symmetric] using d by (rule distinct_take)
  then show ?thesis by (simp add: comp_def)
qed

text \<open>
  The student's order of a side: the only one its ids mark, at the price and size of the quote.
\<close>

definition studentOrders :: "QuotePair option \<Rightarrow> OrderSide \<Rightarrow> LimitOrder list \<Rightarrow> bool" where
  "studentOrders quote side xs =
     (case quote of
        None \<Rightarrow> \<forall>x \<in> set xs. \<not> startsWith (makerPrefix (opposite side)) (loId x)
      | Some q \<Rightarrow> \<exists>k. \<forall>x \<in> set xs. startsWith (makerPrefix (opposite side)) (loId x) \<longrightarrow>
          loId x = k \<and> loPrice x = quotedPrice q side \<and> loSize x = quotedSize q side)"

definition studentTrade :: "QuotePair option \<Rightarrow> OrderSide \<Rightarrow> OrderFill list \<Rightarrow> bool" where
  "studentTrade quote side fs =
     (fs = [] \<or> (\<exists>q f. quote = Some q \<and> fs = [f] \<and> fillSide f = side \<and> fillPrice f = quotedPrice q side
        \<and> fillSize f \<le> quotedSize q side \<and> OrderFillSchema f))"

lemma restingSide_opposite: "restingSide (opposite side) b = (if side = BUY then bids b else asks b)"
  by (cases side) (simp_all add: restingSide_def)

lemma market_studentTrade:
  assumes wf: "book_wf b" and run: "executeMarketOrder rt side n cp (b, r) = (Inr fs, s)"
    and mine: "studentOrders quote (opposite side) (restingSide side b)"
  shows "studentTrade quote (opposite side) (attributeStudentFills fs side)"
proof -
  obtain b' r' where s: "s = (b', r')" by (cases s)
  let ?ex = "executed (withinLimit side None) (nat n) (restingSide side b)"
  from executeMarketOrder_Inr [OF wf run [unfolded s]] obtain oid where fs: "list_all2 (fillOf oid side cp) fs ?ex"
    by blast
  have opp: "opposite (opposite side) = side" by (cases side) simp_all
  have mem: "fst xm \<in> set (restingSide side b)" "snd xm \<le> loSize (fst xm)" if "xm \<in> set ?ex" for xm
    using that executed_in [of "fst xm" "snd xm"] by auto
  show ?thesis
  proof (cases quote)
    case None
    then have "\<forall>xm \<in> set ?ex. \<not> startsWith (makerPrefix side) (loId (fst xm))"
      using mine mem by (auto simp: studentOrders_def opp)
    from attributed_none [OF fs this] show ?thesis by (simp add: studentTrade_def)
  next
    case (Some q)
    then obtain k where k: "\<forall>x \<in> set (restingSide side b). startsWith (makerPrefix side) (loId x) \<longrightarrow>
        loId x = k \<and> loPrice x = quotedPrice q (opposite side) \<and> loSize x = quotedSize q (opposite side)"
      using mine by (auto simp: studentOrders_def opp)
    have "attributeStudentFills fs side = []
      \<or> (\<exists>xm \<in> set ?ex. \<exists>f. startsWith (makerPrefix side) (loId (fst xm)) \<and> attributeStudentFills fs side = [f]
            \<and> isStudentFill side xm f)"
      by (rule attributed_one [where k = k, OF fs executed_distinct [OF book_wf_resting(1) [OF wf]]]) (use k mem in blast)
    then show ?thesis
    proof (elim disjE bexE exE conjE)
      fix xm f
      assume xm: "xm \<in> set ?ex" "startsWith (makerPrefix side) (loId (fst xm))" "attributeStudentFills fs side = [f]"
        and f: "isStudentFill side xm f"
      from k mem(1) [OF xm(1)] xm(2) have "loPrice (fst xm) = quotedPrice q (opposite side)"
        "loSize (fst xm) = quotedSize q (opposite side)" by blast+
      then show ?thesis using f mem(2) [OF xm(1)] xm(3) Some
        by (simp add: studentTrade_def isStudentFill_def)
    qed (simp add: studentTrade_def)
  qed
qed

section \<open>Order flow\<close>

text \<open>The book once the action of a round is placed.\<close>

definition placed :: "QuotePair option \<Rightarrow> LimitOrderBook \<Rightarrow> bool" where
  "placed quote b =
     (heldBy {''STUDENT''} b \<and> studentOrders quote SELL (asks b) \<and> studentOrders quote BUY (bids b)
      \<and> dget (activeMakerQuotes b) ''NOISE_MARKET_MAKER'' = None)"

lemma placed_resting: "placed quote b \<Longrightarrow> studentOrders quote (opposite side) (restingSide side b)"
  by (cases side) (simp_all add: placed_def restingSide_def)

lemma placed_none: "heldBy {} b \<Longrightarrow> dget (activeMakerQuotes b) ''NOISE_MARKET_MAKER'' = None \<Longrightarrow> placed None b"
  using heldBy_mono [of "{}" b "{''STUDENT''}"] by (simp add: placed_def heldBy_empty studentOrders_def)

lemma placed_quote:
  assumes held: "heldBy {} b" and noise: "dget (activeMakerQuotes b) ''NOISE_MARKET_MAKER'' = None"
    and run: "setQuotes scenarioRuntime ''STUDENT'' q (b, r) = (Inr (bo, ao), (b', r'))"
  shows "placed (Some q) b'"
proof -
  have wf: "book_wf b" using held by (rule heldBy_wf)
  have only: "onlyMaker ''STUDENT'' b" using held by (auto simp: heldBy_def onlyMaker_def)
  note a = setQuotes_alone [OF wf only run] and i = setQuotes_Inr [OF wf run]
  obtain b1 where "sameButIds b b1" "b' = installQuotes ''STUDENT'' bo ao b1" using i by blast
  then have "dget (activeMakerQuotes b') ''NOISE_MARKET_MAKER'' = None"
    using noise sameButIds_fields [of b b1]
    by (auto simp: installQuotes_def Let_def insertAsk_def insertBid_def dget_dput cancelMakerQuotes_def
        dget_ddel split: option.splits)
  then show ?thesis
    using a i heldBy_setQuotes [OF held run]
    by (auto simp: placed_def studentOrders_def quotedPrice_def quotedSize_def)
qed

lemma noise_quotes_placed:
  assumes pl: "placed quote b"
    and run: "setQuotes scenarioRuntime ''NOISE_MARKET_MAKER'' q (b, r) = (Inr (bo, ao), (b', r'))"
  shows "heldBy {''STUDENT'', ''NOISE_MARKET_MAKER''} b' \<and> studentOrders quote (opposite side) (restingSide side b')"
proof -
  have held: "heldBy {''STUDENT''} b" using pl by (simp add: placed_def)
  have wf: "book_wf b" using held by (rule heldBy_wf)
  note i = setQuotes_Inr [OF wf run] and ids = setQuotes_ids [OF wf run]
  obtain b1 where b1: "sameButIds b b1" "b' = installQuotes ''NOISE_MARKET_MAKER'' bo ao b1" using i by blast
  have "cancelMakerQuotes ''NOISE_MARKET_MAKER'' b1 = b1"
    using pl sameButIds_fields [OF b1(1)] by (simp add: cancelMakerQuotes_def placed_def)
  then have sides: "set (bids b') = insert bo (set (bids b))" "set (asks b') = insert ao (set (asks b))"
    using b1(2) sameButIds_fields [OF b1(1)]
    by (simp_all add: installQuotes_def Let_def insertBid_enqueue insertAsk_enqueue)
  have new: "\<not> startsWith (makerPrefix SELL) (loId bo)" "\<not> startsWith (makerPrefix BUY) (loId ao)"
    using ids student_prefix by auto
  have "studentOrders quote (opposite side) (restingSide side b')"
    using placed_resting [OF pl, of side] sides new
    by (cases side; cases quote) (auto simp: studentOrders_def restingSide_def)
  then show ?thesis using heldBy_setQuotes [OF held run] by (simp add: insert_commute)
qed

text \<open>What the order flow of a round yields, whatever the engine does with it.\<close>

definition flowSound ::
  "rat \<Rightarrow> QuotePair option \<Rightarrow> OrderFlowType \<Rightarrow> OrderSide option \<Rightarrow> OrderFill list \<Rightarrow> bool" where
  "flowSound fairValue quote flow side fills =
     (case side of
        None \<Rightarrow> fills = [] \<and> flow \<noteq> NOISE
      | Some s \<Rightarrow> flow \<noteq> NO_TRADE \<and> studentTrade quote (opposite s) fills
          \<and> (flow = INFORMED \<longrightarrow>
               opt_all (\<lambda>q. if s = BUY then askPrice q < fairValue else fairValue < bidPrice q) quote))"

text \<open>The engine after the order flow: only these parts may differ.\<close>

definition flowFrame :: "QuantTraderInterviewEngine \<Rightarrow> QuantTraderInterviewEngine \<Rightarrow> bool" where
  "flowFrame e e' =
     (e' = e\<lparr> enRandom := enRandom e', enBook := enBook e', enIdSequence := enIdSequence e',
        enLogicalTime := enLogicalTime e', enInformedFlowCount := enInformedFlowCount e',
        enNoiseFlowCount := enNoiseFlowCount e' \<rparr>)"

lemma onBook_Inr:
  "onBook m e = (Inr x, e') \<Longrightarrow>
     \<exists>b s. m (enBook e, (enIdSequence e, enLogicalTime e)) = (Inr x, (b, s))
       \<and> e' = e\<lparr> enBook := b, enIdSequence := fst s, enLogicalTime := snd s \<rparr>"
  by (auto simp: onBook_def withinS_def engineBook_def setEngineBook_def split: prod.splits sum.splits)

lemma drawNext_apply: "drawNext e = (Inr (fst (nextRandom (enRandom e))), e\<lparr> enRandom := snd (nextRandom (enRandom e)) \<rparr>)"
  by (simp add: drawNext_def split: prod.splits)

lemma flowFrame_refl: "flowFrame e e"
  by (simp add: flowFrame_def)

lemma flowFrame_trans: "flowFrame a b \<Longrightarrow> flowFrame b c \<Longrightarrow> flowFrame a c"
  unfolding flowFrame_def by (cases a, cases b, cases c) simp

definition flowBook :: "LimitOrderBook \<Rightarrow> bool" where
  "flowBook b = (heldBy {''STUDENT''} b \<and> dget (activeMakerQuotes b) ''NOISE_MARKET_MAKER'' = None)"

lemma placed_flowBook: "placed quote b \<Longrightarrow> flowBook b"
  by (simp add: placed_def flowBook_def)

lemma market_quotes:
  assumes "book_wf b" and "executeMarketOrder rt side n cp (b, r) = (Inr fs, (b', r'))"
  shows "activeMakerQuotes b' = activeMakerQuotes b"
  using executeMarketOrder_Inr [OF assms] sameButIds_fields
  by (metis afterMatch_fields(3))

lemma fl_pos_iff: "fl x = Some y \<Longrightarrow> 0 < y \<Longrightarrow> 0 < x"
  using fl_sign [of x y] by auto

lemma simulateInformedFlow_Inr:
  assumes pl: "placed quote (enBook e)" and run: "simulateInformedFlow quote e = (Inr (flow, side, fills), e')"
  shows "flow = INFORMED \<and> flowSound (enFairValue e) quote flow side fills \<and> flowFrame e e' \<and> flowBook (enBook e')
    \<and> enRandom e' = enRandom e \<and> enInformedFlowCount e' = enInformedFlowCount e \<and> enNoiseFlowCount e' = enNoiseFlowCount e"
proof (cases quote)
  case None
  then show ?thesis using run placed_flowBook [OF pl]
    by (auto simp: simulateInformedFlow_def flowSound_def flowFrame_refl)
next
  case (Some q)
  have wf: "book_wf (enBook e)" using pl by (auto simp: placed_def heldBy_wf)
  obtain ae be where edges: "fl (enFairValue e - askPrice q) = Some ae" "fl (bidPrice q - enFairValue e) = Some be"
    using run Some by (auto simp: simulateInformedFlow_def split: option.splits)
  show ?thesis
  proof (cases "ae \<le> 0 \<and> be \<le> 0")
    case True
    then show ?thesis using run Some edges placed_flowBook [OF pl]
      by (auto simp: simulateInformedFlow_def flowSound_def flowFrame_refl)
  next
    case False
    let ?s = "if be \<le> ae then BUY else SELL"
    from run Some edges False obtain n fs where
      ex: "onBook (executeMarketOrder scenarioRuntime ?s (int n) ''INFORMED_TRADER'') e = (Inr fs, e')"
      and out: "flow = INFORMED" "side = Some ?s" "fills = attributeStudentFills fs ?s"
      by (simp add: simulateInformedFlow_def Let_def bindS_eq_Inr del: if_split) blast
    from onBook_Inr [OF ex] obtain b r where
      mk: "executeMarketOrder scenarioRuntime ?s (int n) ''INFORMED_TRADER'' (enBook e, (enIdSequence e, enLogicalTime e)) = (Inr fs, (b, r))"
      and e': "e' = e\<lparr> enBook := b, enIdSequence := fst r, enLogicalTime := snd r \<rparr>" by blast
    have "flowBook b"
      using heldBy_market [OF _ mk] market_quotes [OF wf mk] pl by (simp add: placed_def flowBook_def)
    moreover have "studentTrade quote (opposite ?s) fills"
      unfolding out(3) by (rule market_studentTrade [OF wf mk placed_resting [OF pl]])
    moreover have "if ?s = BUY then askPrice q < enFairValue e else enFairValue e < bidPrice q"
      using False fl_pos_iff [OF edges(1)] fl_pos_iff [OF edges(2)] by (cases "be \<le> ae") auto
    moreover have "flowFrame e e'"
      by (simp add: e' flowFrame_def)
    ultimately show ?thesis using out Some by (simp add: e' flowSound_def del: if_split)
  qed
qed

lemma drawsValue_next [simp]: "drawsValue (snd (nextRandom r)) = drawsValue r + 1"
  by (simp add: nextRandom_def Let_def)

lemma simulateNoiseFlow_Inr:
  assumes pl: "placed quote (enBook e)" and run: "simulateNoiseFlow e = (Inr (flow, side, fills), e')"
  shows "flow = NOISE \<and> flowSound (enFairValue e) quote flow side fills \<and> flowFrame e e' \<and> flowBook (enBook e')
    \<and> drawsValue (enRandom e') = drawsValue (enRandom e) + 2
    \<and> enInformedFlowCount e' = enInformedFlowCount e \<and> enNoiseFlowCount e' = enNoiseFlowCount e"
proof -
  define d where "d = e\<lparr> enRandom := snd (nextRandom (snd (nextRandom (enRandom e)))) \<rparr>"
  obtain s q where start: "(case Some q of
       None \<Rightarrow> throwS PriceOverflow
     | Some q \<Rightarrow>
         bindS (onBook (setQuotes scenarioRuntime ''NOISE_MARKET_MAKER'' q)) (\<lambda>_.
         bindS (readS (\<lambda>e. int (rcNoiseTradeSize (enConfig e)))) (\<lambda>n.
         bindS (onBook (executeMarketOrder scenarioRuntime s n ''NOISE_TRADER'')) (\<lambda>fills.
         bindS (modifyS (\<lambda>e. e\<lparr> enBook := cancelMakerQuotes ''NOISE_MARKET_MAKER'' (enBook e) \<rparr>)) (\<lambda>_.
         returnS (NOISE, Some s, attributeStudentFills fills s)))))) d = (Inr (flow, side, fills), e')"
    using run unfolding simulateNoiseFlow_def d_def
    by (auto simp: bindS_def drawNext_apply split: option.splits)
  from start obtain qq e1 fs e2 where sq: "onBook (setQuotes scenarioRuntime ''NOISE_MARKET_MAKER'' q) d = (Inr qq, e1)"
    and mo: "onBook (executeMarketOrder scenarioRuntime s (int (rcNoiseTradeSize (enConfig e1))) ''NOISE_TRADER'') e1 = (Inr fs, e2)"
    and out: "flow = NOISE" "side = Some s" "fills = attributeStudentFills fs s"
    and e': "e' = e2\<lparr> enBook := cancelMakerQuotes ''NOISE_MARKET_MAKER'' (enBook e2) \<rparr>"
    by (auto simp: bindS_eq_Inr)
  from onBook_Inr [OF sq] obtain b1 r1 where
    sq1: "setQuotes scenarioRuntime ''NOISE_MARKET_MAKER'' q (enBook e, (enIdSequence e, enLogicalTime e)) = (Inr (fst qq, snd qq), (b1, r1))"
    and e1: "e1 = d\<lparr> enBook := b1, enIdSequence := fst r1, enLogicalTime := snd r1 \<rparr>"
    by (auto simp: d_def)
  from onBook_Inr [OF mo] obtain b2 r2 where
    mo1: "executeMarketOrder scenarioRuntime s (int (rcNoiseTradeSize (enConfig e1))) ''NOISE_TRADER'' (b1, r1) = (Inr fs, (b2, r2))"
    and e2: "e2 = e1\<lparr> enBook := b2, enIdSequence := fst r2, enLogicalTime := snd r2 \<rparr>"
    by (auto simp: e1)
  note n = noise_quotes_placed [OF pl sq1]
  have held1: "heldBy {''STUDENT'', ''NOISE_MARKET_MAKER''} b1" using n by blast
  have "studentTrade quote (opposite s) fills"
    unfolding out(3) by (rule market_studentTrade [OF heldBy_wf [OF held1] mo1]) (use n in blast)
  moreover have "flowBook (enBook e')"
  proof -
    have "heldBy ({''STUDENT'', ''NOISE_MARKET_MAKER''} - {''NOISE_MARKET_MAKER''}) (cancelMakerQuotes ''NOISE_MARKET_MAKER'' b2)"
      by (rule heldBy_cancel [OF heldBy_market [OF held1 mo1]])
    moreover have "dget (activeMakerQuotes (cancelMakerQuotes ''NOISE_MARKET_MAKER'' b2)) ''NOISE_MARKET_MAKER'' = None"
      by (auto simp: cancelMakerQuotes_def Let_def dget_ddel split: option.splits)
    ultimately show ?thesis by (auto simp: flowBook_def e' e2 elim: heldBy_mono)
  qed
  moreover have "flowFrame e e'"
    by (simp add: e' e2 e1 d_def flowFrame_def)
  ultimately show ?thesis using out by (simp add: flowSound_def e' e2 e1 d_def)
qed

lemma simulateOrderFlow_Inr:
  assumes pl: "placed quote (enBook e)" and run: "simulateOrderFlow quote e = (Inr (flow, side, fills), e')"
  shows "flowSound (enFairValue e) quote flow side fills \<and> flowFrame e e' \<and> flowBook (enBook e')
    \<and> drawsValue (enRandom e') \<le> drawsValue (enRandom e) + 3
    \<and> enInformedFlowCount e' + enNoiseFlowCount e' \<le> enInformedFlowCount e + enNoiseFlowCount e + 1"
proof -
  define d where "d = e\<lparr> enRandom := snd (nextRandom (enRandom e)) \<rparr>"
  let ?i = "d\<lparr> enInformedFlowCount := enInformedFlowCount d + 1 \<rparr>"
  let ?n = "d\<lparr> enNoiseFlowCount := enNoiseFlowCount d + 1 \<rparr>"
  have fd: "flowFrame e d"
    by (simp add: d_def flowFrame_def)
  have fi: "flowFrame d ?i" and fn: "flowFrame d ?n"
    by (simp_all add: flowFrame_def)
  from run consider (informed) "simulateInformedFlow quote ?i = (Inr (flow, side, fills), e')"
    | (noise) "simulateNoiseFlow ?n = (Inr (flow, side, fills), e')"
    | (none) "(flow, side, fills) = (NO_TRADE, None, [])" "e' = d"
    by (auto simp: simulateOrderFlow_def bindS_def drawNext_apply d_def incrementSafeCount_def
        split: if_splits option.splits)
  then show ?thesis
  proof cases
    case informed
    have "placed quote (enBook ?i)" using pl by (simp add: d_def)
    from simulateInformedFlow_Inr [OF this informed] flowFrame_trans [OF flowFrame_trans [OF fd fi]]
    show ?thesis by (auto simp: d_def)
  next
    case noise
    have "placed quote (enBook ?n)" using pl by (simp add: d_def)
    from simulateNoiseFlow_Inr [OF this noise] flowFrame_trans [OF flowFrame_trans [OF fd fn]]
    show ?thesis by (auto simp: d_def)
  next
    case none
    then show ?thesis using fd placed_flowBook [OF pl] by (simp add: flowSound_def d_def)
  qed
qed

end
