(* ===== verification/TradingRollback.thy ===== *)
theory TradingRollback
  imports TradingRounds
begin

text \<open>
  A round of a scenario that throws leaves the engine exactly as it was: \<open>engineFrame\<close> is what
  every step of a round keeps, and it is all \<open>restoreEngine\<close> needs.
\<close>

definition engineFrame :: "QuantTraderInterviewEngine \<Rightarrow> QuantTraderInterviewEngine \<Rightarrow> bool" where
  "engineFrame e0 e =
     (enConfig e = enConfig e0 \<and> riskLimits (enPortfolio e) = riskLimits (enPortfolio e0)
      \<and> take (length (enHistory e0)) (enHistory e) = enHistory e0
      \<and> take (length (enRiskBreaches e0)) (enRiskBreaches e) = enRiskBreaches e0)"

lemma engineFrame_refl [simp]: "engineFrame e e"
  by (simp add: engineFrame_def)

lemma take_append_prefix: "take (length xs) ys = xs \<Longrightarrow> take (length xs) (ys @ zs) = xs"
  by (metis append_eq_conv_conj append_take_drop_id append.assoc)

lemma take_prefix_length: "take (length xs) ys = xs \<Longrightarrow> length xs \<le> length ys"
  by (metis length_take min.absorb_iff2)

lemma preserves_pure [preserve_rules]: "preserves P (\<lambda>s. (f s, s))"
  by (simp add: preserves_def)

lemma engineFrame_modifyS [preserve_rules]:
  "(\<And>e. engineFrame e0 e \<Longrightarrow> engineFrame e0 (f e)) \<Longrightarrow> preserves (engineFrame e0) (modifyS f)"
  by (rule preserves_modifyS)

lemma engineFrame_onBook [preserve_rules]: "preserves (engineFrame e0) (onBook m)"
  by (auto simp: preserves_def onBook_def withinS_def engineFrame_def setEngineBook_def split: prod.splits sum.splits)

lemma engineFrame_onPortfolio [preserve_rules]:
  assumes "preserves (\<lambda>p. riskLimits p = riskLimits (enPortfolio e0)) m"
  shows "preserves (engineFrame e0) (onPortfolio m)"
  unfolding onPortfolio_def
  by (rule preserves_withinS) (use assms in \<open>auto simp: preserves_def engineFrame_def\<close>)

lemma engineFrame_drawNext [preserve_rules]: "preserves (engineFrame e0) drawNext"
  by (simp add: preserves_def drawNext_apply engineFrame_def)

lemma engineFrame_mark [preserve_rules]: "preserves (engineFrame e0) markToFairValue"
  using engineFrame_onPortfolio [OF portfolio_limits(2), of e0]
  by (auto simp: preserves_def markToFairValue_def)

lemma engineFrame_checkRisk [preserve_rules]: "preserves (engineFrame e0) checkRisk"
  by (simp add: preserves_def checkRisk_def)

lemma engineFrame_breach: "engineFrame e0 e \<Longrightarrow> engineFrame e0 (recordRiskBreach source reason e)"
  by (auto simp: engineFrame_def recordRiskBreach_def intro: take_append_prefix take_prefix_length)

lemma engineFrame_update [preserve_rules]: "preserves (engineFrame e0) applyFairValueUpdateForCurrentRound"
  unfolding applyFairValueUpdateForCurrentRound_def
proof (intro preserve_rules)
  show "engineFrame e0 (let e' = recordRiskBreach RISK_FAIR_VALUE_UPDATE reason e in
          if rcStopOnRiskBreach (enConfig e') then e'\<lparr> enStatus := Scenario_RISK_STOPPED \<rparr> else e')"
    if "engineFrame e0 e" for e reason
    using engineFrame_breach [OF that, of RISK_FAIR_VALUE_UPDATE reason]
    by (auto simp: Let_def engineFrame_def)
qed (simp add: engineFrame_def)

lemma engineFrame_place [preserve_rules]: "preserves (engineFrame e0) (placeStudentAction a)"
  by (cases a) (auto simp: placeStudentAction_def engineFrame_def intro!: preserve_rules)

lemma engineFrame_flow [preserve_rules]: "preserves (engineFrame e0) (simulateOrderFlow quote)"
  unfolding simulateOrderFlow_def simulateInformedFlow_def simulateNoiseFlow_def
  by (intro preserve_rules) (auto simp: engineFrame_def)

lemma engineFrame_fill [preserve_rules]: "preserves (engineFrame e0) (applyStudentFill flow f)"
  unfolding applyStudentFill_def
  by (intro preserve_rules portfolio_limits) (auto simp: engineFrame_def)

lemma engineFrame_finish [preserve_rules]: "preserves (engineFrame e0) (finishRound risk)"
  unfolding preserves_def
proof (intro allI impI)
  fix e assume "engineFrame e0 e"
  moreover from this have "engineFrame e0 (e\<lparr> enCurrentRound := enCurrentRound e + 1, enRoundEvents := [] \<rparr>)"
    by (simp add: engineFrame_def)
  ultimately show "engineFrame e0 (snd (finishRound risk e))"
    using engineFrame_update [of e0] unfolding preserves_def finishRound_def Let_def
    by (auto simp: engineFrame_def)
qed

lemma engineFrame_round: "preserves (engineFrame e0) (advanceCommittedRound a)"
  unfolding advanceCommittedRound_def recordRound_def
proof (intro preserve_rules)
  show "engineFrame e0 (case risk of None \<Rightarrow> e | Some reason \<Rightarrow> recordRiskBreach POST_ROUND reason e)"
    if "engineFrame e0 e" for e risk
    using that engineFrame_breach by (cases risk) auto
  show "engineFrame e0 (e\<lparr> enHistory := enHistory e @ [evidence], enPendingAction := None,
                              enBook := cancelMakerQuotes ''STUDENT'' (enBook e) \<rparr>)"
    if "engineFrame e0 e" for e evidence
    using that by (auto simp: engineFrame_def intro: take_append_prefix take_prefix_length)
qed

lemma restoreEngine_frame:
  assumes "book_wf (enBook e0)" and "portfolio_wf (enPortfolio e0)" and "isSafeNat (drawsValue (enRandom e0))"
    and "engineFrame e0 e"
  shows "restoreEngine e0 e = (Inr (), e0)"
proof -
  have 1: "onBook (restoreBook (enBook e0)) f = (Inr (), f\<lparr> enBook := enBook e0 \<rparr>)" for f
    by (simp add: onBook_def withinS_def restoreBook_wf [OF assms(1)] engineBook_def setEngineBook_def)
  have 2: "onPortfolio (restorePortfolio (checkpointPortfolio (enPortfolio e0))) f = (Inr (), f\<lparr> enPortfolio := enPortfolio e0 \<rparr>)"
    if "riskLimits (enPortfolio f) = riskLimits (enPortfolio e0)" for f
    using restorePortfolio_wf [OF assms(2) that] by (simp add: onPortfolio_def withinS_def)
  have r: "riskLimits (enPortfolio e) = riskLimits (enPortfolio e0)" "enConfig e = enConfig e0"
    "take (length (enHistory e0)) (enHistory e) = enHistory e0"
    "take (length (enRiskBreaches e0)) (enRiskBreaches e) = enRiskBreaches e0"
    using assms(4) by (simp_all add: engineFrame_def)
  show ?thesis
    unfolding restoreEngine_def bindS_def
    by (simp add: restore_checkpoint [OF assms(3)] 1 2 r)
qed

lemma advance_alt:
  assumes "book_wf (enBook e)" and "portfolio_wf (enPortfolio e)" and "isSafeNat (drawsValue (enRandom e))"
    and "enStatus e = Scenario_ACTIVE" and "enPendingAction e = Some a"
  shows "advance e =
    (case advanceCommittedRound a e of (Inr x, t) \<Rightarrow> (Inr x, t) | (Inl err, t) \<Rightarrow> (Inl err, e))"
proof -
  have "attempt (advanceCommittedRound a) (restoreEngine e) e =
    (case advanceCommittedRound a e of (Inr x, t) \<Rightarrow> (Inr x, t) | (Inl err, t) \<Rightarrow> (Inl err, e))"
    by (rule attempt_repairs [OF engineFrame_round engineFrame_refl]) (rule restoreEngine_frame [OF assms(1-3)])
  then show ?thesis using assms(4,5) by (simp add: advance_def)
qed

lemma advance_throws:
  assumes "book_wf (enBook e)" and "portfolio_wf (enPortfolio e)" and "isSafeNat (drawsValue (enRandom e))"
    and "advance e = (Inl err, e')"
  shows "e' = e"
proof (cases "enStatus e = Scenario_ACTIVE \<and> enPendingAction e \<noteq> None")
  case True
  then obtain a where "enPendingAction e = Some a" by blast
  from advance_alt [OF assms(1-3) _ this] True assms(4) show ?thesis
    by (auto split: prod.splits sum.splits)
next
  case False
  then show ?thesis using assms(4) by (auto simp: advance_def split: if_splits)
qed

end
