(* ===== verification/TradingSteps.thy ===== *)
theory TradingSteps
  imports TradingRollback
begin

text \<open>
  The stages of a successful round of a scenario, each as an equation for the engine it reaches.
\<close>

definition actionQuote :: "QuantStudentAction \<Rightarrow> QuotePair option" where
  "actionQuote a = (case a of QUOTE q \<Rightarrow> Some q | PASS \<Rightarrow> None)"

lemma actionQuote_simps [simp]: "actionQuote (QUOTE q) = Some q" "actionQuote PASS = None"
  by (simp_all add: actionQuote_def)

text \<open>How a round changes the accumulated spread.\<close>

definition spreadStep :: "rat \<Rightarrow> QuotePair option \<Rightarrow> rat \<Rightarrow> bool" where
  "spreadStep s quote t =
     (case quote of
        None \<Rightarrow> t = s
      | Some q \<Rightarrow> nsub fl (nadd fl (Some s) (Some (askPrice q))) (Some (bidPrice q)) = Some t)"

lemma placeStudentAction_Inr:
  assumes held: "heldBy {} (enBook e)" and noise: "dget (activeMakerQuotes (enBook e)) ''NOISE_MARKET_MAKER'' = None"
    and run: "placeStudentAction a e = (Inr quote, e')"
  shows "quote = actionQuote a \<and> placed quote (enBook e')
    \<and> e' = e\<lparr> enBook := enBook e', enIdSequence := enIdSequence e', enLogicalTime := enLogicalTime e',
          enTotalSpread := enTotalSpread e', enQuoteRounds := enQuoteRounds e + (if quote = None then 0 else 1) \<rparr>
    \<and> spreadStep (enTotalSpread e) quote (enTotalSpread e')"
proof (cases a)
  case PASS
  have c: "heldBy {} (cancelMakerQuotes ''STUDENT'' (enBook e))"
    using heldBy_cancel [OF held, of "''STUDENT''"] by simp
  have "dget (activeMakerQuotes (cancelMakerQuotes ''STUDENT'' (enBook e))) ''NOISE_MARKET_MAKER'' = None"
    using noise by (auto simp: cancelMakerQuotes_def Let_def dget_ddel split: option.splits)
  from placed_none [OF c this] show ?thesis using run PASS
    by (auto simp: placeStudentAction_def spreadStep_def)
next
  case (QUOTE q)
  from run QUOTE obtain total e1 qq where
    total: "nsub fl (nadd fl (Some (enTotalSpread e)) (Some (askPrice q))) (Some (bidPrice q)) = Some total" and
    e1: "e1 = e\<lparr> enQuoteRounds := enQuoteRounds e + 1, enTotalSpread := total \<rparr>"
    and sq: "onBook (setQuotes scenarioRuntime ''STUDENT'' q) e1 = (Inr qq, e')" and quote: "quote = Some q"
    by (auto simp: placeStudentAction_def bindS_eq_Inr amountOr_def split: if_splits option.splits)
  from onBook_Inr [OF sq] obtain b s where
    run1: "setQuotes scenarioRuntime ''STUDENT'' q (enBook e, (enIdSequence e, enLogicalTime e)) = (Inr (fst qq, snd qq), (b, s))"
    and e': "e' = e1\<lparr> enBook := b, enIdSequence := fst s, enLogicalTime := snd s \<rparr>"
    by (auto simp: e1)
  have "placed (Some q) b"
    by (rule placed_quote [OF held noise run1])
  then show ?thesis unfolding quote e' e1 by (simp add: QUOTE spreadStep_def total)
qed

lemma onPortfolio_Inr:
  "onPortfolio m e = (Inr x, e') \<Longrightarrow> \<exists>p. m (enPortfolio e) = (Inr x, p) \<and> e' = e\<lparr> enPortfolio := p \<rparr>"
  by (auto simp: onPortfolio_def withinS_def split: prod.splits sum.splits)

lemma applyStudentFill_Inr:
  assumes "applyStudentFill flow f e = (Inr (), e')"
  shows "applyFill fl f (enPortfolio e) = Inr (enPortfolio e')
    \<and> e' = e\<lparr> enPortfolio := enPortfolio e', enAdverseSelectionPnL := enAdverseSelectionPnL e' \<rparr>"
proof -
  from assms obtain e1 where 1: "onPortfolio (applyFillS fl f) e = (Inr (), e1)"
    and 2: "e' = e1 \<or> (\<exists>a. e' = e1\<lparr> enAdverseSelectionPnL := a \<rparr>)"
    by (auto simp: applyStudentFill_def bindS_eq_Inr split: if_splits)
  from onPortfolio_Inr [OF 1] obtain p where p: "applyFillS fl f (enPortfolio e) = (Inr (), p)"
    and e1: "e1 = e\<lparr> enPortfolio := p \<rparr>" by blast
  have "applyFill fl f (enPortfolio e) = Inr p" using p by (auto simp: applyFillS_def split: sum.splits)
  then show ?thesis using 2 e1 by auto
qed

lemma applyStudentFills_Inr:
  "forEachS (applyStudentFill flow) fs e = (Inr (), e') \<Longrightarrow>
     applyFills fl fs (enPortfolio e) = Inr (enPortfolio e')
     \<and> e' = e\<lparr> enPortfolio := enPortfolio e', enAdverseSelectionPnL := enAdverseSelectionPnL e' \<rparr>"
proof (induction fs arbitrary: e)
  case Nil
  then show ?case by (simp add: applyFills_def)
next
  case (Cons f fs)
  then obtain e1 where 1: "applyStudentFill flow f e = (Inr (), e1)" and 2: "forEachS (applyStudentFill flow) fs e1 = (Inr (), e')"
    by (auto simp: bindS_eq_Inr)
  from applyStudentFill_Inr [OF 1] Cons.IH [OF 2] show ?case
    by (cases e, cases e1, cases e') (simp add: applyFills_def)
qed

lemma markToFairValue_Inr:
  assumes "markToFairValue e = (Inr snap, e')"
  shows "\<exists>p. e' = e\<lparr> enPortfolio := p \<rparr> \<and> remarked (enPortfolio e) p \<and> getSnapshot fl (enFairValue e) p = Inr snap"
proof -
  have "onPortfolio (updateMarkPrice fl (enFairValue e)) e = (Inr snap, e')"
    using assms by (simp add: markToFairValue_def)
  from onPortfolio_Inr [OF this] show ?thesis using updateMarkPrice_spec by blast
qed

lemma checkRisk_Inr: "checkRisk e = (Inr r, e') \<Longrightarrow> e' = e \<and> checkRiskLimits fl (enFairValue e) (enPortfolio e) = Inr r"
  by (auto simp: checkRisk_def split: sum.splits)

text \<open>The fair value update at the start of a round.\<close>

definition eventOk :: "nat \<Rightarrow> QuantMarketEvent \<Rightarrow> bool" where
  "eventOk n m = (meRound m = n \<and> 0 < mePreviousFairValue m \<and> 0 < meFairValue m)"

definition updated :: "QuantTraderInterviewEngine \<Rightarrow> QuantTraderInterviewEngine \<Rightarrow> bool" where
  "updated e e' =
     (e' = e\<lparr> enFairValue := enFairValue e', enRoundEvents := enRoundEvents e', enPortfolio := enPortfolio e',
              enRiskBreaches := enRiskBreaches e', enStatus := enStatus e' \<rparr>
      \<and> remarked (enPortfolio e) (enPortfolio e') \<and> 0 < enFairValue e'
      \<and> (isOk (engineSnapshot e) \<longrightarrow> isOk (engineSnapshot e'))
      \<and> (\<exists>ms. enRoundEvents e' = enRoundEvents e @ ms \<and> length ms \<le> 1 \<and> list_all (eventOk (enCurrentRound e)) ms)
      \<and> (\<exists>bs. enRiskBreaches e' = enRiskBreaches e @ bs \<and> length bs \<le> 1
          \<and> list_all (\<lambda>b. qbRound b = enCurrentRound e) bs
          \<and> (if bs \<noteq> [] \<and> rcStopOnRiskBreach (enConfig e) then enStatus e' = Scenario_RISK_STOPPED
             else enStatus e' = enStatus e)))"

lemma remarked_refl: "remarked p p"
  by (simp add: remarked_def)

lemma resolved_update: "resolvedAssertions c \<Longrightarrow> find P (rcFairValueUpdates c) = Some u \<Longrightarrow> 0 < fuFairValue u"
  by (auto simp: resolvedAssertions_def list_all_iff find_Some_iff)

lemma fairValueUpdate_Inr:
  assumes c: "resolvedAssertions (enConfig e)" and pos: "0 < enFairValue e"
    and run: "applyFairValueUpdateForCurrentRound e = (Inr (), e')"
  shows "updated e e'"
proof (cases "find (\<lambda>u. fuRound u = enCurrentRound e) (rcFairValueUpdates (enConfig e))")
  case None
  then show ?thesis using run pos
    by (auto simp: applyFairValueUpdateForCurrentRound_def updated_def remarked_refl)
next
  case (Some u)
  have u: "0 < fuFairValue u" using resolved_update [OF c Some] .
  define m where "m = \<lparr> meRound = enCurrentRound e, mePreviousFairValue = enFairValue e, meFairValue = fuFairValue u,
      meLabel = orElse (fuLabel u) ''PUBLIC_INFORMATION_UPDATE'' \<rparr>"
  define d where "d = e\<lparr> enFairValue := fuFairValue u, enRoundEvents := enRoundEvents e @ [m] \<rparr>"
  define k :: "RiskReason option \<Rightarrow> unit engine_action" where "k = (\<lambda>risk. case risk of
           None \<Rightarrow> returnS ()
         | Some reason \<Rightarrow>
             modifyS (\<lambda>e. let e' = recordRiskBreach RISK_FAIR_VALUE_UPDATE reason e in
               if rcStopOnRiskBreach (enConfig e') then e'\<lparr> enStatus := Scenario_RISK_STOPPED \<rparr> else e'))"
  from run Some obtain snap e1 where mk: "markToFairValue d = (Inr snap, e1)" and "bindS checkRisk k e1 = (Inr (), e')"
    unfolding applyFairValueUpdateForCurrentRound_def d_def m_def k_def
    by (simp, subst (asm) bindS_eq_Inr) auto
  then obtain risk where rest: "k risk e1 = (Inr (), e')"
    unfolding bindS_eq_Inr using checkRisk_Inr by blast
  from markToFairValue_Inr [OF mk] obtain p where e1: "e1 = d\<lparr> enPortfolio := p \<rparr>"
    and p: "remarked (enPortfolio e) p" "getSnapshot fl (fuFairValue u) p = Inr snap"
    by (auto simp: d_def)
  define bs where "bs = (case risk of None \<Rightarrow> []
    | Some r \<Rightarrow> [\<lparr> qbRound = enCurrentRound e, qbSource = RISK_FAIR_VALUE_UPDATE, qbReason = r \<rparr>])"
  have e': "e' = d\<lparr> enPortfolio := p, enRiskBreaches := enRiskBreaches e @ bs,
      enStatus := (if bs \<noteq> [] \<and> rcStopOnRiskBreach (enConfig e) then Scenario_RISK_STOPPED else enStatus e) \<rparr>"
    using rest by (cases risk) (auto simp: k_def e1 d_def recordRiskBreach_def Let_def bs_def)
  have "isOk (engineSnapshot e')" using p(2) by (simp add: e' d_def engineSnapshot_def)
  moreover have "list_all (eventOk (enCurrentRound e)) [m]" using pos u by (simp add: m_def eventOk_def)
  moreover have "enRoundEvents e' = enRoundEvents e @ [m]" by (simp add: e' d_def)
  ultimately show ?thesis
    using p(1) u unfolding updated_def
    by (intro conjI exI [of _ "[m]"] exI [of _ bs]) (simp_all add: e' d_def, simp_all add: bs_def split: option.splits)
qed

section \<open>A whole round\<close>

definition recordedRound :: "QuantRoundEvidence \<Rightarrow> bool" where
  "recordedRound v =
     (flowSound (evFairValue v) (actionQuote (evStudentAction v)) (evOrderFlowType v)
        (evIncomingMarketSide v) (evStudentFills v)
      \<and> 0 < evFairValue v \<and> list_all (eventOk (evRound v)) (evMarketEvents v) \<and> length (evMarketEvents v) \<le> 1
      \<and> isSafeInteger (psPosition (evPortfolio v)) \<and> 0 \<le> psMaxDrawdown (evPortfolio v)
      \<and> psTradeCount (evPortfolio v) \<le> evRound v \<and> evRngDrawCount v \<le> 3 * evRound v)"

text \<open>The engine once the evidence of a round is recorded, before the round is finished.\<close>

definition settled :: "QuantStudentAction \<Rightarrow> QuantTraderInterviewEngine \<Rightarrow> QuantRoundEvidence \<Rightarrow> QuantTraderInterviewEngine \<Rightarrow> bool" where
  "settled a e v e' =
     (e' = e\<lparr> enRandom := enRandom e', enBook := enBook e', enPortfolio := enPortfolio e', enPendingAction := None,
              enHistory := enHistory e @ [v], enRiskBreaches := enRiskBreaches e', enIdSequence := enIdSequence e',
              enLogicalTime := enLogicalTime e',
              enQuoteRounds := enQuoteRounds e + (if actionQuote a = None then 0 else 1),
              enTotalSpread := enTotalSpread e', enInformedFlowCount := enInformedFlowCount e',
              enNoiseFlowCount := enNoiseFlowCount e', enAdverseSelectionPnL := enAdverseSelectionPnL e' \<rparr>
      \<and> spreadStep (enTotalSpread e) (actionQuote a) (enTotalSpread e')
      \<and> evRound v = enCurrentRound e \<and> evStudentAction v = a \<and> evFairValue v = enFairValue e
      \<and> evMarketEvents v = enRoundEvents e
      \<and> flowSound (enFairValue e) (actionQuote a) (evOrderFlowType v) (evIncomingMarketSide v) (evStudentFills v)
      \<and> heldBy {} (enBook e') \<and> dget (activeMakerQuotes (enBook e')) ''NOISE_MARKET_MAKER'' = None
      \<and> (\<exists>p. applyFills fl (evStudentFills v) (enPortfolio e) = Inr p \<and> remarked p (enPortfolio e'))
      \<and> getSnapshot fl (enFairValue e) (enPortfolio e') = Inr (evPortfolio v)
      \<and> checkRiskLimits fl (enFairValue e) (enPortfolio e') = Inr (evRiskReason v)
      \<and> enRiskBreaches e' = enRiskBreaches e @
          (case evRiskReason v of None \<Rightarrow> [] | Some r \<Rightarrow> [\<lparr> qbRound = enCurrentRound e, qbSource = POST_ROUND, qbReason = r \<rparr>])
      \<and> evRngDrawCount v = drawsValue (enRandom e') \<and> drawsValue (enRandom e') \<le> drawsValue (enRandom e) + 3
      \<and> enInformedFlowCount e' + enNoiseFlowCount e' \<le> enInformedFlowCount e + enNoiseFlowCount e + 1)"

lemma round_stages:
  assumes run: "advanceCommittedRound a e = (Inr v, e')"
  obtains quote e1 flow side fills e2 e3 market snap e4 risk e6 where
    "placeStudentAction a e = (Inr quote, e1)"
    and "simulateOrderFlow quote e1 = (Inr (flow, side, fills), e2)"
    and "forEachS (applyStudentFill flow) fills e2 = (Inr (), e3)"
    and "markToFairValue e3 = (Inr snap, e4)" and "checkRisk e4 = (Inr risk, e4)"
    and "v = \<lparr> evRound = enCurrentRound e4, evFairValue = enFairValue e4, evMarketEvents = enRoundEvents e4,
         evStudentAction = a, evOrderFlowType = flow, evIncomingMarketSide = side,
         evStudentFills = fills, evMarketState = market, evPortfolio = snap, evRiskReason = risk,
         evAccountingInvariantHolds = accountingInvariantHolds snap e4,
         evRngDrawCount = drawsValue (enRandom e4) \<rparr>"
    and "e6 = e4\<lparr> enRiskBreaches := enRiskBreaches e4 @ (case risk of None \<Rightarrow> []
                    | Some r \<Rightarrow> [\<lparr> qbRound = enCurrentRound e4, qbSource = POST_ROUND, qbReason = r \<rparr>]),
                  enHistory := enHistory e4 @ [v], enPendingAction := None,
                  enBook := cancelMakerQuotes ''STUDENT'' (enBook e4) \<rparr>"
    and "finishRound risk e6 = (Inr (), e')"
proof -
  from run obtain quote e1 fl0 e2 e3 market e3' snap e4 risk e5 where
    1: "placeStudentAction a e = (Inr quote, e1)" and 2: "simulateOrderFlow quote e1 = (Inr fl0, e2)"
    and 3: "forEachS (applyStudentFill (fst fl0)) (snd (snd fl0)) e2 = (Inr (), e3)"
    and m: "(engineMarketState e3, e3) = (Inr market, e3')" and 4: "markToFairValue e3' = (Inr snap, e4)"
    and 5: "checkRisk e4 = (Inr risk, e5)" and rec: "recordRound a fl0 market snap risk e5 = (Inr v, e')"
    unfolding advanceCommittedRound_def bindS_eq_Inr by (elim exE conjE) simp
  obtain flow side fills where fl0: "fl0 = (flow, side, fills)" by (cases fl0)
  have e5: "e5 = e4" using checkRisk_Inr [OF 5] by blast
  let ?v = "\<lparr> evRound = enCurrentRound e4, evFairValue = enFairValue e4, evMarketEvents = enRoundEvents e4,
         evStudentAction = a, evOrderFlowType = flow, evIncomingMarketSide = side,
         evStudentFills = fills, evMarketState = market, evPortfolio = snap, evRiskReason = risk,
         evAccountingInvariantHolds = accountingInvariantHolds snap e4,
         evRngDrawCount = drawsValue (enRandom e4) \<rparr>"
  let ?e6 = "e4\<lparr> enRiskBreaches := enRiskBreaches e4 @ (case risk of None \<Rightarrow> []
                    | Some r \<Rightarrow> [\<lparr> qbRound = enCurrentRound e4, qbSource = POST_ROUND, qbReason = r \<rparr>]),
                  enHistory := enHistory e4 @ [v], enPendingAction := None,
                  enBook := cancelMakerQuotes ''STUDENT'' (enBook e4) \<rparr>"
  have v: "v = ?v \<and> finishRound risk ?e6 = (Inr (), e')"
    using rec unfolding e5 fl0
    by (cases risk) (auto simp: recordRound_def bindS_eq_Inr recordRiskBreach_def accountingInvariantHolds_def)
  have e3: "e3' = e3" using m by simp
  show thesis
    by (rule that [OF 1 2 [unfolded fl0] 3 [unfolded fl0 fst_conv snd_conv] 4 [unfolded e3] 5 [unfolded e5]
        conjunct1 [OF v] refl conjunct2 [OF v]])
qed

lemma round_settled:
  assumes held: "heldBy {} (enBook e)" and noise: "dget (activeMakerQuotes (enBook e)) ''NOISE_MARKET_MAKER'' = None"
    and run: "advanceCommittedRound a e = (Inr v, e')"
  shows "\<exists>d. settled a e v d \<and> finishRound (evRiskReason v) d = (Inr (), e')"
  using run
proof (rule round_stages)
  fix quote e1 flow side fills e2 e3 market snap e4 risk e6
  assume 1: "placeStudentAction a e = (Inr quote, e1)"
    and 2: "simulateOrderFlow quote e1 = (Inr (flow, side, fills), e2)"
    and 3: "forEachS (applyStudentFill flow) fills e2 = (Inr (), e3)"
    and 4: "markToFairValue e3 = (Inr snap, e4)" and 5: "checkRisk e4 = (Inr risk, e4)"
    and v: "v = \<lparr> evRound = enCurrentRound e4, evFairValue = enFairValue e4, evMarketEvents = enRoundEvents e4,
         evStudentAction = a, evOrderFlowType = flow, evIncomingMarketSide = side,
         evStudentFills = fills, evMarketState = market, evPortfolio = snap, evRiskReason = risk,
         evAccountingInvariantHolds = accountingInvariantHolds snap e4,
         evRngDrawCount = drawsValue (enRandom e4) \<rparr>"
    and e6: "e6 = e4\<lparr> enRiskBreaches := enRiskBreaches e4 @ (case risk of None \<Rightarrow> []
                    | Some r \<Rightarrow> [\<lparr> qbRound = enCurrentRound e4, qbSource = POST_ROUND, qbReason = r \<rparr>]),
                  enHistory := enHistory e4 @ [v], enPendingAction := None,
                  enBook := cancelMakerQuotes ''STUDENT'' (enBook e4) \<rparr>"
    and fin: "finishRound risk e6 = (Inr (), e')"
  note p = placeStudentAction_Inr [OF held noise 1]
  have pl: "placed quote (enBook e1)" using p by blast
  note f = simulateOrderFlow_Inr [OF pl 2] and t = applyStudentFills_Inr [OF 3]
  from markToFairValue_Inr [OF 4] obtain q where e4: "e4 = e3\<lparr> enPortfolio := q \<rparr>"
    and q: "remarked (enPortfolio e3) q" "getSnapshot fl (enFairValue e3) q = Inr snap" by blast
  obtain b1 i1 t1 s1 where e1: "e1 = e\<lparr> enBook := b1, enIdSequence := i1, enLogicalTime := t1, enTotalSpread := s1,
          enQuoteRounds := enQuoteRounds e + (if quote = None then 0 else 1) \<rparr>" using p by blast
  obtain r2 b2 i2 t2 m2 n2 where e2: "e2 = e1\<lparr> enRandom := r2, enBook := b2, enIdSequence := i2,
        enLogicalTime := t2, enInformedFlowCount := m2, enNoiseFlowCount := n2 \<rparr>"
    using f unfolding flowFrame_def by blast
  obtain p3 x3 where e3: "e3 = e2\<lparr> enPortfolio := p3, enAdverseSelectionPnL := x3 \<rparr>" using t by blast
  have book: "heldBy {} (cancelMakerQuotes ''STUDENT'' b2)"
    "dget (activeMakerQuotes (cancelMakerQuotes ''STUDENT'' b2)) ''NOISE_MARKET_MAKER'' = None"
    using f heldBy_cancel [of "{''STUDENT''}" b2 "''STUDENT''"]
    by (auto simp: flowBook_def e2 cancelMakerQuotes_def Let_def dget_ddel split: option.splits)
  have "checkRiskLimits fl (enFairValue e) q = Inr risk"
    using checkRisk_Inr [OF 5] by (simp add: e4 e3 e2 e1)
  moreover have "applyFills fl fills (enPortfolio e) = Inr p3" using t by (simp add: e3 e2 e1)
  moreover have "flowSound (enFairValue e) (actionQuote a) flow side fills" "quote = actionQuote a"
    using f p by (simp_all add: e1)
  moreover have "spreadStep (enTotalSpread e) (actionQuote a) s1" using p by (auto simp: e1)
  moreover have "drawsValue r2 \<le> drawsValue (enRandom e) + 3"
    "m2 + n2 \<le> enInformedFlowCount e + enNoiseFlowCount e + 1"
    using f by (simp_all add: e2 e1)
  ultimately have "settled a e v e6"
    using q book by (cases risk) (simp_all add: settled_def e6 v e4 e3 e2 e1)
  then show ?thesis using fin by (auto simp: v)
qed

text \<open>What finishing a round does to a settled engine.\<close>

definition finished :: "RiskReason option \<Rightarrow> QuantTraderInterviewEngine \<Rightarrow> QuantTraderInterviewEngine \<Rightarrow> bool" where
  "finished risk d e' =
     (if risk \<noteq> None \<and> rcStopOnRiskBreach (enConfig d) then e' = d\<lparr> enStatus := Scenario_RISK_STOPPED \<rparr>
      else if rcRounds (enConfig d) \<le> enCurrentRound d then e' = d\<lparr> enStatus := Scenario_COMPLETED \<rparr>
      else updated (d\<lparr> enCurrentRound := enCurrentRound d + 1, enRoundEvents := [] \<rparr>) e')"

lemma finishRound_Inr:
  assumes "resolvedAssertions (enConfig d)" and "0 < enFairValue d" and "finishRound risk d = (Inr (), e')"
  shows "finished risk d e'"
proof -
  let ?n = "d\<lparr> enCurrentRound := enCurrentRound d + 1, enRoundEvents := [] \<rparr>"
  have "updated ?n e'" if "applyFairValueUpdateForCurrentRound ?n = (Inr (), e')"
    by (rule fairValueUpdate_Inr [OF _ _ that]) (use assms(1,2) in simp_all)
  then show ?thesis using assms(3) by (auto simp: finishRound_def finished_def Let_def split: if_splits)
qed

end
