(* ===== verification/TradingSample.thy ===== *)
theory TradingSample
  imports TradingSteps
begin

text \<open>
  A one-round scenario evaluated step by step: a candidate sells three units below the fair value to
  an informed trader. It is the concrete run at which the properties of scenarios are applied.
\<close>

definition sampleScenario :: QuantTraderScenarioConfig where
  "sampleScenario = \<lparr> cfFamily = RISK_MANAGEMENT, cfSeed = 7, cfRounds = Some 1, cfInitialCash = None, cfFairValue = None,
     cfTickSize = None, cfMaxQuoteSize = None, cfNoiseTraderProbability = Some (1/2), cfInformedTraderProbability = Some (1/4),
     cfNoiseBuyProbability = None, cfNoiseTradeSize = None, cfMaxNoiseSpread = None, cfHardPositionLimit = None,
     cfStopOnRiskBreach = None, cfRiskLimits = noRiskLimits, cfFairValueUpdates = None \<rparr>"

definition scenarioQuote :: QuotePair where
  "scenarioQuote = \<lparr> bidPrice = 97, bidSize = 2, askPrice = 99, askSize = 3 \<rparr>"

definition sampleConfig :: ResolvedScenarioConfig where
  "sampleConfig = \<lparr> rcFamily = RISK_MANAGEMENT, rcSeed = 7, rcRounds = 1, rcInitialCash = 1000, rcFairValue = 100,
     rcTickSize = 1/2, rcMaxQuoteSize = 4, rcNoiseTraderProbability = 1/2, rcInformedTraderProbability = 1/4,
     rcNoiseBuyProbability = 1/2, rcNoiseTradeSize = 1, rcMaxNoiseSpread = 8, rcHardPositionLimit = True,
     rcStopOnRiskBreach = True,
     rcRiskLimits = \<lparr> maxPosition = 4, limitMaxDrawdown = 60, stopLossThreshold = 40 \<rparr>, rcFairValueUpdates = [] \<rparr>"

definition openPortfolio :: PortfolioTracker where
  "openPortfolio = \<lparr> currentCash = 1000, currentPosition = 0, totalCostBasis = 0, currentRealizedPnL = 0,
     peakPortfolioValue = 1000, currentMaxDrawdown = 0, fillsHistory = [],
     riskLimits = \<lparr> maxPosition = 4, limitMaxDrawdown = 60, stopLossThreshold = 40 \<rparr> \<rparr>"

definition startEngine :: QuantTraderInterviewEngine where
  "startEngine = newEngineState sampleConfig \<lparr> rngState = 7, drawsValue = 0 \<rparr> openPortfolio"

definition submittedEngine :: QuantTraderInterviewEngine where
  "submittedEngine = startEngine\<lparr> enPendingAction := Some (QUOTE scenarioQuote) \<rparr>"

definition scenarioQuotedBook :: LimitOrderBook where
  "scenarioQuotedBook = newLimitOrderBook
     \<lparr> bids := [\<lparr> loId = ''quote_bid_STUDENT_1'', loSide = BUY, loPrice = 97, loSize = 2, loTimestamp = 1 \<rparr>],
       asks := [\<lparr> loId = ''quote_ask_STUDENT_2'', loSide = SELL, loPrice = 99, loSize = 3, loTimestamp = 1 \<rparr>],
       activeMakerQuotes := [(''STUDENT'', \<lparr> bidId = Some ''quote_bid_STUDENT_1'', askId = Some ''quote_ask_STUDENT_2'' \<rparr>)],
       generatedIds := [''quote_bid_STUDENT_1'', ''quote_ask_STUDENT_2''] \<rparr>"

definition quotedEngine :: QuantTraderInterviewEngine where
  "quotedEngine = submittedEngine\<lparr> enBook := scenarioQuotedBook, enIdSequence := 2, enLogicalTime := 1,
     enQuoteRounds := 1, enTotalSpread := 2 \<rparr>"

definition scenarioFill :: OrderFill where
  "scenarioFill = \<lparr> fillId = ''fill_4'', fillOrderId = ''quote_ask_STUDENT_2'', matchedOrderId = Some ''mkt_3'',
     fillSide = SELL, fillPrice = 99, fillSize = 3, counterparty = ''INFORMED_TRADER'', fillTimestamp = 2 \<rparr>"

definition scenarioTakenBook :: LimitOrderBook where
  "scenarioTakenBook = scenarioQuotedBook\<lparr> asks := [], lastTradePrice := Some 99, totalVolume := 3,
     generatedIds := [''quote_bid_STUDENT_1'', ''quote_ask_STUDENT_2'', ''mkt_3'', ''fill_4''] \<rparr>"

definition takenEngine :: QuantTraderInterviewEngine where
  "takenEngine = quotedEngine\<lparr> enRandom := \<lparr> rngState = 1831565820, drawsValue = 1 \<rparr>, enInformedFlowCount := 1,
     enBook := scenarioTakenBook, enIdSequence := 4, enLogicalTime := 2 \<rparr>"

definition soldPortfolio :: PortfolioTracker where
  "soldPortfolio = openPortfolio\<lparr> currentCash := 1297, currentPosition := -3, totalCostBasis := 297,
     fillsHistory := [scenarioFill] \<rparr>"

definition filledEngine :: QuantTraderInterviewEngine where
  "filledEngine = takenEngine\<lparr> enPortfolio := soldPortfolio, enAdverseSelectionPnL := -3 \<rparr>"

definition markedEngine :: QuantTraderInterviewEngine where
  "markedEngine = filledEngine\<lparr> enPortfolio := soldPortfolio\<lparr> currentMaxDrawdown := 3 \<rparr> \<rparr>"

lemma scenario_new: "newQuantTraderInterviewEngine sampleScenario = Inr startEngine"
  by code_simp

lemma scenario_submit: "isOk (fst (submitAction (QUOTE scenarioQuote) startEngine))"
  by code_simp

lemma scenario_place: "placeStudentAction (QUOTE scenarioQuote) submittedEngine = (Inr (Some scenarioQuote), quotedEngine)"
  by code_simp

lemma scenario_mulberry: "mulberry 1831565820 = 50271532"
  by (simp add: mulberry_def Let_def drop_bit_eq_div word_eq_iff_unsigned)

lemma scenario_draw: "nextRandom \<lparr> rngState = 7, drawsValue = 0 \<rparr> = (12567883/1073741824, \<lparr> rngState = 1831565820, drawsValue = 1 \<rparr>)"
  by (simp add: nextRandom_def scenario_mulberry)

lemma scenario_taken:
  "executeMarketOrder scenarioRuntime BUY 3 ''INFORMED_TRADER'' (scenarioQuotedBook, (2, 1)) =
     (Inr [scenarioFill\<lparr> fillOrderId := ''mkt_3'', matchedOrderId := Some ''quote_ask_STUDENT_2'', fillSide := BUY \<rparr>],
      (scenarioTakenBook, (4, 2)))"
  by code_simp

lemma scenario_numbers: "fl (100 - 99) = Some 1" "fl (97 - 100) = Some (-3)" "js_add (1/4) (1/2) = Some (3/4)"
    "incrementSafeCount 0 ''Informed-flow count'' = Inr 1"
    "attributeStudentFills [scenarioFill\<lparr> fillOrderId := ''mkt_3'', matchedOrderId := Some ''quote_ask_STUDENT_2'', fillSide := BUY \<rparr>] BUY
       = [scenarioFill]"
  by code_simp+

lemma scenario_flow: "simulateOrderFlow (Some scenarioQuote) quotedEngine = (Inr (INFORMED, Some BUY, [scenarioFill]), takenEngine)"
proof -
  let ?e = "quotedEngine\<lparr> enRandom := \<lparr> rngState = 1831565820, drawsValue = 1 \<rparr> \<rparr>"
  let ?f = "scenarioFill\<lparr> fillOrderId := ''mkt_3'', matchedOrderId := Some ''quote_ask_STUDENT_2'', fillSide := BUY \<rparr>"
  have fields: "enConfig quotedEngine = sampleConfig" "enRandom quotedEngine = \<lparr> rngState = 7, drawsValue = 0 \<rparr>"
    "enInformedFlowCount quotedEngine = 0" "enFairValue quotedEngine = 100" "enBook quotedEngine = scenarioQuotedBook"
    "enIdSequence quotedEngine = 2" "enLogicalTime quotedEngine = 1"
    by (simp_all add: quotedEngine_def submittedEngine_def startEngine_def newEngineState_def sampleConfig_def)
  have draw: "bindS drawNext k quotedEngine = k (12567883/1073741824) ?e" for k :: "rat \<Rightarrow> order_flow engine_action"
    using scenario_draw by (simp add: bindS_def drawNext_def fields)
  have config: "rcInformedTraderProbability sampleConfig = 1/4" "rcNoiseTraderProbability sampleConfig = 1/2"
    by (simp_all add: sampleConfig_def)
  have order: "bindS (onBook (executeMarketOrder scenarioRuntime BUY 3 ''INFORMED_TRADER'')) k (?e\<lparr> enInformedFlowCount := 1 \<rparr>)
      = k [?f] takenEngine" for k :: "OrderFill list \<Rightarrow> order_flow engine_action"
    using scenario_taken
    by (simp add: bindS_def onBook_def withinS_def engineBook_def setEngineBook_def fields takenEngine_def)
  have quote: "askPrice scenarioQuote = 99" "bidPrice scenarioQuote = 97" "askSize scenarioQuote = 3"
    by (simp_all add: scenarioQuote_def)
  have "simulateInformedFlow (Some scenarioQuote) (?e\<lparr> enInformedFlowCount := 1 \<rparr>)
      = (Inr (INFORMED, Some BUY, [scenarioFill]), takenEngine)"
    using scenario_numbers(1,2,5) by (simp add: simulateInformedFlow_def fields quote order [unfolded One_nat_def] Let_def)
  then show ?thesis
    using scenario_numbers(3,4) by (simp add: simulateOrderFlow_def draw fields config) (simp add: bindS_def fields)
qed

lemma scenario_fill: "applyStudentFill INFORMED scenarioFill takenEngine = (Inr (), filledEngine)"
  by code_simp

lemma scenario_market: "isOk (engineMarketState filledEngine)"
  by code_simp

lemma scenario_mark: "markToFairValue filledEngine =
   (Inr \<lparr> psCash = 1297, psPosition = -3, psRealizedPnL = 0, psUnrealizedPnL = -3, psTotalPnL = -3, psPortfolioValue = 997,
     psAverageCostBasis = 99, psMaxDrawdown = 3, psTradeCount = 1 \<rparr>, markedEngine)"
  by code_simp

lemma scenario_risk: "checkRisk markedEngine = (Inr None, markedEngine)"
  by code_simp

definition finishedEngine :: "QuantRoundEvidence \<Rightarrow> QuantTraderInterviewEngine" where
  "finishedEngine v = markedEngine\<lparr> enHistory := [v], enPendingAction := None,
     enBook := cancelMakerQuotes ''STUDENT'' scenarioTakenBook, enStatus := Scenario_COMPLETED \<rparr>"

lemma scenario_round:
  "\<exists>v. advance submittedEngine = (Inr v, finishedEngine v) \<and> evStudentAction v = QUOTE scenarioQuote
     \<and> evStudentFills v = [scenarioFill]"
proof -
  obtain market where market: "engineMarketState filledEngine = Inr market"
    using scenario_market by (cases "engineMarketState filledEngine") simp_all
  let ?snap = "\<lparr> psCash = 1297, psPosition = -3, psRealizedPnL = 0, psUnrealizedPnL = -3, psTotalPnL = -3,
     psPortfolioValue = 997, psAverageCostBasis = 99, psMaxDrawdown = 3, psTradeCount = 1 \<rparr>"
  have fields: "enHistory markedEngine = []" "enBook markedEngine = scenarioTakenBook" "enCurrentRound markedEngine = 1"
    "enConfig markedEngine = sampleConfig" "enStatus submittedEngine = Scenario_ACTIVE"
    "enPendingAction submittedEngine = Some (QUOTE scenarioQuote)" "rcRounds sampleConfig = 1"
    by (simp_all add: markedEngine_def filledEngine_def takenEngine_def quotedEngine_def submittedEngine_def startEngine_def
        newEngineState_def sampleConfig_def)
  have "\<exists>v. advanceCommittedRound (QUOTE scenarioQuote) submittedEngine = (Inr v, finishedEngine v)
      \<and> evStudentAction v = QUOTE scenarioQuote \<and> evStudentFills v = [scenarioFill]"
    using scenario_place scenario_flow scenario_fill market scenario_mark scenario_risk
    by (simp add: advanceCommittedRound_def bindS_def recordRound_def finishRound_def finishedEngine_def fields Let_def)
  then show ?thesis by (auto simp: advance_def fields attempt_def)
qed

end
