(* ===== verification/TradingScenarioRuns.thy ===== *)
theory TradingScenarioRuns
  imports TradingSample
begin

text \<open>
  Runs of a quant trading scenario: the invariant of every engine that submissions and rounds reach,
  and the properties of the scenario as its clients see them.
\<close>

section \<open>The invariant\<close>

definition quoteCount :: "QuantRoundEvidence list \<Rightarrow> nat" where
  "quoteCount vs = length (filter (\<lambda>v. actionQuote (evStudentAction v) \<noteq> None) vs)"

definition positionAfter :: "nat \<Rightarrow> QuantRoundEvidence list \<Rightarrow> int" where
  "positionAfter k vs = netSize (concat (map evStudentFills (take k vs)))"

definition withinHardLimit :: "QuantTraderInterviewEngine \<Rightarrow> bool" where
  "withinHardLimit e =
     (rcHardPositionLimit (enConfig e) \<longrightarrow>
        (\<forall>k \<le> length (enHistory e). \<bar>positionAfter k (enHistory e)\<bar> \<le> int (maxPosition (rcRiskLimits (enConfig e)))))"

text \<open>The prices a client submits are binary64 numbers.\<close>

definition floatQuote :: "QuantRoundEvidence \<Rightarrow> bool" where
  "floatQuote v = opt_all (\<lambda>q. fl (askPrice q) = Some (askPrice q)) (actionQuote (evStudentAction v))"

definition spreadSound :: "QuantTraderInterviewEngine \<Rightarrow> bool" where
  "spreadSound e =
     (fl (enTotalSpread e) \<noteq> None \<and> (list_all floatQuote (enHistory e) \<longrightarrow> 0 \<le> enTotalSpread e))"

definition quoteValid :: "QuantRoundEvidence \<Rightarrow> bool" where
  "quoteValid v = opt_all QuotePairSchema (actionQuote (evStudentAction v))"

definition core_wf :: "QuantTraderInterviewEngine \<Rightarrow> bool" where
  "core_wf e =
     (heldBy {} (enBook e) \<and> dget (activeMakerQuotes (enBook e)) ''NOISE_MARKET_MAKER'' = None
      \<and> portfolio_wf (enPortfolio e) \<and> riskLimits (enPortfolio e) = rcRiskLimits (enConfig e)
      \<and> fillsHistory (enPortfolio e) = concat (map evStudentFills (enHistory e))
      \<and> currentPosition (enPortfolio e) = netSize (fillsHistory (enPortfolio e))
      \<and> resolvedAssertions (enConfig e) \<and> 0 < enFairValue e \<and> isOk (engineSnapshot e)
      \<and> map evRound (enHistory e) = [1 ..< length (enHistory e) + 1] \<and> list_all recordedRound (enHistory e)
      \<and> drawsValue (enRandom e) \<le> 3 * length (enHistory e)
      \<and> enInformedFlowCount e + enNoiseFlowCount e \<le> length (enHistory e)
      \<and> enQuoteRounds e = quoteCount (enHistory e) \<and> withinHardLimit e
      \<and> spreadSound e \<and> list_all quoteValid (enHistory e))"

text \<open>A quote as \<open>validateQuote\<close> admits it.\<close>

definition admissible :: "QuantTraderInterviewEngine \<Rightarrow> QuotePair \<Rightarrow> bool" where
  "admissible e q =
     (let c = enConfig e; pos = currentPosition (enPortfolio e); limit = int (maxPosition (rcRiskLimits c)) in
      QuotePairSchema q \<and> isOnTick (bidPrice q) (rcTickSize c) \<and> isOnTick (askPrice q) (rcTickSize c)
      \<and> bidSize q \<le> rcMaxQuoteSize c \<and> askSize q \<le> rcMaxQuoteSize c
      \<and> (rcHardPositionLimit c \<longrightarrow> pos + int (bidSize q) \<le> limit \<and> - limit \<le> pos - int (askSize q)))"

definition breachOk :: "nat \<Rightarrow> QuantRiskBreach \<Rightarrow> bool" where
  "breachOk n b = (1 \<le> qbRound b \<and> qbRound b \<le> n)"

definition status_wf :: "QuantTraderInterviewEngine \<Rightarrow> bool" where
  "status_wf e =
     (let n = length (enHistory e); c = enConfig e in
      n \<le> rcRounds c \<and> 1 \<le> enCurrentRound e \<and> enCurrentRound e \<le> rcRounds c \<and> enCurrentRound e \<le> n + 1
      \<and> list_all (eventOk (enCurrentRound e)) (enRoundEvents e) \<and> length (enRoundEvents e) \<le> 1
      \<and> list_all (breachOk (enCurrentRound e)) (enRiskBreaches e)
      \<and> length (enRiskBreaches e) \<le> 2 * n + 1
      \<and> (case enStatus e of
           Scenario_ACTIVE \<Rightarrow> enCurrentRound e = n + 1 \<and> (rcStopOnRiskBreach c \<longrightarrow> enRiskBreaches e = [])
         | Scenario_COMPLETED \<Rightarrow> n = rcRounds c \<and> enPendingAction e = None
         | Scenario_RISK_STOPPED \<Rightarrow> rcStopOnRiskBreach c \<and> enRiskBreaches e \<noteq> [] \<and> enPendingAction e = None)
      \<and> (\<forall>q. enPendingAction e = Some (QUOTE q) \<longrightarrow> admissible e q))"

definition engine_wf :: "QuantTraderInterviewEngine \<Rightarrow> bool" where
  "engine_wf e = (core_wf e \<and> status_wf e)"

lemma core_wf_fields [simp]:
  "core_wf (e\<lparr> enStatus := s \<rparr>) = core_wf e"
  "core_wf (e\<lparr> enCurrentRound := k, enRoundEvents := ms \<rparr>) = core_wf e"
  "core_wf (e\<lparr> enPendingAction := a \<rparr>) = core_wf e"
  by (simp_all add: core_wf_def withinHardLimit_def engineSnapshot_def spreadSound_def)

lemma core_updated:
  assumes wf: "core_wf e" and up: "updated e e'"
  shows "core_wf e'"
proof -
  obtain fv ms p bs st where e': "e' = e\<lparr> enFairValue := fv, enRoundEvents := ms, enPortfolio := p,
      enRiskBreaches := bs, enStatus := st \<rparr>"
    using up unfolding updated_def by blast
  have rem: "remarked (enPortfolio e) p" and fv: "0 < fv" and ok: "isOk (engineSnapshot e) \<longrightarrow> isOk (engineSnapshot e')"
    using up by (simp_all add: updated_def e')
  show ?thesis
    using wf fv ok remarked_fields [OF rem] portfolio_wf_remarked [OF _ rem]
    by (auto simp: core_wf_def e' withinHardLimit_def spreadSound_def)
qed

lemma studentTrade_length: "studentTrade quote side fs \<Longrightarrow> length fs \<le> 1"
  by (auto simp: studentTrade_def)

lemma flowSound_fills:
  assumes "flowSound fv quote flow side fs"
  shows "length fs \<le> 1 \<and> (fs \<noteq> [] \<longrightarrow> (\<exists>q s f. quote = Some q \<and> side = Some (opposite s) \<and> fs = [f] \<and> fillSide f = s
      \<and> fillPrice f = quotedPrice q s \<and> fillSize f \<le> quotedSize q s \<and> OrderFillSchema f))"
proof (cases side)
  case None
  then show ?thesis using assms by (simp add: flowSound_def)
next
  case (Some t)
  then have "studentTrade quote (opposite t) fs" using assms by (simp add: flowSound_def)
  moreover have "t = opposite (opposite t)" by (cases t) simp_all
  ultimately show ?thesis using Some by (auto simp: studentTrade_def)
qed

lemma concat_fills_length: "list_all recordedRound vs \<Longrightarrow> length (concat (map evStudentFills vs)) \<le> length vs"
proof (induction vs)
  case (Cons v vs)
  then have "length (evStudentFills v) \<le> 1" using flowSound_fills unfolding recordedRound_def list.pred_inject(2) by blast
  then show ?case using Cons by simp
qed simp

lemma netSize_simps [simp]: "netSize (xs @ ys) = netSize xs + netSize ys" "netSize [] = 0"
  by (simp_all add: netSize_def)

lemma netSize_flow:
  assumes "flowSound fv (Some q) flow side fs"
  shows "- int (askSize q) \<le> netSize fs \<and> netSize fs \<le> int (bidSize q)"
proof (cases "fs = []")
  case True
  then show ?thesis by (simp add: netSize_def)
next
  case False
  then obtain s f where "fs = [f]" "fillSide f = s" "fillSize f \<le> quotedSize q s"
    using flowSound_fills [OF assms] by auto
  then show ?thesis by (cases s) (auto simp: netSize_def signedSize_def quotedSize_def)
qed

lemma netSize_pass: "flowSound fv None flow side fs \<Longrightarrow> fs = []"
  using flowSound_fills by blast

lemma applyFills_wf: "portfolio_wf p \<Longrightarrow> applyFills rnd fs p = Inr p' \<Longrightarrow> portfolio_wf p'"
  by (induction fs arbitrary: p) (auto simp: applyFills_def bindE_eq_Inr intro: portfolio_wf_applyFill)

lemma roundedMagnitude_top:
  assumes pos: "0 < a" and small: "roundedMagnitude a < pow2 1024"
  shows "roundedMagnitude a < overflowThreshold"
proof (cases "a < pow2 1023")
  case True
  then have "ilog2 a < 1023" using pos ilog2_ge [of a 1023] by linarith
  then have "ulpExp a \<le> 1023" by (simp add: ulpExp_def)
  then have "roundedMagnitude a \<le> pow2 1023" using True by (intro roundedMagnitude_pow2_le) auto
  moreover have "pow2 970 < pow2 1023" by (simp only: pow2_less_iff)
  moreover have "pow2 1024 = 2 * pow2 1023" using pow2_Suc [of 1023] by simp
  ultimately show ?thesis by (simp add: overflowThreshold_def)
next
  case False
  have "\<not> overflowThreshold \<le> a" using rounded_overflow [OF pos] small by linarith
  then have "a < pow2 1024" using threshold_between(2) by linarith
  then have "1023 \<le> ilog2 a" "\<not> 1024 \<le> ilog2 a" using False pos by (simp_all add: ilog2_ge)
  then have e: "ulpExp a = 971" by (simp add: ulpExp_def)
  define n where "n = round_half_even (a / pow2 971)"
  have m: "roundedMagnitude a = of_int n * pow2 971" by (simp add: roundedMagnitude_def e n_def)
  have top: "pow2 1024 = of_int (2 ^ 53) * pow2 971" using pow2_as_multiple [of 1024 971] by simp
  have "n < 2 ^ 53" using small unfolding m top by (simp only: mult_less_cancel_right_pos [OF pow2_pos] of_int_less_iff)
  then have "of_int n \<le> (of_int (2 ^ 53 - 1) :: rat)" by (simp only: of_int_le_iff)
  then have "roundedMagnitude a \<le> of_int (2 ^ 53 - 1) * pow2 971"
    unfolding m by (rule mult_right_mono) simp
  moreover obtain g where g: "pow2 970 = g" by blast
  moreover have "pow2 971 = 2 * g" using pow2_Suc [of 970] by (simp add: g)
  moreover have "0 < g" using pow2_pos [of 970] by (simp only: g)
  ultimately show ?thesis unfolding overflowThreshold_def top g by (simp add: algebra_simps)
qed

lemma rounded_finite: "fl x = Some y \<Longrightarrow> fl y \<noteq> None"
proof (cases "x = 0")
  case False
  assume y: "fl x = Some y"
  have small: "roundedMagnitude \<bar>x\<bar> < pow2 1024" and yx: "y = sgn x * roundedMagnitude \<bar>x\<bar>"
    using y fl_alt [OF False] by (auto split: if_splits)
  have pos: "0 < \<bar>x\<bar>" using False by simp
  have "roundedMagnitude \<bar>x\<bar> < overflowThreshold" by (rule roundedMagnitude_top [OF pos small])
  moreover have "\<bar>y\<bar> = roundedMagnitude \<bar>x\<bar>"
    using False roundedMagnitude_nonneg [of "\<bar>x\<bar>"] by (simp add: yx abs_mult abs_sgn_eq)
  ultimately show ?thesis by (simp add: fl_None_iff)
qed (simp add: fl_def)

lemma spreadStep_sound:
  assumes "spreadStep s quote t" and "fl s \<noteq> None" and "opt_all QuotePairSchema quote"
  shows "fl t \<noteq> None \<and> (0 \<le> s \<longrightarrow> opt_all (\<lambda>q. fl (askPrice q) = Some (askPrice q)) quote \<longrightarrow> 0 \<le> t)"
proof (cases quote)
  case None
  then show ?thesis using assms by (simp add: spreadStep_def)
next
  case (Some q)
  then obtain u where u: "fl (s + askPrice q) = Some u" and t: "fl (u - bidPrice q) = Some t"
    using assms(1) by (auto simp: spreadStep_def nadd_def nsub_def bind_eq_Some_conv)
  have "0 \<le> t" if "0 \<le> s" and ask: "fl (askPrice q) = Some (askPrice q)"
  proof -
    have q: "0 < bidPrice q" "bidPrice q < askPrice q" using assms(3) Some by (simp_all add: QuotePairSchema_def)
    have "askPrice q \<le> u" by (rule fl_mono_nonneg [OF _ _ ask u]) (use q that in linarith)+
    then have "0 \<le> u - bidPrice q" using q by linarith
    then show ?thesis using fl_sign [OF t] by blast
  qed
  then show ?thesis using rounded_finite [OF t] Some by simp
qed

lemma settled_core:
  assumes wf: "core_wf e" and admit: "\<forall>q. a = QUOTE q \<longrightarrow> admissible e q"
    and n: "enCurrentRound e = length (enHistory e) + 1"
    and events: "list_all (eventOk (enCurrentRound e)) (enRoundEvents e)" "length (enRoundEvents e) \<le> 1"
    and s: "settled a e v d"
  shows "core_wf d"
proof -
  obtain p where p: "applyFills fl (evStudentFills v) (enPortfolio e) = Inr p" and rem: "remarked p (enPortfolio d)"
    using s by (auto simp: settled_def)
  note ap = applyFills_position [OF p] and rf = remarked_fields [OF rem]
  have pw: "portfolio_wf (enPortfolio d)"
    using portfolio_wf_remarked [OF applyFills_wf [OF _ p] rem] wf by (simp add: core_wf_def)
  have flow: "flowSound (enFairValue e) (actionQuote a) (evOrderFlowType v) (evIncomingMarketSide v) (evStudentFills v)"
    using s by (simp add: settled_def)
  have cfg: "enConfig d = enConfig e" "enHistory d = enHistory e @ [v]" "enFairValue d = enFairValue e"
    "enQuoteRounds d = enQuoteRounds e + (if actionQuote a = None then 0 else 1)"
    using s unfolding settled_def by (cases e, cases d, simp)+
  have fills: "fillsHistory (enPortfolio d) = fillsHistory (enPortfolio e) @ evStudentFills v"
    "currentPosition (enPortfolio d) = currentPosition (enPortfolio e) + netSize (evStudentFills v)"
    using ap rf by simp_all
  have pos: "currentPosition (enPortfolio e) = positionAfter (length (enHistory e)) (enHistory e)"
    "withinHardLimit e" "spreadSound e"
    using wf by (simp_all add: core_wf_def positionAfter_def)
  have after: "positionAfter k (enHistory d) = (if k \<le> length (enHistory e) then positionAfter k (enHistory e)
      else currentPosition (enPortfolio e) + netSize (evStudentFills v))" for k
    using pos(1) by (cases "k \<le> length (enHistory e)") (simp_all add: positionAfter_def cfg)
  have "withinHardLimit d"
  proof (cases a)
    case PASS
    then have "evStudentFills v = []" using flow netSize_pass by simp
    then show ?thesis using pos(2) unfolding withinHardLimit_def after cfg(1) by (simp add: pos(1))
  next
    case (QUOTE q)
    then have "admissible e q" using admit by blast
    moreover have "- int (askSize q) \<le> netSize (evStudentFills v)" "netSize (evStudentFills v) \<le> int (bidSize q)"
      using netSize_flow flow QUOTE by (metis actionQuote_simps(1))+
    ultimately show ?thesis using pos(2) unfolding withinHardLimit_def after cfg(1)
      by (auto simp: admissible_def Let_def)
  qed
  moreover have "quoteValid v"
    using admit s by (cases a) (simp_all add: quoteValid_def settled_def admissible_def Let_def)
  moreover have "spreadSound d"
    using spreadStep_sound [of "enTotalSpread e" "actionQuote a" "enTotalSpread d"] s pos(3) \<open>quoteValid v\<close>
    by (auto simp: spreadSound_def cfg settled_def floatQuote_def quoteValid_def)
  moreover have "recordedRound v"
  proof -
    have snap: "getSnapshot fl (enFairValue e) (enPortfolio d) = Inr (evPortfolio v)" using s by (simp add: settled_def)
    have "length (evStudentFills v) \<le> 1" using flowSound_fills [OF flow] by blast
    moreover have "length (fillsHistory (enPortfolio e)) \<le> length (enHistory e)"
      using wf concat_fills_length [of "enHistory e"] by (simp add: core_wf_def)
    ultimately show ?thesis
      using s flow events getSnapshot_fields [OF snap] pw wf n fills(1)
      by (simp add: recordedRound_def settled_def portfolio_wf_def core_wf_def)
  qed
  moreover have "isOk (engineSnapshot d)" using s by (simp add: engineSnapshot_def cfg settled_def)
  ultimately show ?thesis
    using wf s pw rf ap n
    by (simp add: core_wf_def cfg fills settled_def quoteCount_def)
qed

lemma breachOk_mono: "list_all (breachOk n) bs \<Longrightarrow> n \<le> m \<Longrightarrow> list_all (breachOk m) bs"
  by (induction bs) (auto simp: breachOk_def)

lemma finished_wf:
  assumes core: "core_wf e" and st: "status_wf e" and act: "enStatus e = Scenario_ACTIVE"
    and s: "settled a e v d" and cd: "core_wf d" and fin: "finished (evRiskReason v) d e'"
  shows "engine_wf e'"
proof -
  let ?c = "enConfig e" and ?n = "length (enHistory e)"
  obtain bs where bs: "enRiskBreaches d = enRiskBreaches e @ bs" "length bs \<le> 1"
    "list_all (\<lambda>b. qbRound b = enCurrentRound e) bs" "bs = [] \<longleftrightarrow> evRiskReason v = None"
    using s by (cases "evRiskReason v") (auto simp: settled_def)
  have cfg: "enConfig d = ?c" "enHistory d = enHistory e @ [v]" "enStatus d = Scenario_ACTIVE" "enPendingAction d = None"
    "enCurrentRound d = ?n + 1" "enRoundEvents d = enRoundEvents e"
    using s act st unfolding settled_def status_wf_def Let_def by (cases e, cases d, simp)+
  have n1: "enCurrentRound e = ?n + 1" using st act by (simp add: status_wf_def Let_def)
  have n: "enCurrentRound e = ?n + 1" "?n + 1 \<le> rcRounds ?c" "rcStopOnRiskBreach ?c \<longrightarrow> enRiskBreaches e = []"
    "length (enRiskBreaches e) \<le> 2 * ?n + 1"
    "list_all (breachOk (?n + 1)) (enRiskBreaches e)"
    "list_all (eventOk (?n + 1)) (enRoundEvents e)" "length (enRoundEvents e) \<le> 1"
    using st act by (simp_all add: status_wf_def Let_def n1)
  have br: "list_all (breachOk (?n + 1)) (enRiskBreaches d)"
    using n(5) bs(1,3) n(1) by (auto simp: list_all_iff breachOk_def)
  consider (stop) "evRiskReason v \<noteq> None" "rcStopOnRiskBreach ?c" "e' = d\<lparr> enStatus := Scenario_RISK_STOPPED \<rparr>"
    | (complete) "\<not> (evRiskReason v \<noteq> None \<and> rcStopOnRiskBreach ?c)" "rcRounds ?c \<le> ?n + 1" "e' = d\<lparr> enStatus := Scenario_COMPLETED \<rparr>"
    | (more) "\<not> (evRiskReason v \<noteq> None \<and> rcStopOnRiskBreach ?c)" "?n + 1 < rcRounds ?c"
        "updated (d\<lparr> enCurrentRound := enCurrentRound d + 1, enRoundEvents := [] \<rparr>) e'"
    using fin by (auto simp: finished_def cfg split: if_splits)
  then show ?thesis
  proof cases
    case stop
    have "core_wf e'" using cd by (simp add: stop(3))
    moreover have "status_wf e'"
      using n bs br stop(1,2) by (simp add: status_wf_def Let_def stop(3) cfg)
    ultimately show ?thesis by (simp add: engine_wf_def)
  next
    case complete
    have "core_wf e'" using cd by (simp add: complete(3))
    moreover have "status_wf e'"
      using n bs br complete(2) by (simp add: status_wf_def Let_def complete(3) cfg)
    ultimately show ?thesis by (simp add: engine_wf_def)
  next
    case more
    define f where "f = d\<lparr> enCurrentRound := enCurrentRound d + 1, enRoundEvents := [] \<rparr>"
    have up: "updated f e'" using more(3) by (simp add: f_def)
    have "core_wf f" using cd by (simp add: f_def)
    then have "core_wf e'" using up by (rule core_updated)
    moreover have "status_wf e'"
    proof -
      obtain cs ms where cs: "enRiskBreaches e' = enRiskBreaches e @ bs @ cs" "enRoundEvents e' = ms"
        "length ms \<le> 1" "list_all (eventOk (?n + 2)) ms"
        "length cs \<le> 1" "list_all (\<lambda>b. qbRound b = ?n + 2) cs"
        "if cs \<noteq> [] \<and> rcStopOnRiskBreach ?c then enStatus e' = Scenario_RISK_STOPPED else enStatus e' = Scenario_ACTIVE"
        using up bs(1) by (auto simp: updated_def f_def cfg)
      have e': "enConfig e' = ?c" "enHistory e' = enHistory e @ [v]" "enCurrentRound e' = ?n + 2" "enPendingAction e' = None"
        using up cfg unfolding updated_def f_def by (cases d, cases e', simp)+
      have "list_all (breachOk (?n + 2)) (enRiskBreaches d)" using breachOk_mono [OF br] by simp
      moreover have "list_all (breachOk (?n + 2)) cs" using cs(6) by (auto simp: list_all_iff breachOk_def)
      ultimately have "list_all (breachOk (?n + 2)) (enRiskBreaches e')" by (simp add: cs(1) bs(1))
      moreover have "bs = []" if "rcStopOnRiskBreach ?c" using more(1) bs(4) that by simp
      moreover have "enRiskBreaches e = []" if "rcStopOnRiskBreach ?c" using n(3) that by simp
      moreover have "length (enRiskBreaches e @ bs @ cs) \<le> 2 * (?n + 1) + 1" using n(4) bs(2) cs(5) by simp
      ultimately show ?thesis
        using more(2) cs by (cases "cs \<noteq> [] \<and> rcStopOnRiskBreach ?c") (auto simp: status_wf_def Let_def e')
    qed
    ultimately show ?thesis by (simp add: engine_wf_def)
  qed
qed

lemma advance_wf:
  assumes wf: "engine_wf e" and run: "advance e = (Inr v, e')" and safe: "isSafeNat (drawsValue (enRandom e))"
  shows "engine_wf e' \<and> enHistory e' = enHistory e @ [v] \<and> evRound v = enCurrentRound e
    \<and> enConfig e' = enConfig e \<and> enPendingAction e = Some (evStudentAction v) \<and> recordedRound v
    \<and> enPendingAction e' = None"
proof -
  have core: "core_wf e" and st: "status_wf e" using wf by (simp_all add: engine_wf_def)
  have parts: "book_wf (enBook e)" "portfolio_wf (enPortfolio e)" "heldBy {} (enBook e)"
    "dget (activeMakerQuotes (enBook e)) ''NOISE_MARKET_MAKER'' = None"
    using core by (simp_all add: core_wf_def heldBy_def)
  obtain a where act: "enStatus e = Scenario_ACTIVE" and a: "enPendingAction e = Some a"
    using run by (auto simp: advance_def split: if_splits option.splits)
  have body: "advanceCommittedRound a e = (Inr v, e')"
    using run by (auto simp: advance_alt [OF parts(1,2) safe act a] split: prod.splits sum.splits)
  obtain d where s: "settled a e v d" and fin: "finishRound (evRiskReason v) d = (Inr (), e')"
    using round_settled [OF parts(3,4) body] by blast
  have n: "enCurrentRound e = length (enHistory e) + 1" using st act by (simp add: status_wf_def Let_def)
  have events: "list_all (eventOk (enCurrentRound e)) (enRoundEvents e)" "length (enRoundEvents e) \<le> 1"
    using st by (simp_all add: status_wf_def Let_def)
  have admit: "\<forall>q. a = QUOTE q \<longrightarrow> admissible e q" using st a by (simp add: status_wf_def Let_def)
  have cd: "core_wf d" by (rule settled_core [OF core admit n events s])
  have "resolvedAssertions (enConfig d)" "0 < enFairValue d" using cd by (simp_all add: core_wf_def)
  from finishRound_Inr [OF this fin] have f: "finished (evRiskReason v) d e'" .
  have "enHistory d = enHistory e @ [v]" "enConfig d = enConfig e" "enPendingAction d = None"
    using s unfolding settled_def by (cases e, cases d, simp)+
  moreover have "enHistory e' = enHistory d" "enConfig e' = enConfig d" "enPendingAction e' = enPendingAction d"
    using f unfolding finished_def updated_def by (cases d, cases e', simp split: if_splits)+
  moreover have "recordedRound v" using cd calculation by (simp add: core_wf_def)
  moreover have "evRound v = enCurrentRound e" "evStudentAction v = a" using s by (simp_all add: settled_def)
  ultimately show ?thesis using finished_wf [OF core st act s cd f] a by simp
qed

section \<open>Submissions\<close>

lemma getState_returns: "core_wf e \<Longrightarrow> \<exists>st. getState e = Inr st"
proof -
  assume wf: "core_wf e"
  then obtain snap where snap: "engineSnapshot e = Inr snap" by (auto simp: core_wf_def isOk_iff)
  have book: "bids (enBook e) = []" "asks (enBook e) = []" "book_wf (enBook e)"
    using wf by (simp_all add: core_wf_def heldBy_empty)
  then have "opt_all (\<lambda>x. 0 < x) (lastTradePrice (enBook e))" "isSafeNat (totalVolume (enBook e))"
    by (simp_all add: book_wf_def)
  then have "\<exists>m. engineMarketState e = Inr m"
    by (simp add: engineMarketState_def getMarketState_def book(1,2) MarketStateSchema_def Let_def split: sum.splits)
  then show ?thesis using snap by (auto simp: getState_def Let_def)
qed

lemma onPortfolio_preview:
  assumes "portfolio_wf (enPortfolio e)"
  shows "snd (previewQuote q e) = e"
proof -
  let ?m1 = "assertPotentialFillArithmetic fl
                        (previewFill ''quote-preview-bid'' BUY (bidPrice q) (bidSize q)) (enFairValue e)"
  let ?m2 = "assertPotentialFillArithmetic fl
                        (previewFill ''quote-preview-ask'' SELL (askPrice q) (askSize q)) (enFairValue e)"
  let ?m = "bindS ?m1 (\<lambda>_. ?m2)"
  obtain r where "?m1 (enPortfolio e) = (r, enPortfolio e)"
    using preview_restores [OF assms] by (metis prod.collapse)
  then have "snd (?m (enPortfolio e)) = enPortfolio e"
    using preview_restores [OF assms] by (cases r) (simp_all add: bindS_def)
  then have "snd (onPortfolio ?m e) = e"
    by (auto simp: onPortfolio_def withinS_def split: prod.splits sum.splits)
  then show ?thesis by (auto simp: previewQuote_def split: prod.splits sum.splits ScenarioError.splits)
qed

lemma previewQuote_cases: "portfolio_wf (enPortfolio e) \<Longrightarrow> \<exists>r. previewQuote q e = (r, e)"
  using onPortfolio_preview [of e q] by (metis prod.collapse)

lemma validateQuote_spec:
  assumes "portfolio_wf (enPortfolio e)"
  shows "(\<exists>err. validateQuote q e = (Inl err, e)) \<or> (validateQuote q e = (Inr q, e) \<and> admissible e q)"
proof -
  obtain r where r: "previewQuote q e = (r, e)" using previewQuote_cases [OF assms] by blast
  have p: "bindS (previewQuote q) k e = (case r of Inl err \<Rightarrow> (Inl err, e) | Inr x \<Rightarrow> k x e)" for k
    by (simp add: bindS_def r)
  show ?thesis
    by (cases r) (auto simp: validateQuote_def Let_def p admissible_def)
qed

lemma admissible_pending [simp]: "admissible (e\<lparr> enPendingAction := x \<rparr>) q = admissible e q"
  by (simp add: admissible_def)

lemma submitAction_spec:
  assumes wf: "engine_wf e"
  shows "(\<exists>err. submitAction a e = (Inl err, e))
    \<or> (\<exists>st. submitAction a e = (Inr st, e\<lparr> enPendingAction := Some a \<rparr>)
         \<and> getState (e\<lparr> enPendingAction := Some a \<rparr>) = Inr st
         \<and> engine_wf (e\<lparr> enPendingAction := Some a \<rparr>) \<and> enStatus e = Scenario_ACTIVE \<and> enPendingAction e = None)"
proof (cases "enStatus e = Scenario_ACTIVE \<and> enPendingAction e = None \<and> QuantTradingCandidateActionSchema a")
  case False
  then show ?thesis by (auto simp: submitAction_def assertCanSubmit_def bindS_def)
next
  case True
  let ?e = "e\<lparr> enPendingAction := Some a \<rparr>"
  have core: "core_wf e" "portfolio_wf (enPortfolio e)" and st: "status_wf e"
    using wf by (simp_all add: engine_wf_def core_wf_def)
  have "core_wf ?e" using core by simp
  then obtain s where s: "getState ?e = Inr s" using getState_returns by blast
  show ?thesis
  proof (cases "\<exists>q. a = QUOTE q \<and> \<not> (validateQuote q e = (Inr q, e) \<and> admissible e q)")
    case bad: True
    then obtain q err where "a = QUOTE q" "validateQuote q e = (Inl err, e)"
      using validateQuote_spec [OF core(2)] by blast
    then show ?thesis using True by (auto simp: submitAction_def assertCanSubmit_def bindS_def)
  next
    case False
    have "submitAction a e = (Inr s, ?e)"
      using True False s by (cases a) (auto simp: submitAction_def assertCanSubmit_def bindS_def)
    moreover have "status_wf ?e"
      using st True False by (cases a) (auto simp: status_wf_def Let_def)
    ultimately show ?thesis using s \<open>core_wf ?e\<close> True by (simp add: engine_wf_def)
  qed
qed

section \<open>Reachable scenarios\<close>

text \<open>
  A round draws at most three numbers; the bound on the rounds keeps the count of draws, which a
  checkpoint checks, a safe integer.
\<close>

inductive scenarioReached :: "QuantTraderInterviewEngine \<Rightarrow> bool" where
  start: "newQuantTraderInterviewEngine c = Inr e \<Longrightarrow> 3 * rcRounds (enConfig e) \<le> nat MAX_SAFE_INTEGER \<Longrightarrow> scenarioReached e"
| submit: "scenarioReached e \<Longrightarrow> scenarioReached (snd (submitAction a e))"
| round: "scenarioReached e \<Longrightarrow> scenarioReached (snd (advance e))"

lemma newEngine_wf: "newQuantTraderInterviewEngine config = Inr e \<Longrightarrow> engine_wf e"
proof -
  assume new: "newQuantTraderInterviewEngine config = Inr e"
  then obtain c where c: "resolveConfig config = Inr c"
    by (auto simp: newQuantTraderInterviewEngine_def bindE_eq_Inr)
  from new c obtain random where random: "newSeededRandom (rcSeed c) = Inr random"
    by (cases "newSeededRandom (rcSeed c)") (simp_all add: newQuantTraderInterviewEngine_def)
  from new c random obtain p where p: "newPortfolioTracker (rcInitialCash c) (asPartial (Some (rcRiskLimits c))) = Inr p"
    by (cases "newPortfolioTracker (rcInitialCash c) (asPartial (Some (rcRiskLimits c)))")
      (simp_all add: newQuantTraderInterviewEngine_def)
  from new c random p have run: "bindS markToFairValue (\<lambda>_. applyFairValueUpdateForCurrentRound) (newEngineState c random p) = (Inr (), e)"
    by (auto simp: newQuantTraderInterviewEngine_def split: sum.splits prod.splits)
  have res: "resolvedAssertions c" using c by (auto simp: resolveConfig_def bindE_eq_Inr guardE_eq_Inr Let_def)
  then have pos: "0 < rcFairValue c" "1 \<le> rcRounds c" by (simp_all add: resolvedAssertions_def PositiveSafeInteger_def)
  let ?s = "newEngineState c random p"
  from run obtain snap d where mk: "markToFairValue ?s = (Inr snap, d)" and up: "applyFairValueUpdateForCurrentRound d = (Inr (), e)"
    by (auto simp: bindS_eq_Inr)
  from markToFairValue_Inr [OF mk] obtain p1 where d: "d = ?s\<lparr> enPortfolio := p1 \<rparr>" and rem: "remarked p p1"
    and snap: "getSnapshot fl (rcFairValue c) p1 = Inr snap" by (auto simp: newEngineState_def)
  have "riskLimits p = rcRiskLimits c"
    using p by (auto simp: newPortfolioTracker_def asPartial_def PositionRiskLimitsSchema_def orElse_def Let_def
        split: option.splits if_splits)
  then have port: "portfolio_wf p1" "riskLimits p1 = rcRiskLimits c" "fillsHistory p1 = []" "currentPosition p1 = 0"
    using newPortfolioTracker_Inr [OF p] remarked_fields [OF rem] portfolio_wf_remarked [OF _ rem]
    by (simp_all add: portfolio_wf_def isSafeInteger_def MAX_SAFE_INTEGER_def)
  have draws: "drawsValue random = 0" using random by (auto simp: newSeededRandom_def split: if_splits)
  have "heldBy {} newLimitOrderBook"
    by (simp add: heldBy_empty book_wf_new) (simp add: newLimitOrderBook_def)
  then have core: "core_wf d"
    using port res pos draws snap
    by (simp add: core_wf_def d newEngineState_def withinHardLimit_def spreadSound_def engineSnapshot_def
        positionAfter_def quoteCount_def fl_def) (simp add: newLimitOrderBook_def)
  have "updated d e"
    by (rule fairValueUpdate_Inr [OF _ _ up]) (use res pos in \<open>simp_all add: d newEngineState_def\<close>)
  note u = this
  have "core_wf e" by (rule core_updated [OF core u])
  moreover have "status_wf e"
  proof -
    obtain fv ms q bs st where e: "e = d\<lparr> enFairValue := fv, enRoundEvents := ms, enPortfolio := q,
      enRiskBreaches := bs, enStatus := st \<rparr>"
      using u unfolding updated_def by blast
    have "length ms \<le> 1" "list_all (eventOk 1) ms" "length bs \<le> 1" "list_all (\<lambda>b. qbRound b = 1) bs"
      "if bs \<noteq> [] \<and> rcStopOnRiskBreach c then st = Scenario_RISK_STOPPED else st = Scenario_ACTIVE"
      using u by (auto simp: updated_def e d newEngineState_def)
    then show ?thesis using pos
      by (cases "bs \<noteq> [] \<and> rcStopOnRiskBreach c")
        (auto simp: status_wf_def Let_def e d newEngineState_def list_all_iff breachOk_def)
  qed
  ultimately show ?thesis by (simp add: engine_wf_def)
qed

lemma scenarioReached_wf:
  "scenarioReached e \<Longrightarrow> engine_wf e \<and> 3 * rcRounds (enConfig e) \<le> nat MAX_SAFE_INTEGER"
proof (induction rule: scenarioReached.induct)
  case (start c e)
  then show ?case using newEngine_wf by blast
next
  case (submit e a)
  then show ?case using submitAction_spec [of e a] by (elim conjE disjE exE) (auto simp: engine_wf_def)
next
  case (round e)
  then have wf: "engine_wf e" and bound: "3 * rcRounds (enConfig e) \<le> nat MAX_SAFE_INTEGER" by blast+
  have safe: "isSafeNat (drawsValue (enRandom e))"
    using wf bound by (auto simp: engine_wf_def core_wf_def status_wf_def Let_def isSafeNat_def)
  obtain res e' where run: "advance e = (res, e')" by fastforce
  show ?case
  proof (cases res)
    case (Inl err)
    have "e' = e"
      by (rule advance_throws [OF _ _ safe run [unfolded Inl]]) (use wf in \<open>simp_all add: engine_wf_def core_wf_def heldBy_def\<close>)
    then show ?thesis using wf bound run by simp
  next
    case (Inr v)
    then show ?thesis using advance_wf [OF wf _ safe] run bound by simp
  qed
qed

lemma scenarioReached_safe: "scenarioReached e \<Longrightarrow> isSafeNat (drawsValue (enRandom e))"
  using scenarioReached_wf [of e]
  by (auto simp: engine_wf_def core_wf_def status_wf_def Let_def isSafeNat_def)

lemma submit_accepted:
  assumes "engine_wf e" and "isOk (fst (submitAction a e))"
  shows "snd (submitAction a e) = e\<lparr> enPendingAction := Some a \<rparr>"
  using submitAction_spec [OF assms(1), of a] assms(2) by (elim disjE exE conjE) simp_all

lemma scenario_reached:
  "scenarioReached startEngine" "scenarioReached submittedEngine"
  "\<exists>v. scenarioReached (finishedEngine v) \<and> advance submittedEngine = (Inr v, finishedEngine v)
     \<and> evStudentAction v = QUOTE scenarioQuote \<and> evStudentFills v = [scenarioFill]"
proof -
  have bound: "3 * rcRounds (enConfig startEngine) \<le> nat MAX_SAFE_INTEGER"
    by (simp add: startEngine_def newEngineState_def sampleConfig_def MAX_SAFE_INTEGER_def)
  show start: "scenarioReached startEngine" using scenarioReached.start [OF scenario_new bound] .
  have "snd (submitAction (QUOTE scenarioQuote) startEngine) = submittedEngine"
    using submit_accepted [OF newEngine_wf [OF scenario_new] scenario_submit] by (simp add: submittedEngine_def)
  with scenarioReached.submit [OF start] show submitted: "scenarioReached submittedEngine" by metis
  show "\<exists>v. scenarioReached (finishedEngine v) \<and> advance submittedEngine = (Inr v, finishedEngine v)
     \<and> evStudentAction v = QUOTE scenarioQuote \<and> evStudentFills v = [scenarioFill]"
    using scenario_round scenarioReached.round [OF submitted] by (metis snd_conv)
qed

lemma finished_fields:
  "enHistory (finishedEngine v) = [v]" "enStatus (finishedEngine v) = Scenario_COMPLETED"
  "enConfig (finishedEngine v) = sampleConfig" "rcHardPositionLimit sampleConfig"
  "maxPosition (rcRiskLimits sampleConfig) = 4" "enFairValue (finishedEngine v) = 100"
  "fillsHistory (enPortfolio (finishedEngine v)) = [scenarioFill]"
  by (simp_all add: finishedEngine_def markedEngine_def filledEngine_def soldPortfolio_def takenEngine_def quotedEngine_def
      submittedEngine_def startEngine_def newEngineState_def sampleConfig_def)

section \<open>Properties\<close>

text \<open>
Property C27. Every reachable scenario is sound: no order rests in its book between rounds, its rounds are
  recorded once each and in order, the portfolio holds exactly the fills of the record and its
  position is their sum, every round has at most one fill, at the quoted price and within the quoted
  size and none after a pass, informed traders only take quotes on the wrong side of the fair
  value, the phase agrees with the number of recorded rounds, and the state shown to clients can
  always be computed.
\<close>

theorem reached_scenarios_are_sound:
  assumes "scenarioReached e"
  shows "bids (enBook e) = [] \<and> asks (enBook e) = []
    \<and> map evRound (enHistory e) = [1 ..< length (enHistory e) + 1] \<and> length (enHistory e) \<le> rcRounds (enConfig e)
    \<and> fillsHistory (enPortfolio e) = concat (map evStudentFills (enHistory e))
    \<and> currentPosition (enPortfolio e) = netSize (fillsHistory (enPortfolio e))
    \<and> (\<forall>v \<in> set (enHistory e). flowSound (evFairValue v) (actionQuote (evStudentAction v)) (evOrderFlowType v)
          (evIncomingMarketSide v) (evStudentFills v))
    \<and> (case enStatus e of
         Scenario_ACTIVE \<Rightarrow> enCurrentRound e = length (enHistory e) + 1 \<and> enCurrentRound e \<le> rcRounds (enConfig e)
       | Scenario_COMPLETED \<Rightarrow> length (enHistory e) = rcRounds (enConfig e)
       | Scenario_RISK_STOPPED \<Rightarrow> rcStopOnRiskBreach (enConfig e) \<and> enRiskBreaches e \<noteq> [])
    \<and> isOk (getState e)"
proof -
  have core: "core_wf e" and st: "status_wf e" using scenarioReached_wf [OF assms] by (simp_all add: engine_wf_def)
  obtain s where "getState e = Inr s" using getState_returns [OF core] by blast
  then show ?thesis using core st
    by (auto simp: core_wf_def status_wf_def Let_def heldBy_empty recordedRound_def list_all_iff
        split: QuantScenarioStatus.splits simp del: upt_Suc)
qed

theorem reached_scenarios_are_sound_witness:
  "\<exists>e v. enHistory e = [v] \<and> evStudentFills v = [scenarioFill] \<and> currentPosition (enPortfolio e) = - 3 \<and> isOk (getState e)"
proof -
  obtain v where "scenarioReached (finishedEngine v)" "evStudentFills v = [scenarioFill]" using scenario_reached(3) by blast
  then show ?thesis
    using reached_scenarios_are_sound [of "finishedEngine v"]
    by (intro exI [of _ "finishedEngine v"] exI [of _ v])
      (simp add: finished_fields netSize_def scenarioFill_def signedSize_def)
qed

text \<open>
Property C28. Operations of a scenario are atomic in every reachable state: a submission or a round that throws
  leaves the engine exactly as it was, random source, book, portfolio and counters included; an
  accepted submission only sets the pending action, and a round that returns consumes the pending
  action and appends its evidence to the record.
\<close>

theorem scenario_operations_are_atomic:
  assumes "scenarioReached e"
  shows "(case advance e of
        (Inl err, e') \<Rightarrow> e' = e
      | (Inr v, e') \<Rightarrow> enHistory e' = enHistory e @ [v] \<and> evRound v = enCurrentRound e
          \<and> enPendingAction e = Some (evStudentAction v) \<and> enPendingAction e' = None)
    \<and> (case submitAction a e of
        (Inl err, e') \<Rightarrow> e' = e
      | (Inr st, e') \<Rightarrow> e' = e\<lparr> enPendingAction := Some a \<rparr> \<and> getState e' = Inr st
          \<and> enStatus e = Scenario_ACTIVE \<and> enPendingAction e = None)"
proof -
  have wf: "engine_wf e" using scenarioReached_wf [OF assms] by blast
  note safe = scenarioReached_safe [OF assms]
  obtain res e' where run: "advance e = (res, e')" by fastforce
  have "case advance e of (Inl err, e') \<Rightarrow> e' = e
      | (Inr v, e') \<Rightarrow> enHistory e' = enHistory e @ [v] \<and> evRound v = enCurrentRound e
          \<and> enPendingAction e = Some (evStudentAction v) \<and> enPendingAction e' = None"
  proof (cases res)
    case (Inl err)
    have "e' = e"
      by (rule advance_throws [OF _ _ safe run [unfolded Inl]]) (use wf in \<open>simp_all add: engine_wf_def core_wf_def heldBy_def\<close>)
    then show ?thesis by (simp add: run Inl)
  next
    case (Inr v)
    from advance_wf [OF wf run [unfolded Inr] safe] show ?thesis by (simp add: run Inr)
  qed
  moreover have "case submitAction a e of (Inl err, e') \<Rightarrow> e' = e
      | (Inr st, e') \<Rightarrow> e' = e\<lparr> enPendingAction := Some a \<rparr> \<and> getState e' = Inr st
          \<and> enStatus e = Scenario_ACTIVE \<and> enPendingAction e = None"
    using submitAction_spec [OF wf, of a] by (elim disjE exE conjE) (simp_all only: prod.case sum.case refl simp_thms)
  ultimately show ?thesis by (rule conjI)
qed

theorem scenario_operations_are_atomic_witness:
  "\<exists>v e'. advance submittedEngine = (Inr v, e') \<and> enHistory e' = [v] \<and> enPendingAction e' = None"
proof -
  obtain v where run: "advance submittedEngine = (Inr v, finishedEngine v)" using scenario_reached(3) by blast
  have "enHistory submittedEngine = []" by (simp add: submittedEngine_def startEngine_def newEngineState_def)
  then show ?thesis using scenario_operations_are_atomic [OF scenario_reached(2), of PASS] run by simp
qed

text \<open>
Property C29. A scenario with a hard position limit never exceeds it: after every recorded round, and now, the
  position is at most the limit on either side.
\<close>

theorem hard_limits_are_never_exceeded:
  assumes "scenarioReached e" and "rcHardPositionLimit (enConfig e)" and "k \<le> length (enHistory e)"
  shows "\<bar>netSize (concat (map evStudentFills (take k (enHistory e))))\<bar> \<le> int (maxPosition (rcRiskLimits (enConfig e)))
    \<and> \<bar>currentPosition (enPortfolio e)\<bar> \<le> int (maxPosition (rcRiskLimits (enConfig e)))"
proof -
  have core: "core_wf e" using scenarioReached_wf [OF assms(1)] by (simp add: engine_wf_def)
  then have "\<bar>positionAfter j (enHistory e)\<bar> \<le> int (maxPosition (rcRiskLimits (enConfig e)))" if "j \<le> length (enHistory e)" for j
    using assms(2) that by (simp add: core_wf_def withinHardLimit_def)
  from this [OF assms(3)] this [OF order_refl] core show ?thesis by (simp add: positionAfter_def core_wf_def)
qed

theorem hard_limits_are_never_exceeded_witness:
  "\<exists>v :: QuantRoundEvidence. evStudentFills v = [scenarioFill] \<and> \<bar>netSize (concat (map evStudentFills [v]))\<bar> \<le> 4"
proof -
  obtain v where v: "scenarioReached (finishedEngine v)" "evStudentFills v = [scenarioFill]" using scenario_reached(3) by blast
  have "\<bar>netSize (concat (map evStudentFills (take 1 (enHistory (finishedEngine v)))))\<bar>
      \<le> int (maxPosition (rcRiskLimits (enConfig (finishedEngine v))))"
    using hard_limits_are_never_exceeded [OF v(1), of 1] by (simp add: finished_fields)
  then have "evStudentFills v = [scenarioFill] \<and> \<bar>netSize (concat (map evStudentFills [v]))\<bar> \<le> 4"
    using v(2) by (simp add: finished_fields)
  then show ?thesis by (rule exI [of _ v])
qed

section \<open>Results\<close>

lemma quotient_unit:
  assumes "a \<le> b" and "0 < b"
  shows "\<exists>x. js_div (of_nat a) (of_nat b) = Some x \<and> 0 \<le> x \<and> x \<le> 1"
proof -
  have q: "0 \<le> (of_nat a / of_nat b :: rat)" "(of_nat a / of_nat b :: rat) \<le> 1"
    using assms by (simp_all add: divide_le_eq)
  have one: "fl 1 = Some 1" using fl_of_int [of 1] by simp
  have "fl (of_nat a / of_nat b) \<noteq> None" by (rule fl_finite_mono [of _ 1]) (use q one in auto)
  then obtain x where x: "fl (of_nat a / of_nat b) = Some x" by blast
  then have "0 \<le> x" "x \<le> 1" using fl_sign [OF x] q fl_mono_nonneg [OF q(1) q(2) x one] by auto
  then show ?thesis using x assms by (simp add: js_div_def)
qed

lemma average_exists:
  assumes "fl t \<noteq> None" and "0 < n"
  shows "\<exists>x. js_div t (of_nat n) = Some x \<and> (0 \<le> t \<longrightarrow> 0 \<le> x)"
proof -
  have "\<bar>t / of_nat n\<bar> \<le> \<bar>t\<bar>"
  proof -
    have "\<bar>t\<bar> / of_nat n \<le> \<bar>t\<bar> / 1" by (rule divide_left_mono) (use assms(2) in simp_all)
    then show ?thesis by (simp add: abs_divide)
  qed
  then obtain x where "fl (t / of_nat n) = Some x" using fl_finite_mono [OF _ assms(1)] by blast
  then show ?thesis using fl_sign [of "t / of_nat n" x] assms(2) by (simp add: js_div_def)
qed

text \<open>
Property C30. Every reachable scenario that is over has a result: when its quotes are binary64 numbers, the
  result is computed without error, its counts and volumes are those of the record, its rates lie
  between zero and one, its score between zero and a hundred, and its portfolio is the one of the
  last mark.
\<close>

theorem completed_scenarios_have_results:
  assumes reached: "scenarioReached e" and over: "enStatus e \<noteq> Scenario_ACTIVE"
    and floats: "list_all floatQuote (enHistory e)"
  shows "\<exists>r. getResult e = Inr r \<and> srRoundsCompleted r = length (enHistory e) \<and> srPlannedRounds r = rcRounds (enConfig e)
    \<and> srTradeCount r = length (concat (map evStudentFills (enHistory e)))
    \<and> srFillVolume r = volumeOf (concat (map evStudentFills (enHistory e)))
    \<and> unitInterval (srCompletionRate r) \<and> unitInterval (srQuoteParticipationRate r) \<and> 0 \<le> srAverageSpread r
    \<and> 0 \<le> srObjectiveScore r \<and> srObjectiveScore r \<le> 100
    \<and> js_div (of_nat (srRoundsCompleted r)) (of_nat (srPlannedRounds r)) = Some (srCompletionRate r)
    \<and> srInformedFlowCount r + srNoiseFlowCount r \<le> srRoundsCompleted r
    \<and> srRiskBreaches r = enRiskBreaches e \<and> srCompletionStatus r = enStatus e
    \<and> psTradeCount (srFinalPortfolio r) = srTradeCount r \<and> srFinalFairValue r = enFairValue e
    \<and> srFamily r = rcFamily (enConfig e) \<and> srSeed r = rcSeed (enConfig e)
    \<and> getSnapshot fl (enFairValue e) (enPortfolio e) = Inr (srFinalPortfolio r)"
proof -
  let ?n = "length (enHistory e)" and ?c = "enConfig e"
  have core: "core_wf e" and st: "status_wf e" and bound: "3 * rcRounds ?c \<le> nat MAX_SAFE_INTEGER"
    using scenarioReached_wf [OF reached] by (simp_all add: engine_wf_def)
  obtain final where snap: "getSnapshot fl (enFairValue e) (enPortfolio e) = Inr final"
    using core by (auto simp: core_wf_def engineSnapshot_def isOk_iff split: sum.splits)
  note sf = getSnapshot_fields [OF snap]
  have rounds: "1 \<le> rcRounds ?c" "?n \<le> rcRounds ?c" using st by (auto simp: status_wf_def Let_def)
  have q: "enQuoteRounds e \<le> ?n" using core by (simp add: core_wf_def quoteCount_def)
  have spread: "fl (enTotalSpread e) \<noteq> None" "0 \<le> enTotalSpread e"
    using core floats by (simp_all add: core_wf_def spreadSound_def)
  obtain avg where avg: "(if 0 < enQuoteRounds e then js_div (enTotalSpread e) (of_nat (enQuoteRounds e)) else Some 0) = Some avg"
    "0 \<le> avg" using average_exists [OF spread(1), of "enQuoteRounds e"] spread(2) by (cases "0 < enQuoteRounds e") auto
  obtain rate where rate: "(if 0 < ?n then js_div (of_nat (enQuoteRounds e)) (of_nat ?n) else Some 0) = Some rate"
    "0 \<le> rate" "rate \<le> 1" using quotient_unit [OF q] by (cases "0 < ?n") auto
  obtain ratio where d: "js_div (of_nat ?n) (of_nat (rcRounds ?c)) = Some ratio" "0 \<le> ratio" "ratio \<le> 1"
    using quotient_unit [OF rounds(2)] rounds(1) by auto
  have breaches: "isSafeInteger (int (length (enRiskBreaches e)))"
  proof -
    have "length (enRiskBreaches e) \<le> 2 * ?n + 1" using st by (simp add: status_wf_def Let_def)
    then have "length (enRiskBreaches e) \<le> 3 * rcRounds ?c" using rounds by linarith
    then show ?thesis using bound by (simp add: isSafeInteger_def MAX_SAFE_INTEGER_def)
  qed
  let ?i = "\<lparr> siTotalPnL = psTotalPnL final, siAverageSpread = avg, siMaxDrawdown = psMaxDrawdown final,
      siRiskBreaches = Some (int (length (enRiskBreaches e))), siParticipationRate = Some rate \<rparr>"
  have "0 \<le> psMaxDrawdown final" using sf core by (simp add: core_wf_def portfolio_wf_def)
  then obtain score where score: "calculateMarketMakingScore ?i = Inr score" "0 \<le> score" "score \<le> 100"
    using avg(2) rate(2,3) breaches by (simp add: calculateMarketMakingScore_def unitInterval_def guardE_def)
  have trades: "psTradeCount final = length (concat (map evStudentFills (enHistory e)))"
    using sf core by (simp add: core_wf_def)
  have vol: "sum_list (map (\<lambda>v. volumeOf (evStudentFills v)) vs) = volumeOf (concat (map evStudentFills vs))" for vs
    by (induction vs) (simp_all add: volumeOf_def)
  have flows: "enInformedFlowCount e + enNoiseFlowCount e \<le> ?n" using core by (simp add: core_wf_def)
  show ?thesis
    using over flows
    by (simp add: getResult_def Let_def engineSnapshot_def snap amountOr_def avg rate d score trades vol
        unitInterval_def guardE_def del: length_greater_0_conv)
qed

theorem completed_scenarios_have_results_witness:
  "\<exists>v r. getResult (finishedEngine v) = Inr r \<and> srTradeCount r = 1 \<and> srFillVolume r = 3 \<and> srCompletionStatus r = Scenario_COMPLETED"
proof -
  obtain v where v: "scenarioReached (finishedEngine v)" "evStudentFills v = [scenarioFill]"
    "evStudentAction v = QUOTE scenarioQuote" using scenario_reached(3) by blast
  have "fl 99 = Some 99" by code_simp
  then have "floatQuote v" by (simp add: floatQuote_def v(3) actionQuote_def scenarioQuote_def)
  then show ?thesis
    using completed_scenarios_have_results [OF v(1)] v(2)
    by (auto simp: finished_fields volumeOf_def scenarioFill_def)
qed

end
