(* ===== verification/ReasoningGraphs.thy ===== *)
theory ReasoningGraphs
  imports Domain "HOL-Library.Char_ord" "HOL-Library.List_Lexorder"
begin

text \<open>
  Interview problems (\<^verbatim>\<open>packages/domain/src/problem.ts\<close>, \<^verbatim>\<open>reasoning.ts\<close>,
  \<^verbatim>\<open>disclosure.ts\<close>) and their validation by the pedagogical policy
  (\<^verbatim>\<open>packages/interview-engine/src/pedagogical-policy.ts\<close>): the preflight over an
  untrusted problem, and the graph context with its check that the milestones can be ordered.
  The checks that a value has the right shape (\<^verbatim>\<open>isRecord\<close>, \<^verbatim>\<open>hasOnlyKeys\<close>,
  \<^verbatim>\<open>Array.isArray\<close>) hold by typing.
\<close>

section \<open>Problems\<close>

record Approach =
  apId :: string
  apLabel :: string

record Milestone =
  mileId :: string
  mileDescription :: string
  mileApproachIds :: "string list"
  milePrerequisiteIds :: "string list"
  mileDisclosureIds :: "DisclosureId list"

record ReasoningEdge =
  edgeFrom :: string
  edgeTo :: string

record CommonError =
  cerId :: string
  cerDescription :: string

record ProblemExtension =
  pxId :: string
  pxPrompt :: string

record ReasoningGraph =
  rgVersion :: string
  rgApproaches :: "Approach list"
  rgMilestones :: "Milestone list"
  rgEdges :: "ReasoningEdge list"
  rgCommonErrors :: "CommonError list"
  rgExtensions :: "ProblemExtension list"

record ProtectedDisclosure =
  pdId :: DisclosureId
  pdFact :: string
  pdMinimumDisclosureLevel :: DisclosureLevel
  pdEquivalentFormulations :: "string list"

record InterviewProblem =
  ivId :: string
  ivVersion :: string
  ivPrompt :: string
  ivGivenInformation :: "string list"
  ivTopics :: "string list"
  ivDifficulty :: string
  ivReasoningGraph :: ReasoningGraph
  ivProtectedDisclosures :: "ProtectedDisclosure list"
  ivCanonicalSolution :: string
  ivVerificationNotes :: string

definition MilestoneSchema :: "Milestone \<Rightarrow> bool" where
  "MilestoneSchema m =
     (nonempty (mileId m) \<and> nonempty (mileDescription m)
      \<and> list_all nonempty (mileApproachIds m) \<and> mileApproachIds m \<noteq> []
      \<and> list_all nonempty (milePrerequisiteIds m) \<and> list_all idSchema (mileDisclosureIds m))"

definition ReasoningGraphSchema :: "ReasoningGraph \<Rightarrow> bool" where
  "ReasoningGraphSchema g =
     (nonempty (rgVersion g)
      \<and> list_all (\<lambda>a. nonempty (apId a) \<and> nonempty (apLabel a)) (rgApproaches g) \<and> rgApproaches g \<noteq> []
      \<and> list_all MilestoneSchema (rgMilestones g) \<and> rgMilestones g \<noteq> []
      \<and> list_all (\<lambda>e. nonempty (edgeFrom e) \<and> nonempty (edgeTo e)) (rgEdges g)
      \<and> list_all (\<lambda>c. nonempty (cerId c) \<and> nonempty (cerDescription c)) (rgCommonErrors g)
      \<and> list_all (\<lambda>x. nonempty (pxId x) \<and> nonempty (pxPrompt x)) (rgExtensions g))"

definition ProtectedDisclosureSchema :: "ProtectedDisclosure \<Rightarrow> bool" where
  "ProtectedDisclosureSchema d =
     (idSchema (pdId d) \<and> nonempty (pdFact d) \<and> DisclosureLevelSchema (pdMinimumDisclosureLevel d)
      \<and> list_all nonempty (pdEquivalentFormulations d) \<and> pdEquivalentFormulations d \<noteq> [])"

text \<open>The integrity check of the problem bank.\<close>

datatype GraphError = UnknownApproach string | UnknownPrerequisite string | InvalidEdge string string

definition milestoneIntegrity :: "string list \<Rightarrow> string list \<Rightarrow> Milestone \<Rightarrow> (GraphError, unit) result" where
  "milestoneIntegrity milestoneIds approachIds m =
     bindE (foldE (\<lambda>_ a. guardE (a \<in> set approachIds) (UnknownApproach a)) () (mileApproachIds m)) (\<lambda>_.
     foldE (\<lambda>_ p. guardE (p \<in> set milestoneIds) (UnknownPrerequisite p)) () (milePrerequisiteIds m))"

definition assertReasoningGraphIntegrity :: "ReasoningGraph \<Rightarrow> (GraphError, unit) result" where
  "assertReasoningGraphIntegrity g =
     (let milestoneIds = map mileId (rgMilestones g); approachIds = map apId (rgApproaches g) in
      bindE (foldE (\<lambda>_ m. milestoneIntegrity milestoneIds approachIds m) () (rgMilestones g)) (\<lambda>_.
      foldE (\<lambda>_ e. guardE (edgeFrom e \<in> set milestoneIds \<and> edgeTo e \<in> set milestoneIds)
                     (InvalidEdge (edgeFrom e) (edgeTo e))) () (rgEdges g)))"

section \<open>Limits and reason codes\<close>

definition MAX_APPROACHES :: nat where "MAX_APPROACHES = 256"
definition MAX_MILESTONES :: nat where "MAX_MILESTONES = 2048"
definition MAX_GRAPH_EDGES :: nat where "MAX_GRAPH_EDGES = 8192"
definition MAX_PROTECTED_DISCLOSURES :: nat where "MAX_PROTECTED_DISCLOSURES = 1024"
definition MAX_POLICY_ID_CHARACTERS :: nat where "MAX_POLICY_ID_CHARACTERS = 512"
definition MAX_POLICY_TEXT_CHARACTERS :: nat where "MAX_POLICY_TEXT_CHARACTERS = 100000"
definition MAX_APPROACH_REFS_PER_MILESTONE :: nat where "MAX_APPROACH_REFS_PER_MILESTONE = 256"
definition MAX_PREREQUISITES_PER_MILESTONE :: nat where "MAX_PREREQUISITES_PER_MILESTONE = 2048"
definition MAX_DISCLOSURE_REFS_PER_MILESTONE :: nat where "MAX_DISCLOSURE_REFS_PER_MILESTONE = 256"
definition MAX_EQUIVALENT_FORMULATIONS_PER_DISCLOSURE :: nat where
  "MAX_EQUIVALENT_FORMULATIONS_PER_DISCLOSURE = 256"
definition MAX_COMMON_ERRORS :: nat where "MAX_COMMON_ERRORS = 2048"
definition MAX_EXTENSIONS :: nat where "MAX_EXTENSIONS = 2048"
definition MAX_TOTAL_GRAPH_REFERENCES :: nat where "MAX_TOTAL_GRAPH_REFERENCES = 65536"
definition MAX_TOTAL_POLICY_TEXT_CHARACTERS :: nat where "MAX_TOTAL_POLICY_TEXT_CHARACTERS = 5000000"

datatype PolicyReasonCode =
    PROGRESS_CONTINUES | ALTERNATE_APPROACH_PROGRESS | LOCAL_CORRECTION_NEEDED
  | STRUCTURAL_REFRAMING_NEEDED | JUSTIFICATION_MISSING | STATEMENT_AMBIGUOUS
  | PROBLEM_MISUNDERSTOOD | PROGRESS_STALLED | STAGNATION_PERSISTS_AFTER_ASSISTANCE
  | PRIMARY_APPROACH_COMPLETE | NO_CURRENT_EVIDENCE | VERIFICATION_UNRESOLVED
  | CONFLICTING_ACTIVE_SIGNALS | MALFORMED_POLICY_INPUT | INVALID_REASONING_TARGET
  | RESOURCE_LIMIT_EXCEEDED | PROBLEM_CONTEXT_MISMATCH | PROBLEM_PROVENANCE_UNKNOWN
  | PROBLEM_DEFINITION_MISMATCH | STALE_TURN_CONTEXT | MISSING_PROBLEM_CONTEXT
  | ASSISTANCE_SATURATED

type_synonym 'a policy_result = "(PolicyReasonCode, 'a) result"

definition boundedString :: "string \<Rightarrow> nat \<Rightarrow> bool" where
  "boundedString s maximum = (length s \<le> maximum \<and> 0 < length (js_trim s))"

section \<open>Preflight\<close>

text \<open>The running totals of the preflight: references of the graph and characters of text.\<close>

record PolicyTotals =
  totalGraphReferences :: nat
  totalPolicyTextCharacters :: nat

definition charactersOf :: "string list \<Rightarrow> nat" where
  "charactersOf xs = sum_list (map length xs)"

definition addText :: "nat \<Rightarrow> PolicyTotals \<Rightarrow> PolicyTotals" where
  "addText n t = t\<lparr> totalPolicyTextCharacters := totalPolicyTextCharacters t + n \<rparr>"

definition addReferences :: "nat \<Rightarrow> PolicyTotals \<Rightarrow> PolicyTotals" where
  "addReferences n t = t\<lparr> totalGraphReferences := totalGraphReferences t + n \<rparr>"

definition withinText :: "PolicyTotals \<Rightarrow> PolicyTotals policy_result" where
  "withinText t =
     bindE (guardE (totalPolicyTextCharacters t \<le> MAX_TOTAL_POLICY_TEXT_CHARACTERS) RESOURCE_LIMIT_EXCEEDED) (\<lambda>_. Inr t)"

definition withinTotals :: "PolicyTotals \<Rightarrow> PolicyTotals policy_result" where
  "withinTotals t =
     bindE (guardE (totalGraphReferences t \<le> MAX_TOTAL_GRAPH_REFERENCES
                    \<and> totalPolicyTextCharacters t \<le> MAX_TOTAL_POLICY_TEXT_CHARACTERS) RESOURCE_LIMIT_EXCEEDED) (\<lambda>_. Inr t)"

text \<open>The loops over approaches, edges, common errors and extensions: two texts each.\<close>

definition preflightPair :: "nat \<Rightarrow> PolicyTotals \<Rightarrow> string \<times> string \<Rightarrow> PolicyTotals policy_result" where
  "preflightPair maximum t p =
     bindE (guardE (boundedString (fst p) MAX_POLICY_ID_CHARACTERS \<and> boundedString (snd p) maximum)
              MALFORMED_POLICY_INPUT) (\<lambda>_.
     withinText (addText (length (fst p) + length (snd p)) t))"

definition preflightMilestone :: "PolicyTotals \<Rightarrow> Milestone \<Rightarrow> PolicyTotals policy_result" where
  "preflightMilestone t m =
     (let as = mileApproachIds m; ps = milePrerequisiteIds m; ds = mileDisclosureIds m;
          bounded = list_all (\<lambda>i. boundedString i MAX_POLICY_ID_CHARACTERS) in
      bindE (guardE (boundedString (mileId m) MAX_POLICY_ID_CHARACTERS
                     \<and> boundedString (mileDescription m) MAX_POLICY_TEXT_CHARACTERS) MALFORMED_POLICY_INPUT) (\<lambda>_.
      bindE (guardE (length as \<le> MAX_APPROACH_REFS_PER_MILESTONE \<and> length ps \<le> MAX_PREREQUISITES_PER_MILESTONE
                     \<and> length ds \<le> MAX_DISCLOSURE_REFS_PER_MILESTONE) RESOURCE_LIMIT_EXCEEDED) (\<lambda>_.
      bindE (guardE (bounded as \<and> bounded ps \<and> bounded ds) MALFORMED_POLICY_INPUT) (\<lambda>_.
      withinTotals
        (addText (length (mileId m) + length (mileDescription m) + charactersOf as + charactersOf ps + charactersOf ds)
           (addReferences (length as + length ps + length ds) t))))))"

definition preflightDisclosure :: "PolicyTotals \<Rightarrow> ProtectedDisclosure \<Rightarrow> PolicyTotals policy_result" where
  "preflightDisclosure t d =
     (let fs = pdEquivalentFormulations d in
      bindE (guardE (boundedString (pdId d) MAX_POLICY_ID_CHARACTERS
                     \<and> boundedString (pdFact d) MAX_POLICY_TEXT_CHARACTERS) MALFORMED_POLICY_INPUT) (\<lambda>_.
      bindE (guardE (length fs \<le> MAX_EQUIVALENT_FORMULATIONS_PER_DISCLOSURE) RESOURCE_LIMIT_EXCEEDED) (\<lambda>_.
      bindE (guardE (list_all (\<lambda>f. boundedString f MAX_POLICY_TEXT_CHARACTERS) fs) MALFORMED_POLICY_INPUT) (\<lambda>_.
      withinTotals
        (addText (length (pdId d) + length (pdFact d) + charactersOf fs) (addReferences (length fs) t))))))"

definition preflightPolicyProblem :: "InterviewProblem \<Rightarrow> PolicyTotals policy_result" where
  "preflightPolicyProblem p =
     (let g = ivReasoningGraph p; ds = ivProtectedDisclosures p;
          given = ivGivenInformation p; topics = ivTopics p;
          start = \<lparr> totalGraphReferences = length (rgEdges g),
                    totalPolicyTextCharacters = length (ivPrompt p) + length (ivDifficulty p) + length (rgVersion g)
                      + charactersOf given + charactersOf topics \<rparr> in
      bindE (guardE (boundedString (ivId p) MAX_POLICY_ID_CHARACTERS
                     \<and> boundedString (ivVersion p) MAX_POLICY_ID_CHARACTERS) MALFORMED_POLICY_INPUT) (\<lambda>_.
      bindE (guardE (boundedString (ivPrompt p) MAX_POLICY_TEXT_CHARACTERS
                     \<and> length given \<le> MAX_MILESTONES
                     \<and> list_all (\<lambda>i. boundedString i MAX_POLICY_TEXT_CHARACTERS) given
                     \<and> length topics \<le> MAX_MILESTONES
                     \<and> list_all (\<lambda>i. boundedString i MAX_POLICY_ID_CHARACTERS) topics
                     \<and> boundedString (ivDifficulty p) MAX_POLICY_ID_CHARACTERS) MALFORMED_POLICY_INPUT) (\<lambda>_.
      bindE (guardE (boundedString (rgVersion g) MAX_POLICY_ID_CHARACTERS) MALFORMED_POLICY_INPUT) (\<lambda>_.
      bindE (guardE (length ds \<le> MAX_PROTECTED_DISCLOSURES) RESOURCE_LIMIT_EXCEEDED) (\<lambda>_.
      bindE (guardE (length (rgApproaches g) \<le> MAX_APPROACHES \<and> length (rgMilestones g) \<le> MAX_MILESTONES
                     \<and> length (rgEdges g) \<le> MAX_GRAPH_EDGES \<and> length (rgCommonErrors g) \<le> MAX_COMMON_ERRORS
                     \<and> length (rgExtensions g) \<le> MAX_EXTENSIONS) RESOURCE_LIMIT_EXCEEDED) (\<lambda>_.
      bindE (foldE (preflightPair MAX_POLICY_TEXT_CHARACTERS) start
               (map (\<lambda>a. (apId a, apLabel a)) (rgApproaches g))) (\<lambda>t.
      bindE (foldE preflightMilestone t (rgMilestones g)) (\<lambda>t.
      bindE (foldE (preflightPair MAX_POLICY_ID_CHARACTERS) t
               (map (\<lambda>e. (edgeFrom e, edgeTo e)) (rgEdges g))) (\<lambda>t.
      bindE (foldE (preflightPair MAX_POLICY_TEXT_CHARACTERS) t
               (map (\<lambda>c. (cerId c, cerDescription c)) (rgCommonErrors g))) (\<lambda>t.
      bindE (foldE (preflightPair MAX_POLICY_TEXT_CHARACTERS) t
               (map (\<lambda>x. (pxId x, pxPrompt x)) (rgExtensions g))) (\<lambda>t.
      foldE preflightDisclosure t ds)))))))))))"

section \<open>The graph context\<close>

record GraphContext =
  gcProblem :: InterviewProblem
  gcApproachIds :: "string list"
  gcMilestoneIds :: "string list"
  gcDisclosureIds :: "DisclosureId list"
  gcPredecessors :: "string list dict"

definition PolicyProblemViewSchema :: "InterviewProblem \<Rightarrow> bool" where
  "PolicyProblemViewSchema p =
     (nonempty (ivId p) \<and> nonempty (ivVersion p) \<and> ReasoningGraphSchema (ivReasoningGraph p)
      \<and> list_all ProtectedDisclosureSchema (ivProtectedDisclosures p)
      \<and> length (ivProtectedDisclosures p) \<le> MAX_PROTECTED_DISCLOSURES)"

text \<open>
  The loops that collect ids into a \<^verbatim>\<open>Set\<close>: a known id, or one that is not allowed, ends them.
\<close>

definition addNew :: "PolicyReasonCode \<Rightarrow> (string \<Rightarrow> bool) \<Rightarrow> string list \<Rightarrow> string \<Rightarrow> string list policy_result" where
  "addNew code ok seen x = bindE (guardE (ok x \<and> x \<notin> set seen) code) (\<lambda>_. Inr (seen @ [x]))"

definition collectIds :: "PolicyReasonCode \<Rightarrow> (string \<Rightarrow> bool) \<Rightarrow> string list \<Rightarrow> string list policy_result" where
  "collectIds code ok xs = foldE (addNew code ok) [] xs"

record DependencyGraph =
  dgPredecessors :: "string list dict"
  dgAdjacency :: "string list dict"
  dgIndegree :: "int dict"
  dgKeys :: "string list"

definition dlist :: "string list dict \<Rightarrow> string \<Rightarrow> string list" where
  "dlist m k = (case dget m k of None \<Rightarrow> [] | Some xs \<Rightarrow> xs)"

definition dint :: "int dict \<Rightarrow> string \<Rightarrow> int" where
  "dint m k = (case dget m k of None \<Rightarrow> 0 | Some n \<Rightarrow> n)"

text \<open>\<^verbatim>\<open>map.get(k)?.push(x)\<close>\<close>

definition dpush :: "string \<Rightarrow> string \<Rightarrow> string list dict \<Rightarrow> string list dict" where
  "dpush k x m = (case dget m k of None \<Rightarrow> m | Some xs \<Rightarrow> dput k (xs @ [x]) m)"

text \<open>\<^verbatim>\<open>JSON.stringify([from, to])\<close>\<close>

definition dependencyKey :: "string \<Rightarrow> string \<Rightarrow> string" where
  "dependencyKey a b = ''['' @ joinWith '','' (map jsonString [a, b]) @ '']''"

definition emptyDependencies :: "string list \<Rightarrow> DependencyGraph" where
  "emptyDependencies ids =
     \<lparr> dgPredecessors = map (\<lambda>i. (i, [])) ids, dgAdjacency = map (\<lambda>i. (i, [])) ids,
       dgIndegree = map (\<lambda>i. (i, 0)) ids, dgKeys = [] \<rparr>"

definition addDependency :: "string \<Rightarrow> string \<Rightarrow> DependencyGraph \<Rightarrow> DependencyGraph" where
  "addDependency a b d =
     (let k = dependencyKey a b in
      if k \<in> set (dgKeys d) then d
      else d\<lparr> dgKeys := dgKeys d @ [k], dgAdjacency := dpush a b (dgAdjacency d),
              dgIndegree := dput b (dint (dgIndegree d) b + 1) (dgIndegree d),
              dgPredecessors := dpush b a (dgPredecessors d) \<rparr>)"

definition addPrerequisite :: "string list \<Rightarrow> string \<Rightarrow> string list \<times> DependencyGraph \<Rightarrow> string
    \<Rightarrow> (string list \<times> DependencyGraph) policy_result" where
  "addPrerequisite milestoneIds m s p =
     bindE (addNew INVALID_REASONING_TARGET (\<lambda>x. x \<noteq> m \<and> x \<in> set milestoneIds) (fst s) p) (\<lambda>seen.
     Inr (seen, addDependency p m (snd s)))"

definition addMilestone :: "string list \<Rightarrow> string list \<Rightarrow> string list \<Rightarrow> DependencyGraph \<Rightarrow> Milestone
    \<Rightarrow> DependencyGraph policy_result" where
  "addMilestone milestoneIds approachIds disclosureIds d m =
     bindE (collectIds INVALID_REASONING_TARGET (\<lambda>a. a \<in> set approachIds) (mileApproachIds m)) (\<lambda>_.
     bindE (foldE (addPrerequisite milestoneIds (mileId m)) ([], d) (milePrerequisiteIds m)) (\<lambda>s.
     bindE (collectIds INVALID_REASONING_TARGET (\<lambda>x. x \<in> set disclosureIds) (mileDisclosureIds m)) (\<lambda>_.
     Inr (snd s))))"

definition addEdge :: "string list \<Rightarrow> string list \<times> DependencyGraph \<Rightarrow> ReasoningEdge
    \<Rightarrow> (string list \<times> DependencyGraph) policy_result" where
  "addEdge milestoneIds s e =
     bindE (guardE (edgeFrom e \<noteq> edgeTo e \<and> edgeFrom e \<in> set milestoneIds \<and> edgeTo e \<in> set milestoneIds)
              INVALID_REASONING_TARGET) (\<lambda>_.
     let k = dependencyKey (edgeFrom e) (edgeTo e) in
     bindE (addNew MALFORMED_POLICY_INPUT (\<lambda>_. True) (fst s) k) (\<lambda>keys.
     Inr (keys, addDependency (edgeFrom e) (edgeTo e) (snd s))))"

section \<open>Ordering the milestones\<close>

text \<open>
  The queue holds what lies at or after the cursor. A milestone is queued when its last
  dependency has been visited.
\<close>

definition releaseNext :: "int dict \<times> string list \<Rightarrow> string \<Rightarrow> int dict \<times> string list" where
  "releaseNext s x =
     (let remaining = dint (fst s) x - 1 in
      (dput x remaining (fst s), if remaining = 0 then snd s @ [x] else snd s))"

definition blockedCount :: "int dict \<Rightarrow> nat" where
  "blockedCount indegree = length (filter (\<lambda>k. 0 < dint indegree k) (remdups (dkeys indegree)))"

lemma blockedCount_card: "blockedCount m = card {k. 0 < dint m k}"
proof -
  have "{k. 0 < dint m k} = set (filter (\<lambda>k. 0 < dint m k) (remdups (dkeys m)))"
    using dget_None_iff [of m] by (auto simp: dint_def split: option.splits)
  then show ?thesis by (metis blockedCount_def distinct_card distinct_filter distinct_remdups)
qed

lemma finite_blocked: "finite {k. 0 < dint m k}"
proof -
  have "{k. 0 < dint m k} \<subseteq> set (dkeys m)" using dget_None_iff [of m] by (auto simp: dint_def split: option.splits)
  then show ?thesis using finite_subset by blast
qed

lemma dint_dput: "dint (dput k v m) j = (if j = k then v else dint m j)"
  by (simp add: dint_def dget_dput)

lemma releaseNext_measure:
  "blockedCount (fst (releaseNext s x)) + length (snd (releaseNext s x)) \<le> blockedCount (fst s) + length (snd s)"
proof -
  let ?B = "{k. 0 < dint (fst s) k}" and ?B' = "{k. 0 < dint (fst (releaseNext s x)) k}"
  have sub: "?B' \<subseteq> ?B" by (auto simp: releaseNext_def Let_def dint_dput split: if_splits)
  show ?thesis
  proof (cases "dint (fst s) x = 1")
    case True
    then have "?B' \<subseteq> ?B - {x}" "x \<in> ?B" using sub by (auto simp: releaseNext_def Let_def dint_dput)
    then have "card ?B' < card ?B"
      by (intro psubset_card_mono [OF finite_blocked]) auto
    then show ?thesis using True by (simp add: blockedCount_card releaseNext_def Let_def)
  next
    case False
    then show ?thesis using card_mono [OF finite_blocked sub] by (simp add: blockedCount_card releaseNext_def Let_def)
  qed
qed

lemma releaseAll_measure:
  "blockedCount (fst (foldl releaseNext s xs)) + length (snd (foldl releaseNext s xs)) \<le> blockedCount (fst s) + length (snd s)"
proof (induction xs arbitrary: s)
  case (Cons x xs)
  show ?case using Cons.IH [of "releaseNext s x"] releaseNext_measure [of s x] by simp
qed simp

function visitLoop :: "string list dict \<Rightarrow> string list \<Rightarrow> int dict \<Rightarrow> nat \<Rightarrow> nat" where
  "visitLoop adjacency [] indegree visited = visited"
| "visitLoop adjacency (current # queue) indegree visited =
     (case foldl releaseNext (indegree, queue) (sort (dlist adjacency current)) of
        (indegree', queue') \<Rightarrow> visitLoop adjacency queue' indegree' (visited + 1))"
  by pat_completeness auto
termination
proof (relation "measure (\<lambda>(_, queue, indegree, _). blockedCount indegree + length queue)", goal_cases)
  case (2 adjacency current queue indegree visited indegree' queue')
  from 2 [symmetric] show ?case
    using releaseAll_measure [of "(indegree, queue)" "sort (dlist adjacency current)"] by simp
qed simp

definition visitedMilestones :: "string list \<Rightarrow> DependencyGraph \<Rightarrow> nat" where
  "visitedMilestones ids d =
     visitLoop (dgAdjacency d) (sort (filter (\<lambda>i. dget (dgIndegree d) i = Some 0) ids)) (dgIndegree d) 0"

definition validateGraphContext :: "InterviewProblem \<Rightarrow> GraphContext policy_result" where
  "validateGraphContext p =
     bindE (preflightPolicyProblem p) (\<lambda>_.
     bindE (guardE (PolicyProblemViewSchema p) MALFORMED_POLICY_INPUT) (\<lambda>_.
     let g = ivReasoningGraph p in
     bindE (guardE (length (rgApproaches g) \<le> MAX_APPROACHES \<and> length (rgMilestones g) \<le> MAX_MILESTONES
                    \<and> length (rgEdges g) \<le> MAX_GRAPH_EDGES) RESOURCE_LIMIT_EXCEEDED) (\<lambda>_.
     bindE (collectIds MALFORMED_POLICY_INPUT (\<lambda>_. True) (map apId (rgApproaches g))) (\<lambda>approachIds.
     bindE (collectIds MALFORMED_POLICY_INPUT (\<lambda>_. True) (map mileId (rgMilestones g))) (\<lambda>milestoneIds.
     bindE (collectIds MALFORMED_POLICY_INPUT (\<lambda>_. True) (map pdId (ivProtectedDisclosures p))) (\<lambda>disclosureIds.
     bindE (foldE (addMilestone milestoneIds approachIds disclosureIds) (emptyDependencies milestoneIds)
              (rgMilestones g)) (\<lambda>d.
     bindE (foldE (addEdge milestoneIds) ([], d) (rgEdges g)) (\<lambda>s.
     bindE (guardE (visitedMilestones milestoneIds (snd s) = length (rgMilestones g)) INVALID_REASONING_TARGET) (\<lambda>_.
     Inr \<lparr> gcProblem = p, gcApproachIds = approachIds, gcMilestoneIds = milestoneIds,
           gcDisclosureIds = disclosureIds,
           gcPredecessors = map (\<lambda>(k, vs). (k, sort (uniq vs))) (dgPredecessors (snd s)) \<rparr>)))))))))"

end
