(* ===== verification/PolicyInputs.thy ===== *)
theory PolicyInputs
  imports ReasoningGraphs SessionState
begin

text \<open>
  What the pedagogical policy reads from a session
  (\<^verbatim>\<open>packages/interview-engine/src/pedagogical-policy.ts\<close>): the accepted verifications, the
  active evidence, the assistance already exposed and the disclosure ledger. The policy does not
  trust the state it is given, so each collector rechecks the invariants it relies on and names
  the reason when one fails. \<open>collate\<close> stands for \<^verbatim>\<open>localeCompare\<close>.
\<close>

section \<open>Verification bases\<close>

text \<open>\<^verbatim>\<open>packages/interview-engine/src/verification-compatibility.ts\<close>\<close>

definition isVerificationBasisStillCompatible :: "GenerationBasis \<Rightarrow> SessionState \<Rightarrow> bool \<Rightarrow> Compatibility" where
  "isVerificationBasisStillCompatible basis current boardRevisionIndependent =
     (if \<not> boardRevisionIndependent then isGenerationBasisStillCompatible basis current
      else case (dget (turns current) (gbTurnId basis), lastCommittedInputSequence current, gbInputEpisodeId basis) of
        (Some turn, Some lastSequence, Some episodeId) \<Rightarrow>
          (if dget (inputEpisodes current) episodeId = None then UNKNOWN
           else if tnInputEpisodeId turn \<noteq> episodeId then INCOMPATIBLE
           else if gbContextEpoch basis \<noteq> contextEpoch current
              \<or> gbCommittedInputSequence basis \<noteq> lastSequence
              \<or> gbTranscriptRevision basis \<noteq> transcriptRevision current
              \<or> gbProblemStateRevision basis \<noteq> problemStateRevision current
              \<or> gbPolicyRevision basis \<noteq> policyRevision current then INCOMPATIBLE
           else COMPATIBLE)
      | _ \<Rightarrow> UNKNOWN)"

section \<open>Limits\<close>

definition MAX_EVIDENCE_KEYS :: nat where "MAX_EVIDENCE_KEYS = 4096"
definition MAX_EVIDENCE_RECORDS :: nat where "MAX_EVIDENCE_RECORDS = 16384"
definition MAX_DELIVERIES :: nat where "MAX_DELIVERIES = 4096"
definition MAX_VERIFICATION_REQUESTS :: nat where "MAX_VERIFICATION_REQUESTS = 2048"
definition MAX_EVENT_IDS :: nat where "MAX_EVENT_IDS = 100000"
definition MAX_EVIDENCE_PROVENANCE_IDS :: nat where "MAX_EVIDENCE_PROVENANCE_IDS = 4096"
definition MAX_TOTAL_VERIFICATION_PROVENANCE_IDS :: nat where "MAX_TOTAL_VERIFICATION_PROVENANCE_IDS = 65536"
definition MAX_TOTAL_DELIVERY_DISCLOSURE_REFS :: nat where "MAX_TOTAL_DELIVERY_DISCLOSURE_REFS = 65536"

section \<open>Targets and signals\<close>

datatype TargetKind = Kind_CLAIM | Kind_MILESTONE | Kind_SKILL | Kind_APPROACH | Kind_TURN

record PolicyTarget =
  ptKind :: TargetKind
  ptId :: string

fun targetFromSubject :: "EvidenceSubject \<Rightarrow> PolicyTarget" where
  "targetFromSubject (CLAIM c) = \<lparr> ptKind = Kind_CLAIM, ptId = c \<rparr>"
| "targetFromSubject (MILESTONE m) = \<lparr> ptKind = Kind_MILESTONE, ptId = m \<rparr>"
| "targetFromSubject (SKILL s) = \<lparr> ptKind = Kind_SKILL, ptId = s \<rparr>"
| "targetFromSubject (APPROACH a) = \<lparr> ptKind = Kind_APPROACH, ptId = a \<rparr>"

fun kindName :: "TargetKind \<Rightarrow> string" where
  "kindName Kind_CLAIM = ''claim''"
| "kindName Kind_MILESTONE = ''milestone''"
| "kindName Kind_SKILL = ''skill''"
| "kindName Kind_APPROACH = ''approach''"
| "kindName Kind_TURN = ''turn''"

definition targetToString :: "PolicyTarget \<Rightarrow> string" where
  "targetToString t = kindName (ptKind t) @ '':'' @ ptId t"

definition sameTarget :: "PolicyTarget \<Rightarrow> PolicyTarget \<Rightarrow> bool" where
  "sameTarget l r = (ptKind l = ptKind r \<and> ptId l = ptId r)"

record ActiveEvidenceSignal =
  asKey :: EvidenceKey
  asValue :: EvidenceValue
  asTarget :: PolicyTarget
  asCanonicalKey :: string

record VerificationSignal =
  vgTarget :: PolicyTarget
  vgStatus :: VerificationStatus
  vgSequence :: nat

record VerificationEvidenceLink =
  vlKey :: EvidenceKey
  vlBasis :: GenerationBasis
  vlBoardRevisionIndependent :: bool
  vlSourceGenerationId :: "GenerationId option"
  vlResult :: VerificationResult
  vlResultSequence :: nat

record VerificationSnapshot =
  vnSignals :: "VerificationSignal list"
  vnEvidenceLinks :: "VerificationEvidenceLink dict"

record AssistanceRecord =
  arGenerationId :: GenerationId
  arAction :: SocraticAction
  arTarget :: string
  arMaximumDisclosure :: DisclosureLevel
  arEffectiveDisclosureLevel :: DisclosureLevel
  arTurnSequence :: nat

record AssistanceSnapshot =
  asRecords :: "AssistanceRecord list"
  asDisclosedIds :: "DisclosureId list"

text \<open>\<^verbatim>\<open>Array.prototype.sort\<close> with a comparison function is stable.\<close>

fun insertWith :: "('a \<Rightarrow> 'a \<Rightarrow> int) \<Rightarrow> 'a \<Rightarrow> 'a list \<Rightarrow> 'a list" where
  "insertWith cmp x [] = [x]"
| "insertWith cmp x (y # ys) = (if cmp x y \<le> 0 then x # y # ys else y # insertWith cmp x ys)"

definition sortWith :: "('a \<Rightarrow> 'a \<Rightarrow> int) \<Rightarrow> 'a list \<Rightarrow> 'a list" where
  "sortWith cmp xs = foldr (insertWith cmp) xs []"

type_synonym collation = "string \<Rightarrow> string \<Rightarrow> int"

definition compareSignals :: "collation \<Rightarrow> ActiveEvidenceSignal \<Rightarrow> ActiveEvidenceSignal \<Rightarrow> int" where
  "compareSignals collate l r =
     (if evLastUpdatedSequence (asValue l) \<noteq> evLastUpdatedSequence (asValue r)
      then int (evLastUpdatedSequence (asValue r)) - int (evLastUpdatedSequence (asValue l))
      else collate (asCanonicalKey l) (asCanonicalKey r))"

definition compareVerification :: "collation \<Rightarrow> VerificationSignal \<Rightarrow> VerificationSignal \<Rightarrow> int" where
  "compareVerification collate l r =
     (if vgSequence l \<noteq> vgSequence r then int (vgSequence r) - int (vgSequence l)
      else collate (targetToString (vgTarget l)) (targetToString (vgTarget r)))"

definition evidenceValuesEqual :: "EvidenceValue \<Rightarrow> EvidenceValue \<Rightarrow> bool" where
  "evidenceValuesEqual l r =
     (evValue l = evValue r \<and> evInferenceConfidence l = evInferenceConfidence r
      \<and> evLastUpdatedSequence l = evLastUpdatedSequence r
      \<and> length (evEvidenceEventIds l) = length (evEvidenceEventIds r)
      \<and> list_all2 (=) (evEvidenceEventIds l) (evEvidenceEventIds r))"

text \<open>The position of an event in the log, from one; a repeated id has its last position.\<close>

definition eventSequenceOf :: "EventId list \<Rightarrow> EventId \<Rightarrow> nat option" where
  "eventSequenceOf ids = map_of (rev (zip ids [1 ..< Suc (length ids)]))"

definition beforeSequence :: "(EventId \<Rightarrow> nat option) \<Rightarrow> nat \<Rightarrow> EventId \<Rightarrow> bool" where
  "beforeSequence position n i = (case position i of None \<Rightarrow> False | Some k \<Rightarrow> k < n)"

section \<open>Verification signals\<close>

record VerificationScan =
  scTotal :: nat
  scLinks :: "VerificationEvidenceLink dict"
  scSignals :: "VerificationSignal list"

definition acceptedRequestOk :: "string \<Rightarrow> VerificationRequestState \<Rightarrow> VerificationResult \<Rightarrow> nat \<Rightarrow> bool" where
  "acceptedRequestOk requestKey r result resultSequence =
     (let q = vfRequest r in
      VerificationResultSchema result \<and> EvidenceKeySchema (vqEvidenceKey q) \<and> GenerationBasisSchema (vqBasis q)
      \<and> isSafeNat resultSequence \<and> vqVerificationRequestId q = requestKey
      \<and> str_between 1 128 (vqVerifier q)
      \<and> opt_all (\<lambda>s. boundedString s MAX_POLICY_ID_CHARACTERS) (vqSourceGenerationId q)
      \<and> \<not> (vqBoardRevisionIndependent q \<and> vqSourceGenerationId q \<noteq> None)
      \<and> vqInterpretationConfidence q = vrInterpretationConfidence result
      \<and> vqVerifier q = vrVerifier result
      \<and> vqEvidenceEventIds q \<noteq> [] \<and> length (vqEvidenceEventIds q) \<le> MAX_EVIDENCE_PROVENANCE_IDS)"

definition resultOrderOk :: "(EventId \<Rightarrow> nat option) \<Rightarrow> VerificationRequestState \<Rightarrow> EventId \<Rightarrow> nat \<Rightarrow> bool" where
  "resultOrderOk position r resultEventId resultSequence =
     (case (position (vfRequestedEventId r), position resultEventId) of
        (Some requestedSequence, Some authoritative) \<Rightarrow>
          authoritative = resultSequence \<and> requestedSequence < resultSequence
          \<and> list_all (beforeSequence position requestedSequence) (vqEvidenceEventIds (vfRequest r))
      | _ \<Rightarrow> False)"

definition verificationLink :: "VerificationRequestState \<Rightarrow> VerificationResult \<Rightarrow> nat \<Rightarrow> VerificationEvidenceLink" where
  "verificationLink r result resultSequence =
     \<lparr> vlKey = vqEvidenceKey (vfRequest r), vlBasis = vqBasis (vfRequest r),
       vlBoardRevisionIndependent = vqBoardRevisionIndependent (vfRequest r),
       vlSourceGenerationId = vqSourceGenerationId (vfRequest r), vlResult = result,
       vlResultSequence = resultSequence \<rparr>"

definition verificationSignal :: "VerificationRequestState \<Rightarrow> VerificationResult \<Rightarrow> nat \<Rightarrow> VerificationSignal" where
  "verificationSignal r result resultSequence =
     \<lparr> vgTarget = targetFromSubject (ekSubject (vqEvidenceKey (vfRequest r))),
       vgStatus = (if vrInterpretationConfidence result < 1 then UNRESOLVED else vrStatus result),
       vgSequence = resultSequence \<rparr>"

definition scanVerification ::
  "SessionState \<Rightarrow> GraphContext \<Rightarrow> VerificationScan \<Rightarrow> string \<times> VerificationRequestState \<Rightarrow> VerificationScan policy_result" where
  "scanVerification st g scan entry =
     (let r = snd entry; q = vfRequest r; key = vqEvidenceKey q; position = eventSequenceOf (eventIds st) in
      if vfStatus r \<noteq> ACCEPTED then Inr scan
      else case (vfResult r, vfResultEventId r, vfResultSequence r) of
        (Some result, Some resultEventId, Some resultSequence) \<Rightarrow>
          bindE (guardE (acceptedRequestOk (fst entry) r result resultSequence) MALFORMED_POLICY_INPUT) (\<lambda>_.
          let n = scTotal scan + length (vqEvidenceEventIds q) in
          bindE (guardE (n \<le> MAX_TOTAL_VERIFICATION_PROVENANCE_IDS) RESOURCE_LIMIT_EXCEEDED) (\<lambda>_.
          bindE (guardE (resultOrderOk position r resultEventId resultSequence) MALFORMED_POLICY_INPUT) (\<lambda>_.
          bindE (guardE (ekSubject key = CLAIM (evidenceSubjectId (ekSubject key))
                         \<and> ekDimension key = CORRECTNESS) MALFORMED_POLICY_INPUT) (\<lambda>_.
          bindE (guardE (vrStatus result = VERIFIED \<longrightarrow> dget (scLinks scan) (vfRequestedEventId r) = None)
                   MALFORMED_POLICY_INPUT) (\<lambda>_.
          let links = (if vrStatus result = VERIFIED
                       then dput (vfRequestedEventId r) (verificationLink r result resultSequence) (scLinks scan)
                       else scLinks scan);
              relevant = (ekProblemId key = ivId (gcProblem g)
                \<and> isVerificationBasisStillCompatible (vqBasis q) st (vqBoardRevisionIndependent q) = COMPATIBLE) in
          Inr \<lparr> scTotal = n, scLinks = links,
                scSignals = (if relevant then scSignals scan @ [verificationSignal r result resultSequence]
                             else scSignals scan) \<rparr>)))))
      | _ \<Rightarrow> Inl MALFORMED_POLICY_INPUT)"

definition collectVerificationSignals ::
  "collation \<Rightarrow> SessionState \<Rightarrow> GraphContext \<Rightarrow> VerificationSnapshot policy_result" where
  "collectVerificationSignals collate st g =
     bindE (guardE (length (verificationRequests st) \<le> MAX_VERIFICATION_REQUESTS) RESOURCE_LIMIT_EXCEEDED) (\<lambda>_.
     bindE (guardE (length (eventIds st) \<le> MAX_EVENT_IDS) RESOURCE_LIMIT_EXCEEDED) (\<lambda>_.
     bindE (guardE (list_all (\<lambda>i. boundedString i MAX_POLICY_ID_CHARACTERS) (eventIds st)) MALFORMED_POLICY_INPUT) (\<lambda>_.
     bindE (foldE (scanVerification st g) \<lparr> scTotal = 0, scLinks = [], scSignals = [] \<rparr> (verificationRequests st)) (\<lambda>scan.
     Inr \<lparr> vnSignals = sortWith (compareVerification collate) (scSignals scan), vnEvidenceLinks = scLinks scan \<rparr>))))"

section \<open>Active evidence\<close>

record EvidenceScan =
  esRecordCount :: nat
  esActiveKeys :: "string list"
  esSignals :: "ActiveEvidenceSignal list"

definition activeOf :: "EvidenceRecordState list \<Rightarrow> EvidenceRecordState list" where
  "activeOf history = filter (\<lambda>r. erStatus r = Evidence_ACTIVE) history"

text \<open>The record agrees with its own key, the log and the projection.\<close>

definition recordMatchesKey :: "string \<Rightarrow> EvidenceRecordState \<Rightarrow> bool" where
  "recordMatchesKey storedKey r =
     (let key = erKey r in
      boundedString (ekProblemId key) MAX_POLICY_ID_CHARACTERS
      \<and> boundedString (ptId (targetFromSubject (ekSubject key))) MAX_POLICY_ID_CHARACTERS
      \<and> evidenceKeyToString key = storedKey \<and> isEvidenceValueAllowed key (evValue (erValue r)))"

definition recordMatchesLog :: "SessionState \<Rightarrow> EvidenceRecordState \<Rightarrow> bool" where
  "recordMatchesLog st r =
     (let v = erValue r; position = eventSequenceOf (eventIds st) in
      isSafeNat (evLastUpdatedSequence v) \<and> evLastUpdatedSequence v \<le> sequence st
      \<and> position (erEvidenceEventId r) = Some (evLastUpdatedSequence v)
      \<and> length (evEvidenceEventIds v) \<le> MAX_EVIDENCE_PROVENANCE_IDS
      \<and> list_all (beforeSequence position (evLastUpdatedSequence v)) (evEvidenceEventIds v))"

definition recordMatchesProjection :: "SessionState \<Rightarrow> string \<Rightarrow> EvidenceRecordState \<Rightarrow> bool" where
  "recordMatchesProjection st storedKey r =
     (case dget (studentEvidence st) storedKey of
        None \<Rightarrow> False
      | Some v \<Rightarrow> EvidenceValueSchema v \<and> evidenceValuesEqual v (erValue r))"

text \<open>
  Evidence derived from a verification must be what that verification proved. The result tells
  whether one of the verifications no longer applies.
\<close>

definition linkMatches :: "VerificationEvidenceLink \<Rightarrow> EvidenceRecordState \<Rightarrow> bool" where
  "linkMatches l r =
     (evidenceKeyIdentity (vlKey l) = evidenceKeyIdentity (erKey r)
      \<and> evValue (erValue r) = CORRECT
      \<and> evInferenceConfidence (erValue r) = vrInterpretationConfidence (vlResult l)
      \<and> vrStatus (vlResult l) = VERIFIED \<and> \<not> vrInterpretationConfidence (vlResult l) < 1
      \<and> vlResultSequence l < evLastUpdatedSequence (erValue r))"

definition checkProvenance ::
  "SessionState \<Rightarrow> VerificationEvidenceLink dict \<Rightarrow> EvidenceRecordState \<Rightarrow> bool \<Rightarrow> EventId \<Rightarrow> bool policy_result" where
  "checkProvenance st links r stale i =
     (case dget links i of
        None \<Rightarrow> Inr stale
      | Some l \<Rightarrow>
          bindE (guardE (linkMatches l r) MALFORMED_POLICY_INPUT) (\<lambda>_.
          Inr (stale \<or> isVerificationBasisStillCompatible (vlBasis l) st (vlBoardRevisionIndependent l) \<noteq> COMPATIBLE)))"

fun subjectKnown :: "GraphContext \<Rightarrow> EvidenceSubject \<Rightarrow> bool" where
  "subjectKnown g (MILESTONE m) = (m \<in> set (gcMilestoneIds g))"
| "subjectKnown g (APPROACH a) = (a \<in> set (gcApproachIds g))"
| "subjectKnown g (CLAIM c) = True"
| "subjectKnown g (SKILL s) = True"

definition activeSignal :: "string \<Rightarrow> EvidenceRecordState \<Rightarrow> ActiveEvidenceSignal" where
  "activeSignal storedKey r =
     \<lparr> asKey = erKey r, asValue = erValue r, asTarget = targetFromSubject (ekSubject (erKey r)),
       asCanonicalKey = storedKey \<rparr>"

definition scanActiveRecord ::
  "SessionState \<Rightarrow> GraphContext \<Rightarrow> VerificationEvidenceLink dict \<Rightarrow> EvidenceScan \<Rightarrow> string
     \<Rightarrow> EvidenceRecordState \<Rightarrow> EvidenceScan policy_result" where
  "scanActiveRecord st g links scan storedKey r =
     (let ids = evEvidenceEventIds (erValue r) in
      bindE (guardE (ids \<noteq> []) MALFORMED_POLICY_INPUT) (\<lambda>_.
      bindE (guardE (length ids \<le> MAX_EVIDENCE_PROVENANCE_IDS) RESOURCE_LIMIT_EXCEEDED) (\<lambda>_.
      bindE (guardE (EvidenceKeySchema (erKey r) \<and> EvidenceValueSchema (erValue r)
                     \<and> erEvidenceEventId r \<in> set (eventIds st)) MALFORMED_POLICY_INPUT) (\<lambda>_.
      bindE (guardE (recordMatchesKey storedKey r) MALFORMED_POLICY_INPUT) (\<lambda>_.
      bindE (guardE (recordMatchesLog st r) MALFORMED_POLICY_INPUT) (\<lambda>_.
      bindE (guardE (recordMatchesProjection st storedKey r) MALFORMED_POLICY_INPUT) (\<lambda>_.
      bindE (foldE (checkProvenance st links r) False ids) (\<lambda>stale.
      let scan = scan\<lparr> esActiveKeys := esActiveKeys scan @ [storedKey] \<rparr> in
      if ekProblemId (erKey r) \<noteq> ivId (gcProblem g) then Inr scan
      else
        bindE (guardE (subjectKnown g (ekSubject (erKey r))) INVALID_REASONING_TARGET) (\<lambda>_.
        if stale then Inr scan
        else Inr (scan\<lparr> esSignals := esSignals scan @ [activeSignal storedKey r] \<rparr>))))))))))"

definition scanHistory ::
  "SessionState \<Rightarrow> GraphContext \<Rightarrow> VerificationEvidenceLink dict \<Rightarrow> EvidenceScan
     \<Rightarrow> string \<times> EvidenceRecordState list \<Rightarrow> EvidenceScan policy_result" where
  "scanHistory st g links scan entry =
     (let storedKey = fst entry; history = snd entry;
          scan = scan\<lparr> esRecordCount := esRecordCount scan + length history \<rparr> in
      bindE (guardE (boundedString storedKey MAX_POLICY_TEXT_CHARACTERS) MALFORMED_POLICY_INPUT) (\<lambda>_.
      bindE (guardE (esRecordCount scan \<le> MAX_EVIDENCE_RECORDS) RESOURCE_LIMIT_EXCEEDED) (\<lambda>_.
      bindE (guardE (length (activeOf history) \<le> 1) MALFORMED_POLICY_INPUT) (\<lambda>_.
      case activeOf history of
        [] \<Rightarrow> bindE (guardE (dget (studentEvidence st) storedKey = None) MALFORMED_POLICY_INPUT) (\<lambda>_. Inr scan)
      | r # _ \<Rightarrow> scanActiveRecord st g links scan storedKey r))))"

definition projectionOk :: "EvidenceScan \<Rightarrow> string \<times> EvidenceValue \<Rightarrow> bool" where
  "projectionOk scan entry =
     (fst entry \<in> set (esActiveKeys scan) \<and> evEvidenceEventIds (snd entry) \<noteq> []
      \<and> length (evEvidenceEventIds (snd entry)) \<le> MAX_EVIDENCE_PROVENANCE_IDS
      \<and> EvidenceValueSchema (snd entry))"

definition collectActiveEvidence ::
  "collation \<Rightarrow> SessionState \<Rightarrow> GraphContext \<Rightarrow> VerificationEvidenceLink dict \<Rightarrow> ActiveEvidenceSignal list policy_result" where
  "collectActiveEvidence collate st g links =
     bindE (guardE (length (evidenceHistory st) \<le> MAX_EVIDENCE_KEYS) RESOURCE_LIMIT_EXCEEDED) (\<lambda>_.
     bindE (guardE (length (studentEvidence st) \<le> MAX_EVIDENCE_KEYS) RESOURCE_LIMIT_EXCEEDED) (\<lambda>_.
     bindE (guardE (length (eventIds st) \<le> MAX_EVENT_IDS) RESOURCE_LIMIT_EXCEEDED) (\<lambda>_.
     bindE (guardE (isSafeNat (sequence st) \<and> sequence st = length (eventIds st)
                    \<and> list_all (\<lambda>i. boundedString i MAX_POLICY_ID_CHARACTERS) (eventIds st)) MALFORMED_POLICY_INPUT) (\<lambda>_.
     bindE (guardE (allDistinct (eventIds st)) MALFORMED_POLICY_INPUT) (\<lambda>_.
     bindE (foldE (scanHistory st g links) \<lparr> esRecordCount = 0, esActiveKeys = [], esSignals = [] \<rparr>
              (evidenceHistory st)) (\<lambda>scan.
     bindE (guardE (list_all (projectionOk scan) (studentEvidence st)) MALFORMED_POLICY_INPUT) (\<lambda>_.
     Inr (sortWith (compareSignals collate) (esSignals scan)))))))))"

section \<open>Exposed assistance\<close>

text \<open>
  The schemas of deliveries and proposals that the policy keeps for itself. They are strict: of
  the fields of a board action only those named here may be present.
\<close>

definition PolicyBoardActionSchema :: "BoardAction \<Rightarrow> bool" where
  "PolicyBoardActionSchema a =
     (baOperation a \<in> {write_text, write_equation, draw_arrow, circle, highlight, point_at, erase_ai_annotation}
      \<and> opt_all (\<lambda>c. length c \<le> MAX_POLICY_TEXT_CHARACTERS) (baContent a)
      \<and> opt_all (str_between 1 MAX_POLICY_ID_CHARACTERS) (baTargetShapeId a)
      \<and> opt_all isSafeNat (baExpectedShapeRevision a)
      \<and> str_between 1 MAX_POLICY_TEXT_CHARACTERS (baAnnotationPurpose a)
      \<and> baTargetAnnotationId a = None \<and> baTargetRegion a = None \<and> baPlacement a = None \<and> baPoints a = None
      \<and> baFromShapeId a = None \<and> baFromShapeRevision a = None \<and> baToShapeId a = None \<and> baToShapeRevision a = None
      \<and> baWidth a = None \<and> baHeight a = None)"

definition PolicyInterviewerProposalSchema :: "InterviewerProposal \<Rightarrow> bool" where
  "PolicyInterviewerProposalSchema p =
     (DisclosureLevelSchema (ipClaimedDisclosureLevel p)
      \<and> list_all idSchema (ipClaimedDisclosureIds p) \<and> length (ipClaimedDisclosureIds p) \<le> MAX_DISCLOSURE_REFS_PER_MILESTONE
      \<and> opt_all (str_between 1 MAX_POLICY_TEXT_CHARACTERS) (ipSpeechText p)
      \<and> opt_all (\<lambda>as. list_all PolicyBoardActionSchema as \<and> length as \<le> MAX_DISCLOSURE_REFS_PER_MILESTONE) (ipBoardActions p)
      \<and> (ipSpeechText p \<noteq> None \<or> 0 < (case ipBoardActions p of None \<Rightarrow> 0 | Some as \<Rightarrow> length as)))"

fun PolicyDeliveryContentSchema :: "DeliveryContent \<Rightarrow> bool" where
  "PolicyDeliveryContentSchema (TEXT t) = str_between 1 MAX_POLICY_TEXT_CHARACTERS t"
| "PolicyDeliveryContentSchema (AUDIO t r) =
     (str_between 1 MAX_POLICY_TEXT_CHARACTERS t \<and> str_between 1 MAX_POLICY_TEXT_CHARACTERS r)"
| "PolicyDeliveryContentSchema (WHITEBOARD a) = PolicyBoardActionSchema a"

definition PolicyDeliverySchema :: "DeliveryAtom \<Rightarrow> bool" where
  "PolicyDeliverySchema a =
     (str_between 1 MAX_POLICY_ID_CHARACTERS (deliveryId a) \<and> str_between 1 MAX_POLICY_ID_CHARACTERS (atomGenerationId a)
      \<and> PolicyDeliveryContentSchema (atomContent a)
      \<and> list_all idSchema (disclosureIds a) \<and> length (disclosureIds a) \<le> MAX_DISCLOSURE_REFS_PER_MILESTONE
      \<and> DisclosureLevelSchema (effectiveDisclosureLevel a))"

text \<open>Equal canonical JSON is structural equality.\<close>

fun deliveryMatchesProposal :: "DeliveryContent \<Rightarrow> InterviewerProposal \<Rightarrow> bool" where
  "deliveryMatchesProposal (TEXT t) p = (ipSpeechText p = Some t)"
| "deliveryMatchesProposal (AUDIO t _) p = (ipSpeechText p = Some t)"
| "deliveryMatchesProposal (WHITEBOARD a) p = (\<exists>b \<in> set (case ipBoardActions p of None \<Rightarrow> [] | Some as \<Rightarrow> as). b = a)"

definition disclosureMap :: "GraphContext \<Rightarrow> ProtectedDisclosure dict" where
  "disclosureMap g = foldl (\<lambda>m d. dput (pdId d) d m) [] (ivProtectedDisclosures (gcProblem g))"

record AssistanceScan =
  ssTotal :: nat
  ssByGeneration :: "AssistanceRecord dict"
  ssProposals :: "InterviewerProposal dict"
  ssDisclosedIds :: "DisclosureId list"

definition historicalProposal :: "AssistanceScan \<Rightarrow> GenerationId \<Rightarrow> GenerationState \<Rightarrow> InterviewerProposal policy_result" where
  "historicalProposal scan i gen =
     (case dget (ssProposals scan) i of
        Some p \<Rightarrow> Inr p
      | None \<Rightarrow>
          (case gnValidatedInterviewerProposal gen of
             None \<Rightarrow> Inl MALFORMED_POLICY_INPUT
           | Some p \<Rightarrow> bindE (guardE (PolicyInterviewerProposalSchema p) MALFORMED_POLICY_INPUT) (\<lambda>_. Inr p)))"

definition exposureOk ::
  "SessionState \<Rightarrow> GenerationBasis \<Rightarrow> DeliveryAtom \<Rightarrow> InterviewerProposal \<Rightarrow> RealizationRequest \<Rightarrow> TurnState \<Rightarrow> bool" where
  "exposureOk st basis a p request turn =
     (RealizationRequestSchema request \<and> rrTarget request \<noteq> None
      \<and> tnTurnId turn = gbTurnId basis \<and> Some (tnInputEpisodeId turn) = gbInputEpisodeId basis
      \<and> PositiveSafeInteger (tnCommittedSequence turn) \<and> gbCommittedInputSequence basis = tnCommittedSequence turn
      \<and> (case dget (inputEpisodes st) (tnInputEpisodeId turn) of
           None \<Rightarrow> False
         | Some ep \<Rightarrow> epInputEpisodeId ep = tnInputEpisodeId turn \<and> epStatus ep = Episode_COMMITTED)
      \<and> ipRealizedAction p = rrRequiredAction request
      \<and> ipClaimedDisclosureLevel p \<le> rrMaximumDisclosure request
      \<and> allDistinct (ipClaimedDisclosureIds p) \<and> deliveryMatchesProposal (atomContent a) p
      \<and> effectiveDisclosureLevel a \<le> rrMaximumDisclosure request \<and> allDistinct (disclosureIds a))"

definition disclosureAtMost :: "GraphContext \<Rightarrow> DisclosureLevel \<Rightarrow> DisclosureId \<Rightarrow> bool" where
  "disclosureAtMost g level i =
     (case dget (disclosureMap g) i of None \<Rightarrow> False | Some d \<Rightarrow> pdMinimumDisclosureLevel d \<le> level)"

definition exposedIdsOk :: "GraphContext \<Rightarrow> DeliveryAtom \<Rightarrow> InterviewerProposal \<Rightarrow> RealizationRequest \<Rightarrow> bool" where
  "exposedIdsOk g a p request =
     (let allowed = (case rrAllowedDisclosureIds request of None \<Rightarrow> [] | Some ids \<Rightarrow> ids) in
      list_all (\<lambda>i. i \<in> set allowed \<and> dget (disclosureMap g) i \<noteq> None) (ipClaimedDisclosureIds p)
      \<and> list_all (disclosureAtMost g (rrMaximumDisclosure request)) allowed
      \<and> list_all (\<lambda>i. disclosureAtMost g (effectiveDisclosureLevel a) i \<and> i \<in> set allowed) (disclosureIds a))"

definition assistanceRecord :: "DeliveryAtom \<Rightarrow> RealizationRequest \<Rightarrow> TurnState \<Rightarrow> AssistanceRecord" where
  "assistanceRecord a request turn =
     \<lparr> arGenerationId = atomGenerationId a, arAction = rrRequiredAction request,
       arTarget = (case rrTarget request of None \<Rightarrow> [] | Some t \<Rightarrow> t),
       arMaximumDisclosure = rrMaximumDisclosure request,
       arEffectiveDisclosureLevel = effectiveDisclosureLevel a, arTurnSequence = tnCommittedSequence turn \<rparr>"

definition keepStrongest :: "AssistanceRecord \<Rightarrow> AssistanceRecord dict \<Rightarrow> AssistanceRecord dict" where
  "keepStrongest r m =
     (case dget m (arGenerationId r) of
        None \<Rightarrow> dput (arGenerationId r) r m
      | Some current \<Rightarrow>
          if arEffectiveDisclosureLevel current < arEffectiveDisclosureLevel r
          then dput (arGenerationId r) r m else m)"

definition scanExposure ::
  "SessionState \<Rightarrow> GraphContext \<Rightarrow> AssistanceScan \<Rightarrow> DeliveryAtom \<Rightarrow> AssistanceScan policy_result" where
  "scanExposure st g scan a =
     (case dget (generations st) (atomGenerationId a) of
        None \<Rightarrow> Inl MALFORMED_POLICY_INPUT
      | Some gen \<Rightarrow>
          bindE (guardE (gnGenerationId gen = atomGenerationId a \<and> gnInterviewerProposalValidated gen
                         \<and> (gnStatus gen = Gen_VALIDATED \<or> gnStatus gen = Gen_SUPERSEDED)) MALFORMED_POLICY_INPUT) (\<lambda>_.
          bindE (guardE (GenerationBasisSchema (gnBasis gen) \<and> gbInputEpisodeId (gnBasis gen) \<noteq> None)
                   MALFORMED_POLICY_INPUT) (\<lambda>_.
          bindE (historicalProposal scan (atomGenerationId a) gen) (\<lambda>p.
          case (gnPedagogicalAction gen, dget (turns st) (gbTurnId (gnBasis gen))) of
            (Some request, Some turn) \<Rightarrow>
              bindE (guardE (exposureOk st (gnBasis gen) a p request turn \<and> exposedIdsOk g a p request)
                       MALFORMED_POLICY_INPUT) (\<lambda>_.
              Inr (scan\<lparr> ssProposals := dput (atomGenerationId a) p (ssProposals scan),
                        ssDisclosedIds := uniq (ssDisclosedIds scan @ disclosureIds a),
                        ssByGeneration := keepStrongest (assistanceRecord a request turn) (ssByGeneration scan) \<rparr>))
          | _ \<Rightarrow> Inl MALFORMED_POLICY_INPUT))))"

definition scanDelivery ::
  "SessionState \<Rightarrow> GraphContext \<Rightarrow> AssistanceScan \<Rightarrow> string \<times> DeliveryAtom \<Rightarrow> AssistanceScan policy_result" where
  "scanDelivery st g scan entry =
     (let a = snd entry; n = ssTotal scan + length (disclosureIds a) in
      bindE (guardE (PolicyDeliverySchema a \<and> deliveryId a = fst entry) MALFORMED_POLICY_INPUT) (\<lambda>_.
      bindE (guardE (n \<le> MAX_TOTAL_DELIVERY_DISCLOSURE_REFS) RESOURCE_LIMIT_EXCEEDED) (\<lambda>_.
      if isDisclosedStatus (atomStatus a) then scanExposure st g (scan\<lparr> ssTotal := n \<rparr>) a
      else Inr (scan\<lparr> ssTotal := n \<rparr>))))"

definition compareAssistance :: "collation \<Rightarrow> AssistanceRecord \<Rightarrow> AssistanceRecord \<Rightarrow> int" where
  "compareAssistance collate l r =
     (if arTurnSequence l \<noteq> arTurnSequence r then int (arTurnSequence l) - int (arTurnSequence r)
      else collate (arGenerationId l) (arGenerationId r))"

definition collectExposedAssistance ::
  "collation \<Rightarrow> SessionState \<Rightarrow> GraphContext \<Rightarrow> AssistanceSnapshot policy_result" where
  "collectExposedAssistance collate st g =
     bindE (guardE (length (deliveries st) \<le> MAX_DELIVERIES) RESOURCE_LIMIT_EXCEEDED) (\<lambda>_.
     bindE (foldE (scanDelivery st g) \<lparr> ssTotal = 0, ssByGeneration = [], ssProposals = [], ssDisclosedIds = [] \<rparr>
              (sortWith (\<lambda>l r. collate (fst l) (fst r)) (deliveries st))) (\<lambda>scan.
     Inr \<lparr> asRecords = sortWith (compareAssistance collate) (dvals (ssByGeneration scan)),
           asDisclosedIds = ssDisclosedIds scan \<rparr>))"

section \<open>The ledger\<close>

definition validateDisclosureLedger ::
  "SessionState \<Rightarrow> GraphContext \<Rightarrow> DisclosureId list \<Rightarrow> DisclosureId list policy_result" where
  "validateDisclosureLedger st g exposed =
     bindE (guardE (length (disclosureLedger st) \<le> MAX_PROTECTED_DISCLOSURES) RESOURCE_LIMIT_EXCEEDED) (\<lambda>_.
     bindE (collectIds MALFORMED_POLICY_INPUT (\<lambda>i. idSchema i \<and> i \<in> set (gcDisclosureIds g)) (disclosureLedger st)) (\<lambda>delivered.
     bindE (guardE (length delivered = length exposed \<and> set delivered \<subseteq> set exposed) MALFORMED_POLICY_INPUT) (\<lambda>_.
     Inr delivered)))"

end
