(* ===== verification/CanonicalJson.thy ===== *)
theory CanonicalJson
  imports ReasoningGraphs BoundedMath
begin

text \<open>
  The bounded canonical JSON of \<^verbatim>\<open>packages/interview-engine/src/context-compiler.ts\<close>, and the
  fingerprint of a problem. The values encoded here hold no numbers but integers; the digest
  \<^verbatim>\<open>createHash("sha256")\<close> is the parameter \<open>sha256\<close>.
\<close>

datatype CanonicalValue =
    JNull | JBool bool | JInt int | JString string | JArray "CanonicalValue list" | JObject "(string \<times> CanonicalValue) list"

definition MAX_CANONICAL_JSON_DEPTH :: nat where "MAX_CANONICAL_JSON_DEPTH = 64"
definition MAX_CANONICAL_JSON_NODES :: nat where "MAX_CANONICAL_JSON_NODES = 100000"
definition MAX_CANONICAL_JSON_STRING_CHARACTERS :: nat where "MAX_CANONICAL_JSON_STRING_CHARACTERS = 1000000"
definition MAX_CANONICAL_JSON_TOTAL_TEXT_CHARACTERS :: nat where
  "MAX_CANONICAL_JSON_TOTAL_TEXT_CHARACTERS = 5000000"

datatype CanonicalError = DepthExceeded | NodesExceeded | StringExceeded | TextExceeded

record CanonicalJsonBudget =
  budgetNodes :: nat
  budgetTextCharacters :: nat

definition consumeCanonicalNode :: "CanonicalJsonBudget \<Rightarrow> (CanonicalError, CanonicalJsonBudget) result" where
  "consumeCanonicalNode b =
     bindE (guardE (budgetNodes b + 1 \<le> MAX_CANONICAL_JSON_NODES) NodesExceeded) (\<lambda>_.
     Inr (b\<lparr> budgetNodes := budgetNodes b + 1 \<rparr>))"

definition consumeCanonicalText :: "CanonicalJsonBudget \<Rightarrow> string \<Rightarrow> (CanonicalError, CanonicalJsonBudget) result" where
  "consumeCanonicalText b s =
     bindE (guardE (length s \<le> MAX_CANONICAL_JSON_STRING_CHARACTERS) StringExceeded) (\<lambda>_.
     bindE (guardE (budgetTextCharacters b + length s \<le> MAX_CANONICAL_JSON_TOTAL_TEXT_CHARACTERS) TextExceeded) (\<lambda>_.
     Inr (b\<lparr> budgetTextCharacters := budgetTextCharacters b + length s \<rparr>)))"

lemma size_entries_insort: "size_list f (insort_key g x xs) = f x + size_list f xs + 1"
  by (induction xs) auto

lemma size_entries_sort: "size_list f (sort_key g xs) = size_list f xs"
  by (induction xs) (simp_all add: size_entries_insort)

text \<open>
  The items of an array and the entries of an object are encoded one after another, all drawing
  on one budget.
\<close>

function canonicalJsonBounded :: "CanonicalValue \<Rightarrow> nat \<Rightarrow> CanonicalJsonBudget \<Rightarrow> (CanonicalError, string \<times> CanonicalJsonBudget) result"
  and canonicalItems :: "CanonicalValue list \<Rightarrow> nat \<Rightarrow> CanonicalJsonBudget \<Rightarrow> (CanonicalError, string list \<times> CanonicalJsonBudget) result"
  and canonicalEntries :: "(string \<times> CanonicalValue) list \<Rightarrow> nat \<Rightarrow> CanonicalJsonBudget \<Rightarrow> (CanonicalError, string list \<times> CanonicalJsonBudget) result"
where
  "canonicalJsonBounded v depth budget =
     bindE (guardE (depth \<le> MAX_CANONICAL_JSON_DEPTH) DepthExceeded) (\<lambda>_.
     bindE (consumeCanonicalNode budget) (\<lambda>b.
     case v of
       JNull \<Rightarrow> Inr (''null'', b)
     | JString s \<Rightarrow> bindE (consumeCanonicalText b s) (\<lambda>b. Inr (jsonString s, b))
     | JBool x \<Rightarrow> Inr (if x then ''true'' else ''false'', b)
     | JInt n \<Rightarrow> Inr (bigintToString n, b)
     | JArray xs \<Rightarrow>
         bindE (guardE (length xs \<le> MAX_CANONICAL_JSON_NODES) NodesExceeded) (\<lambda>_.
         bindE (canonicalItems xs (depth + 1) b) (\<lambda>r.
         Inr (''['' @ joinWith '','' (fst r) @ '']'', snd r)))
     | JObject kvs \<Rightarrow>
         bindE (guardE (length kvs \<le> MAX_CANONICAL_JSON_NODES) NodesExceeded) (\<lambda>_.
         bindE (foldE consumeCanonicalText b (map fst kvs)) (\<lambda>b.
         bindE (canonicalEntries (sort_key fst kvs) (depth + 1) b) (\<lambda>r.
         Inr (''{'' @ joinWith '','' (fst r) @ ''}'', snd r))))))"
| "canonicalItems [] depth b = Inr ([], b)"
| "canonicalItems (x # xs) depth b =
     bindE (canonicalJsonBounded x depth b) (\<lambda>r.
     bindE (canonicalItems xs depth (snd r)) (\<lambda>rs. Inr (fst r # fst rs, snd rs)))"
| "canonicalEntries [] depth b = Inr ([], b)"
| "canonicalEntries (kv # kvs) depth b =
     bindE (canonicalJsonBounded (snd kv) depth b) (\<lambda>r.
     bindE (canonicalEntries kvs depth (snd r)) (\<lambda>rs. Inr ((jsonString (fst kv) @ '':'' @ fst r) # fst rs, snd rs)))"
  by pat_completeness auto
termination
  by (relation "measure (\<lambda>x. case x of Inl (v, _) \<Rightarrow> 2 * size v | Inr (Inl (xs, _)) \<Rightarrow> 2 * size_list size xs + 1
        | Inr (Inr (kvs, _)) \<Rightarrow> 2 * size_list (size_prod (\<lambda>_. 0) size) kvs + 1)")
    (auto simp: size_entries_sort prod.size_gen)

definition canonicalJson :: "CanonicalValue \<Rightarrow> (CanonicalError, string) result" where
  "canonicalJson v =
     bindE (canonicalJsonBounded v 0 \<lparr> budgetNodes = 0, budgetTextCharacters = 0 \<rparr>) (\<lambda>r. Inr (fst r))"

section \<open>The fingerprint of a problem\<close>

definition jstrings :: "string list \<Rightarrow> CanonicalValue" where
  "jstrings xs = JArray (map JString xs)"

definition milestoneJson :: "Milestone \<Rightarrow> CanonicalValue" where
  "milestoneJson m = JObject
     [(''id'', JString (mileId m)), (''description'', JString (mileDescription m)),
      (''approachIds'', jstrings (mileApproachIds m)),
      (''optionalPrerequisiteIds'', jstrings (milePrerequisiteIds m)),
      (''protectedDisclosureIds'', jstrings (mileDisclosureIds m))]"

definition reasoningGraphJson :: "ReasoningGraph \<Rightarrow> CanonicalValue" where
  "reasoningGraphJson g = JObject
     [(''version'', JString (rgVersion g)),
      (''approaches'', JArray (map (\<lambda>a. JObject [(''id'', JString (apId a)), (''label'', JString (apLabel a))]) (rgApproaches g))),
      (''milestones'', JArray (map milestoneJson (rgMilestones g))),
      (''edges'', JArray (map (\<lambda>e. JObject [(''from'', JString (edgeFrom e)), (''to'', JString (edgeTo e))]) (rgEdges g))),
      (''commonErrors'', JArray (map (\<lambda>c. JObject [(''id'', JString (cerId c)), (''description'', JString (cerDescription c))])
          (rgCommonErrors g))),
      (''extensions'', JArray (map (\<lambda>x. JObject [(''id'', JString (pxId x)), (''prompt'', JString (pxPrompt x))])
          (rgExtensions g)))]"

definition disclosureJson :: "ProtectedDisclosure \<Rightarrow> CanonicalValue" where
  "disclosureJson d = JObject
     [(''id'', JString (pdId d)), (''fact'', JString (pdFact d)),
      (''minimumDisclosureLevel'', JInt (int (pdMinimumDisclosureLevel d))),
      (''equivalentFormulations'', jstrings (pdEquivalentFormulations d))]"

definition providerContextJson :: "InterviewProblem \<Rightarrow> CanonicalValue" where
  "providerContextJson p = JObject
     [(''id'', JString (ivId p)), (''version'', JString (ivVersion p)),
      (''public'', JObject [(''prompt'', JString (ivPrompt p)), (''givenInformation'', jstrings (ivGivenInformation p))]),
      (''interviewer'', JObject
         [(''topics'', jstrings (ivTopics p)), (''difficulty'', JString (ivDifficulty p)),
          (''reasoningGraph'', reasoningGraphJson (ivReasoningGraph p)),
          (''protectedDisclosures'', JArray (map disclosureJson (ivProtectedDisclosures p)))])]"

definition createProviderContextSpecFingerprintSync :: "(string \<Rightarrow> string) \<Rightarrow> InterviewProblem \<Rightarrow> string option" where
  "createProviderContextSpecFingerprintSync sha256 p =
     (case canonicalJson (providerContextJson p) of
        Inl _ \<Rightarrow> None
      | Inr s \<Rightarrow> if isSha256Hex (sha256 s) then Some (sha256 s) else None)"

end
