(* ===== verification/PedagogicalPolicy.thy ===== *)
theory PedagogicalPolicy
  imports PolicyInputs CanonicalJson
begin

text \<open>
  The pedagogical policy (\<^verbatim>\<open>packages/interview-engine/src/pedagogical-policy.ts\<close>): it
  classifies the progress of a candidate from validated signals, chooses the action of the
  interviewer from the classification and the assistance already given, and authorizes the facts
  that may be disclosed. Whatever cannot be validated is answered by a decision that discloses
  nothing. A \<^verbatim>\<open>parse\<close> of the request that throws is \<open>Inl ()\<close>.
\<close>

section \<open>Decisions\<close>

datatype ProgressClassification =
    PRODUCTIVE_PROGRESS | Class_LOCAL_ERROR | Class_STRUCTURAL_ERROR | UNSUPPORTED_CLAIM | AMBIGUOUS_STATEMENT
  | MISUNDERSTANDING | TRUE_STAGNATION | REPEATED_STAGNATION | UNEXPECTED_VALID_APPROACH
  | COMPLETED_PRIMARY_APPROACH | INSUFFICIENT_EVIDENCE

datatype InterventionStage = OBSERVE | PROBE | FOCUS | NUDGE | HINT | SATURATED

record PolicyDecision =
  dcClassification :: ProgressClassification
  dcInterventionStage :: InterventionStage
  dcReasonCode :: PolicyReasonCode
  dcRealizationRequest :: RealizationRequest
  dcWaitingPreferred :: bool
  dcEscalationJustified :: bool
  dcTarget :: PolicyTarget

record ClassificationResult =
  clClassification :: ProgressClassification
  clReasonCode :: PolicyReasonCode
  clTarget :: PolicyTarget
  clVerificationStatus :: "VerificationStatus option"
  clCompletedApproachId :: "string option"
  clAlternateApproachId :: "string option"

record ActionPlan =
  planAction :: SocraticAction
  planRequestedDisclosure :: DisclosureLevel
  planStage :: InterventionStage
  planEscalationJustified :: bool
  planReasonCode :: "PolicyReasonCode option"

definition parseRequest :: "RealizationRequest \<Rightarrow> (unit, RealizationRequest) result" where
  "parseRequest r = bindE (guardE (RealizationRequestSchema r) ()) (\<lambda>_. Inr r)"

definition failClosedDecision :: "TurnId \<Rightarrow> PolicyReasonCode \<Rightarrow> (unit, PolicyDecision) result" where
  "failClosedDecision turnId code =
     (let safeTurnId = (if boundedString turnId MAX_POLICY_ID_CHARACTERS then turnId else ''invalid-turn'');
          target = \<lparr> ptKind = Kind_TURN, ptId = safeTurnId \<rparr> in
      bindE (parseRequest \<lparr> rrRequiredAction = CLARIFY, rrTarget = Some (targetToString target),
               rrMaximumDisclosure = 0, rrAllowedDisclosureIds = None \<rparr>) (\<lambda>request.
      Inr \<lparr> dcClassification = (if code = NO_CURRENT_EVIDENCE \<or> code = MISSING_PROBLEM_CONTEXT
                                then INSUFFICIENT_EVIDENCE else AMBIGUOUS_STATEMENT),
            dcInterventionStage = PROBE, dcReasonCode = code, dcRealizationRequest = request,
            dcWaitingPreferred = False, dcEscalationJustified = False, dcTarget = target \<rparr>))"

section \<open>Signals and milestones\<close>

definition MIN_ACTIONABLE_EVIDENCE_CONFIDENCE :: rat where
  "MIN_ACTIONABLE_EVIDENCE_CONFIDENCE = (case fl (7/10) of None \<Rightarrow> 0 | Some x \<Rightarrow> x)"

definition actionableEvidence :: "ActiveEvidenceSignal list \<Rightarrow> ActiveEvidenceSignal list" where
  "actionableEvidence evidence =
     filter (\<lambda>s. MIN_ACTIONABLE_EVIDENCE_CONFIDENCE \<le> evInferenceConfidence (asValue s)) evidence"

definition findSignal ::
  "ActiveEvidenceSignal list \<Rightarrow> EvidenceDimension \<Rightarrow> EvidenceRating list \<Rightarrow> ActiveEvidenceSignal option" where
  "findSignal signals dimension ratings =
     find (\<lambda>s. ekDimension (asKey s) = dimension \<and> evValue (asValue s) \<in> set ratings) signals"

definition conflictSequence ::
  "ActiveEvidenceSignal list \<Rightarrow> VerificationSignal list \<Rightarrow> PolicyTarget \<Rightarrow> nat option" where
  "conflictSequence evidence verification target =
     (let subject = filter (\<lambda>s. sameTarget (asTarget s) target) evidence;
          checks = filter (\<lambda>s. sameTarget (vgTarget s) target) verification;
          ratings = map (\<lambda>s. evValue (asValue s)) subject; statuses = map vgStatus checks;
          hasError = (LOCAL_ERROR \<in> set ratings \<or> STRUCTURAL_ERROR \<in> set ratings) in
      if (COMPLETE \<in> set ratings \<and> (hasError \<or> MISUNDERSTOOD_PROBLEM \<in> set ratings))
         \<or> (CORRECT \<in> set ratings \<and> CONTRADICTED \<in> set statuses)
         \<or> (hasError \<and> VERIFIED \<in> set statuses)
         \<or> (VERIFIED \<in> set statuses \<and> CONTRADICTED \<in> set statuses)
      then Some (max (foldl (\<lambda>m s. max m (evLastUpdatedSequence (asValue s))) 0 subject)
                     (foldl (\<lambda>m s. max m (vgSequence s)) 0 checks))
      else None)"

definition signalTargets :: "ActiveEvidenceSignal list \<Rightarrow> VerificationSignal list \<Rightarrow> PolicyTarget dict" where
  "signalTargets evidence verification =
     foldl (\<lambda>m t. dput (targetToString t) t m) [] (map asTarget evidence @ map vgTarget verification)"

definition compareConflicts :: "collation \<Rightarrow> PolicyTarget \<times> nat \<Rightarrow> PolicyTarget \<times> nat \<Rightarrow> int" where
  "compareConflicts collate l r =
     (if snd l \<noteq> snd r then int (snd r) - int (snd l)
      else collate (targetToString (fst l)) (targetToString (fst r)))"

definition findConflictTarget ::
  "collation \<Rightarrow> ActiveEvidenceSignal list \<Rightarrow> VerificationSignal list \<Rightarrow> PolicyTarget option" where
  "findConflictTarget collate evidence verification =
     (let conflicts = concat (map (\<lambda>t. case conflictSequence evidence verification t of
                                           None \<Rightarrow> [] | Some n \<Rightarrow> [(t, n)])
                                  (dvals (signalTargets evidence verification))) in
      case sortWith (compareConflicts collate) conflicts of [] \<Rightarrow> None | c # _ \<Rightarrow> Some (fst c))"

definition completedMilestoneIds :: "ActiveEvidenceSignal list \<Rightarrow> string list" where
  "completedMilestoneIds evidence =
     uniq (concat (map (\<lambda>s. case ekSubject (asKey s) of
                 MILESTONE m \<Rightarrow> (if ekDimension (asKey s) = PROGRESS \<and> evValue (asValue s) = COMPLETE \<and> m \<noteq> [] then [m] else [])
               | _ \<Rightarrow> []) evidence))"

definition graphMilestones :: "GraphContext \<Rightarrow> Milestone list" where
  "graphMilestones g = rgMilestones (ivReasoningGraph (gcProblem g))"

definition findMilestone :: "GraphContext \<Rightarrow> string \<Rightarrow> Milestone option" where
  "findMilestone g i = find (\<lambda>m. mileId m = i) (graphMilestones g)"

definition relevantPredecessor :: "GraphContext \<Rightarrow> string list \<Rightarrow> string \<Rightarrow> string \<Rightarrow> bool" where
  "relevantPredecessor g targetApproaches approachId p =
     (case findMilestone g p of
        None \<Rightarrow> True
      | Some m \<Rightarrow> approachId \<in> set (mileApproachIds m) \<or> set (mileApproachIds m) \<inter> set targetApproaches = {})"

definition milestoneReady :: "GraphContext \<Rightarrow> string list \<Rightarrow> string \<Rightarrow> bool" where
  "milestoneReady g completed i =
     (let ps = dlist (gcPredecessors g) i in
      if ps = [] then True
      else case findMilestone g i of
        None \<Rightarrow> False
      | Some m \<Rightarrow>
          (let as = mileApproachIds m in
           if as = [] then False
           else if length as = 1 then set ps \<subseteq> set completed
           else (\<exists>a \<in> set as. let qs = filter (relevantPredecessor g as a) ps in
                               qs \<noteq> [] \<and> set qs \<subseteq> set completed)))"

fun inferActiveApproachId :: "GraphContext \<Rightarrow> ActiveEvidenceSignal list \<Rightarrow> string option" where
  "inferActiveApproachId g [] = None"
| "inferActiveApproachId g (s # ss) =
     (case ekSubject (asKey s) of
        APPROACH a \<Rightarrow> Some a
      | MILESTONE i \<Rightarrow>
          (case findMilestone g i of
             None \<Rightarrow> inferActiveApproachId g ss
           | Some m \<Rightarrow> if length (mileApproachIds m) = 1 then Some (hd (mileApproachIds m))
                       else inferActiveApproachId g ss)
      | _ \<Rightarrow> inferActiveApproachId g ss)"

definition withinApproach :: "GraphContext \<Rightarrow> string \<Rightarrow> ActiveEvidenceSignal \<Rightarrow> bool" where
  "withinApproach g approachId s =
     (case ekSubject (asKey s) of
        APPROACH a \<Rightarrow> a = approachId
      | MILESTONE i \<Rightarrow> (case findMilestone g i of None \<Rightarrow> False | Some m \<Rightarrow> approachId \<in> set (mileApproachIds m))
      | _ \<Rightarrow> True)"

definition evidenceForActiveApproach :: "GraphContext \<Rightarrow> ActiveEvidenceSignal list \<Rightarrow> ActiveEvidenceSignal list" where
  "evidenceForActiveApproach g evidence =
     (case inferActiveApproachId g evidence of None \<Rightarrow> evidence | Some a \<Rightarrow> filter (withinApproach g a) evidence)"

definition selectNextMilestoneTarget :: "GraphContext \<Rightarrow> ActiveEvidenceSignal list \<Rightarrow> PolicyTarget option" where
  "selectNextMilestoneTarget g evidence =
     (let completed = completedMilestoneIds evidence; active = inferActiveApproachId g evidence;
          candidates = sort (map mileId (filter (\<lambda>m. mileId m \<notin> set completed
             \<and> (case active of None \<Rightarrow> True | Some a \<Rightarrow> a \<in> set (mileApproachIds m))
             \<and> milestoneReady g completed (mileId m)) (graphMilestones g))) in
      case candidates of [] \<Rightarrow> None | i # _ \<Rightarrow> Some \<lparr> ptKind = Kind_MILESTONE, ptId = i \<rparr>)"

definition completedApproachIds :: "ActiveEvidenceSignal list \<Rightarrow> string list" where
  "completedApproachIds evidence =
     concat (map (\<lambda>s. case ekSubject (asKey s) of
                 APPROACH a \<Rightarrow> (if ekDimension (asKey s) = PROGRESS \<and> evValue (asValue s) = COMPLETE \<and> a \<noteq> [] then [a] else [])
               | _ \<Rightarrow> []) evidence)"

definition findCompletedApproaches :: "GraphContext \<Rightarrow> ActiveEvidenceSignal list \<Rightarrow> string list" where
  "findCompletedApproaches g evidence =
     (let completed = completedMilestoneIds evidence; direct = completedApproachIds evidence in
      filter (\<lambda>a. a \<in> set direct \<or>
          (let ms = filter (\<lambda>m. a \<in> set (mileApproachIds m)) (graphMilestones g) in
           (\<exists>m \<in> set ms. length (mileApproachIds m) = 1) \<and> ms \<noteq> []
           \<and> list_all (\<lambda>m. mileId m \<in> set completed) ms))
        (map apId (rgApproaches (ivReasoningGraph (gcProblem g)))))"

definition isUnexpectedApproachTarget :: "PolicyTarget \<Rightarrow> GraphContext \<Rightarrow> bool" where
  "isUnexpectedApproachTarget target g =
     (case rgApproaches (ivReasoningGraph (gcProblem g)) of
        [] \<Rightarrow> False
      | primary # _ \<Rightarrow>
          (if ptKind target = Kind_APPROACH then ptId target \<noteq> apId primary
           else if ptKind target \<noteq> Kind_MILESTONE then False
           else case findMilestone g (ptId target) of
             None \<Rightarrow> False
           | Some m \<Rightarrow> length (mileApproachIds m) = 1 \<and> hd (mileApproachIds m) \<noteq> apId primary))"

section \<open>Classification\<close>

definition classified :: "ProgressClassification \<Rightarrow> PolicyReasonCode \<Rightarrow> PolicyTarget \<Rightarrow> ClassificationResult" where
  "classified c code target =
     \<lparr> clClassification = c, clReasonCode = code, clTarget = target, clVerificationStatus = None,
       clCompletedApproachId = None, clAlternateApproachId = None \<rparr>"

definition classifyLowConfidence :: "ActiveEvidenceSignal list \<Rightarrow> VerificationSignal list \<Rightarrow> ClassificationResult option" where
  "classifyLowConfidence evidence verification =
     (let latestActionable = (case actionableEvidence evidence of [] \<Rightarrow> 0 | s # _ \<Rightarrow> evLastUpdatedSequence (asValue s));
          latestVerification = (case verification of [] \<Rightarrow> 0 | v # _ \<Rightarrow> vgSequence v) in
      case find (\<lambda>s. evInferenceConfidence (asValue s) < MIN_ACTIONABLE_EVIDENCE_CONFIDENCE) evidence of
        None \<Rightarrow> None
      | Some s \<Rightarrow>
          if max latestActionable latestVerification < evLastUpdatedSequence (asValue s)
          then Some (classified AMBIGUOUS_STATEMENT STATEMENT_AMBIGUOUS (asTarget s)) else None)"

definition classifyConflict ::
  "collation \<Rightarrow> ActiveEvidenceSignal list \<Rightarrow> VerificationSignal list \<Rightarrow> ClassificationResult option" where
  "classifyConflict collate scoped verification =
     map_option (classified AMBIGUOUS_STATEMENT CONFLICTING_ACTIVE_SIGNALS) (findConflictTarget collate scoped verification)"

definition classifySignal ::
  "ActiveEvidenceSignal list \<Rightarrow> EvidenceDimension \<Rightarrow> EvidenceRating list \<Rightarrow> ProgressClassification
     \<Rightarrow> PolicyReasonCode \<Rightarrow> ClassificationResult option" where
  "classifySignal scoped dimension ratings c code =
     map_option (\<lambda>s. classified c code (asTarget s)) (findSignal scoped dimension ratings)"

definition classifyVerified ::
  "VerificationSignal list \<Rightarrow> VerificationStatus \<Rightarrow> ProgressClassification \<Rightarrow> PolicyReasonCode \<Rightarrow> ClassificationResult option" where
  "classifyVerified verification status c code =
     map_option (\<lambda>v. (classified c code (vgTarget v))\<lparr> clVerificationStatus := Some (vgStatus v) \<rparr>)
       (find (\<lambda>v. vgStatus v = status) verification)"

definition classifyUnsupported :: "ActiveEvidenceSignal list \<Rightarrow> VerificationSignal list \<Rightarrow> ClassificationResult option" where
  "classifyUnsupported scoped verification =
     map_option (\<lambda>s.
         let related = find (\<lambda>v. sameTarget (vgTarget v) (asTarget s)) verification;
             status = map_option vgStatus related in
         (classified UNSUPPORTED_CLAIM
            (if status = Some UNRESOLVED then VERIFICATION_UNRESOLVED else JUSTIFICATION_MISSING) (asTarget s))
           \<lparr> clVerificationStatus := status \<rparr>)
       (findSignal scoped JUSTIFICATION [UNJUSTIFIED, INCOMPLETE])"

definition progressClass :: "GraphContext \<Rightarrow> ActiveEvidenceSignal list \<Rightarrow> ActiveEvidenceSignal \<Rightarrow> ClassificationResult" where
  "progressClass g scoped s =
     (let target = (case selectNextMilestoneTarget g scoped of None \<Rightarrow> asTarget s | Some t \<Rightarrow> t) in
      if isUnexpectedApproachTarget (asTarget s) g
      then classified UNEXPECTED_VALID_APPROACH ALTERNATE_APPROACH_PROGRESS target
      else classified PRODUCTIVE_PROGRESS PROGRESS_CONTINUES target)"

definition classifyCompleted :: "GraphContext \<Rightarrow> ActiveEvidenceSignal list \<Rightarrow> ClassificationResult option" where
  "classifyCompleted g actionable =
     (let completed = findCompletedApproaches g actionable;
          others = sort (filter (\<lambda>a. a \<notin> set completed) (map apId (rgApproaches (ivReasoningGraph (gcProblem g))))) in
      case completed of
        [] \<Rightarrow> None
      | c # _ \<Rightarrow>
          Some ((classified COMPLETED_PRIMARY_APPROACH PRIMARY_APPROACH_COMPLETE
                   \<lparr> ptKind = Kind_APPROACH, ptId = (case others of [] \<Rightarrow> c | a # _ \<Rightarrow> a) \<rparr>)
                 \<lparr> clCompletedApproachId := Some c,
                   clAlternateApproachId := (case others of [] \<Rightarrow> None | a # _ \<Rightarrow> Some a) \<rparr>))"

definition isPositive :: "ActiveEvidenceSignal \<Rightarrow> bool" where
  "isPositive s =
     ((ekDimension (asKey s) = CORRECTNESS \<and> evValue (asValue s) = CORRECT)
      \<or> (ekDimension (asKey s) = UNDERSTANDING \<and> evValue (asValue s) = UNDERSTANDS)
      \<or> (ekDimension (asKey s) = JUSTIFICATION \<and> evValue (asValue s) = JUSTIFIED))"

definition isAmbiguous :: "ActiveEvidenceSignal \<Rightarrow> bool" where
  "isAmbiguous s =
     (evValue (asValue s) = RATING_UNKNOWN
      \<or> (ekDimension (asKey s) = STUDENT_CONFIDENCE \<and> evValue (asValue s) = UNCERTAIN))"

definition classifyRest ::
  "ActiveEvidenceSignal list \<Rightarrow> ActiveEvidenceSignal list \<Rightarrow> ActiveEvidenceSignal list \<Rightarrow> TurnId \<Rightarrow> ClassificationResult" where
  "classifyRest evidence actionable scoped turnId =
     (let ambiguous = classified AMBIGUOUS_STATEMENT STATEMENT_AMBIGUOUS; turn = \<lparr> ptKind = Kind_TURN, ptId = turnId \<rparr> in
      if actionable = [] then
        (case evidence of
           s # _ \<Rightarrow> ambiguous (asTarget s)
         | [] \<Rightarrow> classified INSUFFICIENT_EVIDENCE NO_CURRENT_EVIDENCE turn)
      else ambiguous (case scoped @ actionable of s # _ \<Rightarrow> asTarget s | [] \<Rightarrow> turn))"

text \<open>The first stage that answers decides.\<close>

fun firstAnswer :: "'a option list \<Rightarrow> 'a \<Rightarrow> 'a" where
  "firstAnswer [] y = y"
| "firstAnswer (Some x # xs) y = x"
| "firstAnswer (None # xs) y = firstAnswer xs y"

definition classifyProgress ::
  "collation \<Rightarrow> ActiveEvidenceSignal list \<Rightarrow> VerificationSignal list \<Rightarrow> GraphContext \<Rightarrow> TurnId \<Rightarrow> ClassificationResult" where
  "classifyProgress collate evidence verification g turnId =
     (let actionable = actionableEvidence evidence; scoped = evidenceForActiveApproach g actionable in
      firstAnswer
        [classifyLowConfidence evidence verification,
         classifyConflict collate scoped verification,
         classifySignal scoped CORRECTNESS [STRUCTURAL_ERROR] Class_STRUCTURAL_ERROR STRUCTURAL_REFRAMING_NEEDED,
         classifySignal scoped UNDERSTANDING [MISUNDERSTOOD_PROBLEM] MISUNDERSTANDING PROBLEM_MISUNDERSTOOD,
         classifySignal scoped CORRECTNESS [LOCAL_ERROR] Class_LOCAL_ERROR LOCAL_CORRECTION_NEEDED,
         classifyVerified verification CONTRADICTED Class_LOCAL_ERROR LOCAL_CORRECTION_NEEDED,
         classifyUnsupported scoped verification,
         classifySignal scoped PROGRESS [STALLED, REGRESSING] TRUE_STAGNATION PROGRESS_STALLED,
         map_option (progressClass g scoped) (findSignal scoped PROGRESS [PROGRESSING]),
         classifyCompleted g actionable,
         map_option (progressClass g scoped) (findSignal scoped PROGRESS [COMPLETE]),
         classifyVerified verification VERIFIED PRODUCTIVE_PROGRESS PROGRESS_CONTINUES,
         classifyVerified verification UNRESOLVED AMBIGUOUS_STATEMENT VERIFICATION_UNRESOLVED,
         map_option (\<lambda>s. classified PRODUCTIVE_PROGRESS PROGRESS_CONTINUES (asTarget s)) (find isPositive scoped),
         map_option (\<lambda>s. classified AMBIGUOUS_STATEMENT STATEMENT_AMBIGUOUS (asTarget s)) (find isAmbiguous scoped)]
        (classifyRest evidence actionable scoped turnId))"

section \<open>Assistance and authorization\<close>

definition assistanceForTarget :: "AssistanceRecord list \<Rightarrow> PolicyTarget \<Rightarrow> AssistanceRecord list" where
  "assistanceForTarget assistance target = filter (\<lambda>r. arTarget r = targetToString target) assistance"

text \<open>The completed predecessors on the active approach, breadth first.\<close>

definition visitPredecessor ::
  "GraphContext \<Rightarrow> string list \<Rightarrow> string \<Rightarrow> string list \<times> string list \<Rightarrow> string \<Rightarrow> string list \<times> string list" where
  "visitPredecessor g completed approachId s p =
     (if p \<in> set (fst s) \<or> p \<notin> set completed then s
      else case findMilestone g p of
        None \<Rightarrow> s
      | Some m \<Rightarrow> if approachId \<in> set (mileApproachIds m) then (fst s @ [p], snd s @ [p]) else s)"

lemma visitPredecessor_measure:
  "card (set completed - set (fst (visitPredecessor g completed a s p))) + length (snd (visitPredecessor g completed a s p))
     \<le> card (set completed - set (fst s)) + length (snd s)"
proof (cases "visitPredecessor g completed a s p = s")
  case False
  then have new: "visitPredecessor g completed a s p = (fst s @ [p], snd s @ [p])" "p \<in> set completed - set (fst s)"
    by (auto simp: visitPredecessor_def split: option.splits if_splits)
  have "set completed - set (fst s @ [p]) = (set completed - set (fst s)) - {p}" by auto
  then show ?thesis using card_Suc_Diff1 [OF _ new(2)] by (simp add: new(1))
qed simp

lemma visitPredecessors_measure:
  "card (set completed - set (fst (foldl (visitPredecessor g completed a) s ps))) + length (snd (foldl (visitPredecessor g completed a) s ps))
     \<le> card (set completed - set (fst s)) + length (snd s)"
proof (induction ps arbitrary: s)
  case (Cons p ps)
  show ?case using Cons.IH [of "visitPredecessor g completed a s p"] visitPredecessor_measure [of completed g a s p] by simp
qed simp

function relevantLoop :: "GraphContext \<Rightarrow> string list \<Rightarrow> string \<Rightarrow> string list \<Rightarrow> string list \<Rightarrow> string list" where
  "relevantLoop g completed approachId relevant [] = relevant"
| "relevantLoop g completed approachId relevant (current # queue) =
     (case foldl (visitPredecessor g completed approachId) (relevant, queue) (dlist (gcPredecessors g) current) of
        (relevant', queue') \<Rightarrow> relevantLoop g completed approachId relevant' queue')"
  by pat_completeness auto
termination
proof (relation "measure (\<lambda>(_, completed, _, relevant, queue). card (set completed - set relevant) + length queue)", goal_cases)
  case (2 g completed approachId relevant current queue relevant' queue')
  from 2 [symmetric] show ?case
    using visitPredecessors_measure [of completed g approachId "(relevant, queue)" "dlist (gcPredecessors g) current"] by simp
qed simp

definition relevantMilestoneIds :: "GraphContext \<Rightarrow> string list \<Rightarrow> string option \<Rightarrow> string \<Rightarrow> string list" where
  "relevantMilestoneIds g completed active i =
     (let start = (if milestoneReady g completed i then [i] else []) in
      case active of None \<Rightarrow> start | Some a \<Rightarrow> relevantLoop g completed a start [i])"

definition allowDisclosure :: "GraphContext \<Rightarrow> DisclosureLevel \<Rightarrow> DisclosureId list \<Rightarrow> DisclosureId \<Rightarrow> DisclosureId list policy_result" where
  "allowDisclosure g level allowed i =
     (if disclosureAtMost g level i
      then let next' = uniq (allowed @ [i]) in
           bindE (guardE (length next' \<le> MAX_DISCLOSURE_REFS_PER_MILESTONE) RESOURCE_LIMIT_EXCEEDED) (\<lambda>_. Inr next')
      else Inr allowed)"

definition allowMilestone :: "GraphContext \<Rightarrow> DisclosureLevel \<Rightarrow> DisclosureId list \<Rightarrow> string \<Rightarrow> DisclosureId list policy_result" where
  "allowMilestone g level allowed i =
     (case findMilestone g i of
        None \<Rightarrow> Inr allowed
      | Some m \<Rightarrow> foldE (allowDisclosure g level) allowed (mileDisclosureIds m))"

definition targetDisclosureAuthorization ::
  "PolicyTarget \<Rightarrow> DisclosureLevel \<Rightarrow> GraphContext \<Rightarrow> string list \<Rightarrow> string option \<Rightarrow> DisclosureId list policy_result" where
  "targetDisclosureAuthorization target level g completed active =
     (if level = 0 \<or> ptKind target \<noteq> Kind_MILESTONE then Inr []
      else case findMilestone g (ptId target) of
        None \<Rightarrow> Inr []
      | Some m \<Rightarrow>
          bindE (foldE (allowMilestone g level) [] (relevantMilestoneIds g completed active (mileId m))) (\<lambda>allowed.
          Inr (sort allowed)))"

definition explicitHintLevel :: "PolicyTarget \<Rightarrow> GraphContext \<Rightarrow> string list \<Rightarrow> DisclosureId list \<Rightarrow> DisclosureLevel option" where
  "explicitHintLevel target g completed alreadyDisclosed =
     (if ptKind target \<noteq> Kind_MILESTONE \<or> \<not> milestoneReady g completed (ptId target) then None
      else case findMilestone g (ptId target) of
        None \<Rightarrow> None
      | Some m \<Rightarrow>
          (let known = concat (map (\<lambda>i. case dget (disclosureMap g) i of None \<Rightarrow> [] | Some d \<Rightarrow> [d]) (mileDisclosureIds m));
               levels = sort (filter (\<lambda>l. 3 \<le> l \<and> l \<le> 4)
                 (map pdMinimumDisclosureLevel (filter (\<lambda>d. pdId d \<notin> set alreadyDisclosed) known))) in
           case levels of [] \<Rightarrow> None | l # _ \<Rightarrow> Some l))"

section \<open>The plan\<close>

definition plan :: "SocraticAction \<Rightarrow> DisclosureLevel \<Rightarrow> InterventionStage \<Rightarrow> bool \<Rightarrow> ActionPlan" where
  "plan action level stage escalation =
     \<lparr> planAction = action, planRequestedDisclosure = level, planStage = stage,
       planEscalationJustified = escalation, planReasonCode = None \<rparr>"

text \<open>The four rungs after errors and stagnation: the first two differ by classification.\<close>

definition escalate :: "ActionPlan \<Rightarrow> ActionPlan \<Rightarrow> ActionPlan \<Rightarrow> nat \<Rightarrow> DisclosureLevel option \<Rightarrow> ActionPlan" where
  "escalate first second otherwise' n hintLevel =
     (if n = 0 then first
      else if n = 1 then second
      else if n = 2 then plan DIRECTIONAL_NUDGE 2 NUDGE True
      else case hintLevel of
        Some level \<Rightarrow> plan EXPLICIT_HINT level HINT True
      | None \<Rightarrow> otherwise')"

definition saturatedAssistance :: "AssistanceRecord list \<Rightarrow> bool" where
  "saturatedAssistance rs = (\<exists>r \<in> set rs. arAction r = EXPLICIT_HINT \<or> 4 \<le> arEffectiveDisclosureLevel r)"

definition chooseActionPlan :: "ClassificationResult \<Rightarrow> AssistanceRecord list \<Rightarrow> DisclosureLevel option \<Rightarrow> ActionPlan" where
  "chooseActionPlan c targetAssistance hintLevel =
     (let n = length targetAssistance; unresolved = (clVerificationStatus c = Some UNRESOLVED) in
      if clClassification c = PRODUCTIVE_PROGRESS \<or> clClassification c = UNEXPECTED_VALID_APPROACH
      then plan WAIT 0 OBSERVE False
      else if clClassification c = COMPLETED_PRIMARY_APPROACH
      then plan (if clAlternateApproachId c = None then GENERALIZE else ASK_ALTERNATE_SOLUTION) 0 OBSERVE False
      else if saturatedAssistance targetAssistance
      then (plan CLARIFY 0 SATURATED False)\<lparr> planReasonCode := Some ASSISTANCE_SATURATED \<rparr>
      else case clClassification c of
        INSUFFICIENT_EVIDENCE \<Rightarrow> plan PROBE_JUSTIFICATION 0 PROBE False
      | AMBIGUOUS_STATEMENT \<Rightarrow> plan (if unresolved then VERIFY else CLARIFY) 0 PROBE False
      | UNSUPPORTED_CLAIM \<Rightarrow> plan (if unresolved then VERIFY else PROBE_JUSTIFICATION) 0 PROBE False
      | Class_LOCAL_ERROR \<Rightarrow>
          escalate (plan CHECK_LOCAL_STEP 0 PROBE False) (plan FOCUS_ATTENTION 1 FOCUS True)
            (plan FOCUS_ATTENTION 1 FOCUS False) n hintLevel
      | Class_STRUCTURAL_ERROR \<Rightarrow>
          escalate (plan CHANGE_REPRESENTATION 1 FOCUS False) (plan SIMPLIFY_CASE 1 FOCUS True)
            (plan CHANGE_REPRESENTATION 1 FOCUS False) n hintLevel
      | MISUNDERSTANDING \<Rightarrow>
          escalate (plan SIMPLIFY_CASE 1 FOCUS False) (plan CHANGE_REPRESENTATION 1 FOCUS True)
            (plan SIMPLIFY_CASE 1 FOCUS False) n hintLevel
      | _ \<Rightarrow>
          escalate (plan ASK_FOR_EXAMPLE 0 PROBE False) (plan FOCUS_ATTENTION 1 FOCUS True)
            (plan CHANGE_REPRESENTATION 1 FOCUS False) n hintLevel)"

section \<open>The decision\<close>

definition validateTurn :: "SessionState \<Rightarrow> TurnId \<Rightarrow> unit policy_result" where
  "validateTurn st turnId =
     bindE (guardE (boundedString turnId MAX_POLICY_ID_CHARACTERS) MALFORMED_POLICY_INPUT) (\<lambda>_.
     case dget (turns st) turnId of
       None \<Rightarrow> Inl MALFORMED_POLICY_INPUT
     | Some turn \<Rightarrow>
         bindE (guardE (tnTurnId turn = turnId \<and> tnInputEpisodeId turn \<noteq> []
                        \<and> PositiveSafeInteger (tnCommittedSequence turn)) MALFORMED_POLICY_INPUT) (\<lambda>_.
         bindE (guardE (lastCommittedInputSequence st = Some (tnCommittedSequence turn)) STALE_TURN_CONTEXT) (\<lambda>_.
         case dget (inputEpisodes st) (tnInputEpisodeId turn) of
           None \<Rightarrow> Inl MALFORMED_POLICY_INPUT
         | Some ep \<Rightarrow>
             guardE (epInputEpisodeId ep = tnInputEpisodeId turn \<and> epStatus ep = Episode_COMMITTED)
               MALFORMED_POLICY_INPUT)))"

definition validateBinding :: "(string \<Rightarrow> string) \<Rightarrow> SessionState \<Rightarrow> InterviewProblem \<Rightarrow> unit policy_result" where
  "validateBinding sha256 st p =
     (case problem st of
        None \<Rightarrow> Inl PROBLEM_CONTEXT_MISMATCH
      | Some bound \<Rightarrow>
          bindE (guardE (pbId bound = ivId p \<and> pbVersion bound = ivVersion p) PROBLEM_CONTEXT_MISMATCH) (\<lambda>_.
          case pbProviderContextSpecSha256 bound of
            None \<Rightarrow> Inl PROBLEM_PROVENANCE_UNKNOWN
          | Some expected \<Rightarrow>
              bindE (guardE (pbPrompt bound = ivPrompt p) PROBLEM_DEFINITION_MISMATCH) (\<lambda>_.
              case createProviderContextSpecFingerprintSync sha256 p of
                None \<Rightarrow> Inl MALFORMED_POLICY_INPUT
              | Some actual \<Rightarrow> guardE (expected = actual) PROBLEM_DEFINITION_MISMATCH)))"

record PolicyInputs =
  piGraph :: GraphContext
  piVerification :: VerificationSnapshot
  piEvidence :: "ActiveEvidenceSignal list"
  piAssistance :: AssistanceSnapshot
  piLedger :: "DisclosureId list"

definition collectPolicyInputs ::
  "collation \<Rightarrow> (string \<Rightarrow> string) \<Rightarrow> SessionState \<Rightarrow> TurnId \<Rightarrow> InterviewProblem \<Rightarrow> PolicyInputs policy_result" where
  "collectPolicyInputs collate sha256 st turnId p =
     bindE (validateTurn st turnId) (\<lambda>_.
     bindE (validateGraphContext p) (\<lambda>g.
     bindE (validateBinding sha256 st p) (\<lambda>_.
     bindE (collectVerificationSignals collate st g) (\<lambda>verification.
     bindE (collectActiveEvidence collate st g (vnEvidenceLinks verification)) (\<lambda>evidence.
     bindE (collectExposedAssistance collate st g) (\<lambda>assistance.
     bindE (validateDisclosureLedger st g (asDisclosedIds assistance)) (\<lambda>ledger.
     Inr \<lparr> piGraph = g, piVerification = verification, piEvidence = evidence, piAssistance = assistance,
           piLedger = ledger \<rparr>)))))))"

definition policyClassification :: "collation \<Rightarrow> PolicyInputs \<Rightarrow> TurnId \<Rightarrow> ClassificationResult" where
  "policyClassification collate i turnId =
     (let c = classifyProgress collate (piEvidence i) (vnSignals (piVerification i)) (piGraph i) turnId in
      if clClassification c = TRUE_STAGNATION
         \<and> 2 \<le> length (assistanceForTarget (asRecords (piAssistance i)) (clTarget c))
      then c\<lparr> clClassification := REPEATED_STAGNATION, clReasonCode := STAGNATION_PERSISTS_AFTER_ASSISTANCE \<rparr>
      else c)"

definition policyPlan :: "PolicyInputs \<Rightarrow> ClassificationResult \<Rightarrow> ActionPlan" where
  "policyPlan i c =
     chooseActionPlan c (assistanceForTarget (asRecords (piAssistance i)) (clTarget c))
       (explicitHintLevel (clTarget c) (piGraph i) (completedMilestoneIds (actionableEvidence (piEvidence i))) (piLedger i))"

definition policyAuthorization :: "PolicyInputs \<Rightarrow> ClassificationResult \<Rightarrow> DisclosureId list policy_result" where
  "policyAuthorization i c =
     (let actionable = actionableEvidence (piEvidence i) in
      targetDisclosureAuthorization (clTarget c) (planRequestedDisclosure (policyPlan i c)) (piGraph i)
        (completedMilestoneIds actionable) (inferActiveApproachId (piGraph i) actionable))"

definition decidePedagogicalPolicy ::
  "collation \<Rightarrow> (string \<Rightarrow> string) \<Rightarrow> SessionState \<Rightarrow> TurnId \<Rightarrow> InterviewProblem \<Rightarrow> (unit, PolicyDecision) result" where
  "decidePedagogicalPolicy collate sha256 st turnId p =
     (case collectPolicyInputs collate sha256 st turnId p of
        Inl code \<Rightarrow> failClosedDecision turnId code
      | Inr i \<Rightarrow>
          (let c = policyClassification collate i turnId; pl = policyPlan i c; level = planRequestedDisclosure pl in
           case policyAuthorization i c of
             Inl code \<Rightarrow> failClosedDecision turnId code
           | Inr ids \<Rightarrow>
               bindE (parseRequest \<lparr> rrRequiredAction = planAction pl, rrTarget = Some (targetToString (clTarget c)),
                        rrMaximumDisclosure = level,
                        rrAllowedDisclosureIds = (if level = 0 then None else Some ids) \<rparr>) (\<lambda>request.
               Inr \<lparr> dcClassification = clClassification c, dcInterventionStage = planStage pl,
                     dcReasonCode = (case planReasonCode pl of None \<Rightarrow> clReasonCode c | Some code \<Rightarrow> code),
                     dcRealizationRequest = request, dcWaitingPreferred = (planAction pl = WAIT),
                     dcEscalationJustified = planEscalationJustified pl, dcTarget = clTarget c \<rparr>)))"

definition selectPedagogicalAction ::
  "collation \<Rightarrow> (string \<Rightarrow> string) \<Rightarrow> SessionState \<Rightarrow> TurnId \<Rightarrow> InterviewProblem \<Rightarrow> (unit, RealizationRequest) result" where
  "selectPedagogicalAction collate sha256 st turnId p =
     bindE (decidePedagogicalPolicy collate sha256 st turnId p) (\<lambda>d. Inr (dcRealizationRequest d))"

end
