(* ===== verification/ReasoningOrder.thy ===== *)
theory ReasoningOrder
  imports ReasoningGraphs EvidenceKeys
begin

text \<open>
  What the policy's validation of a problem accepts. Counting dependencies and releasing
  milestones one by one decides exactly whether the dependency relation is acyclic.
\<close>

section \<open>Sets of ids\<close>

lemma addNew_fold:
  "foldE (addNew code ok) seen xs = Inr ys \<longleftrightarrow>
     ys = seen @ xs \<and> list_all ok xs \<and> distinct xs \<and> set xs \<inter> set seen = {}"
  by (induction xs arbitrary: seen) (auto simp: addNew_def bindE_eq_Inr guardE_eq_Inr)

lemma collectIds_Inr: "collectIds code ok xs = Inr ys \<longleftrightarrow> ys = xs \<and> list_all ok xs \<and> distinct xs"
  by (simp add: collectIds_def addNew_fold)

lemma dependencyKey_inject [simp]: "dependencyKey a b = dependencyKey c d \<longleftrightarrow> a = c \<and> b = d"
proof
  assume "dependencyKey a b = dependencyKey c d"
  then have "jsonString a @ '','' @ jsonString b @ '']'' = jsonString c @ '','' @ jsonString d @ '']''"
    by (simp add: dependencyKey_def)
  from jsonString_prefix [OF this] have "a = c" "jsonString b @ '']'' = jsonString d @ '']''" by simp_all
  with jsonString_prefix show "a = c \<and> b = d" by blast
qed simp

section \<open>The dependency graph\<close>

definition represented :: "string list \<Rightarrow> (string \<times> string) set \<Rightarrow> DependencyGraph \<Rightarrow> bool" where
  "represented ids D d =
     (D \<subseteq> set ids \<times> set ids
      \<and> set (dgKeys d) = {dependencyKey a b | a b. (a, b) \<in> D}
      \<and> dkeys (dgAdjacency d) = ids \<and> dkeys (dgPredecessors d) = ids \<and> set (dkeys (dgIndegree d)) = set ids
      \<and> (\<forall>a. set (dlist (dgAdjacency d) a) = {b. (a, b) \<in> D} \<and> distinct (dlist (dgAdjacency d) a))
      \<and> (\<forall>b. set (dlist (dgPredecessors d) b) = {a. (a, b) \<in> D})
      \<and> (\<forall>b. dint (dgIndegree d) b = int (card {a. (a, b) \<in> D})))"

lemma dget_const: "dget (map (\<lambda>i. (i, c)) ids) k = (if k \<in> set ids then Some c else None)"
  by (induction ids) (auto simp: dget_Cons)

lemma represented_empty: "represented ids {} (emptyDependencies ids)"
  by (auto simp: represented_def emptyDependencies_def dkeys_def dlist_def dint_def dget_const comp_def
      split: option.splits if_splits)

lemma dkeys_dput_present: "k \<in> set (dkeys m) \<Longrightarrow> dkeys (dput k v m) = dkeys m"
  by (simp add: dput_def dkeys_def update_keys image_iff)

lemma dpush_present:
  assumes "k \<in> set (dkeys m)"
  shows "dkeys (dpush k x m) = dkeys m" "dlist (dpush k x m) j = (if j = k then dlist m k @ [x] else dlist m j)"
proof -
  obtain xs where "dget m k = Some xs" using assms by (metis dget_None_iff not_Some_eq)
  then show "dkeys (dpush k x m) = dkeys m" "dlist (dpush k x m) j = (if j = k then dlist m k @ [x] else dlist m j)"
    using assms by (simp_all add: dpush_def dlist_def dget_dput dkeys_dput_present)
qed

lemma represented_finite: "represented ids D d \<Longrightarrow> finite {a. (a, b) \<in> D}"
  by (rule finite_subset [of _ "set ids"]) (auto simp: represented_def)

lemma represented_add:
  assumes rep: "represented ids D d" and in_ids: "a \<in> set ids" "b \<in> set ids"
  shows "represented ids (insert (a, b) D) (addDependency a b d)"
proof (cases "(a, b) \<in> D")
  case True
  then have "dependencyKey a b \<in> set (dgKeys d)" using rep by (auto simp: represented_def)
  then show ?thesis using rep True by (simp add: addDependency_def insert_absorb)
next
  case False
  have key: "dependencyKey a b \<notin> set (dgKeys d)" using rep False by (auto simp: represented_def)
  have split: "{x. (x, b) \<in> insert (a, b) D} = insert a {x. (x, b) \<in> D}" by auto
  have card: "card {x. (x, b) \<in> insert (a, b) D} = Suc (card {x. (x, b) \<in> D})"
    unfolding split using represented_finite [OF rep] False by simp
  have keys: "a \<in> set (dkeys (dgAdjacency d))" "b \<in> set (dkeys (dgPredecessors d))" "b \<in> set (dkeys (dgIndegree d))"
    using rep in_ids by (simp_all add: represented_def)
  note push = dpush_present [OF keys(1)] dpush_present [OF keys(2)]
  have other: "{x. (x, c) \<in> insert (a, b) D} = {x. (x, c) \<in> D}" if "c \<noteq> b" for c using that by auto
  show ?thesis
    unfolding represented_def
  proof (intro conjI allI)
    show "insert (a, b) D \<subseteq> set ids \<times> set ids" using rep in_ids by (simp add: represented_def)
    show "set (dgKeys (addDependency a b d)) = {dependencyKey x y |x y. (x, y) \<in> insert (a, b) D}"
      using rep key by (auto simp: represented_def addDependency_def Let_def)
    show "dkeys (dgAdjacency (addDependency a b d)) = ids" "dkeys (dgPredecessors (addDependency a b d)) = ids"
      using rep key push by (simp_all add: represented_def addDependency_def Let_def)
    show "set (dkeys (dgIndegree (addDependency a b d))) = set ids"
      using rep key keys by (simp add: represented_def addDependency_def Let_def dkeys_dput_present)
    show "set (dlist (dgAdjacency (addDependency a b d)) c) = {y. (c, y) \<in> insert (a, b) D}"
      "distinct (dlist (dgAdjacency (addDependency a b d)) c)" for c
      using rep key push False by (auto simp: represented_def addDependency_def Let_def)
    show "set (dlist (dgPredecessors (addDependency a b d)) c) = {x. (x, c) \<in> insert (a, b) D}" for c
      using rep key push by (auto simp: represented_def addDependency_def Let_def)
    show "dint (dgIndegree (addDependency a b d)) c = int (card {x. (x, c) \<in> insert (a, b) D})" for c
      using rep key card other [of c]
      by (cases "c = b") (simp_all add: represented_def addDependency_def Let_def dint_dput)
  qed
qed

section \<open>Releasing milestones\<close>

lemma releaseAll:
  "distinct xs \<Longrightarrow>
   dint (fst (foldl releaseNext s xs)) y = dint (fst s) y - (if y \<in> set xs then 1 else 0)
   \<and> snd (foldl releaseNext s xs) = snd s @ filter (\<lambda>x. dint (fst s) x = 1) xs"
proof (induction xs arbitrary: s)
  case (Cons x xs)
  have same: "dint (fst (releaseNext s x)) z = dint (fst s) z" if "z \<noteq> x" for z
    using that by (simp add: releaseNext_def Let_def dint_dput)
  have "filter (\<lambda>z. dint (fst (releaseNext s x)) z = 1) xs = filter (\<lambda>z. dint (fst s) z = 1) xs"
    by (rule filter_cong [OF refl]) (metis Cons.prems same distinct.simps(2))
  then show ?case using Cons.IH [of "releaseNext s x"] Cons.prems same [of y]
    by (auto simp: releaseNext_def Let_def dint_dput)
qed simp

definition pending :: "(string \<times> string) set \<Rightarrow> string list \<Rightarrow> string \<Rightarrow> string set" where
  "pending D done' x = {a. (a, x) \<in> D \<and> a \<notin> set done'}"

definition ordered :: "(string \<times> string) set \<Rightarrow> string list \<Rightarrow> bool" where
  "ordered D xs = (\<forall>i < length xs. {a. (a, xs ! i) \<in> D} \<subseteq> set (take i xs))"

definition releasing :: "string list \<Rightarrow> (string \<times> string) set \<Rightarrow> string list \<Rightarrow> string list \<Rightarrow> int dict \<Rightarrow> bool" where
  "releasing ids D visited queue indegree =
     (distinct (visited @ queue) \<and> set (visited @ queue) = {x \<in> set ids. dint indegree x = 0}
      \<and> (\<forall>x \<in> set ids. dint indegree x = int (card (pending D visited x)))
      \<and> ordered D visited)"

lemma pending_snoc: "pending D (vs @ [c]) x = pending D vs x - {c}"
  by (auto simp: pending_def)

lemma ordered_snoc: "ordered D (vs @ [c]) \<longleftrightarrow> ordered D vs \<and> {a. (a, c) \<in> D} \<subseteq> set vs"
  by (auto simp: ordered_def nth_append less_Suc_eq)

lemma finite_pending: "D \<subseteq> set ids \<times> set ids \<Longrightarrow> finite (pending D vs x)"
  by (rule finite_subset [of _ "set ids"]) (auto simp: pending_def)

lemma releasing_step:
  assumes rel: "releasing ids D vs (c # queue) m" and D: "D \<subseteq> set ids \<times> set ids"
    and xs: "distinct xs" "set xs = {b. (c, b) \<in> D}"
    and next': "foldl releaseNext (m, queue) xs = (m', queue')"
  shows "releasing ids D (vs @ [c]) queue' m'"
proof -
  have m': "dint m' y = dint m y - (if (c, y) \<in> D then 1 else 0)"
    and q': "queue' = queue @ filter (\<lambda>x. dint m x = 1) xs" for y
    using releaseAll [OF xs(1), of "(m, queue)" y] xs(2) next' by auto
  have c: "c \<in> set ids" "dint m c = 0" "c \<notin> set vs" "c \<notin> set queue"
    using rel by (auto simp: releasing_def)
  have card: "dint m x = int (card (pending D vs x))" if "x \<in> set ids" for x using rel that by (simp add: releasing_def)
  have count: "dint m' x = int (card (pending D (vs @ [c]) x))" if "x \<in> set ids" for x
  proof (cases "(c, x) \<in> D")
    case True
    then have "c \<in> pending D vs x" using c(3) by (simp add: pending_def)
    then have "card (pending D vs x) = Suc (card (pending D vs x - {c}))"
      using card_Suc_Diff1 [OF finite_pending [OF D]] by metis
    then show ?thesis using card [OF that] True by (simp add: m' pending_snoc)
  next
    case False
    then have "pending D vs x - {c} = pending D vs x" by (auto simp: pending_def)
    then show ?thesis using card [OF that] False by (simp add: m' pending_snoc)
  qed
  have none: "{a. (a, c) \<in> D} \<subseteq> set vs"
    using card [OF c(1)] c(2) finite_pending [OF D, of vs c] by (auto simp: pending_def)
  have positive: "1 \<le> dint m x" if "(c, x) \<in> D" for x
  proof -
    have "c \<in> pending D vs x" "x \<in> set ids" using that c(3) D by (auto simp: pending_def)
    then have "0 < card (pending D vs x)" using finite_pending [OF D] by (auto simp: card_gt_0_iff)
    then show ?thesis using card [OF \<open>x \<in> set ids\<close>] by simp
  qed
  have zero: "dint m' x = 0 \<longleftrightarrow> dint m x = 0 \<or> (dint m x = 1 \<and> (c, x) \<in> D)" for x
    using positive [of x] by (auto simp: m')
  have "set (vs @ [c]) \<union> set queue = {x \<in> set ids. dint m x = 0}" using rel by (auto simp: releasing_def)
  then have sets: "set ((vs @ [c]) @ queue') = {x \<in> set ids. dint m' x = 0}"
    using D xs(2) by (auto simp: q' zero)
  have "distinct ((vs @ [c]) @ queue')"
    using rel xs(1) by (auto simp: releasing_def q')
  then show ?thesis using sets count none rel by (simp add: releasing_def ordered_snoc)
qed

lemma visitLoop_count:
  assumes D: "D \<subseteq> set ids \<times> set ids"
  shows "releasing ids D vs queue m \<Longrightarrow>
    (\<And>a. distinct (dlist adjacency a) \<and> set (dlist adjacency a) = {b. (a, b) \<in> D}) \<Longrightarrow>
    \<exists>ws m'. releasing ids D ws [] m' \<and> visitLoop adjacency queue m (length vs) = length ws"
proof (induction adjacency queue m "length vs" arbitrary: vs rule: visitLoop.induct)
  case (1 adjacency m)
  then show ?case by auto
next
  case (2 adjacency c queue m)
  obtain m' queue' where step: "foldl releaseNext (m, queue) (sort (dlist adjacency c)) = (m', queue')" by fastforce
  have "releasing ids D (vs @ [c]) queue' m'"
    by (rule releasing_step [OF 2(2) D _ _ step]) (use 2(3) [of c] in auto)
  with 2(1) [OF step [symmetric], of "vs @ [c]"] 2(3) show ?case by (simp add: step)
qed

lemma releasing_acyclic:
  assumes rel: "releasing ids D ws [] m" and D: "D \<subseteq> set ids \<times> set ids" and ids: "distinct ids"
  shows "length ws = length ids \<longleftrightarrow> acyclic D"
proof
  have sub: "set ws \<subseteq> set ids" and dist: "distinct ws" using rel by (auto simp: releasing_def)
  assume "length ws = length ids"
  then have all: "set ws = set ids"
    using sub dist ids by (metis card_subset_eq distinct_card finite_set)
  have "D \<subseteq> measure (\<lambda>x. length (takeWhile (\<lambda>y. y \<noteq> x) ws))"
  proof (rule subrelI)
    fix a x assume ax: "(a, x) \<in> D"
    then have "x \<in> set ws" using D all by blast
    then obtain i where i: "i < length ws" "ws ! i = x" by (auto simp: in_set_conv_nth)
    then have "a \<in> set (take i ws)" using rel ax by (auto simp: releasing_def ordered_def)
    then obtain j where j: "j < i" "ws ! j = a" using i(1) by (auto simp: in_set_conv_nth)
    have pos: "length (takeWhile (\<lambda>y. y \<noteq> ws ! k) ws) = k" if "k < length ws" for k
    proof -
      have "takeWhile (\<lambda>y. y \<noteq> ws ! k) ws = take k ws"
        by (rule takeWhile_eq_take_P_nth) (use that dist in \<open>auto simp: nth_eq_iff_index_eq\<close>)
      then show ?thesis using that by simp
    qed
    show "(a, x) \<in> measure (\<lambda>x. length (takeWhile (\<lambda>y. y \<noteq> x) ws))"
      using pos [of i] pos [of j] i j by simp
  qed
  then show "acyclic D" using wf_measure wf_subset wf_acyclic by metis
next
  assume acyc: "acyclic D"
  have dist: "distinct ws" and ws: "set ws = {x \<in> set ids. dint m x = 0}" using rel by (auto simp: releasing_def)
  have "finite D" using D finite_subset by blast
  then have wf: "wf D" using acyc by (simp add: finite_acyclic_wf)
  have "x \<in> set ids \<longrightarrow> x \<in> set ws" for x
  proof (induction x rule: wf_induct_rule [OF wf])
    case (1 x)
    show ?case
    proof
      assume x: "x \<in> set ids"
      have "pending D ws x = {}" using 1 D by (auto simp: pending_def)
      then have "dint m x = 0" using rel x by (simp add: releasing_def)
      then show "x \<in> set ws" using ws x by simp
    qed
  qed
  then have "set ws = set ids" using ws by auto
  then show "length ws = length ids" using dist ids by (metis distinct_card)
qed

lemma visited_all_iff:
  assumes rep: "represented ids D d" and ids: "distinct ids"
  shows "visitedMilestones ids d = length ids \<longleftrightarrow> acyclic D"
proof -
  let ?m = "dgIndegree d" and ?q = "sort (filter (\<lambda>i. dget (dgIndegree d) i = Some 0) ids)"
  have D: "D \<subseteq> set ids \<times> set ids" using rep by (simp add: represented_def)
  have present: "dget ?m x = Some (dint ?m x)" if "x \<in> set ids" for x
    using rep that dget_None_iff [of ?m x] by (auto simp: represented_def dint_def split: option.splits)
  have "releasing ids D [] ?q ?m"
    using ids rep present by (auto simp: releasing_def represented_def pending_def ordered_def)
  moreover have "distinct (dlist (dgAdjacency d) a) \<and> set (dlist (dgAdjacency d) a) = {b. (a, b) \<in> D}" for a
    using rep by (simp add: represented_def)
  ultimately obtain ws m' where "releasing ids D ws [] m'" "visitedMilestones ids d = length ws"
    using visitLoop_count [OF D, of "[]" ?q ?m "dgAdjacency d"] by (auto simp: visitedMilestones_def)
  then show ?thesis using releasing_acyclic [OF _ D ids] by simp
qed

section \<open>Accepted problems\<close>

definition milestoneDependencies :: "Milestone \<Rightarrow> (string \<times> string) list" where
  "milestoneDependencies m = map (\<lambda>p. (p, mileId m)) (milePrerequisiteIds m)"

definition edgePair :: "ReasoningEdge \<Rightarrow> string \<times> string" where
  "edgePair e = (edgeFrom e, edgeTo e)"

definition dependencyList :: "ReasoningGraph \<Rightarrow> (string \<times> string) list" where
  "dependencyList g = concat (map milestoneDependencies (rgMilestones g)) @ map edgePair (rgEdges g)"

definition addPairs :: "(string \<times> string) list \<Rightarrow> DependencyGraph \<Rightarrow> DependencyGraph" where
  "addPairs ps d = fold (\<lambda>(a, b). addDependency a b) ps d"

lemma addPairs_simps [simp]:
  "addPairs [] d = d" "addPairs (p # ps) d = addPairs ps (addDependency (fst p) (snd p) d)"
  "addPairs (ps @ qs) d = addPairs qs (addPairs ps d)"
  by (simp_all add: addPairs_def case_prod_unfold)

lemma represented_pairs:
  "represented ids D d \<Longrightarrow> set ps \<subseteq> set ids \<times> set ids \<Longrightarrow> represented ids (D \<union> set ps) (addPairs ps d)"
proof (induction ps arbitrary: D d)
  case (Cons p ps)
  then have "represented ids (insert p D) (addDependency (fst p) (snd p) d)"
    using represented_add [of ids D d "fst p" "snd p"] by auto
  then have "represented ids (insert p D \<union> set ps) (addPairs ps (addDependency (fst p) (snd p) d))"
    by (rule Cons.IH) (use Cons.prems(2) in simp)
  then show ?case by simp
qed simp

definition milestoneReferences :: "string list \<Rightarrow> string list \<Rightarrow> string list \<Rightarrow> Milestone \<Rightarrow> bool" where
  "milestoneReferences milestoneIds approachIds ds m =
     (distinct (mileApproachIds m) \<and> set (mileApproachIds m) \<subseteq> set approachIds
      \<and> distinct (milePrerequisiteIds m) \<and> set (milePrerequisiteIds m) \<subseteq> set milestoneIds - {mileId m}
      \<and> distinct (mileDisclosureIds m) \<and> set (mileDisclosureIds m) \<subseteq> set ds)"

definition wellReferenced :: "InterviewProblem \<Rightarrow> bool" where
  "wellReferenced p =
     (let g = ivReasoningGraph p; as = map apId (rgApproaches g); ms = map mileId (rgMilestones g);
          ds = map pdId (ivProtectedDisclosures p) in
      distinct as \<and> distinct ms \<and> distinct ds
      \<and> list_all (milestoneReferences ms as ds) (rgMilestones g)
      \<and> list_all (\<lambda>e. edgeFrom e \<noteq> edgeTo e \<and> edgeFrom e \<in> set ms \<and> edgeTo e \<in> set ms) (rgEdges g)
      \<and> distinct (map edgePair (rgEdges g)))"

lemma prerequisites_fold:
  "foldE (addPrerequisite ids m) (seen, d) ps = Inr s \<longleftrightarrow>
     s = (seen @ ps, addPairs (map (\<lambda>p. (p, m)) ps) d) \<and> set ps \<subseteq> set ids - {m} \<and> distinct ps \<and> set ps \<inter> set seen = {}"
  by (induction ps arbitrary: seen d)
    (auto simp: addPrerequisite_def addNew_def bindE_eq_Inr guardE_eq_Inr)

lemma addMilestone_Inr:
  "addMilestone ms as ds d m = Inr d' \<longleftrightarrow> milestoneReferences ms as ds m \<and> d' = addPairs (milestoneDependencies m) d"
  by (auto simp: addMilestone_def bindE_eq_Inr collectIds_Inr prerequisites_fold milestoneReferences_def
      milestoneDependencies_def list_all_iff)

lemma milestones_fold:
  "foldE (addMilestone ms as ds) d xs = Inr d' \<longleftrightarrow>
     list_all (milestoneReferences ms as ds) xs \<and> d' = addPairs (concat (map milestoneDependencies xs)) d"
  by (induction xs arbitrary: d) (auto simp: bindE_eq_Inr addMilestone_Inr)

lemma edges_fold:
  "foldE (addEdge ids) (seen, d) es = Inr s \<longleftrightarrow>
     s = (seen @ map (\<lambda>e. dependencyKey (edgeFrom e) (edgeTo e)) es, addPairs (map edgePair es) d)
     \<and> list_all (\<lambda>e. edgeFrom e \<noteq> edgeTo e \<and> edgeFrom e \<in> set ids \<and> edgeTo e \<in> set ids) es
     \<and> distinct (map edgePair es) \<and> (\<forall>e \<in> set es. dependencyKey (edgeFrom e) (edgeTo e) \<notin> set seen)"
  by (induction es arbitrary: seen d)
    (auto simp: addEdge_def addNew_def bindE_eq_Inr guardE_eq_Inr Let_def edgePair_def image_iff)

lemma preflight_limits:
  "preflightPolicyProblem p = Inr t \<Longrightarrow> length (rgApproaches (ivReasoningGraph p)) \<le> MAX_APPROACHES
     \<and> length (rgMilestones (ivReasoningGraph p)) \<le> MAX_MILESTONES \<and> length (rgEdges (ivReasoningGraph p)) \<le> MAX_GRAPH_EDGES"
  by (auto simp: preflightPolicyProblem_def bindE_eq_Inr guardE_eq_Inr Let_def)

text \<open>The dependencies a well-referenced problem declares, and what is stored for them.\<close>

definition problemDependencies :: "InterviewProblem \<Rightarrow> (string \<times> string) set" where
  "problemDependencies p = set (dependencyList (ivReasoningGraph p))"

definition problemGraph :: "InterviewProblem \<Rightarrow> DependencyGraph" where
  "problemGraph p = addPairs (dependencyList (ivReasoningGraph p)) (emptyDependencies (map mileId (rgMilestones (ivReasoningGraph p))))"

lemma problemGraph_represented:
  assumes "wellReferenced p"
  shows "represented (map mileId (rgMilestones (ivReasoningGraph p))) (problemDependencies p) (problemGraph p)"
proof -
  let ?ms = "map mileId (rgMilestones (ivReasoningGraph p))"
  have "set (dependencyList (ivReasoningGraph p)) \<subseteq> set ?ms \<times> set ?ms"
    using assms by (fastforce simp: wellReferenced_def Let_def dependencyList_def milestoneDependencies_def edgePair_def
        milestoneReferences_def list_all_iff)
  from represented_pairs [OF represented_empty this] show ?thesis by (simp add: problemGraph_def problemDependencies_def)
qed

lemma validateGraphContext_Inr:
  "validateGraphContext p = Inr g \<longleftrightarrow>
     isOk (preflightPolicyProblem p) \<and> PolicyProblemViewSchema p \<and> wellReferenced p
     \<and> visitedMilestones (map mileId (rgMilestones (ivReasoningGraph p))) (problemGraph p) = length (rgMilestones (ivReasoningGraph p))
     \<and> g = \<lparr> gcProblem = p, gcApproachIds = map apId (rgApproaches (ivReasoningGraph p)),
           gcMilestoneIds = map mileId (rgMilestones (ivReasoningGraph p)),
           gcDisclosureIds = map pdId (ivProtectedDisclosures p),
           gcPredecessors = map (\<lambda>(k, vs). (k, sort (uniq vs))) (dgPredecessors (problemGraph p)) \<rparr>"
  (is "?l \<longleftrightarrow> ?r")
proof (cases "preflightPolicyProblem p")
  case (Inl e)
  then show ?thesis by (simp add: validateGraphContext_def)
next
  case (Inr t)
  show ?thesis
    using preflight_limits [OF Inr]
    by (auto simp: validateGraphContext_def Inr bindE_eq_Inr guardE_eq_Inr Let_def collectIds_Inr milestones_fold edges_fold
        wellReferenced_def problemGraph_def dependencyList_def list_all_iff)
qed

lemma dget_map_values: "dget (map (\<lambda>(k, v). (k, f v)) m) j = map_option f (dget m j)"
  by (induction m) (auto simp: dget_Cons)

lemma stored_predecessors:
  "dlist (map (\<lambda>(k, vs). (k, sort (uniq vs))) m) x = sort (uniq (dlist m x))"
  by (simp add: dlist_def dget_map_values uniq_def split: option.splits)

lemma validated_context:
  assumes "validateGraphContext p = Inr g"
  shows "gcProblem g = p \<and> gcMilestoneIds g = map mileId (rgMilestones (ivReasoningGraph p))
    \<and> gcApproachIds g = map apId (rgApproaches (ivReasoningGraph p))
    \<and> gcDisclosureIds g = map pdId (ivProtectedDisclosures p) \<and> wellReferenced p \<and> PolicyProblemViewSchema p
    \<and> set (dlist (gcPredecessors g) x) = {a. (a, x) \<in> problemDependencies p}
    \<and> sorted (dlist (gcPredecessors g) x) \<and> distinct (dlist (gcPredecessors g) x)"
  using assms problemGraph_represented [of p] by (auto simp: validateGraphContext_Inr stored_predecessors represented_def)

text \<open>
Property C20. The policy accepts the reasoning graph of a problem exactly when the problem passes the preflight
  and the schemas, every reference is to a known item and unrepeated, and no milestone depends on
  itself through others; the predecessors it stores are the declared ones, each once and in order.
\<close>

theorem graph_contexts_are_ordered:
  "(isOk (validateGraphContext p) \<longleftrightarrow>
      isOk (preflightPolicyProblem p) \<and> PolicyProblemViewSchema p \<and> wellReferenced p \<and> acyclic (problemDependencies p))
   \<and> (\<forall>g x. validateGraphContext p = Inr g \<longrightarrow>
        set (dlist (gcPredecessors g) x) = {a. (a, x) \<in> problemDependencies p}
        \<and> sorted (dlist (gcPredecessors g) x) \<and> distinct (dlist (gcPredecessors g) x))"
proof (intro conjI allI impI)
  have "visitedMilestones (map mileId (rgMilestones (ivReasoningGraph p))) (problemGraph p) = length (rgMilestones (ivReasoningGraph p))
      \<longleftrightarrow> acyclic (problemDependencies p)" if "wellReferenced p"
    using visited_all_iff [OF problemGraph_represented [OF that]] that by (simp add: wellReferenced_def Let_def)
  then show "isOk (validateGraphContext p) \<longleftrightarrow>
      isOk (preflightPolicyProblem p) \<and> PolicyProblemViewSchema p \<and> wellReferenced p \<and> acyclic (problemDependencies p)"
    unfolding isOk_iff [of "validateGraphContext p"] validateGraphContext_Inr by blast
qed (use validated_context in blast)+

text \<open>A problem with two approaches whose last milestone joins them.\<close>

definition sampleProblem :: InterviewProblem where
  "sampleProblem =
     \<lparr> ivId = ''p1'', ivVersion = ''1'', ivPrompt = ''Show it.'', ivGivenInformation = [], ivTopics = [''algebra''],
       ivDifficulty = ''easy'',
       ivReasoningGraph =
         \<lparr> rgVersion = ''1'',
           rgApproaches = [\<lparr> apId = ''a1'', apLabel = ''direct'' \<rparr>, \<lparr> apId = ''a2'', apLabel = ''indirect'' \<rparr>],
           rgMilestones =
             [\<lparr> mileId = ''m1'', mileDescription = ''start'', mileApproachIds = [''a1''], milePrerequisiteIds = [],
                mileDisclosureIds = [''d1''] \<rparr>,
              \<lparr> mileId = ''m2'', mileDescription = ''step'', mileApproachIds = [''a1''], milePrerequisiteIds = [''m1''],
                mileDisclosureIds = [''d2''] \<rparr>],
           rgEdges = [\<lparr> edgeFrom = ''m1'', edgeTo = ''m2'' \<rparr>], rgCommonErrors = [], rgExtensions = [] \<rparr>,
       ivProtectedDisclosures =
         [\<lparr> pdId = ''d1'', pdFact = ''f1'', pdMinimumDisclosureLevel = 1, pdEquivalentFormulations = [''g1''] \<rparr>,
          \<lparr> pdId = ''d2'', pdFact = ''f2'', pdMinimumDisclosureLevel = 3, pdEquivalentFormulations = [''g2''] \<rparr>],
       ivCanonicalSolution = ''s'', ivVerificationNotes = ''n'' \<rparr>"

lemma sample_bounded: "length s \<le> 100 \<Longrightarrow> 100 \<le> n \<Longrightarrow> boundedString s n \<longleftrightarrow> js_trim s \<noteq> []"
  by (auto simp: boundedString_def)

lemmas policy_limits = MAX_APPROACHES_def MAX_MILESTONES_def MAX_GRAPH_EDGES_def MAX_PROTECTED_DISCLOSURES_def
  MAX_POLICY_ID_CHARACTERS_def MAX_POLICY_TEXT_CHARACTERS_def MAX_APPROACH_REFS_PER_MILESTONE_def
  MAX_PREREQUISITES_PER_MILESTONE_def MAX_DISCLOSURE_REFS_PER_MILESTONE_def
  MAX_EQUIVALENT_FORMULATIONS_PER_DISCLOSURE_def MAX_COMMON_ERRORS_def MAX_EXTENSIONS_def
  MAX_TOTAL_GRAPH_REFERENCES_def MAX_TOTAL_POLICY_TEXT_CHARACTERS_def

lemma sampleProblem_accepted:
  "isOk (preflightPolicyProblem sampleProblem)" "PolicyProblemViewSchema sampleProblem" "wellReferenced sampleProblem"
  "problemDependencies sampleProblem = {(''m1'', ''m2'')}"
proof -
  have trims: "js_trim x \<noteq> []" if "x \<in> {''p1'', ''1'', ''Show it.'', ''algebra'', ''easy'', ''a1'', ''direct'', ''a2'', ''indirect'',
      ''m1'', ''m2'', ''start'', ''step'', ''d1'', ''d2'', ''f1'', ''f2'', ''g1'', ''g2''}" for x
    using that by (auto simp: js_trim_def js_space_def)
  show "isOk (preflightPolicyProblem sampleProblem)"
    by (simp add: preflightPolicyProblem_def sampleProblem_def Let_def sample_bounded trims preflightPair_def
        preflightMilestone_def preflightDisclosure_def withinText_def withinTotals_def addText_def addReferences_def
        charactersOf_def policy_limits)
  show "PolicyProblemViewSchema sampleProblem"
    by (simp add: PolicyProblemViewSchema_def sampleProblem_def ReasoningGraphSchema_def MilestoneSchema_def nonempty_def idSchema_def
        ProtectedDisclosureSchema_def DisclosureLevelSchema_def policy_limits)
  show "wellReferenced sampleProblem"
    by (simp add: wellReferenced_def sampleProblem_def Let_def milestoneReferences_def edgePair_def)
  show "problemDependencies sampleProblem = {(''m1'', ''m2'')}"
    by (simp add: problemDependencies_def dependencyList_def milestoneDependencies_def sampleProblem_def edgePair_def)
qed

lemma sampleProblem_acyclic: "acyclic (problemDependencies sampleProblem)"
  by (simp add: sampleProblem_accepted acyclic_insert) (simp add: acyclic_def)

lemma distinct_singleton: "distinct xs \<Longrightarrow> set xs = {a} \<Longrightarrow> xs = [a]"
  by (cases xs) (auto simp: subset_singleton_iff insert_eq_iff)

theorem graph_contexts_are_ordered_witness:
  "\<exists>g. validateGraphContext sampleProblem = Inr g \<and> dlist (gcPredecessors g) ''m2'' = [''m1'']"
proof -
  obtain g where g: "validateGraphContext sampleProblem = Inr g"
    using graph_contexts_are_ordered [of sampleProblem] sampleProblem_accepted sampleProblem_acyclic by (auto simp: isOk_iff)
  then have "set (dlist (gcPredecessors g) ''m2'') = {''m1''}" "distinct (dlist (gcPredecessors g) ''m2'')"
    using graph_contexts_are_ordered [of sampleProblem] sampleProblem_accepted(4) by auto
  then have "dlist (gcPredecessors g) ''m2'' = [''m1'']" by (rule distinct_singleton [rotated])
  with g show ?thesis by blast
qed

end
