(* ===== verification/PolicyFacts.thy ===== *)
theory PolicyFacts
  imports PedagogicalPolicy ReasoningOrder
begin

text \<open>
  What the decisions of the pedagogical policy guarantee: the target is one the inputs name, a
  request never authorizes more than its level and the ready part of the graph allow, hints are
  only reached after weaker assistance, and what cannot be validated discloses nothing.
\<close>

section \<open>The plan\<close>

lemma chooseActionPlan_cases:
  "planRequestedDisclosure (chooseActionPlan c rs hint) = 0
   \<or> \<not> saturatedAssistance rs \<and>
     (planRequestedDisclosure (chooseActionPlan c rs hint) = 1
      \<or> planRequestedDisclosure (chooseActionPlan c rs hint) = 2 \<and> length rs = 2
      \<or> Some (planRequestedDisclosure (chooseActionPlan c rs hint)) = hint \<and> 3 \<le> length rs
        \<and> planAction (chooseActionPlan c rs hint) = EXPLICIT_HINT)"
proof -
  have "length rs = 0 \<or> length rs = 1 \<or> length rs = 2 \<or> 3 \<le> length rs" by linarith
  then show ?thesis
    by (elim disjE; cases "clClassification c"; cases hint)
      (simp_all add: chooseActionPlan_def escalate_def plan_def Let_def del: length_0_conv)
qed

lemma explicitHintLevel_Some:
  assumes "explicitHintLevel t g completed disclosed = Some l"
  obtains m i d where "3 \<le> l" "l \<le> 4" "ptKind t = Kind_MILESTONE" "milestoneReady g completed (ptId t)"
    "findMilestone g (ptId t) = Some m" "i \<in> set (mileDisclosureIds m)" "dget (disclosureMap g) i = Some d"
    "pdId d \<notin> set disclosed" "pdMinimumDisclosureLevel d = l"
proof -
  let ?levels = "\<lambda>m. sort (filter (\<lambda>l. 3 \<le> l \<and> l \<le> 4) (map pdMinimumDisclosureLevel (filter (\<lambda>d. pdId d \<notin> set disclosed)
      (concat (map (\<lambda>i. case dget (disclosureMap g) i of None \<Rightarrow> [] | Some d \<Rightarrow> [d]) (mileDisclosureIds m))))))"
  from assms obtain m ls where m: "ptKind t = Kind_MILESTONE" "milestoneReady g completed (ptId t)"
    "findMilestone g (ptId t) = Some m" "?levels m = l # ls"
    by (auto simp: explicitHintLevel_def Let_def split: if_splits option.splits list.splits)
  have "l \<in> set (?levels m)" unfolding m(4) by simp
  then obtain i d where "i \<in> set (mileDisclosureIds m)" "dget (disclosureMap g) i = Some d" "pdId d \<notin> set disclosed"
    "pdMinimumDisclosureLevel d = l" "3 \<le> l" "l \<le> 4"
    by (auto split: option.splits dest: sym)
  then show thesis using m(1,2,3) that by blast
qed

text \<open>The request of a decision is the one the plan and the authorization make, or the closed one.\<close>

lemma turn_target_trimmed: "js_trim (targetToString t) \<noteq> []"
  by (cases "ptKind t") (auto simp: targetToString_def js_trim_def js_space_def dropWhile_eq_Nil_conv)

definition safeTurnId :: "TurnId \<Rightarrow> TurnId" where
  "safeTurnId turnId = (if boundedString turnId MAX_POLICY_ID_CHARACTERS then turnId else ''invalid-turn'')"

definition closedRequest :: "TurnId \<Rightarrow> RealizationRequest" where
  "closedRequest turnId =
     \<lparr> rrRequiredAction = CLARIFY, rrTarget = Some (''turn:'' @ safeTurnId turnId), rrMaximumDisclosure = 0,
       rrAllowedDisclosureIds = None \<rparr>"

lemma closedRequest_ok: "RealizationRequestSchema (closedRequest turnId)"
proof -
  have "length (safeTurnId turnId) \<le> 512"
    by (auto simp: safeTurnId_def boundedString_def MAX_POLICY_ID_CHARACTERS_def)
  then show ?thesis using turn_target_trimmed [of "\<lparr> ptKind = Kind_TURN, ptId = safeTurnId turnId \<rparr>"]
    by (simp add: RealizationRequestSchema_def closedRequest_def str_between_def DisclosureLevelSchema_def targetToString_def)
qed

lemma failClosed_closes:
  "\<exists>d. failClosedDecision turnId code = Inr d \<and> dcRealizationRequest d = closedRequest turnId \<and> dcReasonCode d = code
     \<and> dcInterventionStage d = PROBE \<and> \<not> dcEscalationJustified d \<and> \<not> dcWaitingPreferred d"
  using closedRequest_ok [of turnId]
  by (simp add: failClosedDecision_def Let_def parseRequest_def targetToString_def closedRequest_def safeTurnId_def)

section \<open>Authorization\<close>

definition dependsOn :: "GraphContext \<Rightarrow> (string \<times> string) set" where
  "dependsOn g = {(a, x). a \<in> set (dlist (gcPredecessors g) x)}"

definition completedPredecessors :: "GraphContext \<Rightarrow> string list \<Rightarrow> string \<Rightarrow> string set" where
  "completedPredecessors g completed i = {x \<in> set completed. (x, i) \<in> (dependsOn g)\<^sup>+}"

lemma visitPredecessors_sound:
  assumes "set ps \<subseteq> {a. (a, i) \<in> (dependsOn g)\<^sup>+}"
    "set (fst s) \<subseteq> R \<union> completedPredecessors g completed i"
    "set (snd s) \<subseteq> insert i (completedPredecessors g completed i)"
  shows "set (fst (foldl (visitPredecessor g completed a) s ps)) \<subseteq> R \<union> completedPredecessors g completed i
    \<and> set (snd (foldl (visitPredecessor g completed a) s ps)) \<subseteq> insert i (completedPredecessors g completed i)"
  using assms
proof (induction ps arbitrary: s)
  case (Cons p ps)
  from Cons.prems have "set (fst (visitPredecessor g completed a s p)) \<subseteq> R \<union> completedPredecessors g completed i"
    "set (snd (visitPredecessor g completed a s p)) \<subseteq> insert i (completedPredecessors g completed i)"
    by (auto simp: visitPredecessor_def completedPredecessors_def split: option.splits)
  then show ?case using Cons.prems(1) Cons.IH [of "visitPredecessor g completed a s p"] by simp
qed simp

lemma relevantLoop_sound:
  "set relevant \<subseteq> R \<union> completedPredecessors g completed i \<Longrightarrow>
   set queue \<subseteq> insert i (completedPredecessors g completed i) \<Longrightarrow>
   set (relevantLoop g completed a relevant queue) \<subseteq> R \<union> completedPredecessors g completed i"
proof (induction g completed a relevant queue rule: relevantLoop.induct)
  case (2 g completed a relevant current queue)
  have "set (dlist (gcPredecessors g) current) \<subseteq> {x. (x, i) \<in> (dependsOn g)\<^sup>+}"
  proof
    fix x assume "x \<in> set (dlist (gcPredecessors g) current)"
    then have "(x, current) \<in> dependsOn g" by (simp add: dependsOn_def)
    moreover have "current = i \<or> (current, i) \<in> (dependsOn g)\<^sup>+" using "2.prems"(2) by (auto simp: completedPredecessors_def)
    ultimately show "x \<in> {x. (x, i) \<in> (dependsOn g)\<^sup>+}" by (auto intro: trancl_into_trancl2)
  qed
  then show ?case
    using "2.prems" visitPredecessors_sound [of "dlist (gcPredecessors g) current" i g "(relevant, queue)" R completed a]
    by (cases "foldl (visitPredecessor g completed a) (relevant, queue) (dlist (gcPredecessors g) current)")
      (simp add: "2.IH")
qed simp

lemma relevantMilestoneIds_sound:
  "set (relevantMilestoneIds g completed active i)
     \<subseteq> {x. x = i \<and> milestoneReady g completed i} \<union> completedPredecessors g completed i"
proof (cases active)
  case (Some a)
  let ?start = "if milestoneReady g completed i then [i] else []"
  have "set (relevantLoop g completed a ?start [i]) \<subseteq> {x. x = i \<and> milestoneReady g completed i} \<union> completedPredecessors g completed i"
    by (rule relevantLoop_sound) auto
  with Some show ?thesis by (simp add: relevantMilestoneIds_def Let_def)
qed (simp add: relevantMilestoneIds_def Let_def)

definition authorized :: "GraphContext \<Rightarrow> DisclosureLevel \<Rightarrow> string set \<Rightarrow> DisclosureId \<Rightarrow> bool" where
  "authorized g level ms i =
     (disclosureAtMost g level i \<and> (\<exists>m \<in> ms. \<exists>x. findMilestone g m = Some x \<and> i \<in> set (mileDisclosureIds x)))"

definition authorizedList :: "GraphContext \<Rightarrow> DisclosureLevel \<Rightarrow> string set \<Rightarrow> DisclosureId list \<Rightarrow> bool" where
  "authorizedList g level ms xs = (distinct xs \<and> length xs \<le> 256 \<and> (\<forall>i \<in> set xs. authorized g level ms i))"

lemma allowDisclosures_sound:
  "foldE (allowDisclosure g level) xs is = Inr ys \<Longrightarrow> authorizedList g level ms xs \<Longrightarrow>
   m \<in> ms \<Longrightarrow> findMilestone g m = Some x \<Longrightarrow> set is \<subseteq> set (mileDisclosureIds x) \<Longrightarrow> authorizedList g level ms ys"
proof (induction "is" arbitrary: xs)
  case (Cons i "is")
  from Cons.prems(1) obtain zs where zs: "allowDisclosure g level xs i = Inr zs" "foldE (allowDisclosure g level) zs is = Inr ys"
    by (auto simp: bindE_eq_Inr)
  have here: "disclosureAtMost g level i \<Longrightarrow> authorized g level ms i"
    unfolding authorized_def using Cons.prems(3-5) by (intro conjI bexI [of _ m] exI [of _ x]) simp_all
  have "authorizedList g level ms zs"
    using zs(1) Cons.prems(2) here
    by (auto simp: allowDisclosure_def Let_def authorizedList_def bindE_eq_Inr guardE_eq_Inr
        MAX_DISCLOSURE_REFS_PER_MILESTONE_def split: if_splits)
  then show ?case using Cons.IH zs(2) Cons.prems(3-5) by simp
qed simp

lemma allowMilestones_sound:
  "foldE (allowMilestone g level) xs ids = Inr ys \<Longrightarrow> authorizedList g level ms xs \<Longrightarrow> set ids \<subseteq> ms \<Longrightarrow>
   authorizedList g level ms ys"
proof (induction ids arbitrary: xs)
  case (Cons m ids)
  from Cons.prems(1) obtain zs where zs: "allowMilestone g level xs m = Inr zs" "foldE (allowMilestone g level) zs ids = Inr ys"
    by (auto simp: bindE_eq_Inr)
  have "authorizedList g level ms zs"
    using zs(1) Cons.prems(2,3) allowDisclosures_sound
    by (fastforce simp: allowMilestone_def split: option.splits)
  then show ?case using Cons.IH zs(2) Cons.prems(3) by simp
qed simp

lemma authorization_sound:
  assumes "targetDisclosureAuthorization t level g completed active = Inr ids"
  shows "distinct ids \<and> length ids \<le> 256 \<and> sorted ids
    \<and> (\<forall>i \<in> set ids. ptKind t = Kind_MILESTONE \<and> 0 < level
        \<and> authorized g level ({x. x = ptId t \<and> milestoneReady g completed (ptId t)} \<union> completedPredecessors g completed (ptId t)) i)"
proof (cases "level = 0 \<or> ptKind t \<noteq> Kind_MILESTONE \<or> findMilestone g (ptId t) = None")
  case True
  then have "ids = []" using assms by (auto simp: targetDisclosureAuthorization_def split: if_splits)
  then show ?thesis by simp
next
  case False
  then obtain m where m: "findMilestone g (ptId t) = Some m" by auto
  then have mid: "mileId m = ptId t" by (auto simp: findMilestone_def find_Some_iff)
  let ?M = "{x. x = ptId t \<and> milestoneReady g completed (ptId t)} \<union> completedPredecessors g completed (ptId t)"
  from assms False m mid obtain ys where ys: "foldE (allowMilestone g level) [] (relevantMilestoneIds g completed active (ptId t)) = Inr ys"
    "ids = sort ys"
    by (auto simp: targetDisclosureAuthorization_def bindE_eq_Inr)
  have "authorizedList g level ?M ys"
    by (rule allowMilestones_sound [OF ys(1) _ relevantMilestoneIds_sound]) (simp add: authorizedList_def)
  then show ?thesis using False ys(2) by (auto simp: authorizedList_def)
qed

section \<open>Sorting and folding\<close>

lemma set_insertWith [simp]: "set (insertWith cmp x ys) = insert x (set ys)"
  by (induction ys) auto

lemma sortWith_simps [simp]: "sortWith cmp [] = []" "sortWith cmp (x # xs) = insertWith cmp x (sortWith cmp xs)"
  by (simp_all add: sortWith_def)

lemma set_sortWith [simp]: "set (sortWith cmp xs) = set xs"
  by (induction xs) auto

lemma mset_insertWith: "mset (insertWith cmp x ys) = add_mset x (mset ys)"
  by (induction ys) auto

lemma mset_sortWith: "mset (sortWith cmp xs) = mset xs"
  by (induction xs) (auto simp: mset_insertWith)

lemma foldE_element:
  "foldE f s xs = Inr t \<Longrightarrow> x \<in> set xs \<Longrightarrow> \<exists>s' t'. f s' x = Inr t'"
  by (induction xs arbitrary: s) (auto simp: bindE_eq_Inr)

lemma find_in_set: "find P xs = Some x \<Longrightarrow> x \<in> set xs"
  by (auto simp: find_Some_iff)

section \<open>Targets\<close>

definition turnTarget :: "TurnId \<Rightarrow> PolicyTarget" where
  "turnTarget turnId = \<lparr> ptKind = Kind_TURN, ptId = turnId \<rparr>"

definition graphTarget :: "GraphContext \<Rightarrow> PolicyTarget \<Rightarrow> bool" where
  "graphTarget g t =
     ((ptKind t = Kind_MILESTONE \<and> ptId t \<in> set (map mileId (graphMilestones g)))
      \<or> (ptKind t = Kind_APPROACH \<and> ptId t \<in> set (map apId (rgApproaches (ivReasoningGraph (gcProblem g))))))"

definition namedTarget ::
  "ActiveEvidenceSignal list \<Rightarrow> VerificationSignal list \<Rightarrow> GraphContext \<Rightarrow> TurnId \<Rightarrow> PolicyTarget \<Rightarrow> bool" where
  "namedTarget evidence verification g turnId t =
     (t \<in> asTarget ` set evidence \<or> t \<in> vgTarget ` set verification \<or> t = turnTarget turnId \<or> graphTarget g t)"

lemma firstAnswer_all: "list_all (opt_all P) xs \<Longrightarrow> P y \<Longrightarrow> P (firstAnswer xs y)"
  by (induction xs y rule: firstAnswer.induct) auto

lemma opt_all_map: "opt_all P (map_option f x) \<longleftrightarrow> (\<forall>y. x = Some y \<longrightarrow> P (f y))"
  by (cases x) auto

lemma opt_all_iff: "opt_all P x \<longleftrightarrow> (\<forall>y. x = Some y \<longrightarrow> P y)"
  by (cases x) auto

lemma classified_target [simp]: "clTarget (classified c code t) = t"
  by (simp add: classified_def)

lemma actionable_subset: "set (actionableEvidence evidence) \<subseteq> set evidence"
  by (auto simp: actionableEvidence_def)

lemma scoped_subset: "set (evidenceForActiveApproach g evidence) \<subseteq> set evidence"
  by (auto simp: evidenceForActiveApproach_def split: option.splits)

lemma dvals_dput: "set (dvals (dput k v m)) \<subseteq> insert v (set (dvals m))"
  unfolding dvals_def dput_def by (induction m) (auto split: if_splits)

lemma signalTargets_subset: "set (dvals (signalTargets evidence verification)) \<subseteq> asTarget ` set evidence \<union> vgTarget ` set verification"
proof -
  have "set (dvals (foldl (\<lambda>m t. dput (targetToString t) t m) m ts)) \<subseteq> set (dvals m) \<union> set ts" for m :: "PolicyTarget dict" and ts
  proof (induction ts arbitrary: m)
    case (Cons t ts)
    then show ?case using dvals_dput [of "targetToString t" t m] by fastforce
  qed simp
  from this [of "[]" "map asTarget evidence @ map vgTarget verification"] show ?thesis
    by (auto simp: signalTargets_def dvals_def)
qed

lemma conflict_target:
  assumes "findConflictTarget collate evidence verification = Some t"
  shows "t \<in> asTarget ` set evidence \<union> vgTarget ` set verification"
proof -
  from assms obtain n cs where
    "sortWith (compareConflicts collate) (concat (map (\<lambda>t. case conflictSequence evidence verification t of None \<Rightarrow> [] | Some n \<Rightarrow> [(t, n)])
        (dvals (signalTargets evidence verification)))) = (t, n) # cs"
    by (auto simp: findConflictTarget_def Let_def split: list.splits)
  from arg_cong [OF this, of set] have "t \<in> set (dvals (signalTargets evidence verification))"
    by (auto split: option.splits)
  then show ?thesis using signalTargets_subset by blast
qed

lemma sort_head: "sort xs = y # ys \<Longrightarrow> y \<in> set xs"
  by (metis list.set_intros(1) set_sort)

lemma next_milestone_target: "selectNextMilestoneTarget g evidence = Some t \<Longrightarrow> graphTarget g t"
  by (auto simp: selectNextMilestoneTarget_def Let_def graphTarget_def split: list.splits dest!: sort_head)

lemma progressClass_target: "clTarget (progressClass g scoped s) = asTarget s \<or> graphTarget g (clTarget (progressClass g scoped s))"
  by (auto simp: progressClass_def Let_def next_milestone_target split: option.splits)

lemma completed_target:
  assumes "classifyCompleted g actionable = Some c"
  shows "graphTarget g (clTarget c)"
proof -
  have approach: "x \<in> set (findCompletedApproaches g actionable) \<Longrightarrow> x \<in> apId ` set (rgApproaches (ivReasoningGraph (gcProblem g)))" for x
    by (auto simp: findCompletedApproaches_def Let_def)
  from assms obtain x xs where c: "findCompletedApproaches g actionable = x # xs"
    by (auto simp: classifyCompleted_def Let_def split: list.splits)
  let ?others = "sort (filter (\<lambda>a. a \<notin> set (x # xs)) (map apId (rgApproaches (ivReasoningGraph (gcProblem g)))))"
  from c have x: "x \<in> apId ` set (rgApproaches (ivReasoningGraph (gcProblem g)))" using approach [of x] by simp
  show ?thesis
  proof (cases ?others)
    case Nil
    then show ?thesis using assms c x by (auto simp: classifyCompleted_def Let_def graphTarget_def)
  next
    case (Cons a as)
    then have "a \<in> apId ` set (rgApproaches (ivReasoningGraph (gcProblem g)))" by (auto dest!: sort_head)
    then show ?thesis using assms c Cons by (auto simp: classifyCompleted_def Let_def graphTarget_def)
  qed
qed

lemma classifyProgress_target:
  "namedTarget evidence verification g turnId (clTarget (classifyProgress collate evidence verification g turnId))"
proof -
  define actionable where "actionable = actionableEvidence evidence"
  define scoped where "scoped = evidenceForActiveApproach g actionable"
  have sub: "set actionable \<subseteq> set evidence" "set scoped \<subseteq> set evidence"
    using actionable_subset scoped_subset unfolding actionable_def scoped_def by blast+
  let ?P = "\<lambda>c. namedTarget evidence verification g turnId (clTarget c)"
  have signal: "namedTarget evidence verification g turnId (asTarget s)" if "s \<in> set scoped \<or> s \<in> set evidence" for s
    using sub that by (auto simp: namedTarget_def)
  have found: "s \<in> set scoped" if "findSignal scoped d rs = Some s" for d rs s
    using that by (auto simp: findSignal_def dest!: find_in_set)
  have low: "opt_all ?P (classifyLowConfidence evidence verification)"
    by (auto simp: classifyLowConfidence_def Let_def opt_all_iff signal split: option.splits dest!: find_in_set)
  have conflict: "opt_all ?P (classifyConflict collate scoped verification)"
    using sub by (auto simp: classifyConflict_def opt_all_map namedTarget_def dest!: conflict_target)
  have direct: "opt_all ?P (classifySignal scoped d rs c code)" for d rs c code
    by (auto simp: classifySignal_def opt_all_map dest!: found intro: signal)
  have verified: "opt_all ?P (classifyVerified verification status c code)" for status c code
    by (auto simp: classifyVerified_def opt_all_map namedTarget_def dest!: find_in_set)
  have unsupported: "opt_all ?P (classifyUnsupported scoped verification)"
    by (auto simp: classifyUnsupported_def opt_all_map Let_def dest!: found intro: signal)
  have progress: "?P (progressClass g scoped s)" if "s \<in> set scoped" for s
    using progressClass_target [of g scoped s] signal [of s] that by (auto simp: namedTarget_def)
  have progressing: "opt_all ?P (map_option (progressClass g scoped) (findSignal scoped d rs))" for d rs
    by (auto simp: opt_all_map dest!: found intro: progress)
  have completed: "opt_all ?P (classifyCompleted g actionable)"
    by (auto simp: opt_all_iff namedTarget_def dest: completed_target)
  have searched: "opt_all ?P (map_option (\<lambda>s. classified c code (asTarget s)) (find Q scoped))" for c code Q
    by (auto simp: opt_all_map dest!: find_in_set intro: signal)
  have rest: "?P (classifyRest evidence actionable scoped turnId)"
  proof -
    have turn: "namedTarget evidence verification g turnId \<lparr> ptKind = Kind_TURN, ptId = turnId \<rparr>"
      by (simp add: namedTarget_def turnTarget_def)
    have first: "namedTarget evidence verification g turnId (asTarget s)" if "scoped @ actionable = s # ss" for s ss
    proof -
      have "s \<in> set (scoped @ actionable)" unfolding that by simp
      then show ?thesis using sub by (auto intro: signal)
    qed
    show ?thesis using turn first signal
      by (auto simp: classifyRest_def Let_def split: list.splits)
  qed
  show ?thesis
    unfolding classifyProgress_def Let_def actionable_def [symmetric] scoped_def [symmetric]
    by (rule firstAnswer_all [of ?P]) (simp_all only: list.pred_inject low conflict direct verified unsupported progressing
        completed searched rest simp_thms)
qed

section \<open>Assistance\<close>

lemma foldE_invariant:
  "(\<And>s x t. x \<in> set xs \<Longrightarrow> I s \<Longrightarrow> f s x = Inr t \<Longrightarrow> I t) \<Longrightarrow> I s \<Longrightarrow> foldE f s xs = Inr t \<Longrightarrow> I t"
proof (induction xs arbitrary: s)
  case (Cons x xs)
  from Cons.prems(3) obtain u where u: "f s x = Inr u" "foldE f u xs = Inr t" by (auto simp: bindE_eq_Inr)
  have "I u" using Cons.prems(1) [of x s u] Cons.prems(2) u(1) by simp
  show ?case by (rule Cons.IH [OF _ \<open>I u\<close> u(2)]) (rule Cons.prems(1), simp_all)
qed simp

text \<open>A record of assistance stands for an atom that reached the candidate.\<close>

definition exposedRecord :: "SessionState \<Rightarrow> AssistanceRecord \<Rightarrow> bool" where
  "exposedRecord st r =
     (\<exists>e \<in> set (deliveries st). \<exists>gen request. isDisclosedStatus (atomStatus (snd e)) \<and> atomGenerationId (snd e) = arGenerationId r
        \<and> dget (generations st) (arGenerationId r) = Some gen \<and> gnPedagogicalAction gen = Some request
        \<and> rrTarget request = Some (arTarget r) \<and> rrRequiredAction request = arAction r
        \<and> rrMaximumDisclosure request = arMaximumDisclosure r
        \<and> effectiveDisclosureLevel (snd e) = arEffectiveDisclosureLevel r \<and> arEffectiveDisclosureLevel r \<le> arMaximumDisclosure r)"

definition exposureTable :: "SessionState \<Rightarrow> AssistanceScan \<Rightarrow> bool" where
  "exposureTable st scan =
     (dict_wf (ssByGeneration scan) \<and> (\<forall>e \<in> set (ssByGeneration scan). fst e = arGenerationId (snd e) \<and> exposedRecord st (snd e)))"

lemma dput_entries: "set (dput k v m) \<subseteq> insert (k, v) (set m)"
  by (induction m) (auto simp: dput_def split: if_splits)

lemma keepStrongest_table:
  assumes "exposureTable st scan" "exposedRecord st r"
  shows "exposureTable st (scan\<lparr> ssProposals := ps, ssDisclosedIds := ds, ssByGeneration := keepStrongest r (ssByGeneration scan) \<rparr>)"
  using assms dput_entries [of "arGenerationId r" r "ssByGeneration scan"]
  by (auto simp: exposureTable_def keepStrongest_def split: option.splits)

lemma scanExposure_Inr:
  assumes "scanExposure st g scan a = Inr scan'"
  obtains gen request turn p where "dget (generations st) (atomGenerationId a) = Some gen" "gnPedagogicalAction gen = Some request"
    "exposureOk st (gnBasis gen) a p request turn" "exposedIdsOk g a p request"
    "scan' = scan\<lparr> ssProposals := dput (atomGenerationId a) p (ssProposals scan),
       ssDisclosedIds := uniq (ssDisclosedIds scan @ disclosureIds a),
       ssByGeneration := keepStrongest (assistanceRecord a request turn) (ssByGeneration scan) \<rparr>"
proof (cases "dget (generations st) (atomGenerationId a)")
  case (Some gen)
  then show thesis using assms that
    by (cases "gnPedagogicalAction gen"; cases "dget (turns st) (gbTurnId (gnBasis gen))")
      (auto simp: scanExposure_def bindE_eq_Inr guardE_eq_Inr)
qed (use assms in \<open>simp add: scanExposure_def\<close>)

lemma scanDelivery_table:
  assumes "scanDelivery st g scan e = Inr scan'" "e \<in> set (deliveries st)" "exposureTable st scan"
  shows "exposureTable st scan'"
proof (cases "isDisclosedStatus (atomStatus (snd e))")
  case False
  then show ?thesis using assms by (auto simp: scanDelivery_def Let_def bindE_eq_Inr exposureTable_def)
next
  case True
  let ?scan = "scan\<lparr> ssTotal := ssTotal scan + length (disclosureIds (snd e)) \<rparr>"
  from True assms(1) have "scanExposure st g ?scan (snd e) = Inr scan'"
    by (simp add: scanDelivery_def Let_def bindE_eq_Inr)
  then obtain gen request turn p where
    gen: "dget (generations st) (atomGenerationId (snd e)) = Some gen" "gnPedagogicalAction gen = Some request"
    "exposureOk st (gnBasis gen) (snd e) p request turn"
    and scan': "scan' = ?scan\<lparr> ssProposals := dput (atomGenerationId (snd e)) p (ssProposals ?scan),
      ssDisclosedIds := uniq (ssDisclosedIds ?scan @ disclosureIds (snd e)),
      ssByGeneration := keepStrongest (assistanceRecord (snd e) request turn) (ssByGeneration ?scan) \<rparr>"
    by (rule scanExposure_Inr)
  have "exposedRecord st (assistanceRecord (snd e) request turn)"
    unfolding exposedRecord_def
    by (rule bexI [of _ e], rule exI [of _ gen], rule exI [of _ request])
      (use gen True assms(2) in \<open>auto simp: assistanceRecord_def exposureOk_def split: option.splits\<close>)
  moreover have "exposureTable st ?scan" using assms(3) by (simp add: exposureTable_def)
  ultimately show ?thesis unfolding scan' using keepStrongest_table by blast
qed

lemma scanDeliveries_table:
  assumes fold: "foldE (scanDelivery st g) \<lparr> ssTotal = 0, ssByGeneration = [], ssProposals = [], ssDisclosedIds = [] \<rparr> xs = Inr scan"
    and xs: "set xs \<subseteq> set (deliveries st)"
  shows "exposureTable st scan"
proof (rule foldE_invariant [where I = "exposureTable st", OF _ _ fold])
  show "exposureTable st \<lparr> ssTotal = 0, ssByGeneration = [], ssProposals = [], ssDisclosedIds = [] \<rparr>"
    by (simp add: exposureTable_def)
qed (use xs scanDelivery_table in blast)

lemma collected_assistance:
  assumes "collectExposedAssistance collate st g = Inr s"
  shows "distinct (map arGenerationId (asRecords s)) \<and> (\<forall>r \<in> set (asRecords s). exposedRecord st r)"
proof -
  from assms obtain scan where fold: "foldE (scanDelivery st g) \<lparr> ssTotal = 0, ssByGeneration = [], ssProposals = [], ssDisclosedIds = [] \<rparr>
      (sortWith (\<lambda>l r. collate (fst l) (fst r)) (deliveries st)) = Inr scan"
    and s: "asRecords s = sortWith (compareAssistance collate) (dvals (ssByGeneration scan))"
    by (auto simp: collectExposedAssistance_def bindE_eq_Inr)
  have table: "exposureTable st scan" by (rule scanDeliveries_table [OF fold]) simp
  then have "map arGenerationId (dvals (ssByGeneration scan)) = map fst (ssByGeneration scan)"
    by (auto simp: dvals_def exposureTable_def)
  then have "distinct (map arGenerationId (dvals (ssByGeneration scan)))"
    using table by (simp add: exposureTable_def dict_wf_def dkeys_def)
  then have "distinct (map arGenerationId (asRecords s))"
    unfolding s by (metis mset_map mset_sortWith mset_eq_imp_distinct_iff)
  then show ?thesis using table by (auto simp: s exposureTable_def dvals_def)
qed

section \<open>Evidence and verifications\<close>

text \<open>A signal stands for an active record about the problem, agreeing with the log.\<close>

definition evidenceFrom :: "SessionState \<Rightarrow> string \<Rightarrow> ActiveEvidenceSignal \<Rightarrow> bool" where
  "evidenceFrom st problemId s =
     (\<exists>e \<in> set (evidenceHistory st). \<exists>r \<in> set (snd e). erStatus r = Evidence_ACTIVE \<and> s = activeSignal (fst e) r
        \<and> ekProblemId (erKey r) = problemId \<and> recordMatchesKey (fst e) r \<and> recordMatchesLog st r
        \<and> recordMatchesProjection st (fst e) r)"

lemma scanActiveRecord_signals:
  "scanActiveRecord st g links scan k r = Inr scan' \<Longrightarrow>
   set (esSignals scan') \<subseteq> set (esSignals scan)
   \<or> ekProblemId (erKey r) = ivId (gcProblem g) \<and> recordMatchesKey k r \<and> recordMatchesLog st r \<and> recordMatchesProjection st k r
     \<and> set (esSignals scan') = insert (activeSignal k r) (set (esSignals scan))"
  by (auto simp: scanActiveRecord_def Let_def bindE_eq_Inr guardE_eq_Inr split: if_splits)

lemma scanHistory_signals:
  assumes "scanHistory st g links scan e = Inr scan'" "e \<in> set (evidenceHistory st)"
    "\<forall>s \<in> set (esSignals scan). evidenceFrom st (ivId (gcProblem g)) s"
  shows "\<forall>s \<in> set (esSignals scan'). evidenceFrom st (ivId (gcProblem g)) s"
proof (cases "activeOf (snd e)")
  case Nil
  then show ?thesis using assms(1,3) by (auto simp: scanHistory_def Let_def bindE_eq_Inr guardE_eq_Inr)
next
  case (Cons r rs)
  have "r \<in> set (activeOf (snd e))" unfolding Cons by simp
  then have r: "r \<in> set (snd e)" "erStatus r = Evidence_ACTIVE" by (auto simp: activeOf_def)
  let ?scan = "scan\<lparr> esRecordCount := esRecordCount scan + length (snd e) \<rparr>"
  from assms(1) Cons have "scanActiveRecord st g links ?scan (fst e) r = Inr scan'"
    by (auto simp: scanHistory_def Let_def bindE_eq_Inr)
  from scanActiveRecord_signals [OF this] assms(2,3) r show ?thesis
    by (fastforce simp: evidenceFrom_def)
qed

lemma collected_evidence:
  assumes "collectActiveEvidence collate st g links = Inr signals"
  shows "\<forall>s \<in> set signals. evidenceFrom st (ivId (gcProblem g)) s"
proof -
  from assms obtain scan where fold: "foldE (scanHistory st g links) \<lparr> esRecordCount = 0, esActiveKeys = [], esSignals = [] \<rparr>
      (evidenceHistory st) = Inr scan"
    and signals: "signals = sortWith (compareSignals collate) (esSignals scan)"
    by (auto simp: collectActiveEvidence_def bindE_eq_Inr)
  let ?I = "\<lambda>scan. \<forall>s \<in> set (esSignals scan). evidenceFrom st (ivId (gcProblem g)) s"
  have "?I scan"
  proof (rule foldE_invariant [where I = ?I, OF _ _ fold])
    show "?I \<lparr> esRecordCount = 0, esActiveKeys = [], esSignals = [] \<rparr>" by simp
  qed (rule scanHistory_signals)
  then show ?thesis by (simp add: signals)
qed

text \<open>A verification signal stands for an accepted request about a claim.\<close>

definition verifiedFrom :: "SessionState \<Rightarrow> VerificationSignal \<Rightarrow> bool" where
  "verifiedFrom st s =
     (\<exists>e \<in> set (verificationRequests st). vfStatus (snd e) = ACCEPTED
        \<and> vgTarget s = \<lparr> ptKind = Kind_CLAIM, ptId = evidenceSubjectId (ekSubject (vqEvidenceKey (vfRequest (snd e)))) \<rparr>)"

lemma scanVerification_signals:
  assumes "scanVerification st g scan e = Inr scan'" "e \<in> set (verificationRequests st)" "\<forall>s \<in> set (scSignals scan). verifiedFrom st s"
  shows "\<forall>s \<in> set (scSignals scan'). verifiedFrom st s"
proof (cases "vfStatus (snd e) = ACCEPTED")
  case False
  then show ?thesis using assms(1,3) by (simp add: scanVerification_def Let_def)
next
  case True
  from True assms(1) obtain result n where
    "scSignals scan' = scSignals scan \<or> scSignals scan' = scSignals scan @ [verificationSignal (snd e) result n]"
    "ekSubject (vqEvidenceKey (vfRequest (snd e))) = CLAIM (evidenceSubjectId (ekSubject (vqEvidenceKey (vfRequest (snd e)))))"
    by (auto simp: scanVerification_def Let_def bindE_eq_Inr guardE_eq_Inr split: option.splits if_splits)
  moreover from this(2) have "verifiedFrom st (verificationSignal (snd e) result n)" for result n
    unfolding verifiedFrom_def
    by (intro bexI [OF _ assms(2)]) (simp add: verificationSignal_def True, metis targetFromSubject.simps(1))
  ultimately show ?thesis using assms(3) by auto
qed

lemma collected_verification:
  assumes "collectVerificationSignals collate st g = Inr s"
  shows "\<forall>v \<in> set (vnSignals s). verifiedFrom st v"
proof -
  from assms obtain scan where fold: "foldE (scanVerification st g) \<lparr> scTotal = 0, scLinks = [], scSignals = [] \<rparr>
      (verificationRequests st) = Inr scan"
    and s: "vnSignals s = sortWith (compareVerification collate) (scSignals scan)"
    by (auto simp: collectVerificationSignals_def bindE_eq_Inr)
  let ?I = "\<lambda>scan. \<forall>s \<in> set (scSignals scan). verifiedFrom st s"
  have "?I scan"
  proof (rule foldE_invariant [where I = ?I, OF _ _ fold])
    show "?I \<lparr> scTotal = 0, scLinks = [], scSignals = [] \<rparr>" by simp
  qed (rule scanVerification_signals)
  then show ?thesis by (simp add: s)
qed

section \<open>Decisions\<close>

lemma collected_inputs:
  assumes "collectPolicyInputs collate sha256 st turnId p = Inr i"
  shows "validateGraphContext p = Inr (piGraph i)" "\<forall>s \<in> set (piEvidence i). evidenceFrom st (ivId p) s"
    "\<forall>v \<in> set (vnSignals (piVerification i)). verifiedFrom st v"
    "distinct (map arGenerationId (asRecords (piAssistance i)))" "\<forall>r \<in> set (asRecords (piAssistance i)). exposedRecord st r"
    "length turnId \<le> 512" "piLedger i = disclosureLedger st" "gcProblem (piGraph i) = p"
proof -
  from assms obtain g where g: "validateTurn st turnId = Inr ()" "validateGraphContext p = Inr g" "piGraph i = g"
    and more: "collectVerificationSignals collate st g = Inr (piVerification i)"
      "collectActiveEvidence collate st g (vnEvidenceLinks (piVerification i)) = Inr (piEvidence i)"
      "collectExposedAssistance collate st g = Inr (piAssistance i)"
      "validateDisclosureLedger st g (asDisclosedIds (piAssistance i)) = Inr (piLedger i)"
    by (auto simp: collectPolicyInputs_def bindE_eq_Inr)
  have problem: "gcProblem g = p" using validated_context [OF g(2)] by blast
  show "validateGraphContext p = Inr (piGraph i)" using g by simp
  show "\<forall>s \<in> set (piEvidence i). evidenceFrom st (ivId p) s" using collected_evidence [OF more(2)] problem by simp
  show "\<forall>v \<in> set (vnSignals (piVerification i)). verifiedFrom st v" by (rule collected_verification [OF more(1)])
  show "distinct (map arGenerationId (asRecords (piAssistance i)))" "\<forall>r \<in> set (asRecords (piAssistance i)). exposedRecord st r"
    using collected_assistance [OF more(3)] by blast+
  show "length turnId \<le> 512" using g(1)
    by (auto simp: validateTurn_def bindE_eq_Inr guardE_eq_Inr boundedString_def MAX_POLICY_ID_CHARACTERS_def)
  show "piLedger i = disclosureLedger st" using more(4)
    by (auto simp: validateDisclosureLedger_def bindE_eq_Inr collectIds_Inr)
  show "gcProblem (piGraph i) = p" using problem g(3) by simp
qed

definition openRequest :: "PolicyInputs \<Rightarrow> ClassificationResult \<Rightarrow> DisclosureId list \<Rightarrow> RealizationRequest" where
  "openRequest i c ids =
     (let pl = policyPlan i c in
      \<lparr> rrRequiredAction = planAction pl, rrTarget = Some (targetToString (clTarget c)),
        rrMaximumDisclosure = planRequestedDisclosure pl,
        rrAllowedDisclosureIds = (if planRequestedDisclosure pl = 0 then None else Some ids) \<rparr>)"

lemma decision_cases:
  assumes "decidePedagogicalPolicy collate sha256 st turnId p = Inr d"
  obtains (closed) "dcRealizationRequest d = closedRequest turnId"
  | (answered) i ids where "collectPolicyInputs collate sha256 st turnId p = Inr i"
      "policyAuthorization i (policyClassification collate i turnId) = Inr ids"
      "dcRealizationRequest d = openRequest i (policyClassification collate i turnId) ids"
      "RealizationRequestSchema (openRequest i (policyClassification collate i turnId) ids)"
      "dcTarget d = clTarget (policyClassification collate i turnId)"
proof (cases "collectPolicyInputs collate sha256 st turnId p")
  case (Inl code)
  then show thesis using assms failClosed_closes [of turnId code] closed by (auto simp: decidePedagogicalPolicy_def)
next
  case (Inr i)
  let ?c = "policyClassification collate i turnId"
  show thesis
  proof (cases "policyAuthorization i ?c")
    case (Inl code)
    then show thesis using assms \<open>collectPolicyInputs collate sha256 st turnId p = Inr i\<close>
        failClosed_closes [of turnId code] closed
      by (auto simp: decidePedagogicalPolicy_def Let_def)
  next
    case ids: (Inr ids)
    show thesis using assms Inr ids
      by (intro answered [OF Inr ids])
        (auto simp: decidePedagogicalPolicy_def Let_def openRequest_def parseRequest_def bindE_eq_Inr guardE_eq_Inr)
  qed
qed

lemma policy_level:
  "planRequestedDisclosure (policyPlan i c) \<le> 4"
proof -
  let ?hint = "explicitHintLevel (clTarget c) (piGraph i) (completedMilestoneIds (actionableEvidence (piEvidence i))) (piLedger i)"
  have "\<And>l. ?hint = Some l \<Longrightarrow> l \<le> 4" by (erule explicitHintLevel_Some)
  then show ?thesis
    using chooseActionPlan_cases [of c "assistanceForTarget (asRecords (piAssistance i)) (clTarget c)" ?hint]
    by (auto simp: policyPlan_def)
qed

lemma disclosureMap_fold:
  "dget (foldl (\<lambda>m d. dput (pdId d) d m) m ds) i = Some d \<Longrightarrow> dget m i = Some d \<or> d \<in> set ds \<and> pdId d = i"
proof (induction ds arbitrary: m)
  case (Cons x ds)
  then show ?case using Cons.IH [of "dput (pdId x) x m"] by (auto simp: dget_dput split: if_splits)
qed simp

lemma disclosureMap_Some: "dget (disclosureMap g) i = Some d \<Longrightarrow> d \<in> set (ivProtectedDisclosures (gcProblem g)) \<and> pdId d = i"
  using disclosureMap_fold [of "[]" _ i d] by (simp add: disclosureMap_def)

lemma disclosureAtMost_iff:
  "disclosureAtMost g level i \<Longrightarrow> \<exists>d \<in> set (ivProtectedDisclosures (gcProblem g)). pdId d = i \<and> pdMinimumDisclosureLevel d \<le> level"
  by (auto simp: disclosureAtMost_def dest: disclosureMap_Some split: option.splits)

lemma findMilestone_Some:
  "findMilestone g i = Some m \<Longrightarrow> m \<in> set (rgMilestones (ivReasoningGraph (gcProblem g))) \<and> mileId m = i"
  by (auto simp: findMilestone_def graphMilestones_def find_Some_iff)

end
