(* ===== verification/PolicyProperties.thy ===== *)
theory PolicyProperties
  imports PolicyFacts
begin

text \<open>
  The guarantees of the pedagogical policy, stated over the session and the problem it was given.
\<close>

section \<open>Disclosures\<close>

text \<open>The session has active, sufficiently confident evidence that the milestone is complete.\<close>

definition milestoneCompleted :: "SessionState \<Rightarrow> InterviewProblem \<Rightarrow> string \<Rightarrow> bool" where
  "milestoneCompleted st p m =
     (\<exists>s. evidenceFrom st (ivId p) s \<and> ekSubject (asKey s) = MILESTONE m \<and> ekDimension (asKey s) = PROGRESS
        \<and> evValue (asValue s) = COMPLETE \<and> MIN_ACTIONABLE_EVIDENCE_CONFIDENCE \<le> evInferenceConfidence (asValue s))"

text \<open>On one of its approaches, everything the milestone depends on is complete.\<close>

definition milestoneReached :: "SessionState \<Rightarrow> InterviewProblem \<Rightarrow> Milestone \<Rightarrow> bool" where
  "milestoneReached st p m =
     (\<exists>a \<in> set (mileApproachIds m). \<forall>q \<in> set (rgMilestones (ivReasoningGraph p)).
        (mileId q, mileId m) \<in> problemDependencies p \<and> a \<in> set (mileApproachIds q) \<longrightarrow> milestoneCompleted st p (mileId q))"

lemma completed_ids:
  assumes "\<forall>s \<in> set evidence. evidenceFrom st (ivId p) s" "m \<in> set (completedMilestoneIds (actionableEvidence evidence))"
  shows "milestoneCompleted st p m"
  using assms
  by (auto simp: completedMilestoneIds_def actionableEvidence_def milestoneCompleted_def
      split: EvidenceSubject.splits if_splits) 

lemma findMilestone_known:
  "distinct (map mileId (graphMilestones g)) \<Longrightarrow> q \<in> set (graphMilestones g) \<Longrightarrow> findMilestone g (mileId q) = Some q"
  by (auto simp: findMilestone_def find_Some_iff in_set_conv_nth distinct_conv_nth)

lemma validated_milestones:
  assumes "validateGraphContext p = Inr g"
  shows "graphMilestones g = rgMilestones (ivReasoningGraph p)" "distinct (map mileId (graphMilestones g))"
    "m \<in> set (graphMilestones g) \<Longrightarrow> mileApproachIds m \<noteq> []"
  using validated_context [OF assms]
  by (auto simp: graphMilestones_def wellReferenced_def Let_def PolicyProblemViewSchema_def ReasoningGraphSchema_def
      MilestoneSchema_def list_all_iff)

lemma ready_reached:
  assumes g: "validateGraphContext p = Inr g" and m: "findMilestone g (mileId m) = Some m"
    and ready: "milestoneReady g completed (mileId m)"
    and completed: "\<forall>x \<in> set completed. milestoneCompleted st p x"
  shows "milestoneReached st p m"
proof -
  let ?ps = "dlist (gcPredecessors g) (mileId m)"
  have preds: "(x, mileId m) \<in> problemDependencies p \<longleftrightarrow> x \<in> set ?ps" for x using validated_context [OF g, of "mileId m"] by auto
  have "m \<in> set (graphMilestones g)" using findMilestone_Some [OF m] by (simp add: graphMilestones_def)
  then have ne: "mileApproachIds m \<noteq> []" by (rule validated_milestones(3) [OF g])
  have found: "findMilestone g (mileId q) = Some q" if "q \<in> set (rgMilestones (ivReasoningGraph p))" for q
    using findMilestone_known validated_milestones [OF g] that by simp
  have "\<exists>a \<in> set (mileApproachIds m). \<forall>q \<in> set (rgMilestones (ivReasoningGraph p)).
      mileId q \<in> set ?ps \<and> a \<in> set (mileApproachIds q) \<longrightarrow> mileId q \<in> set completed"
  proof (cases "set ?ps \<subseteq> set completed")
    case True
    then show ?thesis using ne by (intro bexI [of _ "hd (mileApproachIds m)"]) auto
  next
    case False
    then have "?ps \<noteq> []" by auto
    with False ready m obtain a where a: "a \<in> set (mileApproachIds m)"
      "set (filter (relevantPredecessor g (mileApproachIds m) a) ?ps) \<subseteq> set completed"
      by (auto simp: milestoneReady_def Let_def split: if_splits)
    then show ?thesis using found by (intro bexI [of _ a]) (auto simp: relevantPredecessor_def subset_eq)
  qed
  then show ?thesis using completed unfolding milestoneReached_def preds by blast
qed

lemma decision_request_shape:
  assumes "decidePedagogicalPolicy collate sha256 st turnId p = Inr d"
  shows "rrMaximumDisclosure (dcRealizationRequest d) \<le> 4
    \<and> (rrAllowedDisclosureIds (dcRealizationRequest d) = None \<longleftrightarrow> rrMaximumDisclosure (dcRealizationRequest d) = 0)
    \<and> (\<forall>ids. rrAllowedDisclosureIds (dcRealizationRequest d) = Some ids \<longrightarrow> distinct ids \<and> length ids \<le> 256 \<and> sorted ids)"
  using assms
proof (cases rule: decision_cases)
  case closed
  then show ?thesis by (simp add: closedRequest_def)
next
  case (answered i ids)
  have "distinct ids \<and> length ids \<le> 256 \<and> sorted ids"
    using authorization_sound [OF answered(2) [unfolded policyAuthorization_def Let_def]] by blast
  then show ?thesis using answered(3) policy_level [of i "policyClassification collate i turnId"] by (simp add: openRequest_def Let_def)
qed

text \<open>A fact a decision names is earned: by the reached target, or by a completed milestone before it.\<close>

lemma authorized_facts_are_earned:
  assumes "decidePedagogicalPolicy collate sha256 st turnId p = Inr d" "rrAllowedDisclosureIds (dcRealizationRequest d) = Some ids" "x \<in> set ids"
  shows "(\<exists>f \<in> set (ivProtectedDisclosures p). pdId f = x \<and> pdMinimumDisclosureLevel f \<le> rrMaximumDisclosure (dcRealizationRequest d))
    \<and> ptKind (dcTarget d) = Kind_MILESTONE
    \<and> (\<exists>m \<in> set (rgMilestones (ivReasoningGraph p)). x \<in> set (mileDisclosureIds m)
         \<and> (mileId m = ptId (dcTarget d) \<and> milestoneReached st p m
            \<or> milestoneCompleted st p (mileId m) \<and> (mileId m, ptId (dcTarget d)) \<in> (problemDependencies p)\<^sup>+))"
  using assms(1)
proof (cases rule: decision_cases)
  case closed
  then show ?thesis using assms(2) by (simp add: closedRequest_def)
next
  case (answered i ids')
  let ?c = "policyClassification collate i turnId" and ?D = "problemDependencies p"
  let ?level = "planRequestedDisclosure (policyPlan i ?c)" and ?done = "completedMilestoneIds (actionableEvidence (piEvidence i))"
  note inputs = collected_inputs [OF answered(1)]
  have dep: "dependsOn (piGraph i) = ?D" using validated_context [OF inputs(1)] by (auto simp: dependsOn_def)
  have completed: "\<forall>x \<in> set ?done. milestoneCompleted st p x" using completed_ids inputs(2) by blast
  have x: "x \<in> set ids'" and level: "rrMaximumDisclosure (dcRealizationRequest d) = ?level"
    using assms(2,3) answered(3) by (simp_all add: openRequest_def Let_def split: if_splits)
  have auth: "distinct ids' \<and> length ids' \<le> 256 \<and> sorted ids' \<and> (\<forall>x \<in> set ids'. ptKind (clTarget ?c) = Kind_MILESTONE \<and> 0 < ?level
      \<and> authorized (piGraph i) ?level ({x. x = ptId (clTarget ?c) \<and> milestoneReady (piGraph i) ?done (ptId (clTarget ?c))}
          \<union> completedPredecessors (piGraph i) ?done (ptId (clTarget ?c))) x)"
    using answered(2) unfolding policyAuthorization_def Let_def by (rule authorization_sound)
  from auth x obtain m y where m: "disclosureAtMost (piGraph i) ?level x" "findMilestone (piGraph i) m = Some y"
      "x \<in> set (mileDisclosureIds y)" "ptKind (clTarget ?c) = Kind_MILESTONE"
      "m = ptId (clTarget ?c) \<and> milestoneReady (piGraph i) ?done m \<or> m \<in> set ?done \<and> (m, ptId (clTarget ?c)) \<in> ?D\<^sup>+"
    by (auto simp: authorized_def completedPredecessors_def dep)
  have y: "y \<in> set (rgMilestones (ivReasoningGraph p))" "mileId y = m" using findMilestone_Some [OF m(2)] inputs(8) by simp_all
  have "milestoneReady (piGraph i) ?done m \<Longrightarrow> milestoneReached st p y"
    using ready_reached [OF inputs(1), of y] m(2) y(2) completed by simp
  then show ?thesis using m y disclosureAtMost_iff [OF m(1)] completed inputs(8) answered(5) level by (metis (no_types, lifting))
qed

text \<open>
Property C4. A decision authorizes at most level four, and names facts only above level zero: each is a
  protected fact of the problem whose own level is within the request, listed by a milestone that
  is either the target, with one of its approaches completed up to it, or a completed one the target
  depends on.
\<close>

theorem policy_discloses_only_what_is_authorized:
  assumes "decidePedagogicalPolicy collate sha256 st turnId p = Inr d"
  shows "rrMaximumDisclosure (dcRealizationRequest d) \<le> 4
    \<and> (rrAllowedDisclosureIds (dcRealizationRequest d) = None \<longleftrightarrow> rrMaximumDisclosure (dcRealizationRequest d) = 0)
    \<and> (\<forall>ids. rrAllowedDisclosureIds (dcRealizationRequest d) = Some ids \<longrightarrow>
         distinct ids \<and> length ids \<le> 256 \<and> sorted ids
         \<and> (\<forall>i \<in> set ids.
              (\<exists>f \<in> set (ivProtectedDisclosures p). pdId f = i \<and> pdMinimumDisclosureLevel f \<le> rrMaximumDisclosure (dcRealizationRequest d))
              \<and> ptKind (dcTarget d) = Kind_MILESTONE
              \<and> (\<exists>m \<in> set (rgMilestones (ivReasoningGraph p)). i \<in> set (mileDisclosureIds m)
                   \<and> (mileId m = ptId (dcTarget d) \<and> milestoneReached st p m
                      \<or> milestoneCompleted st p (mileId m) \<and> (mileId m, ptId (dcTarget d)) \<in> (problemDependencies p)\<^sup>+))))"
  using decision_request_shape [OF assms] authorized_facts_are_earned [OF assms] by blast

section \<open>Hints\<close>

text \<open>Generation \<open>x\<close> reached the candidate with help on target \<open>t\<close>.\<close>

definition assistedBy :: "SessionState \<Rightarrow> string \<Rightarrow> GenerationId \<Rightarrow> RealizationRequest \<Rightarrow> DisclosureLevel \<Rightarrow> bool" where
  "assistedBy st t x request level =
     (\<exists>e \<in> set (deliveries st). \<exists>gen. isDisclosedStatus (atomStatus (snd e)) \<and> atomGenerationId (snd e) = x
        \<and> effectiveDisclosureLevel (snd e) = level \<and> dget (generations st) x = Some gen
        \<and> gnPedagogicalAction gen = Some request \<and> rrTarget request = Some t)"

definition assistingGenerations :: "SessionState \<Rightarrow> string \<Rightarrow> GenerationId set" where
  "assistingGenerations st t = {x. \<exists>request level. assistedBy st t x request level}"

definition coveredBy :: "AssistanceScan \<Rightarrow> string \<times> DeliveryAtom \<Rightarrow> bool" where
  "coveredBy scan e =
     (isDisclosedStatus (atomStatus (snd e)) \<longrightarrow>
        (\<exists>r. dget (ssByGeneration scan) (atomGenerationId (snd e)) = Some r \<and> effectiveDisclosureLevel (snd e) \<le> arEffectiveDisclosureLevel r))"

lemma keepStrongest_covers:
  "arEffectiveDisclosureLevel r \<le> n \<Longrightarrow>
   \<exists>q. dget (keepStrongest r m) (arGenerationId r) = Some q \<and> arEffectiveDisclosureLevel r \<le> arEffectiveDisclosureLevel q"
  "dget m k = Some q \<Longrightarrow>
   \<exists>q'. dget (keepStrongest r m) k = Some q' \<and> arEffectiveDisclosureLevel q \<le> arEffectiveDisclosureLevel q'"
  by (auto simp: keepStrongest_def dget_dput split: option.splits)

lemma scanDelivery_covers:
  assumes "scanDelivery st g scan x = Inr scan'"
  shows "coveredBy scan e \<Longrightarrow> coveredBy scan' e" "coveredBy scan' x"
proof -
  show "coveredBy scan' e" if e: "coveredBy scan e"
  proof (cases "isDisclosedStatus (atomStatus (snd x))")
    case False
    then show ?thesis using assms e by (auto simp: scanDelivery_def Let_def bindE_eq_Inr coveredBy_def)
  next
    case True
    then have "scanExposure st g (scan\<lparr> ssTotal := ssTotal scan + length (disclosureIds (snd x)) \<rparr>) (snd x) = Inr scan'"
      using assms by (simp add: scanDelivery_def Let_def bindE_eq_Inr)
    then obtain r where "ssByGeneration scan' = keepStrongest r (ssByGeneration scan)"
      by (rule scanExposure_Inr) simp
    then show ?thesis using e keepStrongest_covers(2) [of "ssByGeneration scan" _ _ r] unfolding coveredBy_def
      by (metis order_trans)
  qed
  show "coveredBy scan' x"
  proof (cases "isDisclosedStatus (atomStatus (snd x))")
    case True
    then have "scanExposure st g (scan\<lparr> ssTotal := ssTotal scan + length (disclosureIds (snd x)) \<rparr>) (snd x) = Inr scan'"
      using assms by (simp add: scanDelivery_def Let_def bindE_eq_Inr)
    then obtain request turn where "ssByGeneration scan' = keepStrongest (assistanceRecord (snd x) request turn) (ssByGeneration scan)"
      by (rule scanExposure_Inr) simp
    then show ?thesis
      using keepStrongest_covers(1) [of "assistanceRecord (snd x) request turn", OF order_refl]
      by (simp add: coveredBy_def assistanceRecord_def)
  qed (simp add: coveredBy_def)
qed

lemma scanDeliveries_cover:
  "foldE (scanDelivery st g) scan xs = Inr scan' \<Longrightarrow> (\<forall>e \<in> A. coveredBy scan e) \<Longrightarrow> (\<forall>e \<in> A \<union> set xs. coveredBy scan' e)"
proof (induction xs arbitrary: scan A)
  case (Cons x xs)
  from Cons.prems(1) obtain u where u: "scanDelivery st g scan x = Inr u" "foldE (scanDelivery st g) u xs = Inr scan'"
    by (auto simp: bindE_eq_Inr)
  have "\<forall>e \<in> insert x A. coveredBy u e" using scanDelivery_covers [OF u(1)] Cons.prems(2) by blast
  then show ?case using Cons.IH [OF u(2), of "insert x A"] by simp
qed simp

lemma assistance_complete:
  assumes "collectExposedAssistance collate st g = Inr s" "e \<in> set (deliveries st)" "isDisclosedStatus (atomStatus (snd e))"
  shows "\<exists>r \<in> set (asRecords s). arGenerationId r = atomGenerationId (snd e) \<and> effectiveDisclosureLevel (snd e) \<le> arEffectiveDisclosureLevel r"
proof -
  let ?start = "\<lparr> ssTotal = 0, ssByGeneration = [], ssProposals = [], ssDisclosedIds = [] \<rparr>"
  from assms(1) obtain scan where fold: "foldE (scanDelivery st g) ?start (sortWith (\<lambda>l r. collate (fst l) (fst r)) (deliveries st)) = Inr scan"
    and s: "asRecords s = sortWith (compareAssistance collate) (dvals (ssByGeneration scan))"
    by (auto simp: collectExposedAssistance_def bindE_eq_Inr)
  have table: "exposureTable st scan" by (rule scanDeliveries_table [OF fold]) simp
  have "coveredBy scan e" using scanDeliveries_cover [OF fold, of "{}"] assms(2) by simp
  then obtain r where r: "dget (ssByGeneration scan) (atomGenerationId (snd e)) = Some r"
    "effectiveDisclosureLevel (snd e) \<le> arEffectiveDisclosureLevel r"
    using assms(3) by (auto simp: coveredBy_def)
  then have "(atomGenerationId (snd e), r) \<in> set (ssByGeneration scan)" by (simp add: dget_def map_of_SomeD)
  then have "arGenerationId r = atomGenerationId (snd e)" using table by (auto simp: exposureTable_def)
  then show ?thesis using r dget_in_dvals [OF r(1)] by (auto simp: s)
qed

lemma exposedRecord_assists:
  "exposedRecord st r \<longleftrightarrow> (\<exists>request. assistedBy st (arTarget r) (arGenerationId r) request (arEffectiveDisclosureLevel r)
     \<and> rrRequiredAction request = arAction r \<and> rrMaximumDisclosure request = arMaximumDisclosure r
     \<and> arEffectiveDisclosureLevel r \<le> arMaximumDisclosure r)"
  by (auto simp: exposedRecord_def assistedBy_def)

text \<open>The request is the generation's, whatever atom of it is exposed.\<close>

lemma assistedBy_unique:
  "assistedBy st t x request level \<Longrightarrow> assistedBy st u x request' level' \<Longrightarrow> request' = request \<and> u = t"
  by (auto simp: assistedBy_def)

lemma assistance_record:
  assumes s: "collectExposedAssistance collate st g = Inr s" and a: "assistedBy st t x request level"
  obtains r where "r \<in> set (asRecords s)" "arGenerationId r = x" "arTarget r = t" "arAction r = rrRequiredAction request"
    "level \<le> arEffectiveDisclosureLevel r"
proof -
  from a obtain e where e: "e \<in> set (deliveries st)" "isDisclosedStatus (atomStatus (snd e))" "atomGenerationId (snd e) = x"
    "effectiveDisclosureLevel (snd e) = level"
    by (auto simp: assistedBy_def)
  from assistance_complete [OF s e(1,2)] e obtain r where r: "r \<in> set (asRecords s)" "arGenerationId r = x" "level \<le> arEffectiveDisclosureLevel r"
    by auto
  then have "exposedRecord st r" using collected_assistance [OF s] by blast
  with r a show thesis by (intro that [of r]) (auto simp: exposedRecord_assists dest: assistedBy_unique)
qed

lemma assistance_counted:
  assumes s: "collectExposedAssistance collate st g = Inr s"
  shows "length (assistanceForTarget (asRecords s) target) = card (assistingGenerations st (targetToString target))"
    "saturatedAssistance (assistanceForTarget (asRecords s) target) \<longleftrightarrow>
       (\<exists>x request level. assistedBy st (targetToString target) x request level \<and> (rrRequiredAction request = EXPLICIT_HINT \<or> 4 \<le> level))"
proof -
  let ?rs = "assistanceForTarget (asRecords s) target" and ?t = "targetToString target"
  have sound: "\<exists>request. assistedBy st ?t (arGenerationId r) request (arEffectiveDisclosureLevel r) \<and> rrRequiredAction request = arAction r"
    if "r \<in> set ?rs" for r
    using that collected_assistance [OF s] by (fastforce simp: assistanceForTarget_def exposedRecord_assists)
  have complete: "\<exists>r \<in> set ?rs. arGenerationId r = x \<and> arAction r = rrRequiredAction request \<and> level \<le> arEffectiveDisclosureLevel r"
    if "assistedBy st ?t x request level" for x request level
    by (rule assistance_record [OF s that]) (auto simp: assistanceForTarget_def)
  have "arGenerationId ` set ?rs = assistingGenerations st ?t"
    using sound by (force simp: assistingGenerations_def image_iff dest: complete)
  moreover have "distinct (map arGenerationId ?rs)"
    using collected_assistance [OF s] by (simp add: assistanceForTarget_def distinct_map_filter)
  ultimately show "length ?rs = card (assistingGenerations st ?t)"
    by (metis distinct_card length_map set_map)
  show "saturatedAssistance ?rs \<longleftrightarrow>
      (\<exists>x request level. assistedBy st ?t x request level \<and> (rrRequiredAction request = EXPLICIT_HINT \<or> 4 \<le> level))"
  proof
    assume "saturatedAssistance ?rs"
    then obtain r where r: "r \<in> set ?rs" "arAction r = EXPLICIT_HINT \<or> 4 \<le> arEffectiveDisclosureLevel r"
      by (auto simp: saturatedAssistance_def)
    obtain request where "assistedBy st ?t (arGenerationId r) request (arEffectiveDisclosureLevel r)"
      "rrRequiredAction request = arAction r" using sound [OF r(1)] by blast
    with r(2) show "\<exists>x request level. assistedBy st ?t x request level
        \<and> (rrRequiredAction request = EXPLICIT_HINT \<or> 4 \<le> level)"
      by (intro exI [of _ "arGenerationId r"] exI [of _ request] exI [of _ "arEffectiveDisclosureLevel r"]) simp
  next
    assume "\<exists>x request level. assistedBy st ?t x request level \<and> (rrRequiredAction request = EXPLICIT_HINT \<or> 4 \<le> level)"
    then obtain x request level where a: "assistedBy st ?t x request level" "rrRequiredAction request = EXPLICIT_HINT \<or> 4 \<le> level"
      by blast
    from complete [OF a(1)] a(2) show "saturatedAssistance ?rs" by (force simp: saturatedAssistance_def)
  qed
qed

text \<open>
Property C5. Help is earned. A request above level zero is only made while nothing shown for its target was an
  explicit hint or reached level four; level two takes two generations that already helped on the
  target, and level three or four three of them and an explicit hint on a milestone that is reached
  and still lists an undisclosed fact of exactly that level.
\<close>

theorem hints_are_earned:
  assumes "decidePedagogicalPolicy collate sha256 st turnId p = Inr d"
    "0 < rrMaximumDisclosure (dcRealizationRequest d)"
  shows "\<exists>t. rrTarget (dcRealizationRequest d) = Some t
    \<and> (\<forall>x request level. assistedBy st t x request level \<longrightarrow> rrRequiredAction request \<noteq> EXPLICIT_HINT \<and> level < 4)
    \<and> (2 \<le> rrMaximumDisclosure (dcRealizationRequest d) \<longrightarrow> 2 \<le> card (assistingGenerations st t))
    \<and> (3 \<le> rrMaximumDisclosure (dcRealizationRequest d) \<longrightarrow>
         3 \<le> card (assistingGenerations st t) \<and> rrRequiredAction (dcRealizationRequest d) = EXPLICIT_HINT
         \<and> (\<exists>m \<in> set (rgMilestones (ivReasoningGraph p)). t = ''milestone:'' @ mileId m \<and> milestoneReached st p m
              \<and> (\<exists>f \<in> set (ivProtectedDisclosures p). pdId f \<in> set (mileDisclosureIds m) - set (disclosureLedger st)
                   \<and> pdMinimumDisclosureLevel f = rrMaximumDisclosure (dcRealizationRequest d))))"
  using assms(1)
proof (cases rule: decision_cases)
  case closed
  then show ?thesis using assms(2) by (simp add: closedRequest_def)
next
  case (answered i ids)
  let ?c = "policyClassification collate i turnId" and ?done = "completedMilestoneIds (actionableEvidence (piEvidence i))"
  let ?t = "clTarget ?c" and ?level = "planRequestedDisclosure (policyPlan i ?c)"
  let ?rs = "assistanceForTarget (asRecords (piAssistance i)) ?t" and ?hint = "explicitHintLevel ?t (piGraph i) ?done (piLedger i)"
  note inputs = collected_inputs [OF answered(1)]
  have request: "dcRealizationRequest d = openRequest i ?c ids" by (rule answered(3))
  obtain s where s: "collectExposedAssistance collate st (piGraph i) = Inr (piAssistance i)"
    using answered(1) by (auto simp: collectPolicyInputs_def bindE_eq_Inr)
  note counted = assistance_counted [OF s, of ?t]
  have plan: "?level = 0 \<or> \<not> saturatedAssistance ?rs \<and> (?level = 1 \<or> ?level = 2 \<and> length ?rs = 2
      \<or> Some ?level = ?hint \<and> 3 \<le> length ?rs \<and> planAction (policyPlan i ?c) = EXPLICIT_HINT)"
    unfolding policyPlan_def by (rule chooseActionPlan_cases)
  have positive: "0 < ?level" using assms(2) request by (simp add: openRequest_def Let_def)
  have hint: "\<exists>m \<in> set (rgMilestones (ivReasoningGraph p)). targetToString ?t = ''milestone:'' @ mileId m \<and> milestoneReached st p m
      \<and> (\<exists>f \<in> set (ivProtectedDisclosures p). pdId f \<in> set (mileDisclosureIds m) - set (disclosureLedger st)
           \<and> pdMinimumDisclosureLevel f = ?level)" if "?hint = Some ?level"
    using that
  proof (rule explicitHintLevel_Some)
    fix m x f
    assume m: "ptKind ?t = Kind_MILESTONE" "milestoneReady (piGraph i) ?done (ptId ?t)" "findMilestone (piGraph i) (ptId ?t) = Some m"
      and f: "x \<in> set (mileDisclosureIds m)" "dget (disclosureMap (piGraph i)) x = Some f" "pdId f \<notin> set (piLedger i)"
        "pdMinimumDisclosureLevel f = ?level"
    note known = findMilestone_Some [OF m(3)] disclosureMap_Some [OF f(2)]
    have "milestoneReached st p m"
      using ready_reached [OF inputs(1), of m ?done st] m known completed_ids [OF inputs(2)] by simp
    then show ?thesis using known m(1) f inputs(7,8)
      by (intro bexI [of _ m] conjI bexI [of _ f]) (simp_all add: targetToString_def)
  qed
  show ?thesis
    using plan positive hint counted request by (auto simp: openRequest_def Let_def not_le)
qed

section \<open>Failing closed\<close>

lemma targetToString_length: "length (targetToString t) \<le> 10 + length (ptId t)"
  by (cases "ptKind t") (simp_all add: targetToString_def)

lemma preflight_ids:
  assumes "preflightPolicyProblem p = Inr t"
  shows "m \<in> set (rgMilestones (ivReasoningGraph p)) \<Longrightarrow> length (mileId m) \<le> 512"
    "a \<in> set (rgApproaches (ivReasoningGraph p)) \<Longrightarrow> length (apId a) \<le> 512"
proof -
  from assms obtain t1 t2 t3 where
    "foldE (preflightPair MAX_POLICY_TEXT_CHARACTERS) t1 (map (\<lambda>a. (apId a, apLabel a)) (rgApproaches (ivReasoningGraph p))) = Inr t2"
    "foldE preflightMilestone t2 (rgMilestones (ivReasoningGraph p)) = Inr t3"
    by (auto simp: preflightPolicyProblem_def Let_def bindE_eq_Inr)
  note folds = this
  show "length (mileId m) \<le> 512" if "m \<in> set (rgMilestones (ivReasoningGraph p))"
    using foldE_element [OF folds(2) that]
    by (auto simp: preflightMilestone_def Let_def bindE_eq_Inr guardE_eq_Inr boundedString_def MAX_POLICY_ID_CHARACTERS_def)
  show "length (apId a) \<le> 512" if "a \<in> set (rgApproaches (ivReasoningGraph p))"
    using foldE_element [OF folds(1), of "(apId a, apLabel a)"] that
    by (auto simp: preflightPair_def bindE_eq_Inr guardE_eq_Inr boundedString_def MAX_POLICY_ID_CHARACTERS_def)
qed

text \<open>Only the claim of an accepted verification can be a target of more than 512 characters.\<close>

lemma long_targets:
  assumes i: "collectPolicyInputs collate sha256 st turnId p = Inr i"
    and long: "512 < length (ptId (clTarget (policyClassification collate i turnId)))"
  shows "\<exists>e \<in> set (verificationRequests st). vfStatus (snd e) = ACCEPTED
    \<and> clTarget (policyClassification collate i turnId)
        = \<lparr> ptKind = Kind_CLAIM, ptId = evidenceSubjectId (ekSubject (vqEvidenceKey (vfRequest (snd e)))) \<rparr>"
proof -
  let ?t = "clTarget (policyClassification collate i turnId)"
  note inputs = collected_inputs [OF i]
  have "?t = clTarget (classifyProgress collate (piEvidence i) (vnSignals (piVerification i)) (piGraph i) turnId)"
    by (simp add: policyClassification_def Let_def)
  then have named: "namedTarget (piEvidence i) (vnSignals (piVerification i)) (piGraph i) turnId ?t"
    using classifyProgress_target by metis
  obtain t where "preflightPolicyProblem p = Inr t"
    using inputs(1) by (auto simp: validateGraphContext_Inr isOk_iff)
  note ids = preflight_ids [OF this]
  have "\<not> graphTarget (piGraph i) ?t" using long ids inputs(8) by (fastforce simp: graphTarget_def graphMilestones_def)
  moreover have "?t \<noteq> turnTarget turnId" using long inputs(6) by (auto simp: turnTarget_def)
  moreover have "?t \<notin> asTarget ` set (piEvidence i)"
    using inputs(2) long
    by (auto simp: evidenceFrom_def activeSignal_def recordMatchesKey_def Let_def boundedString_def MAX_POLICY_ID_CHARACTERS_def)
  ultimately obtain v where v: "v \<in> set (vnSignals (piVerification i))" "?t = vgTarget v"
    using named by (auto simp: namedTarget_def)
  with inputs(3) show ?thesis unfolding v(2) verifiedFrom_def by blast
qed

lemma openRequest_ok:
  assumes i: "collectPolicyInputs collate sha256 st turnId p = Inr i" and auth: "policyAuthorization i c = Inr ids"
  shows "RealizationRequestSchema (openRequest i c ids) \<longleftrightarrow> length (targetToString (clTarget c)) \<le> 1024"
proof -
  note inputs = collected_inputs [OF i]
  have "distinct ids \<and> length ids \<le> 256 \<and> (\<forall>x \<in> set ids. \<exists>level. disclosureAtMost (piGraph i) level x)"
    using authorization_sound [OF auth [unfolded policyAuthorization_def Let_def]] by (auto simp: authorized_def)
  moreover have "idSchema x" if "disclosureAtMost (piGraph i) level x" for level x
    using disclosureAtMost_iff [OF that] validated_context [OF inputs(1)] inputs(8)
    by (auto simp: PolicyProblemViewSchema_def ProtectedDisclosureSchema_def list_all_iff)
  ultimately have ids: "distinct ids" "length ids \<le> 256" "list_all idSchema ids" by (auto simp: list_all_iff)
  have "planRequestedDisclosure (policyPlan i c) \<in> {0, 1, 2, 3, 4, 5}" using policy_level [of i c] by auto
  moreover have "1 \<le> length (targetToString (clTarget c))" using turn_target_trimmed [of "clTarget c"]
    by (cases "targetToString (clTarget c)") auto
  ultimately show ?thesis
    using ids turn_target_trimmed [of "clTarget c"]
    by (simp add: RealizationRequestSchema_def openRequest_def Let_def str_between_def DisclosureLevelSchema_def)
qed

text \<open>
Property C6. The policy fails closed: whatever input cannot be validated is answered by a request for a
  clarification that discloses nothing, with the reason. The one exception is a target string of
  more than 1024 characters, for which no decision is returned; only the unbounded claim id of an
  accepted verification makes one.
\<close>

theorem policy_fails_closed:
  "(\<forall>code. collectPolicyInputs collate sha256 st turnId p = Inl code \<longrightarrow>
      (\<exists>d. decidePedagogicalPolicy collate sha256 st turnId p = Inr d \<and> dcRealizationRequest d = closedRequest turnId
           \<and> dcReasonCode d = code))
   \<and> (decidePedagogicalPolicy collate sha256 st turnId p = Inl () \<longleftrightarrow>
        (\<exists>i ids. collectPolicyInputs collate sha256 st turnId p = Inr i
           \<and> policyAuthorization i (policyClassification collate i turnId) = Inr ids
           \<and> 1024 < length (targetToString (clTarget (policyClassification collate i turnId)))))
   \<and> (decidePedagogicalPolicy collate sha256 st turnId p = Inl () \<longrightarrow>
        (\<exists>e \<in> set (verificationRequests st). vfStatus (snd e) = ACCEPTED
           \<and> 1018 < length (evidenceSubjectId (ekSubject (vqEvidenceKey (vfRequest (snd e)))))))"
proof (intro conjI allI impI)
  fix code assume "collectPolicyInputs collate sha256 st turnId p = Inl code"
  then show "\<exists>d. decidePedagogicalPolicy collate sha256 st turnId p = Inr d \<and> dcRealizationRequest d = closedRequest turnId
      \<and> dcReasonCode d = code"
    using failClosed_closes [of turnId code] by (auto simp: decidePedagogicalPolicy_def)
next
  let ?long = "\<exists>i ids. collectPolicyInputs collate sha256 st turnId p = Inr i
      \<and> policyAuthorization i (policyClassification collate i turnId) = Inr ids
      \<and> 1024 < length (targetToString (clTarget (policyClassification collate i turnId)))"
  show iff: "decidePedagogicalPolicy collate sha256 st turnId p = Inl () \<longleftrightarrow> ?long"
  proof (cases "collectPolicyInputs collate sha256 st turnId p")
    case (Inl code)
    then show ?thesis using failClosed_closes [of turnId code] by (auto simp: decidePedagogicalPolicy_def)
  next
    case (Inr i)
    let ?c = "policyClassification collate i turnId"
    show ?thesis
    proof (cases "policyAuthorization i ?c")
      case (Inl code)
      then show ?thesis using \<open>collectPolicyInputs collate sha256 st turnId p = Inr i\<close> failClosed_closes [of turnId code]
        by (auto simp: decidePedagogicalPolicy_def Let_def)
    next
      case ids: (Inr ids)
      have "decidePedagogicalPolicy collate sha256 st turnId p = Inl () \<longleftrightarrow> \<not> RealizationRequestSchema (openRequest i ?c ids)"
        by (simp add: decidePedagogicalPolicy_def Inr ids Let_def parseRequest_def openRequest_def guardE_def bindE_def)
      then show ?thesis using openRequest_ok [OF Inr ids] Inr ids by auto
    qed
  qed
  assume "decidePedagogicalPolicy collate sha256 st turnId p = Inl ()"
  then obtain i where i: "collectPolicyInputs collate sha256 st turnId p = Inr i"
    and long: "1024 < length (targetToString (clTarget (policyClassification collate i turnId)))" using iff by blast
  then have "512 < length (ptId (clTarget (policyClassification collate i turnId)))"
    using targetToString_length [of "clTarget (policyClassification collate i turnId)"] by linarith
  from long_targets [OF i this] long show "\<exists>e \<in> set (verificationRequests st). vfStatus (snd e) = ACCEPTED
      \<and> 1018 < length (evidenceSubjectId (ekSubject (vqEvidenceKey (vfRequest (snd e)))))"
    by (auto simp: targetToString_def)
qed

section \<open>Board drawings\<close>

text \<open>What the board of the domain has and the schema of the policy does not know.\<close>

definition beyondPolicySchema :: "BoardAction \<Rightarrow> bool" where
  "beyondPolicySchema b =
     (baOperation b \<in> {draw_segment, draw_arrow_between, draw_polyline, draw_rectangle, draw_ellipse}
      \<or> baPlacement b \<noteq> None \<or> baTargetRegion b \<noteq> None \<or> baTargetAnnotationId b \<noteq> None)"

lemma beyond_rejected: "beyondPolicySchema b \<Longrightarrow> \<not> PolicyBoardActionSchema b"
  by (auto simp: beyondPolicySchema_def PolicyBoardActionSchema_def)

lemma collection_fails:
  assumes e: "e \<in> set (deliveries st)" "atomContent (snd e) = WHITEBOARD b" "beyondPolicySchema b"
  shows "collectExposedAssistance collate st g \<noteq> Inr s"
proof
  assume "collectExposedAssistance collate st g = Inr s"
  then obtain scan where "foldE (scanDelivery st g) \<lparr> ssTotal = 0, ssByGeneration = [], ssProposals = [], ssDisclosedIds = [] \<rparr>
      (sortWith (\<lambda>l r. collate (fst l) (fst r)) (deliveries st)) = Inr scan"
    by (auto simp: collectExposedAssistance_def bindE_eq_Inr)
  from foldE_element [OF this, of e] e(1) obtain s' t' where "scanDelivery st g s' e = Inr t'" by auto
  then have "PolicyDeliverySchema (snd e)" by (auto simp: scanDelivery_def Let_def bindE_eq_Inr guardE_eq_Inr)
  then show False using e(2) beyond_rejected [OF e(3)] by (simp add: PolicyDeliverySchema_def)
qed

text \<open>
Property C21. A delivery of a board action that uses what the board gained beyond the policy's own schema, such as
  a segment, a rectangle or a placement, closes the policy whatever the delivery's status: every
  decision of the session then asks for a clarification and discloses nothing.
\<close>

theorem board_drawings_close_the_policy:
  assumes "e \<in> set (deliveries st)" "atomContent (snd e) = WHITEBOARD b" "beyondPolicySchema b"
  shows "\<exists>d. decidePedagogicalPolicy collate sha256 st turnId p = Inr d \<and> dcRealizationRequest d = closedRequest turnId"
proof -
  have "\<exists>code. collectPolicyInputs collate sha256 st turnId p = Inl code"
  proof (cases "collectPolicyInputs collate sha256 st turnId p")
    case (Inr i)
    then show ?thesis using collection_fails [OF assms] by (auto simp: collectPolicyInputs_def bindE_eq_Inr)
  qed simp
  then show ?thesis using failClosed_closes by (fastforce simp: decidePedagogicalPolicy_def)
qed

end
