(* ===== verification/PolicySample.thy ===== *)
theory PolicySample
  imports PolicyProperties Samples
begin

text \<open>
  A replayed session in which the candidate has made a structural error on the first milestone of
  the sample problem, and the decision the policy takes there.
\<close>

definition policyKey :: EvidenceKey where
  "policyKey = \<lparr> ekProblemId = ''p1'', ekSubject = MILESTONE ''m1'', ekDimension = CORRECTNESS \<rparr>"

definition policyValue :: EvidenceValue where
  "policyValue = \<lparr> evValue = STRUCTURAL_ERROR, evInferenceConfidence = 1, evEvidenceEventIds = [''e5''],
     evLastUpdatedSequence = 6 \<rparr>"

definition policyDigest :: string where
  "policyDigest = replicate 64 CHR ''a''"

definition policySample :: "SessionEvent list" where
  "policySample = sampleLog 1 [SESSION_STARTED ''Oxford'' None None,
     PROBLEM_PRESENTED ''p1'' ''1'' ''Show it.'' (Some policyDigest), INPUT_EPISODE_STARTED ''i1'',
     INPUT_EPISODE_COMMITTED ''i1'', TURN_COMMITTED ''t1'' ''i1'' ''x is even'',
     STUDENT_EVIDENCE_UPDATED policyKey policyValue None]"

definition policyRecord :: EvidenceRecordState where
  "policyRecord = \<lparr> erEvidenceEventId = ''e6'', erKey = policyKey, erValue = policyValue,
     erStatus = Evidence_ACTIVE, erSupersededByEventId = None, erInvalidationReason = None \<rparr>"

definition policyState :: SessionState where
  "policyState = (initialSessionState ''s1'')\<lparr> sequence := 6, started := True, sessionStatus := Session_ACTIVE,
     problem := Some \<lparr> pbId = ''p1'', pbVersion = ''1'', pbPrompt = ''Show it.'', pbProviderContextSpecSha256 = Some policyDigest \<rparr>,
     lastCommittedInputSequence := Some 5, eventIds := [''e1'', ''e2'', ''e3'', ''e4'', ''e5'', ''e6''],
     inputEpisodes := [(''i1'', \<lparr> epInputEpisodeId = ''i1'', epStatus = Episode_COMMITTED, epInputs = [] \<rparr>)],
     turns := [(''t1'', \<lparr> tnTurnId = ''t1'', tnInputEpisodeId = ''i1'', tnStudentText = ''x is even'', tnCommittedSequence = 5 \<rparr>)],
     studentEvidence := [(evidenceKeyToString policyKey, policyValue)],
     evidenceHistory := [(evidenceKeyToString policyKey, [policyRecord])] \<rparr>"

lemma sample_fields [simp]:
  "sequence policyState = 6" "problem policyState = Some \<lparr> pbId = ''p1'', pbVersion = ''1'', pbPrompt = ''Show it.'',
     pbProviderContextSpecSha256 = Some policyDigest \<rparr>"
  "lastCommittedInputSequence policyState = Some 5" "eventIds policyState = [''e1'', ''e2'', ''e3'', ''e4'', ''e5'', ''e6'']"
  "inputEpisodes policyState = [(''i1'', \<lparr> epInputEpisodeId = ''i1'', epStatus = Episode_COMMITTED, epInputs = [] \<rparr>)]"
  "turns policyState = [(''t1'', \<lparr> tnTurnId = ''t1'', tnInputEpisodeId = ''i1'', tnStudentText = ''x is even'', tnCommittedSequence = 5 \<rparr>)]"
  "studentEvidence policyState = [(evidenceKeyToString policyKey, policyValue)]"
  "evidenceHistory policyState = [(evidenceKeyToString policyKey, [policyRecord])]"
  "deliveries policyState = []" "verificationRequests policyState = []" "disclosureLedger policyState = []"
  by (simp_all add: policyState_def initialSessionState_def)

lemma policyState_replayed: "replaySession ''s1'' policySample = Inr policyState"
  by (simp add: policySample_def sampleEvent_def replaySession_def reduceSessionEvent_def assertSequence_def initialSessionState_def
      reduce_SESSION_STARTED_def reduce_PROBLEM_PRESENTED_def reduce_EPISODE_STARTED_def reduce_EPISODE_COMMITTED_def
      withActiveEpisode_def reduce_TURN_COMMITTED_def reduce_EVIDENCE_UPDATED_def Let_def dget_Cons dput_def recordsFor_def
      activeRecords_def policyValue_def policyState_def policyRecord_def char_of_def bit_iff_odd)

lemma sample_key: "evidenceKeyToString policyKey = ''p1|MILESTONE|m1|CORRECTNESS''"
  by (simp add: policyKey_def evidenceKeyToString_def)

lemma sample_texts:
  "x \<in> {''e1'', ''e2'', ''e3'', ''e4'', ''e5'', ''e6'', ''t1'', ''p1'', ''m1'', ''p1|MILESTONE|m1|CORRECTNESS''} \<Longrightarrow> js_trim x \<noteq> []"
  by (auto simp: js_trim_def js_space_def)

lemmas sample_limits = MAX_EVIDENCE_KEYS_def MAX_EVIDENCE_RECORDS_def MAX_DELIVERIES_def MAX_VERIFICATION_REQUESTS_def
  MAX_EVENT_IDS_def MAX_EVIDENCE_PROVENANCE_IDS_def policy_limits

lemma sample_turn: "validateTurn policyState ''t1'' = Inr ()"
  by (simp add: validateTurn_def sample_bounded sample_texts dget_Cons PositiveSafeInteger_def isSafeNat_def MAX_SAFE_INTEGER_def
      sample_limits)

lemma sample_canonical: "isOk (canonicalJson (providerContextJson sampleProblem))"
  by (simp add: canonicalJson_def providerContextJson_def sampleProblem_def reasoningGraphJson_def disclosureJson_def
      milestoneJson_def jstrings_def consumeCanonicalNode_def consumeCanonicalText_def MAX_CANONICAL_JSON_DEPTH_def
      MAX_CANONICAL_JSON_NODES_def MAX_CANONICAL_JSON_STRING_CHARACTERS_def MAX_CANONICAL_JSON_TOTAL_TEXT_CHARACTERS_def
      less_list_code less_eq_list_code less_char_def less_eq_char_def)

lemma sample_digest: "isSha256Hex policyDigest"
  by code_simp

lemma sample_binding: "validateBinding (\<lambda>_. policyDigest) policyState sampleProblem = Inr ()"
  using sample_canonical sample_digest
  by (auto simp: validateBinding_def createProviderContextSpecFingerprintSync_def isOk_iff) (simp_all add: sampleProblem_def)

lemma sample_verification:
  "collectVerificationSignals collate policyState g = Inr \<lparr> vnSignals = [], vnEvidenceLinks = [] \<rparr>"
  by (simp add: collectVerificationSignals_def sample_bounded sample_texts sample_limits)

lemma sample_assistance: "collectExposedAssistance collate policyState g = Inr \<lparr> asRecords = [], asDisclosedIds = [] \<rparr>"
  by (simp add: collectExposedAssistance_def sample_limits dvals_def)

lemma sample_ledger: "validateDisclosureLedger policyState g [] = Inr []"
  by (simp add: validateDisclosureLedger_def collectIds_def)

lemma sample_record:
  "recordMatchesKey (evidenceKeyToString policyKey) policyRecord" "recordMatchesLog policyState policyRecord"
  "recordMatchesProjection policyState (evidenceKeyToString policyKey) policyRecord"
    apply (simp add: recordMatchesKey_def policyRecord_def policyKey_def Let_def sample_bounded sample_texts sample_limits
        isEvidenceValueAllowed_def policyValue_def)
  apply (simp add: recordMatchesLog_def policyRecord_def policyValue_def Let_def eventSequenceOf_def isSafeNat_def
      MAX_SAFE_INTEGER_def beforeSequence_def sample_limits)
  apply (simp add: recordMatchesProjection_def policyRecord_def dget_Cons evidenceValuesEqual_def EvidenceValueSchema_def policyValue_def
      unitInterval_def idSchema_def PositiveSafeInteger_def isSafeNat_def MAX_SAFE_INTEGER_def)
  done

lemma sample_evidence:
  assumes "gcProblem g = sampleProblem" "gcMilestoneIds g = [''m1'', ''m2'']"
  shows "collectActiveEvidence collate policyState g [] = Inr [activeSignal (evidenceKeyToString policyKey) policyRecord]"
proof -
  have "EvidenceKeySchema policyKey" "EvidenceValueSchema policyValue"
    by (simp_all add: EvidenceKeySchema_def EvidenceValueSchema_def policyKey_def policyValue_def nonempty_def unitInterval_def
        idSchema_def PositiveSafeInteger_def isSafeNat_def MAX_SAFE_INTEGER_def)
  moreover have "erStatus policyRecord = Evidence_ACTIVE" "erKey policyRecord = policyKey" "erValue policyRecord = policyValue"
    "erEvidenceEventId policyRecord = ''e6''" "evEvidenceEventIds policyValue = [''e5'']" "ekProblemId policyKey = ''p1''"
    "ekSubject policyKey = MILESTONE ''m1''"
    by (simp_all add: policyRecord_def policyKey_def policyValue_def)
  ultimately show ?thesis
    using assms sample_record
    by (simp add: collectActiveEvidence_def scanHistory_def scanActiveRecord_def activeOf_def Let_def sample_bounded sample_texts
        sample_key isSafeNat_def MAX_SAFE_INTEGER_def checkProvenance_def projectionOk_def sampleProblem_def sample_limits)
qed

lemma sample_graph:
  obtains g where "validateGraphContext sampleProblem = Inr g" "gcProblem g = sampleProblem" "gcMilestoneIds g = [''m1'', ''m2'']"
    "dlist (gcPredecessors g) ''m1'' = []"
proof -
  have "isOk (validateGraphContext sampleProblem)"
    using sampleProblem_accepted sampleProblem_acyclic visited_all_iff [OF problemGraph_represented [OF sampleProblem_accepted(3)]]
    unfolding isOk_iff [of "validateGraphContext sampleProblem"] validateGraphContext_Inr
    by (auto simp: wellReferenced_def Let_def)
  then obtain g where g: "validateGraphContext sampleProblem = Inr g" by (auto simp: isOk_iff)
  have "set (dlist (gcPredecessors g) ''m1'') = {}"
    using validated_context [OF g, of "''m1''"] sampleProblem_accepted(4) by simp
  then have "dlist (gcPredecessors g) ''m1'' = []" by simp
  moreover have "gcProblem g = sampleProblem" "gcMilestoneIds g = map mileId (rgMilestones (ivReasoningGraph sampleProblem))"
    using validated_context [OF g] by blast+
  moreover have "map mileId (rgMilestones (ivReasoningGraph sampleProblem)) = [''m1'', ''m2'']" by (simp add: sampleProblem_def)
  ultimately show thesis using g by (intro that) simp_all
qed

lemma confidence_actionable: "MIN_ACTIONABLE_EVIDENCE_CONFIDENCE \<le> 1"
  by code_simp

lemma sample_classification:
  assumes g: "gcProblem g = sampleProblem"
  shows "classifyProgress collate [activeSignal (evidenceKeyToString policyKey) policyRecord] [] g ''t1''
     = classified Class_STRUCTURAL_ERROR STRUCTURAL_REFRAMING_NEEDED \<lparr> ptKind = Kind_MILESTONE, ptId = ''m1'' \<rparr>"
proof -
  let ?s = "activeSignal (evidenceKeyToString policyKey) policyRecord"
  have s: "evInferenceConfidence (asValue ?s) = 1" "evValue (asValue ?s) = STRUCTURAL_ERROR" "ekDimension (asKey ?s) = CORRECTNESS"
    "ekSubject (asKey ?s) = MILESTONE ''m1''" "asTarget ?s = \<lparr> ptKind = Kind_MILESTONE, ptId = ''m1'' \<rparr>"
    by (simp_all add: activeSignal_def policyRecord_def policyKey_def policyValue_def)
  have m: "findMilestone g ''m1'' = Some \<lparr> mileId = ''m1'', mileDescription = ''start'', mileApproachIds = [''a1''], milePrerequisiteIds = [],
      mileDisclosureIds = [''d1''] \<rparr>"
    by (simp add: findMilestone_def graphMilestones_def g sampleProblem_def)
  have actionable: "actionableEvidence [?s] = [?s]" using confidence_actionable s by (simp add: actionableEvidence_def)
  have scoped: "evidenceForActiveApproach g [?s] = [?s]"
    by (simp add: evidenceForActiveApproach_def s m withinApproach_def)
  have low: "classifyLowConfidence [?s] [] = None" using confidence_actionable s
    by (simp add: classifyLowConfidence_def Let_def)
  have conflict: "classifyConflict collate [?s] [] = None"
    by (simp add: classifyConflict_def findConflictTarget_def signalTargets_def dput_def dvals_def conflictSequence_def s Let_def
        sameTarget_def)
  have signal: "classifySignal [?s] CORRECTNESS [STRUCTURAL_ERROR] Class_STRUCTURAL_ERROR STRUCTURAL_REFRAMING_NEEDED
      = Some (classified Class_STRUCTURAL_ERROR STRUCTURAL_REFRAMING_NEEDED \<lparr> ptKind = Kind_MILESTONE, ptId = ''m1'' \<rparr>)"
    by (simp add: classifySignal_def findSignal_def s)
  show ?thesis unfolding classifyProgress_def Let_def actionable scoped low conflict signal firstAnswer.simps ..
qed

lemma sample_decision:
  "\<exists>d. decidePedagogicalPolicy collate (\<lambda>_. policyDigest) policyState ''t1'' sampleProblem = Inr d
     \<and> dcTarget d = \<lparr> ptKind = Kind_MILESTONE, ptId = ''m1'' \<rparr>
     \<and> dcRealizationRequest d = \<lparr> rrRequiredAction = CHANGE_REPRESENTATION, rrTarget = Some ''milestone:m1'',
          rrMaximumDisclosure = 1, rrAllowedDisclosureIds = Some [''d1''] \<rparr>"
proof -
  obtain g where g: "validateGraphContext sampleProblem = Inr g" "gcProblem g = sampleProblem" "gcMilestoneIds g = [''m1'', ''m2'']"
    "dlist (gcPredecessors g) ''m1'' = []" by (rule sample_graph)
  let ?s = "activeSignal (evidenceKeyToString policyKey) policyRecord"
  define i where "i = \<lparr> piGraph = g, piVerification = \<lparr> vnSignals = [], vnEvidenceLinks = [] \<rparr>, piEvidence = [?s],
    piAssistance = \<lparr> asRecords = [], asDisclosedIds = [] \<rparr>, piLedger = [] \<rparr>"
  let ?c = "classified Class_STRUCTURAL_ERROR STRUCTURAL_REFRAMING_NEEDED \<lparr> ptKind = Kind_MILESTONE, ptId = ''m1'' \<rparr>"
  have inputs: "collectPolicyInputs collate (\<lambda>_. policyDigest) policyState ''t1'' sampleProblem = Inr i"
    by (simp add: collectPolicyInputs_def sample_turn g sample_binding sample_verification sample_evidence sample_assistance
        sample_ledger i_def)
  have c: "policyClassification collate i ''t1'' = ?c"
    using sample_classification [OF g(2), of collate] by (simp add: policyClassification_def i_def Let_def) (simp add: classified_def)
  have pl: "policyPlan i ?c = plan CHANGE_REPRESENTATION 1 FOCUS False"
    by (simp add: policyPlan_def i_def assistanceForTarget_def chooseActionPlan_def saturatedAssistance_def Let_def)
      (simp add: classified_def escalate_def)
  have m: "findMilestone g ''m1'' = Some \<lparr> mileId = ''m1'', mileDescription = ''start'', mileApproachIds = [''a1''], milePrerequisiteIds = [],
      mileDisclosureIds = [''d1''] \<rparr>"
    by (simp add: findMilestone_def graphMilestones_def g sampleProblem_def)
  have allowed: "disclosureAtMost g 1 ''d1''"
    by (simp add: disclosureAtMost_def disclosureMap_def g sampleProblem_def dget_dput)
  have relevant: "relevantMilestoneIds g completed active ''m1'' = [''m1'']" for completed active
    by (simp add: relevantMilestoneIds_def milestoneReady_def g Let_def split: option.split)
  have level: "planRequestedDisclosure (policyPlan i ?c) = 1" by (simp add: pl plan_def)
  have graph: "piGraph i = g" by (simp add: i_def)
  have ids: "policyAuthorization i ?c = Inr [''d1'']"
    using m allowed level graph
    by (simp add: policyAuthorization_def targetDisclosureAuthorization_def relevant allowMilestone_def
        allowDisclosure_def uniq_def MAX_DISCLOSURE_REFS_PER_MILESTONE_def Let_def)
  have request: "openRequest i ?c [''d1''] = \<lparr> rrRequiredAction = CHANGE_REPRESENTATION, rrTarget = Some ''milestone:m1'',
      rrMaximumDisclosure = 1, rrAllowedDisclosureIds = Some [''d1''] \<rparr>"
    by (simp add: openRequest_def pl plan_def Let_def targetToString_def)
  have "RealizationRequestSchema (openRequest i ?c [''d1''])" using openRequest_ok [OF inputs ids] by (simp add: targetToString_def)
  then show ?thesis
    using request by (simp add: decidePedagogicalPolicy_def inputs c ids Let_def parseRequest_def openRequest_def)
qed

theorem policy_discloses_only_what_is_authorized_witness:
  "\<exists>d. decidePedagogicalPolicy (\<lambda>_ _. 0) (\<lambda>_. policyDigest) policyState ''t1'' sampleProblem = Inr d
     \<and> rrAllowedDisclosureIds (dcRealizationRequest d) = Some [''d1'']
     \<and> (\<exists>m \<in> set (rgMilestones (ivReasoningGraph sampleProblem)). ''d1'' \<in> set (mileDisclosureIds m)
          \<and> (mileId m = ''m1'' \<and> milestoneReached policyState sampleProblem m
             \<or> milestoneCompleted policyState sampleProblem (mileId m)
                 \<and> (mileId m, ''m1'') \<in> (problemDependencies sampleProblem)\<^sup>+))"
  using sample_decision [of "\<lambda>_ _. 0"] policy_discloses_only_what_is_authorized by fastforce

theorem hints_are_earned_witness:
  "\<exists>d. decidePedagogicalPolicy (\<lambda>_ _. 0) (\<lambda>_. policyDigest) policyState ''t1'' sampleProblem = Inr d
     \<and> rrMaximumDisclosure (dcRealizationRequest d) = 1
     \<and> (\<forall>x request level. assistedBy policyState ''milestone:m1'' x request level \<longrightarrow> level < 4)"
  using sample_decision [of "\<lambda>_ _. 0"] hints_are_earned by fastforce

theorem policy_fails_closed_witness:
  "\<exists>d. decidePedagogicalPolicy (\<lambda>_ _. 0) (\<lambda>_. policyDigest) (initialSessionState ''s1'') ''t1'' sampleProblem = Inr d
     \<and> dcRealizationRequest d = closedRequest ''t1'' \<and> dcReasonCode d = MALFORMED_POLICY_INPUT"
proof -
  have "collectPolicyInputs (\<lambda>_ _. 0) (\<lambda>_. policyDigest) (initialSessionState ''s1'') ''t1'' sampleProblem = Inl MALFORMED_POLICY_INPUT"
    by (simp add: collectPolicyInputs_def validateTurn_def initialSessionState_def sample_bounded sample_texts sample_limits)
  then show ?thesis
    using policy_fails_closed [of "\<lambda>_ _. 0" "\<lambda>_. policyDigest" "initialSessionState ''s1''" "''t1''" sampleProblem] by blast
qed

text \<open>The session once a segment has been queued for the board.\<close>

definition drawnSegment :: BoardAction where
  "drawnSegment =
     \<lparr> baOperation = draw_segment, baContent = None, baTargetShapeId = None, baExpectedShapeRevision = None,
       baTargetAnnotationId = None, baTargetRegion = None, baPlacement = None,
       baPoints = Some [\<lparr> bapX = 0, bapY = 0 \<rparr>, \<lparr> bapX = 1, bapY = 1 \<rparr>], baFromShapeId = None,
       baFromShapeRevision = None, baToShapeId = None, baToShapeRevision = None, baWidth = None, baHeight = None,
       baAnnotationPurpose = ''sketch'' \<rparr>"

definition drawnDelivery :: SessionEvent where
  "drawnDelivery = sampleEvent 7 (DELIVERY_QUEUED
     \<lparr> deliveryId = ''d1'', atomGenerationId = ''g1'', atomContent = WHITEBOARD drawnSegment, disclosureIds = [],
       effectiveDisclosureLevel = 0, atomStatus = Delivery_VALIDATED \<rparr>)"

lemma drawnSegment_valid: "BoardActionSchema drawnSegment"
  by (simp add: BoardActionSchema_def drawnSegment_def Let_def BoardActionBaseSchema_def BoardActionPointSchema_def BoardActionCoordinateSchema_def
      inRange_def str_between_def js_trim_def js_space_def MAX_BOARD_ACTION_POINTS_def)

theorem board_drawings_close_the_policy_witness:
  "BoardActionSchema drawnSegment
   \<and> (\<exists>st d. reduceSessionEvent policyState drawnDelivery = Inr st
        \<and> decidePedagogicalPolicy (\<lambda>_ _. 0) (\<lambda>_. policyDigest) st ''t1'' sampleProblem = Inr d
        \<and> rrMaximumDisclosure (dcRealizationRequest d) = 0)"
proof -
  obtain st where st: "reduceSessionEvent policyState drawnDelivery = Inr st"
    and e: "\<exists>a. (''d1'', a) \<in> set (deliveries st) \<and> atomContent a = WHITEBOARD drawnSegment"
    by (auto simp: reduceSessionEvent_def drawnDelivery_def sampleEvent_def assertSequence_def policyState_def initialSessionState_def
        reduce_DELIVERY_QUEUED_def dput_def)
  have "beyondPolicySchema drawnSegment" by (simp add: beyondPolicySchema_def drawnSegment_def)
  with e obtain d where "decidePedagogicalPolicy (\<lambda>_ _. 0) (\<lambda>_. policyDigest) st ''t1'' sampleProblem = Inr d"
    "dcRealizationRequest d = closedRequest ''t1''"
    using board_drawings_close_the_policy [of _ st drawnSegment] by (metis snd_conv)
  then show ?thesis using st drawnSegment_valid by (auto simp: closedRequest_def)
qed

end
