(* ===== verification/PolicyLedger.thy ===== *)
theory PolicyLedger
  imports PolicySample DeliveryRecovery
begin

text \<open>
  The disclosure ledger as the reducer keeps it and as the policy rechecks it against the atoms
  that were exposed.
\<close>

section \<open>The ledger is carried by exposed atoms\<close>

fun queuedId :: "EventBody \<Rightarrow> DeliveryId list" where
  "queuedId (DELIVERY_QUEUED a) = [deliveryId a]"
| "queuedId _ = []"

definition queuedIds :: "SessionEvent list \<Rightarrow> DeliveryId list" where
  "queuedIds evs = concat (map (\<lambda>ev. queuedId (body ev)) evs)"

definition carries :: "SessionState \<Rightarrow> DisclosureId \<Rightarrow> bool" where
  "carries st x = (\<exists>d a. dget (deliveries st) d = Some a \<and> isDisclosedStatus (atomStatus a) \<and> x \<in> set (disclosureIds a))"

lemma requeues_iff: "requeues d b \<longleftrightarrow> d \<in> set (queuedId b)"
  by (cases b) (auto simp: requeues_def)

lemma carries_step:
  assumes "reduceBody st ei sq so b = Inr t" "carries st x" "\<forall>d \<in> set (queuedId b). dget (deliveries st) d = None"
  shows "carries t x"
proof -
  from assms(2) obtain d a where a: "dget (deliveries st) d = Some a" "isDisclosedStatus (atomStatus a)" "x \<in> set (disclosureIds a)"
    by (auto simp: carries_def)
  then have "\<not> requeues d b" using assms(3) by (auto simp: requeues_iff)
  from delivery_step [OF assms(1) a(1) this] a(2,3) show ?thesis
    unfolding carries_def using lifecycle_disclosed by metis
qed

lemma exposure_carries:
  assumes "reduceBody st ei sq so (body ev) = Inr t" "exposes st ev x"
  shows "carries t x"
  using assms
  by (cases "body ev") (auto simp: exposes_def carries_def withDeliveryStatus_iff dget_dput split: option.splits)

lemma keys_step:
  assumes "reduceBody st ei sq so b = Inr t"
  shows "set (dkeys (deliveries t)) \<subseteq> set (dkeys (deliveries st)) \<union> set (queuedId b)"
proof (cases "isDeliveryBody b")
  case True
  have known: "dget (deliveries st) d = Some a \<Longrightarrow> d \<in> set (dkeys (deliveries st))" for d a
    using dget_None_iff [of "deliveries st" d] by auto
  show ?thesis using True assms
    by (cases b) (auto simp: isDeliveryBody_def reduce_DELIVERY_QUEUED_def reduce_DELIVERY_CANCELLED_def withDeliveryStatus_iff
        dkeys_dput known split: if_splits option.splits)
qed (use assms in \<open>auto dest!: delivery_frame\<close>)

lemma ledger_carried:
  assumes "replaySession sid evs = Inr st" "distinct (queuedIds evs)"
  shows "set (dkeys (deliveries st)) \<subseteq> set (queuedIds evs) \<and> (\<forall>x \<in> set (disclosureLedger st). carries st x)"
  using assms
proof (induction rule: replay_induct)
  case Nil
  then show ?case by (simp add: initialSessionState_def dkeys_def)
next
  case (snoc evs ev u t)
  from snoc.prems have distinct: "distinct (queuedIds evs)" "set (queuedId (body ev)) \<inter> set (queuedIds evs) = {}"
    by (auto simp: queuedIds_def)
  note IH = snoc.IH [OF distinct(1)]
  obtain v where v: "reduceBody u (eventId ev) (eventSequence ev) (eventSource ev) (body ev) = Inr v"
    "deliveries t = deliveries v" "disclosureLedger t = disclosureLedger v"
    using snoc.hyps(2) by (auto simp: reduceSessionEvent_iff)
  have fresh: "\<forall>d \<in> set (queuedId (body ev)). dget (deliveries u) d = None"
    using IH distinct(2) by (auto simp: dget_None_iff)
  have "carries v x" if "x \<in> set (disclosureLedger v)" for x
    using that ledger_body_new [OF v(1) ledgerCovers_replay [OF snoc.hyps(1)], of x] IH carries_step [OF v(1) _ fresh]
      exposure_carries [OF v(1)] by blast
  moreover have "set (dkeys (deliveries v)) \<subseteq> set (queuedIds (evs @ [ev]))"
    using keys_step [OF v(1)] IH by (auto simp: queuedIds_def)
  ultimately show ?case using v(2,3) by (simp add: carries_def)
qed

section \<open>What the policy collects\<close>

definition shownIds :: "(string \<times> DeliveryAtom) list \<Rightarrow> DisclosureId set" where
  "shownIds es = (\<Union>e \<in> {e \<in> set es. isDisclosedStatus (atomStatus (snd e))}. set (disclosureIds (snd e)))"

lemma scanDelivery_shown:
  assumes "scanDelivery st g scan e = Inr scan'"
  shows "set (ssDisclosedIds scan') = set (ssDisclosedIds scan) \<union> shownIds [e]
    \<and> (distinct (ssDisclosedIds scan) \<longrightarrow> distinct (ssDisclosedIds scan'))
    \<and> (\<forall>i \<in> shownIds [e]. dget (disclosureMap g) i \<noteq> None)"
proof (cases "isDisclosedStatus (atomStatus (snd e))")
  case False
  then show ?thesis using assms by (auto simp: scanDelivery_def Let_def bindE_eq_Inr shownIds_def)
next
  case True
  then have "scanExposure st g (scan\<lparr> ssTotal := ssTotal scan + length (disclosureIds (snd e)) \<rparr>) (snd e) = Inr scan'"
    using assms by (simp add: scanDelivery_def Let_def bindE_eq_Inr)
  then obtain p request where "exposedIdsOk g (snd e) p request"
    "ssDisclosedIds scan' = uniq (ssDisclosedIds scan @ disclosureIds (snd e))"
    by (rule scanExposure_Inr) simp
  moreover have "shownIds [e] = set (disclosureIds (snd e))" using True by (auto simp: shownIds_def)
  ultimately show ?thesis
    by (auto simp: exposedIdsOk_def Let_def list_all_iff disclosureAtMost_def split: option.splits)
qed

lemma scanDeliveries_shown:
  "foldE (scanDelivery st g) scan es = Inr scan' \<Longrightarrow>
   set (ssDisclosedIds scan') = set (ssDisclosedIds scan) \<union> shownIds es
   \<and> (distinct (ssDisclosedIds scan) \<longrightarrow> distinct (ssDisclosedIds scan'))
   \<and> (\<forall>i \<in> shownIds es. dget (disclosureMap g) i \<noteq> None)"
proof (induction es arbitrary: scan)
  case (Cons e es)
  from Cons.prems obtain u where u: "scanDelivery st g scan e = Inr u" "foldE (scanDelivery st g) u es = Inr scan'"
    by (auto simp: bindE_eq_Inr)
  have "shownIds (e # es) = shownIds [e] \<union> shownIds es" by (auto simp: shownIds_def)
  then show ?case using scanDelivery_shown [OF u(1)] Cons.IH [OF u(2)] by auto
qed (simp add: shownIds_def)

lemma collected_shown:
  assumes "collectExposedAssistance collate st g = Inr s"
  shows "set (asDisclosedIds s) = shownIds (deliveries st)" "distinct (asDisclosedIds s)"
    "i \<in> set (asDisclosedIds s) \<Longrightarrow> dget (disclosureMap g) i \<noteq> None"
proof -
  from assms obtain scan where "foldE (scanDelivery st g) \<lparr> ssTotal = 0, ssByGeneration = [], ssProposals = [], ssDisclosedIds = [] \<rparr>
      (sortWith (\<lambda>l r. collate (fst l) (fst r)) (deliveries st)) = Inr scan" and s: "asDisclosedIds s = ssDisclosedIds scan"
    by (auto simp: collectExposedAssistance_def bindE_eq_Inr)
  from scanDeliveries_shown [OF this(1)] s show "set (asDisclosedIds s) = shownIds (deliveries st)" "distinct (asDisclosedIds s)"
    "i \<in> set (asDisclosedIds s) \<Longrightarrow> dget (disclosureMap g) i \<noteq> None"
    by (auto simp: shownIds_def)
qed

text \<open>
Property C19. In a session whose deliveries were each queued once, the ledger kept by the reducer is what the
  policy expects: whenever the exposed atoms pass its checks, its own check of the ledger accepts
  and returns that very ledger, in which no id repeats.
\<close>

theorem replayed_ledgers_are_accepted:
  assumes replay: "replaySession sid evs = Inr st" and once: "distinct (queuedIds evs)"
    and g: "validateGraphContext p = Inr g" and s: "collectExposedAssistance collate st g = Inr s"
  shows "validateDisclosureLedger st g (asDisclosedIds s) = Inr (disclosureLedger st)
    \<and> set (disclosureLedger st) = set (asDisclosedIds s)"
proof -
  note accepted = validated_context [OF g, of "[]"]
  have wf: "dict_wf (deliveries st)" by (rule deliveries_wf_replay [OF replay])
  have "set (disclosureLedger st) = shownIds (deliveries st)"
  proof (intro equalityI subsetI)
    fix x assume "x \<in> set (disclosureLedger st)"
    then have "carries st x" using ledger_carried [OF replay once] by blast
    then show "x \<in> shownIds (deliveries st)" by (force simp: carries_def shownIds_def dget_def dest: map_of_SomeD)
  next
    fix x assume "x \<in> shownIds (deliveries st)"
    then obtain e where e: "e \<in> set (deliveries st)" "isDisclosedStatus (atomStatus (snd e))" "x \<in> set (disclosureIds (snd e))"
      by (auto simp: shownIds_def)
    have "dget (deliveries st) (fst e) = Some (snd e)" using wf e(1) by (simp add: dget_def dict_wf_def dkeys_def)
    then show "x \<in> set (disclosureLedger st)" using ledgerCovers_replay [OF replay] e by (auto simp: ledgerCovers_def covered_def)
  qed
  then have same: "set (disclosureLedger st) = set (asDisclosedIds s)" using collected_shown(1) [OF s] by simp
  have known: "idSchema i \<and> i \<in> set (gcDisclosureIds g)" if i: "i \<in> set (disclosureLedger st)" for i
  proof -
    from i same obtain d where "dget (disclosureMap g) i = Some d" using collected_shown(3) [OF s] by blast
    from disclosureMap_Some [OF this] accepted show ?thesis
      by (auto simp: PolicyProblemViewSchema_def ProtectedDisclosureSchema_def list_all_iff)
  qed
  have distinct: "distinct (disclosureLedger st)" by (rule distinct_ledger_replay [OF replay])
  have lengths: "length (disclosureLedger st) = length (asDisclosedIds s)"
    using distinct_card [OF distinct] distinct_card [OF collected_shown(2) [OF s]] same by simp
  have "length (disclosureLedger st) \<le> length (gcDisclosureIds g)"
    using known distinct by (metis card_length card_mono distinct_card le_trans List.finite_set subsetI)
  then have "length (disclosureLedger st) \<le> MAX_PROTECTED_DISCLOSURES"
    using accepted by (auto simp: PolicyProblemViewSchema_def)
  then show ?thesis
    using known distinct lengths same
    by (auto simp: validateDisclosureLedger_def bindE_def guardE_def collectIds_Inr [THEN iffD2] list_all_iff)
qed

section \<open>A session after one help\<close>

definition helpRequest :: RealizationRequest where
  "helpRequest = \<lparr> rrRequiredAction = CHANGE_REPRESENTATION, rrTarget = Some ''milestone:m1'',
     rrMaximumDisclosure = 1, rrAllowedDisclosureIds = Some [''d1''] \<rparr>"

definition helpBasis :: GenerationBasis where
  "helpBasis = \<lparr> gbContextEpoch = 0, gbCommittedInputSequence = 5, gbTranscriptRevision = 0, gbBoardRevision = 0,
     gbProblemStateRevision = 0, gbPolicyRevision = 0, gbInputEpisodeId = Some ''i1'', gbTurnId = ''t1'' \<rparr>"

definition helpProposal :: InterviewerProposal where
  "helpProposal = \<lparr> ipRealizedAction = CHANGE_REPRESENTATION, ipClaimedDisclosureLevel = 1, ipClaimedDisclosureIds = [''d1''],
     ipSpeechText = Some ''try'', ipBoardActions = None \<rparr>"

definition helpAnalysis :: DisclosureAnalysis where
  "helpAnalysis = \<lparr> daStatus = Disclosure_SAFE, daEffectiveDisclosureLevel = 1, daEffectiveDisclosureIds = [''d1''],
     daConfidence = 1, daReason = ''checked'' \<rparr>"

definition helpAtom :: "DeliveryStatus \<Rightarrow> DeliveryAtom" where
  "helpAtom status = \<lparr> deliveryId = ''a1'', atomGenerationId = ''g1'', atomContent = TEXT ''try'', disclosureIds = [''d1''],
     effectiveDisclosureLevel = 1, atomStatus = status \<rparr>"

definition helpLog :: "SessionEvent list" where
  "helpLog = sampleLog 7 [PEDAGOGICAL_ACTION_SELECTED ''t1'' helpRequest, MODEL_GENERATION_STARTED ''g1'' helpBasis ''p'',
     MODEL_PROPOSAL_RECEIVED ''g1'' helpProposal, PROPOSAL_VALIDATED ''g1'' helpAnalysis,
     DELIVERY_QUEUED (helpAtom Delivery_VALIDATED), DELIVERY_STARTED ''a1'', DELIVERY_EXPOSED ''a1'']"

definition helpGeneration :: GenerationState where
  "helpGeneration = \<lparr> gnGenerationId = ''g1'', gnBasis = helpBasis, gnProvider = ''p'', gnPedagogicalAction = Some helpRequest,
     gnInterviewerProposalValidated = True, gnValidatedInterviewerProposal = Some helpProposal, gnStatus = Gen_VALIDATED,
     gnContextManifest = None, gnProposal = Some helpProposal, gnFormalInterpretationProposal = None \<rparr>"

definition helpState :: SessionState where
  "helpState = policyState\<lparr> sequence := 13, eventIds := eventIds policyState @ map eventId helpLog,
     generations := [(''g1'', helpGeneration)], pedagogicalActions := [(''t1'', helpRequest)],
     deliveries := [(''a1'', helpAtom Delivery_EXPOSED)], disclosureLedger := [''d1''] \<rparr>"

lemma helpState_replayed: "replaySession ''s1'' (policySample @ helpLog) = Inr helpState"
proof -
  have "foldE reduceSessionEvent policyState helpLog = Inr helpState"
    by (simp add: helpLog_def sampleEvent_def reduceSessionEvent_def assertSequence_def policyState_def initialSessionState_def
        reduce_GENERATION_STARTED_def updateGeneration_def reduce_PROPOSAL_VALIDATED_def reduce_DELIVERY_QUEUED_def
        withDeliveryStatus_def Let_def dget_Cons dput_def helpAtom_def helpState_def helpGeneration_def helpBasis_def uniq_def)
  then show ?thesis using policyState_replayed reducer.run_append [of "initialSessionState ''s1''" policySample helpLog]
    by (simp add: replaySession_def)
qed

lemma help_schemas:
  "PolicyDeliverySchema (helpAtom Delivery_EXPOSED)" "PolicyInterviewerProposalSchema helpProposal"
  "RealizationRequestSchema helpRequest" "GenerationBasisSchema helpBasis"
  by (simp_all add: PolicyDeliverySchema_def helpAtom_def str_between_def idSchema_def DisclosureLevelSchema_def policy_limits
      PolicyInterviewerProposalSchema_def helpProposal_def RealizationRequestSchema_def helpRequest_def js_trim_def js_space_def
      GenerationBasisSchema_def helpBasis_def revisionSchema_def PositiveSafeInteger_def isSafeNat_def MAX_SAFE_INTEGER_def)

lemma help_collected:
  assumes g: "gcProblem g = sampleProblem"
  shows "\<exists>s. collectExposedAssistance collate helpState g = Inr s \<and> asDisclosedIds s = [''d1'']"
proof -
  let ?a = "helpAtom Delivery_EXPOSED"
  have fields: "deliveries helpState = [(''a1'', ?a)]" "dget (generations helpState) ''g1'' = Some helpGeneration"
    "dget (turns helpState) ''t1'' = Some \<lparr> tnTurnId = ''t1'', tnInputEpisodeId = ''i1'', tnStudentText = ''x is even'', tnCommittedSequence = 5 \<rparr>"
    "dget (inputEpisodes helpState) ''i1'' = Some \<lparr> epInputEpisodeId = ''i1'', epStatus = Episode_COMMITTED, epInputs = [] \<rparr>"
    by (simp_all add: helpState_def dget_Cons)
  have d1: "dget (disclosureMap g) ''d1'' \<noteq> None" "disclosureAtMost g 1 ''d1''"
    by (simp_all add: disclosureMap_def disclosureAtMost_def g sampleProblem_def dget_dput)
  have exposure: "exposureOk helpState helpBasis ?a helpProposal helpRequest
      \<lparr> tnTurnId = ''t1'', tnInputEpisodeId = ''i1'', tnStudentText = ''x is even'', tnCommittedSequence = 5 \<rparr>"
    using help_schemas(3) fields(4)
    by (simp add: exposureOk_def helpBasis_def PositiveSafeInteger_def isSafeNat_def MAX_SAFE_INTEGER_def)
      (simp add: helpProposal_def helpRequest_def helpAtom_def)
  have ids: "exposedIdsOk g ?a helpProposal helpRequest"
    using d1 by (simp add: exposedIdsOk_def helpProposal_def helpRequest_def helpAtom_def Let_def)
  have atom: "deliveryId ?a = ''a1''" "atomGenerationId ?a = ''g1''" "disclosureIds ?a = [''d1'']" "atomStatus ?a = Delivery_EXPOSED"
    by (simp_all add: helpAtom_def)
  have generation: "gnGenerationId helpGeneration = ''g1''" "gnInterviewerProposalValidated helpGeneration"
    "gnStatus helpGeneration = Gen_VALIDATED" "gnBasis helpGeneration = helpBasis"
    "gnValidatedInterviewerProposal helpGeneration = Some helpProposal" "gnPedagogicalAction helpGeneration = Some helpRequest"
    "gbTurnId helpBasis = ''t1''" "gbInputEpisodeId helpBasis = Some ''i1''"
    by (simp_all add: helpGeneration_def helpBasis_def)
  show ?thesis
    using exposure ids help_schemas
    by (simp add: collectExposedAssistance_def fields MAX_DELIVERIES_def scanDelivery_def atom MAX_TOTAL_DELIVERY_DISCLOSURE_REFS_def
        scanExposure_def generation historicalProposal_def uniq_def Let_def)
qed

theorem replayed_ledgers_are_accepted_witness:
  "\<exists>st g s. replaySession ''s1'' (policySample @ helpLog) = Inr st \<and> validateGraphContext sampleProblem = Inr g
     \<and> collectExposedAssistance (\<lambda>_ _. 0) st g = Inr s
     \<and> validateDisclosureLedger st g (asDisclosedIds s) = Inr [''d1'']"
proof -
  obtain g where g: "validateGraphContext sampleProblem = Inr g" "gcProblem g = sampleProblem" by (rule sample_graph)
  obtain s where s: "collectExposedAssistance (\<lambda>_ _. 0) helpState g = Inr s" using help_collected [OF g(2)] by blast
  have "distinct (queuedIds (policySample @ helpLog))"
    by (simp add: queuedIds_def policySample_def helpLog_def sampleEvent_def)
  from replayed_ledgers_are_accepted [OF helpState_replayed this g(1) s]
  have "validateDisclosureLedger helpState g (asDisclosedIds s) = Inr [''d1'']" by (simp add: helpState_def)
  with helpState_replayed g(1) s show ?thesis by blast
qed

end
