(* ===== verification/DisclosureText.thy ===== *)
theory DisclosureText
  imports ReasoningGraphs
begin

text \<open>
  The text matching of \<^verbatim>\<open>packages/interview-engine/src/disclosure-validator.ts\<close>. Texts
  are strings of code units below 256; normalization to NFKC leaves that range for a few
  characters, so a normalized text is a list of code points.
\<close>

section \<open>Normalization\<close>

text \<open>NFKC below 256: what is not listed is its own normal form.\<close>

definition nfkcPoint :: "nat \<Rightarrow> nat list" where
  "nfkcPoint c =
     (case map_of [(160, [32]), (168, [32, 776]), (170, [97]), (175, [32, 772]), (178, [50]), (179, [51]), (180, [32, 769]),
        (181, [956]), (184, [32, 807]), (185, [49]), (186, [111]), (188, [49, 8260, 52]), (189, [49, 8260, 50]),
        (190, [51, 8260, 52])] c of None \<Rightarrow> [c] | Some cs \<Rightarrow> cs)"

definition nfkc :: "string \<Rightarrow> nat list" where
  "nfkc s = concat (map (\<lambda>c. nfkcPoint (of_char c)) s)"

definition lowerPoint :: "nat \<Rightarrow> nat" where
  "lowerPoint c = (if (65 \<le> c \<and> c \<le> 90) \<or> (192 \<le> c \<and> c \<le> 222 \<and> c \<noteq> 215) then c + 32 else c)"

definition wordPoint :: "nat \<Rightarrow> bool" where
  "wordPoint c = ((48 \<le> c \<and> c \<le> 57) \<or> (65 \<le> c \<and> c \<le> 90) \<or> c = 95 \<or> (97 \<le> c \<and> c \<le> 122))"

definition alnumPoint :: "nat \<Rightarrow> bool" where
  "alnumPoint c = ((48 \<le> c \<and> c \<le> 57) \<or> (97 \<le> c \<and> c \<le> 122))"

definition spacePoint :: "nat \<Rightarrow> bool" where
  "spacePoint c = (c \<in> {9, 10, 11, 12, 13, 32, 160})"

definition points :: "string \<Rightarrow> nat list" where
  "points s = map of_char s"

text \<open>
  \<^verbatim>\<open>text.replace(/\bw\b/gu, r)\<close> for a word \<open>w\<close>: \<open>inWord\<close> tells whether the text
  before ends in a word character.
\<close>

function replaceWord :: "nat list \<Rightarrow> nat list \<Rightarrow> bool \<Rightarrow> nat list \<Rightarrow> nat list" where
  "replaceWord w r inWord [] = []"
| "replaceWord w r inWord (c # cs) =
     (let rest = drop (length w - 1) cs in
      if \<not> inWord \<and> take (length w) (c # cs) = w \<and> (rest = [] \<or> \<not> wordPoint (hd rest))
      then r @ replaceWord w r True rest
      else c # replaceWord w r (wordPoint c) cs)"
  by pat_completeness auto
termination
  by (relation "measure (\<lambda>(_, _, _, cs). length cs)") auto

text \<open>A run of characters becomes one space.\<close>

function collapse :: "(nat \<Rightarrow> bool) \<Rightarrow> nat list \<Rightarrow> nat list" where
  "collapse P [] = []"
| "collapse P (c # cs) = (if P c then 32 # collapse P (dropWhile P cs) else c # collapse P cs)"
  by pat_completeness auto
termination
  by (relation "measure (\<lambda>(_, cs). length cs)") (auto simp: length_dropWhile_le le_imp_less_Suc)

definition trimPoints :: "nat list \<Rightarrow> nat list" where
  "trimPoints cs = rev (dropWhile spacePoint (rev (dropWhile spacePoint cs)))"

definition americanSpelling :: "string \<Rightarrow> nat list" where
  "americanSpelling s =
     replaceWord (points ''colour'') (points ''color'') False
       (replaceWord (points ''colours'') (points ''colors'') False (map lowerPoint (nfkc s)))"

definition normalize :: "string \<Rightarrow> nat list" where
  "normalize s = trimPoints (collapse (\<lambda>c. \<not> alnumPoint c) (americanSpelling s))"

definition normalizeReviewedText :: "string \<Rightarrow> nat list" where
  "normalizeReviewedText s = trimPoints (collapse spacePoint (americanSpelling s))"

text \<open>\<^verbatim>\<open>t.includes(s)\<close>\<close>

fun occursIn :: "nat list \<Rightarrow> nat list \<Rightarrow> bool" where
  "occursIn [] s = (s = [])"
| "occursIn (c # cs) s = (take (length s) (c # cs) = s \<or> occursIn cs s)"

lemma occursIn_iff: "occursIn t s \<longleftrightarrow> (\<exists>as bs. t = as @ s @ bs)"
proof (induction t)
  case (Cons c cs)
  have "(\<exists>as bs. c # cs = as @ s @ bs) \<longleftrightarrow> (\<exists>bs. c # cs = s @ bs) \<or> (\<exists>as bs. cs = as @ s @ bs)" (is "?L \<longleftrightarrow> ?R")
  proof
    assume ?L
    then obtain as bs where "c # cs = as @ s @ bs" by blast
    then show ?R by (cases as) auto
  next
    assume ?R
    then show ?L by (metis append_Cons append_Nil)
  qed
  moreover have "take (length s) (c # cs) = s \<longleftrightarrow> (\<exists>bs. c # cs = s @ bs)"
    by (metis append_eq_conv_conj append_take_drop_id)
  ultimately show ?case using Cons.IH by simp
qed simp

section \<open>Protected facts in a text\<close>

record ProtectedMatch =
  pmIds :: "DisclosureId list"
  pmLevel :: DisclosureLevel

definition formulationsOf :: "ProtectedDisclosure \<Rightarrow> string list" where
  "formulationsOf d = pdFact d # pdEquivalentFormulations d"

definition mentions :: "string \<Rightarrow> ProtectedDisclosure \<Rightarrow> bool" where
  "mentions text d = list_ex (\<lambda>f. occursIn (normalize text) (normalize f)) (formulationsOf d)"

definition matchDisclosure :: "string \<Rightarrow> ProtectedMatch \<Rightarrow> ProtectedDisclosure \<Rightarrow> (unit, ProtectedMatch) result" where
  "matchDisclosure text m d =
     bindE (guardE (list_all (\<lambda>f. normalize f \<noteq> []) (formulationsOf d)) ()) (\<lambda>_.
     Inr (if mentions text d
          then \<lparr> pmIds = pmIds m @ [pdId d], pmLevel = max (pmLevel m) (pdMinimumDisclosureLevel d) \<rparr> else m))"

definition deriveProtectedMatch :: "string \<Rightarrow> ProtectedDisclosure list \<Rightarrow> (unit, ProtectedMatch) result" where
  "deriveProtectedMatch text ds = foldE (matchDisclosure text) \<lparr> pmIds = [], pmLevel = 0 \<rparr> ds"

definition isExactProtectedRealization :: "nat list \<Rightarrow> ProtectedDisclosure list \<Rightarrow> bool" where
  "isExactProtectedRealization text ds =
     list_ex (\<lambda>d. list_ex (\<lambda>f. normalizeReviewedText f = text) (formulationsOf d)) ds"

definition maxLevel :: "DisclosureLevel list \<Rightarrow> DisclosureLevel" where
  "maxLevel levels = foldl max 0 levels"

lemma foldl_max: "foldl max (m::DisclosureLevel) xs = max m (foldl max 0 xs)"
proof (induction xs arbitrary: m)
  case (Cons x xs)
  show ?case using Cons.IH [of "max m x"] Cons.IH [of x] by simp
qed simp

lemma maxLevel_Nil [simp]: "maxLevel [] = 0"
  by (simp add: maxLevel_def)

lemma maxLevel_Cons [simp]: "maxLevel (x # xs) = max x (maxLevel xs)"
  unfolding maxLevel_def by (simp add: foldl_max [of x xs])

lemma maxLevel_append [simp]: "maxLevel (xs @ ys) = max (maxLevel xs) (maxLevel ys)"
  by (induction xs) (simp_all add: max.assoc)

lemma maxLevel_ge: "x \<in> set xs \<Longrightarrow> x \<le> maxLevel xs"
  by (induction xs) auto

lemma maxLevel_le: "maxLevel xs \<le> n \<longleftrightarrow> (\<forall>x \<in> set xs. x \<le> n)"
  by (induction xs) auto

text \<open>The matched ids are those of the mentioned facts, and the level is the highest of theirs.\<close>

lemma matches_fold:
  "foldE (matchDisclosure text) m ds = Inr m' \<longleftrightarrow>
     list_all (\<lambda>d. list_all (\<lambda>f. normalize f \<noteq> []) (formulationsOf d)) ds
     \<and> pmIds m' = pmIds m @ map pdId (filter (mentions text) ds)
     \<and> pmLevel m' = max (pmLevel m) (maxLevel (map pdMinimumDisclosureLevel (filter (mentions text) ds)))"
  by (induction ds arbitrary: m) (auto simp: matchDisclosure_def bindE_eq_Inr guardE_eq_Inr max.assoc)

lemma deriveProtectedMatch_Inr:
  "deriveProtectedMatch text ds = Inr m \<longleftrightarrow>
     list_all (\<lambda>d. list_all (\<lambda>f. normalize f \<noteq> []) (formulationsOf d)) ds
     \<and> m = \<lparr> pmIds = map pdId (filter (mentions text) ds),
             pmLevel = maxLevel (map pdMinimumDisclosureLevel (filter (mentions text) ds)) \<rparr>"
  by (cases m) (auto simp: deriveProtectedMatch_def matches_fold)

end
