(* ===== verification/BoardScenes.thy ===== *)
theory BoardScenes
  imports BoardDomain
begin

text \<open>
  The scene of the board that the model is shown (\<^verbatim>\<open>packages/domain/src/whiteboard.ts\<close>).
\<close>

definition MAX_BOARD_SCENE_SHAPES :: nat where "MAX_BOARD_SCENE_SHAPES = 24"
definition MAX_BOARD_SCENE_AI_ANNOTATIONS :: nat where "MAX_BOARD_SCENE_AI_ANNOTATIONS = 6"
definition MAX_BOARD_SCENE_SEMANTIC_RELATIONS :: nat where "MAX_BOARD_SCENE_SEMANTIC_RELATIONS = 8"
definition MAX_BOARD_SCENE_RELATION_SHAPES :: nat where "MAX_BOARD_SCENE_RELATION_SHAPES = 8"
definition MAX_BOARD_SCENE_TEXT_CHARACTERS :: nat where "MAX_BOARD_SCENE_TEXT_CHARACTERS = 384"
definition MAX_BOARD_SCENE_OBSERVATION_CHARACTERS :: nat where "MAX_BOARD_SCENE_OBSERVATION_CHARACTERS = 384"
definition MAX_BOARD_SCENE_ANNOTATION_PURPOSE_CHARACTERS :: nat where
  "MAX_BOARD_SCENE_ANNOTATION_PURPOSE_CHARACTERS = 160"

record BoardSceneSemanticObservation =
  soKind :: VisionObservationKind
  soInterpretation :: string
  soConfidence :: rat
  soSourceBoardRevision :: Revision

definition BoardSceneSemanticObservationSchema :: "BoardSceneSemanticObservation \<Rightarrow> bool" where
  "BoardSceneSemanticObservationSchema o' =
     (str_between 1 MAX_BOARD_SCENE_OBSERVATION_CHARACTERS (soInterpretation o') \<and> unitInterval (soConfidence o')
      \<and> revisionSchema (soSourceBoardRevision o'))"

record BoardSceneShape =
  bsShapeId :: string
  bsShapeRevision :: nat
  bsType :: BoardShapeType
  bsBounds :: Bounds
  bsText :: "string option"
  bsSemanticObservation :: "BoardSceneSemanticObservation option"

definition BoardSceneShapeSchema :: "BoardSceneShape \<Rightarrow> bool" where
  "BoardSceneShapeSchema s =
     (BoardShapeIdSchema (bsShapeId s) \<and> PositiveSafeInteger (bsShapeRevision s)
      \<and> AuthoritativeBoardBoundsSchema (bsBounds s)
      \<and> opt_all (\<lambda>t. length t \<le> MAX_BOARD_SCENE_TEXT_CHARACTERS) (bsText s)
      \<and> opt_all BoardSceneSemanticObservationSchema (bsSemanticObservation s))"

record BoardSceneSemanticRelation =
  srObservationId :: string
  srKind :: VisionObservationKind
  srRelevantShapeIds :: "string list"
  srBounds :: Bounds
  srInterpretation :: string
  srConfidence :: rat
  srSourceBoardRevision :: Revision

definition BoardSceneSemanticRelationSchema :: "BoardSceneSemanticRelation \<Rightarrow> bool" where
  "BoardSceneSemanticRelationSchema r =
     (str_between 1 160 (srObservationId r)
      \<and> list_all BoardShapeIdSchema (srRelevantShapeIds r) \<and> 2 \<le> length (srRelevantShapeIds r)
      \<and> length (srRelevantShapeIds r) \<le> MAX_BOARD_SCENE_RELATION_SHAPES
      \<and> AuthoritativeBoardBoundsSchema (srBounds r)
      \<and> str_between 1 MAX_BOARD_SCENE_OBSERVATION_CHARACTERS (srInterpretation r)
      \<and> unitInterval (srConfidence r) \<and> revisionSchema (srSourceBoardRevision r))"

record BoardSceneAiAnnotation =
  saAnnotationId :: string
  saOperation :: string
  saPurpose :: string
  saContent :: "string option"
  saTargetShapeId :: "string option"
  saTargetShapeRevision :: "nat option"
  saTargetRegion :: "BoardActionTargetRegion option"
  saPlacement :: "BoardActionPlacement option"
  saPoints :: "BoardActionPoint list option"
  saFromShapeId :: "string option"
  saFromShapeRevision :: "nat option"
  saToShapeId :: "string option"
  saToShapeRevision :: "nat option"
  saWidth :: "rat option"
  saHeight :: "rat option"

definition BoardSceneAiAnnotationSchema :: "BoardSceneAiAnnotation \<Rightarrow> bool" where
  "BoardSceneAiAnnotationSchema a =
     (idSchema (saAnnotationId a) \<and> length (saAnnotationId a) \<le> 160 \<and> str_between 1 64 (saOperation a)
      \<and> str_between 1 MAX_BOARD_SCENE_ANNOTATION_PURPOSE_CHARACTERS (saPurpose a)
      \<and> opt_all (\<lambda>t. length t \<le> MAX_BOARD_SCENE_TEXT_CHARACTERS) (saContent a)
      \<and> opt_all BoardShapeIdSchema (saTargetShapeId a) \<and> opt_all PositiveSafeInteger (saTargetShapeRevision a)
      \<and> opt_all BoardActionTargetRegionSchema (saTargetRegion a)
      \<and> opt_all BoardActionPlacementSchema (saPlacement a)
      \<and> opt_all (\<lambda>ps. list_all BoardActionPointSchema ps \<and> length ps \<le> MAX_BOARD_ACTION_POINTS) (saPoints a)
      \<and> opt_all BoardShapeIdSchema (saFromShapeId a) \<and> opt_all PositiveSafeInteger (saFromShapeRevision a)
      \<and> opt_all BoardShapeIdSchema (saToShapeId a) \<and> opt_all PositiveSafeInteger (saToShapeRevision a)
      \<and> opt_all BoardActionDimensionSchema (saWidth a) \<and> opt_all BoardActionDimensionSchema (saHeight a)
      \<and> \<not> (saTargetShapeRevision a \<noteq> None \<and> saTargetShapeId a = None))"

record BoardSceneContext =
  scBoardRevision :: Revision
  scStudentShapeCount :: nat
  scIncludedStudentShapeCount :: nat
  scOmittedStudentShapeCount :: nat
  scStudentShapesTruncated :: bool
  scAiAnnotationCount :: nat
  scIncludedAiAnnotationCount :: nat
  scAiAnnotationsTruncated :: bool
  scAiAnnotationStateUncertain :: bool
  scContentBounds :: "Bounds option"
  scShapes :: "BoardSceneShape list"
  scSemanticRelations :: "BoardSceneSemanticRelation list"
  scAiAnnotations :: "BoardSceneAiAnnotation list"

definition BoardSceneContextSchema :: "BoardSceneContext \<Rightarrow> bool" where
  "BoardSceneContextSchema c =
     (revisionSchema (scBoardRevision c)
      \<and> isSafeNat (scStudentShapeCount c) \<and> isSafeNat (scIncludedStudentShapeCount c)
      \<and> isSafeNat (scOmittedStudentShapeCount c) \<and> isSafeNat (scAiAnnotationCount c)
      \<and> isSafeNat (scIncludedAiAnnotationCount c)
      \<and> opt_all AuthoritativeBoardBoundsSchema (scContentBounds c)
      \<and> list_all BoardSceneShapeSchema (scShapes c) \<and> length (scShapes c) \<le> MAX_BOARD_SCENE_SHAPES
      \<and> list_all BoardSceneSemanticRelationSchema (scSemanticRelations c)
      \<and> length (scSemanticRelations c) \<le> MAX_BOARD_SCENE_SEMANTIC_RELATIONS
      \<and> list_all BoardSceneAiAnnotationSchema (scAiAnnotations c)
      \<and> length (scAiAnnotations c) \<le> MAX_BOARD_SCENE_AI_ANNOTATIONS
      \<and> scIncludedStudentShapeCount c = length (scShapes c)
      \<and> scStudentShapeCount c = scIncludedStudentShapeCount c + scOmittedStudentShapeCount c
      \<and> scStudentShapesTruncated c = (0 < scOmittedStudentShapeCount c)
      \<and> scIncludedAiAnnotationCount c = length (scAiAnnotations c)
      \<and> scIncludedAiAnnotationCount c \<le> scAiAnnotationCount c
      \<and> scAiAnnotationsTruncated c = (scIncludedAiAnnotationCount c < scAiAnnotationCount c)
      \<and> list_all (\<lambda>r. allDistinct (srRelevantShapeIds r)
                     \<and> set (srRelevantShapeIds r) \<subseteq> set (map bsShapeId (scShapes c))) (scSemanticRelations c))"

end
