(* ===== verification/DisclosureValidation.thy ===== *)
theory DisclosureValidation
  imports DisclosureText BoardScenes
begin

text \<open>
  The gate between the language model and the candidate
  (\<^verbatim>\<open>packages/interview-engine/src/disclosure-validator.ts\<close>): a proposal is analyzed text by text,
  the texts of the board shapes it points at included, and is accepted only when every protected
  fact found in them is authorized. The analyzer is a parameter; the closed-world analyzer of the
  same file is one.
\<close>

section \<open>Limits\<close>

definition MAX_DISCLOSURE_ANALYSIS_CHARACTERS :: nat where "MAX_DISCLOSURE_ANALYSIS_CHARACTERS = 100000"
definition MAX_TOTAL_PROPOSAL_TEXT_CHARACTERS :: nat where "MAX_TOTAL_PROPOSAL_TEXT_CHARACTERS = 1000000"
definition MAX_VALIDATED_DISCLOSURES :: nat where "MAX_VALIDATED_DISCLOSURES = 1024"
definition MAX_EQUIVALENT_FORMULATIONS :: nat where "MAX_EQUIVALENT_FORMULATIONS = 256"
definition MAX_TOTAL_EQUIVALENT_FORMULATIONS :: nat where "MAX_TOTAL_EQUIVALENT_FORMULATIONS = 4096"
definition MAX_TOTAL_PROTECTED_DISCLOSURE_CHARACTERS :: nat where "MAX_TOTAL_PROTECTED_DISCLOSURE_CHARACTERS = 1000000"
definition MAX_DISCLOSURE_ANALYSIS_WORK_CHARACTERS :: nat where "MAX_DISCLOSURE_ANALYSIS_WORK_CHARACTERS = 10000000"
definition MAX_ANALYZER_DISCLOSURE_IDS :: nat where "MAX_ANALYZER_DISCLOSURE_IDS = 256"
definition MAX_TOTAL_ANALYZER_DISCLOSURE_IDS :: nat where "MAX_TOTAL_ANALYZER_DISCLOSURE_IDS = 65536"
definition MAX_TOTAL_ANALYZER_REASON_CHARACTERS :: nat where "MAX_TOTAL_ANALYZER_REASON_CHARACTERS = 1000000"
definition MAX_BOARD_ACTIONS :: nat where "MAX_BOARD_ACTIONS = 256"
definition MAX_REVIEWED_SAFE_TEXTS :: nat where "MAX_REVIEWED_SAFE_TEXTS = 1024"
definition MAX_TOTAL_REVIEWED_SAFE_TEXT_CHARACTERS :: nat where "MAX_TOTAL_REVIEWED_SAFE_TEXT_CHARACTERS = 1000000"

lemmas disclosure_limits =
  MAX_DISCLOSURE_ANALYSIS_CHARACTERS_def MAX_TOTAL_PROPOSAL_TEXT_CHARACTERS_def MAX_VALIDATED_DISCLOSURES_def
  MAX_EQUIVALENT_FORMULATIONS_def MAX_TOTAL_EQUIVALENT_FORMULATIONS_def MAX_TOTAL_PROTECTED_DISCLOSURE_CHARACTERS_def
  MAX_DISCLOSURE_ANALYSIS_WORK_CHARACTERS_def MAX_ANALYZER_DISCLOSURE_IDS_def MAX_TOTAL_ANALYZER_DISCLOSURE_IDS_def
  MAX_TOTAL_ANALYZER_REASON_CHARACTERS_def MAX_BOARD_ACTIONS_def MAX_REVIEWED_SAFE_TEXTS_def
  MAX_TOTAL_REVIEWED_SAFE_TEXT_CHARACTERS_def

definition textWithinBounds :: "string \<Rightarrow> bool" where
  "textWithinBounds s = (s \<noteq> [] \<and> length s \<le> MAX_DISCLOSURE_ANALYSIS_CHARACTERS)"

text \<open>The loop carries the totals: formulations seen, then characters seen.\<close>

fun formulationsWithinBounds :: "nat \<Rightarrow> string list \<Rightarrow> nat option" where
  "formulationsWithinBounds chars [] = Some chars"
| "formulationsWithinBounds chars (f # fs) =
     (if textWithinBounds f \<and> chars + length f \<le> MAX_TOTAL_PROTECTED_DISCLOSURE_CHARACTERS
      then formulationsWithinBounds (chars + length f) fs else None)"

fun metadataWithinBounds :: "nat \<Rightarrow> nat \<Rightarrow> ProtectedDisclosure list \<Rightarrow> bool" where
  "metadataWithinBounds formulations chars [] = True"
| "metadataWithinBounds formulations chars (d # ds) =
     (let fs = pdEquivalentFormulations d; chars' = chars + length (pdFact d); n = formulations + length fs in
      textWithinBounds (pdFact d) \<and> fs \<noteq> [] \<and> length fs \<le> MAX_EQUIVALENT_FORMULATIONS
      \<and> chars' \<le> MAX_TOTAL_PROTECTED_DISCLOSURE_CHARACTERS \<and> n \<le> MAX_TOTAL_EQUIVALENT_FORMULATIONS
      \<and> (case formulationsWithinBounds chars' fs of None \<Rightarrow> False | Some c \<Rightarrow> metadataWithinBounds n c ds))"

definition protectedMetadataWithinBounds :: "ProtectedDisclosure list \<Rightarrow> bool" where
  "protectedMetadataWithinBounds ds = (length ds \<le> MAX_VALIDATED_DISCLOSURES \<and> metadataWithinBounds 0 0 ds)"

definition protectedMetadataCharacterCount :: "ProtectedDisclosure list \<Rightarrow> nat" where
  "protectedMetadataCharacterCount ds = foldl (\<lambda>n d. foldl (\<lambda>n f. n + length f) (n + length (pdFact d)) (pdEquivalentFormulations d)) 0 ds"

definition protectedMetadataFormulationCount :: "ProtectedDisclosure list \<Rightarrow> nat" where
  "protectedMetadataFormulationCount ds = foldl (\<lambda>n d. n + 1 + length (pdEquivalentFormulations d)) 0 ds"

section \<open>Analyses\<close>

definition unknownAnalysis :: "string \<Rightarrow> DisclosureAnalysis" where
  "unknownAnalysis reason = \<lparr> daStatus = Disclosure_UNKNOWN, daEffectiveDisclosureLevel = 5, daEffectiveDisclosureIds = [],
     daConfidence = 0, daReason = reason \<rparr>"

definition analyzerResultWithinBounds :: "DisclosureAnalysis \<Rightarrow> bool" where
  "analyzerResultWithinBounds a =
     (length (daEffectiveDisclosureIds a) \<le> MAX_ANALYZER_DISCLOSURE_IDS \<and> 0 < length (daReason a)
      \<and> length (daReason a) \<le> MAX_DISCLOSURE_ANALYSIS_CHARACTERS)"

text \<open>
  What an analyzer may do: throw, answer with a value that is not an analysis (the flag tells
  whether its ids and reason still pass the size check), or answer with an analysis.
\<close>

datatype AnalyzerAnswer = AnalyzerThrew | NotAnAnalysis bool | Answered DisclosureAnalysis

type_synonym DisclosureAnalyzer = "string \<Rightarrow> ProtectedDisclosure list \<Rightarrow> AnalyzerAnswer"

definition disclosureById :: "ProtectedDisclosure list \<Rightarrow> DisclosureId \<Rightarrow> ProtectedDisclosure option" where
  "disclosureById ds i = find (\<lambda>d. pdId d = i) ds"

definition minConfidence :: "DisclosureAnalysis list \<Rightarrow> rat" where
  "minConfidence as = foldl (\<lambda>m a. min m (daConfidence a)) (daConfidence (hd as)) (tl as)"

fun joinReasons :: "string list \<Rightarrow> string" where
  "joinReasons [] = []"
| "joinReasons [r] = r"
| "joinReasons (r # rs) = r @ ''; '' @ joinReasons rs"

text \<open>\<open>Inl ()\<close> is the throw of the code: no analysis, or an id that is not a protected one.\<close>

definition combineSafeAnalyses ::
  "DisclosureAnalysis list \<Rightarrow> DisclosureId list \<Rightarrow> DisclosureLevel \<Rightarrow> DisclosureId list \<Rightarrow> ProtectedDisclosure list
    \<Rightarrow> (unit, DisclosureAnalysis) result" where
  "combineSafeAnalyses analyses deterministicIds deterministicLevel additionalIds ds =
     (if analyses = [] then Inl ()
      else
        (let effectiveIds = uniq (deterministicIds @ concat (map daEffectiveDisclosureIds analyses) @ additionalIds) in
         bindE (foldE (\<lambda>level i. case disclosureById ds i of None \<Rightarrow> Inl () | Some d \<Rightarrow> Inr (max level (pdMinimumDisclosureLevel d)))
                  deterministicLevel effectiveIds) (\<lambda>metadataFloor.
         Inr \<lparr> daStatus = Disclosure_SAFE,
               daEffectiveDisclosureLevel = max metadataFloor (maxLevel (map daEffectiveDisclosureLevel analyses)),
               daEffectiveDisclosureIds = effectiveIds, daConfidence = minConfidence analyses,
               daReason = joinReasons (map daReason analyses) \<rparr>)))"

section \<open>The closed-world analyzer\<close>

datatype ReviewedTextError = TOO_MANY_TEXTS | TEXT_OUT_OF_BOUNDS | TEXTS_TOO_LONG | TEXT_NOT_ANALYZABLE

definition reviewText :: "nat \<times> nat list list \<Rightarrow> string \<Rightarrow> (ReviewedTextError, nat \<times> nat list list) result" where
  "reviewText st text =
     bindE (guardE (textWithinBounds text) TEXT_OUT_OF_BOUNDS) (\<lambda>_.
     bindE (guardE (fst st + length text \<le> MAX_TOTAL_REVIEWED_SAFE_TEXT_CHARACTERS) TEXTS_TOO_LONG) (\<lambda>_.
     bindE (guardE (normalize text \<noteq> []) TEXT_NOT_ANALYZABLE) (\<lambda>_.
     Inr (fst st + length text, snd st @ [normalizeReviewedText text]))))"

definition createClosedWorldAnalyzer :: "string list \<Rightarrow> (ReviewedTextError, nat list list) result" where
  "createClosedWorldAnalyzer safeTexts =
     bindE (guardE (length safeTexts \<le> MAX_REVIEWED_SAFE_TEXTS) TOO_MANY_TEXTS) (\<lambda>_.
     bindE (foldE reviewText (0, []) safeTexts) (\<lambda>st. Inr (snd st)))"

definition safeAnalysis :: "DisclosureLevel \<Rightarrow> DisclosureId list \<Rightarrow> string \<Rightarrow> DisclosureAnalysis" where
  "safeAnalysis level ids reason = \<lparr> daStatus = Disclosure_SAFE, daEffectiveDisclosureLevel = level, daEffectiveDisclosureIds = ids,
     daConfidence = 1, daReason = reason \<rparr>"

definition closedWorldAnalyze :: "nat list list \<Rightarrow> string \<Rightarrow> ProtectedDisclosure list \<Rightarrow> DisclosureAnalysis" where
  "closedWorldAnalyze safeTexts text ds =
     (if MAX_DISCLOSURE_ANALYSIS_CHARACTERS < length text
      then unknownAnalysis ''Text exceeds the bounded disclosure-analysis input size''
      else if \<not> protectedMetadataWithinBounds ds
      then unknownAnalysis ''Protected disclosure metadata exceeds the bounded disclosure-analysis input size''
      else
        (let normalizedReviewedText = normalizeReviewedText text in
         case deriveProtectedMatch text ds of
           Inl _ \<Rightarrow> unknownAnalysis ''Protected disclosure metadata normalizes to an empty formulation''
         | Inr m \<Rightarrow>
             if pmIds m \<noteq> []
             then if normalizedReviewedText \<notin> set safeTexts \<and> \<not> isExactProtectedRealization normalizedReviewedText ds
                  then unknownAnalysis ''Protected formulation was detected, but the complete realization is outside the reviewed set''
                  else safeAnalysis (pmLevel m) (pmIds m)
                         ''Complete realization is reviewed and protected content is classified independently''
             else if normalize text \<noteq> [] \<and> normalizedReviewedText \<in> set safeTexts
             then safeAnalysis 0 [] ''Exact reviewed zero-disclosure probe''
             else unknownAnalysis ''Text is outside the reviewed Phase 0 disclosure set''))"

section \<open>What a board action points at\<close>

text \<open>Binary64 values: a finite one, or an infinity.\<close>

datatype Extent = Within rat | Above | Below

fun extentPlus :: "Extent \<Rightarrow> rat \<Rightarrow> Extent" where
  "extentPlus (Within a) b = (case fl (a + b) of Some s \<Rightarrow> Within s | None \<Rightarrow> if 0 < a + b then Above else Below)"
| "extentPlus Above b = Above"
| "extentPlus Below b = Below"

fun extentAtMost :: "Extent \<Rightarrow> Extent \<Rightarrow> bool" where
  "extentAtMost (Within a) (Within b) = (a \<le> b)"
| "extentAtMost Below _ = True"
| "extentAtMost _ Above = True"
| "extentAtMost _ _ = False"

record BoardDisclosureBounds =
  bdX :: rat
  bdY :: rat
  bdWidth :: Extent
  bdHeight :: Extent

definition BOARD_DISCLOSURE_ASSOCIATION_MARGIN :: rat where "BOARD_DISCLOSURE_ASSOCIATION_MARGIN = 32"

definition spanOf :: "rat list \<Rightarrow> Extent" where
  "spanOf xs =
     (case extentPlus (Within (foldl max (hd xs) (tl xs))) (- foldl min (hd xs) (tl xs)) of
        Within w \<Rightarrow> Within (max 1 w) | Above \<Rightarrow> Above | Below \<Rightarrow> Within 1)"

definition fixedBounds :: "rat \<Rightarrow> rat \<Rightarrow> rat \<Rightarrow> rat \<Rightarrow> BoardDisclosureBounds" where
  "fixedBounds x y w h = \<lparr> bdX = x, bdY = y, bdWidth = Within w, bdHeight = Within h \<rparr>"

definition pointBounds :: "BoardActionPoint list \<Rightarrow> BoardDisclosureBounds" where
  "pointBounds ps =
     (let xs = map bapX ps; ys = map bapY ps in
      \<lparr> bdX = foldl min (hd xs) (tl xs), bdY = foldl min (hd ys) (tl ys), bdWidth = spanOf xs, bdHeight = spanOf ys \<rparr>)"

definition placedBounds :: "BoardAction \<Rightarrow> rat \<Rightarrow> rat \<Rightarrow> BoardDisclosureBounds option" where
  "placedBounds a x y =
     (case baOperation a of
        write_text \<Rightarrow> Some (fixedBounds x y 220 96)
      | write_equation \<Rightarrow> Some (fixedBounds x y 220 56)
      | draw_rectangle \<Rightarrow> (case (baWidth a, baHeight a) of (Some w, Some h) \<Rightarrow> Some (fixedBounds x y w h) | _ \<Rightarrow> None)
      | draw_ellipse \<Rightarrow> (case (baWidth a, baHeight a) of (Some w, Some h) \<Rightarrow> Some (fixedBounds x y w h) | _ \<Rightarrow> None)
      | _ \<Rightarrow> None)"

definition targetlessBounds :: "BoardOperation \<Rightarrow> BoardDisclosureBounds option" where
  "targetlessBounds op =
     (case op of
        write_text \<Rightarrow> Some (fixedBounds 320 120 220 96)
      | write_equation \<Rightarrow> Some (fixedBounds 320 220 220 56)
      | circle \<Rightarrow> Some (fixedBounds 128 128 224 224)
      | highlight \<Rightarrow> Some (fixedBounds 128 128 224 224)
      | draw_arrow \<Rightarrow> Some (fixedBounds 128 128 224 224)
      | point_at \<Rightarrow> Some (fixedBounds 128 128 224 224)
      | _ \<Rightarrow> None)"

definition absoluteBoardActionDisclosureBounds :: "BoardAction \<Rightarrow> BoardDisclosureBounds option" where
  "absoluteBoardActionDisclosureBounds a =
     (if baPoints a \<noteq> None \<and> baPoints a \<noteq> Some [] then Some (pointBounds (the (baPoints a)))
      else
        (case (Option.bind (baPlacement a) plX, Option.bind (baPlacement a) plY) of
           (Some x, Some y) \<Rightarrow> placedBounds a x y
         | _ \<Rightarrow> if baTargetShapeId a = None \<and> Option.bind (baPlacement a) plAnchorShapeId = None
                then targetlessBounds (baOperation a) else None))"

definition boardBoundsAreAssociated :: "BoardDisclosureBounds \<Rightarrow> Bounds \<Rightarrow> bool" where
  "boardBoundsAreAssociated a s =
     (let margin = BOARD_DISCLOSURE_ASSOCIATION_MARGIN in
      extentAtMost (Within (bdX a)) (extentPlus (extentPlus (Within (bX s)) (bWidth s)) margin)
      \<and> extentAtMost (extentPlus (Within (bX s)) (- margin)) (extentPlus (bdWidth a) (bdX a))
      \<and> extentAtMost (Within (bdY a)) (extentPlus (extentPlus (Within (bY s)) (bHeight s)) margin)
      \<and> extentAtMost (extentPlus (Within (bY s)) (- margin)) (extentPlus (bdHeight a) (bdY a)))"

definition optionList :: "'a option \<Rightarrow> 'a list" where
  "optionList x = (case x of None \<Rightarrow> [] | Some y \<Rightarrow> [y])"

definition shapeDisclosureTexts :: "BoardSceneShape \<Rightarrow> string list" where
  "shapeDisclosureTexts s =
     filter (\<lambda>t. t \<noteq> []) (optionList (bsText s) @ optionList (map_option soInterpretation (bsSemanticObservation s)))"

text \<open>The shapes an action names, then those its absolute bounds touch.\<close>

definition associatedShapeIds :: "BoardAction \<Rightarrow> BoardSceneContext \<Rightarrow> string list" where
  "associatedShapeIds a scene =
     uniq (optionList (baTargetShapeId a) @ optionList (Option.bind (baPlacement a) plAnchorShapeId)
       @ optionList (map_option trShapeId (baTargetRegion a))
       @ (if baOperation a = draw_arrow_between then optionList (baFromShapeId a) @ optionList (baToShapeId a) else [])
       @ (case absoluteBoardActionDisclosureBounds a of
            None \<Rightarrow> []
          | Some b \<Rightarrow> map bsShapeId (filter (\<lambda>s. boardBoundsAreAssociated b (bsBounds s)) (scShapes scene))))"

definition boardTargetDisclosureTexts :: "BoardAction \<Rightarrow> BoardSceneContext option \<Rightarrow> string list" where
  "boardTargetDisclosureTexts a boardScene =
     (case boardScene of
        None \<Rightarrow> []
      | Some scene \<Rightarrow>
          concat (map (\<lambda>i. case find (\<lambda>s. bsShapeId s = i) (scShapes scene) of None \<Rightarrow> [] | Some s \<Rightarrow> shapeDisclosureTexts s)
            (associatedShapeIds a scene)))"

end
