(* ===== verification/ProposalValidation.thy ===== *)
theory ProposalValidation
  imports DisclosureValidation
begin

text \<open>
  \<^verbatim>\<open>DisclosureValidator.validate\<close> of \<^verbatim>\<open>packages/interview-engine/src/disclosure-validator.ts\<close>: the
  guards in the order of the code, each refusal with its reason.
\<close>

section \<open>Outcomes\<close>

datatype ValidationReason =
    ACTION_NOT_SELECTED
  | NO_DELIVERABLE
  | PROPOSAL_OUT_OF_BOUNDS
  | METADATA_OUT_OF_BOUNDS
  | METADATA_DUPLICATE_IDS
  | NO_ANALYZABLE_TEXT
  | PROPOSAL_TEXT_OUT_OF_BOUNDS
  | WORK_BUDGET_EXCEEDED
  | BOARD_TARGET_NOT_ANALYZABLE
  | TEXT_NOT_DETERMINISTIC
  | ANALYZER_FAILED
  | ANALYZER_RESULT_OUT_OF_BOUNDS
  | ANALYZER_RESULT_INVALID
  | ANALYZER_RESULTS_OUT_OF_BOUNDS
  | CONTENT_UNSAFE
  | VALIDATION_UNCERTAIN
  | DUPLICATE_CLAIMS
  | UNKNOWN_CLAIM
  | UNKNOWN_ANALYZED_DISCLOSURE
  | ANALYSES_NOT_COMBINED
  | DUPLICATE_AUTHORIZATION
  | UNKNOWN_AUTHORIZATION
  | AUTHORIZATION_ABOVE_CEILING
  | DISCLOSURE_ABOVE_CEILING
  | CLAIM_ABOVE_CEILING
  | CLAIM_UNDERSTATES
  | DISCLOSURE_NOT_AUTHORIZED
  | ATTRIBUTION_FAILED

text \<open>A refusal may carry the analysis it rests on; \<open>Thrown\<close> is an exception that leaves \<^verbatim>\<open>validate\<close>.\<close>

datatype ValidationFailure = Refused ValidationReason "DisclosureAnalysis option" | Thrown

record ProposalAcceptance =
  acAnalysis :: DisclosureAnalysis
  acSpeech :: "DisclosureAnalysis option"
  acBoardActions :: "DisclosureAnalysis list"

type_synonym 'a validation = "(ValidationFailure, 'a) result"

definition requireV :: "bool \<Rightarrow> ValidationReason \<Rightarrow> unit validation" where
  "requireV b reason = guardE b (Refused reason None)"

definition requireWith :: "DisclosureAnalysis \<Rightarrow> bool \<Rightarrow> ValidationReason \<Rightarrow> unit validation" where
  "requireWith a b reason = guardE b (Refused reason (Some a))"

lemma requireV_Inr [simp]: "requireV b reason = Inr u \<longleftrightarrow> b"
  by (simp add: requireV_def guardE_eq_Inr)

lemma requireWith_Inr [simp]: "requireWith a b reason = Inr u \<longleftrightarrow> b"
  by (simp add: requireWith_def guardE_eq_Inr)

lemma require_Thrown [simp]: "requireV b reason \<noteq> Inl Thrown" "requireWith a b reason \<noteq> Inl Thrown"
  by (simp_all add: requireV_def requireWith_def guardE_def)

section \<open>The texts of a proposal\<close>

definition proposedActions :: "InterviewerProposal \<Rightarrow> BoardAction list" where
  "proposedActions p = (case ipBoardActions p of None \<Rightarrow> [] | Some as \<Rightarrow> as)"

definition proposalWithinBounds :: "InterviewerProposal \<Rightarrow> bool" where
  "proposalWithinBounds p =
     (opt_all (\<lambda>s. length s \<le> MAX_DISCLOSURE_ANALYSIS_CHARACTERS) (ipSpeechText p)
      \<and> length (proposedActions p) \<le> MAX_BOARD_ACTIONS
      \<and> list_all (\<lambda>a. opt_all (\<lambda>c. length c \<le> MAX_DISCLOSURE_ANALYSIS_CHARACTERS) (baContent a)
                     \<and> length (baAnnotationPurpose a) \<le> MAX_DISCLOSURE_ANALYSIS_CHARACTERS) (proposedActions p))"

definition actionTexts :: "BoardAction \<Rightarrow> string list" where
  "actionTexts a = filter (\<lambda>c. c \<noteq> []) (optionList (baContent a)) @ [baAnnotationPurpose a]"

definition realizationTexts :: "InterviewerProposal \<Rightarrow> string list list" where
  "realizationTexts p = map (\<lambda>s. [s]) (optionList (ipSpeechText p)) @ map actionTexts (proposedActions p)"

definition boardTargetTexts :: "InterviewerProposal \<Rightarrow> BoardSceneContext option \<Rightarrow> string list list" where
  "boardTargetTexts p scene = map (\<lambda>a. boardTargetDisclosureTexts a scene) (proposedActions p)"

definition totalCharacters :: "string list \<Rightarrow> nat" where
  "totalCharacters texts = foldl (\<lambda>n t. n + length t) 0 texts"

definition withinWorkBudget :: "string list \<Rightarrow> string list list \<Rightarrow> ProtectedDisclosure list \<Rightarrow> bool" where
  "withinWorkBudget texts targets ds =
     (let targetCount = foldl (\<lambda>n g. n + length g) 0 targets;
          targetCharacters = foldl (\<lambda>n g. n + totalCharacters g) 0 targets in
      (length texts + targetCount) * protectedMetadataCharacterCount ds \<le> MAX_DISCLOSURE_ANALYSIS_WORK_CHARACTERS
      \<and> (totalCharacters texts + targetCharacters) * protectedMetadataFormulationCount ds \<le> MAX_DISCLOSURE_ANALYSIS_WORK_CHARACTERS)"

definition validateInput ::
  "InterviewerProposal \<Rightarrow> RealizationRequest \<Rightarrow> ProtectedDisclosure list \<Rightarrow> BoardSceneContext option \<Rightarrow> unit validation" where
  "validateInput p r ds scene =
     (let texts = concat (realizationTexts p) in
      bindE (requireV (ipRealizedAction p = rrRequiredAction r) ACTION_NOT_SELECTED) (\<lambda>_.
      bindE (requireV (ipSpeechText p \<noteq> None \<or> proposedActions p \<noteq> []) NO_DELIVERABLE) (\<lambda>_.
      bindE (requireV (proposalWithinBounds p) PROPOSAL_OUT_OF_BOUNDS) (\<lambda>_.
      bindE (requireV (protectedMetadataWithinBounds ds) METADATA_OUT_OF_BOUNDS) (\<lambda>_.
      bindE (requireV (allDistinct (map pdId ds)) METADATA_DUPLICATE_IDS) (\<lambda>_.
      bindE (requireV (texts \<noteq> []) NO_ANALYZABLE_TEXT) (\<lambda>_.
      bindE (requireV (totalCharacters texts \<le> MAX_TOTAL_PROPOSAL_TEXT_CHARACTERS) PROPOSAL_TEXT_OUT_OF_BOUNDS) (\<lambda>_.
      requireV (withinWorkBudget texts (boardTargetTexts p scene) ds) WORK_BUDGET_EXCEEDED))))))))"

section \<open>The analyses of the texts\<close>

definition matchText :: "ValidationReason \<Rightarrow> ProtectedDisclosure list \<Rightarrow> string \<Rightarrow> ProtectedMatch validation" where
  "matchText reason ds text = (case deriveProtectedMatch text ds of Inl _ \<Rightarrow> Inl (Refused reason None) | Inr m \<Rightarrow> Inr m)"

definition mergeMatches :: "ProtectedMatch list \<Rightarrow> ProtectedMatch" where
  "mergeMatches ms = \<lparr> pmIds = uniq (concat (map pmIds ms)), pmLevel = maxLevel (map pmLevel ms) \<rparr>"

definition matchTargets :: "ProtectedDisclosure list \<Rightarrow> string list list \<Rightarrow> ProtectedMatch list validation" where
  "matchTargets ds groups =
     mapE (\<lambda>texts. bindE (mapE (matchText BOARD_TARGET_NOT_ANALYZABLE ds) texts) (\<lambda>ms. Inr (mergeMatches ms))) groups"

record TextScan =
  tsAnalyses :: "DisclosureAnalysis list"
  tsMatches :: "ProtectedMatch list"
  tsReasonCharacters :: nat
  tsDisclosureIds :: nat

definition analyzeText :: "DisclosureAnalyzer \<Rightarrow> ProtectedDisclosure list \<Rightarrow> TextScan \<Rightarrow> string \<Rightarrow> TextScan validation" where
  "analyzeText analyze ds scan text =
     bindE (matchText TEXT_NOT_DETERMINISTIC ds text) (\<lambda>m.
     case analyze text ds of
       AnalyzerThrew \<Rightarrow> Inl (Refused ANALYZER_FAILED None)
     | NotAnAnalysis bounded \<Rightarrow>
         Inl (Refused (if bounded then ANALYZER_RESULT_INVALID else ANALYZER_RESULT_OUT_OF_BOUNDS) None)
     | Answered a \<Rightarrow>
         (let chars = tsReasonCharacters scan + length (daReason a);
              n = tsDisclosureIds scan + length (daEffectiveDisclosureIds a) in
          bindE (requireV (analyzerResultWithinBounds a) ANALYZER_RESULT_OUT_OF_BOUNDS) (\<lambda>_.
          bindE (requireV (DisclosureAnalysisSchema a) ANALYZER_RESULT_INVALID) (\<lambda>_.
          bindE (requireV (chars \<le> MAX_TOTAL_ANALYZER_REASON_CHARACTERS \<and> n \<le> MAX_TOTAL_ANALYZER_DISCLOSURE_IDS)
                   ANALYZER_RESULTS_OUT_OF_BOUNDS) (\<lambda>_.
          Inr \<lparr> tsAnalyses = tsAnalyses scan @ [a], tsMatches = tsMatches scan @ [m], tsReasonCharacters = chars,
                tsDisclosureIds = n \<rparr>)))))"

definition analyzeTexts :: "DisclosureAnalyzer \<Rightarrow> ProtectedDisclosure list \<Rightarrow> string list \<Rightarrow> TextScan validation" where
  "analyzeTexts analyze ds texts =
     foldE (analyzeText analyze ds) \<lparr> tsAnalyses = [], tsMatches = [], tsReasonCharacters = 0, tsDisclosureIds = 0 \<rparr> texts"

definition requireSafe :: "DisclosureAnalysis list \<Rightarrow> unit validation" where
  "requireSafe analyses =
     (case find (\<lambda>a. daStatus a = Disclosure_UNSAFE) analyses of
        Some a \<Rightarrow> Inl (Refused CONTENT_UNSAFE (Some a))
      | None \<Rightarrow>
          (case find (\<lambda>a. daStatus a \<noteq> Disclosure_SAFE \<or> daConfidence a < 1) analyses of
             Some a \<Rightarrow> Inl (Refused VALIDATION_UNCERTAIN (Some a))
           | None \<Rightarrow> Inr ()))"

definition knownIds :: "ProtectedDisclosure list \<Rightarrow> DisclosureId list \<Rightarrow> bool" where
  "knownIds ds ids = list_all (\<lambda>i. disclosureById ds i \<noteq> None) ids"

definition validateClaims :: "ProtectedDisclosure list \<Rightarrow> InterviewerProposal \<Rightarrow> DisclosureAnalysis list \<Rightarrow> unit validation" where
  "validateClaims ds p analyses =
     bindE (requireV (allDistinct (ipClaimedDisclosureIds p)) DUPLICATE_CLAIMS) (\<lambda>_.
     bindE (requireV (knownIds ds (ipClaimedDisclosureIds p)) UNKNOWN_CLAIM) (\<lambda>_.
     requireV (list_all (\<lambda>a. knownIds ds (daEffectiveDisclosureIds a)) analyses) UNKNOWN_ANALYZED_DISCLOSURE))"

section \<open>Attribution to the realizations\<close>

text \<open>The consecutive slices of a list, one for each length.\<close>

fun slices :: "nat list \<Rightarrow> 'a list \<Rightarrow> 'a list list" where
  "slices [] xs = []"
| "slices (n # ns) xs = take n xs # slices ns (drop n xs)"

definition orThrow :: "(unit, 'a) result \<Rightarrow> 'a validation" where
  "orThrow r = (case r of Inl _ \<Rightarrow> Inl Thrown | Inr x \<Rightarrow> Inr x)"

definition combineRealization ::
  "ProtectedDisclosure list \<Rightarrow> (DisclosureAnalysis list \<times> ProtectedMatch list) \<times> ProtectedMatch option
    \<Rightarrow> DisclosureAnalysis validation" where
  "combineRealization ds realization =
     (case realization of ((groupAnalyses, groupMatches), targetMatch) \<Rightarrow>
        (let emittedLevel = maxLevel (map pmLevel groupMatches) in
         orThrow (combineSafeAnalyses groupAnalyses
           (uniq (concat (map pmIds groupMatches) @ (case targetMatch of None \<Rightarrow> [] | Some m \<Rightarrow> pmIds m)))
           (case targetMatch of None \<Rightarrow> emittedLevel | Some m \<Rightarrow> if emittedLevel < pmLevel m then pmLevel m else emittedLevel)
           [] ds)))"

definition baseRealizations ::
  "ProtectedDisclosure list \<Rightarrow> InterviewerProposal \<Rightarrow> TextScan \<Rightarrow> ProtectedMatch list \<Rightarrow> DisclosureAnalysis list validation" where
  "baseRealizations ds p scan targetMatches =
     (let lengths = map length (realizationTexts p) in
      mapE (combineRealization ds)
        (zip (zip (slices lengths (tsAnalyses scan)) (slices lengths (tsMatches scan)))
           (map (\<lambda>_. None) (optionList (ipSpeechText p)) @ map Some targetMatches)))"

text \<open>A claimed id found in no realization counts for every one of them.\<close>

definition attributeClaims ::
  "ProtectedDisclosure list \<Rightarrow> InterviewerProposal \<Rightarrow> DisclosureAnalysis list \<Rightarrow> DisclosureAnalysis list validation" where
  "attributeClaims ds p base =
     (let localizedIds = concat (map daEffectiveDisclosureIds base);
          unlocalizedClaimedIds = filter (\<lambda>i. i \<notin> set localizedIds) (ipClaimedDisclosureIds p) in
      if unlocalizedClaimedIds = [] then Inr base
      else mapE (\<lambda>a. orThrow (combineSafeAnalyses [a] [] 0 unlocalizedClaimedIds ds)) base)"

section \<open>The authorization\<close>

definition requestedIds :: "RealizationRequest \<Rightarrow> DisclosureId list" where
  "requestedIds r = (case rrAllowedDisclosureIds r of None \<Rightarrow> [] | Some ids \<Rightarrow> ids)"

definition authorizedId ::
  "DisclosureAnalysis \<Rightarrow> RealizationRequest \<Rightarrow> ProtectedDisclosure list \<Rightarrow> DisclosureId \<Rightarrow> unit validation" where
  "authorizedId combined r ds i =
     (case disclosureById ds i of
        None \<Rightarrow> Inl (Refused UNKNOWN_AUTHORIZATION (Some combined))
      | Some d \<Rightarrow> requireWith combined (pdMinimumDisclosureLevel d \<le> rrMaximumDisclosure r) AUTHORIZATION_ABOVE_CEILING)"

definition validateAuthorization ::
  "DisclosureAnalysis \<Rightarrow> InterviewerProposal \<Rightarrow> RealizationRequest \<Rightarrow> ProtectedDisclosure list \<Rightarrow> unit validation" where
  "validateAuthorization combined p r ds =
     (let allowed = requestedIds r in
      bindE (requireWith combined (allDistinct allowed) DUPLICATE_AUTHORIZATION) (\<lambda>_.
      bindE (mapE (authorizedId combined r ds) allowed) (\<lambda>_.
      bindE (requireWith combined (daEffectiveDisclosureLevel combined \<le> rrMaximumDisclosure r) DISCLOSURE_ABOVE_CEILING) (\<lambda>_.
      bindE (requireWith combined (ipClaimedDisclosureLevel p \<le> rrMaximumDisclosure r) CLAIM_ABOVE_CEILING) (\<lambda>_.
      bindE (requireWith combined (daEffectiveDisclosureLevel combined \<le> ipClaimedDisclosureLevel p) CLAIM_UNDERSTATES) (\<lambda>_.
      requireWith combined (list_all (\<lambda>i. i \<in> set allowed) (daEffectiveDisclosureIds combined)) DISCLOSURE_NOT_AUTHORIZED))))))"

definition acceptRealizations ::
  "DisclosureAnalysis \<Rightarrow> InterviewerProposal \<Rightarrow> DisclosureAnalysis list \<Rightarrow> ProposalAcceptance validation" where
  "acceptRealizations combined p realizations =
     (let speech = (case (ipSpeechText p, realizations) of (Some _, a # _) \<Rightarrow> Some a | _ \<Rightarrow> None);
          board = drop (length (optionList (ipSpeechText p))) realizations in
      bindE (requireWith combined (\<not> (ipSpeechText p \<noteq> None \<and> speech = None) \<and> length board = length (proposedActions p))
               ATTRIBUTION_FAILED) (\<lambda>_.
      Inr \<lparr> acAnalysis = combined, acSpeech = speech, acBoardActions = board \<rparr>))"

definition combineAll ::
  "ProtectedDisclosure list \<Rightarrow> InterviewerProposal \<Rightarrow> TextScan \<Rightarrow> ProtectedMatch list \<Rightarrow> DisclosureAnalysis validation" where
  "combineAll ds p scan targetMatches =
     (case combineSafeAnalyses (tsAnalyses scan) (uniq (concat (map pmIds (targetMatches @ tsMatches scan))))
             (maxLevel (map pmLevel (targetMatches @ tsMatches scan))) (ipClaimedDisclosureIds p) ds of
        Inl _ \<Rightarrow> Inl (Refused ANALYSES_NOT_COMBINED None)
      | Inr a \<Rightarrow> Inr a)"

definition validateProposal ::
  "DisclosureAnalyzer \<Rightarrow> InterviewerProposal \<Rightarrow> RealizationRequest \<Rightarrow> ProtectedDisclosure list \<Rightarrow> BoardSceneContext option
    \<Rightarrow> ProposalAcceptance validation" where
  "validateProposal analyze p r ds scene =
     bindE (validateInput p r ds scene) (\<lambda>_.
     bindE (matchTargets ds (boardTargetTexts p scene)) (\<lambda>targetMatches.
     bindE (analyzeTexts analyze ds (concat (realizationTexts p))) (\<lambda>scan.
     bindE (requireSafe (tsAnalyses scan)) (\<lambda>_.
     bindE (validateClaims ds p (tsAnalyses scan)) (\<lambda>_.
     bindE (baseRealizations ds p scan targetMatches) (\<lambda>base.
     bindE (attributeClaims ds p base) (\<lambda>realizations.
     bindE (combineAll ds p scan targetMatches) (\<lambda>combined.
     bindE (validateAuthorization combined p r ds) (\<lambda>_.
     acceptRealizations combined p realizations)))))))))"

end
