(* ===== verification/ValidationFacts.thy ===== *)
theory ValidationFacts
  imports ProposalValidation
begin

text \<open>
  Facts on the validator: what each stage has established when it lets a proposal through, and
  that the stages outside a \<^verbatim>\<open>try\<close> cannot throw.
\<close>

section \<open>Lookups and combination\<close>

lemma disclosureById_Some: "disclosureById ds i = Some d \<Longrightarrow> d \<in> set ds \<and> pdId d = i"
  by (auto simp: disclosureById_def find_Some_iff)

lemma disclosureById_known [simp]: "(\<exists>d. disclosureById ds i = Some d) \<longleftrightarrow> i \<in> pdId ` set ds"
  by (induction ds) (auto simp: disclosureById_def)

lemma disclosureById_member:
  assumes "distinct (map pdId ds)" "d \<in> set ds"
  shows "disclosureById ds (pdId d) = Some d"
proof -
  obtain e where e: "disclosureById ds (pdId d) = Some e" using assms(2) disclosureById_known [of ds "pdId d"] by blast
  then show ?thesis using disclosureById_Some [OF e] assms by (metis distinct_map inj_onD)
qed

lemma knownIds_iff [simp]: "knownIds ds ids \<longleftrightarrow> set ids \<subseteq> pdId ` set ds"
  using disclosureById_known [of ds] by (auto simp: knownIds_def list_all_iff)

lemma metadata_floor:
  "foldE (\<lambda>level i. case disclosureById ds i of None \<Rightarrow> Inl () | Some d \<Rightarrow> Inr (max level (pdMinimumDisclosureLevel d))) m ids = Inr n
     \<longleftrightarrow> knownIds ds ids \<and> n = max m (maxLevel (map (\<lambda>i. pdMinimumDisclosureLevel (the (disclosureById ds i))) ids))"
proof (induction ids arbitrary: m)
  case (Cons i ids)
  show ?case
    using Cons.IH disclosureById_known [of ds i] by (cases "disclosureById ds i") (auto simp: max.assoc)
qed auto

lemma combine_Inr:
  "combineSafeAnalyses analyses ids level extra ds = Inr a \<longleftrightarrow>
     (let effectiveIds = uniq (ids @ concat (map daEffectiveDisclosureIds analyses) @ extra) in
      analyses \<noteq> [] \<and> knownIds ds effectiveIds
      \<and> a = \<lparr> daStatus = Disclosure_SAFE,
              daEffectiveDisclosureLevel =
                max (max level (maxLevel (map (\<lambda>i. pdMinimumDisclosureLevel (the (disclosureById ds i))) effectiveIds)))
                  (maxLevel (map daEffectiveDisclosureLevel analyses)),
              daEffectiveDisclosureIds = effectiveIds, daConfidence = minConfidence analyses,
              daReason = joinReasons (map daReason analyses) \<rparr>)"
  by (auto simp: combineSafeAnalyses_def bindE_eq_Inr metadata_floor Let_def simp del: knownIds_iff)

lemma combine_ids:
  assumes "combineSafeAnalyses analyses ids level extra ds = Inr a"
  shows "set (daEffectiveDisclosureIds a) = set ids \<union> (\<Union>b \<in> set analyses. set (daEffectiveDisclosureIds b)) \<union> set extra"
    and "set (daEffectiveDisclosureIds a) \<subseteq> pdId ` set ds"
    and "daStatus a = Disclosure_SAFE" "daConfidence a = minConfidence analyses"
  using assms by (simp_all add: combine_Inr Let_def Un_assoc)

lemma combine_level:
  assumes "combineSafeAnalyses analyses ids level extra ds = Inr a"
  shows "level \<le> daEffectiveDisclosureLevel a"
    and "b \<in> set analyses \<Longrightarrow> daEffectiveDisclosureLevel b \<le> daEffectiveDisclosureLevel a"
    and "i \<in> set (daEffectiveDisclosureIds a) \<Longrightarrow> disclosureById ds i = Some d \<Longrightarrow> pdMinimumDisclosureLevel d \<le> daEffectiveDisclosureLevel a"
proof -
  let ?f = "\<lambda>i. pdMinimumDisclosureLevel (the (disclosureById ds i))"
  have a: "daEffectiveDisclosureLevel a = max (max level (maxLevel (map ?f (daEffectiveDisclosureIds a))))
      (maxLevel (map daEffectiveDisclosureLevel analyses))"
    using assms by (simp add: combine_Inr Let_def)
  show "level \<le> daEffectiveDisclosureLevel a" unfolding a by simp
  show "b \<in> set analyses \<Longrightarrow> daEffectiveDisclosureLevel b \<le> daEffectiveDisclosureLevel a"
    unfolding a by (simp add: maxLevel_ge le_max_iff_disj)
  show "pdMinimumDisclosureLevel d \<le> daEffectiveDisclosureLevel a"
    if "i \<in> set (daEffectiveDisclosureIds a)" "disclosureById ds i = Some d"
  proof -
    have "?f i \<le> maxLevel (map ?f (daEffectiveDisclosureIds a))" using that(1) by (simp add: maxLevel_ge)
    then show ?thesis unfolding a using that(2) by (simp add: le_max_iff_disj)
  qed
qed

lemma combine_total:
  assumes "analyses \<noteq> []" "set ids \<union> (\<Union>b \<in> set analyses. set (daEffectiveDisclosureIds b)) \<union> set extra \<subseteq> pdId ` set ds"
  shows "\<exists>a. combineSafeAnalyses analyses ids level extra ds = Inr a"
  using assms by (auto simp: combine_Inr Let_def)

lemma mapE_not_Inl: "(\<And>x. x \<in> set xs \<Longrightarrow> f x \<noteq> Inl e) \<Longrightarrow> mapE f xs \<noteq> Inl e"
  by (induction xs) (auto simp: bindE_eq_Inl)

lemma foldE_not_Inl: "(\<And>s x. f s x \<noteq> Inl e) \<Longrightarrow> foldE f s xs \<noteq> Inl e"
  by (induction xs arbitrary: s) (auto simp: bindE_eq_Inl)

lemma orThrow_Inr [simp]: "orThrow r = Inr x \<longleftrightarrow> r = Inr x"
  by (simp add: orThrow_def split: sum.splits)

lemma orThrow_not_Inl: "\<exists>x. r = Inr x \<Longrightarrow> orThrow r \<noteq> Inl e"
  by (auto simp: orThrow_def)

section \<open>Matches\<close>

text \<open>The protected facts a list of texts mentions.\<close>

definition factsIn :: "ProtectedDisclosure list \<Rightarrow> string list \<Rightarrow> ProtectedDisclosure set" where
  "factsIn ds texts = {d \<in> set ds. \<exists>text \<in> set texts. mentions text d}"

lemma factsIn_append [simp]: "factsIn ds (xs @ ys) = factsIn ds xs \<union> factsIn ds ys"
  by (auto simp: factsIn_def)

definition matchOf :: "ProtectedDisclosure list \<Rightarrow> string list \<Rightarrow> ProtectedMatch \<Rightarrow> bool" where
  "matchOf ds texts m \<longleftrightarrow> set (pmIds m) = pdId ` factsIn ds texts \<and> (\<forall>d \<in> factsIn ds texts. pdMinimumDisclosureLevel d \<le> pmLevel m)"

lemma matchText_Inr: "matchText reason ds text = Inr m \<Longrightarrow> matchOf ds [text] m"
  by (auto simp: matchText_def matchOf_def factsIn_def deriveProtectedMatch_Inr maxLevel_ge split: sum.splits)

lemma matchText_Thrown [simp]: "matchText reason ds text \<noteq> Inl Thrown"
  by (auto simp: matchText_def split: sum.splits)

lemma mergeMatches_matchOf:
  assumes "list_all2 (\<lambda>text m. matchOf ds [text] m) texts ms"
  shows "matchOf ds texts (mergeMatches ms)"
  using assms
proof (induction rule: list_all2_induct)
  case Nil
  show ?case by (simp add: matchOf_def mergeMatches_def factsIn_def)
next
  case (Cons t texts m ms)
  have "factsIn ds (t # texts) = factsIn ds [t] \<union> factsIn ds texts" using factsIn_append [of ds "[t]" texts] by simp
  then show ?case using Cons by (auto simp: matchOf_def mergeMatches_def le_max_iff_disj)
qed

lemma matchTargets_Inr: "matchTargets ds groups = Inr ms \<Longrightarrow> list_all2 (matchOf ds) groups ms"
  unfolding matchTargets_def mapE_eq_Inr_list_all2
  by (erule list_all2_mono) (auto simp: bindE_eq_Inr mapE_eq_Inr_list_all2 elim!: list_all2_mono intro!: mergeMatches_matchOf matchText_Inr)

lemma matchTargets_Thrown [simp]: "matchTargets ds groups \<noteq> Inl Thrown"
  unfolding matchTargets_def by (rule mapE_not_Inl) (auto simp: bindE_eq_Inl mapE_not_Inl)

lemma analyzeText_Inr:
  assumes "analyzeText analyze ds scan text = Inr scan'"
  obtains a m where "analyze text ds = Answered a" "matchOf ds [text] m" "tsAnalyses scan' = tsAnalyses scan @ [a]"
    "tsMatches scan' = tsMatches scan @ [m]"
proof -
  obtain m where m: "matchText TEXT_NOT_DETERMINISTIC ds text = Inr m" using assms by (auto simp: analyzeText_def bindE_eq_Inr)
  obtain a where a: "analyze text ds = Answered a"
    using assms m by (cases "analyze text ds") (auto simp: analyzeText_def)
  show ?thesis
    using assms matchText_Inr [OF m] by (intro that [OF a]) (auto simp: analyzeText_def m a bindE_eq_Inr Let_def)
qed

lemma analyzeText_Thrown [simp]: "analyzeText analyze ds scan text \<noteq> Inl Thrown"
  by (auto simp: analyzeText_def bindE_eq_Inl Let_def split: AnalyzerAnswer.splits)

lemma analyze_fold:
  assumes "foldE (analyzeText analyze ds) scan texts = Inr scan'"
  shows "\<exists>as ms. tsAnalyses scan' = tsAnalyses scan @ as \<and> tsMatches scan' = tsMatches scan @ ms
    \<and> list_all2 (\<lambda>text a. analyze text ds = Answered a) texts as \<and> list_all2 (\<lambda>text m. matchOf ds [text] m) texts ms"
  using assms
proof (induction texts arbitrary: scan)
  case (Cons t texts)
  then obtain u where u: "analyzeText analyze ds scan t = Inr u" "foldE (analyzeText analyze ds) u texts = Inr scan'"
    by (auto simp: bindE_eq_Inr)
  obtain a m where am: "analyze t ds = Answered a" "matchOf ds [t] m" "tsAnalyses u = tsAnalyses scan @ [a]"
      "tsMatches u = tsMatches scan @ [m]" using u(1) by (rule analyzeText_Inr)
  obtain as ms where "tsAnalyses scan' = tsAnalyses u @ as" "tsMatches scan' = tsMatches u @ ms"
      "list_all2 (\<lambda>text a. analyze text ds = Answered a) texts as" "list_all2 (\<lambda>text m. matchOf ds [text] m) texts ms"
    using Cons.IH [OF u(2)] by blast
  then show ?case using am by (intro exI [of _ "a # as"] exI [of _ "m # ms"]) simp
qed simp

lemma analyzeTexts_Inr:
  assumes "analyzeTexts analyze ds texts = Inr scan"
  shows "list_all2 (\<lambda>text a. analyze text ds = Answered a) texts (tsAnalyses scan)"
    and "list_all2 (\<lambda>text m. matchOf ds [text] m) texts (tsMatches scan)"
  using analyze_fold [OF assms [unfolded analyzeTexts_def]] by auto

lemma analyzeTexts_Thrown [simp]: "analyzeTexts analyze ds texts \<noteq> Inl Thrown"
  unfolding analyzeTexts_def by (rule foldE_not_Inl) simp

section \<open>Slices\<close>

lemma slices_all2:
  "list_all2 R (concat gs) xs \<Longrightarrow> list_all2 (list_all2 R) gs (slices (map length gs) xs)"
proof (induction gs arbitrary: xs)
  case (Cons g gs)
  then obtain ys zs where xs: "xs = ys @ zs" "list_all2 R g ys" "list_all2 R (concat gs) zs"
    by (auto simp: list_all2_append1)
  moreover have "length g = length ys" using xs(2) by (rule list_all2_lengthD)
  ultimately show ?case using Cons.IH by simp
qed simp

lemma slices_length [simp]: "length (slices ns xs) = length ns"
  by (induction ns arbitrary: xs) auto

lemma slices_subset: "ys \<in> set (slices ns xs) \<Longrightarrow> set ys \<subseteq> set xs"
proof (induction ns arbitrary: xs)
  case (Cons n ns)
  then show ?case using set_take_subset [of n xs] set_drop_subset [of n xs] by fastforce
qed simp

end
