(* ===== verification/ValidationProperties.thy ===== *)
theory ValidationProperties
  imports ValidationFacts
begin

text \<open>
  What an accepted proposal promises: it discloses only what the request authorizes, each part of
  it is attributed the facts it discloses, and the validator answers rather than throws.
\<close>

section \<open>The stages of an acceptance\<close>

lemma accepted_stages:
  assumes "validateProposal analyze p r ds scene = Inr acc"
  obtains ms scan base rs where
    "validateInput p r ds scene = Inr ()" "list_all2 (matchOf ds) (boardTargetTexts p scene) ms"
    "list_all2 (\<lambda>t a. analyze t ds = Answered a) (concat (realizationTexts p)) (tsAnalyses scan)"
    "list_all2 (\<lambda>t m. matchOf ds [t] m) (concat (realizationTexts p)) (tsMatches scan)"
    "requireSafe (tsAnalyses scan) = Inr ()" "validateClaims ds p (tsAnalyses scan) = Inr ()"
    "baseRealizations ds p scan ms = Inr base" "attributeClaims ds p base = Inr rs"
    "combineAll ds p scan ms = Inr (acAnalysis acc)" "validateAuthorization (acAnalysis acc) p r ds = Inr ()"
    "acceptRealizations (acAnalysis acc) p rs = Inr acc"
proof -
  obtain ms scan base rs c where s: "validateInput p r ds scene = Inr ()"
      "matchTargets ds (boardTargetTexts p scene) = Inr ms" "analyzeTexts analyze ds (concat (realizationTexts p)) = Inr scan"
      "requireSafe (tsAnalyses scan) = Inr ()" "validateClaims ds p (tsAnalyses scan) = Inr ()"
      "baseRealizations ds p scan ms = Inr base" "attributeClaims ds p base = Inr rs" "combineAll ds p scan ms = Inr c"
      "validateAuthorization c p r ds = Inr ()" "acceptRealizations c p rs = Inr acc"
    using assms by (auto simp: validateProposal_def bindE_eq_Inr)
  moreover from s(10) have "c = acAnalysis acc" by (auto simp: acceptRealizations_def bindE_eq_Inr Let_def)
  ultimately show ?thesis using analyzeTexts_Inr [OF s(3)] matchTargets_Inr [OF s(2)] by (intro that) simp_all
qed

lemma input_Inr:
  assumes "validateInput p r ds scene = Inr ()"
  shows "ipRealizedAction p = rrRequiredAction r" "distinct (map pdId ds)" "concat (realizationTexts p) \<noteq> []"
    "protectedMetadataWithinBounds ds"
  using assms by (auto simp: validateInput_def bindE_eq_Inr Let_def)

lemma matchOf_all2:
  "list_all2 (matchOf ds) groups ms \<Longrightarrow> d \<in> factsIn ds (concat groups)
     \<Longrightarrow> pdId d \<in> (\<Union>m \<in> set ms. set (pmIds m)) \<and> pdMinimumDisclosureLevel d \<le> maxLevel (map pmLevel ms)"
  by (induction rule: list_all2_induct) (auto simp: matchOf_def factsIn_def le_max_iff_disj)

lemma textMatches_all2:
  "list_all2 (\<lambda>t m. matchOf ds [t] m) texts ms \<Longrightarrow> list_all2 (matchOf ds) (map (\<lambda>t. [t]) texts) ms"
  by (simp add: list_all2_map1)

lemma combined_covers:
  assumes "combineAll ds p scan ms = Inr c" "list_all2 (matchOf ds) groups ms"
      "list_all2 (\<lambda>t m. matchOf ds [t] m) texts (tsMatches scan)"
  shows "d \<in> factsIn ds (texts @ concat groups) \<Longrightarrow> pdId d \<in> set (daEffectiveDisclosureIds c) \<and> pdMinimumDisclosureLevel d \<le> daEffectiveDisclosureLevel c"
    and "m \<in> set (ms @ tsMatches scan) \<Longrightarrow> set (pmIds m) \<subseteq> set (daEffectiveDisclosureIds c) \<and> pmLevel m \<le> daEffectiveDisclosureLevel c"
    and "a \<in> set (tsAnalyses scan) \<Longrightarrow> set (daEffectiveDisclosureIds a) \<subseteq> set (daEffectiveDisclosureIds c)
           \<and> daEffectiveDisclosureLevel a \<le> daEffectiveDisclosureLevel c"
    and "set (ipClaimedDisclosureIds p) \<subseteq> set (daEffectiveDisclosureIds c)"
proof -
  have c: "combineSafeAnalyses (tsAnalyses scan) (uniq (concat (map pmIds (ms @ tsMatches scan))))
      (maxLevel (map pmLevel (ms @ tsMatches scan))) (ipClaimedDisclosureIds p) ds = Inr c"
    using assms(1) by (simp add: combineAll_def split: sum.splits)
  note i = combine_ids(1) [OF c] and l = combine_level [OF c]
  have ml: "pmLevel m \<le> daEffectiveDisclosureLevel c" if "m \<in> set (ms @ tsMatches scan)" for m
    using l(1) maxLevel_ge [of "pmLevel m" "map pmLevel (ms @ tsMatches scan)"] that by fastforce
  show "m \<in> set (ms @ tsMatches scan) \<Longrightarrow> set (pmIds m) \<subseteq> set (daEffectiveDisclosureIds c) \<and> pmLevel m \<le> daEffectiveDisclosureLevel c"
    using i ml by auto
  show "a \<in> set (tsAnalyses scan) \<Longrightarrow> set (daEffectiveDisclosureIds a) \<subseteq> set (daEffectiveDisclosureIds c)
      \<and> daEffectiveDisclosureLevel a \<le> daEffectiveDisclosureLevel c"
    using i l(2) by auto
  show "set (ipClaimedDisclosureIds p) \<subseteq> set (daEffectiveDisclosureIds c)" using i by auto
  show "pdId d \<in> set (daEffectiveDisclosureIds c) \<and> pdMinimumDisclosureLevel d \<le> daEffectiveDisclosureLevel c"
    if "d \<in> factsIn ds (texts @ concat groups)"
  proof -
    have "list_all2 (matchOf ds) (groups @ map (\<lambda>t. [t]) texts) (ms @ tsMatches scan)"
      using assms(2) textMatches_all2 [OF assms(3)] by (rule list_all2_appendI)
    moreover have "d \<in> factsIn ds (concat (groups @ map (\<lambda>t. [t]) texts))" using that by (auto simp: factsIn_def)
    ultimately have "pdId d \<in> (\<Union>m \<in> set (ms @ tsMatches scan). set (pmIds m))
        \<and> pdMinimumDisclosureLevel d \<le> maxLevel (map pmLevel (ms @ tsMatches scan))" by (rule matchOf_all2)
    then show ?thesis using i l(1) by auto
  qed
qed

lemma authorization_Inr:
  assumes "validateAuthorization c p r ds = Inr ()"
  shows "set (daEffectiveDisclosureIds c) \<subseteq> set (requestedIds r)" "daEffectiveDisclosureLevel c \<le> ipClaimedDisclosureLevel p"
    "ipClaimedDisclosureLevel p \<le> rrMaximumDisclosure r" "distinct (requestedIds r)"
    "\<And>i. i \<in> set (requestedIds r) \<Longrightarrow> \<exists>d \<in> set ds. pdId d = i \<and> pdMinimumDisclosureLevel d \<le> rrMaximumDisclosure r"
proof -
  obtain us where us: "mapE (authorizedId c r ds) (requestedIds r) = Inr us"
    using assms by (auto simp: validateAuthorization_def bindE_eq_Inr Let_def)
  show "\<exists>d \<in> set ds. pdId d = i \<and> pdMinimumDisclosureLevel d \<le> rrMaximumDisclosure r" if i: "i \<in> set (requestedIds r)" for i
  proof -
    obtain u where "authorizedId c r ds i = Inr u"
      using us list_all2_member [OF _ i] by (auto simp: mapE_eq_Inr_list_all2)
    then show ?thesis using disclosureById_Some [of ds i] by (auto simp: authorizedId_def split: option.splits)
  qed
qed (use assms in \<open>simp_all add: validateAuthorization_def bindE_eq_Inr Let_def list_all_iff subset_iff\<close>)

section \<open>Attribution\<close>

definition coversFacts :: "ProtectedDisclosure list \<Rightarrow> string list \<Rightarrow> DisclosureAnalysis \<Rightarrow> bool" where
  "coversFacts ds texts a \<longleftrightarrow>
     (\<forall>d \<in> factsIn ds texts. pdId d \<in> set (daEffectiveDisclosureIds a) \<and> pdMinimumDisclosureLevel d \<le> daEffectiveDisclosureLevel a)"

definition withinAnalysis :: "DisclosureAnalysis \<Rightarrow> DisclosureAnalysis \<Rightarrow> bool" where
  "withinAnalysis c a \<longleftrightarrow> daStatus a = Disclosure_SAFE \<and> set (daEffectiveDisclosureIds a) \<subseteq> set (daEffectiveDisclosureIds c)
     \<and> daEffectiveDisclosureLevel a \<le> daEffectiveDisclosureLevel c"

lemma combine_within:
  assumes c: "combineSafeAnalyses cs cids cl cx ds = Inr c" and a: "combineSafeAnalyses analyses ids level extra ds = Inr a"
    and sub: "set ids \<union> set extra \<subseteq> set (daEffectiveDisclosureIds c)" "level \<le> daEffectiveDisclosureLevel c"
    and parts: "\<And>b. b \<in> set analyses \<Longrightarrow> set (daEffectiveDisclosureIds b) \<subseteq> set (daEffectiveDisclosureIds c)
                   \<and> daEffectiveDisclosureLevel b \<le> daEffectiveDisclosureLevel c"
  shows "withinAnalysis c a"
proof -
  have ids: "set (daEffectiveDisclosureIds a) \<subseteq> set (daEffectiveDisclosureIds c)" using combine_ids(1) [OF a] sub(1) parts by auto
  have "pdMinimumDisclosureLevel (the (disclosureById ds i)) \<le> daEffectiveDisclosureLevel c"
    if i: "i \<in> set (daEffectiveDisclosureIds a)" for i
  proof -
    have "i \<in> pdId ` set ds" using combine_ids(2) [OF a] i by blast
    then obtain d where "disclosureById ds i = Some d" using disclosureById_known [of ds i] by blast
    then show ?thesis using combine_level(3) [OF c, of i d] ids i by auto
  qed
  moreover have "daEffectiveDisclosureLevel a = max (max level (maxLevel (map (\<lambda>i. pdMinimumDisclosureLevel (the (disclosureById ds i)))
      (daEffectiveDisclosureIds a)))) (maxLevel (map daEffectiveDisclosureLevel analyses))"
    using a by (simp add: combine_Inr Let_def)
  ultimately have "daEffectiveDisclosureLevel a \<le> daEffectiveDisclosureLevel c" using sub(2) parts by (simp add: maxLevel_le)
  then show ?thesis using ids combine_ids(3) [OF a] by (simp add: withinAnalysis_def)
qed

text \<open>The texts each realization answers for: what it emits, and what its board action points at.\<close>

definition answeredTexts :: "InterviewerProposal \<Rightarrow> BoardSceneContext option \<Rightarrow> string list list" where
  "answeredTexts p scene = map (\<lambda>s. [s]) (optionList (ipSpeechText p))
     @ map (\<lambda>a. actionTexts a @ boardTargetDisclosureTexts a scene) (proposedActions p)"

lemma answeredTexts_zip:
  "answeredTexts p scene = map2 (@) (realizationTexts p) (map (\<lambda>_. []) (optionList (ipSpeechText p)) @ boardTargetTexts p scene)"
proof -
  have "map2 (@) (map actionTexts as) (map (\<lambda>a. boardTargetDisclosureTexts a scene) as)
      = map (\<lambda>a. actionTexts a @ boardTargetDisclosureTexts a scene) as" for as
    by (induction as) simp_all
  then show ?thesis by (cases "ipSpeechText p") (simp_all add: answeredTexts_def realizationTexts_def boardTargetTexts_def optionList_def)
qed

text \<open>One realization: its analyses, its matches and the match of what it points at.\<close>

lemma combineRealization_Inr:
  assumes r: "combineRealization ds ((as, ms), tm) = Inr a" and c: "combineSafeAnalyses cs cids cl cx ds = Inr c"
    and d: "distinct (map pdId ds)" and ms: "list_all2 (\<lambda>t m. matchOf ds [t] m) texts ms"
    and tm: "case tm of None \<Rightarrow> targets = [] | Some m \<Rightarrow> matchOf ds targets m"
    and within: "\<And>b. b \<in> set as \<Longrightarrow> set (daEffectiveDisclosureIds b) \<subseteq> set (daEffectiveDisclosureIds c)
                    \<and> daEffectiveDisclosureLevel b \<le> daEffectiveDisclosureLevel c"
      "\<And>m. m \<in> set (ms @ optionList tm) \<Longrightarrow> set (pmIds m) \<subseteq> set (daEffectiveDisclosureIds c) \<and> pmLevel m \<le> daEffectiveDisclosureLevel c"
  shows "coversFacts ds (texts @ targets) a \<and> withinAnalysis c a"
proof -
  let ?ids = "uniq (concat (map pmIds ms) @ concat (map pmIds (optionList tm)))"
    and ?level = "maxLevel (map pmLevel (ms @ optionList tm))"
  have comb: "combineSafeAnalyses as ?ids ?level [] ds = Inr a"
    using r by (auto simp: combineRealization_def orThrow_def optionList_def Let_def max_def split: sum.splits option.splits if_splits)
  have "withinAnalysis c a" by (rule combine_within [OF c comb]) (use within in \<open>auto simp: maxLevel_le\<close>)
  moreover have "pdId f \<in> set (daEffectiveDisclosureIds a)" if f: "f \<in> factsIn ds (texts @ targets)" for f
  proof -
    have "matchOf ds targets m" if "tm = Some m" for m using tm that by simp
    moreover have "factsIn ds targets = {}" if "tm = None" using tm that by (simp add: factsIn_def)
    moreover have "pdId f \<in> (\<Union>m \<in> set ms. set (pmIds m))" if "f \<in> factsIn ds texts"
      using matchOf_all2 [OF textMatches_all2 [OF ms], of f] that by (simp add: concat_map_singleton)
    ultimately have "pdId f \<in> set ?ids" using f by (cases tm) (auto simp: optionList_def matchOf_def)
    then show ?thesis using combine_ids(1) [OF comb] by blast
  qed
  moreover have "pdMinimumDisclosureLevel f \<le> daEffectiveDisclosureLevel a"
    if "f \<in> factsIn ds (texts @ targets)" "pdId f \<in> set (daEffectiveDisclosureIds a)" for f
    using combine_level(3) [OF comb that(2) disclosureById_member [OF d]] that(1) by (simp add: factsIn_def)
  ultimately show ?thesis unfolding coversFacts_def by blast
qed

text \<open>All realizations, before and after the claims that were found nowhere are added.\<close>

lemma baseRealizations_Inr:
  assumes base: "baseRealizations ds p scan ms = Inr base" and c: "combineAll ds p scan ms = Inr c"
    and d: "distinct (map pdId ds)" and targets: "list_all2 (matchOf ds) (boardTargetTexts p scene) ms"
    and texts: "list_all2 (\<lambda>t a. analyze t ds = Answered a) (concat (realizationTexts p)) (tsAnalyses scan)"
      "list_all2 (\<lambda>t m. matchOf ds [t] m) (concat (realizationTexts p)) (tsMatches scan)"
  shows "list_all2 (\<lambda>ts a. coversFacts ds ts a \<and> withinAnalysis c a) (answeredTexts p scene) base"
proof -
  let ?lengths = "map length (realizationTexts p)" and ?speech = "optionList (ipSpeechText p)"
  let ?as = "slices ?lengths (tsAnalyses scan)" and ?ms = "slices ?lengths (tsMatches scan)"
    and ?tms = "map (\<lambda>_. None) ?speech @ map Some ms" and ?targets = "map (\<lambda>_. []) ?speech @ boardTargetTexts p scene"
  note within = combined_covers(2,3) [OF c targets texts(2)]
  obtain cids cl cx where comb: "combineSafeAnalyses (tsAnalyses scan) cids cl cx ds = Inr c"
    using c by (auto simp: combineAll_def split: sum.splits)
  have n: "length ?tms = length (realizationTexts p)" "length ?targets = length (realizationTexts p)"
    using list_all2_lengthD [OF targets] by (simp_all add: realizationTexts_def boardTargetTexts_def)
  have match: "list_all2 (list_all2 (\<lambda>t m. matchOf ds [t] m)) (realizationTexts p) ?ms" using texts(2) by (rule slices_all2)
  have tm: "list_all2 (\<lambda>ts tm. case tm of None \<Rightarrow> ts = [] | Some m \<Rightarrow> matchOf ds ts m) ?targets ?tms"
    using targets by (intro list_all2_appendI) (simp_all add: list_all2_map1 list_all2_map2 list.rel_refl)
  have "list_all2 (\<lambda>x a. combineRealization ds x = Inr a) (zip (zip ?as ?ms) ?tms) base"
    using base by (simp add: baseRealizations_def Let_def mapE_eq_Inr_list_all2)
  then have b: "length base = length (realizationTexts p)"
      "\<And>i. i < length (realizationTexts p) \<Longrightarrow> combineRealization ds ((?as ! i, ?ms ! i), ?tms ! i) = Inr (base ! i)"
    using n by (simp_all add: list_all2_conv_all_nth)
  show ?thesis
    unfolding answeredTexts_zip
  proof (rule list_all2_all_nthI)
    show "length (map2 (@) (realizationTexts p) ?targets) = length base" using n b by simp
    fix i assume "i < length (map2 (@) (realizationTexts p) ?targets)"
    then have i: "i < length (realizationTexts p)" using n by simp
    have "coversFacts ds (realizationTexts p ! i @ ?targets ! i) (base ! i) \<and> withinAnalysis c (base ! i)"
    proof (rule combineRealization_Inr [OF b(2) [OF i] comb d])
      show "list_all2 (\<lambda>t m. matchOf ds [t] m) (realizationTexts p ! i) (?ms ! i)" using list_all2_nthD [OF match i] .
      show "case ?tms ! i of None \<Rightarrow> ?targets ! i = [] | Some m \<Rightarrow> matchOf ds (?targets ! i) m"
        using list_all2_nthD [OF tm, of i] i n by simp
      have "set (?as ! i) \<subseteq> set (tsAnalyses scan)" by (rule slices_subset [of _ ?lengths]) (use i in \<open>simp add: nth_mem\<close>)
      then show "set (daEffectiveDisclosureIds x) \<subseteq> set (daEffectiveDisclosureIds c) \<and> daEffectiveDisclosureLevel x \<le> daEffectiveDisclosureLevel c"
        if "x \<in> set (?as ! i)" for x using within(2) that by blast
      have "set (?ms ! i) \<subseteq> set (tsMatches scan)" by (rule slices_subset [of _ ?lengths]) (use i in \<open>simp add: nth_mem\<close>)
      moreover have "set (optionList (?tms ! i)) \<subseteq> set ms" using nth_mem [of i ?tms] i n by (auto simp: optionList_def)
      ultimately show "set (pmIds m) \<subseteq> set (daEffectiveDisclosureIds c) \<and> pmLevel m \<le> daEffectiveDisclosureLevel c"
        if "m \<in> set (?ms ! i @ optionList (?tms ! i))" for m using within(1) [of m] that by auto
    qed
    then show "coversFacts ds (map2 (@) (realizationTexts p) ?targets ! i) (base ! i) \<and> withinAnalysis c (base ! i)" using i n by simp
  qed
qed

lemma attributeClaims_Inr:
  assumes rs: "attributeClaims ds p base = Inr rs" and c: "combineSafeAnalyses cs cids cl cx ds = Inr c"
    and claims: "set (ipClaimedDisclosureIds p) \<subseteq> set (daEffectiveDisclosureIds c)" and d: "distinct (map pdId ds)"
    and base: "list_all2 (\<lambda>ts a. coversFacts ds ts a \<and> withinAnalysis c a) groups base"
  shows "list_all2 (\<lambda>ts a. coversFacts ds ts a \<and> withinAnalysis c a) groups rs"
    and "base \<noteq> [] \<Longrightarrow> set (ipClaimedDisclosureIds p) \<subseteq> (\<Union>a \<in> set rs. set (daEffectiveDisclosureIds a))"
proof -
  let ?u = "filter (\<lambda>i. i \<notin> set (concat (map daEffectiveDisclosureIds base))) (ipClaimedDisclosureIds p)"
  have keep: "coversFacts ds ts b \<and> withinAnalysis c b \<and> set (daEffectiveDisclosureIds b) = set (daEffectiveDisclosureIds a) \<union> set ?u"
    if a: "coversFacts ds ts a \<and> withinAnalysis c a" and b: "combineSafeAnalyses [a] [] 0 ?u ds = Inr b" for ts a b
  proof -
    have "withinAnalysis c b" by (rule combine_within [OF c b]) (use a claims in \<open>auto simp: withinAnalysis_def\<close>)
    then show ?thesis
      using a combine_ids(1) [OF b] combine_level(2) [OF b, of a] by (auto simp: coversFacts_def intro: order_trans)
  qed
  consider (none) "?u = []" "rs = base"
    | (some) "?u \<noteq> []" "list_all2 (\<lambda>a b. combineSafeAnalyses [a] [] 0 ?u ds = Inr b) base rs"
    using rs by (auto simp: attributeClaims_def Let_def mapE_eq_Inr_list_all2 split: if_splits)
  note cases = this
  show "list_all2 (\<lambda>ts a. coversFacts ds ts a \<and> withinAnalysis c a) groups rs"
    using cases
  proof cases
    case some
    show ?thesis by (rule list_all2_trans [OF _ base some(2)]) (use keep in blast)
  qed (use base in simp)
  show "set (ipClaimedDisclosureIds p) \<subseteq> (\<Union>a \<in> set rs. set (daEffectiveDisclosureIds a))" if "base \<noteq> []"
    using cases
  proof cases
    case none
    then show ?thesis by (auto simp: filter_empty_conv)
  next
    case some
    have "\<exists>b \<in> set rs. set (daEffectiveDisclosureIds b) = set (daEffectiveDisclosureIds a) \<union> set ?u" if a: "a \<in> set base" for a
    proof -
      obtain b where b: "b \<in> set rs" "combineSafeAnalyses [a] [] 0 ?u ds = Inr b" using list_all2_member [OF some(2) a] by blast
      have "set (daEffectiveDisclosureIds b) = set (daEffectiveDisclosureIds a) \<union> set ?u" using combine_ids(1) [OF b(2)] by simp
      with b(1) show ?thesis by blast
    qed
    then have sub: "(\<Union>a \<in> set base. set (daEffectiveDisclosureIds a) \<union> set ?u) \<subseteq> (\<Union>a \<in> set rs. set (daEffectiveDisclosureIds a))"
      by (intro UN_least) (metis UN_upper)
    obtain a where "a \<in> set base" using \<open>base \<noteq> []\<close> by (cases base) auto
    then have "set (ipClaimedDisclosureIds p) \<subseteq> (\<Union>a \<in> set base. set (daEffectiveDisclosureIds a) \<union> set ?u)" by auto
    then show ?thesis using sub by (rule subset_trans)
  qed
qed

section \<open>Nothing throws\<close>

lemma combineRealization_total:
  assumes "analyses \<noteq> []" "\<And>a. a \<in> set analyses \<Longrightarrow> set (daEffectiveDisclosureIds a) \<subseteq> pdId ` set ds"
    "\<And>m. m \<in> set (ms @ optionList tm) \<Longrightarrow> set (pmIds m) \<subseteq> pdId ` set ds"
  shows "combineRealization ds ((analyses, ms), tm) \<noteq> Inl Thrown"
proof -
  have "(\<Union>m \<in> set (ms @ optionList tm). set (pmIds m)) \<union> (\<Union>a \<in> set analyses. set (daEffectiveDisclosureIds a)) \<subseteq> pdId ` set ds"
    using assms(2,3) by blast
  then show ?thesis
    unfolding combineRealization_def prod.case Let_def
    by (intro orThrow_not_Inl combine_total) (use assms(1) in \<open>auto simp: optionList_def split: option.splits\<close>)
qed

lemma baseRealizations_Thrown:
  assumes claims: "validateClaims ds p (tsAnalyses scan) = Inr ()" and targets: "list_all2 (matchOf ds) (boardTargetTexts p scene) ms"
    and texts: "list_all2 (\<lambda>t a. analyze t ds = Answered a) (concat (realizationTexts p)) (tsAnalyses scan)"
      "list_all2 (\<lambda>t m. matchOf ds [t] m) (concat (realizationTexts p)) (tsMatches scan)"
  shows "baseRealizations ds p scan ms \<noteq> Inl Thrown"
  unfolding baseRealizations_def Let_def
proof (rule mapE_not_Inl)
  let ?lengths = "map length (realizationTexts p)"
  let ?as = "slices ?lengths (tsAnalyses scan)" and ?ms = "slices ?lengths (tsMatches scan)"
    and ?tms = "map (\<lambda>_. None) (optionList (ipSpeechText p)) @ map Some ms"
  fix x assume z: "x \<in> set (zip (zip ?as ?ms) ?tms)"
  obtain as mm tm where e: "x = ((as, mm), tm)" by (cases x) auto
  have "(as, mm) \<in> set (zip ?as ?ms)" "tm \<in> set ?tms" using z unfolding e by (blast dest: set_zip_leftD set_zip_rightD)+
  then have x: "x = ((as, mm), tm)" "as \<in> set ?as" "mm \<in> set ?ms" "tm \<in> set ?tms"
    using e by (blast dest: set_zip_leftD set_zip_rightD)+
  have known: "set (pmIds m) \<subseteq> pdId ` set ds" if "matchOf ds t m" for t m using that by (auto simp: matchOf_def factsIn_def)
  have scanKnown: "set (pmIds m) \<subseteq> pdId ` set ds" if "m \<in> set (tsMatches scan) \<union> set ms" for m
    using that list_all2_member [OF list_all2_flip [OF texts(2)], of m] list_all2_member [OF list_all2_flip [OF targets], of m] known
    by blast
  have "as \<noteq> []"
  proof -
    obtain g where "g \<in> set (realizationTexts p)" "list_all2 (\<lambda>t a. analyze t ds = Answered a) g as"
      using list_all2_member [OF list_all2_flip [OF slices_all2 [OF texts(1)]] x(2)] by auto
    then show ?thesis by (auto simp: realizationTexts_def actionTexts_def)
  qed
  moreover have "set (daEffectiveDisclosureIds a) \<subseteq> pdId ` set ds" if "a \<in> set as" for a
    using claims slices_subset [OF x(2)] that by (auto simp: validateClaims_def bindE_eq_Inr list_all_iff)
  moreover have "set (pmIds m) \<subseteq> pdId ` set ds" if "m \<in> set (mm @ optionList tm)" for m
    using scanKnown [of m] slices_subset [OF x(3)] x(4) that by (auto simp: optionList_def split: option.splits)
  ultimately show "combineRealization ds x \<noteq> Inl Thrown" unfolding x(1) by (rule combineRealization_total)
qed

lemma attributeClaims_Thrown:
  assumes "validateClaims ds p analyses = Inr ()" "baseRealizations ds p scan ms = Inr base"
  shows "attributeClaims ds p base \<noteq> Inl Thrown"
proof -
  have "set (daEffectiveDisclosureIds a) \<subseteq> pdId ` set ds" if a: "a \<in> set base" for a
  proof -
    obtain x where "combineRealization ds x = Inr a"
      using assms(2) list_all2_member [OF list_all2_flip a] by (fastforce simp: baseRealizations_def Let_def mapE_eq_Inr_list_all2)
    then show ?thesis using combine_ids(2) by (auto simp: combineRealization_def Let_def split: prod.splits)
  qed
  moreover have "set (ipClaimedDisclosureIds p) \<subseteq> pdId ` set ds" using assms(1) by (auto simp: validateClaims_def bindE_eq_Inr)
  ultimately have "\<exists>b. combineSafeAnalyses [a] [] 0 (filter P (ipClaimedDisclosureIds p)) ds = Inr b" if "a \<in> set base" for a P
    using that by (intro combine_total) auto
  then show ?thesis by (simp add: attributeClaims_def Let_def mapE_not_Inl orThrow_not_Inl)
qed

lemma laterStages_Thrown [simp]:
  "validateInput p r ds scene \<noteq> Inl Thrown" "requireSafe analyses \<noteq> Inl Thrown" "validateClaims ds p analyses \<noteq> Inl Thrown"
  "combineAll ds p scan ms \<noteq> Inl Thrown" "validateAuthorization c p r ds \<noteq> Inl Thrown" "acceptRealizations c p rs \<noteq> Inl Thrown"
  by (auto simp: validateInput_def requireSafe_def validateClaims_def combineAll_def validateAuthorization_def acceptRealizations_def
      authorizedId_def bindE_eq_Inl Let_def split: option.splits sum.splits intro!: mapE_not_Inl)

lemma acceptRealizations_Inr:
  assumes "acceptRealizations c p rs = Inr acc" "length rs = length (optionList (ipSpeechText p)) + length (proposedActions p)"
  shows "optionList (acSpeech acc) @ acBoardActions acc = rs" "acSpeech acc = None \<longleftrightarrow> ipSpeechText p = None"
    "length (acBoardActions acc) = length (proposedActions p)"
  using assms
  by (cases "ipSpeechText p"; cases rs; fastforce simp: acceptRealizations_def bindE_eq_Inr Let_def optionList_def)+

lemma accepted_analysis:
  assumes "validateProposal analyze p r ds scene = Inr acc"
  shows "d \<in> factsIn ds (concat (realizationTexts p) @ concat (boardTargetTexts p scene)) \<Longrightarrow>
      pdId d \<in> set (daEffectiveDisclosureIds (acAnalysis acc)) \<and> pdMinimumDisclosureLevel d \<le> daEffectiveDisclosureLevel (acAnalysis acc)"
    and "set (daEffectiveDisclosureIds (acAnalysis acc)) \<subseteq> set (requestedIds r)"
    and "daEffectiveDisclosureLevel (acAnalysis acc) \<le> ipClaimedDisclosureLevel p" "ipClaimedDisclosureLevel p \<le> rrMaximumDisclosure r"
    and "ipRealizedAction p = rrRequiredAction r"
    and "t \<in> set (concat (realizationTexts p)) \<Longrightarrow> \<exists>a. analyze t ds = Answered a \<and> daStatus a = Disclosure_SAFE"
proof -
  obtain ms scan where s: "validateInput p r ds scene = Inr ()" "list_all2 (matchOf ds) (boardTargetTexts p scene) ms"
      "list_all2 (\<lambda>t a. analyze t ds = Answered a) (concat (realizationTexts p)) (tsAnalyses scan)"
      "list_all2 (\<lambda>t m. matchOf ds [t] m) (concat (realizationTexts p)) (tsMatches scan)" "requireSafe (tsAnalyses scan) = Inr ()"
      "combineAll ds p scan ms = Inr (acAnalysis acc)" "validateAuthorization (acAnalysis acc) p r ds = Inr ()"
    using accepted_stages [OF assms] by metis
  show "d \<in> factsIn ds (concat (realizationTexts p) @ concat (boardTargetTexts p scene)) \<Longrightarrow>
      pdId d \<in> set (daEffectiveDisclosureIds (acAnalysis acc)) \<and> pdMinimumDisclosureLevel d \<le> daEffectiveDisclosureLevel (acAnalysis acc)"
    by (rule combined_covers(1) [OF s(6,2,4)])
  show "set (daEffectiveDisclosureIds (acAnalysis acc)) \<subseteq> set (requestedIds r)"
      "daEffectiveDisclosureLevel (acAnalysis acc) \<le> ipClaimedDisclosureLevel p" "ipClaimedDisclosureLevel p \<le> rrMaximumDisclosure r"
    by (rule authorization_Inr [OF s(7)])+
  show "ipRealizedAction p = rrRequiredAction r" by (rule input_Inr(1) [OF s(1)])
  show "\<exists>a. analyze t ds = Answered a \<and> daStatus a = Disclosure_SAFE" if t: "t \<in> set (concat (realizationTexts p))"
  proof -
    obtain a where a: "a \<in> set (tsAnalyses scan)" "analyze t ds = Answered a" using list_all2_member [OF s(3) t] by blast
    have "find (\<lambda>a. daStatus a \<noteq> Disclosure_SAFE \<or> daConfidence a < 1) (tsAnalyses scan) = None"
      using s(5) by (simp add: requireSafe_def split: option.splits)
    then show ?thesis using a by (auto simp: find_None_iff)
  qed
qed

section \<open>What acceptance promises\<close>

text \<open>
Property C8. A proposal that is accepted realizes the action the policy required, and every protected fact
  that occurs in a text it emits, or in a text of a board shape it points at, is allowed by the
  request, is within the level the request allows, and is not understated by the level the model
  claimed. The analyzer is arbitrary.
\<close>

theorem accepted_proposals_disclose_only_what_is_authorized:
  assumes "validateProposal analyze p r ds scene = Inr acc"
    and "t \<in> set (concat (realizationTexts p) @ concat (boardTargetTexts p scene))" "d \<in> set ds" "mentions t d"
  shows "ipRealizedAction p = rrRequiredAction r \<and> pdId d \<in> set (requestedIds r)
    \<and> pdMinimumDisclosureLevel d \<le> ipClaimedDisclosureLevel p \<and> ipClaimedDisclosureLevel p \<le> rrMaximumDisclosure r"
proof -
  have "d \<in> factsIn ds (concat (realizationTexts p) @ concat (boardTargetTexts p scene))"
    using assms(2-4) unfolding factsIn_def by blast
  then show ?thesis using accepted_analysis [OF assms(1)] by (meson order_trans subsetD)
qed

text \<open>
Property C9. The parts of an accepted proposal are attributed what they disclose: the speech and each board
  action has an analysis of its own, which covers every protected fact in the texts of that part
  and of the shapes it points at, stays within the allowed facts and the allowed level, and every
  fact the model claimed is charged to some part.
\<close>

theorem accepted_parts_are_attributed:
  assumes "validateProposal analyze p r ds scene = Inr acc"
  shows "list_all2 (coversFacts ds) (answeredTexts p scene) (optionList (acSpeech acc) @ acBoardActions acc)
    \<and> (acSpeech acc = None \<longleftrightarrow> ipSpeechText p = None) \<and> length (acBoardActions acc) = length (proposedActions p)
    \<and> (\<forall>a \<in> set (optionList (acSpeech acc) @ acBoardActions acc). daStatus a = Disclosure_SAFE
         \<and> set (daEffectiveDisclosureIds a) \<subseteq> set (requestedIds r) \<and> daEffectiveDisclosureLevel a \<le> rrMaximumDisclosure r)
    \<and> set (ipClaimedDisclosureIds p)
        \<subseteq> (\<Union>a \<in> set (optionList (acSpeech acc) @ acBoardActions acc). set (daEffectiveDisclosureIds a))"
proof (rule accepted_stages [OF assms])
  fix ms scan base rs
  assume s: "validateInput p r ds scene = Inr ()" "list_all2 (matchOf ds) (boardTargetTexts p scene) ms"
      "list_all2 (\<lambda>t a. analyze t ds = Answered a) (concat (realizationTexts p)) (tsAnalyses scan)"
      "list_all2 (\<lambda>t m. matchOf ds [t] m) (concat (realizationTexts p)) (tsMatches scan)"
      "baseRealizations ds p scan ms = Inr base" "attributeClaims ds p base = Inr rs"
      "combineAll ds p scan ms = Inr (acAnalysis acc)" "validateAuthorization (acAnalysis acc) p r ds = Inr ()"
      "acceptRealizations (acAnalysis acc) p rs = Inr acc"
  let ?c = "acAnalysis acc"
  note d = input_Inr(2) [OF s(1)] and auth = authorization_Inr(1-3) [OF s(8)]
  obtain cids cl cx where comb: "combineSafeAnalyses (tsAnalyses scan) cids cl cx ds = Inr ?c"
    using s(7) by (auto simp: combineAll_def split: sum.splits)
  have base: "list_all2 (\<lambda>ts a. coversFacts ds ts a \<and> withinAnalysis ?c a) (answeredTexts p scene) base"
    by (rule baseRealizations_Inr [where analyze = analyze, OF s(5,7) d s(2-4)])
  note rs = attributeClaims_Inr [OF s(6) comb combined_covers(4) [OF s(7,2,4)] d base]
  have n: "length rs = length (optionList (ipSpeechText p)) + length (proposedActions p)"
    using list_all2_lengthD [OF rs(1)] by (simp add: answeredTexts_def)
  have parts: "optionList (acSpeech acc) @ acBoardActions acc = rs" "acSpeech acc = None \<longleftrightarrow> ipSpeechText p = None"
      "length (acBoardActions acc) = length (proposedActions p)"
    using acceptRealizations_Inr [OF s(9) n] by simp_all
  have "base \<noteq> []" using input_Inr(3) [OF s(1)] list_all2_lengthD [OF base] by (auto simp: answeredTexts_def realizationTexts_def)
  then have claims: "set (ipClaimedDisclosureIds p) \<subseteq> (\<Union>a \<in> set rs. set (daEffectiveDisclosureIds a))" by (rule rs(2))
  have "withinAnalysis ?c a" if "a \<in> set rs" for a using list_all2_member [OF list_all2_flip [OF rs(1)] that] by blast
  then have within: "daStatus a = Disclosure_SAFE \<and> set (daEffectiveDisclosureIds a) \<subseteq> set (requestedIds r)
      \<and> daEffectiveDisclosureLevel a \<le> rrMaximumDisclosure r" if "a \<in> set rs" for a
    using that auth unfolding withinAnalysis_def by (meson order_trans)
  have "list_all2 (coversFacts ds) (answeredTexts p scene) rs" using rs(1) by (rule list_all2_mono) blast
  then show ?thesis using parts within claims by simp
qed

text \<open>
Property C10. The validator never throws, whatever the analyzer does and whatever it is given: the two
  combinations of analyses it makes outside a \<^verbatim>\<open>try\<close> always succeed where they are reached.
\<close>

theorem validation_never_throws:
  "validateProposal analyze p r ds scene \<noteq> Inl Thrown"
proof
  assume "validateProposal analyze p r ds scene = Inl Thrown"
  then obtain ms scan where s: "matchTargets ds (boardTargetTexts p scene) = Inr ms"
      "analyzeTexts analyze ds (concat (realizationTexts p)) = Inr scan" "validateClaims ds p (tsAnalyses scan) = Inr ()"
      "baseRealizations ds p scan ms = Inl Thrown
         \<or> (\<exists>base. baseRealizations ds p scan ms = Inr base \<and> attributeClaims ds p base = Inl Thrown)"
    by (auto simp: validateProposal_def bindE_eq_Inl)
  then show False
    using baseRealizations_Thrown [where analyze = analyze, OF s(3) matchTargets_Inr [OF s(1)] analyzeTexts_Inr [OF s(2)]] attributeClaims_Thrown [OF s(3)]
    by blast
qed

end
