(* ===== verification/ClosedWorldSessions.thy ===== *)
theory ClosedWorldSessions
  imports ValidationProperties PolicyProperties
begin

text \<open>
  The closed-world analyzer behind the validator, and both behind the pedagogical policy: what can
  reach a candidate in a session.
\<close>

section \<open>The closed-world analyzer\<close>

text \<open>The reviewed texts of the analyzer are the normal forms of the texts it was created with.\<close>

lemma reviewText_fold:
  "foldE reviewText st texts = Inr st' \<Longrightarrow>
     snd st' = snd st @ map normalizeReviewedText texts \<and> (\<forall>t \<in> set texts. textWithinBounds t \<and> normalize t \<noteq> [])"
  by (induction texts arbitrary: st) (auto simp: reviewText_def bindE_eq_Inr guardE_eq_Inr)

lemma createClosedWorldAnalyzer_Inr:
  assumes "createClosedWorldAnalyzer texts = Inr safe"
  shows "safe = map normalizeReviewedText texts" "\<forall>t \<in> set texts. textWithinBounds t \<and> normalize t \<noteq> []"
proof -
  obtain st where "foldE reviewText (0, []) texts = Inr st" "safe = snd st"
    using assms by (auto simp: createClosedWorldAnalyzer_def bindE_eq_Inr)
  with reviewText_fold [OF this(1)]
  show "safe = map normalizeReviewedText texts" "\<forall>t \<in> set texts. textWithinBounds t \<and> normalize t \<noteq> []" by simp_all
qed

text \<open>A text that was reviewed, or that is word for word a formulation of a protected fact.\<close>

definition reviewedText :: "string list \<Rightarrow> ProtectedDisclosure list \<Rightarrow> string \<Rightarrow> bool" where
  "reviewedText texts ds t =
     ((\<exists>s \<in> set texts. normalizeReviewedText s = normalizeReviewedText t)
      \<or> (\<exists>d \<in> set ds. \<exists>f \<in> set (formulationsOf d). normalizeReviewedText f = normalizeReviewedText t))"

lemma closedWorld_cases:
  obtains (unknown) reason where "closedWorldAnalyze safe t ds = unknownAnalysis reason"
  | (known) reason where "closedWorldAnalyze safe t ds =
        safeAnalysis (maxLevel (map pdMinimumDisclosureLevel (filter (mentions t) ds))) (map pdId (filter (mentions t) ds)) reason"
      "normalizeReviewedText t \<in> set safe \<or> isExactProtectedRealization (normalizeReviewedText t) ds"
proof (cases "length t \<le> MAX_DISCLOSURE_ANALYSIS_CHARACTERS \<and> protectedMetadataWithinBounds ds \<and> (\<exists>m. deriveProtectedMatch t ds = Inr m)")
  case False
  then have "\<exists>reason. closedWorldAnalyze safe t ds = unknownAnalysis reason"
    by (cases "deriveProtectedMatch t ds") (simp_all add: closedWorldAnalyze_def Let_def, blast+)
  then show ?thesis using unknown by blast
next
  case True
  let ?fs = "filter (mentions t) ds" and ?n = "normalizeReviewedText t"
  have "deriveProtectedMatch t ds = Inr \<lparr> pmIds = map pdId ?fs, pmLevel = maxLevel (map pdMinimumDisclosureLevel ?fs) \<rparr>"
    using True by (auto simp: deriveProtectedMatch_Inr)
  note analysis = closedWorldAnalyze_def [of safe t ds, unfolded Let_def this]
  show ?thesis
  proof (cases "(?n \<in> set safe \<or> isExactProtectedRealization ?n ds) \<and> ?fs \<noteq> [] \<or> ?fs = [] \<and> normalize t \<noteq> [] \<and> ?n \<in> set safe")
    case safe: True
    then have "\<exists>reason. closedWorldAnalyze safe t ds =
        safeAnalysis (maxLevel (map pdMinimumDisclosureLevel ?fs)) (map pdId ?fs) reason"
      using True by (auto simp: analysis)
    then show ?thesis using known safe by blast
  next
    case closed: False
    then have "\<exists>reason. closedWorldAnalyze safe t ds = unknownAnalysis reason"
      using True by (simp add: analysis) blast
    then show ?thesis using unknown by blast
  qed
qed

lemma reviewed_iff: "reviewedText texts ds t \<longleftrightarrow>
    normalizeReviewedText t \<in> set (map normalizeReviewedText texts) \<or> isExactProtectedRealization (normalizeReviewedText t) ds"
  unfolding reviewedText_def isExactProtectedRealization_def list_ex_iff set_map image_iff by metis

text \<open>
  The analyzer as the validator sees it: one that answers safe only for vetted texts lets only
  vetted texts through.
\<close>

locale vetting_analyzer =
  fixes analyze :: DisclosureAnalyzer
    and vetted :: "ProtectedDisclosure list \<Rightarrow> string \<Rightarrow> bool"
  assumes safe_is_vetted: "analyze t ds = Answered a \<Longrightarrow> daStatus a = Disclosure_SAFE \<Longrightarrow> vetted ds t"
begin

lemma accepted_texts_are_vetted:
  "validateProposal analyze p r ds scene = Inr acc \<Longrightarrow> t \<in> set (concat (realizationTexts p)) \<Longrightarrow> vetted ds t"
  using accepted_analysis(6) safe_is_vetted by blast

end

interpretation closed_world: vetting_analyzer
  "\<lambda>t ds. Answered (closedWorldAnalyze (map normalizeReviewedText texts) t ds)" "reviewedText texts" for texts
proof
  fix t ds a assume "Answered (closedWorldAnalyze (map normalizeReviewedText texts) t ds) = Answered a" "daStatus a = Disclosure_SAFE"
  then show "reviewedText texts ds t"
    by (cases rule: closedWorld_cases [of "map normalizeReviewedText texts" t ds]) (auto simp: reviewed_iff unknownAnalysis_def)
qed

text \<open>
The closed-world analyzer answers safe only for a text that was reviewed when it was created, or
  that repeats a formulation of a protected fact word for word; it then reports exactly the facts
  the text mentions and the highest of their levels. Any other text it cannot judge, at level five.
\<close>

theorem closed_world_answers_are_reviewed:
  assumes "createClosedWorldAnalyzer texts = Inr safe"
  shows "(daStatus (closedWorldAnalyze safe t ds) = Disclosure_SAFE \<and> reviewedText texts ds t
       \<and> daEffectiveDisclosureIds (closedWorldAnalyze safe t ds) = map pdId (filter (mentions t) ds)
       \<and> daEffectiveDisclosureLevel (closedWorldAnalyze safe t ds) = maxLevel (map pdMinimumDisclosureLevel (filter (mentions t) ds)))
     \<or> (daStatus (closedWorldAnalyze safe t ds) = Disclosure_UNKNOWN \<and> daEffectiveDisclosureLevel (closedWorldAnalyze safe t ds) = 5)"
  using createClosedWorldAnalyzer_Inr(1) [OF assms]
  by (cases rule: closedWorld_cases [of safe t ds]) (simp_all add: reviewed_iff unknownAnalysis_def safeAnalysis_def)

section \<open>The whole path\<close>

text \<open>
Property C7. Policy and validator together: if a proposal is accepted under the request of a policy
  decision and the closed-world analyzer, every text it emits was reviewed or repeats a protected
  formulation, and every protected fact in it, or in what it points at on the board, is earned: a
  milestone lists it that is the reached target of the decision, or that the candidate has
  completed and the target depends on.
\<close>

theorem only_earned_facts_reach_the_candidate:
  assumes "decidePedagogicalPolicy collate sha256 st turnId p = Inr d" "createClosedWorldAnalyzer reviewed = Inr safe"
    and "validateProposal (\<lambda>t ds. Answered (closedWorldAnalyze safe t ds)) q (dcRealizationRequest d) (ivProtectedDisclosures p) scene = Inr acc"
  shows "(\<forall>t \<in> set (concat (realizationTexts q)). reviewedText reviewed (ivProtectedDisclosures p) t)
    \<and> (\<forall>t \<in> set (concat (realizationTexts q) @ concat (boardTargetTexts q scene)). \<forall>f \<in> set (ivProtectedDisclosures p). mentions t f \<longrightarrow>
         pdMinimumDisclosureLevel f \<le> 4 \<and> ptKind (dcTarget d) = Kind_MILESTONE
         \<and> (\<exists>m \<in> set (rgMilestones (ivReasoningGraph p)). pdId f \<in> set (mileDisclosureIds m)
              \<and> (mileId m = ptId (dcTarget d) \<and> milestoneReached st p m
                 \<or> milestoneCompleted st p (mileId m) \<and> (mileId m, ptId (dcTarget d)) \<in> (problemDependencies p)\<^sup>+)))"
proof -
  let ?F = "ivProtectedDisclosures p"
  note accepted = accepted_analysis [OF assms(3)]
  have "reviewedText reviewed ?F t" if "t \<in> set (concat (realizationTexts q))" for t
    using closed_world.accepted_texts_are_vetted [OF _ that] assms(3) createClosedWorldAnalyzer_Inr(1) [OF assms(2)] by simp
  moreover have "pdMinimumDisclosureLevel f \<le> 4 \<and> ptKind (dcTarget d) = Kind_MILESTONE
      \<and> (\<exists>m \<in> set (rgMilestones (ivReasoningGraph p)). pdId f \<in> set (mileDisclosureIds m)
           \<and> (mileId m = ptId (dcTarget d) \<and> milestoneReached st p m
              \<or> milestoneCompleted st p (mileId m) \<and> (mileId m, ptId (dcTarget d)) \<in> (problemDependencies p)\<^sup>+))"
    if "t \<in> set (concat (realizationTexts q) @ concat (boardTargetTexts q scene))" "f \<in> set ?F" "mentions t f" for t f
  proof -
    have "f \<in> factsIn ?F (concat (realizationTexts q) @ concat (boardTargetTexts q scene))" using that unfolding factsIn_def by blast
    then have f: "pdId f \<in> set (requestedIds (dcRealizationRequest d))" "pdMinimumDisclosureLevel f \<le> rrMaximumDisclosure (dcRealizationRequest d)"
      using accepted by (blast intro: order_trans)+
    then obtain ids where "rrAllowedDisclosureIds (dcRealizationRequest d) = Some ids" "pdId f \<in> set ids"
      by (cases "rrAllowedDisclosureIds (dcRealizationRequest d)") (simp_all add: requestedIds_def)
    then show ?thesis
      using f(2) decision_request_shape [OF assms(1)] authorized_facts_are_earned [OF assms(1)] by (meson order_trans)
  qed
  ultimately show ?thesis by blast
qed

end
