(* ===== verification/ProposalSample.thy ===== *)
theory ProposalSample
  imports ClosedWorldSessions PolicySample
begin

text \<open>
  Proposals that are accepted: every reviewed probe, and a hint on the board for the decision of the
  sample session.
\<close>

section \<open>Reviewed probes\<close>

definition probe :: "RealizationRequest \<Rightarrow> string \<Rightarrow> InterviewerProposal" where
  "probe r s = \<lparr> ipRealizedAction = rrRequiredAction r, ipClaimedDisclosureLevel = 0, ipClaimedDisclosureIds = [],
     ipSpeechText = Some s, ipBoardActions = None \<rparr>"

lemma probe_texts: "realizationTexts (probe r s) = [[s]]" "proposedActions (probe r s) = []" "boardTargetTexts (probe r s) scene = []"
  by (simp_all add: realizationTexts_def proposedActions_def boardTargetTexts_def probe_def optionList_def)

text \<open>The request is one the policy could have made for these facts.\<close>

definition requestFits :: "RealizationRequest \<Rightarrow> ProtectedDisclosure list \<Rightarrow> bool" where
  "requestFits r ds =
     (distinct (requestedIds r)
      \<and> (\<forall>i \<in> set (requestedIds r). \<exists>d \<in> set ds. pdId d = i \<and> pdMinimumDisclosureLevel d \<le> rrMaximumDisclosure r))"

definition analyzable :: "ProtectedDisclosure list \<Rightarrow> bool" where
  "analyzable ds =
     (protectedMetadataWithinBounds ds \<and> distinct (map pdId ds) \<and> (\<forall>d \<in> set ds. \<forall>f \<in> set (formulationsOf d). normalize f \<noteq> []))"

lemma probe_analysis:
  assumes "createClosedWorldAnalyzer reviewed = Inr safe" "s \<in> set reviewed" "analyzable ds" "\<forall>d \<in> set ds. \<not> mentions s d"
  shows "closedWorldAnalyze safe s ds = safeAnalysis 0 [] ''Exact reviewed zero-disclosure probe''"
    and "deriveProtectedMatch s ds = Inr \<lparr> pmIds = [], pmLevel = 0 \<rparr>"
proof -
  have f: "filter (mentions s) ds = []" using assms(4) by (simp add: filter_empty_conv)
  show m: "deriveProtectedMatch s ds = Inr \<lparr> pmIds = [], pmLevel = 0 \<rparr>"
    using assms(3) f by (auto simp: deriveProtectedMatch_Inr list_all_iff analyzable_def)
  note created = createClosedWorldAnalyzer_Inr [OF assms(1)]
  have "textWithinBounds s" "normalize s \<noteq> []" "normalizeReviewedText s \<in> set safe" using created assms(2) by auto
  then show "closedWorldAnalyze safe s ds = safeAnalysis 0 [] ''Exact reviewed zero-disclosure probe''"
    using assms(3) by (simp add: closedWorldAnalyze_def Let_def m analyzable_def textWithinBounds_def)
qed

lemma requestFits_authorized:
  assumes "requestFits r ds" "distinct (map pdId ds)"
  shows "\<exists>us. mapE (authorizedId c r ds) (requestedIds r) = Inr us"
proof -
  have "authorizedId c r ds i = Inr ()" if "i \<in> set (requestedIds r)" for i
    using assms that disclosureById_member by (fastforce simp: requestFits_def authorizedId_def requireWith_def)
  then show ?thesis using mapE_all [of "requestedIds r" "authorizedId c r ds" "\<lambda>_. ()"] by blast
qed

lemma probe_accepted:
  assumes "createClosedWorldAnalyzer reviewed = Inr safe" "s \<in> set reviewed" "analyzable ds" "\<forall>d \<in> set ds. \<not> mentions s d"
    and "requestFits r ds" "withinWorkBudget [s] [] ds"
  shows "\<exists>acc. validateProposal (\<lambda>t ds. Answered (closedWorldAnalyze safe t ds)) (probe r s) r ds scene = Inr acc
    \<and> daEffectiveDisclosureLevel (acAnalysis acc) = 0 \<and> daEffectiveDisclosureIds (acAnalysis acc) = []
    \<and> acSpeech acc = Some (acAnalysis acc) \<and> acBoardActions acc = []"
proof -
  let ?a = "safeAnalysis 0 [] ''Exact reviewed zero-disclosure probe''"
  note analysis = probe_analysis [OF assms(1-4)]
  have bounded: "textWithinBounds s" using createClosedWorldAnalyzer_Inr(2) [OF assms(1)] assms(2) by blast
  have input: "validateInput (probe r s) r ds scene = Inr ()"
    using bounded assms(3,6) unfolding validateInput_def probe_texts
    by (simp add: bindE_eq_Inr Let_def proposalWithinBounds_def probe_texts analyzable_def textWithinBounds_def totalCharacters_def
        disclosure_limits) (simp add: probe_def disclosure_limits)
  have size: "analyzerResultWithinBounds ?a" "DisclosureAnalysisSchema ?a"
    by (simp_all add: analyzerResultWithinBounds_def safeAnalysis_def disclosure_limits DisclosureAnalysisSchema_def
        DisclosureLevelSchema_def unitInterval_def nonempty_def)
  obtain scan where scan: "analyzeTexts (\<lambda>t ds. Answered (closedWorldAnalyze safe t ds)) ds [s] = Inr scan"
      "tsAnalyses scan = [?a]" "tsMatches scan = [\<lparr> pmIds = [], pmLevel = 0 \<rparr>]"
    using size by (simp add: analyzeTexts_def analyzeText_def matchText_def analysis requireV_def) (simp add: safeAnalysis_def disclosure_limits)
  have combine: "combineSafeAnalyses [?a] [] 0 [] ds = Inr ?a"
    by (simp add: combineSafeAnalyses_def uniq_def safeAnalysis_def minConfidence_def)
  obtain us where "mapE (authorizedId ?a r ds) (requestedIds r) = Inr us"
    using requestFits_authorized [OF assms(5), of ?a] assms(3) unfolding analyzable_def by blast
  then have auth: "validateAuthorization ?a (probe r s) r ds = Inr ()"
    using assms(5) by (simp add: validateAuthorization_def Let_def requireWith_def requestFits_def safeAnalysis_def probe_def)
  have probe: "ipSpeechText (probe r s) = Some s" "ipClaimedDisclosureIds (probe r s) = []" by (simp_all add: probe_def)
  have safe: "daStatus ?a = Disclosure_SAFE" "daConfidence ?a = 1" "daEffectiveDisclosureIds ?a = []" by (simp_all add: safeAnalysis_def)
  have base: "baseRealizations ds (probe r s) scan [] = Inr [?a]"
    using scan combine by (simp add: baseRealizations_def probe_texts probe optionList_def combineRealization_def orThrow_def uniq_def)
  have later: "requireSafe (tsAnalyses scan) = Inr ()" "validateClaims ds (probe r s) (tsAnalyses scan) = Inr ()"
      "attributeClaims ds (probe r s) [?a] = Inr [?a]" "combineAll ds (probe r s) scan [] = Inr ?a"
    using scan combine safe by (simp_all add: requireSafe_def validateClaims_def attributeClaims_def combineAll_def probe requireV_def uniq_def)
  have "validateProposal (\<lambda>t ds. Answered (closedWorldAnalyze safe t ds)) (probe r s) r ds scene
      = acceptRealizations ?a (probe r s) [?a]"
    using scan(1) base later auth by (simp add: validateProposal_def input probe_texts matchTargets_def)
  then show ?thesis by (simp add: acceptRealizations_def probe_texts requireWith_def) (simp add: probe_def safeAnalysis_def optionList_def)
qed

text \<open>What acceptance shows about the facts, the request and the work: nothing less would do.\<close>

lemma accepted_probe_fits:
  assumes "validateProposal (\<lambda>t ds. Answered (closedWorldAnalyze safe t ds)) (probe r s) r ds scene = Inr acc"
  shows "analyzable ds \<and> requestFits r ds \<and> withinWorkBudget [s] [] ds"
proof -
  have input: "validateInput (probe r s) r ds scene = Inr ()"
    and auth: "validateAuthorization (acAnalysis acc) (probe r s) r ds = Inr ()"
    using accepted_stages [OF assms] by metis+
  have "daStatus (closedWorldAnalyze safe s ds) = Disclosure_SAFE"
    using accepted_analysis(6) [OF assms, of s] by (simp add: probe_texts)
  then obtain m where "deriveProtectedMatch s ds = Inr m"
    by (cases "deriveProtectedMatch s ds") (auto simp: closedWorldAnalyze_def unknownAnalysis_def Let_def split: if_splits)
  then have "\<forall>d \<in> set ds. \<forall>f \<in> set (formulationsOf d). normalize f \<noteq> []"
    by (simp add: deriveProtectedMatch_Inr list_all_iff)
  then have "analyzable ds" using input_Inr [OF input] by (simp add: analyzable_def)
  moreover have "withinWorkBudget [s] [] ds"
    using input by (simp add: validateInput_def bindE_eq_Inr Let_def probe_texts)
  moreover have "requestFits r ds" using authorization_Inr(4,5) [OF auth] unfolding requestFits_def by blast
  ultimately show ?thesis by blast
qed

lemma decision_requests_fit:
  assumes "decidePedagogicalPolicy collate sha256 st turnId p = Inr d"
  shows "requestFits (dcRealizationRequest d) (ivProtectedDisclosures p)"
  using decision_request_shape [OF assms] authorized_facts_are_earned [OF assms]
  by (cases "rrAllowedDisclosureIds (dcRealizationRequest d)") (auto simp: requestFits_def requestedIds_def optionList_def)

text \<open>
Property C11. The gate is not closed to everything, and what it asks of a reviewed probe is exactly this: a
  probe that was reviewed, mentions no protected fact and claims nothing is accepted if and only if the
  protected facts can be analyzed (they are within the bounds, have distinct ids, and none of their
  formulations normalizes to the empty text), the request allows only known facts within its own level, each
  once, and the comparison fits the work budget. What is accepted has disclosure level zero and no ids.
  Every request the policy decides for a problem satisfies the condition on the request.
\<close>

theorem reviewed_probes_are_accepted:
  assumes "createClosedWorldAnalyzer reviewed = Inr safe" "s \<in> set reviewed" "\<forall>d \<in> set ds. \<not> mentions s d"
  shows "((\<exists>acc. validateProposal (\<lambda>t ds. Answered (closedWorldAnalyze safe t ds)) (probe r s) r ds scene = Inr acc)
      \<longleftrightarrow> analyzable ds \<and> requestFits r ds \<and> withinWorkBudget [s] [] ds)
    \<and> (\<forall>acc. validateProposal (\<lambda>t ds. Answered (closedWorldAnalyze safe t ds)) (probe r s) r ds scene = Inr acc \<longrightarrow>
         daEffectiveDisclosureLevel (acAnalysis acc) = 0 \<and> daEffectiveDisclosureIds (acAnalysis acc) = []
         \<and> acSpeech acc = Some (acAnalysis acc) \<and> acBoardActions acc = [])
    \<and> (\<forall>collate sha256 st turnId p d. decidePedagogicalPolicy collate sha256 st turnId p = Inr d \<longrightarrow>
         requestFits (dcRealizationRequest d) (ivProtectedDisclosures p))"
proof (intro conjI allI impI)
  show "(\<exists>acc. validateProposal (\<lambda>t ds. Answered (closedWorldAnalyze safe t ds)) (probe r s) r ds scene = Inr acc)
      \<longleftrightarrow> analyzable ds \<and> requestFits r ds \<and> withinWorkBudget [s] [] ds"
    using accepted_probe_fits probe_accepted [OF assms(1,2) _ assms(3)] by blast
  fix acc assume acc: "validateProposal (\<lambda>t ds. Answered (closedWorldAnalyze safe t ds)) (probe r s) r ds scene = Inr acc"
  note fits = accepted_probe_fits [OF acc]
  show "daEffectiveDisclosureLevel (acAnalysis acc) = 0" "daEffectiveDisclosureIds (acAnalysis acc) = []"
      "acSpeech acc = Some (acAnalysis acc)" "acBoardActions acc = []"
    using probe_accepted [OF assms(1,2) _ assms(3), of r scene] fits acc by auto
qed (rule decision_requests_fit)

section \<open>A hint with a drawing\<close>

text \<open>The candidate has written \<open>the g1 case\<close>, and the interviewer circles it without naming a target.\<close>

definition writtenShape :: BoardSceneShape where
  "writtenShape = \<lparr> bsShapeId = ''shape:s1'', bsShapeRevision = 1, bsType = text_shape,
     bsBounds = \<lparr> bX = 200, bY = 200, bWidth = 120, bHeight = 40 \<rparr>, bsText = Some ''the g1 case'', bsSemanticObservation = None \<rparr>"

definition writtenScene :: BoardSceneContext where
  "writtenScene = \<lparr> scBoardRevision = 1, scStudentShapeCount = 1, scIncludedStudentShapeCount = 1, scOmittedStudentShapeCount = 0,
     scStudentShapesTruncated = False, scAiAnnotationCount = 0, scIncludedAiAnnotationCount = 0, scAiAnnotationsTruncated = False,
     scAiAnnotationStateUncertain = False, scContentBounds = None, scShapes = [writtenShape], scSemanticRelations = [],
     scAiAnnotations = [] \<rparr>"

definition circleAction :: BoardAction where
  "circleAction = drawnSegment\<lparr> baOperation := circle, baPoints := None, baAnnotationPurpose := ''Look here'' \<rparr>"

definition hintRequest :: RealizationRequest where
  "hintRequest = \<lparr> rrRequiredAction = CHANGE_REPRESENTATION, rrTarget = Some ''milestone:m1'', rrMaximumDisclosure = 1,
     rrAllowedDisclosureIds = Some [''d1''] \<rparr>"

definition hintProposal :: InterviewerProposal where
  "hintProposal = \<lparr> ipRealizedAction = CHANGE_REPRESENTATION, ipClaimedDisclosureLevel = 1, ipClaimedDisclosureIds = [''d1''],
     ipSpeechText = Some ''Recall g1.'', ipBoardActions = Some [circleAction] \<rparr>"

definition hintTexts :: "string list" where
  "hintTexts = [''Recall g1.'', ''Look here'']"

definition hintAnalyzer :: "nat list list" where
  "hintAnalyzer = map normalizeReviewedText hintTexts"

lemmas normal_form_simps = normalize_def normalizeReviewedText_def americanSpelling_def nfkc_def nfkcPoint_def lowerPoint_def
  trimPoints_def alnumPoint_def wordPoint_def spacePoint_def points_def of_char_Char

lemma hint_normal_forms:
  "normalize ''Recall g1.'' = [114, 101, 99, 97, 108, 108, 32, 103, 49]" "normalize ''Look here'' = [108, 111, 111, 107, 32, 104, 101, 114, 101]"
  "normalize ''the g1 case'' = [116, 104, 101, 32, 103, 49, 32, 99, 97, 115, 101]"
  "normalize ''f1'' = [102, 49]" "normalize ''g1'' = [103, 49]" "normalize ''f2'' = [102, 50]" "normalize ''g2'' = [103, 50]"
  by (simp_all add: normal_form_simps)

lemma hint_reviewed:
  "normalizeReviewedText ''Recall g1.'' = [114, 101, 99, 97, 108, 108, 32, 103, 49, 46]"
  "normalizeReviewedText ''Look here'' = [108, 111, 111, 107, 32, 104, 101, 114, 101]"
  by (simp_all add: normal_form_simps)

lemma hintAnalyzer_created: "createClosedWorldAnalyzer hintTexts = Inr hintAnalyzer"
  by (simp add: createClosedWorldAnalyzer_def hintTexts_def hintAnalyzer_def reviewText_def textWithinBounds_def disclosure_limits
      hint_normal_forms)

definition hintFacts :: "ProtectedDisclosure list" where
  "hintFacts = ivProtectedDisclosures sampleProblem"

lemma hintFacts: "hintFacts =
    [\<lparr> pdId = ''d1'', pdFact = ''f1'', pdMinimumDisclosureLevel = 1, pdEquivalentFormulations = [''g1''] \<rparr>,
     \<lparr> pdId = ''d2'', pdFact = ''f2'', pdMinimumDisclosureLevel = 3, pdEquivalentFormulations = [''g2''] \<rparr>]"
  by (simp add: hintFacts_def sampleProblem_def)

lemma hint_matches:
  "deriveProtectedMatch ''Recall g1.'' hintFacts = Inr \<lparr> pmIds = [''d1''], pmLevel = 1 \<rparr>"
  "deriveProtectedMatch ''Look here'' hintFacts = Inr \<lparr> pmIds = [], pmLevel = 0 \<rparr>"
  "deriveProtectedMatch ''the g1 case'' hintFacts = Inr \<lparr> pmIds = [''d1''], pmLevel = 1 \<rparr>"
  by (simp_all add: deriveProtectedMatch_def matchDisclosure_def hintFacts formulationsOf_def mentions_def hint_normal_forms)

lemma hint_metadata: "protectedMetadataWithinBounds hintFacts"
  by (simp add: protectedMetadataWithinBounds_def hintFacts textWithinBounds_def disclosure_limits Let_def)

lemma hint_analyses:
  "closedWorldAnalyze hintAnalyzer ''Recall g1.'' hintFacts
     = safeAnalysis 1 [''d1''] ''Complete realization is reviewed and protected content is classified independently''"
  "closedWorldAnalyze hintAnalyzer ''Look here'' hintFacts = safeAnalysis 0 [] ''Exact reviewed zero-disclosure probe''"
  by (simp_all add: closedWorldAnalyze_def hint_metadata hint_matches Let_def hintAnalyzer_def hintTexts_def hint_reviewed
      hint_normal_forms disclosure_limits)

lemma hint_points: "boardTargetDisclosureTexts circleAction (Some writtenScene) = [''the g1 case'']"
  by code_simp

lemma hint_texts:
  "realizationTexts hintProposal = [[''Recall g1.''], [''Look here'']]" "proposedActions hintProposal = [circleAction]"
  "boardTargetTexts hintProposal (Some writtenScene) = [[''the g1 case'']]"
  using hint_points
  by (simp_all add: realizationTexts_def boardTargetTexts_def proposedActions_def hintProposal_def actionTexts_def optionList_def
      circleAction_def drawnSegment_def)

lemma hint_counts: "protectedMetadataCharacterCount hintFacts = 8" "protectedMetadataFormulationCount hintFacts = 4"
    "distinct (map pdId hintFacts)"
  by (simp_all add: protectedMetadataCharacterCount_def protectedMetadataFormulationCount_def hintFacts)

lemma hint_input: "validateInput hintProposal hintRequest hintFacts (Some writtenScene) = Inr ()"
  unfolding validateInput_def hint_texts
  by (simp add: bindE_eq_Inr hint_metadata Let_def proposalWithinBounds_def hint_texts totalCharacters_def withinWorkBudget_def
      hint_counts disclosure_limits)
    (simp add: hintProposal_def hintRequest_def circleAction_def drawnSegment_def)

lemma hint_scan:
  "\<exists>scan. analyzeTexts (\<lambda>t ds. Answered (closedWorldAnalyze hintAnalyzer t ds)) hintFacts [''Recall g1.'', ''Look here''] = Inr scan
     \<and> tsAnalyses scan = [safeAnalysis 1 [''d1''] ''Complete realization is reviewed and protected content is classified independently'',
          safeAnalysis 0 [] ''Exact reviewed zero-disclosure probe'']
     \<and> tsMatches scan = [\<lparr> pmIds = [''d1''], pmLevel = 1 \<rparr>, \<lparr> pmIds = [], pmLevel = 0 \<rparr>]"
  by (simp add: analyzeTexts_def analyzeText_def matchText_def hint_matches hint_analyses requireV_def)
    (simp add: safeAnalysis_def analyzerResultWithinBounds_def disclosure_limits DisclosureAnalysisSchema_def DisclosureLevelSchema_def
      unitInterval_def nonempty_def idSchema_def)

lemma hint_accepted:
  "\<exists>acc. validateProposal (\<lambda>t ds. Answered (closedWorldAnalyze hintAnalyzer t ds)) hintProposal hintRequest hintFacts
     (Some writtenScene) = Inr acc"
proof -
  obtain scan where scan: "analyzeTexts (\<lambda>t ds. Answered (closedWorldAnalyze hintAnalyzer t ds)) hintFacts [''Recall g1.'', ''Look here''] = Inr scan"
      "tsAnalyses scan = [safeAnalysis 1 [''d1''] ''Complete realization is reviewed and protected content is classified independently'',
          safeAnalysis 0 [] ''Exact reviewed zero-disclosure probe'']"
      "tsMatches scan = [\<lparr> pmIds = [''d1''], pmLevel = 1 \<rparr>, \<lparr> pmIds = [], pmLevel = 0 \<rparr>]"
    using hint_scan by blast
  let ?m = "\<lparr> pmIds = [''d1''], pmLevel = 1 \<rparr>"
  have targets: "matchTargets hintFacts [[''the g1 case'']] = Inr [?m]"
    by (simp add: matchTargets_def matchText_def hint_matches mergeMatches_def uniq_def)
  have proposal: "ipSpeechText hintProposal = Some ''Recall g1.''" "ipClaimedDisclosureIds hintProposal = [''d1'']"
      "ipClaimedDisclosureLevel hintProposal = 1" "requestedIds hintRequest = [''d1'']" "rrMaximumDisclosure hintRequest = 1"
    by (simp_all add: hintProposal_def hintRequest_def requestedIds_def)
  have ids: "disclosureById hintFacts ''d1'' = Some \<lparr> pdId = ''d1'', pdFact = ''f1'', pdMinimumDisclosureLevel = 1,
      pdEquivalentFormulations = [''g1''] \<rparr>"
    by (simp add: disclosureById_def hintFacts)
  have safe: "requireSafe (tsAnalyses scan) = Inr ()" "validateClaims hintFacts hintProposal (tsAnalyses scan) = Inr ()"
    by (simp_all add: scan requireSafe_def safeAnalysis_def validateClaims_def proposal requireV_def hintFacts)
  obtain a b where base: "baseRealizations hintFacts hintProposal scan [?m] = Inr [a, b]"
      "daEffectiveDisclosureIds a = [''d1'']" "daEffectiveDisclosureIds b = [''d1'']"
    by (simp add: baseRealizations_def hint_texts scan proposal optionList_def combineRealization_def combineSafeAnalyses_def
        orThrow_def uniq_def ids Let_def safeAnalysis_def)
  have claims: "attributeClaims hintFacts hintProposal [a, b] = Inr [a, b]"
    by (simp add: attributeClaims_def proposal base)
  obtain c where c: "combineAll hintFacts hintProposal scan [?m] = Inr c" "daEffectiveDisclosureIds c = [''d1'']"
      "daEffectiveDisclosureLevel c = 1"
    by (simp add: combineAll_def scan proposal combineSafeAnalyses_def uniq_def ids Let_def safeAnalysis_def)
  have auth: "validateAuthorization c hintProposal hintRequest hintFacts = Inr ()"
    by (simp add: validateAuthorization_def proposal c authorizedId_def ids requireWith_def)
  have "acceptRealizations c hintProposal [a, b] = Inr \<lparr> acAnalysis = c, acSpeech = Some a, acBoardActions = [b] \<rparr>"
    by (simp add: acceptRealizations_def proposal optionList_def requireWith_def hint_texts)
  then show ?thesis
    using scan(1) targets safe base claims c auth by (simp add: validateProposal_def hint_input hint_texts)
qed

section \<open>Witnesses\<close>

theorem accepted_proposals_disclose_only_what_is_authorized_witness:
  "mentions ''the g1 case'' (hd hintFacts)
   \<and> (\<exists>acc. validateProposal (\<lambda>t ds. Answered (closedWorldAnalyze hintAnalyzer t ds)) hintProposal hintRequest hintFacts
        (Some writtenScene) = Inr acc)
   \<and> pdId (hd hintFacts) \<in> set (requestedIds hintRequest) \<and> pdMinimumDisclosureLevel (hd hintFacts) \<le> rrMaximumDisclosure hintRequest"
proof -
  have m: "mentions ''the g1 case'' (hd hintFacts)" by (simp add: mentions_def hintFacts formulationsOf_def hint_normal_forms)
  have t: "''the g1 case'' \<in> set (concat (realizationTexts hintProposal) @ concat (boardTargetTexts hintProposal (Some writtenScene)))"
      "hd hintFacts \<in> set hintFacts"
    by (simp_all add: hint_texts hintFacts)
  obtain acc where acc: "validateProposal (\<lambda>t ds. Answered (closedWorldAnalyze hintAnalyzer t ds)) hintProposal hintRequest hintFacts
      (Some writtenScene) = Inr acc" using hint_accepted by blast
  show ?thesis
    using accepted_proposals_disclose_only_what_is_authorized [OF acc t m] m acc by (auto intro: order_trans)
qed

theorem accepted_parts_are_attributed_witness:
  "\<exists>acc. validateProposal (\<lambda>t ds. Answered (closedWorldAnalyze hintAnalyzer t ds)) hintProposal hintRequest hintFacts
       (Some writtenScene) = Inr acc
     \<and> list_all2 (coversFacts hintFacts) (answeredTexts hintProposal (Some writtenScene)) (optionList (acSpeech acc) @ acBoardActions acc)
     \<and> acSpeech acc \<noteq> None \<and> length (acBoardActions acc) = 1"
proof -
  obtain acc where acc: "validateProposal (\<lambda>t ds. Answered (closedWorldAnalyze hintAnalyzer t ds)) hintProposal hintRequest hintFacts
      (Some writtenScene) = Inr acc" using hint_accepted by blast
  have "ipSpeechText hintProposal \<noteq> None" by (simp add: hintProposal_def)
  then show ?thesis using acc accepted_parts_are_attributed [OF acc] hint_texts(2) by auto
qed

theorem closed_world_answers_are_reviewed_witness:
  "daStatus (closedWorldAnalyze hintAnalyzer ''Recall g1.'' hintFacts) = Disclosure_SAFE \<and> reviewedText hintTexts hintFacts ''Recall g1.''
   \<and> daEffectiveDisclosureIds (closedWorldAnalyze hintAnalyzer ''Recall g1.'' hintFacts) = [''d1'']"
proof -
  have "daStatus (closedWorldAnalyze hintAnalyzer ''Recall g1.'' hintFacts) = Disclosure_SAFE"
      "daEffectiveDisclosureIds (closedWorldAnalyze hintAnalyzer ''Recall g1.'' hintFacts) = [''d1'']"
    by (simp_all add: hint_analyses safeAnalysis_def)
  then show ?thesis using closed_world_answers_are_reviewed [OF hintAnalyzer_created, of "''Recall g1.''" hintFacts] by simp
qed

text \<open>
  The probe passes under the request decided in the sample session, and not when the facts of the problem
  are listed twice.
\<close>

theorem reviewed_probes_are_accepted_witness:
  "(\<exists>d acc. decidePedagogicalPolicy (\<lambda>_ _. 0) (\<lambda>_. policyDigest) policyState ''t1'' sampleProblem = Inr d
      \<and> validateProposal (\<lambda>t ds. Answered (closedWorldAnalyze hintAnalyzer t ds)) (probe (dcRealizationRequest d) ''Look here'')
           (dcRealizationRequest d) (ivProtectedDisclosures sampleProblem) None = Inr acc
      \<and> daEffectiveDisclosureLevel (acAnalysis acc) = 0)
   \<and> (\<nexists>acc. validateProposal (\<lambda>t ds. Answered (closedWorldAnalyze hintAnalyzer t ds)) (probe hintRequest ''Look here'') hintRequest
        (hintFacts @ hintFacts) None = Inr acc)"
proof
  have probed: "''Look here'' \<in> set hintTexts" by (simp add: hintTexts_def)
  have silent: "\<forall>d \<in> set hintFacts. \<not> mentions ''Look here'' d"
    by (auto simp: hintFacts mentions_def formulationsOf_def hint_normal_forms)
  then have twice: "\<forall>d \<in> set (hintFacts @ hintFacts). \<not> mentions ''Look here'' d" by simp
  obtain d where d: "decidePedagogicalPolicy (\<lambda>_ _. 0) (\<lambda>_. policyDigest) policyState ''t1'' sampleProblem = Inr d"
      "dcRealizationRequest d = hintRequest"
    using sample_decision [of "\<lambda>_ _. 0"] by (auto simp: hintRequest_def)
  have "analyzable hintFacts"
    by (simp add: analyzable_def hint_metadata hint_counts) (simp add: hintFacts formulationsOf_def hint_normal_forms)
  moreover have "withinWorkBudget [''Look here''] [] hintFacts"
    by (simp add: withinWorkBudget_def totalCharacters_def hint_counts disclosure_limits)
  moreover have "requestFits hintRequest hintFacts"
    using reviewed_probes_are_accepted [OF hintAnalyzer_created probed silent] d unfolding hintFacts_def by metis
  ultimately show "\<exists>d acc. decidePedagogicalPolicy (\<lambda>_ _. 0) (\<lambda>_. policyDigest) policyState ''t1'' sampleProblem = Inr d
      \<and> validateProposal (\<lambda>t ds. Answered (closedWorldAnalyze hintAnalyzer t ds)) (probe (dcRealizationRequest d) ''Look here'')
           (dcRealizationRequest d) (ivProtectedDisclosures sampleProblem) None = Inr acc
      \<and> daEffectiveDisclosureLevel (acAnalysis acc) = 0"
    using reviewed_probes_are_accepted [OF hintAnalyzer_created probed silent, of hintRequest None] d
    unfolding hintFacts_def [symmetric] by metis
  have "\<not> analyzable (hintFacts @ hintFacts)"
    by (simp add: analyzable_def hintFacts)
  then show "\<nexists>acc. validateProposal (\<lambda>t ds. Answered (closedWorldAnalyze hintAnalyzer t ds)) (probe hintRequest ''Look here'') hintRequest
        (hintFacts @ hintFacts) None = Inr acc"
    using reviewed_probes_are_accepted [OF hintAnalyzer_created probed twice] by blast
qed

theorem only_earned_facts_reach_the_candidate_witness:
  "\<exists>d acc. decidePedagogicalPolicy (\<lambda>_ _. 0) (\<lambda>_. policyDigest) policyState ''t1'' sampleProblem = Inr d
     \<and> validateProposal (\<lambda>t ds. Answered (closedWorldAnalyze hintAnalyzer t ds)) hintProposal (dcRealizationRequest d)
         (ivProtectedDisclosures sampleProblem) (Some writtenScene) = Inr acc
     \<and> reviewedText hintTexts (ivProtectedDisclosures sampleProblem) ''Recall g1.''"
proof -
  obtain d where d: "decidePedagogicalPolicy (\<lambda>_ _. 0) (\<lambda>_. policyDigest) policyState ''t1'' sampleProblem = Inr d"
      "dcRealizationRequest d = hintRequest"
    using sample_decision [of "\<lambda>_ _. 0"] by (auto simp: hintRequest_def)
  obtain acc where acc: "validateProposal (\<lambda>t ds. Answered (closedWorldAnalyze hintAnalyzer t ds)) hintProposal (dcRealizationRequest d)
      (ivProtectedDisclosures sampleProblem) (Some writtenScene) = Inr acc"
    using hint_accepted by (auto simp: d hintFacts_def)
  have "''Recall g1.'' \<in> set (concat (realizationTexts hintProposal))" by (simp add: hint_texts)
  then have "reviewedText hintTexts (ivProtectedDisclosures sampleProblem) ''Recall g1.''"
    using only_earned_facts_reach_the_candidate [OF d(1) hintAnalyzer_created acc] by blast
  then show ?thesis using d(1) acc by blast
qed

end
