(* ===== verification/Spec2Isabelle.thy ===== *)
theory Spec2Isabelle
  imports DeliveryRecovery SessionLog EvidenceKeys EvidenceLog Requests BoardPatch QuantSessions WriterProperties
    VerifierRegistry MarketMakingRounds TradingScenarioRuns PolicyLedger ProposalSample
begin

text \<open>
  \<^bold>\<open>Verification development for the interview application.\<close>

  The application conducts an oral interview. Everything that happens in a session is an event of
  an append only log; the state of a session is the replay of its log. One writer per session
  executes commands: a handler reads the cached state and answers drafts of events, the writer
  appends them to a SQLite store and reduces them into its cache. Coordinators (delivery of
  interviewer turns, deterministic verification of mathematical claims, quant scenarios, vision
  requests) are clients of the writer, and the reducer refuses every event that does not fit the
  state, so that the log is the only authority.

  \<^bold>\<open>Conventions.\<close> A function that may throw is a function into \<open>'e + 'a\<close>, one that
  also mutates its object returns the object reached, also after a throw.
  The classes of the source are records, their methods functions on them; enums and discriminated
  unions are datatypes; a zod schema is the predicate of the values it accepts. A JavaScript
  \<^verbatim>\<open>Map\<close> or \<^verbatim>\<open>Record\<close> is an association list in insertion order. Strings
  are lists of code units below 256. A finite number is the rational it denotes, floating point
  operations are the exact operation followed by the rounding \<open>fl\<close> of IEEE-754 binary64 (\<open>None\<close>
  for a result that is not finite), integers checked by \<^verbatim>\<open>Number.isSafeInteger\<close> are
  \<open>nat\<close> or \<open>int\<close> with the check written out, \<^verbatim>\<open>bigint\<close> is \<open>int\<close>
  with division towards zero, and 32-bit operations are on \<open>32 word\<close>. Clocks, random ids,
  fingerprints and the results of code outside the repository are arguments.

  \<^bold>\<open>The shared base.\<close> \<open>Prelude\<close>: results, throwing folds, dictionaries, the
  locales \<open>event_machine\<close> and \<open>keyed_table\<close>. \<open>JsNumber\<close>: numbers and strings.

  \<^bold>\<open>Domain contracts\<close> (\<^verbatim>\<open>packages/domain/src\<close>). \<open>Domain\<close>,
  \<open>BoardDomain\<close>: ids, revisions, generation bases, evidence keys, commands, whiteboard actions
  and board mutations, vision observations, deliveries.

  \<^bold>\<open>Events and their replay\<close> (\<^verbatim>\<open>packages/events/src\<close>).
  \<open>QuantEvents\<close> and \<open>Events\<close> hold \<^verbatim>\<open>schemas.ts\<close>, \<open>SessionState\<close>
  \<^verbatim>\<open>state.ts\<close> and \<^verbatim>\<open>generation-compatibility.ts\<close>, \<open>ReducerCore\<close>,
  \<open>ReducerRequests\<close> and \<open>Reducer\<close> the branches of \<^verbatim>\<open>reducer.ts\<close>, one
  definition per event type, and \<open>Upcasters\<close> \<^verbatim>\<open>upcasters.ts\<close>. Invariants of
  replayed sessions: \<open>ReducerFrame\<close> (which part of the state an event may change),
  \<open>SessionLog\<close> (contiguity, freshness of generation bases), \<open>DeliveryLedger\<close> (the reducer refines
  a machine for one delivery, the disclosure ledger), \<open>EvidenceLog\<close> and \<open>EvidenceKeys\<close> (one active
  record per key, history append only; what is kept under a key is what the log says of that key, as
  long as ids contain no bar, and an example where they do), \<open>Requests\<close> (settled requests are frozen, accepted answers match
  their request), \<open>BoardPatch\<close> (a patch refines a simultaneous map update), \<open>QuantSessions\<close>
  (rounds, fills and results of quant sessions). \<open>Samples\<close> holds concrete logs for the
  witnesses.

  \<^bold>\<open>The store\<close> (\<^verbatim>\<open>packages/persistence/src/sqlite-event-store.ts\<close>).
  \<open>EventStore\<close> models the tables and every operation, transactions included; \<open>EventStoreFacts\<close>
  proves the laws of the locale \<open>event_log\<close>, \<open>StoreProperties\<close> that the store is append only,
  that retries have no effect and that session summaries agree with replay.

  \<^bold>\<open>The session writer\<close>
  (\<^verbatim>\<open>packages/interview-engine/src/session-writer.ts\<close>). \<open>SessionWriter\<close> models
  opening, executing and closing; \<open>WriterProperties\<close> has the step relation \<open>runtime\<close> of several
  writers on one database and the invariant that every session loads and every cache is the replay of a prefix of its log,
  and shows what a command that succeeds has stored and answered.

  \<^bold>\<open>The delivery coordinator\<close> (\<^verbatim>\<open>packages/delivery/src\<close>).
  \<open>DeliveryCoordinator\<close> has one handler per operation, \<open>DeliverySafety\<close> refines them to a contract
  on the status of a delivery and the result of every operation through the locale \<open>transition_sink\<close>, \<open>DeliveryRecovery\<close> shows
  that recovery succeeds and leaves no delivery under way.

  \<^bold>\<open>The pedagogical policy\<close>
  (\<^verbatim>\<open>packages/interview-engine/src/pedagogical-policy.ts\<close>). After each turn it reads
  the replayed session and the problem and answers what the interviewer may do and disclose.
  \<open>ReasoningGraphs\<close> holds problems and the graph context, \<open>ReasoningOrder\<close> shows that the graph
  is accepted exactly when its milestones can be ordered. \<open>PolicyInputs\<close> has the collectors of
  evidence, verifications, assistance and ledger, \<open>CanonicalJson\<close> the fingerprint that binds the
  problem (\<^verbatim>\<open>context-compiler.ts\<close>), \<open>PedagogicalPolicy\<close> classification, plan,
  authorization and decision. \<open>PolicyFacts\<close> and \<open>PolicyProperties\<close> show where targets come
  from, what a decision may disclose, that hints are earned and that the policy fails closed;
  \<open>PolicySample\<close> is a replayed session with its decision, and \<open>PolicyLedger\<close> shows that the policy
  accepts the ledger the reducer keeps. \<^verbatim>\<open>localeCompare\<close> is the parameter
  \<open>collate\<close> and the digest the parameter \<open>sha256\<close>, both unconstrained.

  \<^bold>\<open>Deterministic verifiers\<close> (\<^verbatim>\<open>packages/verification/src\<close>).
  \<open>BoundedMath\<close>, \<open>ExactRationals\<close>, \<open>RationalSums\<close> (\<^verbatim>\<open>math-utils.ts\<close>,
  \<^verbatim>\<open>limits.ts\<close>), \<open>MathExpressions\<close>, \<open>StructuredStatements\<close>,
  \<open>MathVerifiers\<close>, \<open>RecurrenceVerifier\<close>, \<open>ProbabilityVerifier\<close>, \<open>TwoColourGraph\<close> and
  \<open>VerifierRegistry\<close>, with the facts in the theories named \<open>...Facts\<close>: every operation is exact
  whenever it answers, fails only beyond the digit limit, and each verifier decides its claims
  (locale \<open>claim_verifier\<close>).

  \<^bold>\<open>The gate on proposals\<close> (\<^verbatim>\<open>interview-engine/src/disclosure-validator.ts\<close>).
  \<open>BoardScenes\<close> has the scene contract of \<^verbatim>\<open>domain/src/whiteboard.ts\<close>, \<open>DisclosureText\<close>
  normalizes texts and finds protected facts in them (texts of code units below 256; on these NFKC
  and lower case are written out), \<open>DisclosureValidation\<close> has the limits, the closed-world analyzer and
  the board texts an action points at, and \<open>ProposalValidation\<close> the guards of \<^verbatim>\<open>validate\<close>
  with an arbitrary analyzer, which may throw. \<open>ValidationFacts\<close> says what each stage establishes;
  \<open>ValidationProperties\<close> shows that an accepted proposal discloses only what its request
  authorizes, part by part, and that the validator never throws; \<open>ClosedWorldSessions\<close> composes it
  with the closed-world analyzer, through the interface \<open>vetting_analyzer\<close>, and with the policy: only
  earned facts reach the candidate. \<open>ProposalSample\<close> shows exactly when a
  reviewed probe is accepted, and has the sample proposal.

  \<^bold>\<open>Trading simulations\<close> (\<^verbatim>\<open>packages/local-compute/src\<close>).
  \<open>StateErrors\<close> is the monad of throwing methods of mutable objects; \<open>Binary64\<close> has the facts
  about rounding. \<open>SeededRandom\<close> models \<^verbatim>\<open>seeded-random.ts\<close>, \<open>Trading\<close> the
  contracts of \<^verbatim>\<open>domain/src/trading.ts\<close>, \<open>OrderBook\<close> the limit order book with
  its runtime of ids and times as a parameter; \<open>OrderMatching\<close> has the reference matching of a
  queue, and \<open>OrderBookRuns\<close> shows that reachable books are well formed and refine it.
  \<open>Portfolio\<close> is the position tracker, whose books balance (\<open>PortfolioFacts\<close>), \<open>MarketMaking\<close> the
  one-player game with its score (\<open>MarketMakingFacts\<close>, \<open>MarketMakingRounds\<close>).
  \<open>TradingScenario\<close> models the scenario engine of \<^verbatim>\<open>quant-trader-interview.ts\<close>;
  \<open>TradingRounds\<close> shows what one order flow does to book and portfolio, \<open>TradingRollback\<close> that a
  round that throws is undone, \<open>TradingSteps\<close> what a recorded round contains, and
  \<open>TradingScenarioRuns\<close> the invariant of reachable scenarios, their hard position limits and their
  results, applied to the run of \<open>TradingSample\<close>.

  \<^bold>\<open>Bounds.\<close> No function is cut off by fuel. Loops are structural recursions or
  \<open>function\<close>s with a termination proof; the loop of \<^verbatim>\<open>toCurrent\<close> is one that may not
  return for a malformed registry, and is proved to return for every registry the constructor
  accepts. Digit limits (\<open>digitBound\<close>, the limit of 8450 digits of wide intermediates) are those
  of the source.

  \<^bold>\<open>Simplifications stated once.\<close> Literal-typed optional flags are booleans.
  \<^verbatim>\<open>jsonDataEqual\<close> is structural equality. The check of ISO timestamps is the
  parameter \<open>dt\<close>. \<^verbatim>\<open>SessionEventSchema.parse\<close> rewrites only the provider name, which
  it trims. SQL result sets without \<^verbatim>\<open>ORDER BY\<close> have one of their possible orders. The
  promise queue of a writer is sequential execution. A dictionary has no inherited keys, so an id such as
  \<^verbatim>\<open>constructor\<close> is an id like any other (\<open>addShape\<close>). An analyzer is a function, and what it
  answers are plain values, without getters that throw (\<open>AnalyzerAnswer\<close>). Spreading a list into a call has
  no limit of arguments (\<open>pointBounds\<close>). Stored results are read back as written.
  \<^verbatim>\<open>JSON.parse\<close> and the untyped part of zod's \<^verbatim>\<open>safeParse\<close> are
  parameters; texts of error messages are not modelled except where they are stored (\<open>messageOf\<close>).

  \<^bold>\<open>Not modelled.\<close> Turn coordination, the compilation of model contexts, session
  evaluation and the coordinators of asynchronous workers in
  \<^verbatim>\<open>packages/interview-engine\<close> (the events they append are modelled); quant research scenarios, which need transcendental functions;
  speech, vision and model providers, process supervision, downloads, diagnostics, the server,
  desktop and web applications, which are input and output; the problem bank, which is data; and
  the read-only projections of \<^verbatim>\<open>packages/replay\<close>.
\<close>

end
